(* ===== verification/Prelude.thy ===== *)
theory Prelude
  imports Complex_Main "HOL-Library.Char_ord" "HOL-Library.List_Lexorder" "HOL-Library.AList"
begin

text \<open>
  What every component of the development shares: the exceptions the services raise and the
  result type that carries them, the combinators that thread a result through a call
  (\<open>and_then\<close>) or a loop (\<open>traverse\<close>), the string methods of Python the code uses
  (\<open>strip\<close>, \<open>lower\<close>, \<open>split\<close>, decimal rendering), and the order-preserving
  de-duplication loop. Strings are lists of characters, so a character is a code point
  below 256 (Latin-1); a longer code point is outside the model.
\<close>

named_theorems res_simps \<open>rewriting a result-valued program to its successful run\<close>

section \<open>Exceptions and results\<close>

datatype exn =
    ValueError string
  | ValidationError string
  | KeyError string
  | TypeError string
  | IntegrityError string
  | ApprovalValidationError string
  | PlanningValidationError string
  | VerificationValidationError string
  | ReviewValidationError string
  | OperationalLedgerError string
  | OperationalLedgerConflictError string
  | OperationalLedgerCorruptionError string
  | RuntimeError string
  | CancelledError
  | HTTPException nat string
  | RepositoryInspectionError string
  | InvalidRepositoryError string
  | RepositoryCommitError string
  | RepositoryCommitValidationError string
  | ExecutionValidationError string
  | AtlasCoreClientError string
  | IndexError string
  | AttributeError string
  | DurableLedgerError string
  | DurableLedgerConflictError string
  | DurableLedgerCorruptionError string
  | RequestConflictError string
  | IsolationUnavailable string
  | WorkspaceError string
  | WorkspaceTimeout string
  | PatchTooLarge string
  | RepositoryControlChanged string
  | CommandTimeout "string \<times> bool \<times> int option" "string \<times> bool \<times> int option"
  | OSError string
  | WorkerTransportError string
  | PatchApplicationError string
  | PatchJournalError string
  | StatePersistenceError string
  | CandidatePlanningServiceError string
  | ProviderIntentStoreError string
  | ProviderIntentStoreConflictError string
  | ProviderIntentStoreCorruptionError string

type_synonym 'a res = "exn + 'a"

fun and_then :: "'a res \<Rightarrow> ('a \<Rightarrow> 'b res) \<Rightarrow> 'b res" where
  "and_then (Inl e) f = Inl e"
| "and_then (Inr x) f = f x"

definition require :: "bool \<Rightarrow> exn \<Rightarrow> unit res" where
  "require b e = (if b then Inr () else Inl e)"

fun succeeds :: "'a res \<Rightarrow> bool" where
  "succeeds (Inl e) = False"
| "succeeds (Inr x) = True"

lemma and_then_Inr_iff [res_simps]:
  "and_then m f = Inr y \<longleftrightarrow> (\<exists>x. m = Inr x \<and> f x = Inr y)"
  by (cases m) auto

lemma and_then_Inl_iff:
  "and_then m f = Inl e \<longleftrightarrow> m = Inl e \<or> (\<exists>x. m = Inr x \<and> f x = Inl e)"
  by (cases m) auto

lemma require_Inr_iff [res_simps]: "require b e = Inr u \<longleftrightarrow> b"
  by (simp add: require_def)

lemma require_True [simp]: "require True e = Inr ()"
  by (simp add: require_def)

lemma require_False [simp]: "require False e = Inl e"
  by (simp add: require_def)

lemma succeeds_iff: "succeeds m \<longleftrightarrow> (\<exists>x. m = Inr x)"
  by (cases m) auto

lemma and_then_assoc: "and_then (and_then m f) g = and_then m (\<lambda>x. and_then (f x) g)"
  by (cases m) auto

fun traverse :: "('a \<Rightarrow> 'b res) \<Rightarrow> 'a list \<Rightarrow> 'b list res" where
  "traverse f [] = Inr []"
| "traverse f (x # xs) =
     and_then (f x) (\<lambda>y. and_then (traverse f xs) (\<lambda>ys. Inr (y # ys)))"

lemma traverse_Inr_iff:
  "traverse f xs = Inr ys \<longleftrightarrow> list_all2 (\<lambda>x y. f x = Inr y) xs ys"
proof (induction xs arbitrary: ys)
  case Nil
  then show ?case by auto
next
  case (Cons x xs)
  then show ?case by (cases ys) (auto simp: and_then_Inr_iff)
qed

lemma traverse_Inr_map:
  assumes "\<And>x. x \<in> set xs \<Longrightarrow> f x = Inr (g x)"
  shows "traverse f xs = Inr (map g xs)"
  using assms by (induction xs) auto

lemma traverse_Inr_set:
  "traverse f xs = Inr ys \<Longrightarrow> set ys = {y. \<exists>x \<in> set xs. f x = Inr y}"
proof (induction xs arbitrary: ys)
  case (Cons x xs)
  then obtain y zs where "f x = Inr y" "traverse f xs = Inr zs" "ys = y # zs"
    by (auto simp: and_then_Inr_iff)
  with Cons.IH [of zs] show ?case by auto
qed simp

section \<open>Actions on a state\<close>

text \<open>
  A call that reads and changes a state and may raise: its result and the state it leaves.
  An exception does not undo what was done before it. \<open>attempt\<close> is
  \<open>try ... except Exception\<close>.
\<close>

type_synonym ('s, 'a) action = "'s \<Rightarrow> 'a res \<times> 's"

definition pure :: "'a \<Rightarrow> ('s, 'a) action" where
  "pure x s = (Inr x, s)"

definition raise :: "exn \<Rightarrow> ('s, 'a) action" where
  "raise e s = (Inl e, s)"

definition lift :: "'a res \<Rightarrow> ('s, 'a) action" where
  "lift r s = (r, s)"

definition seq :: "('s, 'a) action \<Rightarrow> ('a \<Rightarrow> ('s, 'b) action) \<Rightarrow> ('s, 'b) action" where
  "seq m f s = (case m s of (Inl e, t) \<Rightarrow> (Inl e, t) | (Inr x, t) \<Rightarrow> f x t)"

definition attempt :: "('s, 'a) action \<Rightarrow> (exn \<Rightarrow> ('s, 'b) action) \<Rightarrow> ('a \<Rightarrow> ('s, 'b) action)
    \<Rightarrow> ('s, 'b) action" where
  "attempt m h f s = (case m s of (Inl e, t) \<Rightarrow> h e t | (Inr x, t) \<Rightarrow> f x t)"

fun map_action :: "('a \<Rightarrow> ('s, 'b) action) \<Rightarrow> 'a list \<Rightarrow> ('s, 'b list) action" where
  "map_action f [] = pure []"
| "map_action f (x # xs) = seq (f x) (\<lambda>y. seq (map_action f xs) (\<lambda>ys. pure (y # ys)))"

lemma action_simps [simp]:
  "pure x s = (Inr x, s)" "raise e s = (Inl e, s)" "lift r s = (r, s)"
  by (simp_all add: pure_def raise_def lift_def)

lemma seq_Inr_iff:
  "seq m f s = (Inr y, u) \<longleftrightarrow> (\<exists>x t. m s = (Inr x, t) \<and> f x t = (Inr y, u))"
  by (auto simp: seq_def split: prod.splits sum.splits)

text \<open>
  \<open>triple P m Q X\<close>: from a state with \<open>P\<close> the action returns with \<open>Q\<close> of its value and
  the new state, or raises with \<open>X\<close> of its exception and the state it left behind.
\<close>

definition triple :: "('s \<Rightarrow> bool) \<Rightarrow> ('s, 'a) action \<Rightarrow> ('a \<Rightarrow> 's \<Rightarrow> bool) \<Rightarrow> (exn \<Rightarrow> 's \<Rightarrow> bool) \<Rightarrow> bool" where
  "triple P m Q X \<longleftrightarrow> (\<forall>s. P s \<longrightarrow> (case m s of (Inl e, t) \<Rightarrow> X e t | (Inr x, t) \<Rightarrow> Q x t))"

abbreviation keeps :: "('s \<Rightarrow> bool) \<Rightarrow> ('s, 'a) action \<Rightarrow> bool" where
  "keeps P m \<equiv> triple P m (\<lambda>_. P) (\<lambda>_. P)"

lemma triple_pure: "(\<And>s. P s \<Longrightarrow> Q x s) \<Longrightarrow> triple P (pure x) Q X"
  by (simp add: triple_def)

lemma triple_raise: "(\<And>s. P s \<Longrightarrow> X e s) \<Longrightarrow> triple P (raise e) Q X"
  by (simp add: triple_def)

lemma triple_lift:
  "(\<And>x s. r = Inr x \<Longrightarrow> P s \<Longrightarrow> Q x s) \<Longrightarrow> (\<And>e s. r = Inl e \<Longrightarrow> P s \<Longrightarrow> X e s)
    \<Longrightarrow> triple P (lift r) Q X"
  by (cases r) (simp_all add: triple_def)

lemma triple_seq:
  "triple P m R X \<Longrightarrow> (\<And>x. triple (R x) (f x) Q X) \<Longrightarrow> triple P (seq m f) Q X"
  by (fastforce simp: triple_def seq_def split: prod.splits sum.splits)

lemma triple_attempt:
  "triple P m R Y \<Longrightarrow> (\<And>e. triple (Y e) (h e) Q X) \<Longrightarrow> (\<And>x. triple (R x) (f x) Q X)
    \<Longrightarrow> triple P (attempt m h f) Q X"
  by (fastforce simp: triple_def attempt_def split: prod.splits sum.splits)

lemma triple_if:
  "(b \<Longrightarrow> triple P m Q X) \<Longrightarrow> (\<not> b \<Longrightarrow> triple P n Q X) \<Longrightarrow> triple P (if b then m else n) Q X"
  by simp

lemma triple_option:
  "(x = None \<Longrightarrow> triple P m Q X) \<Longrightarrow> (\<And>y. x = Some y \<Longrightarrow> triple P (n y) Q X)
    \<Longrightarrow> triple P (case x of None \<Rightarrow> m | Some y \<Rightarrow> n y) Q X"
  by (cases x) auto

lemma triple_conseq:
  "triple P m Q X \<Longrightarrow> (\<And>s. P' s \<Longrightarrow> P s) \<Longrightarrow> (\<And>x s. Q x s \<Longrightarrow> Q' x s)
    \<Longrightarrow> (\<And>e s. X e s \<Longrightarrow> X' e s) \<Longrightarrow> triple P' m Q' X'"
  by (fastforce simp: triple_def split: prod.splits sum.splits)

lemma triple_Inr: "triple P m Q X \<Longrightarrow> P s \<Longrightarrow> m s = (Inr x, t) \<Longrightarrow> Q x t"
  by (fastforce simp: triple_def)

lemma triple_Inl: "triple P m Q X \<Longrightarrow> P s \<Longrightarrow> m s = (Inl e, t) \<Longrightarrow> X e t"
  by (fastforce simp: triple_def)

lemma triple_result:
  "triple P m (\<lambda>x. R (Inr x)) (\<lambda>e. R (Inl e)) \<Longrightarrow> P s \<Longrightarrow> m s = (r, t) \<Longrightarrow> R r t"
  by (cases r) (auto dest: triple_Inr triple_Inl)

lemma keepsD: "keeps P m \<Longrightarrow> P s \<Longrightarrow> m s = (r, t) \<Longrightarrow> P t"
  by (cases r) (auto dest: triple_Inr triple_Inl)

lemma keepsI: "(\<And>s. P s \<Longrightarrow> P (snd (m s))) \<Longrightarrow> keeps P m"
  by (fastforce simp: triple_def split: prod.split sum.split)

lemma triple_conj:
  "triple P m Q X \<Longrightarrow> triple P' m Q' X'
    \<Longrightarrow> triple (\<lambda>s. P s \<and> P' s) m (\<lambda>x s. Q x s \<and> Q' x s) (\<lambda>e s. X e s \<and> X' e s)"
  by (fastforce simp: triple_def split: prod.splits sum.splits)

lemma triple_step:
  "triple P m R Y \<Longrightarrow> (\<And>e s. Y e s \<Longrightarrow> X e s) \<Longrightarrow> (\<And>x. triple (R x) (f x) Q X)
    \<Longrightarrow> triple P (seq m f) Q X"
  by (rule triple_seq [OF triple_conseq [of P m R Y P R X]]) auto

named_theorems keeps_intros \<open>invariance of an action, one rule per combinator\<close>

lemma keeps_pure [keeps_intros]: "keeps P (pure x)"
  by (rule triple_pure)

lemma keeps_raise [keeps_intros]: "keeps P (raise e)"
  by (rule triple_raise)

lemma keeps_lift [keeps_intros]: "keeps P (lift r)"
  by (rule triple_lift)

lemma keeps_seq [keeps_intros]: "keeps P m \<Longrightarrow> (\<And>x. keeps P (f x)) \<Longrightarrow> keeps P (seq m f)"
  by (rule triple_seq)

lemma keeps_attempt [keeps_intros]:
  "keeps P m \<Longrightarrow> (\<And>e. keeps P (h e)) \<Longrightarrow> (\<And>x. keeps P (f x)) \<Longrightarrow> keeps P (attempt m h f)"
  by (rule triple_attempt)

lemma keeps_if [keeps_intros]:
  "(b \<Longrightarrow> keeps P m) \<Longrightarrow> (\<not> b \<Longrightarrow> keeps P n) \<Longrightarrow> keeps P (if b then m else n)"
  by simp

lemma keeps_option [keeps_intros]:
  "(x = None \<Longrightarrow> keeps P m) \<Longrightarrow> (\<And>y. x = Some y \<Longrightarrow> keeps P (n y))
    \<Longrightarrow> keeps P (case x of None \<Rightarrow> m | Some y \<Rightarrow> n y)"
  by (cases x) auto

lemma keeps_prod [keeps_intros]: "(\<And>a b. keeps P (f a b)) \<Longrightarrow> keeps P (case x of (a, b) \<Rightarrow> f a b)"
  by (cases x) auto

lemma keeps_map_action [keeps_intros]: "(\<And>x. keeps P (f x)) \<Longrightarrow> keeps P (map_action f xs)"
  by (induction xs) (auto intro!: keeps_intros)

lemma seq_lift_Inr [simp]: "seq (lift (Inr x)) f = f x"
  by (simp add: fun_eq_iff seq_def)

lemma seq_lift_Inl [simp]: "seq (lift (Inl e)) f = raise e"
  by (simp add: fun_eq_iff seq_def)

lemma seq_pure [simp]: "seq (pure x) f = f x"
  by (simp add: fun_eq_iff seq_def)

section \<open>Strings\<close>

text \<open>\<open>str.isspace\<close> on the code points below 256.\<close>

definition is_space :: "char \<Rightarrow> bool" where
  "is_space c \<longleftrightarrow> c \<in> set [CHR 0x09, CHR 0x0A, CHR 0x0B, CHR 0x0C, CHR 0x0D,
     CHR 0x1C, CHR 0x1D, CHR 0x1E, CHR 0x1F, CHR 0x20, CHR 0x85, CHR 0xA0]"

definition lstrip :: "string \<Rightarrow> string" where
  "lstrip s = dropWhile is_space s"

definition rstrip :: "string \<Rightarrow> string" where
  "rstrip s = rev (dropWhile is_space (rev s))"

definition strip :: "string \<Rightarrow> string" where
  "strip s = rstrip (lstrip s)"

definition blank :: "string \<Rightarrow> bool" where
  "blank s \<longleftrightarrow> strip s = []"

lemma rstrip_prefix: "\<exists>t. s = rstrip s @ t"
proof -
  have "rev s = takeWhile is_space (rev s) @ dropWhile is_space (rev s)" by simp
  then have "s = rev (dropWhile is_space (rev s)) @ rev (takeWhile is_space (rev s))"
    by (metis rev_append rev_rev_ident)
  then show ?thesis unfolding rstrip_def by blast
qed

lemma rstrip_idem [simp]: "rstrip (rstrip s) = rstrip s"
  by (simp add: rstrip_def dropWhile_idem)

lemma lstrip_rstrip_lstrip: "lstrip (rstrip (lstrip s)) = rstrip (lstrip s)"
proof (cases "rstrip (lstrip s)")
  case Nil
  then show ?thesis by (simp add: lstrip_def)
next
  case (Cons c cs)
  obtain t where t: "lstrip s = rstrip (lstrip s) @ t" using rstrip_prefix by blast
  with Cons have "lstrip s = c # (cs @ t)" by simp
  then have "\<not> is_space c"
    unfolding lstrip_def by (metis dropWhile_eq_Cons_conv)
  with Cons show ?thesis by (simp add: lstrip_def)
qed

lemma strip_strip [simp]: "strip (strip s) = strip s"
  by (simp add: strip_def lstrip_rstrip_lstrip)

lemma strip_Nil [simp]: "strip [] = []"
  by (simp add: strip_def lstrip_def rstrip_def)

lemma blank_strip [simp]: "blank (strip s) = blank s"
  by (simp add: blank_def)

lemma not_blank_strip: "\<not> blank s \<Longrightarrow> strip s \<noteq> []"
  by (simp add: blank_def)

lemma blank_Nil [simp]: "blank []"
  by (simp add: blank_def)

text \<open>Evaluating the string methods on literals.\<close>

lemmas string_defs = blank_def strip_def lstrip_def rstrip_def is_space_def

text \<open>\<open>str.lower\<close> on the code points below 256.\<close>

definition lower_char :: "char \<Rightarrow> char" where
  "lower_char c =
     (let n = of_char c :: nat in
      if (65 \<le> n \<and> n \<le> 90) \<or> (192 \<le> n \<and> n \<le> 214) \<or> (216 \<le> n \<and> n \<le> 222)
      then char_of (n + 32) else c)"

definition lower :: "string \<Rightarrow> string" where
  "lower s = map lower_char s"

text \<open>\<open>str.split(sep)\<close> for a separator of one character.\<close>

fun split_on :: "char \<Rightarrow> string \<Rightarrow> string list" where
  "split_on sep [] = [[]]"
| "split_on sep (c # s) =
     (if c = sep then [] # split_on sep s
      else (case split_on sep s of [] \<Rightarrow> [[c]] | w # ws \<Rightarrow> (c # w) # ws))"

text \<open>\<open>str.split()\<close>: the maximal runs of non-space characters.\<close>

fun words_onto :: "string \<Rightarrow> string \<Rightarrow> string list" where
  "words_onto w [] = (if w = [] then [] else [w])"
| "words_onto w (c # s) =
     (if is_space c then (if w = [] then words_onto [] s else w # words_onto [] s)
      else words_onto (w @ [c]) s)"

definition words :: "string \<Rightarrow> string list" where
  "words s = words_onto [] s"

fun join :: "string \<Rightarrow> string list \<Rightarrow> string" where
  "join sep [] = []"
| "join sep [s] = s"
| "join sep (s # t # ts) = s @ sep @ join sep (t # ts)"

text \<open>\<open>str(n)\<close> for a natural number.\<close>

fun nat_text :: "nat \<Rightarrow> string" where
  "nat_text n = (if n < 10 then [char_of (48 + n)]
     else nat_text (n div 10) @ [char_of (48 + n mod 10)])"

declare nat_text.simps [simp del]

definition int_text :: "int \<Rightarrow> string" where
  "int_text i = (if i < 0 then CHR ''-'' # nat_text (nat (- i)) else nat_text (nat i))"

definition starts_with :: "string \<Rightarrow> string \<Rightarrow> bool" where
  "starts_with p s \<longleftrightarrow> take (length p) s = p"

fun contains :: "string \<Rightarrow> string \<Rightarrow> bool" where
  "contains p [] \<longleftrightarrow> p = []"
| "contains p (c # s) \<longleftrightarrow> starts_with p (c # s) \<or> contains p s"

section \<open>Character classes of the regular expressions\<close>

definition in_range :: "char \<Rightarrow> char \<Rightarrow> char \<Rightarrow> bool" where
  "in_range lo hi c \<longleftrightarrow> (of_char lo :: nat) \<le> of_char c \<and> (of_char c :: nat) \<le> of_char hi"

definition is_lower_hex :: "char \<Rightarrow> bool" where
  "is_lower_hex c \<longleftrightarrow> in_range CHR ''0'' CHR ''9'' c \<or> in_range CHR ''a'' CHR ''f'' c"

definition is_word_start :: "char \<Rightarrow> bool" where
  "is_word_start c \<longleftrightarrow> in_range CHR ''A'' CHR ''Z'' c \<or> in_range CHR ''a'' CHR ''z'' c
     \<or> c = CHR ''_''"

definition is_word_char :: "char \<Rightarrow> bool" where
  "is_word_char c \<longleftrightarrow> is_word_start c \<or> in_range CHR ''0'' CHR ''9'' c"

text \<open>\<open>[0-9a-f]{64}\<close> and \<open>[A-Za-z_][A-Za-z0-9_]*\<close>, matched against the whole string.\<close>

definition is_sha256_hex :: "string \<Rightarrow> bool" where
  "is_sha256_hex s \<longleftrightarrow> length s = 64 \<and> list_all is_lower_hex s"

fun is_environment_name :: "string \<Rightarrow> bool" where
  "is_environment_name [] = False"
| "is_environment_name (c # s) = (is_word_start c \<and> list_all is_word_char s)"

section \<open>Order-preserving de-duplication\<close>

text \<open>The loop \<open>if value not in unique: unique.append(value)\<close>.\<close>

fun dedupe_onto :: "'a list \<Rightarrow> 'a list \<Rightarrow> 'a list" where
  "dedupe_onto u [] = u"
| "dedupe_onto u (x # xs) = dedupe_onto (if x \<in> set u then u else u @ [x]) xs"

definition dedupe :: "'a list \<Rightarrow> 'a list" where
  "dedupe xs = dedupe_onto [] xs"

lemma set_dedupe_onto: "set (dedupe_onto u xs) = set u \<union> set xs"
  by (induction xs arbitrary: u) auto

lemma distinct_dedupe_onto: "distinct u \<Longrightarrow> distinct (dedupe_onto u xs)"
  by (induction xs arbitrary: u) auto

lemma set_dedupe [simp]: "set (dedupe xs) = set xs"
  by (simp add: dedupe_def set_dedupe_onto)

lemma distinct_dedupe [simp]: "distinct (dedupe xs)"
  by (simp add: dedupe_def distinct_dedupe_onto)

lemma dedupe_onto_distinct:
  "distinct (u @ xs) \<Longrightarrow> dedupe_onto u xs = u @ xs"
  by (induction xs arbitrary: u) auto

lemma dedupe_distinct [simp]: "distinct xs \<Longrightarrow> dedupe xs = xs"
  by (simp add: dedupe_def dedupe_onto_distinct)

lemma dedupe_dedupe [simp]: "dedupe (dedupe xs) = dedupe xs"
  by simp

lemma length_dedupe_onto: "length (dedupe_onto u xs) \<le> length u + length xs"
proof (induction xs arbitrary: u)
  case Nil
  then show ?case by simp
next
  case (Cons x xs)
  show ?case using Cons.IH [of u] Cons.IH [of "u @ [x]"] by auto
qed

lemma length_dedupe: "length (dedupe xs) \<le> length xs"
  using length_dedupe_onto [of "[]" xs] by (simp add: dedupe_def)

end
