(* ===== verification/Contracts.thy ===== *)
theory Contracts
  imports Prelude
begin

text \<open>
  The contracts several components share, as locales. \<open>keyed_store\<close> is an insert-once
  table (the approval repository, the session store, the handler and verifier registries);
  \<open>write_once\<close> is state in which a slot, once filled, keeps its value under every
  operation (decided approvals, dispatch and verification results); \<open>one_shot\<close> adds
  an operation that grants a slot to at most one caller (the dispatch barrier).
\<close>

section \<open>Insert-once tables\<close>

locale keyed_store =
  fixes lookup :: "'s \<Rightarrow> 'k \<Rightarrow> 'e option"
    and insert_new :: "'s \<Rightarrow> 'v \<Rightarrow> 's res"
    and key :: "'v \<Rightarrow> 'k"
    and entry :: "'v \<Rightarrow> 'e"
  assumes insert_taken: "lookup s (key v) \<noteq> None \<Longrightarrow> \<not> succeeds (insert_new s v)"
    and insert_ok: "insert_new s v = Inr s' \<Longrightarrow> lookup s' = (lookup s)(key v \<mapsto> entry v)"
begin

lemma insert_fresh: "insert_new s v = Inr s' \<Longrightarrow> lookup s (key v) = None"
  using insert_taken [of s v] by (cases "lookup s (key v)") auto

lemma lookup_inserted: "insert_new s v = Inr s' \<Longrightarrow> lookup s' (key v) = Some (entry v)"
  by (drule insert_ok) simp

lemma lookup_other: "insert_new s v = Inr s' \<Longrightarrow> k \<noteq> key v \<Longrightarrow> lookup s' k = lookup s k"
  by (drule insert_ok) simp

lemma insert_twice: "insert_new s v = Inr s' \<Longrightarrow> key w = key v \<Longrightarrow> \<not> succeeds (insert_new s' w)"
  by (rule insert_taken) (simp add: lookup_inserted)

lemma insert_keeps:
  "insert_new s v = Inr s' \<Longrightarrow> lookup s k = Some e \<Longrightarrow> lookup s' k = Some e"
  using insert_fresh lookup_other by (cases "k = key v") auto

lemma insert_commute:
  assumes "insert_new s v = Inr s1" "insert_new s1 w = Inr s2"
    and "insert_new s w = Inr t1" "insert_new t1 v = Inr t2"
  shows "lookup s2 = lookup t2"
proof -
  have "key v \<noteq> key w"
    using lookup_inserted [OF assms(1)] insert_fresh [OF assms(2)] by auto
  with insert_ok [OF assms(1)] insert_ok [OF assms(2)] insert_ok [OF assms(3)]
    insert_ok [OF assms(4)] show ?thesis by (auto simp: fun_upd_twist)
qed

end

section \<open>Slots that are written once\<close>

locale write_once =
  fixes step :: "'s \<Rightarrow> 'o \<Rightarrow> 's"
    and inv :: "'s \<Rightarrow> bool"
    and slot :: "'s \<Rightarrow> 'k \<Rightarrow> 'v option"
  assumes inv_step: "inv s \<Longrightarrow> inv (step s op)"
    and slot_step: "inv s \<Longrightarrow> slot s k = Some v \<Longrightarrow> slot (step s op) k = Some v"
begin

lemma inv_run: "inv s \<Longrightarrow> inv (foldl step s ops)"
  by (induction ops arbitrary: s) (auto intro: inv_step)

lemma slot_run: "inv s \<Longrightarrow> slot s k = Some v \<Longrightarrow> slot (foldl step s ops) k = Some v"
  by (induction ops arbitrary: s) (auto intro: inv_step slot_step)

lemma slot_agree:
  assumes "inv s" and "slot (foldl step s ops) k = Some v"
    and "slot (foldl step s (ops @ more)) k = Some w"
  shows "w = v"
  using assms slot_run [of "foldl step s ops" k v more] inv_run [of s ops] by simp

end

section \<open>Slots granted to one caller\<close>

text \<open>How often an operation of the run granted the slot \<open>k\<close>.\<close>

primrec grant_count ::
  "('s \<Rightarrow> 'o \<Rightarrow> 's) \<Rightarrow> ('s \<Rightarrow> 'o \<Rightarrow> 'k \<Rightarrow> bool) \<Rightarrow> 's \<Rightarrow> 'o list \<Rightarrow> 'k \<Rightarrow> nat" where
  "grant_count step grants s [] k = 0"
| "grant_count step grants s (op # ops) k =
     (if grants s op k then 1 else 0) + grant_count step grants (step s op) ops k"

locale one_shot = write_once step inv slot
  for step :: "'s \<Rightarrow> 'o \<Rightarrow> 's" and inv and slot :: "'s \<Rightarrow> 'k \<Rightarrow> 'v option" +
  fixes grants :: "'s \<Rightarrow> 'o \<Rightarrow> 'k \<Rightarrow> bool"
  assumes grant_fresh: "inv s \<Longrightarrow> grants s op k \<Longrightarrow> slot s k = None"
    and grant_fills: "inv s \<Longrightarrow> grants s op k \<Longrightarrow> slot (step s op) k \<noteq> None"
begin

lemma no_grant_when_filled:
  "inv s \<Longrightarrow> slot s k \<noteq> None \<Longrightarrow> grant_count step grants s ops k = 0"
proof (induction ops arbitrary: s)
  case Nil
  then show ?case by simp
next
  case (Cons op ops)
  have "\<not> grants s op k" using Cons.prems grant_fresh [of s op k] by auto
  moreover have "slot (step s op) k \<noteq> None"
    using Cons.prems slot_step [of s k _ op] by auto
  ultimately show ?case using Cons.IH [OF inv_step [OF Cons.prems(1)]] by simp
qed

lemma granted_at_most_once: "inv s \<Longrightarrow> grant_count step grants s ops k \<le> 1"
proof (induction ops arbitrary: s)
  case Nil
  then show ?case by simp
next
  case (Cons op ops)
  show ?case
  proof (cases "grants s op k")
    case True
    then show ?thesis
      using no_grant_when_filled [OF inv_step [OF Cons.prems] grant_fills [OF Cons.prems True]]
      by simp
  next
    case False
    then show ?thesis using Cons.IH [OF inv_step [OF Cons.prems]] by simp
  qed
qed

end

end
