(* ===== verification/Paths.thy ===== *)
theory Paths
  imports Prelude
begin

text \<open>
  \<open>pathlib.PurePosixPath\<close>, as far as the code uses it: parsing a string, the
  parts, joining, being below another path, and the order in which \<open>sorted\<close> puts paths.
  Symbolic links are resolved by the file system: \<open>Path.resolve\<close> is a parameter of the
  definitions that call it.
\<close>

datatype path = Path (absolute: bool) (segments: "string list")

definition path_of :: "string \<Rightarrow> path" where
  "path_of s = Path (starts_with ''/'' s)
     (filter (\<lambda>w. w \<noteq> [] \<and> w \<noteq> ''.'') (split_on CHR ''/'' s))"

definition dot_path :: path where
  "dot_path = Path False []"

definition path_text :: "path \<Rightarrow> string" where
  "path_text p =
     (if absolute p then ''/'' @ join ''/'' (segments p)
      else if segments p = [] then ''.'' else join ''/'' (segments p))"

definition path_name :: "path \<Rightarrow> string" where
  "path_name p = (if segments p = [] then [] else last (segments p))"

definition join_path :: "path \<Rightarrow> path \<Rightarrow> path" where
  "join_path r p = (if absolute p then p else Path (absolute r) (segments r @ segments p))"

definition relative_to :: "path \<Rightarrow> path \<Rightarrow> bool" where
  "relative_to r p \<longleftrightarrow>
     absolute p = absolute r \<and> take (length (segments r)) (segments p) = segments r"

definition strip_root :: "path \<Rightarrow> path \<Rightarrow> path" where
  "strip_root r p = Path False (drop (length (segments r)) (segments p))"

definition traverses_parent :: "path \<Rightarrow> bool" where
  "traverses_parent p \<longleftrightarrow> ''..'' \<in> set (segments p)"

lemma relative_to_refl [simp]: "relative_to r r"
  by (simp add: relative_to_def)

lemma relative_to_append:
  "relative_to r p \<longleftrightarrow> (\<exists>ss. p = Path (absolute r) (segments r @ ss))"
  by (cases p) (auto simp: relative_to_def, metis append_take_drop_id)

lemma join_strip_root: "relative_to r p \<Longrightarrow> join_path r (strip_root r p) = p"
  by (auto simp: relative_to_append join_path_def strip_root_def)

lemma strip_root_join: "\<not> absolute q \<Longrightarrow> strip_root r (join_path r q) = q"
  by (cases q) (auto simp: join_path_def strip_root_def)

lemma relative_to_join: "\<not> absolute q \<Longrightarrow> relative_to r (join_path r q)"
  by (auto simp: relative_to_append join_path_def)

section \<open>The order of paths\<close>

text \<open>
  Paths compare as the lists of their components, \<open>str(path).split('/')\<close>. On paths that
  \<open>path_of\<close> builds this list determines the path; the tie-break below only makes the
  order total on the whole type.
\<close>

definition order_key :: "path \<Rightarrow> string list" where
  "order_key p =
     (if absolute p then [] # (if segments p = [] then [[]] else segments p)
      else if segments p = [] then [''.''] else segments p)"

definition path_key :: "path \<Rightarrow> string list \<times> bool \<times> string list" where
  "path_key p = (order_key p, absolute p, segments p)"

lemma path_key_inject: "path_key p = path_key q \<Longrightarrow> p = q"
  by (simp add: path_key_def path.expand)

instantiation path :: linorder
begin

definition less_eq_path :: "path \<Rightarrow> path \<Rightarrow> bool" where
  "less_eq_path p q \<longleftrightarrow>
     (order_key p < order_key q \<or> (order_key p = order_key q \<and>
       (absolute p < absolute q \<or> (absolute p = absolute q \<and> segments p \<le> segments q))))"

definition less_path :: "path \<Rightarrow> path \<Rightarrow> bool" where
  "less_path p q \<longleftrightarrow> p \<le> q \<and> \<not> q \<le> (p :: path)"

instance
proof
  fix x y z :: path
  show "x < y \<longleftrightarrow> x \<le> y \<and> \<not> y \<le> x" by (simp add: less_path_def)
  show "x \<le> x" by (simp add: less_eq_path_def)
  show "x \<le> y \<Longrightarrow> y \<le> z \<Longrightarrow> x \<le> z"
    unfolding less_eq_path_def by (elim disjE conjE; auto)
  show "x \<le> y \<Longrightarrow> y \<le> x \<Longrightarrow> x = y"
    unfolding less_eq_path_def by (auto intro: path.expand)
  show "x \<le> y \<or> y \<le> x"
    unfolding less_eq_path_def by (metis linorder_less_linear linorder_linear)
qed

end

end
