(* ===== verification/Planning.thy ===== *)
theory Planning
  imports Paths
begin

text \<open>
  The Agent's deterministic planning engine (\<open>app/planning/engine.py\<close>) over the context
  the Agent fetched from Core (\<open>app/context/models.py\<close>) and a snapshot of the
  repository (\<open>app/repository/models.py\<close>). A dictionary is the list of its items in
  key order; floats are rationals; \<open>ServiceHealth.details\<close>, an arbitrary JSON value that
  no code of the engine reads, is carried as its text.
\<close>

section \<open>Models\<close>

record service_health =
  sh_provider_id :: string
  sh_status :: string
  sh_latency_ms :: "rat option"
  sh_http_status :: "int option"
  sh_message :: "string option"
  sh_details :: string

record intelligence_finding =
  fi_identifier :: string
  fi_severity :: string
  fi_category :: string
  fi_source :: string
  fi_title :: string
  fi_message :: string
  fi_recommendation :: "string option"
  fi_component :: "string option"
  fi_affects_health :: bool

record intelligence_assessment =
  as_title :: string
  as_priority :: string
  as_component :: "string option"

record intelligence_recommendation =
  re_title :: string
  re_reason :: string
  re_priority :: string
  re_confidence :: rat
  re_estimated_effort :: string
  re_component :: "string option"

datatype failure_code = ConnectionError | TimedOut | ResponseError | PayloadError

record context_failure =
  cf_code :: failure_code
  cf_message :: string

definition intelligence_failure_message :: "failure_code \<Rightarrow> string" where
  "intelligence_failure_message c = (case c of
     ConnectionError \<Rightarrow> ''Atlas intelligence connection failed.''
   | TimedOut \<Rightarrow> ''Atlas intelligence request timed out.''
   | ResponseError \<Rightarrow> ''Atlas intelligence returned an unsuccessful response.''
   | PayloadError \<Rightarrow> ''Atlas intelligence returned an invalid payload.'')"

definition validate_intelligence_failure :: "context_failure \<Rightarrow> context_failure res" where
  "validate_intelligence_failure f =
     (if cf_message f \<noteq> intelligence_failure_message (cf_code f)
      then Inl (ValueError ''Intelligence failure message must match its code'')
      else Inr f)"

definition action_history_failure_message :: "failure_code \<Rightarrow> string" where
  "action_history_failure_message c = (case c of
     ConnectionError \<Rightarrow> ''Atlas action history connection failed.''
   | TimedOut \<Rightarrow> ''Atlas action history request timed out.''
   | ResponseError \<Rightarrow> ''Atlas action history returned an unsuccessful response.''
   | PayloadError \<Rightarrow> ''Atlas action history returned an invalid payload.'')"

definition validate_action_history_failure :: "context_failure \<Rightarrow> context_failure res" where
  "validate_action_history_failure f =
     (if cf_message f \<noteq> action_history_failure_message (cf_code f)
      then Inl (ValueError ''Action history failure message must match its code'')
      else Inr f)"

record intelligence_context =
  ic_findings :: "intelligence_finding list"
  ic_assessments :: "intelligence_assessment list"
  ic_recommendations :: "intelligence_recommendation list"
  ic_failure :: "context_failure option"

record action_history_entry =
  ah_identifier :: string
  ah_provider_id :: string
  ah_provider_name :: string
  ah_action_id :: string
  ah_action_label :: string
  ah_status :: string
  ah_success :: bool
  ah_message :: string
  ah_confirmed :: bool
  ah_destructive :: bool
  ah_parameter_names :: "string list"
  ah_request_id :: "string option"
  ah_started_at :: int
  ah_completed_at :: int
  ah_duration_ms :: rat

record action_history_context =
  ac_entries :: "action_history_entry list"
  ac_failure :: "context_failure option"

record agent_context =
  cx_atlas :: string
  cx_assistant :: string
  cx_engine :: string
  cx_release :: string
  cx_services :: "(string \<times> service_health) list"
  cx_intelligence :: "intelligence_context option"
  cx_action_history :: "action_history_context option"

record repository_snapshot =
  snap_root :: path
  snap_branch :: "string option"
  snap_head_commit :: "string option"
  snap_is_clean :: bool
  snap_modified_files :: "string list"
  snap_staged_files :: "string list"
  snap_untracked_files :: "string list"

record roadmap_checkpoint =
  cp_identifier :: string
  cp_title :: string
  cp_goal :: string
  cp_scope_items :: "string list"
  cp_affected_files :: "path list"
  cp_required_tests :: "string list"
  cp_risks :: "string list"

record plan_risk =
  risk_code :: string
  risk_summary :: string
  risk_source :: string

record implementation_plan =
  plan_checkpoint_id :: string
  plan_title :: string
  plan_goal :: string
  plan_repository_root :: path
  plan_branch :: "string option"
  plan_head_commit :: "string option"
  plan_scope_items :: "string list"
  plan_affected_files :: "path list"
  plan_required_tests :: "string list"
  plan_risks :: "plan_risk list"

section \<open>Normalisation\<close>

definition intelligence_risk_limit :: nat where
  "intelligence_risk_limit = 5"

definition action_history_risk_limit :: nat where
  "action_history_risk_limit = 5"

definition qualifying_states :: "string list" where
  "qualifying_states = [''actionable'', ''concerning'', ''critical'', ''error'', ''failed'',
     ''high'', ''recommended'', ''unhealthy'', ''warning'']"

definition required_text :: "string \<Rightarrow> string \<Rightarrow> string res" where
  "required_text v field_name =
     (if strip v = []
      then Inl (PlanningValidationError (''Checkpoint '' @ field_name @ '' must not be blank''))
      else Inr (strip v))"

definition normalize_text_collection :: "string list \<Rightarrow> string \<Rightarrow> string list res" where
  "normalize_text_collection vs item_name =
     and_then (traverse (\<lambda>v. required_text v item_name) vs) (\<lambda>ns. Inr (dedupe ns))"

definition normalize_path :: "path \<Rightarrow> path res" where
  "normalize_path p =
     (if absolute p
      then Inl (PlanningValidationError
        (''Affected file must be repository-relative: '' @ path_text p))
      else if p = dot_path
      then Inl (PlanningValidationError ''Affected file must identify a file path'')
      else if traverses_parent p
      then Inl (PlanningValidationError
        (''Affected file must not traverse parents: '' @ path_text p))
      else Inr p)"

definition normalize_paths :: "path list \<Rightarrow> path list res" where
  "normalize_paths ps = and_then (traverse normalize_path ps) (\<lambda>ns. Inr (dedupe ns))"

section \<open>Risks\<close>

definition repository_risks :: "repository_snapshot \<Rightarrow> plan_risk list" where
  "repository_risks s =
     (if \<not> snap_is_clean s
      then [\<lparr>risk_code = ''dirty-working-tree'',
        risk_summary = ''Repository contains staged, modified, or untracked files'',
        risk_source = ''repository''\<rparr>] else [])
     @ (if snap_branch s = None
      then [\<lparr>risk_code = ''detached-head'',
        risk_summary = ''Repository is not currently on a branch'',
        risk_source = ''repository''\<rparr>] else [])
     @ (if snap_head_commit s = None
      then [\<lparr>risk_code = ''missing-head'',
        risk_summary = ''Repository does not have a HEAD commit'',
        risk_source = ''repository''\<rparr>] else [])"

definition service_risk :: "string \<times> service_health \<Rightarrow> plan_risk" where
  "service_risk item =
     \<lparr>risk_code = ''atlas-service-unhealthy'',
      risk_summary = ''Atlas service '' @ [CHR 0x27] @ fst item @ [CHR 0x27] @ '' reports status ''
        @ [CHR 0x27] @ sh_status (snd item) @ [CHR 0x27],
      risk_source = ''atlas-core''\<rparr>"

definition service_risks :: "(string \<times> service_health) list \<Rightarrow> plan_risk list" where
  "service_risks items =
     map service_risk
       (filter (\<lambda>item. sh_status (snd item) \<noteq> ''healthy'') (sort_key fst items))"

datatype evidence_key =
    FindingKey string string string string "string option"
  | AssessmentKey string string "string option"
  | RecommendationKey string string string "string option"

text \<open>\<open>_append_intelligence_risk\<close>: the two accumulators are updated together.\<close>

definition append_intelligence_risk ::
  "plan_risk list \<times> evidence_key list \<Rightarrow> evidence_key \<Rightarrow> plan_risk
    \<Rightarrow> plan_risk list \<times> evidence_key list" where
  "append_intelligence_risk st key risk =
     (if key \<in> set (snd st) then st else (fst st @ [risk], snd st @ [key]))"

definition finding_qualifies :: "intelligence_finding \<Rightarrow> bool" where
  "finding_qualifies f \<longleftrightarrow>
     fi_affects_health f \<or> lower (strip (fi_severity f)) \<in> set qualifying_states"

definition assessment_qualifies :: "intelligence_assessment \<Rightarrow> bool" where
  "assessment_qualifies a \<longleftrightarrow> lower (strip (as_priority a)) \<in> set qualifying_states"

text \<open>
  The three loops share their shape: skip what does not qualify, append unless the key was
  seen, and stop as soon as the limit is reached. The flag says whether it was.
\<close>

fun collect_risks ::
  "('a \<Rightarrow> bool) \<Rightarrow> ('a \<Rightarrow> evidence_key) \<Rightarrow> ('a \<Rightarrow> plan_risk) \<Rightarrow> 'a list
    \<Rightarrow> plan_risk list \<times> evidence_key list \<Rightarrow> (plan_risk list \<times> evidence_key list) \<times> bool" where
  "collect_risks q key risk [] st = (st, False)"
| "collect_risks q key risk (x # xs) st =
     (if \<not> q x then collect_risks q key risk xs st
      else let st' = append_intelligence_risk st (key x) (risk x) in
        if length (fst st') = intelligence_risk_limit then (st', True)
        else collect_risks q key risk xs st')"

definition intelligence_risks :: "intelligence_context \<Rightarrow> plan_risk list" where
  "intelligence_risks ic = (case ic_failure ic of
     Some failure \<Rightarrow>
       [\<lparr>risk_code = ''atlas-intelligence-unavailable'', risk_summary = cf_message failure,
         risk_source = ''atlas-knowledge''\<rparr>]
   | None \<Rightarrow>
     (case collect_risks finding_qualifies
         (\<lambda>f. FindingKey (fi_identifier f) (fi_severity f) (fi_category f) (fi_source f)
            (fi_component f))
         (\<lambda>f. \<lparr>risk_code = ''atlas-intelligence-finding'', risk_summary = fi_title f,
            risk_source = ''atlas-knowledge''\<rparr>)
         (ic_findings ic) ([], []) of
       (st, True) \<Rightarrow> fst st
     | (st, False) \<Rightarrow>
       (case collect_risks assessment_qualifies
           (\<lambda>a. AssessmentKey (as_title a) (as_priority a) (as_component a))
           (\<lambda>a. \<lparr>risk_code = ''atlas-intelligence-assessment'', risk_summary = as_title a,
              risk_source = ''atlas-knowledge''\<rparr>)
           (ic_assessments ic) st of
         (st, True) \<Rightarrow> fst st
       | (st, False) \<Rightarrow>
         (case collect_risks (\<lambda>r. True)
             (\<lambda>r. RecommendationKey (re_title r) (re_reason r) (re_priority r) (re_component r))
             (\<lambda>r. \<lparr>risk_code = ''atlas-intelligence-recommendation'', risk_summary = re_title r,
                risk_source = ''atlas-knowledge''\<rparr>)
             (ic_recommendations ic) st of
           (st, reached) \<Rightarrow> fst st))))"

definition entry_reference :: "action_history_entry \<Rightarrow> string" where
  "entry_reference e = (case ah_request_id e of
     None \<Rightarrow> ah_identifier e | Some r \<Rightarrow> if r = [] then ah_identifier e else r)"

definition entry_key :: "action_history_entry \<Rightarrow> string \<times> string \<times> string \<times> int \<times> string" where
  "entry_key e =
     (ah_provider_id e, ah_action_id e, ah_status e, ah_completed_at e, entry_reference e)"

definition entry_risk :: "action_history_entry \<Rightarrow> plan_risk" where
  "entry_risk e =
     \<lparr>risk_code = ''atlas-action-history-failure'',
      risk_summary = ''Atlas provider action '' @ [CHR 0x27] @ ah_action_label e @ [CHR 0x27]
        @ '' from '' @ [CHR 0x27] @ ah_provider_name e @ [CHR 0x27] @ '' failed (''
        @ entry_reference e @ '')'',
      risk_source = ''atlas-knowledge''\<rparr>"

definition entry_failed :: "action_history_entry \<Rightarrow> bool" where
  "entry_failed e \<longleftrightarrow> ah_status e = ''failed'' \<or> \<not> ah_success e"

fun action_history_risks_onto ::
  "plan_risk list \<Rightarrow> (string \<times> string \<times> string \<times> int \<times> string) list
    \<Rightarrow> action_history_entry list \<Rightarrow> plan_risk list" where
  "action_history_risks_onto risks keys [] = risks"
| "action_history_risks_onto risks keys (e # es) =
     (if \<not> entry_failed e then action_history_risks_onto risks keys es
      else if entry_key e \<in> set keys then action_history_risks_onto risks keys es
      else let risks' = risks @ [entry_risk e] in
        if length risks' = action_history_risk_limit then risks'
        else action_history_risks_onto risks' (keys @ [entry_key e]) es)"

definition action_history_risks :: "action_history_entry list \<Rightarrow> plan_risk list" where
  "action_history_risks es = action_history_risks_onto [] [] es"

definition context_risks :: "agent_context option \<Rightarrow> plan_risk list" where
  "context_risks context = (case context of None \<Rightarrow> [] | Some cx \<Rightarrow>
     service_risks (cx_services cx)
     @ (case cx_intelligence cx of None \<Rightarrow> [] | Some ic \<Rightarrow> intelligence_risks ic)
     @ (case cx_action_history cx of None \<Rightarrow> [] | Some ac \<Rightarrow>
          (case ac_failure ac of
             Some failure \<Rightarrow>
               [\<lparr>risk_code = ''atlas-action-history-unavailable'',
                 risk_summary = cf_message failure, risk_source = ''atlas-knowledge''\<rparr>]
           | None \<Rightarrow> action_history_risks (ac_entries ac))))"

section \<open>The plan\<close>

definition checkpoint_risk :: "string \<Rightarrow> plan_risk" where
  "checkpoint_risk summary =
     \<lparr>risk_code = ''checkpoint-risk'', risk_summary = summary, risk_source = ''checkpoint''\<rparr>"

definition make_plan ::
  "roadmap_checkpoint \<Rightarrow> repository_snapshot \<Rightarrow> agent_context option
    \<Rightarrow> implementation_plan res" where
  "make_plan cp snap context =
     and_then (required_text (cp_identifier cp) ''identifier'') (\<lambda>checkpoint_id.
     and_then (required_text (cp_title cp) ''title'') (\<lambda>title.
     and_then (required_text (cp_goal cp) ''goal'') (\<lambda>goal.
     and_then (normalize_text_collection (cp_scope_items cp) ''scope item'') (\<lambda>scope_items.
     and_then (normalize_paths (cp_affected_files cp)) (\<lambda>affected_files.
     and_then (normalize_text_collection (cp_required_tests cp) ''required test'') (\<lambda>tests.
     and_then (normalize_text_collection (cp_risks cp) ''risk'') (\<lambda>summaries.
     Inr \<lparr>plan_checkpoint_id = checkpoint_id, plan_title = title, plan_goal = goal,
       plan_repository_root = snap_root snap, plan_branch = snap_branch snap,
       plan_head_commit = snap_head_commit snap, plan_scope_items = scope_items,
       plan_affected_files = affected_files, plan_required_tests = tests,
       plan_risks = dedupe (map checkpoint_risk summaries @ repository_risks snap
         @ context_risks context)\<rparr>)))))))"

section \<open>Lemmas\<close>

lemma required_text_Inr [res_simps]:
  "required_text v n = Inr t \<longleftrightarrow> t = strip v \<and> \<not> blank v"
  by (auto simp: required_text_def blank_def)

lemma normalize_path_Inr [res_simps]:
  "normalize_path p = Inr q \<longleftrightarrow>
     q = p \<and> \<not> absolute p \<and> p \<noteq> dot_path \<and> \<not> traverses_parent p"
  by (auto simp: normalize_path_def)

lemma traverse_required_text [res_simps]:
  "traverse (\<lambda>v. required_text v n) vs = Inr ts \<longleftrightarrow> ts = map strip vs \<and> (\<forall>v \<in> set vs. \<not> blank v)"
  by (induction vs arbitrary: ts) (auto simp: res_simps)

lemma traverse_normalize_path [res_simps]:
  "traverse normalize_path ps = Inr qs \<longleftrightarrow>
     qs = ps \<and> (\<forall>p \<in> set ps. \<not> absolute p \<and> p \<noteq> dot_path \<and> \<not> traverses_parent p)"
  by (induction ps arbitrary: qs) (auto simp: res_simps)

lemma normalize_text_collection_Inr [res_simps]:
  "normalize_text_collection vs n = Inr ts \<longleftrightarrow>
     ts = dedupe (map strip vs) \<and> (\<forall>v \<in> set vs. \<not> blank v)"
  by (auto simp: normalize_text_collection_def res_simps)

lemma normalize_paths_Inr [res_simps]:
  "normalize_paths ps = Inr qs \<longleftrightarrow>
     qs = dedupe ps \<and> (\<forall>p \<in> set ps. \<not> absolute p \<and> p \<noteq> dot_path \<and> \<not> traverses_parent p)"
  by (auto simp: normalize_paths_def res_simps)

text \<open>The limit of a collecting loop: the accumulator never outgrows it.\<close>

lemma length_append_intelligence_risk:
  "length (fst (append_intelligence_risk st k r)) \<le> Suc (length (fst st))"
  by (simp add: append_intelligence_risk_def)

lemma collect_risks_bound:
  "length (fst st) < intelligence_risk_limit \<Longrightarrow> collect_risks q key risk xs st = (st', b)
    \<Longrightarrow> length (fst st') \<le> intelligence_risk_limit
        \<and> (\<not> b \<longrightarrow> length (fst st') < intelligence_risk_limit)"
proof (induction xs arbitrary: st)
  case Nil
  then show ?case by auto
next
  case (Cons x xs)
  define st1 where "st1 = append_intelligence_risk st (key x) (risk x)"
  have le: "length (fst st1) \<le> intelligence_risk_limit"
    using length_append_intelligence_risk [of st "key x" "risk x"] Cons.prems(1)
    by (simp add: st1_def)
  show ?case
  proof (cases "q x")
    case False
    then show ?thesis using Cons by simp
  next
    case True
    show ?thesis
    proof (cases "length (fst st1) = intelligence_risk_limit")
      case True
      then show ?thesis using Cons.prems \<open>q x\<close> by (auto simp: st1_def Let_def)
    next
      case False
      then show ?thesis
        using Cons.prems \<open>q x\<close> le Cons.IH [of st1] by (simp add: st1_def Let_def)
    qed
  qed
qed

lemma intelligence_risks_bound: "length (intelligence_risks ic) \<le> intelligence_risk_limit"
proof (cases "ic_failure ic")
  case (Some f)
  then show ?thesis by (simp add: intelligence_risks_def intelligence_risk_limit_def)
next
  case None
  then show ?thesis
    unfolding intelligence_risks_def
    by (auto split: prod.splits bool.splits
        dest!: collect_risks_bound [rotated] simp: intelligence_risk_limit_def)
qed

lemma action_history_risks_onto_bound:
  "length risks < action_history_risk_limit \<Longrightarrow>
    length (action_history_risks_onto risks keys es) \<le> action_history_risk_limit"
  by (induction risks keys es rule: action_history_risks_onto.induct) (auto simp: Let_def)

lemma action_history_risks_bound:
  "length (action_history_risks es) \<le> action_history_risk_limit"
  unfolding action_history_risks_def
  by (rule action_history_risks_onto_bound) (simp add: action_history_risk_limit_def)

lemma length_repository_risks: "length (repository_risks snap) \<le> 3"
  by (simp add: repository_risks_def)

lemma length_context_risks:
  "length (context_risks (Some cx)) \<le> length (cx_services cx) + 10"
proof -
  have s: "length (service_risks (cx_services cx)) \<le> length (cx_services cx)"
    unfolding service_risks_def
    using length_filter_le [of "\<lambda>item. sh_status (snd item) \<noteq> ''healthy''"
      "sort_key fst (cx_services cx)"] by (simp del: length_filter_le)
  have i: "length (case cx_intelligence cx of None \<Rightarrow> [] | Some ic \<Rightarrow> intelligence_risks ic) \<le> 5"
    using intelligence_risks_bound by (simp add: intelligence_risk_limit_def split: option.split)
  have a: "length (case cx_action_history cx of None \<Rightarrow> [] | Some ac \<Rightarrow>
      (case ac_failure ac of
         Some failure \<Rightarrow>
           [\<lparr>risk_code = ''atlas-action-history-unavailable'',
             risk_summary = cf_message failure, risk_source = ''atlas-knowledge''\<rparr>]
       | None \<Rightarrow> action_history_risks (ac_entries ac))) \<le> 5"
    using action_history_risks_bound
    by (simp add: action_history_risk_limit_def split: option.split)
  show ?thesis using s i a by (simp add: context_risks_def)
qed

lemma service_risk_surfaces:
  "(name, h) \<in> set (cx_services cx) \<Longrightarrow> sh_status h \<noteq> ''healthy''
    \<Longrightarrow> service_risk (name, h) \<in> set (context_risks (Some cx))"
  by (force simp: context_risks_def service_risks_def)

definition checkpoint_valid :: "roadmap_checkpoint \<Rightarrow> bool" where
  "checkpoint_valid cp \<longleftrightarrow>
     \<not> blank (cp_identifier cp) \<and> \<not> blank (cp_title cp) \<and> \<not> blank (cp_goal cp)
     \<and> list_all (\<lambda>v. \<not> blank v) (cp_scope_items cp @ cp_required_tests cp @ cp_risks cp)
     \<and> list_all (\<lambda>p. \<not> absolute p \<and> p \<noteq> dot_path \<and> \<not> traverses_parent p)
         (cp_affected_files cp)"

definition planned :: "roadmap_checkpoint \<Rightarrow> repository_snapshot \<Rightarrow> agent_context option
    \<Rightarrow> implementation_plan" where
  "planned cp snap context =
     \<lparr>plan_checkpoint_id = strip (cp_identifier cp), plan_title = strip (cp_title cp),
      plan_goal = strip (cp_goal cp), plan_repository_root = snap_root snap,
      plan_branch = snap_branch snap, plan_head_commit = snap_head_commit snap,
      plan_scope_items = dedupe (map strip (cp_scope_items cp)),
      plan_affected_files = dedupe (cp_affected_files cp),
      plan_required_tests = dedupe (map strip (cp_required_tests cp)),
      plan_risks = dedupe (map checkpoint_risk (dedupe (map strip (cp_risks cp)))
        @ repository_risks snap @ context_risks context)\<rparr>"

lemma make_plan_Inr:
  "make_plan cp snap context = Inr p \<longleftrightarrow> checkpoint_valid cp \<and> p = planned cp snap context"
  unfolding make_plan_def checkpoint_valid_def planned_def
  by (simp add: res_simps list_all_iff ball_Un) blast

text \<open>What a plan shows of the evidence it was made from.\<close>

definition surfaces :: "implementation_plan \<Rightarrow> string \<Rightarrow> bool" where
  "surfaces p code \<longleftrightarrow> list_ex (\<lambda>r. risk_code r = code) (plan_risks p)"

lemma surfaces_repository:
  assumes "set (repository_risks snap) \<subseteq> set (plan_risks p)"
  shows "(\<not> snap_is_clean snap \<longrightarrow> surfaces p ''dirty-working-tree'')
     \<and> (snap_branch snap = None \<longrightarrow> surfaces p ''detached-head'')
     \<and> (snap_head_commit snap = None \<longrightarrow> surfaces p ''missing-head'')"
proof -
  have "\<exists>r \<in> set (repository_risks snap). risk_code r = code \<Longrightarrow> surfaces p code" for code
    using assms by (auto simp: surfaces_def list_ex_iff)
  then show ?thesis by (intro conjI impI) (simp_all add: repository_risks_def bex_Un)
qed

definition recheck :: "roadmap_checkpoint \<Rightarrow> implementation_plan \<Rightarrow> roadmap_checkpoint" where
  "recheck cp p = cp\<lparr>cp_identifier := plan_checkpoint_id p, cp_title := plan_title p,
     cp_goal := plan_goal p, cp_scope_items := plan_scope_items p,
     cp_affected_files := plan_affected_files p, cp_required_tests := plan_required_tests p\<rparr>"

lemma map_strip_dedupe: "map strip (dedupe (map strip xs)) = dedupe (map strip xs)"
  by (rule map_idI) auto

lemma checkpoint_valid_recheck:
  "checkpoint_valid cp \<Longrightarrow> checkpoint_valid (recheck cp (planned cp snap context))"
  by (auto simp: checkpoint_valid_def recheck_def planned_def list_all_iff)

section \<open>Properties\<close>

text \<open>
  Planning is total on valid checkpoints and refuses every other one: a plan is produced
  exactly when the identifying texts and every collected item are non-blank and every
  affected file is a relative path that names a file and never climbs out of the repository.
\<close>

theorem make_plan_accepts_iff:
  "succeeds (make_plan cp snap context) = checkpoint_valid cp"
  by (simp add: succeeds_iff make_plan_Inr)

text \<open>
  A plan is in normal form: planning again from the normalised fields of a plan, over the
  same snapshot and context, gives the same plan.
\<close>

theorem make_plan_stable:
  assumes "make_plan cp snap context = Inr p"
  shows "make_plan (recheck cp p) snap context = Inr p"
proof -
  from assms have v: "checkpoint_valid cp" and p: "p = planned cp snap context"
    by (simp_all add: make_plan_Inr)
  have "planned (recheck cp p) snap context = p"
    by (simp add: p planned_def recheck_def map_strip_dedupe)
  with checkpoint_valid_recheck [OF v] p show ?thesis by (simp add: make_plan_Inr)
qed

definition sample_checkpoint :: roadmap_checkpoint where
  "sample_checkpoint = \<lparr>cp_identifier = '' A1 '', cp_title = ''Title'', cp_goal = ''Goal'',
     cp_scope_items = [''one'', '' one''], cp_affected_files = [Path False [''a'', ''b.py'']],
     cp_required_tests = [''pytest''], cp_risks = []\<rparr>"

definition sample_snapshot :: repository_snapshot where
  "sample_snapshot = \<lparr>snap_root = Path True [''repo''], snap_branch = None,
     snap_head_commit = Some ''abc'', snap_is_clean = False, snap_modified_files = [],
     snap_staged_files = [], snap_untracked_files = []\<rparr>"

lemma sample_checkpoint_valid: "checkpoint_valid sample_checkpoint"
  by (simp add: checkpoint_valid_def sample_checkpoint_def dot_path_def traverses_parent_def
      string_defs)

theorem make_plan_stable_witness:
  "make_plan (recheck sample_checkpoint (planned sample_checkpoint sample_snapshot None))
     sample_snapshot None = Inr (planned sample_checkpoint sample_snapshot None)"
  by (rule make_plan_stable) (simp add: make_plan_Inr sample_checkpoint_valid)

text \<open>
  No degradation is dropped and advisory evidence cannot flood a plan: a dirty tree, a
  detached or missing head and every unhealthy service appear among the plan's risks, the
  risks are distinct, and beyond the checkpoint's own risks there are at most three for the
  repository, one per service and ten from intelligence and action history.
\<close>

theorem make_plan_risks:
  assumes "make_plan cp snap (Some cx) = Inr p"
  shows "(\<not> snap_is_clean snap \<longrightarrow> surfaces p ''dirty-working-tree'')
     \<and> (snap_branch snap = None \<longrightarrow> surfaces p ''detached-head'')
     \<and> (snap_head_commit snap = None \<longrightarrow> surfaces p ''missing-head'')
     \<and> (\<forall>(name, h) \<in> set (cx_services cx).
          sh_status h \<noteq> ''healthy'' \<longrightarrow> service_risk (name, h) \<in> set (plan_risks p))
     \<and> distinct (plan_risks p)
     \<and> length (plan_risks p) \<le> length (cp_risks cp) + 13 + length (cx_services cx)"
proof -
  from assms have p: "p = planned cp snap (Some cx)" by (simp add: make_plan_Inr)
  have "length (plan_risks p) \<le> length (dedupe (map strip (cp_risks cp)))
      + length (repository_risks snap) + length (context_risks (Some cx))"
    unfolding p planned_def by (simp, rule order.trans [OF length_dedupe], simp)
  moreover have "length (dedupe (map strip (cp_risks cp))) \<le> length (cp_risks cp)"
    using length_dedupe [of "map strip (cp_risks cp)"] by simp
  ultimately have "length (plan_risks p) \<le> length (cp_risks cp) + 13 + length (cx_services cx)"
    using length_repository_risks [of snap] length_context_risks [of cx] by linarith
  moreover have "distinct (plan_risks p)" by (simp add: p planned_def)
  moreover have "service_risk (name, h) \<in> set (plan_risks p)"
    if "(name, h) \<in> set (cx_services cx)" and "sh_status h \<noteq> ''healthy''" for name h
    using service_risk_surfaces [OF that] by (simp add: p planned_def)
  moreover have "set (repository_risks snap) \<subseteq> set (plan_risks p)"
    by (auto simp: p planned_def)
  note surfaces_repository [OF this]
  ultimately show ?thesis by auto
qed

definition sample_context :: agent_context where
  "sample_context = \<lparr>cx_atlas = ''atlas'', cx_assistant = ''a'', cx_engine = ''e'',
     cx_release = ''r'', cx_services = [(''n8n'', \<lparr>sh_provider_id = ''n8n'',
       sh_status = ''down'', sh_latency_ms = None, sh_http_status = None, sh_message = None,
       sh_details = []\<rparr>)], cx_intelligence = None, cx_action_history = None\<rparr>"

theorem make_plan_risks_witness:
  "surfaces (planned sample_checkpoint sample_snapshot (Some sample_context)) ''detached-head''"
proof -
  have "make_plan sample_checkpoint sample_snapshot (Some sample_context)
      = Inr (planned sample_checkpoint sample_snapshot (Some sample_context))"
    by (simp add: make_plan_Inr sample_checkpoint_valid)
  from make_plan_risks [OF this] show ?thesis by (simp add: sample_snapshot_def)
qed

end
