(* ===== verification/Commands.thy ===== *)
theory Commands
  imports Planning
begin

text \<open>
  The Agent's command execution boundary: the execution models
  (\<open>app/execution/models.py\<close>), the tool policy that decides which command may run where
  (\<open>app/execution/policy.py\<close>) and the outcome the subprocess runner reports
  (\<open>app/execution/runner.py\<close>). \<open>resolve\<close> stands for \<open>Path.resolve(strict=False)\<close>,
  which follows the links of the file system.
\<close>

section \<open>Models\<close>

datatype execution_status = Succeeded | Failed | Timed_Out | Launch_Failed | Unknown

record environment_variable =
  ev_name :: string
  ev_value :: string
  ev_value_digest :: "string option"
  ev_redacted :: bool

definition environment_variable_of :: "string \<Rightarrow> string \<Rightarrow> environment_variable" where
  "environment_variable_of name v =
     \<lparr>ev_name = name, ev_value = v, ev_value_digest = None, ev_redacted = False\<rparr>"

record execution_request =
  er_identifier :: string
  er_plan :: implementation_plan
  er_argv :: "string list"
  er_working_directory :: path
  er_timeout_seconds :: "rat option"
  er_environment :: "environment_variable list"

record allowed_command =
  al_identifier :: string
  al_plan :: implementation_plan
  al_argv :: "string list"
  al_working_directory :: path
  al_timeout_seconds :: "rat option"
  al_environment :: "environment_variable list"

datatype 'a verdict = PolicyViolation string | Allowed 'a

record runner_outcome =
  ro_return_code :: "int option"
  ro_stdout :: string
  ro_stderr :: string
  ro_timed_out :: bool
  ro_launch_error :: "string option"

section \<open>The subprocess runner\<close>

text \<open>
  What \<open>subprocess.run\<close> does is an input: it completes, it runs out of time with what it
  had captured, or the operating system refuses to launch it. \<open>decode\<close> is
  \<open>bytes.decode(errors='replace')\<close>.
\<close>

datatype captured = NoOutput | TextOutput string | BytesOutput string

datatype subprocess_result =
    Completed int string string
  | TimeoutExpired captured captured
  | OSError string

fun output_text :: "(string \<Rightarrow> string) \<Rightarrow> captured \<Rightarrow> string" where
  "output_text decode NoOutput = []"
| "output_text decode (BytesOutput b) = decode b"
| "output_text decode (TextOutput t) = t"

fun subprocess_outcome :: "(string \<Rightarrow> string) \<Rightarrow> subprocess_result \<Rightarrow> runner_outcome" where
  "subprocess_outcome decode (TimeoutExpired out err) =
     \<lparr>ro_return_code = None, ro_stdout = output_text decode out,
      ro_stderr = output_text decode err, ro_timed_out = True, ro_launch_error = None\<rparr>"
| "subprocess_outcome decode (OSError e) =
     \<lparr>ro_return_code = None, ro_stdout = [], ro_stderr = [], ro_timed_out = False,
      ro_launch_error = Some e\<rparr>"
| "subprocess_outcome decode (Completed code out err) =
     \<lparr>ro_return_code = Some code, ro_stdout = out, ro_stderr = err, ro_timed_out = False,
      ro_launch_error = None\<rparr>"

section \<open>The tool policy\<close>

definition default_allowed_executables :: "string list" where
  "default_allowed_executables = [''codex'']"

fun first_blank :: "nat \<Rightarrow> string list \<Rightarrow> nat option" where
  "first_blank i [] = None"
| "first_blank i (a # as) = (if strip a = [] then Some i else first_blank (Suc i) as)"

definition has_path_components :: "string \<Rightarrow> bool" where
  "has_path_components executable \<longleftrightarrow>
     path_name (path_of executable) \<noteq> executable
     \<or> CHR ''/'' \<in> set executable \<or> CHR 0x5C \<in> set executable"

definition resolve_working_directory :: "(path \<Rightarrow> path) \<Rightarrow> path \<Rightarrow> path \<Rightarrow> path" where
  "resolve_working_directory resolve base wd =
     (if absolute wd then resolve wd else resolve (join_path base wd))"

fun policy_environment ::
  "string list \<Rightarrow> environment_variable list \<Rightarrow> environment_variable list verdict" where
  "policy_environment names [] = Allowed []"
| "policy_environment names (v # vs) =
     (let name = strip (ev_name v) in
      if name = [] then PolicyViolation ''Environment variable name must not be blank''
      else if \<not> is_environment_name name
      then PolicyViolation (''Invalid environment variable name: '' @ name)
      else if name \<in> set names
      then PolicyViolation (''Duplicate environment variable name: '' @ name)
      else (case policy_environment (name # names) vs of
        PolicyViolation m \<Rightarrow> PolicyViolation m
      | Allowed ns \<Rightarrow> Allowed (environment_variable_of name (ev_value v) # ns)))"

definition validate_command ::
  "(path \<Rightarrow> path) \<Rightarrow> string list \<Rightarrow> execution_request \<Rightarrow> allowed_command verdict" where
  "validate_command resolve allowed r =
     (let identifier = strip (er_identifier r) in
      if identifier = []
      then PolicyViolation ''Execution request identifier must not be blank''
      else (case er_argv r of
        [] \<Rightarrow> PolicyViolation ''Execution argv must not be empty''
      | executable # arguments \<Rightarrow>
        (case first_blank 0 (er_argv r) of
          Some i \<Rightarrow> PolicyViolation (''Execution argv item '' @ nat_text i @ '' must not be blank'')
        | None \<Rightarrow>
          if absolute (path_of executable)
          then PolicyViolation ''Execution executable must not be an absolute path''
          else if has_path_components executable
          then PolicyViolation ''Execution executable must not contain path components''
          else if executable \<notin> set allowed
          then PolicyViolation (''Execution executable is not allowed: '' @ executable)
          else if (case er_timeout_seconds r of None \<Rightarrow> False | Some t \<Rightarrow> t \<le> 0)
          then PolicyViolation ''Execution timeout must be positive''
          else let base = resolve (plan_repository_root (er_plan r));
                   wd = resolve_working_directory resolve base (er_working_directory r) in
            if \<not> relative_to base wd
            then PolicyViolation ''Execution working directory must be inside the repository''
            else (case policy_environment [] (er_environment r) of
              PolicyViolation m \<Rightarrow> PolicyViolation m
            | Allowed environment \<Rightarrow>
              Allowed \<lparr>al_identifier = identifier, al_plan = er_plan r, al_argv = er_argv r,
                al_working_directory = wd, al_timeout_seconds = er_timeout_seconds r,
                al_environment = environment\<rparr>))))"

section \<open>Lemmas\<close>

lemma first_blank_None: "first_blank i as = None \<longleftrightarrow> list_all (\<lambda>a. \<not> blank a) as"
  by (induction as arbitrary: i) (auto simp: blank_def)

lemma first_blank_Some:
  "first_blank i as = Some j \<Longrightarrow> i \<le> j \<and> j - i < length as \<and> blank (as ! (j - i))"
proof (induction as arbitrary: i)
  case Nil
  then show ?case by simp
next
  case (Cons a as)
  show ?case
  proof (cases "strip a = []")
    case True
    then show ?thesis using Cons.prems by (auto simp: blank_def)
  next
    case False
    then have "Suc i \<le> j \<and> j - Suc i < length as \<and> blank (as ! (j - Suc i))"
      using Cons by simp
    then show ?thesis by (auto simp: nth_Cons split: nat.split)
        (metis Suc_diff_Suc Suc_le_lessD nat.inject)
  qed
qed

lemma case_verdict_Allowed:
  "(case m of PolicyViolation e \<Rightarrow> PolicyViolation e | Allowed x \<Rightarrow> Allowed (f x)) = Allowed y
     \<longleftrightarrow> (\<exists>x. m = Allowed x \<and> y = f x)"
  by (cases m) auto

lemma policy_environment_Allowed:
  "policy_environment names vs = Allowed ns \<longleftrightarrow>
     ns = map (\<lambda>v. environment_variable_of (strip (ev_name v)) (ev_value v)) vs
     \<and> list_all (\<lambda>v. is_environment_name (strip (ev_name v))) vs
     \<and> distinct (map (strip \<circ> ev_name) vs)
     \<and> set names \<inter> set (map (strip \<circ> ev_name) vs) = {}"
proof (induction vs arbitrary: names ns)
  case Nil
  then show ?case by auto
next
  case (Cons v vs)
  show ?case
    by (auto simp: Let_def Cons.IH case_verdict_Allowed)
qed


lemma policy_environment_names:
  "policy_environment names vs = Allowed ns \<Longrightarrow>
     list_all (\<lambda>v. is_environment_name (ev_name v)) ns \<and> distinct (map ev_name ns)"
  by (auto simp: policy_environment_Allowed list_all_iff environment_variable_of_def comp_def)

text \<open>What the policy accepts, and the normalised command it then returns.\<close>

definition command_accepted ::
  "(path \<Rightarrow> path) \<Rightarrow> string list \<Rightarrow> execution_request \<Rightarrow> bool" where
  "command_accepted resolve allowed r \<longleftrightarrow>
     \<not> blank (er_identifier r) \<and> er_argv r \<noteq> []
     \<and> list_all (\<lambda>a. \<not> blank a) (er_argv r)
     \<and> \<not> absolute (path_of (hd (er_argv r))) \<and> \<not> has_path_components (hd (er_argv r))
     \<and> hd (er_argv r) \<in> set allowed
     \<and> (case er_timeout_seconds r of None \<Rightarrow> True | Some t \<Rightarrow> 0 < t)
     \<and> relative_to (resolve (plan_repository_root (er_plan r)))
         (resolve_working_directory resolve (resolve (plan_repository_root (er_plan r)))
           (er_working_directory r))
     \<and> list_all (\<lambda>v. is_environment_name (strip (ev_name v))) (er_environment r)
     \<and> distinct (map (strip \<circ> ev_name) (er_environment r))"

definition accepted_command :: "(path \<Rightarrow> path) \<Rightarrow> execution_request \<Rightarrow> allowed_command" where
  "accepted_command resolve r =
     \<lparr>al_identifier = strip (er_identifier r), al_plan = er_plan r, al_argv = er_argv r,
      al_working_directory = resolve_working_directory resolve
        (resolve (plan_repository_root (er_plan r))) (er_working_directory r),
      al_timeout_seconds = er_timeout_seconds r,
      al_environment = map (\<lambda>v. environment_variable_of (strip (ev_name v)) (ev_value v))
        (er_environment r)\<rparr>"

lemma validate_command_Allowed:
  "validate_command resolve allowed r = Allowed c \<longleftrightarrow>
     command_accepted resolve allowed r \<and> c = accepted_command resolve r"
  unfolding validate_command_def command_accepted_def accepted_command_def Let_def
    first_blank_None [symmetric, of _ 0]
  by (cases "er_argv r"; cases "first_blank 0 (er_argv r)"; cases "er_timeout_seconds r")
     (auto simp: case_verdict_Allowed policy_environment_Allowed blank_def not_le)

section \<open>Properties\<close>

text \<open>
  The tool policy confines every command it lets through: the executable is one of the
  allowed bare names (no separator, not absolute), no argument is blank, the working
  directory lies inside the resolved repository root, a timeout is positive, and the
  environment names are valid and pairwise distinct.
\<close>

theorem validate_command_confines:
  assumes "validate_command resolve allowed r = Allowed c"
  shows "hd (al_argv c) \<in> set allowed \<and> \<not> has_path_components (hd (al_argv c))
     \<and> al_argv c = er_argv r \<and> list_all (\<lambda>a. \<not> blank a) (al_argv c)
     \<and> relative_to (resolve (plan_repository_root (al_plan c))) (al_working_directory c)
     \<and> (case al_timeout_seconds c of None \<Rightarrow> True | Some t \<Rightarrow> 0 < t)
     \<and> list_all (\<lambda>v. is_environment_name (ev_name v)) (al_environment c)
     \<and> distinct (map ev_name (al_environment c))"
proof -
  from assms have ok: "command_accepted resolve allowed r" and c: "c = accepted_command resolve r"
    by (simp_all add: validate_command_Allowed)
  have "policy_environment [] (er_environment r) = Allowed (al_environment c)"
    using ok by (simp add: policy_environment_Allowed c accepted_command_def command_accepted_def)
  note policy_environment_names [OF this]
  then show ?thesis using ok by (simp add: c accepted_command_def command_accepted_def)
qed

definition sample_request :: execution_request where
  "sample_request = \<lparr>er_identifier = ''run'', er_plan = planned sample_checkpoint sample_snapshot None,
     er_argv = [''codex'', ''exec''], er_working_directory = dot_path,
     er_timeout_seconds = Some 5, er_environment = [environment_variable_of ''HOME'' ''/tmp'']\<rparr>"

lemma sample_request_accepted:
  "command_accepted (\<lambda>p. p) default_allowed_executables sample_request"
  by (simp add: command_accepted_def sample_request_def default_allowed_executables_def
      string_defs has_path_components_def path_of_def path_name_def starts_with_def
      resolve_working_directory_def join_path_def dot_path_def environment_variable_of_def
      is_word_start_def is_word_char_def in_range_def planned_def relative_to_def)

theorem validate_command_confines_witness:
  "relative_to (Path True [''repo'']) (al_working_directory (accepted_command (\<lambda>p. p) sample_request))"
  using validate_command_confines [of "\<lambda>p. p" default_allowed_executables sample_request
      "accepted_command (\<lambda>p. p) sample_request"]
  by (simp add: validate_command_Allowed sample_request_accepted)
     (simp add: accepted_command_def sample_request_def planned_def sample_snapshot_def)

end
