(* ===== verification/Verification.thy ===== *)
theory Verification
  imports Commands
begin

text \<open>
  The Agent's verification engine (\<open>app/verification\<close>): it validates and normalises an
  ordered suite of checks, runs each one, and reports the worst status. The runner and the
  monotonic clock act on a world the model does not look into; the process environment is a
  map. \<open>resolve\<close> stands for \<open>Path.resolve(strict=False)\<close>.
\<close>

section \<open>Models\<close>

datatype verification_status = PASSED | FAILED | TIMED_OUT | LAUNCH_FAILED

fun verification_status_value :: "verification_status \<Rightarrow> string" where
  "verification_status_value PASSED = ''passed''"
| "verification_status_value FAILED = ''failed''"
| "verification_status_value TIMED_OUT = ''timed_out''"
| "verification_status_value LAUNCH_FAILED = ''launch_failed''"

record verification_check =
  vc_identifier :: string
  vc_argv :: "string list"
  vc_working_directory :: path
  vc_timeout_seconds :: "rat option"
  vc_environment :: "environment_variable list"

record verification_check_result =
  vr_identifier :: string
  vr_argv :: "string list"
  vr_working_directory :: path
  vr_status :: verification_status
  vr_return_code :: "int option"
  vr_stdout :: string
  vr_stderr :: string
  vr_duration_seconds :: rat
  vr_error :: "string option"

record verification_report =
  rep_repository_root :: path
  rep_results :: "verification_check_result list"
  rep_status :: verification_status
  rep_duration_seconds :: rat
  rep_context :: "agent_context option"

record 'w machine =
  run_command :: "string list \<Rightarrow> path \<Rightarrow> (string \<rightharpoonup> string) \<Rightarrow> rat option \<Rightarrow> 'w \<Rightarrow> runner_outcome \<times> 'w"
  read_clock :: "'w \<Rightarrow> rat \<times> 'w"

section \<open>Normalising the suite\<close>

definition check_error :: "string \<Rightarrow> string \<Rightarrow> exn" where
  "check_error identifier message =
     VerificationValidationError
       (''Verification check '' @ [CHR 0x27] @ identifier @ [CHR 0x27] @ message)"

fun verification_environment ::
  "string \<Rightarrow> string list \<Rightarrow> environment_variable list \<Rightarrow> environment_variable list res" where
  "verification_environment identifier names [] = Inr []"
| "verification_environment identifier names (v # vs) =
     (let name = strip (ev_name v) in
      if name = []
      then Inl (check_error identifier '' environment variable name must not be blank'')
      else if \<not> is_environment_name name
      then Inl (check_error identifier ('' has invalid environment variable name: '' @ name))
      else if name \<in> set names
      then Inl (check_error identifier ('' has duplicate environment variable name: '' @ name))
      else and_then (verification_environment identifier (name # names) vs) (\<lambda>ns.
        Inr (environment_variable_of name (ev_value v) # ns)))"

definition normalize_check ::
  "(path \<Rightarrow> path) \<Rightarrow> path \<Rightarrow> string list \<Rightarrow> verification_check \<Rightarrow> verification_check res" where
  "normalize_check resolve base identifiers check =
     (let identifier = strip (vc_identifier check) in
      if identifier = []
      then Inl (VerificationValidationError ''Verification check identifier must not be blank'')
      else if identifier \<in> set identifiers
      then Inl (VerificationValidationError
        (''Duplicate verification check identifier: '' @ identifier))
      else (case vc_argv check of
        [] \<Rightarrow> Inl (check_error identifier '' argv must not be empty'')
      | executable # arguments \<Rightarrow>
        (case first_blank 0 (vc_argv check) of
          Some i \<Rightarrow> Inl (check_error identifier
            ('' argv item '' @ nat_text i @ '' must not be blank''))
        | None \<Rightarrow>
          if absolute (path_of executable)
          then Inl (check_error identifier '' executable must not be an absolute path'')
          else if has_path_components executable
          then Inl (check_error identifier '' executable must not contain path components'')
          else if (case vc_timeout_seconds check of None \<Rightarrow> False | Some t \<Rightarrow> t \<le> 0)
          then Inl (check_error identifier '' timeout must be positive'')
          else let wd = resolve_working_directory resolve base (vc_working_directory check) in
            if \<not> relative_to base wd
            then Inl (check_error identifier '' working directory must be inside the repository'')
            else and_then (verification_environment identifier [] (vc_environment check))
              (\<lambda>environment.
              Inr \<lparr>vc_identifier = identifier, vc_argv = vc_argv check,
                vc_working_directory = wd, vc_timeout_seconds = vc_timeout_seconds check,
                vc_environment = environment\<rparr>))))"

fun normalize_checks_onto ::
  "(path \<Rightarrow> path) \<Rightarrow> path \<Rightarrow> string list \<Rightarrow> verification_check list
    \<Rightarrow> verification_check list res" where
  "normalize_checks_onto resolve base identifiers [] = Inr []"
| "normalize_checks_onto resolve base identifiers (check # checks) =
     and_then (normalize_check resolve base identifiers check) (\<lambda>normal.
     and_then (normalize_checks_onto resolve base (vc_identifier normal # identifiers) checks)
       (\<lambda>rest. Inr (normal # rest)))"

definition normalize_checks ::
  "(path \<Rightarrow> path) \<Rightarrow> path \<Rightarrow> verification_check list \<Rightarrow> verification_check list res" where
  "normalize_checks resolve base checks =
     (if checks = []
      then Inl (VerificationValidationError ''Verification suite must contain at least one check'')
      else normalize_checks_onto resolve base [] checks)"

section \<open>Running the suite\<close>

definition check_status :: "runner_outcome \<Rightarrow> verification_status \<times> string option" where
  "check_status out =
     (if ro_launch_error out \<noteq> None then (LAUNCH_FAILED, ro_launch_error out)
      else if ro_timed_out out then (TIMED_OUT, Some ''Verification check timed out'')
      else if ro_return_code out = Some 0 then (PASSED, None)
      else (FAILED, None))"

definition check_environment ::
  "(string \<rightharpoonup> string) \<Rightarrow> environment_variable list \<Rightarrow> (string \<rightharpoonup> string)" where
  "check_environment environ vs = foldl (\<lambda>m v. m(ev_name v \<mapsto> ev_value v)) environ vs"

definition run_check ::
  "'w machine \<Rightarrow> (string \<rightharpoonup> string) \<Rightarrow> verification_check \<Rightarrow> 'w
    \<Rightarrow> verification_check_result \<times> 'w" where
  "run_check m environ check w =
     (let (started_at, w1) = read_clock m w;
          (out, w2) = run_command m (vc_argv check) (vc_working_directory check)
            (check_environment environ (vc_environment check)) (vc_timeout_seconds check) w1;
          (finished_at, w3) = read_clock m w2
      in (\<lparr>vr_identifier = vc_identifier check, vr_argv = vc_argv check,
           vr_working_directory = vc_working_directory check,
           vr_status = fst (check_status out), vr_return_code = ro_return_code out,
           vr_stdout = ro_stdout out, vr_stderr = ro_stderr out,
           vr_duration_seconds = max 0 (finished_at - started_at),
           vr_error = snd (check_status out)\<rparr>, w3))"

fun run_checks ::
  "'w machine \<Rightarrow> (string \<rightharpoonup> string) \<Rightarrow> verification_check list \<Rightarrow> 'w
    \<Rightarrow> verification_check_result list \<times> 'w" where
  "run_checks m environ [] w = ([], w)"
| "run_checks m environ (check # checks) w =
     (let (r, w1) = run_check m environ check w; (rs, w2) = run_checks m environ checks w1
      in (r # rs, w2))"

definition report_status :: "verification_check_result list \<Rightarrow> verification_status" where
  "report_status results =
     (let statuses = set (map vr_status results) in
      if LAUNCH_FAILED \<in> statuses then LAUNCH_FAILED
      else if TIMED_OUT \<in> statuses then TIMED_OUT
      else if FAILED \<in> statuses then FAILED
      else PASSED)"

definition verify ::
  "(path \<Rightarrow> path) \<Rightarrow> 'w machine \<Rightarrow> (string \<rightharpoonup> string) \<Rightarrow> path \<Rightarrow> verification_check list
    \<Rightarrow> agent_context option \<Rightarrow> 'w \<Rightarrow> (verification_report \<times> 'w) res" where
  "verify resolve m environ repository_root checks context w =
     (let normalized_root = resolve repository_root in
      and_then (normalize_checks resolve normalized_root checks) (\<lambda>normalized.
        let (started_at, w1) = read_clock m w;
            (results, w2) = run_checks m environ normalized w1;
            (finished_at, w3) = read_clock m w2
        in Inr (\<lparr>rep_repository_root = normalized_root, rep_results = results,
              rep_status = report_status results,
              rep_duration_seconds = max 0 (finished_at - started_at),
              rep_context = context\<rparr>, w3)))"

section \<open>The severity order of statuses\<close>

fun severity :: "verification_status \<Rightarrow> nat" where
  "severity PASSED = 0"
| "severity FAILED = 1"
| "severity TIMED_OUT = 2"
| "severity LAUNCH_FAILED = 3"

instantiation verification_status :: linorder
begin

definition less_eq_verification_status :: "verification_status \<Rightarrow> verification_status \<Rightarrow> bool" where
  "less_eq_verification_status a b \<longleftrightarrow> severity a \<le> severity b"

definition less_verification_status :: "verification_status \<Rightarrow> verification_status \<Rightarrow> bool" where
  "less_verification_status a b \<longleftrightarrow> severity a < severity b"

instance
proof
  fix a b c :: verification_status
  show "a < b \<longleftrightarrow> a \<le> b \<and> \<not> b \<le> a"
    by (auto simp: less_eq_verification_status_def less_verification_status_def)
  show "a \<le> b \<Longrightarrow> b \<le> a \<Longrightarrow> a = b"
    by (cases a; cases b; simp add: less_eq_verification_status_def)
qed (auto simp: less_eq_verification_status_def)

end

lemmas status_order = less_eq_verification_status_def less_verification_status_def

section \<open>Lemmas\<close>

lemma verification_environment_Inr:
  "verification_environment identifier names vs = Inr ns \<longleftrightarrow>
     policy_environment names vs = Allowed ns"
proof (induction vs arbitrary: names ns)
  case Nil
  then show ?case by auto
next
  case (Cons v vs)
  show ?case
    by (auto simp: Let_def Cons.IH case_verdict_Allowed res_simps)
qed

text \<open>One check, accepted against the identifiers already taken.\<close>

definition check_accepted :: "(path \<Rightarrow> path) \<Rightarrow> path \<Rightarrow> verification_check \<Rightarrow> bool" where
  "check_accepted resolve base check \<longleftrightarrow>
     \<not> blank (vc_identifier check) \<and> vc_argv check \<noteq> []
     \<and> list_all (\<lambda>a. \<not> blank a) (vc_argv check)
     \<and> \<not> absolute (path_of (hd (vc_argv check))) \<and> \<not> has_path_components (hd (vc_argv check))
     \<and> (case vc_timeout_seconds check of None \<Rightarrow> True | Some t \<Rightarrow> 0 < t)
     \<and> relative_to base (resolve_working_directory resolve base (vc_working_directory check))
     \<and> list_all (\<lambda>v. is_environment_name (strip (ev_name v))) (vc_environment check)
     \<and> distinct (map (strip \<circ> ev_name) (vc_environment check))"

definition accepted_check :: "(path \<Rightarrow> path) \<Rightarrow> path \<Rightarrow> verification_check \<Rightarrow> verification_check" where
  "accepted_check resolve base check =
     \<lparr>vc_identifier = strip (vc_identifier check), vc_argv = vc_argv check,
      vc_working_directory = resolve_working_directory resolve base (vc_working_directory check),
      vc_timeout_seconds = vc_timeout_seconds check,
      vc_environment = map (\<lambda>v. environment_variable_of (strip (ev_name v)) (ev_value v))
        (vc_environment check)\<rparr>"

lemma normalize_check_Inr:
  "normalize_check resolve base identifiers check = Inr normal \<longleftrightarrow>
     check_accepted resolve base check \<and> strip (vc_identifier check) \<notin> set identifiers
     \<and> normal = accepted_check resolve base check"
  unfolding normalize_check_def check_accepted_def accepted_check_def Let_def
    first_blank_None [symmetric, of _ 0]
  by (cases "vc_argv check"; cases "first_blank 0 (vc_argv check)";
      cases "vc_timeout_seconds check")
     (auto simp: res_simps verification_environment_Inr policy_environment_Allowed blank_def not_le)

lemma normalize_checks_onto_Inr:
  "normalize_checks_onto resolve base identifiers checks = Inr normalized \<longleftrightarrow>
     list_all (check_accepted resolve base) checks
     \<and> distinct (map (strip \<circ> vc_identifier) checks)
     \<and> set identifiers \<inter> set (map (strip \<circ> vc_identifier) checks) = {}
     \<and> normalized = map (accepted_check resolve base) checks"
proof (induction checks arbitrary: identifiers normalized)
  case Nil
  then show ?case by auto
next
  case (Cons check checks)
  have "vc_identifier (accepted_check resolve base check) = strip (vc_identifier check)"
    by (simp add: accepted_check_def)
  then show ?case by (auto simp: res_simps normalize_check_Inr Cons.IH)
qed

lemma run_checks_meta:
  "run_checks m environ checks w = (results, w') \<Longrightarrow>
     map vr_identifier results = map vc_identifier checks
     \<and> map vr_argv results = map vc_argv checks"
  by (induction checks arbitrary: w results)
     (auto simp: run_check_def Let_def split: prod.splits)

lemma report_status_ge: "r \<in> set results \<Longrightarrow> vr_status r \<le> report_status results"
  using imageI [of r "set results" vr_status]
  by (cases "vr_status r") (simp_all add: report_status_def Let_def status_order)

lemma report_status_attained:
  "report_status results = PASSED \<or> report_status results \<in> vr_status ` set results"
  by (auto simp: report_status_def Let_def)

lemma PASSED_least [simp]: "PASSED \<le> (s :: verification_status)"
  by (simp add: status_order)

lemma le_PASSED [simp]: "(s :: verification_status) \<le> PASSED \<longleftrightarrow> s = PASSED"
  by (cases s) (simp_all add: status_order)

lemma report_status_Max:
  "report_status results = Max (insert PASSED (vr_status ` set results))"
  using report_status_ge report_status_attained [of results]
  by (intro Max_eqI [symmetric]) auto

lemma report_passed_iff:
  "report_status results = PASSED \<longleftrightarrow> list_all (\<lambda>r. vr_status r = PASSED) results"
proof
  assume "report_status results = PASSED"
  then show "list_all (\<lambda>r. vr_status r = PASSED) results"
    using report_status_ge [of _ results] by (simp add: list_all_iff)
next
  assume "list_all (\<lambda>r. vr_status r = PASSED) results"
  then show "report_status results = PASSED"
    by (auto simp: report_status_def Let_def list_all_iff)
qed

section \<open>Properties\<close>

definition suite_accepted :: "(path \<Rightarrow> path) \<Rightarrow> path \<Rightarrow> verification_check list \<Rightarrow> bool" where
  "suite_accepted resolve base checks \<longleftrightarrow>
     checks \<noteq> [] \<and> list_all (check_accepted resolve base) checks
     \<and> distinct (map (strip \<circ> vc_identifier) checks)"

lemma normalize_checks_Inr:
  "normalize_checks resolve base checks = Inr normalized \<longleftrightarrow>
     suite_accepted resolve base checks \<and> normalized = map (accepted_check resolve base) checks"
  by (auto simp: normalize_checks_def suite_accepted_def normalize_checks_onto_Inr)

lemma verify_Inr:
  "verify resolve m environ repository_root checks context w = Inr (report, w') \<Longrightarrow>
     suite_accepted resolve (resolve repository_root) checks
     \<and> rep_status report = report_status (rep_results report)
     \<and> rep_repository_root report = resolve repository_root \<and> rep_context report = context
     \<and> 0 \<le> rep_duration_seconds report
     \<and> map vr_identifier (rep_results report) = map (strip \<circ> vc_identifier) checks
     \<and> map vr_argv (rep_results report) = map vc_argv checks"
  by (auto simp: verify_def Let_def res_simps normalize_checks_Inr accepted_check_def
      dest!: run_checks_meta split: prod.splits)

text \<open>
  Verification runs nothing unless the whole suite is acceptable: the engine returns a
  report exactly when the suite is non-empty, its stripped identifiers are distinct and every
  check is a bare command with a positive timeout, valid environment names and a working
  directory inside the repository.
\<close>

theorem verify_accepts_iff:
  "succeeds (verify resolve m environ repository_root checks context w)
     = suite_accepted resolve (resolve repository_root) checks"
proof (cases "normalize_checks resolve (resolve repository_root) checks")
  case (Inl e)
  then show ?thesis
    using normalize_checks_Inr [of resolve "resolve repository_root" checks]
    by (auto simp: verify_def)
next
  case (Inr n)
  then show ?thesis
    using normalize_checks_Inr [of resolve "resolve repository_root" checks n]
    by (auto simp: verify_def Let_def split: prod.splits)
qed

text \<open>
  A report is passing exactly when every requested check passed: the results stand for
  the requested checks one by one and in order, the report's status is the most severe status
  among them, and it is the passing status only when none is worse.
\<close>

theorem verify_passes_iff:
  assumes "verify resolve m environ repository_root checks context w = Inr (report, w')"
  shows "map vr_identifier (rep_results report) = map (strip \<circ> vc_identifier) checks
     \<and> rep_status report = Max (insert PASSED (vr_status ` set (rep_results report)))
     \<and> (rep_status report = PASSED
          \<longleftrightarrow> list_all (\<lambda>r. vr_status r = PASSED) (rep_results report))"
  using verify_Inr [OF assms] report_status_Max report_passed_iff by metis

definition sample_machine :: "nat machine" where
  "sample_machine = \<lparr>run_command = (\<lambda>argv cwd env timeout n.
       (\<lparr>ro_return_code = Some (if n = 1 then 0 else 1), ro_stdout = [], ro_stderr = [],
         ro_timed_out = False, ro_launch_error = None\<rparr>, Suc n)),
     read_clock = (\<lambda>n. (0, n))\<rparr>"

definition sample_check :: "string \<Rightarrow> verification_check" where
  "sample_check name = \<lparr>vc_identifier = name, vc_argv = [''pytest''],
     vc_working_directory = dot_path, vc_timeout_seconds = None, vc_environment = []\<rparr>"

lemma sample_suite_accepted:
  "suite_accepted (\<lambda>p. p) (Path True [''repo'']) [sample_check ''a'', sample_check ''b'']"
  by (simp add: suite_accepted_def check_accepted_def sample_check_def string_defs
      has_path_components_def path_of_def path_name_def starts_with_def
      resolve_working_directory_def join_path_def dot_path_def relative_to_def)

theorem verify_passes_iff_witness:
  "\<exists>report w'. verify (\<lambda>p. p) sample_machine Map.empty (Path True [''repo''])
       [sample_check ''a'', sample_check ''b''] None 1 = Inr (report, w')
     \<and> rep_status report \<noteq> PASSED"
proof -
  have "succeeds (verify (\<lambda>p. p) sample_machine Map.empty (Path True [''repo''])
      [sample_check ''a'', sample_check ''b''] None 1)"
    by (simp add: verify_accepts_iff sample_suite_accepted)
  then obtain report w' where r: "verify (\<lambda>p. p) sample_machine Map.empty (Path True [''repo''])
      [sample_check ''a'', sample_check ''b''] None 1 = Inr (report, w')"
    unfolding succeeds_iff by auto
  then have "map vr_status (rep_results report) = [PASSED, FAILED]"
    by (auto simp: verify_def Let_def res_simps normalize_checks_Inr run_check_def
        sample_machine_def check_status_def)
  then have "rep_status report \<noteq> PASSED"
    using verify_passes_iff [OF r] by (auto simp: list_all_iff map_eq_Cons_conv)
  with r show ?thesis by blast
qed

end
