(* ===== verification/Review.thy ===== *)
theory Review
  imports Verification
begin

text \<open>
  The Agent's deterministic review engine (\<open>app/review\<close>): it normalises the submitted
  evidence and derives findings from architecture assessments, the scope of the change, the
  coverage of required tests, the verification report and the plan's risks. The review is
  approved when no finding is an error. \<open>resolve\<close> stands for
  \<open>Path.resolve(strict=False)\<close>.
\<close>

section \<open>Models\<close>

datatype review_status = Approved | Changes_Required

datatype review_category = Architecture | Scope | Test_Coverage | Verification_Category

datatype review_severity = Warning | Error

record architecture_assessment =
  aa_identifier :: string
  aa_summary :: string
  aa_passed :: bool
  aa_evidence :: string
  aa_recommendation :: "string option"

record test_evidence =
  te_requirement :: string
  te_check_identifier :: string

record review_request =
  rq_identifier :: string
  rq_plan :: implementation_plan
  rq_changed_files :: "path list"
  rq_verification_report :: verification_report
  rq_context :: "agent_context option"
  rq_architecture_assessments :: "architecture_assessment list"
  rq_test_evidence :: "test_evidence list"

record review_finding =
  rf_code :: string
  rf_category :: review_category
  rf_severity :: review_severity
  rf_summary :: string
  rf_evidence :: string
  rf_recommendation :: string

record review_report =
  rr_request_id :: string
  rr_checkpoint_id :: string
  rr_status :: review_status
  rr_findings :: "review_finding list"
  rr_recommendations :: "string list"

section \<open>Normalising the request\<close>

definition normalize_changed_file :: "(path \<Rightarrow> path) \<Rightarrow> path \<Rightarrow> path \<Rightarrow> path res" where
  "normalize_changed_file resolve base f =
     (let absolute_path = resolve_working_directory resolve base f in
      if \<not> relative_to base absolute_path
      then Inl (ReviewValidationError ''Changed files must be inside the repository'')
      else let relative_path = strip_root base absolute_path in
        if relative_path = dot_path
        then Inl (ReviewValidationError ''Changed file must identify a repository file'')
        else Inr relative_path)"

definition normalize_changed_files ::
  "(path \<Rightarrow> path) \<Rightarrow> path \<Rightarrow> path list \<Rightarrow> path list res" where
  "normalize_changed_files resolve base files =
     and_then (traverse (normalize_changed_file resolve base) files) (\<lambda>ns. Inr (dedupe ns))"

fun normalize_assessments ::
  "string list \<Rightarrow> architecture_assessment list \<Rightarrow> architecture_assessment list res" where
  "normalize_assessments identifiers [] = Inr []"
| "normalize_assessments identifiers (a # as) =
     (let identifier = strip (aa_identifier a);
          summary = strip (aa_summary a);
          evidence = strip (aa_evidence a);
          recommendation = map_option strip (aa_recommendation a) in
      if identifier = []
      then Inl (ReviewValidationError ''Architecture assessment identifier must not be blank'')
      else if identifier \<in> set identifiers
      then Inl (ReviewValidationError ''Architecture assessment identifiers must be unique'')
      else if summary = []
      then Inl (ReviewValidationError (''Architecture assessment '' @ [CHR 0x27] @ identifier
        @ [CHR 0x27] @ '' summary must not be blank''))
      else if evidence = []
      then Inl (ReviewValidationError (''Architecture assessment '' @ [CHR 0x27] @ identifier
        @ [CHR 0x27] @ '' evidence must not be blank''))
      else and_then (normalize_assessments (identifier # identifiers) as) (\<lambda>rest.
        Inr (\<lparr>aa_identifier = identifier, aa_summary = summary, aa_passed = aa_passed a,
          aa_evidence = evidence,
          aa_recommendation = (if recommendation = Some [] then None else recommendation)\<rparr>
          # rest)))"

definition normalize_evidence_item :: "test_evidence \<Rightarrow> test_evidence res" where
  "normalize_evidence_item e =
     (let requirement = strip (te_requirement e);
          check_identifier = strip (te_check_identifier e) in
      if requirement = []
      then Inl (ReviewValidationError ''Test evidence requirement must not be blank'')
      else if check_identifier = []
      then Inl (ReviewValidationError ''Test evidence check identifier must not be blank'')
      else Inr \<lparr>te_requirement = requirement, te_check_identifier = check_identifier\<rparr>)"

definition normalize_request :: "(path \<Rightarrow> path) \<Rightarrow> review_request \<Rightarrow> review_request res" where
  "normalize_request resolve r =
     (let identifier = strip (rq_identifier r) in
      if identifier = []
      then Inl (ReviewValidationError ''Review request identifier must not be blank'')
      else
        let repository_root = resolve (plan_repository_root (rq_plan r));
            verification_root = resolve (rep_repository_root (rq_verification_report r)) in
        if verification_root \<noteq> repository_root
        then Inl (ReviewValidationError ''Verification report repository root must match the plan'')
        else if rq_context r \<noteq> rep_context (rq_verification_report r)
        then Inl (ReviewValidationError ''Review context must match the verification snapshot'')
        else
          and_then (normalize_changed_files resolve repository_root (rq_changed_files r)) (\<lambda>files.
          and_then (normalize_assessments [] (rq_architecture_assessments r)) (\<lambda>assessments.
          and_then (traverse normalize_evidence_item (rq_test_evidence r)) (\<lambda>evidence.
          Inr \<lparr>rq_identifier = identifier, rq_plan = rq_plan r, rq_changed_files = files,
            rq_verification_report = rq_verification_report r, rq_context = rq_context r,
            rq_architecture_assessments = assessments, rq_test_evidence = evidence\<rparr>))))"

section \<open>Findings\<close>

definition architecture_finding :: "architecture_assessment \<Rightarrow> review_finding" where
  "architecture_finding a =
     \<lparr>rf_code = ''architecture-'' @ aa_identifier a, rf_category = Architecture,
      rf_severity = Error, rf_summary = aa_summary a, rf_evidence = aa_evidence a,
      rf_recommendation = (case aa_recommendation a of
        Some t \<Rightarrow> if t = [] then ''Resolve architecture assessment: '' @ aa_summary a else t
      | None \<Rightarrow> ''Resolve architecture assessment: '' @ aa_summary a)\<rparr>"

definition architecture_findings :: "architecture_assessment list \<Rightarrow> review_finding list" where
  "architecture_findings as = map architecture_finding (filter (\<lambda>a. \<not> aa_passed a) as)"

definition plan_risk_finding :: "plan_risk \<Rightarrow> review_finding" where
  "plan_risk_finding risk =
     \<lparr>rf_code = ''plan-risk-'' @ risk_code risk, rf_category = Scope, rf_severity = Warning,
      rf_summary = risk_summary risk, rf_evidence = ''Plan risk source: '' @ risk_source risk,
      rf_recommendation =
        ''Address or explicitly accept this plan risk before implementation.''\<rparr>"

definition scope_finding :: "path \<Rightarrow> review_finding" where
  "scope_finding f =
     \<lparr>rf_code = ''out-of-scope-file'', rf_category = Scope, rf_severity = Error,
      rf_summary = ''Changed file is outside the approved plan: '' @ path_text f,
      rf_evidence = path_text f,
      rf_recommendation = ''Add the file to the approved implementation plan ''
        @ ''or remove the out-of-scope change''\<rparr>"

definition scope_findings :: "review_request \<Rightarrow> review_finding list" where
  "scope_findings r =
     map scope_finding
       (filter (\<lambda>f. f \<notin> set (plan_affected_files (rq_plan r))) (rq_changed_files r))"

definition coverage_finding :: "string \<Rightarrow> string \<Rightarrow> string \<Rightarrow> string \<Rightarrow> review_finding" where
  "coverage_finding code summary evidence recommendation =
     \<lparr>rf_code = code, rf_category = Test_Coverage, rf_severity = Error,
      rf_summary = summary, rf_evidence = evidence, rf_recommendation = recommendation\<rparr>"

text \<open>The dictionary \<open>{result.identifier: result}\<close>: the last result of an identifier wins.\<close>

definition results_by_identifier ::
  "verification_check_result list \<Rightarrow> (string \<rightharpoonup> verification_check_result)" where
  "results_by_identifier rs = map_of (rev (map (\<lambda>r. (vr_identifier r, r)) rs))"

definition requirement_findings :: "review_request \<Rightarrow> string \<Rightarrow> review_finding list" where
  "requirement_findings r requirement =
     (case filter (\<lambda>e. te_requirement e = requirement) (rq_test_evidence r) of
        [] \<Rightarrow> [coverage_finding ''missing-test-evidence''
          (''Required test has no verification evidence: '' @ requirement) requirement
          ''Map the required test to a passing verification check'']
      | [mapping] \<Rightarrow>
        (case results_by_identifier (rep_results (rq_verification_report r))
            (te_check_identifier mapping) of
          None \<Rightarrow> [coverage_finding ''unknown-test-check''
            (''Required test references an unknown verification check: '' @ requirement)
            (te_check_identifier mapping)
            ''Map the required test to a check present in the verification report'']
        | Some result \<Rightarrow>
          if vr_status result \<noteq> PASSED
          then [coverage_finding ''required-test-not-passed''
            (''Required test did not pass: '' @ requirement)
            (te_check_identifier mapping @ '': '' @ verification_status_value (vr_status result))
            ''Resolve the failing verification check and run the review again'']
          else [])
      | mappings \<Rightarrow> [coverage_finding ''duplicate-test-evidence''
          (''Required test has multiple evidence mappings: '' @ requirement)
          (join '', '' (map te_check_identifier mappings))
          (''Provide exactly one verification-check mapping '' @ ''for the required test'')])"

definition test_coverage_findings :: "review_request \<Rightarrow> review_finding list" where
  "test_coverage_findings r =
     concat (map (requirement_findings r) (plan_required_tests (rq_plan r)))"

definition verification_finding :: "verification_check_result \<Rightarrow> review_finding" where
  "verification_finding r =
     \<lparr>rf_code = ''verification-'' @ verification_status_value (vr_status r),
      rf_category = Verification_Category, rf_severity = Error,
      rf_summary = ''Verification check did not pass: '' @ vr_identifier r,
      rf_evidence = vr_identifier r @ '': '' @ verification_status_value (vr_status r),
      rf_recommendation =
        ''Resolve the verification failure and rerun the verification suite''\<rparr>"

definition verification_findings :: "review_request \<Rightarrow> review_finding list" where
  "verification_findings r =
     map verification_finding
       (filter (\<lambda>v. vr_status v \<noteq> PASSED) (rep_results (rq_verification_report r)))"

definition review_status_of :: "review_finding list \<Rightarrow> review_status" where
  "review_status_of findings =
     (if list_ex (\<lambda>f. rf_severity f = Error) findings then Changes_Required else Approved)"

definition recommendations_of :: "review_finding list \<Rightarrow> string list" where
  "recommendations_of findings =
     dedupe (filter (\<lambda>t. t \<noteq> []) (map (\<lambda>f. strip (rf_recommendation f)) findings))"

definition review_findings :: "review_request \<Rightarrow> review_finding list" where
  "review_findings n =
     architecture_findings (rq_architecture_assessments n) @ scope_findings n
     @ test_coverage_findings n @ verification_findings n
     @ map plan_risk_finding (plan_risks (rq_plan n))"

definition review :: "(path \<Rightarrow> path) \<Rightarrow> review_request \<Rightarrow> review_report res" where
  "review resolve r =
     and_then (normalize_request resolve r) (\<lambda>n.
       let findings = review_findings n in
       Inr \<lparr>rr_request_id = rq_identifier n, rr_checkpoint_id = plan_checkpoint_id (rq_plan n),
         rr_status = review_status_of findings, rr_findings = findings,
         rr_recommendations = recommendations_of findings\<rparr>)"

section \<open>Lemmas\<close>

definition strip_evidence :: "test_evidence \<Rightarrow> test_evidence" where
  "strip_evidence e = \<lparr>te_requirement = strip (te_requirement e),
     te_check_identifier = strip (te_check_identifier e)\<rparr>"

lemma normalize_evidence_item_Inr:
  "normalize_evidence_item e = Inr n \<Longrightarrow> n = strip_evidence e"
  by (auto simp: normalize_evidence_item_def Let_def strip_evidence_def split: if_splits)

lemma normalize_evidence_Inr:
  "traverse normalize_evidence_item es = Inr ns \<Longrightarrow> ns = map strip_evidence es"
  by (induction es arbitrary: ns) (auto simp: res_simps normalize_evidence_item_Inr)

lemma normalize_assessments_passed:
  "normalize_assessments ids as = Inr ns \<Longrightarrow> map aa_passed ns = map aa_passed as"
  by (induction ids as arbitrary: ns rule: normalize_assessments.induct)
     (auto simp: Let_def res_simps split: if_splits)

lemma normalize_changed_file_Inr:
  "normalize_changed_file resolve base f = Inr n \<Longrightarrow>
     n = strip_root base (resolve_working_directory resolve base f)
     \<and> relative_to base (resolve_working_directory resolve base f) \<and> n \<noteq> dot_path"
  by (auto simp: normalize_changed_file_def Let_def split: if_splits)

lemma normalize_changed_files_Inr:
  assumes "normalize_changed_files resolve base files = Inr ns"
  shows "set ns = (\<lambda>f. strip_root base (resolve_working_directory resolve base f)) ` set files"
proof -
  obtain ms where ms: "traverse (normalize_changed_file resolve base) files = Inr ms"
    and ns: "ns = dedupe ms"
    using assms by (auto simp: normalize_changed_files_def res_simps)
  from ms have "ms = map (\<lambda>f. strip_root base (resolve_working_directory resolve base f)) files"
    by (induction files arbitrary: ms) (auto simp: res_simps dest: normalize_changed_file_Inr)
  with ns show ?thesis by simp
qed

lemma results_by_identifier_Some:
  "results_by_identifier rs k = Some v \<Longrightarrow> v \<in> set rs \<and> vr_identifier v = k"
  by (auto simp: results_by_identifier_def dest!: map_of_SomeD)

text \<open>A required test is proved by exactly one mapping, to a check that passed.\<close>

definition requirement_proved :: "review_request \<Rightarrow> string \<Rightarrow> bool" where
  "requirement_proved r requirement =
     (case filter (\<lambda>e. te_requirement e = requirement) (map strip_evidence (rq_test_evidence r)) of
        [mapping] \<Rightarrow>
          (case results_by_identifier (rep_results (rq_verification_report r))
              (te_check_identifier mapping) of
            Some result \<Rightarrow> vr_status result = PASSED
          | None \<Rightarrow> False)
      | mappings \<Rightarrow> False)"

abbreviation errors :: "review_finding list \<Rightarrow> bool" where
  "errors findings \<equiv> list_ex (\<lambda>f. rf_severity f = Error) findings"

lemma errors_architecture: "errors (architecture_findings as) \<longleftrightarrow> \<not> list_all aa_passed as"
  by (auto simp: architecture_findings_def architecture_finding_def list_ex_iff list_all_iff)

lemma errors_scope:
  "errors (scope_findings r) \<longleftrightarrow>
     \<not> set (rq_changed_files r) \<subseteq> set (plan_affected_files (rq_plan r))"
  by (auto simp: scope_findings_def scope_finding_def list_ex_iff)

lemma errors_requirement:
  assumes "rq_test_evidence n = map strip_evidence (rq_test_evidence r)"
    and "rq_verification_report n = rq_verification_report r"
  shows "errors (requirement_findings n t) \<longleftrightarrow> \<not> requirement_proved r t"
  unfolding requirement_findings_def requirement_proved_def assms
  by (simp add: coverage_finding_def split: list.split option.split)

lemma errors_coverage:
  assumes "rq_test_evidence n = map strip_evidence (rq_test_evidence r)"
    and "rq_verification_report n = rq_verification_report r"
  shows "errors (test_coverage_findings n) \<longleftrightarrow>
     \<not> list_all (requirement_proved r) (plan_required_tests (rq_plan n))"
  using errors_requirement [OF assms]
  by (auto simp: test_coverage_findings_def list_ex_iff list_all_iff)

lemma errors_verification:
  "errors (verification_findings r) \<longleftrightarrow>
     \<not> list_all (\<lambda>v. vr_status v = PASSED) (rep_results (rq_verification_report r))"
  by (auto simp: verification_findings_def verification_finding_def list_ex_iff list_all_iff)

lemma no_errors_risk: "\<not> errors (map plan_risk_finding rs)"
  by (auto simp: plan_risk_finding_def list_ex_iff)

lemma review_Inr:
  "review resolve r = Inr report \<longleftrightarrow> (\<exists>n. normalize_request resolve r = Inr n
     \<and> report = \<lparr>rr_request_id = rq_identifier n,
         rr_checkpoint_id = plan_checkpoint_id (rq_plan n),
         rr_status = review_status_of (review_findings n), rr_findings = review_findings n,
         rr_recommendations = recommendations_of (review_findings n)\<rparr>)"
  by (auto simp: review_def Let_def res_simps)

lemma normalize_request_Inr:
  assumes "normalize_request resolve r = Inr n"
  shows "rq_plan n = rq_plan r \<and> rq_verification_report n = rq_verification_report r
     \<and> rq_test_evidence n = map strip_evidence (rq_test_evidence r)
     \<and> map aa_passed (rq_architecture_assessments n) = map aa_passed (rq_architecture_assessments r)
     \<and> set (rq_changed_files n) = (\<lambda>f. strip_root (resolve (plan_repository_root (rq_plan r)))
          (resolve_working_directory resolve (resolve (plan_repository_root (rq_plan r))) f))
          ` set (rq_changed_files r)"
  using assms
  by (auto simp: normalize_request_def Let_def res_simps normalize_evidence_Inr
      normalize_assessments_passed normalize_changed_files_Inr split: if_splits)

lemma list_all_map_cong:
  "map f xs = map f ys \<Longrightarrow> list_all f xs = list_all f ys"
proof (induction xs arbitrary: ys)
  case Nil
  then show ?case by simp
next
  case (Cons x xs)
  then obtain y ys' where "ys = y # ys'" by (cases ys) auto
  with Cons show ?case by auto
qed

section \<open>Properties\<close>

definition evidence_complete :: "(path \<Rightarrow> path) \<Rightarrow> review_request \<Rightarrow> bool" where
  "evidence_complete resolve r \<longleftrightarrow>
     (let base = resolve (plan_repository_root (rq_plan r)) in
      list_all aa_passed (rq_architecture_assessments r)
      \<and> list_all (\<lambda>f. strip_root base (resolve_working_directory resolve base f)
            \<in> set (plan_affected_files (rq_plan r))) (rq_changed_files r)
      \<and> list_all (requirement_proved r) (plan_required_tests (rq_plan r))
      \<and> list_all (\<lambda>v. vr_status v = PASSED) (rep_results (rq_verification_report r)))"

text \<open>
  C26. A review approves exactly on complete evidence: every architecture assessment passed,
  every changed file is in the approved plan, every required test is mapped by exactly one
  piece of evidence to a check that passed, and every verification check passed. Plan risks
  never block an approval.
\<close>

theorem review_approves_iff:
  assumes "review resolve r = Inr report"
  shows "rr_status report = Approved \<longleftrightarrow> evidence_complete resolve r"
proof -
  obtain n where n: "normalize_request resolve r = Inr n"
    and status: "rr_status report = review_status_of (review_findings n)"
    using assms by (auto simp: review_Inr)
  note facts = normalize_request_Inr [OF n]
  have passed: "list_all aa_passed (rq_architecture_assessments n)
      = list_all aa_passed (rq_architecture_assessments r)"
    by (rule list_all_map_cong) (simp add: facts)
  have "rr_status report = Approved \<longleftrightarrow> \<not> errors (review_findings n)"
    by (simp add: status review_status_of_def)
  also have "\<dots> \<longleftrightarrow> evidence_complete resolve r"
    using facts errors_coverage [of n r]
    by (simp add: review_findings_def errors_architecture errors_scope errors_verification
        no_errors_risk evidence_complete_def Let_def passed image_subset_iff list_all_iff [of _ "rq_changed_files r"]
        conj_ac)
  finally show ?thesis .
qed

definition sample_review :: review_request where
  "sample_review = \<lparr>rq_identifier = ''review'', rq_plan = planned sample_checkpoint sample_snapshot None,
     rq_changed_files = [Path False [''a'', ''b.py'']],
     rq_verification_report = \<lparr>rep_repository_root = Path True [''repo''],
       rep_results = [\<lparr>vr_identifier = ''unit'', vr_argv = [''pytest''],
         vr_working_directory = Path True [''repo''], vr_status = PASSED,
         vr_return_code = Some 0, vr_stdout = [], vr_stderr = [], vr_duration_seconds = 1,
         vr_error = None\<rparr>],
       rep_status = PASSED, rep_duration_seconds = 1, rep_context = None\<rparr>,
     rq_context = None, rq_architecture_assessments = [],
     rq_test_evidence = [\<lparr>te_requirement = '' pytest'', te_check_identifier = ''unit ''\<rparr>]\<rparr>"

lemmas sample_review_defs = sample_review_def planned_def sample_checkpoint_def
  sample_snapshot_def string_defs

lemma sample_review_complete: "evidence_complete (\<lambda>p. p) sample_review"
  by (simp add: evidence_complete_def sample_review_defs requirement_proved_def
      strip_evidence_def results_by_identifier_def resolve_working_directory_def
      join_path_def strip_root_def dedupe_def)

lemma sample_review_succeeds: "succeeds (review (\<lambda>p. p) sample_review)"
  by (simp add: review_def normalize_request_def sample_review_defs Let_def
      normalize_changed_files_def normalize_changed_file_def resolve_working_directory_def
      join_path_def strip_root_def relative_to_def dot_path_def normalize_evidence_item_def)

theorem review_approves_iff_witness:
  "\<exists>report. review (\<lambda>p. p) sample_review = Inr report \<and> rr_status report = Approved"
  using sample_review_succeeds sample_review_complete review_approves_iff
  unfolding succeeds_iff by metis

end
