(* ===== verification/Approval.thy ===== *)
theory Approval
  imports Paths Contracts
begin

text \<open>
  Human approvals of the Agent (\<open>app/approval\<close>): the immutable models, the engine that
  validates and normalises a decision, and the repository of requests and decisions. Instants
  are integers (microseconds), a path is a \<open>path\<close>, and the repository's dictionary is
  an association list in insertion order. The lock of the repository makes each of its
  methods one atomic step.
\<close>

section \<open>Models\<close>

datatype approval_status = PENDING | APPROVED | REJECTED

datatype approval_purpose =
    IMPLEMENTATION | CANDIDATE_WORKFLOW_SHELL | VERIFICATION | COMMIT | OPERATIONAL_ACTION

record verification_approval_environment =
  vae_name :: string
  vae_value_digest :: string

record verification_approval_check =
  vac_identifier :: string
  vac_command :: "string list"
  vac_working_directory :: path
  vac_timeout_seconds :: "rat option"
  vac_environment :: "verification_approval_environment list"

record commit_approval_metadata =
  cam_expected_branch :: "string option"
  cam_expected_head :: "string option"
  cam_reviewed_files :: "path list"
  cam_reviewed_content_fingerprint :: string
  cam_commit_message :: string

record operational_approval_metadata =
  oam_action_request_id :: string
  oam_action_request_digest :: string
  oam_candidate_id :: string
  oam_candidate_fingerprint :: string
  oam_operational_plan_fingerprint :: string
  oam_provider_id :: string
  oam_resource_id :: string
  oam_resource_type :: string
  oam_target_fingerprint :: string
  oam_target_version :: "string option"
  oam_operation_intent :: string
  oam_disruption_scope :: string
  oam_verification_digest :: string
  oam_generated_at :: int
  oam_expires_at :: int

definition operational_metadata_post_init ::
  "operational_approval_metadata \<Rightarrow> operational_approval_metadata res" where
  "operational_metadata_post_init m =
     (if oam_expires_at m \<le> oam_generated_at m
      then Inl (ValueError ''operational approval expiry must follow generation time'')
      else Inr m)"

record approval_request =
  ap_identifier :: string
  ap_checkpoint_id :: string
  ap_title :: string
  ap_requested_tool :: string
  ap_requested_command :: "string list"
  ap_rationale :: string
  ap_workflow_id :: "string option"
  ap_requested_working_directory :: "path option"
  ap_purpose :: approval_purpose
  ap_verification_checks :: "verification_approval_check list"
  ap_commit_metadata :: "commit_approval_metadata option"
  ap_operational_metadata :: "operational_approval_metadata option"

record approval_decision =
  ad_request :: approval_request
  ad_status :: approval_status
  ad_reviewer :: "string option"
  ad_reason :: "string option"

datatype approval_result = ApprovalResult (decision: approval_decision)

definition approved :: "approval_result \<Rightarrow> bool" where
  "approved r \<longleftrightarrow> ad_status (decision r) = APPROVED"

section \<open>The engine\<close>

fun blank_option :: "string option \<Rightarrow> bool" where
  "blank_option None = True"
| "blank_option (Some s) = (strip s = [])"

fun normalize_approval_environment ::
  "string list \<Rightarrow> verification_approval_environment list
    \<Rightarrow> verification_approval_environment list res" where
  "normalize_approval_environment names [] = Inr []"
| "normalize_approval_environment names (v # vs) =
     (let name = strip (vae_name v) in
      if name = [] \<or> name \<in> set names
      then Inl (ApprovalValidationError
        (''Verification approval environment names must be '' @ ''nonblank and unique''))
      else if \<not> is_sha256_hex (vae_value_digest v)
      then Inl (ApprovalValidationError
        (''Verification approval environment digests must be '' @ ''lowercase SHA-256 values''))
      else and_then (normalize_approval_environment (name # names) vs) (\<lambda>ns.
        Inr (\<lparr>vae_name = name, vae_value_digest = vae_value_digest v\<rparr> # ns)))"

fun normalize_approval_checks ::
  "string list \<Rightarrow> verification_approval_check list \<Rightarrow> verification_approval_check list res" where
  "normalize_approval_checks identifiers [] = Inr []"
| "normalize_approval_checks identifiers (c # cs) =
     (let identifier = strip (vac_identifier c) in
      if identifier = []
      then Inl (ApprovalValidationError ''Verification approval check identifier cannot be blank'')
      else if identifier \<in> set identifiers
      then Inl (ApprovalValidationError ''Verification approval check identifiers must be unique'')
      else if vac_command c = [] \<or> list_ex (\<lambda>a. strip a = []) (vac_command c)
      then Inl (ApprovalValidationError ''Verification approval commands must contain nonblank items'')
      else if (case vac_timeout_seconds c of None \<Rightarrow> False | Some t \<Rightarrow> t \<le> 0)
      then Inl (ApprovalValidationError ''Verification approval timeout must be positive'')
      else and_then (normalize_approval_environment [] (vac_environment c)) (\<lambda>environment.
        and_then (normalize_approval_checks (identifier # identifiers) cs) (\<lambda>rest.
        Inr (\<lparr>vac_identifier = identifier, vac_command = map strip (vac_command c),
          vac_working_directory = vac_working_directory c,
          vac_timeout_seconds = vac_timeout_seconds c, vac_environment = environment\<rparr> # rest))))"

definition normalize_verification_checks ::
  "approval_request \<Rightarrow> verification_approval_check list res" where
  "normalize_verification_checks r =
     (if ap_purpose r \<noteq> VERIFICATION
      then (if ap_verification_checks r \<noteq> []
        then Inl (ApprovalValidationError
          ''Only verification approvals may contain verification checks'')
        else Inr [])
      else if blank_option (ap_workflow_id r)
      then Inl (ApprovalValidationError ''Verification approvals require a workflow_id'')
      else if ap_verification_checks r = []
      then Inl (ApprovalValidationError ''Verification approvals require at least one check'')
      else normalize_approval_checks [] (ap_verification_checks r))"

fun normalize_reviewed_files :: "path list \<Rightarrow> path list \<Rightarrow> path list res" where
  "normalize_reviewed_files normalized [] = Inr normalized"
| "normalize_reviewed_files normalized (p # ps) =
     (if absolute p \<or> p = dot_path \<or> traverses_parent p
      then Inl (ApprovalValidationError
        ''Commit approval reviewed files must be repository-relative'')
      else if p \<in> set normalized
      then Inl (ApprovalValidationError ''Commit approval reviewed files must be unique'')
      else normalize_reviewed_files (normalized @ [p]) ps)"

definition normalize_commit_metadata ::
  "approval_request \<Rightarrow> commit_approval_metadata option res" where
  "normalize_commit_metadata r =
     (if ap_purpose r \<noteq> COMMIT
      then (if ap_commit_metadata r \<noteq> None
        then Inl (ApprovalValidationError ''Only commit approvals may contain commit metadata'')
        else Inr None)
      else if blank_option (ap_workflow_id r)
      then Inl (ApprovalValidationError ''Commit approvals require a workflow_id'')
      else if ap_verification_checks r \<noteq> []
      then Inl (ApprovalValidationError ''Commit approvals must not contain verification checks'')
      else (case ap_commit_metadata r of
        None \<Rightarrow> Inl (ApprovalValidationError ''Commit approvals require commit metadata'')
      | Some m \<Rightarrow>
        if cam_reviewed_files m = []
        then Inl (ApprovalValidationError ''Commit approval reviewed files must not be empty'')
        else and_then (normalize_reviewed_files [] (cam_reviewed_files m)) (\<lambda>files.
          if \<not> is_sha256_hex (cam_reviewed_content_fingerprint m)
          then Inl (ApprovalValidationError
            ''Commit approval fingerprints must be lowercase SHA-256 values'')
          else let message = join '' '' (words (cam_commit_message m)) in
            if message = []
            then Inl (ApprovalValidationError ''Commit approval commit message must not be blank'')
            else if message \<noteq> cam_commit_message m
            then Inl (ApprovalValidationError
              ''Commit approval commit message must already be normalized'')
            else Inr (Some \<lparr>cam_expected_branch = cam_expected_branch m,
              cam_expected_head = cam_expected_head m, cam_reviewed_files = sort files,
              cam_reviewed_content_fingerprint = cam_reviewed_content_fingerprint m,
              cam_commit_message = message\<rparr>))))"

definition operational_required_fields :: "operational_approval_metadata \<Rightarrow> string list" where
  "operational_required_fields m =
     [oam_action_request_id m, oam_action_request_digest m, oam_candidate_id m,
      oam_candidate_fingerprint m, oam_operational_plan_fingerprint m, oam_provider_id m,
      oam_resource_id m, oam_resource_type m, oam_target_fingerprint m, oam_operation_intent m,
      oam_disruption_scope m, oam_verification_digest m]"

definition normalize_operational_metadata ::
  "approval_request \<Rightarrow> operational_approval_metadata option res" where
  "normalize_operational_metadata r =
     (if ap_purpose r \<noteq> OPERATIONAL_ACTION
      then (if ap_operational_metadata r \<noteq> None
        then Inl (ApprovalValidationError
          ''Only operational action approvals may contain operational metadata'')
        else Inr None)
      else if ap_commit_metadata r \<noteq> None \<or> ap_verification_checks r \<noteq> []
      then Inl (ApprovalValidationError
        ''Operational action approvals cannot contain repository approval metadata'')
      else if ap_requested_command r \<noteq> [] \<or> ap_requested_working_directory r \<noteq> None
      then Inl (ApprovalValidationError
        ''Operational action approvals cannot contain executable fields'')
      else if blank_option (ap_workflow_id r)
      then Inl (ApprovalValidationError ''Operational action approvals require a workflow_id'')
      else (case ap_operational_metadata r of
        None \<Rightarrow> Inl (ApprovalValidationError
          ''Operational action approvals require operational metadata'')
      | Some m \<Rightarrow>
        if list_ex (\<lambda>v. strip v = []) (operational_required_fields m)
        then Inl (ApprovalValidationError ''Operational approval metadata fields must not be blank'')
        else if oam_expires_at m \<le> oam_generated_at m
        then Inl (ApprovalValidationError
          ''Operational approval expiry must follow generation time'')
        else Inr (Some m)))"

definition required_field :: "string \<Rightarrow> string \<Rightarrow> string res" where
  "required_field v message =
     (if strip v = [] then Inl (ApprovalValidationError message) else Inr (strip v))"

definition normalize_approval_request :: "approval_request \<Rightarrow> approval_request res" where
  "normalize_approval_request r =
     and_then (required_field (ap_identifier r)
       ''Approval request identifier cannot be blank'') (\<lambda>identifier.
     and_then (required_field (ap_checkpoint_id r)
       ''Approval request checkpoint_id cannot be blank'') (\<lambda>checkpoint_id.
     and_then (required_field (ap_title r) ''Approval request title cannot be blank'') (\<lambda>title.
     and_then (required_field (ap_requested_tool r)
       ''Approval request requested_tool cannot be blank'') (\<lambda>requested_tool.
     and_then (required_field (ap_rationale r)
       ''Approval request rationale cannot be blank'') (\<lambda>rationale.
     if ap_requested_command r = []
        \<and> ap_purpose r \<noteq> CANDIDATE_WORKFLOW_SHELL \<and> ap_purpose r \<noteq> OPERATIONAL_ACTION
     then Inl (ApprovalValidationError
       ''Approval request requested_command must contain at least one item'')
     else and_then (traverse (\<lambda>c. required_field c
         ''Approval request requested_command items cannot be blank'') (ap_requested_command r))
       (\<lambda>command.
     and_then (normalize_verification_checks r) (\<lambda>checks.
     and_then (normalize_commit_metadata r) (\<lambda>commit_metadata.
     and_then (normalize_operational_metadata r) (\<lambda>operational_metadata.
     Inr \<lparr>ap_identifier = identifier, ap_checkpoint_id = checkpoint_id, ap_title = title,
       ap_requested_tool = requested_tool, ap_requested_command = command,
       ap_rationale = rationale, ap_workflow_id = map_option strip (ap_workflow_id r),
       ap_requested_working_directory = ap_requested_working_directory r,
       ap_purpose = ap_purpose r, ap_verification_checks = checks,
       ap_commit_metadata = commit_metadata,
       ap_operational_metadata = operational_metadata\<rparr>)))))))))"

definition validate_decision :: "int \<Rightarrow> approval_decision \<Rightarrow> unit res" where
  "validate_decision now d = (case ad_status d of
     PENDING \<Rightarrow>
       require (ad_reviewer d = None)
         (ApprovalValidationError ''Pending decisions must not have a reviewer'')
   | APPROVED \<Rightarrow>
       and_then (require (\<not> blank_option (ad_reviewer d))
         (ApprovalValidationError ''Approved decisions must have a nonblank reviewer'')) (\<lambda>_.
       require (\<not> (ap_purpose (ad_request d) = OPERATIONAL_ACTION
           \<and> (case ap_operational_metadata (ad_request d) of
                None \<Rightarrow> False | Some m \<Rightarrow> oam_expires_at m \<le> now)))
         (ApprovalValidationError ''Operational approval request has expired''))
   | REJECTED \<Rightarrow>
       and_then (require (\<not> blank_option (ad_reviewer d))
         (ApprovalValidationError ''Rejected decisions must have a nonblank reviewer'')) (\<lambda>_.
       require (\<not> blank_option (ad_reason d))
         (ApprovalValidationError ''Rejected decisions must have a nonblank reason'')))"

definition evaluate :: "int \<Rightarrow> approval_decision \<Rightarrow> approval_result res" where
  "evaluate now d =
     and_then (normalize_approval_request (ad_request d)) (\<lambda>request.
     and_then (validate_decision now d) (\<lambda>_.
     Inr (ApprovalResult \<lparr>ad_request = request, ad_status = ad_status d,
       ad_reviewer = map_option strip (ad_reviewer d),
       ad_reason = map_option strip (ad_reason d)\<rparr>)))"

section \<open>The repository\<close>

type_synonym approval_repository = "(string \<times> approval_result) list"

definition pending_result :: "approval_request \<Rightarrow> approval_result" where
  "pending_result r =
     ApprovalResult \<lparr>ad_request = r, ad_status = PENDING, ad_reviewer = None, ad_reason = None\<rparr>"

definition export_approvals :: "approval_repository \<Rightarrow> approval_repository" where
  "export_approvals s = s"

definition replace_approvals ::
  "approval_repository \<Rightarrow> approval_repository \<Rightarrow> approval_repository" where
  "replace_approvals s snapshot = fold (\<lambda>(k, v) d. AList.update k v d) snapshot []"

definition get_request :: "approval_repository \<Rightarrow> string \<Rightarrow> approval_result option" where
  "get_request s identifier = map_of s identifier"

definition save_request :: "approval_repository \<Rightarrow> approval_request \<Rightarrow> approval_repository res" where
  "save_request s r =
     (if map_of s (ap_identifier r) \<noteq> None
      then Inl (ValueError (''Approval request already exists: '' @ ap_identifier r))
      else Inr (AList.update (ap_identifier r) (pending_result r) s))"

definition update_decision ::
  "approval_repository \<Rightarrow> string \<Rightarrow> approval_decision \<Rightarrow> bool \<times> approval_repository" where
  "update_decision s identifier d = (case map_of s identifier of
     None \<Rightarrow> (False, s)
   | Some current \<Rightarrow>
     if ad_status (decision current) \<noteq> PENDING then (False, s)
     else if ad_request d \<noteq> ad_request (decision current) then (False, s)
     else (True, AList.update identifier (ApprovalResult d) s))"

definition supersede_pending_request ::
  "approval_repository \<Rightarrow> string \<Rightarrow> approval_request \<Rightarrow> approval_request
    \<Rightarrow> bool \<times> approval_repository" where
  "supersede_pending_request s identifier expected replacement =
     (if ap_identifier replacement \<noteq> identifier then (False, s)
      else (case map_of s identifier of
        None \<Rightarrow> (False, s)
      | Some current \<Rightarrow>
        if ad_status (decision current) \<noteq> PENDING then (False, s)
        else if ad_request (decision current) \<noteq> expected then (False, s)
        else (True, AList.update identifier (pending_result replacement) s)))"

definition get_pending_requests :: "approval_repository \<Rightarrow> approval_result list" where
  "get_pending_requests s = filter (\<lambda>r. ad_status (decision r) = PENDING) (map snd s)"

section \<open>Evaluating a decision again changes nothing\<close>

lemma required_field_Inr: "required_field v m = Inr w \<longleftrightarrow> \<not> blank v \<and> w = strip v"
  by (auto simp: required_field_def blank_def)

lemma required_field_strip: "\<not> blank v \<Longrightarrow> required_field (strip v) m = Inr (strip v)"
  by (simp add: required_field_def blank_def)

lemma required_fields_stable:
  "traverse (\<lambda>c. required_field c m) cs = Inr ds \<Longrightarrow>
   traverse (\<lambda>c. required_field c m) ds = Inr ds"
  by (induction cs arbitrary: ds) (auto simp: res_simps required_field_Inr required_field_strip)

lemma normalize_approval_environment_stable:
  "normalize_approval_environment names vs = Inr ns \<Longrightarrow>
   normalize_approval_environment names ns = Inr ns"
proof (induction names vs arbitrary: ns rule: normalize_approval_environment.induct)
  case (1 names)
  then show ?case by simp
next
  case (2 names v vs)
  from 2(2) obtain rest where
    "strip (vae_name v) \<noteq> []" "strip (vae_name v) \<notin> set names"
    "is_sha256_hex (vae_value_digest v)"
    "normalize_approval_environment (strip (vae_name v) # names) vs = Inr rest"
    "ns = \<lparr>vae_name = strip (vae_name v), vae_value_digest = vae_value_digest v\<rparr> # rest"
    by (auto simp: Let_def res_simps split: if_splits)
  with 2(1) [of "strip (vae_name v)" rest] show ?case by (simp add: Let_def)
qed

lemma normalize_approval_checks_stable:
  "normalize_approval_checks ids cs = Inr ds \<Longrightarrow> normalize_approval_checks ids ds = Inr ds"
proof (induction ids cs arbitrary: ds rule: normalize_approval_checks.induct)
  case (1 ids)
  then show ?case by simp
next
  case (2 ids c cs)
  let ?id = "strip (vac_identifier c)"
  from 2(2) obtain environment rest where c:
    "?id \<noteq> []" "?id \<notin> set ids" "vac_command c \<noteq> []"
    "\<not> list_ex (\<lambda>a. strip a = []) (vac_command c)"
    "\<not> (case vac_timeout_seconds c of None \<Rightarrow> False | Some t \<Rightarrow> t \<le> 0)"
    "normalize_approval_environment [] (vac_environment c) = Inr environment"
    "normalize_approval_checks (?id # ids) cs = Inr rest"
    "ds = \<lparr>vac_identifier = ?id, vac_command = map strip (vac_command c),
       vac_working_directory = vac_working_directory c,
       vac_timeout_seconds = vac_timeout_seconds c, vac_environment = environment\<rparr> # rest"
    by (auto simp: Let_def res_simps split: if_splits)
  from c(4) have "\<not> list_ex (\<lambda>a. strip a = []) (map strip (vac_command c))"
    by (simp add: list_ex_iff)
  moreover have "normalize_approval_checks (?id # ids) rest = Inr rest"
    using c by (intro 2(1) [OF refl]) simp_all
  ultimately show ?case
    using c normalize_approval_environment_stable [OF c(6)] by (simp add: Let_def o_def)
qed

lemma normalize_reviewed_files_Inr:
  "normalize_reviewed_files u ps = Inr fs \<longleftrightarrow>
     list_all (\<lambda>p. \<not> absolute p \<and> p \<noteq> dot_path \<and> \<not> traverses_parent p) ps
     \<and> distinct ps \<and> set u \<inter> set ps = {} \<and> fs = u @ ps"
  by (induction u ps rule: normalize_reviewed_files.induct) auto

lemma normalize_verification_checks_stable:
  assumes "normalize_verification_checks r = Inr cs"
    and "ap_purpose r' = ap_purpose r" "ap_verification_checks r' = cs"
    and "ap_workflow_id r' = map_option strip (ap_workflow_id r)"
  shows "normalize_verification_checks r' = Inr cs"
proof (cases "ap_purpose r = VERIFICATION")
  case True
  with assms have "normalize_approval_checks [] (ap_verification_checks r) = Inr cs"
    and w: "\<not> blank_option (ap_workflow_id r)"
    and "ap_verification_checks r \<noteq> []"
    by (auto simp: normalize_verification_checks_def split: if_splits)
  moreover from this have "cs \<noteq> []"
    by (cases "ap_verification_checks r") (auto simp: Let_def res_simps split: if_splits)
  moreover from w have "\<not> blank_option (map_option strip (ap_workflow_id r))"
    by (cases "ap_workflow_id r") simp_all
  ultimately show ?thesis using assms True normalize_approval_checks_stable
    by (simp add: normalize_verification_checks_def)
next
  case False
  with assms show ?thesis by (auto simp: normalize_verification_checks_def split: if_splits)
qed

lemma normalize_commit_metadata_stable:
  assumes n: "normalize_commit_metadata r = Inr m"
    and p: "ap_purpose r' = ap_purpose r" and m: "ap_commit_metadata r' = m"
    and w: "ap_workflow_id r' = map_option strip (ap_workflow_id r)"
    and c: "ap_purpose r = COMMIT \<longrightarrow> ap_verification_checks r = [] \<longrightarrow> ap_verification_checks r' = []"
  shows "normalize_commit_metadata r' = Inr m"
proof (cases "ap_purpose r = COMMIT")
  case True
  with n have "\<not> blank_option (ap_workflow_id r)" and v: "ap_verification_checks r = []"
    by (auto simp: normalize_commit_metadata_def split: if_splits)
  then have b: "\<not> blank_option (ap_workflow_id r')" using w by (cases "ap_workflow_id r") simp_all
  from True n obtain k files where k: "ap_commit_metadata r = Some k" "cam_reviewed_files k \<noteq> []"
      "normalize_reviewed_files [] (cam_reviewed_files k) = Inr files"
      "is_sha256_hex (cam_reviewed_content_fingerprint k)"
      "join '' '' (words (cam_commit_message k)) \<noteq> []"
      "join '' '' (words (cam_commit_message k)) = cam_commit_message k"
      "m = Some \<lparr>cam_expected_branch = cam_expected_branch k,
              cam_expected_head = cam_expected_head k, cam_reviewed_files = sort files,
              cam_reviewed_content_fingerprint = cam_reviewed_content_fingerprint k,
              cam_commit_message = cam_commit_message k\<rparr>"
    by (auto simp: normalize_commit_metadata_def Let_def res_simps
        split: if_splits option.splits)
  then have files: "files = cam_reviewed_files k" by (simp add: normalize_reviewed_files_Inr)
  have "normalize_reviewed_files [] (sort files) = Inr (sort files)"
    using k(3) by (simp add: normalize_reviewed_files_Inr list_all_iff)
  moreover have "sort files \<noteq> []" using k(2) files by (metis set_empty set_sort)
  ultimately show ?thesis using True p m b c v k
    by (simp add: sorted_sort_id normalize_commit_metadata_def Let_def)
next
  case False
  with assms show ?thesis by (auto simp: normalize_commit_metadata_def split: if_splits)
qed

lemma normalize_operational_metadata_Inr:
  "normalize_operational_metadata r = Inr m \<longleftrightarrow>
     (if ap_purpose r \<noteq> OPERATIONAL_ACTION then ap_operational_metadata r = None \<and> m = None
      else ap_commit_metadata r = None \<and> ap_verification_checks r = []
        \<and> ap_requested_command r = [] \<and> ap_requested_working_directory r = None
        \<and> \<not> blank_option (ap_workflow_id r) \<and> m = ap_operational_metadata r
        \<and> (\<exists>k. m = Some k \<and> \<not> list_ex (\<lambda>v. strip v = []) (operational_required_fields k)
              \<and> oam_generated_at k < oam_expires_at k))"
  by (auto simp: normalize_operational_metadata_def split: option.splits)

lemma blank_option_strip [simp]: "blank_option (map_option strip w) = blank_option w"
  by (cases w) simp_all

text \<open>The request an accepted evaluation returns.\<close>

definition normalized_request ::
  "approval_request \<Rightarrow> verification_approval_check list \<Rightarrow> commit_approval_metadata option
    \<Rightarrow> approval_request" where
  "normalized_request r checks commit =
     \<lparr>ap_identifier = strip (ap_identifier r), ap_checkpoint_id = strip (ap_checkpoint_id r),
       ap_title = strip (ap_title r), ap_requested_tool = strip (ap_requested_tool r),
       ap_requested_command = map strip (ap_requested_command r),
       ap_rationale = strip (ap_rationale r), ap_workflow_id = map_option strip (ap_workflow_id r),
       ap_requested_working_directory = ap_requested_working_directory r,
       ap_purpose = ap_purpose r, ap_verification_checks = checks, ap_commit_metadata = commit,
       ap_operational_metadata = ap_operational_metadata r\<rparr>"

definition request_texts :: "approval_request \<Rightarrow> string list" where
  "request_texts r = [ap_identifier r, ap_checkpoint_id r, ap_title r, ap_requested_tool r,
     ap_rationale r] @ ap_requested_command r"

lemma required_fields_Inr:
  "traverse (\<lambda>c. required_field c m) cs = Inr ds \<longleftrightarrow>
     list_all (\<lambda>c. \<not> blank c) cs \<and> ds = map strip cs"
  by (induction cs arbitrary: ds) (auto simp: res_simps required_field_Inr)

lemma normalize_approval_request_Inr:
  "normalize_approval_request r = Inr r' \<longleftrightarrow>
     list_all (\<lambda>c. \<not> blank c) (request_texts r)
     \<and> (ap_requested_command r = [] \<longrightarrow>
          ap_purpose r = CANDIDATE_WORKFLOW_SHELL \<or> ap_purpose r = OPERATIONAL_ACTION)
     \<and> (\<exists>checks commit metadata. normalize_verification_checks r = Inr checks
          \<and> normalize_commit_metadata r = Inr commit
          \<and> normalize_operational_metadata r = Inr metadata
          \<and> r' = normalized_request r checks commit)"
proof -
  have "metadata = ap_operational_metadata r"
    if "normalize_operational_metadata r = Inr metadata" for metadata
    using that by (auto simp: normalize_operational_metadata_Inr split: if_splits)
  then show ?thesis
    unfolding normalize_approval_request_def
    by (auto simp: res_simps required_field_Inr required_fields_Inr request_texts_def
        normalized_request_def)
qed

lemma normalize_approval_request_stable:
  assumes "normalize_approval_request r = Inr r'"
  shows "normalize_approval_request r' = Inr r'"
proof -
  from assms obtain checks commit metadata where
    texts: "list_all (\<lambda>c. \<not> blank c) (request_texts r)"
    and cmd: "ap_requested_command r = [] \<Longrightarrow>
          ap_purpose r = CANDIDATE_WORKFLOW_SHELL \<or> ap_purpose r = OPERATIONAL_ACTION"
    and checks: "normalize_verification_checks r = Inr checks"
    and commit: "normalize_commit_metadata r = Inr commit"
    and metadata: "normalize_operational_metadata r = Inr metadata"
    and r': "r' = normalized_request r checks commit"
    by (auto simp: normalize_approval_request_Inr)
  have none: "checks = []" if "ap_purpose r \<noteq> VERIFICATION"
    using checks that by (auto simp: normalize_verification_checks_def split: if_splits)
  have "normalize_verification_checks r' = Inr checks"
    by (rule normalize_verification_checks_stable [OF checks])
      (simp_all add: r' normalized_request_def)
  moreover have "normalize_commit_metadata r' = Inr commit"
    by (rule normalize_commit_metadata_stable [OF commit])
      (use none in \<open>simp_all add: r' normalized_request_def\<close>)
  moreover have "commit = None" if "ap_purpose r \<noteq> COMMIT"
    using commit that by (auto simp: normalize_commit_metadata_def split: if_splits)
  with metadata none have "normalize_operational_metadata r' = Inr metadata"
    by (auto simp: normalize_operational_metadata_Inr r' normalized_request_def split: if_splits)
  moreover have "list_all (\<lambda>c. \<not> blank c) (request_texts r')"
    using texts by (simp add: request_texts_def r' normalized_request_def list_all_iff)
  moreover have "normalized_request r' checks commit = r'"
    by (simp add: r' normalized_request_def option.map_comp o_def)
  moreover have "ap_requested_command r' = [] \<longrightarrow>
      ap_purpose r' = CANDIDATE_WORKFLOW_SHELL \<or> ap_purpose r' = OPERATIONAL_ACTION"
    using cmd by (simp add: r' normalized_request_def)
  ultimately show ?thesis by (simp add: normalize_approval_request_Inr)
qed

lemma evaluate_Inr:
  "evaluate now d = Inr x \<longleftrightarrow>
     validate_decision now d = Inr () \<and>
     (\<exists>r. normalize_approval_request (ad_request d) = Inr r
        \<and> x = ApprovalResult \<lparr>ad_request = r, ad_status = ad_status d,
            ad_reviewer = map_option strip (ad_reviewer d),
            ad_reason = map_option strip (ad_reason d)\<rparr>)"
  by (auto simp: evaluate_def res_simps)

lemma normalize_approval_request_keeps:
  "normalize_approval_request r = Inr r' \<Longrightarrow>
     ap_purpose r' = ap_purpose r \<and> ap_operational_metadata r' = ap_operational_metadata r"
  by (auto simp: normalize_approval_request_Inr normalized_request_def)

lemma validate_decision_strip:
  assumes "ap_purpose r = ap_purpose (ad_request d)"
    and "ap_operational_metadata r = ap_operational_metadata (ad_request d)"
  shows "validate_decision now \<lparr>ad_request = r, ad_status = ad_status d,
            ad_reviewer = map_option strip (ad_reviewer d),
            ad_reason = map_option strip (ad_reason d)\<rparr> = validate_decision now d"
  using assms by (cases "ad_status d") (simp_all add: validate_decision_def)

text \<open>Evaluating a decision is idempotent: the decision an evaluation accepts, with its
  request normalised, its reviewer and reason stripped, is accepted again at the same instant
  and returned unchanged.\<close>

theorem evaluate_stable:
  assumes "evaluate now d = Inr x"
  shows "evaluate now (decision x) = Inr x"
proof -
  from assms obtain r where v: "validate_decision now d = Inr ()"
    and r: "normalize_approval_request (ad_request d) = Inr r"
    and x: "x = ApprovalResult \<lparr>ad_request = r, ad_status = ad_status d,
            ad_reviewer = map_option strip (ad_reviewer d),
            ad_reason = map_option strip (ad_reason d)\<rparr>"
    by (auto simp: evaluate_Inr)
  from r have "normalize_approval_request r = Inr r" by (rule normalize_approval_request_stable)
  moreover have "validate_decision now (decision x) = Inr ()"
    using v validate_decision_strip normalize_approval_request_keeps [OF r] by (simp add: x)
  ultimately show ?thesis by (simp add: evaluate_Inr x option.map_comp o_def)
qed

section \<open>What an approval certifies\<close>

text \<open>An operational action approved at \<open>now\<close>: a named reviewer, complete action
  metadata that has not expired, and nothing to execute.\<close>

definition operational_approval_sound :: "int \<Rightarrow> approval_result \<Rightarrow> bool" where
  "operational_approval_sound now x =
     (let d = decision x; r = ad_request d in
      \<not> blank_option (ad_reviewer d) \<and> \<not> blank_option (ap_workflow_id r)
      \<and> ap_requested_command r = [] \<and> ap_requested_working_directory r = None
      \<and> ap_verification_checks r = [] \<and> ap_commit_metadata r = None
      \<and> (case ap_operational_metadata r of None \<Rightarrow> False
         | Some m \<Rightarrow> now < oam_expires_at m \<and> oam_generated_at m < oam_expires_at m
             \<and> list_all (\<lambda>v. \<not> blank v) (operational_required_fields m)))"

text \<open>An approved evaluation of an operational action carries a nonblank reviewer, a
  workflow, complete unexpired operational metadata and no command, working directory,
  verification check or commit metadata.\<close>

theorem evaluate_operational_sound:
  assumes "evaluate now d = Inr x" and "approved x"
    and "ap_purpose (ad_request (decision x)) = OPERATIONAL_ACTION"
  shows "operational_approval_sound now x"
proof -
  from assms(1) obtain r where v: "validate_decision now d = Inr ()"
    and r: "normalize_approval_request (ad_request d) = Inr r"
    and x: "x = ApprovalResult \<lparr>ad_request = r, ad_status = ad_status d,
            ad_reviewer = map_option strip (ad_reviewer d),
            ad_reason = map_option strip (ad_reason d)\<rparr>"
    by (auto simp: evaluate_Inr)
  have s: "ad_status d = APPROVED" "ap_purpose (ad_request d) = OPERATIONAL_ACTION"
    using assms x normalize_approval_request_keeps [OF r] by (simp_all add: approved_def)
  from r s(2) obtain k where "\<not> blank_option (ap_workflow_id (ad_request d))"
    and k: "ap_operational_metadata (ad_request d) = Some k"
      "\<not> list_ex (\<lambda>v. strip v = []) (operational_required_fields k)"
      "oam_generated_at k < oam_expires_at k"
      "ap_requested_command (ad_request d) = []"
      "ap_requested_working_directory (ad_request d) = None"
      "ap_verification_checks r = []" "ap_commit_metadata r = None"
      "ap_workflow_id r = map_option strip (ap_workflow_id (ad_request d))"
    by (auto simp: normalize_approval_request_Inr normalize_operational_metadata_Inr
        normalize_verification_checks_def normalize_commit_metadata_def normalized_request_def
        split: if_splits)
  moreover have "now < oam_expires_at k" "\<not> blank_option (ad_reviewer d)"
    using v s k(1) by (simp_all add: validate_decision_def res_simps)
  moreover have "ap_requested_command r = []" "ap_requested_working_directory r = None"
      "ap_operational_metadata r = Some k"
    using r k by (auto simp: normalize_approval_request_Inr normalized_request_def)
  moreover have "list_all (\<lambda>v. \<not> blank v) (operational_required_fields k)"
    using k(2) by (auto simp: list_all_iff list_ex_iff blank_def)
  ultimately show ?thesis by (simp add: operational_approval_sound_def Let_def x)
qed

definition sample_operational_metadata :: operational_approval_metadata where
  "sample_operational_metadata =
     \<lparr>oam_action_request_id = ''r1'', oam_action_request_digest = ''d'', oam_candidate_id = ''c'',
      oam_candidate_fingerprint = ''f'', oam_operational_plan_fingerprint = ''p'',
      oam_provider_id = ''unraid'', oam_resource_id = ''plex'', oam_resource_type = ''container'',
      oam_target_fingerprint = ''t'', oam_target_version = None, oam_operation_intent = ''restart'',
      oam_disruption_scope = ''service'', oam_verification_digest = ''v'',
      oam_generated_at = 10, oam_expires_at = 100\<rparr>"

definition sample_operational_request :: approval_request where
  "sample_operational_request =
     \<lparr>ap_identifier = '' a1 '', ap_checkpoint_id = ''k'', ap_title = ''t'',
      ap_requested_tool = ''core'', ap_requested_command = [], ap_rationale = ''why'',
      ap_workflow_id = Some ''w'', ap_requested_working_directory = None,
      ap_purpose = OPERATIONAL_ACTION, ap_verification_checks = [], ap_commit_metadata = None,
      ap_operational_metadata = Some sample_operational_metadata\<rparr>"

definition sample_approval :: approval_decision where
  "sample_approval = \<lparr>ad_request = sample_operational_request, ad_status = APPROVED,
     ad_reviewer = Some '' ann '', ad_reason = None\<rparr>"

definition sample_approved_result :: approval_result where
  "sample_approved_result = ApprovalResult
     \<lparr>ad_request = sample_operational_request\<lparr>ap_identifier := ''a1''\<rparr>, ad_status = APPROVED,
      ad_reviewer = Some ''ann'', ad_reason = None\<rparr>"

lemma sample_approval_evaluated: "evaluate 50 sample_approval = Inr sample_approved_result"
proof -
  have "normalize_operational_metadata sample_operational_request
      = Inr (Some sample_operational_metadata)"
    by (simp add: normalize_operational_metadata_def sample_operational_request_def
        sample_operational_metadata_def operational_required_fields_def string_defs)
  then show ?thesis
    by (simp add: evaluate_Inr validate_decision_def normalize_approval_request_Inr
        sample_approval_def sample_approved_result_def sample_operational_request_def
        sample_operational_metadata_def request_texts_def normalized_request_def
        normalize_verification_checks_def normalize_commit_metadata_def string_defs)
qed

theorem evaluate_stable_witness:
  "evaluate 50 (decision sample_approved_result) = Inr sample_approved_result"
  by (rule evaluate_stable [OF sample_approval_evaluated])

theorem evaluate_operational_sound_witness: "operational_approval_sound 50 sample_approved_result"
  by (rule evaluate_operational_sound [OF sample_approval_evaluated])
    (simp_all add: approved_def sample_approved_result_def sample_operational_request_def)

section \<open>The repository keeps every decision\<close>

lemma map_of_save_request:
  "save_request s r = Inr s' \<Longrightarrow> map_of s' = (map_of s)(ap_identifier r \<mapsto> pending_result r)"
  by (auto simp: save_request_def update_conv' split: if_splits)

interpretation approvals: keyed_store get_request save_request ap_identifier pending_result
proof
  fix s and r :: approval_request
  assume "get_request s (ap_identifier r) \<noteq> None"
  then show "\<not> succeeds (save_request s r)" by (simp add: get_request_def save_request_def)
next
  fix s r s'
  assume "save_request s r = Inr s'"
  then show "get_request s' = (get_request s)(ap_identifier r \<mapsto> pending_result r)"
    by (simp add: get_request_def [abs_def] map_of_save_request)
qed

datatype approval_op =
    SaveRequest approval_request
  | UpdateDecision string approval_decision
  | SupersedePending string approval_request approval_request

fun approval_step :: "approval_repository \<Rightarrow> approval_op \<Rightarrow> approval_repository" where
  "approval_step s (SaveRequest r) = (case save_request s r of Inl e \<Rightarrow> s | Inr s' \<Rightarrow> s')"
| "approval_step s (UpdateDecision identifier d) = snd (update_decision s identifier d)"
| "approval_step s (SupersedePending identifier expected replacement) =
     snd (supersede_pending_request s identifier expected replacement)"

text \<open>Every request is stored under its own identifier, and the identifiers are distinct.\<close>

definition repository_valid :: "approval_repository \<Rightarrow> bool" where
  "repository_valid s \<longleftrightarrow> distinct (map fst s)
     \<and> list_all (\<lambda>(k, x). ap_identifier (ad_request (decision x)) = k) s"

definition decided :: "approval_repository \<Rightarrow> string \<Rightarrow> approval_result option" where
  "decided s identifier = (case get_request s identifier of
     None \<Rightarrow> None
   | Some x \<Rightarrow> if ad_status (decision x) = PENDING then None else Some x)"

text \<open>The call returns \<open>True\<close> for a final decision on \<open>identifier\<close>.\<close>

fun decides :: "approval_repository \<Rightarrow> approval_op \<Rightarrow> string \<Rightarrow> bool" where
  "decides s (UpdateDecision identifier d) k =
     (k = identifier \<and> fst (update_decision s identifier d) \<and> ad_status d \<noteq> PENDING)"
| "decides s _ k = False"

lemma repository_valid_alt:
  "repository_valid s \<longleftrightarrow> distinct (map fst s)
     \<and> (\<forall>k x. map_of s k = Some x \<longrightarrow> ap_identifier (ad_request (decision x)) = k)"
  by (auto simp: repository_valid_def list_all_iff dest: map_of_SomeD)

lemma repository_valid_update:
  "repository_valid s \<Longrightarrow> ap_identifier (ad_request (decision x)) = k \<Longrightarrow>
   repository_valid (AList.update k x s)"
  by (auto simp: repository_valid_alt update_conv' distinct_update split: if_splits)

lemma approval_step_valid:
  assumes "repository_valid s"
  shows "repository_valid (approval_step s op)"
proof (cases op)
  case (SaveRequest r)
  with assms show ?thesis
    by (auto simp: save_request_def pending_result_def intro!: repository_valid_update
        split: sum.splits if_splits)
next
  case (UpdateDecision k d)
  have "ap_identifier (ad_request (decision x)) = k" if "map_of s k = Some x" for x
    using assms that by (simp add: repository_valid_alt)
  with UpdateDecision assms show ?thesis
    by (auto simp: update_decision_def intro!: repository_valid_update split: option.splits)
next
  case (SupersedePending k e r)
  with assms show ?thesis
    by (auto simp: supersede_pending_request_def pending_result_def
        intro!: repository_valid_update split: option.splits)
qed

lemma approval_step_decided:
  "decided s k = Some x \<Longrightarrow> decided (approval_step s op) k = Some x"
  by (cases op) (auto simp: decided_def get_request_def save_request_def update_decision_def
      supersede_pending_request_def update_conv' split: option.splits if_splits sum.splits)

interpretation decisions: one_shot approval_step repository_valid decided decides
proof
  fix s op k
  assume "decides s op k"
  then obtain d where op: "op = UpdateDecision k d" "fst (update_decision s k d)"
      "ad_status d \<noteq> PENDING"
    by (cases op) auto
  then show "decided s k = None"
    by (auto simp: decided_def get_request_def update_decision_def split: option.splits if_splits)
  show "decided (approval_step s op) k \<noteq> None"
    using op by (auto simp: decided_def get_request_def update_decision_def update_conv'
        split: option.splits if_splits)
qed (simp_all add: approval_step_valid approval_step_decided)

text \<open>Whatever requests are saved, decided or superseded afterwards, a decided approval
  is returned unchanged: a terminal decision, with the exact request it was made for, is
  never overwritten.\<close>

theorem decided_approval_immutable:
  assumes "repository_valid s" and "decided s identifier = Some x"
  shows "get_request (foldl approval_step s ops) identifier = Some x"
proof -
  have "decided (foldl approval_step s ops) identifier = Some x"
    by (rule decisions.slot_run [OF assms])
  then show ?thesis by (auto simp: decided_def split: option.splits if_splits)
qed

text \<open>In any sequence of calls on a fresh repository at most one final decision on an
  identifier is accepted, and every request stays filed under its own identifier.\<close>

theorem decided_at_most_once:
  "grant_count approval_step decides [] ops identifier \<le> 1
   \<and> repository_valid (foldl approval_step [] ops)"
proof -
  have "repository_valid []" by (simp add: repository_valid_def)
  then show ?thesis using decisions.granted_at_most_once decisions.inv_run by blast
qed

definition sample_request_2 :: approval_request where
  "sample_request_2 = sample_operational_request\<lparr>ap_identifier := ''a2''\<rparr>"

definition sample_repository :: approval_repository where
  "sample_repository = foldl approval_step []
     [SaveRequest sample_request_2,
      UpdateDecision ''a2'' (sample_approval\<lparr>ad_request := sample_request_2\<rparr>)]"

lemma sample_repository_eq:
  "sample_repository =
     [(''a2'', ApprovalResult (sample_approval\<lparr>ad_request := sample_request_2\<rparr>))]"
  by (simp add: sample_repository_def save_request_def update_decision_def pending_result_def
      sample_approval_def sample_request_2_def)

theorem decided_approval_immutable_witness:
  "get_request (foldl approval_step sample_repository
      [UpdateDecision ''a2'' (sample_approval\<lparr>ad_request := sample_request_2,
          ad_status := REJECTED, ad_reason := Some ''no''\<rparr>),
       SupersedePending ''a2'' sample_request_2 sample_request_2]) ''a2''
   = Some (ApprovalResult (sample_approval\<lparr>ad_request := sample_request_2\<rparr>))"
  by (rule decided_approval_immutable)
    (simp_all add: sample_repository_eq repository_valid_def decided_def get_request_def
      sample_approval_def sample_request_2_def sample_operational_request_def)

end
