(* ===== verification/Digest.thy ===== *)
theory Digest
  imports Prelude "HOL-Library.Word"
begin

text \<open>
  The digests both services compute over canonical JSON:
  \<open>hashlib.sha256(json.dumps(payload, sort_keys=True, separators=(",", ":"),
  ensure_ascii=False).encode()).hexdigest()\<close>. SHA-256 is the concrete function of the
  standard on 32-bit words. JSON values are those the digested payloads contain. The lemmas
  show that rendering is injective, so that a digest's pre-image determines the payload.
\<close>

unbundle bit_operations_syntax

section \<open>SHA-256\<close>

type_synonym byte = "8 word"

text \<open>The constants are the first 32 bits of the fractional parts of the cube roots of the
  first 64 primes and of the square roots of the first eight.\<close>

definition prime_number :: "nat \<Rightarrow> bool" where
  "prime_number n \<longleftrightarrow> 2 \<le> n \<and> list_all (\<lambda>d. n mod d \<noteq> 0) [2..<n]"

primrec root_bits :: "nat \<Rightarrow> nat \<Rightarrow> nat \<Rightarrow> nat \<Rightarrow> nat" where
  "root_bits k n 0 x = x"
| "root_bits k n (Suc b) x = root_bits k n b (if (x + 2 ^ b) ^ k \<le> n then x + 2 ^ b else x)"

text \<open>The integer \<open>k\<close>-th root of a number whose root has at most 40 bits.\<close>

definition int_root :: "nat \<Rightarrow> nat \<Rightarrow> nat" where
  "int_root k n = root_bits k n 40 0"

definition root_fraction :: "nat \<Rightarrow> nat \<Rightarrow> 32 word" where
  "root_fraction k p = word_of_nat (int_root k (p * (2 ^ 32) ^ k))"

definition sha256_round_constants :: "32 word list" where
  "sha256_round_constants = map (root_fraction 3) (filter prime_number [2..<312])"

definition sha256_initial :: "32 word list" where
  "sha256_initial = map (root_fraction 2) [2, 3, 5, 7, 11, 13, 17, 19]"

definition small_sigma0 :: "32 word \<Rightarrow> 32 word" where
  "small_sigma0 x = word_rotr 7 x XOR word_rotr 18 x XOR drop_bit 3 x"

definition small_sigma1 :: "32 word \<Rightarrow> 32 word" where
  "small_sigma1 x = word_rotr 17 x XOR word_rotr 19 x XOR drop_bit 10 x"

definition big_sigma0 :: "32 word \<Rightarrow> 32 word" where
  "big_sigma0 x = word_rotr 2 x XOR word_rotr 13 x XOR word_rotr 22 x"

definition big_sigma1 :: "32 word \<Rightarrow> 32 word" where
  "big_sigma1 x = word_rotr 6 x XOR word_rotr 11 x XOR word_rotr 25 x"

primrec extend_schedule :: "nat \<Rightarrow> 32 word list \<Rightarrow> 32 word list" where
  "extend_schedule 0 ws = ws"
| "extend_schedule (Suc n) ws = (let t = length ws in
     extend_schedule n (ws @ [small_sigma1 (ws ! (t - 2)) + ws ! (t - 7)
       + small_sigma0 (ws ! (t - 15)) + ws ! (t - 16)]))"

fun sha256_round :: "32 word list \<Rightarrow> 32 word \<times> 32 word \<Rightarrow> 32 word list" where
  "sha256_round [a, b, c, d, e, f, g, h] (k, w) =
     (let t1 = h + big_sigma1 e + ((e AND f) XOR (NOT e AND g)) + k + w;
          t2 = big_sigma0 a + ((a AND b) XOR (a AND c) XOR (b AND c))
      in [t1 + t2, a, b, c, d + t1, e, f, g])"
| "sha256_round s kw = s"

definition word_of_bytes :: "byte list \<Rightarrow> 32 word" where
  "word_of_bytes bs = foldl (\<lambda>w b. push_bit 8 w OR ucast b) 0 bs"

fun block_words :: "byte list \<Rightarrow> 32 word list" where
  "block_words (a # b # c # d # bs) = word_of_bytes [a, b, c, d] # block_words bs"
| "block_words bs = []"

definition sha256_compress :: "32 word list \<Rightarrow> byte list \<Rightarrow> 32 word list" where
  "sha256_compress state block =
     (let w = extend_schedule 48 (block_words block);
          after = foldl sha256_round state (zip sha256_round_constants w)
      in map (\<lambda>(x, y). x + y) (zip state after))"

fun sha256_blocks :: "byte list \<Rightarrow> byte list list" where
  "sha256_blocks bs = (if bs = [] then [] else take 64 bs # sha256_blocks (drop 64 bs))"

declare sha256_blocks.simps [simp del]

definition length_bytes :: "nat \<Rightarrow> byte list" where
  "length_bytes n = map (\<lambda>i. word_of_nat (n div 256 ^ i)) [7, 6, 5, 4, 3, 2, 1, 0]"

definition sha256_pad :: "byte list \<Rightarrow> byte list" where
  "sha256_pad m = m @ [0x80] @ replicate ((119 - length m mod 64) mod 64) 0
     @ length_bytes (8 * length m)"

definition sha256 :: "byte list \<Rightarrow> 32 word list" where
  "sha256 m = foldl sha256_compress sha256_initial (sha256_blocks (sha256_pad m))"

definition hex_digit :: "nat \<Rightarrow> char" where
  "hex_digit n = char_of (if n < 10 then 48 + n else 87 + n)"

definition hex_word :: "32 word \<Rightarrow> string" where
  "hex_word w = map (\<lambda>i. hex_digit (unat w div 16 ^ i mod 16)) [7, 6, 5, 4, 3, 2, 1, 0]"

definition sha256_hexdigest :: "byte list \<Rightarrow> string" where
  "sha256_hexdigest m = concat (map hex_word (sha256 m))"

section \<open>UTF-8\<close>

definition utf8_char :: "char \<Rightarrow> byte list" where
  "utf8_char c = (let n = of_char c :: nat in
     if n < 128 then [word_of_nat n] else [word_of_nat (192 + n div 64), word_of_nat (128 + n mod 64)])"

definition utf8 :: "string \<Rightarrow> byte list" where
  "utf8 s = concat (map utf8_char s)"

section \<open>Canonical JSON\<close>

text \<open>A number is kept as the text \<open>json.dumps\<close> writes for it.\<close>

datatype json = JNull | JBool bool | JNum string | JStr string | JArr "json list"
  | JObj "(string \<times> json) list"

text \<open>The escapes of \<open>json.dumps\<close> with \<open>ensure_ascii=False\<close>.\<close>

definition escape_char :: "char \<Rightarrow> string" where
  "escape_char c =
     (if c = CHR 0x22 then [CHR 0x5C, CHR 0x22]
      else if c = CHR 0x5C then [CHR 0x5C, CHR 0x5C]
      else if c = CHR 0x0A then [CHR 0x5C, CHR ''n'']
      else if c = CHR 0x0D then [CHR 0x5C, CHR ''r'']
      else if c = CHR 0x09 then [CHR 0x5C, CHR ''t'']
      else if c = CHR 0x0C then [CHR 0x5C, CHR ''f'']
      else if c = CHR 0x08 then [CHR 0x5C, CHR ''b'']
      else let n = of_char c :: nat in
        if n < 32 then [CHR 0x5C] @ ''u00'' @ [hex_digit (n div 16), hex_digit (n mod 16)]
        else [c])"

text \<open>The escapes with \<open>ensure_ascii=True\<close>, which also cover everything above
  the tilde.\<close>

definition escape_ascii :: "char \<Rightarrow> string" where
  "escape_ascii c = (let n = of_char c :: nat in
     if n < 127 then escape_char c
     else [CHR 0x5C] @ ''u00'' @ [hex_digit (n div 16), hex_digit (n mod 16)])"

definition quote :: "(char \<Rightarrow> string) \<Rightarrow> string \<Rightarrow> string" where
  "quote esc s = [CHR 0x22] @ concat (map esc s) @ [CHR 0x22]"

fun render :: "(char \<Rightarrow> string) \<Rightarrow> json \<Rightarrow> string"
  and render_items :: "(char \<Rightarrow> string) \<Rightarrow> json list \<Rightarrow> string"
  and render_members :: "(char \<Rightarrow> string) \<Rightarrow> (string \<times> json) list \<Rightarrow> string" where
  "render esc JNull = ''null''"
| "render esc (JBool b) = (if b then ''true'' else ''false'')"
| "render esc (JNum t) = t"
| "render esc (JStr s) = quote esc s"
| "render esc (JArr xs) = ''['' @ render_items esc xs"
| "render esc (JObj kvs) = ''{'' @ render_members esc kvs"
| "render_items esc [] = '']''"
| "render_items esc [x] = render esc x @ '']''"
| "render_items esc (x # y # xs) = render esc x @ '','' @ render_items esc (y # xs)"
| "render_members esc [] = ''}''"
| "render_members esc [(k, v)] = quote esc k @ '':'' @ render esc v @ ''}''"
| "render_members esc ((k, v) # kv # kvs) =
     quote esc k @ '':'' @ render esc v @ '','' @ render_members esc (kv # kvs)"

fun sort_keys :: "json \<Rightarrow> json" where
  "sort_keys (JArr xs) = JArr (map sort_keys xs)"
| "sort_keys (JObj kvs) = JObj (sort_key fst (map (\<lambda>(k, v). (k, sort_keys v)) kvs))"
| "sort_keys v = v"

definition dumps :: "json \<Rightarrow> string" where
  "dumps v = render escape_char (sort_keys v)"

definition dumps_ascii :: "json \<Rightarrow> string" where
  "dumps_ascii v = render escape_ascii (sort_keys v)"

fun json_text :: "string option \<Rightarrow> json" where
  "json_text None = JNull"
| "json_text (Some s) = JStr s"

section \<open>A rendering determines its value\<close>

lemma hex_digit_lower_hex: "n < 16 \<Longrightarrow> is_lower_hex (hex_digit n)"
  by (auto simp: is_lower_hex_def in_range_def hex_digit_def)

lemma inj_hex_digit: "m < 16 \<Longrightarrow> n < 16 \<Longrightarrow> hex_digit m = hex_digit n \<Longrightarrow> m = n"
  by (drule arg_cong [where f = "of_char :: char \<Rightarrow> nat"])
    (auto simp: hex_digit_def split: if_splits)

definition number_char :: "char \<Rightarrow> bool" where
  "number_char c \<longleftrightarrow> in_range CHR ''0'' CHR ''9'' c \<or> c \<in> set ''-+.eE''"

definition numeric :: "string \<Rightarrow> bool" where
  "numeric t \<longleftrightarrow> t \<noteq> [] \<and> list_all number_char t"

definition delimited :: "string \<Rightarrow> bool" where
  "delimited r \<longleftrightarrow> r = [] \<or> \<not> number_char (hd r)"

fun numbers :: "json \<Rightarrow> bool" where
  "numbers (JNum t) = numeric t"
| "numbers (JArr xs) = list_all numbers xs"
| "numbers (JObj kvs) = list_all (\<lambda>(k, v). numbers v) kvs"
| "numbers v = True"

lemma numeric_prefix:
  assumes "numeric t" "numeric u" "delimited r" "delimited s" "t @ r = u @ s"
  shows "t = u \<and> r = s"
proof -
  have "takeWhile number_char (x @ y) = x" if "numeric x" "delimited y" for x y
    using that by (cases y) (simp_all add: numeric_def delimited_def list_all_iff)
  then have "t = u" using assms by metis
  then show ?thesis using assms(5) by simp
qed

definition value_starts :: "char set" where
  "value_starts = {CHR ''n'', CHR ''t'', CHR ''f'', CHR 0x22, CHR ''['', CHR ''{''} \<union> {c. number_char c}"

definition opens_value :: "string \<Rightarrow> bool" where
  "opens_value s \<longleftrightarrow> s \<noteq> [] \<and> hd s \<in> value_starts"

lemma delimiters [simp]:
  "c \<in> set '',]}'' \<Longrightarrow> c \<notin> value_starts"
  "delimited ([c] @ r) \<longleftrightarrow> \<not> number_char c" "delimited (c # r) \<longleftrightarrow> \<not> number_char c"
  "\<not> number_char CHR ''n''" "\<not> number_char CHR ''t''" "\<not> number_char CHR ''f''"
  "\<not> number_char CHR 0x22" "\<not> number_char CHR ''[''" "\<not> number_char CHR ''{''"
  "\<not> number_char CHR '']''" "\<not> number_char CHR ''}''" "\<not> number_char CHR '',''"
  by (auto simp: value_starts_def delimited_def number_char_def in_range_def)

lemma hex_byte_inject:
  assumes "hex_digit (m div 16) = hex_digit (n div 16)" "hex_digit (m mod 16) = hex_digit (n mod 16)"
    and "m < 256" "n < 256"
  shows "m = n"
proof -
  have "m div 16 < 16" "n div 16 < 16" using assms by (simp_all add: less_mult_imp_div_less)
  then have "m div 16 = n div 16" "m mod 16 = n mod 16"
    using assms by (auto intro!: inj_hex_digit)
  then show ?thesis by (metis div_mult_mod_eq)
qed

lemma of_char_less [simp]: "(of_char c :: nat) < 256"
  by (simp add: of_char_def)

lemma escape_char_prefix:
  assumes "escape_char c @ r = escape_char d @ s"
  shows "c = d \<and> r = s"
  using assms hex_byte_inject [of "of_char c" "of_char d"] unfolding escape_char_def Let_def
  by (simp split: if_split_asm)

lemma escape_char_start: "escape_char c @ r \<noteq> CHR 0x22 # s"
  by (simp add: escape_char_def Let_def)

lemma escape_ascii_prefix:
  assumes "escape_ascii c @ r = escape_ascii d @ s"
  shows "c = d \<and> r = s"
proof -
  have low: "(of_char c :: nat) < 127 \<Longrightarrow> escape_char c @ r \<noteq>
      [CHR 0x5C] @ ''u00'' @ [hex_digit (n div 16), hex_digit (n mod 16)] @ s"
    if "127 \<le> n" "n < 256" for c r s n
    using hex_byte_inject [of "of_char c" n] that
    by (auto simp: escape_char_def Let_def)
  show ?thesis
  proof (cases "(of_char c :: nat) < 127 \<longleftrightarrow> (of_char d :: nat) < 127")
    case True
    then show ?thesis
      using assms escape_char_prefix [of c r d s] hex_byte_inject [of "of_char c" "of_char d"]
      by (auto simp: escape_ascii_def Let_def split: if_split_asm)
  next
    case False
    then show ?thesis
      using assms low [of "of_char d" c r s] low [of "of_char c" d s r]
      by (auto simp: escape_ascii_def Let_def split: if_split_asm)
  qed
qed

lemma escape_ascii_start: "escape_ascii c @ r \<noteq> CHR 0x22 # s"
  using escape_char_start [of c r s] by (simp add: escape_ascii_def Let_def)

text \<open>Escapes that can be read back: the escaped characters of a string cannot be confused with
  each other nor with the closing quote.\<close>

locale escaping =
  fixes esc :: "char \<Rightarrow> string"
  assumes esc_prefix: "esc c @ r = esc d @ s \<Longrightarrow> c = d \<and> r = s"
    and esc_start: "esc c @ r \<noteq> CHR 0x22 # s"
begin

lemma escaped_prefix:
  "concat (map esc s) @ CHR 0x22 # r = concat (map esc t) @ CHR 0x22 # u \<Longrightarrow>
   s = t \<and> r = u"
proof (induction s arbitrary: t)
  case Nil
  then show ?case
    using esc_start [of "hd t" "concat (map esc (tl t)) @ CHR 0x22 # u" r]
    by (cases t) auto
next
  case (Cons c s)
  show ?case
  proof (cases t)
    case Nil
    with Cons.prems show ?thesis
      using esc_start [of c "concat (map esc s) @ CHR 0x22 # r" u] by simp
  next
    case t: (Cons d t')
    with Cons.prems have "esc c @ (concat (map esc s) @ CHR 0x22 # r)
        = esc d @ (concat (map esc t') @ CHR 0x22 # u)" by simp
    from esc_prefix [OF this] Cons.IH [of t'] t show ?thesis by simp
  qed
qed

lemma quote_prefix: "quote esc s @ r = quote esc t @ u \<longleftrightarrow> s = t \<and> r = u"
  using escaped_prefix [of s r t u] by (auto simp: quote_def)

lemma render_opens: "numbers v \<Longrightarrow> opens_value (render esc v)"
  by (cases v) (auto simp: opens_value_def value_starts_def quote_def numeric_def list_all_iff)

lemma render_start:
  "numbers v \<Longrightarrow> c \<notin> value_starts \<Longrightarrow> render esc v @ r \<noteq> c # s"
  "numbers v \<Longrightarrow> c \<notin> value_starts \<Longrightarrow> c # s \<noteq> render esc v @ r"
  using render_opens [of v] by (cases "render esc v"; auto simp: opens_value_def)+

lemma render_items_Cons:
  "render_items esc (x # xs) = render esc x @ (if xs = [] then '']'' else '','' @ render_items esc xs)"
  by (cases xs) simp_all

lemma render_members_Cons:
  "render_members esc (kv # kvs) = quote esc (fst kv) @ '':'' @ render esc (snd kv)
     @ (if kvs = [] then ''}'' else '','' @ render_members esc kvs)"
  by (cases kv; cases kvs) auto

lemmas render_induct = render_render_items_render_members.induct
  [where P = "\<lambda>_. P" and Q = "\<lambda>_. Q" and R = "\<lambda>_. R" for P Q R]

lemma number_start:
  "numeric t \<Longrightarrow> \<not> number_char c \<Longrightarrow> t @ r \<noteq> c # s"
  "numeric t \<Longrightarrow> \<not> number_char c \<Longrightarrow> c # s \<noteq> t @ r"
  by (cases t; auto simp: numeric_def)+

lemma render_prefix:
  "render esc v @ r = render esc w @ s \<Longrightarrow> numbers v \<Longrightarrow> numbers w \<Longrightarrow>
     delimited r \<Longrightarrow> delimited s \<Longrightarrow> v = w \<and> r = s"
  "render_items esc vs @ r = render_items esc ws @ s \<Longrightarrow>
     list_all numbers vs \<Longrightarrow> list_all numbers ws \<Longrightarrow> vs = ws \<and> r = s"
  "render_members esc kvs @ r = render_members esc kws @ s \<Longrightarrow>
     list_all (\<lambda>(k, v). numbers v) kvs \<Longrightarrow> list_all (\<lambda>(k, v). numbers v) kws \<Longrightarrow>
     kvs = kws \<and> r = s"
proof (induction v and vs and kvs arbitrary: w r s and ws r s and kws r s
    rule: render_induct)
  case (1 e w r s)
  then show ?case by (cases w) (auto simp: quote_def number_start split: if_splits)
next
  case (2 e b w r s)
  then show ?case by (cases w) (auto simp: quote_def number_start split: if_splits)
next
  case (3 e t w r s)
  show ?case
  proof (cases w)
    case (JNum u)
    with 3 show ?thesis using numeric_prefix [of t u r s] by simp
  qed (use 3 in \<open>simp_all add: quote_def number_start split: if_splits\<close>)
next
  case (4 e v w r s)
  then show ?case
    by (cases w) (simp_all add: quote_prefix,
        simp_all add: quote_def number_start split: if_splits)
next
  case (5 e xs w r s)
  show ?case
  proof (cases w)
    case (JArr ws)
    with 5(2-) show ?thesis using 5(1) [of r ws s] by simp
  qed (use 5(2-) in \<open>simp_all add: quote_def number_start split: if_splits\<close>)
next
  case (6 e kvs w r s)
  show ?case
  proof (cases w)
    case (JObj kws)
    with 6(2-) show ?thesis using 6(1) [of r kws s] by simp
  qed (use 6(2-) in \<open>simp_all add: quote_def number_start split: if_splits\<close>)
next
  case (7 e ws r s)
  then show ?case by (cases ws) (auto simp: render_items_Cons render_start)
next
  case (8 e x ws r s)
  show ?case
  proof (cases ws)
    case Nil
    with 8(2-) show ?thesis by (simp add: render_start)
  next
    case (Cons w ws')
    let ?r = "'']'' @ r" and ?s = "if ws' = [] then '']'' @ s else '','' @ render_items esc ws' @ s"
    have "render esc x @ ?r = render esc w @ ?s"
      using 8(2) Cons by (simp add: render_items_Cons [of w ws'] split: if_splits)
    then have "x = w \<and> ?r = ?s" by (rule 8(1)) (use 8(3-) Cons in simp_all)
    then show ?thesis using Cons by (simp split: if_splits)
  qed
next
  case (9 e x y xs ws r s)
  show ?case
  proof (cases ws)
    case Nil
    with 9(3-) show ?thesis by (simp add: render_start)
  next
    case (Cons w ws')
    let ?r = "'','' @ render_items esc (y # xs) @ r"
      and ?s = "if ws' = [] then '']'' @ s else '','' @ render_items esc ws' @ s"
    have "render esc x @ ?r = render esc w @ ?s"
      using 9(3) Cons by (simp add: render_items_Cons [of w ws'] split: if_splits)
    then have "x = w \<and> ?r = ?s" by (rule 9(1)) (use 9(4-) Cons in simp_all)
    then show ?thesis using Cons 9(2) [of r ws' s] 9(4-) by (simp split: if_splits)
  qed
next
  case (10 e kws r s)
  then show ?case by (cases kws) (auto simp: render_members_Cons quote_def)
next
  case (11 e k v kws r s)
  show ?case
  proof (cases kws)
    case Nil
    with 11(2-) show ?thesis by (simp add: quote_def)
  next
    case (Cons w kws')
    let ?r = "''}'' @ r"
      and ?s = "if kws' = [] then ''}'' @ s else '','' @ render_members esc kws' @ s"
    have "k = fst w" "render esc v @ ?r = render esc (snd w) @ ?s"
      using 11(2) Cons by (simp_all add: render_members_Cons [of w kws'] quote_prefix split: if_splits)
    moreover from this(2) have "v = snd w \<and> ?r = ?s"
      by (rule 11(1)) (use 11(3-) Cons in \<open>auto simp: case_prod_unfold\<close>)
    ultimately show ?thesis using Cons by (simp split: if_splits)
  qed
next
  case (12 e k v kv kvs kws r s)
  show ?case
  proof (cases kws)
    case Nil
    with 12(3-) show ?thesis by (simp add: quote_def)
  next
    case (Cons w kws')
    let ?r = "'','' @ render_members esc (kv # kvs) @ r"
      and ?s = "if kws' = [] then ''}'' @ s else '','' @ render_members esc kws' @ s"
    have "k = fst w" "render esc v @ ?r = render esc (snd w) @ ?s"
      using 12(3) Cons by (simp_all add: render_members_Cons [of w kws'] quote_prefix split: if_splits)
    moreover from this(2) have "v = snd w \<and> ?r = ?s"
      by (rule 12(1)) (use 12(4-) Cons in \<open>auto simp: case_prod_unfold\<close>)
    ultimately show ?thesis using Cons 12(2) [of r kws' s] 12(4-)
      by (simp split: if_splits)
  qed
qed

lemma render_inject: "numbers v \<Longrightarrow> numbers w \<Longrightarrow> render esc v = render esc w \<longleftrightarrow> v = w"
  using render_prefix(1) [of v "[]" w "[]"] by (auto simp: delimited_def)

end

interpretation raw: escaping escape_char
  by unfold_locales (simp_all add: escape_char_prefix escape_char_start)

interpretation ascii: escaping escape_ascii
  by unfold_locales (simp_all add: escape_ascii_prefix escape_ascii_start)

lemma utf8_char_prefix:
  assumes "utf8_char c @ r = utf8_char d @ s"
  shows "c = d \<and> r = s"
proof -
  let ?c = "of_char c :: nat" and ?d = "of_char d :: nat"
  have lt: "?c < 256" "?d < 256" by (simp_all add: of_char_def)
  have eq: "word_of_nat m = (word_of_nat n :: byte) \<longleftrightarrow> m = n" if "m < 256" "n < 256" for m n
    using that by (simp add: word_of_nat_eq_iff take_bit_eq_mod)
  have small: "?c div 64 < 4" "?d div 64 < 4" using lt by (simp_all add: less_mult_imp_div_less)
  have "?c = ?d \<and> r = s"
  proof (cases "?c < 128 \<or> ?d < 128")
    case True
    then show ?thesis using assms lt small eq
      by (auto simp: utf8_char_def Let_def simp del: of_nat_add split: if_splits)
  next
    case False
    then have "?c div 64 = ?d div 64 \<and> ?c mod 64 = ?d mod 64 \<and> r = s"
      using assms lt small eq by (simp add: utf8_char_def Let_def)
    then show ?thesis by (metis div_mult_mod_eq)
  qed
  then show ?thesis by simp
qed

lemma utf8_inject: "utf8 s = utf8 t \<longleftrightarrow> s = t"
proof -
  have ne: "utf8_char c \<noteq> []" for c by (simp add: utf8_char_def Let_def)
  have "s = t" if "concat (map utf8_char s) = concat (map utf8_char t)"
    using that
  proof (induction s arbitrary: t)
    case Nil
    then show ?case by (cases t) (simp_all add: ne)
  next
    case (Cons c s)
    then obtain d t' where t: "t = d # t'" by (cases t) (simp_all add: ne)
    with Cons show ?case using utf8_char_prefix [of c _ d] by fastforce
  qed
  then show ?thesis by (auto simp: utf8_def)
qed

text \<open>The bytes that are hashed, and the digests written \<open>version:hex\<close>.\<close>

definition canonical_bytes :: "json \<Rightarrow> byte list" where
  "canonical_bytes payload = utf8 (dumps payload)"

definition canonical_ascii :: "json \<Rightarrow> byte list" where
  "canonical_ascii payload = utf8 (dumps_ascii payload)"

definition versioned_digest :: "string \<Rightarrow> json \<Rightarrow> string" where
  "versioned_digest version payload =
     version @ '':'' @ sha256_hexdigest (canonical_bytes payload)"

lemma sort_key_fst_inject:
  assumes "map fst kvs = map fst kws" "distinct (map fst kvs)"
    and "sort_key fst kvs = sort_key fst kws"
  shows "kvs = kws"
proof (rule nth_equalityI)
  show len: "length kvs = length kws" using assms(1) by (metis length_map)
  fix i assume i: "i < length kvs"
  have "set kvs = set kws" using assms(3) by (metis set_sort)
  then obtain j where j: "j < length kws" "kws ! j = kvs ! i"
    using i by (metis in_set_conv_nth nth_mem)
  then have "map fst kws ! j = map fst kws ! i"
    using i len assms(1) by (metis nth_map)
  then have "j = i" using assms i j len by (simp add: nth_eq_iff_index_eq del: nth_map)
  with j show "kvs ! i = kws ! i" by simp
qed

fun flat :: "json \<Rightarrow> bool" where
  "flat (JArr xs) = list_all (\<lambda>x. sort_keys x = x \<and> numbers x) xs"
| "flat (JObj kvs) = False"
| "flat (JNum t) = numeric t"
| "flat v = True"

lemma sort_keys_flat: "flat v \<Longrightarrow> sort_keys v = v"
  by (cases v) (simp_all add: list_all_iff map_idI)

lemma numbers_flat: "flat v \<Longrightarrow> numbers v"
  by (cases v) (simp_all add: list_all_iff)

lemma numbers_sorted:
  assumes "list_all (\<lambda>(k, v). flat v) kvs"
  shows "numbers (sort_keys (JObj kvs))"
  using assms by (auto simp: list_all_iff numbers_flat sort_keys_flat)

text \<open>Objects with the same distinct keys and no nested object are rendered to the same
  bytes only when they are equal.\<close>

lemma sort_keys_object_inject:
  assumes "map fst kvs = map fst kws" "distinct (map fst kvs)"
    and "list_all (\<lambda>(k, v). flat v) kvs" "list_all (\<lambda>(k, v). flat v) kws"
  shows "sort_keys (JObj kvs) = sort_keys (JObj kws) \<longleftrightarrow> kvs = kws"
proof -
  have id: "map (\<lambda>(k, v). (k, sort_keys v)) xs = xs" if "list_all (\<lambda>(k, v). flat v) xs" for xs
    using that by (induction xs) (auto simp: sort_keys_flat)
  show ?thesis
    using sort_key_fst_inject [OF assms(1,2)] id [OF assms(3)] id [OF assms(4)] by auto
qed

lemma canonical_bytes_inject:
  assumes "map fst kvs = map fst kws" "distinct (map fst kvs)"
    and "list_all (\<lambda>(k, v). flat v) kvs" "list_all (\<lambda>(k, v). flat v) kws"
  shows "canonical_bytes (JObj kvs) = canonical_bytes (JObj kws) \<longleftrightarrow> kvs = kws"
    and "canonical_ascii (JObj kvs) = canonical_ascii (JObj kws) \<longleftrightarrow> kvs = kws"
  using sort_keys_object_inject [OF assms] numbers_sorted [OF assms(3)] numbers_sorted [OF assms(4)]
  by (simp_all add: canonical_bytes_def dumps_def canonical_ascii_def dumps_ascii_def utf8_inject
      raw.render_inject ascii.render_inject del: sort_keys.simps numbers.simps)

lemma canonical_ascii_sorted:
  "numbers (sort_keys v) \<Longrightarrow> numbers (sort_keys w) \<Longrightarrow>
     canonical_ascii v = canonical_ascii w \<longleftrightarrow> sort_keys v = sort_keys w"
  by (simp add: canonical_ascii_def dumps_ascii_def utf8_inject ascii.render_inject)

lemma json_text_inject: "json_text a = json_text b \<longleftrightarrow> a = b"
  by (cases a; cases b) simp_all

lemma flat_json_text [simp]: "flat (json_text a)"
  by (cases a) simp_all

lemma inj_JStr: "map JStr xs = map JStr ys \<longleftrightarrow> xs = ys"
  by (simp add: inj_def inj_map_eq_map)

section \<open>The shape of a digest\<close>

lemma length_sha256_round: "length s = 8 \<Longrightarrow> length (sha256_round s kw) = 8"
  by (cases "(s, kw)" rule: sha256_round.cases) (auto simp: Let_def)

lemma length_sha256_rounds: "length s = 8 \<Longrightarrow> length (foldl sha256_round s kws) = 8"
  by (induction kws arbitrary: s) (simp_all add: length_sha256_round)

lemma length_sha256_compress: "length s = 8 \<Longrightarrow> length (sha256_compress s b) = 8"
  by (simp add: sha256_compress_def Let_def length_sha256_rounds)

lemma length_sha256 [simp]: "length (sha256 m) = 8"
proof -
  have "length (foldl sha256_compress s bs) = 8" if "length s = 8" for s bs
    using that by (induction bs arbitrary: s) (simp_all add: length_sha256_compress)
  then show ?thesis by (simp add: sha256_def sha256_initial_def)
qed

lemma length_hex_word [simp]: "length (hex_word w) = 8"
  by (simp add: hex_word_def)

lemma hex_word_lower_hex: "list_all is_lower_hex (hex_word w)"
  by (simp add: hex_word_def hex_digit_lower_hex)

text \<open>A hex digest is 64 lowercase hexadecimal digits.\<close>

lemma sha256_hexdigest_hex: "is_sha256_hex (sha256_hexdigest m)"
proof -
  have "length (concat (map hex_word ws)) = 8 * length ws" for ws by (induction ws) simp_all
  moreover have "list_all is_lower_hex (concat (map hex_word ws))" for ws
    by (induction ws) (simp_all add: hex_word_lower_hex)
  ultimately show ?thesis by (simp add: is_sha256_hex_def sha256_hexdigest_def)
qed

lemma is_lower_hex_not_space: "is_lower_hex c \<Longrightarrow> \<not> is_space c"
  by (auto simp: is_lower_hex_def in_range_def is_space_def)

lemma versioned_digest_last: "\<not> is_space (last (versioned_digest v p))"
proof -
  have "sha256_hexdigest (canonical_bytes p) \<noteq> []"
    using sha256_hexdigest_hex [of "canonical_bytes p"] by (auto simp: is_sha256_hex_def)
  then have "last (versioned_digest v p) = last (sha256_hexdigest (canonical_bytes p))"
    and "last (sha256_hexdigest (canonical_bytes p)) \<in> set (sha256_hexdigest (canonical_bytes p))"
    by (simp_all add: versioned_digest_def)
  then show ?thesis
    using sha256_hexdigest_hex [of "canonical_bytes p"] is_lower_hex_not_space
    by (simp add: is_sha256_hex_def list_all_iff)
qed

lemma versioned_digest_eq:
  "versioned_digest v p = versioned_digest v q \<longleftrightarrow>
     sha256_hexdigest (canonical_bytes p) = sha256_hexdigest (canonical_bytes q)"
  by (simp add: versioned_digest_def)

text \<open>Two different inputs with one digest.\<close>

definition digest_collision :: "byte list \<Rightarrow> byte list \<Rightarrow> bool" where
  "digest_collision a b \<longleftrightarrow> a \<noteq> b \<and> sha256_hexdigest a = sha256_hexdigest b"

end
