(* ===== verification/DispatchContract.thy ===== *)
theory DispatchContract
  imports Digest "HOL-Library.Multiset"
begin

text \<open>
  The semantic contracts of operational dispatch (\<open>operational_dispatch/models.py\<close> of
  Atlas Core): the strict models, the three digests, and the validator that binds a request to
  its closed action, its digest, its idempotency key and its approval. A Pydantic model is a
  record; a value of a result or event record stands for an instance its class has validated,
  while a request is validated explicitly, since the ledger re-validates it. A request
  datetime carries its UTC offset because \<open>isoformat\<close> shows it; the other instants are
  integers (microseconds since 1970 in UTC).
\<close>

section \<open>Datetimes\<close>

datatype datetime = Datetime (instant: int) (offset_minutes: int)

definition padded :: "nat \<Rightarrow> int \<Rightarrow> string" where
  "padded w n = (let s = nat_text (nat n) in replicate (w - length s) CHR ''0'' @ s)"

text \<open>The proleptic Gregorian date of a day number.\<close>

definition civil_date :: "int \<Rightarrow> int \<times> int \<times> int" where
  "civil_date days =
     (let z = days + 719468; era = z div 146097; doe = z mod 146097;
          yoe = (doe - doe div 1460 + doe div 36524 - doe div 146096) div 365;
          doy = doe - (365 * yoe + yoe div 4 - yoe div 100);
          mp = (5 * doy + 2) div 153;
          d = doy - (153 * mp + 2) div 5 + 1;
          m = (if mp < 10 then mp + 3 else mp - 9)
      in (yoe + era * 400 + (if m \<le> 2 then 1 else 0), m, d))"

definition isoformat :: "datetime \<Rightarrow> string" where
  "isoformat t =
     (let local = instant t + offset_minutes t * 60000000;
          (y, m, d) = civil_date (local div 86400000000);
          us = local mod 86400000000; s = us div 1000000; fraction = us mod 1000000
      in padded 4 y @ ''-'' @ padded 2 m @ ''-'' @ padded 2 d @ ''T''
         @ padded 2 (s div 3600) @ '':'' @ padded 2 (s div 60 mod 60) @ '':'' @ padded 2 (s mod 60)
         @ (if fraction = 0 then [] else ''.'' @ padded 6 fraction)
         @ (if offset_minutes t < 0 then ''-'' else ''+'')
         @ padded 2 (\<bar>offset_minutes t\<bar> div 60) @ '':'' @ padded 2 (\<bar>offset_minutes t\<bar> mod 60))"

section \<open>Models\<close>

definition request_digest_version :: string where
  "request_digest_version = ''operational-action-request-digest-v1''"

definition idempotency_key_version :: string where
  "idempotency_key_version = ''operational-action-execution-key-v1''"

definition verification_digest_version :: string where
  "verification_digest_version = ''operational-verification-digest-v1''"

definition closed_action :: "string \<times> string \<times> string \<Rightarrow> string option" where
  "closed_action = map_of [((''restart-service'', ''proxmox'', ''qemu''),
     ''proxmox-qemu-graceful-restart-v1'')]"

text \<open>The validator every string field passes.\<close>

definition exact_text :: "string \<Rightarrow> bool" where
  "exact_text s \<longleftrightarrow> s \<noteq> [] \<and> s = strip s"

record verification_specification =
  ovs_pre_state :: string
  ovs_expected_post_state :: string
  ovs_identity_fingerprint :: string
  ovs_health_requirement :: string
  ovs_unknown_outcome_policy :: string

record approval_binding =
  oab_approval_request_id :: string
  oab_action_request_id :: string
  oab_action_request_digest :: string
  oab_candidate_id :: string
  oab_candidate_fingerprint :: string
  oab_operational_plan_fingerprint :: string
  oab_provider_id :: string
  oab_resource_id :: string
  oab_resource_type :: string
  oab_target_fingerprint :: string
  oab_target_version :: "string option"
  oab_operation_intent :: string
  oab_disruption_scope :: string
  oab_verification_digest :: string
  oab_generated_at :: datetime
  oab_expires_at :: datetime

record dispatch_request =
  odr_schema_version :: int
  odr_request_id :: string
  odr_request_digest :: string
  odr_idempotency_key :: string
  odr_workflow_session_id :: string
  odr_candidate_planning_session_id :: string
  odr_candidate_id :: string
  odr_candidate_fingerprint :: string
  odr_candidate_plan_id :: string
  odr_candidate_plan_fingerprint :: string
  odr_effect_kind :: string
  odr_execution_intent :: string
  odr_provider_id :: string
  odr_resource_id :: string
  odr_resource_type :: string
  odr_provider_action_id :: string
  odr_target_fingerprint :: string
  odr_target_version :: "string option"
  odr_expected_pre_state :: string
  odr_disruption_scope :: string
  odr_evidence_ids :: "string list"
  odr_verification :: verification_specification
  odr_generated_at :: datetime
  odr_expires_at :: datetime
  odr_translator_version :: string
  odr_approval :: approval_binding

datatype dispatch_status = DISPATCH_SUCCEEDED | DISPATCH_FAILED | DISPATCH_UNKNOWN

fun dispatch_status_text :: "dispatch_status \<Rightarrow> string" where
  "dispatch_status_text DISPATCH_SUCCEEDED = ''succeeded''"
| "dispatch_status_text DISPATCH_FAILED = ''failed''"
| "dispatch_status_text DISPATCH_UNKNOWN = ''outcome_unknown''"

datatype audit_status =
    AUTH_ATTEMPTED | AUTH_REJECTED | REQUEST_ACCEPTED | EXECUTION_DISABLED | NO_HANDLER
  | REQUEST_CONFLICT | TARGET_BLOCKED | DISPATCH_RESULT | BARRIER_CROSSED
  | PROVIDER_OPERATION_CAPTURED | AUDIT_OUTCOME_UNKNOWN | VERIFICATION_STARTED
  | VERIFICATION_RESUMED | VERIFICATION_SUCCEEDED | AUDIT_VERIFICATION_FAILED
  | VERIFICATION_TARGET_REPLACED | RECOVERY_RECONCILED

record audit_event =
  oae_event_id :: string
  oae_status :: audit_status
  oae_occurred_at :: int
  oae_request_id :: "string option"
  oae_request_digest :: "string option"
  oae_workflow_session_id :: "string option"
  oae_candidate_planning_session_id :: "string option"
  oae_candidate_id :: "string option"
  oae_candidate_plan_id :: "string option"
  oae_provider_id :: "string option"
  oae_resource_id :: "string option"
  oae_resource_type :: "string option"
  oae_target_fingerprint :: "string option"

record dispatch_result =
  ors_status :: dispatch_status
  ors_request_id :: string
  ors_request_digest :: string
  ors_target_fingerprint :: string
  ors_provider_operation_id :: "string option"
  ors_started_at :: int
  ors_completed_at :: "int option"
  ors_sanitized_message :: "string option"

datatype operational_verification_status =
    OV_SUCCEEDED | OV_FAILED | OV_OUTCOME_UNKNOWN | OV_TARGET_REPLACED

fun verification_status_text :: "operational_verification_status \<Rightarrow> string" where
  "verification_status_text OV_SUCCEEDED = ''succeeded''"
| "verification_status_text OV_FAILED = ''verification_failed''"
| "verification_status_text OV_OUTCOME_UNKNOWN = ''outcome_unknown''"
| "verification_status_text OV_TARGET_REPLACED = ''target_replaced''"

record verification_result =
  ovr_status :: operational_verification_status
  ovr_request_id :: string
  ovr_observed_target_fingerprint :: "string option"
  ovr_observed_state :: "string option"
  ovr_health_status :: "string option"
  ovr_started_at :: int
  ovr_completed_at :: int
  ovr_deadline :: int

section \<open>Digests\<close>

definition verification_payload :: "verification_specification \<Rightarrow> (string \<times> json) list" where
  "verification_payload v =
     [(''expected_post_state'', JStr (ovs_expected_post_state v)),
      (''health_requirement'', JStr (ovs_health_requirement v)),
      (''identity_fingerprint'', JStr (ovs_identity_fingerprint v)),
      (''pre_state'', JStr (ovs_pre_state v)),
      (''unknown_outcome_policy'', JStr (ovs_unknown_outcome_policy v)),
      (''version'', JStr verification_digest_version)]"

definition operational_verification_digest :: "verification_specification \<Rightarrow> string" where
  "operational_verification_digest v =
     versioned_digest verification_digest_version (JObj (verification_payload v))"

definition request_payload :: "dispatch_request \<Rightarrow> (string \<times> json) list" where
  "request_payload r =
     [(''candidate_fingerprint'', JStr (odr_candidate_fingerprint r)),
      (''candidate_id'', JStr (odr_candidate_id r)),
      (''candidate_plan_fingerprint'', JStr (odr_candidate_plan_fingerprint r)),
      (''candidate_plan_id'', JStr (odr_candidate_plan_id r)),
      (''candidate_planning_session_id'', JStr (odr_candidate_planning_session_id r)),
      (''disruption_scope'', JStr (odr_disruption_scope r)),
      (''effect_kind'', JStr (odr_effect_kind r)),
      (''evidence_ids'', JArr (map JStr (sort (odr_evidence_ids r)))),
      (''execution_intent'', JStr (odr_execution_intent r)),
      (''expected_pre_state'', JStr (odr_expected_pre_state r)),
      (''expires_at'', JStr (isoformat (odr_expires_at r))),
      (''generated_at'', JStr (isoformat (odr_generated_at r))),
      (''provider_action_id'', JStr (odr_provider_action_id r)),
      (''provider_id'', JStr (odr_provider_id r)),
      (''request_id'', JStr (odr_request_id r)),
      (''resource_id'', JStr (odr_resource_id r)),
      (''resource_type'', JStr (odr_resource_type r)),
      (''target_fingerprint'', JStr (odr_target_fingerprint r)),
      (''target_version'', json_text (odr_target_version r)),
      (''translator_version'', JStr (odr_translator_version r)),
      (''verification_digest'', JStr (operational_verification_digest (odr_verification r))),
      (''version'', JStr request_digest_version),
      (''workflow_session_id'', JStr (odr_workflow_session_id r))]"

definition operational_request_digest :: "dispatch_request \<Rightarrow> string" where
  "operational_request_digest r =
     versioned_digest request_digest_version (JObj (request_payload r))"

definition idempotency_payload :: "string \<Rightarrow> string \<Rightarrow> (string \<times> json) list" where
  "idempotency_payload request_id request_digest =
     [(''request_digest'', JStr request_digest), (''request_id'', JStr request_id),
      (''version'', JStr idempotency_key_version)]"

definition operational_idempotency_key :: "string \<Rightarrow> string \<Rightarrow> string" where
  "operational_idempotency_key request_id request_digest =
     versioned_digest idempotency_key_version
       (JObj (idempotency_payload request_id request_digest))"

section \<open>Validation\<close>

definition verification_texts :: "verification_specification \<Rightarrow> string list" where
  "verification_texts v = [ovs_pre_state v, ovs_expected_post_state v, ovs_identity_fingerprint v,
     ovs_health_requirement v, ovs_unknown_outcome_policy v]"

definition option_list :: "'a option \<Rightarrow> 'a list" where
  "option_list x = (case x of None \<Rightarrow> [] | Some y \<Rightarrow> [y])"

definition approval_texts :: "approval_binding \<Rightarrow> string list" where
  "approval_texts a =
     [oab_approval_request_id a, oab_action_request_id a, oab_action_request_digest a,
      oab_candidate_id a, oab_candidate_fingerprint a, oab_operational_plan_fingerprint a,
      oab_provider_id a, oab_resource_id a, oab_resource_type a, oab_target_fingerprint a]
     @ option_list (oab_target_version a)
     @ [oab_operation_intent a, oab_disruption_scope a, oab_verification_digest a]"

definition dispatch_request_texts :: "dispatch_request \<Rightarrow> string list" where
  "dispatch_request_texts r =
     [odr_request_id r, odr_request_digest r, odr_idempotency_key r, odr_workflow_session_id r,
      odr_candidate_planning_session_id r, odr_candidate_id r, odr_candidate_fingerprint r,
      odr_candidate_plan_id r, odr_candidate_plan_fingerprint r, odr_effect_kind r,
      odr_execution_intent r, odr_provider_id r, odr_resource_id r, odr_resource_type r,
      odr_provider_action_id r, odr_target_fingerprint r]
     @ option_list (odr_target_version r)
     @ [odr_expected_pre_state r, odr_disruption_scope r, odr_translator_version r]"

definition validate_strings :: "dispatch_request \<Rightarrow> bool" where
  "validate_strings r \<longleftrightarrow> list_all exact_text (dispatch_request_texts r)
     \<and> list_all exact_text (verification_texts (odr_verification r))
     \<and> list_all exact_text (approval_texts (odr_approval r))"

definition approval_differs :: "dispatch_request \<Rightarrow> bool" where
  "approval_differs r \<longleftrightarrow> (let a = odr_approval r in
     oab_action_request_id a \<noteq> odr_request_id r
     \<or> oab_action_request_digest a \<noteq> odr_request_digest r
     \<or> oab_candidate_id a \<noteq> odr_candidate_id r
     \<or> oab_candidate_fingerprint a \<noteq> odr_candidate_fingerprint r
     \<or> oab_operational_plan_fingerprint a \<noteq> odr_candidate_plan_fingerprint r
     \<or> oab_provider_id a \<noteq> odr_provider_id r
     \<or> oab_resource_id a \<noteq> odr_resource_id r
     \<or> oab_resource_type a \<noteq> odr_resource_type r
     \<or> oab_target_fingerprint a \<noteq> odr_target_fingerprint r
     \<or> oab_target_version a \<noteq> odr_target_version r
     \<or> oab_operation_intent a \<noteq> odr_execution_intent r
     \<or> oab_disruption_scope a \<noteq> odr_disruption_scope r
     \<or> oab_verification_digest a \<noteq> operational_verification_digest (odr_verification r)
     \<or> instant (oab_generated_at a) \<noteq> instant (odr_generated_at r)
     \<or> instant (oab_expires_at a) \<noteq> instant (odr_expires_at r))"

definition validate_contract :: "dispatch_request \<Rightarrow> dispatch_request res" where
  "validate_contract r =
     and_then (require (odr_schema_version r = 1)
       (ValidationError ''unsupported operational dispatch schema'')) (\<lambda>_.
     and_then (require (odr_effect_kind r = ''operational_action'')
       (ValidationError ''operational dispatch requires operational_action effect'')) (\<lambda>_.
     and_then (require (\<not> instant (odr_expires_at r) \<le> instant (odr_generated_at r))
       (ValidationError ''operational request expiry must follow generation'')) (\<lambda>_.
     and_then (require (closed_action
         (odr_execution_intent r, odr_provider_id r, odr_resource_type r)
         = Some (odr_provider_action_id r))
       (ValidationError ''provider action does not match closed semantic translation'')) (\<lambda>_.
     and_then (require (odr_request_digest r = operational_request_digest r)
       (ValidationError ''operational request digest mismatch'')) (\<lambda>_.
     and_then (require (odr_idempotency_key r
         = operational_idempotency_key (odr_request_id r) (odr_request_digest r))
       (ValidationError ''operational idempotency key mismatch'')) (\<lambda>_.
     and_then (require (\<not> approval_differs r)
       (ValidationError ''operational approval does not bind exact request'')) (\<lambda>_.
     Inr r)))))))"

definition validate_request :: "dispatch_request \<Rightarrow> dispatch_request res" where
  "validate_request r =
     (if validate_strings r then validate_contract r
      else Inl (ValidationError ''operational string fields must be exact and nonblank''))"

section \<open>What a digest binds\<close>

text \<open>The data of a request its digest is computed from.\<close>

definition bound_data :: "dispatch_request \<Rightarrow>
    string list \<times> string multiset \<times> string option \<times> string \<times> string \<times> string" where
  "bound_data r =
     ([odr_request_id r, odr_workflow_session_id r, odr_candidate_planning_session_id r,
       odr_candidate_id r, odr_candidate_fingerprint r, odr_candidate_plan_id r,
       odr_candidate_plan_fingerprint r, odr_effect_kind r, odr_execution_intent r,
       odr_provider_id r, odr_resource_id r, odr_resource_type r, odr_provider_action_id r,
       odr_target_fingerprint r, odr_expected_pre_state r, odr_disruption_scope r,
       odr_translator_version r],
      mset (odr_evidence_ids r), odr_target_version r,
      isoformat (odr_generated_at r), isoformat (odr_expires_at r),
      operational_verification_digest (odr_verification r))"

lemma sort_eq_iff_mset: "sort xs = sort ys \<longleftrightarrow> mset xs = mset ys"
  by (metis mset_sort properties_for_sort sorted_sort)

lemma request_payload_eq_iff: "request_payload r = request_payload s \<longleftrightarrow> bound_data r = bound_data s"
  unfolding request_payload_def bound_data_def
  by (simp add: inj_JStr json_text_inject sort_eq_iff_mset) blast

lemma verification_payload_eq_iff:
  "verification_payload v = verification_payload w \<longleftrightarrow> v = w"
  by (cases v; cases w) (auto simp: verification_payload_def)

lemma request_payload_flat: "list_all (\<lambda>(k, v). flat v) (request_payload r)"
  by (simp add: request_payload_def list_all_iff)

lemma request_payload_keys:
  "map fst (request_payload r) = map fst (request_payload s)"
  "distinct (map fst (request_payload r))"
  by (simp_all add: request_payload_def)

lemma verification_payload_keys:
  "map fst (verification_payload v) = map fst (verification_payload w)"
  "distinct (map fst (verification_payload v))"
  "list_all (\<lambda>(k, v). flat v) (verification_payload v)"
  by (simp_all add: verification_payload_def)

definition request_bytes :: "dispatch_request \<Rightarrow> byte list" where
  "request_bytes r = canonical_bytes (JObj (request_payload r))"

definition verification_bytes :: "verification_specification \<Rightarrow> byte list" where
  "verification_bytes v = canonical_bytes (JObj (verification_payload v))"

text \<open>The bytes whose SHA-256 is a request digest determine everything the digest is
  meant to bind: two requests hash the same bytes exactly when they agree on identity, target,
  action, scope, evidence (up to order), times and verification digest; and two verification
  specifications hash the same bytes exactly when they are equal.\<close>

theorem digest_preimage_binds:
  "(request_bytes r = request_bytes s \<longleftrightarrow> bound_data r = bound_data s)
   \<and> (verification_bytes v = verification_bytes w \<longleftrightarrow> v = w)"
  unfolding request_bytes_def verification_bytes_def
  using canonical_bytes_inject(1) [OF request_payload_keys request_payload_flat request_payload_flat, of r s]
    canonical_bytes_inject(1) [OF verification_payload_keys verification_payload_keys(3), of v w]
  by (simp add: request_payload_eq_iff verification_payload_eq_iff)

section \<open>What a validated request certifies\<close>

definition contract_holds :: "dispatch_request \<Rightarrow> bool" where
  "contract_holds r \<longleftrightarrow> validate_strings r \<and> odr_schema_version r = 1
     \<and> odr_effect_kind r = ''operational_action''
     \<and> instant (odr_generated_at r) < instant (odr_expires_at r)
     \<and> closed_action (odr_execution_intent r, odr_provider_id r, odr_resource_type r)
         = Some (odr_provider_action_id r)
     \<and> odr_request_digest r = operational_request_digest r
     \<and> odr_idempotency_key r = operational_idempotency_key (odr_request_id r) (odr_request_digest r)
     \<and> \<not> approval_differs r"

lemma validate_request_Inr:
  "validate_request r = Inr r' \<longleftrightarrow> contract_holds r \<and> r' = r"
  by (auto simp: validate_request_def validate_contract_def contract_holds_def res_simps
      split: if_splits)

text \<open>Two requests for the same action on the same terms.\<close>

definition same_action :: "dispatch_request \<Rightarrow> dispatch_request \<Rightarrow> bool" where
  "same_action r s \<longleftrightarrow> bound_data r = bound_data s
     \<and> odr_schema_version r = odr_schema_version s
     \<and> odr_idempotency_key r = odr_idempotency_key s
     \<and> odr_verification r = odr_verification s
     \<and> (\<exists>t u. odr_approval s = odr_approval r
          \<lparr>oab_approval_request_id := oab_approval_request_id (odr_approval s),
           oab_generated_at := t, oab_expires_at := u\<rparr>
        \<and> instant t = instant (odr_generated_at s) \<and> instant u = instant (odr_expires_at s))"

lemma approval_determined:
  assumes "\<not> approval_differs r" "\<not> approval_differs s"
    and "bound_data r = bound_data s" "odr_request_digest r = odr_request_digest s"
  shows "odr_approval s = odr_approval r
          \<lparr>oab_approval_request_id := oab_approval_request_id (odr_approval s),
           oab_generated_at := oab_generated_at (odr_approval s),
           oab_expires_at := oab_expires_at (odr_approval s)\<rparr>"
  using assms by (cases "odr_approval r"; cases "odr_approval s")
    (simp add: approval_differs_def bound_data_def Let_def)

text \<open>C23. A request digest identifies the approved action: two accepted requests with equal
  digests are the same action on the same terms, with the same idempotency key and the same
  approval up to the approval's own identifier, unless SHA-256 collides on the very bytes
  hashed for the two requests or for their verification specifications.\<close>

theorem same_digest_same_action:
  assumes "validate_request r = Inr r" "validate_request s = Inr s"
    and "odr_request_digest r = odr_request_digest s"
  shows "same_action r s \<or> digest_collision (request_bytes r) (request_bytes s)
    \<or> digest_collision (verification_bytes (odr_verification r))
        (verification_bytes (odr_verification s))"
proof (cases "request_bytes r = request_bytes s")
  case False
  have "operational_request_digest r = operational_request_digest s"
    using assms by (simp add: validate_request_Inr contract_holds_def)
  then have "digest_collision (request_bytes r) (request_bytes s)"
    using False by (simp add: digest_collision_def operational_request_digest_def
        versioned_digest_eq request_bytes_def)
  then show ?thesis by simp
next
  case True
  then have b: "bound_data r = bound_data s"
    using canonical_bytes_inject(1) [OF request_payload_keys request_payload_flat
        request_payload_flat, of r s] by (simp add: request_bytes_def request_payload_eq_iff)
  show ?thesis
  proof (cases "odr_verification r = odr_verification s")
    case True
    have "\<not> approval_differs r" "\<not> approval_differs s"
      using assms by (simp_all add: validate_request_Inr contract_holds_def)
    from approval_determined [OF this b assms(3)] this
    have "\<exists>t u. odr_approval s = odr_approval r
          \<lparr>oab_approval_request_id := oab_approval_request_id (odr_approval s),
           oab_generated_at := t, oab_expires_at := u\<rparr>
        \<and> instant t = instant (odr_generated_at s) \<and> instant u = instant (odr_expires_at s)"
      by (auto simp: approval_differs_def Let_def)
    moreover have "odr_request_id r = odr_request_id s" using b by (simp add: bound_data_def)
    ultimately have "same_action r s"
      using assms b True by (simp add: same_action_def validate_request_Inr contract_holds_def)
    then show ?thesis by simp
  next
    case False
    then have "verification_bytes (odr_verification r) \<noteq> verification_bytes (odr_verification s)"
      using canonical_bytes_inject(1) [OF verification_payload_keys verification_payload_keys(3)]
      by (simp add: verification_bytes_def verification_payload_eq_iff)
    moreover have "operational_verification_digest (odr_verification r)
        = operational_verification_digest (odr_verification s)"
      using b by (simp add: bound_data_def)
    ultimately show ?thesis
      by (simp add: digest_collision_def operational_verification_digest_def versioned_digest_eq
          verification_bytes_def)
  qed
qed

section \<open>Sealing a request\<close>

text \<open>The request whose digest, idempotency key and approval are computed from its own data,
  as an honest submitter fills them in.\<close>

definition seal :: "string \<Rightarrow> dispatch_request \<Rightarrow> dispatch_request" where
  "seal approval_id r =
     (let digest = operational_request_digest r in
      r\<lparr>odr_request_digest := digest,
        odr_idempotency_key := operational_idempotency_key (odr_request_id r) digest,
        odr_approval := \<lparr>oab_approval_request_id = approval_id,
          oab_action_request_id = odr_request_id r, oab_action_request_digest = digest,
          oab_candidate_id = odr_candidate_id r,
          oab_candidate_fingerprint = odr_candidate_fingerprint r,
          oab_operational_plan_fingerprint = odr_candidate_plan_fingerprint r,
          oab_provider_id = odr_provider_id r, oab_resource_id = odr_resource_id r,
          oab_resource_type = odr_resource_type r,
          oab_target_fingerprint = odr_target_fingerprint r,
          oab_target_version = odr_target_version r,
          oab_operation_intent = odr_execution_intent r,
          oab_disruption_scope = odr_disruption_scope r,
          oab_verification_digest = operational_verification_digest (odr_verification r),
          oab_generated_at = odr_generated_at r, oab_expires_at = odr_expires_at r\<rparr>\<rparr>)"

text \<open>The conditions on a request's own data.\<close>

definition sealable :: "string \<Rightarrow> dispatch_request \<Rightarrow> bool" where
  "sealable approval_id r \<longleftrightarrow> exact_text approval_id
     \<and> list_all exact_text (map (\<lambda>f. f r) [odr_request_id, odr_workflow_session_id,
          odr_candidate_planning_session_id, odr_candidate_id, odr_candidate_fingerprint,
          odr_candidate_plan_id, odr_candidate_plan_fingerprint, odr_execution_intent,
          odr_provider_id, odr_resource_id, odr_resource_type, odr_provider_action_id,
          odr_target_fingerprint, odr_expected_pre_state, odr_disruption_scope,
          odr_translator_version])
     \<and> list_all exact_text (option_list (odr_target_version r))
     \<and> list_all exact_text (verification_texts (odr_verification r))
     \<and> odr_schema_version r = 1 \<and> odr_effect_kind r = ''operational_action''
     \<and> instant (odr_generated_at r) < instant (odr_expires_at r)
     \<and> closed_action (odr_execution_intent r, odr_provider_id r, odr_resource_type r)
         = Some (odr_provider_action_id r)"

lemma exact_textI:
  assumes "s \<noteq> []" "\<not> is_space (hd s)" "\<not> is_space (last s)"
  shows "exact_text s"
proof -
  have "lstrip s = s" using assms by (cases s) (simp_all add: lstrip_def)
  moreover have "rstrip s = s" using assms
    by (cases s rule: rev_cases) (simp_all add: rstrip_def)
  ultimately show ?thesis using assms(1) by (simp add: exact_text_def strip_def)
qed

lemma versioned_digest_exact:
  assumes "v \<noteq> []" "\<not> is_space (hd v)"
  shows "exact_text (versioned_digest v p)"
proof (rule exact_textI)
  show "versioned_digest v p \<noteq> []" using assms by (simp add: versioned_digest_def)
  show "\<not> is_space (hd (versioned_digest v p))" using assms by (simp add: versioned_digest_def)
qed (rule versioned_digest_last)

lemma digests_exact [simp]:
  "exact_text (operational_request_digest r)"
  "exact_text (operational_idempotency_key i d)"
  "exact_text (operational_verification_digest v)"
  unfolding operational_request_digest_def operational_idempotency_key_def
    operational_verification_digest_def
  by (rule versioned_digest_exact; simp add: request_digest_version_def
      idempotency_key_version_def verification_digest_version_def is_space_def)+

lemma sealed_contract:
  assumes "sealable approval_id r"
  shows "contract_holds (seal approval_id r)"
proof -
  have d: "operational_request_digest (seal approval_id r) = operational_request_digest r"
    by (simp add: operational_request_digest_def request_payload_def seal_def Let_def)
  have "exact_text ''operational_action''" by (simp add: exact_text_def string_defs)
  then have "validate_strings (seal approval_id r)"
    using assms by (simp add: validate_strings_def sealable_def seal_def Let_def
        dispatch_request_texts_def approval_texts_def)
  then show ?thesis
    using assms d by (simp add: contract_holds_def sealable_def seal_def
        Let_def approval_differs_def)
qed

text \<open>Every well-formed request on the closed action table is accepted, unchanged, once its
  digest, key and approval are computed from its own data.\<close>

theorem sealed_request_accepted:
  assumes "sealable approval_id r"
  shows "validate_request (seal approval_id r) = Inr (seal approval_id r)"
  using sealed_contract [OF assms] by (simp add: validate_request_Inr)

definition empty_binding :: approval_binding where
  "empty_binding =
     \<lparr>oab_approval_request_id = [], oab_action_request_id = [], oab_action_request_digest = [],
      oab_candidate_id = [], oab_candidate_fingerprint = [],
      oab_operational_plan_fingerprint = [], oab_provider_id = [], oab_resource_id = [],
      oab_resource_type = [], oab_target_fingerprint = [], oab_target_version = None,
      oab_operation_intent = [], oab_disruption_scope = [], oab_verification_digest = [],
      oab_generated_at = Datetime 0 0, oab_expires_at = Datetime 0 0\<rparr>"

definition sample_draft :: dispatch_request where
  "sample_draft =
     \<lparr>odr_schema_version = 1, odr_request_id = ''req-1'', odr_request_digest = [],
      odr_idempotency_key = [], odr_workflow_session_id = ''wf'',
      odr_candidate_planning_session_id = ''cps'', odr_candidate_id = ''cand'',
      odr_candidate_fingerprint = ''cf'', odr_candidate_plan_id = ''plan'',
      odr_candidate_plan_fingerprint = ''pf'', odr_effect_kind = ''operational_action'',
      odr_execution_intent = ''restart-service'', odr_provider_id = ''proxmox'',
      odr_resource_id = ''vm-100'', odr_resource_type = ''qemu'',
      odr_provider_action_id = ''proxmox-qemu-graceful-restart-v1'',
      odr_target_fingerprint = ''tf'', odr_target_version = Some ''v1'',
      odr_expected_pre_state = ''running'', odr_disruption_scope = ''single'',
      odr_evidence_ids = [''e1''],
      odr_verification = \<lparr>ovs_pre_state = ''running'', ovs_expected_post_state = ''running'',
        ovs_identity_fingerprint = ''tf'', ovs_health_requirement = ''healthy'',
        ovs_unknown_outcome_policy = ''stop''\<rparr>,
      odr_generated_at = Datetime 1000000 0, odr_expires_at = Datetime 9000000 0,
      odr_translator_version = ''t1'', odr_approval = empty_binding\<rparr>"

definition sample_dispatch_request :: dispatch_request where
  "sample_dispatch_request = seal ''approval-1'' sample_draft"

lemma sample_draft_sealable: "sealable ''approval-1'' sample_draft"
  by (simp add: sealable_def sample_draft_def exact_text_def string_defs option_list_def
      verification_texts_def closed_action_def)

theorem sealed_request_accepted_witness:
  "validate_request sample_dispatch_request = Inr sample_dispatch_request"
  unfolding sample_dispatch_request_def by (rule sealed_request_accepted [OF sample_draft_sealable])


theorem same_digest_same_action_witness:
  "same_action sample_dispatch_request (seal ''approval-2'' sample_draft)
    \<or> digest_collision (request_bytes sample_dispatch_request)
        (request_bytes (seal ''approval-2'' sample_draft))
    \<or> digest_collision (verification_bytes (odr_verification sample_dispatch_request))
        (verification_bytes (odr_verification (seal ''approval-2'' sample_draft)))"
proof (rule same_digest_same_action)
  show "validate_request sample_dispatch_request = Inr sample_dispatch_request"
    unfolding sample_dispatch_request_def validate_request_Inr
    by (simp add: sealed_contract sample_draft_sealable)
  have "sealable ''approval-2'' sample_draft"
    using sample_draft_sealable by (simp add: sealable_def exact_text_def string_defs)
  then show "validate_request (seal ''approval-2'' sample_draft)
      = Inr (seal ''approval-2'' sample_draft)"
    by (simp add: validate_request_Inr sealed_contract)
  show "odr_request_digest sample_dispatch_request
      = odr_request_digest (seal ''approval-2'' sample_draft)"
    by (simp add: sample_dispatch_request_def seal_def Let_def)
qed

end
