(* ===== verification/DispatchLedger.thy ===== *)
theory DispatchLedger
  imports DispatchContract Contracts
begin

text \<open>
  The durable ledger of operational dispatch (\<open>operational_dispatch/ledger.py\<close> of Atlas
  Core). The three SQLite tables are lists of rows: the state columns hold text, a JSON column
  holds \<open>Stored\<close> the object its text decodes to or \<open>Undecodable\<close>, and the
  \<open>AUTOINCREMENT\<close> counter of the transition table is part of the state. Every method holds
  the process lock and an immediate transaction, so it is one function from a ledger to a result
  and the committed ledger; an exception before the commit leaves the ledger as it was. The
  clock of each call is an argument, as are the fresh identifiers \<open>uuid4\<close> draws.
\<close>

section \<open>States and transitions\<close>

datatype ledger_state =
    CLAIMED | REVALIDATED | DISPATCHING | SUCCEEDED | LEDGER_FAILED | OUTCOME_UNKNOWN
  | VERIFYING | VERIFIED | VERIFICATION_FAILED | TARGET_REPLACED

fun state_text :: "ledger_state \<Rightarrow> string" where
  "state_text CLAIMED = ''claimed''"
| "state_text REVALIDATED = ''revalidated''"
| "state_text DISPATCHING = ''dispatching''"
| "state_text SUCCEEDED = ''succeeded''"
| "state_text LEDGER_FAILED = ''failed''"
| "state_text OUTCOME_UNKNOWN = ''outcome_unknown''"
| "state_text VERIFYING = ''verifying''"
| "state_text VERIFIED = ''verified''"
| "state_text VERIFICATION_FAILED = ''verification_failed''"
| "state_text TARGET_REPLACED = ''target_replaced''"

definition ledger_states :: "ledger_state list" where
  "ledger_states = [CLAIMED, REVALIDATED, DISPATCHING, SUCCEEDED, LEDGER_FAILED, OUTCOME_UNKNOWN,
     VERIFYING, VERIFIED, VERIFICATION_FAILED, TARGET_REPLACED]"

text \<open>\<open>OperationalLedgerState(text)\<close>, a \<open>ValueError\<close> for any other text.\<close>

definition parse_state :: "string \<Rightarrow> ledger_state res" where
  "parse_state s = (case map_of (map (\<lambda>x. (state_text x, x)) ledger_states) s of
     None \<Rightarrow> Inl (ValueError (s @ '' is not a valid OperationalLedgerState''))
   | Some x \<Rightarrow> Inr x)"

definition dispatch_result_states :: "ledger_state list" where
  "dispatch_result_states = [SUCCEEDED, LEDGER_FAILED, OUTCOME_UNKNOWN, TARGET_REPLACED]"

definition final_states :: "ledger_state list" where
  "final_states = [VERIFIED, VERIFICATION_FAILED, TARGET_REPLACED]"

definition allowed_transitions :: "(ledger_state option \<times> ledger_state) list" where
  "allowed_transitions =
     [(None, CLAIMED),
      (Some CLAIMED, REVALIDATED),
      (Some REVALIDATED, DISPATCHING),
      (Some CLAIMED, SUCCEEDED), (Some CLAIMED, LEDGER_FAILED),
      (Some CLAIMED, OUTCOME_UNKNOWN), (Some CLAIMED, TARGET_REPLACED),
      (Some REVALIDATED, SUCCEEDED), (Some REVALIDATED, LEDGER_FAILED),
      (Some REVALIDATED, OUTCOME_UNKNOWN), (Some REVALIDATED, TARGET_REPLACED),
      (Some DISPATCHING, SUCCEEDED), (Some DISPATCHING, LEDGER_FAILED),
      (Some DISPATCHING, OUTCOME_UNKNOWN), (Some DISPATCHING, TARGET_REPLACED),
      (Some SUCCEEDED, VERIFYING), (Some OUTCOME_UNKNOWN, VERIFYING),
      (Some VERIFYING, VERIFIED), (Some VERIFYING, VERIFICATION_FAILED),
      (Some VERIFYING, OUTCOME_UNKNOWN), (Some VERIFYING, TARGET_REPLACED)]"

section \<open>Tables and entries\<close>

datatype 'a stored = Undecodable | Stored 'a

record ledger_row =
  lr_request_id :: string
  lr_request_digest :: string
  lr_state :: string
  lr_request :: "dispatch_request stored"
  lr_created_at :: int
  lr_updated_at :: int
  lr_dispatch_started_at :: "int option"
  lr_dispatch_result :: "dispatch_result stored option"
  lr_verification_result :: "verification_result stored option"

record transition_row =
  tr_sequence :: int
  tr_request_id :: string
  tr_request_digest :: string
  tr_previous_state :: "string option"
  tr_state :: string
  tr_occurred_at :: int

record event_row =
  er_event_id :: string
  er_occurred_at :: int
  er_event :: "audit_event stored"

record ledger =
  dispatch_rows :: "ledger_row list"
  transition_rows :: "transition_row list"
  event_rows :: "event_row list"
  last_sequence :: int

definition empty_ledger :: ledger where
  "empty_ledger = \<lparr>dispatch_rows = [], transition_rows = [], event_rows = [], last_sequence = 0\<rparr>"

record ledger_entry =
  le_request_id :: string
  le_request_digest :: string
  le_state :: ledger_state
  le_request :: dispatch_request
  le_created_at :: int
  le_updated_at :: int
  le_dispatch_started_at :: "int option"
  le_dispatch_result :: "dispatch_result option"
  le_verification_result :: "verification_result option"

record ledger_transition =
  lt_sequence :: int
  lt_request_id :: string
  lt_request_digest :: string
  lt_previous_state :: "ledger_state option"
  lt_state :: ledger_state
  lt_occurred_at :: int

text \<open>The loop of \<open>validate_ledger_transition_sequence\<close>: \<open>None\<close> is its early
  \<open>return False\<close>, otherwise the last state.\<close>

fun check_transitions :: "string \<Rightarrow> string \<Rightarrow> int option \<Rightarrow> ledger_state option
    \<Rightarrow> ledger_transition list \<Rightarrow> ledger_state option option" where
  "check_transitions request_id request_digest previous_sequence previous_state [] =
     Some previous_state"
| "check_transitions request_id request_digest previous_sequence previous_state (t # ts) =
     (if lt_request_id t \<noteq> request_id \<or> lt_request_digest t \<noteq> request_digest
        \<or> lt_previous_state t \<noteq> previous_state
        \<or> (lt_previous_state t, lt_state t) \<notin> set allowed_transitions
        \<or> (case previous_sequence of None \<Rightarrow> False | Some q \<Rightarrow> lt_sequence t \<le> q)
      then None
      else check_transitions request_id request_digest (Some (lt_sequence t)) (Some (lt_state t)) ts)"

definition validate_ledger_transition_sequence ::
  "ledger_transition list \<Rightarrow> string \<Rightarrow> string \<Rightarrow> ledger_state \<Rightarrow> bool" where
  "validate_ledger_transition_sequence ts request_id request_digest current_state \<longleftrightarrow>
     ts \<noteq> [] \<and> check_transitions request_id request_digest None None ts = Some (Some current_state)"

section \<open>Reading a row\<close>

definition corrupt :: "'a res \<Rightarrow> string \<Rightarrow> 'a res" where
  "corrupt m message =
     (case m of Inl e \<Rightarrow> Inl (OperationalLedgerCorruptionError message) | Inr x \<Rightarrow> Inr x)"

fun decode :: "'a stored \<Rightarrow> 'a res" where
  "decode Undecodable = Inl (ValidationError ''Invalid JSON'')"
| "decode (Stored x) = Inr x"

fun decode_optional :: "'a stored option \<Rightarrow> 'a option res" where
  "decode_optional None = Inr None"
| "decode_optional (Some c) = and_then (decode c) (\<lambda>x. Inr (Some x))"

definition decode_request :: "dispatch_request stored \<Rightarrow> dispatch_request res" where
  "decode_request c = and_then (decode c) validate_request"

definition entry_of :: "ledger_row \<Rightarrow> ledger_entry res" where
  "entry_of row = corrupt
     (and_then (decode_request (lr_request row)) (\<lambda>request.
      and_then (decode_optional (lr_dispatch_result row)) (\<lambda>dispatch.
      and_then (decode_optional (lr_verification_result row)) (\<lambda>verification.
      and_then (parse_state (lr_state row)) (\<lambda>state.
      and_then (require (\<not> (odr_request_id request \<noteq> lr_request_id row
          \<or> odr_request_digest request \<noteq> lr_request_digest row))
        (ValueError ''stored request identity does not match ledger row'')) (\<lambda>_.
      and_then (require (case dispatch of None \<Rightarrow> True
          | Some d \<Rightarrow> \<not> (ors_request_id d \<noteq> odr_request_id request
              \<or> ors_request_digest d \<noteq> odr_request_digest request))
        (ValueError ''stored dispatch result does not match ledger row'')) (\<lambda>_.
      and_then (require (\<not> (state \<in> set dispatch_result_states \<and> dispatch = None))
        (ValueError ''dispatch result state is missing durable result'')) (\<lambda>_.
      and_then (require (\<not> (state \<in> set final_states \<and> state \<noteq> TARGET_REPLACED
          \<and> verification = None))
        (ValueError ''verification terminal state is missing durable result'')) (\<lambda>_.
      and_then (require (\<not> (verification \<noteq> None
          \<and> state \<notin> set [VERIFIED, VERIFICATION_FAILED, TARGET_REPLACED, OUTCOME_UNKNOWN]))
        (ValueError ''verification result does not match ledger state'')) (\<lambda>_.
      Inr \<lparr>le_request_id = lr_request_id row, le_request_digest = lr_request_digest row,
        le_state = state, le_request = request, le_created_at = lr_created_at row,
        le_updated_at = lr_updated_at row, le_dispatch_started_at = lr_dispatch_started_at row,
        le_dispatch_result = dispatch, le_verification_result = verification\<rparr>))))))))))
     ''stored operational dispatch record is invalid''"

definition find_row :: "ledger \<Rightarrow> string \<Rightarrow> ledger_row option" where
  "find_row l request_id = List.find (\<lambda>r. lr_request_id r = request_id) (dispatch_rows l)"

definition row_for :: "ledger \<Rightarrow> string \<Rightarrow> ledger_row res" where
  "row_for l request_id =
     (case find_row l request_id of None \<Rightarrow> Inl (KeyError request_id) | Some row \<Rightarrow> Inr row)"

definition check_digest :: "ledger_row \<Rightarrow> dispatch_request \<Rightarrow> unit res" where
  "check_digest row request =
     require (lr_request_digest row = odr_request_digest request)
       (OperationalLedgerConflictError ''operational request ID has a different digest'')"

section \<open>Writing\<close>

text \<open>\<open>UPDATE operational_dispatch SET ... WHERE request_id=?\<close>\<close>

definition update_rows :: "(ledger_row \<Rightarrow> bool) \<Rightarrow> (ledger_row \<Rightarrow> ledger_row) \<Rightarrow> ledger \<Rightarrow> ledger" where
  "update_rows p f l =
     l\<lparr>dispatch_rows := map (\<lambda>r. if p r then f r else r) (dispatch_rows l)\<rparr>"

definition record_transition ::
  "dispatch_request \<Rightarrow> ledger_state option \<Rightarrow> ledger_state \<Rightarrow> int \<Rightarrow> ledger \<Rightarrow> ledger res" where
  "record_transition request previous state now l =
     (if (previous, state) \<notin> set allowed_transitions
      then Inl (OperationalLedgerError ''invalid operational ledger transition'')
      else Inr (l\<lparr>transition_rows := transition_rows l @
            [\<lparr>tr_sequence = last_sequence l + 1, tr_request_id = odr_request_id request,
              tr_request_digest = odr_request_digest request,
              tr_previous_state = map_option state_text previous,
              tr_state = state_text state, tr_occurred_at = now\<rparr>],
          last_sequence := last_sequence l + 1\<rparr>))"

text \<open>A transaction: the ledger it commits and what the call then returns, or the exception
  that rolled it back.\<close>

definition transaction :: "ledger \<Rightarrow> ('a res \<times> ledger) res \<Rightarrow> 'a res \<times> ledger" where
  "transaction l m = (case m of Inl e \<Rightarrow> (Inl e, l) | Inr r \<Rightarrow> r)"

definition claim :: "int \<Rightarrow> dispatch_request \<Rightarrow> ledger \<Rightarrow> ledger_entry res \<times> ledger" where
  "claim now request l = transaction l
     (and_then (validate_request request) (\<lambda>request.
      case find_row l (odr_request_id request) of
        None \<Rightarrow>
          let row = \<lparr>lr_request_id = odr_request_id request,
                lr_request_digest = odr_request_digest request, lr_state = ''claimed'',
                lr_request = Stored request, lr_created_at = now, lr_updated_at = now,
                lr_dispatch_started_at = None, lr_dispatch_result = None,
                lr_verification_result = None\<rparr>
          in and_then (record_transition request None CLAIMED now
                (l\<lparr>dispatch_rows := dispatch_rows l @ [row]\<rparr>)) (\<lambda>l'.
             and_then (row_for l' (odr_request_id request)) (\<lambda>row.
             Inr (entry_of row, l')))
      | Some row \<Rightarrow>
          if lr_request_digest row \<noteq> odr_request_digest request
          then Inl (OperationalLedgerConflictError ''operational request ID has a different digest'')
          else Inr (entry_of row, l)))"

definition transition :: "int \<Rightarrow> dispatch_request \<Rightarrow> ledger_state \<Rightarrow> ledger_state \<Rightarrow> bool
    \<Rightarrow> ledger \<Rightarrow> (ledger_entry \<times> bool) res \<times> ledger" where
  "transition now request expected target set_dispatch_started l = transaction l
     (and_then (row_for l (odr_request_id request)) (\<lambda>row.
      and_then (check_digest row request) (\<lambda>_.
      and_then (parse_state (lr_state row)) (\<lambda>current.
      if current = expected
      then let matches = (\<lambda>r. lr_request_id r = odr_request_id request
                 \<and> lr_state r = state_text expected);
               l1 = update_rows matches (\<lambda>r.
                 (if set_dispatch_started then r\<lparr>lr_dispatch_started_at := Some now\<rparr> else r)
                   \<lparr>lr_state := state_text target, lr_updated_at := now\<rparr>) l;
               owner = (length (filter matches (dispatch_rows l)) = 1)
           in and_then (if owner then record_transition request (Some expected) target now l1
                else Inr l1) (\<lambda>l2.
              and_then (row_for l2 (odr_request_id request)) (\<lambda>row.
              Inr (and_then (entry_of row) (\<lambda>e. Inr (e, owner)), l2)))
      else Inr (and_then (entry_of row) (\<lambda>e. Inr (e, False)), l)))))"

definition mark_revalidated ::
  "int \<Rightarrow> dispatch_request \<Rightarrow> ledger \<Rightarrow> ledger_entry res \<times> ledger" where
  "mark_revalidated now request l =
     (case transition now request CLAIMED REVALIDATED False l of
       (r, l') \<Rightarrow> (and_then r (\<lambda>(e, owner). Inr e), l'))"

definition mark_dispatching ::
  "int \<Rightarrow> dispatch_request \<Rightarrow> ledger \<Rightarrow> (ledger_entry \<times> bool) res \<times> ledger" where
  "mark_dispatching now request l = transition now request REVALIDATED DISPATCHING True l"

definition persist_dispatch_result ::
  "int \<Rightarrow> dispatch_request \<Rightarrow> dispatch_result \<Rightarrow> ledger_state
    \<Rightarrow> ledger \<Rightarrow> ledger_entry res \<times> ledger" where
  "persist_dispatch_result now request result state l = transaction l
     (and_then (require (state \<in> set dispatch_result_states)
       (ValueError ''invalid dispatch result ledger state'')) (\<lambda>_.
      and_then (require (\<not> (ors_request_id result \<noteq> odr_request_id request
          \<or> ors_request_digest result \<noteq> odr_request_digest request))
        (ValueError ''dispatch result does not match request'')) (\<lambda>_.
      and_then (row_for l (odr_request_id request)) (\<lambda>row.
      and_then (check_digest row request) (\<lambda>_.
      if lr_dispatch_result row \<noteq> None
      then and_then (entry_of row) (\<lambda>existing.
        if le_dispatch_result existing \<noteq> Some result
        then Inl (OperationalLedgerError ''dispatch result is immutable'')
        else Inr (Inr existing, l))
      else and_then (parse_state (lr_state row)) (\<lambda>previous.
        if previous \<notin> set [CLAIMED, REVALIDATED, DISPATCHING]
        then Inl (OperationalLedgerError ''dispatch result cannot be persisted from state'')
        else and_then (record_transition request (Some previous) state now
               (update_rows (\<lambda>r. lr_request_id r = odr_request_id request)
                 (\<lambda>r. r\<lparr>lr_state := state_text state, lr_dispatch_result := Some (Stored result),
                   lr_updated_at := now\<rparr>) l)) (\<lambda>l'.
             and_then (row_for l' (odr_request_id request)) (\<lambda>row.
             Inr (entry_of row, l')))))))))"

definition begin_verification ::
  "int \<Rightarrow> dispatch_request \<Rightarrow> bool \<Rightarrow> ledger \<Rightarrow> (ledger_entry \<times> bool) res \<times> ledger" where
  "begin_verification now request resume_interrupted l = transaction l
     (and_then (row_for l (odr_request_id request)) (\<lambda>row.
      and_then (check_digest row request) (\<lambda>_.
      and_then (parse_state (lr_state row)) (\<lambda>state.
      if lr_verification_result row \<noteq> None
      then Inr (and_then (entry_of row) (\<lambda>e. Inr (e, False)), l)
      else if state \<in> set [SUCCEEDED, OUTCOME_UNKNOWN]
      then and_then (record_transition request (Some state) VERIFYING now
             (update_rows (\<lambda>r. lr_request_id r = odr_request_id request)
               (\<lambda>r. r\<lparr>lr_state := ''verifying'', lr_updated_at := now\<rparr>) l)) (\<lambda>l'.
           and_then (row_for l' (odr_request_id request)) (\<lambda>row.
           Inr (and_then (entry_of row) (\<lambda>e. Inr (e, True)), l')))
      else Inr (and_then (entry_of row) (\<lambda>e.
             Inr (e, state = VERIFYING \<and> resume_interrupted)), l)))))"

fun verification_ledger_state :: "operational_verification_status \<Rightarrow> ledger_state" where
  "verification_ledger_state OV_SUCCEEDED = VERIFIED"
| "verification_ledger_state OV_FAILED = VERIFICATION_FAILED"
| "verification_ledger_state OV_OUTCOME_UNKNOWN = OUTCOME_UNKNOWN"
| "verification_ledger_state OV_TARGET_REPLACED = TARGET_REPLACED"

definition persist_verification_result ::
  "int \<Rightarrow> dispatch_request \<Rightarrow> verification_result \<Rightarrow> ledger \<Rightarrow> ledger_entry res \<times> ledger" where
  "persist_verification_result now request result l = transaction l
     (and_then (require (ovr_request_id result = odr_request_id request)
       (ValueError ''verification result does not match request'')) (\<lambda>_.
      and_then (row_for l (odr_request_id request)) (\<lambda>row.
      and_then (check_digest row request) (\<lambda>_.
      if lr_verification_result row \<noteq> None
      then and_then (entry_of row) (\<lambda>existing.
        if le_verification_result existing \<noteq> Some result
        then Inl (OperationalLedgerError ''verification result is immutable'')
        else Inr (Inr existing, l))
      else and_then (parse_state (lr_state row)) (\<lambda>current.
        if current \<noteq> VERIFYING
        then Inl (OperationalLedgerError ''verification result requires verifying state'')
        else let state = verification_ledger_state (ovr_status result) in
          and_then (record_transition request (Some VERIFYING) state now
            (update_rows (\<lambda>r. lr_request_id r = odr_request_id request)
              (\<lambda>r. r\<lparr>lr_state := state_text state,
                lr_verification_result := Some (Stored result), lr_updated_at := now\<rparr>) l)) (\<lambda>l'.
          and_then (row_for l' (odr_request_id request)) (\<lambda>row.
          Inr (entry_of row, l'))))))))"

section \<open>Audit events\<close>

definition request_event :: "string \<Rightarrow> audit_status \<Rightarrow> int \<Rightarrow> dispatch_request \<Rightarrow> audit_event" where
  "request_event event_id status now request =
     \<lparr>oae_event_id = event_id, oae_status = status, oae_occurred_at = now,
      oae_request_id = Some (odr_request_id request),
      oae_request_digest = Some (odr_request_digest request),
      oae_workflow_session_id = Some (odr_workflow_session_id request),
      oae_candidate_planning_session_id = Some (odr_candidate_planning_session_id request),
      oae_candidate_id = Some (odr_candidate_id request),
      oae_candidate_plan_id = Some (odr_candidate_plan_id request),
      oae_provider_id = Some (odr_provider_id request),
      oae_resource_id = Some (odr_resource_id request),
      oae_resource_type = Some (odr_resource_type request),
      oae_target_fingerprint = Some (odr_target_fingerprint request)\<rparr>"

definition append_event :: "audit_event \<Rightarrow> ledger \<Rightarrow> unit res \<times> ledger" where
  "append_event event l =
     (if list_ex (\<lambda>e. er_event_id e = oae_event_id event) (event_rows l)
      then (Inl (IntegrityError
        ''UNIQUE constraint failed: operational_dispatch_events.event_id''), l)
      else (Inr (), l\<lparr>event_rows := event_rows l @
        [\<lparr>er_event_id = oae_event_id event, er_occurred_at = oae_occurred_at event,
          er_event = Stored event\<rparr>]\<rparr>))"

fun append_events :: "audit_event list \<Rightarrow> ledger \<Rightarrow> unit res \<times> ledger" where
  "append_events [] l = (Inr (), l)"
| "append_events (e # es) l = (case append_event e l of
     (Inl x, l') \<Rightarrow> (Inl x, l')
   | (Inr u, l') \<Rightarrow> append_events es l')"

definition exact_request_id :: "string \<Rightarrow> unit res" where
  "exact_request_id request_id =
     require (\<not> (request_id = [] \<or> request_id \<noteq> strip request_id))
       (ValueError ''operational request ID must be exact and nonblank'')"

text \<open>The event table orders by time, then by identifier.\<close>

definition event_order :: "event_row list \<Rightarrow> event_row list" where
  "event_order rows = sort_key er_occurred_at (sort_key er_event_id rows)"

definition decode_events :: "event_row list \<Rightarrow> audit_event list res" where
  "decode_events rows = corrupt (traverse (\<lambda>r. decode (er_event r)) rows)
     ''stored operational dispatch event is invalid''"

definition list_events :: "int \<Rightarrow> ledger \<Rightarrow> audit_event list res" where
  "list_events limit l =
     and_then (require (\<not> (limit < 1 \<or> limit > 1000))
       (ValueError ''operational event limit must be between 1 and 1000'')) (\<lambda>_.
     decode_events (take (nat limit) (rev (event_order (event_rows l)))))"

fun stored_request_id :: "audit_event stored \<Rightarrow> string option" where
  "stored_request_id Undecodable = None"
| "stored_request_id (Stored e) = oae_request_id e"

definition list_request_events :: "string \<Rightarrow> ledger \<Rightarrow> audit_event list res" where
  "list_request_events request_id l =
     and_then (exact_request_id request_id) (\<lambda>_.
     decode_events (event_order
       (filter (\<lambda>r. stored_request_id (er_event r) = Some request_id) (event_rows l))))"

section \<open>Reconciliation at startup\<close>

definition unknown_after_restart :: "ledger_row \<Rightarrow> dispatch_request \<Rightarrow> int \<Rightarrow> int \<Rightarrow> dispatch_result" where
  "unknown_after_restart row request started_at now =
     \<lparr>ors_status = DISPATCH_UNKNOWN, ors_request_id = lr_request_id row,
      ors_request_digest = lr_request_digest row,
      ors_target_fingerprint = odr_target_fingerprint request,
      ors_provider_operation_id = None, ors_started_at = started_at,
      ors_completed_at = Some now,
      ors_sanitized_message = Some ''Dispatch outcome is unknown after Core restart.''\<rparr>"

fun reconcile_rows :: "int \<Rightarrow> ledger_row list \<Rightarrow> ledger \<Rightarrow> ledger res" where
  "reconcile_rows now [] l = Inr l"
| "reconcile_rows now (row # rows) l =
     and_then (decode_request (lr_request row)) (\<lambda>request.
     case lr_dispatch_started_at row of
       None \<Rightarrow> Inl (TypeError ''fromisoformat: argument must be str'')
     | Some started_at \<Rightarrow>
       and_then (record_transition request (Some DISPATCHING) OUTCOME_UNKNOWN now
         (update_rows (\<lambda>r. lr_request_id r = lr_request_id row \<and> lr_state r = ''dispatching'')
           (\<lambda>r. r\<lparr>lr_state := ''outcome_unknown'',
             lr_dispatch_result :=
               Some (Stored (unknown_after_restart row request started_at now)),
             lr_updated_at := now\<rparr>) l)) (\<lambda>l'.
       reconcile_rows now rows l'))"

record reconciliation =
  retryable_pre_dispatch :: nat
  outcome_unknown_count :: nat
  verification_resumable_count :: nat

definition count_states :: "ledger \<Rightarrow> string list \<Rightarrow> nat" where
  "count_states l states = length (filter (\<lambda>r. lr_state r \<in> set states) (dispatch_rows l))"

text \<open>Two events per reconciled row; \<open>uuid n\<close> is the \<open>n\<close>-th identifier
  \<open>uuid4\<close> returns during the call.\<close>

fun recovery_events ::
  "(nat \<Rightarrow> string) \<Rightarrow> nat \<Rightarrow> int \<Rightarrow> ledger_row list \<Rightarrow> audit_event list res" where
  "recovery_events uuid n now [] = Inr []"
| "recovery_events uuid n now (row # rows) =
     and_then (decode_request (lr_request row)) (\<lambda>request.
     and_then (recovery_events uuid (n + 2) now rows) (\<lambda>events.
     Inr (request_event (uuid n) AUDIT_OUTCOME_UNKNOWN now request
       # request_event (uuid (n + 1)) RECOVERY_RECONCILED now request # events)))"

definition reconcile_startup ::
  "int \<Rightarrow> (nat \<Rightarrow> string) \<Rightarrow> ledger \<Rightarrow> reconciliation res \<times> ledger" where
  "reconcile_startup now uuid l =
     (let rows = filter (\<lambda>r. lr_state r = ''dispatching'') (dispatch_rows l) in
      case reconcile_rows now rows l of
        Inl e \<Rightarrow> (Inl e, l)
      | Inr l1 \<Rightarrow>
        let summary = \<lparr>retryable_pre_dispatch = count_states l1 [''claimed'', ''revalidated''],
              outcome_unknown_count = length rows,
              verification_resumable_count = count_states l1 [''verifying'']\<rparr>
        in (case recovery_events uuid 0 now rows of
             Inl e \<Rightarrow> (Inl e, l1)
           | Inr events \<Rightarrow> (case append_events events l1 of
               (Inl e, l2) \<Rightarrow> (Inl e, l2)
             | (Inr u, l2) \<Rightarrow> (Inr summary, l2))))"

section \<open>Reading\<close>

definition get_entry :: "string \<Rightarrow> ledger \<Rightarrow> ledger_entry option res" where
  "get_entry request_id l = (case find_row l request_id of
     None \<Rightarrow> Inr None
   | Some row \<Rightarrow> and_then (entry_of row) (\<lambda>e. Inr (Some e)))"

definition list_verification_candidates :: "ledger \<Rightarrow> ledger_entry list res" where
  "list_verification_candidates l =
     (let rows = filter (\<lambda>r. lr_verification_result r = None
            \<and> lr_state r \<in> set [''succeeded'', ''outcome_unknown'', ''verifying''])
          (dispatch_rows l)
      in and_then (traverse entry_of (sort_key lr_created_at (sort_key lr_request_id rows)))
        (\<lambda>entries. Inr (filter (\<lambda>e. le_state e = VERIFYING
           \<or> (case le_dispatch_result e of None \<Rightarrow> False
              | Some d \<Rightarrow> ors_provider_operation_id d \<noteq> None)) entries)))"

fun parse_optional_state :: "string option \<Rightarrow> ledger_state option res" where
  "parse_optional_state None = Inr None"
| "parse_optional_state (Some s) = and_then (parse_state s) (\<lambda>x. Inr (Some x))"

definition decode_transition :: "transition_row \<Rightarrow> ledger_transition res" where
  "decode_transition t =
     and_then (parse_optional_state (tr_previous_state t)) (\<lambda>previous.
     and_then (parse_state (tr_state t)) (\<lambda>state.
     Inr \<lparr>lt_sequence = tr_sequence t, lt_request_id = tr_request_id t,
       lt_request_digest = tr_request_digest t, lt_previous_state = previous,
       lt_state = state, lt_occurred_at = tr_occurred_at t\<rparr>))"

definition request_log :: "string \<Rightarrow> ledger \<Rightarrow> transition_row list" where
  "request_log request_id l = filter (\<lambda>t. tr_request_id t = request_id) (transition_rows l)"

definition list_transitions :: "string \<Rightarrow> ledger \<Rightarrow> ledger_transition list res" where
  "list_transitions request_id l =
     and_then (exact_request_id request_id) (\<lambda>_.
     corrupt (traverse decode_transition (sort_key tr_sequence (request_log request_id l)))
       ''stored operational ledger transition is invalid'')"

section \<open>Valid ledgers\<close>

definition row_state_valid :: "ledger_state \<Rightarrow> ledger_row \<Rightarrow> bool" where
  "row_state_valid st row \<longleftrightarrow>
     (st \<in> {CLAIMED, REVALIDATED} \<longrightarrow> lr_dispatch_started_at row = None)
     \<and> (st = DISPATCHING \<longrightarrow> lr_dispatch_started_at row \<noteq> None)
     \<and> (lr_dispatch_result row = None \<longleftrightarrow> st \<in> {CLAIMED, REVALIDATED, DISPATCHING})
     \<and> (st \<in> {VERIFIED, VERIFICATION_FAILED} \<longrightarrow> lr_verification_result row \<noteq> None)
     \<and> (lr_verification_result row \<noteq> None \<longrightarrow>
          st \<in> {VERIFIED, VERIFICATION_FAILED, OUTCOME_UNKNOWN, TARGET_REPLACED})"

text \<open>A row whose columns decode, agree with each other and fit the state \<open>st\<close>.\<close>

definition row_valid :: "ledger_state \<Rightarrow> ledger_row \<Rightarrow> bool" where
  "row_valid st row \<longleftrightarrow> lr_state row = state_text st
     \<and> (\<exists>request. lr_request row = Stored request \<and> contract_holds request
          \<and> odr_request_id request = lr_request_id row
          \<and> odr_request_digest request = lr_request_digest row)
     \<and> (\<forall>c. lr_dispatch_result row = Some c \<longrightarrow> (\<exists>d. c = Stored d
          \<and> ors_request_id d = lr_request_id row \<and> ors_request_digest d = lr_request_digest row))
     \<and> (\<forall>c. lr_verification_result row = Some c \<longrightarrow> (\<exists>v. c = Stored v))
     \<and> row_state_valid st row"

text \<open>The rows of a transition log that lead from one state to another.\<close>

fun follows :: "string \<Rightarrow> ledger_state option \<Rightarrow> transition_row list \<Rightarrow> ledger_state option \<Rightarrow> bool" where
  "follows digest p [] s = (p = s)"
| "follows digest p (t # ts) s \<longleftrightarrow> tr_request_digest t = digest
     \<and> tr_previous_state t = map_option state_text p
     \<and> (\<exists>st. tr_state t = state_text st \<and> (p, st) \<in> set allowed_transitions
          \<and> follows digest (Some st) ts s)"

definition ledger_valid :: "ledger \<Rightarrow> bool" where
  "ledger_valid l \<longleftrightarrow> distinct (map lr_request_id (dispatch_rows l))
     \<and> (\<forall>row \<in> set (dispatch_rows l). \<exists>st. row_valid st row
          \<and> follows (lr_request_digest row) None (request_log (lr_request_id row) l) (Some st))
     \<and> sorted_wrt (<) (map tr_sequence (transition_rows l))
     \<and> (\<forall>t \<in> set (transition_rows l). tr_sequence t \<le> last_sequence l
          \<and> tr_request_id t \<in> lr_request_id ` set (dispatch_rows l))
     \<and> distinct (map er_event_id (event_rows l))
     \<and> (\<forall>e \<in> set (event_rows l). er_event e \<noteq> Undecodable)"

lemma inj_state_text [simp]: "state_text s = state_text t \<longleftrightarrow> s = t"
  by (cases s; cases t) simp_all

lemma parse_state_text [simp]: "parse_state (state_text s) = Inr s"
  by (cases s) (simp_all add: parse_state_def ledger_states_def)

lemma follows_append:
  "follows d p (ts @ us) s \<longleftrightarrow> (\<exists>q. follows d p ts q \<and> follows d q us s)"
  by (induction ts arbitrary: p) auto

lemma follows_end: "follows d p ts s \<Longrightarrow> follows d p ts s' \<Longrightarrow> s' = s"
  by (induction ts arbitrary: p) auto

lemma find_append_Some: "List.find P xs = Some x \<Longrightarrow> List.find P (xs @ ys) = Some x"
  by (induction xs) auto

lemma find_append_None: "List.find P xs = None \<Longrightarrow> List.find P (xs @ ys) = List.find P ys"
  by (induction xs) (auto split: if_splits)

lemma find_row_id: "find_row l k = Some row \<Longrightarrow> lr_request_id row = k \<and> row \<in> set (dispatch_rows l)"
  by (auto simp: find_row_def find_Some_iff)

lemma find_row_eq:
  assumes "distinct (map lr_request_id (dispatch_rows l))"
    and "row \<in> set (dispatch_rows l)" "lr_request_id row = k"
  shows "find_row l k = Some row"
proof (cases "find_row l k")
  case None
  with assms show ?thesis by (auto simp: find_row_def find_None_iff)
next
  case (Some row')
  with find_row_id [OF Some] assms show ?thesis
    by (auto simp: distinct_map dest: inj_onD)
qed

lemma find_row_update_rows:
  assumes "\<And>r. lr_request_id (f r) = lr_request_id r"
  shows "find_row (update_rows p f l) k
    = map_option (\<lambda>r. if p r then f r else r) (find_row l k)"
proof -
  have "List.find (\<lambda>r. lr_request_id r = k) (map (\<lambda>r. if p r then f r else r) rows)
      = map_option (\<lambda>r. if p r then f r else r) (List.find (\<lambda>r. lr_request_id r = k) rows)" for rows
    using assms by (induction rows) auto
  then show ?thesis by (simp add: find_row_def update_rows_def)
qed

lemma find_row_record_transition:
  "record_transition request p st now l = Inr l' \<Longrightarrow> find_row l' k = find_row l k"
  by (auto simp: record_transition_def find_row_def split: if_splits)

fun content :: "'a stored option \<Rightarrow> 'a option" where
  "content (Some (Stored x)) = Some x"
| "content _ = None"

text \<open>The entry a valid row in state \<open>st\<close> decodes to.\<close>

definition projected :: "ledger_state \<Rightarrow> ledger_row \<Rightarrow> ledger_entry" where
  "projected st row = \<lparr>le_request_id = lr_request_id row,
     le_request_digest = lr_request_digest row, le_state = st,
     le_request = the (content (Some (lr_request row))), le_created_at = lr_created_at row,
     le_updated_at = lr_updated_at row, le_dispatch_started_at = lr_dispatch_started_at row,
     le_dispatch_result = content (lr_dispatch_result row),
     le_verification_result = content (lr_verification_result row)\<rparr>"

lemma entry_of_valid:
  "row_valid st row \<Longrightarrow> entry_of row = Inr (projected st row)"
  by (cases "lr_dispatch_result row"; cases "lr_verification_result row")
    (auto simp: row_valid_def row_state_valid_def entry_of_def decode_request_def corrupt_def
      validate_request_Inr [THEN iffD2] dispatch_result_states_def final_states_def projected_def)

lemma content_valid:
  assumes "row_valid st row"
  shows "content (lr_dispatch_result row) = None \<longleftrightarrow> lr_dispatch_result row = None"
    and "content (lr_verification_result row) = None \<longleftrightarrow> lr_verification_result row = None"
  using assms
  by (cases "lr_dispatch_result row"; cases "lr_verification_result row"; auto simp: row_valid_def)+

section \<open>Every method is a sequence of valid changes\<close>

definition logged ::
  "dispatch_request \<Rightarrow> ledger_state option \<Rightarrow> ledger_state \<Rightarrow> int \<Rightarrow> ledger \<Rightarrow> ledger" where
  "logged request previous state now l = l\<lparr>transition_rows := transition_rows l @
      [\<lparr>tr_sequence = last_sequence l + 1, tr_request_id = odr_request_id request,
        tr_request_digest = odr_request_digest request,
        tr_previous_state = map_option state_text previous,
        tr_state = state_text state, tr_occurred_at = now\<rparr>],
    last_sequence := last_sequence l + 1\<rparr>"

lemma record_transition_eq:
  "record_transition request p s now l =
     (if (p, s) \<in> set allowed_transitions then Inr (logged request p s now l)
      else Inl (OperationalLedgerError ''invalid operational ledger transition''))"
  by (simp add: record_transition_def logged_def)

definition claimed_row :: "int \<Rightarrow> dispatch_request \<Rightarrow> ledger_row" where
  "claimed_row now request = \<lparr>lr_request_id = odr_request_id request,
     lr_request_digest = odr_request_digest request, lr_state = ''claimed'',
     lr_request = Stored request, lr_created_at = now, lr_updated_at = now,
     lr_dispatch_started_at = None, lr_dispatch_result = None, lr_verification_result = None\<rparr>"

definition inserted :: "int \<Rightarrow> dispatch_request \<Rightarrow> ledger \<Rightarrow> ledger" where
  "inserted now request l =
     logged request None CLAIMED now (l\<lparr>dispatch_rows := dispatch_rows l @ [claimed_row now request]\<rparr>)"

definition advanced :: "dispatch_request \<Rightarrow> ledger_state \<Rightarrow> ledger_state \<Rightarrow> int
    \<Rightarrow> (ledger_row \<Rightarrow> ledger_row) \<Rightarrow> ledger \<Rightarrow> ledger" where
  "advanced request previous state now f l = logged request (Some previous) state now
     (update_rows (\<lambda>r. lr_request_id r = odr_request_id request) f l)"

text \<open>The later row keeps the identity of the earlier one and every value already written.\<close>

definition extends :: "ledger_row \<Rightarrow> ledger_row \<Rightarrow> bool" where
  "extends row row' \<longleftrightarrow> lr_request_id row' = lr_request_id row
     \<and> lr_request_digest row' = lr_request_digest row
     \<and> lr_request row' = lr_request row
     \<and> (lr_dispatch_started_at row \<noteq> None \<longrightarrow>
          lr_dispatch_started_at row' = lr_dispatch_started_at row)
     \<and> (lr_dispatch_result row \<noteq> None \<longrightarrow> lr_dispatch_result row' = lr_dispatch_result row)
     \<and> (lr_verification_result row \<noteq> None \<longrightarrow>
          lr_verification_result row' = lr_verification_result row)"

inductive change :: "ledger \<Rightarrow> ledger \<Rightarrow> bool" where
  change_insert: "contract_holds request \<Longrightarrow> find_row l (odr_request_id request) = None \<Longrightarrow>
     change l (inserted now request l)"
| change_advance: "find_row l (odr_request_id request) = Some row \<Longrightarrow>
     lr_request_digest row = odr_request_digest request \<Longrightarrow>
     lr_state row = state_text previous \<Longrightarrow>
     (Some previous, state) \<in> set allowed_transitions \<Longrightarrow>
     (\<And>r. lr_request_id (f r) = lr_request_id r) \<Longrightarrow>
     row_valid state (f row) \<Longrightarrow> extends row (f row) \<Longrightarrow>
     change l (advanced request previous state now f l)"
| change_event: "oae_event_id e \<notin> er_event_id ` set (event_rows l) \<Longrightarrow>
     change l (snd (append_event e l))"

inductive_cases changeE: "change l l'"

lemma ledger_valid_distinct: "ledger_valid l \<Longrightarrow> distinct (map lr_request_id (dispatch_rows l))"
  by (simp add: ledger_valid_def)

lemma ledger_valid_row:
  "ledger_valid l \<Longrightarrow> find_row l k = Some row \<Longrightarrow> \<exists>st. row_valid st row
     \<and> follows (lr_request_digest row) None (request_log k l) (Some st)"
  using find_row_id [of l k row] by (auto simp: ledger_valid_def)

lemma request_log_logged:
  "request_log k (logged request p s now l) = request_log k l @
     (if odr_request_id request = k then [\<lparr>tr_sequence = last_sequence l + 1,
        tr_request_id = odr_request_id request, tr_request_digest = odr_request_digest request,
        tr_previous_state = map_option state_text p,
        tr_state = state_text s, tr_occurred_at = now\<rparr>] else [])"
  by (simp add: request_log_def logged_def)

lemma request_log_update_rows [simp]: "request_log k (update_rows p f l) = request_log k l"
  by (simp add: request_log_def update_rows_def)

lemma request_log_no_row:
  "ledger_valid l \<Longrightarrow> find_row l k = None \<Longrightarrow> request_log k l = []"
  by (fastforce simp: ledger_valid_def request_log_def filter_empty_conv find_row_def find_None_iff)

lemma dispatch_rows_logged [simp]: "dispatch_rows (logged request p s now l) = dispatch_rows l"
  by (simp add: logged_def)

lemma event_rows_writes [simp]:
  "event_rows (logged request p s now l) = event_rows l"
  "event_rows (update_rows q f l) = event_rows l"
  by (simp_all add: logged_def update_rows_def)

lemma ledger_valid_events:
  "ledger_valid l \<Longrightarrow> distinct (map er_event_id (event_rows l))
     \<and> (\<forall>e \<in> set (event_rows l). er_event e \<noteq> Undecodable)"
  by (simp add: ledger_valid_def)

lemma logged_sequences:
  assumes "sorted_wrt (<) (map tr_sequence (transition_rows l))"
    and "\<forall>t \<in> set (transition_rows l). tr_sequence t \<le> last_sequence l
          \<and> tr_request_id t \<in> lr_request_id ` set rows"
    and "odr_request_id request \<in> lr_request_id ` set rows"
  shows "sorted_wrt (<) (map tr_sequence (transition_rows (logged request p s now l)))"
    and "\<forall>t \<in> set (transition_rows (logged request p s now l)).
          tr_sequence t \<le> last_sequence (logged request p s now l)
          \<and> tr_request_id t \<in> lr_request_id ` set rows"
  using assms by (fastforce simp: logged_def sorted_wrt_append)+

lemma change_insert_valid:
  assumes v: "ledger_valid l" and c: "contract_holds request"
    and n: "find_row l (odr_request_id request) = None"
  shows "ledger_valid (inserted now request l)"
proof -
  let ?l = "l\<lparr>dispatch_rows := dispatch_rows l @ [claimed_row now request]\<rparr>"
  have new: "odr_request_id request \<notin> lr_request_id ` set (dispatch_rows l)"
    using n by (auto simp: find_row_def find_None_iff)
  have "row_valid CLAIMED (claimed_row now request)"
    using c by (simp add: row_valid_def row_state_valid_def claimed_row_def)
  moreover have "request_log (odr_request_id request) ?l = []"
    using request_log_no_row [OF v n] by (simp add: request_log_def)
  moreover have "request_log k ?l = request_log k l" for k by (simp add: request_log_def)
  moreover note logged_sequences [of ?l "dispatch_rows ?l" request None CLAIMED now]
  ultimately show ?thesis
    using v new unfolding ledger_valid_def inserted_def
    by (auto simp: request_log_logged claimed_row_def allowed_transitions_def)
qed

lemma change_advance_valid:
  assumes v: "ledger_valid l" and row: "find_row l (odr_request_id request) = Some row"
    and d: "lr_request_digest row = odr_request_digest request"
    and s: "lr_state row = state_text previous"
    and a: "(Some previous, state) \<in> set allowed_transitions"
    and f: "\<And>r. lr_request_id (f r) = lr_request_id r"
    and rv: "row_valid state (f row)" and e: "extends row (f row)"
  shows "ledger_valid (advanced request previous state now f l)"
proof -
  let ?p = "\<lambda>r. lr_request_id r = odr_request_id request"
  let ?l = "update_rows ?p f l" and ?l' = "advanced request previous state now f l"
  have ids: "map lr_request_id (dispatch_rows ?l) = map lr_request_id (dispatch_rows l)"
    using f by (simp add: update_rows_def)
  have set_ids: "lr_request_id ` set (dispatch_rows ?l) = lr_request_id ` set (dispatch_rows l)"
    using arg_cong [OF ids, of set] by simp
  have "\<exists>st. row_valid st r'
      \<and> follows (lr_request_digest r') None (request_log (lr_request_id r') ?l') (Some st)"
    if r': "r' \<in> set (dispatch_rows ?l)" for r'
  proof -
    obtain r where r: "r \<in> set (dispatch_rows l)" "r' = (if ?p r then f r else r)"
      using r' by (auto simp: update_rows_def)
    then have log: "\<exists>st. row_valid st r
        \<and> follows (lr_request_digest r) None (request_log (lr_request_id r) l) (Some st)"
      using v by (simp add: ledger_valid_def)
    show ?thesis
    proof (cases "?p r")
      case False
      with log r f show ?thesis by (auto simp: advanced_def request_log_logged)
    next
      case True
      then have "r = row" using find_row_eq [OF ledger_valid_distinct [OF v] r(1)] row by simp
      moreover from log this have "follows (lr_request_digest row) None
          (request_log (lr_request_id row) l) (Some previous)"
        using s by (auto simp: row_valid_def)
      then have "follows (lr_request_digest row) None
          (request_log (odr_request_id request) ?l') (Some state)"
        using True calculation r d a
        by (auto simp: advanced_def request_log_logged follows_append intro!: exI [of _ "Some previous"])
      ultimately show ?thesis
        using True r f rv e by (auto simp: extends_def)
    qed
  qed
  moreover have "odr_request_id request \<in> lr_request_id ` set (dispatch_rows l)"
    using find_row_id [OF row] by (metis imageI)
  then have "sorted_wrt (<) (map tr_sequence (transition_rows ?l'))
    \<and> (\<forall>t \<in> set (transition_rows ?l'). tr_sequence t \<le> last_sequence ?l'
          \<and> tr_request_id t \<in> lr_request_id ` set (dispatch_rows l))"
    using v logged_sequences [of ?l "dispatch_rows l" request "Some previous" state now]
    by (simp add: advanced_def update_rows_def ledger_valid_def)
  ultimately show ?thesis
    using ledger_valid_distinct [OF v] ledger_valid_events [OF v] ids set_ids by (simp add: ledger_valid_def advanced_def)
qed

lemma change_valid: "change l l' \<Longrightarrow> ledger_valid l \<Longrightarrow> ledger_valid l'"
proof (induction rule: change.induct)
  case (change_event e l)
  then show ?case by (auto simp: ledger_valid_def request_log_def append_event_def list_ex_iff)
qed (simp_all add: change_insert_valid change_advance_valid)

lemma changes_valid: "change\<^sup>*\<^sup>* l l' \<Longrightarrow> ledger_valid l \<Longrightarrow> ledger_valid l'"
  by (induction rule: rtranclp_induct) (auto intro: change_valid)

text \<open>Along changes a row is only extended.\<close>

lemma extends_refl [simp]: "extends row row"
  by (simp add: extends_def)

lemma extends_trans: "extends a b \<Longrightarrow> extends b c \<Longrightarrow> extends a c"
  by (auto simp: extends_def)

lemma change_extends:
  assumes "change l l'" "find_row l k = Some row"
  shows "\<exists>row'. find_row l' k = Some row' \<and> extends row row'"
  using assms
proof (induction rule: change.induct)
  case (change_insert request l now)
  then have "find_row (inserted now request l) k = Some row"
    by (simp add: find_row_def inserted_def find_append_Some)
  then show ?case by simp
next
  case (change_advance l request row0 previous state f now)
  have "find_row (advanced request previous state now f l) k
      = map_option (\<lambda>r. if lr_request_id r = odr_request_id request then f r else r) (find_row l k)"
    using find_row_update_rows [of f "\<lambda>r. lr_request_id r = odr_request_id request" l k]
      change_advance(5) by (simp add: advanced_def find_row_def)
  then show ?case
    using change_advance find_row_id [of l k row] by auto
next
  case (change_event e l)
  then show ?case by (simp add: find_row_def append_event_def)
qed

lemma changes_extends:
  "change\<^sup>*\<^sup>* l l' \<Longrightarrow> find_row l k = Some row \<Longrightarrow>
   \<exists>row'. find_row l' k = Some row' \<and> extends row row'"
  by (induction rule: rtranclp_induct) (auto dest: change_extends intro: extends_trans)

section \<open>The methods as changes\<close>

lemma update_rows_at:
  assumes v: "ledger_valid l" and row: "find_row l k = Some row" and s: "lr_state row = t"
  shows "update_rows (\<lambda>r. lr_request_id r = k \<and> lr_state r = t) f l
      = update_rows (\<lambda>r. lr_request_id r = k) f l"
    and "length (filter (\<lambda>r. lr_request_id r = k \<and> lr_state r = t) (dispatch_rows l)) = 1"
proof -
  have only: "lr_request_id r = k \<and> lr_state r = t \<longleftrightarrow> lr_request_id r = k"
    if "r \<in> set (dispatch_rows l)" for r
    using find_row_eq [OF ledger_valid_distinct [OF v] that] row s by auto
  then show "update_rows (\<lambda>r. lr_request_id r = k \<and> lr_state r = t) f l
      = update_rows (\<lambda>r. lr_request_id r = k) f l"
    by (auto simp: update_rows_def)
  have "length (filter (\<lambda>r. lr_request_id r = k) rows) = 1"
    if "distinct (map lr_request_id rows)" "row \<in> set rows" "lr_request_id row = k" for rows
    using that by (induction rows) (auto simp: filter_empty_conv image_iff)
  then have "length (filter (\<lambda>r. lr_request_id r = k) (dispatch_rows l)) = 1"
    using ledger_valid_distinct [OF v] find_row_id [OF row] by blast
  then show "length (filter (\<lambda>r. lr_request_id r = k \<and> lr_state r = t) (dispatch_rows l)) = 1"
    using only by (simp cong: filter_cong)
qed

lemma find_row_advanced:
  assumes "\<And>r. lr_request_id (f r) = lr_request_id r"
  shows "find_row (advanced request p s now f l) k
      = map_option (\<lambda>r. if lr_request_id r = odr_request_id request then f r else r) (find_row l k)"
  using find_row_update_rows [of f "\<lambda>r. lr_request_id r = odr_request_id request" l k] assms
  by (simp add: advanced_def find_row_def)

lemma find_row_inserted:
  "find_row l (odr_request_id request) = None \<Longrightarrow>
   find_row (inserted now request l) (odr_request_id request) = Some (claimed_row now request)"
  by (simp add: find_row_def inserted_def find_append_None claimed_row_def)

lemma transaction_simps [simp]:
  "transaction l (Inl e) = (Inl e, l)"
  "transaction l (Inr r) = r"
  by (simp_all add: transaction_def)

lemma claim_eq:
  "claim now request l =
     (case validate_request request of Inl e \<Rightarrow> (Inl e, l)
      | Inr r \<Rightarrow> (case find_row l (odr_request_id request) of
        None \<Rightarrow> (entry_of (claimed_row now request), inserted now request l)
      | Some row \<Rightarrow>
          if lr_request_digest row \<noteq> odr_request_digest request
          then (Inl (OperationalLedgerConflictError
            ''operational request ID has a different digest''), l)
          else (entry_of row, l)))"
proof (cases "validate_request request")
  case (Inl e)
  then show ?thesis by (simp add: claim_def)
next
  case (Inr r)
  then have "r = request" by (simp add: validate_request_Inr)
  then show ?thesis
    using Inr find_row_inserted [of l request now]
    by (auto simp: claim_def record_transition_eq allowed_transitions_def row_for_def
        inserted_def claimed_row_def Let_def split: option.splits)
qed

lemma claim_changes: "change\<^sup>*\<^sup>* l (snd (claim now request l))"
  by (auto simp: claim_eq validate_request_Inr intro: r_into_rtranclp change_insert
      split: option.splits sum.splits)

definition moved :: "int \<Rightarrow> ledger_state \<Rightarrow> bool \<Rightarrow> ledger_row \<Rightarrow> ledger_row" where
  "moved now target set_dispatch_started r =
     (if set_dispatch_started then r\<lparr>lr_dispatch_started_at := Some now\<rparr> else r)
       \<lparr>lr_state := state_text target, lr_updated_at := now\<rparr>"

lemma moved_id [simp]: "lr_request_id (moved now target b r) = lr_request_id r"
  by (simp add: moved_def)

lemma row_valid_state: "row_valid st row \<Longrightarrow> lr_state row = state_text st"
  by (simp add: row_valid_def)

lemma ledger_valid_parse:
  assumes "ledger_valid l" "find_row l k = Some row"
  obtains st where "row_valid st row" "lr_state row = state_text st"
    "parse_state (lr_state row) = Inr st"
  using ledger_valid_row [OF assms] by (auto simp: row_valid_state)

lemma transition_eq:
  assumes v: "ledger_valid l" and a: "(Some expected, target) \<in> set allowed_transitions"
  shows "transition now request expected target b l =
    (case find_row l (odr_request_id request) of
       None \<Rightarrow> (Inl (KeyError (odr_request_id request)), l)
     | Some row \<Rightarrow>
         if lr_request_digest row \<noteq> odr_request_digest request
         then (Inl (OperationalLedgerConflictError
            ''operational request ID has a different digest''), l)
         else if lr_state row = state_text expected
         then (and_then (entry_of (moved now target b row)) (\<lambda>e. Inr (e, True)),
               advanced request expected target now (moved now target b) l)
         else (and_then (entry_of row) (\<lambda>e. Inr (e, False)), l))"
proof (cases "find_row l (odr_request_id request)")
  case None
  then show ?thesis by (simp add: transition_def row_for_def)
next
  case (Some row)
  from v Some obtain st where st: "row_valid st row" "lr_state row = state_text st"
    "parse_state (lr_state row) = Inr st" by (rule ledger_valid_parse)
  have "find_row (advanced request expected target now (moved now target b) l)
      (odr_request_id request) = Some (moved now target b row)"
    using find_row_advanced [of "moved now target b"] Some find_row_id [OF Some] by simp
  moreover have "st = expected \<Longrightarrow> advanced request expected target now (moved now target b) l
    = logged request (Some expected) target now (update_rows (\<lambda>r. lr_request_id r = odr_request_id request
                 \<and> lr_state r = state_text expected) (moved now target b) l)"
    using update_rows_at(1) [OF v Some st(2)] by (simp add: advanced_def)
  moreover have "st = expected \<Longrightarrow> length (filter (\<lambda>r. lr_request_id r = odr_request_id request
                 \<and> lr_state r = state_text expected) (dispatch_rows l)) = 1"
    using update_rows_at(2) [OF v Some st(2)] by simp
  ultimately show ?thesis
    using Some st(2,3) a
    by (auto simp: transition_def row_for_def check_digest_def require_def Let_def
        record_transition_eq moved_def [symmetric, abs_def])
qed

lemma mark_revalidated_changes:
  assumes v: "ledger_valid l"
  shows "change\<^sup>*\<^sup>* l (snd (mark_revalidated now request l))"
proof -
  have a: "(Some CLAIMED, REVALIDATED) \<in> set allowed_transitions"
    by (simp add: allowed_transitions_def)
  have "change l (advanced request CLAIMED REVALIDATED now (moved now REVALIDATED False) l)"
    if "find_row l (odr_request_id request) = Some row"
      "lr_request_digest row = odr_request_digest request" "lr_state row = ''claimed''" for row
  proof (rule change_advance [OF that(1,2) _ a])
    from v that(1) obtain st where "row_valid st row" "lr_state row = state_text st"
      by (rule ledger_valid_parse)
    then have "row_valid CLAIMED row" using that(3) by (cases st) simp_all
    then show "row_valid REVALIDATED (moved now REVALIDATED False row)"
      by (simp add: row_valid_def row_state_valid_def moved_def)
  qed (simp_all add: that extends_def moved_def)
  then show ?thesis
    by (auto simp: mark_revalidated_def transition_eq [OF v a] split: option.splits)
qed

lemma mark_dispatching_changes:
  assumes v: "ledger_valid l"
  shows "change\<^sup>*\<^sup>* l (snd (mark_dispatching now request l))"
proof -
  have a: "(Some REVALIDATED, DISPATCHING) \<in> set allowed_transitions"
    by (simp add: allowed_transitions_def)
  have "change l (advanced request REVALIDATED DISPATCHING now (moved now DISPATCHING True) l)"
    if "find_row l (odr_request_id request) = Some row"
      "lr_request_digest row = odr_request_digest request" "lr_state row = ''revalidated''" for row
  proof (rule change_advance [OF that(1,2) _ a])
    from v that(1) obtain st where "row_valid st row" "lr_state row = state_text st"
      by (rule ledger_valid_parse)
    then have rv: "row_valid REVALIDATED row" using that(3) by (cases st) simp_all
    then show "row_valid DISPATCHING (moved now DISPATCHING True row)"
      by (simp add: row_valid_def row_state_valid_def moved_def)
    show "extends row (moved now DISPATCHING True row)"
      using rv by (simp add: row_valid_def row_state_valid_def moved_def extends_def)
  qed (simp_all add: that)
  then show ?thesis
    by (auto simp: mark_dispatching_def transition_eq [OF v a] split: option.splits)
qed

definition dispatched ::
  "int \<Rightarrow> ledger_state \<Rightarrow> dispatch_result \<Rightarrow> ledger_row \<Rightarrow> ledger_row" where
  "dispatched now state result r = r\<lparr>lr_state := state_text state,
     lr_dispatch_result := Some (Stored result), lr_updated_at := now\<rparr>"

definition verified_row :: "int \<Rightarrow> verification_result \<Rightarrow> ledger_row \<Rightarrow> ledger_row" where
  "verified_row now result r =
     r\<lparr>lr_state := state_text (verification_ledger_state (ovr_status result)),
       lr_verification_result := Some (Stored result), lr_updated_at := now\<rparr>"

lemma row_updates_id [simp]:
  "lr_request_id (dispatched now state result r) = lr_request_id r"
  "lr_request_id (verified_row now v r) = lr_request_id r"
  by (simp_all add: dispatched_def verified_row_def)

lemma dispatched_valid:
  assumes "row_valid st row" "st \<in> set [CLAIMED, REVALIDATED, DISPATCHING]"
    and "state \<in> set dispatch_result_states"
    and "ors_request_id result = lr_request_id row" "ors_request_digest result = lr_request_digest row"
  shows "row_valid state (dispatched now state result row)"
    and "extends row (dispatched now state result row)"
    and "(Some st, state) \<in> set allowed_transitions"
  using assms
  by (auto simp: row_valid_def row_state_valid_def dispatched_def dispatch_result_states_def
      extends_def allowed_transitions_def)

lemma find_row_none:
  "find_row l (odr_request_id request) = None \<Longrightarrow>
   row_for l (odr_request_id request) = Inl (KeyError (odr_request_id request))"
  by (simp add: row_for_def)

lemma persist_dispatch_result_None:
  "find_row l (odr_request_id request) = None \<Longrightarrow>
   snd (persist_dispatch_result now request result state l) = l"
  by (simp add: persist_dispatch_result_def find_row_none require_def)

lemma persist_dispatch_result_eq:
  assumes v: "ledger_valid l" and row: "find_row l (odr_request_id request) = Some row"
    and st: "row_valid st row"
  shows "persist_dispatch_result now request result state l =
    (if state \<notin> set dispatch_result_states
     then (Inl (ValueError ''invalid dispatch result ledger state''), l)
     else if ors_request_id result \<noteq> odr_request_id request
       \<or> ors_request_digest result \<noteq> odr_request_digest request
     then (Inl (ValueError ''dispatch result does not match request''), l)
     else if lr_request_digest row \<noteq> odr_request_digest request
     then (Inl (OperationalLedgerConflictError
        ''operational request ID has a different digest''), l)
     else (case content (lr_dispatch_result row) of
       Some d \<Rightarrow> (if d \<noteq> result then Inl (OperationalLedgerError ''dispatch result is immutable'')
                  else Inr (projected st row), l)
     | None \<Rightarrow> (Inr (projected state (dispatched now state result row)),
         advanced request st state now (dispatched now state result) l)))"
proof (cases "lr_dispatch_result row")
  case None
  then have pre: "st \<in> set [CLAIMED, REVALIDATED, DISPATCHING]"
    using st by (simp add: row_valid_def row_state_valid_def)
  have "find_row (advanced request st state now (dispatched now state result) l)
      (odr_request_id request) = Some (dispatched now state result row)"
    using find_row_advanced [of "dispatched now state result"] row find_row_id [OF row] by simp
  then show ?thesis
    using None row row_valid_state [OF st] pre find_row_id [OF row]
      dispatched_valid(1,3) [OF st pre]
      entry_of_valid [of state "dispatched now state result row"]
    by (auto simp: persist_dispatch_result_def row_for_def check_digest_def require_def
        record_transition_eq advanced_def dispatched_def [symmetric, abs_def])
next
  case (Some c)
  then obtain d where "c = Stored d" using st by (auto simp: row_valid_def)
  with Some show ?thesis
    using row entry_of_valid [OF st]
    by (simp add: persist_dispatch_result_def row_for_def check_digest_def require_def
        projected_def)
qed

lemma persist_dispatch_result_changes:
  assumes v: "ledger_valid l"
  shows "change\<^sup>*\<^sup>* l (snd (persist_dispatch_result now request result state l))"
proof (cases "find_row l (odr_request_id request)")
  case None
  then show ?thesis by (simp add: persist_dispatch_result_None)
next
  case (Some row)
  from v Some obtain st where st: "row_valid st row" by (rule ledger_valid_parse)
  show ?thesis
  proof (cases "snd (persist_dispatch_result now request result state l) = l")
    case False
    then have c: "state \<in> set dispatch_result_states" "ors_request_id result = odr_request_id request"
      "ors_request_digest result = odr_request_digest request"
      "lr_request_digest row = odr_request_digest request" "lr_dispatch_result row = None"
      "snd (persist_dispatch_result now request result state l)
        = advanced request st state now (dispatched now state result) l"
      using content_valid [OF st]
      by (auto simp: persist_dispatch_result_eq [OF v Some st] split: if_splits option.splits)
    then have pre: "st \<in> set [CLAIMED, REVALIDATED, DISPATCHING]"
      using st by (simp add: row_valid_def row_state_valid_def)
    have ids: "ors_request_id result = lr_request_id row"
        "ors_request_digest result = lr_request_digest row"
      using c find_row_id [OF Some] by simp_all
    note d = dispatched_valid [OF st pre c(1) ids]
    have "change l (advanced request st state now (dispatched now state result) l)"
      by (rule change_advance [OF Some c(4) row_valid_state [OF st] d(3)]) (simp_all add: d)
    then show ?thesis using c(6) by simp
  qed simp
qed

definition resumed :: "int \<Rightarrow> ledger_row \<Rightarrow> ledger_row" where
  "resumed now r = r\<lparr>lr_state := ''verifying'', lr_updated_at := now\<rparr>"

lemma resumed_id [simp]: "lr_request_id (resumed now r) = lr_request_id r"
  by (simp add: resumed_def)

lemma resumed_valid:
  assumes "row_valid st row" "st \<in> set [SUCCEEDED, OUTCOME_UNKNOWN]"
    and "lr_verification_result row = None"
  shows "row_valid VERIFYING (resumed now row)" "extends row (resumed now row)"
    and "(Some st, VERIFYING) \<in> set allowed_transitions"
  using assms
  by (auto simp: row_valid_def row_state_valid_def resumed_def extends_def allowed_transitions_def)

lemma verified_valid:
  assumes "row_valid VERIFYING row"
  shows "row_valid (verification_ledger_state (ovr_status v)) (verified_row now v row)"
    and "extends row (verified_row now v row)"
    and "(Some VERIFYING, verification_ledger_state (ovr_status v)) \<in> set allowed_transitions"
  using assms
  by (cases "ovr_status v"; auto simp: row_valid_def row_state_valid_def verified_row_def
      extends_def allowed_transitions_def)+

lemma begin_verification_None:
  "find_row l (odr_request_id request) = None \<Longrightarrow>
   begin_verification now request b l = (Inl (KeyError (odr_request_id request)), l)"
  by (simp add: begin_verification_def find_row_none)

lemma begin_verification_eq:
  assumes v: "ledger_valid l" and row: "find_row l (odr_request_id request) = Some row"
    and st: "row_valid st row"
  shows "begin_verification now request b l =
    (if lr_request_digest row \<noteq> odr_request_digest request
     then (Inl (OperationalLedgerConflictError
        ''operational request ID has a different digest''), l)
     else if lr_verification_result row \<noteq> None then (Inr (projected st row, False), l)
     else if st \<in> set [SUCCEEDED, OUTCOME_UNKNOWN]
     then (Inr (projected VERIFYING (resumed now row), True),
           advanced request st VERIFYING now (resumed now) l)
     else (Inr (projected st row, st = VERIFYING \<and> b), l))"
proof (cases "st \<in> set [SUCCEEDED, OUTCOME_UNKNOWN] \<and> lr_verification_result row = None")
  case False
  then show ?thesis
    using row row_valid_state [OF st] entry_of_valid [OF st]
    by (auto simp: begin_verification_def row_for_def check_digest_def require_def)
next
  case True
  have "find_row (advanced request st VERIFYING now (resumed now) l)
      (odr_request_id request) = Some (resumed now row)"
    using find_row_advanced [of "resumed now"] row find_row_id [OF row] by simp
  then show ?thesis
    using True row row_valid_state [OF st] resumed_valid(3) [OF st]
      entry_of_valid [OF resumed_valid(1) [OF st], of now]
    by (auto simp: begin_verification_def row_for_def check_digest_def require_def
        record_transition_eq advanced_def resumed_def [symmetric, abs_def])
qed

lemma begin_verification_changes:
  assumes v: "ledger_valid l"
  shows "change\<^sup>*\<^sup>* l (snd (begin_verification now request b l))"
proof (cases "find_row l (odr_request_id request)")
  case None
  then show ?thesis by (simp add: begin_verification_None)
next
  case (Some row)
  from v Some obtain st where st: "row_valid st row" by (rule ledger_valid_parse)
  have "change l (advanced request st VERIFYING now (resumed now) l)"
    if "lr_request_digest row = odr_request_digest request" "lr_verification_result row = None"
      "st \<in> set [SUCCEEDED, OUTCOME_UNKNOWN]"
    by (rule change_advance [OF Some that(1) row_valid_state [OF st]])
      (use resumed_valid [OF st that(3,2)] in simp_all)
  then show ?thesis by (auto simp: begin_verification_eq [OF v Some st])
qed

lemma persist_verification_result_None:
  "find_row l (odr_request_id request) = None \<Longrightarrow>
   snd (persist_verification_result now request result l) = l"
  by (simp add: persist_verification_result_def find_row_none require_def)

lemma persist_verification_result_eq:
  assumes v: "ledger_valid l" and row: "find_row l (odr_request_id request) = Some row"
    and st: "row_valid st row"
  shows "persist_verification_result now request result l =
    (if ovr_request_id result \<noteq> odr_request_id request
     then (Inl (ValueError ''verification result does not match request''), l)
     else if lr_request_digest row \<noteq> odr_request_digest request
     then (Inl (OperationalLedgerConflictError
        ''operational request ID has a different digest''), l)
     else (case content (lr_verification_result row) of
       Some w \<Rightarrow> (if w \<noteq> result
          then Inl (OperationalLedgerError ''verification result is immutable'')
          else Inr (projected st row), l)
     | None \<Rightarrow>
       if st \<noteq> VERIFYING
       then (Inl (OperationalLedgerError ''verification result requires verifying state''), l)
       else (Inr (projected (verification_ledger_state (ovr_status result))
                   (verified_row now result row)),
             advanced request VERIFYING (verification_ledger_state (ovr_status result)) now
               (verified_row now result) l)))"
proof (cases "lr_verification_result row")
  case None
  have "find_row (advanced request VERIFYING (verification_ledger_state (ovr_status result)) now
      (verified_row now result) l) (odr_request_id request) = Some (verified_row now result row)"
    using find_row_advanced [of "verified_row now result"] row find_row_id [OF row] by simp
  then show ?thesis
    using None row row_valid_state [OF st] st verified_valid [of row]
      entry_of_valid [of "verification_ledger_state (ovr_status result)"
        "verified_row now result row"]
    by (auto simp: persist_verification_result_def row_for_def check_digest_def require_def
        Let_def record_transition_eq advanced_def verified_row_def [symmetric, abs_def])
next
  case (Some c)
  then obtain w where "c = Stored w" using st by (auto simp: row_valid_def)
  with Some show ?thesis
    using row entry_of_valid [OF st]
    by (simp add: persist_verification_result_def row_for_def check_digest_def require_def
        projected_def)
qed

lemma persist_verification_result_changes:
  assumes v: "ledger_valid l"
  shows "change\<^sup>*\<^sup>* l (snd (persist_verification_result now request result l))"
proof (cases "find_row l (odr_request_id request)")
  case None
  then show ?thesis by (simp add: persist_verification_result_None)
next
  case (Some row)
  from v Some obtain st where st: "row_valid st row" by (rule ledger_valid_parse)
  have "change l (advanced request VERIFYING (verification_ledger_state (ovr_status result)) now
               (verified_row now result) l)"
    if "lr_request_digest row = odr_request_digest request" "st = VERIFYING"
    by (rule change_advance [OF Some that(1)])
      (use st that verified_valid [of row] in \<open>simp_all add: row_valid_state\<close>)
  then show ?thesis by (auto simp: persist_verification_result_eq [OF v Some st] split: option.splits)
qed

text \<open>What reconciliation makes of a dispatching row.\<close>

fun reconciled :: "int \<Rightarrow> ledger_row \<Rightarrow> ledger_row" where
  "reconciled now row = (case (lr_request row, lr_dispatch_started_at row) of
     (Stored request, Some started_at) \<Rightarrow>
       dispatched now OUTCOME_UNKNOWN (unknown_after_restart row request started_at now) row
   | _ \<Rightarrow> row)"

declare reconciled.simps [simp del]

lemma reconciled_id [simp]: "lr_request_id (reconciled now row) = lr_request_id row"
  by (simp add: reconciled.simps split: stored.splits option.splits)

lemma dispatching_row:
  assumes "row_valid DISPATCHING row"
  obtains request started_at where "lr_request row = Stored request"
    "lr_dispatch_started_at row = Some started_at" "contract_holds request"
    "odr_request_id request = lr_request_id row"
    "odr_request_digest request = lr_request_digest row"
    "reconciled now row =
       dispatched now OUTCOME_UNKNOWN (unknown_after_restart row request started_at now) row"
  using assms by (auto simp: row_valid_def row_state_valid_def reconciled.simps)

lemma reconcile_row:
  assumes v: "ledger_valid l" and row: "find_row l (lr_request_id row) = Some row"
    and s: "lr_state row = ''dispatching''"
  obtains l' where "reconcile_rows now (row # rows) l = reconcile_rows now rows l'"
    and "change l l'"
    and "dispatch_rows l' = map (\<lambda>r. if r = row then reconciled now r else r) (dispatch_rows l)"
proof -
  from v row obtain st where st: "row_valid st row" "lr_state row = state_text st"
    by (rule ledger_valid_parse)
  with s have "row_valid DISPATCHING row" by (cases st) simp_all
  then obtain request t where q: "lr_request row = Stored request"
    "lr_dispatch_started_at row = Some t" "contract_holds request"
    "odr_request_id request = lr_request_id row"
    "odr_request_digest request = lr_request_digest row"
    "reconciled now row =
       dispatched now OUTCOME_UNKNOWN (unknown_after_restart row request t now) row"
    by (rule dispatching_row)
  let ?f = "dispatched now OUTCOME_UNKNOWN (unknown_after_restart row request t now)"
  let ?l = "advanced request DISPATCHING OUTCOME_UNKNOWN now ?f l"
  have "\<And>P. update_rows (\<lambda>r. lr_request_id r = lr_request_id row \<and> lr_state r = ''dispatching'') ?f l
      = update_rows (\<lambda>r. lr_request_id r = lr_request_id row) ?f l"
    by (rule update_rows_at(1) [OF v row s])
  moreover have "decode_request (lr_request row) = Inr request"
    using q by (simp add: decode_request_def validate_request_Inr)
  ultimately have "reconcile_rows now (row # rows) l = reconcile_rows now rows ?l"
    using q by (simp add: record_transition_eq allowed_transitions_def advanced_def
        dispatched_def [abs_def])
  moreover have "change l ?l"
  proof (rule change_advance [of l request row])
    show "row_valid OUTCOME_UNKNOWN (?f row)" "extends row (?f row)"
      "(Some DISPATCHING, OUTCOME_UNKNOWN) \<in> set allowed_transitions"
      using dispatched_valid [OF \<open>row_valid DISPATCHING row\<close>, of OUTCOME_UNKNOWN
          "unknown_after_restart row request t now"]
      by (simp_all add: dispatch_result_states_def unknown_after_restart_def)
  qed (use q row s in simp_all)
  moreover have "dispatch_rows ?l = map (\<lambda>r. if r = row then reconciled now r else r) (dispatch_rows l)"
    using find_row_eq [OF ledger_valid_distinct [OF v]] row q(4,6)
    by (auto simp: advanced_def update_rows_def)
  ultimately show ?thesis by (rule that)
qed

lemma reconcile_rows_ok:
  assumes "ledger_valid l" "distinct (map lr_request_id rows)"
    and "\<forall>row \<in> set rows. find_row l (lr_request_id row) = Some row
           \<and> lr_state row = ''dispatching''"
  shows "\<exists>l'. reconcile_rows now rows l = Inr l' \<and> change\<^sup>*\<^sup>* l l'
    \<and> dispatch_rows l' = map (\<lambda>r. if r \<in> set rows then reconciled now r else r) (dispatch_rows l)"
  using assms
proof (induction rows arbitrary: l)
  case Nil
  then show ?case by simp
next
  case (Cons row rows)
  from Cons.prems obtain l1 where l1: "reconcile_rows now (row # rows) l = reconcile_rows now rows l1"
    "change l l1"
    "dispatch_rows l1 = map (\<lambda>r. if r = row then reconciled now r else r) (dispatch_rows l)"
    using reconcile_row [of l row now rows] by auto
  have v1: "ledger_valid l1" by (rule change_valid [OF l1(2) Cons.prems(1)])
  have new: "lr_request_id r \<noteq> lr_request_id row" if "r \<in> set rows" for r
    using Cons.prems(2) that by (auto simp: image_iff)
  have "find_row l1 (lr_request_id r) = Some r" if r: "r \<in> set rows" for r
  proof (rule find_row_eq [OF ledger_valid_distinct [OF v1]])
    have "r \<in> set (dispatch_rows l)" using Cons.prems(3) r find_row_id by auto
    then show "r \<in> set (dispatch_rows l1)" using new [OF r] by (auto simp: l1(3))
  qed simp
  then obtain l' where l': "reconcile_rows now rows l1 = Inr l'" "change\<^sup>*\<^sup>* l1 l'"
    "dispatch_rows l' = map (\<lambda>r. if r \<in> set rows then reconciled now r else r) (dispatch_rows l1)"
    using Cons.IH [OF v1] Cons.prems by auto
  have "reconciled now row \<notin> set rows" using new by force
  then have "dispatch_rows l'
      = map (\<lambda>r. if r \<in> set (row # rows) then reconciled now r else r) (dispatch_rows l)"
    using new by (auto simp: l'(3) l1(3))
  with l1(1,2) l'(1,2) show ?case by (auto intro: converse_rtranclp_into_rtranclp)
qed

lemma append_event_changes: "change\<^sup>*\<^sup>* l (snd (append_event e l))"
proof (cases "oae_event_id e \<in> er_event_id ` set (event_rows l)")
  case True
  then have "snd (append_event e l) = l" by (auto simp: append_event_def list_ex_iff)
  then show ?thesis by simp
next
  case False
  then show ?thesis by (intro r_into_rtranclp change_event)
qed

lemma dispatch_rows_append_event [simp]: "dispatch_rows (snd (append_event e l)) = dispatch_rows l"
  by (simp add: append_event_def)

lemma append_events_changes:
  "change\<^sup>*\<^sup>* l (snd (append_events evs l))
   \<and> dispatch_rows (snd (append_events evs l)) = dispatch_rows l"
proof (induction evs arbitrary: l)
  case Nil
  show ?case by simp
next
  case (Cons e evs)
  obtain r l1 where p: "append_event e l = (r, l1)" by (cases "append_event e l")
  then have l1: "change\<^sup>*\<^sup>* l l1" "dispatch_rows l1 = dispatch_rows l"
    using append_event_changes [of l e] dispatch_rows_append_event [of e l] by simp_all
  have "change\<^sup>*\<^sup>* l (snd (append_events evs l1))"
    using l1(1) Cons.IH by (blast intro: rtranclp_trans)
  then show ?case
    using Cons.IH [of l1] l1 p by (cases r) simp_all
qed

lemma reconcile_startup_ok:
  assumes v: "ledger_valid l"
  shows "change\<^sup>*\<^sup>* l (snd (reconcile_startup now uuid l))
    \<and> dispatch_rows (snd (reconcile_startup now uuid l)) =
        map (\<lambda>r. if lr_state r = ''dispatching'' then reconciled now r else r) (dispatch_rows l)"
proof -
  let ?rows = "filter (\<lambda>r. lr_state r = ''dispatching'') (dispatch_rows l)"
  have "distinct (map lr_request_id ?rows)"
    using ledger_valid_distinct [OF v] by (rule distinct_map_filter)
  moreover have "\<forall>row \<in> set ?rows. find_row l (lr_request_id row) = Some row
      \<and> lr_state row = ''dispatching''"
    using find_row_eq [OF ledger_valid_distinct [OF v]] by simp
  ultimately obtain l1 where l1: "reconcile_rows now ?rows l = Inr l1" "change\<^sup>*\<^sup>* l l1"
    "dispatch_rows l1 = map (\<lambda>r. if r \<in> set ?rows then reconciled now r else r) (dispatch_rows l)"
    using reconcile_rows_ok [OF v, of ?rows now] by blast
  have "change\<^sup>*\<^sup>* l1 (snd (reconcile_startup now uuid l))
      \<and> dispatch_rows (snd (reconcile_startup now uuid l)) = dispatch_rows l1"
  proof (cases "recovery_events uuid 0 now ?rows")
    case (Inl e)
    then show ?thesis using l1(1) by (simp add: reconcile_startup_def Let_def)
  next
    case (Inr events)
    then show ?thesis using l1(1) append_events_changes [of l1 events]
      by (auto simp: reconcile_startup_def Let_def split: prod.splits sum.splits)
  qed
  with l1 show ?thesis by (auto intro: rtranclp_trans)
qed

lemma change_appends:
  "change l l' \<Longrightarrow> \<exists>ts es. transition_rows l' = transition_rows l @ ts
     \<and> event_rows l' = event_rows l @ es"
  by (induction rule: change.induct)
    (auto simp: inserted_def advanced_def logged_def update_rows_def append_event_def)

lemma changes_append:
  "change\<^sup>*\<^sup>* l l' \<Longrightarrow> \<exists>ts es. transition_rows l' = transition_rows l @ ts
     \<and> event_rows l' = event_rows l @ es"
proof (induction rule: rtranclp_induct)
  case base
  show ?case by simp
next
  case (step m n)
  then show ?case using change_appends [of m n] by auto
qed

end
