(* ===== verification/LedgerSafety.thy ===== *)
theory LedgerSafety
  imports DispatchLedger
begin

text \<open>
  What the dispatch ledger guarantees over every sequence of calls, whichever process makes
  them and in whatever order: its rows always decode and its transition log is a path of the
  allowed graph, the dispatch barrier is crossed at most once for a request, results are
  written once, the audit log only grows, and startup reconciliation leaves nothing in
  flight. The last section is the read model (\<open>operational_dispatch/read_model.py\<close>).
\<close>

section \<open>Sequences of calls\<close>

datatype ledger_op =
    Claim int dispatch_request
  | MarkRevalidated int dispatch_request
  | MarkDispatching int dispatch_request
  | PersistDispatchResult int dispatch_request dispatch_result ledger_state
  | BeginVerification int dispatch_request bool
  | PersistVerificationResult int dispatch_request verification_result
  | ReconcileStartup int "nat \<Rightarrow> string"
  | AppendEvent audit_event

fun ledger_step :: "ledger \<Rightarrow> ledger_op \<Rightarrow> ledger" where
  "ledger_step l (Claim now r) = snd (claim now r l)"
| "ledger_step l (MarkRevalidated now r) = snd (mark_revalidated now r l)"
| "ledger_step l (MarkDispatching now r) = snd (mark_dispatching now r l)"
| "ledger_step l (PersistDispatchResult now r d st) = snd (persist_dispatch_result now r d st l)"
| "ledger_step l (BeginVerification now r b) = snd (begin_verification now r b l)"
| "ledger_step l (PersistVerificationResult now r v) = snd (persist_verification_result now r v l)"
| "ledger_step l (ReconcileStartup now uuid) = snd (reconcile_startup now uuid l)"
| "ledger_step l (AppendEvent e) = snd (append_event e l)"

lemma ledger_step_changes: "ledger_valid l \<Longrightarrow> change\<^sup>*\<^sup>* l (ledger_step l op)"
  by (cases op) (simp_all add: claim_changes mark_revalidated_changes mark_dispatching_changes
    persist_dispatch_result_changes begin_verification_changes persist_verification_result_changes
    reconcile_startup_ok append_event_changes)

lemma ledger_step_valid: "ledger_valid l \<Longrightarrow> ledger_valid (ledger_step l op)"
  using changes_valid ledger_step_changes by blast

lemma empty_ledger_valid: "ledger_valid empty_ledger"
  by (simp add: ledger_valid_def empty_ledger_def)

definition ledger_after :: "ledger_op list \<Rightarrow> ledger" where
  "ledger_after ops = foldl ledger_step empty_ledger ops"

section \<open>Slots of a row\<close>

definition dispatch_started :: "ledger \<Rightarrow> string \<Rightarrow> int option" where
  "dispatch_started l k = (case find_row l k of
     None \<Rightarrow> None | Some row \<Rightarrow> lr_dispatch_started_at row)"

definition dispatch_result_of :: "ledger \<Rightarrow> string \<Rightarrow> dispatch_result stored option" where
  "dispatch_result_of l k = (case find_row l k of
     None \<Rightarrow> None | Some row \<Rightarrow> lr_dispatch_result row)"

definition verification_result_of :: "ledger \<Rightarrow> string \<Rightarrow> verification_result stored option" where
  "verification_result_of l k = (case find_row l k of
     None \<Rightarrow> None | Some row \<Rightarrow> lr_verification_result row)"

text \<open>The call tells its caller that it owns the dispatch of request \<open>k\<close>.\<close>

fun crosses_barrier :: "ledger \<Rightarrow> ledger_op \<Rightarrow> string \<Rightarrow> bool" where
  "crosses_barrier l (MarkDispatching now r) k =
     (k = odr_request_id r \<and> (case fst (mark_dispatching now r l) of
        Inl e \<Rightarrow> False | Inr (entry, owner) \<Rightarrow> owner))"
| "crosses_barrier l _ k = False"

lemma ledger_step_extends:
  "ledger_valid l \<Longrightarrow> find_row l k = Some row \<Longrightarrow>
   \<exists>row'. find_row (ledger_step l op) k = Some row' \<and> extends row row'"
  by (rule changes_extends [OF ledger_step_changes])

lemma slots_step:
  assumes "ledger_valid l"
  shows "dispatch_started l k = Some t \<Longrightarrow> dispatch_started (ledger_step l op) k = Some t"
    and "dispatch_result_of l k = Some d \<Longrightarrow> dispatch_result_of (ledger_step l op) k = Some d"
    and "verification_result_of l k = Some v \<Longrightarrow>
      verification_result_of (ledger_step l op) k = Some v"
  using ledger_step_extends [OF assms, of k _ op]
  by (auto simp: dispatch_started_def dispatch_result_of_def verification_result_of_def
      extends_def split: option.splits)

lemma crosses_barrier_row:
  assumes v: "ledger_valid l" and c: "crosses_barrier l op k"
  obtains now r row where "op = MarkDispatching now r" "k = odr_request_id r"
    "find_row l k = Some row" "row_valid REVALIDATED row"
    "ledger_step l op = advanced r REVALIDATED DISPATCHING now (moved now DISPATCHING True) l"
proof -
  from c obtain now r where op: "op = MarkDispatching now r" "k = odr_request_id r"
    by (cases op) auto
  have a: "(Some REVALIDATED, DISPATCHING) \<in> set allowed_transitions"
    by (simp add: allowed_transitions_def)
  from c op obtain row where row: "find_row l k = Some row"
    "lr_state row = ''revalidated''"
    "ledger_step l op = advanced r REVALIDATED DISPATCHING now (moved now DISPATCHING True) l"
    by (auto simp: mark_dispatching_def transition_eq [OF v a] res_simps
        split: option.splits if_splits sum.splits prod.splits)
  from v row(1) obtain st where "row_valid st row" "lr_state row = state_text st"
    by (rule ledger_valid_parse)
  with row(2) have "row_valid REVALIDATED row" by (cases st) simp_all
  with op row show ?thesis by (intro that)
qed

interpretation barrier: one_shot ledger_step ledger_valid dispatch_started crosses_barrier
proof
  fix l op k
  assume v: "ledger_valid l" and c: "crosses_barrier l op k"
  from v c obtain now r row where g: "op = MarkDispatching now r" "k = odr_request_id r"
    "find_row l k = Some row" "row_valid REVALIDATED row"
    "ledger_step l op = advanced r REVALIDATED DISPATCHING now (moved now DISPATCHING True) l"
    by (rule crosses_barrier_row)
  then show "dispatch_started l k = None"
    by (simp add: dispatch_started_def row_valid_def row_state_valid_def)
  have "find_row (ledger_step l op) k = Some (moved now DISPATCHING True row)"
    using g find_row_id [OF g(3)] by (simp add: find_row_advanced)
  then show "dispatch_started (ledger_step l op) k \<noteq> None"
    by (simp add: dispatch_started_def moved_def)
qed (simp_all add: ledger_step_valid slots_step)

interpretation results: write_once ledger_step ledger_valid dispatch_result_of
  by unfold_locales (simp_all add: ledger_step_valid slots_step)

interpretation verifications: write_once ledger_step ledger_valid verification_result_of
  by unfold_locales (simp_all add: ledger_step_valid slots_step)

lemma ledger_after_valid: "ledger_valid (ledger_after ops)"
  unfolding ledger_after_def by (rule barrier.inv_run [OF empty_ledger_valid])

text \<open>However calls to the ledger are interleaved (retries, concurrent claimants, restarts),
  at most one \<open>mark_dispatching\<close> call for a request ever returns ownership, so the
  provider mutation behind the barrier is entered at most once.\<close>

theorem barrier_crossed_at_most_once:
  "grant_count ledger_step crosses_barrier empty_ledger ops request_id \<le> 1"
  by (rule barrier.granted_at_most_once [OF empty_ledger_valid])

text \<open>A dispatch result and a verification result, once durable, are what every later read
  finds, whatever calls follow.\<close>

theorem results_are_durable:
  "(case dispatch_result_of (ledger_after ops) k of None \<Rightarrow> True
    | Some d \<Rightarrow> dispatch_result_of (ledger_after (ops @ later)) k = Some d)
   \<and> (case verification_result_of (ledger_after ops) k of None \<Rightarrow> True
    | Some v \<Rightarrow> verification_result_of (ledger_after (ops @ later)) k = Some v)"
  using results.slot_run [OF ledger_after_valid] verifications.slot_run [OF ledger_after_valid]
  by (simp add: ledger_after_def split: option.split)

section \<open>The transition log\<close>

fun in_order :: "int option \<Rightarrow> transition_row list \<Rightarrow> bool" where
  "in_order q [] = True"
| "in_order q (t # ts) \<longleftrightarrow>
     (case q of None \<Rightarrow> True | Some n \<Rightarrow> n < tr_sequence t) \<and> in_order (Some (tr_sequence t)) ts"

lemma in_order_sorted: "sorted_wrt (<) (map tr_sequence ts) \<Longrightarrow>
   (case q of None \<Rightarrow> True | Some n \<Rightarrow> \<forall>t \<in> set ts. n < tr_sequence t) \<Longrightarrow> in_order q ts"
  by (induction ts arbitrary: q) (auto split: option.splits)

lemma parse_previous [simp]: "parse_optional_state (map_option state_text p) = Inr p"
  by (cases p) simp_all

lemma follows_checked:
  assumes "follows d p ts s" "in_order q ts" "\<forall>t \<in> set ts. tr_request_id t = k"
  shows "\<exists>lts. traverse decode_transition ts = Inr lts
    \<and> check_transitions k d q p lts = Some s \<and> length lts = length ts"
  using assms
proof (induction ts arbitrary: p q)
  case Nil
  then show ?case by simp
next
  case (Cons t ts)
  then obtain st where st: "tr_state t = state_text st" "(p, st) \<in> set allowed_transitions"
    "follows d (Some st) ts s" "tr_previous_state t = map_option state_text p"
    "tr_request_digest t = d"
    by auto
  from Cons.IH [OF st(3), of "Some (tr_sequence t)"] Cons.prems obtain lts where
    "traverse decode_transition ts = Inr lts"
    "check_transitions k d (Some (tr_sequence t)) (Some st) lts = Some s"
    "length lts = length ts"
    by auto
  moreover have "decode_transition t = Inr \<lparr>lt_sequence = tr_sequence t, lt_request_id = k,
      lt_request_digest = d, lt_previous_state = p, lt_state = st,
      lt_occurred_at = tr_occurred_at t\<rparr>"
    using st Cons.prems by (simp add: decode_transition_def)
  ultimately show ?case
    using st(2) Cons.prems by (auto split: option.splits)
qed

lemma allowed_dispatching:
  "(p, st) \<in> set allowed_transitions \<Longrightarrow> st = DISPATCHING \<Longrightarrow> p = Some REVALIDATED"
  "(p, st) \<in> set allowed_transitions \<Longrightarrow> st = REVALIDATED \<Longrightarrow> p = Some CLAIMED"
  "(p, st) \<in> set allowed_transitions \<Longrightarrow> st = CLAIMED \<Longrightarrow> p = None"
  by (auto simp: allowed_transitions_def)

text \<open>A path of the graph enters \<open>DISPATCHING\<close> at most once.\<close>

lemma check_transitions_dispatching:
  "check_transitions k d q p lts = Some s \<Longrightarrow>
   length (filter (\<lambda>t. lt_state t = DISPATCHING) lts)
     \<le> (if p \<in> {None, Some CLAIMED, Some REVALIDATED} then 1 else 0)"
proof (induction lts arbitrary: q p)
  case Nil
  then show ?case by simp
next
  case (Cons t lts)
  from Cons.prems have c: "(p, lt_state t) \<in> set allowed_transitions"
    "check_transitions k d (Some (lt_sequence t)) (Some (lt_state t)) lts = Some s"
    by (auto split: if_splits)
  from Cons.IH [OF c(2)] allowed_dispatching [OF c(1)] show ?case
    by (cases "lt_state t") (auto split: if_splits)
qed

lemma request_log_order:
  assumes "ledger_valid l"
  shows "sort_key tr_sequence (request_log k l) = request_log k l"
    and "in_order None (request_log k l)"
proof -
  have "sorted_wrt (<) (map tr_sequence (request_log k l))"
    using assms unfolding ledger_valid_def request_log_def
    by (simp add: sorted_wrt_map sorted_wrt_filter)
  then show "in_order None (request_log k l)" "sort_key tr_sequence (request_log k l) = request_log k l"
    by (auto intro: in_order_sorted sort_key_id_if_sorted strict_sorted_imp_sorted)
qed

lemma list_transitions_valid:
  assumes v: "ledger_valid l" and row: "find_row l k = Some row" and st: "row_valid st row"
  shows "\<exists>lts. list_transitions k l = Inr lts
    \<and> validate_ledger_transition_sequence lts k (lr_request_digest row) st"
proof -
  from ledger_valid_row [OF v row] st obtain
    f: "follows (lr_request_digest row) None (request_log k l) (Some st)"
    by (auto simp: row_valid_def)
  obtain lts where "traverse decode_transition (request_log k l) = Inr lts"
    "check_transitions k (lr_request_digest row) None None lts = Some (Some st)"
    "length lts = length (request_log k l)"
    using follows_checked [OF f request_log_order(2) [OF v]] by (auto simp: request_log_def)
  moreover from this have "lts \<noteq> []" by auto
  moreover have "exact_text k"
    using st find_row_id [OF row]
    by (auto simp: row_valid_def contract_holds_def validate_strings_def dispatch_request_texts_def)
  ultimately show ?thesis
    by (simp add: list_transitions_def exact_request_id_def exact_text_def
        request_log_order(1) [OF v] corrupt_def validate_ledger_transition_sequence_def)
qed

section \<open>The read model\<close>

record transition_read =
  tv_sequence :: int
  tv_state :: string
  tv_occurred_at :: int

record lifecycle_read =
  lv_request_id :: string
  lv_request_digest :: string
  lv_ledger_state :: string
  lv_transitions :: "transition_read list"
  lv_transition_sequence_valid :: bool
  lv_barrier_crossed :: bool
  lv_barrier_crossing_count :: nat
  lv_provider_operation_captured :: bool
  lv_provider_operation_capture_count :: nat
  lv_dispatch_status :: "string option"
  lv_provider_operation_reference :: "string option"
  lv_dispatch_started_at :: "int option"
  lv_dispatch_completed_at :: "int option"
  lv_verification_status :: "string option"
  lv_observed_target_fingerprint :: "string option"
  lv_observed_state :: "string option"
  lv_observed_health :: "string option"
  lv_verification_started_at :: "int option"
  lv_verification_completed_at :: "int option"
  lv_verification_deadline :: "int option"
  lv_terminal :: bool
  lv_controlled_reason :: "string option"

definition controlled_reason :: "ledger_state \<Rightarrow> string option \<Rightarrow> string option" where
  "controlled_reason state dispatch_status =
     (if state = VERIFICATION_FAILED then Some ''verification_failed''
      else if state = TARGET_REPLACED then Some ''target_replaced''
      else if state = OUTCOME_UNKNOWN \<or> dispatch_status = Some ''outcome_unknown''
      then Some ''outcome_unknown''
      else if state = LEDGER_FAILED then Some ''dispatch_failed''
      else None)"

definition project_entry ::
  "ledger_entry \<Rightarrow> ledger_transition list \<Rightarrow> audit_event list \<Rightarrow> lifecycle_read" where
  "project_entry entry transitions events =
     (let barrier_count = length (filter (\<lambda>t. lt_state t = DISPATCHING) transitions);
          provider_count = length (filter (\<lambda>e. oae_status e = PROVIDER_OPERATION_CAPTURED) events);
          dispatch = le_dispatch_result entry;
          verification = le_verification_result entry;
          dispatch_status = map_option (\<lambda>d. dispatch_status_text (ors_status d)) dispatch
      in \<lparr>lv_request_id = le_request_id entry, lv_request_digest = le_request_digest entry,
          lv_ledger_state = state_text (le_state entry),
          lv_transitions = map (\<lambda>t. \<lparr>tv_sequence = lt_sequence t,
            tv_state = state_text (lt_state t), tv_occurred_at = lt_occurred_at t\<rparr>) transitions,
          lv_transition_sequence_valid = validate_ledger_transition_sequence transitions
            (le_request_id entry) (le_request_digest entry) (le_state entry),
          lv_barrier_crossed = (barrier_count > 0),
          lv_barrier_crossing_count = barrier_count,
          lv_provider_operation_captured = (provider_count > 0),
          lv_provider_operation_capture_count = provider_count,
          lv_dispatch_status = dispatch_status,
          lv_provider_operation_reference = (case dispatch of None \<Rightarrow> None
            | Some d \<Rightarrow> ors_provider_operation_id d),
          lv_dispatch_started_at = le_dispatch_started_at entry,
          lv_dispatch_completed_at = (case dispatch of None \<Rightarrow> None
            | Some d \<Rightarrow> ors_completed_at d),
          lv_verification_status =
            map_option (\<lambda>v. verification_status_text (ovr_status v)) verification,
          lv_observed_target_fingerprint = (case verification of None \<Rightarrow> None
            | Some v \<Rightarrow> ovr_observed_target_fingerprint v),
          lv_observed_state = (case verification of None \<Rightarrow> None
            | Some v \<Rightarrow> ovr_observed_state v),
          lv_observed_health = (case verification of None \<Rightarrow> None
            | Some v \<Rightarrow> ovr_health_status v),
          lv_verification_started_at = map_option ovr_started_at verification,
          lv_verification_completed_at = map_option ovr_completed_at verification,
          lv_verification_deadline = map_option ovr_deadline verification,
          lv_terminal = (verification \<noteq> None \<or> le_state entry \<in> set final_states
            \<or> le_state entry = LEDGER_FAILED),
          lv_controlled_reason = controlled_reason (le_state entry) dispatch_status\<rparr>)"

definition project_operational_lifecycle :: "ledger \<Rightarrow> string \<Rightarrow> lifecycle_read option res" where
  "project_operational_lifecycle l request_id =
     and_then (get_entry request_id l) (\<lambda>found. case found of
       None \<Rightarrow> Inr None
     | Some entry \<Rightarrow>
       and_then (list_transitions request_id l) (\<lambda>transitions.
       and_then (list_request_events request_id l) (\<lambda>events.
       Inr (Some (project_entry entry transitions events)))))"

text \<open>What a reader of the projection relies on.\<close>

definition lifecycle_sound :: "lifecycle_read \<Rightarrow> bool" where
  "lifecycle_sound v \<longleftrightarrow> lv_transition_sequence_valid v
     \<and> lv_barrier_crossing_count v \<le> 1
     \<and> (lv_ledger_state v = ''dispatching'' \<longrightarrow> lv_dispatch_started_at v \<noteq> None
          \<and> lv_dispatch_status v = None)
     \<and> (lv_dispatch_status v = None \<longrightarrow>
          lv_ledger_state v \<in> set [''claimed'', ''revalidated'', ''dispatching''])
     \<and> (lv_verification_status v \<noteq> None \<longrightarrow> lv_terminal v \<and> lv_dispatch_status v \<noteq> None)
     \<and> (lv_ledger_state v \<in> set [''verified'', ''verification_failed''] \<longrightarrow>
          lv_verification_status v \<noteq> None)"

lemma list_request_events_valid:
  assumes "ledger_valid l" "exact_text k"
  shows "\<exists>events. list_request_events k l = Inr events"
proof -
  have "\<exists>events. traverse (\<lambda>r. decode (er_event r)) rows = Inr events"
    if "\<forall>e \<in> set rows. er_event e \<noteq> Undecodable" for rows
    using that
  proof (induction rows)
    case (Cons r rows)
    then show ?case by (cases "er_event r") auto
  qed simp
  then have "\<exists>events. decode_events rows = Inr events"
    if "\<forall>e \<in> set rows. er_event e \<noteq> Undecodable" for rows
    using that by (fastforce simp: decode_events_def corrupt_def)
  moreover have "\<forall>e \<in> set (event_order (filter P (event_rows l))). er_event e \<noteq> Undecodable" for P
    using ledger_valid_events [OF assms(1)] by (simp add: event_order_def)
  ultimately show ?thesis
    using assms(2) by (simp add: list_request_events_def exact_request_id_def exact_text_def)
qed

lemma project_entry_sound:
  assumes st: "row_valid st row"
    and valid: "validate_ledger_transition_sequence lts (lr_request_id row) (lr_request_digest row) st"
    and once: "length (filter (\<lambda>t. lt_state t = DISPATCHING) lts) \<le> 1"
  shows "lifecycle_sound (project_entry (projected st row) lts events)"
proof -
  have d: "content (lr_dispatch_result row) = None \<longleftrightarrow> st \<in> {CLAIMED, REVALIDATED, DISPATCHING}"
    and s: "st = DISPATCHING \<Longrightarrow> lr_dispatch_started_at row \<noteq> None"
    and v: "st \<in> {VERIFIED, VERIFICATION_FAILED} \<Longrightarrow> content (lr_verification_result row) \<noteq> None"
      "content (lr_verification_result row) \<noteq> None \<Longrightarrow>
        st \<in> {VERIFIED, VERIFICATION_FAILED, OUTCOME_UNKNOWN, TARGET_REPLACED}"
    using st content_valid [OF st] by (simp_all add: row_valid_def row_state_valid_def)
  have t: "state_text st = ''dispatching'' \<longleftrightarrow> st = DISPATCHING"
    "state_text st \<in> set [''claimed'', ''revalidated'', ''dispatching'']
      \<longleftrightarrow> st \<in> {CLAIMED, REVALIDATED, DISPATCHING}"
    "state_text st \<in> set [''verified'', ''verification_failed'']
      \<longleftrightarrow> st \<in> {VERIFIED, VERIFICATION_FAILED}"
    by (cases st; simp)+
  let ?v = "project_entry (projected st row) lts events"
  have view: "lv_ledger_state ?v = state_text st"
    "lv_transition_sequence_valid ?v"
    "lv_barrier_crossing_count ?v \<le> 1"
    "lv_dispatch_started_at ?v = lr_dispatch_started_at row"
    "lv_dispatch_status ?v = None \<longleftrightarrow> content (lr_dispatch_result row) = None"
    "lv_verification_status ?v = None \<longleftrightarrow> content (lr_verification_result row) = None"
    "content (lr_verification_result row) \<noteq> None \<Longrightarrow> lv_terminal ?v"
    using valid once by (simp_all add: project_entry_def Let_def projected_def)
  show ?thesis
    unfolding lifecycle_sound_def view(1,4,5,6) t using view(2,3,7) d s v by blast
qed

text \<open>A view of a row: identity, state and outcomes are those the row holds.\<close>

definition view_of_row :: "string \<Rightarrow> ledger_row \<Rightarrow> lifecycle_read \<Rightarrow> bool" where
  "view_of_row k row v \<longleftrightarrow> lv_request_id v = k \<and> lr_request_id row = k
     \<and> lv_request_digest v = lr_request_digest row \<and> lv_ledger_state v = lr_state row
     \<and> lv_dispatch_started_at v = lr_dispatch_started_at row
     \<and> lv_dispatch_status v
         = map_option (\<lambda>d. dispatch_status_text (ors_status d)) (content (lr_dispatch_result row))
     \<and> lv_verification_status v
         = map_option (\<lambda>r. verification_status_text (ovr_status r)) (content (lr_verification_result row))"

lemma project_valid:
  assumes v: "ledger_valid l"
  shows "case find_row l k of
    None \<Rightarrow> project_operational_lifecycle l k = Inr None
  | Some row \<Rightarrow> (\<exists>view. project_operational_lifecycle l k = Inr (Some view)
      \<and> lifecycle_sound view \<and> view_of_row k row view)"
proof (cases "find_row l k")
  case None
  then show ?thesis by (simp add: project_operational_lifecycle_def get_entry_def)
next
  case (Some row)
  from v Some obtain st where st: "row_valid st row" by (rule ledger_valid_parse)
  obtain lts where lts: "list_transitions k l = Inr lts"
    "validate_ledger_transition_sequence lts k (lr_request_digest row) st"
    using list_transitions_valid [OF v Some st] by blast
  have k: "lr_request_id row = k" using find_row_id [OF Some] by simp
  have "exact_text k"
    using st k
    by (auto simp: row_valid_def contract_holds_def validate_strings_def dispatch_request_texts_def)
  then obtain events where ev: "list_request_events k l = Inr events"
    using list_request_events_valid [OF v] by blast
  have "length (filter (\<lambda>t. lt_state t = DISPATCHING) lts) \<le> 1"
    using lts(2) check_transitions_dispatching [of k "lr_request_digest row" None None lts]
    by (simp add: validate_ledger_transition_sequence_def)
  then have "lifecycle_sound (project_entry (projected st row) lts events)"
    using lts(2) k by (intro project_entry_sound [OF st]) simp_all
  moreover have "state_text st = lr_state row" using st by (simp add: row_valid_def)
  then have "view_of_row k row (project_entry (projected st row) lts events)"
    using k by (simp add: view_of_row_def project_entry_def projected_def Let_def)
  ultimately show ?thesis
    using Some entry_of_valid [OF st] lts(1) ev
    by (simp add: project_operational_lifecycle_def get_entry_def)
qed

text \<open>C22. The read model of every reachable ledger: reading a request never raises; a request without
  a row reads as absent; one with a row reads as a lifecycle of that very request, with the digest,
  the state, the dispatch time and the outcomes the row holds, whose transition sequence is valid,
  whose barrier was crossed at most once, and whose state, dispatch and verification facts agree.\<close>

theorem lifecycle_projection_sound:
  "case find_row (ledger_after ops) request_id of
    None \<Rightarrow> project_operational_lifecycle (ledger_after ops) request_id = Inr None
  | Some row \<Rightarrow> (\<exists>view. project_operational_lifecycle (ledger_after ops) request_id = Inr (Some view)
      \<and> lifecycle_sound view \<and> view_of_row request_id row view)"
  by (rule project_valid [OF ledger_after_valid])

section \<open>Startup reconciliation\<close>

text \<open>A row before and after: a dispatching row becomes an unknown outcome without any provider
  operation, every other row is untouched.\<close>

definition settles :: "int \<Rightarrow> ledger_row \<Rightarrow> ledger_row \<Rightarrow> bool" where
  "settles now row row' \<longleftrightarrow>
     (if lr_state row = ''dispatching''
      then lr_request_id row' = lr_request_id row \<and> lr_request_digest row' = lr_request_digest row
        \<and> lr_state row' = ''outcome_unknown''
        \<and> lr_dispatch_started_at row' = lr_dispatch_started_at row
        \<and> (case content (lr_dispatch_result row') of None \<Rightarrow> False
           | Some d \<Rightarrow> ors_status d = DISPATCH_UNKNOWN \<and> ors_provider_operation_id d = None
               \<and> ors_request_id d = lr_request_id row \<and> ors_completed_at d = Some now
               \<and> Some (ors_started_at d) = lr_dispatch_started_at row)
      else row' = row)"

definition reconciliation_of :: "ledger \<Rightarrow> reconciliation" where
  "reconciliation_of l = \<lparr>retryable_pre_dispatch = count_states l [''claimed'', ''revalidated''],
     outcome_unknown_count = count_states l [''dispatching''],
     verification_resumable_count = count_states l [''verifying'']\<rparr>"

lemma append_events_error:
  "fst (append_events evs l) = Inl e \<Longrightarrow> \<exists>m. e = IntegrityError m"
  by (induction evs arbitrary: l) (auto simp: append_event_def split: if_splits prod.splits sum.splits)

lemma dispatching_valid:
  assumes "ledger_valid l" "row \<in> set (dispatch_rows l)" "lr_state row = ''dispatching''"
  shows "row_valid DISPATCHING row"
proof -
  obtain st where "row_valid st row" using assms by (auto simp: ledger_valid_def)
  moreover from this have "st = DISPATCHING" using assms(3) by (cases st) (simp_all add: row_valid_def)
  ultimately show ?thesis by simp
qed

lemma recovery_events_ok:
  "\<forall>row \<in> set rows. row_valid DISPATCHING row \<Longrightarrow>
   \<exists>events. recovery_events uuid n now rows = Inr events"
proof (induction rows arbitrary: n)
  case (Cons row rows)
  then have "row_valid DISPATCHING row" by simp
  then obtain request where "decode_request (lr_request row) = Inr request"
    by (auto simp: row_valid_def decode_request_def validate_request_Inr)
  moreover obtain events where "recovery_events uuid (n + 2) now rows = Inr events"
    using Cons by fastforce
  ultimately show ?case by simp
qed simp

lemma settles_reconciled:
  assumes "row_valid DISPATCHING row"
  shows "settles now row (reconciled now row)"
proof -
  from assms obtain request t where "lr_dispatch_started_at row = Some t"
    "reconciled now row =
       dispatched now OUTCOME_UNKNOWN (unknown_after_restart row request t now) row"
    by (rule dispatching_row)
  then show ?thesis
    by (simp add: settles_def dispatched_def unknown_after_restart_def row_valid_state [OF assms])
qed

text \<open>C24. Reconciling any reachable ledger at startup leaves no request in flight: every
  dispatching row becomes an unknown outcome (no mutation is replayed), every other row is
  unchanged, and the call reports the right counts, or fails only because a fresh event
  identifier was already taken.\<close>

theorem reconcile_settles_everything:
  "list_all2 (settles now) (dispatch_rows (ledger_after ops))
     (dispatch_rows (snd (reconcile_startup now uuid (ledger_after ops))))
   \<and> count_states (snd (reconcile_startup now uuid (ledger_after ops))) [''dispatching''] = 0
   \<and> (case fst (reconcile_startup now uuid (ledger_after ops)) of
        Inl (IntegrityError _) \<Rightarrow> True
      | Inl _ \<Rightarrow> False
      | Inr summary \<Rightarrow> summary = reconciliation_of (ledger_after ops))"
proof -
  let ?l = "ledger_after ops"
  let ?rows = "filter (\<lambda>r. lr_state r = ''dispatching'') (dispatch_rows ?l)"
  have rows: "\<forall>row \<in> set ?rows. row_valid DISPATCHING row"
    using dispatching_valid [OF ledger_after_valid] by auto
  have final: "dispatch_rows (snd (reconcile_startup now uuid ?l)) =
      map (\<lambda>r. if lr_state r = ''dispatching'' then reconciled now r else r) (dispatch_rows ?l)"
    using reconcile_startup_ok [OF ledger_after_valid] by blast
  have settled: "settles now row (if lr_state row = ''dispatching'' then reconciled now row else row)"
    if "row \<in> set (dispatch_rows ?l)" for row
    using settles_reconciled rows that by (auto simp: settles_def [of now row row])
  then have all2: "list_all2 (settles now) (dispatch_rows ?l)
      (dispatch_rows (snd (reconcile_startup now uuid ?l)))"
    unfolding final by (simp add: list_all2_conv_all_nth)
  have state: "lr_state (reconciled now row) = ''outcome_unknown''" if "row \<in> set ?rows" for row
    using settles_reconciled [of row now] rows that by (simp add: settles_def)
  have none: "count_states (snd (reconcile_startup now uuid ?l)) [''dispatching''] = 0"
    using state by (auto simp: count_states_def final filter_empty_conv)
  obtain l1 where l1: "reconcile_rows now ?rows ?l = Inr l1"
    "dispatch_rows l1 = map (\<lambda>r. if r \<in> set ?rows then reconciled now r else r) (dispatch_rows ?l)"
    using reconcile_rows_ok [OF ledger_after_valid, of ?rows ops now]
      find_row_eq [OF ledger_valid_distinct [OF ledger_after_valid]]
      distinct_map_filter [OF ledger_valid_distinct [OF ledger_after_valid]] by fastforce
  have "count_states l1 states = count_states ?l states"
    if "''dispatching'' \<notin> set states" "''outcome_unknown'' \<notin> set states" for states
    using that state unfolding count_states_def l1(2)
    by (auto simp: filter_map o_def intro!: arg_cong [where f = length] filter_cong)
  then have "count_states l1 [''claimed'', ''revalidated''] = count_states ?l [''claimed'', ''revalidated'']"
    "count_states l1 [''verifying''] = count_states ?l [''verifying'']"
    by simp_all
  moreover have "length ?rows = count_states ?l [''dispatching'']" by (simp add: count_states_def)
  ultimately have counts: "\<lparr>retryable_pre_dispatch = count_states l1 [''claimed'', ''revalidated''],
      outcome_unknown_count = length ?rows,
      verification_resumable_count = count_states l1 [''verifying'']\<rparr> = reconciliation_of ?l"
    by (simp add: reconciliation_of_def)
  obtain events where "recovery_events uuid 0 now ?rows = Inr events"
    using recovery_events_ok [OF rows] by blast
  then have "case fst (reconcile_startup now uuid ?l) of
        Inl (IntegrityError _) \<Rightarrow> True
      | Inl _ \<Rightarrow> False
      | Inr summary \<Rightarrow> summary = reconciliation_of ?l"
    using l1(1) counts append_events_error [of events l1]
    by (auto simp: reconcile_startup_def Let_def split: prod.splits sum.splits)
  with all2 none show ?thesis by blast
qed

section \<open>Claims and the audit log\<close>

text \<open>Claiming is idempotent: after a successful claim, a repeated claim of the same request
  at any time returns the same entry and changes nothing, and a claim of the same request
  identifier with another digest is refused with a conflict and changes nothing.\<close>

theorem claim_idempotent:
  assumes "claim now r l = (Inr entry, l')"
    and "contract_holds s" "odr_request_id s = odr_request_id r"
  shows "claim later s l' =
    (if odr_request_digest s = odr_request_digest r then (Inr entry, l')
     else (Inl (OperationalLedgerConflictError
       ''operational request ID has a different digest''), l'))"
proof -
  have r: "validate_request r = Inr r"
    using assms(1) by (auto simp: claim_eq validate_request_Inr split: sum.splits)
  obtain row where "find_row l' (odr_request_id r) = Some row" "entry_of row = Inr entry"
    "lr_request_digest row = odr_request_digest r"
    using assms(1) r find_row_inserted [of l r now]
    by (auto simp: claim_eq claimed_row_def split: option.splits if_splits)
  then show ?thesis
    using assms(2,3) by (simp add: claim_eq validate_request_Inr [THEN iffD2])
qed

text \<open>The audit trail is append-only: later calls never drop or alter a recorded transition
  or event, event identifiers stay unique, and every recorded event still decodes.\<close>

theorem audit_log_append_only:
  "take (length (transition_rows (ledger_after ops))) (transition_rows (ledger_after (ops @ later)))
     = transition_rows (ledger_after ops)
   \<and> take (length (event_rows (ledger_after ops))) (event_rows (ledger_after (ops @ later)))
     = event_rows (ledger_after ops)
   \<and> distinct (map er_event_id (event_rows (ledger_after ops)))
   \<and> list_all (\<lambda>e. er_event e \<noteq> Undecodable) (event_rows (ledger_after ops))"
proof -
  have "change\<^sup>*\<^sup>* l (foldl ledger_step l later)" if "ledger_valid l" for l
    using that
  proof (induction later arbitrary: l)
    case (Cons op later)
    have "change\<^sup>*\<^sup>* l (ledger_step l op)" by (rule ledger_step_changes [OF Cons.prems])
    also have "change\<^sup>*\<^sup>* (ledger_step l op) (foldl ledger_step (ledger_step l op) later)"
      by (rule Cons.IH [OF ledger_step_valid [OF Cons.prems]])
    finally show ?case by simp
  qed simp
  from changes_append [OF this [OF ledger_after_valid [of ops]]] obtain ts es where
    "transition_rows (ledger_after (ops @ later)) = transition_rows (ledger_after ops) @ ts"
    "event_rows (ledger_after (ops @ later)) = event_rows (ledger_after ops) @ es"
    by (auto simp: ledger_after_def)
  then show ?thesis
    using ledger_valid_events [OF ledger_after_valid [of ops]] by (simp add: list_all_iff)
qed

definition sample_claimed :: "ledger_entry \<times> ledger" where
  "sample_claimed = (projected CLAIMED (claimed_row 7 sample_dispatch_request),
     inserted 7 sample_dispatch_request empty_ledger)"

lemma sample_contract_holds: "contract_holds sample_dispatch_request"
  unfolding sample_dispatch_request_def by (rule sealed_contract [OF sample_draft_sealable])

lemma sample_claim:
  "claim 7 sample_dispatch_request empty_ledger = (Inr (fst sample_claimed), snd sample_claimed)"
proof -
  have "row_valid CLAIMED (claimed_row 7 sample_dispatch_request)"
    using sample_contract_holds by (simp add: row_valid_def row_state_valid_def claimed_row_def)
  then show ?thesis
    using sample_contract_holds entry_of_valid
    by (simp add: claim_eq validate_request_Inr [THEN iffD2] find_row_def empty_ledger_def
        sample_claimed_def)
qed

theorem claim_idempotent_witness:
  "claim 9 sample_dispatch_request (snd sample_claimed)
   = (Inr (fst sample_claimed), snd sample_claimed)"
  using claim_idempotent [OF sample_claim sample_contract_holds refl, of 9] by simp

end
