(* ===== verification/OperationalTarget.thy ===== *)
theory OperationalTarget
  imports Digest
begin

text \<open>
  Exact resolution of an operational target (\<open>services/provider_resource_identity.py\<close>)
  and its fingerprint (\<open>services/operational_target_fingerprint.py\<close>) of Atlas Core. What
  a provider answers is external: the registry maps a provider identifier to its metadata and
  to the outcome of listing its resources. Of a resource the model keeps the fields resolution
  and verification read.
\<close>

section \<open>Models\<close>

record resource_identity =
  ri_token :: string
  ri_token_version :: string

record provider_resource =
  pr_provider_id :: string
  pr_resource_id :: string
  pr_resource_type :: string
  pr_current_state :: string
  pr_identity :: "resource_identity option"
  pr_missing :: bool

record provider_metadata =
  pm_id :: string
  pm_version :: string

record resolved_target =
  rt_provider :: provider_metadata
  rt_resource :: provider_resource
  rt_fingerprint :: string

datatype target_error =
    ProviderNotFoundError | ProviderResourcesNotSupportedError | ProviderResourceOperationError
  | OperationalTargetSelectorError | OperationalTargetResourceNotFoundError
  | OperationalTargetAmbiguousError | OperationalTargetTypeMismatchError
  | OperationalTargetMarkedMissingError | OperationalTargetIdentityUnavailableError
  | OperationalTargetStateUnavailableError | FingerprintProviderMismatch | OtherError

text \<open>The subclasses of \<open>OperationalTargetResolutionError\<close> and of
  \<open>ProviderResourceOperationError\<close>.\<close>

definition resolution_error :: "target_error \<Rightarrow> bool" where
  "resolution_error e \<longleftrightarrow> e \<in> set [OperationalTargetSelectorError,
     OperationalTargetResourceNotFoundError, OperationalTargetAmbiguousError,
     OperationalTargetTypeMismatchError, OperationalTargetMarkedMissingError,
     OperationalTargetIdentityUnavailableError]"

definition resource_operation_error :: "target_error \<Rightarrow> bool" where
  "resource_operation_error e \<longleftrightarrow> e \<in> set [ProviderResourceOperationError,
     OperationalTargetStateUnavailableError]"

definition provider_resource_error :: "target_error \<Rightarrow> bool" where
  "provider_resource_error e \<longleftrightarrow> resolution_error e \<or> resource_operation_error e
     \<or> e = ProviderResourcesNotSupportedError"

text \<open>A registered provider: its metadata and, when it adapts resources, what listing them
  yields: an exception or the collection's provider identifier and resources.\<close>

datatype listing = ListingRaised target_error | Listing string "provider_resource list"

record registered_provider =
  rp_metadata :: provider_metadata
  rp_listing :: "listing option"

type_synonym provider_registry = "string \<Rightarrow> registered_provider option"

section \<open>The fingerprint\<close>

definition target_fingerprint_version :: string where
  "target_fingerprint_version = ''operational-target-fingerprint-v1''"

definition fingerprint_payload ::
  "provider_metadata \<Rightarrow> provider_resource \<Rightarrow> resource_identity \<Rightarrow> (string \<times> json) list" where
  "fingerprint_payload p r i =
     [(''fingerprint_version'', JStr target_fingerprint_version),
      (''identity_token'', JStr (ri_token i)),
      (''identity_token_version'', JStr (ri_token_version i)),
      (''provider_id'', JStr (pm_id p)),
      (''provider_version'', JStr (pm_version p)),
      (''resource_id'', JStr (pr_resource_id r)),
      (''resource_type'', JStr (pr_resource_type r))]"

definition build_operational_target_fingerprint ::
  "provider_metadata \<Rightarrow> provider_resource \<Rightarrow> target_error + string" where
  "build_operational_target_fingerprint p r = (case pr_identity r of
     None \<Rightarrow> Inl OperationalTargetIdentityUnavailableError
   | Some i \<Rightarrow>
     if pr_provider_id r \<noteq> pm_id p then Inl FingerprintProviderMismatch
     else Inr (target_fingerprint_version @ '':''
       @ sha256_hexdigest (canonical_ascii (JObj (fingerprint_payload p r i)))))"

section \<open>Resolution\<close>

text \<open>\<open>str.casefold\<close> on the code points below 256, where it only differs from
  \<open>lower\<close> on the sharp s (and the micro sign, which no selector contains).\<close>

definition casefold :: "string \<Rightarrow> string" where
  "casefold s = concat (map (\<lambda>c. if c = CHR 0xDF then ''ss'' else [lower_char c]) s)"

definition ambiguous_selector :: "string \<Rightarrow> bool" where
  "ambiguous_selector v \<longleftrightarrow> v = [] \<or> v \<noteq> strip v
     \<or> casefold v \<in> set [''*'', ''all'', ''ambiguous'', ''unknown'']"

definition get_resource_listing :: "provider_registry \<Rightarrow> string \<Rightarrow> target_error + listing" where
  "get_resource_listing registry provider_id = (case registry provider_id of
     None \<Rightarrow> Inl ProviderNotFoundError
   | Some p \<Rightarrow> (case rp_listing p of
       None \<Rightarrow> Inl ProviderResourcesNotSupportedError
     | Some x \<Rightarrow> Inr x))"

text \<open>Every exception that is not a \<open>ProviderResourceError\<close>, the registry's own
  \<open>ProviderNotFoundError\<close> included, becomes a \<open>ProviderResourceOperationError\<close>.\<close>

definition list_provider_resource_identities ::
  "provider_registry \<Rightarrow> string \<Rightarrow> target_error + (string \<times> provider_resource list)" where
  "list_provider_resource_identities registry provider_id =
     (let wrap = (\<lambda>e. if provider_resource_error e then Inl e else Inl ProviderResourceOperationError)
      in case get_resource_listing registry provider_id of
        Inl e \<Rightarrow> wrap e
      | Inr (ListingRaised e) \<Rightarrow> wrap e
      | Inr (Listing owner resources) \<Rightarrow> Inr (owner, resources))"

definition resolve_operational_target ::
  "provider_registry \<Rightarrow> string \<Rightarrow> string \<Rightarrow> string \<Rightarrow> target_error + resolved_target" where
  "resolve_operational_target registry provider_id resource_id resource_type =
     (if list_ex ambiguous_selector [provider_id, resource_id, resource_type]
      then Inl OperationalTargetSelectorError
      else (case registry provider_id of
        None \<Rightarrow> Inl ProviderNotFoundError
      | Some provider \<Rightarrow>
        (case list_provider_resource_identities registry provider_id of
          Inl e \<Rightarrow> Inl e
        | Inr (owner, resources) \<Rightarrow>
          if owner \<noteq> provider_id then Inl OperationalTargetStateUnavailableError
          else (case filter (\<lambda>r. pr_resource_id r = resource_id) resources of
            [] \<Rightarrow> Inl OperationalTargetResourceNotFoundError
          | resource # others \<Rightarrow>
            if others \<noteq> [] then Inl OperationalTargetAmbiguousError
            else if pr_provider_id resource \<noteq> provider_id
            then Inl OperationalTargetStateUnavailableError
            else if pr_resource_type resource \<noteq> resource_type
            then Inl OperationalTargetTypeMismatchError
            else if pr_missing resource then Inl OperationalTargetMarkedMissingError
            else (case build_operational_target_fingerprint (rp_metadata provider) resource of
              Inl e \<Rightarrow> Inl e
            | Inr fingerprint \<Rightarrow> Inr \<lparr>rt_provider = rp_metadata provider,
                rt_resource = resource, rt_fingerprint = fingerprint\<rparr>)))))"

section \<open>What a resolved target certifies\<close>

text \<open>The one live resource of the registry that the selectors name.\<close>

definition exact_target ::
  "provider_registry \<Rightarrow> string \<Rightarrow> string \<Rightarrow> string \<Rightarrow> resolved_target \<Rightarrow> bool" where
  "exact_target registry provider_id resource_id resource_type t \<longleftrightarrow>
     \<not> list_ex ambiguous_selector [provider_id, resource_id, resource_type]
     \<and> (case registry provider_id of None \<Rightarrow> False
        | Some p \<Rightarrow> rt_provider t = rp_metadata p \<and> pm_id (rp_metadata p) = provider_id
            \<and> (case rp_listing p of
                 Some (Listing owner resources) \<Rightarrow> owner = provider_id
                   \<and> filter (\<lambda>r. pr_resource_id r = resource_id) resources = [rt_resource t]
               | _ \<Rightarrow> False))
     \<and> pr_provider_id (rt_resource t) = provider_id
     \<and> pr_resource_type (rt_resource t) = resource_type
     \<and> \<not> pr_missing (rt_resource t)
     \<and> (case pr_identity (rt_resource t) of None \<Rightarrow> False
        | Some i \<Rightarrow> rt_fingerprint t = target_fingerprint_version @ '':'' @ sha256_hexdigest
            (canonical_ascii (JObj (fingerprint_payload (rt_provider t) (rt_resource t) i))))"

lemma list_provider_resource_identities_Inr:
  "list_provider_resource_identities registry provider_id = Inr (owner, resources) \<longleftrightarrow>
     (\<exists>p. registry provider_id = Some p \<and> rp_listing p = Some (Listing owner resources))"
  by (auto simp: list_provider_resource_identities_def get_resource_listing_def Let_def
      split: option.splits listing.splits)

text \<open>Resolution succeeds exactly on one live, identified resource: its answer is the unique
  resource of that identifier in the named provider's own collection, of the requested type, not
  marked missing, with the fingerprint of its provider-issued identity; in every other case it
  is refused.\<close>

theorem resolve_operational_target_iff:
  "resolve_operational_target registry provider_id resource_id resource_type = Inr t \<longleftrightarrow>
     exact_target registry provider_id resource_id resource_type t"
proof (cases "list_ex ambiguous_selector [provider_id, resource_id, resource_type]")
  case True
  then show ?thesis unfolding resolve_operational_target_def exact_target_def by simp
next
  case False
  note sel = False
  show ?thesis
  proof (cases "\<exists>p owner resources. registry provider_id = Some p
      \<and> rp_listing p = Some (Listing owner resources)")
    case False
    then have "list_provider_resource_identities registry provider_id \<noteq> Inr x" for x
      using list_provider_resource_identities_Inr by (cases x) blast
    then show ?thesis using False sel
      by (auto simp: resolve_operational_target_def exact_target_def
          split: option.splits sum.splits listing.splits)
  next
    case True
    then obtain p owner resources where p: "registry provider_id = Some p"
      "rp_listing p = Some (Listing owner resources)" by blast
    then have l: "list_provider_resource_identities registry provider_id = Inr (owner, resources)"
      by (simp add: list_provider_resource_identities_Inr)
    show ?thesis
    proof (cases "filter (\<lambda>r. pr_resource_id r = resource_id) resources")
      case Nil
      then show ?thesis using p l sel
        by (simp add: resolve_operational_target_def exact_target_def)
    next
      case (Cons r rs)
      then show ?thesis using p l sel
        unfolding resolve_operational_target_def exact_target_def
          build_operational_target_fingerprint_def
        by (cases t) (auto split: option.splits if_splits)
    qed
  qed
qed

definition target_bytes :: "resolved_target \<Rightarrow> byte list" where
  "target_bytes t = (case pr_identity (rt_resource t) of None \<Rightarrow> []
     | Some i \<Rightarrow> canonical_ascii (JObj (fingerprint_payload (rt_provider t) (rt_resource t) i)))"

definition target_identity ::
  "resolved_target \<Rightarrow> provider_metadata \<times> string \<times> string \<times> resource_identity option" where
  "target_identity t = (rt_provider t, pr_resource_id (rt_resource t),
     pr_resource_type (rt_resource t), pr_identity (rt_resource t))"

lemma fingerprint_payload_inject:
  "canonical_ascii (JObj (fingerprint_payload p r i))
     = canonical_ascii (JObj (fingerprint_payload q s j)) \<longleftrightarrow>
   p = q \<and> pr_resource_id r = pr_resource_id s \<and> pr_resource_type r = pr_resource_type s \<and> i = j"
proof -
  have "canonical_ascii (JObj (fingerprint_payload p r i))
     = canonical_ascii (JObj (fingerprint_payload q s j)) \<longleftrightarrow>
     fingerprint_payload p r i = fingerprint_payload q s j"
    by (rule canonical_bytes_inject(2)) (simp_all add: fingerprint_payload_def)
  also have "\<dots> \<longleftrightarrow> p = q \<and> pr_resource_id r = pr_resource_id s
      \<and> pr_resource_type r = pr_resource_type s \<and> i = j"
    by (cases p; cases q; cases i; cases j) (auto simp: fingerprint_payload_def)
  finally show ?thesis .
qed

text \<open>A fingerprint identifies a target: two resolved targets with one fingerprint are the same
  resource, in its provider-issued identity, of the same provider version, unless SHA-256
  collides on exactly the bytes hashed for them.\<close>

theorem fingerprint_identifies_target:
  assumes "resolve_operational_target registry p r ty = Inr t"
    and "resolve_operational_target registry' p' r' ty' = Inr u"
    and "rt_fingerprint t = rt_fingerprint u"
  shows "target_identity t = target_identity u \<or> digest_collision (target_bytes t) (target_bytes u)"
proof -
  from assms obtain i j where ids: "pr_identity (rt_resource t) = Some i"
    "pr_identity (rt_resource u) = Some j"
    and h: "sha256_hexdigest (target_bytes t) = sha256_hexdigest (target_bytes u)"
    unfolding resolve_operational_target_iff
    by (auto simp: exact_target_def target_bytes_def split: option.splits)
  show ?thesis
  proof (cases "target_bytes t = target_bytes u")
    case True
    then show ?thesis using ids
      by (simp add: target_bytes_def fingerprint_payload_inject target_identity_def)
  next
    case False
    with h show ?thesis by (simp add: digest_collision_def)
  qed
qed

definition sample_resource :: provider_resource where
  "sample_resource = \<lparr>pr_provider_id = ''proxmox'', pr_resource_id = ''vm-100'',
     pr_resource_type = ''qemu'', pr_current_state = ''running'',
     pr_identity = Some \<lparr>ri_token = ''tok'', ri_token_version = ''v1''\<rparr>, pr_missing = False\<rparr>"

definition sample_registry :: provider_registry where
  "sample_registry = [''proxmox'' \<mapsto> \<lparr>rp_metadata = \<lparr>pm_id = ''proxmox'', pm_version = ''1.0.0''\<rparr>,
     rp_listing = Some (Listing ''proxmox'' [sample_resource])\<rparr>]"

definition sample_target :: resolved_target where
  "sample_target = \<lparr>rt_provider = \<lparr>pm_id = ''proxmox'', pm_version = ''1.0.0''\<rparr>,
     rt_resource = sample_resource,
     rt_fingerprint = target_fingerprint_version @ '':'' @ sha256_hexdigest (canonical_ascii
       (JObj (fingerprint_payload \<lparr>pm_id = ''proxmox'', pm_version = ''1.0.0''\<rparr> sample_resource
         \<lparr>ri_token = ''tok'', ri_token_version = ''v1''\<rparr>)))\<rparr>"

lemma sample_target_resolved:
  "resolve_operational_target sample_registry ''proxmox'' ''vm-100'' ''qemu'' = Inr sample_target"
proof -
  have "\<not> list_ex ambiguous_selector [''proxmox'', ''vm-100'', ''qemu'']"
    by (simp add: ambiguous_selector_def casefold_def lower_char_def string_defs)
  then show ?thesis
    unfolding resolve_operational_target_def list_provider_resource_identities_def
      get_resource_listing_def build_operational_target_fingerprint_def
    by (simp add: sample_registry_def sample_target_def sample_resource_def)
qed

theorem fingerprint_identifies_target_witness:
  "target_identity sample_target = target_identity sample_target
   \<or> digest_collision (target_bytes sample_target) (target_bytes sample_target)"
  by (rule fingerprint_identifies_target [OF sample_target_resolved sample_target_resolved refl])

end
