(* ===== verification/DispatchService.thy ===== *)
theory DispatchService
  imports LedgerSafety OperationalTarget
begin

text \<open>
  The fail-closed dispatch service and its handler registry (\<open>operational_dispatch/service.py\<close>,
  \<open>registry.py\<close>). A call of the coroutine \<open>dispatch\<close> is cut at its two awaits: it
  runs up to the target resolver, then from the resolver's answer to the handler, then from the
  handler's answer to its end. Between two cuts it runs without interruption, as the event loop
  guarantees; other calls and restarts may happen at a cut. The clock and \<open>uuid4\<close> are
  read by position from the host; every ledger call reads the clock once.
\<close>

section \<open>The handler registry\<close>

type_synonym action_key = "string \<times> string \<times> string"
type_synonym 'h handler_registry = "(action_key \<times> 'h) list"

record 'h handler_registration =
  hr_operation_intent :: string
  hr_provider_id :: string
  hr_resource_type :: string
  hr_handler :: 'h

definition operational_execution_intents :: "string list" where
  "operational_execution_intents = [''restart-service'']"

definition registration_key :: "'h handler_registration \<Rightarrow> action_key" where
  "registration_key r = (hr_operation_intent r, hr_provider_id r, hr_resource_type r)"

definition register_handler ::
  "'h handler_registry \<Rightarrow> 'h handler_registration \<Rightarrow> 'h handler_registry res" where
  "register_handler handlers r =
     (if map_of handlers (registration_key r) \<noteq> None
      then Inl (ValueError ''duplicate operational handler registration'')
      else Inr (AList.update (registration_key r) (hr_handler r) handlers))"

fun register_handlers ::
  "'h handler_registry \<Rightarrow> 'h handler_registration list \<Rightarrow> 'h handler_registry res" where
  "register_handlers handlers [] = Inr handlers"
| "register_handlers handlers (r # rs) =
     and_then (register_handler handlers r) (\<lambda>handlers. register_handlers handlers rs)"

definition handler_registry :: "'h handler_registration list \<Rightarrow> 'h handler_registry res" where
  "handler_registry registrations = register_handlers [] registrations"

definition resolve_handler :: "'h handler_registry \<Rightarrow> action_key \<Rightarrow> 'h option" where
  "resolve_handler handlers key = map_of handlers key"

lemma register_handler_taken:
  "resolve_handler s (registration_key v) \<noteq> None \<Longrightarrow> \<not> succeeds (register_handler s v)"
  by (simp add: resolve_handler_def register_handler_def)

lemma register_handler_ok:
  "register_handler s v = Inr s' \<Longrightarrow>
   resolve_handler s' = (resolve_handler s)(registration_key v \<mapsto> hr_handler v)"
  by (auto simp: resolve_handler_def [abs_def] register_handler_def update_conv' split: if_splits)

interpretation handlers: keyed_store resolve_handler register_handler registration_key hr_handler
  by unfold_locales (simp_all add: register_handler_taken register_handler_ok)

section \<open>Service state\<close>

record host =
  h_clock :: "nat \<Rightarrow> int"
  h_uuid :: "nat \<Rightarrow> string"

record world =
  w_ledger :: ledger
  w_ticks :: nat
  w_ids :: nat

definition clock_now :: "host \<Rightarrow> world \<Rightarrow> int \<times> world" where
  "clock_now m w = (h_clock m (w_ticks w), w\<lparr>w_ticks := Suc (w_ticks w)\<rparr>)"

type_synonym 'a act = "world \<Rightarrow> 'a res \<times> world"

definition returns :: "'a \<Rightarrow> 'a act" where
  "returns x w = (Inr x, w)"

definition act_then :: "'a act \<Rightarrow> ('a \<Rightarrow> 'b act) \<Rightarrow> 'b act" where
  "act_then a f w = (case a w of (Inl e, w') \<Rightarrow> (Inl e, w') | (Inr x, w') \<Rightarrow> f x w')"

definition read_clock :: "host \<Rightarrow> int act" where
  "read_clock m w = (case clock_now m w of (t, w') \<Rightarrow> (Inr t, w'))"

text \<open>A ledger method, which reads the clock for its own timestamps.\<close>

definition ledger_call :: "host \<Rightarrow> (int \<Rightarrow> ledger \<Rightarrow> 'a res \<times> ledger) \<Rightarrow> 'a act" where
  "ledger_call m f w = (case clock_now m w of (t, w') \<Rightarrow>
     (case f t (w_ledger w') of (r, l) \<Rightarrow> (r, w'\<lparr>w_ledger := l\<rparr>)))"

definition audit :: "host \<Rightarrow> dispatch_request \<Rightarrow> audit_status \<Rightarrow> unit act" where
  "audit m request status w = (case clock_now m w of (t, w') \<Rightarrow>
     (case append_event (request_event (h_uuid m (w_ids w')) status t request) (w_ledger w') of
       (r, l) \<Rightarrow> (r, w'\<lparr>w_ledger := l, w_ids := Suc (w_ids w')\<rparr>)))"

section \<open>Dispatch\<close>

record 'h dispatch_config =
  dc_registry :: "'h handler_registry"
  dc_execution_intents :: "string list"

definition request_key :: "dispatch_request \<Rightarrow> action_key" where
  "request_key r = (odr_execution_intent r, odr_provider_id r, odr_resource_type r)"

definition capability_boundary ::
  "'h dispatch_config \<Rightarrow> string \<Rightarrow> string \<Rightarrow> string \<Rightarrow> bool \<times> bool" where
  "capability_boundary c intent provider_id resource_type =
     (intent \<in> set (dc_execution_intents c),
      resolve_handler (dc_registry c) (intent, provider_id, resource_type) \<noteq> None)"

definition failure_result ::
  "dispatch_request \<Rightarrow> int \<Rightarrow> int \<Rightarrow> string \<Rightarrow> dispatch_result" where
  "failure_result request started_at completed_at message =
     \<lparr>ors_status = DISPATCH_FAILED, ors_request_id = odr_request_id request,
      ors_request_digest = odr_request_digest request,
      ors_target_fingerprint = odr_target_fingerprint request,
      ors_provider_operation_id = None, ors_started_at = started_at,
      ors_completed_at = Some completed_at, ors_sanitized_message = Some message\<rparr>"

definition unknown_result ::
  "dispatch_request \<Rightarrow> int \<Rightarrow> int option \<Rightarrow> string \<Rightarrow> dispatch_result" where
  "unknown_result request started_at completed_at message =
     \<lparr>ors_status = DISPATCH_UNKNOWN, ors_request_id = odr_request_id request,
      ors_request_digest = odr_request_digest request,
      ors_target_fingerprint = odr_target_fingerprint request,
      ors_provider_operation_id = None, ors_started_at = started_at,
      ors_completed_at = completed_at, ors_sanitized_message = Some message\<rparr>"

text \<open>\<open>persist_dispatch_result(...).dispatch_result\<close>\<close>

definition persist :: "host \<Rightarrow> dispatch_request \<Rightarrow> dispatch_result \<Rightarrow> ledger_state
    \<Rightarrow> dispatch_result act" where
  "persist m request result state =
     act_then (ledger_call m (\<lambda>t. persist_dispatch_result t request result state)) (\<lambda>entry.
     returns (the (le_dispatch_result entry)))"

definition terminal_failure ::
  "host \<Rightarrow> dispatch_request \<Rightarrow> int \<Rightarrow> string \<Rightarrow> dispatch_result act" where
  "terminal_failure m request started_at message =
     act_then (read_clock m) (\<lambda>t.
     persist m request (failure_result request started_at t message) LEDGER_FAILED)"

definition target_replaced ::
  "host \<Rightarrow> dispatch_request \<Rightarrow> int \<Rightarrow> dispatch_result act" where
  "target_replaced m request started_at =
     act_then (read_clock m) (\<lambda>t.
     persist m request (failure_result request started_at t
       ''Authoritative operational target was replaced or unavailable.'') TARGET_REPLACED)"

definition target_matches :: "dispatch_request \<Rightarrow> resolved_target \<Rightarrow> bool" where
  "target_matches request t \<longleftrightarrow>
     pm_id (rt_provider t) = odr_provider_id request
     \<and> pr_provider_id (rt_resource t) = odr_provider_id request
     \<and> pr_resource_id (rt_resource t) = odr_resource_id request
     \<and> pr_resource_type (rt_resource t) = odr_resource_type request
     \<and> rt_fingerprint t = odr_target_fingerprint request
     \<and> (odr_target_version request = None
        \<or> map_option ri_token_version (pr_identity (rt_resource t)) = odr_target_version request)"

text \<open>Where a call stands after a cut.\<close>

datatype 'h progress =
    Finished dispatch_result
  | AwaitingResolver dispatch_request int 'h
  | AwaitingHandler dispatch_request int ledger_entry 'h resolved_target

definition start_dispatch ::
  "'h dispatch_config \<Rightarrow> host \<Rightarrow> dispatch_request \<Rightarrow> 'h progress act" where
  "start_dispatch c m request =
     act_then (ledger_call m (\<lambda>t. claim t request)) (\<lambda>entry.
     case le_dispatch_result entry of Some result \<Rightarrow> returns (Finished result) | None \<Rightarrow>
     act_then (read_clock m) (\<lambda>now.
     if instant (odr_expires_at request) \<le> now
     then act_then (terminal_failure m request now ''Operational request expired.'') (\<lambda>result.
       returns (Finished result))
     else let handler = resolve_handler (dc_registry c) (request_key request) in
     if odr_execution_intent request \<notin> set (dc_execution_intents c)
     then act_then (audit m request EXECUTION_DISABLED) (\<lambda>_.
       act_then (terminal_failure m request now
         ''Operational execution capability is disabled.'') (\<lambda>result.
       returns (Finished result)))
     else (case handler of
       None \<Rightarrow> act_then (audit m request NO_HANDLER) (\<lambda>_.
         act_then (terminal_failure m request now
           ''No exact operational handler is registered.'') (\<lambda>result.
         returns (Finished result)))
     | Some h \<Rightarrow> returns (AwaitingResolver request now h))))"

definition resolver_replied :: "host \<Rightarrow> dispatch_request \<Rightarrow> int \<Rightarrow> 'h
    \<Rightarrow> (target_error + resolved_target) \<Rightarrow> 'h progress act" where
  "resolver_replied m request now h reply = (case reply of
     Inl e \<Rightarrow>
       if resolution_error e \<or> e = ProviderNotFoundError \<or> e = ProviderResourcesNotSupportedError
       then act_then (audit m request TARGET_BLOCKED) (\<lambda>_.
         act_then (target_replaced m request now) (\<lambda>result. returns (Finished result)))
       else if resource_operation_error e
       then act_then (audit m request TARGET_BLOCKED) (\<lambda>_.
         act_then (read_clock m) (\<lambda>t.
         returns (Finished (failure_result request now t
           ''Operational target is temporarily unavailable.''))))
       else (\<lambda>w. (Inl (ValueError ''target resolution raised''), w))
   | Inr target \<Rightarrow>
       if \<not> target_matches request target
       then act_then (audit m request TARGET_BLOCKED) (\<lambda>_.
         act_then (target_replaced m request now) (\<lambda>result. returns (Finished result)))
       else act_then (ledger_call m (\<lambda>t. mark_revalidated t request)) (\<lambda>_.
         act_then (ledger_call m (\<lambda>t. mark_dispatching t request)) (\<lambda>(entry, owner).
         if \<not> owner
         then (case le_dispatch_result entry of
             Some result \<Rightarrow> returns (Finished result)
           | None \<Rightarrow> returns (Finished (unknown_result request
               (case le_dispatch_started_at entry of None \<Rightarrow> now | Some t \<Rightarrow> t) None
               ''Operational dispatch is already in progress.'')))
         else act_then (audit m request BARRIER_CROSSED) (\<lambda>_.
           returns (AwaitingHandler request now entry h target)))))"

text \<open>What the awaited handler does: it returns a result, raises an exception the service
  catches, or is cancelled (which \<open>except Exception\<close> does not catch).\<close>

datatype handler_reply = HandlerReturned dispatch_result | HandlerRaised | HandlerCancelled

definition result_matches :: "dispatch_request \<Rightarrow> dispatch_result \<Rightarrow> bool" where
  "result_matches request result \<longleftrightarrow> ors_request_id result = odr_request_id request
     \<and> ors_request_digest result = odr_request_digest request
     \<and> ors_target_fingerprint result = odr_target_fingerprint request"

fun dispatch_ledger_state :: "dispatch_status \<Rightarrow> ledger_state" where
  "dispatch_ledger_state DISPATCH_SUCCEEDED = SUCCEEDED"
| "dispatch_ledger_state DISPATCH_FAILED = LEDGER_FAILED"
| "dispatch_ledger_state DISPATCH_UNKNOWN = OUTCOME_UNKNOWN"

definition finish_dispatch ::
  "host \<Rightarrow> dispatch_request \<Rightarrow> dispatch_result \<Rightarrow> 'h progress act" where
  "finish_dispatch m request result =
     act_then (if ors_provider_operation_id result \<noteq> None
       then audit m request PROVIDER_OPERATION_CAPTURED else returns ()) (\<lambda>_.
     act_then (if ors_status result = DISPATCH_UNKNOWN
       then audit m request AUDIT_OUTCOME_UNKNOWN else returns ()) (\<lambda>_.
     act_then (audit m request DISPATCH_RESULT) (\<lambda>_.
     act_then (persist m request result (dispatch_ledger_state (ors_status result))) (\<lambda>result.
     returns (Finished result)))))"

definition handler_replied :: "host \<Rightarrow> dispatch_request \<Rightarrow> int \<Rightarrow> ledger_entry
    \<Rightarrow> handler_reply \<Rightarrow> 'h progress act" where
  "handler_replied m request now entry reply =
     (let ambiguous = act_then (read_clock m) (\<lambda>t.
            finish_dispatch m request (unknown_result request
              (case le_dispatch_started_at entry of None \<Rightarrow> now | Some s \<Rightarrow> s) (Some t)
              ''Operational dispatch outcome is unknown.''))
      in case reply of
        HandlerReturned result \<Rightarrow>
          if result_matches request result then finish_dispatch m request result else ambiguous
      | HandlerRaised \<Rightarrow> ambiguous
      | HandlerCancelled \<Rightarrow> (\<lambda>w. (Inl CancelledError, w)))"

section \<open>The running service\<close>

record 'h invocation =
  iv_request :: dispatch_request
  iv_handler :: 'h
  iv_target :: resolved_target
  iv_started :: int

text \<open>The process: its world, the calls waiting at an await, and every handler invocation it ever
  made. \<open>LifecycleCall\<close> is any ledger call of the verification side.\<close>

record 'h service =
  sv_world :: world
  sv_calls :: "'h progress list"
  sv_invocations :: "'h invocation list"

datatype service_event =
    Submit dispatch_request
  | ResolverReply nat "target_error + resolved_target"
  | HandlerReply nat handler_reply
  | LifecycleCall ledger_op
  | Restart

fun lifecycle_op :: "ledger_op \<Rightarrow> bool" where
  "lifecycle_op (BeginVerification now r b) = True"
| "lifecycle_op (PersistVerificationResult now r v) = True"
| "lifecycle_op (AppendEvent e) = True"
| "lifecycle_op _ = False"

text \<open>A call has run to its next cut: a waiting call is kept, and reaching the handler's await
  invokes the handler.\<close>

fun resume :: "'h service \<Rightarrow> 'h progress res \<times> world \<Rightarrow> 'h service" where
  "resume s (Inl e, w) = s\<lparr>sv_world := w\<rparr>"
| "resume s (Inr (Finished result), w) = s\<lparr>sv_world := w\<rparr>"
| "resume s (Inr (AwaitingResolver r now h), w) =
     s\<lparr>sv_world := w, sv_calls := sv_calls s @ [AwaitingResolver r now h]\<rparr>"
| "resume s (Inr (AwaitingHandler r now entry h t), w) =
     s\<lparr>sv_world := w, sv_calls := sv_calls s @ [AwaitingHandler r now entry h t],
       sv_invocations := sv_invocations s
         @ [\<lparr>iv_request = r, iv_handler = h, iv_target = t, iv_started = now\<rparr>]\<rparr>"

definition drop_call :: "nat \<Rightarrow> 'h service \<Rightarrow> 'h service" where
  "drop_call i s = s\<lparr>sv_calls := take i (sv_calls s) @ drop (Suc i) (sv_calls s)\<rparr>"

definition restart :: "host \<Rightarrow> world \<Rightarrow> world" where
  "restart m w = (case clock_now m w of (t, w') \<Rightarrow>
     w'\<lparr>w_ledger := snd (reconcile_startup t (\<lambda>n. h_uuid m (w_ids w' + n)) (w_ledger w')),
       w_ids := w_ids w' + 2 * length (dispatch_rows (w_ledger w'))\<rparr>)"

fun service_step :: "'h dispatch_config \<Rightarrow> host \<Rightarrow> 'h service \<Rightarrow> service_event \<Rightarrow> 'h service" where
  "service_step c m s (Submit r) = resume s (start_dispatch c m r (sv_world s))"
| "service_step c m s (ResolverReply i reply) =
     (if i < length (sv_calls s) then (case sv_calls s ! i of
        AwaitingResolver r now h \<Rightarrow>
          resume (drop_call i s) (resolver_replied m r now h reply (sv_world s))
      | _ \<Rightarrow> s) else s)"
| "service_step c m s (HandlerReply i reply) =
     (if i < length (sv_calls s) then (case sv_calls s ! i of
        AwaitingHandler r now entry h t \<Rightarrow>
          resume (drop_call i s) (handler_replied m r now entry reply (sv_world s))
      | _ \<Rightarrow> s) else s)"
| "service_step c m s (LifecycleCall op) =
     (if lifecycle_op op then s\<lparr>sv_world := (sv_world s)\<lparr>w_ledger := ledger_step (w_ledger (sv_world s)) op\<rparr>\<rparr>
      else s)"
| "service_step c m s Restart = s\<lparr>sv_world := restart m (sv_world s), sv_calls := []\<rparr>"

definition idle_service :: "'h service" where
  "idle_service = \<lparr>sv_world = \<lparr>w_ledger = empty_ledger, w_ticks = 0, w_ids = 0\<rparr>,
     sv_calls = [], sv_invocations = []\<rparr>"

definition run_service ::
  "'h dispatch_config \<Rightarrow> host \<Rightarrow> service_event list \<Rightarrow> 'h service" where
  "run_service c m events = foldl (service_step c m) idle_service events"

section \<open>Every call only makes valid ledger changes\<close>

definition act_ok :: "'a act \<Rightarrow> bool" where
  "act_ok a \<longleftrightarrow> (\<forall>w. ledger_valid (w_ledger w) \<longrightarrow> change\<^sup>*\<^sup>* (w_ledger w) (w_ledger (snd (a w))))"

named_theorems act_intros \<open>acts that only change the ledger validly\<close>

lemma act_ok_returns [act_intros]: "act_ok (returns x)"
  by (simp add: act_ok_def returns_def)

lemma act_ok_raise [act_intros]: "act_ok (\<lambda>w. (Inl e, w))"
  by (simp add: act_ok_def)

lemma act_ok_then [act_intros]:
  assumes "act_ok a" "\<And>x. act_ok (f x)"
  shows "act_ok (act_then a f)"
  unfolding act_ok_def
proof (intro allI impI)
  fix w :: world assume v: "ledger_valid (w_ledger w)"
  obtain r w1 where a: "a w = (r, w1)" by (cases "a w")
  then have w1: "change\<^sup>*\<^sup>* (w_ledger w) (w_ledger w1)"
    using assms(1) v by (auto simp: act_ok_def dest: spec [of _ w])
  show "change\<^sup>*\<^sup>* (w_ledger w) (w_ledger (snd (act_then a f w)))"
  proof (cases r)
    case (Inl e)
    then show ?thesis using a w1 by (simp add: act_then_def)
  next
    case (Inr x)
    have "change\<^sup>*\<^sup>* (w_ledger w1) (w_ledger (snd (f x w1)))"
      using assms(2) [of x] changes_valid [OF w1 v] by (simp add: act_ok_def)
    then show ?thesis using a w1 Inr by (simp add: act_then_def)
  qed
qed

lemma act_ok_clock [act_intros]: "act_ok (read_clock m)"
  by (simp add: act_ok_def read_clock_def clock_now_def)

lemma act_ok_audit [act_intros]: "act_ok (audit m r s)"
  using append_event_changes
  by (auto simp: act_ok_def audit_def clock_now_def split: prod.splits)
    (metis snd_conv)

lemma act_ok_ledger_call:
  assumes "\<And>t l. ledger_valid l \<Longrightarrow> change\<^sup>*\<^sup>* l (snd (f t l))"
  shows "act_ok (ledger_call m f)"
  using assms by (auto simp: act_ok_def ledger_call_def clock_now_def split: prod.splits)
    (metis snd_conv)

lemma act_ok_calls [act_intros]:
  "act_ok (ledger_call m (\<lambda>t. claim t r))"
  "act_ok (ledger_call m (\<lambda>t. mark_revalidated t r))"
  "act_ok (ledger_call m (\<lambda>t. mark_dispatching t r))"
  "act_ok (ledger_call m (\<lambda>t. persist_dispatch_result t r d st))"
  by (auto intro!: act_ok_ledger_call claim_changes mark_revalidated_changes
      mark_dispatching_changes persist_dispatch_result_changes)

lemma act_ok_persist [act_intros]: "act_ok (persist m r d st)"
  unfolding persist_def by (intro act_intros)

lemma act_ok_failures [act_intros]:
  "act_ok (terminal_failure m r t msg)" "act_ok (target_replaced m r t)"
  unfolding terminal_failure_def target_replaced_def by (intro act_intros)+

lemma act_ok_finish [act_intros]: "act_ok (finish_dispatch m r d)"
  unfolding finish_dispatch_def by (intro act_intros conjI; simp add: act_intros)

lemma act_ok_start: "act_ok (start_dispatch c m r)"
  unfolding start_dispatch_def Let_def
  by (auto intro!: act_intros split: option.splits)

lemma act_ok_resolver: "act_ok (resolver_replied m r now h reply)"
  unfolding resolver_replied_def
  by (cases reply) (auto intro!: act_intros split: option.splits)

lemma act_ok_handler: "act_ok (handler_replied m r now entry reply)"
  unfolding handler_replied_def Let_def
  by (cases reply) (auto intro!: act_intros)

section \<open>The handler runs at most once, and only when authorised\<close>

lemma mark_dispatching_owner:
  assumes v: "ledger_valid l" and o: "mark_dispatching t r l = (Inr (entry, True), l')"
  shows "dispatch_started l (odr_request_id r) = None"
    and "dispatch_started l' (odr_request_id r) \<noteq> None"
proof -
  have c: "crosses_barrier l (MarkDispatching t r) (odr_request_id r)"
    by (simp add: o)
  show "dispatch_started l (odr_request_id r) = None" by (rule barrier.grant_fresh [OF v c])
  show "dispatch_started l' (odr_request_id r) \<noteq> None"
    using barrier.grant_fills [OF v c] by (simp add: o)
qed

lemma act_then_Inr:
  "act_then a f w = (Inr y, w') \<longleftrightarrow> (\<exists>x w1. a w = (Inr x, w1) \<and> f x w1 = (Inr y, w'))"
  by (auto simp: act_then_def split: prod.splits sum.splits)

lemma act_ok_run:
  "act_ok a \<Longrightarrow> a w = (r, w') \<Longrightarrow> ledger_valid (w_ledger w) \<Longrightarrow>
   change\<^sup>*\<^sup>* (w_ledger w) (w_ledger w') \<and> ledger_valid (w_ledger w')"
  unfolding act_ok_def using changes_valid by (metis snd_conv)

lemma changes_started:
  "change\<^sup>*\<^sup>* l l' \<Longrightarrow> dispatch_started l k \<noteq> None \<Longrightarrow> dispatch_started l' k \<noteq> None"
  by (auto simp: dispatch_started_def extends_def dest!: changes_extends split: option.splits)

lemma ledger_call_run:
  "ledger_call m f w = (r, w') \<Longrightarrow>
   \<exists>t. f t (w_ledger w) = (r, w_ledger w')"
  by (auto simp: ledger_call_def clock_now_def split: prod.splits)

lemma resolver_replied_invokes:
  assumes v: "ledger_valid (w_ledger w)"
    and p: "resolver_replied m r now h reply w = (Inr (AwaitingHandler r' now' entry h' t), w')"
  shows "r' = r \<and> now' = now \<and> h' = h \<and> target_matches r t \<and> reply = Inr t
    \<and> dispatch_started (w_ledger w) (odr_request_id r) = None
    \<and> dispatch_started (w_ledger w') (odr_request_id r) \<noteq> None"
proof (cases reply)
  case (Inl e)
  with p show ?thesis
    by (auto simp: resolver_replied_def act_then_Inr returns_def split: if_splits)
next
  case (Inr u)
  with p have m: "target_matches r u"
    by (auto simp: resolver_replied_def act_then_Inr returns_def split: if_splits)
  with Inr p obtain x w1 e own w2 where s:
    "ledger_call m (\<lambda>t. mark_revalidated t r) w = (Inr x, w1)"
    "ledger_call m (\<lambda>t. mark_dispatching t r) w1 = (Inr (e, own), w2)"
    and rest: "(if \<not> own
         then (case le_dispatch_result e of
             Some result \<Rightarrow> returns (Finished result)
           | None \<Rightarrow> returns (Finished (unknown_result r
               (case le_dispatch_started_at e of None \<Rightarrow> now | Some t \<Rightarrow> t) None
               ''Operational dispatch is already in progress.'')))
         else act_then (audit m r BARRIER_CROSSED) (\<lambda>_.
           returns (AwaitingHandler r now e h u))) w2
      = (Inr (AwaitingHandler r' now' entry h' t), w')"
    by (auto simp: resolver_replied_def act_then_Inr)
  have own: "own"
  proof (rule ccontr)
    assume "\<not> own"
    with rest show False by (cases "le_dispatch_result e") (simp_all add: returns_def)
  qed
  have "act_then (audit m r BARRIER_CROSSED) (\<lambda>_. returns (AwaitingHandler r now e h u)) w2
      = (Inr (AwaitingHandler r' now' entry h' t), w')"
    using rest own by (simp only: not_True_eq_False if_False eqTrueI)
  then obtain y where a: "audit m r BARRIER_CROSSED w2 = (Inr y, w')"
    "r' = r \<and> now' = now \<and> h' = h \<and> u = t"
    unfolding act_then_Inr returns_def by blast
  obtain t2 where d: "mark_dispatching t2 r (w_ledger w1) = (Inr (e, own), w_ledger w2)"
    using ledger_call_run [OF s(2)] by blast
  have v1: "change\<^sup>*\<^sup>* (w_ledger w) (w_ledger w1) \<and> ledger_valid (w_ledger w1)"
    by (rule act_ok_run [OF act_ok_calls(2) s(1) v])
  then have v2: "change\<^sup>*\<^sup>* (w_ledger w2) (w_ledger w')"
    using act_ok_run [OF act_ok_calls(3) s(2)] act_ok_run [OF act_ok_audit a(1)] by blast
  note owner = mark_dispatching_owner [of "w_ledger w1" t2 r e "w_ledger w2"]
  have "dispatch_started (w_ledger w1) (odr_request_id r) = None"
    "dispatch_started (w_ledger w2) (odr_request_id r) \<noteq> None"
    using owner v1 d own by simp_all
  then have "dispatch_started (w_ledger w) (odr_request_id r) = None
    \<and> dispatch_started (w_ledger w') (odr_request_id r) \<noteq> None"
    using changes_started [of "w_ledger w" "w_ledger w1"] v1 changes_started [OF v2] by blast
  then show ?thesis using a(2) m Inr by blast
qed

lemma start_dispatch_waits:
  assumes "start_dispatch c m r w = (Inr (AwaitingResolver r' now h), w')"
  shows "r' = r \<and> contract_holds r \<and> now < instant (odr_expires_at r)
    \<and> odr_execution_intent r \<in> set (dc_execution_intents c)
    \<and> resolve_handler (dc_registry c) (request_key r) = Some h"
proof -
  from assms obtain entry w1 where s: "ledger_call m (\<lambda>t. claim t r) w = (Inr entry, w1)"
    by (auto simp: start_dispatch_def act_then_Inr)
  then obtain t where "claim t r (w_ledger w) = (Inr entry, w_ledger w1)"
    using ledger_call_run by blast
  then have "contract_holds r"
    by (auto simp: claim_eq validate_request_Inr split: sum.splits)
  with assms show ?thesis
    by (auto simp: start_dispatch_def act_then_Inr returns_def Let_def
        split: option.splits if_splits)
qed

lemma start_dispatch_no_handler:
  "start_dispatch c m r w \<noteq> (Inr (AwaitingHandler r' now e h t), w')"
  by (auto simp: start_dispatch_def act_then_Inr returns_def Let_def
      split: option.splits if_splits)

lemma resolver_replied_no_resolver:
  "resolver_replied m r now h reply w \<noteq> (Inr (AwaitingResolver r' now' h'), w')"
  by (cases reply) (auto simp: resolver_replied_def act_then_Inr returns_def
      split: option.splits if_splits)

lemma finish_dispatch_finishes:
  "finish_dispatch m r d w = (Inr p, w') \<Longrightarrow> \<exists>x. p = Finished x"
  by (auto simp: finish_dispatch_def act_then_Inr returns_def)

lemma handler_replied_finishes:
  "handler_replied m r now entry reply w = (Inr p, w') \<Longrightarrow> \<exists>x. p = Finished x"
  by (cases reply) (auto simp: handler_replied_def act_then_Inr Let_def
      dest: finish_dispatch_finishes split: if_splits)

text \<open>What an invocation of a handler rests on.\<close>

definition authorised :: "'h dispatch_config \<Rightarrow> 'h invocation \<Rightarrow> bool" where
  "authorised c i \<longleftrightarrow> contract_holds (iv_request i)
     \<and> odr_execution_intent (iv_request i) \<in> set (dc_execution_intents c)
     \<and> resolve_handler (dc_registry c) (request_key (iv_request i)) = Some (iv_handler i)
     \<and> target_matches (iv_request i) (iv_target i)
     \<and> iv_started i < instant (odr_expires_at (iv_request i))"

fun waits_properly :: "'h dispatch_config \<Rightarrow> 'h progress \<Rightarrow> bool" where
  "waits_properly c (AwaitingResolver r now h) \<longleftrightarrow> contract_holds r
     \<and> odr_execution_intent r \<in> set (dc_execution_intents c)
     \<and> resolve_handler (dc_registry c) (request_key r) = Some h
     \<and> now < instant (odr_expires_at r)"
| "waits_properly c p = True"

definition service_valid :: "'h dispatch_config \<Rightarrow> 'h service \<Rightarrow> bool" where
  "service_valid c s \<longleftrightarrow> ledger_valid (w_ledger (sv_world s))
     \<and> (\<forall>p \<in> set (sv_calls s). waits_properly c p)
     \<and> (\<forall>i \<in> set (sv_invocations s). authorised c i
          \<and> dispatch_started (w_ledger (sv_world s)) (odr_request_id (iv_request i)) \<noteq> None)
     \<and> distinct (map (\<lambda>i. odr_request_id (iv_request i)) (sv_invocations s))"

text \<open>The world moved on by valid changes; the calls and invocations are as before.\<close>

lemma service_valid_world:
  assumes "service_valid c s" "change\<^sup>*\<^sup>* (w_ledger (sv_world s)) (w_ledger w)"
    and "set calls \<subseteq> set (sv_calls s)"
  shows "service_valid c (s\<lparr>sv_world := w, sv_calls := calls\<rparr>)"
  using assms changes_valid changes_started unfolding service_valid_def by fastforce

lemma drop_call_simps [simp]:
  "sv_world (drop_call i s) = sv_world s" "sv_invocations (drop_call i s) = sv_invocations s"
  by (simp_all add: drop_call_def)

lemma drop_call_set: "p \<in> set (sv_calls (drop_call i s)) \<Longrightarrow> p \<in> set (sv_calls s)"
  by (auto simp: drop_call_def dest: in_set_takeD in_set_dropD)

lemma service_valid_drop:
  "service_valid c s \<Longrightarrow> service_valid c (drop_call i s)"
  by (auto simp: service_valid_def dest: drop_call_set)

text \<open>A run of a call to a cut that is not the handler's await.\<close>

fun quiet :: "'h dispatch_config \<Rightarrow> 'h progress res \<Rightarrow> bool" where
  "quiet c (Inl e) = True"
| "quiet c (Inr (AwaitingHandler r now e h t)) = False"
| "quiet c (Inr p) = waits_properly c p"

lemma quietI:
  assumes "\<And>r now e h t. p \<noteq> Inr (AwaitingHandler r now e h t)"
    and "\<And>r now h. p = Inr (AwaitingResolver r now h) \<Longrightarrow> waits_properly c (AwaitingResolver r now h)"
  shows "quiet c p"
  using assms by (cases "(c, p)" rule: quiet.cases) auto

text \<open>A call that ends, or waits for its resolver.\<close>

lemma resume_quiet:
  assumes v: "service_valid c s"
    and ch: "change\<^sup>*\<^sup>* (w_ledger (sv_world s)) (w_ledger w)"
    and p: "quiet c r"
  shows "service_valid c (resume s (r, w))"
proof -
  have w: "service_valid c (s\<lparr>sv_world := w\<rparr>)"
    using service_valid_world [OF v ch, of "sv_calls s"] by (simp add: service_valid_def)
  then show ?thesis using p
    by (cases "(s, r, w)" rule: resume.cases) (auto simp: service_valid_def)
qed

lemma resume_invoking:
  assumes v: "service_valid c s"
    and ch: "change\<^sup>*\<^sup>* (w_ledger (sv_world s)) (w_ledger w)"
    and fresh: "dispatch_started (w_ledger (sv_world s)) (odr_request_id r) = None"
    and started: "dispatch_started (w_ledger w) (odr_request_id r) \<noteq> None"
    and a: "authorised c \<lparr>iv_request = r, iv_handler = h, iv_target = t, iv_started = now\<rparr>"
  shows "service_valid c (resume s (Inr (AwaitingHandler r now e h t), w))"
proof -
  have w: "service_valid c (s\<lparr>sv_world := w\<rparr>)"
    using service_valid_world [OF v ch, of "sv_calls s"] by (simp add: service_valid_def)
  have "odr_request_id r \<notin> (\<lambda>i. odr_request_id (iv_request i)) ` set (sv_invocations s)"
    using v fresh by (auto simp: service_valid_def)
  with w started a show ?thesis by (auto simp: service_valid_def)
qed

lemma service_valid_Submit:
  assumes v: "service_valid c s"
  shows "service_valid c (service_step c m s (Submit r))"
proof -
  obtain p w where run: "start_dispatch c m r (sv_world s) = (p, w)"
    by (cases "start_dispatch c m r (sv_world s)")
  have "change\<^sup>*\<^sup>* (w_ledger (sv_world s)) (w_ledger w)"
    using act_ok_run [OF act_ok_start run] v by (simp add: service_valid_def)
  moreover have "quiet c p"
    using run by (intro quietI) (auto simp: start_dispatch_no_handler dest: start_dispatch_waits)
  ultimately show ?thesis using resume_quiet [OF v] run by simp
qed

lemma service_valid_ResolverReply:
  assumes v: "service_valid c s"
  shows "service_valid c (service_step c m s (ResolverReply i reply))"
proof (cases "i < length (sv_calls s) \<and> (\<exists>r now h. sv_calls s ! i = AwaitingResolver r now h)")
  case False
  then show ?thesis using v by (auto split: progress.splits)
next
  case True
  then obtain r now h where i: "i < length (sv_calls s)"
    and call: "sv_calls s ! i = AwaitingResolver r now h" by blast
  have wait: "waits_properly c (AwaitingResolver r now h)"
    using v i call nth_mem [OF i] unfolding service_valid_def by metis
  obtain p w where run: "resolver_replied m r now h reply (sv_world s) = (p, w)"
    by (cases "resolver_replied m r now h reply (sv_world s)")
  have lv: "ledger_valid (w_ledger (sv_world s))" using v by (simp add: service_valid_def)
  have ch: "change\<^sup>*\<^sup>* (w_ledger (sv_world (drop_call i s))) (w_ledger w)"
    using act_ok_run [OF act_ok_resolver run lv] by simp
  have step: "service_step c m s (ResolverReply i reply) = resume (drop_call i s) (p, w)"
    using i call run by simp
  show ?thesis
  proof (cases "\<exists>r' now' e h' t. p = Inr (AwaitingHandler r' now' e h' t)")
    case True
    then obtain e t where p: "p = Inr (AwaitingHandler r now e h t)"
      using resolver_replied_invokes [OF lv, of m r now h reply] run by auto
    note inv = resolver_replied_invokes [OF lv run [unfolded p]]
    have "authorised c \<lparr>iv_request = r, iv_handler = h, iv_target = t, iv_started = now\<rparr>"
      using wait inv by (simp add: authorised_def)
    with inv show ?thesis
      unfolding step p by (intro resume_invoking [OF service_valid_drop [OF v] ch]) simp_all
  next
    case False
    then have "quiet c p"
      using run by (intro quietI) (auto simp: resolver_replied_no_resolver)
    then show ?thesis unfolding step by (rule resume_quiet [OF service_valid_drop [OF v] ch])
  qed
qed

lemma service_valid_HandlerReply:
  assumes v: "service_valid c s"
  shows "service_valid c (service_step c m s (HandlerReply i reply))"
proof (cases "i < length (sv_calls s) \<and> (\<exists>r now e h t. sv_calls s ! i = AwaitingHandler r now e h t)")
  case False
  then show ?thesis using v by (auto split: progress.splits)
next
  case True
  then obtain r now e h t where i: "i < length (sv_calls s)"
    and call: "sv_calls s ! i = AwaitingHandler r now e h t" by blast
  obtain p :: "'a progress res" and w where
    run: "handler_replied m r now e reply (sv_world s) = (p, w)"
    by (cases "handler_replied m r now e reply (sv_world s) :: 'a progress res \<times> world")
  have "change\<^sup>*\<^sup>* (w_ledger (sv_world (drop_call i s))) (w_ledger w)"
    using act_ok_run [OF act_ok_handler run] v by (simp add: service_valid_def)
  moreover have "quiet c p"
    using run by (intro quietI) (auto dest: handler_replied_finishes)
  ultimately show ?thesis
    using resume_quiet [OF service_valid_drop [OF v]] i call run by simp
qed

lemma service_step_valid:
  assumes v: "service_valid c s"
  shows "service_valid c (service_step c m s event)"
proof (cases event)
  case (LifecycleCall op)
  then show ?thesis
    using v service_valid_world [OF v, of "(sv_world s)\<lparr>w_ledger := ledger_step (w_ledger (sv_world s)) op\<rparr>" "sv_calls s"]
      ledger_step_changes [of "w_ledger (sv_world s)" op]
    by (simp add: service_valid_def)
next
  case Restart
  have "change\<^sup>*\<^sup>* (w_ledger (sv_world s)) (w_ledger (restart m (sv_world s)))"
    using v reconcile_startup_ok by (simp add: restart_def clock_now_def service_valid_def)
  then show ?thesis using Restart service_valid_world [OF v, of "restart m (sv_world s)" "[]"] by simp
qed (simp_all add: v service_valid_Submit service_valid_ResolverReply service_valid_HandlerReply
    del: service_step.simps)

lemma run_service_valid: "service_valid c (run_service c m events)"
proof -
  have "service_valid c (foldl (service_step c m) s events)" if "service_valid c s" for s
    using that by (induction events arbitrary: s) (simp_all add: service_step_valid)
  moreover have "service_valid c idle_service"
    by (simp add: service_valid_def idle_service_def empty_ledger_valid)
  ultimately show ?thesis by (simp add: run_service_def)
qed

text \<open>C1. Whatever calls, resolver answers, handler answers, verification calls and restarts occur
  in whatever order, no request's handler is invoked twice, and each invocation is of the exact
  handler registered for a validated request of an enabled intent, unexpired when the call
  started, on a target that matches it.\<close>

theorem handler_invoked_once_and_authorised:
  "distinct (map (\<lambda>i. odr_request_id (iv_request i)) (sv_invocations (run_service c m events)))
   \<and> list_all (authorised c) (sv_invocations (run_service c m events))"
  using run_service_valid [of c m events] by (simp add: service_valid_def list_all_iff)

section \<open>A retry while the handler is running\<close>

definition success_result :: "dispatch_request \<Rightarrow> int \<Rightarrow> dispatch_result" where
  "success_result r t = \<lparr>ors_status = DISPATCH_SUCCEEDED, ors_request_id = odr_request_id r,
     ors_request_digest = odr_request_digest r, ors_target_fingerprint = odr_target_fingerprint r,
     ors_provider_operation_id = Some ''op-1'', ors_started_at = t, ors_completed_at = Some t,
     ors_sanitized_message = None\<rparr>"

text \<open>C27. While a request is in flight behind the barrier, submitting it again after its expiry
  settles it: the call returns and persists a definite failure although the handler is still
  running, and the success the handler then reports is refused as a change of an immutable
  result. The comment in the service says every failure after the barrier is ambiguous.\<close>

theorem expired_retry_settles_in_flight:
  assumes v: "ledger_valid (w_ledger w)"
    and row: "find_row (w_ledger w) (odr_request_id r) = Some row"
    and st: "lr_state row = ''dispatching''" and d: "lr_request_digest row = odr_request_digest r"
    and c: "contract_holds r" and e: "instant (odr_expires_at r) \<le> h_clock m (Suc (w_ticks w))"
  shows "\<exists>result w'. start_dispatch cfg m r w = (Inr (Finished result), w')
    \<and> ors_status result = DISPATCH_FAILED
    \<and> dispatch_result_of (w_ledger w') (odr_request_id r) = Some (Stored result)
    \<and> fst (persist m r (success_result r t) SUCCEEDED w')
        = Inl (OperationalLedgerError ''dispatch result is immutable'')"
proof -
  let ?l = "w_ledger w" and ?now = "h_clock m (Suc (w_ticks w))"
  let ?done = "h_clock m (Suc (Suc (w_ticks w)))" and ?t = "h_clock m (Suc (Suc (Suc (w_ticks w))))"
  define f where "f = failure_result r ?now ?done ''Operational request expired.''"
  have rv: "row_valid DISPATCHING row" using dispatching_valid v find_row_id [OF row] st by blast
  then have none: "content (lr_dispatch_result row) = None"
    using content_valid by (simp add: row_valid_def row_state_valid_def)
  have ids: "ors_request_id f = odr_request_id r" "ors_request_digest f = odr_request_digest r"
    "ors_status f = DISPATCH_FAILED"
    by (simp_all add: f_def failure_result_def)
  have pers: "persist_dispatch_result ?t r f LEDGER_FAILED ?l =
      (Inr (projected LEDGER_FAILED (dispatched ?t LEDGER_FAILED f row)),
       advanced r DISPATCHING LEDGER_FAILED ?t (dispatched ?t LEDGER_FAILED f) ?l)"
    using persist_dispatch_result_eq [OF v row rv] ids d none
    by (simp add: dispatch_result_states_def)
  let ?l1 = "advanced r DISPATCHING LEDGER_FAILED ?t (dispatched ?t LEDGER_FAILED f) ?l"
  let ?w1 = "w\<lparr>w_ledger := ?l1, w_ticks := Suc (Suc (Suc (Suc (w_ticks w))))\<rparr>"
  have v1: "ledger_valid ?l1"
    using changes_valid [OF persist_dispatch_result_changes [OF v] v, of ?t r f LEDGER_FAILED] pers
    by simp
  have row1: "find_row ?l1 (odr_request_id r) = Some (dispatched ?t LEDGER_FAILED f row)"
    using row find_row_id [OF row] by (simp add: find_row_advanced)
  have rv1: "row_valid LEDGER_FAILED (dispatched ?t LEDGER_FAILED f row)"
    using dispatched_valid(1) [OF rv, of LEDGER_FAILED f ?t] ids d find_row_id [OF row]
    by (simp add: dispatch_result_states_def)
  have claim: "claim (h_clock m (w_ticks w)) r ?l = (Inr (projected DISPATCHING row), ?l)"
    using row d c entry_of_valid [OF rv] by (simp add: claim_eq validate_request_Inr [THEN iffD2])
  have run: "start_dispatch cfg m r w = (Inr (Finished f), ?w1)"
    using claim none e pers
    by (simp add: start_dispatch_def act_then_def ledger_call_def clock_now_def read_clock_def
        terminal_failure_def persist_def returns_def projected_def dispatched_def
        f_def [symmetric])
  have "fst (persist_dispatch_result t' r (success_result r t) SUCCEEDED ?l1)
      = Inl (OperationalLedgerError ''dispatch result is immutable'')" for t'
    using persist_dispatch_result_eq [OF v1 row1 rv1] ids d
    by (auto simp: dispatch_result_states_def success_result_def dispatched_def)
  then have "fst (persist m r (success_result r t) SUCCEEDED ?w1)
      = Inl (OperationalLedgerError ''dispatch result is immutable'')"
    by (simp add: persist_def act_then_def ledger_call_def clock_now_def split: prod.splits sum.splits)
      (metis fst_conv sum.distinct(1) sum.inject(1))
  moreover have "dispatch_result_of ?l1 (odr_request_id r) = Some (Stored f)"
    using row1 by (simp add: dispatch_result_of_def dispatched_def)
  ultimately show ?thesis using run ids(3) by (intro exI [of _ f] exI [of _ ?w1]) simp
qed

definition sample_in_flight :: ledger where
  "sample_in_flight = ledger_after [Claim 1 sample_dispatch_request,
     MarkRevalidated 2 sample_dispatch_request, MarkDispatching 3 sample_dispatch_request]"

definition sample_in_flight_row :: ledger_row where
  "sample_in_flight_row = moved 3 DISPATCHING True
     (moved 2 REVALIDATED False (claimed_row 1 sample_dispatch_request))"

lemma sample_in_flight_find:
  "find_row sample_in_flight (odr_request_id sample_dispatch_request) = Some sample_in_flight_row"
proof -
  let ?r = sample_dispatch_request
  let ?l1 = "inserted 1 ?r empty_ledger"
  have none: "find_row empty_ledger (odr_request_id ?r) = None"
    by (simp add: find_row_def empty_ledger_def)
  have c: "validate_request ?r = Inr ?r" by (simp add: validate_request_Inr sample_contract_holds)
  have l1: "ledger_step empty_ledger (Claim 1 ?r) = ?l1"
    by (simp add: claim_eq none c)
  have v1: "ledger_valid ?l1"
    using ledger_step_valid [OF empty_ledger_valid, of "Claim 1 ?r"] by (simp only: l1)
  have f1: "find_row ?l1 (odr_request_id ?r) = Some (claimed_row 1 ?r)"
    by (rule find_row_inserted [OF none])
  let ?l2 = "advanced ?r CLAIMED REVALIDATED 2 (moved 2 REVALIDATED False) ?l1"
  have l2: "ledger_step ?l1 (MarkRevalidated 2 ?r) = ?l2"
    using transition_eq [OF v1, of CLAIMED REVALIDATED 2 ?r False] f1
    by (simp add: mark_revalidated_def allowed_transitions_def claimed_row_def)
  have v2: "ledger_valid ?l2"
    using ledger_step_valid [OF v1, of "MarkRevalidated 2 ?r"] by (simp only: l2)
  have f2: "find_row ?l2 (odr_request_id ?r) = Some (moved 2 REVALIDATED False (claimed_row 1 ?r))"
    using f1 by (simp add: find_row_advanced claimed_row_def)
  have l3: "ledger_step ?l2 (MarkDispatching 3 ?r)
      = advanced ?r REVALIDATED DISPATCHING 3 (moved 3 DISPATCHING True) ?l2"
    using transition_eq [OF v2, of REVALIDATED DISPATCHING 3 ?r True] f2
    by (simp add: mark_dispatching_def allowed_transitions_def claimed_row_def moved_def)
  have eq: "sample_in_flight = advanced ?r REVALIDATED DISPATCHING 3 (moved 3 DISPATCHING True) ?l2"
    unfolding sample_in_flight_def ledger_after_def by (simp only: foldl.simps l1 l2 l3)
  have "lr_request_id (claimed_row 1 ?r) = odr_request_id ?r"
    by (simp add: claimed_row_def)
  then show ?thesis
    by (simp only: eq find_row_advanced [OF moved_id] f1 option.map moved_id if_True simp_thms
        sample_in_flight_row_def)
qed

theorem expired_retry_settles_in_flight_witness:
  "\<exists>result w'. start_dispatch
      \<lparr>dc_registry = [(request_key sample_dispatch_request, ''handler'')],
       dc_execution_intents = operational_execution_intents\<rparr>
      \<lparr>h_clock = (\<lambda>n. 10000000), h_uuid = nat_text\<rparr> sample_dispatch_request
      \<lparr>w_ledger = sample_in_flight, w_ticks = 0, w_ids = 0\<rparr> = (Inr (Finished result), w')
    \<and> ors_status result = DISPATCH_FAILED
    \<and> dispatch_result_of (w_ledger w') (odr_request_id sample_dispatch_request)
        = Some (Stored result)
    \<and> fst (persist \<lparr>h_clock = (\<lambda>n. 10000000), h_uuid = nat_text\<rparr> sample_dispatch_request
          (success_result sample_dispatch_request 4) SUCCEEDED w')
        = Inl (OperationalLedgerError ''dispatch result is immutable'')"
proof (rule expired_retry_settles_in_flight)
  show "ledger_valid (w_ledger \<lparr>w_ledger = sample_in_flight, w_ticks = 0, w_ids = 0\<rparr>)"
    by (simp add: sample_in_flight_def ledger_after_valid)
  show "find_row (w_ledger \<lparr>w_ledger = sample_in_flight, w_ticks = 0, w_ids = 0\<rparr>)
      (odr_request_id sample_dispatch_request) = Some sample_in_flight_row"
    by (simp add: sample_in_flight_find)
  show "instant (odr_expires_at sample_dispatch_request)
      \<le> h_clock \<lparr>h_clock = (\<lambda>n. 10000000), h_uuid = nat_text\<rparr>
          (Suc (w_ticks \<lparr>w_ledger = sample_in_flight, w_ticks = 0, w_ids = 0\<rparr>))"
    by (simp add: sample_dispatch_request_def seal_def Let_def sample_draft_def)
qed (simp_all add: sample_contract_holds sample_in_flight_row_def moved_def claimed_row_def)

end
