(* ===== verification/DispatchLifecycle.thy ===== *)
theory DispatchLifecycle
  imports DispatchService
begin

text \<open>
  The read-only side of operational dispatch: the lifecycle service that verifies a dispatched
  request (\<open>operational_dispatch/lifecycle.py\<close>), the generic verification service
  (\<open>verification.py\<close>) and the bearer check of the internal route (\<open>auth.py\<close>). The
  coroutine \<open>reconcile\<close> is cut at its await of the verifier, as in the dispatch service.
\<close>

section \<open>The verifier registry\<close>

record 'v verifier_registration =
  vg_execution_intent :: string
  vg_provider_id :: string
  vg_resource_type :: string
  vg_verifier :: 'v

definition verifier_key :: "'v verifier_registration \<Rightarrow> action_key" where
  "verifier_key g = (vg_execution_intent g, vg_provider_id g, vg_resource_type g)"

type_synonym 'v verifier_registry = "(action_key \<times> 'v) list"

definition register_verifier ::
  "'v verifier_registry \<Rightarrow> 'v verifier_registration \<Rightarrow> 'v verifier_registry res" where
  "register_verifier verifiers g =
     (if map_of verifiers (verifier_key g) \<noteq> None
      then Inl (ValueError ''duplicate operational verifier registration'')
      else Inr (AList.update (verifier_key g) (vg_verifier g) verifiers))"

definition lookup_verifier :: "'v verifier_registry \<Rightarrow> action_key \<Rightarrow> 'v option" where
  "lookup_verifier verifiers key = map_of verifiers key"

definition resolve_verifier :: "'v verifier_registry \<Rightarrow> dispatch_request \<Rightarrow> 'v option" where
  "resolve_verifier verifiers request = lookup_verifier verifiers (request_key request)"

lemma register_verifier_taken:
  "lookup_verifier s (verifier_key g) \<noteq> None \<Longrightarrow> \<not> succeeds (register_verifier s g)"
  by (simp add: lookup_verifier_def register_verifier_def)

lemma register_verifier_ok:
  "register_verifier s g = Inr s' \<Longrightarrow>
   lookup_verifier s' = (lookup_verifier s)(verifier_key g \<mapsto> vg_verifier g)"
  by (auto simp: lookup_verifier_def [abs_def] register_verifier_def update_conv' split: if_splits)

interpretation verifiers: keyed_store lookup_verifier register_verifier verifier_key vg_verifier
  by unfold_locales (simp_all add: register_verifier_taken register_verifier_ok)

section \<open>Reconciliation by verification\<close>

definition eligible :: "ledger_entry \<Rightarrow> bool" where
  "eligible entry \<longleftrightarrow> le_verification_result entry = None
     \<and> (case le_dispatch_result entry of None \<Rightarrow> False
        | Some d \<Rightarrow> ors_provider_operation_id d \<noteq> None
            \<and> ors_status d \<in> set [DISPATCH_SUCCEEDED, DISPATCH_UNKNOWN])
     \<and> le_state entry \<in> set [SUCCEEDED, OUTCOME_UNKNOWN, VERIFYING]"

fun verification_audit_status :: "operational_verification_status \<Rightarrow> audit_status" where
  "verification_audit_status OV_SUCCEEDED = VERIFICATION_SUCCEEDED"
| "verification_audit_status OV_FAILED = AUDIT_VERIFICATION_FAILED"
| "verification_audit_status OV_OUTCOME_UNKNOWN = AUDIT_OUTCOME_UNKNOWN"
| "verification_audit_status OV_TARGET_REPLACED = VERIFICATION_TARGET_REPLACED"

datatype 'v reconcile_progress =
    ReconcileFinished "ledger_entry option"
  | AwaitingVerifier ledger_entry dispatch_result 'v

definition read_entry :: "string \<Rightarrow> ledger_entry option act" where
  "read_entry request_id w = (get_entry request_id (w_ledger w), w)"

definition start_reconcile ::
  "'v verifier_registry \<Rightarrow> host \<Rightarrow> string \<Rightarrow> bool \<Rightarrow> 'v reconcile_progress act" where
  "start_reconcile verifiers m request_id recovery =
     act_then (read_entry request_id) (\<lambda>found. case found of
       None \<Rightarrow> returns (ReconcileFinished None)
     | Some entry \<Rightarrow>
       if \<not> eligible entry then returns (ReconcileFinished (Some entry))
       else (case (resolve_verifier verifiers (le_request entry), le_dispatch_result entry) of
         (Some v, Some dispatch) \<Rightarrow>
           let was_verifying = (le_state entry = VERIFYING) in
           act_then (ledger_call m (\<lambda>t. begin_verification t (le_request entry)
             (recovery \<and> was_verifying))) (\<lambda>(claimed, owner).
           if \<not> owner then returns (ReconcileFinished (Some claimed))
           else act_then (audit m (le_request entry)
               (if recovery then VERIFICATION_RESUMED else VERIFICATION_STARTED)) (\<lambda>_.
             act_then (if recovery then audit m (le_request entry) RECOVERY_RECONCILED
               else returns ()) (\<lambda>_.
             returns (AwaitingVerifier entry dispatch v))))
       | _ \<Rightarrow> returns (ReconcileFinished (Some entry))))"

datatype verifier_reply = VerifierReturned verification_result | VerifierRaised | VerifierCancelled

definition verifier_replied ::
  "host \<Rightarrow> ledger_entry \<Rightarrow> dispatch_result \<Rightarrow> verifier_reply \<Rightarrow> 'v reconcile_progress act" where
  "verifier_replied m entry dispatch reply =
     (let finish = (\<lambda>result.
            act_then (ledger_call m (\<lambda>t. persist_verification_result t (le_request entry) result))
              (\<lambda>persisted.
            act_then (audit m (le_request entry) (verification_audit_status (ovr_status result)))
              (\<lambda>_. returns (ReconcileFinished (Some persisted)))))
      in case reply of
        VerifierReturned result \<Rightarrow> finish result
      | VerifierRaised \<Rightarrow> act_then (read_clock m) (\<lambda>now.
          finish \<lparr>ovr_status = OV_OUTCOME_UNKNOWN, ovr_request_id = le_request_id entry,
            ovr_observed_target_fingerprint = None, ovr_observed_state = None,
            ovr_health_status = None, ovr_started_at = ors_started_at dispatch,
            ovr_completed_at = now, ovr_deadline = instant (odr_expires_at (le_request entry))\<rparr>)
      | VerifierCancelled \<Rightarrow> (\<lambda>w. (Inl CancelledError, w)))"

definition schedules_verification :: "ledger \<Rightarrow> string \<Rightarrow> bool res" where
  "schedules_verification l request_id =
     and_then (get_entry request_id l) (\<lambda>found. Inr (case found of
       None \<Rightarrow> False | Some entry \<Rightarrow> eligible entry))"

definition schedule_startup_recovery :: "ledger \<Rightarrow> nat res" where
  "schedule_startup_recovery l =
     and_then (list_verification_candidates l) (\<lambda>candidates.
     and_then (traverse (\<lambda>e. schedules_verification l (le_request_id e)) candidates) (\<lambda>_.
     Inr (length candidates)))"

record lifecycle_status =
  ls_request_id :: string
  ls_request_digest :: string
  ls_ledger_state :: string
  ls_dispatch_result :: "dispatch_result option"
  ls_verification_result :: "verification_result option"
  ls_verification_resumable :: bool

definition lifecycle_status_of :: "ledger \<Rightarrow> string \<Rightarrow> lifecycle_status option res" where
  "lifecycle_status_of l request_id =
     and_then (get_entry request_id l) (\<lambda>found. Inr (case found of
       None \<Rightarrow> None
     | Some entry \<Rightarrow> Some \<lparr>ls_request_id = le_request_id entry,
         ls_request_digest = le_request_digest entry,
         ls_ledger_state = state_text (le_state entry),
         ls_dispatch_result = le_dispatch_result entry,
         ls_verification_result = le_verification_result entry,
         ls_verification_resumable = eligible entry\<rparr>))"

section \<open>The generic verification service\<close>

text \<open>\<open>verify\<close> over the instants it reads: \<open>now\<close> at its start, \<open>completed\<close> when
  the resolver has answered.\<close>

definition verify_operational ::
  "dispatch_request \<Rightarrow> int \<Rightarrow> int \<Rightarrow> int \<Rightarrow> int \<Rightarrow> (target_error + resolved_target)
    \<Rightarrow> (target_error + verification_result) res" where
  "verify_operational request started_at deadline now completed reply =
     (let bare = (\<lambda>status completed_at. \<lparr>ovr_status = status, ovr_request_id = odr_request_id request,
            ovr_observed_target_fingerprint = None, ovr_observed_state = None,
            ovr_health_status = None, ovr_started_at = started_at,
            ovr_completed_at = completed_at, ovr_deadline = deadline\<rparr>)
      in if deadline \<le> started_at
      then Inl (ValueError ''verification deadline must follow start'')
      else if deadline \<le> now then Inr (Inr (bare OV_OUTCOME_UNKNOWN now))
      else (case reply of
        Inl e \<Rightarrow>
          if resolution_error e \<or> e = ProviderNotFoundError \<or> e = ProviderResourcesNotSupportedError
          then Inr (Inr (bare OV_TARGET_REPLACED completed))
          else if resource_operation_error e
          then Inr (Inr (bare OV_OUTCOME_UNKNOWN completed))
          else Inr (Inl e)
      | Inr target \<Rightarrow> Inr (Inr \<lparr>
          ovr_status = (if rt_fingerprint target \<noteq> odr_target_fingerprint request
            then OV_TARGET_REPLACED else OV_OUTCOME_UNKNOWN),
          ovr_request_id = odr_request_id request,
          ovr_observed_target_fingerprint = Some (rt_fingerprint target),
          ovr_observed_state = Some (pr_current_state (rt_resource target)),
          ovr_health_status = Some (pr_current_state (rt_resource target)),
          ovr_started_at = started_at, ovr_completed_at = completed, ovr_deadline = deadline\<rparr>)))"

section \<open>The bearer check\<close>

definition ascii_text :: "string \<Rightarrow> bool" where
  "ascii_text s \<longleftrightarrow> list_all (\<lambda>c. (of_char c :: nat) < 128) s"

text \<open>\<open>secrets.compare_digest\<close> on strings raises \<open>TypeError\<close> outside ASCII.\<close>

definition compare_digest :: "string \<Rightarrow> string \<Rightarrow> bool res" where
  "compare_digest a b =
     (if ascii_text a \<and> ascii_text b then Inr (a = b)
      else Inl (TypeError ''comparing strings with non-ASCII characters is not supported''))"

text \<open>The token file is \<open>None\<close> when it cannot be read (\<open>OSError\<close>); a text outside ASCII is the
  \<open>UnicodeError\<close> of reading it as ASCII.\<close>

definition authenticate :: "string option \<Rightarrow> string option \<Rightarrow> bool res" where
  "authenticate token_file authorization = (case authorization of
     None \<Rightarrow> Inr False
   | Some header \<Rightarrow>
     if \<not> starts_with ''Bearer '' header then Inr False
     else let supplied = drop 7 header in
       if supplied = [] \<or> supplied \<noteq> strip supplied then Inr False
       else (case token_file of
         None \<Rightarrow> Inr False
       | Some text_read \<Rightarrow>
         if \<not> ascii_text text_read then Inr False
         else let expected = strip text_read in
           if expected = [] then Inr False else compare_digest supplied expected))"

section \<open>Verification leaves the dispatch facts alone\<close>

text \<open>The two durable facts of dispatch: when the barrier was crossed and what came of it.\<close>

definition dispatch_facts ::
  "ledger \<Rightarrow> string \<Rightarrow> int option \<times> dispatch_result stored option" where
  "dispatch_facts l k = (dispatch_started l k, dispatch_result_of l k)"

definition reads_only :: "'a act \<Rightarrow> bool" where
  "reads_only a \<longleftrightarrow> (\<forall>w. ledger_valid (w_ledger w) \<longrightarrow>
     ledger_valid (w_ledger (snd (a w)))
     \<and> dispatch_facts (w_ledger (snd (a w))) = dispatch_facts (w_ledger w))"

named_theorems read_intros \<open>acts that leave the dispatch facts alone\<close>

lemma reads_onlyD:
  "reads_only a \<Longrightarrow> a w = (r, w') \<Longrightarrow> ledger_valid (w_ledger w) \<Longrightarrow>
   ledger_valid (w_ledger w') \<and> dispatch_facts (w_ledger w') = dispatch_facts (w_ledger w)"
  unfolding reads_only_def by (metis snd_conv)

lemma reads_only_basic [read_intros]:
  "reads_only (returns x)" "reads_only (\<lambda>w. (Inl e, w))" "reads_only (read_entry k)"
  "reads_only (read_clock m)"
  by (simp_all add: reads_only_def returns_def read_entry_def read_clock_def clock_now_def)

lemma reads_only_then [read_intros]:
  assumes "reads_only a" "\<And>x. reads_only (f x)"
  shows "reads_only (act_then a f)"
  unfolding reads_only_def
proof (intro allI impI)
  fix w :: world assume v: "ledger_valid (w_ledger w)"
  obtain r w1 where a: "a w = (r, w1)" by (cases "a w")
  note one = reads_onlyD [OF assms(1) a v]
  show "ledger_valid (w_ledger (snd (act_then a f w)))
    \<and> dispatch_facts (w_ledger (snd (act_then a f w))) = dispatch_facts (w_ledger w)"
  proof (cases r)
    case (Inl e)
    then show ?thesis using a one by (simp add: act_then_def)
  next
    case (Inr x)
    obtain r2 w2 where b: "f x w1 = (r2, w2)" by (cases "f x w1")
    then show ?thesis using a one Inr reads_onlyD [OF assms(2) b] by (simp add: act_then_def)
  qed
qed

lemma reads_only_ledger_call:
  assumes "\<And>t l. ledger_valid l \<Longrightarrow>
    ledger_valid (snd (f t l)) \<and> dispatch_facts (snd (f t l)) = dispatch_facts l"
  shows "reads_only (ledger_call m f)"
  using assms by (simp add: reads_only_def ledger_call_def clock_now_def case_prod_unfold)

lemma dispatch_facts_rows:
  "dispatch_rows l' = dispatch_rows l \<Longrightarrow> dispatch_facts l' = dispatch_facts l"
  by (simp add: fun_eq_iff dispatch_facts_def dispatch_started_def dispatch_result_of_def
      find_row_def)

lemma dispatch_facts_advanced:
  assumes "\<And>r. lr_request_id (f r) = lr_request_id r"
    and "\<And>r. lr_dispatch_started_at (f r) = lr_dispatch_started_at r
      \<and> lr_dispatch_result (f r) = lr_dispatch_result r"
  shows "dispatch_facts (advanced request p s now f l) = dispatch_facts l"
  using assms
  by (auto simp: fun_eq_iff dispatch_facts_def dispatch_started_def dispatch_result_of_def
      find_row_advanced split: option.splits)

lemma reads_only_audit [read_intros]: "reads_only (audit m request status)"
proof -
  have "ledger_valid (snd (append_event e l))
      \<and> dispatch_facts (snd (append_event e l)) = dispatch_facts l"
    if "ledger_valid l" for e l
    using changes_valid [OF append_event_changes that, of e]
      dispatch_facts_rows [OF dispatch_rows_append_event, of e l] by blast
  then show ?thesis
    by (simp add: reads_only_def audit_def clock_now_def case_prod_unfold)
qed

lemma reads_only_begin [read_intros]:
  "reads_only (ledger_call m (\<lambda>t. begin_verification t request b))"
proof (rule reads_only_ledger_call)
  fix t l assume v: "ledger_valid l"
  have "dispatch_facts (snd (begin_verification t request b l)) = dispatch_facts l"
  proof (cases "find_row l (odr_request_id request)")
    case None
    then show ?thesis by (simp add: begin_verification_None)
  next
    case (Some row)
    from v Some obtain st where "row_valid st row" by (rule ledger_valid_parse)
    then show ?thesis
      by (simp add: begin_verification_eq [OF v Some] dispatch_facts_advanced resumed_def)
  qed
  with v show "ledger_valid (snd (begin_verification t request b l))
      \<and> dispatch_facts (snd (begin_verification t request b l)) = dispatch_facts l"
    using changes_valid [OF begin_verification_changes [OF v]] by simp
qed

lemma reads_only_verified [read_intros]:
  "reads_only (ledger_call m (\<lambda>t. persist_verification_result t request result))"
proof (rule reads_only_ledger_call)
  fix t l assume v: "ledger_valid l"
  have "dispatch_facts (snd (persist_verification_result t request result l)) = dispatch_facts l"
  proof (cases "find_row l (odr_request_id request)")
    case None
    then show ?thesis by (simp add: persist_verification_result_None)
  next
    case (Some row)
    from v Some obtain st where "row_valid st row" by (rule ledger_valid_parse)
    then show ?thesis
      by (simp add: persist_verification_result_eq [OF v Some] dispatch_facts_advanced
          verified_row_def split: option.split)
  qed
  with v show "ledger_valid (snd (persist_verification_result t request result l))
      \<and> dispatch_facts (snd (persist_verification_result t request result l)) = dispatch_facts l"
    using changes_valid [OF persist_verification_result_changes [OF v]] by simp
qed

lemma reads_only_start: "reads_only (start_reconcile verifiers m k recovery)"
  unfolding start_reconcile_def Let_def
  by (auto intro!: read_intros split: option.split prod.split)

lemma reads_only_reply: "reads_only (verifier_replied m entry dispatch reply)"
  unfolding verifier_replied_def Let_def
  by (cases reply) (auto intro!: read_intros)

section \<open>What reconciliation waits for and what it records\<close>

lemma audit_rows:
  "audit m request status w = (x, w') \<Longrightarrow> dispatch_rows (w_ledger w') = dispatch_rows (w_ledger w)"
  by (auto simp: audit_def clock_now_def case_prod_unfold)

lemma get_entry_row:
  assumes v: "ledger_valid l" and g: "get_entry k l = Inr (Some e)"
  obtains row st where "find_row l k = Some row" "row_valid st row" "e = projected st row"
proof -
  from g obtain row where row: "find_row l k = Some row"
    by (auto simp: get_entry_def split: option.splits)
  from v row obtain st where st: "row_valid st row" by (rule ledger_valid_parse)
  with g row that show ?thesis by (simp add: get_entry_def entry_of_valid)
qed

lemma projected_request:
  "row_valid st row \<Longrightarrow> odr_request_id (le_request (projected st row)) = lr_request_id row
     \<and> odr_request_digest (le_request (projected st row)) = lr_request_digest row"
  by (auto simp: row_valid_def projected_def)

lemma begin_verification_owner:
  assumes v: "ledger_valid l" and row: "find_row l (odr_request_id r) = Some row"
    and b: "begin_verification t r b l = (Inr (claimed, True), l')"
  shows "\<exists>row'. find_row l' (odr_request_id r) = Some row' \<and> lr_state row' = ''verifying''
    \<and> lr_verification_result row' = None \<and> (lr_state row \<noteq> ''verifying'' \<or> b)"
proof -
  from v row obtain st where st: "row_valid st row" by (rule ledger_valid_parse)
  note eq = begin_verification_eq [OF v row st, of t b, unfolded b]
  have none: "lr_verification_result row = None" using eq by (auto split: if_splits)
  show ?thesis
  proof (cases "st \<in> set [SUCCEEDED, OUTCOME_UNKNOWN]")
    case True
    then have "l' = advanced r st VERIFYING t (resumed t) l"
      using eq by (auto split: if_splits)
    then show ?thesis
      using row none find_row_id [OF row] row_valid_state [OF st] True
      by (auto simp: find_row_advanced resumed_def)
  next
    case False
    then have "st = VERIFYING" "l' = l" "b" using eq by (auto split: if_splits)
    then show ?thesis using row none row_valid_state [OF st] by simp
  qed
qed

text \<open>C28. Looking at a request again never moves it past the barrier or changes what its dispatch
  recorded, and a verifier is only awaited by the single owner of an eligible entry: the exact
  registered one, on a durable dispatch result, with the row left verifying and unverified; an
  entry already being verified is taken over in a recovery only.\<close>

theorem reconcile_only_observes:
  assumes v: "ledger_valid (w_ledger w)"
    and run: "start_reconcile verifiers m k recovery w = (r, w')"
  shows "dispatch_facts (w_ledger w') = dispatch_facts (w_ledger w) \<and> ledger_valid (w_ledger w')
    \<and> (case r of
         Inr (AwaitingVerifier entry dispatch verifier) \<Rightarrow>
           eligible entry \<and> get_entry k (w_ledger w) = Inr (Some entry)
           \<and> (le_state entry \<noteq> VERIFYING \<or> recovery)
           \<and> le_dispatch_result entry = Some dispatch
           \<and> resolve_verifier verifiers (le_request entry) = Some verifier
           \<and> odr_request_id (le_request entry) = k
           \<and> map_option lr_state (find_row (w_ledger w') k) = Some ''verifying''
           \<and> verification_result_of (w_ledger w') k = None
       | _ \<Rightarrow> True)"
proof (cases "\<exists>e d v. r = Inr (AwaitingVerifier e d v)")
  case False
  then show ?thesis
    using reads_onlyD [OF reads_only_start run v]
    by (auto split: sum.splits reconcile_progress.splits)
next
  case True
  then obtain e d u where r: "r = Inr (AwaitingVerifier e d u)" by blast
  from run obtain found where found: "get_entry k (w_ledger w) = Inr found"
    by (auto simp: start_reconcile_def r act_then_Inr read_entry_def)
  obtain entry where some: "found = Some entry" and el: "eligible entry"
    using run found
    by (auto simp: start_reconcile_def r act_then_def read_entry_def returns_def split: option.splits if_splits)
  obtain dispatch vf where dv: "le_dispatch_result entry = Some dispatch"
      "resolve_verifier verifiers (le_request entry) = Some vf"
    using run found some el
    by (auto simp: start_reconcile_def r act_then_def read_entry_def returns_def split: option.splits)
  obtain row st where row: "find_row (w_ledger w) k = Some row" "row_valid st row"
    "entry = projected st row"
    using get_entry_row [OF v] found some by metis
  have id: "odr_request_id (le_request entry) = k"
    using projected_request [OF row(2)] row find_row_id [OF row(1)] by simp
  let ?b = "recovery \<and> le_state entry = VERIFYING"
  from run found some el dv obtain c own w1 where
    took: "ledger_call m (\<lambda>t. begin_verification t (le_request entry) ?b) w = (Inr (c, own), w1)"
    and rest: "(if \<not> own then returns (ReconcileFinished (Some c))
           else act_then (audit m (le_request entry)
               (if recovery then VERIFICATION_RESUMED else VERIFICATION_STARTED)) (\<lambda>_.
             act_then (if recovery then audit m (le_request entry) RECOVERY_RECONCILED
               else returns ()) (\<lambda>_.
             returns (AwaitingVerifier entry dispatch vf)))) w1 = (r, w')"
    by (auto simp: start_reconcile_def r act_then_Inr read_entry_def)
  have own: "own" using rest r by (cases own) (simp_all add: returns_def)
  have "dispatch_rows (w_ledger w') = dispatch_rows (w_ledger w1) \<and> e = entry \<and> d = dispatch \<and> u = vf"
    using rest own r by (auto simp: act_then_Inr returns_def dest!: audit_rows split: if_splits)
  then have same: "find_row (w_ledger w') k = find_row (w_ledger w1) k"
    and who: "e = entry" "d = dispatch" "u = vf"
    by (simp_all add: find_row_def)
  obtain t where t: "begin_verification t (le_request entry) ?b (w_ledger w) = (Inr (c, True), w_ledger w1)"
    using ledger_call_run [OF took] own by auto
  have row': "find_row (w_ledger w) (odr_request_id (le_request entry)) = Some row"
    by (simp only: id row(1))
  note ver = begin_verification_owner [OF v row' t, unfolded id]
  have fresh: "le_state entry \<noteq> VERIFYING \<or> recovery"
    using ver row row_valid_state [OF row(2)] by (auto simp: projected_def)
  show ?thesis
    using reads_onlyD [OF reads_only_start run v] ver fresh same who found some el dv id r
    by (auto simp: verification_result_of_def)
qed

text \<open>A request whose dispatch succeeded, ready to be verified.\<close>

definition sample_succeeded :: ledger where
  "sample_succeeded = ledger_step sample_in_flight (PersistDispatchResult 4 sample_dispatch_request
     (success_result sample_dispatch_request 4) SUCCEEDED)"

definition sample_succeeded_row :: ledger_row where
  "sample_succeeded_row =
     dispatched 4 SUCCEEDED (success_result sample_dispatch_request 4) sample_in_flight_row"

lemma sample_in_flight_valid: "ledger_valid sample_in_flight"
  by (simp add: sample_in_flight_def ledger_after_valid)

lemma sample_succeeded_valid: "ledger_valid sample_succeeded"
  by (simp add: sample_succeeded_def ledger_step_valid sample_in_flight_valid del: ledger_step.simps)

lemma sample_row_id [simp]:
  "lr_request_id sample_in_flight_row = odr_request_id sample_dispatch_request"
  using find_row_id [OF sample_in_flight_find] by simp

lemma sample_succeeded_find:
  "find_row sample_succeeded (odr_request_id sample_dispatch_request) = Some sample_succeeded_row"
    and sample_succeeded_row_valid: "row_valid SUCCEEDED sample_succeeded_row"
proof -
  let ?r = sample_dispatch_request and ?d = "success_result sample_dispatch_request 4"
  have "lr_state sample_in_flight_row = ''dispatching''"
    by (simp add: sample_in_flight_row_def moved_def)
  then have rv: "row_valid DISPATCHING sample_in_flight_row"
    using dispatching_valid [OF sample_in_flight_valid] find_row_id [OF sample_in_flight_find] by blast
  have none: "content (lr_dispatch_result sample_in_flight_row) = None"
    using rv content_valid(1) [OF rv] by (simp add: row_valid_def row_state_valid_def)
  have dig: "lr_request_digest sample_in_flight_row = odr_request_digest ?r"
    by (simp add: sample_in_flight_row_def moved_def claimed_row_def)
  have eq: "sample_succeeded = advanced ?r DISPATCHING SUCCEEDED 4 (dispatched 4 SUCCEEDED ?d) sample_in_flight"
    using persist_dispatch_result_eq [OF sample_in_flight_valid sample_in_flight_find rv, of 4 ?d SUCCEEDED]
      none dig by (simp add: sample_succeeded_def success_result_def dispatch_result_states_def)
  show "find_row sample_succeeded (odr_request_id ?r) = Some sample_succeeded_row"
    unfolding eq using find_row_advanced [of "dispatched 4 SUCCEEDED ?d"]
    by (simp add: sample_in_flight_find sample_succeeded_row_def)
  show "row_valid SUCCEEDED sample_succeeded_row"
    using dispatched_valid(1) [OF rv, of SUCCEEDED ?d 4] dig
    by (simp add: sample_succeeded_row_def success_result_def dispatch_result_states_def)
qed

definition sample_verifiers :: "string verifier_registry" where
  "sample_verifiers = [(request_key sample_dispatch_request, ''verifier'')]"

definition sample_host :: host where
  "sample_host = \<lparr>h_clock = (\<lambda>n. 5), h_uuid = nat_text\<rparr>"

definition sample_ready :: world where
  "sample_ready = \<lparr>w_ledger = sample_succeeded, w_ticks = 0, w_ids = 0\<rparr>"

lemma sample_entry:
  "get_entry (odr_request_id sample_dispatch_request) sample_succeeded
     = Inr (Some (projected SUCCEEDED sample_succeeded_row))"
  by (simp add: get_entry_def sample_succeeded_find entry_of_valid [OF sample_succeeded_row_valid])

lemma sample_entry_fields:
  "le_request (projected SUCCEEDED sample_succeeded_row) = sample_dispatch_request"
  "le_dispatch_result (projected SUCCEEDED sample_succeeded_row)
     = Some (success_result sample_dispatch_request 4)"
  "eligible (projected SUCCEEDED sample_succeeded_row)"
  by (simp_all add: projected_def sample_succeeded_row_def dispatched_def sample_in_flight_row_def
      moved_def claimed_row_def eligible_def success_result_def)

theorem reconcile_only_observes_witness:
  "dispatch_facts (w_ledger (snd (start_reconcile sample_verifiers sample_host
      (odr_request_id sample_dispatch_request) False sample_ready)))
     (odr_request_id sample_dispatch_request) = (Some 3, Some (Stored (success_result sample_dispatch_request 4)))"
proof -
  have v: "ledger_valid (w_ledger sample_ready)"
    by (simp add: sample_ready_def sample_succeeded_valid)
  have "dispatch_facts sample_succeeded (odr_request_id sample_dispatch_request)
    = (Some 3, Some (Stored (success_result sample_dispatch_request 4)))"
    by (simp add: dispatch_facts_def dispatch_started_def dispatch_result_of_def
        sample_succeeded_find sample_succeeded_row_def dispatched_def sample_in_flight_row_def
        moved_def)
  then show ?thesis
    using reconcile_only_observes [OF v surjective_pairing, of sample_verifiers sample_host
        "odr_request_id sample_dispatch_request" False]
    by (simp add: sample_ready_def)
qed


section \<open>What a verification records\<close>

definition verified_as :: "ledger \<Rightarrow> string \<Rightarrow> verification_result \<Rightarrow> bool" where
  "verified_as l k result \<longleftrightarrow> verification_result_of l k = Some (Stored result)
     \<and> map_option lr_state (find_row l k)
         = Some (state_text (verification_ledger_state (ovr_status result)))"

definition raised_result :: "ledger_entry \<Rightarrow> dispatch_result \<Rightarrow> int \<Rightarrow> verification_result" where
  "raised_result entry dispatch now = \<lparr>ovr_status = OV_OUTCOME_UNKNOWN,
     ovr_request_id = le_request_id entry, ovr_observed_target_fingerprint = None,
     ovr_observed_state = None, ovr_health_status = None,
     ovr_started_at = ors_started_at dispatch, ovr_completed_at = now,
     ovr_deadline = instant (odr_expires_at (le_request entry))\<rparr>"

lemma verification_recorded:
  assumes v: "ledger_valid (w_ledger w)" and row: "find_row (w_ledger w) k = Some row"
    and st: "lr_state row = ''verifying''" "lr_verification_result row = None"
    and r: "odr_request_id r = k" "odr_request_digest r = lr_request_digest row"
    and res: "ovr_request_id result = k"
  shows "\<exists>e w1. ledger_call m (\<lambda>t. persist_verification_result t r result) w = (Inr e, w1)
    \<and> verified_as (w_ledger w1) k result"
proof -
  from v row obtain s where s: "row_valid s row" "lr_state row = state_text s" by (rule ledger_valid_parse)
  then have rv: "row_valid VERIFYING row" using st by (cases s) simp_all
  have row': "find_row (w_ledger w) (odr_request_id r) = Some row" using row r by simp
  let ?s = "verification_ledger_state (ovr_status result)"
  have eq: "persist_verification_result t r result (w_ledger w) =
      (Inr (projected ?s (verified_row t result row)),
       advanced r VERIFYING ?s t (verified_row t result) (w_ledger w))" for t
    using persist_verification_result_eq [OF v row' rv] r res st(2) by simp
  have "verified_as (advanced r VERIFYING ?s t (verified_row t result) (w_ledger w)) k result" for t
    using find_row_advanced [of "verified_row t result"] row r find_row_id [OF row]
    by (simp add: verified_as_def verification_result_of_def verified_row_def)
  then show ?thesis by (simp add: ledger_call_def clock_now_def eq)
qed

lemma verified_as_audit:
  "audit m request status w = (x, w') \<Longrightarrow> verified_as (w_ledger w) k result \<Longrightarrow>
   verified_as (w_ledger w') k result"
  by (drule audit_rows) (simp add: verified_as_def verification_result_of_def find_row_def)

text \<open>The part of \<open>reconcile\<close> after the verifier has answered or raised.\<close>

definition record_verification ::
  "host \<Rightarrow> ledger_entry \<Rightarrow> verification_result \<Rightarrow> 'v reconcile_progress act" where
  "record_verification m entry result =
     act_then (ledger_call m (\<lambda>t. persist_verification_result t (le_request entry) result))
       (\<lambda>persisted.
     act_then (audit m (le_request entry) (verification_audit_status (ovr_status result)))
       (\<lambda>_. returns (ReconcileFinished (Some persisted))))"

lemma verifier_replied_eq:
  "verifier_replied m entry dispatch (VerifierReturned result) = record_verification m entry result"
  "verifier_replied m entry dispatch VerifierRaised =
     act_then (read_clock m) (\<lambda>now. record_verification m entry (raised_result entry dispatch now))"
  by (simp_all add: verifier_replied_def record_verification_def raised_result_def)

lemma record_verification_settles:
  assumes v: "ledger_valid (w_ledger w)" and row: "find_row (w_ledger w) k = Some row"
    and st: "lr_state row = ''verifying''" "lr_verification_result row = None"
    and r: "odr_request_id (le_request entry) = k"
      "odr_request_digest (le_request entry) = lr_request_digest row"
    and res: "ovr_request_id result = k"
  shows "verified_as (w_ledger (snd (record_verification m entry result w))) k result"
proof -
  obtain e w1 where p: "ledger_call m (\<lambda>t. persist_verification_result t (le_request entry) result) w
      = (Inr e, w1)" "verified_as (w_ledger w1) k result"
    using verification_recorded [OF v row st r res] by metis
  obtain x w2 where a: "audit m (le_request entry) (verification_audit_status (ovr_status result)) w1
      = (x, w2)" by (cases "audit m (le_request entry) (verification_audit_status (ovr_status result)) w1")
  show ?thesis
    using p verified_as_audit [OF a p(2)] a
    by (cases x) (simp_all add: record_verification_def act_then_def returns_def)
qed

lemma record_verification_mismatch:
  assumes "ovr_request_id result \<noteq> odr_request_id (le_request entry)"
  shows "fst (record_verification m entry result w)
      = Inl (ValueError ''verification result does not match request'')
    \<and> w_ledger (snd (record_verification m entry result w)) = w_ledger w"
  using assms
  by (simp add: record_verification_def act_then_def ledger_call_def clock_now_def
      persist_verification_result_def require_def)

text \<open>When the awaited verifier answers for its request or raises, the answer or an unknown
  outcome becomes the durable verification result and decides the state, whether or not the audit
  event can be written; an answer for another request is refused, and like a cancellation leaves
  the ledger as it was, still verifying.\<close>

theorem verifier_reply_settles:
  assumes v: "ledger_valid (w_ledger w)"
    and row: "find_row (w_ledger w) (le_request_id entry) = Some row"
    and st: "lr_state row = ''verifying''" "lr_verification_result row = None"
    and r: "odr_request_id (le_request entry) = le_request_id entry"
      "odr_request_digest (le_request entry) = lr_request_digest row"
  shows "case reply of
      VerifierReturned result \<Rightarrow>
        (if ovr_request_id result = le_request_id entry
         then verified_as (w_ledger (snd (verifier_replied m entry dispatch reply w)))
                (le_request_id entry) result
         else fst (verifier_replied m entry dispatch reply w)
                = Inl (ValueError ''verification result does not match request'')
              \<and> w_ledger (snd (verifier_replied m entry dispatch reply w)) = w_ledger w)
    | VerifierRaised \<Rightarrow>
        verified_as (w_ledger (snd (verifier_replied m entry dispatch reply w)))
          (le_request_id entry) (raised_result entry dispatch (h_clock m (w_ticks w)))
    | VerifierCancelled \<Rightarrow> verifier_replied m entry dispatch reply w = (Inl CancelledError, w)"
proof (cases reply)
  case (VerifierReturned result)
  then show ?thesis
    using r by (simp add: verifier_replied_eq record_verification_settles [OF v row st r]
        record_verification_mismatch)
next
  case VerifierRaised
  let ?w = "w\<lparr>w_ticks := Suc (w_ticks w)\<rparr>"
  have "verified_as (w_ledger (snd (record_verification m entry
      (raised_result entry dispatch (h_clock m (w_ticks w))) ?w))) (le_request_id entry)
      (raised_result entry dispatch (h_clock m (w_ticks w)))"
    by (rule record_verification_settles [where row = row])
      (use v row st r in \<open>simp_all add: raised_result_def\<close>)
  with VerifierRaised show ?thesis
    by (simp add: verifier_replied_eq act_then_def read_clock_def clock_now_def)
qed (simp add: verifier_replied_def)

definition sample_verifying :: ledger where
  "sample_verifying =
     ledger_step sample_succeeded (BeginVerification 5 sample_dispatch_request False)"

lemma sample_verifying_valid: "ledger_valid sample_verifying"
  by (simp add: sample_verifying_def ledger_step_valid sample_succeeded_valid del: ledger_step.simps)

lemma sample_verifying_find:
  "find_row sample_verifying (odr_request_id sample_dispatch_request)
     = Some (resumed 5 sample_succeeded_row)"
proof -
  have plain: "lr_request_digest sample_succeeded_row = odr_request_digest sample_dispatch_request"
    "lr_verification_result sample_succeeded_row = None"
    by (simp_all add: sample_succeeded_row_def dispatched_def sample_in_flight_row_def moved_def
        claimed_row_def)
  have eq: "sample_verifying
      = advanced sample_dispatch_request SUCCEEDED VERIFYING 5 (resumed 5) sample_succeeded"
    using begin_verification_eq [OF sample_succeeded_valid sample_succeeded_find
        sample_succeeded_row_valid, of 5 False] plain
    by (simp add: sample_verifying_def)
  show ?thesis
    unfolding eq using find_row_advanced [of "resumed 5"] find_row_id [OF sample_succeeded_find]
    by (simp add: sample_succeeded_find)
qed

theorem verifier_reply_settles_witness:
  "verified_as (w_ledger (snd (verifier_replied sample_host
       (projected SUCCEEDED sample_succeeded_row) (success_result sample_dispatch_request 4)
       VerifierRaised \<lparr>w_ledger = sample_verifying, w_ticks = 0, w_ids = 0\<rparr>)))
     (odr_request_id sample_dispatch_request)
     (raised_result (projected SUCCEEDED sample_succeeded_row)
       (success_result sample_dispatch_request 4) 5)"
proof -
  have id: "le_request_id (projected SUCCEEDED sample_succeeded_row)
      = odr_request_id sample_dispatch_request"
    using find_row_id [OF sample_succeeded_find] by (simp add: projected_def)
  have row: "lr_verification_result sample_succeeded_row = None"
    "lr_request_digest sample_succeeded_row = odr_request_digest sample_dispatch_request"
    by (simp_all add: sample_succeeded_row_def dispatched_def sample_in_flight_row_def moved_def
        claimed_row_def)
  show ?thesis
    using verifier_reply_settles [where reply = VerifierRaised and m = sample_host
        and w = "\<lparr>w_ledger = sample_verifying, w_ticks = 0, w_ids = 0\<rparr>"
        and entry = "projected SUCCEEDED sample_succeeded_row"
        and row = "resumed 5 sample_succeeded_row"
        and dispatch = "success_result sample_dispatch_request 4"]
      sample_verifying_valid sample_verifying_find row
    by (simp add: id sample_entry_fields(1) resumed_def sample_host_def)
qed

section \<open>Startup recovery\<close>

lemma ledger_valid_member:
  "ledger_valid l \<Longrightarrow> row \<in> set (dispatch_rows l) \<Longrightarrow> \<exists>st. row_valid st row"
  unfolding ledger_valid_def by blast

lemma valid_rows_decode:
  assumes v: "ledger_valid l" and sub: "set rows \<subseteq> set (dispatch_rows l)"
  shows "\<exists>entries. traverse entry_of rows = Inr entries"
proof -
  have "\<exists>e. entry_of row = Inr e" if "row \<in> set rows" for row
    using ledger_valid_member [OF v] sub that entry_of_valid by blast
  then have "traverse entry_of rows = Inr (map (\<lambda>r. projr (entry_of r)) rows)"
    by (intro traverse_Inr_map) (metis sum.sel(2))
  then show ?thesis by blast
qed

lemma entry_found:
  assumes v: "ledger_valid l" and row: "row \<in> set (dispatch_rows l)" and e: "entry_of row = Inr e"
  shows "get_entry (le_request_id e) l = Inr (Some e)"
proof -
  obtain st where st: "row_valid st row" using ledger_valid_member [OF v row] by blast
  then have "le_request_id e = lr_request_id row"
    using e by (auto simp: entry_of_valid projected_def)
  moreover have "find_row l (lr_request_id row) = Some row"
    using find_row_eq ledger_valid_distinct [OF v] row by blast
  ultimately show ?thesis using e by (simp add: get_entry_def)
qed

lemma candidates_ok:
  assumes v: "ledger_valid l"
  shows "\<exists>cs. list_verification_candidates l = Inr cs
    \<and> (\<forall>e \<in> set cs. get_entry (le_request_id e) l = Inr (Some e))
    \<and> {e. \<exists>k. get_entry k l = Inr (Some e) \<and> eligible e} \<subseteq> set cs"
proof -
  define undecided where "undecided = (\<lambda>r :: ledger_row. lr_verification_result r = None
      \<and> lr_state r \<in> set [''succeeded'', ''outcome_unknown'', ''verifying''])"
  define kept where "kept = (\<lambda>e :: ledger_entry. le_state e = VERIFYING \<or> (case le_dispatch_result e of
      None \<Rightarrow> False | Some d \<Rightarrow> ors_provider_operation_id d \<noteq> None))"
  define rows where
    "rows = sort_key lr_created_at (sort_key lr_request_id (filter undecided (dispatch_rows l)))"
  have rows: "set rows = {r \<in> set (dispatch_rows l). undecided r}" by (auto simp: rows_def)
  obtain es where es: "traverse entry_of rows = Inr es"
    using valid_rows_decode [OF v, of rows] rows by auto
  have cs: "list_verification_candidates l = Inr (filter kept es)"
    using es
    by (simp add: list_verification_candidates_def kept_def rows_def undecided_def cong: filter_cong)
  note decoded = traverse_Inr_set [OF es]
  have "e \<in> set (filter kept es)" if g: "get_entry k l = Inr (Some e)" and el: "eligible e" for k e
  proof -
    from v g obtain row st where row: "find_row l k = Some row" "row_valid st row" "e = projected st row"
      by (rule get_entry_row)
    have "undecided row"
      using el row row_valid_state [OF row(2)] content_valid(2) [OF row(2)]
      by (auto simp: eligible_def projected_def undecided_def)
    then have "e \<in> set es"
      using decoded rows find_row_id [OF row(1)] entry_of_valid [OF row(2)] row(3) by blast
    then show ?thesis using el by (auto simp: eligible_def kept_def split: option.splits)
  qed
  moreover have "get_entry (le_request_id e) l = Inr (Some e)" if "e \<in> set es" for e
    using that decoded rows entry_found [OF v] by blast
  ultimately show ?thesis using cs by auto
qed

text \<open>C29. Startup recovery of any reachable ledger never fails and misses nothing: every request
  whose verification is still open and possible is among the candidates it counts.\<close>

theorem recovery_misses_nothing:
  "\<exists>cs. list_verification_candidates (ledger_after ops) = Inr cs
    \<and> schedule_startup_recovery (ledger_after ops) = Inr (length cs)
    \<and> {e. \<exists>k. get_entry k (ledger_after ops) = Inr (Some e) \<and> eligible e} \<subseteq> set cs"
proof -
  let ?l = "ledger_after ops"
  obtain cs where cs: "list_verification_candidates ?l = Inr cs"
    "\<forall>e \<in> set cs. get_entry (le_request_id e) ?l = Inr (Some e)"
    "{e. \<exists>k. get_entry k ?l = Inr (Some e) \<and> eligible e} \<subseteq> set cs"
    using candidates_ok [OF ledger_after_valid, of ops] by blast
  have "traverse (\<lambda>e. schedules_verification ?l (le_request_id e)) cs = Inr (map eligible cs)"
    by (rule traverse_Inr_map) (use cs(2) in \<open>simp add: schedules_verification_def\<close>)
  then show ?thesis using cs by (simp add: schedule_startup_recovery_def)
qed

section \<open>What the verification service and the bearer check promise\<close>

lemma listing_errors:
  "list_provider_resource_identities registry p = Inl e \<Longrightarrow> provider_resource_error e"
  by (auto simp: list_provider_resource_identities_def Let_def provider_resource_error_def
      resource_operation_error_def split: sum.splits listing.splits if_splits)

lemma resolution_errors:
  "resolve_operational_target registry p r ty = Inl e \<Longrightarrow>
   provider_resource_error e \<or> e = ProviderNotFoundError \<or> e = FingerprintProviderMismatch"
  unfolding resolve_operational_target_def
  by (auto simp: provider_resource_error_def resolution_error_def resource_operation_error_def
      build_operational_target_fingerprint_def dest!: listing_errors
      split: option.splits sum.splits list.splits if_splits)

text \<open>What the registry says now about the target a request names.\<close>

abbreviation current_target ::
  "provider_registry \<Rightarrow> dispatch_request \<Rightarrow> target_error + resolved_target" where
  "current_target registry r \<equiv> resolve_operational_target registry
     (odr_provider_id r) (odr_resource_id r) (odr_resource_type r)"

text \<open>The generic verification service observes and never claims success or failure of the
  action: before its deadline it reports the target replaced exactly when the target is gone or
  its current fingerprint is another one, everything else is an unknown outcome, and the
  fingerprint it reports is the one just resolved. It only raises for a deadline that does not
  follow the start or a provider registered under another identifier than its own.\<close>

theorem verification_observes:
  "case verify_operational r started deadline now done (current_target registry r) of
     Inl e \<Rightarrow> deadline \<le> started
   | Inr (Inl e) \<Rightarrow> started < deadline \<and> now < deadline \<and> e = FingerprintProviderMismatch
   | Inr (Inr result) \<Rightarrow> started < deadline
       \<and> ovr_request_id result = odr_request_id r
       \<and> ovr_status result \<in> set [OV_TARGET_REPLACED, OV_OUTCOME_UNKNOWN]
       \<and> (ovr_status result = OV_TARGET_REPLACED \<longleftrightarrow> now < deadline
            \<and> (case current_target registry r of
                 Inl e \<Rightarrow> \<not> resource_operation_error e
               | Inr t \<Rightarrow> rt_fingerprint t \<noteq> odr_target_fingerprint r))
       \<and> ovr_observed_target_fingerprint result =
            (if deadline \<le> now then None else case current_target registry r of
               Inl e \<Rightarrow> None | Inr t \<Rightarrow> Some (rt_fingerprint t))"
proof (cases "current_target registry r")
  case (Inl e)
  note kinds = resolution_errors [OF Inl]
  have apart: "resource_operation_error e \<Longrightarrow> \<not> resolution_error e
      \<and> e \<noteq> ProviderNotFoundError \<and> e \<noteq> ProviderResourcesNotSupportedError"
    by (auto simp: resource_operation_error_def resolution_error_def)
  have mismatch: "\<not> resource_operation_error FingerprintProviderMismatch"
    "\<not> resolution_error FingerprintProviderMismatch"
    by (simp_all add: resource_operation_error_def resolution_error_def)
  show ?thesis
    using kinds apart mismatch
    by (auto simp: Inl verify_operational_def Let_def provider_resource_error_def
        split: sum.splits if_splits)
next
  case (Inr t)
  then show ?thesis by (auto simp: verify_operational_def Let_def)
qed

lemma bearer_prefix: "starts_with ''Bearer '' h \<longleftrightarrow> (\<exists>s. h = ''Bearer '' @ s)"
proof
  assume "starts_with ''Bearer '' h"
  then have "take 7 h = ''Bearer ''" by (simp add: starts_with_def eval_nat_numeral)
  then have "h = ''Bearer '' @ drop 7 h" by (metis append_take_drop_id)
  then show "\<exists>s. h = ''Bearer '' @ s" by blast
qed (auto simp: starts_with_def)

lemma ascii_strip: "ascii_text s \<Longrightarrow> ascii_text (strip s)"
proof -
  assume "ascii_text s"
  then have "set s \<subseteq> {c. (of_char c :: nat) < 128}" by (auto simp: ascii_text_def list_all_iff)
  moreover have "set (strip s) \<subseteq> set s"
    by (auto simp: strip_def rstrip_def lstrip_def dest!: set_dropWhileD)
  ultimately show "ascii_text (strip s)" by (auto simp: ascii_text_def list_all_iff)
qed

text \<open>The credential a header presents, when it has the accepted shape.\<close>

definition presents :: "string option \<Rightarrow> string \<Rightarrow> bool" where
  "presents authorization supplied \<longleftrightarrow> authorization = Some (''Bearer '' @ supplied)
     \<and> supplied \<noteq> [] \<and> strip supplied = supplied"

definition configured :: "string option \<Rightarrow> string \<Rightarrow> bool" where
  "configured token_file expected \<longleftrightarrow> (case token_file of None \<Rightarrow> False
     | Some s \<Rightarrow> ascii_text s \<and> expected = strip s \<and> expected \<noteq> [])"

lemma authenticate_eq:
  "authenticate token_file authorization =
     (if \<exists>supplied expected. presents authorization supplied \<and> configured token_file expected
      then compare_digest (drop 7 (the authorization)) (strip (the token_file)) else Inr False)"
proof (cases authorization)
  case (Some h)
  then show ?thesis
    by (cases token_file)
      (auto simp: authenticate_def Let_def presents_def configured_def bearer_prefix)
qed (simp add: authenticate_def presents_def)

text \<open>The bearer check accepts exactly the configured credential, and answers no otherwise,
  save that it raises \<open>TypeError\<close> instead of refusing when the credential presented has
  a character outside ASCII.\<close>

theorem authenticate_iff:
  "(authenticate token_file authorization = Inr True \<longleftrightarrow>
      (\<exists>token. configured token_file token \<and> presents authorization token))
   \<and> ((\<exists>e. authenticate token_file authorization = Inl e) \<longleftrightarrow>
      (\<exists>token supplied. configured token_file token \<and> presents authorization supplied
        \<and> \<not> ascii_text supplied))"
proof -
  have "ascii_text token" if "configured token_file token" for token
    using that by (auto simp: configured_def ascii_strip split: option.splits)
  then show ?thesis
    unfolding authenticate_eq
    by (auto simp: presents_def configured_def compare_digest_def ascii_strip split: option.splits)
qed

end
