(* ===== verification/WorkerContracts.thy ===== *)
theory WorkerContracts
  imports Paths Digest
begin

text \<open>
  The contract between the Agent and the execution worker
  (\<open>execution/worker_contracts.py\<close> of Atlas Agent): the request, its digest, the result and
  their validation. Values are well typed here, so the \<open>isinstance\<close> checks hold;
  decoding JSON text is not modelled. A finite float is its sign, integer part and the decimal
  digits after the point, as \<open>repr\<close> writes it in the range the contract accepts.
\<close>

section \<open>Numbers\<close>

datatype py_number = PyInt int | PyFloat bool nat string | PyNonFinite

definition is_digit :: "char \<Rightarrow> bool" where
  "is_digit c \<longleftrightarrow> in_range CHR ''0'' CHR ''9'' c"

fun decimal :: "py_number \<Rightarrow> bool" where
  "decimal (PyFloat neg ip fd) \<longleftrightarrow> fd \<noteq> [] \<and> list_all is_digit fd"
| "decimal _ = True"

fun number_text :: "py_number \<Rightarrow> string" where
  "number_text (PyInt i) = int_text i"
| "number_text (PyFloat neg ip fd) = (if neg then ''-'' else []) @ nat_text ip @ ''.'' @ fd"
| "number_text PyNonFinite = ''NaN''"

text \<open>\<open>math.isfinite\<close>, which overflows on an integer no double is near.\<close>

fun finite_number :: "py_number \<Rightarrow> bool" where
  "finite_number (PyInt i) \<longleftrightarrow> \<bar>i\<bar> < 2 ^ 1024 - 2 ^ 970"
| "finite_number (PyFloat neg ip fd) = True"
| "finite_number PyNonFinite = False"

text \<open>Comparisons of a number with an integer constant.\<close>

fun at_least :: "nat \<Rightarrow> py_number \<Rightarrow> bool" where
  "at_least b (PyInt i) \<longleftrightarrow> int b \<le> i"
| "at_least b (PyFloat neg ip fd) \<longleftrightarrow>
     (if neg then b = 0 \<and> ip = 0 \<and> list_all (\<lambda>c. c = CHR ''0'') fd else b \<le> ip)"
| "at_least b PyNonFinite = False"

fun at_most :: "nat \<Rightarrow> py_number \<Rightarrow> bool" where
  "at_most b (PyInt i) \<longleftrightarrow> i \<le> int b"
| "at_most b (PyFloat neg ip fd) \<longleftrightarrow>
     neg \<or> ip < b \<or> (ip = b \<and> list_all (\<lambda>c. c = CHR ''0'') fd)"
| "at_most b PyNonFinite = False"

section \<open>Text and path checks\<close>

definition is_token_start :: "char \<Rightarrow> bool" where
  "is_token_start c \<longleftrightarrow> in_range CHR ''A'' CHR ''Z'' c \<or> in_range CHR ''a'' CHR ''z'' c \<or> is_digit c"

text \<open>\<open>[A-Za-z0-9][A-Za-z0-9._:-]{0,255}\<close>, with further characters for branches.\<close>

fun is_token :: "string \<Rightarrow> string \<Rightarrow> bool" where
  "is_token extra [] = False"
| "is_token extra (c # s) \<longleftrightarrow> is_token_start c \<and> length s \<le> 255
     \<and> list_all (\<lambda>d. is_token_start d \<or> d \<in> set extra) s"

definition worker_id :: "string \<Rightarrow> bool" where
  "worker_id s = is_token ''._:-'' s"

definition worker_branch :: "string \<Rightarrow> bool" where
  "worker_branch s = is_token ''._/:-'' s"

definition worker_head :: "string \<Rightarrow> bool" where
  "worker_head s \<longleftrightarrow> 40 \<le> length s \<and> length s \<le> 64 \<and> list_all is_lower_hex s"

definition validate_id :: "string \<Rightarrow> string \<Rightarrow> unit res" where
  "validate_id value name = require (worker_id value) (ValueError (''invalid '' @ name))"

definition validate_worker_path :: "string \<Rightarrow> bool \<Rightarrow> string \<Rightarrow> string res" where
  "validate_worker_path name allow_dot value =
     (if value = [] \<or> CHR 0x00 \<in> set value \<or> CHR 0x5C \<in> set value
      then Inl (ValueError (''invalid '' @ name))
      else let p = path_of value in
        if absolute p \<or> traverses_parent p \<or> (\<not> allow_dot \<and> value = ''.'')
        then Inl (ValueError (''unsafe '' @ name))
        else if path_text p = ''.'' \<and> \<not> allow_dot
        then Inl (ValueError (''unsafe '' @ name))
        else Inr (path_text p))"

definition max_changed_files :: nat where
  "max_changed_files = 64"

definition canonical_files :: "string list \<Rightarrow> string list res" where
  "canonical_files files =
     and_then (traverse (validate_worker_path ''affected file'' False) files) (\<lambda>normalized.
     and_then (require (distinct normalized) (ValueError ''duplicate affected file'')) (\<lambda>_.
     and_then (require (length normalized \<le> max_changed_files)
       (ValueError ''too many affected files'')) (\<lambda>_.
     Inr (sort normalized))))"

section \<open>The request\<close>

record worker_request =
  wr_schema_version :: int
  wr_execution_request_id :: string
  wr_workflow_id :: string
  wr_candidate_id :: string
  wr_candidate_fingerprint :: string
  wr_plan_id :: string
  wr_plan_fingerprint :: string
  wr_execution_intent :: string
  wr_repository_token :: string
  wr_expected_repository_head :: string
  wr_repository_branch :: "string option"
  wr_argv :: "string list"
  wr_working_directory :: string
  wr_allowed_affected_files :: "string list"
  wr_timeout_seconds :: py_number
  wr_request_digest :: string

definition worker_schema_version :: int where
  "worker_schema_version = 1"

definition update_compose_stack :: string where
  "update_compose_stack = ''update-compose-stack''"

definition rc1_validation_smoke :: string where
  "rc1_validation_smoke = ''rc1-validation-smoke''"

definition rc1_smoke_target :: string where
  "rc1_smoke_target = ''services/atlas-agent/tests/test_execution_engine.py''"

definition rc1_smoke_argv :: "string list" where
  "rc1_smoke_argv = [''atlas-rc1-validation-smoke'']"

definition quoted :: "string \<Rightarrow> string" where
  "quoted s = [CHR 0x22] @ s @ [CHR 0x22]"

definition codex_argv_prefix :: "string list" where
  "codex_argv_prefix = [''codex'', ''exec'', ''-c'',
     ''default_permissions='' @ quoted ''atlas-workspace'', ''-c'',
     ''permissions.atlas-workspace.extends='' @ quoted '':workspace'', ''-c'',
     ''permissions.atlas-workspace.network.enabled=true'']"

definition worker_digest_prefix :: string where
  "worker_digest_prefix = ''execution-request-digest-v1''"

definition worker_payload :: "worker_request \<Rightarrow> (string \<times> json) list" where
  "worker_payload r =
     [(''schema_version'', JNum (int_text (wr_schema_version r))),
      (''execution_request_id'', JStr (wr_execution_request_id r)),
      (''workflow_id'', JStr (wr_workflow_id r)),
      (''candidate_id'', JStr (wr_candidate_id r)),
      (''candidate_fingerprint'', JStr (wr_candidate_fingerprint r)),
      (''plan_id'', JStr (wr_plan_id r)),
      (''plan_fingerprint'', JStr (wr_plan_fingerprint r)),
      (''execution_intent'', JStr (wr_execution_intent r)),
      (''repository_token'', JStr (wr_repository_token r)),
      (''expected_repository_head'', JStr (wr_expected_repository_head r)),
      (''repository_branch'', json_text (wr_repository_branch r)),
      (''argv'', JArr (map JStr (wr_argv r))),
      (''working_directory'', JStr (wr_working_directory r)),
      (''allowed_affected_files'', JArr (map JStr (wr_allowed_affected_files r))),
      (''timeout_seconds'', JNum (number_text (wr_timeout_seconds r)))]"

definition worker_request_digest :: "worker_request \<Rightarrow> string" where
  "worker_request_digest r = versioned_digest worker_digest_prefix (JObj (worker_payload r))"

definition worker_digest_shape :: "string \<Rightarrow> bool" where
  "worker_digest_shape d \<longleftrightarrow> starts_with (worker_digest_prefix @ '':'') d
     \<and> is_sha256_hex (drop (length worker_digest_prefix + 1) d)"

definition validate_ids :: "worker_request \<Rightarrow> unit res" where
  "validate_ids r =
     and_then (validate_id (wr_execution_request_id r) ''execution request id'') (\<lambda>_.
     and_then (validate_id (wr_workflow_id r) ''workflow id'') (\<lambda>_.
     and_then (validate_id (wr_candidate_id r) ''candidate id'') (\<lambda>_.
     and_then (validate_id (wr_candidate_fingerprint r) ''candidate fingerprint'') (\<lambda>_.
     and_then (validate_id (wr_plan_id r) ''plan id'') (\<lambda>_.
     validate_id (wr_plan_fingerprint r) ''plan fingerprint'')))))"

definition validate_operation :: "worker_request \<Rightarrow> unit res" where
  "validate_operation r =
     (if wr_execution_intent r = rc1_validation_smoke
      then and_then (require (wr_argv r = rc1_smoke_argv)
          (ValueError ''invalid RC1 validation smoke operation'')) (\<lambda>_.
        and_then (require (wr_working_directory r = ''.'')
          (ValueError ''RC1 validation smoke must run at repository root'')) (\<lambda>_.
        require (wr_allowed_affected_files r = [rc1_smoke_target])
          (ValueError ''RC1 validation smoke target is fixed'')))
      else require (length (wr_argv r) = length codex_argv_prefix + 1
          \<and> butlast (wr_argv r) = codex_argv_prefix \<and> \<not> blank (last (wr_argv r)))
        (ValueError ''unsupported Codex workspace profile argv''))"

definition validate_worker_request :: "bool \<Rightarrow> worker_request \<Rightarrow> unit res" where
  "validate_worker_request check_digest r =
     and_then (require (wr_schema_version r = worker_schema_version)
       (ValueError ''unsupported worker request schema'')) (\<lambda>_.
     and_then (validate_ids r) (\<lambda>_.
     and_then (require (wr_execution_intent r \<in> set [update_compose_stack, rc1_validation_smoke])
       (ValueError ''unsupported execution intent'')) (\<lambda>_.
     and_then (require (worker_id (wr_repository_token r))
       (ValueError ''invalid repository token'')) (\<lambda>_.
     and_then (require (worker_head (wr_expected_repository_head r))
       (ValueError ''invalid expected repository head'')) (\<lambda>_.
     and_then (require (case wr_repository_branch r of None \<Rightarrow> True | Some b \<Rightarrow> worker_branch b)
       (ValueError ''invalid repository branch'')) (\<lambda>_.
     and_then (require (wr_argv r \<noteq> []
         \<and> list_all (\<lambda>a. a \<noteq> [] \<and> CHR 0x00 \<notin> set a) (wr_argv r))
       (ValueError ''invalid argv'')) (\<lambda>_.
     and_then (validate_operation r) (\<lambda>_.
     and_then (validate_worker_path ''working directory'' True (wr_working_directory r)) (\<lambda>_.
     and_then (canonical_files (wr_allowed_affected_files r)) (\<lambda>_.
     and_then (require (finite_number (wr_timeout_seconds r))
       (ValueError ''invalid timeout'')) (\<lambda>_.
     and_then (require (at_least 1 (wr_timeout_seconds r) \<and> at_most 3600 (wr_timeout_seconds r))
       (ValueError ''timeout outside contract bounds'')) (\<lambda>_.
     if check_digest
     then and_then (require (worker_digest_shape (wr_request_digest r))
         (ValueError ''malformed request digest'')) (\<lambda>_.
       require (wr_request_digest r = worker_request_digest r)
         (ValueError ''request digest mismatch''))
     else Inr ()))))))))))))"

text \<open>\<open>build\<close>, from a draft whose digest is ignored.\<close>

definition build_worker_request :: "worker_request \<Rightarrow> worker_request res" where
  "build_worker_request draft =
     and_then (canonical_files (wr_allowed_affected_files draft)) (\<lambda>files.
     and_then (validate_worker_path ''working directory'' True (wr_working_directory draft)) (\<lambda>wd.
     let request = draft\<lparr>wr_allowed_affected_files := files, wr_working_directory := wd,
           wr_request_digest := []\<rparr> in
     and_then (validate_worker_request False request) (\<lambda>_.
     Inr (request\<lparr>wr_request_digest := worker_request_digest request\<rparr>))))"

section \<open>The result\<close>

datatype worker_status = WS_SUCCEEDED | WS_FAILED | WS_BLOCKED | WS_UNKNOWN

datatype worker_failure =
    STALE_REPOSITORY | INVALID_REQUEST | INVALID_ARGV | SANDBOX_UNAVAILABLE | AUTH_UNAVAILABLE
  | WORKER_TIMEOUT | CODEX_FAILED | OUT_OF_SCOPE_CHANGES | NO_COMMITTABLE_CHANGES
  | PATCH_TOO_LARGE | DUPLICATE_REQUEST | WORKER_UNAVAILABLE | WORKER_CRASH

record bounded_output =
  bo_text :: string
  bo_truncated :: bool
  bo_original_bytes :: "int option"

definition max_text_bytes :: nat where
  "max_text_bytes = 1048576"

definition max_patch_bytes :: int where
  "max_patch_bytes = 4194304"

definition validate_output :: "bounded_output \<Rightarrow> unit res" where
  "validate_output out =
     (let encoded = length (utf8 (bo_text out)) in
     and_then (require (encoded \<le> max_text_bytes)
       (ValueError ''output exceeds the contract bound'')) (\<lambda>_.
     and_then (require (case bo_original_bytes out of None \<Rightarrow> True | Some n \<Rightarrow> int encoded \<le> n)
       (ValueError ''invalid output original_bytes'')) (\<lambda>_.
     and_then (require (\<not> (bo_truncated out \<and> (case bo_original_bytes out of
           None \<Rightarrow> True | Some n \<Rightarrow> n \<le> int encoded)))
       (ValueError ''truncated output requires larger original_bytes'')) (\<lambda>_.
     require (bo_truncated out \<or> bo_original_bytes out \<in> set [None, Some (int encoded)])
       (ValueError ''untruncated output has inconsistent original_bytes'')))))"

record worker_attestation =
  wa_runtime_uid :: int
  wa_readonly_rootfs :: bool
  wa_no_new_privileges :: bool
  wa_effective_capabilities :: string
  wa_sandbox_profile :: string

definition is_hex_char :: "char \<Rightarrow> bool" where
  "is_hex_char c \<longleftrightarrow> is_lower_hex c \<or> in_range CHR ''A'' CHR ''F'' c"

definition hex_digit_value :: "char \<Rightarrow> nat" where
  "hex_digit_value c = (let n = of_char c :: nat in
     if n < 58 then n - 48 else if n < 71 then n - 55 else n - 87)"

text \<open>\<open>int(text, 16)\<close> of hexadecimal digits.\<close>

definition hex_value :: "string \<Rightarrow> nat" where
  "hex_value s = foldl (\<lambda>n c. 16 * n + hex_digit_value c) 0 s"

definition validate_attestation :: "worker_attestation \<Rightarrow> unit res" where
  "validate_attestation a =
     and_then (require (wa_runtime_uid a = 10001)
       (ValueError ''worker runtime uid must be 10001'')) (\<lambda>_.
     and_then (require (wa_readonly_rootfs a)
       (ValueError ''worker rootfs must be read-only'')) (\<lambda>_.
     and_then (require (wa_no_new_privileges a)
       (ValueError ''worker must have no-new-privileges'')) (\<lambda>_.
     and_then (require (wa_effective_capabilities a \<noteq> []
         \<and> list_all (\<lambda>c. is_hex_char c \<or> c \<in> set '', _-'') (wa_effective_capabilities a))
       (ValueError ''invalid capability representation'')) (\<lambda>_.
     and_then (require (length (wa_effective_capabilities a) \<le> 32
         \<and> list_all is_hex_char (wa_effective_capabilities a)
         \<and> hex_value (wa_effective_capabilities a) = 0)
       (ValueError ''worker effective capabilities must be zero'')) (\<lambda>_.
     require (wa_sandbox_profile a \<noteq> [] \<and> \<not> contains ''unconfined'' (lower (wa_sandbox_profile a)))
       (ValueError ''sandbox profile must be named and confined''))))))"

record worker_result =
  ws_schema_version :: int
  ws_execution_request_id :: string
  ws_status :: worker_status
  ws_return_code :: "int option"
  ws_stdout :: bounded_output
  ws_stderr :: bounded_output
  ws_changed_files :: "string list"
  ws_patch_digest :: "string option"
  ws_patch_size_bytes :: "int option"
  ws_patch_truncated :: bool
  ws_duration_seconds :: py_number
  ws_failure_code :: "worker_failure option"
  ws_workspace_head :: "string option"
  ws_attestation :: worker_attestation
  ws_base_repository_head :: "string option"
  ws_patch :: "bounded_output option"

definition patch_digest_of :: "string \<Rightarrow> string" where
  "patch_digest_of t = ''sha256:'' @ sha256_hexdigest (utf8 t)"

definition patch_digest_shape :: "string \<Rightarrow> bool" where
  "patch_digest_shape d \<longleftrightarrow> starts_with ''sha256:'' d \<and> is_sha256_hex (drop 7 d)"

definition validate_patch :: "worker_result \<Rightarrow> bounded_output \<Rightarrow> unit res" where
  "validate_patch w p =
     and_then (validate_output p) (\<lambda>_.
     and_then (require (case bo_original_bytes p of None \<Rightarrow> True | Some n \<Rightarrow> n \<le> max_patch_bytes)
       (ValueError ''patch exceeds the contract bound'')) (\<lambda>_.
     and_then (require (bo_truncated p = ws_patch_truncated w)
       (ValueError ''patch truncation metadata mismatch'')) (\<lambda>_.
     and_then (require (ws_patch_digest w \<noteq> None \<and> ws_patch_size_bytes w \<noteq> None)
       (ValueError ''patch payload requires size and digest'')) (\<lambda>_.
     if bo_truncated p
     then require (ws_patch_size_bytes w = bo_original_bytes p)
       (ValueError ''truncated patch size mismatch'')
     else require (ws_patch_size_bytes w = Some (int (length (utf8 (bo_text p))))
         \<and> ws_patch_digest w = Some (patch_digest_of (bo_text p)))
       (ValueError ''complete patch size or digest mismatch'')))))"

definition validate_outcome :: "worker_result \<Rightarrow> unit res" where
  "validate_outcome w =
     and_then (if ws_status w = WS_SUCCEEDED
       then and_then (require (\<not> ws_patch_truncated w)
           (ValueError ''successful patch cannot be truncated'')) (\<lambda>_.
         require (ws_failure_code w = None \<and> ws_return_code w = Some 0)
           (ValueError ''success result has failure evidence''))
       else require (ws_failure_code w \<noteq> None)
         (ValueError ''non-success result requires failure code'')) (\<lambda>_.
     and_then (require (ws_status w \<noteq> WS_UNKNOWN \<or> ws_failure_code w = Some WORKER_CRASH)
       (ValueError ''unknown result requires worker_crash'')) (\<lambda>_.
     require (ws_failure_code w \<noteq> Some WORKER_CRASH \<or> ws_status w = WS_UNKNOWN)
       (ValueError ''worker_crash requires unknown status'')))"

definition optional_head :: "string option \<Rightarrow> bool" where
  "optional_head h = (case h of None \<Rightarrow> True | Some s \<Rightarrow> worker_head s)"

definition validate_worker_result ::
  "worker_request option \<Rightarrow> worker_result \<Rightarrow> unit res" where
  "validate_worker_result request w =
     and_then (require (ws_schema_version w = worker_schema_version)
       (ValueError ''unsupported worker result schema'')) (\<lambda>_.
     and_then (validate_id (ws_execution_request_id w) ''execution request id'') (\<lambda>_.
     and_then (require (case request of None \<Rightarrow> True
         | Some r \<Rightarrow> ws_execution_request_id w = wr_execution_request_id r)
       (ValueError ''result request ID mismatch'')) (\<lambda>_.
     and_then (validate_output (ws_stdout w)) (\<lambda>_.
     and_then (validate_output (ws_stderr w)) (\<lambda>_.
     and_then (canonical_files (ws_changed_files w)) (\<lambda>files.
     and_then (require (files = ws_changed_files w)
       (ValueError ''changed files must be canonicalized'')) (\<lambda>_.
     and_then (require (case request of None \<Rightarrow> True
         | Some r \<Rightarrow> ws_failure_code w = Some OUT_OF_SCOPE_CHANGES
             \<or> list_all (\<lambda>f. f \<in> set (wr_allowed_affected_files r)) files)
       (ValueError ''changed file is outside approved scope'')) (\<lambda>_.
     and_then (require (case ws_patch_digest w of None \<Rightarrow> True | Some d \<Rightarrow> patch_digest_shape d)
       (ValueError ''malformed patch digest'')) (\<lambda>_.
     and_then (require (case ws_patch_size_bytes w of None \<Rightarrow> True
         | Some n \<Rightarrow> 0 \<le> n \<and> n \<le> max_patch_bytes)
       (ValueError ''invalid patch size'')) (\<lambda>_.
     and_then (require (\<not> (ws_patch_truncated w \<and> ws_patch_size_bytes w = None))
       (ValueError ''truncated patch requires patch size'')) (\<lambda>_.
     and_then (require (finite_number (ws_duration_seconds w) \<and> at_least 0 (ws_duration_seconds w))
       (ValueError ''invalid duration'')) (\<lambda>_.
     and_then (require (optional_head (ws_workspace_head w))
       (ValueError ''invalid workspace head'')) (\<lambda>_.
     and_then (require (optional_head (ws_base_repository_head w))
       (ValueError ''invalid base repository head'')) (\<lambda>_.
     and_then (case ws_patch w of None \<Rightarrow> Inr () | Some p \<Rightarrow> validate_patch w p) (\<lambda>_.
     and_then (validate_attestation (ws_attestation w)) (\<lambda>_.
     validate_outcome w))))))))))))))))"

section \<open>Decimal text determines a number\<close>

definition text_nat :: "string \<Rightarrow> nat" where
  "text_nat s = foldl (\<lambda>n c. 10 * n + (of_char c - 48)) 0 s"

lemma digit_char: "n < 10 \<Longrightarrow> of_char (char_of (48 + n) :: char) = (48 + n :: nat)"
  by simp

lemma nat_text_digits: "nat_text n \<noteq> [] \<and> list_all is_digit (nat_text n)"
proof (induction n rule: nat_text.induct)
  case (1 n)
  have "is_digit (char_of (48 + m))" if "m < 10" for m :: nat
    using that by (simp add: is_digit_def in_range_def digit_char)
  with 1 show ?case by (subst nat_text.simps) (auto simp: nat_text.simps [of n])
qed

lemma text_nat_text: "text_nat (nat_text n) = n"
proof (induction n rule: nat_text.induct)
  case (1 n)
  show ?case
  proof (cases "n < 10")
    case True
    then show ?thesis by (simp add: nat_text.simps [of n] text_nat_def digit_char)
  next
    case False
    with 1 have "text_nat (nat_text (n div 10)) = n div 10" by simp
    with False show ?thesis
      by (subst nat_text.simps) (simp add: text_nat_def digit_char)
  qed
qed

lemma nat_text_inject [simp]: "nat_text m = nat_text n \<longleftrightarrow> m = n"
  by (metis text_nat_text)

lemma nat_text_char: "c \<in> set (nat_text n) \<Longrightarrow> is_digit c"
  using nat_text_digits [of n] by (simp add: list_all_iff)

lemma not_digit [simp]: "\<not> is_digit CHR ''-''" "\<not> is_digit CHR ''.''"
  by (simp_all add: is_digit_def in_range_def)

lemma nat_text_start: "nat_text n @ r \<noteq> CHR ''-'' # s" "CHR ''-'' # s \<noteq> nat_text n @ r"
  using nat_text_digits [of n] by (cases "nat_text n"; auto)+

lemma nat_text_point:
  "nat_text m @ CHR ''.'' # r = nat_text n @ CHR ''.'' # s \<longleftrightarrow> m = n \<and> r = s"
proof -
  have "takeWhile is_digit (nat_text k @ CHR ''.'' # t) = nat_text k" for k t
    using nat_text_char by (subst takeWhile_append2) auto
  then show ?thesis by (metis append_same_eq list.inject nat_text_inject same_append_eq)
qed

lemma int_text_no_point: "CHR ''.'' \<notin> set (int_text i)"
  using nat_text_char [of "CHR ''.''"] by (auto simp: int_text_def)

lemma int_text_inject [simp]: "int_text i = int_text j \<longleftrightarrow> i = j"
proof -
  have "nat_text m \<noteq> CHR ''-'' # s" "CHR ''-'' # s \<noteq> nat_text m" for m s
    using nat_text_start(1) [of m "[]" s] nat_text_start(2) [of s m "[]"] by simp_all
  then show ?thesis by (auto simp: int_text_def)
qed

lemma number_text_inject:
  assumes "finite_number a" "finite_number b"
  shows "number_text a = number_text b \<longleftrightarrow> a = b"
proof -
  have point: "int_text j \<noteq> number_text (PyFloat n i f)" "number_text (PyFloat n i f) \<noteq> int_text j"
    for n i f j
  proof -
    have "CHR ''.'' \<in> set (number_text (PyFloat n i f))" by simp
    then show "int_text j \<noteq> number_text (PyFloat n i f)" "number_text (PyFloat n i f) \<noteq> int_text j"
      using int_text_no_point [of j] by metis+
  qed
  show ?thesis
  proof (cases a; cases b)
    fix n i f n' i' f' assume ab: "a = PyFloat n i f" "b = PyFloat n' i' f'"
    show ?thesis
      unfolding ab by (cases n; cases n') (simp_all add: nat_text_point nat_text_start)
  qed (use assms point in \<open>simp_all del: number_text.simps add: number_text.simps(1)\<close>)
qed

lemma is_digit_number: "is_digit c \<Longrightarrow> number_char c"
  by (simp add: is_digit_def number_char_def)

lemma numeric_int_text: "numeric (int_text i)"
  using nat_text_digits is_digit_number
  by (auto simp: numeric_def int_text_def list_all_iff number_char_def [of "CHR ''-''"])

lemma numeric_number_text: "decimal a \<Longrightarrow> finite_number a \<Longrightarrow> numeric (number_text a)"
  using nat_text_digits is_digit_number numeric_int_text
  by (cases a) (auto simp: numeric_def list_all_iff number_char_def [of "CHR ''-''"]
      number_char_def [of "CHR ''.''"])

section \<open>What validation certifies\<close>

definition operation_confined :: "worker_request \<Rightarrow> bool" where
  "operation_confined r \<longleftrightarrow>
     (wr_execution_intent r = rc1_validation_smoke \<and> wr_argv r = rc1_smoke_argv
        \<and> wr_working_directory r = ''.'' \<and> wr_allowed_affected_files r = [rc1_smoke_target])
     \<or> (wr_execution_intent r = update_compose_stack
        \<and> (\<exists>prompt. wr_argv r = codex_argv_prefix @ [prompt] \<and> \<not> blank prompt))"

lemma codex_argv_shape:
  "length as = length codex_argv_prefix + 1 \<and> butlast as = codex_argv_prefix \<longleftrightarrow>
   (\<exists>p. as = codex_argv_prefix @ [p])"
  by (metis append_butlast_last_id butlast_snoc length_append_singleton list.size(3) nat.distinct(1)
      Suc_eq_plus1)

lemma validate_operation_Inr:
  "validate_operation r = Inr () \<Longrightarrow>
   wr_execution_intent r \<in> set [update_compose_stack, rc1_validation_smoke] \<Longrightarrow>
   operation_confined r"
  using codex_argv_shape [of "wr_argv r"]
  by (auto simp: validate_operation_def operation_confined_def res_simps split: if_splits)

lemma validate_worker_path_Inr:
  "validate_worker_path name dot v = Inr p \<Longrightarrow>
   p = path_text (path_of v) \<and> \<not> absolute (path_of v) \<and> \<not> traverses_parent (path_of v)"
  by (auto simp: validate_worker_path_def Let_def split: if_splits)

text \<open>A path the worker may be asked to change: relative and inside the repository.\<close>

definition confined_file :: "string \<Rightarrow> bool" where
  "confined_file f \<longleftrightarrow> \<not> absolute (path_of f) \<and> \<not> traverses_parent (path_of f) \<and> path_text (path_of f) \<noteq> ''.''"

lemma canonical_files_Inr:
  assumes "canonical_files fs = Inr gs"
  shows "list_all confined_file fs \<and> length fs \<le> max_changed_files \<and> sorted gs \<and> distinct gs
    \<and> set gs = (\<lambda>f. path_text (path_of f)) ` set fs"
proof -
  obtain ns where ns: "list_all2 (\<lambda>x y. validate_worker_path ''affected file'' False x = Inr y) fs ns"
    "distinct ns" "length ns \<le> max_changed_files" "gs = sort ns"
    using assms by (auto simp: canonical_files_def res_simps traverse_Inr_iff)
  have one: "confined_file x \<and> y = path_text (path_of x)"
    if "validate_worker_path ''affected file'' False x = Inr y" for x y
    using that by (auto simp: validate_worker_path_def confined_file_def Let_def split: if_splits)
  have "list_all confined_file fs \<and> ns = map (\<lambda>f. path_text (path_of f)) fs"
    using ns(1) by (induction rule: list_all2_induct) (auto dest: one)
  then show ?thesis using ns by auto
qed

lemma validate_worker_request_Inr:
  "validate_worker_request True r = Inr () \<Longrightarrow>
   wr_schema_version r = worker_schema_version \<and> operation_confined r
   \<and> list_all confined_file (wr_allowed_affected_files r)
   \<and> length (wr_allowed_affected_files r) \<le> max_changed_files
   \<and> finite_number (wr_timeout_seconds r)
   \<and> at_least 1 (wr_timeout_seconds r) \<and> at_most 3600 (wr_timeout_seconds r)
   \<and> wr_request_digest r = worker_request_digest r"
  by (auto simp: validate_worker_request_def res_simps simp del: set_simps
      intro: validate_operation_Inr dest: canonical_files_Inr)

definition worker_bytes :: "worker_request \<Rightarrow> byte list" where
  "worker_bytes r = canonical_bytes (JObj (worker_payload r))"

lemma worker_payload_keys:
  "map fst (worker_payload r) = map fst (worker_payload s)" "distinct (map fst (worker_payload r))"
  by (simp_all add: worker_payload_def)

lemma worker_payload_flat:
  "decimal (wr_timeout_seconds r) \<Longrightarrow> finite_number (wr_timeout_seconds r) \<Longrightarrow>
   list_all (\<lambda>(k, v). flat v) (worker_payload r)"
  by (simp add: worker_payload_def numeric_int_text numeric_number_text list_all_iff)

lemma worker_payload_eq_iff:
  assumes "finite_number (wr_timeout_seconds r)" "finite_number (wr_timeout_seconds s)"
  shows "worker_payload r = worker_payload s \<longleftrightarrow> r\<lparr>wr_request_digest := d\<rparr> = s\<lparr>wr_request_digest := d\<rparr>"
  using number_text_inject [OF assms]
  by (cases r; cases s) (auto simp: worker_payload_def inj_JStr json_text_inject)

text \<open>A digest identifies a worker request: two accepted requests with one digest are the
  same request in every field, or SHA-256 collides on exactly the bytes hashed for them.\<close>

theorem worker_digest_identifies_request:
  assumes "validate_worker_request True r = Inr ()" "validate_worker_request True s = Inr ()"
    and "decimal (wr_timeout_seconds r)" "decimal (wr_timeout_seconds s)"
    and "wr_request_digest r = wr_request_digest s"
  shows "r = s \<or> digest_collision (worker_bytes r) (worker_bytes s)"
proof (cases "worker_bytes r = worker_bytes s")
  case True
  note ok = assms(1,2) [THEN validate_worker_request_Inr]
  have "worker_payload r = worker_payload s"
    using ok True canonical_bytes_inject(1) [OF worker_payload_keys worker_payload_flat worker_payload_flat]
      assms(3,4) by (simp add: worker_bytes_def)
  then have "r\<lparr>wr_request_digest := []\<rparr> = s\<lparr>wr_request_digest := []\<rparr>"
    using worker_payload_eq_iff ok by blast
  then have "r = s" using assms(5) by (cases r; cases s) simp
  then show ?thesis ..
next
  case False
  have "worker_request_digest r = worker_request_digest s"
    using assms(1,2,5) validate_worker_request_Inr by metis
  with False show ?thesis
    by (simp add: digest_collision_def worker_request_digest_def versioned_digest_eq worker_bytes_def)
qed

text \<open>A result accepted for a request answers that request and stays inside its scope: its
  changed files are canonical, distinct, few and among the allowed ones unless the worker itself
  reports them out of scope; a complete patch has the size and digest of its own text; success is
  the absence of a failure code, with a zero return code and a whole patch; an unknown outcome is
  exactly a worker crash.\<close>

theorem worker_result_sound:
  assumes "validate_worker_result (Some r) w = Inr ()"
  shows "ws_execution_request_id w = wr_execution_request_id r
    \<and> sorted (ws_changed_files w) \<and> distinct (ws_changed_files w)
    \<and> length (ws_changed_files w) \<le> max_changed_files \<and> list_all confined_file (ws_changed_files w)
    \<and> (ws_failure_code w = Some OUT_OF_SCOPE_CHANGES
       \<or> set (ws_changed_files w) \<subseteq> set (wr_allowed_affected_files r))
    \<and> (case ws_patch w of None \<Rightarrow> True | Some p \<Rightarrow> bo_truncated p = ws_patch_truncated w
         \<and> (bo_truncated p \<or> ws_patch_digest w = Some (patch_digest_of (bo_text p))
              \<and> ws_patch_size_bytes w = Some (int (length (utf8 (bo_text p))))))
    \<and> (ws_status w = WS_SUCCEEDED \<longleftrightarrow> ws_failure_code w = None)
    \<and> (ws_status w \<noteq> WS_SUCCEEDED \<or> ws_return_code w = Some 0 \<and> \<not> ws_patch_truncated w)
    \<and> (ws_status w = WS_UNKNOWN \<longleftrightarrow> ws_failure_code w = Some WORKER_CRASH)"
proof -
  have files: "canonical_files (ws_changed_files w) = Inr (ws_changed_files w)"
    and scope: "ws_failure_code w = Some OUT_OF_SCOPE_CHANGES
      \<or> set (ws_changed_files w) \<subseteq> set (wr_allowed_affected_files r)"
    and id: "ws_execution_request_id w = wr_execution_request_id r"
    and patch: "(case ws_patch w of None \<Rightarrow> Inr () | Some p \<Rightarrow> validate_patch w p) = Inr ()"
    and outcome: "validate_outcome w = Inr ()"
    using assms by (auto simp: validate_worker_result_def res_simps list_all_iff)
  from canonical_files_Inr [OF files] have canonical: "sorted (ws_changed_files w)"
    "distinct (ws_changed_files w)" "length (ws_changed_files w) \<le> max_changed_files"
    "list_all confined_file (ws_changed_files w)" by simp_all
  have "(case ws_patch w of None \<Rightarrow> True | Some p \<Rightarrow> bo_truncated p = ws_patch_truncated w
         \<and> (bo_truncated p \<or> ws_patch_digest w = Some (patch_digest_of (bo_text p))
              \<and> ws_patch_size_bytes w = Some (int (length (utf8 (bo_text p))))))"
    using patch by (cases "ws_patch w") (auto simp: validate_patch_def res_simps split: if_splits)
  moreover have "(ws_status w = WS_SUCCEEDED \<longleftrightarrow> ws_failure_code w = None)
    \<and> (ws_status w \<noteq> WS_SUCCEEDED \<or> ws_return_code w = Some 0 \<and> \<not> ws_patch_truncated w)
    \<and> (ws_status w = WS_UNKNOWN \<longleftrightarrow> ws_failure_code w = Some WORKER_CRASH)"
    using outcome by (auto simp: validate_outcome_def res_simps split: if_splits)
  ultimately show ?thesis using id canonical scope by blast
qed

section \<open>Concrete messages\<close>

lemma worker_digest_shape_digest: "worker_digest_shape (worker_request_digest r)"
  using sha256_hexdigest_hex
  by (simp add: worker_digest_shape_def worker_request_digest_def versioned_digest_def starts_with_def
      worker_digest_prefix_def)

lemma validate_with_digest:
  "validate_worker_request False r = Inr () \<Longrightarrow> wr_request_digest r = worker_request_digest r \<Longrightarrow>
   validate_worker_request True r = Inr ()"
  by (simp add: validate_worker_request_def res_simps worker_digest_shape_digest)

lemma worker_digest_ignores_digest:
  "worker_request_digest (r\<lparr>wr_request_digest := d\<rparr>) = worker_request_digest r"
  by (simp add: worker_request_digest_def worker_payload_def)

lemma validate_ignores_digest:
  "validate_worker_request False (r\<lparr>wr_request_digest := d\<rparr>) = validate_worker_request False r"
  by (simp add: validate_worker_request_def validate_ids_def validate_operation_def)

lemma built_request_valid:
  "build_worker_request draft = Inr r \<Longrightarrow> validate_worker_request True r = Inr ()"
  by (auto simp: build_worker_request_def res_simps Let_def worker_digest_ignores_digest
      validate_ignores_digest intro!: validate_with_digest)

definition sample_worker_draft :: worker_request where
  "sample_worker_draft = \<lparr>wr_schema_version = 1, wr_execution_request_id = ''exec-1'',
     wr_workflow_id = ''wf-1'', wr_candidate_id = ''cand-1'', wr_candidate_fingerprint = ''fp-1'',
     wr_plan_id = ''plan-1'', wr_plan_fingerprint = ''pfp-1'',
     wr_execution_intent = rc1_validation_smoke, wr_repository_token = ''repo'',
     wr_expected_repository_head = replicate 40 CHR ''a'', wr_repository_branch = Some ''main'',
     wr_argv = rc1_smoke_argv, wr_working_directory = ''.'',
     wr_allowed_affected_files = [rc1_smoke_target], wr_timeout_seconds = PyInt 600,
     wr_request_digest = []\<rparr>"

definition sample_worker_request :: worker_request where
  "sample_worker_request =
     sample_worker_draft\<lparr>wr_request_digest := worker_request_digest sample_worker_draft\<rparr>"

lemma sample_worker_request_valid: "validate_worker_request True sample_worker_request = Inr ()"
proof (rule validate_with_digest)
  have files: "canonical_files [rc1_smoke_target] = Inr [rc1_smoke_target]" by code_simp
  have wd: "validate_worker_path ''working directory'' True ''.'' = Inr ''.''" by code_simp
  have ids: "validate_ids sample_worker_draft = Inr ()" by code_simp
  have rest: "worker_id ''repo''" "worker_head (replicate 40 CHR ''a'')" "worker_branch ''main''"
    by code_simp+
  have "validate_worker_request False sample_worker_draft = Inr ()"
    using files wd ids rest
    by (simp add: validate_worker_request_def validate_operation_def sample_worker_draft_def
        worker_schema_version_def rc1_smoke_argv_def)
  then show "validate_worker_request False sample_worker_request = Inr ()"
    by (simp only: sample_worker_request_def validate_ignores_digest)
  show "wr_request_digest sample_worker_request = worker_request_digest sample_worker_request"
    by (simp add: sample_worker_request_def worker_digest_ignores_digest)
qed

theorem worker_digest_identifies_request_witness:
  "sample_worker_request = sample_worker_request
   \<or> digest_collision (worker_bytes sample_worker_request) (worker_bytes sample_worker_request)"
  by (rule worker_digest_identifies_request [OF sample_worker_request_valid sample_worker_request_valid])
    (simp_all add: sample_worker_request_def sample_worker_draft_def)

definition silent_output :: bounded_output where
  "silent_output = \<lparr>bo_text = [], bo_truncated = False, bo_original_bytes = None\<rparr>"

definition sample_attestation :: worker_attestation where
  "sample_attestation = \<lparr>wa_runtime_uid = 10001, wa_readonly_rootfs = True,
     wa_no_new_privileges = True, wa_effective_capabilities = ''0000'',
     wa_sandbox_profile = ''docker-default''\<rparr>"

definition sample_worker_result :: worker_result where
  "sample_worker_result = \<lparr>ws_schema_version = 1, ws_execution_request_id = ''exec-1'',
     ws_status = WS_SUCCEEDED, ws_return_code = Some 0, ws_stdout = silent_output,
     ws_stderr = silent_output, ws_changed_files = [rc1_smoke_target],
     ws_patch_digest = Some (patch_digest_of []), ws_patch_size_bytes = Some 0,
     ws_patch_truncated = False, ws_duration_seconds = PyFloat False 1 ''5'',
     ws_failure_code = None, ws_workspace_head = None, ws_attestation = sample_attestation,
     ws_base_repository_head = None, ws_patch = Some silent_output\<rparr>"

lemma sample_worker_result_valid:
  "validate_worker_result (Some sample_worker_request) sample_worker_result = Inr ()"
proof -
  have files: "canonical_files [rc1_smoke_target] = Inr [rc1_smoke_target]" by code_simp
  have att: "validate_attestation sample_attestation = Inr ()" by code_simp
  have id: "validate_id ''exec-1'' ''execution request id'' = Inr ()" by code_simp
  have shape: "patch_digest_shape (patch_digest_of [])"
    using sha256_hexdigest_hex by (simp add: patch_digest_shape_def patch_digest_of_def starts_with_def)
  show ?thesis
    using files att id shape
    by (simp add: validate_worker_result_def sample_worker_result_def sample_worker_request_def
        sample_worker_draft_def worker_schema_version_def validate_output_def silent_output_def
        utf8_def Let_def max_text_bytes_def max_patch_bytes_def validate_patch_def optional_head_def
        validate_outcome_def)
qed

theorem worker_result_sound_witness:
  "set (ws_changed_files sample_worker_result) \<subseteq> set (wr_allowed_affected_files sample_worker_request)"
  using worker_result_sound [OF sample_worker_result_valid] by (simp add: sample_worker_result_def)

end
