(* ===== verification/ActionRequest.thy ===== *)
theory ActionRequest
  imports Approval DispatchContract
begin

text \<open>
  Operational plans and action requests of the Agent: the models and digests
  (\<open>candidate_planning/models.py\<close>), the plan fingerprint (\<open>operational.py\<close>), the closed
  translation (\<open>operational_translation.py\<close>) and the message the core client sends
  (\<open>core_client/client.py\<close>). The verification specification and the datetimes are those of
  the dispatch contract; an approval keeps instants only, which are sent in UTC.
\<close>

section \<open>Models\<close>

datatype workflow_effect_kind = EFFECT_REPOSITORY_CHANGE | EFFECT_OPERATIONAL_ACTION

fun effect_kind_text :: "workflow_effect_kind \<Rightarrow> string" where
  "effect_kind_text EFFECT_REPOSITORY_CHANGE = ''repository_change''"
| "effect_kind_text EFFECT_OPERATIONAL_ACTION = ''operational_action''"

record operational_plan =
  opl_identifier :: string
  opl_session_id :: string
  opl_candidate_id :: string
  opl_candidate_fingerprint :: string
  opl_effect_kind :: workflow_effect_kind
  opl_execution_intent :: string
  opl_provider_id :: string
  opl_resource_id :: string
  opl_resource_type :: string
  opl_target_fingerprint :: string
  opl_target_version :: "string option"
  opl_expected_pre_state :: string
  opl_intended_action :: string
  opl_disruption_scope :: string
  opl_verification :: verification_specification
  opl_failure_considerations :: "string list"
  opl_evidence_ids :: "string list"
  opl_created_at :: datetime
  opl_revalidated_candidate_fingerprint :: string

definition operational_plan_post_init :: "operational_plan \<Rightarrow> operational_plan res" where
  "operational_plan_post_init p =
     and_then (require (opl_effect_kind p = EFFECT_OPERATIONAL_ACTION)
       (ValueError ''operational plans require operational_action effect kind'')) (\<lambda>_. Inr p)"

record action_request =
  oar_request_id :: string
  oar_request_digest :: string
  oar_idempotency_key :: string
  oar_workflow_session_id :: string
  oar_candidate_planning_session_id :: string
  oar_candidate_id :: string
  oar_candidate_fingerprint :: string
  oar_candidate_plan_id :: string
  oar_candidate_plan_fingerprint :: string
  oar_effect_kind :: workflow_effect_kind
  oar_execution_intent :: string
  oar_provider_id :: string
  oar_resource_id :: string
  oar_resource_type :: string
  oar_provider_action_id :: string
  oar_target_fingerprint :: string
  oar_target_version :: "string option"
  oar_disruption_scope :: string
  oar_evidence_ids :: "string list"
  oar_expected_pre_state :: string
  oar_verification :: verification_specification
  oar_expires_at :: datetime
  oar_translator_version :: string
  oar_generated_at :: datetime

section \<open>Digests\<close>

definition agent_verification_digest_version :: string where
  "agent_verification_digest_version = ''operational-verification-digest-v1''"

definition agent_request_digest_version :: string where
  "agent_request_digest_version = ''operational-action-request-digest-v1''"

definition agent_idempotency_key_version :: string where
  "agent_idempotency_key_version = ''operational-action-execution-key-v1''"

definition agent_verification_digest :: "verification_specification \<Rightarrow> string" where
  "agent_verification_digest v = versioned_digest agent_verification_digest_version (JObj
     [(''expected_post_state'', JStr (ovs_expected_post_state v)),
      (''health_requirement'', JStr (ovs_health_requirement v)),
      (''identity_fingerprint'', JStr (ovs_identity_fingerprint v)),
      (''pre_state'', JStr (ovs_pre_state v)),
      (''unknown_outcome_policy'', JStr (ovs_unknown_outcome_policy v)),
      (''version'', JStr agent_verification_digest_version)])"

definition action_payload :: "action_request \<Rightarrow> (string \<times> json) list" where
  "action_payload a =
     [(''candidate_fingerprint'', JStr (oar_candidate_fingerprint a)),
      (''candidate_id'', JStr (oar_candidate_id a)),
      (''candidate_plan_fingerprint'', JStr (oar_candidate_plan_fingerprint a)),
      (''candidate_plan_id'', JStr (oar_candidate_plan_id a)),
      (''candidate_planning_session_id'', JStr (oar_candidate_planning_session_id a)),
      (''disruption_scope'', JStr (oar_disruption_scope a)),
      (''effect_kind'', JStr (effect_kind_text (oar_effect_kind a))),
      (''evidence_ids'', JArr (map JStr (sort (oar_evidence_ids a)))),
      (''execution_intent'', JStr (oar_execution_intent a)),
      (''expected_pre_state'', JStr (oar_expected_pre_state a)),
      (''expires_at'', JStr (isoformat (oar_expires_at a))),
      (''generated_at'', JStr (isoformat (oar_generated_at a))),
      (''provider_action_id'', JStr (oar_provider_action_id a)),
      (''provider_id'', JStr (oar_provider_id a)),
      (''request_id'', JStr (oar_request_id a)),
      (''resource_id'', JStr (oar_resource_id a)),
      (''resource_type'', JStr (oar_resource_type a)),
      (''target_fingerprint'', JStr (oar_target_fingerprint a)),
      (''target_version'', json_text (oar_target_version a)),
      (''translator_version'', JStr (oar_translator_version a)),
      (''verification_digest'', JStr (agent_verification_digest (oar_verification a))),
      (''version'', JStr agent_request_digest_version),
      (''workflow_session_id'', JStr (oar_workflow_session_id a))]"

definition action_request_digest :: "action_request \<Rightarrow> string" where
  "action_request_digest a = versioned_digest agent_request_digest_version (JObj (action_payload a))"

definition action_idempotency_key :: "string \<Rightarrow> string \<Rightarrow> string" where
  "action_idempotency_key request_id request_digest =
     versioned_digest agent_idempotency_key_version (JObj
       [(''request_digest'', JStr request_digest), (''request_id'', JStr request_id),
        (''version'', JStr agent_idempotency_key_version)])"

definition operational_plan_fingerprint_version :: string where
  "operational_plan_fingerprint_version = ''operational-plan-fingerprint-v1''"

definition operational_plan_fingerprint :: "operational_plan \<Rightarrow> string" where
  "operational_plan_fingerprint p = versioned_digest operational_plan_fingerprint_version (JObj
     [(''candidate_fingerprint'', JStr (opl_candidate_fingerprint p)),
      (''candidate_id'', JStr (opl_candidate_id p)),
      (''created_at'', JStr (isoformat (opl_created_at p))),
      (''disruption_scope'', JStr (opl_disruption_scope p)),
      (''effect_kind'', JStr (effect_kind_text (opl_effect_kind p))),
      (''evidence_ids'', JArr (map JStr (sort (opl_evidence_ids p)))),
      (''execution_intent'', JStr (opl_execution_intent p)),
      (''expected_pre_state'', JStr (opl_expected_pre_state p)),
      (''failure_considerations'', JArr (map JStr (sort (opl_failure_considerations p)))),
      (''identifier'', JStr (opl_identifier p)),
      (''intended_action'', JStr (opl_intended_action p)),
      (''provider_id'', JStr (opl_provider_id p)),
      (''resource_id'', JStr (opl_resource_id p)),
      (''resource_type'', JStr (opl_resource_type p)),
      (''revalidated_candidate_fingerprint'', JStr (opl_revalidated_candidate_fingerprint p)),
      (''session_id'', JStr (opl_session_id p)),
      (''target_fingerprint'', JStr (opl_target_fingerprint p)),
      (''target_version'', json_text (opl_target_version p)),
      (''verification'', JObj
        [(''expected_post_state'', JStr (ovs_expected_post_state (opl_verification p))),
         (''health_requirement'', JStr (ovs_health_requirement (opl_verification p))),
         (''identity_fingerprint'', JStr (ovs_identity_fingerprint (opl_verification p))),
         (''pre_state'', JStr (ovs_pre_state (opl_verification p))),
         (''unknown_outcome_policy'', JStr (ovs_unknown_outcome_policy (opl_verification p)))]),
      (''version'', JStr operational_plan_fingerprint_version)])"

section \<open>The closed translation\<close>

definition operational_translator_version :: string where
  "operational_translator_version = ''operational-action-translator-v1''"

definition translation_actions :: "string \<times> string \<times> string \<Rightarrow> string option" where
  "translation_actions = map_of [((''restart-service'', ''proxmox'', ''qemu''),
     ''proxmox-qemu-graceful-restart-v1'')]"

definition resolve_provider_action_id :: "string \<Rightarrow> string \<Rightarrow> string \<Rightarrow> string res" where
  "resolve_provider_action_id intent provider_id resource_type =
     (case translation_actions (intent, provider_id, resource_type) of
        None \<Rightarrow> Inl (ValueError ''unsupported operational translation combination'')
      | Some action \<Rightarrow> Inr action)"

text \<open>\<open>__post_init__\<close>: an instance is the value it returns, with the digest and key filled
  in when both were left empty.\<close>

definition action_request_post_init :: "action_request \<Rightarrow> action_request res" where
  "action_request_post_init a =
     and_then (require (oar_effect_kind a = EFFECT_OPERATIONAL_ACTION)
       (ValueError ''operational requests require operational_action effect kind'')) (\<lambda>_.
     and_then (resolve_provider_action_id (oar_execution_intent a) (oar_provider_id a)
         (oar_resource_type a)) (\<lambda>expected_action.
     and_then (require (oar_provider_action_id a = expected_action)
       (ValueError ''operational request action does not match closed translation'')) (\<lambda>_.
     and_then (require (\<not> blank (oar_target_fingerprint a))
       (ValueError ''operational request requires target fingerprint'')) (\<lambda>_.
     and_then (require (\<not> instant (oar_expires_at a) \<le> instant (oar_generated_at a))
       (ValueError ''operational request expiry must follow generation time'')) (\<lambda>_.
     let expected_digest = action_request_digest a;
         b = (if oar_request_digest a = [] \<and> oar_idempotency_key a = []
              then a\<lparr>oar_request_digest := expected_digest,
                oar_idempotency_key := action_idempotency_key (oar_request_id a) expected_digest\<rparr>
              else a) in
     and_then (require (oar_request_digest b = expected_digest)
       (ValueError ''operational request digest does not match immutable payload'')) (\<lambda>_.
     and_then (require (oar_idempotency_key b
         = action_idempotency_key (oar_request_id b) (oar_request_digest b))
       (ValueError ''operational request idempotency key does not match'')) (\<lambda>_.
     Inr b)))))))"

text \<open>\<open>value.rsplit(':', 1)[-1]\<close>\<close>

definition after_colon :: "string \<Rightarrow> string" where
  "after_colon s = last (split_on CHR '':'' s)"

definition translate_action_request ::
  "operational_plan \<Rightarrow> string \<Rightarrow> datetime \<Rightarrow> datetime \<Rightarrow> string option \<Rightarrow> action_request res" where
  "translate_action_request p workflow_session_id generated_at expires_at supplied =
     and_then (require (opl_effect_kind p = EFFECT_OPERATIONAL_ACTION)
       (ValueError ''operational translation requires operational_action effect kind'')) (\<lambda>_.
     and_then (require (\<not> blank (opl_target_fingerprint p))
       (ValueError ''operational translation requires authoritative target fingerprint'')) (\<lambda>_.
     and_then (resolve_provider_action_id (opl_execution_intent p) (opl_provider_id p)
         (opl_resource_type p)) (\<lambda>provider_action_id.
     and_then (require (case supplied of None \<Rightarrow> True | Some s \<Rightarrow> s = provider_action_id)
       (ValueError ''provider action id must match closed translation'')) (\<lambda>_.
     let plan_fingerprint = operational_plan_fingerprint p in
     action_request_post_init
       \<lparr>oar_request_id = ''operational-action-'' @ after_colon plan_fingerprint,
        oar_request_digest = [], oar_idempotency_key = [],
        oar_workflow_session_id = workflow_session_id,
        oar_candidate_planning_session_id = opl_session_id p,
        oar_candidate_id = opl_candidate_id p,
        oar_candidate_fingerprint = opl_candidate_fingerprint p,
        oar_candidate_plan_id = opl_identifier p,
        oar_candidate_plan_fingerprint = plan_fingerprint,
        oar_effect_kind = EFFECT_OPERATIONAL_ACTION,
        oar_execution_intent = opl_execution_intent p, oar_provider_id = opl_provider_id p,
        oar_resource_id = opl_resource_id p, oar_resource_type = opl_resource_type p,
        oar_provider_action_id = provider_action_id,
        oar_target_fingerprint = opl_target_fingerprint p,
        oar_target_version = opl_target_version p,
        oar_disruption_scope = opl_disruption_scope p, oar_evidence_ids = opl_evidence_ids p,
        oar_expected_pre_state = opl_expected_pre_state p,
        oar_verification = opl_verification p, oar_expires_at = expires_at,
        oar_translator_version = operational_translator_version,
        oar_generated_at = generated_at\<rparr>))))"

section \<open>The message to Core\<close>

definition approval_binding_of ::
  "approval_request \<Rightarrow> operational_approval_metadata \<Rightarrow> approval_binding" where
  "approval_binding_of r m =
     \<lparr>oab_approval_request_id = ap_identifier r,
      oab_action_request_id = oam_action_request_id m,
      oab_action_request_digest = oam_action_request_digest m,
      oab_candidate_id = oam_candidate_id m,
      oab_candidate_fingerprint = oam_candidate_fingerprint m,
      oab_operational_plan_fingerprint = oam_operational_plan_fingerprint m,
      oab_provider_id = oam_provider_id m, oab_resource_id = oam_resource_id m,
      oab_resource_type = oam_resource_type m,
      oab_target_fingerprint = oam_target_fingerprint m,
      oab_target_version = oam_target_version m,
      oab_operation_intent = oam_operation_intent m,
      oab_disruption_scope = oam_disruption_scope m,
      oab_verification_digest = oam_verification_digest m,
      oab_generated_at = Datetime (oam_generated_at m) 0,
      oab_expires_at = Datetime (oam_expires_at m) 0\<rparr>"

definition dispatch_message :: "action_request \<Rightarrow> approval_result \<Rightarrow> dispatch_request res" where
  "dispatch_message a approval =
     and_then (require (approved approval)
       (AtlasCoreClientError ''Operational dispatch requires exact approval.'')) (\<lambda>_.
     case ap_operational_metadata (ad_request (decision approval)) of
       None \<Rightarrow> Inl (AtlasCoreClientError ''Operational approval metadata is unavailable.'')
     | Some metadata \<Rightarrow> Inr
       \<lparr>odr_schema_version = 1, odr_request_id = oar_request_id a,
        odr_request_digest = oar_request_digest a,
        odr_idempotency_key = oar_idempotency_key a,
        odr_workflow_session_id = oar_workflow_session_id a,
        odr_candidate_planning_session_id = oar_candidate_planning_session_id a,
        odr_candidate_id = oar_candidate_id a,
        odr_candidate_fingerprint = oar_candidate_fingerprint a,
        odr_candidate_plan_id = oar_candidate_plan_id a,
        odr_candidate_plan_fingerprint = oar_candidate_plan_fingerprint a,
        odr_effect_kind = effect_kind_text (oar_effect_kind a),
        odr_execution_intent = oar_execution_intent a, odr_provider_id = oar_provider_id a,
        odr_resource_id = oar_resource_id a, odr_resource_type = oar_resource_type a,
        odr_provider_action_id = oar_provider_action_id a,
        odr_target_fingerprint = oar_target_fingerprint a,
        odr_target_version = oar_target_version a,
        odr_expected_pre_state = oar_expected_pre_state a,
        odr_disruption_scope = oar_disruption_scope a, odr_evidence_ids = oar_evidence_ids a,
        odr_verification = oar_verification a, odr_generated_at = oar_generated_at a,
        odr_expires_at = oar_expires_at a, odr_translator_version = oar_translator_version a,
        odr_approval = approval_binding_of (ad_request (decision approval)) metadata\<rparr>)"

section \<open>Agent and Core compute the same digests\<close>

lemma agent_versions:
  "agent_verification_digest_version = verification_digest_version"
  "agent_request_digest_version = request_digest_version"
  "agent_idempotency_key_version = idempotency_key_version"
  by (simp_all add: agent_verification_digest_version_def verification_digest_version_def
      agent_request_digest_version_def request_digest_version_def
      agent_idempotency_key_version_def idempotency_key_version_def)

lemma agent_verification_digest_eq:
  "agent_verification_digest v = operational_verification_digest v"
  by (simp add: agent_verification_digest_def operational_verification_digest_def
      verification_payload_def agent_versions)

lemma action_idempotency_key_eq: "action_idempotency_key i d = operational_idempotency_key i d"
  by (simp add: action_idempotency_key_def operational_idempotency_key_def idempotency_payload_def
      agent_versions)

lemma dispatch_message_digest:
  "dispatch_message a approval = Inr r \<Longrightarrow> operational_request_digest r = action_request_digest a"
  by (auto simp: dispatch_message_def res_simps operational_request_digest_def
      action_request_digest_def request_payload_def action_payload_def agent_versions
      agent_verification_digest_eq split: option.splits)

lemma translation_actions_eq: "translation_actions = closed_action"
  by (simp add: translation_actions_def closed_action_def)

lemma action_payload_ignores_digest:
  "action_request_digest (a\<lparr>oar_request_digest := d, oar_idempotency_key := k\<rparr>)
     = action_request_digest a"
  by (simp add: action_request_digest_def action_payload_def)

lemma action_request_post_init_Inr:
  assumes "action_request_post_init a = Inr b"
  shows "oar_effect_kind b = EFFECT_OPERATIONAL_ACTION
    \<and> closed_action (oar_execution_intent b, oar_provider_id b, oar_resource_type b)
        = Some (oar_provider_action_id b)
    \<and> \<not> blank (oar_target_fingerprint b)
    \<and> instant (oar_generated_at b) < instant (oar_expires_at b)
    \<and> oar_request_digest b = action_request_digest b
    \<and> oar_idempotency_key b = action_idempotency_key (oar_request_id b) (oar_request_digest b)
    \<and> action_request_digest b = action_request_digest a
    \<and> b = a\<lparr>oar_request_digest := oar_request_digest b, oar_idempotency_key := oar_idempotency_key b\<rparr>"
  using assms
  by (auto simp: action_request_post_init_def res_simps Let_def resolve_provider_action_id_def
      translation_actions_eq action_payload_ignores_digest split: option.splits if_splits)

lemma action_request_post_init_stable:
  "action_request_post_init a = Inr b \<Longrightarrow> action_request_post_init b = Inr b"
  by (drule action_request_post_init_Inr)
    (simp add: action_request_post_init_def res_simps Let_def resolve_provider_action_id_def
      translation_actions_eq versioned_digest_def action_request_digest_def)

end
