(* ===== verification/Execution.thy ===== *)
theory Execution
  imports Verification WorkerContracts
begin

text \<open>
  The Agent's execution backends (\<open>execution/backends.py\<close>, \<open>execution/engine.py\<close>): the local
  one runs a command the tool policy lets through and classifies its outcome; the worker one
  sends an exact, digested request to the isolated worker and maps what comes back. What the
  transport delivers is a parameter: a reply is the fields the code reads from the decoded
  object, the result field once \<open>WorkerExecutionResult.from_dict\<close> has parsed its shape.
\<close>

section \<open>Results\<close>

record execution_result =
  xr_request_id :: string
  xr_checkpoint_id :: string
  xr_argv :: "string list"
  xr_working_directory :: path
  xr_status :: execution_status
  xr_return_code :: "int option"
  xr_stdout :: string
  xr_stderr :: string
  xr_duration_seconds :: rat
  xr_error :: "string option"
  xr_worker_result :: "worker_result option"

section \<open>The local backend\<close>

definition classify_outcome :: "runner_outcome \<Rightarrow> execution_status \<times> string option" where
  "classify_outcome outcome =
     (if ro_timed_out outcome then (Timed_Out, Some ''Execution timed out'')
      else if ro_launch_error outcome \<noteq> None then (Launch_Failed, ro_launch_error outcome)
      else if ro_return_code outcome = Some 0 then (Succeeded, None)
      else (Failed, None))"

definition execute_local :: "(path \<Rightarrow> path) \<Rightarrow> 'w machine \<Rightarrow> (string \<rightharpoonup> string) \<Rightarrow> string list
    \<Rightarrow> execution_request \<Rightarrow> ('w, execution_result) action" where
  "execute_local resolve m environ allowed request w =
     (case validate_command resolve allowed request of
        PolicyViolation message \<Rightarrow> (Inl (ExecutionValidationError message), w)
      | Allowed c \<Rightarrow>
          let environment = check_environment environ (al_environment c);
              (started_at, w1) = read_clock m w;
              (outcome, w2) = run_command m (al_argv c) (al_working_directory c) environment
                (al_timeout_seconds c) w1;
              (finished_at, w3) = read_clock m w2
          in (Inr \<lparr>xr_request_id = al_identifier c,
                xr_checkpoint_id = plan_checkpoint_id (al_plan c), xr_argv = al_argv c,
                xr_working_directory = al_working_directory c,
                xr_status = fst (classify_outcome outcome),
                xr_return_code = ro_return_code outcome, xr_stdout = ro_stdout outcome,
                xr_stderr = ro_stderr outcome,
                xr_duration_seconds = max 0 (finished_at - started_at),
                xr_error = snd (classify_outcome outcome), xr_worker_result = None\<rparr>, w3))"

section \<open>The worker backend\<close>

record worker_context =
  wcx_workflow_id :: string
  wcx_candidate_id :: string
  wcx_candidate_fingerprint :: string
  wcx_plan_id :: string
  wcx_plan_fingerprint :: string
  wcx_expected_repository_head :: string
  wcx_repository_token :: string
  wcx_allowed_affected_files :: "string list"
  wcx_execution_intent :: string
  wcx_repository_branch :: "string option"
  wcx_working_directory :: string
  wcx_timeout_seconds :: py_number

text \<open>A finite number as the real it denotes.\<close>

fun number_value :: "py_number \<Rightarrow> rat" where
  "number_value (PyInt i) = of_int i"
| "number_value (PyFloat neg ip fd) =
     (if neg then - 1 else 1) * (of_nat ip + of_nat (text_nat fd) / 10 ^ length fd)"
| "number_value PyNonFinite = 0"

fun equals_number :: "rat \<Rightarrow> py_number \<Rightarrow> bool" where
  "equals_number t PyNonFinite = False"
| "equals_number t n \<longleftrightarrow> t = number_value n"

definition validate_context ::
  "(path \<Rightarrow> path) \<Rightarrow> string \<Rightarrow> execution_request \<Rightarrow> worker_context \<Rightarrow> unit res" where
  "validate_context resolve repository_token request cx =
     and_then (require (wcx_repository_token cx = repository_token)
       (ExecutionValidationError ''Worker repository token mismatch'')) (\<lambda>_.
     and_then (require (Some (wcx_expected_repository_head cx) = plan_head_commit (er_plan request)
         \<and> wcx_repository_branch cx = plan_branch (er_plan request))
       (ExecutionValidationError ''Worker repository subject mismatch'')) (\<lambda>_.
     and_then (require (set (wcx_allowed_affected_files cx)
         = set (map path_text (plan_affected_files (er_plan request))))
       (ExecutionValidationError ''Worker affected files mismatch'')) (\<lambda>_.
     let base = resolve (plan_repository_root (er_plan request));
         working_directory = resolve_working_directory resolve base (er_working_directory request)
     in
     and_then (require (relative_to base working_directory
         \<and> resolve (join_path base (path_of (wcx_working_directory cx))) = working_directory)
       (ExecutionValidationError ''Worker working directory mismatch'')) (\<lambda>_.
     and_then (require (case er_timeout_seconds request of None \<Rightarrow> True
         | Some t \<Rightarrow> equals_number t (wcx_timeout_seconds cx))
       (ExecutionValidationError ''Worker timeout mismatch'')) (\<lambda>_.
     require (er_environment request = [])
       (ExecutionValidationError ''Worker environment overrides are unsupported''))))))"

definition prepare_worker_request :: "(path \<Rightarrow> path) \<Rightarrow> string \<Rightarrow> execution_request
    \<Rightarrow> worker_context option \<Rightarrow> worker_request res" where
  "prepare_worker_request resolve repository_token request context =
     (case context of
        None \<Rightarrow> Inl (ExecutionValidationError ''Worker execution context is required'')
      | Some cx \<Rightarrow>
          and_then (validate_context resolve repository_token request cx) (\<lambda>_.
          build_worker_request
            \<lparr>wr_schema_version = worker_schema_version,
             wr_execution_request_id = er_identifier request,
             wr_workflow_id = wcx_workflow_id cx, wr_candidate_id = wcx_candidate_id cx,
             wr_candidate_fingerprint = wcx_candidate_fingerprint cx,
             wr_plan_id = wcx_plan_id cx, wr_plan_fingerprint = wcx_plan_fingerprint cx,
             wr_execution_intent = wcx_execution_intent cx,
             wr_repository_token = wcx_repository_token cx,
             wr_expected_repository_head = wcx_expected_repository_head cx,
             wr_repository_branch = wcx_repository_branch cx, wr_argv = er_argv request,
             wr_working_directory = wcx_working_directory cx,
             wr_allowed_affected_files = wcx_allowed_affected_files cx,
             wr_timeout_seconds = wcx_timeout_seconds cx, wr_request_digest = []\<rparr>))"

text \<open>A decoded reply. The state is compared by membership in a set, which raises for a list or an
  object; \<open>Rejected\<close> is a result object that \<open>WorkerExecutionResult.from_dict\<close> raises on.\<close>

datatype reply_state = StateMissing | StateText string | StateScalar | StateUnhashable

datatype raw_result = NoResult | Rejected exn | Parsed worker_result

datatype worker_reply =
    NotAnObject
  | Reply (reply_digest: "string option") (reply_state: reply_state) (reply_result: raw_result)

record 'w worker_client =
  wk_submit :: "worker_request \<Rightarrow> 'w \<Rightarrow> worker_reply option \<times> 'w"
  wk_get_result :: "string \<Rightarrow> 'w \<Rightarrow> worker_reply option \<times> 'w"

definition execution_failure ::
  "execution_request \<Rightarrow> execution_status \<Rightarrow> string \<Rightarrow> string \<Rightarrow> execution_result" where
  "execution_failure request status code message =
     \<lparr>xr_request_id = er_identifier request,
      xr_checkpoint_id = plan_checkpoint_id (er_plan request), xr_argv = er_argv request,
      xr_working_directory = er_working_directory request, xr_status = status,
      xr_return_code = None, xr_stdout = [], xr_stderr = [], xr_duration_seconds = 0,
      xr_error = Some (code @ '': '' @ message), xr_worker_result = None\<rparr>"

definition worker_unknown :: "execution_request \<Rightarrow> execution_result" where
  "worker_unknown request = execution_failure request Unknown ''worker_outcome_unknown''
     ''Worker outcome is unknown. Check the original request; do not resubmit.''"

fun failure_text :: "worker_failure \<Rightarrow> string" where
  "failure_text STALE_REPOSITORY = ''stale_repository''"
| "failure_text INVALID_REQUEST = ''invalid_request''"
| "failure_text INVALID_ARGV = ''invalid_argv''"
| "failure_text SANDBOX_UNAVAILABLE = ''sandbox_unavailable''"
| "failure_text AUTH_UNAVAILABLE = ''auth_unavailable''"
| "failure_text WORKER_TIMEOUT = ''timeout''"
| "failure_text CODEX_FAILED = ''codex_failed''"
| "failure_text OUT_OF_SCOPE_CHANGES = ''out_of_scope_changes''"
| "failure_text NO_COMMITTABLE_CHANGES = ''no_committable_changes''"
| "failure_text PATCH_TOO_LARGE = ''patch_too_large''"
| "failure_text DUPLICATE_REQUEST = ''duplicate_request''"
| "failure_text WORKER_UNAVAILABLE = ''worker_unavailable''"
| "failure_text WORKER_CRASH = ''worker_crash''"

definition mapped_status :: "worker_result \<Rightarrow> execution_status" where
  "mapped_status result =
     (if ws_status result = WS_SUCCEEDED then Succeeded
      else if ws_status result = WS_UNKNOWN then Unknown
      else if ws_failure_code result = Some WORKER_TIMEOUT then Timed_Out
      else if ws_failure_code result \<in> set [Some WORKER_UNAVAILABLE, Some WORKER_CRASH]
      then Launch_Failed
      else Failed)"

definition map_worker_result :: "execution_request \<Rightarrow> worker_result \<Rightarrow> execution_result" where
  "map_worker_result request result =
     \<lparr>xr_request_id = er_identifier request,
      xr_checkpoint_id = plan_checkpoint_id (er_plan request), xr_argv = er_argv request,
      xr_working_directory = er_working_directory request, xr_status = mapped_status result,
      xr_return_code = ws_return_code result, xr_stdout = bo_text (ws_stdout result),
      xr_stderr = bo_text (ws_stderr result),
      xr_duration_seconds = number_value (ws_duration_seconds result),
      xr_error = map_option failure_text (ws_failure_code result),
      xr_worker_result = Some result\<rparr>"

text \<open>The checks under \<open>try\<close>, and what its handler catches.\<close>

definition decoding_error :: "exn \<Rightarrow> bool" where
  "decoding_error e \<longleftrightarrow> (case e of TypeError m \<Rightarrow> True | ValueError m \<Rightarrow> True | KeyError m \<Rightarrow> True | _ \<Rightarrow> False)"

definition check_reply_result ::
  "worker_request \<Rightarrow> string \<Rightarrow> worker_result \<Rightarrow> worker_result res" where
  "check_reply_result worker_request state result =
     and_then (validate_worker_result None result) (\<lambda>_.
     and_then (validate_worker_result (Some worker_request) result) (\<lambda>_.
     and_then (require (\<not> (state = ''failed_terminal'' \<and> ws_status result = WS_SUCCEEDED))
       (ValueError ''worker terminal state mismatch'')) (\<lambda>_.
     and_then (require (ws_base_repository_head result
         \<in> set [None, Some (wr_expected_repository_head worker_request)])
       (ValueError ''worker result base repository head mismatch'')) (\<lambda>_.
     and_then (require (\<not> (ws_changed_files result \<noteq> []
         \<and> \<not> list_all (\<lambda>f. f \<in> set (wr_allowed_affected_files worker_request)) (ws_changed_files result)
         \<and> ws_failure_code result = None))
       (ValueError ''worker result changed files exceed approved scope'')) (\<lambda>_.
     Inr result)))))"

fun decode_response ::
  "execution_request \<Rightarrow> worker_request \<Rightarrow> worker_reply \<Rightarrow> execution_result res" where
  "decode_response request worker_request NotAnObject = Inr (worker_unknown request)"
| "decode_response request worker_request (Reply digest state raw) =
     (if digest \<noteq> Some (wr_request_digest worker_request) then Inr (worker_unknown request)
      else case state of
        StateUnhashable \<Rightarrow> Inl (TypeError ''unhashable type'')
      | StateText s \<Rightarrow>
          if s \<notin> set [''completed'', ''failed_terminal''] then Inr (worker_unknown request)
          else if raw = NoResult then Inr (worker_unknown request)
          else (case (case raw of Parsed result \<Rightarrow> check_reply_result worker_request s result
                | Rejected e \<Rightarrow> Inl e | NoResult \<Rightarrow> Inl (ValueError [])) of
              Inl e \<Rightarrow> if decoding_error e then Inr (worker_unknown request) else Inl e
            | Inr r \<Rightarrow> Inr (map_worker_result request r))
      | _ \<Rightarrow> Inr (worker_unknown request))"

definition execute_worker :: "(path \<Rightarrow> path) \<Rightarrow> 'w worker_client \<Rightarrow> string \<Rightarrow> execution_request
    \<Rightarrow> worker_context option \<Rightarrow> ('w, execution_result) action" where
  "execute_worker resolve client repository_token request context =
     seq (lift (prepare_worker_request resolve repository_token request context)) (\<lambda>wr. \<lambda>w.
     case wk_submit client wr w of
       (None, w') \<Rightarrow> (Inr (worker_unknown request), w')
     | (Some reply, w') \<Rightarrow> (decode_response request wr reply, w'))"

definition reconcile_worker :: "(path \<Rightarrow> path) \<Rightarrow> 'w worker_client \<Rightarrow> string \<Rightarrow> execution_request
    \<Rightarrow> worker_context option \<Rightarrow> ('w, execution_result) action" where
  "reconcile_worker resolve client repository_token request context =
     seq (lift (prepare_worker_request resolve repository_token request context)) (\<lambda>wr. \<lambda>w.
     case wk_get_result client (wr_execution_request_id wr) w of
       (None, w') \<Rightarrow> (Inr (worker_unknown request), w')
     | (Some reply, w') \<Rightarrow> (decode_response request wr reply, w'))"

section \<open>The engine\<close>

datatype 'w execution_backend =
    LocalBackend "string list"
  | WorkerBackend "'w worker_client" string

definition execute :: "(path \<Rightarrow> path) \<Rightarrow> 'w machine \<Rightarrow> (string \<rightharpoonup> string) \<Rightarrow> 'w execution_backend
    \<Rightarrow> execution_request \<Rightarrow> worker_context option \<Rightarrow> ('w, execution_result) action" where
  "execute resolve m environ backend request context =
     (case backend of
        LocalBackend allowed \<Rightarrow> execute_local resolve m environ allowed request
      | WorkerBackend client token \<Rightarrow> execute_worker resolve client token request context)"

fun uses_worker :: "'w execution_backend \<Rightarrow> bool" where
  "uses_worker (LocalBackend allowed) = False"
| "uses_worker (WorkerBackend client token) = True"

section \<open>Properties\<close>

lemma mapped_Succeeded: "mapped_status result = Succeeded \<longleftrightarrow> ws_status result = WS_SUCCEEDED"
  by (simp add: mapped_status_def)

lemma worker_unknown_status [simp]: "xr_status (worker_unknown request) = Unknown"
  by (simp add: worker_unknown_def execution_failure_def)

lemma check_reply_result_Inr:
  "check_reply_result wr s result = Inr r \<longleftrightarrow>
     r = result \<and> validate_worker_result None result = Inr ()
     \<and> validate_worker_result (Some wr) result = Inr ()
     \<and> \<not> (s = ''failed_terminal'' \<and> ws_status result = WS_SUCCEEDED)
     \<and> (ws_base_repository_head result = None
        \<or> ws_base_repository_head result = Some (wr_expected_repository_head wr))
     \<and> (ws_failure_code result \<noteq> None
        \<or> set (ws_changed_files result) \<subseteq> set (wr_allowed_affected_files wr))"
  by (cases "ws_base_repository_head result")
    (auto simp: check_reply_result_def res_simps list_all_iff)

text \<open>The checks of a result raise nothing but what the handler catches.\<close>

definition caught :: "'a res \<Rightarrow> bool" where
  "caught m \<longleftrightarrow> (case m of Inl e \<Rightarrow> decoding_error e | Inr x \<Rightarrow> True)"

lemma caught_simps [simp]:
  "caught (Inr x)" "caught (Inl (ValueError t))" "caught (require b (ValueError t))"
  by (simp_all add: caught_def decoding_error_def require_def)

lemma caught_then: "caught m \<Longrightarrow> (\<And>x. caught (f x)) \<Longrightarrow> caught (and_then m f)"
  by (cases m) (simp_all add: caught_def)

lemma caught_traverse: "(\<And>x. caught (f x)) \<Longrightarrow> caught (traverse f xs)"
  by (induction xs) (simp_all add: caught_then)

lemma caught_files: "caught (canonical_files fs)"
  unfolding canonical_files_def
  by (intro caught_then caught_traverse) (simp_all add: validate_worker_path_def Let_def)

lemma caught_output: "caught (validate_output b)"
  unfolding validate_output_def Let_def by (intro caught_then) simp_all

lemma caught_result: "caught (validate_worker_result request w)"
proof -
  have "caught (case ws_patch w of None \<Rightarrow> Inr () | Some p \<Rightarrow> validate_patch w p)"
    unfolding validate_patch_def by (cases "ws_patch w") (auto intro!: caught_then caught_output)
  moreover have "caught (validate_attestation (ws_attestation w))" "caught (validate_outcome w)"
    unfolding validate_attestation_def validate_outcome_def by (auto intro!: caught_then)
  ultimately show ?thesis
    unfolding validate_worker_result_def validate_id_def
    by (intro caught_then caught_files caught_output) simp_all
qed

lemma caught_reply: "caught (check_reply_result wr s result)"
  unfolding check_reply_result_def by (intro caught_then caught_result) simp_all

text \<open>A result the worker is entitled to report for the very request: the reply names the digest
  of the request and a final state, and the result validates on its own and against the request,
  from the head the request names, and within the approved files unless it carries a failure code.\<close>

definition attests :: "worker_request \<Rightarrow> worker_reply \<Rightarrow> worker_result \<Rightarrow> bool" where
  "attests wr reply result \<longleftrightarrow>
     (case reply of
        Reply digest (StateText s) (Parsed r) \<Rightarrow> r = result \<and> digest = Some (wr_request_digest wr)
          \<and> (s = ''completed'' \<or> s = ''failed_terminal'' \<and> ws_status result \<noteq> WS_SUCCEEDED)
      | _ \<Rightarrow> False)
     \<and> validate_worker_result None result = Inr ()
     \<and> validate_worker_result (Some wr) result = Inr ()
     \<and> (ws_base_repository_head result = None
        \<or> ws_base_repository_head result = Some (wr_expected_repository_head wr))
     \<and> (ws_failure_code result \<noteq> None
        \<or> set (ws_changed_files result) \<subseteq> set (wr_allowed_affected_files wr))"

text \<open>How an attested result reads as an execution.\<close>

definition reports :: "execution_result \<Rightarrow> worker_result \<Rightarrow> bool" where
  "reports x result \<longleftrightarrow> xr_worker_result x = Some result
     \<and> xr_return_code x = ws_return_code result \<and> xr_stdout x = bo_text (ws_stdout result)
     \<and> xr_stderr x = bo_text (ws_stderr result)
     \<and> xr_status x = (case ws_status result of
          WS_SUCCEEDED \<Rightarrow> Succeeded
        | WS_UNKNOWN \<Rightarrow> Unknown
        | _ \<Rightarrow> (case ws_failure_code result of
            Some WORKER_TIMEOUT \<Rightarrow> Timed_Out
          | Some WORKER_UNAVAILABLE \<Rightarrow> Launch_Failed
          | Some WORKER_CRASH \<Rightarrow> Launch_Failed
          | _ \<Rightarrow> Failed))"

text \<open>A reply the decoding does not survive: for the very request, with a state that cannot be
  hashed, or with a result whose parsing raised something the handler does not catch.\<close>

definition undecodable :: "worker_request \<Rightarrow> worker_reply \<Rightarrow> bool" where
  "undecodable wr reply \<longleftrightarrow> reply_digest reply = Some (wr_request_digest wr)
     \<and> reply \<noteq> NotAnObject
     \<and> (reply_state reply = StateUnhashable
        \<or> reply_state reply \<in> {StateText ''completed'', StateText ''failed_terminal''}
          \<and> (case reply_result reply of Rejected e \<Rightarrow> \<not> decoding_error e | _ \<Rightarrow> False))"

text \<open>
  C31. A reply is read as a success only on a result of the very request: it carries the digest of the
  request, its state is completed, and the result, which succeeded, validates against the request on
  the expected base head; the execution then carries exactly that result. An attested result that did
  not succeed reads as unknown, timed out, not launched or failed, as its status and failure code say;
  every other reply that is read is an unknown outcome. The decoding raises exactly on a reply for the
  very request whose state cannot be hashed, or whose result object fails to parse with an exception
  other than \<open>TypeError\<close>, \<open>ValueError\<close> and \<open>KeyError\<close>.
\<close>

theorem worker_success_is_attested:
  "case decode_response request wr reply of
     Inl e \<Rightarrow> undecodable wr reply
   | Inr x \<Rightarrow> \<not> undecodable wr reply
       \<and> (xr_status x = Succeeded \<longleftrightarrow> (\<exists>result. attests wr reply result \<and> ws_status result = WS_SUCCEEDED
            \<and> reply_state reply = StateText ''completed'' \<and> xr_worker_result x = Some result))
       \<and> (if xr_worker_result x = None then x = worker_unknown request \<and> xr_status x = Unknown
            \<and> (\<nexists>result. attests wr reply result)
          else (\<exists>result. attests wr reply result \<and> reports x result))"
proof (cases reply)
  case NotAnObject
  then show ?thesis by (simp add: undecodable_def attests_def worker_unknown_def execution_failure_def)
next
  case (Reply digest state raw)
  show ?thesis
  proof (cases "digest = Some (wr_request_digest wr)
      \<and> (\<exists>s r. state = StateText s \<and> (s = ''completed'' \<or> s = ''failed_terminal'') \<and> raw = Parsed r)")
    case False
    then show ?thesis
      by (cases state; cases raw)
        (auto simp: Reply undecodable_def attests_def worker_unknown_def execution_failure_def)
  next
    case True
    then obtain s r where shape: "digest = Some (wr_request_digest wr)" "state = StateText s"
      "s = ''completed'' \<or> s = ''failed_terminal''" "raw = Parsed r" by blast
    have known: "\<not> undecodable wr reply" using shape by (simp add: Reply undecodable_def)
    have attests: "attests wr reply result \<longleftrightarrow> check_reply_result wr s r = Inr result" for result
      using shape by (auto simp: Reply attests_def check_reply_result_Inr)
    show ?thesis
    proof (cases "check_reply_result wr s r")
      case (Inl e)
      then have "decoding_error e" using caught_reply [of wr s r] by (simp add: caught_def)
      then have "decode_response request wr reply = Inr (worker_unknown request)"
        using shape Inl by (auto simp: Reply)
      then show ?thesis
        using Inl known by (simp add: attests worker_unknown_def execution_failure_def)
    next
      case (Inr result)
      then have "decode_response request wr reply = Inr (map_worker_result request result)"
        using shape by (auto simp: Reply)
      moreover have "reports (map_worker_result request result) result"
        by (auto simp: reports_def map_worker_result_def mapped_status_def
            split: worker_status.split option.split worker_failure.split)
      moreover have "ws_status result = WS_SUCCEEDED \<Longrightarrow> s = ''completed''"
        using Inr shape(3) by (auto simp: check_reply_result_Inr)
      ultimately show ?thesis
        using Inr known shape(2) unfolding attests
        by (auto simp: Reply map_worker_result_def mapped_Succeeded)
    qed
  qed
qed

text \<open>
  The local backend runs only what the tool policy lets through: it raises, and does not
  touch the world, exactly when the command is not accepted; otherwise it returns a result for
  the accepted command, whose status is success exactly when the command exited with code zero
  in time.
\<close>

theorem local_execution_is_policed:
  "case execute_local resolve m environ allowed request w of
     (Inl e, w') \<Rightarrow> \<not> command_accepted resolve allowed request \<and> w' = w
   | (Inr result, w') \<Rightarrow> command_accepted resolve allowed request
       \<and> xr_argv result = er_argv request
       \<and> xr_request_id result = strip (er_identifier request)
       \<and> xr_working_directory result = al_working_directory (accepted_command resolve request)
       \<and> 0 \<le> xr_duration_seconds result
       \<and> (let outcome = fst (run_command m (er_argv request) (xr_working_directory result)
             (check_environment environ (al_environment (accepted_command resolve request)))
             (er_timeout_seconds request) (snd (read_clock m w)))
          in (xr_status result = Succeeded) =
             (\<not> ro_timed_out outcome \<and> ro_launch_error outcome = None
               \<and> ro_return_code outcome = Some 0))"
proof (cases "validate_command resolve allowed request")
  case (PolicyViolation message)
  then show ?thesis
    using validate_command_Allowed [of resolve allowed request]
    by (auto simp: execute_local_def)
next
  case (Allowed c)
  then have "command_accepted resolve allowed request" and "c = accepted_command resolve request"
    by (simp_all add: validate_command_Allowed)
  then show ?thesis
    using Allowed
    by (simp add: execute_local_def Let_def case_prod_unfold accepted_command_def
        classify_outcome_def)
qed

end
