(* ===== verification/Repository.thy ===== *)
theory Repository
  imports Planning Digest
begin

text \<open>
  The Agent's access to git (\<open>app/repository\<close> of Atlas Agent): the read-only inspector
  (\<open>inspector.py\<close>) and the committer (\<open>committer.py\<close>). What a git command prints, and what
  the file system holds, are parameters that act on a world the model does not look into:
  \<open>wt_git base arguments\<close> is \<open>subprocess.run(["git", *arguments], cwd=base)\<close>. How the code
  reads the answers, what it refuses and which commands it issues in which order are modelled.
\<close>

section \<open>Models\<close>

record commit_request =
  cr_repository_root :: path
  cr_expected_branch :: "string option"
  cr_expected_head :: "string option"
  cr_paths :: "path list"
  cr_message :: string

record commit_result =
  cres_repository_root :: path
  cres_branch :: "string option"
  cres_parent_head :: "string option"
  cres_commit_sha :: string
  cres_message :: string
  cres_committed_files :: "path list"

record reviewed_change =
  rc_path :: path
  rc_status :: string
  rc_content_sha256 :: "string option"
  rc_deletion_marker :: "string option"
  rc_rename_source :: "path option"

record reviewed_change_evidence =
  rce_repository_root :: path
  rce_expected_branch :: "string option"
  rce_expected_head :: "string option"
  rce_reviewed_files :: "path list"
  rce_commit_message :: string
  rce_changes :: "reviewed_change list"
  rce_fingerprint :: string

datatype git_reply = GitCompleted (returncode: int) (git_stdout: string) (git_stderr: string)
  | GitOSError string | GitUndecodable

record 'w work_tree =
  wt_git :: "path \<Rightarrow> string list \<Rightarrow> 'w \<Rightarrow> git_reply \<times> 'w"
  wt_exists :: "path \<Rightarrow> 'w \<Rightarrow> bool"
  wt_is_dir :: "path \<Rightarrow> 'w \<Rightarrow> bool"
  wt_is_file :: "path \<Rightarrow> 'w \<Rightarrow> bool"
  wt_read_bytes :: "path \<Rightarrow> 'w \<Rightarrow> byte list option"
  wt_resolve :: "path \<Rightarrow> path"
  wt_expanduser :: "path \<Rightarrow> path"

section \<open>Text\<close>

text \<open>\<open>repr\<close> of a string.\<close>

definition repr_char :: "char \<Rightarrow> char \<Rightarrow> string" where
  "repr_char q c = (let n = of_char c :: nat in
     if c = q \<or> c = CHR 0x5C then [CHR 0x5C, c]
     else if n = 9 then [CHR 0x5C, CHR ''t'']
     else if n = 10 then [CHR 0x5C, CHR ''n'']
     else if n = 13 then [CHR 0x5C, CHR ''r'']
     else if n < 32 \<or> (127 \<le> n \<and> n \<le> 160) \<or> n = 173
     then [CHR 0x5C, CHR ''x'', hex_digit (n div 16), hex_digit (n mod 16)]
     else [c])"

definition repr_text :: "string \<Rightarrow> string" where
  "repr_text s =
     (let q = (if CHR 0x27 \<in> set s \<and> CHR 0x22 \<notin> set s then CHR 0x22 else CHR 0x27)
      in [q] @ concat (map (repr_char q) s) @ [q])"

definition path_parts :: "path \<Rightarrow> string list" where
  "path_parts p = (if absolute p then ''/'' # segments p else segments p)"

text \<open>The message of a git command that failed.\<close>

definition git_failure :: "string list \<Rightarrow> int \<Rightarrow> string \<Rightarrow> string \<Rightarrow> string" where
  "git_failure arguments code out err =
     (let detail = (if strip err \<noteq> [] then strip err else strip out);
          message = ''Git command failed with exit code '' @ int_text code @ '': git ''
            @ join '' '' arguments
      in if detail \<noteq> [] then message @ '': '' @ detail else message)"

section \<open>The inspector\<close>

text \<open>\<open>GitInspector._run_git\<close>: the return code and what was printed.\<close>

definition inspector_run_git ::
  "'w work_tree \<Rightarrow> path \<Rightarrow> string list \<Rightarrow> bool \<Rightarrow> ('w, int \<times> string) action" where
  "inspector_run_git E base arguments check w =
     (case wt_git E base arguments w of
        (GitOSError e, w') \<Rightarrow> (Inl (RepositoryInspectionError
          (''Unable to execute Git in '' @ path_text base @ '': '' @ e)), w')
      | (GitUndecodable, w') \<Rightarrow> (Inl (ValueError ''undecodable output''), w')
      | (GitCompleted code out err, w') \<Rightarrow>
          if check \<and> code \<noteq> 0
          then (Inl (RepositoryInspectionError (git_failure arguments code out err)), w')
          else (Inr (code, out), w'))"

text \<open>\<open>GitInspector(repository_root)\<close>: the resolved base it then works in.\<close>

definition make_inspector :: "'w work_tree \<Rightarrow> path \<Rightarrow> ('w, path) action" where
  "make_inspector E repository_root w =
     (let candidate = wt_expanduser E repository_root in
      if \<not> wt_exists E candidate w
      then (Inl (InvalidRepositoryError
        (''Repository path does not exist: '' @ path_text candidate)), w)
      else if \<not> wt_is_dir E candidate w
      then (Inl (InvalidRepositoryError
        (''Repository path is not a directory: '' @ path_text candidate)), w)
      else let base = wt_resolve E candidate in
        seq (inspector_run_git E base [''rev-parse'', ''--is-inside-work-tree''] False)
          (\<lambda>(code, out).
            if code \<noteq> 0 \<or> strip out \<noteq> ''true''
            then raise (InvalidRepositoryError
              (''Path is not inside a Git work tree: '' @ path_text base))
            else pure base) w)"

definition get_branch :: "'w work_tree \<Rightarrow> path \<Rightarrow> ('w, string option) action" where
  "get_branch E base =
     seq (inspector_run_git E base [''symbolic-ref'', ''--quiet'', ''--short'', ''HEAD''] False)
       (\<lambda>(code, out).
         if code = 0 then pure (Some (strip out))
         else if code = 1 then pure None
         else raise (RepositoryInspectionError ''Unable to determine the current Git branch''))"

definition get_head_commit :: "'w work_tree \<Rightarrow> path \<Rightarrow> ('w, string option) action" where
  "get_head_commit E base =
     seq (inspector_run_git E base [''rev-parse'', ''--verify'', ''HEAD''] False)
       (\<lambda>(code, out).
         if code = 0 then pure (Some (strip out))
         else if code = 128 then pure None
         else raise (RepositoryInspectionError ''Unable to determine the current HEAD commit''))"

definition toplevel :: "'w work_tree \<Rightarrow> path \<Rightarrow> ('w, path) action" where
  "toplevel E base =
     seq (inspector_run_git E base [''rev-parse'', ''--show-toplevel''] True)
       (\<lambda>(code, out). pure (wt_resolve E (path_of (strip out))))"

definition git_status :: "'w work_tree \<Rightarrow> path \<Rightarrow> ('w, string) action" where
  "git_status E base =
     seq (inspector_run_git E base [''status'', ''--porcelain=v1'', ''-z''] True)
       (\<lambda>(code, out). pure out)"

definition malformed_record :: "string \<Rightarrow> bool" where
  "malformed_record r \<longleftrightarrow> length r < 4 \<or> r ! 2 \<noteq> CHR '' ''"

definition renames :: "string \<Rightarrow> bool" where
  "renames r \<longleftrightarrow> r ! 0 \<in> set ''RC'' \<or> r ! 1 \<in> set ''RC''"

definition malformed_error :: "string \<Rightarrow> exn" where
  "malformed_error r =
     RepositoryInspectionError (''Malformed Git status record: '' @ repr_text r)"

definition malformed_rename :: exn where
  "malformed_rename =
     RepositoryInspectionError ''Malformed Git rename or copy status record''"

text \<open>The loop of \<open>_parse_status\<close>, over what is left of \<open>output.split("\0")\<close> and the three
  lists collected so far.\<close>

fun parse_status_onto :: "string list \<Rightarrow> string list \<Rightarrow> string list \<Rightarrow> string list
    \<Rightarrow> (string list \<times> string list \<times> string list) res" where
  "parse_status_onto modified staged untracked [] = Inr (modified, staged, untracked)"
| "parse_status_onto modified staged untracked (r # rs) =
     (if r = [] then parse_status_onto modified staged untracked rs
      else if malformed_record r then Inl (malformed_error r)
      else let path = drop 3 r;
               new = (r ! 0 = CHR ''?'' \<and> r ! 1 = CHR ''?'');
               untracked' = (if new then untracked @ [path] else untracked);
               staged' = (if \<not> new \<and> r ! 0 \<notin> set '' ?'' then staged @ [path] else staged);
               modified' = (if \<not> new \<and> r ! 1 \<notin> set '' ?'' then modified @ [path] else modified)
        in if renames r
           then (case rs of
               [] \<Rightarrow> Inl malformed_rename
             | rename # rs' \<Rightarrow>
                 if rename = [] then Inl malformed_rename
                 else parse_status_onto modified' staged' untracked' rs')
           else parse_status_onto modified' staged' untracked' rs)"

definition parse_status :: "string \<Rightarrow> (string list \<times> string list \<times> string list) res" where
  "parse_status output = parse_status_onto [] [] [] (split_on CHR 0x00 output)"

definition inspect :: "'w work_tree \<Rightarrow> path \<Rightarrow> ('w, repository_snapshot) action" where
  "inspect E repository_root =
     seq (toplevel E repository_root) (\<lambda>base.
     seq (get_branch E repository_root) (\<lambda>branch.
     seq (get_head_commit E repository_root) (\<lambda>head_commit.
     seq (git_status E repository_root) (\<lambda>output.
     seq (lift (parse_status output)) (\<lambda>(modified, staged, untracked).
     pure \<lparr>snap_root = base, snap_branch = branch, snap_head_commit = head_commit,
       snap_is_clean = (modified = [] \<and> staged = [] \<and> untracked = []),
       snap_modified_files = modified, snap_staged_files = staged,
       snap_untracked_files = untracked\<rparr>)))))"

section \<open>Reviewed change evidence\<close>

record status_record =
  sr_index_status :: char
  sr_worktree_status :: char
  sr_path :: path
  sr_rename_source :: "path option"

fun parse_records :: "string list \<Rightarrow> status_record list res" where
  "parse_records [] = Inr []"
| "parse_records (r # rs) =
     (if r = [] then parse_records rs
      else if malformed_record r then Inl (malformed_error r)
      else let record_of = (\<lambda>rename_source. \<lparr>sr_index_status = r ! 0, sr_worktree_status = r ! 1,
             sr_path = path_of (drop 3 r), sr_rename_source = rename_source\<rparr>)
        in if renames r
           then (case rs of
               [] \<Rightarrow> Inl malformed_rename
             | rename # rs' \<Rightarrow>
                 if rename = [] then Inl malformed_rename
                 else and_then (parse_records rs')
                   (\<lambda>records. Inr (record_of (Some (path_of rename)) # records)))
           else and_then (parse_records rs) (\<lambda>records. Inr (record_of None # records)))"

definition status_records :: "'w work_tree \<Rightarrow> path \<Rightarrow> ('w, status_record list) action" where
  "status_records E base =
     seq (git_status E base) (\<lambda>output. lift (parse_records (split_on CHR 0x00 output)))"

fun normalize_relative_onto :: "path list \<Rightarrow> path list \<Rightarrow> path list res" where
  "normalize_relative_onto normalized [] = Inr normalized"
| "normalize_relative_onto normalized (p # ps) =
     (if absolute p \<or> p = dot_path \<or> traverses_parent p
      then Inl (RepositoryInspectionError
        (''Reviewed path must be repository-relative: '' @ path_text p))
      else if p \<in> set normalized
      then Inl (RepositoryInspectionError (''Reviewed paths must be unique: '' @ path_text p))
      else normalize_relative_onto (normalized @ [p]) ps)"

definition normalize_relative_paths :: "path list \<Rightarrow> path list res" where
  "normalize_relative_paths paths =
     and_then (normalize_relative_onto [] paths) (\<lambda>normalized.
       if normalized = [] then Inl (RepositoryInspectionError ''Reviewed paths must not be empty'')
       else Inr normalized)"

definition is_excluded :: "string list \<Rightarrow> path \<Rightarrow> bool" where
  "is_excluded excluded_roots p \<longleftrightarrow> path_parts p \<noteq> [] \<and> hd (path_parts p) \<in> set excluded_roots"

definition reviewed_change_of ::
  "'w work_tree \<Rightarrow> path \<Rightarrow> status_record \<Rightarrow> ('w, reviewed_change) action" where
  "reviewed_change_of E base r w =
     (let status = [sr_index_status r, sr_worktree_status r];
          absolute_path = join_path base (sr_path r);
          change = \<lparr>rc_path = sr_path r, rc_status = status, rc_content_sha256 = None,
            rc_deletion_marker = None, rc_rename_source = sr_rename_source r\<rparr>
      in if sr_index_status r = CHR ''D'' \<or> sr_worktree_status r = CHR ''D''
           \<or> \<not> wt_exists E absolute_path w
         then (Inr (change\<lparr>rc_deletion_marker := Some ''deleted''\<rparr>), w)
         else if \<not> wt_is_file E absolute_path w
         then (Inl (RepositoryInspectionError
           (''Reviewed path is not a regular file: '' @ path_text (sr_path r))), w)
         else (case wt_read_bytes E absolute_path w of
             None \<Rightarrow> (Inl (RuntimeError ''unreadable file''), w)
           | Some data \<Rightarrow> (Inr (change\<lparr>rc_content_sha256 := Some (sha256_hexdigest data)\<rparr>), w)))"

definition change_json :: "reviewed_change \<Rightarrow> json" where
  "change_json c = JObj
     [(''path'', JStr (path_text (rc_path c))), (''status'', JStr (rc_status c)),
      (''content_sha256'', json_text (rc_content_sha256 c)),
      (''deletion_marker'', json_text (rc_deletion_marker c)),
      (''rename_source'', json_text (map_option path_text (rc_rename_source c)))]"

definition review_manifest :: "path \<Rightarrow> string option \<Rightarrow> string option \<Rightarrow> path list \<Rightarrow> string
    \<Rightarrow> reviewed_change list \<Rightarrow> (string \<times> json) list" where
  "review_manifest base expected_branch expected_head expected_paths commit_message changes =
     [(''version'', JNum ''1''), (''repository_root'', JStr (path_text base)),
      (''expected_branch'', json_text expected_branch), (''expected_head'', json_text expected_head),
      (''reviewed_files'', JArr (map (JStr \<circ> path_text) expected_paths)),
      (''commit_message'', JStr commit_message), (''changes'', JArr (map change_json changes))]"

definition evidence_fingerprint :: "path \<Rightarrow> string option \<Rightarrow> string option \<Rightarrow> path list \<Rightarrow> string
    \<Rightarrow> reviewed_change list \<Rightarrow> string" where
  "evidence_fingerprint base expected_branch expected_head expected_paths commit_message changes =
     sha256_hexdigest (canonical_ascii (JObj (review_manifest base expected_branch expected_head
       expected_paths commit_message changes)))"

definition build_reviewed_change_evidence :: "'w work_tree \<Rightarrow> path \<Rightarrow> string option \<Rightarrow> string option
    \<Rightarrow> string \<Rightarrow> path list \<Rightarrow> (path \<rightharpoonup> status_record) \<Rightarrow> ('w, reviewed_change_evidence) action" where
  "build_reviewed_change_evidence E base expected_branch expected_head commit_message
       expected_paths records =
     seq (map_action (\<lambda>p. case records p of None \<Rightarrow> raise (KeyError (path_text p))
         | Some r \<Rightarrow> reviewed_change_of E base r) expected_paths) (\<lambda>changes.
     pure \<lparr>rce_repository_root = base, rce_expected_branch = expected_branch,
       rce_expected_head = expected_head, rce_reviewed_files = expected_paths,
       rce_commit_message = commit_message, rce_changes = changes,
       rce_fingerprint = evidence_fingerprint base expected_branch expected_head expected_paths
         commit_message changes\<rparr>)"

text \<open>The dictionary from path to record: a later record of a path replaces an earlier one.\<close>

definition records_by_path :: "status_record list \<Rightarrow> path \<rightharpoonup> status_record" where
  "records_by_path records = map_of (rev (map (\<lambda>r. (sr_path r, r)) records))"

definition collect_review_evidence :: "'w work_tree \<Rightarrow> path \<Rightarrow> path list \<Rightarrow> string option
    \<Rightarrow> string option \<Rightarrow> string \<Rightarrow> string list \<Rightarrow> ('w, reviewed_change_evidence) action" where
  "collect_review_evidence E repository_root reviewed_files expected_branch expected_head
       commit_message excluded_roots =
     seq (toplevel E repository_root) (\<lambda>base.
     seq (get_branch E repository_root) (\<lambda>branch.
     seq (get_head_commit E repository_root) (\<lambda>head.
     if branch \<noteq> expected_branch
     then raise (RepositoryInspectionError
       ''Repository branch differs from the reviewed commit evidence'')
     else if head \<noteq> expected_head
     then raise (RepositoryInspectionError
       ''Repository HEAD differs from the reviewed commit evidence'')
     else seq (status_records E repository_root) (\<lambda>records.
       let non_excluded = filter (\<lambda>r. \<not> is_excluded excluded_roots (sr_path r)) records in
       seq (lift (normalize_relative_paths reviewed_files)) (\<lambda>normalized.
       let expected_paths = sort normalized;
           actual_paths = sort (dedupe (map sr_path non_excluded)) in
       if actual_paths \<noteq> expected_paths
       then raise (RepositoryInspectionError
         ''Repository changed paths differ from the reviewed commit evidence'')
       else build_reviewed_change_evidence E base expected_branch expected_head commit_message
         expected_paths (records_by_path non_excluded))))))"

section \<open>The committer\<close>

definition committer_run_git ::
  "'w work_tree \<Rightarrow> path \<Rightarrow> string list \<Rightarrow> ('w, string) action" where
  "committer_run_git E base arguments w =
     (case wt_git E base arguments w of
        (GitOSError e, w') \<Rightarrow> (Inl (RepositoryCommitError
          (''Unable to execute Git in '' @ path_text base @ '': '' @ e)), w')
      | (GitUndecodable, w') \<Rightarrow> (Inl (ValueError ''undecodable output''), w')
      | (GitCompleted code out err, w') \<Rightarrow>
          if code \<noteq> 0 then (Inl (RepositoryCommitError (git_failure arguments code out err)), w')
          else (Inr out, w'))"

definition denied_commit_path_parts :: "string list" where
  "denied_commit_path_parts = [''.git'', ''jcode'', ''logs'']"

fun normalize_commit_onto ::
  "(path \<Rightarrow> path) \<Rightarrow> path \<Rightarrow> path list \<Rightarrow> path list \<Rightarrow> path list res" where
  "normalize_commit_onto resolve base normalized [] = Inr normalized"
| "normalize_commit_onto resolve base normalized (p # ps) =
     (if absolute p \<or> p = dot_path \<or> traverses_parent p
      then Inl (RepositoryCommitValidationError
        (''Commit path must be repository-relative: '' @ path_text p))
      else if segments p = []
      then Inl (RepositoryCommitValidationError ''Commit path must not be empty'')
      else if hd (segments p) \<in> set denied_commit_path_parts
      then Inl (RepositoryCommitValidationError
        (''Commit paths must not include '' @ hd (segments p) @ ''/''))
      else if \<not> relative_to base (resolve (join_path base p))
      then Inl (RepositoryCommitValidationError ''Commit path must not escape the repository'')
      else if ''agent-state'' \<in> set (segments p)
        \<or> (''agent-state'' \<in> set (path_parts base)
            \<and> hd (segments p) \<in> set [''agent-state'', ''state''])
      then Inl (RepositoryCommitValidationError
        ''Commit paths must not include Atlas Agent state directories'')
      else if p \<in> set normalized
      then Inl (RepositoryCommitValidationError (''Commit paths must be unique: '' @ path_text p))
      else normalize_commit_onto resolve base (normalized @ [p]) ps)"

definition normalize_commit_paths ::
  "(path \<Rightarrow> path) \<Rightarrow> path \<Rightarrow> commit_request \<Rightarrow> path list res" where
  "normalize_commit_paths resolve base request =
     and_then (require (resolve (cr_repository_root request) = base)
       (RepositoryCommitValidationError
         ''Commit request repository base does not match the committer'')) (\<lambda>_.
     and_then (require (cr_paths request \<noteq> [])
       (RepositoryCommitValidationError ''Commit paths must not be empty'')) (\<lambda>_.
     and_then (normalize_commit_onto resolve base [] (cr_paths request)) (\<lambda>normalized.
     Inr (sort normalized))))"

definition normalize_message :: "string \<Rightarrow> string res" where
  "normalize_message message =
     and_then (require (list_all (\<lambda>c. \<not> (of_char c :: nat) < 32 \<and> (of_char c :: nat) \<noteq> 127) message)
       (RepositoryCommitValidationError
         ''Commit message must not contain control characters'')) (\<lambda>_.
     let normalized = join '' '' (words message) in
     and_then (require (normalized \<noteq> [])
       (RepositoryCommitValidationError ''Commit message must not be blank'')) (\<lambda>_.
     and_then (require (normalized = message)
       (RepositoryCommitValidationError ''Commit message must already be normalized'')) (\<lambda>_.
     Inr normalized)))"

definition add_arguments :: "path list \<Rightarrow> string list" where
  "add_arguments paths = [''add'', ''-A'', ''--''] @ map path_text paths"

definition commit_arguments :: "string \<Rightarrow> path list \<Rightarrow> string list" where
  "commit_arguments message paths =
     [''commit'', ''--only'', ''-m'', message, ''--''] @ map path_text paths"

definition strip_newlines :: "string \<Rightarrow> string" where
  "strip_newlines s = rev (dropWhile (\<lambda>c. c = CHR 0x0A) (rev s))"

text \<open>\<open>GitCommitter(repository_root)\<close>: the resolved base and the inspector's own.\<close>

definition make_committer :: "'w work_tree \<Rightarrow> path \<Rightarrow> ('w, path \<times> path) action" where
  "make_committer E repository_root =
     (let base = wt_resolve E repository_root in
      seq (make_inspector E base) (\<lambda>inspector. pure (base, inspector)))"

definition commit :: "'w work_tree \<Rightarrow> path \<times> path \<Rightarrow> commit_request \<Rightarrow> ('w, commit_result) action" where
  "commit E committer request =
     (let (base, inspector) = committer in
     seq (lift (normalize_commit_paths (wt_resolve E) base request)) (\<lambda>paths.
     seq (lift (normalize_message (cr_message request))) (\<lambda>message.
     seq (inspect E inspector) (\<lambda>before.
     if snap_root before \<noteq> base
     then raise (RepositoryCommitValidationError
       ''Commit repository base does not match the Git work tree'')
     else if snap_branch before \<noteq> cr_expected_branch request
     then raise (RepositoryCommitValidationError
       ''Repository branch differs from the approved plan'')
     else if snap_head_commit before \<noteq> cr_expected_head request
     then raise (RepositoryCommitValidationError
       ''Repository HEAD differs from the approved plan'')
     else
     seq (committer_run_git E base (add_arguments paths)) (\<lambda>_.
     seq (inspect E inspector) (\<lambda>staged.
     if sort (map path_of (snap_staged_files staged)) \<noteq> paths
     then raise (RepositoryCommitValidationError
       ''Staged files do not match the reviewed commit paths'')
     else
     seq (committer_run_git E base (commit_arguments message paths)) (\<lambda>_.
     seq (committer_run_git E base [''rev-parse'', ''HEAD'']) (\<lambda>sha.
     seq (committer_run_git E base [''log'', ''-1'', ''--format=%s'', ''HEAD'']) (\<lambda>log.
     seq (committer_run_git E base [''diff-tree'', ''--root'', ''--no-commit-id'', ''--name-only'',
         ''-r'', ''-M'', ''-z'', ''HEAD'']) (\<lambda>tree.
     let committed_message = strip_newlines log;
         committed_files = sort (map path_of (filter (\<lambda>p. p \<noteq> []) (split_on CHR 0x00 tree))) in
     if committed_message \<noteq> message \<or> committed_files \<noteq> paths
     then raise (RepositoryCommitError
       ''Created commit metadata does not match the reviewed request'')
     else pure \<lparr>cres_repository_root = base, cres_branch = cr_expected_branch request,
       cres_parent_head = cr_expected_head request, cres_commit_sha = strip sha,
       cres_message = committed_message, cres_committed_files = committed_files\<rparr>))))))))))"

section \<open>The two status parsers agree\<close>

definition status_classes :: "status_record list \<Rightarrow> path list \<times> path list \<times> path list" where
  "status_classes records =
     (let new = (\<lambda>r. sr_index_status r = CHR ''?'' \<and> sr_worktree_status r = CHR ''?'');
          changed = (\<lambda>c. c \<notin> set '' ?'')
      in (map sr_path (filter (\<lambda>r. \<not> new r \<and> changed (sr_worktree_status r)) records),
          map sr_path (filter (\<lambda>r. \<not> new r \<and> changed (sr_index_status r)) records),
          map sr_path (filter new records)))"

definition status_paths ::
  "string list \<times> string list \<times> string list \<Rightarrow> path list \<times> path list \<times> path list" where
  "status_paths s = (case s of (m, g, u) \<Rightarrow> (map path_of m, map path_of g, map path_of u))"

definition joined :: "path list \<times> path list \<times> path list \<Rightarrow> path list \<times> path list \<times> path list
    \<Rightarrow> path list \<times> path list \<times> path list" where
  "joined a b = (case (a, b) of ((m, g, u), (m', g', u')) \<Rightarrow> (m @ m', g @ g', u @ u'))"

lemma parse_status_onto_records:
  "and_then (parse_status_onto m g u rs) (\<lambda>s. Inr (status_paths s))
     = and_then (parse_records rs) (\<lambda>records.
         Inr (joined (status_paths (m, g, u)) (status_classes records)))"
proof (induction "length rs" arbitrary: rs m g u rule: less_induct)
  case less
  show ?case
  proof (cases rs)
    case Nil
    then show ?thesis by (simp add: status_classes_def status_paths_def joined_def)
  next
    case (Cons r qs)
    let ?rec = "\<lambda>source. \<lparr>sr_index_status = r ! 0, sr_worktree_status = r ! 1,
      sr_path = path_of (drop 3 r), sr_rename_source = source\<rparr>"
    let ?new = "r ! 0 = CHR ''?'' \<and> r ! 1 = CHR ''?''"
    let ?m = "if \<not> ?new \<and> r ! 1 \<notin> set '' ?'' then m @ [drop 3 r] else m"
    let ?g = "if \<not> ?new \<and> r ! 0 \<notin> set '' ?'' then g @ [drop 3 r] else g"
    let ?u = "if ?new then u @ [drop 3 r] else u"
    have step: "joined (status_paths (?m, ?g, ?u)) (status_classes records)
        = joined (status_paths (m, g, u)) (status_classes (?rec source # records))"
      for source records
      by (simp add: status_paths_def status_classes_def joined_def Let_def)
    have rest: "and_then (parse_status_onto ?m ?g ?u ts) (\<lambda>s. Inr (status_paths s))
        = and_then (and_then (parse_records ts) (\<lambda>records. Inr (?rec source # records)))
            (\<lambda>records. Inr (joined (status_paths (m, g, u)) (status_classes records)))"
      if "length ts < length rs" for source ts
      unfolding less.hyps [OF that, of ?m ?g ?u] and_then_assoc
      by (simp only: and_then.simps step [of _ source])
    consider "r = []" | "r \<noteq> []" "malformed_record r"
      | "r \<noteq> []" "\<not> malformed_record r" "\<not> renames r"
      | "r \<noteq> []" "\<not> malformed_record r" "renames r" by blast
    then show ?thesis
    proof cases
      case 1
      then show ?thesis using less.hyps [of qs m g u] by (simp add: Cons)
    next
      case 2
      then show ?thesis by (simp add: Cons)
    next
      case 3
      then have "parse_status_onto m g u rs = parse_status_onto ?m ?g ?u qs"
        "parse_records rs = and_then (parse_records qs) (\<lambda>records. Inr (?rec None # records))"
        by (simp_all only: Cons parse_status_onto.simps parse_records.simps if_False Let_def)
      then show ?thesis using rest [of qs None] by (simp only: Cons) simp
    next
      case 4
      show ?thesis
      proof (cases "qs = [] \<or> hd qs = []")
        case True
        then show ?thesis using 4 by (cases qs) (auto simp: Cons Let_def)
      next
        case False
        then obtain q ts where q: "qs = q # ts" "q \<noteq> []" by (cases qs) auto
        then have "parse_status_onto m g u rs = parse_status_onto ?m ?g ?u ts"
          "parse_records rs = and_then (parse_records ts)
            (\<lambda>records. Inr (?rec (Some (path_of q)) # records))"
          using 4 by (simp_all only: Cons parse_status_onto.simps parse_records.simps if_False
              if_True Let_def list.case simp_thms)
        then show ?thesis using rest [of ts "Some (path_of q)"] by (simp only: Cons q) simp
      qed
    qed
  qed
qed

text \<open>The two parsers of \<open>git status -z\<close> agree on every output: they accept the same
  outputs, raise the same error on the others, and the modified, staged and untracked paths of
  a snapshot are those of the records from which the evidence of a review is built.\<close>

theorem status_parsers_agree:
  "and_then (parse_status output) (\<lambda>s. Inr (status_paths s))
     = and_then (parse_records (split_on CHR 0x00 output)) (\<lambda>records. Inr (status_classes records))"
  using parse_status_onto_records [of "[]" "[]" "[]"]
  by (simp add: parse_status_def status_paths_def joined_def case_prod_unfold)

section \<open>What a review fingerprint binds\<close>

lemma change_json_inject:
  "sort_keys (change_json c) = sort_keys (change_json d) \<longleftrightarrow> change_json c = change_json d"
  unfolding change_json_def
  by (subst sort_keys_object_inject) simp_all

lemma numbers_change: "numbers (sort_keys (change_json c))"
  unfolding change_json_def by (rule numbers_sorted) simp

text \<open>What is compared of one change, and of a whole review.\<close>

definition change_data :: "reviewed_change \<Rightarrow>
    string \<times> string \<times> string option \<times> string option \<times> string option" where
  "change_data c = (path_text (rc_path c), rc_status c, rc_content_sha256 c, rc_deletion_marker c,
     map_option path_text (rc_rename_source c))"

lemma change_json_data: "change_json c = change_json d \<longleftrightarrow> change_data c = change_data d"
  by (auto simp: change_json_def change_data_def json_text_inject)

definition same_review :: "reviewed_change_evidence \<Rightarrow> reviewed_change_evidence \<Rightarrow> bool" where
  "same_review e f \<longleftrightarrow> path_text (rce_repository_root e) = path_text (rce_repository_root f)
     \<and> rce_expected_branch e = rce_expected_branch f
     \<and> rce_expected_head e = rce_expected_head f
     \<and> map path_text (rce_reviewed_files e) = map path_text (rce_reviewed_files f)
     \<and> rce_commit_message e = rce_commit_message f
     \<and> map change_data (rce_changes e) = map change_data (rce_changes f)"

definition evidence_bytes :: "reviewed_change_evidence \<Rightarrow> byte list" where
  "evidence_bytes e = canonical_ascii (JObj (review_manifest (rce_repository_root e)
     (rce_expected_branch e) (rce_expected_head e) (rce_reviewed_files e) (rce_commit_message e)
     (rce_changes e)))"

lemma evidence_manifest_sorted:
  "sort_keys (JObj (review_manifest a b c d e f)) = sort_keys (JObj (review_manifest a' b' c' d' e' f'))
     \<longleftrightarrow> map (\<lambda>(k, v). (k, sort_keys v)) (review_manifest a b c d e f)
       = map (\<lambda>(k, v). (k, sort_keys v)) (review_manifest a' b' c' d' e' f')"
  (is "?l \<longleftrightarrow> ?m = ?n")
proof -
  have "map fst ?m = map fst ?n" "distinct (map fst ?m)"
    by (simp_all add: review_manifest_def)
  from sort_key_fst_inject [OF this] show ?thesis by auto
qed

lemma numbers_manifest: "numbers (sort_keys (JObj (review_manifest a b c d e f)))"
proof -
  have opt: "numbers (sort_keys (json_text t))" for t by (cases t) simp_all
  have "list_all (\<lambda>(k, v). numbers (sort_keys v)) (review_manifest a b c d e f)"
    by (simp add: review_manifest_def numeric_def number_char_def in_range_def opt list_all_iff numbers_change)
  then show ?thesis by (auto simp: list_all_iff)
qed

text \<open>The bytes whose SHA-256 is the fingerprint of reviewed changes determine what was
  reviewed: two pieces of evidence hash the same bytes exactly when they agree on the
  repository, branch, head, files, commit message and, for every change, its path, status,
  content digest, deletion marker and rename source.\<close>

theorem evidence_fingerprint_binds:
  "evidence_bytes e = evidence_bytes f \<longleftrightarrow> same_review e f"
proof -
  have opt: "sort_keys (json_text t) = json_text t" for t by (cases t) simp_all
  have sorted: "map sort_keys (map change_json cs) = map sort_keys (map change_json ds)
      \<longleftrightarrow> map change_data cs = map change_data ds" for cs ds
    by (simp add: list_eq_iff_nth_eq change_json_inject change_json_data cong: conj_cong)
  have strings: "map sort_keys (map (JStr \<circ> path_text) ps) = map sort_keys (map (JStr \<circ> path_text) qs)
      \<longleftrightarrow> map path_text ps = map path_text qs" for ps qs
    by (simp add: list_eq_iff_nth_eq cong: conj_cong)
  have "evidence_bytes e = evidence_bytes f \<longleftrightarrow>
      path_text (rce_repository_root e) = path_text (rce_repository_root f)
      \<and> json_text (rce_expected_branch e) = json_text (rce_expected_branch f)
      \<and> json_text (rce_expected_head e) = json_text (rce_expected_head f)
      \<and> map path_text (rce_reviewed_files e) = map path_text (rce_reviewed_files f)
      \<and> rce_commit_message e = rce_commit_message f
      \<and> map change_data (rce_changes e) = map change_data (rce_changes f)"
    unfolding evidence_bytes_def
    unfolding canonical_ascii_sorted [OF numbers_manifest numbers_manifest]
    unfolding evidence_manifest_sorted
    unfolding review_manifest_def
    by (simp add: opt strings sorted del: map_map)
  then show ?thesis by (simp add: same_review_def json_text_inject)
qed
section \<open>Which commands a commit issues\<close>

text \<open>The same world with a log of the git commands issued. Of the commands the Agent issues
  only \<open>add\<close> and \<open>commit\<close> change a repository.\<close>

definition traced :: "'w work_tree \<Rightarrow> ('w \<times> string list list) work_tree" where
  "traced E =
     \<lparr>wt_git = (\<lambda>base arguments s. case wt_git E base arguments (fst s) of
        (r, w) \<Rightarrow> (r, (w, snd s @ [arguments]))),
      wt_exists = (\<lambda>p s. wt_exists E p (fst s)), wt_is_dir = (\<lambda>p s. wt_is_dir E p (fst s)),
      wt_is_file = (\<lambda>p s. wt_is_file E p (fst s)),
      wt_read_bytes = (\<lambda>p s. wt_read_bytes E p (fst s)),
      wt_resolve = wt_resolve E, wt_expanduser = wt_expanduser E\<rparr>"

fun mutating :: "string list \<Rightarrow> bool" where
  "mutating [] = False"
| "mutating (c # cs) \<longleftrightarrow> c \<in> set [''add'', ''commit'']"

definition writes :: "'w \<times> string list list \<Rightarrow> string list list" where
  "writes s = filter mutating (snd s)"

lemma inspector_run_reads [keeps_intros]:
  "\<not> mutating arguments \<Longrightarrow>
     keeps (\<lambda>s. writes s = ws) (inspector_run_git (traced E) base arguments check)"
  by (auto simp: triple_def inspector_run_git_def traced_def writes_def
      split: prod.splits git_reply.splits)

lemma committer_run_writes:
  "triple (\<lambda>s. writes s = ws) (committer_run_git (traced E) base arguments)
     (\<lambda>_ s. writes s = ws @ filter mutating [arguments])
     (\<lambda>_ s. writes s = ws @ filter mutating [arguments])"
  by (auto simp: triple_def committer_run_git_def traced_def writes_def
      split: prod.splits git_reply.splits)

lemma committer_run_reads:
  "\<not> mutating arguments \<Longrightarrow>
     keeps (\<lambda>s. writes s = ws) (committer_run_git (traced E) base arguments)"
  using committer_run_writes [of ws E base arguments] by simp

lemma inspect_reads [keeps_intros]: "keeps (\<lambda>s. writes s = ws) (inspect (traced E) base)"
  unfolding inspect_def toplevel_def get_branch_def get_head_commit_def git_status_def
  by (auto intro!: keeps_intros)

section \<open>What a commit request must satisfy\<close>

definition commit_path_allowed :: "(path \<Rightarrow> path) \<Rightarrow> path \<Rightarrow> path \<Rightarrow> bool" where
  "commit_path_allowed resolve base p \<longleftrightarrow>
     \<not> absolute p \<and> segments p \<noteq> [] \<and> \<not> traverses_parent p
     \<and> hd (segments p) \<notin> set denied_commit_path_parts
     \<and> relative_to base (resolve (join_path base p))
     \<and> ''agent-state'' \<notin> set (segments p)
     \<and> \<not> (''agent-state'' \<in> set (path_parts base)
         \<and> hd (segments p) \<in> set [''agent-state'', ''state''])"

lemma dot_path_iff: "p = dot_path \<longleftrightarrow> \<not> absolute p \<and> segments p = []"
  by (cases p) (simp add: dot_path_def)

lemma normalize_commit_onto_Inr:
  "normalize_commit_onto resolve base ns ps = Inr qs \<longleftrightarrow>
     list_all (commit_path_allowed resolve base) ps \<and> distinct ps \<and> set ns \<inter> set ps = {}
     \<and> qs = ns @ ps"
proof (induction ps arbitrary: ns)
  case (Cons p ps)
  show ?case
    by (auto simp: Cons.IH commit_path_allowed_def dot_path_iff)
qed auto

definition commit_confined :: "(path \<Rightarrow> path) \<Rightarrow> path \<Rightarrow> commit_request \<Rightarrow> bool" where
  "commit_confined resolve base request \<longleftrightarrow>
     resolve (cr_repository_root request) = base \<and> cr_paths request \<noteq> []
     \<and> distinct (cr_paths request)
     \<and> list_all (commit_path_allowed resolve base) (cr_paths request)
     \<and> list_all (\<lambda>c. \<not> (of_char c :: nat) < 32 \<and> (of_char c :: nat) \<noteq> 127) (cr_message request)
     \<and> cr_message request \<noteq> [] \<and> join '' '' (words (cr_message request)) = cr_message request"

lemma commit_request_checked:
  "normalize_commit_paths resolve base request = Inr paths \<Longrightarrow>
   normalize_message (cr_message request) = Inr message \<Longrightarrow>
     commit_confined resolve base request \<and> paths = sort (cr_paths request)
     \<and> message = cr_message request"
  by (auto simp: normalize_commit_paths_def normalize_message_def commit_confined_def res_simps
      Let_def normalize_commit_onto_Inr)

text \<open>What is written for a request, by the outcome of the call: the very command lines.\<close>

definition commit_outcome :: "(path \<Rightarrow> path) \<Rightarrow> path \<Rightarrow> commit_request \<Rightarrow> commit_result res
    \<Rightarrow> string list list \<Rightarrow> bool" where
  "commit_outcome resolve base request r ws =
     (let paths = sort (cr_paths request);
          staging = [''add'', ''-A'', ''--''] @ map path_text paths;
          committing = [''commit'', ''--only'', ''-m'', cr_message request, ''--''] @ map path_text paths in
      case r of
        Inr result \<Rightarrow> commit_confined resolve base request \<and> ws = [staging, committing]
          \<and> cres_committed_files result = paths \<and> cres_message result = cr_message request
          \<and> cres_branch result = cr_expected_branch request
          \<and> cres_parent_head result = cr_expected_head request
          \<and> cres_repository_root result = base
      | Inl e \<Rightarrow> ws = [] \<or> commit_confined resolve base request
          \<and> ws \<in> set [[staging], [staging, committing]])"

text \<open>C32. A commit writes nothing but what was requested: whatever git answers, the only
  changing commands issued are \<open>git add -A\<close> and then \<open>git commit --only\<close> on exactly the sorted
  requested paths with the requested message, and only for a request whose paths are distinct,
  relative, inside the repository and outside the denied directories; a returned result
  reports exactly those paths, that message and the expected branch and head.\<close>

theorem commit_writes_only_request:
  "case commit (traced E) (base, inspector) request (w, []) of
     (r, s) \<Rightarrow> commit_outcome (wt_resolve E) base request r (writes s)"
proof -
  let ?ok = "\<lambda>r s. commit_outcome (wt_resolve E) base request r (writes s)"
  let ?is = "\<lambda>ws s. writes s = ws"
  have "triple (?is []) (commit (traced E) (base, inspector) request)
      (\<lambda>x. ?ok (Inr x)) (\<lambda>e. ?ok (Inl e))"
  proof (cases "\<exists>paths message. normalize_commit_paths (wt_resolve E) base request = Inr paths
      \<and> normalize_message (cr_message request) = Inr message")
    case False
    then show ?thesis
      by (cases "normalize_commit_paths (wt_resolve E) base request";
          cases "normalize_message (cr_message request)")
         (simp_all add: triple_def commit_def seq_def commit_outcome_def Let_def traced_def)
  next
    case True
    then obtain paths message where ok: "commit_confined (wt_resolve E) base request"
      and "paths = sort (cr_paths request)" "message = cr_message request"
      and lifts: "normalize_commit_paths (wt_resolve E) base request = Inr (sort (cr_paths request))"
      "normalize_message (cr_message request) = Inr (cr_message request)"
      using commit_request_checked by metis
    define ps where "ps = sort (cr_paths request)"
    let ?add = "add_arguments ps" and ?commit = "commit_arguments (cr_message request) ps"
    have res: "wt_resolve (traced E) = wt_resolve E" by (simp add: traced_def)
    have out [simp]: "?ok (Inl e) s" if "writes s \<in> set [[], [?add], [?add, ?commit]]" for e s
      using that ok by (auto simp: commit_outcome_def Let_def ps_def add_arguments_def commit_arguments_def)
    have mut: "mutating ?add" "mutating ?commit"
      by (simp_all add: add_arguments_def commit_arguments_def)
    have add: "triple (?is []) (committer_run_git (traced E) base ?add)
        (\<lambda>_. ?is [?add]) (\<lambda>_. ?is [?add])"
      using committer_run_writes [of "[]" E base ?add] mut by simp
    have com: "triple (?is [?add]) (committer_run_git (traced E) base ?commit)
        (\<lambda>_. ?is [?add, ?commit]) (\<lambda>_. ?is [?add, ?commit])"
      using committer_run_writes [of "[?add]" E base ?commit] mut by simp
    have "triple (?is []) (commit (traced E) (base, inspector) request)
      (\<lambda>x. ?ok (Inr x)) (\<lambda>e s. writes s \<in> set [[], [?add], [?add, ?commit]])"
      unfolding commit_def Let_def prod.case res lifts seq_lift_Inr ps_def [symmetric]
      by (rule triple_step [OF add] triple_step [OF com] triple_step [OF inspect_reads]
            triple_step [OF committer_run_reads] triple_if triple_raise triple_pure
          | simp add: commit_outcome_def Let_def ps_def ok add_arguments_def commit_arguments_def)+
    then show ?thesis by (rule triple_conseq) auto
  qed
  from triple_result [OF this, of "(w, [])"] show ?thesis
    by (auto simp: writes_def split: prod.split)
qed


end
