(* ===== verification/WorkflowState.thy ===== *)
theory WorkflowState
  imports Execution Repository Review ActionRequest Contracts
begin

text \<open>
  The Agent's workflow models and their in-memory store (\<open>app/workflow/models.py\<close>,
  \<open>app/workflow/state.py\<close>). A session is an instance only through its post-init check; the
  store changes a session only by comparing its state first, under a lock, so each operation
  is one step. The dictionary of sessions is an association list in insertion order.
\<close>

section \<open>Enumerations\<close>

datatype sprint_phase =
    PHASE_PLANNED | PHASE_AWAITING_APPROVAL | PHASE_IN_PROGRESS
  | PHASE_AWAITING_VERIFICATION_APPROVAL | PHASE_VERIFYING | PHASE_AWAITING_COMMIT_APPROVAL
  | PHASE_COMMITTING | PHASE_REVIEWING | PHASE_COMPLETED | PHASE_BLOCKED

datatype session_state =
    SESSION_PLANNED | SESSION_AWAITING_APPROVAL | SESSION_AWAITING_IMPLEMENTATION_APPROVAL
  | SESSION_EXECUTING | SESSION_PATCH_APPLIED_PENDING_VERIFICATION
  | SESSION_AWAITING_VERIFICATION_APPROVAL | SESSION_VERIFYING
  | SESSION_AWAITING_COMMIT_APPROVAL | SESSION_COMMITTING | SESSION_BLOCKED | SESSION_COMPLETED

datatype workflow_source = SOURCE_ROADMAP | SOURCE_CANDIDATE | SOURCE_MANUAL

datatype operational_execution_stage =
    STAGE_EXECUTION_BLOCKED | STAGE_SUBMISSION_OUTCOME_UNKNOWN | STAGE_DISPATCH_PENDING
  | STAGE_VERIFICATION_PENDING | STAGE_VERIFIED | STAGE_FAILED | STAGE_VERIFICATION_FAILED
  | STAGE_TARGET_REPLACED | STAGE_OUTCOME_UNKNOWN

section \<open>Records\<close>

record operational_execution_reference =
  oxr_request_id :: string
  oxr_request_digest :: string
  oxr_stage :: operational_execution_stage
  oxr_dispatch_status :: "string option"
  oxr_ledger_state :: "string option"
  oxr_provider_operation_id :: "string option"
  oxr_verification_status :: "string option"
  oxr_submitted_at :: "datetime option"
  oxr_last_observed_at :: datetime
  oxr_terminal :: bool
  oxr_controlled_reason :: "string option"
  oxr_audit_events :: "string list"

record candidate_workflow_metadata =
  cwm_candidate_planning_session_id :: string
  cwm_candidate_id :: string
  cwm_candidate_fingerprint :: string
  cwm_candidate_plan_id :: string
  cwm_candidate_plan_fingerprint :: string
  cwm_source_recommendation_id :: string
  cwm_source_subsystem :: string
  cwm_catalog_item_id :: "string option"
  cwm_target_id :: string
  cwm_target_type :: string
  cwm_execution_category :: string
  cwm_execution_intent :: string
  cwm_evidence_ids :: "string list"
  cwm_compatibility_assessment_id :: "string option"
  cwm_compatibility_status :: "string option"
  cwm_relationship_ids :: "string list"
  cwm_conversion_timestamp :: datetime
  cwm_core_revalidation_status :: string
  cwm_core_revalidation_fingerprint :: string
  cwm_effect_kind :: workflow_effect_kind

record candidate_implementation_request =
  cir_identifier :: string
  cir_workflow_session_id :: string
  cir_candidate_planning_session_id :: string
  cir_candidate_id :: string
  cir_candidate_fingerprint :: string
  cir_candidate_plan_id :: string
  cir_candidate_plan_fingerprint :: string
  cir_execution_intent :: string
  cir_repository_root :: path
  cir_repository_branch :: "string option"
  cir_repository_head :: string
  cir_argv :: "string list"
  cir_working_directory :: path
  cir_affected_files :: "path list"
  cir_evidence_ids :: "string list"
  cir_compatibility_assessment_id :: "string option"
  cir_compatibility_status :: "string option"
  cir_translator_version :: string
  cir_generated_at :: datetime

record candidate_verification_plan =
  cvp_identifier :: string
  cvp_workflow_session_id :: string
  cvp_candidate_planning_session_id :: string
  cvp_candidate_id :: string
  cvp_candidate_fingerprint :: string
  cvp_candidate_plan_id :: string
  cvp_candidate_plan_fingerprint :: string
  cvp_implementation_request_id :: string
  cvp_execution_result_id :: string
  cvp_repository_root :: path
  cvp_repository_branch :: "string option"
  cvp_base_head :: string
  cvp_post_execution_head :: string
  cvp_baseline_status :: "(string \<times> string) list option"
  cvp_post_execution_status :: "(string \<times> string) list option"
  cvp_changed_files :: "path list"
  cvp_changed_files_digest :: string
  cvp_approved_affected_files :: "path list"
  cvp_verification_checks :: "verification_check list"
  cvp_verifier_version :: string
  cvp_generated_at :: datetime

record candidate_check_evidence =
  cce_identifier :: string
  cce_status :: verification_status
  cce_return_code :: "int option"
  cce_stdout_digest :: string
  cce_stderr_digest :: string
  cce_output_truncated :: bool
  cce_duration_seconds :: rat
  cce_error :: "string option"

record candidate_verification_evidence =
  cve_identifier :: string
  cve_verification_plan_id :: string
  cve_workflow_id :: string
  cve_candidate_id :: string
  cve_candidate_fingerprint :: string
  cve_plan_fingerprint :: string
  cve_implementation_request_id :: string
  cve_changed_files_digest :: string
  cve_repository_branch :: "string option"
  cve_repository_head :: "string option"
  cve_check_results :: "candidate_check_evidence list"
  cve_status :: verification_status
  cve_started_at :: datetime
  cve_completed_at :: datetime
  cve_verifier_version :: string

record candidate_review_result =
  crr_identifier :: string
  crr_verification_plan_id :: string
  crr_verification_evidence_id :: string
  crr_workflow_id :: string
  crr_status :: review_status
  crr_failure_code :: "string option"
  crr_reviewed_content_fingerprint :: "string option"
  crr_generated_at :: datetime

record model_response =
  mr_text :: string
  mr_model :: string
  mr_provider_id :: string

record sprint_status =
  sp_checkpoint_id :: string
  sp_title :: string
  sp_goal :: string
  sp_phase :: sprint_phase

record workflow_request =
  wq_checkpoint :: roadmap_checkpoint
  wq_repository_root :: path
  wq_execution_identifier :: string
  wq_execution_argv :: "string list"
  wq_execution_workdir :: path
  wq_verification_checks :: "verification_check list"
  wq_review_identifier :: string
  wq_architecture_assessments :: "architecture_assessment list"
  wq_test_evidence :: "test_evidence list"

record workflow_session =
  wf_identifier :: string
  wf_request :: "workflow_request option"
  wf_plan :: "implementation_plan option"
  wf_state :: session_state
  wf_effect_kind :: workflow_effect_kind
  wf_source :: workflow_source
  wf_candidate_metadata :: "candidate_workflow_metadata option"
  wf_candidate_implementation_request :: "candidate_implementation_request option"
  wf_operational_action_request :: "action_request option"
  wf_candidate_implementation_approval_id :: "string option"
  wf_operational_action_approval_id :: "string option"
  wf_operational_execution_reference :: "operational_execution_reference option"
  wf_planning_analysis :: "model_response option"
  wf_review_analysis :: "model_response option"
  wf_context :: "agent_context option"
  wf_execution_result :: "execution_result option"
  wf_worker_execution_request :: "worker_request option"
  wf_worker_patch_applied :: bool
  wf_worker_baseline_status :: "(string \<times> string) list option"
  wf_changed_files :: "path list"
  wf_verification_report :: "verification_report option"
  wf_candidate_verification_plan :: "candidate_verification_plan option"
  wf_candidate_verification_evidence :: "candidate_verification_evidence option"
  wf_review_report :: "review_report option"
  wf_candidate_review_result :: "candidate_review_result option"
  wf_commit_request :: "commit_request option"
  wf_commit_result :: "commit_result option"
  wf_reviewed_files :: "path list"
  wf_expected_branch :: "string option"
  wf_expected_head :: "string option"
  wf_reviewed_content_fingerprint :: "string option"
  wf_blocked_reason :: "string option"

definition new_session :: "string \<Rightarrow> workflow_request option \<Rightarrow> implementation_plan option
    \<Rightarrow> session_state \<Rightarrow> workflow_effect_kind \<Rightarrow> workflow_session" where
  "new_session identifier request plan state effect_kind =
     \<lparr>wf_identifier = identifier, wf_request = request, wf_plan = plan, wf_state = state,
      wf_effect_kind = effect_kind, wf_source = SOURCE_ROADMAP, wf_candidate_metadata = None,
      wf_candidate_implementation_request = None, wf_operational_action_request = None,
      wf_candidate_implementation_approval_id = None, wf_operational_action_approval_id = None,
      wf_operational_execution_reference = None, wf_planning_analysis = None,
      wf_review_analysis = None, wf_context = None, wf_execution_result = None,
      wf_worker_execution_request = None, wf_worker_patch_applied = False,
      wf_worker_baseline_status = None, wf_changed_files = [], wf_verification_report = None,
      wf_candidate_verification_plan = None, wf_candidate_verification_evidence = None,
      wf_review_report = None, wf_candidate_review_result = None, wf_commit_request = None,
      wf_commit_result = None, wf_reviewed_files = [], wf_expected_branch = None,
      wf_expected_head = None, wf_reviewed_content_fingerprint = None, wf_blocked_reason = None\<rparr>"

record workflow_result =
  wres_sprint :: sprint_status
  wres_plan :: "implementation_plan option"
  wres_context :: "agent_context option"
  wres_planning_analysis :: "model_response option"
  wres_review_analysis :: "model_response option"
  wres_approval_request :: "approval_request option"
  wres_execution_result :: "execution_result option"
  wres_verification_report :: "verification_report option"
  wres_review_report :: "review_report option"
  wres_commit_result :: "commit_result option"
  wres_error_message :: "string option"

definition plain_result :: "sprint_status \<Rightarrow> workflow_result" where
  "plain_result sprint =
     \<lparr>wres_sprint = sprint, wres_plan = None, wres_context = None, wres_planning_analysis = None,
      wres_review_analysis = None, wres_approval_request = None, wres_execution_result = None,
      wres_verification_report = None, wres_review_report = None, wres_commit_result = None,
      wres_error_message = None\<rparr>"

section \<open>The post-init check of a session\<close>

definition worker_matches :: "workflow_session \<Rightarrow> worker_request \<Rightarrow> bool" where
  "worker_matches s worker \<longleftrightarrow>
     wf_source s = SOURCE_CANDIDATE \<and> wf_effect_kind s = EFFECT_REPOSITORY_CHANGE
     \<and> (case wf_candidate_implementation_request s of
          None \<Rightarrow> False
        | Some i \<Rightarrow> wr_workflow_id worker = wf_identifier s
            \<and> wr_execution_request_id worker = cir_identifier i
            \<and> wr_candidate_id worker = cir_candidate_id i
            \<and> wr_candidate_fingerprint worker = cir_candidate_fingerprint i
            \<and> wr_plan_id worker = cir_candidate_plan_id i
            \<and> wr_plan_fingerprint worker = cir_candidate_plan_fingerprint i)"

definition action_request_matches :: "workflow_session \<Rightarrow> candidate_workflow_metadata
    \<Rightarrow> action_request \<Rightarrow> bool" where
  "action_request_matches s m r \<longleftrightarrow>
     oar_workflow_session_id r = wf_identifier s
     \<and> oar_candidate_id r = cwm_candidate_id m
     \<and> oar_candidate_fingerprint r = cwm_candidate_fingerprint m
     \<and> oar_candidate_plan_fingerprint r = cwm_candidate_plan_fingerprint m"

definition session_post_init :: "workflow_session \<Rightarrow> workflow_session res" where
  "session_post_init s =
     and_then (case wf_worker_execution_request s of
         None \<Rightarrow> Inr ()
       | Some worker \<Rightarrow> and_then (validate_worker_request True worker) (\<lambda>_.
           require (worker_matches s worker)
             (ValueError ''worker request does not match candidate workflow''))) (\<lambda>_.
     and_then (require (case wf_candidate_metadata s of None \<Rightarrow> True
         | Some m \<Rightarrow> cwm_effect_kind m = wf_effect_kind s)
       (ValueError ''workflow effect kind must match candidate metadata'')) (\<lambda>_.
     and_then (require (\<not> (wf_effect_kind s = EFFECT_REPOSITORY_CHANGE
         \<and> wf_operational_action_request s \<noteq> None))
       (ValueError ''repository_change workflows cannot carry operational requests'')) (\<lambda>_.
     and_then (require (\<not> (wf_effect_kind s = EFFECT_OPERATIONAL_ACTION
         \<and> wf_candidate_implementation_request s \<noteq> None))
       (ValueError ''operational_action workflows cannot carry repository requests'')) (\<lambda>_.
     and_then (require (\<not> (wf_effect_kind s = EFFECT_REPOSITORY_CHANGE
         \<and> wf_operational_action_approval_id s \<noteq> None))
       (ValueError ''repository_change workflows cannot carry operational approvals'')) (\<lambda>_.
     and_then (case wf_operational_action_request s of
         None \<Rightarrow> Inr ()
       | Some request \<Rightarrow>
           (case wf_candidate_metadata s of
              None \<Rightarrow> Inl (ValueError ''operational requests require candidate metadata'')
            | Some metadata \<Rightarrow> require (action_request_matches s metadata request)
                (ValueError ''operational request does not match workflow identity''))) (\<lambda>_.
     and_then (require (case wf_operational_execution_reference s of None \<Rightarrow> True
         | Some reference \<Rightarrow>
             (case wf_operational_action_request s of
                None \<Rightarrow> False
              | Some request \<Rightarrow> oxr_request_id reference = oar_request_id request
                  \<and> oxr_request_digest reference = oar_request_digest request))
       (ValueError ''operational execution reference does not match request'')) (\<lambda>_.
     Inr s)))))))"

definition can_reconcile_worker :: "workflow_session \<Rightarrow> bool" where
  "can_reconcile_worker s \<longleftrightarrow>
     wf_state s = SESSION_BLOCKED \<and> wf_source s = SOURCE_CANDIDATE
     \<and> wf_effect_kind s = EFFECT_REPOSITORY_CHANGE
     \<and> wf_worker_execution_request s \<noteq> None \<and> \<not> wf_worker_patch_applied s
     \<and> (case wf_execution_result s of None \<Rightarrow> True | Some r \<Rightarrow> xr_status r = Unknown)"

section \<open>The store\<close>

record workflow_store =
  wst_sprint :: "sprint_status option"
  wst_verification :: "verification_report option"
  wst_review :: "review_report option"
  wst_sessions :: "(string \<times> workflow_session) list"

definition empty_store :: workflow_store where
  "empty_store = \<lparr>wst_sprint = None, wst_verification = None, wst_review = None, wst_sessions = []\<rparr>"

definition export_snapshot :: "workflow_store \<Rightarrow> workflow_store" where
  "export_snapshot s = s"

definition replace_snapshot :: "workflow_store \<Rightarrow> workflow_store \<Rightarrow> workflow_store" where
  "replace_snapshot s snapshot = snapshot"

definition get_session :: "workflow_store \<Rightarrow> string \<Rightarrow> workflow_session option" where
  "get_session s identifier = map_of (wst_sessions s) identifier"

definition create_session :: "workflow_store \<Rightarrow> workflow_session \<Rightarrow> workflow_store res" where
  "create_session s session =
     and_then (require (\<not> blank (wf_identifier session))
       (ValueError ''Workflow session identifier must not be blank'')) (\<lambda>_.
     and_then (require (map_of (wst_sessions s) (wf_identifier session) = None)
       (ValueError (''Workflow session identifier already exists: '' @ wf_identifier session))) (\<lambda>_.
     Inr (s\<lparr>wst_sessions := AList.update (wf_identifier session) session (wst_sessions s)\<rparr>)))"

definition delete_session :: "workflow_store \<Rightarrow> string \<Rightarrow> bool \<times> workflow_store" where
  "delete_session s identifier =
     (map_of (wst_sessions s) identifier \<noteq> None,
      s\<lparr>wst_sessions := AList.delete identifier (wst_sessions s)\<rparr>)"

text \<open>The artifacts are the changed fields, as the update \<open>replace\<close> makes of the session.\<close>

definition transition_session :: "workflow_store \<Rightarrow> string \<Rightarrow> session_state \<Rightarrow> session_state
    \<Rightarrow> (workflow_session \<Rightarrow> workflow_session) \<Rightarrow> (bool \<times> workflow_store) res" where
  "transition_session s identifier expected_state new_state artifacts =
     (case map_of (wst_sessions s) identifier of
        None \<Rightarrow> Inr (False, s)
      | Some session \<Rightarrow>
          if wf_state session \<noteq> expected_state then Inr (False, s)
          else and_then (session_post_init (artifacts (session\<lparr>wf_state := new_state\<rparr>))) (\<lambda>updated.
            Inr (True, s\<lparr>wst_sessions := AList.update identifier updated (wst_sessions s)\<rparr>)))"

definition publish_sprint :: "sprint_status \<Rightarrow> workflow_store \<Rightarrow> workflow_store" where
  "publish_sprint status s = s\<lparr>wst_sprint := Some status\<rparr>"

definition publish_verification :: "verification_report \<Rightarrow> workflow_store \<Rightarrow> workflow_store" where
  "publish_verification report s = s\<lparr>wst_verification := Some report\<rparr>"

definition publish_review :: "review_report \<Rightarrow> workflow_store \<Rightarrow> workflow_store" where
  "publish_review report s = s\<lparr>wst_review := Some report\<rparr>"

text \<open>What the Agent's services share: the two stores and the world outside. The list of
  effects is a history variable of the model, for the workflow each was made for.\<close>

datatype effect =
    Executed string execution_request
  | Committed string commit_request string

record 'w agent =
  ag_store :: workflow_store
  ag_approvals :: approval_repository
  ag_world :: 'w
  ag_effects :: "effect list"

section \<open>Lemmas\<close>

interpretation sessions: keyed_store get_session create_session wf_identifier "\<lambda>s. s"
  by unfold_locales
    (auto simp: get_session_def create_session_def res_simps succeeds_iff update_conv' fun_eq_iff)

text \<open>What a session that exists satisfies.\<close>

definition session_coherent :: "workflow_session \<Rightarrow> bool" where
  "session_coherent s \<longleftrightarrow> session_post_init s = Inr s"

lemma session_post_init_Inr: "session_post_init s = Inr t \<Longrightarrow> t = s \<and> session_coherent s"
  by (auto simp: session_coherent_def session_post_init_def res_simps)

lemma transition_session_True:
  "transition_session s i a b f = Inr (True, s') \<longleftrightarrow>
     (\<exists>session. get_session s i = Some session \<and> wf_state session = a
        \<and> session_coherent (f (session\<lparr>wf_state := b\<rparr>))
        \<and> s' = s\<lparr>wst_sessions := AList.update i (f (session\<lparr>wf_state := b\<rparr>)) (wst_sessions s)\<rparr>)"
  by (auto simp: transition_session_def get_session_def res_simps session_coherent_def
      dest: session_post_init_Inr split: option.splits if_splits)

lemma transition_session_False:
  "transition_session s i a b f = Inr (False, s') \<longleftrightarrow>
     s' = s \<and> (case get_session s i of None \<Rightarrow> True | Some session \<Rightarrow> wf_state session \<noteq> a)"
  by (auto simp: transition_session_def get_session_def res_simps split: option.splits if_splits)

lemma get_session_update [simp]:
  "get_session (s\<lparr>wst_sessions := AList.update i v (wst_sessions s)\<rparr>) j =
     (if j = i then Some v else get_session s j)"
  by (simp add: get_session_def update_conv')

lemma get_session_publish [simp]:
  "get_session (publish_sprint x s) = get_session s"
  "get_session (publish_verification v s) = get_session s"
  "get_session (publish_review r s) = get_session s"
  by (simp_all add: fun_eq_iff get_session_def publish_sprint_def publish_verification_def
      publish_review_def)

end
