(* ===== verification/OperationalExecution.thy ===== *)
theory OperationalExecution
  imports WorkflowState DispatchLifecycle
begin

text \<open>
  The Agent's orchestration of an operational action (\<open>workflow/operational_execution.py\<close>):
  it submits one approved request to Core, or asks Core what became of it, and projects the
  answer on the workflow session. \<open>resume\<close> is cut at its two awaits, the submission and the
  status read: other calls may run while Core answers, and what is stored afterwards is the
  session as it was read before. Instants the code reads are arguments. A reply \<open>None\<close> stands
  for the client errors the code catches.
\<close>

section \<open>Results and storing\<close>

definition operational_execution_intents :: "string list" where
  "operational_execution_intents = [''restart-service'']"

definition is_operational_execution_enabled :: "string \<Rightarrow> bool" where
  "is_operational_execution_enabled execution_intent \<longleftrightarrow>
     execution_intent \<in> set operational_execution_intents"

definition operational_result ::
  "workflow_session option \<Rightarrow> string \<Rightarrow> string option \<Rightarrow> workflow_result" where
  "operational_result session workflow_id error =
     (let state = (case session of None \<Rightarrow> SESSION_BLOCKED | Some s \<Rightarrow> wf_state s);
          phase = (if state = SESSION_COMPLETED then PHASE_COMPLETED
            else if state = SESSION_VERIFYING then PHASE_VERIFYING
            else if state = SESSION_EXECUTING then PHASE_IN_PROGRESS
            else PHASE_BLOCKED)
      in (plain_result \<lparr>sp_checkpoint_id = workflow_id, sp_title = ''Operational action'',
            sp_goal = ''Reconcile one exact approved operational action'', sp_phase = phase\<rparr>)
           \<lparr>wres_error_message := error\<rparr>)"

text \<open>\<open>_store\<close>: the session as it was read, with a new state and reference, replaces whatever
  is filed under its identifier.\<close>

definition store_reference :: "workflow_session \<Rightarrow> operational_execution_reference \<Rightarrow> session_state
    \<Rightarrow> (workflow_store, workflow_session) action" where
  "store_reference session reference state s =
     (case session_post_init (session\<lparr>wf_state := state,
          wf_operational_execution_reference := Some reference\<rparr>) of
        Inl e \<Rightarrow> (Inl e, s)
      | Inr updated \<Rightarrow> (Inr updated, replace_snapshot s ((export_snapshot s)
          \<lparr>wst_sessions := AList.update (wf_identifier session) updated (wst_sessions s)\<rparr>)))"

section \<open>The approval\<close>

definition approval_terms ::
  "operational_approval_metadata \<Rightarrow> action_request \<Rightarrow> bool" where
  "approval_terms m r \<longleftrightarrow>
     oam_action_request_id m = oar_request_id r
     \<and> oam_action_request_digest m = oar_request_digest r
     \<and> oam_candidate_id m = oar_candidate_id r
     \<and> oam_candidate_fingerprint m = oar_candidate_fingerprint r
     \<and> oam_operational_plan_fingerprint m = oar_candidate_plan_fingerprint r
     \<and> oam_provider_id m = oar_provider_id r
     \<and> oam_resource_id m = oar_resource_id r
     \<and> oam_resource_type m = oar_resource_type r
     \<and> oam_target_fingerprint m = oar_target_fingerprint r
     \<and> oam_target_version m = oar_target_version r
     \<and> oam_operation_intent m = oar_execution_intent r
     \<and> oam_disruption_scope m = oar_disruption_scope r
     \<and> oam_verification_digest m = agent_verification_digest (oar_verification r)
     \<and> oam_generated_at m = instant (oar_generated_at r)
     \<and> oam_expires_at m = instant (oar_expires_at r)"

datatype approval_check = Refused string | Granted action_request approval_result

definition validated_approval ::
  "int \<Rightarrow> approval_repository \<Rightarrow> workflow_session \<Rightarrow> action_request option \<Rightarrow> approval_check" where
  "validated_approval now approvals session request =
     (case (request, wf_operational_action_approval_id session) of
        (Some r, Some approval_id) \<Rightarrow>
          (case get_request approvals approval_id of
             None \<Rightarrow> Refused ''operational_approval_missing''
           | Some approval \<Rightarrow>
               let d = decision approval; saved = ad_request d in
               (case ap_operational_metadata saved of
                  None \<Rightarrow> Refused ''operational_approval_invalid''
                | Some metadata \<Rightarrow>
                    if ap_purpose saved \<noteq> OPERATIONAL_ACTION
                    then Refused ''operational_approval_invalid''
                    else if ap_identifier saved \<noteq> approval_id
                      \<or> ap_workflow_id saved \<noteq> Some (wf_identifier session)
                    then Refused ''operational_approval_mismatch''
                    else if ad_status d \<noteq> APPROVED
                    then Refused ''operational_approval_required''
                    else if instant (oar_expires_at r) \<le> now \<or> oam_expires_at metadata \<le> now
                    then Refused ''operational_approval_expired''
                    else if \<not> approval_terms metadata r
                    then Refused ''operational_approval_mismatch''
                    else Granted r approval))
      | _ \<Rightarrow> Refused ''operational_approval_missing'')"

section \<open>Resuming\<close>

text \<open>What a call has still to do: it has returned, or awaits Core.\<close>

datatype pending_call =
    Returned workflow_result
  | Submitting workflow_session action_request dispatch_request
  | Observing workflow_session action_request operational_execution_reference

definition execution_blocked :: "action_request \<Rightarrow> datetime \<Rightarrow> operational_execution_reference" where
  "execution_blocked r observed =
     \<lparr>oxr_request_id = oar_request_id r, oxr_request_digest = oar_request_digest r,
      oxr_stage = STAGE_EXECUTION_BLOCKED, oxr_dispatch_status = None, oxr_ledger_state = None,
      oxr_provider_operation_id = None, oxr_verification_status = None, oxr_submitted_at = None,
      oxr_last_observed_at = observed, oxr_terminal = False,
      oxr_controlled_reason = Some ''operational_execution_not_enabled'',
      oxr_audit_events = [''execution_blocked_by_agent_gate'']\<rparr>"

definition submission_unknown ::
  "action_request \<Rightarrow> datetime \<Rightarrow> datetime \<Rightarrow> operational_execution_reference" where
  "submission_unknown r submitted observed =
     \<lparr>oxr_request_id = oar_request_id r, oxr_request_digest = oar_request_digest r,
      oxr_stage = STAGE_SUBMISSION_OUTCOME_UNKNOWN, oxr_dispatch_status = None,
      oxr_ledger_state = None, oxr_provider_operation_id = None, oxr_verification_status = None,
      oxr_submitted_at = Some submitted, oxr_last_observed_at = observed, oxr_terminal = False,
      oxr_controlled_reason = Some ''operational_submission_outcome_unknown'',
      oxr_audit_events = [''authenticated_dispatch_submitted'', ''submission_outcome_unknown'']\<rparr>"

text \<open>The branch \<open>except AtlasCoreClientError\<close> of a submission.\<close>

definition submission_failed :: "workflow_session \<Rightarrow> action_request \<Rightarrow> datetime \<Rightarrow> datetime
    \<Rightarrow> (workflow_store, workflow_result) action" where
  "submission_failed session r submitted observed =
     seq (store_reference session (submission_unknown r submitted observed) SESSION_EXECUTING)
       (\<lambda>updated. pure (operational_result (Some updated) (wf_identifier session)
         (Some ''operational_submission_outcome_unknown'')))"

definition resumable_stages :: "operational_execution_stage list" where
  "resumable_stages = [STAGE_EXECUTION_BLOCKED, STAGE_SUBMISSION_OUTCOME_UNKNOWN]"

text \<open>\<open>get_operational_action_status\<close> refuses an identifier that is no path segment.\<close>

definition status_identifier :: "string \<Rightarrow> bool" where
  "status_identifier request_id \<longleftrightarrow> request_id \<noteq> [] \<and> request_id = strip request_id
     \<and> list_all (\<lambda>c. c \<notin> set ''/?#'') request_id"

definition submit_or_block :: "(string \<Rightarrow> bool) \<Rightarrow> approval_result \<Rightarrow> datetime \<Rightarrow> datetime
    \<Rightarrow> workflow_session \<Rightarrow> action_request \<Rightarrow> (workflow_store, pending_call) action" where
  "submit_or_block policy approval submitted observed session r =
     (if \<not> policy (oar_execution_intent r)
      then seq (store_reference session (execution_blocked r observed) (wf_state session)) (\<lambda>_.
        pure (Returned (operational_result (Some session) (wf_identifier session)
          (Some ''operational_execution_not_enabled''))))
      else (case dispatch_message r approval of
          Inl e \<Rightarrow> seq (submission_failed session r submitted observed) (\<lambda>res. pure (Returned res))
        | Inr message \<Rightarrow> pure (Submitting session r message)))"

definition start_resume :: "(string \<Rightarrow> bool) \<Rightarrow> approval_repository \<Rightarrow> int \<Rightarrow> datetime \<Rightarrow> datetime
    \<Rightarrow> string \<Rightarrow> (workflow_store, pending_call) action" where
  "start_resume policy approvals now submitted observed workflow_id s =
     (case get_session s workflow_id of
        None \<Rightarrow> (Inr (Returned (operational_result None workflow_id (Some ''Workflow not found''))), s)
      | Some session \<Rightarrow>
          let finish = (\<lambda>error. (Inr (Returned
                (operational_result (Some session) workflow_id (Some error))), s)) in
          if wf_effect_kind session \<noteq> EFFECT_OPERATIONAL_ACTION
          then finish ''Workflow is not operational''
          else (case validated_approval now approvals session
                  (wf_operational_action_request session) of
              Refused error \<Rightarrow> finish error
            | Granted r approval \<Rightarrow>
                (case wf_operational_execution_reference session of
                   None \<Rightarrow> submit_or_block policy approval submitted observed session r s
                 | Some reference \<Rightarrow>
                     if oxr_request_id reference \<noteq> oar_request_id r
                     then finish ''operational_execution_reference_mismatch''
                     else if oxr_stage reference \<notin> set resumable_stages
                     then (if status_identifier (oar_request_id r)
                       then (Inr (Observing session r reference), s)
                       else finish ''operational_status_unavailable'')
                     else submit_or_block policy approval submitted observed session r s)))"

section \<open>Core's answers\<close>

fun stage_text :: "operational_execution_stage \<Rightarrow> string" where
  "stage_text STAGE_EXECUTION_BLOCKED = ''execution_blocked''"
| "stage_text STAGE_SUBMISSION_OUTCOME_UNKNOWN = ''submission_outcome_unknown''"
| "stage_text STAGE_DISPATCH_PENDING = ''dispatch_pending''"
| "stage_text STAGE_VERIFICATION_PENDING = ''verification_pending''"
| "stage_text STAGE_VERIFIED = ''verified''"
| "stage_text STAGE_FAILED = ''failed''"
| "stage_text STAGE_VERIFICATION_FAILED = ''verification_failed''"
| "stage_text STAGE_TARGET_REPLACED = ''target_replaced''"
| "stage_text STAGE_OUTCOME_UNKNOWN = ''outcome_unknown''"

definition from_dispatch :: "action_request \<Rightarrow> dispatch_result \<Rightarrow> datetime
    \<Rightarrow> (operational_execution_reference \<times> session_state) res" where
  "from_dispatch r result observed =
     and_then (require (\<not> (ors_request_id result \<noteq> oar_request_id r
         \<or> ors_request_digest result \<noteq> oar_request_digest r))
       (ValueError ''Core operational dispatch identity mismatch'')) (\<lambda>_.
     let succeeded = (ors_status result = DISPATCH_SUCCEEDED);
         stage = (if succeeded then STAGE_VERIFICATION_PENDING
           else if ors_status result = DISPATCH_UNKNOWN then STAGE_OUTCOME_UNKNOWN
           else STAGE_FAILED) in
     Inr (\<lparr>oxr_request_id = oar_request_id r, oxr_request_digest = oar_request_digest r,
       oxr_stage = stage, oxr_dispatch_status = Some (dispatch_status_text (ors_status result)),
       oxr_ledger_state = Some (if succeeded then ''succeeded''
         else dispatch_status_text (ors_status result)),
       oxr_provider_operation_id = ors_provider_operation_id result,
       oxr_verification_status = None, oxr_submitted_at = Some observed,
       oxr_last_observed_at = observed, oxr_terminal = (\<not> succeeded),
       oxr_controlled_reason = ors_sanitized_message result,
       oxr_audit_events = [''authenticated_dispatch_submitted'',
         if succeeded then ''verification_pending'' else stage_text stage]\<rparr>,
       if succeeded then SESSION_VERIFYING else SESSION_BLOCKED))"

definition submission_replied :: "workflow_session \<Rightarrow> action_request \<Rightarrow> datetime \<Rightarrow> datetime
    \<Rightarrow> dispatch_result option \<Rightarrow> (workflow_store, workflow_result) action" where
  "submission_replied session r submitted observed reply =
     (case reply of
        None \<Rightarrow> submission_failed session r submitted observed
      | Some result \<Rightarrow>
          seq (lift (from_dispatch r result observed)) (\<lambda>(reference, state).
          seq (store_reference session reference state) (\<lambda>updated.
          pure (operational_result (Some updated) (wf_identifier session) None))))"

definition lifecycle_projection ::
  "string \<Rightarrow> (operational_execution_stage \<times> session_state \<times> bool) option" where
  "lifecycle_projection = map_of
     [(''claimed'', (STAGE_DISPATCH_PENDING, SESSION_EXECUTING, False)),
      (''revalidated'', (STAGE_DISPATCH_PENDING, SESSION_EXECUTING, False)),
      (''dispatching'', (STAGE_DISPATCH_PENDING, SESSION_EXECUTING, False)),
      (''succeeded'', (STAGE_VERIFICATION_PENDING, SESSION_VERIFYING, False)),
      (''verifying'', (STAGE_VERIFICATION_PENDING, SESSION_VERIFYING, False)),
      (''verified'', (STAGE_VERIFIED, SESSION_COMPLETED, True)),
      (''failed'', (STAGE_FAILED, SESSION_BLOCKED, True)),
      (''verification_failed'', (STAGE_VERIFICATION_FAILED, SESSION_BLOCKED, True)),
      (''target_replaced'', (STAGE_TARGET_REPLACED, SESSION_BLOCKED, True)),
      (''outcome_unknown'', (STAGE_OUTCOME_UNKNOWN, SESSION_BLOCKED, True))]"

fun stage_event :: "operational_execution_stage \<Rightarrow> string option" where
  "stage_event STAGE_VERIFICATION_PENDING = Some ''verification_pending''"
| "stage_event STAGE_VERIFIED = Some ''verification_succeeded''"
| "stage_event STAGE_VERIFICATION_FAILED = Some ''verification_failed''"
| "stage_event STAGE_TARGET_REPLACED = Some ''target_replaced''"
| "stage_event STAGE_OUTCOME_UNKNOWN = Some ''outcome_unknown''"
| "stage_event _ = None"

definition from_status :: "operational_execution_reference \<Rightarrow> lifecycle_status \<Rightarrow> datetime
    \<Rightarrow> (operational_execution_reference \<times> session_state) res" where
  "from_status previous status observed =
     (case lifecycle_projection (ls_ledger_state status) of
        None \<Rightarrow> Inl (KeyError (ls_ledger_state status))
      | Some (stage, workflow_state, terminal) \<Rightarrow>
          let dispatch = ls_dispatch_result status in
          Inr (previous\<lparr>oxr_stage := stage,
            oxr_dispatch_status := (case dispatch of None \<Rightarrow> oxr_dispatch_status previous
              | Some d \<Rightarrow> Some (dispatch_status_text (ors_status d))),
            oxr_ledger_state := Some (ls_ledger_state status),
            oxr_provider_operation_id := (case dispatch of
              None \<Rightarrow> oxr_provider_operation_id previous | Some d \<Rightarrow> ors_provider_operation_id d),
            oxr_verification_status := map_option (verification_status_text \<circ> ovr_status)
              (ls_verification_result status),
            oxr_last_observed_at := observed, oxr_terminal := terminal,
            oxr_controlled_reason := (case dispatch of
              None \<Rightarrow> oxr_controlled_reason previous | Some d \<Rightarrow> ors_sanitized_message d),
            oxr_audit_events := oxr_audit_events previous @ ''core_lifecycle_observed''
              # option_list (stage_event stage)\<rparr>, workflow_state))"

definition status_replied :: "workflow_session \<Rightarrow> action_request \<Rightarrow> operational_execution_reference
    \<Rightarrow> datetime \<Rightarrow> lifecycle_status option \<Rightarrow> (workflow_store, workflow_result) action" where
  "status_replied session r reference observed reply =
     (let finish = (\<lambda>s error. operational_result (Some s) (wf_identifier session) error) in
      case reply of
        None \<Rightarrow> pure (finish session (Some ''operational_status_unavailable''))
      | Some status \<Rightarrow>
          if ls_request_digest status \<noteq> oar_request_digest r
          then pure (finish session (Some ''operational_core_identity_mismatch''))
          else
          seq (lift (from_status reference status observed)) (\<lambda>(updated_reference, state).
          seq (store_reference session updated_reference state) (\<lambda>updated.
          pure (finish updated None))))"

section \<open>Lemmas\<close>

lemma validated_approval_Granted:
  assumes "validated_approval now approvals session request = Granted r approval"
  shows "request = Some r"
    and "\<exists>i metadata. wf_operational_action_approval_id session = Some i
      \<and> get_request approvals i = Some approval \<and> approved approval
      \<and> ap_operational_metadata (ad_request (decision approval)) = Some metadata
      \<and> ap_identifier (ad_request (decision approval)) = i
      \<and> ap_workflow_id (ad_request (decision approval)) = Some (wf_identifier session)
      \<and> ap_purpose (ad_request (decision approval)) = OPERATIONAL_ACTION
      \<and> now < instant (oar_expires_at r) \<and> now < oam_expires_at metadata
      \<and> approval_terms metadata r"
  using assms
  by (auto simp: validated_approval_def Let_def approved_def not_le
      split: option.splits if_splits)

lemma store_reference_Inr:
  "store_reference session reference state s = (Inr updated, s') \<longleftrightarrow>
     updated = session\<lparr>wf_state := state, wf_operational_execution_reference := Some reference\<rparr>
     \<and> session_coherent updated
     \<and> s' = s\<lparr>wst_sessions := AList.update (wf_identifier session) updated (wst_sessions s)\<rparr>"
  by (auto simp: store_reference_def export_snapshot_def replace_snapshot_def session_coherent_def
      dest: session_post_init_Inr split: sum.splits)

lemma submit_or_block_Submitting:
  "submit_or_block policy approval submitted observed session r s = (Inr (Submitting s1 r1 m), t) \<longleftrightarrow>
     policy (oar_execution_intent r) \<and> dispatch_message r approval = Inr m
     \<and> s1 = session \<and> r1 = r \<and> t = s"
  by (auto simp: submit_or_block_def seq_Inr_iff split: sum.splits)

lemma start_resume_Submitting:
  assumes "start_resume policy approvals now submitted observed i s = (Inr (Submitting session r m), t)"
  shows "get_session s i = Some session \<and> t = s
    \<and> wf_effect_kind session = EFFECT_OPERATIONAL_ACTION
    \<and> policy (oar_execution_intent r)
    \<and> (\<exists>approval. validated_approval now approvals session
          (wf_operational_action_request session) = Granted r approval
        \<and> dispatch_message r approval = Inr m)
    \<and> (case wf_operational_execution_reference session of None \<Rightarrow> True
        | Some reference \<Rightarrow> oxr_stage reference \<in> set resumable_stages)"
  using assms
  by (auto simp: start_resume_def Let_def submit_or_block_Submitting
      split: option.splits approval_check.splits if_splits)

lemma approved_message_binds:
  assumes "action_request_post_init r = Inr r" "dispatch_message r approval = Inr m"
    and "ap_operational_metadata (ad_request (decision approval)) = Some metadata"
    and "approval_terms metadata r"
  shows "validate_contract m = Inr m"
proof -
  note digest = dispatch_message_digest [OF assms(2)]
  note facts = action_request_post_init_Inr [OF assms(1)]
  have differs: "\<not> approval_differs m"
    using assms(2-4)
    by (auto simp: dispatch_message_def res_simps approval_differs_def Let_def
        approval_binding_of_def approval_terms_def agent_verification_digest_eq)
  have fields: "odr_schema_version m = 1" "odr_effect_kind m = effect_kind_text (oar_effect_kind r)"
    "odr_generated_at m = oar_generated_at r" "odr_expires_at m = oar_expires_at r"
    "odr_execution_intent m = oar_execution_intent r" "odr_provider_id m = oar_provider_id r"
    "odr_resource_type m = oar_resource_type r" "odr_provider_action_id m = oar_provider_action_id r"
    "odr_request_digest m = oar_request_digest r" "odr_request_id m = oar_request_id r"
    "odr_idempotency_key m = oar_idempotency_key r"
    using assms(2,3) by (auto simp: dispatch_message_def res_simps)
  show ?thesis
    using facts digest
    by (simp add: validate_contract_def res_simps fields differs action_idempotency_key_eq not_le)
qed

section \<open>Properties\<close>

text \<open>
  C30. The Agent submits only what was approved, and Core's contract accepts it: a submission is
  for the stored session's own request, under an approved, unexpired approval of that very
  action for that workflow, with the execution gate open and no lifecycle observed yet; and
  the message the Agent builds for a well-formed action request passes Core's contract
  validation, digest, key and approval binding included.
\<close>

theorem submission_is_approved_and_acceptable:
  assumes "start_resume policy approvals now submitted observed i s
      = (Inr (Submitting session r m), t)"
    and "action_request_post_init r = Inr r"
  shows "validate_contract m = Inr m
    \<and> get_session s i = Some session \<and> wf_operational_action_request session = Some r
    \<and> policy (oar_execution_intent r) \<and> now < instant (oar_expires_at r)
    \<and> (\<exists>approval. get_request approvals (oab_approval_request_id (odr_approval m)) = Some approval
        \<and> approved approval
        \<and> ap_workflow_id (ad_request (decision approval)) = Some (wf_identifier session))
    \<and> option_list (map_option oxr_stage (wf_operational_execution_reference session))
        \<in> set ([] # map (\<lambda>x. [x]) resumable_stages)"
proof -
  note resume = start_resume_Submitting [OF assms(1)]
  then obtain approval where granted: "validated_approval now approvals session
      (wf_operational_action_request session) = Granted r approval"
    and message: "dispatch_message r approval = Inr m" by blast
  obtain j metadata where a: "get_request approvals j = Some approval" "approved approval"
    "ap_operational_metadata (ad_request (decision approval)) = Some metadata"
    "ap_identifier (ad_request (decision approval)) = j"
    "ap_workflow_id (ad_request (decision approval)) = Some (wf_identifier session)"
    "now < instant (oar_expires_at r)" "approval_terms metadata r"
    using validated_approval_Granted(2) [OF granted] by blast
  have "oab_approval_request_id (odr_approval m) = j"
    using message a by (auto simp: dispatch_message_def res_simps approval_binding_of_def)
  then show ?thesis
    using resume a approved_message_binds [OF assms(2) message a(3,7)]
      validated_approval_Granted(1) [OF granted]
    by (auto simp: option_list_def split: option.splits)
qed

text \<open>
  C33. The Agent can project every lifecycle Core can report: for the status of any entry of
  Core's ledger the projection is defined, the session completes exactly when Core's state is
  verified, and the new reference keeps the identity of the request.
\<close>

theorem core_lifecycle_projects:
  assumes "lifecycle_status_of l request_id = Inr (Some status)"
  shows "\<exists>reference state. from_status previous status observed = Inr (reference, state)
     \<and> (state = SESSION_COMPLETED) = (ls_ledger_state status = ''verified'')
     \<and> (oxr_stage reference \<in> set resumable_stages) = False
     \<and> oxr_request_id reference = oxr_request_id previous
     \<and> oxr_request_digest reference = oxr_request_digest previous
     \<and> oxr_ledger_state reference = Some (ls_ledger_state status)"
proof -
  obtain st where "ls_ledger_state status = state_text st"
    using assms by (auto simp: lifecycle_status_of_def res_simps split: option.splits)
  then show ?thesis
    by (cases st) (simp_all add: from_status_def lifecycle_projection_def Let_def
        resumable_stages_def)
qed
section \<open>Where the orchestration loses track\<close>

lemma coherent_with_reference:
  assumes "session_coherent session" "wf_operational_action_request session = Some r"
    and "oxr_request_id reference = oar_request_id r"
    and "oxr_request_digest reference = oar_request_digest r"
  shows "session_coherent (session\<lparr>wf_state := state,
    wf_operational_execution_reference := Some reference\<rparr>)"
  using assms
  by (auto simp: session_coherent_def session_post_init_def res_simps worker_matches_def
      action_request_matches_def split: option.splits)

text \<open>
  C34. When the execution gate closes after a submission of unknown outcome, resuming replaces
  the record of that submission by \<open>execution_blocked\<close>, with no submission time and no event of
  it: the Agent no longer knows that Core may have acted.
\<close>

theorem gate_erases_unknown_submission:
  assumes "get_session s (wf_identifier session) = Some session" "session_coherent session"
    and "wf_effect_kind session = EFFECT_OPERATIONAL_ACTION"
    and "validated_approval now approvals session (wf_operational_action_request session)
      = Granted r approval"
    and "wf_operational_execution_reference session = Some (submission_unknown r t u)"
    and "\<not> policy (oar_execution_intent r)"
  shows "map_option wf_operational_execution_reference
      (get_session (snd (start_resume policy approvals now submitted observed
         (wf_identifier session) s)) (wf_identifier session))
      = Some (Some (execution_blocked r observed))"
proof -
  have request: "wf_operational_action_request session = Some r"
    using validated_approval_Granted(1) [OF assms(4)] .
  have "session_coherent (session\<lparr>wf_state := wf_state session,
      wf_operational_execution_reference := Some (execution_blocked r observed)\<rparr>)"
    by (rule coherent_with_reference [OF assms(2) request]) (simp_all add: execution_blocked_def)
  then have stored: "store_reference session (execution_blocked r observed) (wf_state session) s
      = (Inr (session\<lparr>wf_state := wf_state session,
            wf_operational_execution_reference := Some (execution_blocked r observed)\<rparr>),
         s\<lparr>wst_sessions := AList.update (wf_identifier session)
            (session\<lparr>wf_state := wf_state session,
              wf_operational_execution_reference := Some (execution_blocked r observed)\<rparr>)
            (wst_sessions s)\<rparr>)"
    using store_reference_Inr by blast
  then have "start_resume policy approvals now submitted observed (wf_identifier session) s
      = submit_or_block policy approval submitted observed session r s"
    using assms(1,3,4,5)
    by (simp add: start_resume_def submission_unknown_def resumable_stages_def Let_def)
  then show ?thesis
    using assms(6) stored by (simp add: submit_or_block_def seq_def)
qed

text \<open>
  Once an action request has expired the Agent never asks Core about it again: resuming
  returns an error at once, without observing or storing anything, whatever is known of a
  submission already made.
\<close>

theorem expired_action_is_never_observed:
  assumes "get_session s i = Some session" "wf_operational_action_request session = Some r"
    and "instant (oar_expires_at r) \<le> now"
  shows "\<exists>result. start_resume policy approvals now submitted observed i s = (Inr (Returned result), s)
     \<and> wres_error_message result \<noteq> None"
proof -
  have "\<exists>error. validated_approval now approvals session (wf_operational_action_request session)
      = Refused error"
  proof (cases "validated_approval now approvals session (wf_operational_action_request session)")
    case (Granted q approval)
    then show ?thesis
      using validated_approval_Granted [OF Granted] assms(2,3) by auto
  qed simp
  then show ?thesis
    using assms(1) by (auto simp: start_resume_def Let_def operational_result_def plain_result_def)
qed

section \<open>Witnesses\<close>

definition sample_specification :: verification_specification where
  "sample_specification = \<lparr>ovs_pre_state = ''running'', ovs_expected_post_state = ''running'',
     ovs_identity_fingerprint = ''f'', ovs_health_requirement = ''none'',
     ovs_unknown_outcome_policy = ''observe''\<rparr>"

definition sample_action_draft :: action_request where
  "sample_action_draft = \<lparr>oar_request_id = ''action'', oar_request_digest = [],
     oar_idempotency_key = [], oar_workflow_session_id = ''wf'',
     oar_candidate_planning_session_id = ''p'', oar_candidate_id = ''c'',
     oar_candidate_fingerprint = ''cf'', oar_candidate_plan_id = ''cp'',
     oar_candidate_plan_fingerprint = ''cpf'', oar_effect_kind = EFFECT_OPERATIONAL_ACTION,
     oar_execution_intent = ''restart-service'', oar_provider_id = ''proxmox'',
     oar_resource_id = ''100'', oar_resource_type = ''qemu'',
     oar_provider_action_id = ''proxmox-qemu-graceful-restart-v1'',
     oar_target_fingerprint = ''tf'', oar_target_version = None,
     oar_disruption_scope = ''one'', oar_evidence_ids = [], oar_expected_pre_state = ''running'',
     oar_verification = sample_specification, oar_expires_at = Datetime 100 0,
     oar_translator_version = operational_translator_version, oar_generated_at = Datetime 0 0\<rparr>"

definition sample_action :: action_request where
  "sample_action = sample_action_draft
     \<lparr>oar_request_digest := action_request_digest sample_action_draft,
      oar_idempotency_key := action_idempotency_key ''action''
        (action_request_digest sample_action_draft)\<rparr>"

lemma sample_action_made: "action_request_post_init sample_action_draft = Inr sample_action"
  by (simp add: action_request_post_init_def sample_action_def resolve_provider_action_id_def
      translation_actions_def Let_def action_payload_ignores_digest)
    (simp add: sample_action_draft_def string_defs)

definition sample_metadata :: operational_approval_metadata where
  "sample_metadata = \<lparr>oam_action_request_id = ''action'',
     oam_action_request_digest = oar_request_digest sample_action, oam_candidate_id = ''c'',
     oam_candidate_fingerprint = ''cf'', oam_operational_plan_fingerprint = ''cpf'',
     oam_provider_id = ''proxmox'', oam_resource_id = ''100'', oam_resource_type = ''qemu'',
     oam_target_fingerprint = ''tf'', oam_target_version = None,
     oam_operation_intent = ''restart-service'', oam_disruption_scope = ''one'',
     oam_verification_digest = agent_verification_digest sample_specification,
     oam_generated_at = 0, oam_expires_at = 100\<rparr>"

definition sample_approval :: approval_result where
  "sample_approval = ApprovalResult \<lparr>ad_request =
       \<lparr>ap_identifier = ''a'', ap_checkpoint_id = ''k'', ap_title = ''t'',
        ap_requested_tool = ''operational'', ap_requested_command = [], ap_rationale = ''r'',
        ap_workflow_id = Some ''wf'', ap_requested_working_directory = None,
        ap_purpose = OPERATIONAL_ACTION, ap_verification_checks = [], ap_commit_metadata = None,
        ap_operational_metadata = Some sample_metadata\<rparr>,
     ad_status = APPROVED, ad_reviewer = Some ''operator'', ad_reason = None\<rparr>"

definition sample_candidate :: candidate_workflow_metadata where
  "sample_candidate = \<lparr>cwm_candidate_planning_session_id = ''p'', cwm_candidate_id = ''c'',
     cwm_candidate_fingerprint = ''cf'', cwm_candidate_plan_id = ''cp'',
     cwm_candidate_plan_fingerprint = ''cpf'', cwm_source_recommendation_id = ''r'',
     cwm_source_subsystem = ''s'', cwm_catalog_item_id = None, cwm_target_id = ''100'',
     cwm_target_type = ''qemu'', cwm_execution_category = ''operational'',
     cwm_execution_intent = ''restart-service'', cwm_evidence_ids = [],
     cwm_compatibility_assessment_id = None, cwm_compatibility_status = None,
     cwm_relationship_ids = [], cwm_conversion_timestamp = Datetime 0 0,
     cwm_core_revalidation_status = ''ok'', cwm_core_revalidation_fingerprint = ''cf'',
     cwm_effect_kind = EFFECT_OPERATIONAL_ACTION\<rparr>"

definition sample_operational :: "operational_execution_reference option \<Rightarrow> workflow_session" where
  "sample_operational reference = (new_session ''wf'' None None
     SESSION_AWAITING_IMPLEMENTATION_APPROVAL EFFECT_OPERATIONAL_ACTION)
     \<lparr>wf_source := SOURCE_CANDIDATE, wf_candidate_metadata := Some sample_candidate,
      wf_operational_action_request := Some sample_action,
      wf_operational_action_approval_id := Some ''a'',
      wf_operational_execution_reference := reference\<rparr>"

definition store_of :: "workflow_session \<Rightarrow> workflow_store" where
  "store_of session = empty_store\<lparr>wst_sessions := [(wf_identifier session, session)]\<rparr>"

lemma sample_action_fields:
  "oar_request_id sample_action = ''action''" "oar_workflow_session_id sample_action = ''wf''"
  "oar_candidate_id sample_action = ''c''" "oar_candidate_fingerprint sample_action = ''cf''"
  "oar_candidate_plan_fingerprint sample_action = ''cpf''"
  "oar_execution_intent sample_action = ''restart-service''"
  "instant (oar_expires_at sample_action) = 100"
  by (simp_all add: sample_action_def sample_action_draft_def)

lemma sample_granted:
  "now < 100 \<Longrightarrow> validated_approval now [(''a'', sample_approval)] (sample_operational reference)
     (wf_operational_action_request (sample_operational reference))
     = Granted sample_action sample_approval"
  by (simp add: validated_approval_def sample_operational_def new_session_def get_request_def
      sample_approval_def sample_metadata_def approval_terms_def Let_def)
    (simp add: sample_action_def sample_action_draft_def)

lemma sample_store_get: "get_session (store_of session) (wf_identifier session) = Some session"
  by (simp add: get_session_def store_of_def empty_store_def)

lemma sample_operational_id [simp]: "wf_identifier (sample_operational reference) = ''wf''"
  by (simp add: sample_operational_def new_session_def)

abbreviation sample_sent :: datetime where
  "sample_sent \<equiv> Datetime 5 0"

abbreviation sample_resumed :: datetime where
  "sample_resumed \<equiv> Datetime 6 0"

theorem submission_is_approved_and_acceptable_witness:
  "\<exists>m. start_resume is_operational_execution_enabled [(''a'', sample_approval)] 5 sample_sent sample_sent
       ''wf'' (store_of (sample_operational None))
     = (Inr (Submitting (sample_operational None) sample_action m), store_of (sample_operational None))
     \<and> validate_contract m = Inr m"
proof -
  obtain m where m: "dispatch_message sample_action sample_approval = Inr m"
    by (simp add: dispatch_message_def sample_approval_def approved_def)
  have "start_resume is_operational_execution_enabled [(''a'', sample_approval)] 5 sample_sent sample_sent
       ''wf'' (store_of (sample_operational None))
     = (Inr (Submitting (sample_operational None) sample_action m), store_of (sample_operational None))"
    using sample_store_get [of "sample_operational None"] sample_granted [of 5 None]
    by (simp add: start_resume_def Let_def sample_operational_def new_session_def
        submit_or_block_def is_operational_execution_enabled_def operational_execution_intents_def
        sample_action_fields m)
  then show ?thesis
    using submission_is_approved_and_acceptable
      [OF _ action_request_post_init_stable [OF sample_action_made]] by blast
qed

theorem core_lifecycle_projects_witness:
  "\<exists>status reference state.
     lifecycle_status_of sample_succeeded (odr_request_id sample_dispatch_request) = Inr (Some status)
     \<and> from_status (execution_blocked sample_action sample_sent) status sample_resumed = Inr (reference, state)"
proof -
  obtain status where status:
    "lifecycle_status_of sample_succeeded (odr_request_id sample_dispatch_request) = Inr (Some status)"
    by (simp add: lifecycle_status_of_def sample_entry)
  then show ?thesis
    using core_lifecycle_projects [OF status] by blast
qed

theorem gate_erases_unknown_submission_witness:
  "map_option wf_operational_execution_reference
     (get_session (snd (start_resume (\<lambda>_. False) [(''a'', sample_approval)] 5
        sample_resumed sample_resumed ''wf''
        (store_of (sample_operational (Some (submission_unknown sample_action sample_sent sample_sent)))))) ''wf'')
   = Some (Some (execution_blocked sample_action sample_resumed))"
proof -
  let ?s = "sample_operational (Some (submission_unknown sample_action sample_sent sample_sent))"
  have coherent: "session_coherent ?s"
    by (simp add: session_coherent_def session_post_init_def sample_operational_def new_session_def
        sample_candidate_def action_request_matches_def sample_action_fields submission_unknown_def)
  show ?thesis
    using gate_erases_unknown_submission [OF sample_store_get coherent _ sample_granted,
        of 5 sample_sent sample_sent]
    by (simp add: sample_operational_def new_session_def)
qed

theorem expired_action_is_never_observed_witness:
  "\<exists>result. start_resume is_operational_execution_enabled [(''a'', sample_approval)] 200 sample_sent
       sample_sent ''wf''       (store_of (sample_operational (Some (submission_unknown sample_action sample_sent sample_sent))))
     = (Inr (Returned result), store_of (sample_operational (Some (submission_unknown sample_action sample_sent sample_sent))))"
  using expired_action_is_never_observed
    [OF sample_store_get [of "sample_operational (Some (submission_unknown sample_action sample_sent sample_sent))"],
      of sample_action 200]
  by (force simp: sample_action_fields sample_operational_def new_session_def)


end
