(* ===== verification/WorkflowEngine.thy ===== *)
theory WorkflowEngine
  imports WorkflowState
begin

text \<open>
  The Agent's workflow engine (\<open>app/workflow/engine.py\<close>) for roadmap workflows: planning and
  the pause for approval (\<open>run\<close>), the resumption at each approval boundary (implementation,
  verification, commit) and the helpers they share, in the variant without a persistence
  coordinator. The collaborators are the modelled ones: planner, tool policy and execution
  backend, verification and review engines, approval engine and repository, git inspector and
  committer. What lies outside is in \<open>engine_env\<close>: the file system and git, the process runner
  and clock, and the model advisors. The resumption of candidate workflows is the argument
  \<open>candidate\<close> of \<open>resume\<close>; \<open>run\<close> never creates one. \<open>ag_effects\<close> is a history variable: it
  records each execution and commit attempted and nothing reads it.
\<close>

section \<open>The environment\<close>

record 'w engine_env =
  ee_tree :: "'w work_tree"
  ee_machine :: "'w machine"
  ee_environ :: "string \<rightharpoonup> string"
  ee_backend :: "'w execution_backend"
  ee_planning_advisor :: "(implementation_plan \<Rightarrow> ('w, model_response) action) option"
  ee_review_advisor :: "(review_request \<Rightarrow> review_report \<Rightarrow> ('w, model_response) action) option"
  ee_now :: "'w \<Rightarrow> int"

abbreviation ee_resolve :: "'w engine_env \<Rightarrow> path \<Rightarrow> path" where
  "ee_resolve E \<equiv> wt_resolve (ee_tree E)"

text \<open>An action on the world outside, a read, and an attribute of an optional value.\<close>

definition outside :: "('w, 'a) action \<Rightarrow> ('w agent, 'a) action" where
  "outside m a = (case m (ag_world a) of (r, w) \<Rightarrow> (r, a\<lparr>ag_world := w\<rparr>))"

definition reading :: "('s \<Rightarrow> 'a res) \<Rightarrow> ('s, 'a) action" where
  "reading f s = (f s, s)"

definition attribute :: "string \<Rightarrow> 'a option \<Rightarrow> 'a res" where
  "attribute name x = (case x of None \<Rightarrow> Inl (AttributeError name) | Some v \<Rightarrow> Inr v)"

definition record_effect :: "effect \<Rightarrow> ('w agent, unit) action" where
  "record_effect e a = (Inr (), a\<lparr>ag_effects := ag_effects a @ [e]\<rparr>)"

definition evaluate_now :: "'w engine_env \<Rightarrow> approval_decision \<Rightarrow> ('w agent, approval_result) action" where
  "evaluate_now E d = reading (\<lambda>a. evaluate (ee_now E (ag_world a)) d)"

definition stored_approval :: "string \<Rightarrow> ('w agent, approval_result option) action" where
  "stored_approval identifier = reading (\<lambda>a. Inr (get_request (ag_approvals a) identifier))"

section \<open>Publishing and transitions\<close>

definition engine_publish_sprint :: "sprint_status \<Rightarrow> ('w agent, unit) action" where
  "engine_publish_sprint status a = (Inr (), a\<lparr>ag_store := publish_sprint status (ag_store a)\<rparr>)"

definition engine_publish_verification :: "verification_report \<Rightarrow> ('w agent, unit) action" where
  "engine_publish_verification report a =
     (Inr (), a\<lparr>ag_store := publish_verification report (ag_store a)\<rparr>)"

definition engine_publish_review :: "review_report \<Rightarrow> ('w agent, unit) action" where
  "engine_publish_review report a = (Inr (), a\<lparr>ag_store := publish_review report (ag_store a)\<rparr>)"

definition engine_transition :: "string \<Rightarrow> session_state \<Rightarrow> session_state
    \<Rightarrow> (workflow_session \<Rightarrow> workflow_session) \<Rightarrow> ('w agent, bool) action" where
  "engine_transition identifier expected_state new_state artifacts a =
     (case transition_session (ag_store a) identifier expected_state new_state artifacts of
        Inl e \<Rightarrow> (Inl e, a)
      | Inr (ok, s) \<Rightarrow> (Inr ok, a\<lparr>ag_store := s\<rparr>))"

definition engine_create_session :: "workflow_session \<Rightarrow> ('w agent, unit) action" where
  "engine_create_session session a =
     (case create_session (ag_store a) session of
        Inl e \<Rightarrow> (Inl e, a) | Inr s \<Rightarrow> (Inr (), a\<lparr>ag_store := s\<rparr>))"

definition engine_delete_session :: "string \<Rightarrow> ('w agent, bool) action" where
  "engine_delete_session identifier a =
     (case delete_session (ag_store a) identifier of (b, s) \<Rightarrow> (Inr b, a\<lparr>ag_store := s\<rparr>))"

definition save_approval_request :: "approval_request \<Rightarrow> ('w agent, unit) action" where
  "save_approval_request r a =
     (case save_request (ag_approvals a) r of
        Inl e \<Rightarrow> (Inl e, a) | Inr s \<Rightarrow> (Inr (), a\<lparr>ag_approvals := s\<rparr>))"

definition session_status :: "workflow_session \<Rightarrow> sprint_phase \<Rightarrow> sprint_status res" where
  "session_status session phase =
     and_then (attribute ''checkpoint'' (wf_request session)) (\<lambda>request.
     let checkpoint = wq_checkpoint request in
     Inr \<lparr>sp_checkpoint_id = cp_identifier checkpoint, sp_title = cp_title checkpoint,
       sp_goal = cp_goal checkpoint, sp_phase = phase\<rparr>)"

definition request_status :: "workflow_request \<Rightarrow> sprint_phase \<Rightarrow> sprint_status" where
  "request_status request phase = (let checkpoint = wq_checkpoint request in
     \<lparr>sp_checkpoint_id = cp_identifier checkpoint, sp_title = cp_title checkpoint,
      sp_goal = cp_goal checkpoint, sp_phase = phase\<rparr>)"

text \<open>The result that shows a session's own artifacts.\<close>

definition session_result :: "workflow_session \<Rightarrow> sprint_status \<Rightarrow> workflow_result" where
  "session_result session sprint =
     (plain_result sprint)\<lparr>wres_plan := wf_plan session, wres_context := wf_context session,
       wres_planning_analysis := wf_planning_analysis session,
       wres_review_analysis := wf_review_analysis session,
       wres_execution_result := wf_execution_result session\<rparr>"

definition publish_phase :: "workflow_session \<Rightarrow> sprint_phase \<Rightarrow> ('w agent, sprint_status) action" where
  "publish_phase session phase =
     seq (lift (session_status session phase)) (\<lambda>status.
     seq (engine_publish_sprint status) (\<lambda>_. pure status))"

definition blocked_session_result :: "workflow_session \<Rightarrow> string \<Rightarrow> execution_result option
    \<Rightarrow> verification_report option \<Rightarrow> review_report option \<Rightarrow> ('w agent, workflow_result) action" where
  "blocked_session_result session error_message execution_result verification_report review_report =
     seq (publish_phase session PHASE_BLOCKED) (\<lambda>status.
     pure ((session_result session status)
       \<lparr>wres_execution_result := (case execution_result of
          None \<Rightarrow> wf_execution_result session | Some r \<Rightarrow> Some r),
        wres_verification_report := verification_report, wres_review_report := review_report,
        wres_error_message := Some error_message\<rparr>))"

definition session_error_result ::
  "workflow_session \<Rightarrow> string \<Rightarrow> ('w agent, workflow_result) action" where
  "session_error_result session error_message =
     (let phase = (case wf_state session of
            SESSION_EXECUTING \<Rightarrow> PHASE_IN_PROGRESS | SESSION_VERIFYING \<Rightarrow> PHASE_VERIFYING
          | SESSION_COMMITTING \<Rightarrow> PHASE_COMMITTING | SESSION_COMPLETED \<Rightarrow> PHASE_COMPLETED
          | _ \<Rightarrow> PHASE_BLOCKED) in
      seq (lift (session_status session phase)) (\<lambda>status.
      pure ((session_result session status)
        \<lparr>wres_verification_report := wf_verification_report session,
         wres_review_report := wf_review_report session,
         wres_error_message := Some error_message\<rparr>)))"

definition blocked_resume_result :: "string \<Rightarrow> string \<Rightarrow> ('w agent, workflow_result) action" where
  "blocked_resume_result workflow_id error_message =
     (let status = \<lparr>sp_checkpoint_id = workflow_id, sp_title = ''Workflow Resume'',
            sp_goal = ''Resume an approved workflow.'', sp_phase = PHASE_BLOCKED\<rparr> in
      seq (engine_publish_sprint status) (\<lambda>_.
      pure ((plain_result status)\<lparr>wres_error_message := Some error_message\<rparr>)))"

definition block_claimed_session :: "string \<Rightarrow> session_state \<Rightarrow> ('w agent, unit) action" where
  "block_claimed_session workflow_id expected_state =
     seq (engine_transition workflow_id expected_state SESSION_BLOCKED (\<lambda>s. s)) (\<lambda>_. pure ())"

text \<open>Blocking a session a handler has claimed, and reporting it.\<close>

definition block_and_report :: "workflow_session \<Rightarrow> session_state \<Rightarrow> string \<Rightarrow> execution_result option
    \<Rightarrow> verification_report option \<Rightarrow> review_report option \<Rightarrow> ('w agent, workflow_result) action" where
  "block_and_report session expected_state error_message execution_result verification_report
       review_report =
     seq (block_claimed_session (wf_identifier session) expected_state) (\<lambda>_.
     blocked_session_result session error_message execution_result verification_report review_report)"

definition block_verification_session ::
  "workflow_session \<Rightarrow> string \<Rightarrow> ('w agent, workflow_result) action" where
  "block_verification_session session error_message =
     seq (engine_transition (wf_identifier session) SESSION_AWAITING_VERIFICATION_APPROVAL
       SESSION_BLOCKED (\<lambda>s. s)) (\<lambda>ok.
     if \<not> ok then session_error_result session ''Workflow already resumed''
     else blocked_session_result session error_message None None None)"

definition block_commit_session ::
  "workflow_session \<Rightarrow> string \<Rightarrow> ('w agent, workflow_result) action" where
  "block_commit_session session error_message =
     seq (engine_transition (wf_identifier session) SESSION_AWAITING_COMMIT_APPROVAL
       SESSION_BLOCKED (\<lambda>s. s)) (\<lambda>ok.
     if \<not> ok then session_error_result session ''Workflow already resumed''
     else blocked_session_result session error_message None (wf_verification_report session)
       (wf_review_report session))"

definition pending_implementation_result ::
  "workflow_session \<Rightarrow> approval_request \<Rightarrow> ('w agent, workflow_result) action" where
  "pending_implementation_result session approval_request =
     seq (publish_phase session PHASE_AWAITING_APPROVAL) (\<lambda>status.
     pure ((plain_result status)\<lparr>wres_plan := wf_plan session, wres_context := wf_context session,
       wres_planning_analysis := wf_planning_analysis session,
       wres_approval_request := Some approval_request,
       wres_error_message := Some ''Approval pending''\<rparr>))"

definition waiting_verification_result ::
  "workflow_session \<Rightarrow> approval_request option \<Rightarrow> ('w agent, workflow_result) action" where
  "waiting_verification_result session approval_request =
     seq (publish_phase session PHASE_AWAITING_VERIFICATION_APPROVAL) (\<lambda>status.
     pure ((session_result session status)\<lparr>wres_approval_request := approval_request\<rparr>))"

definition waiting_commit_result ::
  "workflow_session \<Rightarrow> approval_request option \<Rightarrow> ('w agent, workflow_result) action" where
  "waiting_commit_result session approval_request =
     seq (publish_phase session PHASE_AWAITING_COMMIT_APPROVAL) (\<lambda>status.
     pure ((session_result session status)\<lparr>wres_approval_request := approval_request,
       wres_verification_report := wf_verification_report session,
       wres_review_report := wf_review_report session\<rparr>))"

section \<open>Checks on the repository\<close>

definition is_log_path :: "string \<Rightarrow> bool" where
  "is_log_path p \<longleftrightarrow> path_parts (path_of p) \<noteq> [] \<and> hd (path_parts (path_of p)) = ''logs''"

definition validate_pre_execution_snapshot ::
  "(path \<Rightarrow> path) \<Rightarrow> repository_snapshot \<Rightarrow> implementation_plan \<Rightarrow> unit res" where
  "validate_pre_execution_snapshot resolve snapshot plan =
     and_then (require (snap_root snapshot = resolve (plan_repository_root plan))
       (ValueError ''Repository root differs from the approved plan'')) (\<lambda>_.
     and_then (require (snap_branch snapshot = plan_branch plan)
       (ValueError ''Repository branch differs from the approved plan'')) (\<lambda>_.
     and_then (require (snap_head_commit snapshot = plan_head_commit plan)
       (ValueError ''Repository HEAD differs from the approved plan'')) (\<lambda>_.
     and_then (require (snap_modified_files snapshot = [] \<and> snap_staged_files snapshot = [])
       (ValueError ''Repository contains pre-existing changes'')) (\<lambda>_.
     require (list_all is_log_path (snap_untracked_files snapshot))
       (ValueError ''Repository contains pre-existing changes'')))))"

definition workflow_changed_files ::
  "(path \<Rightarrow> path) \<Rightarrow> repository_snapshot \<Rightarrow> implementation_plan \<Rightarrow> path list res" where
  "workflow_changed_files resolve snapshot plan =
     and_then (require (snap_root snapshot = resolve (plan_repository_root plan))
       (ValueError ''Repository root differs from the approved plan'')) (\<lambda>_.
     and_then (require (snap_branch snapshot = plan_branch plan)
       (ValueError ''Repository branch differs from the approved plan'')) (\<lambda>_.
     let actual = dedupe (map path_of (filter (\<lambda>p. \<not> is_log_path p)
           (snap_modified_files snapshot @ snap_staged_files snapshot
             @ snap_untracked_files snapshot))) in
     and_then (require (actual \<noteq> [])
       (ValueError ''Workflow produced no committable changes'')) (\<lambda>_.
     and_then (require (list_all (\<lambda>p. p \<in> set (plan_affected_files plan)) actual)
       (ValueError ''Workflow changed files outside the approved plan'')) (\<lambda>_.
     Inr (sort actual)))))"

definition commit_message_of :: "string \<Rightarrow> string res" where
  "commit_message_of title =
     (let normalized_title = lower (join '' '' (words title)) in
      if normalized_title = [] then Inl (ValueError ''Plan title must not be blank'')
      else Inr (''feat(agent): '' @ normalized_title))"
section \<open>Approval requests\<close>

definition approval_matches_session ::
  "string \<Rightarrow> approval_request \<Rightarrow> workflow_session \<Rightarrow> bool res" where
  "approval_matches_session approval_identifier r session =
     (if ap_identifier r \<noteq> approval_identifier \<or> ap_purpose r \<noteq> IMPLEMENTATION
        \<or> ap_workflow_id r \<noteq> Some (wf_identifier session)
      then Inr False
      else and_then (attribute ''checkpoint_id'' (wf_plan session)) (\<lambda>plan.
        if ap_checkpoint_id r \<noteq> plan_checkpoint_id plan then Inr False
        else and_then (attribute ''execution_argv'' (wf_request session)) (\<lambda>request.
          case wq_execution_argv request of
            [] \<Rightarrow> Inl (IndexError ''tuple index out of range'')
          | tool # arguments \<Rightarrow>
              Inr (ap_requested_tool r = tool
                \<and> ap_requested_command r = wq_execution_argv request
                \<and> ap_requested_working_directory r = Some (wq_execution_workdir request)))))"

definition pending_decision :: "approval_request \<Rightarrow> approval_decision" where
  "pending_decision r =
     \<lparr>ad_request = r, ad_status = PENDING, ad_reviewer = None, ad_reason = None\<rparr>"

definition approval_environment :: "environment_variable \<Rightarrow> verification_approval_environment" where
  "approval_environment v = \<lparr>vae_name = ev_name v, vae_value_digest =
     (if \<not> ev_redacted v then sha256_hexdigest (utf8 (ev_value v))
      else (case ev_value_digest v of None \<Rightarrow> [] | Some d \<Rightarrow> d))\<rparr>"

definition approval_check_of ::
  "(path \<Rightarrow> path) \<Rightarrow> implementation_plan \<Rightarrow> verification_check \<Rightarrow> verification_approval_check" where
  "approval_check_of resolve plan c =
     \<lparr>vac_identifier = vc_identifier c, vac_command = vc_argv c,
      vac_working_directory = resolve_working_directory resolve (plan_repository_root plan)
        (vc_working_directory c),
      vac_timeout_seconds = vc_timeout_seconds c,
      vac_environment = map approval_environment (vc_environment c)\<rparr>"

definition verification_approval_draft ::
  "(path \<Rightarrow> path) \<Rightarrow> string \<Rightarrow> workflow_request \<Rightarrow> implementation_plan \<Rightarrow> approval_request" where
  "verification_approval_draft resolve identifier request plan =
     (let checks = map (approval_check_of resolve plan) (wq_verification_checks request) in
      \<lparr>ap_identifier = ''approval-verification-'' @ identifier,
       ap_checkpoint_id = plan_checkpoint_id plan,
       ap_title = ''Approve verification of '' @ plan_title plan,
       ap_requested_tool = ''verification'',
       ap_requested_command = ''verification-suite'' # map vac_identifier checks,
       ap_rationale = ''Approve the exact ordered verification checks.'',
       ap_workflow_id = Some identifier,
       ap_requested_working_directory = Some (plan_repository_root plan),
       ap_purpose = VERIFICATION, ap_verification_checks = checks,
       ap_commit_metadata = None, ap_operational_metadata = None\<rparr>)"

definition verification_approval_request ::
  "'w engine_env \<Rightarrow> workflow_session \<Rightarrow> ('w agent, approval_request) action" where
  "verification_approval_request E session =
     seq (lift (attribute ''verification_checks'' (wf_request session))) (\<lambda>request.
     seq (lift (attribute ''repository_root'' (wf_plan session))) (\<lambda>plan.
     seq (evaluate_now E (pending_decision (verification_approval_draft (ee_resolve E)
       (wf_identifier session) request plan))) (\<lambda>result.
     pure (ad_request (decision result)))))"

definition commit_approval_draft ::
  "string \<Rightarrow> implementation_plan \<Rightarrow> commit_request \<Rightarrow> string \<Rightarrow> approval_request" where
  "commit_approval_draft identifier plan c fingerprint =
     (let paths = sort (cr_paths c) in
      \<lparr>ap_identifier = ''approval-commit-'' @ identifier,
       ap_checkpoint_id = plan_checkpoint_id plan,
       ap_title = ''Approve commit of '' @ plan_title plan,
       ap_requested_tool = ''git'',
       ap_requested_command = ''git-commit'' # map path_text paths,
       ap_rationale = ''Approve the exact reviewed Git commit.'',
       ap_workflow_id = Some identifier,
       ap_requested_working_directory = Some (cr_repository_root c),
       ap_purpose = COMMIT, ap_verification_checks = [],
       ap_commit_metadata = Some \<lparr>cam_expected_branch = cr_expected_branch c,
         cam_expected_head = cr_expected_head c, cam_reviewed_files = paths,
         cam_reviewed_content_fingerprint = fingerprint, cam_commit_message = cr_message c\<rparr>,
       ap_operational_metadata = None\<rparr>)"

definition commit_approval_request :: "'w engine_env \<Rightarrow> workflow_session \<Rightarrow> commit_request \<Rightarrow> string
    \<Rightarrow> ('w agent, approval_request) action" where
  "commit_approval_request E session c fingerprint =
     seq (lift (attribute ''checkpoint_id'' (wf_plan session))) (\<lambda>plan.
     seq (evaluate_now E (pending_decision (commit_approval_draft (wf_identifier session) plan c
       fingerprint))) (\<lambda>result.
     pure (ad_request (decision result))))"

fun rehydrate_environment ::
  "(string \<rightharpoonup> string) \<Rightarrow> environment_variable list \<Rightarrow> environment_variable list res" where
  "rehydrate_environment environ [] = Inr []"
| "rehydrate_environment environ (v # vs) =
     and_then (if \<not> ev_redacted v then Inr v
       else (case environ (ev_name v) of
         None \<Rightarrow> Inl (ValueError ''verification environment value is unavailable after restart'')
       | Some raw \<Rightarrow>
           if Some (sha256_hexdigest (utf8 raw)) \<noteq> ev_value_digest v
           then Inl (ValueError ''verification environment value digest mismatch after restart'')
           else Inr (environment_variable_of (ev_name v) raw))) (\<lambda>w.
     and_then (rehydrate_environment environ vs) (\<lambda>ws. Inr (w # ws)))"

definition rehydrate_verification_checks ::
  "(string \<rightharpoonup> string) \<Rightarrow> verification_check list \<Rightarrow> verification_check list res" where
  "rehydrate_verification_checks environ checks =
     traverse (\<lambda>c. and_then (rehydrate_environment environ (vc_environment c))
       (\<lambda>environment. Inr (c\<lparr>vc_environment := environment\<rparr>))) checks"

section \<open>Planning\<close>

definition execution_request_of :: "workflow_request \<Rightarrow> implementation_plan \<Rightarrow> execution_request" where
  "execution_request_of request plan =
     \<lparr>er_identifier = wq_execution_identifier request, er_plan = plan,
      er_argv = wq_execution_argv request, er_working_directory = wq_execution_workdir request,
      er_timeout_seconds = None, er_environment = []\<rparr>"

definition implementation_approval ::
  "string \<Rightarrow> workflow_request \<Rightarrow> execution_request \<Rightarrow> approval_request res" where
  "implementation_approval workflow_id request xr =
     (case er_argv xr of
        [] \<Rightarrow> Inl (IndexError ''tuple index out of range'')
      | tool # arguments \<Rightarrow> Inr
          \<lparr>ap_identifier = ''approval-'' @ workflow_id,
           ap_checkpoint_id = cp_identifier (wq_checkpoint request),
           ap_title = ''Approve implementation of '' @ cp_title (wq_checkpoint request),
           ap_requested_tool = tool, ap_requested_command = er_argv xr,
           ap_rationale = ''Approve the exact planned implementation operation.'',
           ap_workflow_id = Some workflow_id,
           ap_requested_working_directory = Some (er_working_directory xr),
           ap_purpose = IMPLEMENTATION, ap_verification_checks = [],
           ap_commit_metadata = None, ap_operational_metadata = None\<rparr>)"

definition block_before_planning ::
  "workflow_request \<Rightarrow> string \<Rightarrow> ('w agent, workflow_result) action" where
  "block_before_planning request error_message =
     (let status = request_status request PHASE_BLOCKED in
      seq (engine_publish_sprint status) (\<lambda>_.
      pure ((plain_result status)\<lparr>wres_error_message := Some error_message\<rparr>)))"

text \<open>The blocked result of \<open>run\<close>, with what was made so far.\<close>

definition run_blocked :: "workflow_request \<Rightarrow> implementation_plan option \<Rightarrow> model_response option
    \<Rightarrow> string \<Rightarrow> ('w agent, workflow_result) action" where
  "run_blocked request plan analysis error_message =
     (let status = request_status request PHASE_BLOCKED in
      seq (engine_publish_sprint status) (\<lambda>_.
      pure ((plain_result status)\<lparr>wres_plan := plan, wres_planning_analysis := analysis,
        wres_error_message := Some error_message\<rparr>)))"

definition planned_session :: "string \<Rightarrow> workflow_request \<Rightarrow> implementation_plan
    \<Rightarrow> model_response option \<Rightarrow> agent_context option \<Rightarrow> workflow_session" where
  "planned_session workflow_id request plan planning_analysis context =
     (new_session workflow_id (Some request) (Some plan) SESSION_AWAITING_APPROVAL
        EFFECT_REPOSITORY_CHANGE)
       \<lparr>wf_planning_analysis := planning_analysis, wf_context := context\<rparr>"

text \<open>Storing the session and its approval request together: without the request the session
  is deleted again.\<close>

definition store_planned ::
  "workflow_session \<Rightarrow> approval_request \<Rightarrow> ('w agent, unit) action" where
  "store_planned session approval_request =
     seq (engine_create_session session) (\<lambda>_.
     attempt (save_approval_request approval_request)
       (\<lambda>e. seq (engine_delete_session (wf_identifier session)) (\<lambda>_. raise e)) pure)"

definition run :: "'w engine_env \<Rightarrow> workflow_request \<Rightarrow> agent_context option \<Rightarrow> string
    \<Rightarrow> ('w agent, workflow_result) action" where
  "run E request context workflow_id =
     seq (engine_publish_sprint (request_status request PHASE_PLANNED)) (\<lambda>_.
     seq (outside (make_inspector (ee_tree E) (wq_repository_root request))) (\<lambda>inspector.
     attempt (seq (outside (inspect (ee_tree E) inspector)) (\<lambda>snapshot.
         lift (make_plan (wq_checkpoint request) snapshot context)))
       (\<lambda>e. run_blocked request None None ''Workflow planning failed'') (\<lambda>plan.
     attempt (case ee_planning_advisor E of None \<Rightarrow> pure None
         | Some analyze \<Rightarrow> seq (outside (analyze plan)) (\<lambda>response. pure (Some response)))
       (\<lambda>e. run_blocked request (Some plan) None ''Model-assisted planning analysis failed'')
       (\<lambda>planning_analysis.
     seq (lift (implementation_approval workflow_id request (execution_request_of request plan)))
       (\<lambda>approval_request.
     seq (lift (session_post_init (planned_session workflow_id request plan planning_analysis
       context))) (\<lambda>session.
     attempt (store_planned session approval_request)
       (\<lambda>e. run_blocked request (Some plan) planning_analysis ''Pre-execution approval storage failed'')
       (\<lambda>_.
     let status = request_status request PHASE_AWAITING_APPROVAL in
     seq (engine_publish_sprint status) (\<lambda>_.
     pure ((plain_result status)\<lparr>wres_plan := Some plan, wres_context := context,
       wres_planning_analysis := planning_analysis,
       wres_approval_request := Some approval_request\<rparr>)))))))))"

text \<open>The orchestrator: \<open>None\<close> stands for a context engine that failed.\<close>

definition orchestrate :: "'w engine_env \<Rightarrow> bool \<Rightarrow> agent_context option \<Rightarrow> workflow_request \<Rightarrow> string
    \<Rightarrow> ('w agent, workflow_result) action" where
  "orchestrate E atlas_core_required acquired request workflow_id =
     (case acquired of
        None \<Rightarrow>
          if atlas_core_required
          then block_before_planning request ''Atlas Core context acquisition failed''
          else run E request None workflow_id
      | Some context \<Rightarrow> run E request (Some context) workflow_id)"

section \<open>Implementation\<close>

definition pause_for_verification :: "'w engine_env \<Rightarrow> workflow_session \<Rightarrow> execution_result
    \<Rightarrow> path list \<Rightarrow> ('w agent, approval_request \<times> bool) action" where
  "pause_for_verification E session execution_result changed_files =
     seq (verification_approval_request E session) (\<lambda>verification_approval.
     seq (save_approval_request verification_approval) (\<lambda>_.
     seq (engine_transition (wf_identifier session) SESSION_EXECUTING
       SESSION_AWAITING_VERIFICATION_APPROVAL
       (\<lambda>s. s\<lparr>wf_execution_result := Some execution_result, wf_changed_files := changed_files\<rparr>)) (\<lambda>ok.
     pure (verification_approval, ok))))"

definition execute_claimed ::
  "'w engine_env \<Rightarrow> workflow_session \<Rightarrow> ('w agent, workflow_result) action" where
  "execute_claimed E session =
     seq (publish_phase session PHASE_IN_PROGRESS) (\<lambda>_.
     seq (lift (attribute ''repository_root'' (wf_request session))) (\<lambda>request.
     seq (lift (attribute ''repository_root'' (wf_plan session))) (\<lambda>plan.
     seq (outside (make_inspector (ee_tree E) (wq_repository_root request))) (\<lambda>inspector.
     attempt (seq (outside (inspect (ee_tree E) inspector)) (\<lambda>before.
         lift (validate_pre_execution_snapshot (ee_resolve E) before plan)))
       (\<lambda>e. block_and_report session SESSION_EXECUTING ''Workflow repository validation failed''
         None None None) (\<lambda>_.
     let xr = execution_request_of request plan in
     seq (record_effect (Executed (wf_identifier session) xr)) (\<lambda>_.
     attempt (outside (execute (ee_resolve E) (ee_machine E) (ee_environ E) (ee_backend E) xr None))
       (\<lambda>e. block_and_report session SESSION_EXECUTING ''Workflow execution failed'' None None None)
       (\<lambda>execution_result.
     if xr_status execution_result \<noteq> Succeeded
     then block_and_report session SESSION_EXECUTING
       (case xr_error execution_result of Some (c # cs) \<Rightarrow> c # cs | _ \<Rightarrow> ''Execution failed'')
       (Some execution_result) None None
     else
     attempt (seq (outside (inspect (ee_tree E) inspector)) (\<lambda>after.
         lift (workflow_changed_files (ee_resolve E) after plan)))
       (\<lambda>e. block_and_report session SESSION_EXECUTING ''Workflow change inspection failed''
         (Some execution_result) None None) (\<lambda>changed_files.
     attempt (pause_for_verification E session execution_result changed_files)
       (\<lambda>e. block_and_report session SESSION_EXECUTING ''Verification approval storage failed''
         (Some execution_result) None None) (\<lambda>(verification_approval, ok).
     if \<not> ok
     then blocked_session_result session ''Workflow state transition failed''
       (Some execution_result) None None
     else
     seq (publish_phase session PHASE_AWAITING_VERIFICATION_APPROVAL) (\<lambda>status.
     pure ((plain_result status)\<lparr>wres_plan := Some plan, wres_context := wf_context session,
       wres_planning_analysis := wf_planning_analysis session,
       wres_approval_request := Some verification_approval,
       wres_execution_result := Some execution_result\<rparr>)))))))))))"

definition resume_implementation ::
  "'w engine_env \<Rightarrow> workflow_session \<Rightarrow> ('w agent, workflow_result) action" where
  "resume_implementation E session =
     (let approval_identifier = ''approval-'' @ wf_identifier session in
     seq (stored_approval approval_identifier) (\<lambda>found.
     case found of
       None \<Rightarrow> blocked_session_result session ''Approval not found'' None None None
     | Some approval_result \<Rightarrow>
     let approval_request = ad_request (decision approval_result) in
     seq (lift (approval_matches_session approval_identifier approval_request session)) (\<lambda>matches.
     if \<not> matches
     then blocked_session_result session ''Approval does not match workflow'' None None None
     else
     attempt (evaluate_now E (decision approval_result))
       (\<lambda>e. blocked_session_result session ''Approval is invalid'' None None None) (\<lambda>evaluated.
     if ad_status (decision evaluated) = PENDING
     then pending_implementation_result session approval_request
     else
     seq (engine_transition (wf_identifier session) SESSION_AWAITING_APPROVAL SESSION_EXECUTING
       (\<lambda>s. s)) (\<lambda>claimed.
     if \<not> claimed then session_error_result session ''Workflow already resumed''
     else if \<not> approved evaluated
     then block_and_report session SESSION_EXECUTING ''Approval rejected'' None None None
     else execute_claimed E session)))))"

section \<open>Verification\<close>

definition verify_action :: "'w engine_env \<Rightarrow> path \<Rightarrow> verification_check list \<Rightarrow> agent_context option
    \<Rightarrow> ('w, verification_report) action" where
  "verify_action E repository_root checks context w =
     (case verify (ee_resolve E) (ee_machine E) (ee_environ E) repository_root checks context w of
        Inl e \<Rightarrow> (Inl e, w) | Inr (report, w') \<Rightarrow> (Inr report, w'))"

definition verification_error_message :: "exn \<Rightarrow> string" where
  "verification_error_message e = (case e of ValueError m \<Rightarrow> m | _ \<Rightarrow> ''Workflow verification failed'')"

definition review_evidence :: "'w engine_env \<Rightarrow> path \<Rightarrow> path list \<Rightarrow> string option \<Rightarrow> string option
    \<Rightarrow> string \<Rightarrow> ('w agent, reviewed_change_evidence) action" where
  "review_evidence E repository_root reviewed_files expected_branch expected_head commit_message =
     outside (seq (make_inspector (ee_tree E) repository_root) (\<lambda>inspector.
       collect_review_evidence (ee_tree E) inspector reviewed_files expected_branch expected_head
         commit_message [''logs'']))"

text \<open>The artifacts stored with the pause for commit approval.\<close>

definition commit_artifacts :: "verification_report \<Rightarrow> review_report \<Rightarrow> model_response option
    \<Rightarrow> commit_request \<Rightarrow> reviewed_change_evidence \<Rightarrow> workflow_session \<Rightarrow> workflow_session" where
  "commit_artifacts verification_report review_report review_analysis commit_request evidence s =
     s\<lparr>wf_verification_report := Some verification_report,
       wf_review_report := Some review_report, wf_review_analysis := review_analysis,
       wf_commit_request := Some commit_request,
       wf_reviewed_files := rce_reviewed_files evidence,
       wf_expected_branch := rce_expected_branch evidence,
       wf_expected_head := rce_expected_head evidence,
       wf_reviewed_content_fingerprint := Some (rce_fingerprint evidence)\<rparr>"

definition pause_for_commit :: "'w engine_env \<Rightarrow> workflow_session \<Rightarrow> verification_report
    \<Rightarrow> review_report \<Rightarrow> model_response option \<Rightarrow> commit_request
    \<Rightarrow> ('w agent, approval_request \<times> bool) action" where
  "pause_for_commit E session verification_report review_report review_analysis commit_request =
     seq (review_evidence E (cr_repository_root commit_request) (cr_paths commit_request)
       (cr_expected_branch commit_request) (cr_expected_head commit_request)
       (cr_message commit_request)) (\<lambda>evidence.
     seq (commit_approval_request E session commit_request (rce_fingerprint evidence))
       (\<lambda>commit_approval.
     seq (save_approval_request commit_approval) (\<lambda>_.
     seq (engine_transition (wf_identifier session) SESSION_VERIFYING
       SESSION_AWAITING_COMMIT_APPROVAL (commit_artifacts verification_report review_report
         review_analysis commit_request evidence)) (\<lambda>ok.
     pure (commit_approval, ok)))))"

definition review_request_of :: "workflow_request \<Rightarrow> implementation_plan \<Rightarrow> workflow_session
    \<Rightarrow> verification_report \<Rightarrow> review_request" where
  "review_request_of request plan session verification_report =
     \<lparr>rq_identifier = wq_review_identifier request, rq_plan = plan,
      rq_changed_files = wf_changed_files session,
      rq_verification_report = verification_report, rq_context = wf_context session,
      rq_architecture_assessments = wq_architecture_assessments request,
      rq_test_evidence = wq_test_evidence request\<rparr>"

text \<open>From a passed verification to the pause for commit approval.\<close>

definition review_verified :: "'w engine_env \<Rightarrow> workflow_session \<Rightarrow> workflow_request
    \<Rightarrow> implementation_plan \<Rightarrow> verification_report \<Rightarrow> ('w agent, workflow_result) action" where
  "review_verified E session request plan verification_report =
     (let stop = (\<lambda>message review. block_and_report session SESSION_VERIFYING message
            (wf_execution_result session) (Some verification_report) review);
          review_request = review_request_of request plan session verification_report in
     seq (publish_phase session PHASE_REVIEWING) (\<lambda>_.
     attempt (lift (review (ee_resolve E) review_request))
       (\<lambda>e. stop ''Workflow review failed'' None) (\<lambda>review_report.
     seq (engine_publish_review review_report) (\<lambda>_.
     if rr_status review_report \<noteq> Approved
     then stop ''Review failed'' (Some review_report)
     else
     attempt (case ee_review_advisor E of None \<Rightarrow> pure None
         | Some analyze \<Rightarrow> seq (outside (analyze review_request review_report))
             (\<lambda>response. pure (Some response)))
       (\<lambda>e. seq (engine_transition (wf_identifier session) SESSION_VERIFYING SESSION_BLOCKED
           (\<lambda>s. s\<lparr>wf_verification_report := Some verification_report,
              wf_review_report := Some review_report\<rparr>)) (\<lambda>_.
         blocked_session_result session ''Model-assisted review analysis failed''
           (wf_execution_result session) (Some verification_report) (Some review_report)))
       (\<lambda>review_analysis.
     seq (lift (commit_message_of (plan_title plan))) (\<lambda>message.
     let commit_request = \<lparr>cr_repository_root = plan_repository_root plan,
           cr_expected_branch = plan_branch plan, cr_expected_head = plan_head_commit plan,
           cr_paths = wf_changed_files session, cr_message = message\<rparr> in
     attempt (pause_for_commit E session verification_report review_report review_analysis
         commit_request)
       (\<lambda>e. stop ''Commit approval storage failed'' (Some review_report))
       (\<lambda>(commit_approval, ok).
     if \<not> ok
     then blocked_session_result session ''Workflow state transition failed''
       (wf_execution_result session) (Some verification_report) (Some review_report)
     else
     seq (publish_phase session PHASE_AWAITING_COMMIT_APPROVAL) (\<lambda>status.
     pure ((session_result session status)\<lparr>wres_review_analysis := review_analysis,
       wres_approval_request := Some commit_approval,
       wres_verification_report := Some verification_report,
       wres_review_report := Some review_report\<rparr>)))))))))"

definition verify_claimed ::
  "'w engine_env \<Rightarrow> workflow_session \<Rightarrow> ('w agent, workflow_result) action" where
  "verify_claimed E session =
     (if wf_execution_result session = None \<or> wf_changed_files session = []
      then block_and_report session SESSION_VERIFYING ''Workflow execution artifacts are missing''
        None None None
      else
      seq (publish_phase session PHASE_VERIFYING) (\<lambda>_.
      seq (lift (attribute ''verification_checks'' (wf_request session))) (\<lambda>request.
      seq (lift (attribute ''repository_root'' (wf_plan session))) (\<lambda>plan.
      attempt (seq (lift (rehydrate_verification_checks (ee_environ E)
            (wq_verification_checks request))) (\<lambda>checks.
          outside (verify_action E (wq_repository_root request) checks (wf_context session))))
        (\<lambda>e. block_and_report session SESSION_VERIFYING (verification_error_message e)
          (wf_execution_result session) None None) (\<lambda>verification_report.
      seq (engine_publish_verification verification_report) (\<lambda>_.
      if rep_status verification_report \<noteq> PASSED
      then block_and_report session SESSION_VERIFYING ''Verification failed''
        (wf_execution_result session) (Some verification_report) None
      else review_verified E session request plan verification_report))))))"

definition resume_verification ::
  "'w engine_env \<Rightarrow> workflow_session \<Rightarrow> ('w agent, workflow_result) action" where
  "resume_verification E session =
     seq (stored_approval (''approval-verification-'' @ wf_identifier session)) (\<lambda>found.
     case found of
       None \<Rightarrow> waiting_verification_result session None
     | Some approval_result \<Rightarrow>
     let approval_request = ad_request (decision approval_result) in
     attempt (verification_approval_request E session)
       (\<lambda>e. block_verification_session session ''Approval is invalid'') (\<lambda>expected_request.
     if approval_request \<noteq> expected_request
     then block_verification_session session ''Approval does not match workflow''
     else
     attempt (evaluate_now E (decision approval_result))
       (\<lambda>e. block_verification_session session ''Approval is invalid'') (\<lambda>evaluated.
     if ad_status (decision evaluated) = PENDING
     then waiting_verification_result session (Some approval_request)
     else if \<not> approved evaluated
     then block_verification_session session ''Approval rejected''
     else
     seq (engine_transition (wf_identifier session) SESSION_AWAITING_VERIFICATION_APPROVAL
       SESSION_VERIFYING (\<lambda>s. s)) (\<lambda>claimed.
     if \<not> claimed then session_error_result session ''Workflow already resumed''
     else verify_claimed E session))))"

section \<open>Commit\<close>

definition commit_claimed :: "'w engine_env \<Rightarrow> workflow_session \<Rightarrow> commit_request \<Rightarrow> string
    \<Rightarrow> approval_request \<Rightarrow> ('w agent, workflow_result) action" where
  "commit_claimed E session commit_request fingerprint expected_approval =
     (let stop = (\<lambda>message. block_and_report session SESSION_COMMITTING message
            (wf_execution_result session) (wf_verification_report session)
            (wf_review_report session)) in
     seq (publish_phase session PHASE_COMMITTING) (\<lambda>_.
     attempt (seq (review_evidence E (cr_repository_root commit_request) (wf_reviewed_files session)
           (wf_expected_branch session) (wf_expected_head session) (cr_message commit_request))
         (\<lambda>current. if rce_fingerprint current \<noteq> fingerprint
           then raise (ValueError ''Reviewed repository evidence changed'') else pure ()))
       (\<lambda>e. stop ''Workflow commit evidence validation failed'') (\<lambda>_.
     seq (record_effect (Committed (wf_identifier session) commit_request fingerprint)) (\<lambda>_.
     attempt (outside (seq (make_committer (ee_tree E) (cr_repository_root commit_request))
         (\<lambda>committer. commit (ee_tree E) committer commit_request)))
       (\<lambda>e. stop ''Workflow commit failed'') (\<lambda>commit_result.
     seq (engine_transition (wf_identifier session) SESSION_COMMITTING SESSION_COMPLETED
       (\<lambda>s. s\<lparr>wf_commit_result := Some commit_result\<rparr>)) (\<lambda>_.
     seq (publish_phase session PHASE_COMPLETED) (\<lambda>status.
     pure ((session_result session status)\<lparr>wres_approval_request := Some expected_approval,
       wres_verification_report := wf_verification_report session,
       wres_review_report := wf_review_report session,
       wres_commit_result := Some commit_result\<rparr>))))))))"

definition resume_commit ::
  "'w engine_env \<Rightarrow> workflow_session \<Rightarrow> ('w agent, workflow_result) action" where
  "resume_commit E session =
     seq (stored_approval (''approval-commit-'' @ wf_identifier session)) (\<lambda>found.
     case found of
       None \<Rightarrow> waiting_commit_result session None
     | Some approval_result \<Rightarrow>
     (case (wf_commit_request session, wf_reviewed_content_fingerprint session) of
       (Some commit_request, Some fingerprint) \<Rightarrow>
     seq (commit_approval_request E session commit_request fingerprint) (\<lambda>expected_approval.
     if ad_request (decision approval_result) \<noteq> expected_approval
     then block_commit_session session ''Approval does not match workflow''
     else
     attempt (evaluate_now E (decision approval_result))
       (\<lambda>e. block_commit_session session ''Approval is invalid'') (\<lambda>evaluated.
     if ad_status (decision evaluated) = PENDING
     then waiting_commit_result session (Some expected_approval)
     else if \<not> approved evaluated
     then block_commit_session session ''Approval rejected''
     else
     seq (engine_transition (wf_identifier session) SESSION_AWAITING_COMMIT_APPROVAL
       SESSION_COMMITTING (\<lambda>s. s)) (\<lambda>claimed.
     if \<not> claimed then session_error_result session ''Workflow already resumed''
     else commit_claimed E session commit_request fingerprint expected_approval)))
     | _ \<Rightarrow> block_commit_session session ''Workflow commit artifacts are missing''))"

section \<open>Resuming\<close>

definition candidate_session_result ::
  "workflow_session \<Rightarrow> sprint_phase \<Rightarrow> string option \<Rightarrow> ('w agent, workflow_result) action" where
  "candidate_session_result session phase error_message =
     seq (if wf_request session \<noteq> None then lift (session_status session phase)
       else pure \<lparr>sp_checkpoint_id = wf_identifier session,
         sp_title = ''Candidate Implementation'',
         sp_goal = (case wf_candidate_metadata session of
            None \<Rightarrow> ''Execute candidate implementation''
          | Some m \<Rightarrow> ''Execute candidate '' @ cwm_candidate_id m), sp_phase = phase\<rparr>) (\<lambda>status.
     seq (engine_publish_sprint status) (\<lambda>_.
     pure ((session_result session status)
       \<lparr>wres_verification_report := wf_verification_report session,
        wres_review_report := wf_review_report session, wres_error_message := error_message\<rparr>)))"

definition block_candidate_session ::
  "workflow_session \<Rightarrow> string \<Rightarrow> string option \<Rightarrow> ('w agent, workflow_result) action" where
  "block_candidate_session session error_message blocked_reason =
     seq (engine_transition (wf_identifier session) (wf_state session) SESSION_BLOCKED
       (\<lambda>s. s\<lparr>wf_blocked_reason := Some (case blocked_reason of
          Some (c # cs) \<Rightarrow> c # cs | _ \<Rightarrow> error_message)\<rparr>)) (\<lambda>_.
     candidate_session_result session PHASE_BLOCKED (Some error_message))"

definition resume_operational_action ::
  "(string \<Rightarrow> bool) \<Rightarrow> workflow_session \<Rightarrow> ('w agent, workflow_result) action" where
  "resume_operational_action enabled session =
     (if (case wf_operational_action_request session of
            None \<Rightarrow> True | Some r \<Rightarrow> \<not> enabled (oar_execution_intent r))
      then block_candidate_session session ''operational_execution_not_enabled'' None
      else block_candidate_session session ''operational_execution_handler_unavailable'' None)"

text \<open>The boundaries a candidate workflow is resumed at; the flag asks for reconciliation.\<close>

datatype candidate_boundary =
    CandidateImplementation bool | CandidatePatchApplied | CandidateVerification | CandidateCommit

definition resume_session :: "'w engine_env \<Rightarrow> (string \<Rightarrow> bool)
    \<Rightarrow> (candidate_boundary \<Rightarrow> workflow_session \<Rightarrow> ('w agent, workflow_result) action)
    \<Rightarrow> workflow_session \<Rightarrow> ('w agent, workflow_result) action" where
  "resume_session E enabled candidate session =
     (if can_reconcile_worker session
      then (if \<not> uses_worker (ee_backend E)
        then blocked_session_result session ''worker_reconciliation_unavailable'' None None None
        else candidate (CandidateImplementation True) session)
      else (case wf_state session of
          SESSION_COMPLETED \<Rightarrow>
            if wf_source session = SOURCE_CANDIDATE \<and> wf_commit_result session \<noteq> None
            then seq (publish_phase session PHASE_COMPLETED) (\<lambda>status.
              pure ((session_result session status)
                \<lparr>wres_verification_report := wf_verification_report session,
                 wres_review_report := wf_review_report session,
                 wres_commit_result := wf_commit_result session\<rparr>))
            else session_error_result session ''Workflow already completed''
        | SESSION_AWAITING_APPROVAL \<Rightarrow>
            if wf_source session = SOURCE_CANDIDATE
            then candidate_session_result session PHASE_BLOCKED
              (Some ''Candidate workflow is not ready for implementation execution'')
            else resume_implementation E session
        | SESSION_AWAITING_IMPLEMENTATION_APPROVAL \<Rightarrow>
            if wf_effect_kind session = EFFECT_OPERATIONAL_ACTION
            then resume_operational_action enabled session
            else candidate (CandidateImplementation False) session
        | SESSION_PATCH_APPLIED_PENDING_VERIFICATION \<Rightarrow> candidate CandidatePatchApplied session
        | SESSION_AWAITING_VERIFICATION_APPROVAL \<Rightarrow>
            if wf_source session = SOURCE_CANDIDATE then candidate CandidateVerification session
            else resume_verification E session
        | SESSION_AWAITING_COMMIT_APPROVAL \<Rightarrow>
            if wf_source session = SOURCE_CANDIDATE then candidate CandidateCommit session
            else resume_commit E session
        | _ \<Rightarrow>
            if wf_state session \<in> set [SESSION_EXECUTING, SESSION_VERIFYING, SESSION_COMMITTING]
            then session_error_result session ''Workflow already in progress''
            else blocked_session_result session ''Workflow is not resumable'' None None None))"

definition resume :: "'w engine_env \<Rightarrow> (string \<Rightarrow> bool)
    \<Rightarrow> (candidate_boundary \<Rightarrow> workflow_session \<Rightarrow> ('w agent, workflow_result) action)
    \<Rightarrow> string \<Rightarrow> ('w agent, workflow_result) action" where
  "resume E enabled candidate workflow_id =
     seq (reading (\<lambda>a. Inr (get_session (ag_store a) workflow_id))) (\<lambda>found.
     case found of
       None \<Rightarrow> blocked_resume_result workflow_id ''Workflow not found''
     | Some session \<Rightarrow> resume_session E enabled candidate session)"


end
