(* ===== verification/WorkflowSafety.thy ===== *)
theory WorkflowSafety
  imports WorkflowEngine
begin

text \<open>
  What the workflow engine guarantees, over every history of calls: runs, resumptions from
  session snapshots that may be stale, approval decisions and changes outside. First the
  lifecycle of a session as an abstract machine and the refinement to it; then the invariant
  that ties each execution and commit to its approval, and its consequences.
\<close>

section \<open>What a call leaves alone\<close>

text \<open>The part of the Agent's state the properties speak of.\<close>

definition core :: "'w agent
    \<Rightarrow> (string \<Rightarrow> workflow_session option) \<times> approval_repository \<times> effect list" where
  "core a = (get_session (ag_store a), ag_approvals a, ag_effects a)"

definition core_stable :: "('w agent \<Rightarrow> bool) \<Rightarrow> bool" where
  "core_stable P \<longleftrightarrow> (\<forall>a b. core a = core b \<longrightarrow> P a \<longrightarrow> P b)"

definition quiet :: "('w agent, 'a) action \<Rightarrow> bool" where
  "quiet m \<longleftrightarrow> (\<forall>c. keeps (\<lambda>a. core a = c) m)"

lemma quiet_core:
  assumes "quiet m"
  shows "core (snd (m a)) = core a"
proof -
  obtain r t where m: "m a = (r, t)" by (cases "m a")
  have "keeps (\<lambda>b. core b = core a) m" using assms unfolding quiet_def by (rule spec)
  from keepsD [OF this _ m] show ?thesis by (simp add: m)
qed

lemma core_stableD: "core_stable P \<Longrightarrow> core a = core b \<Longrightarrow> P a \<Longrightarrow> P b"
  unfolding core_stable_def by blast

lemma quiet_keeps: "quiet m \<Longrightarrow> core_stable P \<Longrightarrow> keeps P m"
  by (rule keepsI) (rule core_stableD [OF _ quiet_core [symmetric]])

lemma quiet_actionI: "(\<And>a. core (snd (m a)) = core a) \<Longrightarrow> quiet m"
  by (auto simp: quiet_def intro!: keepsI)

named_theorems quiet_intros \<open>actions that leave the core alone\<close>
named_theorems quiet_atoms \<open>those that are calls, not combinators\<close>

lemma quiet_outside [quiet_intros, quiet_atoms]: "quiet (outside m)"
  by (rule quiet_actionI) (auto simp: outside_def core_def split: prod.split)

lemma quiet_publish [quiet_intros, quiet_atoms]:
  "quiet (engine_publish_sprint x)" "quiet (engine_publish_verification v)"
  "quiet (engine_publish_review r)"
  by (auto intro!: quiet_actionI simp: engine_publish_sprint_def engine_publish_verification_def
      engine_publish_review_def core_def)

lemma quiet_reading [quiet_intros, quiet_atoms]: "quiet (reading f)"
  by (rule quiet_actionI) (simp add: reading_def)

lemma quiet_combinators [quiet_intros]:
  "quiet (pure x)" "quiet (raise e)" "quiet (lift r)"
  "quiet m \<Longrightarrow> (\<And>x. quiet (f x)) \<Longrightarrow> quiet (seq m f)"
  "quiet m \<Longrightarrow> (\<And>e. quiet (h e)) \<Longrightarrow> (\<And>x. quiet (f x)) \<Longrightarrow> quiet (attempt m h f)"
  "(b \<Longrightarrow> quiet m) \<Longrightarrow> (\<not> b \<Longrightarrow> quiet n) \<Longrightarrow> quiet (if b then m else n)"
  by (auto simp: quiet_def intro!: keeps_intros)

lemma quiet_calls [quiet_intros, quiet_atoms]:
  "quiet (evaluate_now E d)" "quiet (stored_approval k)"
  "quiet (verification_approval_request E s)" "quiet (commit_approval_request E s c f)"
  "quiet (review_evidence E p ps b h m)" "quiet (publish_phase s phase)"
  by (auto simp: evaluate_now_def stored_approval_def verification_approval_request_def
      commit_approval_request_def review_evidence_def publish_phase_def intro!: quiet_intros)

lemma quiet_results [quiet_intros, quiet_atoms]:
  "quiet (blocked_session_result s m x v r)" "quiet (session_error_result s m)"
  "quiet (blocked_resume_result i m)" "quiet (pending_implementation_result s q)"
  "quiet (waiting_verification_result s q')" "quiet (waiting_commit_result s q')"
  "quiet (candidate_session_result s phase m')" "quiet (run_blocked request plan analysis m)"
  by (auto simp: blocked_session_result_def session_error_result_def blocked_resume_result_def
      pending_implementation_result_def waiting_verification_result_def waiting_commit_result_def
      candidate_session_result_def run_blocked_def Let_def intro!: quiet_intros)

section \<open>The lifecycle of a session\<close>

inductive phase_step :: "session_state \<Rightarrow> session_state \<Rightarrow> bool" where
  "phase_step SESSION_AWAITING_APPROVAL SESSION_EXECUTING"
| "phase_step SESSION_EXECUTING SESSION_AWAITING_VERIFICATION_APPROVAL"
| "phase_step SESSION_AWAITING_VERIFICATION_APPROVAL SESSION_VERIFYING"
| "phase_step SESSION_VERIFYING SESSION_AWAITING_COMMIT_APPROVAL"
| "phase_step SESSION_AWAITING_COMMIT_APPROVAL SESSION_COMMITTING"
| "phase_step SESSION_COMMITTING SESSION_COMPLETED"
| "s \<notin> {SESSION_COMPLETED, SESSION_BLOCKED} \<Longrightarrow> phase_step s SESSION_BLOCKED"

inductive_simps phase_step_from [simp]:
  "phase_step SESSION_COMPLETED s" "phase_step SESSION_BLOCKED s"

fun phase_rank :: "session_state \<Rightarrow> nat" where
  "phase_rank SESSION_AWAITING_APPROVAL = 0"
| "phase_rank SESSION_EXECUTING = 1"
| "phase_rank SESSION_AWAITING_VERIFICATION_APPROVAL = 2"
| "phase_rank SESSION_VERIFYING = 3"
| "phase_rank SESSION_AWAITING_COMMIT_APPROVAL = 4"
| "phase_rank SESSION_COMMITTING = 5"
| "phase_rank SESSION_COMPLETED = 6"
| "phase_rank SESSION_BLOCKED = 7"
| "phase_rank _ = 0"

lemma phase_step_rank: "phase_step s t \<Longrightarrow> phase_rank s < phase_rank t"
proof (induction rule: phase_step.induct)
  case (7 s)
  then show ?case by (cases s) simp_all
qed simp_all

text \<open>What the handlers never change of a session.\<close>

definition same_base :: "workflow_session \<Rightarrow> workflow_session \<Rightarrow> bool" where
  "same_base s t \<longleftrightarrow> wf_identifier t = wf_identifier s \<and> wf_request t = wf_request s
     \<and> wf_plan t = wf_plan s \<and> wf_effect_kind t = wf_effect_kind s \<and> wf_source t = wf_source s
     \<and> wf_context t = wf_context s"

text \<open>\<open>t\<close> is \<open>s\<close> some phases later: in the same phase it is the same session.\<close>

definition advances :: "workflow_session \<Rightarrow> workflow_session \<Rightarrow> bool" where
  "advances s t \<longleftrightarrow> same_base s t \<and> (t = s \<or> phase_step\<^sup>+\<^sup>+ (wf_state s) (wf_state t))"

lemma phase_steps_rank: "phase_step\<^sup>+\<^sup>+ s t \<Longrightarrow> phase_rank s < phase_rank t"
  by (induction rule: tranclp_induct) (auto dest: phase_step_rank)

lemma advances_refl [simp]: "advances s s"
  by (simp add: advances_def same_base_def)

lemma advances_trans: "advances s t \<Longrightarrow> advances t u \<Longrightarrow> advances s u"
  by (auto simp: advances_def same_base_def dest: tranclp_trans)

lemma advances_same_phase: "advances s t \<Longrightarrow> wf_state t = wf_state s \<Longrightarrow> t = s"
  using phase_steps_rank [of "wf_state s" "wf_state t"] by (auto simp: advances_def)

definition above :: "workflow_session \<Rightarrow> 'w agent \<Rightarrow> bool" where
  "above s a \<longleftrightarrow> (\<exists>t. get_session (ag_store a) (wf_identifier s) = Some t \<and> advances s t)"

lemma above_stable: "core_stable (above s)"
  by (auto simp: core_stable_def core_def above_def)

lemma keeps_above_quiet: "quiet m \<Longrightarrow> keeps (above s) m"
  by (rule quiet_keeps [OF _ above_stable])

lemmas keeps_above_atoms [keeps_intros] = quiet_atoms [THEN keeps_above_quiet]

lemma engine_transition_result:
  assumes "engine_transition i A B f a = (r, b)"
  shows "ag_approvals b = ag_approvals a \<and> ag_effects b = ag_effects a
    \<and> (r = Inr True \<and> (\<exists>t. get_session (ag_store a) i = Some t \<and> wf_state t = A
         \<and> get_session (ag_store b) = (get_session (ag_store a))(i \<mapsto> f (t\<lparr>wf_state := B\<rparr>)))
       \<or> r \<noteq> Inr True \<and> get_session (ag_store b) = get_session (ag_store a))"
proof (cases "transition_session (ag_store a) i A B f")
  case (Inl e)
  then show ?thesis using assms by (auto simp: engine_transition_def)
next
  case (Inr p)
  then obtain ok s where t: "transition_session (ag_store a) i A B f = Inr (ok, s)"
    by (cases p) simp
  then have b: "r = Inr ok" "b = a\<lparr>ag_store := s\<rparr>"
    using assms by (simp_all add: engine_transition_def)
  show ?thesis
  proof (cases ok)
    case True
    then obtain u where "get_session (ag_store a) i = Some u" "wf_state u = A"
        "s = (ag_store a)\<lparr>wst_sessions := AList.update i (f (u\<lparr>wf_state := B\<rparr>))
           (wst_sessions (ag_store a))\<rparr>"
      using t transition_session_True by auto
    then show ?thesis using b True by (simp add: fun_eq_iff)
  next
    case False
    then have "s = ag_store a" using t transition_session_False by auto
    then show ?thesis using b False by simp
  qed
qed

text \<open>An update that leaves the base and the phase of a session alone.\<close>

definition artifact_update :: "(workflow_session \<Rightarrow> workflow_session) \<Rightarrow> bool" where
  "artifact_update f \<longleftrightarrow> (\<forall>t. same_base t (f t) \<and> wf_state (f t) = wf_state t)"

lemma artifact_updates [simp]:
  "artifact_update (\<lambda>s. s)"
  "artifact_update (\<lambda>s. s\<lparr>wf_execution_result := x, wf_changed_files := c\<rparr>)"
  "artifact_update (\<lambda>s. s\<lparr>wf_verification_report := v, wf_review_report := r\<rparr>)"
  "artifact_update (\<lambda>s. s\<lparr>wf_commit_result := cr\<rparr>)"
  "artifact_update (\<lambda>s. s\<lparr>wf_blocked_reason := b\<rparr>)"
  "artifact_update (commit_artifacts v' r' m k e)"
  by (simp_all add: artifact_update_def same_base_def commit_artifacts_def)

lemma keeps_above_transition [keeps_intros]:
  assumes "phase_step A B" "artifact_update f"
  shows "keeps (above s) (engine_transition i A B f)"
proof (rule keepsI)
  fix a :: "'w agent"
  assume "above s a"
  then obtain t where t: "get_session (ag_store a) (wf_identifier s) = Some t" "advances s t"
    by (auto simp: above_def)
  obtain r b where b: "engine_transition i A B f a = (r, b)" by fastforce
  have "advances u (f (u\<lparr>wf_state := B\<rparr>))" if "wf_state u = A" for u
    using assms that by (auto simp: advances_def artifact_update_def same_base_def)
  then have "advances s (f (t\<lparr>wf_state := B\<rparr>))" if "wf_state t = A"
    using advances_trans [OF t(2)] that by blast
  with engine_transition_result [OF b] t show "above s (snd (engine_transition i A B f a))"
    by (auto simp: b above_def)
qed
section \<open>Every handler moves a session along its lifecycle\<close>

lemma get_session_deleted:
  "get_session (snd (delete_session s i)) j = (if j = i then None else get_session s j)"
  by (simp add: delete_session_def get_session_def delete_conv')

lemma store_planned_result:
  assumes "store_planned session q a = (r, b)"
  shows "(r = Inr () \<and> get_session (ag_store a) (wf_identifier session) = None
      \<and> get_session (ag_store b) = (get_session (ag_store a))(wf_identifier session \<mapsto> session)
      \<and> save_request (ag_approvals a) q = Inr (ag_approvals b)
      \<and> ag_effects b = ag_effects a)
    \<or> r \<noteq> Inr () \<and> core b = core a"
proof (cases "create_session (ag_store a) session")
  case (Inl e)
  then show ?thesis
    using assms by (auto simp: store_planned_def seq_def engine_create_session_def)
next
  case (Inr s)
  note fresh = sessions.insert_fresh [OF Inr] and stored = sessions.insert_ok [OF Inr]
  show ?thesis
  proof (cases "save_request (ag_approvals a) q")
    case (Inl e)
    have "get_session (snd (delete_session s (wf_identifier session))) = get_session (ag_store a)"
      using fresh stored by (auto simp: fun_eq_iff get_session_deleted)
    then show ?thesis
      using assms Inr Inl
      by (auto simp: store_planned_def seq_def attempt_def engine_create_session_def
          save_approval_request_def engine_delete_session_def core_def case_prod_unfold)
  next
    case (Inr t)
    then show ?thesis
      using assms fresh stored \<open>create_session (ag_store a) session = Inr s\<close>
      by (auto simp: store_planned_def seq_def attempt_def engine_create_session_def
          save_approval_request_def)
  qed
qed

lemma keeps_above_store_planned [keeps_intros]: "keeps (above s) (store_planned session q)"
proof (rule keepsI)
  fix a :: "'w agent"
  assume "above s a"
  then show "above s (snd (store_planned session q a))"
    using store_planned_result [of session q a]
    by (cases "store_planned session q a") (auto simp: above_def core_def)
qed

lemma keeps_above_save [keeps_intros]: "keeps (above s) (save_approval_request q)"
  by (rule keepsI) (auto simp: save_approval_request_def above_def split: sum.split)

lemma keeps_above_effect [keeps_intros]: "keeps (above s) (record_effect e)"
  by (rule keepsI) (simp add: record_effect_def above_def)

lemma keeps_above_block [keeps_intros]:
  assumes "x \<notin> {SESSION_COMPLETED, SESSION_BLOCKED}"
  shows "keeps (above s) (block_and_report t x m e v r)"
  unfolding block_and_report_def block_claimed_session_def
  using assms by (intro keeps_intros phase_step.intros) auto

lemmas phase_step_blocks = phase_step.intros(7)

lemma keeps_above_run: "keeps (above s) (run E request context i)"
  unfolding run_def Let_def by (intro keeps_intros)

lemma keeps_above_execute: "keeps (above s) (execute_claimed E t)"
  unfolding execute_claimed_def pause_for_verification_def Let_def
  by (intro keeps_intros phase_step.intros) simp_all

lemma keeps_above_verify: "keeps (above s) (verify_claimed E t)"
  unfolding verify_claimed_def review_verified_def pause_for_commit_def Let_def
  by (intro keeps_intros phase_step.intros) simp_all

lemma keeps_above_commit: "keeps (above s) (commit_claimed E t c f q)"
  unfolding commit_claimed_def Let_def
  by (intro keeps_intros phase_step.intros) simp_all

lemmas keeps_above_claimed [keeps_intros] =
  keeps_above_execute keeps_above_verify keeps_above_commit

lemma keeps_above_resumed:
  "keeps (above s) (resume_implementation E t)"
  "keeps (above s) (resume_verification E t)"
  "keeps (above s) (resume_commit E t)"
  unfolding resume_implementation_def resume_verification_def resume_commit_def Let_def
    block_verification_session_def block_commit_session_def
  by (intro keeps_intros phase_step.intros; simp)+


section \<open>Executions, commits and their grants\<close>

fun executions :: "string \<Rightarrow> effect list \<Rightarrow> execution_request list" where
  "executions i [] = []"
| "executions i (Executed j x # es) = (if j = i then x # executions i es else executions i es)"
| "executions i (Committed j c f # es) = executions i es"

fun commits :: "string \<Rightarrow> effect list \<Rightarrow> (commit_request \<times> string) list" where
  "commits i [] = []"
| "commits i (Executed j x # es) = commits i es"
| "commits i (Committed j c f # es) = (if j = i then (c, f) # commits i es else commits i es)"

lemma executions_append [simp]: "executions i (es @ fs) = executions i es @ executions i fs"
  by (induction i es rule: executions.induct) simp_all

lemma commits_append [simp]: "commits i (es @ fs) = commits i es @ commits i fs"
  by (induction i es rule: commits.induct) simp_all

text \<open>The execution is of the session's own request and plan, under an approval of that very
  command for that workflow, which passed the evaluation.\<close>

definition implementation_granted :: "approval_repository \<Rightarrow> workflow_session \<Rightarrow> bool" where
  "implementation_granted approvals s \<longleftrightarrow>
     (\<exists>r now evaluated. get_request approvals (''approval-'' @ wf_identifier s) = Some r \<and> approved r
        \<and> approval_matches_session (''approval-'' @ wf_identifier s) (ad_request (decision r)) s
            = Inr True
        \<and> evaluate now (decision r) = Inr evaluated)"

definition execution_granted ::
  "approval_repository \<Rightarrow> workflow_session \<Rightarrow> execution_request \<Rightarrow> bool" where
  "execution_granted approvals s x \<longleftrightarrow>
     (\<exists>q p. wf_request s = Some q \<and> wf_plan s = Some p \<and> x = execution_request_of q p)
     \<and> implementation_granted approvals s"

text \<open>The commit is of the plan's repository, branch and head and of the changed files, after a
  passed verification and an approved review.\<close>

definition reviewed :: "workflow_session \<Rightarrow> commit_request \<Rightarrow> bool" where
  "reviewed s c \<longleftrightarrow>
     (\<exists>p report review. wf_plan s = Some p \<and> wf_verification_report s = Some report
        \<and> rep_status report = PASSED \<and> wf_review_report s = Some review
        \<and> rr_status review = Approved \<and> wf_commit_request s = Some c
        \<and> cr_repository_root c = plan_repository_root p \<and> cr_expected_branch c = plan_branch p
        \<and> cr_expected_head c = plan_head_commit p \<and> cr_paths c = wf_changed_files s)"

text \<open>The approval of a commit names, in its normal form, the exact request and fingerprint.\<close>

definition commit_granted ::
  "approval_repository \<Rightarrow> workflow_session \<Rightarrow> commit_request \<Rightarrow> string \<Rightarrow> bool" where
  "commit_granted approvals s c fingerprint \<longleftrightarrow>
     wf_reviewed_content_fingerprint s = Some fingerprint
     \<and> (\<exists>p r now normal. wf_plan s = Some p
        \<and> get_request approvals (''approval-commit-'' @ wf_identifier s) = Some r \<and> approved r
        \<and> evaluate now (pending_decision
            (commit_approval_draft (wf_identifier s) p c fingerprint)) = Inr normal
        \<and> ad_request (decision r) = ad_request (decision normal))"

definition executed_well :: "workflow_session \<Rightarrow> bool" where
  "executed_well s \<longleftrightarrow>
     (\<exists>p x. wf_plan s = Some p \<and> wf_execution_result s = Some x \<and> xr_status x = Succeeded
        \<and> wf_changed_files s \<noteq> [] \<and> set (wf_changed_files s) \<subseteq> set (plan_affected_files p))"

section \<open>The invariant\<close>

text \<open>How many executions and commits a session in a phase has behind it.\<close>

fun counts_ok :: "session_state \<Rightarrow> nat \<Rightarrow> nat \<Rightarrow> bool" where
  "counts_ok SESSION_AWAITING_APPROVAL e c = (e = 0 \<and> c = 0)"
| "counts_ok SESSION_EXECUTING e c = (e \<le> 1 \<and> c = 0)"
| "counts_ok SESSION_AWAITING_VERIFICATION_APPROVAL e c = (e = 1 \<and> c = 0)"
| "counts_ok SESSION_VERIFYING e c = (e = 1 \<and> c = 0)"
| "counts_ok SESSION_AWAITING_COMMIT_APPROVAL e c = (e = 1 \<and> c = 0)"
| "counts_ok SESSION_COMMITTING e c = (e = 1 \<and> c \<le> 1)"
| "counts_ok SESSION_COMPLETED e c = (e = 1 \<and> c = 1)"
| "counts_ok SESSION_BLOCKED e c = (e \<le> 1 \<and> c \<le> e)"
| "counts_ok _ e c = False"

text \<open>The artifacts it carries: none of an effect that is still to come.\<close>

definition unverified :: "workflow_session \<Rightarrow> bool" where
  "unverified s \<longleftrightarrow> wf_verification_report s = None \<and> wf_review_report s = None
     \<and> wf_commit_request s = None \<and> wf_commit_result s = None"

definition untouched :: "workflow_session \<Rightarrow> bool" where
  "untouched s \<longleftrightarrow> wf_execution_result s = None \<and> wf_changed_files s = [] \<and> unverified s"

fun artifacts_ok :: "session_state \<Rightarrow> workflow_session \<Rightarrow> bool" where
  "artifacts_ok SESSION_AWAITING_APPROVAL s = untouched s"
| "artifacts_ok SESSION_EXECUTING s = untouched s"
| "artifacts_ok SESSION_AWAITING_VERIFICATION_APPROVAL s = (executed_well s \<and> unverified s)"
| "artifacts_ok SESSION_VERIFYING s = (executed_well s \<and> unverified s)"
| "artifacts_ok SESSION_AWAITING_COMMIT_APPROVAL s =
     (executed_well s \<and> (\<exists>c. reviewed s c) \<and> wf_commit_result s = None)"
| "artifacts_ok SESSION_COMMITTING s =
     (executed_well s \<and> (\<exists>c. reviewed s c) \<and> wf_commit_result s = None)"
| "artifacts_ok SESSION_COMPLETED s =
     (executed_well s \<and> (\<exists>c. reviewed s c) \<and> wf_commit_result s \<noteq> None)"
| "artifacts_ok _ s = True"

definition grants_ok :: "approval_repository \<Rightarrow> effect list \<Rightarrow> workflow_session \<Rightarrow> bool" where
  "grants_ok approvals effects s \<longleftrightarrow>
     list_all (execution_granted approvals s) (executions (wf_identifier s) effects)
     \<and> list_all (\<lambda>(c, f). executed_well s \<and> reviewed s c \<and> commit_granted approvals s c f)
         (commits (wf_identifier s) effects)"

fun session_sound :: "approval_repository \<Rightarrow> effect list \<Rightarrow> string
    \<Rightarrow> workflow_session option \<Rightarrow> bool" where
  "session_sound approvals effects i None =
     (executions i effects = [] \<and> commits i effects = [])"
| "session_sound approvals effects i (Some s) =
     (wf_identifier s = i \<and> wf_source s = SOURCE_ROADMAP \<and> grants_ok approvals effects s
      \<and> counts_ok (wf_state s) (length (executions i effects)) (length (commits i effects))
      \<and> artifacts_ok (wf_state s) s)"

definition engine_inv :: "'w agent \<Rightarrow> bool" where
  "engine_inv a \<longleftrightarrow>
     (\<forall>i. session_sound (ag_approvals a) (ag_effects a) i (get_session (ag_store a) i))"

lemma engine_inv_stable: "core_stable engine_inv"
  by (simp add: core_stable_def core_def engine_inv_def)

lemma keeps_inv_quiet: "quiet m \<Longrightarrow> keeps engine_inv m"
  by (rule quiet_keeps [OF _ engine_inv_stable])

lemmas keeps_inv_atoms [keeps_intros] = quiet_atoms [THEN keeps_inv_quiet]

text \<open>What of a session a grant looks at.\<close>

lemma matches_base:
  "same_base s t \<Longrightarrow> approval_matches_session k r t = approval_matches_session k r s"
  by (simp only: approval_matches_session_def same_base_def)

lemma implementation_granted_base:
  assumes "same_base s t"
  shows "implementation_granted ap t = implementation_granted ap s"
  unfolding implementation_granted_def matches_base [OF assms]
  using assms by (simp only: same_base_def)

lemma execution_granted_base:
  "same_base s t \<Longrightarrow> execution_granted ap t = execution_granted ap s"
  unfolding fun_eq_iff execution_granted_def
  using implementation_granted_base [of s t] by (simp only: same_base_def) blast

lemma same_base_state [simp]: "same_base s (s\<lparr>wf_state := x\<rparr>)"
  by (simp add: same_base_def)

lemma granted_phase [simp]:
  "implementation_granted ap (s\<lparr>wf_state := x\<rparr>) = implementation_granted ap s"
  "execution_granted ap (s\<lparr>wf_state := x\<rparr>) = execution_granted ap s"
  by (simp_all only: implementation_granted_base [OF same_base_state]
      execution_granted_base [OF same_base_state])

lemma reviewed_phase [simp]:
  "reviewed (s\<lparr>wf_state := x\<rparr>) = reviewed s"
  "executed_well (s\<lparr>wf_state := x\<rparr>) = executed_well s"
  by (simp_all add: fun_eq_iff reviewed_def executed_well_def)

lemma commit_granted_cong:
  assumes "wf_identifier t = wf_identifier s" "wf_plan t = wf_plan s"
    "wf_reviewed_content_fingerprint t = wf_reviewed_content_fingerprint s"
  shows "commit_granted ap t = commit_granted ap s"
  unfolding fun_eq_iff commit_granted_def assms by (intro allI refl)

lemma commit_granted_phase [simp]:
  "commit_granted ap (s\<lparr>wf_state := x\<rparr>) = commit_granted ap s"
  by (rule commit_granted_cong) simp_all

lemma grants_ok_phase [simp]:
  "grants_ok ap es (s\<lparr>wf_state := x\<rparr>) = grants_ok ap es s"
  by (simp add: grants_ok_def)

lemma artifacts_ok_phase [simp]: "artifacts_ok y (s\<lparr>wf_state := x\<rparr>) = artifacts_ok y s"
  by (cases y) (simp_all add: untouched_def unverified_def)

text \<open>A grant survives any later approval call.\<close>

definition approvals_kept :: "approval_repository \<Rightarrow> approval_repository \<Rightarrow> bool" where
  "approvals_kept ap ap' \<longleftrightarrow>
     (\<forall>k r. get_request ap k = Some r \<longrightarrow> approved r \<longrightarrow> get_request ap' k = Some r)"

lemma approvals_kept_step: "approvals_kept ap (approval_step ap op)"
  unfolding approvals_kept_def
proof (intro allI impI)
  fix k r assume r: "get_request ap k = Some r" "approved r"
  then have "decided ap k = Some r" by (simp add: decided_def approved_def)
  from approval_step_decided [OF this, of op] show "get_request (approval_step ap op) k = Some r"
    by (auto simp: decided_def split: option.splits if_splits)
qed

lemma approvals_kept_save: "save_request ap r = Inr ap' \<Longrightarrow> approvals_kept ap ap'"
  using approvals_kept_step [of ap "SaveRequest r"] by simp

lemma approvals_keptD:
  "approvals_kept ap ap' \<Longrightarrow> get_request ap k = Some r \<Longrightarrow> approved r \<Longrightarrow> get_request ap' k = Some r"
  by (simp add: approvals_kept_def)

lemma granted_kept:
  assumes "approvals_kept ap ap'"
  shows "execution_granted ap s x \<Longrightarrow> execution_granted ap' s x"
    and "commit_granted ap s c f \<Longrightarrow> commit_granted ap' s c f"
  unfolding execution_granted_def implementation_granted_def commit_granted_def
  using approvals_keptD [OF assms] by blast+

lemma session_sound_kept:
  assumes "approvals_kept ap ap'" "session_sound ap effects i found"
  shows "session_sound ap' effects i found"
proof (cases found)
  case (Some s)
  have "grants_ok ap' effects s" if "grants_ok ap effects s"
    using that granted_kept [OF assms(1)] by (auto simp: grants_ok_def list_all_iff)
  then show ?thesis using assms(2) by (simp add: Some)
qed (use assms(2) in simp)

lemma keeps_inv_save [keeps_intros]: "keeps engine_inv (save_approval_request q)"
proof (rule keepsI)
  fix a :: "'w agent" assume "engine_inv a"
  then show "engine_inv (snd (save_approval_request q a))"
    using session_sound_kept [OF approvals_kept_save]
    by (cases "save_request (ag_approvals a) q")
      (auto simp: save_approval_request_def engine_inv_def)
qed

section \<open>Transitions and the invariant\<close>

lemma transition_inv:
  fixes P :: "'w agent \<Rightarrow> bool"
  assumes "\<And>a t. engine_inv a \<Longrightarrow> P a \<Longrightarrow> get_session (ag_store a) i = Some t \<Longrightarrow> wf_state t = A
      \<Longrightarrow> session_sound (ag_approvals a) (ag_effects a) i (Some (f (t\<lparr>wf_state := B\<rparr>)))"
    and "\<And>a. P a \<Longrightarrow> engine_inv a"
  shows "triple P (engine_transition i A B f) (\<lambda>_. engine_inv) (\<lambda>_. engine_inv)"
  unfolding triple_def
proof (intro allI impI)
  fix a :: "'w agent" assume P: "P a"
  obtain r b where b: "engine_transition i A B f a = (r, b)" by fastforce
  have "engine_inv b"
    unfolding engine_inv_def
  proof
    fix j
    show "session_sound (ag_approvals b) (ag_effects b) j (get_session (ag_store b) j)"
      using engine_transition_result [OF b] assms(1) [OF assms(2) [OF P] P] assms(2) [OF P]
      by (cases "j = i") (auto simp: engine_inv_def)
  qed
  then show "case engine_transition i A B f a of (Inl e, t) \<Rightarrow> engine_inv t
      | (Inr x, t) \<Rightarrow> engine_inv t"
    by (simp add: b split: sum.split)
qed

lemma engine_inv_session:
  "engine_inv a \<Longrightarrow> get_session (ag_store a) i = Some t
    \<Longrightarrow> session_sound (ag_approvals a) (ag_effects a) i (Some t)"
  unfolding engine_inv_def by metis

lemma counts_ok_blocked: "counts_ok x e c \<Longrightarrow> counts_ok SESSION_BLOCKED e c"
  by (cases x) auto

lemma keeps_inv_blocking [keeps_intros]:
  "keeps engine_inv (engine_transition i A SESSION_BLOCKED (\<lambda>s. s))"
proof (rule transition_inv)
  fix a :: "'w agent" and t
  assume "engine_inv a" "get_session (ag_store a) i = Some t" "wf_state t = A"
  from engine_inv_session [OF this(1,2)]
  show "session_sound (ag_approvals a) (ag_effects a) i (Some (t\<lparr>wf_state := SESSION_BLOCKED\<rparr>))"
    using counts_ok_blocked by auto
qed

lemma keeps_inv_block [keeps_intros]:
  "keeps engine_inv (block_and_report s x m e v r)"
  "keeps engine_inv (block_verification_session s m)"
  "keeps engine_inv (block_commit_session s m)"
  unfolding block_and_report_def block_claimed_session_def block_verification_session_def
    block_commit_session_def
  by (intro keeps_intros)+

section \<open>From a fact to the invariant\<close>

text \<open>\<open>secure P m\<close>: started with \<open>P\<close>, the action leaves the invariant, however it ends. A fact
  is firm when it implies the invariant and calls that leave the core alone do not change it.\<close>

definition secure :: "('w agent \<Rightarrow> bool) \<Rightarrow> ('w agent, 'a) action \<Rightarrow> bool" where
  "secure P m \<longleftrightarrow> triple P m (\<lambda>_. engine_inv) (\<lambda>_. engine_inv)"

definition firm :: "('w agent \<Rightarrow> bool) \<Rightarrow> bool" where
  "firm P \<longleftrightarrow> core_stable P \<and> (\<forall>a. P a \<longrightarrow> engine_inv a)"

lemma firm_keeps: "firm P \<Longrightarrow> quiet m \<Longrightarrow> keeps P m"
  by (simp add: firm_def quiet_keeps)

lemma firm_inv: "firm P \<Longrightarrow> P a \<Longrightarrow> engine_inv a"
  by (simp add: firm_def)

lemma secure_keeps: "firm P \<Longrightarrow> keeps engine_inv m \<Longrightarrow> secure P m"
  unfolding secure_def by (erule triple_conseq) (auto dest: firm_inv)

lemma secure_seq:
  assumes "firm P" "quiet m" "\<And>x. secure P (f x)"
  shows "secure P (seq m f)"
  using assms unfolding secure_def
  by (intro triple_step [OF firm_keeps]) (auto dest: firm_inv)

lemma secure_attempt:
  assumes "firm P" "quiet m" "\<And>e. keeps engine_inv (h e)" "\<And>x. secure P (f x)"
  shows "secure P (attempt m h f)"
  using assms(4) secure_keeps [OF assms(1,3)] unfolding secure_def
  by (intro triple_attempt [OF firm_keeps [OF assms(1,2)]])

lemma quiet_value:
  assumes "firm P" "quiet m" "\<And>a x. fst (m a) = Inr x \<Longrightarrow> V x"
  shows "triple P m (\<lambda>x a. P a \<and> V x) (\<lambda>_. P)"
  unfolding triple_def
proof (intro allI impI)
  fix a assume "P a"
  obtain r b where m: "m a = (r, b)" by fastforce
  from keepsD [OF firm_keeps [OF assms(1,2)] \<open>P a\<close> m] have "P b" .
  then show "case m a of (Inl e, t) \<Rightarrow> P t | (Inr x, t) \<Rightarrow> P t \<and> V x"
    using assms(3) [of a] by (simp add: m split: sum.split)
qed

lemma secure_fact: "(V \<Longrightarrow> secure P m) \<Longrightarrow> secure (\<lambda>a. P a \<and> V) m"
  by (auto simp: secure_def triple_def)

lemma secure_seq_value:
  assumes "firm P" "quiet m" "\<And>a x. fst (m a) = Inr x \<Longrightarrow> V x" "\<And>x. V x \<Longrightarrow> secure P (f x)"
  shows "secure P (seq m f)"
  using secure_fact [OF assms(4)] unfolding secure_def
  by (intro triple_step [OF quiet_value [OF assms(1-3)]]) (auto dest: firm_inv [OF assms(1)])

lemma secure_attempt_value:
  assumes "firm P" "quiet m" "\<And>a x. fst (m a) = Inr x \<Longrightarrow> V x"
    "\<And>e. keeps engine_inv (h e)" "\<And>x. V x \<Longrightarrow> secure P (f x)"
  shows "secure P (attempt m h f)"
  using secure_fact [OF assms(5)] secure_keeps [OF assms(1,4)] unfolding secure_def
  by (intro triple_attempt [OF quiet_value [OF assms(1-3)]])

lemma secure_attribute:
  assumes "firm P" "\<And>x. v = Some x \<Longrightarrow> secure P (f x)"
  shows "secure P (seq (lift (attribute n v)) f)"
proof (cases v)
  case None
  then show ?thesis
    using secure_keeps [OF assms(1) keeps_raise] by (simp add: attribute_def)
qed (simp add: attribute_def assms(2))

lemma secure_if:
  "(b \<Longrightarrow> secure P m) \<Longrightarrow> (\<not> b \<Longrightarrow> secure P n) \<Longrightarrow> secure P (if b then m else n)"
  by simp

lemma secure_then: "secure P m \<Longrightarrow> (\<And>x. keeps engine_inv (f x)) \<Longrightarrow> secure P (seq m f)"
  unfolding secure_def by (rule triple_seq)

lemma secure_attempt_then:
  "secure P m \<Longrightarrow> (\<And>e. keeps engine_inv (h e)) \<Longrightarrow> (\<And>x. keeps engine_inv (f x))
    \<Longrightarrow> secure P (attempt m h f)"
  unfolding secure_def by (rule triple_attempt)

lemma secure_change:
  "triple P m (\<lambda>_. R) (\<lambda>_. R) \<Longrightarrow> firm R \<Longrightarrow> (\<And>x. secure R (f x)) \<Longrightarrow> secure P (seq m f)"
  unfolding secure_def by (erule triple_step) (auto dest: firm_inv)

lemma secure_weaken: "secure P m \<Longrightarrow> (\<And>a. R a \<Longrightarrow> P a) \<Longrightarrow> secure R m"
  unfolding secure_def by (erule triple_conseq)

section \<open>A claimed session\<close>

definition claimed :: "session_state \<Rightarrow> workflow_session \<Rightarrow> 'w agent \<Rightarrow> bool" where
  "claimed B s a \<longleftrightarrow> engine_inv a
     \<and> get_session (ag_store a) (wf_identifier s) = Some (s\<lparr>wf_state := B\<rparr>)"

definition unexecuted :: "workflow_session \<Rightarrow> 'w agent \<Rightarrow> bool" where
  "unexecuted s a \<longleftrightarrow> claimed SESSION_EXECUTING s a
     \<and> executions (wf_identifier s) (ag_effects a) = []
     \<and> implementation_granted (ag_approvals a) s"

definition executed :: "workflow_session \<Rightarrow> 'w agent \<Rightarrow> bool" where
  "executed s a \<longleftrightarrow> claimed SESSION_EXECUTING s a
     \<and> length (executions (wf_identifier s) (ag_effects a)) = 1"

definition uncommitted :: "workflow_session \<Rightarrow> commit_request \<Rightarrow> string \<Rightarrow> 'w agent \<Rightarrow> bool" where
  "uncommitted s c f a \<longleftrightarrow> claimed SESSION_COMMITTING s a
     \<and> commits (wf_identifier s) (ag_effects a) = []
     \<and> reviewed s c \<and> commit_granted (ag_approvals a) s c f"

definition committed :: "workflow_session \<Rightarrow> 'w agent \<Rightarrow> bool" where
  "committed s a \<longleftrightarrow> claimed SESSION_COMMITTING s a
     \<and> length (commits (wf_identifier s) (ag_effects a)) = 1"

lemma engine_inv_core: "core a = core b \<Longrightarrow> engine_inv a = engine_inv b"
  by (simp add: core_def engine_inv_def)

lemma firm_claims:
  "firm engine_inv" "firm (claimed B s)" "firm (unexecuted s)" "firm (executed s)"
  "firm (uncommitted s c f)" "firm (committed s)"
  using engine_inv_core
  by (auto simp: firm_def core_stable_def claimed_def unexecuted_def executed_def uncommitted_def
      committed_def core_def)

lemma session_sound_other:
  "j \<noteq> i \<Longrightarrow> session_sound ap (es @ [Executed i x]) j found = session_sound ap es j found"
  "j \<noteq> i \<Longrightarrow> session_sound ap (es @ [Committed i c f]) j found = session_sound ap es j found"
  by (cases found; auto simp: grants_ok_def)+

lemma record_execution:
  assumes "wf_request s = Some q" "wf_plan s = Some p"
  shows "triple (unexecuted s :: 'w agent \<Rightarrow> bool)
    (record_effect (Executed (wf_identifier s) (execution_request_of q p)))
    (\<lambda>_. executed s) (\<lambda>_. executed s)"
proof -
  have "executed s (a\<lparr>ag_effects := ag_effects a
      @ [Executed (wf_identifier s) (execution_request_of q p)]\<rparr>)" if a: "unexecuted s a" for a :: "'w agent"
  proof -
    let ?i = "wf_identifier s" and ?es = "ag_effects a @ [Executed (wf_identifier s) (execution_request_of q p)]"
    have inv: "engine_inv a" and held: "get_session (ag_store a) ?i = Some (s\<lparr>wf_state := SESSION_EXECUTING\<rparr>)"
      and none: "executions ?i (ag_effects a) = []" and "implementation_granted (ag_approvals a) s"
      using a by (simp_all add: unexecuted_def claimed_def)
    then have "execution_granted (ag_approvals a) s (execution_request_of q p)"
      using assms by (simp add: execution_granted_def)
    with engine_inv_session [OF inv held] none
    have "session_sound (ag_approvals a) ?es ?i (Some (s\<lparr>wf_state := SESSION_EXECUTING\<rparr>))"
      by (simp add: grants_ok_def)
    then have "session_sound (ag_approvals a) ?es j (get_session (ag_store a) j)" for j
      using inv held by (cases "j = ?i") (auto simp: engine_inv_def session_sound_other)
    then show ?thesis
      using held none by (simp add: executed_def claimed_def engine_inv_def)
  qed
  then show ?thesis by (simp add: triple_def record_effect_def)
qed

section \<open>Execution is granted and recorded once\<close>

lemma keeps_executed_save: "keeps (executed s) (save_approval_request q)"
proof (rule keepsI)
  fix a :: "'w agent" assume a: "executed s a"
  then have "engine_inv (snd (save_approval_request q a))"
    using keepsD [OF keeps_inv_save, of a q] by (metis claimed_def executed_def prod.collapse)
  then show "executed s (snd (save_approval_request q a))"
    using a by (auto simp: executed_def claimed_def save_approval_request_def split: sum.splits)
qed

lemma held_session:
  "claimed B s a \<Longrightarrow> get_session (ag_store a) (wf_identifier s) = Some t \<Longrightarrow> t = s\<lparr>wf_state := B\<rparr>"
  by (simp add: claimed_def)

lemma claimed_sound:
  "claimed B s a \<Longrightarrow>
    session_sound (ag_approvals a) (ag_effects a) (wf_identifier s) (Some (s\<lparr>wf_state := B\<rparr>))"
  unfolding claimed_def by (blast dest: engine_inv_session)

lemma pause_for_verification_secure:
  assumes "wf_plan s = Some p" "xr_status x = Succeeded" "files \<noteq> []"
    "set files \<subseteq> set (plan_affected_files p)"
  shows "secure (executed s) (pause_for_verification E s x files)"
  unfolding pause_for_verification_def
proof (rule secure_seq [OF firm_claims(4)], rule quiet_calls, rule secure_change [OF keeps_executed_save firm_claims(4)],
    rule secure_then)
  show "secure (executed s) (engine_transition (wf_identifier s) SESSION_EXECUTING
      SESSION_AWAITING_VERIFICATION_APPROVAL
      (\<lambda>s. s\<lparr>wf_execution_result := Some x, wf_changed_files := files\<rparr>))"
    unfolding secure_def
  proof (rule transition_inv)
    fix a :: "'w agent" and t
    assume a: "executed s a" and t: "get_session (ag_store a) (wf_identifier s) = Some t"
    have c: "claimed SESSION_EXECUTING s a" using a by (simp add: executed_def)
    let ?t = "s\<lparr>wf_state := SESSION_AWAITING_VERIFICATION_APPROVAL,
      wf_execution_result := Some x, wf_changed_files := files\<rparr>"
    have "same_base s ?t" by (simp add: same_base_def)
    from execution_granted_base [OF this] claimed_sound [OF c] a
    have "session_sound (ag_approvals a) (ag_effects a) (wf_identifier s) (Some ?t)"
      using assms by (simp add: grants_ok_def executed_def executed_well_def untouched_def unverified_def)
    then show "session_sound (ag_approvals a) (ag_effects a) (wf_identifier s)
        (Some (t\<lparr>wf_state := SESSION_AWAITING_VERIFICATION_APPROVAL,
          wf_execution_result := Some x, wf_changed_files := files\<rparr>))"
      by (simp add: held_session [OF c t])
  qed (simp add: executed_def claimed_def)
qed (intro keeps_intros)

lemma changed_files_planned:
  assumes "workflow_changed_files resolve after p = Inr files"
  shows "files \<noteq> [] \<and> set files \<subseteq> set (plan_affected_files p)"
proof -
  define actual where "actual = dedupe (map path_of (filter (\<lambda>p. \<not> is_log_path p)
    (snap_modified_files after @ snap_staged_files after @ snap_untracked_files after)))"
  have "files = sort actual" "actual \<noteq> []" "list_all (\<lambda>f. f \<in> set (plan_affected_files p)) actual"
    using assms unfolding workflow_changed_files_def Let_def actual_def [symmetric]
    by (auto simp only: and_then_Inr_iff require_Inr_iff sum.inject)
  moreover from this have "set files = set actual" by simp
  ultimately show ?thesis by (metis list_all_iff set_empty subsetI)
qed

lemma inspected_changes:
  assumes "fst (seq (outside m) (\<lambda>after. lift (workflow_changed_files resolve after p)) a) = Inr files"
  shows "files \<noteq> [] \<and> set files \<subseteq> set (plan_affected_files p)"
  using assms changed_files_planned
  by (auto simp: seq_def split: prod.splits sum.splits)

lemmas unexecuted_steps =
  secure_attribute [OF firm_claims(3)] secure_seq [OF firm_claims(3) quiet_calls(6)]
  secure_seq [OF firm_claims(3) quiet_outside] secure_attempt [OF firm_claims(3)]
  secure_change [OF record_execution firm_claims(4)]

lemmas executed_steps =
  secure_attempt [OF firm_claims(4) quiet_outside]
  secure_attempt_then [OF pause_for_verification_secure]
  secure_attempt_value [OF firm_claims(4) _ inspected_changes]
  secure_keeps [OF firm_claims(4) keeps_inv_block(1)] secure_if

lemma execute_claimed_secure: "secure (unexecuted s) (execute_claimed E s)"
  unfolding execute_claimed_def Let_def
  by (rule unexecuted_steps executed_steps | assumption | erule conjunct1 conjunct2
      | (intro keeps_intros; fail) | (intro quiet_intros; fail)
      | (simp; fail))+

section \<open>Verification and review before a commit\<close>

lemma quiet_option [quiet_intros]:
  "quiet m \<Longrightarrow> (\<And>y. quiet (n y)) \<Longrightarrow> quiet (case x of None \<Rightarrow> m | Some y \<Rightarrow> n y)"
  by (cases x) auto

lemma keeps_claimed_save: "keeps (claimed B s) (save_approval_request q)"
proof (rule keepsI)
  fix a :: "'w agent" assume a: "claimed B s a"
  then have "engine_inv (snd (save_approval_request q a))"
    using keepsD [OF keeps_inv_save, of a q] by (metis claimed_def prod.collapse)
  then show "claimed B s (snd (save_approval_request q a))"
    using a by (auto simp: claimed_def save_approval_request_def split: sum.splits)
qed

lemma keeps_inv_review_analysis [keeps_intros]:
  "keeps engine_inv (engine_transition i SESSION_VERIFYING SESSION_BLOCKED
     (\<lambda>s. s\<lparr>wf_verification_report := v, wf_review_report := r\<rparr>))"
proof (rule transition_inv)
  fix a :: "'w agent" and t
  assume a: "engine_inv a" "get_session (ag_store a) i = Some t" "wf_state t = SESSION_VERIFYING"
  let ?t = "t\<lparr>wf_state := SESSION_BLOCKED, wf_verification_report := v, wf_review_report := r\<rparr>"
  have "same_base t ?t" by (simp add: same_base_def)
  from execution_granted_base [OF this] engine_inv_session [OF a(1,2)] a(3)
  show "session_sound (ag_approvals a) (ag_effects a) i (Some ?t)"
    by (auto simp: grants_ok_def)
qed

text \<open>The commit request the review leads to.\<close>

definition commit_of_plan :: "workflow_session \<Rightarrow> implementation_plan \<Rightarrow> commit_request \<Rightarrow> bool" where
  "commit_of_plan s p c \<longleftrightarrow> cr_repository_root c = plan_repository_root p
     \<and> cr_expected_branch c = plan_branch p \<and> cr_expected_head c = plan_head_commit p
     \<and> cr_paths c = wf_changed_files s"

lemma pause_for_commit_secure:
  assumes "wf_plan s = Some p" "rep_status v = PASSED" "rr_status r = Approved" "commit_of_plan s p c"
  shows "secure (claimed SESSION_VERIFYING s) (pause_for_commit E s v r m c)"
  unfolding pause_for_commit_def
proof (rule secure_seq [OF firm_claims(2)], rule quiet_calls, rule secure_seq [OF firm_claims(2)],
    rule quiet_calls, rule secure_change [OF keeps_claimed_save firm_claims(2)], rule secure_then)
  fix e
  show "secure (claimed SESSION_VERIFYING s) (engine_transition (wf_identifier s) SESSION_VERIFYING
      SESSION_AWAITING_COMMIT_APPROVAL (commit_artifacts v r m c e))"
    unfolding secure_def
  proof (rule transition_inv)
    fix a :: "'w agent" and t
    assume a: "claimed SESSION_VERIFYING s a" and t: "get_session (ag_store a) (wf_identifier s) = Some t"
    let ?t = "commit_artifacts v r m c e (s\<lparr>wf_state := SESSION_AWAITING_COMMIT_APPROVAL\<rparr>)"
    have "same_base s ?t" by (simp add: same_base_def commit_artifacts_def)
    moreover have "executed_well ?t = executed_well s"
      by (simp add: executed_well_def commit_artifacts_def)
    moreover have "wf_commit_result ?t = wf_commit_result s" by (simp add: commit_artifacts_def)
    moreover have "reviewed ?t c"
      using assms by (simp add: reviewed_def commit_artifacts_def commit_of_plan_def)
    moreover have "wf_identifier ?t = wf_identifier s" "wf_source ?t = wf_source s"
      "wf_state ?t = SESSION_AWAITING_COMMIT_APPROVAL"
      by (simp_all add: commit_artifacts_def)
    ultimately have "session_sound (ag_approvals a) (ag_effects a) (wf_identifier s) (Some ?t)"
      using claimed_sound [OF a] execution_granted_base [of s ?t] by (auto simp: grants_ok_def unverified_def)
    then show "session_sound (ag_approvals a) (ag_effects a) (wf_identifier s) (Some
        (commit_artifacts v r m c e (t\<lparr>wf_state := SESSION_AWAITING_COMMIT_APPROVAL\<rparr>)))"
      by (simp add: held_session [OF a t])
  qed (simp add: claimed_def)
qed (intro keeps_intros)

lemmas verifying_steps =
  secure_attribute [OF firm_claims(2)] secure_attempt_then [OF pause_for_commit_secure]
  secure_attempt [OF firm_claims(2)] secure_keeps [OF firm_claims(2) keeps_inv_block(1)]
  secure_if secure_seq [OF firm_claims(2)]

lemma review_verified_secure:
  assumes "wf_plan s = Some p" "rep_status v = PASSED"
  shows "secure (claimed SESSION_VERIFYING s) (review_verified E s q p v)"
  unfolding review_verified_def Let_def
  by (rule verifying_steps assms | (intro keeps_intros; fail) | (intro quiet_intros; fail)
      | (simp add: commit_of_plan_def; fail))+

lemma verify_claimed_secure: "secure (claimed SESSION_VERIFYING s) (verify_claimed E s)"
  unfolding verify_claimed_def
  by (rule review_verified_secure verifying_steps | assumption | (intro keeps_intros; fail)
      | (intro quiet_intros; fail) | (simp; fail))+

section \<open>A commit is granted and recorded once\<close>

lemma record_commit:
  "triple (uncommitted s c f :: 'w agent \<Rightarrow> bool)
    (record_effect (Committed (wf_identifier s) c f)) (\<lambda>_. committed s) (\<lambda>_. committed s)"
proof -
  have "committed s (a\<lparr>ag_effects := ag_effects a @ [Committed (wf_identifier s) c f]\<rparr>)"
    if a: "uncommitted s c f a" for a :: "'w agent"
  proof -
    let ?i = "wf_identifier s" and ?es = "ag_effects a @ [Committed (wf_identifier s) c f]"
    have inv: "engine_inv a" and held: "get_session (ag_store a) ?i = Some (s\<lparr>wf_state := SESSION_COMMITTING\<rparr>)"
      and none: "commits ?i (ag_effects a) = []"
      and granted: "reviewed s c" "commit_granted (ag_approvals a) s c f"
      using a by (simp_all add: uncommitted_def claimed_def)
    from engine_inv_session [OF inv held] none granted
    have "session_sound (ag_approvals a) ?es ?i (Some (s\<lparr>wf_state := SESSION_COMMITTING\<rparr>))"
      by (auto simp: grants_ok_def)
    then have "session_sound (ag_approvals a) ?es j (get_session (ag_store a) j)" for j
      using inv held by (cases "j = ?i") (auto simp: engine_inv_def session_sound_other)
    then show ?thesis
      using held none by (simp add: committed_def claimed_def engine_inv_def)
  qed
  then show ?thesis by (simp add: triple_def record_effect_def)
qed

lemma complete_secure:
  "secure (committed s) (engine_transition (wf_identifier s) SESSION_COMMITTING SESSION_COMPLETED
     (\<lambda>s. s\<lparr>wf_commit_result := Some x\<rparr>))"
  unfolding secure_def
proof (rule transition_inv)
  fix a :: "'w agent" and t
  assume a: "committed s a" and t: "get_session (ag_store a) (wf_identifier s) = Some t"
  have c: "claimed SESSION_COMMITTING s a" using a by (simp add: committed_def)
  let ?t = "s\<lparr>wf_state := SESSION_COMPLETED, wf_commit_result := Some x\<rparr>"
  have "same_base s ?t" by (simp add: same_base_def)
  moreover have "reviewed ?t = reviewed s" "executed_well ?t = executed_well s"
    by (simp_all add: fun_eq_iff reviewed_def executed_well_def)
  moreover have "commit_granted (ag_approvals a) ?t = commit_granted (ag_approvals a) s"
    by (rule commit_granted_cong) simp_all
  ultimately have "session_sound (ag_approvals a) (ag_effects a) (wf_identifier s) (Some ?t)"
    using claimed_sound [OF c] execution_granted_base [of s ?t] a
    by (auto simp: grants_ok_def committed_def)
  then show "session_sound (ag_approvals a) (ag_effects a) (wf_identifier s)
      (Some (t\<lparr>wf_state := SESSION_COMPLETED, wf_commit_result := Some x\<rparr>))"
    by (simp add: held_session [OF c t])
qed (simp add: committed_def claimed_def)

lemma commit_claimed_secure: "secure (uncommitted s c f) (commit_claimed E s c f q)"
  unfolding commit_claimed_def Let_def
  by (rule secure_change [OF record_commit firm_claims(6)] secure_then [OF complete_secure]
      secure_attempt [OF firm_claims(5)] secure_attempt [OF firm_claims(6)]
      secure_seq [OF firm_claims(5) quiet_calls(6)]
    | (intro keeps_intros; fail) | (intro quiet_intros; fail))+

section \<open>Claiming from a snapshot\<close>

text \<open>A session read earlier: since then it can only have advanced.\<close>

definition ready :: "workflow_session \<Rightarrow> 'w agent \<Rightarrow> bool" where
  "ready s a \<longleftrightarrow> engine_inv a \<and> above s a"

definition found_approval :: "workflow_session \<Rightarrow> string \<Rightarrow> approval_result \<Rightarrow> 'w agent \<Rightarrow> bool" where
  "found_approval s k r a \<longleftrightarrow> ready s a \<and> get_request (ag_approvals a) k = Some r"

definition found_claimed :: "workflow_session \<Rightarrow> string \<Rightarrow> approval_result \<Rightarrow> 'w agent \<Rightarrow> bool" where
  "found_claimed s k r a \<longleftrightarrow> claimed SESSION_EXECUTING s a
     \<and> executions (wf_identifier s) (ag_effects a) = []
     \<and> get_request (ag_approvals a) k = Some r"

lemma firm_ready: "firm (ready s)" "firm (found_approval s k r)" "firm (found_claimed s k r)"
  using engine_inv_core
  by (auto simp: firm_def core_stable_def ready_def found_approval_def found_claimed_def above_def
      claimed_def core_def)

lemma claim_triple:
  fixes P :: "'w agent \<Rightarrow> bool"
  assumes "wf_state s = A" "\<And>a. P a \<Longrightarrow> ready s a"
    and "\<And>a. P a \<Longrightarrow> get_session (ag_store a) (wf_identifier s) = Some s
      \<Longrightarrow> session_sound (ag_approvals a) (ag_effects a) (wf_identifier s) (Some (s\<lparr>wf_state := B\<rparr>))"
    and "\<And>a b. P a \<Longrightarrow> get_session (ag_store a) (wf_identifier s) = Some s \<Longrightarrow> claimed B s b
      \<Longrightarrow> ag_approvals b = ag_approvals a \<Longrightarrow> ag_effects b = ag_effects a \<Longrightarrow> R b"
  shows "triple P (engine_transition (wf_identifier s) A B (\<lambda>s. s))
    (\<lambda>ok b. if ok then R b else engine_inv b) (\<lambda>_. engine_inv)"
  unfolding triple_def
proof (intro allI impI)
  fix a :: "'w agent" assume P: "P a"
  let ?m = "engine_transition (wf_identifier s) A B (\<lambda>s. s)"
  obtain r b where b: "?m a = (r, b)" by fastforce
  have inv: "engine_inv a" and ab: "above s a"
    using assms(2) [OF P] by (simp_all add: ready_def)
  have same: "ag_approvals b = ag_approvals a" "ag_effects b = ag_effects a"
    using engine_transition_result [OF b] by auto
  show "case ?m a of (Inl e, t) \<Rightarrow> engine_inv t
    | (Inr ok, t) \<Rightarrow> if ok then R t else engine_inv t"
  proof (cases "r = Inr True")
    case True
    with engine_transition_result [OF b] obtain t
      where t: "get_session (ag_store a) (wf_identifier s) = Some t" "wf_state t = A"
        "get_session (ag_store b) = (get_session (ag_store a))(wf_identifier s \<mapsto> t\<lparr>wf_state := B\<rparr>)"
      by auto
    then have eq: "t = s"
      using ab assms(1) advances_same_phase by (fastforce simp: above_def)
    have "session_sound (ag_approvals b) (ag_effects b) j (get_session (ag_store b) j)" for j
      using inv same t assms(3) [OF P] by (cases "j = wf_identifier s") (auto simp: eq engine_inv_def)
    then have "claimed B s b" using t by (simp add: claimed_def engine_inv_def eq)
    then have "R b" using assms(4) [OF P _ _ same] t by (simp add: eq)
    then show ?thesis by (simp add: b True)
  next
    case False
    then have "core b = core a" using engine_transition_result [OF b] by (auto simp: core_def)
    then have "engine_inv b" using inv engine_inv_core by blast
    then show ?thesis using False by (auto simp: b split: sum.split)
  qed
qed

lemma secure_claim:
  assumes "triple P m (\<lambda>ok b. if ok then R b else engine_inv b) (\<lambda>_. engine_inv)"
    and "keeps engine_inv refused" "secure R n"
  shows "secure P (seq m (\<lambda>ok. if \<not> ok then refused else n))"
  using assms unfolding secure_def by (intro triple_seq [OF assms(1)]) (auto simp: triple_def)

text \<open>What the stored session in that phase already guarantees.\<close>

lemma ready_sound:
  "ready s a \<Longrightarrow> get_session (ag_store a) (wf_identifier s) = Some s
    \<Longrightarrow> session_sound (ag_approvals a) (ag_effects a) (wf_identifier s) (Some s)"
  unfolding ready_def by (blast dest: engine_inv_session)

lemma claim_execution:
  assumes "wf_state s = SESSION_AWAITING_APPROVAL"
  shows "triple (found_approval s k r) (engine_transition (wf_identifier s)
      SESSION_AWAITING_APPROVAL SESSION_EXECUTING (\<lambda>s. s))
    (\<lambda>ok b. if ok then found_claimed s k r b else engine_inv b) (\<lambda>_. engine_inv)"
proof (rule claim_triple [OF assms])
  fix a :: "'w agent"
  assume a: "found_approval s k r a" and held: "get_session (ag_store a) (wf_identifier s) = Some s"
  have sound: "session_sound (ag_approvals a) (ag_effects a) (wf_identifier s) (Some s)"
    using a held unfolding found_approval_def by (blast intro: ready_sound)
  then show "session_sound (ag_approvals a) (ag_effects a) (wf_identifier s)
      (Some (s\<lparr>wf_state := SESSION_EXECUTING\<rparr>))"
    using assms by simp
  fix b :: "'w agent"
  assume "claimed SESSION_EXECUTING s b" "ag_approvals b = ag_approvals a" "ag_effects b = ag_effects a"
  then show "found_claimed s k r b"
    using a sound assms by (simp add: found_claimed_def found_approval_def)
qed (simp add: found_approval_def)

lemma claim_verification:
  assumes "wf_state s = SESSION_AWAITING_VERIFICATION_APPROVAL"
  shows "triple (ready s) (engine_transition (wf_identifier s)
      SESSION_AWAITING_VERIFICATION_APPROVAL SESSION_VERIFYING (\<lambda>s. s))
    (\<lambda>ok b. if ok then claimed SESSION_VERIFYING s b else engine_inv b) (\<lambda>_. engine_inv)"
proof (rule claim_triple [OF assms])
  fix a :: "'w agent"
  assume "ready s a" "get_session (ag_store a) (wf_identifier s) = Some s"
  from ready_sound [OF this] show "session_sound (ag_approvals a) (ag_effects a) (wf_identifier s)
      (Some (s\<lparr>wf_state := SESSION_VERIFYING\<rparr>))"
    using assms by simp
qed

text \<open>An approval found in the repository that is for exactly this commit.\<close>

definition commit_terms :: "workflow_session \<Rightarrow> commit_request \<Rightarrow> string \<Rightarrow> approval_result \<Rightarrow> bool" where
  "commit_terms s c f r \<longleftrightarrow> approved r \<and> wf_commit_request s = Some c
     \<and> wf_reviewed_content_fingerprint s = Some f
     \<and> (\<exists>p now normal. wf_plan s = Some p
        \<and> evaluate now (pending_decision (commit_approval_draft (wf_identifier s) p c f)) = Inr normal
        \<and> ad_request (decision r) = ad_request (decision normal))"

lemma claim_commit:
  assumes "wf_state s = SESSION_AWAITING_COMMIT_APPROVAL" "commit_terms s c f r"
  shows "triple (found_approval s (''approval-commit-'' @ wf_identifier s) r)
    (engine_transition (wf_identifier s) SESSION_AWAITING_COMMIT_APPROVAL SESSION_COMMITTING (\<lambda>s. s))
    (\<lambda>ok b. if ok then uncommitted s c f b else engine_inv b) (\<lambda>_. engine_inv)"
proof (rule claim_triple [OF assms(1)])
  fix a :: "'w agent"
  assume a: "found_approval s (''approval-commit-'' @ wf_identifier s) r a"
    and held: "get_session (ag_store a) (wf_identifier s) = Some s"
  have sound: "session_sound (ag_approvals a) (ag_effects a) (wf_identifier s) (Some s)"
    using a held unfolding found_approval_def by (blast intro: ready_sound)
  then show "session_sound (ag_approvals a) (ag_effects a) (wf_identifier s)
      (Some (s\<lparr>wf_state := SESSION_COMMITTING\<rparr>))"
    using assms by simp
  obtain d where "reviewed s d" using sound assms(1) by auto
  then have rev: "reviewed s c"
    using assms(2) by (auto simp: commit_terms_def reviewed_def)
  have "commit_granted (ag_approvals a) s c f"
    using a assms(2) unfolding commit_granted_def commit_terms_def found_approval_def by blast
  moreover fix b :: "'w agent"
  assume "claimed SESSION_COMMITTING s b" "ag_approvals b = ag_approvals a" "ag_effects b = ag_effects a"
  ultimately show "uncommitted s c f b"
    using sound assms(1) rev by (simp add: uncommitted_def)
qed (simp add: found_approval_def)

section \<open>Resuming keeps the invariant\<close>

lemma secure_stored_approval:
  assumes "keeps engine_inv m" "\<And>r. secure (found_approval s k r) (n r)"
  shows "secure (ready s)
    (seq (stored_approval k) (\<lambda>found. case found of None \<Rightarrow> m | Some r \<Rightarrow> n r))"
proof -
  have "triple (ready s) (stored_approval k)
      (\<lambda>found a. ready s a \<and> get_request (ag_approvals a) k = found) (\<lambda>_. engine_inv)"
    by (simp add: triple_def stored_approval_def reading_def)
  moreover have "secure (\<lambda>a. ready s a \<and> get_request (ag_approvals a) k = found)
      (case found of None \<Rightarrow> m | Some r \<Rightarrow> n r)" for found
  proof (cases found)
    case None
    have "secure (ready s) m" by (rule secure_keeps [OF firm_ready(1) assms(1)])
    then show ?thesis by (auto simp: None elim: secure_weaken)
  next
    case (Some r)
    then show ?thesis using assms(2) [of r] by (simp add: found_approval_def [abs_def])
  qed
  ultimately show ?thesis unfolding secure_def by (rule triple_seq)
qed

lemma secure_option:
  "secure P m \<Longrightarrow> (\<And>y. x = Some y \<Longrightarrow> secure P (n y))
    \<Longrightarrow> secure P (case x of None \<Rightarrow> m | Some y \<Rightarrow> n y)"
  by (cases x) auto

lemma secure_option_pair:
  "(\<And>c f. x = Some c \<Longrightarrow> y = Some f \<Longrightarrow> secure P (n c f)) \<Longrightarrow> secure P m
    \<Longrightarrow> secure P (case (x, y) of (Some c, Some f) \<Rightarrow> n c f | _ \<Rightarrow> m)"
  by (cases x; cases y) auto

lemma secure_evaluate:
  assumes "firm P" "\<And>e. keeps engine_inv (h e)"
    and "\<And>x now. evaluate now d = Inr x \<Longrightarrow> secure P (f x)"
  shows "secure P (attempt (evaluate_now E d) h f)"
proof (rule secure_attempt_value [OF assms(1) quiet_calls(1)])
  fix a x assume "fst (evaluate_now E d a) = Inr x"
  then show "\<exists>now. evaluate now d = Inr x" by (auto simp: evaluate_now_def reading_def)
qed (use assms in auto)

lemma secure_lift:
  assumes "firm P" "\<And>x. r = Inr x \<Longrightarrow> secure P (f x)"
  shows "secure P (seq (lift r) f)"
proof (cases r)
  case (Inl e)
  then show ?thesis using secure_keeps [OF assms(1) keeps_raise] by simp
qed (simp add: assms(2))

lemma evaluate_decides:
  assumes "evaluate now (decision r) = Inr x"
  shows "approved x = approved r"
  using assms by (auto simp: evaluate_def approved_def res_simps)

lemma execution_of_found:
  assumes "approval_matches_session (''approval-'' @ wf_identifier s) (ad_request (decision r)) s = Inr True"
    "evaluate now (decision r) = Inr x" "approved x"
  shows "secure (found_claimed s (''approval-'' @ wf_identifier s) r) (execute_claimed E s)"
proof (rule secure_weaken [OF execute_claimed_secure])
  fix a assume "found_claimed s (''approval-'' @ wf_identifier s) r a"
  then show "unexecuted s a"
    using assms evaluate_decides [OF assms(2)]
    unfolding found_claimed_def unexecuted_def implementation_granted_def by blast
qed

lemma resume_implementation_secure:
  assumes "wf_state s = SESSION_AWAITING_APPROVAL"
  shows "secure (ready s) (resume_implementation E s)"
  unfolding resume_implementation_def Let_def
  by (rule secure_stored_approval secure_lift [OF firm_ready(2)] secure_if
      secure_evaluate [OF firm_ready(2)] secure_claim [OF claim_execution [OF assms]]
      secure_keeps [OF firm_ready(3) keeps_inv_block(1)] execution_of_found
      secure_keeps [OF firm_ready(2)]
    | assumption | (intro keeps_intros; fail) | (simp; fail))+

lemma resume_verification_secure:
  assumes "wf_state s = SESSION_AWAITING_VERIFICATION_APPROVAL"
  shows "secure (ready s) (resume_verification E s)"
  unfolding resume_verification_def Let_def
  by (rule secure_seq [OF firm_ready(1) quiet_calls(2)] secure_option
      secure_attempt [OF firm_ready(1) quiet_calls(3)] secure_if
      secure_evaluate [OF firm_ready(1)] secure_claim [OF claim_verification [OF assms]]
      verify_claimed_secure secure_keeps [OF firm_ready(1)]
    | (intro keeps_intros; fail))+

lemma secure_expected_commit:
  assumes "firm P" "\<And>x p now normal. wf_plan s = Some p
      \<Longrightarrow> evaluate now (pending_decision (commit_approval_draft (wf_identifier s) p c f)) = Inr normal
      \<Longrightarrow> x = ad_request (decision normal) \<Longrightarrow> secure P (g x)"
  shows "secure P (seq (commit_approval_request E s c f) g)"
proof (rule secure_seq_value [OF assms(1) quiet_calls(4)])
  fix a x assume "fst (commit_approval_request E s c f a) = Inr x"
  then show "\<exists>p now normal. wf_plan s = Some p
      \<and> evaluate now (pending_decision (commit_approval_draft (wf_identifier s) p c f)) = Inr normal
      \<and> x = ad_request (decision normal)"
    by (cases "wf_plan s") (auto simp: commit_approval_request_def attribute_def seq_def
        evaluate_now_def reading_def split: sum.splits)
qed (use assms(2) in blast)

lemma resume_commit_secure:
  assumes "wf_state s = SESSION_AWAITING_COMMIT_APPROVAL"
  shows "secure (ready s) (resume_commit E s)"
proof -
  have claim: "secure (found_approval s (''approval-commit-'' @ wf_identifier s) r)
      (seq (engine_transition (wf_identifier s) SESSION_AWAITING_COMMIT_APPROVAL SESSION_COMMITTING
        (\<lambda>s. s)) (\<lambda>ok. if \<not> ok then session_error_result s m else commit_claimed E s c f q))"
    if "wf_commit_request s = Some c" "wf_reviewed_content_fingerprint s = Some f"
      "wf_plan s = Some p"
      "evaluate now (pending_decision (commit_approval_draft (wf_identifier s) p c f)) = Inr normal"
      "q = ad_request (decision normal)" "\<not> ad_request (decision r) \<noteq> q"
      "evaluate now' (decision r) = Inr x" "\<not> \<not> approved x" for r c f m q p now normal now' x
  proof (rule secure_claim [OF claim_commit [OF assms]])
    show "commit_terms s c f r"
      using that evaluate_decides [OF that(7)] unfolding commit_terms_def by blast
  qed (intro keeps_intros commit_claimed_secure)+
  show ?thesis
    unfolding resume_commit_def Let_def
    by (rule secure_stored_approval secure_option_pair claim secure_if
        secure_expected_commit [OF firm_ready(2)] secure_evaluate [OF firm_ready(2)]
        secure_keeps [OF firm_ready(2)]
      | assumption | (intro keeps_intros; fail))+
qed

section \<open>Planning keeps the invariant\<close>

lemma store_planned_secure:
  assumes "session_post_init (planned_session i q p analysis context) = Inr s"
  shows "secure engine_inv (store_planned s r)"
proof -
  have s: "s = planned_session i q p analysis context"
    using assms session_post_init_Inr by blast
  have "engine_inv b" if a: "engine_inv a" and b: "store_planned s r a = (v, b)" for a b :: "'w agent" and v
    using store_planned_result [OF b]
  proof (elim disjE conjE)
    assume fresh: "get_session (ag_store a) (wf_identifier s) = None"
      and stored: "get_session (ag_store b) = (get_session (ag_store a))(wf_identifier s \<mapsto> s)"
      and saved: "save_request (ag_approvals a) r = Inr (ag_approvals b)"
      and effects: "ag_effects b = ag_effects a"
    show ?thesis
      unfolding engine_inv_def effects
    proof
      fix j
      have sound: "session_sound (ag_approvals a) (ag_effects a) j (get_session (ag_store a) j)"
        using a by (simp add: engine_inv_def)
      show "session_sound (ag_approvals b) (ag_effects a) j (get_session (ag_store b) j)"
      proof (cases "j = wf_identifier s")
        case True
        have "wf_source s = SOURCE_ROADMAP" "wf_state s = SESSION_AWAITING_APPROVAL" "untouched s"
          by (simp_all add: s planned_session_def new_session_def untouched_def unverified_def)
        then show ?thesis using True sound fresh by (simp add: stored grants_ok_def)
      next
        case False
        then show ?thesis
          using session_sound_kept [OF approvals_kept_save [OF saved] sound] by (simp add: stored)
      qed
    qed
  next
    assume "core b = core a"
    then show ?thesis using a engine_inv_core by blast
  qed
  then show ?thesis
    unfolding secure_def triple_def by (auto split: prod.split sum.split)
qed

lemma run_secure: "secure engine_inv (run E q context i)"
  unfolding run_def Let_def
  by (rule secure_lift [OF firm_claims(1)] secure_attempt_then [OF store_planned_secure]
      secure_attempt [OF firm_claims(1)] secure_seq [OF firm_claims(1)]
    | assumption | (intro keeps_intros; fail) | (intro quiet_intros; fail))+

section \<open>Histories of calls\<close>

text \<open>
  A call: \<open>run\<close>; reading a session; resuming from a session read earlier, which may be stale by
  now (\<open>WorkflowEngine.resume\<close> is a read followed by this); a call of the approval repository;
  and a change of the world outside.
\<close>

datatype 'w agent_call =
    RunCall workflow_request "agent_context option" string
  | ReadCall string
  | ResumeCall nat
  | ApprovalCall approval_op
  | OutsideCall "'w \<Rightarrow> 'w"

type_synonym 'w candidate_handlers =
  "candidate_boundary \<Rightarrow> workflow_session \<Rightarrow> ('w agent, workflow_result) action"

fun engine_call :: "'w engine_env \<Rightarrow> (string \<Rightarrow> bool) \<Rightarrow> 'w candidate_handlers
    \<Rightarrow> 'w agent \<times> workflow_session list \<Rightarrow> 'w agent_call \<Rightarrow> 'w agent \<times> workflow_session list" where
  "engine_call E enabled candidate (a, sessions) (RunCall q context i) =
     (snd (run E q context i a), sessions)"
| "engine_call E enabled candidate (a, sessions) (ReadCall i) =
     (a, sessions @ option_list (get_session (ag_store a) i))"
| "engine_call E enabled candidate (a, sessions) (ResumeCall n) =
     (if n < length sessions then snd (resume_session E enabled candidate (sessions ! n) a) else a,
      sessions)"
| "engine_call E enabled candidate (a, sessions) (ApprovalCall call) =
     (a\<lparr>ag_approvals := approval_step (ag_approvals a) call\<rparr>, sessions)"
| "engine_call E enabled candidate (a, sessions) (OutsideCall f) =
     (a\<lparr>ag_world := f (ag_world a)\<rparr>, sessions)"

definition new_agent :: "'w \<Rightarrow> 'w agent" where
  "new_agent w = \<lparr>ag_store = empty_store, ag_approvals = [], ag_world = w, ag_effects = []\<rparr>"

definition engine_calls :: "'w engine_env \<Rightarrow> (string \<Rightarrow> bool) \<Rightarrow> 'w candidate_handlers \<Rightarrow> 'w
    \<Rightarrow> 'w agent_call list \<Rightarrow> 'w agent \<times> workflow_session list" where
  "engine_calls E enabled candidate w calls =
     foldl (engine_call E enabled candidate) (new_agent w, []) calls"

text \<open>The Agent after a history of calls.\<close>

definition agent_after :: "'w engine_env \<Rightarrow> (string \<Rightarrow> bool) \<Rightarrow> 'w candidate_handlers \<Rightarrow> 'w
    \<Rightarrow> 'w agent_call list \<Rightarrow> 'w agent" where
  "agent_after E enabled candidate w calls = fst (engine_calls E enabled candidate w calls)"

definition roadmap_session :: "workflow_session \<Rightarrow> bool" where
  "roadmap_session s \<longleftrightarrow> wf_source s = SOURCE_ROADMAP \<and> (\<exists>e c. counts_ok (wf_state s) e c)"

lemma roadmap_phases:
  "roadmap_session s \<Longrightarrow> wf_state s \<notin> {SESSION_PLANNED, SESSION_AWAITING_IMPLEMENTATION_APPROVAL,
     SESSION_PATCH_APPLIED_PENDING_VERIFICATION}"
  by (auto simp: roadmap_session_def)

lemma resume_session_cases:
  assumes "roadmap_session s"
    and "wf_state s = SESSION_AWAITING_APPROVAL \<Longrightarrow> Q (resume_implementation E s)"
    and "wf_state s = SESSION_AWAITING_VERIFICATION_APPROVAL \<Longrightarrow> Q (resume_verification E s)"
    and "wf_state s = SESSION_AWAITING_COMMIT_APPROVAL \<Longrightarrow> Q (resume_commit E s)"
    and "\<And>m. quiet m \<Longrightarrow> Q m"
  shows "Q (resume_session E enabled candidate s)"
proof -
  have "Q (session_error_result s m)" "Q (blocked_session_result s m None None None)" for m
    by (intro assms(5) quiet_intros)+
  moreover have "wf_source s = SOURCE_ROADMAP" "\<not> can_reconcile_worker s"
    using assms(1) by (simp_all add: roadmap_session_def can_reconcile_worker_def)
  ultimately show ?thesis
    using assms(2-4) roadmap_phases [OF assms(1)]
    unfolding resume_session_def by (cases "wf_state s") simp_all
qed

lemma resume_session_secure:
  assumes "roadmap_session s"
  shows "secure (ready s) (resume_session E enabled candidate s)"
proof (rule resume_session_cases [OF assms])
  fix m :: "('w agent, workflow_result) action" assume "quiet m"
  then show "secure (ready s) m"
    by (rule secure_keeps [OF firm_ready(1) keeps_inv_quiet])
qed (simp_all add: resume_implementation_secure resume_verification_secure resume_commit_secure)

lemma keeps_above_resume_session:
  "roadmap_session s \<Longrightarrow> keeps (above t) (resume_session E enabled candidate s)"
  by (rule resume_session_cases) (simp_all add: keeps_above_resumed keeps_above_quiet)

section \<open>A failure that strands a workflow\<close>

text \<open>
  The inspector of the repository is made after the session is claimed and outside the
  \<open>try\<close>: when that fails (the repository has gone), the exception leaves the session
  executing, and every later resumption only reports that the workflow is in progress.
\<close>

theorem failed_inspection_strands:
  assumes "get_session (ag_store a) (wf_identifier s) = Some s" "wf_state s = SESSION_AWAITING_APPROVAL"
    and "wf_request s = Some q" "wf_plan s = Some p" "session_coherent (s\<lparr>wf_state := SESSION_EXECUTING\<rparr>)"
    and "get_request (ag_approvals a) (''approval-'' @ wf_identifier s) = Some r"
    and "approval_matches_session (''approval-'' @ wf_identifier s) (ad_request (decision r)) s
      = Inr True"
    and "evaluate (ee_now E (ag_world a)) (decision r) = Inr x" "approved x"
    and "make_inspector (ee_tree E) (wq_repository_root q) (ag_world a) = (Inl e, w)"
  shows "\<exists>b. resume_implementation E s a = (Inl e, b)
    \<and> get_session (ag_store b) (wf_identifier s) = Some (s\<lparr>wf_state := SESSION_EXECUTING\<rparr>)"
proof -
  define b where "b = a\<lparr>ag_store := (ag_store a)\<lparr>wst_sessions := AList.update (wf_identifier s)
    (s\<lparr>wf_state := SESSION_EXECUTING\<rparr>) (wst_sessions (ag_store a))\<rparr>\<rparr>"
  have "transition_session (ag_store a) (wf_identifier s) SESSION_AWAITING_APPROVAL SESSION_EXECUTING
      (\<lambda>s. s) = Inr (True, ag_store b)"
    using assms(1,2,5) by (simp add: transition_session_True b_def)
  then have claim: "engine_transition (wf_identifier s) SESSION_AWAITING_APPROVAL SESSION_EXECUTING
      (\<lambda>s. s) a = (Inr True, b)"
    by (simp add: engine_transition_def b_def)
  have "\<exists>b'. execute_claimed E s b = (Inl e, b')
      \<and> get_session (ag_store b') (wf_identifier s) = Some (s\<lparr>wf_state := SESSION_EXECUTING\<rparr>)"
    using assms(3,4,10)
    by (simp add: execute_claimed_def publish_phase_def session_status_def attribute_def seq_def
        outside_def engine_publish_sprint_def b_def Let_def)
  moreover have "ad_status (decision x) \<noteq> PENDING" using assms(9) by (simp add: approved_def)
  ultimately show ?thesis
    using assms(6-9) claim
    by (simp add: resume_implementation_def Let_def seq_def stored_approval_def reading_def
        attempt_def evaluate_now_def)
qed

section \<open>Every history\<close>

definition history_inv :: "'w agent \<times> workflow_session list \<Rightarrow> bool" where
  "history_inv st \<longleftrightarrow> engine_inv (fst st)
     \<and> list_all (\<lambda>s. above s (fst st) \<and> roadmap_session s) (snd st)"

lemma engine_inv_roadmap:
  assumes "engine_inv a" "get_session (ag_store a) i = Some s"
  shows "wf_identifier s = i \<and> roadmap_session s"
  using engine_inv_session [OF assms] by (auto simp: roadmap_session_def)

lemma secureD: "secure P m \<Longrightarrow> P a \<Longrightarrow> engine_inv (snd (m a))"
  unfolding secure_def
  by (cases "m a"; cases "fst (m a)") (auto dest: triple_Inr triple_Inl)

lemma keeps_snd: "keeps P m \<Longrightarrow> P a \<Longrightarrow> P (snd (m a))"
  by (metis keepsD prod.collapse)

lemma approval_call_inv:
  "engine_inv a \<Longrightarrow> engine_inv (a\<lparr>ag_approvals := approval_step (ag_approvals a) call\<rparr>)"
  using session_sound_kept [OF approvals_kept_step] by (auto simp: engine_inv_def)

text \<open>A fact about the stored sessions that runs and resumptions keep survives every call.\<close>

definition kept_by_calls :: "'w engine_env \<Rightarrow> (string \<Rightarrow> bool) \<Rightarrow> 'w candidate_handlers
    \<Rightarrow> ('w agent \<Rightarrow> bool) \<Rightarrow> bool" where
  "kept_by_calls E enabled candidate P \<longleftrightarrow> (\<forall>q k i. keeps P (run E q k i))
     \<and> (\<forall>s. roadmap_session s \<longrightarrow> keeps P (resume_session E enabled candidate s))
     \<and> (\<forall>a b. ag_store b = ag_store a \<longrightarrow> P a \<longrightarrow> P b)"

lemma kept_by_callsI:
  assumes "\<And>q k i. keeps P (run E q k i)"
    and "\<And>s. roadmap_session s \<Longrightarrow> keeps P (resume_session E enabled candidate s)"
    and "\<And>a b. ag_store b = ag_store a \<Longrightarrow> P a = P b"
  shows "kept_by_calls E enabled candidate P"
  unfolding kept_by_calls_def using assms by blast

lemma kept_by_callsD:
  assumes "kept_by_calls E enabled candidate P"
  shows "keeps P (run E q k i)"
    and "roadmap_session s \<Longrightarrow> keeps P (resume_session E enabled candidate s)"
    and "ag_store b = ag_store a \<Longrightarrow> P a \<Longrightarrow> P b"
  using assms unfolding kept_by_calls_def by blast+

lemma kept_above: "kept_by_calls E enabled candidate (above t)"
proof (rule kept_by_callsI)
  fix a b :: "'w agent" assume "ag_store b = ag_store a"
  then show "above t a = above t b" unfolding above_def by (rule ssubst) (rule refl)
qed (rule keeps_above_run keeps_above_resume_session, assumption?)+

lemma kept_step:
  assumes "kept_by_calls E enabled candidate P" "P (fst st)" "list_all roadmap_session (snd st)"
  shows "P (fst (engine_call E enabled candidate st call))"
proof -
  note kept = kept_by_callsD [OF assms(1)]
  obtain a sessions where st: "st = (a, sessions)" by (cases st)
  then have a: "P a" using assms(2) by simp
  show ?thesis
  proof (cases call)
    case (RunCall q k i)
    then show ?thesis using keeps_snd [OF kept(1) a] by (simp add: st)
  next
    case (ResumeCall n)
    have "roadmap_session (sessions ! n)" if "n < length sessions"
      using assms(3) that by (simp add: st list_all_length)
    then show ?thesis using a keeps_snd [OF kept(2) a] by (simp add: st ResumeCall)
  qed (simp_all add: st a kept(3) [OF _ a])
qed

lemma engine_inv_step:
  assumes "history_inv st"
  shows "engine_inv (fst (engine_call E enabled candidate st call))"
proof -
  obtain a sessions where st: "st = (a, sessions)" by (cases st)
  have inv: "engine_inv a" and snaps: "list_all (\<lambda>s. above s a \<and> roadmap_session s) sessions"
    using assms by (simp_all add: history_inv_def st)
  show ?thesis
  proof (cases call)
    case (RunCall q k i)
    then show ?thesis using inv secureD [OF run_secure] by (simp add: st)
  next
    case (ResumeCall n)
    have "engine_inv (snd (resume_session E enabled candidate (sessions ! n) a))" if "n < length sessions"
    proof (rule secureD [OF resume_session_secure])
      show "roadmap_session (sessions ! n)" "ready (sessions ! n) a"
        using snaps inv that by (simp_all add: list_all_length ready_def)
    qed
    then show ?thesis using inv by (simp add: st ResumeCall)
  next
    case (ApprovalCall c)
    then show ?thesis using inv approval_call_inv by (simp add: st)
  next
    case (OutsideCall f)
    then show ?thesis using inv by (simp add: st engine_inv_def)
  qed (simp add: st inv)
qed

lemma history_step:
  assumes "history_inv st"
  shows "history_inv (engine_call E enabled candidate st call)"
proof -
  let ?st = "engine_call E enabled candidate st call"
  have old: "list_all roadmap_session (snd st)" "list_all (\<lambda>s. above s (fst st)) (snd st)"
    using assms by (auto simp: history_inv_def list_all_iff)
  then have "list_all (\<lambda>s. above s (fst ?st) \<and> roadmap_session s) (snd st)"
    using kept_step [OF kept_above _ old(1)] by (auto simp: list_all_iff)
  moreover have "list_all (\<lambda>s. above s (fst ?st) \<and> roadmap_session s) (snd ?st)"
    if "list_all (\<lambda>s. above s (fst ?st) \<and> roadmap_session s) (snd st)"
  proof (cases "\<exists>i. call = ReadCall i")
    case True
    then obtain i where i: "call = ReadCall i" by blast
    have "above s (fst st) \<and> roadmap_session s" if "get_session (ag_store (fst st)) i = Some s" for s
      using engine_inv_roadmap [OF _ that] assms that
      by (auto simp: history_inv_def above_def intro: advances_refl)
    then show ?thesis
      using that by (cases st) (auto simp: i option_list_def split: option.split)
  next
    case False
    then show ?thesis using that by (cases st; cases call) auto
  qed
  ultimately show ?thesis using engine_inv_step [OF assms] by (simp add: history_inv_def)
qed

lemma history_calls:
  "history_inv st \<Longrightarrow> history_inv (foldl (engine_call E enabled candidate) st calls)"
  by (induction calls arbitrary: st) (simp_all add: history_step)

lemma new_agent_inv: "history_inv (new_agent w, [])"
  by (simp add: history_inv_def engine_inv_def new_agent_def empty_store_def get_session_def)

lemma engine_calls_inv: "history_inv (engine_calls E enabled candidate w calls)"
  unfolding engine_calls_def by (rule history_calls [OF new_agent_inv])

lemma agent_after_inv: "engine_inv (agent_after E enabled candidate w calls)"
  using engine_calls_inv [of E enabled candidate w calls]
  by (simp add: history_inv_def agent_after_def)

lemma history_sound:
  "session_sound (ag_approvals (agent_after E enabled candidate w calls))
     (ag_effects (agent_after E enabled candidate w calls)) i
     (get_session (ag_store (agent_after E enabled candidate w calls)) i)"
  using agent_after_inv [of E enabled candidate w calls] by (simp add: engine_inv_def)

lemma kept_calls:
  assumes "kept_by_calls E enabled candidate P"
  shows "history_inv st \<Longrightarrow> P (fst st) \<Longrightarrow> P (fst (foldl (engine_call E enabled candidate) st calls))"
proof (induction calls arbitrary: st)
  case (Cons call calls)
  have "list_all roadmap_session (snd st)"
    using Cons.prems(1) by (auto simp: history_inv_def list_all_iff)
  then show ?case
    using Cons.IH [OF history_step [OF Cons.prems(1)] kept_step [OF assms Cons.prems(2)]] by simp
qed simp

lemma agent_after_advances:
  assumes "get_session (ag_store (agent_after E enabled candidate w calls)) i = Some s"
  shows "\<exists>t. get_session (ag_store (agent_after E enabled candidate w (calls @ later))) i = Some t
    \<and> advances s t"
proof -
  let ?st = "engine_calls E enabled candidate w calls"
  have "wf_identifier s = i"
    using engine_inv_roadmap [OF agent_after_inv assms] by blast
  then have "above s (fst ?st)"
    using assms by (auto simp: above_def agent_after_def)
  from kept_calls [OF kept_above engine_calls_inv this, of E enabled candidate later]
  show ?thesis
    using \<open>wf_identifier s = i\<close> by (auto simp: above_def agent_after_def engine_calls_def)
qed

lemma counts_ok_bounds: "counts_ok x e c \<Longrightarrow> e \<le> 1 \<and> c \<le> e"
  by (cases x) auto

section \<open>Properties\<close>

text \<open>
  C2. Whatever runs, resumptions from possibly stale snapshots, approval calls and changes of
  the world outside occur in whatever order, the command of a workflow is executed at most once,
  and what is executed is the request of the stored session with its own plan, under a stored,
  approved approval of that very command for that workflow which passed the evaluation.
\<close>

theorem executed_once_as_approved:
  "length (executions i (ag_effects (agent_after E enabled candidate w calls))) \<le> 1
   \<and> list_all (\<lambda>x. case get_session (ag_store (agent_after E enabled candidate w calls)) i of
        None \<Rightarrow> False
      | Some s \<Rightarrow>
          execution_granted (ag_approvals (agent_after E enabled candidate w calls)) s x)
      (executions i (ag_effects (agent_after E enabled candidate w calls)))"
proof -
  let ?a = "agent_after E enabled candidate w calls"
  have "session_sound (ag_approvals ?a) (ag_effects ?a) i (get_session (ag_store ?a) i)"
    by (rule history_sound)
  then show ?thesis
    by (cases "get_session (ag_store ?a) i") (auto simp: grants_ok_def dest: counts_ok_bounds)
qed

text \<open>
  C3. In every such history a workflow commits at most once, and what is committed is exactly
  the reviewed change: the command was executed and succeeded, its changed files are inside the
  plan and are the paths of the commit, the verification passed, the review approved, and a
  stored, approved approval names that commit and that content fingerprint.
\<close>

theorem committed_once_as_reviewed:
  "length (commits i (ag_effects (agent_after E enabled candidate w calls)))
     \<le> length (executions i (ag_effects (agent_after E enabled candidate w calls)))
   \<and> list_all (\<lambda>(c, f). case get_session (ag_store (agent_after E enabled candidate w calls)) i of
        None \<Rightarrow> False
      | Some s \<Rightarrow> executed_well s \<and> reviewed s c
          \<and> commit_granted (ag_approvals (agent_after E enabled candidate w calls)) s c f)
      (commits i (ag_effects (agent_after E enabled candidate w calls)))"
proof -
  let ?a = "agent_after E enabled candidate w calls"
  have "session_sound (ag_approvals ?a) (ag_effects ?a) i (get_session (ag_store ?a) i)"
    by (rule history_sound)
  then show ?thesis
    by (cases "get_session (ag_store ?a) i") (auto simp: grants_ok_def dest: counts_ok_bounds)
qed

text \<open>
  C19. The phase of a stored workflow accounts for what was done in its name. Awaiting approval: no
  effect and no artifact of one. Executing: at most one execution, no commit, and no artifact yet.
  Awaiting verification and verifying: exactly one execution, its successful result with changed files
  within the plan, no commit and nothing of a verification or review. Awaiting the commit approval: the
  same with a passed verification, an approved review and the commit request of the plan and the changed
  files; committing: the same and at most one commit, whose result is not stored yet. Completed: exactly
  one execution and one commit, with all of these and the result of the commit. Blocked: at most one
  execution and no more commits than executions; it may carry any artifacts. A workflow that is not
  stored has no effect at all.
\<close>

theorem phase_accounts_for_effects:
  "case get_session (ag_store (agent_after E enabled candidate w calls)) i of
     None \<Rightarrow> executions i (ag_effects (agent_after E enabled candidate w calls)) = []
       \<and> commits i (ag_effects (agent_after E enabled candidate w calls)) = []
   | Some s \<Rightarrow> wf_identifier s = i \<and> artifacts_ok (wf_state s) s
       \<and> counts_ok (wf_state s)
           (length (executions i (ag_effects (agent_after E enabled candidate w calls))))
           (length (commits i (ag_effects (agent_after E enabled candidate w calls))))"
proof -
  let ?a = "agent_after E enabled candidate w calls"
  have "session_sound (ag_approvals ?a) (ag_effects ?a) i (get_session (ag_store ?a) i)"
    by (rule history_sound)
  then show ?thesis
    by (cases "get_session (ag_store ?a) i") simp_all
qed

text \<open>
  C20. The engine refines the lifecycle of a session: whatever calls follow, a stored session
  stays stored with the same request and plan, and its phase moves only along the abstract
  machine \<open>phase_step\<close>; once completed or blocked it stays so.
\<close>

theorem sessions_follow_lifecycle:
  "case get_session (ag_store (agent_after E enabled candidate w calls)) i of
     None \<Rightarrow> True
   | Some s \<Rightarrow>
       (case get_session (ag_store (agent_after E enabled candidate w (calls @ later))) i of
          None \<Rightarrow> False
        | Some t \<Rightarrow> same_base s t \<and> phase_step\<^sup>*\<^sup>* (wf_state s) (wf_state t))"
proof (cases "get_session (ag_store (agent_after E enabled candidate w calls)) i")
  case (Some s)
  from agent_after_advances [OF this, of later] obtain t where
    "get_session (ag_store (agent_after E enabled candidate w (calls @ later))) i = Some t"
    "advances s t" by blast
  then show ?thesis using Some by (auto simp: advances_def same_base_def dest: tranclp_into_rtranclp)
qed simp

end
