(* ===== verification/OperatorSessions.thy ===== *)
theory OperatorSessions
  imports Digest
begin

text \<open>
  Operator authentication of Atlas Core (\<open>operator_auth/models.py\<close>, \<open>credentials.py\<close>,
  \<open>sessions.py\<close>, \<open>rate_limit.py\<close>): the credential file, the session store and the rate limiter.
  The table of sessions is a list of rows; its ISO columns, which only hold UTC datetimes, are
  instants in microseconds. Argon2 and the random tokens of \<open>secrets\<close> are arguments. A method
  that holds the lock or one SQL statement is one step.
\<close>

section \<open>Models\<close>

definition operational_intent_create :: string where
  "operational_intent_create = ''operational_intent:create''"

definition supported_operator_permissions :: "string list" where
  "supported_operator_permissions =
    [''operational_intent:create'',
     ''provider_intent:update'',
     ''installation_destination:select'',
     ''installation_delivery_preflight:create'',
     ''installation_delivery_preflight:read'',
     ''installation_delivery_enablement:create'',
     ''installation_delivery_enablement:read'',
     ''installation.execution.permission.grant'',
     ''installation.execution.permission.grant.read'',
     ''installation.execution.admission.record'',
     ''installation.execution.admission.read'',
     ''installation.runner.binding.plan.record'',
     ''installation.runner.binding.plan.read'',
     ''installation.execution.worker_admission_stub.record'',
     ''installation.execution.worker_admission_stub.read'',
     ''installation.execution.worker_queue_reservation.record'',
     ''installation.execution.worker_queue_reservation.read'',
     ''installation.execution.worker_intake_admission.record'',
     ''installation.execution.worker_intake_admission.read'',
     ''installation.execution.live_enqueue_admission.record'',
     ''installation.execution.live_enqueue_admission.read'',
     ''installation.execution.one_shot_live_enqueue.record'',
     ''installation.execution.one_shot_live_enqueue.read'',
     ''installation.execution.queue_observation.record'',
     ''installation.execution.queue_observation.read'',
     ''installation.execution.controlled_dequeue_admission.record'',
     ''installation.execution.controlled_dequeue_admission.read'',
     ''installation.execution.one_shot_controlled_dequeue.record'',
     ''installation.execution.one_shot_controlled_dequeue.read'',
     ''installation.execution.one_shot_dequeue_worker_binding.record'',
     ''installation.execution.one_shot_dequeue_worker_binding.read'',
     ''installation.execution.worker_binding_activation_preflight.record'',
     ''installation.execution.worker_binding_activation_preflight.read'',
     ''installation.execution.worker_binding_activation_evidence.record'',
     ''installation.execution.worker_binding_activation_evidence.read'',
     ''installation.execution.controlled_worker_queue_claim_admission.record'',
     ''installation.execution.controlled_worker_queue_claim_admission.read'',
     ''installation.execution.controlled_worker_queue_claim_lease_acknowledgement_prerequisite.record'',
     ''installation.execution.controlled_worker_queue_claim_lease_acknowledgement_prerequisite.read'',
     ''installation.execution.controlled_worker_queue_claim_lease_acknowledgement_admission.record'',
     ''installation.execution.controlled_worker_queue_claim_lease_acknowledgement_admission.read'',
     ''installation.execution.controlled_worker_queue_claim_lease_acknowledgement.evaluate'',
     ''installation.execution.controlled_worker_queue_claim_lease_acknowledgement.read'',
     ''installation.execution.worker_activation_runtime_prerequisite.evaluate'',
     ''installation.execution.worker_activation_runtime_prerequisite.read'',
     ''installation.execution.worker_activation_runtime_admission.evaluate'',
     ''installation.execution.worker_activation_runtime_admission.read'',
     ''installation.execution.worker_activation_runtime_interface_prerequisite.evaluate'',
     ''installation.execution.worker_activation_runtime_interface_prerequisite.read'',
     ''installation.execution.worker_activation_runtime_plan_review.evaluate'',
     ''installation.execution.worker_activation_runtime_plan_review.read'',
     ''installation.execution.worker_activation_runtime_plan.evaluate'',
     ''installation.execution.worker_activation_runtime_plan.read'',
     ''installation.execution.worker_activation_runtime_definition.evaluate'',
     ''installation.execution.worker_activation_runtime_definition.read'']"

record operator_credential =
  oc_operator_id :: string
  oc_password_hash :: string
  oc_enabled :: bool
  oc_permissions :: "string list"

definition operator_id_char :: "char \<Rightarrow> bool" where
  "operator_id_char c \<longleftrightarrow> in_range CHR ''a'' CHR ''z'' c \<or> in_range CHR ''A'' CHR ''Z'' c
     \<or> in_range CHR ''0'' CHR ''9'' c \<or> c \<in> set ''._@-''"

text \<open>The field constraints and the validator of \<open>OperatorCredential\<close>.\<close>

definition validate_credential :: "operator_credential \<Rightarrow> unit res" where
  "validate_credential c =
     and_then (require (oc_operator_id c \<noteq> [] \<and> length (oc_operator_id c) \<le> 200
         \<and> list_all operator_id_char (oc_operator_id c) \<and> oc_password_hash c \<noteq> [])
       (ValidationError ''operator credential field'')) (\<lambda>_.
     and_then (require (distinct (oc_permissions c))
       (ValidationError ''operator permissions must be unique'')) (\<lambda>_.
     require (list_all (\<lambda>p. p \<in> set supported_operator_permissions) (oc_permissions c))
       (ValidationError ''operator credential contains an unsupported permission'')))"

definition validate_credential_file :: "operator_credential list \<Rightarrow> unit res" where
  "validate_credential_file operators =
     and_then (traverse validate_credential operators) (\<lambda>_.
     require (distinct (map oc_operator_id operators)) (ValidationError ''operator IDs must be unique''))"

record operator_principal =
  op_operator_id :: string
  op_authenticated_at :: int
  op_permissions :: "string list"

definition principal_auth_method :: string where
  "principal_auth_method = ''core_session''"

section \<open>The credential verifier\<close>

text \<open>What \<open>lstat\<close> says of the verifier file and what decoding its text gives.\<close>

record verifier_file =
  vf_link :: bool
  vf_regular :: bool
  vf_mode :: nat
  vf_owned :: bool
  vf_operators :: "operator_credential list res"

text \<open>\<open>argon2id\<close> is \<open>None\<close> on a text that is no Argon2 hash.\<close>

definition load_verifier :: "(string \<Rightarrow> bool option) \<Rightarrow> verifier_file option
    \<Rightarrow> operator_credential list res" where
  "load_verifier argon2id file =
     (case file of
        None \<Rightarrow> Inl (RuntimeError ''operator credential verifier is unavailable'')
      | Some f \<Rightarrow>
        if vf_link f \<or> \<not> vf_regular f
        then Inl (RuntimeError ''operator credential verifier must be a regular non-symlink file'')
        else if vf_mode f \<noteq> 256
        then Inl (RuntimeError ''operator credential verifier must have mode 0400'')
        else if \<not> vf_owned f
        then Inl (RuntimeError ''operator credential verifier must be owned by the runtime user'')
        else (case and_then (vf_operators f)
              (\<lambda>operators. and_then (validate_credential_file operators) (\<lambda>_. Inr operators)) of
            Inl e \<Rightarrow> Inl (RuntimeError ''operator credential verifier is invalid'')
          | Inr operators \<Rightarrow>
            (case find (\<lambda>c. argon2id (oc_password_hash c) \<noteq> Some True) operators of
               None \<Rightarrow> Inr operators
             | Some c \<Rightarrow> Inl (RuntimeError
                 (if argon2id (oc_password_hash c) = None
                  then ''operator credential verifier is invalid''
                  else ''operator password verifier must use Argon2id'')))))"

text \<open>\<open>verify\<close> is \<open>PasswordHasher.verify\<close>, false where it raises \<open>VerificationError\<close>; it runs for
  an unknown operator too.\<close>

definition authenticate_operator :: "(string \<Rightarrow> string \<Rightarrow> bool) \<Rightarrow> string
    \<Rightarrow> operator_credential list \<Rightarrow> string \<Rightarrow> string \<Rightarrow> operator_credential option" where
  "authenticate_operator verify dummy_hash operators operator_id password =
     (let operator = find (\<lambda>c. oc_operator_id c = operator_id) operators;
          stored_hash = (case operator of Some c \<Rightarrow> oc_password_hash c | None \<Rightarrow> dummy_hash);
          verified = verify stored_hash password in
      case operator of
        None \<Rightarrow> None
      | Some c \<Rightarrow> if \<not> verified \<or> \<not> oc_enabled c then None else Some c)"

section \<open>The session store\<close>

text \<open>\<open>hashlib.sha256(value.encode("ascii")).hexdigest()\<close>; the encoding raises outside ASCII.\<close>

definition token_digest :: "string \<Rightarrow> string res" where
  "token_digest value =
     (if list_all (\<lambda>c. (of_char c :: nat) < 128) value then Inr (sha256_hexdigest (utf8 value))
      else Inl (ValueError ''ordinal not in range(128)''))"

record session_row =
  sr_session_id :: string
  sr_token_digest :: string
  sr_operator_id :: string
  sr_permissions :: string
  sr_authenticated_at :: int
  sr_expires_at :: int
  sr_csrf_digest :: string
  sr_revoked :: bool
  sr_revoked_at :: "int option"

record session_store =
  ss_lifetime_seconds :: int
  ss_rows :: "session_row list"

record created_session =
  cs_session_token :: string
  cs_csrf_token :: string
  cs_principal :: operator_principal
  cs_expires_at :: int

record resolved_session =
  rs_token_digest :: string
  rs_principal :: operator_principal
  rs_expires_at :: int
  rs_csrf_digest :: string

definition newline :: string where
  "newline = [CHR 0x0A]"

text \<open>The arguments \<open>session_id\<close>, \<open>session_token\<close> and \<open>csrf_token\<close> are what \<open>secrets\<close> draws.\<close>

definition create_operator_session :: "session_store \<Rightarrow> string \<Rightarrow> string \<Rightarrow> string
    \<Rightarrow> operator_credential \<Rightarrow> int \<Rightarrow> (created_session \<times> session_store) res" where
  "create_operator_session s session_id session_token csrf_token credential now =
     (let expires_at = now + ss_lifetime_seconds s * 1000000;
          principal = \<lparr>op_operator_id = oc_operator_id credential, op_authenticated_at = now,
            op_permissions = sort (oc_permissions credential)\<rparr> in
      and_then (token_digest session_token) (\<lambda>digest.
      and_then (token_digest csrf_token) (\<lambda>csrf_digest.
      and_then (require (list_all (\<lambda>r. sr_session_id r \<noteq> session_id \<and> sr_token_digest r \<noteq> digest)
          (ss_rows s)) (IntegrityError ''UNIQUE constraint failed: operator_sessions'')) (\<lambda>_.
      Inr (\<lparr>cs_session_token = session_token, cs_csrf_token = csrf_token,
            cs_principal = principal, cs_expires_at = expires_at\<rparr>,
           s\<lparr>ss_rows := ss_rows s @ [\<lparr>sr_session_id = session_id, sr_token_digest = digest,
             sr_operator_id = oc_operator_id credential,
             sr_permissions = join newline (op_permissions principal),
             sr_authenticated_at = now, sr_expires_at = expires_at, sr_csrf_digest = csrf_digest,
             sr_revoked = False, sr_revoked_at = None\<rparr>]\<rparr>)))))"

definition resolve_token ::
  "session_store \<Rightarrow> string option \<Rightarrow> int \<Rightarrow> resolved_session option res" where
  "resolve_token s token now =
     (case token of
        None \<Rightarrow> Inr None
      | Some value \<Rightarrow>
        if value = [] then Inr None
        else and_then (token_digest value) (\<lambda>digest.
          case find (\<lambda>r. sr_token_digest r = digest) (ss_rows s) of
            None \<Rightarrow> Inr None
          | Some row \<Rightarrow>
            if sr_revoked row \<or> sr_token_digest row \<noteq> digest \<or> sr_expires_at row \<le> now
            then Inr None
            else Inr (Some \<lparr>rs_token_digest = digest,
              rs_principal = \<lparr>op_operator_id = sr_operator_id row,
                op_authenticated_at = sr_authenticated_at row,
                op_permissions = filter (\<lambda>p. p \<noteq> []) (split_on CHR 0x0A (sr_permissions row))\<rparr>,
              rs_expires_at = sr_expires_at row, rs_csrf_digest = sr_csrf_digest row\<rparr>)))"

definition rotate_csrf ::
  "session_store \<Rightarrow> resolved_session \<Rightarrow> string \<Rightarrow> (string \<times> session_store) res" where
  "rotate_csrf s session csrf_token =
     and_then (token_digest csrf_token) (\<lambda>digest.
     Inr (csrf_token, s\<lparr>ss_rows := map (\<lambda>r.
       if sr_token_digest r = rs_token_digest session \<and> \<not> sr_revoked r
       then r\<lparr>sr_csrf_digest := digest\<rparr> else r) (ss_rows s)\<rparr>))"

definition verify_csrf :: "resolved_session \<Rightarrow> string option \<Rightarrow> bool res" where
  "verify_csrf session supplied =
     (case supplied of
        None \<Rightarrow> Inr False
      | Some value \<Rightarrow>
        if value = [] then Inr False
        else and_then (token_digest value) (\<lambda>digest. Inr (rs_csrf_digest session = digest)))"

definition revoke_session :: "session_store \<Rightarrow> resolved_session \<Rightarrow> int \<Rightarrow> session_store" where
  "revoke_session s session now =
     s\<lparr>ss_rows := map (\<lambda>r. if sr_token_digest r = rs_token_digest session
       then r\<lparr>sr_revoked := True, sr_revoked_at := Some now\<rparr> else r) (ss_rows s)\<rparr>"

section \<open>The rate limiter\<close>

record rate_limiter =
  rl_limit :: int
  rl_window :: int
  rl_max_keys :: int
  rl_events :: "(string \<times> int list) list"

definition new_limiter :: "int \<Rightarrow> int \<Rightarrow> int \<Rightarrow> rate_limiter" where
  "new_limiter limit window_seconds max_keys =
     \<lparr>rl_limit = limit, rl_window = window_seconds * 1000000, rl_max_keys = max_keys, rl_events = []\<rparr>"

text \<open>Dropping keys while there are more than \<open>max_keys\<close>: first those with no event in the
  window, in insertion order, then the least recently used.\<close>

definition trim_keys :: "int \<Rightarrow> string \<Rightarrow> int \<Rightarrow> (string \<times> int list) list
    \<Rightarrow> unit res \<times> (string \<times> int list) list" where
  "trim_keys max_keys key cutoff events =
     (if int (length events) \<le> max_keys then (Inr (), events)
      else
        let empty_or_old = map fst (filter (\<lambda>(k, values). values = [] \<or> last values \<le> cutoff) events);
            kept = fold AList.delete
              (take (nat (int (length events) - max_keys)) empty_or_old) events;
            overflow = int (length kept) - max_keys
        in if overflow \<le> 0 then (Inr (), kept)
           else if list_ex (\<lambda>(k, values). k \<noteq> key \<and> values = []) kept
           then (Inl (IndexError ''deque index out of range''), kept)
           else let oldest = sort_key (\<lambda>k. last (the (map_of kept k)))
                  (filter (\<lambda>k. k \<noteq> key) (map fst kept))
             in (Inr (), fold AList.delete (take (nat overflow) oldest) kept))"

definition allow :: "rate_limiter \<Rightarrow> string \<Rightarrow> int \<Rightarrow> bool res \<times> rate_limiter" where
  "allow l key now =
     (let cutoff = now - rl_window l;
          current = dropWhile (\<lambda>t. t \<le> cutoff)
            (case map_of (rl_events l) key of None \<Rightarrow> [] | Some values \<Rightarrow> values) in
      if rl_limit l \<le> int (length current)
      then (Inr False, l\<lparr>rl_events := AList.update key current (rl_events l)\<rparr>)
      else (case trim_keys (rl_max_keys l) key cutoff
              (AList.update key (current @ [now]) (rl_events l)) of
          (Inl e, events) \<Rightarrow> (Inl e, l\<lparr>rl_events := events\<rparr>)
        | (Inr _, events) \<Rightarrow> (Inr True, l\<lparr>rl_events := events\<rparr>)))"

section \<open>The limiter stays bounded\<close>

lemma fold_delete: "fold AList.delete ks xs = filter (\<lambda>x. fst x \<notin> set ks) xs"
  by (induction ks arbitrary: xs) (auto simp: AList.delete_eq intro: filter_cong)

lemma filter_keys: "map fst (filter (\<lambda>x. P (fst x)) xs) = filter P (map fst xs)"
  by (induction xs) auto

lemma length_drop_keys:
  assumes "distinct (map fst xs)" "distinct ks" "set ks \<subseteq> set (map fst xs)"
  shows "length (filter (\<lambda>x. fst x \<notin> set ks) xs) + length ks = length xs"
proof -
  let ?left = "map fst (filter (\<lambda>x. fst x \<notin> set ks) xs)"
  have left: "?left = filter (\<lambda>k. k \<notin> set ks) (map fst xs)" by (rule filter_keys)
  have "set ?left = set (map fst xs) - set ks" unfolding left by auto
  moreover have "distinct ?left" unfolding left using assms(1) by (rule distinct_filter)
  ultimately have "length ?left = card (set (map fst xs) - set ks)"
    using distinct_card [of ?left] by simp
  moreover have "card (set (map fst xs) - set ks) + length ks = length (map fst xs)"
    using assms card_mono [OF _ assms(3)] distinct_card [OF assms(1)] distinct_card [OF assms(2)]
    by (simp add: card_Diff_subset)
  ultimately show ?thesis by simp
qed

definition keys_ok :: "int \<Rightarrow> (string \<times> int list) list \<Rightarrow> bool" where
  "keys_ok limit events \<longleftrightarrow> distinct (map fst events)
     \<and> list_all (\<lambda>(k, values). values \<noteq> [] \<and> int (length values) \<le> limit) events"

lemma keys_ok_filter: "keys_ok limit events \<Longrightarrow> keys_ok limit (filter P events)"
  by (auto simp: keys_ok_def list_all_iff distinct_map inj_on_def)

lemma length_others: "distinct ks \<Longrightarrow> length ks \<le> Suc (length (filter (\<lambda>k. k \<noteq> key) ks))"
proof (induction ks)
  case (Cons k ks)
  show ?case
  proof (cases "k = key")
    case True
    then have "filter (\<lambda>k. k \<noteq> key) ks = ks" using Cons.prems by (auto simp: filter_id_conv)
    then show ?thesis using True by simp
  next
    case False
    then show ?thesis using Cons by simp
  qed
qed simp

lemma trim_keys_ok:
  assumes "keys_ok limit events" "1 \<le> max_keys"
  shows "\<exists>kept. trim_keys max_keys key cutoff events = (Inr (), kept) \<and> keys_ok limit kept
    \<and> int (length kept) \<le> max_keys"
proof (cases "int (length events) \<le> max_keys")
  case True
  then show ?thesis using assms by (simp add: trim_keys_def)
next
  case False
  define old where "old = map fst (filter (\<lambda>(k, values). values = [] \<or> last values \<le> cutoff) events)"
  define n where "n = nat (int (length events) - max_keys)"
  define kept where "kept = fold AList.delete (take n old) events"
  define oldest where "oldest = sort_key (\<lambda>k. last (the (map_of kept k)))
    (filter (\<lambda>k. k \<noteq> key) (map fst kept))"
  have dist: "distinct (map fst events)" using assms(1) by (simp add: keys_ok_def)
  have ok: "keys_ok limit kept"
    using keys_ok_filter [OF assms(1)] by (simp add: kept_def fold_delete)
  have trim: "trim_keys max_keys key cutoff events =
      (if int (length kept) - max_keys \<le> 0 then (Inr (), kept)
       else (Inr (), fold AList.delete (take (nat (int (length kept) - max_keys)) oldest) kept))"
  proof -
    have "\<not> list_ex (\<lambda>(k, values). k \<noteq> key \<and> values = []) kept"
      using ok by (auto simp: keys_ok_def list_all_iff list_ex_iff)
    then show ?thesis
      using False by (simp add: trim_keys_def Let_def old_def n_def kept_def oldest_def)
  qed
  show ?thesis
  proof (cases "int (length kept) - max_keys \<le> 0")
    case True
    then show ?thesis using trim ok by simp
  next
    case over: False
    let ?m = "nat (int (length kept) - max_keys)"
    have distk: "distinct (map fst kept)" using ok by (simp add: keys_ok_def)
    have sub: "distinct (take ?m oldest)" "set (take ?m oldest) \<subseteq> set (map fst kept)"
      using distk by (auto simp: oldest_def dest: in_set_takeD)
    have "length kept \<le> Suc (length oldest)"
      using length_others [OF distk, of key] by (simp add: oldest_def)
    then have "length (take ?m oldest) = ?m" using assms(2) over by simp
    then have "int (length (filter (\<lambda>x. fst x \<notin> set (take ?m oldest)) kept)) = max_keys"
      using length_drop_keys [OF distk sub] over by linarith
    then show ?thesis
      using trim over keys_ok_filter [OF ok] by (simp add: fold_delete)
  qed
qed

text \<open>The calls of a limiter: each waits some time and asks for a key. The log holds the times
  at which a call was allowed.\<close>

fun limiter_calls :: "rate_limiter \<Rightarrow> int \<Rightarrow> (string \<times> int) list \<Rightarrow> (nat \<times> string) list
    \<Rightarrow> rate_limiter \<times> (string \<times> int) list" where
  "limiter_calls l now granted [] = (l, granted)"
| "limiter_calls l now granted ((delay, key) # calls) =
     (let t = now + int delay in
      case allow l key t of
        (Inr True, l') \<Rightarrow> limiter_calls l' t (granted @ [(key, t)]) calls
      | (_, l') \<Rightarrow> limiter_calls l' t granted calls)"

definition limiter_ok :: "rate_limiter \<Rightarrow> bool" where
  "limiter_ok l \<longleftrightarrow> keys_ok (rl_limit l) (rl_events l)
     \<and> int (length (rl_events l)) \<le> rl_max_keys l"

lemma limiter_fields:
  "rl_limit (snd (allow l key t)) = rl_limit l" "rl_window (snd (allow l key t)) = rl_window l"
  "rl_max_keys (snd (allow l key t)) = rl_max_keys l"
  by (simp_all add: allow_def Let_def split: prod.split sum.split)

lemma keys_ok_update:
  assumes "keys_ok limit events" "values \<noteq> []" "int (length values) \<le> limit"
  shows "keys_ok limit (AList.update key values events)"
proof -
  have "list_all (\<lambda>(k, v). v \<noteq> [] \<and> int (length v) \<le> limit) (AList.update key values events)"
    using assms by (induction events) (auto simp: keys_ok_def)
  then show ?thesis using assms(1) by (simp add: keys_ok_def distinct_update)
qed

lemma length_update:
  "length (AList.update k v al) = (if k \<in> set (map fst al) then length al else Suc (length al))"
  by (induction al) auto

lemma keys_ok_lookup:
  "keys_ok limit events \<Longrightarrow> map_of events k = Some v \<Longrightarrow> v \<noteq> [] \<and> int (length v) \<le> limit"
  by (auto simp: keys_ok_def list_all_iff dest: map_of_SomeD)

lemma allow_ok:
  assumes "limiter_ok l" "1 \<le> rl_limit l" "1 \<le> rl_max_keys l"
  shows "\<exists>b. fst (allow l key t) = Inr b \<and> limiter_ok (snd (allow l key t))"
proof -
  define found where "found = (case map_of (rl_events l) key of None \<Rightarrow> [] | Some v \<Rightarrow> v)"
  define current where "current = dropWhile (\<lambda>u. u \<le> t - rl_window l) found"
  have ok: "keys_ok (rl_limit l) (rl_events l)" "int (length (rl_events l)) \<le> rl_max_keys l"
    using assms(1) by (simp_all add: limiter_ok_def)
  show ?thesis
  proof (cases "rl_limit l \<le> int (length current)")
    case True
    then have "current \<noteq> []" using assms(2) by auto
    then have "map_of (rl_events l) key \<noteq> None"
      by (cases "map_of (rl_events l) key") (simp_all add: current_def found_def)
    then obtain v where v: "map_of (rl_events l) key = Some v" by blast
    have "int (length current) \<le> rl_limit l"
      using keys_ok_lookup [OF ok(1) v] length_dropWhile_le [of _ v]
      by (simp add: current_def found_def v) (meson of_nat_mono order_trans)
    then have "keys_ok (rl_limit l) (AList.update key current (rl_events l))"
      using keys_ok_update [OF ok(1) \<open>current \<noteq> []\<close>] by blast
    moreover have "key \<in> set (map fst (rl_events l))" using map_of_SomeD [OF v] by force
    ultimately show ?thesis
      using True ok by (intro exI [of _ False]) (simp add: allow_def Let_def limiter_ok_def
          length_update flip: found_def current_def)
  next
    case False
    then have "keys_ok (rl_limit l) (AList.update key (current @ [t]) (rl_events l))"
      by (intro keys_ok_update [OF ok(1)]) simp_all
    from trim_keys_ok [OF this assms(3), of key "t - rl_window l"] show ?thesis
      using False by (auto simp: allow_def Let_def limiter_ok_def simp flip: found_def current_def)
  qed
qed

lemma limiter_calls_ok:
  assumes "limiter_ok l" "1 \<le> rl_limit l" "1 \<le> rl_max_keys l"
  shows "limiter_ok (fst (limiter_calls l now granted calls))
    \<and> rl_limit (fst (limiter_calls l now granted calls)) = rl_limit l
    \<and> rl_max_keys (fst (limiter_calls l now granted calls)) = rl_max_keys l"
  using assms
proof (induction calls arbitrary: l now granted)
  case (Cons call calls)
  obtain d k where call: "call = (d, k)" by (cases call)
  obtain b l' where allow: "allow l k (now + int d) = (Inr b, l')" "limiter_ok l'"
    using allow_ok [OF Cons.prems, of k "now + int d"] by (cases "allow l k (now + int d)") auto
  have same: "rl_limit l' = rl_limit l" "rl_max_keys l' = rl_max_keys l"
    using limiter_fields [of l k "now + int d"] by (simp_all add: allow)
  show ?case
    using Cons.IH [OF allow(2)] Cons.prems same by (cases b) (simp_all add: call allow Let_def)
qed simp

text \<open>
  The rate limiter is bounded whatever is asked: with at least one event and one key
  allowed, no call raises, it never holds more than \<open>max_keys\<close> keys, and no key ever has more than
  \<open>limit\<close> events.
\<close>

theorem limiter_bounded:
  "if limit < 1 \<or> max_keys < 1 then True
   else (let l = fst (limiter_calls (new_limiter limit window max_keys) now [] calls) in
     int (length (rl_events l)) \<le> max_keys
     \<and> list_all (\<lambda>(k, events). int (length events) \<le> limit) (rl_events l)
     \<and> succeeds (fst (allow l key t)))"
proof (cases "limit < 1 \<or> max_keys < 1")
  case False
  let ?n = "new_limiter limit window max_keys"
  have n: "limiter_ok ?n" "1 \<le> rl_limit ?n" "1 \<le> rl_max_keys ?n"
    using False by (simp_all add: new_limiter_def limiter_ok_def keys_ok_def)
  note ok = limiter_calls_ok [OF n, of now "[]" calls]
  let ?l = "fst (limiter_calls ?n now [] calls)"
  have "\<exists>b. fst (allow ?l key t) = Inr b"
    using allow_ok [of ?l key t] ok n by auto
  moreover have "rl_limit ?l = limit" "rl_max_keys ?l = max_keys"
    using ok by (simp_all add: new_limiter_def)
  ultimately show ?thesis
    using ok False by (auto simp: Let_def limiter_ok_def keys_ok_def list_all_iff)
qed simp

section \<open>The limiter admits no more than its limit in any window\<close>

definition admitted :: "string \<Rightarrow> (string \<times> int) list \<Rightarrow> int list" where
  "admitted key granted = map snd (filter (\<lambda>(k, t). k = key) granted)"

lemma admitted_append [simp]:
  "admitted k (granted @ [(key, t)]) = admitted k granted @ (if k = key then [t] else [])"
  by (simp add: admitted_def)

definition limiter_entries :: "rate_limiter \<Rightarrow> string \<Rightarrow> int list" where
  "limiter_entries l k = (case map_of (rl_events l) k of None \<Rightarrow> [] | Some v \<Rightarrow> v)"

definition in_window :: "int \<Rightarrow> int \<Rightarrow> int list \<Rightarrow> int list" where
  "in_window window t ts = filter (\<lambda>u. t - window < u \<and> u \<le> t) ts"

definition windows_ok :: "int \<Rightarrow> int \<Rightarrow> int list \<Rightarrow> bool" where
  "windows_ok limit window ts \<longleftrightarrow> list_all (\<lambda>t. int (length (in_window window t ts)) \<le> limit) ts"

definition window_inv :: "string set \<Rightarrow> rate_limiter \<Rightarrow> int \<Rightarrow> (string \<times> int) list \<Rightarrow> bool" where
  "window_inv K l now granted \<longleftrightarrow> distinct (map fst (rl_events l)) \<and> fst ` set (rl_events l) \<subseteq> K
     \<and> (\<forall>k. (\<exists>c. c \<le> now - rl_window l
           \<and> limiter_entries l k = filter (\<lambda>t. c < t) (admitted k granted))
         \<and> sorted (admitted k granted) \<and> list_all (\<lambda>t. t \<le> now) (admitted k granted)
         \<and> windows_ok (rl_limit l) (rl_window l) (admitted k granted))"

lemma dropWhile_sorted: "sorted xs \<Longrightarrow> dropWhile (\<lambda>u. u \<le> c) xs = filter (\<lambda>u. c < u) (xs :: int list)"
proof (induction xs)
  case (Cons x xs)
  show ?case
  proof (cases "x \<le> c")
    case False
    then have "\<forall>u\<in>set (x # xs). c < u" using Cons.prems by auto
    then have "filter (\<lambda>u. c < u) (x # xs) = x # xs" by (simp only: filter_id_conv)
    then show ?thesis using False by simp
  qed (use Cons in simp)
qed simp

lemma windows_ok_append:
  assumes "windows_ok limit window ts" "list_all (\<lambda>u. u \<le> t) ts" "0 < window"
    and "int (length (filter (\<lambda>u. t - window < u) ts)) < limit"
  shows "windows_ok limit window (ts @ [t])"
proof -
  have old: "in_window window t ts = filter (\<lambda>u. t - window < u) ts"
    unfolding in_window_def by (rule filter_cong) (use assms(2) in \<open>auto simp: list_all_iff\<close>)
  have "int (length (in_window window u (ts @ [t]))) \<le> limit" if "u \<in> set ts" for u
  proof (cases "u = t")
    case True
    then show ?thesis using assms(3,4) old by (simp add: in_window_def)
  next
    case False
    then have "u < t" using assms(2) that by (force simp: list_all_iff)
    then show ?thesis using assms(1) that by (simp add: windows_ok_def in_window_def list_all_iff)
  qed
  moreover have "int (length (in_window window t (ts @ [t]))) \<le> limit"
    using assms(3,4) old by (simp add: in_window_def)
  ultimately show ?thesis by (simp add: windows_ok_def list_all_iff)
qed

lemma window_step:
  assumes inv: "window_inv K l now granted" and key: "key \<in> K" "finite K" "int (card K) \<le> rl_max_keys l"
    and later: "now \<le> t" and window: "0 < rl_window l"
  shows "\<exists>b. fst (allow l key t) = Inr b
    \<and> window_inv K (snd (allow l key t)) t (if b then granted @ [(key, t)] else granted)"
proof -
  let ?c = "t - rl_window l"
  define current where "current = filter (\<lambda>u. ?c < u) (admitted key granted)"
  obtain c where c: "c \<le> now - rl_window l"
      "limiter_entries l key = filter (\<lambda>u. c < u) (admitted key granted)"
    using inv unfolding window_inv_def by blast
  have sorted: "sorted (admitted key granted)" using inv by (simp add: window_inv_def)
  have current: "dropWhile (\<lambda>u. u \<le> ?c) (limiter_entries l key) = current"
  proof -
    have "dropWhile (\<lambda>u. u \<le> ?c) (limiter_entries l key)
        = filter (\<lambda>u. ?c < u) (filter (\<lambda>u. c < u) (admitted key granted))"
      unfolding c(2) by (rule dropWhile_sorted) (rule sorted_wrt_filter [OF sorted])
    also have "\<dots> = current"
      unfolding current_def filter_filter by (rule filter_cong) (use c(1) later in auto)
    finally show ?thesis .
  qed
  have entries: "limiter_entries (l\<lparr>rl_events := AList.update key v (rl_events l)\<rparr>) k
      = (if k = key then v else limiter_entries l k)" for k v
    by (simp add: limiter_entries_def update_conv')
  have others: "\<exists>c. c \<le> ?c \<and> limiter_entries l k = filter (\<lambda>t. c < t) (admitted k granted)" for k
    using inv later unfolding window_inv_def by (meson diff_right_mono order_trans)
  have keys: "distinct (map fst (AList.update key v (rl_events l)))"
    "fst ` set (AList.update key v (rl_events l)) \<subseteq> K" for v
    using inv key(1) by (auto simp: window_inv_def distinct_update dom_update)
  have small: "int (length (AList.update key v (rl_events l))) \<le> rl_max_keys l" for v
    using card_mono [OF key(2) keys(2) [of v]] distinct_card [OF keys(1) [of v]] key(3) by simp
  have past: "list_all (\<lambda>u. u \<le> t) (admitted k granted)" for k
    using inv later by (force simp: window_inv_def list_all_iff)
  show ?thesis
  proof (cases "rl_limit l \<le> int (length current)")
    case True
    then have allow: "allow l key t = (Inr False, l\<lparr>rl_events := AList.update key current (rl_events l)\<rparr>)"
      using current by (simp add: allow_def Let_def limiter_entries_def)
    have "\<exists>c. c \<le> ?c \<and> (if k = key then current else limiter_entries l k)
        = filter (\<lambda>t. c < t) (admitted k granted)" for k
      using others [of k] by (cases "k = key") (auto simp: current_def)
    then show ?thesis
      using inv keys past unfolding allow window_inv_def
      by (intro exI [of _ False]) (simp add: entries)
  next
    case False
    then have allow: "allow l key t
        = (Inr True, l\<lparr>rl_events := AList.update key (current @ [t]) (rl_events l)\<rparr>)"
      using current small [of "current @ [t]"]
      by (simp add: allow_def Let_def limiter_entries_def trim_keys_def)
    have grown: "\<exists>c. c \<le> ?c \<and> (if k = key then current @ [t] else limiter_entries l k)
        = filter (\<lambda>t. c < t) (admitted k (granted @ [(key, t)]))" for k
    proof (cases "k = key")
      case True
      then show ?thesis using window by (intro exI [of _ ?c]) (simp add: current_def)
    next
      case False
      then show ?thesis using others [of k] by simp
    qed
    have "windows_ok (rl_limit l) (rl_window l) (admitted key granted @ [t])"
      using inv past [of key] window False
      by (intro windows_ok_append) (simp_all add: window_inv_def current_def)
    then have "windows_ok (rl_limit l) (rl_window l) (admitted k (granted @ [(key, t)]))"
      "sorted (admitted k (granted @ [(key, t)]))"
      "list_all (\<lambda>u. u \<le> t) (admitted k (granted @ [(key, t)]))" for k
      using inv past [of k] by (auto simp: window_inv_def sorted_append list_all_iff)
    then show ?thesis
      using keys grown unfolding allow window_inv_def
      by (intro exI [of _ True]) (simp add: entries del: admitted_append)
  qed
qed

lemma window_calls:
  assumes "window_inv K l now granted" "finite K" "int (card K) \<le> rl_max_keys l" "0 < rl_window l"
    and "snd ` set calls \<subseteq> K"
  shows "windows_ok (rl_limit l) (rl_window l)
    (admitted key (snd (limiter_calls l now granted calls)))"
  using assms
proof (induction calls arbitrary: l now granted)
  case Nil
  then show ?case by (simp add: window_inv_def)
next
  case (Cons call calls)
  obtain d k where call: "call = (d, k)" by (cases call)
  obtain b l' where step: "allow l k (now + int d) = (Inr b, l')"
      "window_inv K l' (now + int d) (if b then granted @ [(k, now + int d)] else granted)"
    using window_step [OF Cons.prems(1), of k "now + int d"] Cons.prems
    by (cases "allow l k (now + int d)") (auto simp: call)
  have same: "rl_limit l' = rl_limit l" "rl_window l' = rl_window l" "rl_max_keys l' = rl_max_keys l"
    using limiter_fields [of l k "now + int d"] by (simp_all add: step)
  show ?case
    using Cons.IH [OF step(2)] Cons.prems same by (cases b) (simp_all add: call step Let_def)
qed

text \<open>
  C38. While no more keys ask than it may hold, the limiter keeps its promise over any history of
  calls whose clock does not run backwards: for every admitted call of a key, the calls of that key
  admitted in the window that ends with it are at most \<open>limit\<close>.
\<close>

theorem limiter_keeps_window:
  assumes "int (length (dedupe (map snd calls))) \<le> max_keys" "1 \<le> window"
  shows "windows_ok limit (window * 1000000)
    (admitted key (snd (limiter_calls (new_limiter limit window max_keys) now [] calls)))"
proof -
  let ?K = "set (map snd calls)" and ?l = "new_limiter limit window max_keys"
  have "window_inv ?K ?l now []"
    by (auto simp: window_inv_def new_limiter_def admitted_def limiter_entries_def windows_ok_def)
  moreover have "int (card ?K) \<le> rl_max_keys ?l"
    using assms(1) distinct_card [of "dedupe (map snd calls)"] by (simp add: new_limiter_def)
  ultimately have "windows_ok (rl_limit ?l) (rl_window ?l)
      (admitted key (snd (limiter_calls ?l now [] calls)))"
    using assms by (intro window_calls) (auto simp: new_limiter_def)
  then show ?thesis by (simp add: new_limiter_def)
qed

theorem limiter_keeps_window_witness:
  "windows_ok 1 60000000 (admitted ''a'' (snd (limiter_calls (new_limiter 1 60 2) 0 []
     [(0, ''a''), (5, ''b''), (7, ''a''), (60000000, ''a'')])))"
  using limiter_keeps_window [of "[(0, ''a''), (5, ''b''), (7, ''a''), (60000000, ''a'')]" 2 60 1 "''a''" 0]
  by (simp add: dedupe_def del: limiter_calls.simps)

section \<open>The life of a session\<close>

datatype session_call =
    CreateSession string string string operator_credential int
  | RotateCsrf resolved_session string
  | RevokeSession resolved_session int

text \<open>A call as a step: one that raises leaves the store.\<close>

fun session_step :: "session_store \<Rightarrow> session_call \<Rightarrow> session_store" where
  "session_step s (CreateSession i token csrf credential now) =
     (case create_operator_session s i token csrf credential now of Inl e \<Rightarrow> s | Inr (_, s') \<Rightarrow> s')"
| "session_step s (RotateCsrf session csrf) =
     (case rotate_csrf s session csrf of Inl e \<Rightarrow> s | Inr (_, s') \<Rightarrow> s')"
| "session_step s (RevokeSession session now) = revoke_session s session now"

lemma create_operator_session_Inr:
  assumes "create_operator_session s i token csrf credential now = Inr (c, s')"
  shows "\<exists>digest csrf_digest. token_digest token = Inr digest \<and> token_digest csrf = Inr csrf_digest
    \<and> list_all (\<lambda>r. sr_token_digest r \<noteq> digest) (ss_rows s)
    \<and> c = \<lparr>cs_session_token = token, cs_csrf_token = csrf,
        cs_principal = \<lparr>op_operator_id = oc_operator_id credential, op_authenticated_at = now,
          op_permissions = sort (oc_permissions credential)\<rparr>,
        cs_expires_at = now + ss_lifetime_seconds s * 1000000\<rparr>
    \<and> s' = s\<lparr>ss_rows := ss_rows s @ [\<lparr>sr_session_id = i, sr_token_digest = digest,
        sr_operator_id = oc_operator_id credential,
        sr_permissions = join newline (sort (oc_permissions credential)),
        sr_authenticated_at = now, sr_expires_at = now + ss_lifetime_seconds s * 1000000,
        sr_csrf_digest = csrf_digest, sr_revoked = False, sr_revoked_at = None\<rparr>]\<rparr>"
  using assms by (auto simp: create_operator_session_def Let_def res_simps list_all_iff)

lemma rotate_csrf_Inr:
  "rotate_csrf s session csrf = Inr (c, s') \<longleftrightarrow> (\<exists>digest. token_digest csrf = Inr digest
     \<and> c = csrf \<and> s' = s\<lparr>ss_rows := map (\<lambda>r.
         if sr_token_digest r = rs_token_digest session \<and> \<not> sr_revoked r
         then r\<lparr>sr_csrf_digest := digest\<rparr> else r) (ss_rows s)\<rparr>)"
  by (auto simp: rotate_csrf_def res_simps)

text \<open>The row of a token, up to the digest of its current CSRF token.\<close>

definition session_of :: "session_store \<Rightarrow> string \<Rightarrow> session_row option" where
  "session_of s digest = map_option (\<lambda>r. r\<lparr>sr_csrf_digest := []\<rparr>)
     (find (\<lambda>r. sr_token_digest r = digest) (ss_rows s))"

lemma find_append: "find P (xs @ ys) = (case find P xs of None \<Rightarrow> find P ys | Some x \<Rightarrow> Some x)"
  by (induction xs) auto

lemma find_digest:
  "find (\<lambda>r. sr_token_digest r = d) rows = Some r \<Longrightarrow> sr_token_digest r = d"
  by (auto simp: find_Some_iff)

lemma find_map_same:
  "(\<And>x. P (f x) = P x) \<Longrightarrow> find P (map f xs) = map_option f (find P xs)"
  by (induction xs) auto

lemma session_of_create:
  assumes "create_operator_session s i token csrf credential now = Inr (c, s')"
    and "token_digest token = Inr digest"
  shows "session_of s digest = None"
    and "session_of s' d = (if d = digest then Some \<lparr>sr_session_id = i, sr_token_digest = digest,
        sr_operator_id = oc_operator_id credential,
        sr_permissions = join newline (sort (oc_permissions credential)),
        sr_authenticated_at = now, sr_expires_at = now + ss_lifetime_seconds s * 1000000,
        sr_csrf_digest = [], sr_revoked = False, sr_revoked_at = None\<rparr> else session_of s d)"
proof -
  obtain g where fresh: "list_all (\<lambda>r. sr_token_digest r \<noteq> digest) (ss_rows s)"
    and s': "s' = s\<lparr>ss_rows := ss_rows s @ [\<lparr>sr_session_id = i, sr_token_digest = digest,
        sr_operator_id = oc_operator_id credential,
        sr_permissions = join newline (sort (oc_permissions credential)),
        sr_authenticated_at = now, sr_expires_at = now + ss_lifetime_seconds s * 1000000,
        sr_csrf_digest = g, sr_revoked = False, sr_revoked_at = None\<rparr>]\<rparr>"
    using create_operator_session_Inr [OF assms(1)] assms(2) by auto
  have none: "find (\<lambda>r. sr_token_digest r = digest) (ss_rows s) = None"
    using fresh by (simp add: find_None_iff list_all_iff)
  then show "session_of s digest = None" by (simp add: session_of_def)
  show "session_of s' d = (if d = digest then Some \<lparr>sr_session_id = i, sr_token_digest = digest,
        sr_operator_id = oc_operator_id credential,
        sr_permissions = join newline (sort (oc_permissions credential)),
        sr_authenticated_at = now, sr_expires_at = now + ss_lifetime_seconds s * 1000000,
        sr_csrf_digest = [], sr_revoked = False, sr_revoked_at = None\<rparr> else session_of s d)"
    using none by (cases "d = digest") (auto simp: session_of_def s' find_append split: option.split)
qed

lemma session_of_rotate:
  "rotate_csrf s session csrf = Inr (c, s') \<Longrightarrow> session_of s' d = session_of s d"
  by (cases "find (\<lambda>r. sr_token_digest r = d) (ss_rows s)")
    (auto simp: rotate_csrf_Inr session_of_def find_map_same)

lemma session_of_revoke:
  "session_of (revoke_session s session now) d = (if d = rs_token_digest session
     then map_option (\<lambda>r. r\<lparr>sr_revoked := True, sr_revoked_at := Some now\<rparr>) (session_of s d)
     else session_of s d)"
proof -
  have "find (\<lambda>r. sr_token_digest r = d) (ss_rows (revoke_session s session now))
    = map_option (\<lambda>r. if sr_token_digest r = rs_token_digest session
        then r\<lparr>sr_revoked := True, sr_revoked_at := Some now\<rparr> else r)
        (find (\<lambda>r. sr_token_digest r = d) (ss_rows s))"
    unfolding revoke_session_def by (simp add: find_map_same)
  then show ?thesis
    using find_digest [of d "ss_rows s"]
    by (cases "find (\<lambda>r. sr_token_digest r = d) (ss_rows s)") (auto simp: session_of_def)
qed

text \<open>Resolution in terms of the row.\<close>

lemma resolve_token_row:
  assumes "token_digest token = Inr digest" "token \<noteq> []"
  shows "resolve_token s (Some token) now = Inr None \<longleftrightarrow>
      (case session_of s digest of None \<Rightarrow> True | Some r \<Rightarrow> sr_revoked r \<or> sr_expires_at r \<le> now)"
    and "resolve_token s (Some token) now = Inr (Some session) \<Longrightarrow>
      \<exists>r. session_of s digest = Some r \<and> \<not> sr_revoked r \<and> now < sr_expires_at r
        \<and> rs_token_digest session = digest \<and> rs_expires_at session = sr_expires_at r
        \<and> rs_principal session = \<lparr>op_operator_id = sr_operator_id r,
            op_authenticated_at = sr_authenticated_at r,
            op_permissions = filter (\<lambda>p. p \<noteq> []) (split_on CHR 0x0A (sr_permissions r))\<rparr>"
    and "\<exists>found. resolve_token s (Some token) now = Inr found"
proof -
  have "sr_token_digest r = digest" if "find (\<lambda>r. sr_token_digest r = digest) (ss_rows s) = Some r" for r
    using find_digest that .
  then show "resolve_token s (Some token) now = Inr None \<longleftrightarrow>
      (case session_of s digest of None \<Rightarrow> True | Some r \<Rightarrow> sr_revoked r \<or> sr_expires_at r \<le> now)"
    and "resolve_token s (Some token) now = Inr (Some session) \<Longrightarrow>
      \<exists>r. session_of s digest = Some r \<and> \<not> sr_revoked r \<and> now < sr_expires_at r
        \<and> rs_token_digest session = digest \<and> rs_expires_at session = sr_expires_at r
        \<and> rs_principal session = \<lparr>op_operator_id = sr_operator_id r,
            op_authenticated_at = sr_authenticated_at r,
            op_permissions = filter (\<lambda>p. p \<noteq> []) (split_on CHR 0x0A (sr_permissions r))\<rparr>"
    and "\<exists>found. resolve_token s (Some token) now = Inr found"
    using assms by (cases "find (\<lambda>r. sr_token_digest r = digest) (ss_rows s)";
      auto simp: resolve_token_def session_of_def split: if_splits)+
qed

lemma session_step_keeps:
  assumes "session_of s d = Some r" "sr_revoked r"
  shows "\<exists>r'. session_of (session_step s call) d = Some r' \<and> sr_revoked r'"
proof (cases call)
  case (CreateSession i token csrf credential now)
  show ?thesis
  proof (cases "create_operator_session s i token csrf credential now")
    case (Inr p)
    then obtain c s' where p: "create_operator_session s i token csrf credential now = Inr (c, s')"
      by (cases p) simp
    obtain digest where digest: "token_digest token = Inr digest"
      using create_operator_session_Inr [OF p] by blast
    show ?thesis
      using session_of_create [OF p digest] assms by (auto simp: CreateSession p)
  qed (simp add: CreateSession assms)
next
  case (RotateCsrf session csrf)
  show ?thesis
  proof (cases "rotate_csrf s session csrf")
    case (Inr p)
    then show ?thesis
      using session_of_rotate [of s session csrf "fst p" "snd p" d] assms
      by (simp add: RotateCsrf case_prod_unfold)
  qed (simp add: RotateCsrf assms)
next
  case (RevokeSession session now)
  then show ?thesis using assms by (auto simp: session_of_revoke)
qed

lemma session_steps_keep:
  "session_of s d = Some r \<Longrightarrow> sr_revoked r
    \<Longrightarrow> \<exists>r'. session_of (foldl session_step s calls) d = Some r' \<and> sr_revoked r'"
proof (induction calls arbitrary: s r)
  case (Cons call calls)
  then show ?case using session_step_keeps [OF Cons.prems, of call] by auto
qed auto

text \<open>
  Logging out is final: once a session that a token resolves to is revoked, that token resolves
  to nothing, at any later time and whatever sessions are created, revoked or have their CSRF
  token rotated afterwards.
\<close>

theorem revocation_is_final:
  assumes "resolve_token s (Some token) t = Inr (Some session)"
  shows "resolve_token (foldl session_step (revoke_session s session now) calls) (Some token) u
    = Inr None"
proof -
  have nonempty: "token \<noteq> []" using assms by (auto simp: resolve_token_def)
  obtain digest where digest: "token_digest token = Inr digest"
    using assms nonempty by (auto simp: resolve_token_def res_simps)
  obtain r where "session_of s digest = Some r" "rs_token_digest session = digest"
    using resolve_token_row(2) [OF digest nonempty assms] by blast
  then have "\<exists>r'. session_of (revoke_session s session now) digest = Some r' \<and> sr_revoked r'"
    by (simp add: session_of_revoke)
  then obtain r' where "session_of (foldl session_step (revoke_session s session now) calls) digest
      = Some r'" "sr_revoked r'"
    using session_steps_keep by blast
  then show ?thesis by (simp add: resolve_token_row(1) [OF digest nonempty])
qed

subsection \<open>The permissions column\<close>

definition permission_text :: "string \<Rightarrow> bool" where
  "permission_text p \<longleftrightarrow> p \<noteq> [] \<and> CHR 0x0A \<notin> set p"

lemma split_on_plain: "c \<notin> set p \<Longrightarrow> split_on c p = [p]"
  by (induction p) auto

lemma split_on_append: "c \<notin> set p \<Longrightarrow> split_on c (p @ c # s) = p # split_on c s"
  by (induction p) auto

lemma split_on_join:
  assumes "list_all permission_text ps" "ps \<noteq> []"
  shows "split_on CHR 0x0A (join newline ps) = ps"
  using assms
proof (induction newline ps rule: join.induct)
  case (2 p)
  then show ?case by (simp add: permission_text_def split_on_plain)
next
  case (3 p q ps)
  then show ?case by (simp add: permission_text_def newline_def split_on_append)
qed simp

lemma permissions_round_trip:
  assumes "list_all permission_text ps"
  shows "filter (\<lambda>p. p \<noteq> []) (split_on CHR 0x0A (join newline ps)) = ps"
proof (cases "ps = []")
  case False
  then show ?thesis
    using split_on_join [OF assms False] assms
    by (auto simp: filter_id_conv permission_text_def list_all_iff)
qed simp

lemma supported_permission_texts: "list_all permission_text supported_operator_permissions"
  by (simp add: supported_operator_permissions_def permission_text_def)

lemma credential_permission_texts:
  assumes "validate_credential c = Inr ()"
  shows "list_all permission_text (sort (oc_permissions c))"
  using assms supported_permission_texts
  by (auto simp: validate_credential_def res_simps list_all_iff)

definition revokes :: "string \<Rightarrow> session_call \<Rightarrow> bool" where
  "revokes digest call = (case call of RevokeSession session now \<Rightarrow> rs_token_digest session = digest
     | _ \<Rightarrow> False)"

lemma session_step_other:
  assumes "session_of s d = Some r" "\<not> revokes d call"
  shows "session_of (session_step s call) d = Some r"
proof (cases call)
  case (CreateSession i token csrf credential now)
  show ?thesis
  proof (cases "create_operator_session s i token csrf credential now")
    case (Inr p)
    then obtain c s' where p: "create_operator_session s i token csrf credential now = Inr (c, s')"
      by (cases p) simp
    obtain digest where digest: "token_digest token = Inr digest"
      using create_operator_session_Inr [OF p] by blast
    show ?thesis
      using session_of_create [OF p digest] assms by (auto simp: CreateSession p)
  qed (simp add: CreateSession assms)
next
  case (RotateCsrf session csrf)
  show ?thesis
  proof (cases "rotate_csrf s session csrf")
    case (Inr p)
    then show ?thesis
      using session_of_rotate [of s session csrf "fst p" "snd p" d] assms
      by (simp add: RotateCsrf case_prod_unfold)
  qed (simp add: RotateCsrf assms)
next
  case (RevokeSession session now)
  then show ?thesis using assms by (simp add: session_of_revoke revokes_def)
qed

lemma session_steps_other:
  "session_of s d = Some r \<Longrightarrow> list_all (\<lambda>call. \<not> revokes d call) calls
    \<Longrightarrow> session_of (foldl session_step s calls) d = Some r"
  by (induction calls arbitrary: s) (auto simp: session_step_other)

text \<open>
  C37. A session that was created resolves from its token, until it expires or is revoked, to the very
  principal it was created for, with exactly the permissions of the credential.
\<close>

theorem created_session_resolves:
  assumes "create_operator_session s i token csrf credential now = Inr (created, s')"
    and "validate_credential credential = Inr ()" "token \<noteq> []" "token_digest token = Inr digest"
    and "list_all (\<lambda>call. \<not> revokes digest call) calls" "t < cs_expires_at created"
  shows "\<exists>session. resolve_token (foldl session_step s' calls) (Some token) t = Inr (Some session)
    \<and> rs_principal session = cs_principal created \<and> rs_expires_at session = cs_expires_at created
    \<and> op_permissions (rs_principal session) = sort (oc_permissions credential)"
proof -
  let ?s = "foldl session_step s' calls"
  have created: "cs_expires_at created = now + ss_lifetime_seconds s * 1000000"
    "cs_principal created = \<lparr>op_operator_id = oc_operator_id credential, op_authenticated_at = now,
        op_permissions = sort (oc_permissions credential)\<rparr>"
    using create_operator_session_Inr [OF assms(1)] by auto
  obtain r where r: "session_of s' digest = Some r" "\<not> sr_revoked r"
      "sr_expires_at r = cs_expires_at created" "sr_operator_id r = oc_operator_id credential"
      "sr_authenticated_at r = now" "sr_permissions r = join newline (sort (oc_permissions credential))"
    using session_of_create(2) [OF assms(1,4), of digest] created by simp
  have row: "session_of ?s digest = Some r" by (rule session_steps_other [OF r(1) assms(5)])
  obtain found where found: "resolve_token ?s (Some token) t = Inr found"
    using resolve_token_row(3) [OF assms(4,3)] by blast
  have "found \<noteq> None"
    using resolve_token_row(1) [OF assms(4,3), of ?s t] row r assms(6) by (auto simp: found)
  then obtain session where session: "resolve_token ?s (Some token) t = Inr (Some session)"
    using found by blast
  show ?thesis
    using resolve_token_row(2) [OF assms(4,3) session] row r created
      permissions_round_trip [OF credential_permission_texts [OF assms(2)]] session by auto
qed

lemma find_member: "find P xs = Some x \<Longrightarrow> x \<in> set xs"
  by (auto simp: find_Some_iff)

lemma resolved_row:
  assumes "resolve_token s token now = Inr (Some session)"
  shows "\<exists>r. r \<in> set (ss_rows s) \<and> \<not> sr_revoked r \<and> now < sr_expires_at r
    \<and> rs_principal session = \<lparr>op_operator_id = sr_operator_id r,
        op_authenticated_at = sr_authenticated_at r,
        op_permissions = filter (\<lambda>p. p \<noteq> []) (split_on CHR 0x0A (sr_permissions r))\<rparr>"
proof -
  obtain v digest where v: "token = Some v" "v \<noteq> []" "token_digest v = Inr digest"
    using assms by (auto simp: resolve_token_def res_simps split: option.splits if_splits)
  obtain r where r: "session_of s digest = Some r" "\<not> sr_revoked r" "now < sr_expires_at r"
    "rs_principal session = \<lparr>op_operator_id = sr_operator_id r,
        op_authenticated_at = sr_authenticated_at r,
        op_permissions = filter (\<lambda>p. p \<noteq> []) (split_on CHR 0x0A (sr_permissions r))\<rparr>"
    using resolve_token_row(2) [OF v(3,2)] assms v(1) by blast
  then obtain r0 where "find (\<lambda>r. sr_token_digest r = digest) (ss_rows s) = Some r0"
    "r = r0\<lparr>sr_csrf_digest := []\<rparr>"
    by (auto simp: session_of_def)
  then show ?thesis using find_member r by (intro exI [of _ r0]) auto
qed
section \<open>Witnesses\<close>

definition sample_credential :: operator_credential where
  "sample_credential = \<lparr>oc_operator_id = ''kenny'', oc_password_hash = ''hash'', oc_enabled = True,
     oc_permissions = [operational_intent_create]\<rparr>"

definition sample_digest :: string where
  "sample_digest = sha256_hexdigest (utf8 ''token'')"

definition sample_session_store :: session_store where
  "sample_session_store = \<lparr>ss_lifetime_seconds = 60, ss_rows = [\<lparr>sr_session_id = ''id'',
     sr_token_digest = sample_digest, sr_operator_id = ''kenny'',
     sr_permissions = operational_intent_create, sr_authenticated_at = 0, sr_expires_at = 60000000,
     sr_csrf_digest = sha256_hexdigest (utf8 ''csrf''), sr_revoked = False, sr_revoked_at = None\<rparr>]\<rparr>"

definition sample_created :: created_session where
  "sample_created = \<lparr>cs_session_token = ''token'', cs_csrf_token = ''csrf'',
     cs_principal = \<lparr>op_operator_id = ''kenny'', op_authenticated_at = 0,
       op_permissions = [operational_intent_create]\<rparr>, cs_expires_at = 60000000\<rparr>"

lemma sample_token_digest: "token_digest ''token'' = Inr sample_digest"
  by (simp add: token_digest_def sample_digest_def)

lemma sample_session_created:
  "create_operator_session \<lparr>ss_lifetime_seconds = 60, ss_rows = []\<rparr> ''id'' ''token'' ''csrf''
     sample_credential 0 = Inr (sample_created, sample_session_store)"
  by (simp add: create_operator_session_def sample_token_digest sample_credential_def sample_created_def
      sample_session_store_def)
    (simp add: token_digest_def)

lemma sample_credential_valid: "validate_credential sample_credential = Inr ()"
  by (simp add: validate_credential_def sample_credential_def operator_id_char_def in_range_def
      supported_operator_permissions_def operational_intent_create_def)

theorem created_session_resolves_witness:
  "\<exists>session. resolve_token (session_step sample_session_store
       (CreateSession ''other'' ''token'' ''csrf'' sample_credential 1)) (Some ''token'') 5
       = Inr (Some session)
     \<and> op_permissions (rs_principal session) = [''operational_intent:create'']"
proof -
  have "5 < cs_expires_at sample_created" by (simp add: sample_created_def)
  with created_session_resolves [OF sample_session_created sample_credential_valid _ sample_token_digest,
      of "[CreateSession ''other'' ''token'' ''csrf'' sample_credential 1]" 5]
  obtain session where
    "resolve_token (foldl session_step sample_session_store
       [CreateSession ''other'' ''token'' ''csrf'' sample_credential 1]) (Some ''token'') 5
       = Inr (Some session)"
    "op_permissions (rs_principal session) = sort (oc_permissions sample_credential)"
    by (auto simp: revokes_def)
  then show ?thesis by (simp add: sample_credential_def operational_intent_create_def)
qed

definition sample_resolved :: resolved_session where
  "sample_resolved = \<lparr>rs_token_digest = sample_digest,
     rs_principal = \<lparr>op_operator_id = ''kenny'', op_authenticated_at = 0,
       op_permissions = [operational_intent_create]\<rparr>, rs_expires_at = 60000000,
     rs_csrf_digest = sha256_hexdigest (utf8 ''csrf'')\<rparr>"

lemma sample_session_resolved: "resolve_token sample_session_store (Some ''token'') 5 = Inr (Some sample_resolved)"
  by (simp add: resolve_token_def sample_token_digest)
    (simp add: sample_session_store_def sample_resolved_def operational_intent_create_def)

theorem revocation_is_final_witness:
  "resolve_token (session_step (revoke_session sample_session_store sample_resolved 6)
     (CreateSession ''other'' ''token'' ''csrf'' sample_credential 7)) (Some ''token'') 8 = Inr None"
  using revocation_is_final [OF sample_session_resolved, of 6
      "[CreateSession ''other'' ''token'' ''csrf'' sample_credential 7]" 8] by simp

end
