(* ===== verification/OperatorAccess.thy ===== *)
theory OperatorAccess
  imports OperatorSessions
begin

text \<open>
  The operator boundary of Atlas Core: the request dependencies that guard a mutation
  (\<open>operator_auth/dependencies.py\<close>), the audit of rejections (\<open>audit.py\<close>) and the routes
  (\<open>routes/operator_auth.py\<close>). The clock and the tokens of \<open>secrets\<close> are read by position; of a
  request the model keeps what the code reads, the decoded body included. The identifier of an
  audit event, a fresh \<open>uuid4\<close>, is not kept. Each route is one step: between the awaits of a
  route it only reads its own request.
\<close>

section \<open>Requests, environment and state\<close>

text \<open>\<open>rq_declared\<close> is the content length as \<open>int\<close> reads it, \<open>Some None\<close> where it raises.\<close>

record operator_request =
  rq_request_id :: string
  rq_client_host :: "string option"
  rq_origin :: "string option"
  rq_cookie :: "string option"
  rq_csrf :: "string option"
  rq_content_type :: "string option"
  rq_declared :: "int option option"
  rq_body_size :: nat
  rq_login :: "(string \<times> string) res"
  rq_probe :: "unit res"

text \<open>\<open>netloc_accepted\<close> stands for the checks of \<open>urlsplit\<close> on a network location with brackets
  or characters outside ASCII, \<open>ip_compressed\<close> for \<open>ipaddress.ip_address(raw).compressed\<close>.\<close>

record access_env =
  ae_clock :: "nat \<Rightarrow> int"
  ae_secret :: "nat \<Rightarrow> string"
  ae_verify :: "string \<Rightarrow> string \<Rightarrow> bool"
  ae_dummy_hash :: string
  ae_netloc_accepted :: "string \<Rightarrow> bool"
  ae_ip_compressed :: "string \<Rightarrow> string option"

record security_audit_event =
  sae_occurred_at :: int
  sae_request_id :: string
  sae_operator_id :: "string option"
  sae_auth_method :: "string option"
  sae_action :: string
  sae_outcome :: string
  sae_reason :: string

record access =
  ac_enabled :: bool
  ac_trusted_origins :: "string list"
  ac_operators :: "operator_credential list"
  ac_sessions :: session_store
  ac_login_limiter :: rate_limiter
  ac_mutation_limiter :: rate_limiter
  ac_audit :: "security_audit_event list"
  ac_reads :: nat
  ac_draws :: nat

definition read_now :: "access_env \<Rightarrow> (access, int) action" where
  "read_now E a = (Inr (ae_clock E (ac_reads a)), a\<lparr>ac_reads := Suc (ac_reads a)\<rparr>)"

definition draw_secret :: "access_env \<Rightarrow> (access, string) action" where
  "draw_secret E a = (Inr (ae_secret E (ac_draws a)), a\<lparr>ac_draws := Suc (ac_draws a)\<rparr>)"

definition security_audit :: "access_env \<Rightarrow> operator_request \<Rightarrow> string \<Rightarrow> string \<Rightarrow> string
    \<Rightarrow> operator_principal option \<Rightarrow> (access, unit) action" where
  "security_audit E rq act outcome reason who =
     seq (read_now E) (\<lambda>now a. (Inr (), a\<lparr>ac_audit := ac_audit a @ [
       \<lparr>sae_occurred_at = now, sae_request_id = rq_request_id rq,
        sae_operator_id = map_option op_operator_id who,
        sae_auth_method = map_option (\<lambda>_. principal_auth_method) who,
        sae_action = act, sae_outcome = outcome, sae_reason = reason\<rparr>]\<rparr>))"

definition reject :: "access_env \<Rightarrow> operator_request \<Rightarrow> string \<Rightarrow> string
    \<Rightarrow> operator_principal option \<Rightarrow> nat \<Rightarrow> string \<Rightarrow> (access, 'a) action" where
  "reject E rq act reason who code detail =
     seq (security_audit E rq act ''rejected'' reason who)
       (\<lambda>_. raise (HTTPException code detail))"

section \<open>The origin of a request\<close>

text \<open>\<open>urllib.parse.urlsplit\<close>.\<close>

record split_url =
  su_scheme :: string
  su_netloc :: string
  su_path :: string
  su_query :: string
  su_fragment :: string

definition control_or_space :: "char \<Rightarrow> bool" where
  "control_or_space c \<longleftrightarrow> (of_char c :: nat) \<le> 32"

definition is_alpha :: "char \<Rightarrow> bool" where
  "is_alpha c \<longleftrightarrow> in_range CHR ''a'' CHR ''z'' c \<or> in_range CHR ''A'' CHR ''Z'' c"

definition scheme_char :: "char \<Rightarrow> bool" where
  "scheme_char c \<longleftrightarrow> is_alpha c \<or> in_range CHR ''0'' CHR ''9'' c \<or> c \<in> set ''+-.''"

text \<open>\<open>s.split(c, 1)\<close>, with an empty second part where \<open>c\<close> does not occur.\<close>

definition cut_at :: "char \<Rightarrow> string \<Rightarrow> string \<times> string" where
  "cut_at c s = (takeWhile (\<lambda>d. d \<noteq> c) s, drop 1 (dropWhile (\<lambda>d. d \<noteq> c) s))"

definition split_scheme :: "string \<Rightarrow> string \<times> string" where
  "split_scheme url =
     (let front = takeWhile (\<lambda>c. c \<noteq> CHR '':'') url in
      if CHR '':'' \<in> set url \<and> front \<noteq> [] \<and> is_alpha (hd url) \<and> list_all scheme_char front
      then (lower front, drop (length front + 1) url) else ([], url))"

definition netloc_valid :: "(string \<Rightarrow> bool) \<Rightarrow> string \<Rightarrow> bool" where
  "netloc_valid accepted netloc \<longleftrightarrow>
     (CHR ''['' \<in> set netloc) = (CHR '']'' \<in> set netloc)
     \<and> (CHR ''['' \<in> set netloc \<or> \<not> list_all (\<lambda>c. (of_char c :: nat) < 128) netloc
        \<longrightarrow> accepted netloc)"

definition url_split :: "(string \<Rightarrow> bool) \<Rightarrow> string \<Rightarrow> split_url res" where
  "url_split accepted raw =
     (let url = filter (\<lambda>c. c \<notin> set [CHR 0x09, CHR 0x0A, CHR 0x0D]) (dropWhile control_or_space raw);
          (scheme, rest) = split_scheme url;
          (netloc, rest) = (if starts_with ''//'' rest
            then (takeWhile (\<lambda>c. c \<notin> set ''/?#'') (drop 2 rest),
                  dropWhile (\<lambda>c. c \<notin> set ''/?#'') (drop 2 rest))
            else ([], rest));
          (rest, fragment) = cut_at CHR ''#'' rest;
          (url_path, query) = cut_at CHR ''?'' rest in
      and_then (require (netloc_valid accepted netloc) (ValueError ''Invalid URL'')) (\<lambda>_.
      Inr \<lparr>su_scheme = scheme, su_netloc = netloc, su_path = url_path, su_query = query,
        su_fragment = fragment\<rparr>))"

definition rstrip_slash :: "string \<Rightarrow> string" where
  "rstrip_slash s = rev (dropWhile (\<lambda>c. c = CHR ''/'') (rev s))"

definition origin_trusted :: "string list \<Rightarrow> string \<Rightarrow> split_url \<Rightarrow> bool" where
  "origin_trusted trusted origin parsed \<longleftrightarrow>
     su_scheme parsed = ''https'' \<and> su_netloc parsed \<noteq> [] \<and> su_path parsed \<in> set [[], ''/'']
     \<and> su_query parsed = [] \<and> su_fragment parsed = [] \<and> rstrip_slash origin \<in> set trusted"

definition require_allowed_origin ::
  "access_env \<Rightarrow> operator_request \<Rightarrow> (access, unit) action" where
  "require_allowed_origin E rq a =
     (if \<not> ac_enabled a
      then raise (HTTPException 503 ''Operator authentication is disabled.'') a
      else (case rq_origin rq of
          None \<Rightarrow> reject E rq ''operator.origin'' ''origin_missing_or_null'' None 403
            ''Operator request origin is not allowed.''
        | Some origin \<Rightarrow>
            if origin = [] \<or> origin = ''null''
            then reject E rq ''operator.origin'' ''origin_missing_or_null'' None 403
              ''Operator request origin is not allowed.''
            else (case url_split (ae_netloc_accepted E) origin of
                Inl e \<Rightarrow> reject E rq ''operator.origin'' ''origin_malformed'' None 403
                  ''Operator request origin is not allowed.''
              | Inr parsed \<Rightarrow>
                  if \<not> origin_trusted (ac_trusted_origins a) origin parsed
                  then reject E rq ''operator.origin'' ''origin_not_allowed'' None 403
                    ''Operator request origin is not allowed.''
                  else pure ())) a)"

section \<open>The guards of a mutation\<close>

definition resolve_operator_session ::
  "access_env \<Rightarrow> operator_request \<Rightarrow> (access, resolved_session) action" where
  "resolve_operator_session E rq a =
     (if \<not> ac_enabled a
      then raise (HTTPException 503 ''Operator authentication is disabled.'') a
      else seq (read_now E) (\<lambda>now. seq (lift (resolve_token (ac_sessions a) (rq_cookie rq) now))
        (\<lambda>found. case found of
            None \<Rightarrow> reject E rq ''operator.session'' ''session_invalid'' None 401
              ''Operator authentication is required.''
          | Some session \<Rightarrow> pure session)) a)"

text \<open>The dependency hands over the session with its principal.\<close>

definition require_operator_permission ::
  "string \<Rightarrow> access_env \<Rightarrow> operator_request \<Rightarrow> (access, resolved_session) action" where
  "require_operator_permission permission E rq =
     seq (resolve_operator_session E rq) (\<lambda>session.
     if permission \<notin> set (op_permissions (rs_principal session))
     then reject E rq permission ''permission_missing'' (Some (rs_principal session)) 403
       ''Operator permission is required.''
     else pure session)"

definition mutation_allowed ::
  "access_env \<Rightarrow> operator_principal \<Rightarrow> (access, bool) action" where
  "mutation_allowed E who =
     seq (read_now E) (\<lambda>now a.
       case allow (ac_mutation_limiter a) (''operator:'' @ op_operator_id who) now of
         (r, l) \<Rightarrow> (r, a\<lparr>ac_mutation_limiter := l\<rparr>))"

definition require_operator_mutation ::
  "string \<Rightarrow> access_env \<Rightarrow> operator_request \<Rightarrow> (access, operator_principal) action" where
  "require_operator_mutation permission E rq =
     seq (require_allowed_origin E rq) (\<lambda>_.
     seq (require_operator_permission permission E rq) (\<lambda>session.
     let principal = rs_principal session in
     seq (lift (verify_csrf session (rq_csrf rq))) (\<lambda>valid.
     if \<not> valid
     then reject E rq permission ''csrf_invalid'' (Some principal) 403
       ''Operator CSRF validation failed.''
     else
     seq (mutation_allowed E principal) (\<lambda>allowed.
     if \<not> allowed
     then reject E rq permission ''rate_limited'' (Some principal) 429
       ''Operator mutation rate limit exceeded.''
     else pure principal))))"

definition require_authenticated_mutation ::
  "access_env \<Rightarrow> operator_request \<Rightarrow> (access, resolved_session) action" where
  "require_authenticated_mutation E rq =
     seq (require_allowed_origin E rq) (\<lambda>_.
     seq (resolve_operator_session E rq) (\<lambda>session.
     seq (lift (verify_csrf session (rq_csrf rq))) (\<lambda>valid.
     if \<not> valid
     then reject E rq ''operator.logout'' ''csrf_invalid'' (Some (rs_principal session)) 403
       ''Operator CSRF validation failed.''
     else pure session)))"

section \<open>The routes\<close>

definition max_operator_auth_body_bytes :: int where
  "max_operator_auth_body_bytes = 8192"

definition read_strict_operator_json :: "operator_request \<Rightarrow> 'a res \<Rightarrow> 'a res" where
  "read_strict_operator_json rq decoded =
     and_then (require (lower (strip (takeWhile (\<lambda>c. c \<noteq> CHR '';'')
         (case rq_content_type rq of None \<Rightarrow> [] | Some t \<Rightarrow> t))) = ''application/json'')
       (HTTPException 415 ''Operator request must use application/json.'')) (\<lambda>_.
     and_then (require (case rq_declared rq of None \<Rightarrow> True
         | Some declared \<Rightarrow> (case declared of None \<Rightarrow> False
             | Some n \<Rightarrow> 0 \<le> n \<and> n \<le> max_operator_auth_body_bytes))
       (HTTPException 413 ''Operator request is too large.'')) (\<lambda>_.
     and_then (require (int (rq_body_size rq) \<le> max_operator_auth_body_bytes)
       (HTTPException 413 ''Operator request is too large.'')) (\<lambda>_.
     (case decoded of
        Inl e \<Rightarrow> Inl (HTTPException 422 ''Operator request is invalid.'')
      | Inr x \<Rightarrow> Inr x))))"

definition client_network_key :: "access_env \<Rightarrow> operator_request \<Rightarrow> string" where
  "client_network_key E rq =
     ''client:'' @ (case ae_ip_compressed E
         (case rq_client_host rq of None \<Rightarrow> ''unknown'' | Some host \<Rightarrow> host) of
       None \<Rightarrow> ''unknown'' | Some ip \<Rightarrow> ip)"

definition enabled_or_raise :: "(access, unit) action" where
  "enabled_or_raise a =
     (if ac_enabled a then pure () a
      else raise (HTTPException 503 ''Operator authentication is disabled.'') a)"

definition login_allowed :: "access_env \<Rightarrow> operator_request \<Rightarrow> (access, bool) action" where
  "login_allowed E rq =
     seq (read_now E) (\<lambda>now a.
       case allow (ac_login_limiter a) (client_network_key E rq) now of
         (r, l) \<Rightarrow> (r, a\<lparr>ac_login_limiter := l\<rparr>))"

definition create_session_now ::
  "access_env \<Rightarrow> operator_credential \<Rightarrow> (access, created_session) action" where
  "create_session_now E credential =
     seq (read_now E) (\<lambda>now. seq (draw_secret E) (\<lambda>session_token. seq (draw_secret E) (\<lambda>csrf_token.
     seq (draw_secret E) (\<lambda>session_id a.
       case create_operator_session (ac_sessions a) session_id session_token csrf_token credential now of
         Inl e \<Rightarrow> (Inl e, a) | Inr (created, s) \<Rightarrow> (Inr created, a\<lparr>ac_sessions := s\<rparr>)))))"

definition operator_login ::
  "access_env \<Rightarrow> operator_request \<Rightarrow> (access, created_session) action" where
  "operator_login E rq =
     seq enabled_or_raise (\<lambda>_.
     seq (require_allowed_origin E rq) (\<lambda>_.
     seq (login_allowed E rq) (\<lambda>allowed.
     if \<not> allowed
     then reject E rq ''operator.login'' ''rate_limited'' None 429
       ''Operator login rate limit exceeded.''
     else
     seq (lift (read_strict_operator_json rq (rq_login rq))) (\<lambda>(operator_id, password).
     seq (\<lambda>a. (Inr (authenticate_operator (ae_verify E) (ae_dummy_hash E) (ac_operators a)
         operator_id password), a)) (\<lambda>found. case found of
       None \<Rightarrow> reject E rq ''operator.login'' ''authentication_failed'' None 401
         ''Operator authentication failed.''
     | Some credential \<Rightarrow>
       seq (create_session_now E credential) (\<lambda>created.
       seq (security_audit E rq ''operator.login'' ''accepted'' ''authenticated''
         (Some (cs_principal created))) (\<lambda>_. pure created)))))))"

text \<open>The response carries the new CSRF token.\<close>

definition operator_session ::
  "access_env \<Rightarrow> operator_request \<Rightarrow> (access, string \<times> resolved_session) action" where
  "operator_session E rq =
     seq enabled_or_raise (\<lambda>_.
     seq (resolve_operator_session E rq) (\<lambda>session.
     seq (draw_secret E) (\<lambda>csrf_token a.
       case rotate_csrf (ac_sessions a) session csrf_token of
         Inl e \<Rightarrow> (Inl e, a)
       | Inr (token, s) \<Rightarrow> (Inr (token, session), a\<lparr>ac_sessions := s\<rparr>))))"

definition operator_logout :: "access_env \<Rightarrow> operator_request \<Rightarrow> (access, unit) action" where
  "operator_logout E rq =
     seq enabled_or_raise (\<lambda>_.
     seq (require_authenticated_mutation E rq) (\<lambda>session.
     seq (lift (read_strict_operator_json rq (rq_probe rq))) (\<lambda>_.
     seq (read_now E) (\<lambda>now.
     seq (\<lambda>a. (Inr (), a\<lparr>ac_sessions := revoke_session (ac_sessions a) session now\<rparr>)) (\<lambda>_.
     security_audit E rq ''operator.logout'' ''accepted'' ''revoked''
       (Some (rs_principal session)))))))"

definition operator_probe ::
  "access_env \<Rightarrow> operator_request \<Rightarrow> (access, operator_principal) action" where
  "operator_probe E rq =
     seq (require_operator_mutation operational_intent_create E rq) (\<lambda>principal.
     seq enabled_or_raise (\<lambda>_.
     seq (lift (read_strict_operator_json rq (rq_probe rq))) (\<lambda>_.
     seq (security_audit E rq ''operator-auth-boundary-probe'' ''accepted'' ''authorized''
       (Some principal)) (\<lambda>_. pure principal))))"

section \<open>When a guard lets a request through\<close>

lemma reject_raises [simp]: "reject E rq act reason who code detail a \<noteq> (Inr x, b)"
  by (simp add: reject_def seq_def security_audit_def read_now_def)

definition origin_ok :: "access_env \<Rightarrow> access \<Rightarrow> operator_request \<Rightarrow> bool" where
  "origin_ok E a rq = (case rq_origin rq of
       None \<Rightarrow> False
     | Some origin \<Rightarrow> origin \<noteq> [] \<and> origin \<noteq> ''null''
         \<and> (case url_split (ae_netloc_accepted E) origin of
              Inl e \<Rightarrow> False
            | Inr parsed \<Rightarrow> origin_trusted (ac_trusted_origins a) origin parsed))"

lemma require_allowed_origin_Inr:
  "require_allowed_origin E rq a = (Inr x, b) \<longleftrightarrow> ac_enabled a \<and> origin_ok E a rq \<and> b = a"
  by (auto simp: require_allowed_origin_def origin_ok_def split: option.split sum.split)

lemma resolve_operator_session_Inr:
  "resolve_operator_session E rq a = (Inr session, b) \<longleftrightarrow> ac_enabled a
     \<and> resolve_token (ac_sessions a) (rq_cookie rq) (ae_clock E (ac_reads a)) = Inr (Some session)
     \<and> b = a\<lparr>ac_reads := Suc (ac_reads a)\<rparr>"
  by (auto simp: resolve_operator_session_def seq_def read_now_def
      split: option.split sum.split)

lemma require_operator_permission_Inr:
  "require_operator_permission permission E rq a = (Inr session, b) \<longleftrightarrow>
     resolve_operator_session E rq a = (Inr session, b)
     \<and> permission \<in> set (op_permissions (rs_principal session))"
  by (auto simp: require_operator_permission_def seq_Inr_iff)

lemma mutation_allowed_Inr:
  "mutation_allowed E who a = (Inr ok, b) \<longleftrightarrow>
     (\<exists>l. allow (ac_mutation_limiter a) (''operator:'' @ op_operator_id who)
         (ae_clock E (ac_reads a)) = (Inr ok, l)
       \<and> b = a\<lparr>ac_reads := Suc (ac_reads a), ac_mutation_limiter := l\<rparr>)"
  by (auto simp: mutation_allowed_def seq_def read_now_def split: prod.split)

lemma ex_holds: "(\<exists>x. x \<and> Q x) \<longleftrightarrow> Q True"
  by auto

lemma fst_eq_iff: "fst p = x \<longleftrightarrow> (\<exists>y. p = (x, y))"
  by (cases p) auto

lemma mutation_authorised_eq:
  "(fst (require_operator_mutation permission E rq a) = Inr who) =
     (ac_enabled a \<and> origin_ok E a rq
      \<and> (\<exists>session. resolve_token (ac_sessions a) (rq_cookie rq) (ae_clock E (ac_reads a))
            = Inr (Some session)
          \<and> who = rs_principal session \<and> permission \<in> set (op_permissions who)
          \<and> verify_csrf session (rq_csrf rq) = Inr True
          \<and> fst (allow (ac_mutation_limiter a) (''operator:'' @ op_operator_id who)
              (ae_clock E (Suc (ac_reads a)))) = Inr True))"
proof -
  have "(\<exists>b. require_operator_mutation permission E rq a = (Inr who, b)) =
     (ac_enabled a \<and> origin_ok E a rq
      \<and> (\<exists>session. resolve_token (ac_sessions a) (rq_cookie rq) (ae_clock E (ac_reads a))
            = Inr (Some session)
          \<and> who = rs_principal session \<and> permission \<in> set (op_permissions who)
          \<and> verify_csrf session (rq_csrf rq) = Inr True
          \<and> fst (allow (ac_mutation_limiter a) (''operator:'' @ op_operator_id who)
              (ae_clock E (Suc (ac_reads a)))) = Inr True))"
    by (auto simp: require_operator_mutation_def seq_Inr_iff Let_def require_allowed_origin_Inr
        require_operator_permission_Inr resolve_operator_session_Inr mutation_allowed_Inr
        fst_eq_iff ex_holds split: if_splits)
  then show ?thesis by (simp only: fst_eq_iff)
qed

text \<open>The same, in terms of the request and of what is stored. The origin:\<close>

definition trusted_https_origin :: "access_env \<Rightarrow> string list \<Rightarrow> operator_request \<Rightarrow> bool" where
  "trusted_https_origin E trusted rq \<longleftrightarrow> (case rq_origin rq of
     None \<Rightarrow> False
   | Some origin \<Rightarrow> origin \<noteq> [] \<and> origin \<noteq> ''null''
       \<and> (case url_split (ae_netloc_accepted E) origin of
            Inl e \<Rightarrow> False
          | Inr url \<Rightarrow> su_scheme url = ''https'' \<and> su_netloc url \<noteq> []
              \<and> (su_path url = [] \<or> su_path url = ''/'') \<and> su_query url = [] \<and> su_fragment url = [])
       \<and> rstrip_slash origin \<in> set trusted)"

text \<open>A secret that was sent, against its stored SHA-256; and the live row of a cookie.\<close>

definition presents :: "string option \<Rightarrow> string \<Rightarrow> bool" where
  "presents supplied digest \<longleftrightarrow> (case supplied of
     None \<Rightarrow> False
   | Some v \<Rightarrow> v \<noteq> [] \<and> list_all (\<lambda>c. (of_char c :: nat) < 128) v \<and> sha256_hexdigest (utf8 v) = digest)"

definition live_row :: "session_store \<Rightarrow> string option \<Rightarrow> int \<Rightarrow> session_row \<Rightarrow> bool" where
  "live_row store cookie now row \<longleftrightarrow> presents cookie (sr_token_digest row)
     \<and> find (\<lambda>r. sr_token_digest r = sr_token_digest row) (ss_rows store) = Some row
     \<and> \<not> sr_revoked row \<and> now < sr_expires_at row"

text \<open>Fewer than the limit of the calls a key was granted lie within the window that ends now.\<close>

definition within_rate :: "rate_limiter \<Rightarrow> string \<Rightarrow> int \<Rightarrow> bool" where
  "within_rate l key now \<longleftrightarrow>
     int (length (dropWhile (\<lambda>t. t \<le> now - rl_window l) (limiter_entries l key))) < rl_limit l"

definition limiter_in_use :: "rate_limiter \<Rightarrow> bool" where
  "limiter_in_use l \<longleftrightarrow> limiter_ok l \<and> 1 \<le> rl_limit l \<and> 1 \<le> rl_max_keys l"

lemma origin_ok_iff: "origin_ok E a rq = trusted_https_origin E (ac_trusted_origins a) rq"
  by (auto simp: origin_ok_def trusted_https_origin_def origin_trusted_def split: option.split sum.split)

lemma verify_csrf_iff: "verify_csrf session supplied = Inr True \<longleftrightarrow> presents supplied (rs_csrf_digest session)"
  by (cases supplied) (auto simp: verify_csrf_def presents_def token_digest_def res_simps)

lemma resolve_token_iff:
  "resolve_token store cookie now = Inr (Some session) \<longleftrightarrow>
     (\<exists>row. live_row store cookie now row
        \<and> session = \<lparr>rs_token_digest = sr_token_digest row,
            rs_principal = \<lparr>op_operator_id = sr_operator_id row,
              op_authenticated_at = sr_authenticated_at row,
              op_permissions = filter (\<lambda>p. p \<noteq> []) (split_on CHR 0x0A (sr_permissions row))\<rparr>,
            rs_expires_at = sr_expires_at row, rs_csrf_digest = sr_csrf_digest row\<rparr>)"
    (is "?l = (\<exists>row. ?r row)")
proof
  assume ?l
  then obtain v row where v: "cookie = Some v" "v \<noteq> []" "list_all (\<lambda>c. (of_char c :: nat) < 128) v"
    "find (\<lambda>r. sr_token_digest r = sha256_hexdigest (utf8 v)) (ss_rows store) = Some row"
    "\<not> sr_revoked row" "sr_token_digest row = sha256_hexdigest (utf8 v)" "\<not> sr_expires_at row \<le> now"
    "session = \<lparr>rs_token_digest = sr_token_digest row,
            rs_principal = \<lparr>op_operator_id = sr_operator_id row,
              op_authenticated_at = sr_authenticated_at row,
              op_permissions = filter (\<lambda>p. p \<noteq> []) (split_on CHR 0x0A (sr_permissions row))\<rparr>,
            rs_expires_at = sr_expires_at row, rs_csrf_digest = sr_csrf_digest row\<rparr>"
    by (auto simp: resolve_token_def token_digest_def res_simps split: option.splits if_splits)
  then have "?r row" by (simp add: live_row_def presents_def)
  then show "\<exists>row. ?r row" ..
next
  assume "\<exists>row. ?r row"
  then obtain row where row: "?r row" ..
  then obtain v where "cookie = Some v" "v \<noteq> []" "list_all (\<lambda>c. (of_char c :: nat) < 128) v"
    "sha256_hexdigest (utf8 v) = sr_token_digest row"
    by (auto simp: live_row_def presents_def split: option.splits)
  with row show ?l by (simp add: live_row_def resolve_token_def token_digest_def)
qed

lemma allow_iff:
  assumes "limiter_in_use l"
  shows "fst (allow l key now) = Inr True \<longleftrightarrow> within_rate l key now"
proof -
  obtain b where "fst (allow l key now) = Inr b"
    using allow_ok assms unfolding limiter_in_use_def by blast
  then show ?thesis
    by (auto simp: allow_def within_rate_def limiter_entries_def Let_def not_le split: if_splits prod.splits sum.splits)
qed

text \<open>
  C35. A mutation is let through exactly when operator authentication is enabled, the origin of the
  request is a trusted HTTPS origin (with a host, no path but \<open>/\<close>, no query and no fragment), its cookie is the token of a
  stored session that is neither revoked nor expired and holds the permission, its CSRF token is the
  current one of that session, and the operator has been granted fewer mutations than the limit within
  the window; the principal handed on is the one of that session. The hypothesis is what every limiter
  keeps from its first call on: at least one key and one call are allowed, and it holds no more.
\<close>

theorem mutation_authorised_iff:
  assumes "limiter_in_use (ac_mutation_limiter a)"
  shows "(fst (require_operator_mutation permission E rq a) = Inr who) =
     (ac_enabled a \<and> trusted_https_origin E (ac_trusted_origins a) rq
      \<and> (\<exists>row. live_row (ac_sessions a) (rq_cookie rq) (ae_clock E (ac_reads a)) row
          \<and> who = \<lparr>op_operator_id = sr_operator_id row, op_authenticated_at = sr_authenticated_at row,
              op_permissions = filter (\<lambda>p. p \<noteq> []) (split_on CHR 0x0A (sr_permissions row))\<rparr>
          \<and> permission \<noteq> [] \<and> permission \<in> set (split_on CHR 0x0A (sr_permissions row))
          \<and> presents (rq_csrf rq) (sr_csrf_digest row)
          \<and> within_rate (ac_mutation_limiter a) (''operator:'' @ sr_operator_id row)
              (ae_clock E (Suc (ac_reads a)))))"
  unfolding mutation_authorised_eq allow_iff [OF assms] origin_ok_iff verify_csrf_iff resolve_token_iff
  by fastforce

definition sample_access :: access where
  "sample_access = \<lparr>ac_enabled = True, ac_trusted_origins = [''https://atlas''], ac_operators = [],
     ac_sessions = sample_session_store, ac_login_limiter = new_limiter 5 60 8,
     ac_mutation_limiter = new_limiter 30 60 8, ac_audit = [], ac_reads = 0, ac_draws = 0\<rparr>"

definition sample_env :: access_env where
  "sample_env = \<lparr>ae_clock = (\<lambda>n. 5 + int n), ae_secret = (\<lambda>n. []), ae_verify = (\<lambda>h p. False),
     ae_dummy_hash = [], ae_netloc_accepted = (\<lambda>n. True), ae_ip_compressed = (\<lambda>r. None)\<rparr>"

definition sample_mutation :: operator_request where
  "sample_mutation = \<lparr>rq_request_id = ''r'', rq_client_host = None, rq_origin = Some ''https://atlas/'',
     rq_cookie = Some ''token'', rq_csrf = Some ''csrf'', rq_content_type = None, rq_declared = None,
     rq_body_size = 0, rq_login = Inr ([], []), rq_probe = Inr ()\<rparr>"

text \<open>The request is let through at the two readings of the clock 5 and 6, its session ends later.\<close>

theorem mutation_authorised_iff_witness:
  "fst (require_operator_mutation operational_intent_create sample_env sample_mutation sample_access)
     = Inr (rs_principal sample_resolved)"
proof -
  have use: "limiter_in_use (ac_mutation_limiter sample_access)"
    by (simp add: limiter_in_use_def sample_access_def new_limiter_def limiter_ok_def keys_ok_def)
  have origin: "trusted_https_origin sample_env (ac_trusted_origins sample_access) sample_mutation"
  proof -
    have "url_split (\<lambda>n. True) ''https://atlas/'' = Inr \<lparr>su_scheme = ''https'', su_netloc = ''atlas'',
        su_path = ''/'', su_query = [], su_fragment = []\<rparr>" "rstrip_slash ''https://atlas/'' = ''https://atlas''"
      by code_simp+
    then show ?thesis by (simp add: trusted_https_origin_def sample_env_def sample_mutation_def sample_access_def)
  qed
  let ?row = "hd (ss_rows sample_session_store)"
  have row: "live_row sample_session_store (Some ''token'') 5 ?row" "presents (Some ''csrf'') (sr_csrf_digest ?row)"
    by (simp_all add: live_row_def presents_def sample_session_store_def sample_digest_def)
  have rate: "within_rate (new_limiter 30 60 8) key now" for key now
    by (simp add: within_rate_def limiter_entries_def new_limiter_def)
  have fields: "ac_sessions sample_access = sample_session_store" "rq_cookie sample_mutation = Some ''token''"
    "rq_csrf sample_mutation = Some ''csrf''" "ae_clock sample_env (ac_reads sample_access) = 5"
    "ac_enabled sample_access" "ac_mutation_limiter sample_access = new_limiter 30 60 8"
    by (simp_all add: sample_access_def sample_env_def sample_mutation_def)
  have stored: "sr_permissions ?row = operational_intent_create" by (simp add: sample_session_store_def)
  have permissions: "split_on CHR 0x0A operational_intent_create = [operational_intent_create]"
    "operational_intent_create \<noteq> []"
    by (simp_all add: operational_intent_create_def)
  have who: "rs_principal sample_resolved = \<lparr>op_operator_id = sr_operator_id ?row,
      op_authenticated_at = sr_authenticated_at ?row, op_permissions = [operational_intent_create]\<rparr>"
    by (simp add: sample_resolved_def sample_session_store_def)
  show ?thesis
    unfolding mutation_authorised_iff [OF use] fields
    by (intro conjI exI [of _ ?row]) (simp_all add: fields origin row rate stored permissions who)
qed

section \<open>Every session goes back to a login\<close>

datatype access_call =
    LoginCall operator_request
  | SessionCall operator_request
  | LogoutCall operator_request
  | ProbeCall operator_request
  | MutationCall string operator_request

fun access_step :: "access_env \<Rightarrow> access \<Rightarrow> access_call \<Rightarrow> access" where
  "access_step E a (LoginCall rq) = snd (operator_login E rq a)"
| "access_step E a (SessionCall rq) = snd (operator_session E rq a)"
| "access_step E a (LogoutCall rq) = snd (operator_logout E rq a)"
| "access_step E a (ProbeCall rq) = snd (operator_probe E rq a)"
| "access_step E a (MutationCall permission rq) = snd (require_operator_mutation permission E rq a)"

text \<open>The row of a session was made for an enabled operator of the verifier file.\<close>

definition row_genuine :: "operator_credential list \<Rightarrow> int \<Rightarrow> session_row \<Rightarrow> bool" where
  "row_genuine operators lifetime r \<longleftrightarrow>
     list_ex (\<lambda>c. oc_enabled c \<and> sr_operator_id r = oc_operator_id c
       \<and> sr_permissions r = join newline (sort (oc_permissions c))) operators
     \<and> sr_expires_at r = sr_authenticated_at r + lifetime * 1000000"

definition access_inv :: "operator_credential list \<Rightarrow> int \<Rightarrow> access \<Rightarrow> bool" where
  "access_inv operators lifetime a \<longleftrightarrow> ac_operators a = operators
     \<and> ss_lifetime_seconds (ac_sessions a) = lifetime
     \<and> list_all (row_genuine operators lifetime) (ss_rows (ac_sessions a))"

lemma keeps_access_atoms [keeps_intros]:
  "keeps (access_inv ops n) (read_now E)" "keeps (access_inv ops n) (draw_secret E)"
  "keeps (access_inv ops n) (security_audit E rq act outcome reason who)"
  "keeps (access_inv ops n) (reject E rq act reason who code detail)"
  "keeps (access_inv ops n) (mutation_allowed E who')" "keeps (access_inv ops n) (login_allowed E rq)"
  "keeps (access_inv ops n) enabled_or_raise"
  by (rule keepsI; simp add: access_inv_def read_now_def draw_secret_def security_audit_def
      reject_def mutation_allowed_def login_allowed_def enabled_or_raise_def seq_def split: prod.split)+

lemma keeps_access_origin [keeps_intros]: "keeps (access_inv ops n) (require_allowed_origin E rq)"
proof (rule keepsI)
  fix a assume a: "access_inv ops n a"
  have "access_inv ops n (snd ((reject E rq act reason who code detail :: (access, unit) action) a))"
    for act reason who code detail
    using keepsD [OF keeps_access_atoms(4) a] by (metis prod.collapse)
  then show "access_inv ops n (snd (require_allowed_origin E rq a))"
    using a by (simp add: require_allowed_origin_def split: option.split sum.split)
qed

lemma keeps_access_resolve [keeps_intros]: "keeps (access_inv ops n) (resolve_operator_session E rq)"
proof (rule keepsI)
  fix a assume a: "access_inv ops n a"
  define m where "m = seq (read_now E) (\<lambda>now. seq (lift (resolve_token (ac_sessions a) (rq_cookie rq) now))
    (\<lambda>found. case found of None \<Rightarrow> reject E rq ''operator.session'' ''session_invalid'' None 401
        ''Operator authentication is required.'' | Some session \<Rightarrow> pure session))"
  have "keeps (access_inv ops n) m" unfolding m_def by (intro keeps_intros)
  from keepsD [OF this a] have "access_inv ops n (snd (m a))" by (metis prod.collapse)
  then show "access_inv ops n (snd (resolve_operator_session E rq a))"
    using a by (simp add: resolve_operator_session_def m_def)
qed

lemma keeps_access_guards [keeps_intros]:
  "keeps (access_inv ops n) (require_operator_permission permission E rq)"
  "keeps (access_inv ops n) (require_authenticated_mutation E rq)"
  unfolding require_operator_permission_def require_authenticated_mutation_def
  by (intro keeps_intros)+

lemma keeps_access_mutation [keeps_intros]:
  "keeps (access_inv ops n) (require_operator_mutation permission E rq)"
  unfolding require_operator_mutation_def Let_def by (intro keeps_intros)

lemma keeps_access_rotate:
  "keeps (access_inv ops n) (\<lambda>a. case rotate_csrf (ac_sessions a) session token of
      Inl e \<Rightarrow> (Inl e, a) | Inr (t, s) \<Rightarrow> (Inr (t, session), a\<lparr>ac_sessions := s\<rparr>))"
  by (rule keepsI) (auto simp: access_inv_def rotate_csrf_Inr row_genuine_def list_all_iff
      split: sum.split)

lemma keeps_access_revoke:
  "keeps (access_inv ops n) (\<lambda>a. (Inr (), a\<lparr>ac_sessions := revoke_session (ac_sessions a) session now\<rparr>))"
  by (rule keepsI) (auto simp: access_inv_def revoke_session_def row_genuine_def list_all_iff)

lemma authenticated_enabled:
  "authenticate_operator verify dummy operators i p = Some c \<Longrightarrow> c \<in> set operators \<and> oc_enabled c"
  by (auto simp: authenticate_operator_def Let_def find_Some_iff split: option.splits if_splits)

lemma keeps_access_create:
  assumes "c \<in> set ops" "oc_enabled c"
  shows "keeps (access_inv ops n) (create_session_now E c)"
  unfolding create_session_now_def
proof (intro keeps_intros keepsI)
  fix now token csrf i and a :: access
  assume a: "access_inv ops n a"
  show "access_inv ops n (snd (case create_operator_session (ac_sessions a) i token csrf c now of
      Inl e \<Rightarrow> (Inl e, a) | Inr (created, s) \<Rightarrow> (Inr created, a\<lparr>ac_sessions := s\<rparr>)))"
  proof (cases "create_operator_session (ac_sessions a) i token csrf c now")
    case (Inr p)
    then obtain created s where p: "create_operator_session (ac_sessions a) i token csrf c now = Inr (created, s)"
      by (cases p) simp
    show ?thesis
      using create_operator_session_Inr [OF p] a assms
      by (auto simp: p access_inv_def row_genuine_def list_ex_iff)
  qed (simp add: a)
qed

lemma keeps_access_login: "keeps (access_inv ops n) (operator_login E rq)"
proof -
  have found: "triple (access_inv ops n)
      (\<lambda>a. (Inr (authenticate_operator (ae_verify E) (ae_dummy_hash E) (ac_operators a) i p), a))
      (\<lambda>found a. access_inv ops n a
        \<and> (case found of None \<Rightarrow> True | Some c \<Rightarrow> c \<in> set ops \<and> oc_enabled c))
      (\<lambda>_. access_inv ops n)" for i p
    using authenticated_enabled by (fastforce simp: triple_def access_inv_def split: option.split)
  have after: "triple (\<lambda>a. access_inv ops n a
        \<and> (case found of None \<Rightarrow> True | Some c \<Rightarrow> c \<in> set ops \<and> oc_enabled c))
      (case found of None \<Rightarrow> m | Some c \<Rightarrow> k c) (\<lambda>_. access_inv ops n) (\<lambda>_. access_inv ops n)"
    if "keeps (access_inv ops n) m"
      "\<And>c. c \<in> set ops \<Longrightarrow> oc_enabled c \<Longrightarrow> keeps (access_inv ops n) (k c)"
    for found m and k :: "operator_credential \<Rightarrow> (access, 'b) action"
    using that by (cases found) (auto simp: triple_def)
  show ?thesis
    unfolding operator_login_def
    by (rule keeps_seq [OF keeps_access_atoms(6)] keeps_intros triple_seq [OF found] after
        keeps_access_create | assumption)+
qed

lemma keeps_access_step: "access_inv ops n a \<Longrightarrow> access_inv ops n (access_step E a call)"
proof (cases call)
  case (LoginCall rq)
  then show "access_inv ops n a \<Longrightarrow> ?thesis"
    using keepsD [OF keeps_access_login] by (metis access_step.simps(1) prod.collapse)
next
  case (SessionCall rq)
  have "keeps (access_inv ops n) (operator_session E rq)"
    unfolding operator_session_def by (intro keeps_intros keeps_access_rotate)
  then show "access_inv ops n a \<Longrightarrow> ?thesis"
    using keepsD SessionCall by (metis access_step.simps(2) prod.collapse)
next
  case (LogoutCall rq)
  have "keeps (access_inv ops n) (operator_logout E rq)"
    unfolding operator_logout_def by (intro keeps_intros keeps_access_revoke)
  then show "access_inv ops n a \<Longrightarrow> ?thesis"
    using keepsD LogoutCall by (metis access_step.simps(3) prod.collapse)
next
  case (ProbeCall rq)
  have "keeps (access_inv ops n) (operator_probe E rq)"
    unfolding operator_probe_def by (intro keeps_intros)
  then show "access_inv ops n a \<Longrightarrow> ?thesis"
    using keepsD ProbeCall by (metis access_step.simps(4) prod.collapse)
next
  case (MutationCall permission rq)
  then show "access_inv ops n a \<Longrightarrow> ?thesis"
    using keepsD [OF keeps_access_mutation] by (metis access_step.simps(5) prod.collapse)
qed

lemma keeps_access_steps: "access_inv ops n a \<Longrightarrow> access_inv ops n (foldl (access_step E) a calls)"
  by (induction calls arbitrary: a) (simp_all add: keeps_access_step)

text \<open>The state \<open>main.py\<close> sets up.\<close>

definition new_access :: "operator_credential list \<Rightarrow> string list \<Rightarrow> int \<Rightarrow> rate_limiter
    \<Rightarrow> rate_limiter \<Rightarrow> access" where
  "new_access operators trusted_origins lifetime login_limiter mutation_limiter =
     \<lparr>ac_enabled = True, ac_trusted_origins = trusted_origins, ac_operators = operators,
      ac_sessions = \<lparr>ss_lifetime_seconds = lifetime, ss_rows = []\<rparr>,
      ac_login_limiter = login_limiter, ac_mutation_limiter = mutation_limiter, ac_audit = [],
      ac_reads = 0, ac_draws = 0\<rparr>"

lemma traverse_unit_valid:
  "traverse f xs = Inr (us :: unit list) \<Longrightarrow> x \<in> set xs \<Longrightarrow> f x = Inr ()"
  by (auto simp: traverse_Inr_iff list_all2_conv_all_nth in_set_conv_nth)

lemma load_verifier_valid:
  assumes "load_verifier argon2id file = Inr operators" "c \<in> set operators"
  shows "validate_credential c = Inr ()"
proof -
  obtain us where "traverse validate_credential operators = Inr us"
    using assms(1) by (auto simp: load_verifier_def validate_credential_file_def res_simps
        split: option.splits if_splits sum.splits)
  then show ?thesis using assms(2) by (rule traverse_unit_valid)
qed

text \<open>
  C36. Every authorised mutation goes back to an operator of the verifier file: whatever logins, session
  reads, logouts and mutations came before, a mutation is let through only for an enabled operator
  whose credential grants that very permission, with exactly the permissions of that credential,
  and within the lifetime of a session since the operator authenticated.
\<close>

theorem mutations_are_of_known_operators:
  "case load_verifier argon2id file of
     Inl e \<Rightarrow> True
   | Inr operators \<Rightarrow>
       (let a = foldl (access_step E) (new_access operators origins lifetime l1 l2) calls in
        case fst (require_operator_mutation permission E rq a) of
          Inl e \<Rightarrow> True
        | Inr who \<Rightarrow>
            list_ex (\<lambda>c. oc_enabled c \<and> oc_operator_id c = op_operator_id who
              \<and> permission \<in> set (oc_permissions c) \<and> op_permissions who = sort (oc_permissions c))
              operators
            \<and> ae_clock E (ac_reads a) < op_authenticated_at who + lifetime * 1000000)"
proof (cases "load_verifier argon2id file")
  case (Inr operators)
  define a where "a = foldl (access_step E) (new_access operators origins lifetime l1 l2) calls"
  have inv: "access_inv operators lifetime a"
    unfolding a_def by (rule keeps_access_steps) (simp add: access_inv_def new_access_def)
  have "list_ex (\<lambda>c. oc_enabled c \<and> oc_operator_id c = op_operator_id who
        \<and> permission \<in> set (oc_permissions c) \<and> op_permissions who = sort (oc_permissions c)) operators
      \<and> ae_clock E (ac_reads a) < op_authenticated_at who + lifetime * 1000000"
    if ok: "fst (require_operator_mutation permission E rq a) = Inr who" for who
  proof -
    obtain session where found: "resolve_token (ac_sessions a) (rq_cookie rq) (ae_clock E (ac_reads a))
        = Inr (Some session)" and who: "who = rs_principal session" "permission \<in> set (op_permissions who)"
      using ok mutation_authorised_eq by blast
    obtain r where r: "r \<in> set (ss_rows (ac_sessions a))" "ae_clock E (ac_reads a) < sr_expires_at r"
      "op_operator_id who = sr_operator_id r" "op_authenticated_at who = sr_authenticated_at r"
      "op_permissions who = filter (\<lambda>p. p \<noteq> []) (split_on CHR 0x0A (sr_permissions r))"
      using resolved_row [OF found] who by auto
    have "row_genuine operators lifetime r" using inv r(1) by (simp add: access_inv_def list_all_iff)
    then obtain c where c: "c \<in> set operators" "oc_enabled c" "sr_operator_id r = oc_operator_id c"
      "sr_permissions r = join newline (sort (oc_permissions c))"
      "sr_expires_at r = sr_authenticated_at r + lifetime * 1000000"
      by (auto simp: row_genuine_def list_ex_iff)
    have "op_permissions who = sort (oc_permissions c)"
      using permissions_round_trip [OF credential_permission_texts [OF load_verifier_valid [OF Inr c(1)]]]
        r c by simp
    then show ?thesis using r c who(2) by (auto simp: list_ex_iff)
  qed
  then show ?thesis by (simp add: Inr Let_def flip: a_def split: sum.split)
qed simp

end
