(* ===== verification/WorkerLedger.thy ===== *)
theory WorkerLedger
  imports WorkerContracts Contracts
begin

text \<open>
  The execution worker's ledgers: the durable table of request claims and terminal results
  (\<open>atlas_execution_worker/durable_ledger.py\<close>), the validation of its rows
  (\<open>execution/worker_ledger_contract.py\<close> of the Agent) and the in-memory ledger
  (\<open>ledger.py\<close>). The table is a list of rows. A method holds the process lock and one immediate
  transaction, so it is one step; an exception before the commit rolls back. The timestamp
  columns only hold the instants \<open>_now\<close> wrote, which \<open>_timestamp\<close> accepts; the result column
  holds what its text decodes to. The clock of each call is an argument.
\<close>

section \<open>Rows\<close>

datatype result_column = Undecoded | DecodesTo worker_result

record worker_row =
  wl_execution_request_id :: string
  wl_request_digest :: string
  wl_schema_version :: int
  wl_state :: string
  wl_created_at :: int
  wl_updated_at :: int
  wl_attempt :: int
  wl_execution_started_at :: "int option"
  wl_workspace_token :: "string option"
  wl_result_json :: "result_column option"

definition durable_states :: "string list" where
  "durable_states = [''claimed'', ''executing'', ''completed'', ''failed_terminal'', ''unknown_outcome'']"

definition terminal_states :: "string list" where
  "terminal_states = [''completed'', ''failed_terminal'', ''unknown_outcome'']"

fun worker_status_text :: "worker_status \<Rightarrow> string" where
  "worker_status_text WS_SUCCEEDED = ''succeeded''"
| "worker_status_text WS_FAILED = ''failed''"
| "worker_status_text WS_BLOCKED = ''blocked''"
| "worker_status_text WS_UNKNOWN = ''unknown''"

fun failure_code_text :: "worker_failure \<Rightarrow> string" where
  "failure_code_text STALE_REPOSITORY = ''stale_repository''"
| "failure_code_text INVALID_REQUEST = ''invalid_request''"
| "failure_code_text INVALID_ARGV = ''invalid_argv''"
| "failure_code_text SANDBOX_UNAVAILABLE = ''sandbox_unavailable''"
| "failure_code_text AUTH_UNAVAILABLE = ''auth_unavailable''"
| "failure_code_text WORKER_TIMEOUT = ''timeout''"
| "failure_code_text CODEX_FAILED = ''codex_failed''"
| "failure_code_text OUT_OF_SCOPE_CHANGES = ''out_of_scope_changes''"
| "failure_code_text NO_COMMITTABLE_CHANGES = ''no_committable_changes''"
| "failure_code_text PATCH_TOO_LARGE = ''patch_too_large''"
| "failure_code_text DUPLICATE_REQUEST = ''duplicate_request''"
| "failure_code_text WORKER_UNAVAILABLE = ''worker_unavailable''"
| "failure_code_text WORKER_CRASH = ''worker_crash''"

definition json_number :: "int option \<Rightarrow> json" where
  "json_number n = (case n of None \<Rightarrow> JNull | Some i \<Rightarrow> JNum (int_text i))"

definition output_json :: "bounded_output \<Rightarrow> json" where
  "output_json out = JObj [(''text'', JStr (bo_text out)), (''truncated'', JBool (bo_truncated out)),
     (''original_bytes'', json_number (bo_original_bytes out))]"

definition attestation_json :: "worker_attestation \<Rightarrow> json" where
  "attestation_json a = JObj
     [(''runtime_uid'', JNum (int_text (wa_runtime_uid a))),
      (''readonly_rootfs'', JBool (wa_readonly_rootfs a)),
      (''no_new_privileges'', JBool (wa_no_new_privileges a)),
      (''effective_capabilities'', JStr (wa_effective_capabilities a)),
      (''sandbox_profile'', JStr (wa_sandbox_profile a))]"

definition worker_result_json :: "worker_result \<Rightarrow> json" where
  "worker_result_json w = JObj
     [(''schema_version'', JNum (int_text (ws_schema_version w))),
      (''execution_request_id'', JStr (ws_execution_request_id w)),
      (''status'', JStr (worker_status_text (ws_status w))),
      (''return_code'', json_number (ws_return_code w)),
      (''stdout'', output_json (ws_stdout w)),
      (''stderr'', output_json (ws_stderr w)),
      (''changed_files'', JArr (map JStr (ws_changed_files w))),
      (''patch_digest'', json_text (ws_patch_digest w)),
      (''patch_size_bytes'', json_number (ws_patch_size_bytes w)),
      (''patch_truncated'', JBool (ws_patch_truncated w)),
      (''duration_seconds'', JNum (number_text (ws_duration_seconds w))),
      (''failure_code'', json_text (map_option failure_code_text (ws_failure_code w))),
      (''workspace_head'', json_text (ws_workspace_head w)),
      (''worker_attestation'', attestation_json (ws_attestation w)),
      (''base_repository_head'', json_text (ws_base_repository_head w)),
      (''patch'', case ws_patch w of None \<Rightarrow> JNull | Some p \<Rightarrow> output_json p)]"

text \<open>\<open>json.dumps(result.to_dict(), sort_keys=True, separators=(",", ":"))\<close>.\<close>

definition encode_result :: "worker_result \<Rightarrow> string" where
  "encode_result w = dumps_ascii (worker_result_json w)"

definition result_text_limit :: nat where
  "result_text_limit = 24 * 1024 * 1024"

definition expected_state :: "worker_result \<Rightarrow> string" where
  "expected_state w = (if ws_status w = WS_SUCCEEDED then ''completed''
     else if ws_status w = WS_UNKNOWN then ''unknown_outcome'' else ''failed_terminal'')"

definition workspace_token_ok :: "string \<Rightarrow> bool" where
  "workspace_token_ok t \<longleftrightarrow> t \<noteq> [] \<and> length t \<le> 1024 \<and> CHR 0x00 \<notin> set t"

definition validate_row_result :: "worker_row \<Rightarrow> worker_result option res" where
  "validate_row_result row =
     (if wl_state row \<notin> set terminal_states
      then and_then (require (wl_result_json row = None)
          (ValueError ''nonterminal worker row has a result'')) (\<lambda>_. Inr None)
      else (case wl_result_json row of
          None \<Rightarrow> Inl (ValueError ''terminal worker row has no bounded result'')
        | Some Undecoded \<Rightarrow> Inl (ValueError ''invalid stored worker result'')
        | Some (DecodesTo w) \<Rightarrow>
            and_then (require (length (encode_result w) \<le> result_text_limit)
              (ValueError ''terminal worker row has no bounded result'')) (\<lambda>_.
            and_then (require (succeeds (validate_worker_result None w))
              (ValueError ''invalid stored worker result'')) (\<lambda>_.
            and_then (require (ws_execution_request_id w = wl_execution_request_id row)
              (ValueError ''worker result identity mismatch'')) (\<lambda>_.
            and_then (require (wl_state row = expected_state w)
              (ValueError ''worker result and ledger state mismatch'')) (\<lambda>_.
            Inr (Some w)))))))"

definition validate_worker_row :: "worker_row \<Rightarrow> worker_result option res" where
  "validate_worker_row row =
     and_then (require (worker_id (wl_execution_request_id row))
       (ValueError ''invalid worker ledger identity'')) (\<lambda>_.
     and_then (require (worker_digest_shape (wl_request_digest row))
       (ValueError ''invalid worker ledger digest'')) (\<lambda>_.
     and_then (require (wl_schema_version row = 1 \<and> wl_attempt row = 1)
       (ValueError ''unsupported worker ledger version or attempt'')) (\<lambda>_.
     and_then (require (wl_state row \<in> set durable_states)
       (ValueError ''invalid worker ledger state'')) (\<lambda>_.
     and_then (require (\<not> (wl_state row = ''claimed'' \<and> wl_execution_started_at row \<noteq> None)
         \<and> \<not> (wl_state row \<in> set [''executing'', ''unknown_outcome'']
            \<and> wl_execution_started_at row = None))
       (ValueError ''worker start marker mismatch'')) (\<lambda>_.
     and_then (require (case wl_workspace_token row of None \<Rightarrow> True | Some t \<Rightarrow> workspace_token_ok t)
       (ValueError ''invalid worker workspace reference'')) (\<lambda>_.
     validate_row_result row))))))"

record durable_entry =
  de_execution_request_id :: string
  de_request_digest :: string
  de_schema_version :: int
  de_state :: string
  de_created_at :: int
  de_updated_at :: int
  de_attempt :: int
  de_execution_started_at :: "int option"
  de_workspace_token :: "string option"
  de_result :: "worker_result option"

definition row_entry :: "worker_row \<Rightarrow> durable_entry res" where
  "row_entry row =
     (case validate_worker_row row of
        Inl e \<Rightarrow> Inl (DurableLedgerCorruptionError ''stored worker ledger record is invalid'')
      | Inr result \<Rightarrow> Inr
          \<lparr>de_execution_request_id = wl_execution_request_id row,
           de_request_digest = wl_request_digest row, de_schema_version = wl_schema_version row,
           de_state = wl_state row, de_created_at = wl_created_at row,
           de_updated_at = wl_updated_at row, de_attempt = wl_attempt row,
           de_execution_started_at = wl_execution_started_at row,
           de_workspace_token = wl_workspace_token row, de_result = result\<rparr>)"

section \<open>The durable ledger\<close>

type_synonym worker_rows = "worker_row list"

definition find_execution :: "string \<Rightarrow> worker_rows \<Rightarrow> worker_row option" where
  "find_execution request_id rows = List.find (\<lambda>r. wl_execution_request_id r = request_id) rows"

definition row_for :: "string \<Rightarrow> worker_rows \<Rightarrow> worker_row res" where
  "row_for request_id rows = (case find_execution request_id rows of
     None \<Rightarrow> Inl (KeyError request_id) | Some row \<Rightarrow> Inr row)"

definition check_digest :: "worker_row \<Rightarrow> worker_request \<Rightarrow> durable_entry res" where
  "check_digest row request =
     and_then (row_entry row) (\<lambda>entry.
     and_then (require (wl_request_digest row = wr_request_digest request)
       (DurableLedgerConflictError ''execution request ID has a different digest'')) (\<lambda>_.
     Inr entry))"

definition update_execution :: "(worker_row \<Rightarrow> bool) \<Rightarrow> (worker_row \<Rightarrow> worker_row) \<Rightarrow> worker_rows
    \<Rightarrow> worker_rows" where
  "update_execution p f rows = map (\<lambda>r. if p r then f r else r) rows"

definition claimed_row :: "int \<Rightarrow> worker_request \<Rightarrow> worker_row" where
  "claimed_row now request =
     \<lparr>wl_execution_request_id = wr_execution_request_id request,
      wl_request_digest = wr_request_digest request,
      wl_schema_version = wr_schema_version request, wl_state = ''claimed'',
      wl_created_at = now, wl_updated_at = now, wl_attempt = 1, wl_execution_started_at = None,
      wl_workspace_token = Some (wr_execution_request_id request), wl_result_json = None\<rparr>"

definition claim_execution :: "int \<Rightarrow> worker_request \<Rightarrow> (worker_rows, durable_entry) action" where
  "claim_execution now request rows =
     (case validate_worker_request True request of
        Inl e \<Rightarrow> (Inl e, rows)
      | Inr _ \<Rightarrow>
        (case find_execution (wr_execution_request_id request) rows of
           None \<Rightarrow> (row_entry (claimed_row now request), rows @ [claimed_row now request])
         | Some row \<Rightarrow> (check_digest row request, rows)))"

text \<open>\<open>mark_executing\<close> raises \<open>DurableLedgerStartConflict\<close> with the entry it found.\<close>

datatype start_result = Started durable_entry | StartConflict durable_entry

definition mark_executing :: "int \<Rightarrow> worker_request \<Rightarrow> (worker_rows, start_result) action" where
  "mark_executing now request rows =
     (case and_then (validate_worker_request True request) (\<lambda>_.
           and_then (row_for (wr_execution_request_id request) rows) (\<lambda>row.
           and_then (check_digest row request) (\<lambda>entry. Inr (row, entry)))) of
        Inl e \<Rightarrow> (Inl e, rows)
      | Inr (row, entry) \<Rightarrow>
        if wl_state row \<noteq> ''claimed'' then (Inr (StartConflict entry), rows)
        else let rows' = update_execution (\<lambda>r. wl_execution_request_id r = wr_execution_request_id request
                 \<and> wl_state r = ''claimed'')
               (\<lambda>r. r\<lparr>wl_state := ''executing'', wl_execution_started_at := Some now,
                 wl_updated_at := now\<rparr>) rows in
          (and_then (row_for (wr_execution_request_id request) rows') (\<lambda>row.
             and_then (row_entry row) (\<lambda>entry. Inr (Started entry))), rows'))"

text \<open>Numbers are compared as Python does: \<open>0 == 0.0\<close>.\<close>

definition all_zeros :: "string \<Rightarrow> bool" where
  "all_zeros s = list_all (\<lambda>c. c = CHR ''0'') s"

fun same_number :: "py_number \<Rightarrow> py_number \<Rightarrow> bool" where
  "same_number (PyInt i) (PyInt j) = (i = j)"
| "same_number (PyInt i) (PyFloat neg ip fd) = (all_zeros fd \<and> i = (if neg then - int ip else int ip))"
| "same_number (PyFloat neg ip fd) (PyInt i) = (all_zeros fd \<and> i = (if neg then - int ip else int ip))"
| "same_number (PyFloat m ip fd) (PyFloat n jp gd) =
     (ip = jp \<and> dropWhile (\<lambda>c. c = CHR ''0'') (rev fd) = dropWhile (\<lambda>c. c = CHR ''0'') (rev gd)
      \<and> (m = n \<or> (ip = 0 \<and> all_zeros fd)))"
| "same_number _ _ = False"

definition same_result :: "worker_result \<Rightarrow> worker_result \<Rightarrow> bool" where
  "same_result w v \<longleftrightarrow> same_number (ws_duration_seconds w) (ws_duration_seconds v)
     \<and> w\<lparr>ws_duration_seconds := ws_duration_seconds v\<rparr> = v"

definition result_state :: "worker_result \<Rightarrow> string" where
  "result_state w = (if ws_status w = WS_SUCCEEDED then ''completed''
     else if ws_failure_code w = Some WORKER_CRASH then ''unknown_outcome'' else ''failed_terminal'')"

text \<open>The result column of the row takes the text of the result; it reads back what \<open>to_dict\<close> wrote.\<close>

definition persist_result ::
  "int \<Rightarrow> worker_request \<Rightarrow> worker_result \<Rightarrow> (worker_rows, durable_entry) action" where
  "persist_result now request result rows =
     (case and_then (validate_worker_result (Some request) result) (\<lambda>_.
           and_then (row_for (wr_execution_request_id request) rows) (\<lambda>row.
           and_then (check_digest row request) (\<lambda>entry. Inr (row, entry)))) of
        Inl e \<Rightarrow> (Inl e, rows)
      | Inr (row, existing) \<Rightarrow>
        if wl_state row \<in> set terminal_states
        then (case de_result existing of
            None \<Rightarrow> (Inl (DurableLedgerError ''terminal result is immutable''), rows)
          | Some stored \<Rightarrow>
              if \<not> same_result stored result
              then (Inl (DurableLedgerError ''terminal result is immutable''), rows)
              else (Inr existing, rows))
        else if ws_status result = WS_SUCCEEDED \<and> wl_state row \<noteq> ''executing''
        then (Inl (DurableLedgerError ''successful result requires the execution start barrier''), rows)
        else
          let store = (\<lambda>r. r\<lparr>wl_state := result_state result,
                wl_result_json := Some (DecodesTo result), wl_updated_at := now\<rparr>) in
          (case row_entry (store row) of
             Inl e \<Rightarrow> (Inl e, rows)
           | Inr _ \<Rightarrow>
             let rows' = update_execution
                   (\<lambda>r. wl_execution_request_id r = wr_execution_request_id request) store rows in
             (and_then (row_for (wr_execution_request_id request) rows') row_entry, rows')))"

definition empty_output :: bounded_output where
  "empty_output = \<lparr>bo_text = [], bo_truncated = False, bo_original_bytes = None\<rparr>"

definition stand_in_attestation :: "string \<Rightarrow> worker_attestation" where
  "stand_in_attestation profile =
     \<lparr>wa_runtime_uid = 10001, wa_readonly_rootfs = True, wa_no_new_privileges = True,
      wa_effective_capabilities = ''0000000000000000'', wa_sandbox_profile = profile\<rparr>"

definition unknown_result :: "string \<Rightarrow> worker_result" where
  "unknown_result request_id =
     \<lparr>ws_schema_version = 1, ws_execution_request_id = request_id, ws_status = WS_UNKNOWN,
      ws_return_code = None, ws_stdout = empty_output, ws_stderr = empty_output,
      ws_changed_files = [], ws_patch_digest = None, ws_patch_size_bytes = None,
      ws_patch_truncated = False, ws_duration_seconds = PyInt 0,
      ws_failure_code = Some WORKER_CRASH, ws_workspace_head = None,
      ws_attestation = stand_in_attestation ''unknown-outcome'',
      ws_base_repository_head = None, ws_patch = None\<rparr>"

text \<open>\<open>to_dict\<close> validates the result before the transaction begins.\<close>

definition mark_unknown_outcome :: "int \<Rightarrow> string \<Rightarrow> (worker_rows, durable_entry) action" where
  "mark_unknown_outcome now request_id rows =
     (case and_then (validate_worker_result None (unknown_result request_id)) (\<lambda>_.
           and_then (row_for request_id rows) (\<lambda>row.
           and_then (row_entry row) (\<lambda>entry. Inr row))) of
        Inl e \<Rightarrow> (Inl e, rows)
      | Inr row \<Rightarrow>
        let rows' = (if wl_state row = ''executing''
              then update_execution (\<lambda>r. wl_execution_request_id r = request_id)
                (\<lambda>r. r\<lparr>wl_state := ''unknown_outcome'',
                  wl_result_json := Some (DecodesTo (unknown_result request_id)),
                  wl_updated_at := now\<rparr>) rows
              else rows) in
        (and_then (row_for request_id rows') row_entry, rows'))"

record reconciliation =
  rc_claimed :: nat
  rc_unknown_outcome :: nat

definition reconcile_executions :: "int \<Rightarrow> (worker_rows, reconciliation) action" where
  "reconcile_executions now rows =
     (case and_then (traverse row_entry rows) (\<lambda>entries.
           let executing = map de_execution_request_id (filter (\<lambda>e. de_state e = ''executing'') entries) in
           and_then (traverse (\<lambda>rid. validate_worker_result None (unknown_result rid)) executing) (\<lambda>_.
           Inr (entries, executing))) of
        Inl e \<Rightarrow> (Inl e, rows)
      | Inr (entries, executing) \<Rightarrow>
        (Inr \<lparr>rc_claimed = length (filter (\<lambda>e. de_state e = ''claimed'') entries),
              rc_unknown_outcome = length executing\<rparr>,
         fold (\<lambda>request_id. update_execution (\<lambda>r. wl_execution_request_id r = request_id
             \<and> wl_state r = ''executing'')
           (\<lambda>r. r\<lparr>wl_state := ''unknown_outcome'',
             wl_result_json := Some (DecodesTo (unknown_result request_id)),
             wl_updated_at := now\<rparr>)) executing rows))"

definition get_execution :: "string \<Rightarrow> worker_rows \<Rightarrow> durable_entry option res" where
  "get_execution request_id rows =
     (case find_execution request_id rows of
        None \<Rightarrow> Inr None
      | Some row \<Rightarrow> and_then (row_entry row) (\<lambda>entry. Inr (Some entry)))"

definition add_count :: "string \<Rightarrow> (string \<times> nat) list \<Rightarrow> (string \<times> nat) list" where
  "add_count state counts =
     AList.update state (case map_of counts state of None \<Rightarrow> 1 | Some n \<Rightarrow> n + 1) counts"

definition execution_counts :: "worker_rows \<Rightarrow> (string \<times> nat) list res" where
  "execution_counts rows =
     and_then (traverse row_entry rows) (\<lambda>entries.
     Inr (foldl (\<lambda>counts entry. add_count (de_state entry) counts) [] entries))"

section \<open>The in-memory ledger\<close>

record memory_entry =
  me_request_digest :: string
  me_state :: string
  me_result :: "worker_result option"

type_synonym memory_ledger = "(string \<times> memory_entry) list"

definition memory_claim :: "worker_request \<Rightarrow> (memory_ledger, memory_entry) action" where
  "memory_claim request entries =
     (case map_of entries (wr_execution_request_id request) of
        Some current \<Rightarrow>
          if me_request_digest current \<noteq> wr_request_digest request
          then (Inl (RequestConflictError ''execution request ID has conflicting digest''), entries)
          else (Inr current, entries)
      | None \<Rightarrow>
          let entry = \<lparr>me_request_digest = wr_request_digest request, me_state = ''claimed'',
                me_result = None\<rparr> in
          (Inr entry, AList.update (wr_execution_request_id request) entry entries))"

definition memory_complete ::
  "worker_request \<Rightarrow> worker_result \<Rightarrow> (memory_ledger, memory_entry) action" where
  "memory_complete request result entries =
     (case validate_worker_result (Some request) result of
        Inl e \<Rightarrow> (Inl e, entries)
      | Inr _ \<Rightarrow>
        (case map_of entries (wr_execution_request_id request) of
           None \<Rightarrow> (Inl (KeyError (wr_execution_request_id request)), entries)
         | Some current \<Rightarrow>
             if me_request_digest current \<noteq> wr_request_digest request
             then (Inl (RequestConflictError ''execution request ID has conflicting digest''), entries)
             else if me_state current = ''completed'' then (Inr current, entries)
             else let entry = \<lparr>me_request_digest = me_request_digest current,
                    me_state = ''completed'', me_result = Some result\<rparr> in
               (Inr entry, AList.update (wr_execution_request_id request) entry entries)))"
section \<open>Rows that read back\<close>

lemma row_entry_Inr_iff:
  "row_entry row = Inr entry \<longleftrightarrow> (\<exists>result. validate_worker_row row = Inr result
     \<and> entry = \<lparr>de_execution_request_id = wl_execution_request_id row,
           de_request_digest = wl_request_digest row, de_schema_version = wl_schema_version row,
           de_state = wl_state row, de_created_at = wl_created_at row,
           de_updated_at = wl_updated_at row, de_attempt = wl_attempt row,
           de_execution_started_at = wl_execution_started_at row,
           de_workspace_token = wl_workspace_token row, de_result = result\<rparr>)"
  by (auto simp: row_entry_def split: sum.splits)

definition row_valid :: "worker_row \<Rightarrow> bool" where
  "row_valid row = succeeds (validate_worker_row row)"

definition rows_valid :: "worker_rows \<Rightarrow> bool" where
  "rows_valid rows \<longleftrightarrow> distinct (map wl_execution_request_id rows) \<and> list_all row_valid rows"

lemma row_entry_valid: "succeeds (row_entry row) = row_valid row"
  by (simp add: row_entry_def row_valid_def split: sum.split)

lemma row_entry_Inl:
  "row_entry row = Inl e \<Longrightarrow> \<not> row_valid row"
  using row_entry_valid [of row] by (simp add: succeeds_iff)

lemma find_execution_row:
  "find_execution k rows = Some row \<Longrightarrow> wl_execution_request_id row = k \<and> row \<in> set rows"
  by (auto simp: find_execution_def find_Some_iff)

lemma find_execution_valid: "rows_valid rows \<Longrightarrow> find_execution k rows = Some row \<Longrightarrow> row_valid row"
  using find_execution_row by (fastforce simp: rows_valid_def list_all_iff)

lemma find_execution_Cons:
  "find_execution k (r # rows) = (if wl_execution_request_id r = k then Some r else find_execution k rows)"
  by (simp add: find_execution_def)

lemma find_execution_None: "find_execution k rows = None \<longleftrightarrow> k \<notin> wl_execution_request_id ` set rows"
  by (auto simp: find_execution_def find_None_iff)

lemma find_execution_append:
  "find_execution k (rows @ [r]) = (case find_execution k rows of
     None \<Rightarrow> if wl_execution_request_id r = k then Some r else None | Some row \<Rightarrow> Some row)"
  by (induction rows) (simp_all add: find_execution_def)

lemma find_execution_update:
  assumes "\<And>r. wl_execution_request_id (f r) = wl_execution_request_id r"
  shows "find_execution k (update_execution p f rows)
    = map_option (\<lambda>r. if p r then f r else r) (find_execution k rows)"
  using assms by (induction rows) (auto simp: find_execution_def update_execution_def)

lemma rows_valid_append:
  "rows_valid rows \<Longrightarrow> find_execution (wl_execution_request_id r) rows = None \<Longrightarrow> row_valid r
    \<Longrightarrow> rows_valid (rows @ [r])"
  by (auto simp: rows_valid_def find_execution_None)

lemma rows_valid_update:
  assumes "rows_valid rows" "\<And>r. wl_execution_request_id (f r) = wl_execution_request_id r"
    "\<And>r. r \<in> set rows \<Longrightarrow> p r \<Longrightarrow> row_valid (f r)"
  shows "rows_valid (update_execution p f rows)"
proof -
  have "map wl_execution_request_id (update_execution p f rows) = map wl_execution_request_id rows"
    using assms(2) by (simp add: update_execution_def)
  moreover have "list_all row_valid (update_execution p f rows)"
    using assms by (auto simp: rows_valid_def list_all_iff update_execution_def)
  ultimately show ?thesis using assms(1) by (simp add: rows_valid_def)
qed

lemma unique_row:
  assumes "rows_valid rows" "find_execution k rows = Some row" "r \<in> set rows"
    "wl_execution_request_id r = k"
  shows "r = row"
  using assms find_execution_row [OF assms(2)]
  by (auto simp: rows_valid_def distinct_map inj_on_def)

subsection \<open>The stand-in for a lost result\<close>

text \<open>An upper bound of the length of a value's text, the same in every order of the keys.\<close>

fun json_bound :: "json \<Rightarrow> nat" where
  "json_bound JNull = 4"
| "json_bound (JBool b) = 5"
| "json_bound (JNum t) = length t"
| "json_bound (JStr s) = 6 * length s + 2"
| "json_bound (JArr xs) = 2 + sum_list (map (\<lambda>x. json_bound x + 1) xs)"
| "json_bound (JObj kvs) = 2 + sum_list (map (\<lambda>(k, v). 6 * length k + 4 + json_bound v) kvs)"

lemma length_escape_ascii: "length (escape_ascii c) \<le> 6"
  by (simp add: escape_ascii_def escape_char_def Let_def)

lemma length_quote_ascii: "length (quote escape_ascii s) \<le> 6 * length s + 2"
proof -
  have "length (concat (map escape_ascii s)) \<le> 6 * length s"
  proof (induction s)
    case (Cons c s)
    then show ?case using length_escape_ascii [of c] by simp
  qed simp
  then show ?thesis by (simp add: quote_def)
qed

lemma length_render_bound_ascii:
  "esc = escape_ascii \<Longrightarrow> length (render esc v) \<le> json_bound v"
  "esc = escape_ascii \<Longrightarrow> length (render_items esc xs) \<le> 1 + sum_list (map (\<lambda>x. json_bound x + 1) xs)"
  "esc = escape_ascii \<Longrightarrow> length (render_members esc kvs)
     \<le> 1 + sum_list (map (\<lambda>(k, v). 6 * length k + 4 + json_bound v) kvs)"
proof (induction esc v and esc xs and esc kvs rule: render_render_items_render_members.induct)
  case (4 esc s)
  then show ?case using length_quote_ascii [of s] by simp
next
  case (11 esc k v)
  then show ?case using length_quote_ascii [of k] by simp
next
  case (12 esc k v kv kvs)
  then show ?case using length_quote_ascii [of k] by simp
qed auto

lemmas length_render_bound = length_render_bound_ascii(1) [OF refl]

lemma sum_list_sort_key: "sum_list (map f (sort_key g xs)) = (sum_list (map f xs) :: nat)"
proof -
  have insort: "sum_list (map f (insort_key g x ys)) = f x + sum_list (map f ys)" for x ys
    by (induction ys) auto
  show ?thesis by (induction xs) (simp_all add: insort)
qed

lemma json_bound_sorted: "json_bound (sort_keys v) = json_bound v"
proof (induction v)
  case (JArr xs)
  then show ?case by (simp add: comp_def cong: map_cong)
next
  case (JObj kvs)
  have "map (\<lambda>(k, v). 6 * length k + 4 + json_bound v) (map (\<lambda>(k, v). (k, sort_keys v)) kvs)
      = map (\<lambda>(k, v). 6 * length k + 4 + json_bound v) kvs"
    using JObj [OF _ snds.intros] by (auto simp del: snds.simps)
  then show ?case by (simp only: sort_keys.simps json_bound.simps sum_list_sort_key)
qed simp_all

lemma encode_result_bound: "length (encode_result w) \<le> json_bound (worker_result_json w)"
  using length_render_bound [of "sort_keys (worker_result_json w)"]
  by (simp add: encode_result_def dumps_ascii_def json_bound_sorted)

lemma worker_id_length: "worker_id s \<Longrightarrow> s \<noteq> [] \<and> length s \<le> 256"
  by (cases s) (auto simp: worker_id_def)

lemma unknown_result_valid:
  assumes "worker_id rid"
  shows "validate_worker_result None (unknown_result rid) = Inr ()"
  using assms
  by (simp add: validate_worker_result_def unknown_result_def empty_output_def stand_in_attestation_def
      validate_id_def validate_output_def canonical_files_def validate_attestation_def
      validate_outcome_def worker_schema_version_def utf8_def max_changed_files_def optional_head_def
      is_hex_char_def is_lower_hex_def in_range_def hex_value_def hex_digit_value_def lower_def
      lower_char_def starts_with_def)

lemma unknown_result_bounded:
  assumes "worker_id rid"
  shows "length (encode_result (unknown_result rid)) \<le> result_text_limit"
proof -
  have "json_bound (worker_result_json (unknown_result rid)) \<le> result_text_limit"
    using worker_id_length [OF assms]
    by (simp add: worker_result_json_def unknown_result_def output_json_def empty_output_def
        attestation_json_def stand_in_attestation_def json_number_def int_text_def nat_text.simps
        result_text_limit_def)
  then show ?thesis using encode_result_bound [of "unknown_result rid"] by linarith
qed

section \<open>Every operation keeps the rows valid\<close>

lemma accepted_request:
  assumes "validate_worker_request True request = Inr ()"
  shows "worker_id (wr_execution_request_id request)" "worker_digest_shape (wr_request_digest request)"
    "wr_schema_version request = 1"
  using assms
  by (auto simp: validate_worker_request_def validate_ids_def validate_id_def worker_schema_version_def
      res_simps)

lemma not_space_token: "is_token_start c \<or> c \<in> set ''._:-'' \<Longrightarrow> c \<noteq> CHR 0x00"
  by (auto simp: is_token_start_def is_digit_def in_range_def)

lemma worker_id_token: "worker_id s \<Longrightarrow> workspace_token_ok s"
  using worker_id_length [of s] not_space_token
  by (cases s) (auto simp: worker_id_def workspace_token_ok_def list_all_iff)

lemma claimed_row_valid:
  "validate_worker_request True request = Inr () \<Longrightarrow> row_valid (claimed_row now request)"
  using accepted_request [of request] worker_id_token [of "wr_execution_request_id request"]
  by (simp add: row_valid_def validate_worker_row_def claimed_row_def durable_states_def
      validate_row_result_def terminal_states_def)

lemma validate_worker_row_Inr:
  "validate_worker_row row = Inr result \<longleftrightarrow>
     worker_id (wl_execution_request_id row) \<and> worker_digest_shape (wl_request_digest row)
     \<and> wl_schema_version row = 1 \<and> wl_attempt row = 1 \<and> wl_state row \<in> set durable_states
     \<and> \<not> (wl_state row = ''claimed'' \<and> wl_execution_started_at row \<noteq> None)
     \<and> \<not> (wl_state row \<in> set [''executing'', ''unknown_outcome''] \<and> wl_execution_started_at row = None)
     \<and> (case wl_workspace_token row of None \<Rightarrow> True | Some t \<Rightarrow> workspace_token_ok t)
     \<and> validate_row_result row = Inr result"
  by (auto simp: validate_worker_row_def res_simps)

lemma row_valid_iff:
  "row_valid row \<longleftrightarrow>
     worker_id (wl_execution_request_id row) \<and> worker_digest_shape (wl_request_digest row)
     \<and> wl_schema_version row = 1 \<and> wl_attempt row = 1 \<and> wl_state row \<in> set durable_states
     \<and> \<not> (wl_state row = ''claimed'' \<and> wl_execution_started_at row \<noteq> None)
     \<and> \<not> (wl_state row \<in> set [''executing'', ''unknown_outcome''] \<and> wl_execution_started_at row = None)
     \<and> (case wl_workspace_token row of None \<Rightarrow> True | Some t \<Rightarrow> workspace_token_ok t)
     \<and> succeeds (validate_row_result row)"
  by (auto simp: row_valid_def succeeds_iff validate_worker_row_Inr)

lemma started_row_valid:
  "row_valid row \<Longrightarrow> wl_state row = ''claimed'' \<Longrightarrow>
   row_valid (row\<lparr>wl_state := ''executing'', wl_execution_started_at := Some now, wl_updated_at := now\<rparr>)"
  by (simp add: row_valid_iff validate_row_result_def durable_states_def terminal_states_def)

lemma unknown_row_valid:
  "row_valid row \<Longrightarrow> wl_state row = ''executing'' \<Longrightarrow>
   row_valid (row\<lparr>wl_state := ''unknown_outcome'',
     wl_result_json := Some (DecodesTo (unknown_result (wl_execution_request_id row))),
     wl_updated_at := now\<rparr>)"
  by (simp add: row_valid_iff validate_row_result_def durable_states_def terminal_states_def
      unknown_result_bounded unknown_result_valid expected_state_def)
    (simp add: unknown_result_def)

lemma claim_execution_valid:
  assumes "rows_valid rows"
  shows "rows_valid (snd (claim_execution now request rows))"
proof -
  have "rows_valid (rows @ [claimed_row now request])"
    if "validate_worker_request True request = Inr ()"
      "find_execution (wr_execution_request_id request) rows = None"
    using rows_valid_append [OF assms, of "claimed_row now request"] claimed_row_valid [OF that(1)] that(2)
    by (simp add: claimed_row_def)
  then show ?thesis using assms by (auto simp: claim_execution_def split: sum.split option.split)
qed

lemma start_rows_valid:
  assumes "rows_valid rows"
  shows "rows_valid (update_execution (\<lambda>r. wl_execution_request_id r = k \<and> wl_state r = ''claimed'')
    (\<lambda>r. r\<lparr>wl_state := ''executing'', wl_execution_started_at := Some now, wl_updated_at := now\<rparr>) rows)"
  using assms by (intro rows_valid_update [OF assms])
    (auto simp: rows_valid_def list_all_iff intro: started_row_valid)

lemma unknown_rows_valid:
  assumes "rows_valid rows"
  shows "rows_valid (update_execution (\<lambda>r. wl_execution_request_id r = k \<and> wl_state r = ''executing'')
    (\<lambda>r. r\<lparr>wl_state := ''unknown_outcome'', wl_result_json := Some (DecodesTo (unknown_result k)),
      wl_updated_at := now\<rparr>) rows)"
  using assms by (intro rows_valid_update [OF assms])
    (auto simp: rows_valid_def list_all_iff intro: unknown_row_valid)

lemma mark_executing_valid:
  assumes "rows_valid rows"
  shows "rows_valid (snd (mark_executing now request rows))"
  using assms start_rows_valid [OF assms]
  by (simp add: mark_executing_def Let_def split: sum.split prod.split)

lemma persist_result_valid:
  assumes "rows_valid rows"
  shows "rows_valid (snd (persist_result now request result rows))"
proof -
  let ?k = "wr_execution_request_id request"
  let ?store = "\<lambda>r. r\<lparr>wl_state := result_state result, wl_result_json := Some (DecodesTo result),
    wl_updated_at := now\<rparr>"
  have "rows_valid (update_execution (\<lambda>r. wl_execution_request_id r = ?k) ?store rows)"
    if row: "row_for ?k rows = Inr row" and ok: "row_entry (?store row) = Inr e" for row e
  proof (rule rows_valid_update [OF assms])
    fix r assume r: "r \<in> set rows" "wl_execution_request_id r = ?k"
    have "find_execution ?k rows = Some row"
      using row by (simp add: row_for_def split: option.splits)
    then have "r = row" using unique_row [OF assms _ r] by simp
    then show "row_valid (?store r)" using ok row_entry_valid [of "?store row"] by simp
  qed simp
  then show ?thesis
    using assms
    by (auto simp: persist_result_def Let_def and_then_Inr_iff split: sum.split prod.split option.split)
qed

lemma mark_unknown_outcome_valid:
  assumes "rows_valid rows"
  shows "rows_valid (snd (mark_unknown_outcome now k rows))"
proof -
  have "rows_valid (update_execution (\<lambda>r. wl_execution_request_id r = k)
      (\<lambda>r. r\<lparr>wl_state := ''unknown_outcome'', wl_result_json := Some (DecodesTo (unknown_result k)),
        wl_updated_at := now\<rparr>) rows)"
    if row: "row_for k rows = Inr row" and executing: "wl_state row = ''executing''" for row
  proof (rule rows_valid_update [OF assms])
    fix r assume r: "r \<in> set rows" "wl_execution_request_id r = k"
    have found: "find_execution k rows = Some row"
      using row by (simp add: row_for_def split: option.splits)
    then have "r = row" using unique_row [OF assms _ r] by simp
    then show "row_valid (r\<lparr>wl_state := ''unknown_outcome'',
        wl_result_json := Some (DecodesTo (unknown_result k)), wl_updated_at := now\<rparr>)"
      using unknown_row_valid [OF find_execution_valid [OF assms found] executing] r(2) by simp
  qed simp
  then show ?thesis
    using assms by (auto simp: mark_unknown_outcome_def Let_def and_then_Inr_iff split: sum.split)
qed

lemma fold_unknown_rows_valid:
  "rows_valid rows \<Longrightarrow> rows_valid (fold (\<lambda>k. update_execution
     (\<lambda>r. wl_execution_request_id r = k \<and> wl_state r = ''executing'')
     (\<lambda>r. r\<lparr>wl_state := ''unknown_outcome'', wl_result_json := Some (DecodesTo (unknown_result k)),
       wl_updated_at := now\<rparr>)) ks rows)"
  by (induction ks arbitrary: rows) (simp_all add: unknown_rows_valid)

lemma reconcile_executions_valid:
  "rows_valid rows \<Longrightarrow> rows_valid (snd (reconcile_executions now rows))"
  using fold_unknown_rows_valid by (simp add: reconcile_executions_def split: sum.split prod.split)

section \<open>Histories of the ledger\<close>

datatype worker_call =
    ClaimCall int worker_request
  | StartCall int worker_request
  | PersistCall int worker_request worker_result
  | UnknownCall int string
  | ReconcileCall int

fun worker_step :: "worker_rows \<Rightarrow> worker_call \<Rightarrow> worker_rows" where
  "worker_step rows (ClaimCall now request) = snd (claim_execution now request rows)"
| "worker_step rows (StartCall now request) = snd (mark_executing now request rows)"
| "worker_step rows (PersistCall now request result) = snd (persist_result now request result rows)"
| "worker_step rows (UnknownCall now request_id) = snd (mark_unknown_outcome now request_id rows)"
| "worker_step rows (ReconcileCall now) = snd (reconcile_executions now rows)"

lemma worker_step_valid: "rows_valid rows \<Longrightarrow> rows_valid (worker_step rows call)"
  by (cases call) (simp_all add: claim_execution_valid mark_executing_valid persist_result_valid
      mark_unknown_outcome_valid reconcile_executions_valid)

text \<open>The life of a row: claimed, executing, terminal; or refused before it starts.\<close>

inductive row_moves :: "worker_row \<Rightarrow> worker_row \<Rightarrow> bool" where
  stays: "row_moves r r"
| starts: "wl_state r = ''claimed'' \<Longrightarrow>
    row_moves r (r\<lparr>wl_state := ''executing'', wl_execution_started_at := Some now, wl_updated_at := now\<rparr>)"
| finishes: "wl_state r = ''executing'' \<Longrightarrow> s \<in> set terminal_states \<Longrightarrow>
    row_moves r (r\<lparr>wl_state := s, wl_result_json := Some (DecodesTo w), wl_updated_at := now\<rparr>)"
| refuses: "wl_state r = ''claimed'' \<Longrightarrow>
    row_moves r (r\<lparr>wl_state := ''failed_terminal'', wl_result_json := Some (DecodesTo w),
      wl_updated_at := now\<rparr>)"

inductive_cases row_movesE: "row_moves r r'"

lemma row_moves_update:
  assumes "find_execution k rows = Some r" "\<And>r. wl_execution_request_id (f r) = wl_execution_request_id r"
    and "p r \<Longrightarrow> row_moves r (f r)"
  shows "\<exists>r'. find_execution k (update_execution p f rows) = Some r' \<and> row_moves r r'"
  using assms find_execution_update [of f k p rows] by (auto intro: stays)

lemma result_state_terminal: "result_state w \<in> set terminal_states"
  by (simp add: result_state_def terminal_states_def)

lemma persisted_row_moves:
  assumes "row_valid (r\<lparr>wl_state := result_state w, wl_result_json := Some (DecodesTo w), wl_updated_at := now\<rparr>)"
    and "row_valid r" "wl_state r \<notin> set terminal_states"
    and "\<not> (ws_status w = WS_SUCCEEDED \<and> wl_state r \<noteq> ''executing'')"
  shows "row_moves r (r\<lparr>wl_state := result_state w, wl_result_json := Some (DecodesTo w),
    wl_updated_at := now\<rparr>)"
proof (cases "wl_state r = ''executing''")
  case True
  then show ?thesis by (rule finishes) (rule result_state_terminal)
next
  case False
  then have "wl_state r = ''claimed''" "wl_execution_started_at r = None"
    using assms(2,3) by (auto simp: row_valid_iff durable_states_def terminal_states_def)
  moreover from this have "result_state w = ''failed_terminal''"
    using assms(1,4) False by (auto simp: row_valid_iff result_state_def split: if_splits)
  ultimately show ?thesis using refuses by simp
qed

lemma claim_execution_row:
  assumes "find_execution k rows = Some r"
  shows "find_execution k (snd (claim_execution now request rows)) = Some r"
  using assms by (simp add: claim_execution_def find_execution_append split: sum.split option.split)

lemma mark_executing_row:
  assumes "find_execution k rows = Some r"
  shows "\<exists>r'. find_execution k (snd (mark_executing now request rows)) = Some r' \<and> row_moves r r'"
proof -
  have "\<exists>r'. find_execution k (update_execution
      (\<lambda>r. wl_execution_request_id r = wr_execution_request_id request \<and> wl_state r = ''claimed'')
      (\<lambda>r. r\<lparr>wl_state := ''executing'', wl_execution_started_at := Some now, wl_updated_at := now\<rparr>) rows)
      = Some r' \<and> row_moves r r'"
    by (rule row_moves_update [OF assms]) (simp_all add: starts)
  then show ?thesis
    using assms by (auto simp: mark_executing_def Let_def intro: stays split: sum.split prod.split)
qed

lemma persist_result_row:
  assumes "rows_valid rows" "find_execution k rows = Some r"
  shows "\<exists>r'. find_execution k (snd (persist_result now request w rows)) = Some r' \<and> row_moves r r'"
proof -
  let ?k = "wr_execution_request_id request"
  let ?store = "\<lambda>r. r\<lparr>wl_state := result_state w, wl_result_json := Some (DecodesTo w), wl_updated_at := now\<rparr>"
  have "\<exists>r'. find_execution k (update_execution (\<lambda>r. wl_execution_request_id r = ?k) ?store rows) = Some r'
      \<and> row_moves r r'"
    if "row_for ?k rows = Inr row" "row_entry (?store row) = Inr e"
      "wl_state row \<notin> set terminal_states" "\<not> (ws_status w = WS_SUCCEEDED \<and> wl_state row \<noteq> ''executing'')"
    for row e
  proof (rule row_moves_update [OF assms(2)])
    have row: "find_execution ?k rows = Some row"
      using that(1) by (simp add: row_for_def split: option.splits)
    assume "wl_execution_request_id r = ?k"
    then have "r = row" using unique_row [OF assms(1) row] find_execution_row [OF assms(2)] by blast
    then show "row_moves r (?store r)"
      using persisted_row_moves that row_entry_valid [of "?store row"] find_execution_valid [OF assms]
      by simp
  qed simp
  then show ?thesis
    using assms(2)
    by (auto simp: persist_result_def Let_def and_then_Inr_iff intro: stays
        split: sum.split prod.split option.split)
qed

lemma mark_unknown_outcome_row:
  assumes "rows_valid rows" "find_execution k rows = Some r"
  shows "\<exists>r'. find_execution k (snd (mark_unknown_outcome now request_id rows)) = Some r' \<and> row_moves r r'"
proof -
  let ?f = "\<lambda>r. r\<lparr>wl_state := ''unknown_outcome'',
    wl_result_json := Some (DecodesTo (unknown_result request_id)), wl_updated_at := now\<rparr>"
  have "\<exists>r'. find_execution k (update_execution (\<lambda>r. wl_execution_request_id r = request_id) ?f rows) = Some r'
      \<and> row_moves r r'"
    if "row_for request_id rows = Inr row" "wl_state row = ''executing''" for row
  proof (rule row_moves_update [OF assms(2)])
    have row: "find_execution request_id rows = Some row"
      using that(1) by (simp add: row_for_def split: option.splits)
    assume "wl_execution_request_id r = request_id"
    then have "r = row" using unique_row [OF assms(1) row] find_execution_row [OF assms(2)] by blast
    then show "row_moves r (?f r)" using that by (simp add: finishes terminal_states_def)
  qed simp
  then show ?thesis
    using assms(2)
    by (auto simp: mark_unknown_outcome_def Let_def and_then_Inr_iff intro: stays split: sum.split)
qed

definition settle_executing :: "int \<Rightarrow> string \<Rightarrow> worker_rows \<Rightarrow> worker_rows" where
  "settle_executing now k = update_execution (\<lambda>r. wl_execution_request_id r = k \<and> wl_state r = ''executing'')
     (\<lambda>r. r\<lparr>wl_state := ''unknown_outcome'', wl_result_json := Some (DecodesTo (unknown_result k)),
       wl_updated_at := now\<rparr>)"

lemma find_settle_executing:
  "find_execution j (settle_executing now k rows) = map_option (\<lambda>r.
     if wl_execution_request_id r = k \<and> wl_state r = ''executing''
     then r\<lparr>wl_state := ''unknown_outcome'', wl_result_json := Some (DecodesTo (unknown_result k)),
       wl_updated_at := now\<rparr>
     else r) (find_execution j rows)"
  by (simp add: settle_executing_def find_execution_update)

lemma find_fold_settle:
  "find_execution j (fold (settle_executing now) ks rows) = map_option (\<lambda>r.
     if j \<in> set ks \<and> wl_state r = ''executing''
     then r\<lparr>wl_state := ''unknown_outcome'', wl_result_json := Some (DecodesTo (unknown_result j)),
       wl_updated_at := now\<rparr>
     else r) (find_execution j rows)"
proof (induction ks arbitrary: rows)
  case Nil
  then show ?case by (simp add: option.map_ident)
next
  case (Cons k ks)
  show ?case
    using find_execution_row [of j rows]
    by (cases "find_execution j rows") (auto simp: Cons.IH find_settle_executing)
qed

definition entry_of :: "worker_row \<Rightarrow> durable_entry" where
  "entry_of row = (case row_entry row of Inr entry \<Rightarrow> entry)"

lemma row_entry_of: "row_valid row \<Longrightarrow> row_entry row = Inr (entry_of row)"
  using row_entry_valid [of row] by (auto simp: entry_of_def succeeds_iff)

lemma entry_of_fields:
  "row_valid row \<Longrightarrow> de_state (entry_of row) = wl_state row
    \<and> de_execution_request_id (entry_of row) = wl_execution_request_id row
    \<and> de_request_digest (entry_of row) = wl_request_digest row"
  using row_entry_of [of row] by (auto simp: row_entry_Inr_iff)

lemma entries_of_rows: "list_all row_valid rows \<Longrightarrow> traverse row_entry rows = Inr (map entry_of rows)"
  by (rule traverse_Inr_map) (simp add: list_all_iff row_entry_of)

lemma entries_in_state:
  "list_all row_valid rows \<Longrightarrow>
     map de_execution_request_id (filter (\<lambda>e. de_state e = s) (map entry_of rows))
       = map wl_execution_request_id (filter (\<lambda>r. wl_state r = s) rows)"
  "list_all row_valid rows \<Longrightarrow> length (filter (\<lambda>e. de_state e = s) (map entry_of rows))
       = length (filter (\<lambda>r. wl_state r = s) rows)"
  by (induction rows) (simp_all add: entry_of_fields)

lemma reconcile_executions_eq:
  assumes "rows_valid rows"
  shows "reconcile_executions now rows =
     (Inr \<lparr>rc_claimed = length (filter (\<lambda>r. wl_state r = ''claimed'') rows),
           rc_unknown_outcome = length (filter (\<lambda>r. wl_state r = ''executing'') rows)\<rparr>,
      fold (settle_executing now)
        (map wl_execution_request_id (filter (\<lambda>r. wl_state r = ''executing'') rows)) rows)"
proof -
  let ?ids = "map wl_execution_request_id (filter (\<lambda>r. wl_state r = ''executing'') rows)"
  have valid: "list_all row_valid rows" using assms by (simp add: rows_valid_def)
  have "traverse (\<lambda>rid. validate_worker_result None (unknown_result rid)) ?ids = Inr (map (\<lambda>_. ()) ?ids)"
    by (rule traverse_Inr_map)
      (use valid in \<open>auto simp: list_all_iff row_valid_iff intro: unknown_result_valid\<close>)
  moreover have "settle_executing now = (\<lambda>k. update_execution
      (\<lambda>r. wl_execution_request_id r = k \<and> wl_state r = ''executing'')
      (\<lambda>r. r\<lparr>wl_state := ''unknown_outcome'', wl_result_json := Some (DecodesTo (unknown_result k)),
        wl_updated_at := now\<rparr>))"
    by (rule ext) (rule settle_executing_def)
  ultimately show ?thesis
    by (simp add: reconcile_executions_def entries_of_rows [OF valid] Let_def
        entries_in_state [OF valid] del: length_filter_map)
qed

lemma reconcile_executions_row:
  assumes "rows_valid rows" "find_execution k rows = Some r"
  shows "\<exists>r'. find_execution k (snd (reconcile_executions now rows)) = Some r' \<and> row_moves r r'"
  using assms(2)
  by (auto simp: reconcile_executions_eq [OF assms(1)] find_fold_settle terminal_states_def
      intro: stays finishes)

text \<open>A call either leaves the row of a request as it is or moves it along its life.\<close>

lemma worker_step_row:
  assumes "rows_valid rows" "find_execution k rows = Some r"
  shows "\<exists>r'. find_execution k (worker_step rows call) = Some r' \<and> row_moves r r'"
  using assms
  by (cases call) (auto simp: claim_execution_row mark_executing_row persist_result_row
      mark_unknown_outcome_row reconcile_executions_row intro: stays)

subsection \<open>The start barrier and the terminal result\<close>

definition started_slot :: "worker_rows \<Rightarrow> string \<Rightarrow> int option" where
  "started_slot rows k = Option.bind (find_execution k rows) wl_execution_started_at"

definition result_slot :: "worker_rows \<Rightarrow> string \<Rightarrow> result_column option" where
  "result_slot rows k = Option.bind (find_execution k rows) wl_result_json"

definition digest_slot :: "worker_rows \<Rightarrow> string \<Rightarrow> string option" where
  "digest_slot rows k = map_option wl_request_digest (find_execution k rows)"

definition starts_execution :: "worker_rows \<Rightarrow> worker_call \<Rightarrow> string \<Rightarrow> bool" where
  "starts_execution rows call k = (case call of
     StartCall now request \<Rightarrow> wr_execution_request_id request = k
       \<and> (case fst (mark_executing now request rows) of Inr (Started entry) \<Rightarrow> True | _ \<Rightarrow> False)
   | _ \<Rightarrow> False)"

lemma row_moves_slots:
  assumes "row_moves r r'" "row_valid r"
  shows "wl_execution_started_at r = Some t \<Longrightarrow> wl_execution_started_at r' = Some t"
    and "wl_result_json r = Some w \<Longrightarrow> wl_result_json r' = Some w"
    and "wl_request_digest r' = wl_request_digest r"
  using assms
  by (auto elim!: row_movesE simp: row_valid_iff validate_row_result_def terminal_states_def)

lemma mark_executing_started:
  assumes "mark_executing now request rows = (Inr (Started entry), rows')"
  shows "\<exists>row. find_execution (wr_execution_request_id request) rows = Some row
    \<and> wl_state row = ''claimed'' \<and> row_valid row \<and> wl_request_digest row = wr_request_digest request
    \<and> validate_worker_request True request = Inr ()
    \<and> find_execution (wr_execution_request_id request) rows' = Some (row\<lparr>wl_state := ''executing'',
        wl_execution_started_at := Some now, wl_updated_at := now\<rparr>)"
proof -
  obtain row e where row: "row_for (wr_execution_request_id request) rows = Inr row"
      "check_digest row request = Inr e" "validate_worker_request True request = Inr ()"
      "wl_state row = ''claimed''"
      "rows' = update_execution (\<lambda>r. wl_execution_request_id r = wr_execution_request_id request
                 \<and> wl_state r = ''claimed'')
               (\<lambda>r. r\<lparr>wl_state := ''executing'', wl_execution_started_at := Some now,
                 wl_updated_at := now\<rparr>) rows"
    using assms
    by (auto simp: mark_executing_def Let_def and_then_Inr_iff split: sum.splits prod.splits if_splits)
  then have found: "find_execution (wr_execution_request_id request) rows = Some row"
    by (simp add: row_for_def split: option.splits)
  moreover have "row_valid row" "wl_request_digest row = wr_request_digest request"
    using row(2) row_entry_valid [of row] by (auto simp: check_digest_def res_simps succeeds_iff)
  ultimately show ?thesis
    using row find_execution_row [OF found] by (simp add: find_execution_update)
qed

lemma starts_execution_iff:
  "starts_execution rows call k \<longleftrightarrow> (\<exists>now request entry rows'. call = StartCall now request
     \<and> wr_execution_request_id request = k \<and> mark_executing now request rows = (Inr (Started entry), rows'))"
  by (cases call; cases "mark_executing (case call of StartCall now r \<Rightarrow> now) (case call of StartCall now r \<Rightarrow> r) rows")
    (auto simp: starts_execution_def split: sum.splits start_result.splits)

interpretation start_barrier: one_shot worker_step rows_valid started_slot starts_execution
proof
  show "rows_valid (worker_step rows call)" if "rows_valid rows" for rows call
    using that by (rule worker_step_valid)
  show "started_slot (worker_step rows call) k = Some t"
    if "rows_valid rows" "started_slot rows k = Some t" for rows k t call
    using that worker_step_row [of rows k _ call] row_moves_slots(1) find_execution_valid
    by (fastforce simp: started_slot_def bind_eq_Some_conv)
  show "started_slot rows k = None" if "rows_valid rows" "starts_execution rows call k" for rows call k
    using that mark_executing_started
    by (fastforce simp: starts_execution_iff started_slot_def row_valid_iff)
  show "started_slot (worker_step rows call) k \<noteq> None"
    if "rows_valid rows" "starts_execution rows call k" for rows call k
    using that mark_executing_started
    by (fastforce simp: starts_execution_iff started_slot_def)
qed

interpretation worker_results: write_once worker_step rows_valid result_slot
proof
  show "rows_valid (worker_step rows call)" if "rows_valid rows" for rows call
    using that by (rule worker_step_valid)
  show "result_slot (worker_step rows call) k = Some w"
    if "rows_valid rows" "result_slot rows k = Some w" for rows k w call
    using that worker_step_row [of rows k _ call] row_moves_slots(2) find_execution_valid
    by (fastforce simp: result_slot_def bind_eq_Some_conv)
qed


end
