(* ===== verification/WorkerService.thy ===== *)
theory WorkerService
  imports WorkerLedger
begin

text \<open>
  The HTTP service of the execution worker (\<open>atlas_execution_worker/api.py\<close>) and its start
  (\<open>main.py\<close>). Of a request the model keeps what the handler reads; the decoded body is an input,
  as is what the runner observes of its isolation and what it returns. The handler is cut where the
  runner is called: it first reads and claims (\<open>admit\<close>), then crosses the start barrier
  (\<open>begin_run\<close>), runs, and stores the result (\<open>end_run\<close>). The process may die between any two
  of these steps, and other processes may work on the same ledger. Errors of SQLite itself are
  not modelled.
\<close>

section \<open>Requests, replies and settings\<close>

text \<open>A chunk of the body has its length; \<open>None\<close> is where the read deadline fires.\<close>

record worker_http_request =
  hr_client_host :: "string option"
  hr_authorization :: "string list"
  hr_content_length :: "string list"
  hr_transfer_encoding :: bool
  hr_chunks :: "nat option list"
  hr_payload :: "worker_request res"
  hr_late :: bool

datatype worker_reply =
    ErrorReply nat string string
  | EntryReply nat string string "worker_result option"

text \<open>A configured runner is known by its repository token.\<close>

record worker_settings =
  wt_execution_enabled :: bool
  wt_runners :: "string list"
  wt_authentication_token :: "string option"
  wt_allowed_client_address :: "string option"

definition valid_authentication_token :: "string \<Rightarrow> bool" where
  "valid_authentication_token t \<longleftrightarrow> t \<noteq> [] \<and> length t \<le> 1024
     \<and> list_all (\<lambda>c. 33 \<le> (of_char c :: nat) \<and> (of_char c :: nat) \<le> 126) t"

definition create_worker :: "worker_settings \<Rightarrow> worker_settings res" where
  "create_worker S =
     and_then (require (case wt_authentication_token S of None \<Rightarrow> True
         | Some t \<Rightarrow> valid_authentication_token t)
       (ValueError ''worker authentication must be one bounded ASCII credential'')) (\<lambda>_.
     Inr S)"

definition max_execution_request_bytes :: nat where
  "max_execution_request_bytes = 2 * 1024 * 1024"

definition ascii_text :: "string \<Rightarrow> bool" where
  "ascii_text s = list_all (\<lambda>c. (of_char c :: nat) < 128) s"

definition worker_authenticated :: "string list \<Rightarrow> string \<Rightarrow> bool" where
  "worker_authenticated values token =
     (case values of
        [value] \<Rightarrow> ascii_text value \<and> value = ''Bearer '' @ token
      | _ \<Rightarrow> False)"

text \<open>The two checks every endpoint but \<open>health\<close> begins with.\<close>

definition refuse_client :: "worker_settings \<Rightarrow> string option \<Rightarrow> string list \<Rightarrow> worker_reply option" where
  "refuse_client S host authorization =
     (if wt_allowed_client_address S \<noteq> None \<and> host \<noteq> wt_allowed_client_address S
      then Some (ErrorReply 403 ''untrusted_peer'' ''worker client network identity rejected'')
      else (case wt_authentication_token S of
          None \<Rightarrow> None
        | Some token \<Rightarrow>
            if worker_authenticated authorization token then None
            else Some (ErrorReply 401 ''authentication_required'' ''worker authentication failed'')))"

section \<open>Reading a submission\<close>

definition decimal_digits :: "string \<Rightarrow> bool" where
  "decimal_digits s \<longleftrightarrow> s \<noteq> [] \<and> list_all is_digit s"

datatype body_read = BodyRead nat | BodyTooLarge | BodyTimeout

fun read_body :: "nat \<Rightarrow> nat option list \<Rightarrow> body_read" where
  "read_body received [] = BodyRead received"
| "read_body received (None # chunks) = BodyTimeout"
| "read_body received (Some n # chunks) =
     (if max_execution_request_bytes < received + n then BodyTooLarge else read_body (received + n) chunks)"

definition contract_error :: "exn \<Rightarrow> bool" where
  "contract_error e = (case e of ValueError m \<Rightarrow> True | TypeError m \<Rightarrow> True | KeyError m \<Rightarrow> True | _ \<Rightarrow> False)"

definition too_large :: worker_reply where
  "too_large = ErrorReply 413 ''request_too_large'' ''execution request exceeds byte bound''"

definition read_late :: worker_reply where
  "read_late = ErrorReply 408 ''request_timeout'' ''execution request read deadline exceeded''"

definition read_submission :: "worker_http_request \<Rightarrow> worker_reply + worker_request" where
  "read_submission rq =
     (let lengths = hr_content_length rq in
      if (lengths \<noteq> [] \<and> hr_transfer_encoding rq) \<or> 1 < length lengths
         \<or> (lengths \<noteq> [] \<and> (\<not> decimal_digits (hd lengths) \<or> 10 < length (hd lengths)))
      then Inl (ErrorReply 400 ''invalid_request'' ''invalid request framing'')
      else if lengths \<noteq> [] \<and> max_execution_request_bytes < text_nat (hd lengths) then Inl too_large
      else (case read_body 0 (hr_chunks rq) of
          BodyTimeout \<Rightarrow> Inl read_late
        | BodyTooLarge \<Rightarrow> Inl too_large
        | BodyRead received \<Rightarrow>
            if lengths \<noteq> [] \<and> received \<noteq> text_nat (hd lengths)
            then Inl (ErrorReply 400 ''invalid_request'' ''request length mismatch'')
            else (case and_then (hr_payload rq) (\<lambda>request.
                  and_then (validate_worker_request True request) (\<lambda>_. Inr request)) of
                Inl e \<Rightarrow> Inl (ErrorReply 400 ''invalid_request''
                  (if contract_error e then ''execution request failed contract validation''
                   else ''request could not be parsed''))
              | Inr request \<Rightarrow> if hr_late rq then Inl read_late else Inr request)))"

section \<open>The steps of a submission\<close>

text \<open>The service's ledger: the durable one, or the in-memory one of \<open>create_app()\<close>.\<close>

datatype request_ledger = DurableLedger worker_rows | MemoryLedger memory_ledger

record handled_entry =
  he_state :: string
  he_request_digest :: string
  he_result :: "worker_result option"

definition durable_handled :: "durable_entry \<Rightarrow> handled_entry" where
  "durable_handled e = \<lparr>he_state = de_state e, he_request_digest = de_request_digest e,
     he_result = de_result e\<rparr>"

definition memory_handled :: "memory_entry \<Rightarrow> handled_entry" where
  "memory_handled e = \<lparr>he_state = me_state e, he_request_digest = me_request_digest e,
     he_result = me_result e\<rparr>"

definition entry_reply :: "handled_entry \<Rightarrow> worker_reply" where
  "entry_reply e = EntryReply (if he_state e = ''claimed'' then 202 else 200)
     (he_state e) (he_request_digest e) (he_result e)"

definition map_result :: "('a \<Rightarrow> 'b) \<Rightarrow> 'a res \<Rightarrow> 'b res" where
  "map_result f r = and_then r (\<lambda>x. Inr (f x))"

definition ledger_claim :: "int \<Rightarrow> worker_request \<Rightarrow> (request_ledger, handled_entry) action" where
  "ledger_claim now request l =
     (case l of
        DurableLedger rows \<Rightarrow> (case claim_execution now request rows of
          (r, rows') \<Rightarrow> (map_result durable_handled r, DurableLedger rows'))
      | MemoryLedger entries \<Rightarrow> (case memory_claim request entries of
          (r, entries') \<Rightarrow> (map_result memory_handled r, MemoryLedger entries')))"

definition ledger_finish ::
  "int \<Rightarrow> worker_request \<Rightarrow> worker_result \<Rightarrow> (request_ledger, handled_entry) action" where
  "ledger_finish now request result l =
     (case l of
        DurableLedger rows \<Rightarrow> (case persist_result now request result rows of
          (r, rows') \<Rightarrow> (map_result durable_handled r, DurableLedger rows'))
      | MemoryLedger entries \<Rightarrow> (case memory_complete request result entries of
          (r, entries') \<Rightarrow> (map_result memory_handled r, MemoryLedger entries')))"

definition disabled_result :: "worker_request \<Rightarrow> worker_result" where
  "disabled_result request =
     \<lparr>ws_schema_version = 1, ws_execution_request_id = wr_execution_request_id request,
      ws_status = WS_BLOCKED, ws_return_code = None, ws_stdout = empty_output,
      ws_stderr = empty_output, ws_changed_files = [], ws_patch_digest = None,
      ws_patch_size_bytes = None, ws_patch_truncated = False, ws_duration_seconds = PyInt 0,
      ws_failure_code = Some WORKER_UNAVAILABLE, ws_workspace_head = None,
      ws_attestation = stand_in_attestation ''execution-disabled'',
      ws_base_repository_head = None, ws_patch = None\<rparr>"

definition ledger_corrupt :: worker_reply where
  "ledger_corrupt = ErrorReply 503 ''ledger_corrupt'' ''stored execution result is invalid''"

definition unknown_token :: worker_reply where
  "unknown_token = ErrorReply 400 ''unknown_repository_token'' ''repository token is not configured''"

definition sandbox_unavailable :: worker_reply where
  "sandbox_unavailable = ErrorReply 503 ''sandbox_unavailable'' ''required execution isolation unavailable''"

text \<open>An exception the handler does not catch: the middleware turns corruption into a reply, anything
  else is the framework's internal error.\<close>

definition uncaught :: "exn \<Rightarrow> worker_reply" where
  "uncaught e = (case e of
     DurableLedgerCorruptionError m \<Rightarrow> ledger_corrupt
   | _ \<Rightarrow> ErrorReply 500 ''internal_error'' [])"

datatype admission = Replied worker_reply | Admitted worker_request

text \<open>From the first check to the claim. \<open>isolated\<close> is whether the runner observes its isolation.\<close>

definition admit :: "worker_settings \<Rightarrow> bool \<Rightarrow> int \<Rightarrow> worker_http_request \<Rightarrow> request_ledger
    \<Rightarrow> admission \<times> request_ledger" where
  "admit S isolated now rq l =
     (case refuse_client S (hr_client_host rq) (hr_authorization rq) of
        Some reply \<Rightarrow> (Replied reply, l)
      | None \<Rightarrow>
        (case read_submission rq of
           Inl reply \<Rightarrow> (Replied reply, l)
         | Inr request \<Rightarrow>
           if wt_execution_enabled S \<and> wr_repository_token request \<notin> set (wt_runners S)
           then (Replied unknown_token, l)
           else if wt_execution_enabled S \<and> \<not> isolated then (Replied sandbox_unavailable, l)
           else (case ledger_claim now request l of
               (Inl (DurableLedgerCorruptionError m), l') \<Rightarrow> (Replied ledger_corrupt, l')
             | (Inl (RequestConflictError m), l') \<Rightarrow> (Replied (ErrorReply 409
                 ''request_id_conflict'' ''execution request ID has a different digest''), l')
             | (Inl (DurableLedgerConflictError m), l') \<Rightarrow> (Replied (ErrorReply 409
                 ''request_id_conflict'' ''execution request ID has a different digest''), l')
             | (Inl e, l') \<Rightarrow> (Replied (uncaught e), l')
             | (Inr entry, l') \<Rightarrow>
                 if he_result entry \<noteq> None \<or> he_state entry \<noteq> ''claimed''
                 then (Replied (entry_reply entry), l')
                 else if wt_execution_enabled S then (Admitted request, l')
                 else (case ledger_finish now request (disabled_result request) l' of
                     (Inl e, l'') \<Rightarrow> (Replied (uncaught e), l'')
                   | (Inr done, l'') \<Rightarrow> (Replied (entry_reply done), l'')))))"

definition execution_failed :: worker_reply where
  "execution_failed = ErrorReply 424 ''worker_execution_failed'' ''worker execution failed''"

text \<open>The handlers of the \<open>try\<close> around the run.\<close>

definition run_error :: "exn \<Rightarrow> worker_reply" where
  "run_error e = (case e of
     IsolationUnavailable m \<Rightarrow> sandbox_unavailable
   | DurableLedgerCorruptionError m \<Rightarrow> ledger_corrupt
   | ValueError m \<Rightarrow> ErrorReply 424 ''invalid_result'' ''worker returned an invalid result''
   | _ \<Rightarrow> execution_failed)"

definition begin_run :: "int \<Rightarrow> worker_request \<Rightarrow> request_ledger \<Rightarrow> worker_reply option \<times> request_ledger" where
  "begin_run now request l =
     (case l of
        MemoryLedger entries \<Rightarrow> (Some (ErrorReply 503 ''ledger_unavailable''
          ''enabled execution requires durable ledger''), l)
      | DurableLedger rows \<Rightarrow>
        (case mark_executing now request rows of
           (Inl e, rows') \<Rightarrow> (Some (run_error e), DurableLedger rows')
         | (Inr (StartConflict entry), rows') \<Rightarrow>
             (Some (entry_reply (durable_handled entry)), DurableLedger rows')
         | (Inr (Started entry), rows') \<Rightarrow> (None, DurableLedger rows')))"

definition end_run :: "int \<Rightarrow> worker_request \<Rightarrow> worker_result res \<Rightarrow> request_ledger
    \<Rightarrow> worker_reply \<times> request_ledger" where
  "end_run now request outcome l =
     (case outcome of
        Inl e \<Rightarrow> (run_error e, l)
      | Inr result \<Rightarrow>
        (case ledger_finish now request result l of
           (Inl e, l') \<Rightarrow> (run_error e, l')
         | (Inr entry, l') \<Rightarrow> (entry_reply entry, l')))"

text \<open>The whole handler, when nothing else touches the ledger and the process survives: \<open>now\<close> are the
  times of its three steps, \<open>run\<close> what the runner does with a request.\<close>

definition submit :: "worker_settings \<Rightarrow> bool \<Rightarrow> int \<times> int \<times> int \<Rightarrow> (worker_request \<Rightarrow> worker_result res)
    \<Rightarrow> worker_http_request \<Rightarrow> request_ledger \<Rightarrow> worker_reply \<times> request_ledger" where
  "submit S isolated now run rq l =
     (case admit S isolated (fst now) rq l of
        (Replied reply, l') \<Rightarrow> (reply, l')
      | (Admitted request, l') \<Rightarrow>
        (case begin_run (fst (snd now)) request l' of
           (Some reply, l'') \<Rightarrow> (reply, l'')
         | (None, l'') \<Rightarrow> end_run (snd (snd now)) request (run request) l''))"

section \<open>The other endpoints\<close>

definition ledger_get :: "string \<Rightarrow> request_ledger \<Rightarrow> handled_entry option res" where
  "ledger_get request_id l =
     (case l of
        DurableLedger rows \<Rightarrow> map_result (map_option durable_handled) (get_execution request_id rows)
      | MemoryLedger entries \<Rightarrow> Inr (map_option memory_handled (map_of entries request_id)))"

definition get_result :: "worker_settings \<Rightarrow> string \<Rightarrow> string option \<Rightarrow> string list \<Rightarrow> request_ledger
    \<Rightarrow> worker_reply" where
  "get_result S request_id host authorization l =
     (case refuse_client S host authorization of
        Some reply \<Rightarrow> reply
      | None \<Rightarrow>
        (case ledger_get request_id l of
           Inl (DurableLedgerCorruptionError m) \<Rightarrow> ledger_corrupt
         | Inl e \<Rightarrow> uncaught e
         | Inr None \<Rightarrow> ErrorReply 404 ''execution_not_found'' ''execution request was not found''
         | Inr (Some e) \<Rightarrow> EntryReply 200 (he_state e) (he_request_digest e) (he_result e)))"

record worker_health =
  wh_status_code :: nat
  wh_status :: string
  wh_execution_enabled :: bool
  wh_isolation_observed_safe :: "bool option"
  wh_reason :: string
  wh_ledger_counts :: "(string \<times> nat) list option"

text \<open>\<open>observed\<close> holds what each configured runner observes. \<open>wh_ledger_counts\<close> is the five counts
  of a durable ledger; the fields that never change are left out.\<close>

definition health :: "worker_settings \<Rightarrow> bool list \<Rightarrow> request_ledger \<Rightarrow> worker_health" where
  "health S observed l =
     (let counts = (case l of DurableLedger rows \<Rightarrow> execution_counts rows | MemoryLedger m \<Rightarrow> Inr []);
          available = (case counts of Inl e \<Rightarrow> False | Inr c \<Rightarrow> True) in
      \<lparr>wh_status_code = (if available then 200 else 503),
       wh_status = (if available then ''healthy'' else ''unavailable''),
       wh_execution_enabled = wt_execution_enabled S,
       wh_isolation_observed_safe =
         (if wt_execution_enabled S \<and> observed \<noteq> [] then Some (list_all (\<lambda>b. b) observed) else None),
       wh_reason =
         (if \<not> wt_execution_enabled S then ''execution_disabled''
          else if observed = [] then ''runtime_provider_unobserved''
          else if list_all (\<lambda>b. b) observed then ''isolation_observed'' else ''isolation_unavailable''),
       wh_ledger_counts = (case l of
           MemoryLedger m \<Rightarrow> None
         | DurableLedger rows \<Rightarrow>
           (case counts of
              Inl e \<Rightarrow> None
            | Inr c \<Rightarrow> Some (map (\<lambda>s. (s, case map_of c s of None \<Rightarrow> 0 | Some n \<Rightarrow> n))
                [''claimed'', ''executing'', ''failed_terminal'', ''completed'', ''unknown_outcome''])))\<rparr>)"
section \<open>Histories\<close>

text \<open>
  Several processes may serve requests over one ledger. A submission is admitted, begins and ends
  at separate steps; its process may die in between (\<open>Abandoned\<close>, \<open>Lost\<close>) and a process may
  start at any time (\<open>Restarted\<close>). \<open>ww_runs\<close> records the runner's invocations and
  \<open>ww_results\<close> what it returned.
\<close>

record worker_world =
  ww_ledger :: worker_rows
  ww_admitted :: "worker_request list"
  ww_running :: "worker_request list"
  ww_runs :: "worker_request list"
  ww_results :: "(worker_request \<times> worker_result) list"

definition new_world :: worker_world where
  "new_world = \<lparr>ww_ledger = [], ww_admitted = [], ww_running = [], ww_runs = [], ww_results = []\<rparr>"

datatype worker_event =
    Submitted bool int worker_http_request
  | Begun int nat
  | Ended int nat "worker_result res"
  | Abandoned nat
  | Lost nat
  | Restarted int

definition without :: "nat \<Rightarrow> 'a list \<Rightarrow> 'a list" where
  "without i xs = take i xs @ drop (Suc i) xs"

definition durable_rows :: "request_ledger \<Rightarrow> worker_rows" where
  "durable_rows l = (case l of DurableLedger rows \<Rightarrow> rows | MemoryLedger m \<Rightarrow> [])"

fun service_step :: "worker_settings \<Rightarrow> worker_world \<Rightarrow> worker_event \<Rightarrow> worker_world" where
  "service_step S w (Submitted isolated now rq) =
     (case admit S isolated now rq (DurableLedger (ww_ledger w)) of
        (Admitted request, l) \<Rightarrow> w\<lparr>ww_ledger := durable_rows l, ww_admitted := ww_admitted w @ [request]\<rparr>
      | (Replied reply, l) \<Rightarrow> w\<lparr>ww_ledger := durable_rows l\<rparr>)"
| "service_step S w (Begun now i) =
     (if length (ww_admitted w) \<le> i then w
      else let request = ww_admitted w ! i;
               w' = w\<lparr>ww_admitted := without i (ww_admitted w)\<rparr> in
        case begin_run now request (DurableLedger (ww_ledger w)) of
          (Some reply, l) \<Rightarrow> w'\<lparr>ww_ledger := durable_rows l\<rparr>
        | (None, l) \<Rightarrow> w'\<lparr>ww_ledger := durable_rows l, ww_running := ww_running w @ [request],
            ww_runs := ww_runs w @ [request]\<rparr>)"
| "service_step S w (Ended now i outcome) =
     (if length (ww_running w) \<le> i then w
      else let request = ww_running w ! i in
        w\<lparr>ww_ledger := durable_rows (snd (end_run now request outcome (DurableLedger (ww_ledger w)))),
          ww_running := without i (ww_running w),
          ww_results := ww_results w @ (case outcome of Inl e \<Rightarrow> [] | Inr result \<Rightarrow> [(request, result)])\<rparr>)"
| "service_step S w (Abandoned i) = w\<lparr>ww_admitted := without i (ww_admitted w)\<rparr>"
| "service_step S w (Lost i) = w\<lparr>ww_running := without i (ww_running w)\<rparr>"
| "service_step S w (Restarted now) = w\<lparr>ww_ledger := snd (reconcile_executions now (ww_ledger w))\<rparr>"

definition service_run :: "worker_settings \<Rightarrow> worker_event list \<Rightarrow> worker_world" where
  "service_run S events = foldl (service_step S) new_world events"

text \<open>The request came in from the one accepted address, with the one credential, within the bound on
  its bytes, while the runner observed its isolation, and its repository token has a runner.\<close>

definition admissible_submission :: "worker_settings \<Rightarrow> bool \<Rightarrow> worker_http_request \<Rightarrow> worker_request \<Rightarrow> bool" where
  "admissible_submission S isolated rq request \<longleftrightarrow> isolated
     \<and> (wt_allowed_client_address S = None \<or> hr_client_host rq = wt_allowed_client_address S)
     \<and> (case wt_authentication_token S of None \<Rightarrow> True
        | Some token \<Rightarrow> hr_authorization rq = [''Bearer '' @ token])
     \<and> hr_payload rq = Inr request \<and> validate_worker_request True request = Inr () \<and> \<not> hr_late rq
     \<and> list_all (\<lambda>chunk. chunk \<noteq> None) (hr_chunks rq)
     \<and> sum_list (map the (hr_chunks rq)) \<le> 2 * 1024 * 1024
     \<and> wr_repository_token request \<in> set (wt_runners S)"

definition submitted_by_client :: "worker_settings \<Rightarrow> worker_event list \<Rightarrow> worker_request \<Rightarrow> bool" where
  "submitted_by_client S events request = list_ex (\<lambda>event. case event of
       Submitted isolated now rq \<Rightarrow> admissible_submission S isolated rq request
     | _ \<Rightarrow> False) events"

lemma set_without: "set (without i xs) \<subseteq> set xs"
  by (auto simp: without_def dest: in_set_takeD in_set_dropD)

lemma submitted_append:
  "submitted_by_client S (events @ later) request
     \<longleftrightarrow> submitted_by_client S events request \<or> submitted_by_client S later request"
  by (simp add: submitted_by_client_def)

lemma read_submission_valid:
  "read_submission rq = Inr request \<Longrightarrow> validate_worker_request True request = Inr ()"
  by (auto simp: read_submission_def Let_def and_then_Inr_iff split: if_splits body_read.splits sum.splits)

lemma read_body_BodyRead:
  "read_body k chunks = BodyRead n \<Longrightarrow> k \<le> max_execution_request_bytes \<Longrightarrow>
     list_all (\<lambda>chunk. chunk \<noteq> None) chunks \<and> k + sum_list (map the chunks) \<le> max_execution_request_bytes"
  by (induction k chunks rule: read_body.induct) (auto split: if_splits)

lemma admit_admissible:
  assumes "admit S isolated now rq l = (Admitted request, l')"
  shows "admissible_submission S isolated rq request"
proof -
  have read: "read_submission rq = Inr request" "isolated" "wr_repository_token request \<in> set (wt_runners S)"
    "refuse_client S (hr_client_host rq) (hr_authorization rq) = None"
    using assms by (auto simp: admit_def split: option.splits sum.splits if_splits prod.splits exn.splits)
  have "hr_payload rq = Inr request \<and> \<not> hr_late rq \<and> (\<exists>n. read_body 0 (hr_chunks rq) = BodyRead n)"
    using read(1) by (auto simp: read_submission_def Let_def and_then_Inr_iff
        split: if_splits body_read.splits sum.splits)
  moreover from this have "list_all (\<lambda>chunk. chunk \<noteq> None) (hr_chunks rq)"
    "sum_list (map the (hr_chunks rq)) \<le> 2 * 1024 * 1024"
    using read_body_BodyRead [of 0 "hr_chunks rq"] by (auto simp: max_execution_request_bytes_def)
  ultimately show ?thesis
    using read read_submission_valid [OF read(1)]
    by (auto simp: admissible_submission_def refuse_client_def worker_authenticated_def
        split: option.splits if_splits list.splits)
qed

lemma admit_durable:
  assumes "admit S isolated now rq (DurableLedger rows) = (a, l)"
  shows "(durable_rows l = rows \<and> (\<exists>reply. a = Replied reply))
    \<or> (\<exists>request. refuse_client S (hr_client_host rq) (hr_authorization rq) = None
        \<and> read_submission rq = Inr request
        \<and> ((durable_rows l = worker_step rows (ClaimCall now request) \<and> (\<exists>reply. a = Replied reply))
           \<or> (durable_rows l = worker_step rows (ClaimCall now request) \<and> a = Admitted request
               \<and> succeeds (fst (claim_execution now request rows)))
           \<or> (durable_rows l = worker_step (worker_step rows (ClaimCall now request))
                 (PersistCall now request (disabled_result request)) \<and> (\<exists>reply. a = Replied reply))))"
proof (cases "refuse_client S (hr_client_host rq) (hr_authorization rq) \<noteq> None
    \<or> (\<exists>reply. read_submission rq = Inl reply)
    \<or> wt_execution_enabled S \<and> ((\<exists>request. read_submission rq = Inr request
        \<and> wr_repository_token request \<notin> set (wt_runners S)) \<or> \<not> isolated)")
  case True
  then show ?thesis
    using assms by (auto simp: admit_def durable_rows_def split: option.splits sum.splits if_splits)
next
  case False
  then obtain request where request: "read_submission rq = Inr request"
    "refuse_client S (hr_client_host rq) (hr_authorization rq) = None"
    by (cases "read_submission rq") auto
  obtain r rows1 where claim: "claim_execution now request rows = (r, rows1)" by fastforce
  obtain d rows2 where persist: "persist_result now request (disabled_result request) rows1 = (d, rows2)"
    by fastforce
  have step: "worker_step rows (ClaimCall now request) = rows1"
    "worker_step rows1 (PersistCall now request (disabled_result request)) = rows2"
    by (simp_all add: claim persist)
  have "(durable_rows l = rows1 \<and> (\<exists>reply. a = Replied reply))
      \<or> (durable_rows l = rows1 \<and> a = Admitted request \<and> succeeds r)
      \<or> (durable_rows l = rows2 \<and> (\<exists>reply. a = Replied reply))"
  proof (cases r)
    case (Inl e)
    have "l = DurableLedger rows1 \<and> (case a of Replied reply \<Rightarrow> True | Admitted request \<Rightarrow> False)"
      using assms False request claim Inl
      by (simp add: admit_def ledger_claim_def map_result_def split: if_splits) (cases e; simp add: eq_commute [of _ a])
    then show ?thesis by (cases a) (simp_all add: durable_rows_def)
  next
    case (Inr entry)
    then show ?thesis
      using assms False request claim persist
      by (auto simp: admit_def ledger_claim_def ledger_finish_def map_result_def durable_rows_def
          split: if_splits sum.splits)
  qed
  then show ?thesis using request step claim by (auto simp del: worker_step.simps)
qed

lemma begin_run_durable:
  assumes "begin_run now request (DurableLedger rows) = (a, l)"
  shows "durable_rows l = worker_step rows (StartCall now request)
    \<and> (a = None \<longleftrightarrow> starts_execution rows (StartCall now request) (wr_execution_request_id request))"
  using assms
  by (auto simp: begin_run_def durable_rows_def starts_execution_def
      split: prod.splits sum.splits start_result.splits)

lemma end_run_durable:
  "durable_rows (snd (end_run now request outcome (DurableLedger rows))) = (case outcome of
     Inl e \<Rightarrow> rows | Inr result \<Rightarrow> worker_step rows (PersistCall now request result))"
  by (auto simp: end_run_def ledger_finish_def map_result_def durable_rows_def split: sum.split prod.split)

text \<open>Every step of a history is a run of ledger calls.\<close>

lemma service_step_calls:
  "\<exists>calls. ww_ledger (service_step S w event) = foldl worker_step (ww_ledger w) calls"
proof (cases event)
  case (Submitted isolated now rq)
  obtain a l where a: "admit S isolated now rq (DurableLedger (ww_ledger w)) = (a, l)" by fastforce
  have step: "ww_ledger (service_step S w event) = durable_rows l"
    by (cases a) (simp_all add: Submitted a)
  show ?thesis
    using admit_durable [OF a] unfolding step
  proof (elim disjE exE conjE)
    fix request assume "durable_rows l = worker_step (ww_ledger w) (ClaimCall now request)"
    then show "\<exists>calls. durable_rows l = foldl worker_step (ww_ledger w) calls"
      by (intro exI [of _ "[ClaimCall now request]"]) simp
  next
    fix request assume "durable_rows l = worker_step (ww_ledger w) (ClaimCall now request)"
    then show "\<exists>calls. durable_rows l = foldl worker_step (ww_ledger w) calls"
      by (intro exI [of _ "[ClaimCall now request]"]) simp
  next
    fix request assume "durable_rows l = worker_step (worker_step (ww_ledger w) (ClaimCall now request))
      (PersistCall now request (disabled_result request))"
    then show "\<exists>calls. durable_rows l = foldl worker_step (ww_ledger w) calls"
      by (intro exI [of _ "[ClaimCall now request, PersistCall now request (disabled_result request)]"]) simp
  qed (auto intro: exI [of _ "[]"])
next
  case (Begun now i)
  obtain a l where a: "begin_run now (ww_admitted w ! i) (DurableLedger (ww_ledger w)) = (a, l)" by fastforce
  then have "durable_rows l = foldl worker_step (ww_ledger w) [StartCall now (ww_admitted w ! i)]"
    using begin_run_durable [OF a] by simp
  then show ?thesis
    by (cases a) (auto simp: Begun a Let_def intro: exI [of _ "[]"] exI [of _ "[StartCall now (ww_admitted w ! i)]"])
next
  case (Ended now i outcome)
  then show ?thesis
    by (cases outcome) (auto simp: Let_def end_run_durable intro: exI [of _ "[]"]
        exI [of _ "[PersistCall now (ww_running w ! i) (projr outcome)]"])
next
  case (Restarted now)
  then show ?thesis by (auto intro: exI [of _ "[ReconcileCall now]"])
qed (auto intro: exI [of _ "[]"])

lemma service_step_rows:
  assumes "rows_valid (ww_ledger w)"
  shows "rows_valid (ww_ledger (service_step S w event))"
    and "started_slot (ww_ledger w) k = Some t \<Longrightarrow> started_slot (ww_ledger (service_step S w event)) k = Some t"
    and "result_slot (ww_ledger w) k = Some c \<Longrightarrow> result_slot (ww_ledger (service_step S w event)) k = Some c"
  using service_step_calls [of S w event] assms start_barrier.inv_run start_barrier.slot_run
    worker_results.slot_run by metis+

lemma service_run_rows: "rows_valid (ww_ledger (service_run S events))"
proof -
  have "rows_valid (ww_ledger w) \<Longrightarrow> rows_valid (ww_ledger (foldl (service_step S) w events))" for w
    by (induction events arbitrary: w) (simp_all add: service_step_rows)
  then show ?thesis by (simp add: service_run_def new_world_def rows_valid_def)
qed

section \<open>What runs was submitted, once, and what completed ran\<close>

lemma digest_slot_step:
  assumes "rows_valid rows" "digest_slot rows k = Some d"
  shows "digest_slot (worker_step rows call) k = Some d"
  using worker_step_row [OF assms(1), of k _ call] assms(2) row_moves_slots(3) find_execution_valid [OF assms(1)]
  by (fastforce simp: digest_slot_def)

lemma digest_slot_run:
  "rows_valid rows \<Longrightarrow> digest_slot rows k = Some d \<Longrightarrow> digest_slot (foldl worker_step rows calls) k = Some d"
  by (induction calls arbitrary: rows) (simp_all add: digest_slot_step worker_step_valid)

lemma digest_slot_service:
  "rows_valid (ww_ledger w) \<Longrightarrow> digest_slot (ww_ledger w) k = Some d
    \<Longrightarrow> digest_slot (ww_ledger (service_step S w event)) k = Some d"
  using service_step_calls [of S w event] digest_slot_run by metis

lemma started_digest:
  assumes "starts_execution rows (StartCall now request) (wr_execution_request_id request)"
  shows "digest_slot rows (wr_execution_request_id request) = Some (wr_request_digest request)"
  using assms mark_executing_started by (fastforce simp: starts_execution_iff digest_slot_def)

lemma in_without: "x \<in> set (without i xs) \<Longrightarrow> x \<in> set xs"
  by (rule subsetD [OF set_without])

text \<open>The result of a completed execution.\<close>

definition completed_slot :: "worker_rows \<Rightarrow> string \<Rightarrow> result_column option" where
  "completed_slot rows k = (case find_execution k rows of
     None \<Rightarrow> None | Some row \<Rightarrow> if wl_state row = ''completed'' then wl_result_json row else None)"

lemma completed_slot_claim:
  "completed_slot (snd (claim_execution now request rows)) k = completed_slot rows k"
  by (simp add: claim_execution_def completed_slot_def find_execution_append claimed_row_def
      split: sum.split option.split)

lemma completed_slot_start:
  "completed_slot (snd (mark_executing now request rows)) k = completed_slot rows k"
  by (simp add: mark_executing_def completed_slot_def Let_def find_execution_update
      split: sum.split prod.split option.split)

lemma completed_slot_reconcile:
  "rows_valid rows \<Longrightarrow> completed_slot (snd (reconcile_executions now rows)) k = completed_slot rows k"
  by (simp add: reconcile_executions_eq completed_slot_def find_fold_settle split: option.split)

lemma completed_slot_persist:
  assumes "rows_valid rows"
  shows "completed_slot (snd (persist_result now request w rows)) k = completed_slot rows k
    \<or> (k = wr_execution_request_id request \<and> ws_status w = WS_SUCCEEDED
       \<and> completed_slot (snd (persist_result now request w rows)) k = Some (DecodesTo w)
       \<and> digest_slot rows k = Some (wr_request_digest request)
       \<and> validate_worker_result (Some request) w = Inr ())"
proof -
  let ?k = "wr_execution_request_id request"
  let ?store = "\<lambda>r. r\<lparr>wl_state := result_state w, wl_result_json := Some (DecodesTo w), wl_updated_at := now\<rparr>"
  have "completed_slot (update_execution (\<lambda>r. wl_execution_request_id r = ?k) ?store rows) k = completed_slot rows k
      \<or> (k = ?k \<and> ws_status w = WS_SUCCEEDED
       \<and> completed_slot (update_execution (\<lambda>r. wl_execution_request_id r = ?k) ?store rows) k = Some (DecodesTo w)
       \<and> digest_slot rows k = Some (wr_request_digest request))"
    if row: "row_for ?k rows = Inr row" and active: "wl_state row \<notin> set terminal_states"
      and check: "check_digest row request = Inr e" for row e
  proof -
    have found: "find_execution ?k rows = Some row"
      using row by (simp add: row_for_def split: option.splits)
    have digest: "wl_request_digest row = wr_request_digest request"
      using check by (auto simp: check_digest_def res_simps)
    show ?thesis
    proof (cases "k = ?k")
      case True
      then show ?thesis
        using found find_execution_row [OF found] digest active
        by (auto simp: completed_slot_def find_execution_update digest_slot_def result_state_def
            terminal_states_def)
    next
      case False
      then show ?thesis
        using find_execution_row [of k rows]
        by (auto simp: completed_slot_def find_execution_update split: option.split)
    qed
  qed
  then show ?thesis
    by (auto simp: persist_result_def Let_def and_then_Inr_iff split: sum.split prod.split option.split)
qed

definition service_inv :: "worker_settings \<Rightarrow> worker_event list \<Rightarrow> worker_world \<Rightarrow> bool" where
  "service_inv S events w \<longleftrightarrow> rows_valid (ww_ledger w)
     \<and> distinct (map wr_execution_request_id (ww_runs w))
     \<and> (\<forall>r \<in> set (ww_admitted w). submitted_by_client S events r)
     \<and> (\<forall>r \<in> set (ww_running w). r \<in> set (ww_runs w))
     \<and> (\<forall>r \<in> set (ww_runs w). submitted_by_client S events r
          \<and> started_slot (ww_ledger w) (wr_execution_request_id r) \<noteq> None
          \<and> digest_slot (ww_ledger w) (wr_execution_request_id r) = Some (wr_request_digest r))
     \<and> (\<forall>k c. completed_slot (ww_ledger w) k = Some c \<longrightarrow>
          (\<exists>(r, v) \<in> set (ww_results w). r \<in> set (ww_runs w) \<and> wr_execution_request_id r = k
             \<and> c = DecodesTo v \<and> validate_worker_result (Some r) v = Inr ()))"

lemma run_slots:
  assumes "service_inv S events w" "r \<in> set (ww_runs w)"
  shows "\<exists>t. started_slot (ww_ledger w) (wr_execution_request_id r) = Some t
    \<and> digest_slot (ww_ledger w) (wr_execution_request_id r) = Some (wr_request_digest r)"
proof -
  have "started_slot (ww_ledger w) (wr_execution_request_id r) \<noteq> None
      \<and> digest_slot (ww_ledger w) (wr_execution_request_id r) = Some (wr_request_digest r)"
    using assms unfolding service_inv_def by blast
  then show ?thesis by auto
qed

lemma service_inv_ledger:
  assumes "service_inv S events w"
  shows "r \<in> set (ww_runs w) \<Longrightarrow> started_slot (ww_ledger (service_step S w event)) (wr_execution_request_id r) \<noteq> None"
    and "r \<in> set (ww_runs w) \<Longrightarrow>
      digest_slot (ww_ledger (service_step S w event)) (wr_execution_request_id r) = Some (wr_request_digest r)"
    and "rows_valid (ww_ledger (service_step S w event))"
proof -
  have valid: "rows_valid (ww_ledger w)" using assms by (simp add: service_inv_def)
  then show "rows_valid (ww_ledger (service_step S w event))" by (rule service_step_rows)
  assume "r \<in> set (ww_runs w)"
  then obtain t where t: "started_slot (ww_ledger w) (wr_execution_request_id r) = Some t"
    "digest_slot (ww_ledger w) (wr_execution_request_id r) = Some (wr_request_digest r)"
    using run_slots [OF assms] by blast
  show "started_slot (ww_ledger (service_step S w event)) (wr_execution_request_id r) \<noteq> None"
    by (simp only: service_step_rows(2) [OF valid t(1)] option.simps not_False_eq_True)
  show "digest_slot (ww_ledger (service_step S w event)) (wr_execution_request_id r) = Some (wr_request_digest r)"
    by (rule digest_slot_service [OF valid t(2)])
qed

lemma submitted_later: "submitted_by_client S events r \<Longrightarrow> submitted_by_client S (events @ [event]) r"
  by (simp add: submitted_append)

lemma service_inv_same:
  assumes "service_inv S events w"
    and "ww_runs (service_step S w event) = ww_runs w"
    and "set (ww_admitted (service_step S w event)) \<subseteq> set (ww_admitted w)
      \<union> {r. submitted_by_client S [event] r}"
    and "set (ww_running (service_step S w event)) \<subseteq> set (ww_running w)"
    and "\<And>k c. completed_slot (ww_ledger (service_step S w event)) k = Some c \<Longrightarrow>
      completed_slot (ww_ledger w) k = Some c
      \<or> (\<exists>(r, v) \<in> set (ww_results (service_step S w event)). r \<in> set (ww_runs w)
             \<and> wr_execution_request_id r = k
             \<and> c = DecodesTo v \<and> validate_worker_result (Some r) v = Inr ())"
    and "set (ww_results w) \<subseteq> set (ww_results (service_step S w event))"
  shows "service_inv S (events @ [event]) (service_step S w event)"
proof -
  note old = assms(1) [unfolded service_inv_def]
  have "\<forall>r \<in> set (ww_admitted (service_step S w event)). submitted_by_client S (events @ [event]) r"
  proof
    fix r assume "r \<in> set (ww_admitted (service_step S w event))"
    then have "r \<in> set (ww_admitted w) \<or> submitted_by_client S [event] r" using assms(3) by blast
    then show "submitted_by_client S (events @ [event]) r" using old by (auto simp: submitted_append)
  qed
  moreover have "\<forall>r \<in> set (ww_running (service_step S w event)). r \<in> set (ww_runs (service_step S w event))"
    using old assms(4) unfolding assms(2) by blast
  moreover have "\<forall>r \<in> set (ww_runs (service_step S w event)). submitted_by_client S (events @ [event]) r
      \<and> started_slot (ww_ledger (service_step S w event)) (wr_execution_request_id r) \<noteq> None
      \<and> digest_slot (ww_ledger (service_step S w event)) (wr_execution_request_id r) = Some (wr_request_digest r)"
    unfolding assms(2)
    using old submitted_later service_inv_ledger(1,2) [OF assms(1)] by blast
  moreover have "\<forall>k c. completed_slot (ww_ledger (service_step S w event)) k = Some c \<longrightarrow>
      (\<exists>(r, v) \<in> set (ww_results (service_step S w event)). r \<in> set (ww_runs (service_step S w event))
         \<and> wr_execution_request_id r = k \<and> c = DecodesTo v \<and> validate_worker_result (Some r) v = Inr ())"
    unfolding assms(2) using old assms(5,6) by blast
  ultimately show ?thesis
    using old service_inv_ledger(3) [OF assms(1)] unfolding service_inv_def assms(2) by blast
qed

lemma completed_slot_end_run:
  assumes "rows_valid rows"
  shows "completed_slot (durable_rows (snd (end_run now request outcome (DurableLedger rows)))) k = completed_slot rows k
    \<or> (\<exists>v. outcome = Inr v \<and> k = wr_execution_request_id request
       \<and> completed_slot (durable_rows (snd (end_run now request outcome (DurableLedger rows)))) k = Some (DecodesTo v)
       \<and> validate_worker_result (Some request) v = Inr ())"
  using completed_slot_persist [OF assms] by (cases outcome) (auto simp: end_run_durable)

lemma completed_slot_admit:
  assumes "admit S isolated now rq (DurableLedger rows) = (a, l)" "rows_valid rows"
  shows "completed_slot (durable_rows l) k = completed_slot rows k"
proof -
  have refused: "completed_slot (snd (persist_result now request (disabled_result request) rows1)) k
      = completed_slot rows1 k" if "rows_valid rows1" for request rows1
    using completed_slot_persist [OF that, of now request "disabled_result request" k]
    by (auto simp: disabled_result_def)
  have claimed: "rows_valid (snd (claim_execution now request rows))" for request
    by (rule claim_execution_valid [OF assms(2)])
  show ?thesis
    using admit_durable [OF assms(1)]
    by (elim disjE exE conjE) (simp_all add: completed_slot_claim refused [OF claimed])
qed

lemma service_inv_begun:
  assumes "service_inv S events w" "r \<in> set (ww_admitted w)"
    and "starts_execution (ww_ledger w) (StartCall now r) (wr_execution_request_id r)"
    and "rows = worker_step (ww_ledger w) (StartCall now r)" "set admitted \<subseteq> set (ww_admitted w)"
  shows "service_inv S (events @ [event]) (w\<lparr>ww_admitted := admitted, ww_ledger := rows,
    ww_running := ww_running w @ [r], ww_runs := ww_runs w @ [r]\<rparr>)"
proof -
  let ?k = "wr_execution_request_id r"
  have valid: "rows_valid (ww_ledger w)" using assms(1) by (simp add: service_inv_def)
  have "started_slot (ww_ledger w) ?k = None" by (rule start_barrier.grant_fresh [OF valid assms(3)])
  then have fresh: "?k \<notin> wr_execution_request_id ` set (ww_runs w)"
    using run_slots [OF assms(1)] by force
  have now_started: "started_slot rows ?k \<noteq> None"
    using start_barrier.grant_fills [OF valid assms(3)] assms(4) by simp
  have now_digest: "digest_slot rows ?k = Some (wr_request_digest r)"
    unfolding assms(4) by (rule digest_slot_step [OF valid started_digest [OF assms(3)]])
  have kept: "started_slot rows (wr_execution_request_id q) \<noteq> None"
    "digest_slot rows (wr_execution_request_id q) = Some (wr_request_digest q)" if q: "q \<in> set (ww_runs w)" for q
  proof -
    obtain t where t: "started_slot (ww_ledger w) (wr_execution_request_id q) = Some t"
      "digest_slot (ww_ledger w) (wr_execution_request_id q) = Some (wr_request_digest q)"
      using run_slots [OF assms(1)] q by blast
    show "started_slot rows (wr_execution_request_id q) \<noteq> None"
      unfolding assms(4) by (simp only: start_barrier.slot_step [OF valid t(1)] option.simps not_False_eq_True)
    show "digest_slot rows (wr_execution_request_id q) = Some (wr_request_digest q)"
      unfolding assms(4) by (rule digest_slot_step [OF valid t(2)])
  qed
  have same: "completed_slot rows k = completed_slot (ww_ledger w) k" for k
    by (simp add: assms(4) completed_slot_start)
  have "rows_valid rows" unfolding assms(4) by (rule worker_step_valid [OF valid])
  moreover note old = assms(1) [unfolded service_inv_def]
  have "\<forall>q \<in> set (ww_runs w @ [r]). submitted_by_client S (events @ [event]) q
      \<and> started_slot rows (wr_execution_request_id q) \<noteq> None
      \<and> digest_slot rows (wr_execution_request_id q) = Some (wr_request_digest q)"
  proof
    fix q assume "q \<in> set (ww_runs w @ [r])"
    then consider "q \<in> set (ww_runs w)" | "q = r" by auto
    then show "submitted_by_client S (events @ [event]) q
      \<and> started_slot rows (wr_execution_request_id q) \<noteq> None
      \<and> digest_slot rows (wr_execution_request_id q) = Some (wr_request_digest q)"
    proof cases
      case 1
      then show ?thesis using old kept submitted_later by blast
    next
      case 2
      then show ?thesis using old assms(2) now_started now_digest submitted_later by blast
    qed
  qed
  moreover have "\<forall>q \<in> set admitted. submitted_by_client S (events @ [event]) q"
    using old assms(5) submitted_later by blast
  moreover have "\<forall>k c. completed_slot rows k = Some c \<longrightarrow>
      (\<exists>(q, v) \<in> set (ww_results w). q \<in> set (ww_runs w @ [r])
         \<and> wr_execution_request_id q = k \<and> c = DecodesTo v \<and> validate_worker_result (Some q) v = Inr ())"
    using old unfolding same set_append by blast
  moreover have "distinct (map wr_execution_request_id (ww_runs w @ [r]))"
    using old fresh by simp
  moreover have "\<forall>q \<in> set (ww_running w @ [r]). q \<in> set (ww_runs w @ [r])"
    using old by auto
  ultimately show ?thesis unfolding service_inv_def by simp
qed

lemma run_end_inv:
  assumes "service_inv S events w" "\<not> length (ww_running w) \<le> i"
  shows "service_inv S (events @ [Ended now i outcome]) (service_step S w (Ended now i outcome))"
proof -
  let ?r = "ww_running w ! i" and ?event = "Ended now i outcome"
  have run: "?r \<in> set (ww_runs w)" using assms by (simp add: service_inv_def)
  have valid: "rows_valid (ww_ledger w)" using assms by (simp add: service_inv_def)
  have ledger: "ww_ledger (service_step S w ?event)
      = durable_rows (snd (end_run now ?r outcome (DurableLedger (ww_ledger w))))"
    and results: "ww_results (service_step S w ?event)
      = ww_results w @ (case outcome of Inl e \<Rightarrow> [] | Inr result \<Rightarrow> [(?r, result)])"
    and fields: "ww_runs (service_step S w ?event) = ww_runs w"
      "ww_admitted (service_step S w ?event) = ww_admitted w"
      "ww_running (service_step S w ?event) = without i (ww_running w)"
    using assms(2) by (simp_all add: Let_def)
  show ?thesis
  proof (rule service_inv_same [OF assms(1)])
    fix k c assume c: "completed_slot (ww_ledger (service_step S w ?event)) k = Some c"
    show "completed_slot (ww_ledger w) k = Some c
      \<or> (\<exists>(r, v) \<in> set (ww_results (service_step S w ?event)). r \<in> set (ww_runs w)
             \<and> wr_execution_request_id r = k
             \<and> c = DecodesTo v \<and> validate_worker_result (Some r) v = Inr ())"
      using completed_slot_end_run [OF valid, of now ?r outcome k] run c
      unfolding ledger results by auto
  qed (unfold fields results, auto dest: in_without)
qed

lemma service_inv_step:
  assumes "service_inv S events w"
  shows "service_inv S (events @ [event]) (service_step S w event)"
proof -
  have valid: "rows_valid (ww_ledger w)" using assms by (simp add: service_inv_def)
  show ?thesis
  proof (cases event)
    case (Submitted isolated now rq)
    obtain a l where a: "admit S isolated now rq (DurableLedger (ww_ledger w)) = (a, l)" by fastforce
    have "submitted_by_client S [event] r" if "a = Admitted r" for r
      using admit_admissible [of S isolated now rq "DurableLedger (ww_ledger w)" r l] a that
      by (simp add: submitted_by_client_def Submitted)
    then show ?thesis
      using completed_slot_admit [OF a valid]
      by (intro service_inv_same [OF assms]) (auto simp: Submitted a split: admission.splits)
  next
    case (Begun now i)
    define r where "r = ww_admitted w ! i"
    obtain a l where a: "begin_run now r (DurableLedger (ww_ledger w)) = (a, l)" by fastforce
    note started = begin_run_durable [OF a]
    have same: "completed_slot (durable_rows l) k = completed_slot (ww_ledger w) k" for k
      using started completed_slot_start by simp
    show ?thesis
    proof (cases "length (ww_admitted w) \<le> i")
      case True
      then show ?thesis by (intro service_inv_same [OF assms]) (auto simp: Begun)
    next
      case within: False
      then have r: "r \<in> set (ww_admitted w)" by (simp add: r_def)
      show ?thesis
      proof (cases a)
        case (Some reply)
        then show ?thesis
          using within a same
          by (intro service_inv_same [OF assms]) (auto simp: Begun Let_def r_def dest: in_without)
      next
        case None
        have "service_step S w event = w\<lparr>ww_admitted := without i (ww_admitted w),
            ww_ledger := durable_rows l, ww_running := ww_running w @ [r], ww_runs := ww_runs w @ [r]\<rparr>"
          using within a None by (simp add: Begun Let_def r_def)
        moreover have "starts_execution (ww_ledger w) (StartCall now r) (wr_execution_request_id r)"
          using started None by simp
        ultimately show ?thesis
          using service_inv_begun [OF assms r _ conjunct1 [OF started] set_without] by simp
      qed
    qed
  next
    case (Ended now i outcome)
    show ?thesis
    proof (cases "length (ww_running w) \<le> i")
      case True
      then show ?thesis by (intro service_inv_same [OF assms]) (auto simp: Ended)
    next
      case False
      then show ?thesis
        using run_end_inv [OF assms] False by (simp add: Ended)
    qed
  next
    case (Restarted now)
    then show ?thesis
      using completed_slot_reconcile [OF valid] by (intro service_inv_same [OF assms]) auto
  next
    case (Abandoned i)
    then show ?thesis by (intro service_inv_same [OF assms]) (auto dest: in_without)
  next
    case (Lost i)
    then show ?thesis by (intro service_inv_same [OF assms]) (auto dest: in_without)
  qed
qed

lemma service_run_inv: "service_inv S events (service_run S events)"
proof (induction events rule: rev_induct)
  case Nil
  then show ?case
    by (simp add: service_run_def new_world_def service_inv_def rows_valid_def completed_slot_def find_execution_def)
next
  case (snoc event events)
  then show ?case using service_inv_step by (simp add: service_run_def)
qed

lemma admit_enabled:
  "admit S isolated now rq l = (Admitted request, l') \<Longrightarrow> wt_execution_enabled S"
  by (auto simp: admit_def split: option.splits sum.splits if_splits prod.splits exn.splits)

lemma disabled_never_runs:
  assumes "\<not> wt_execution_enabled S"
  shows "ww_admitted (service_run S events) = [] \<and> ww_runs (service_run S events) = []"
proof (induction events rule: rev_induct)
  case Nil
  then show ?case by (simp add: service_run_def new_world_def)
next
  case (snoc event events)
  then show ?case
    using assms admit_enabled [of S]
    by (cases event) (auto simp: service_run_def Let_def without_def split: prod.split admission.split)
qed

text \<open>
  C4. The worker runs only what was submitted, and once: over every history of submissions, steps of
  their processing, deaths and restarts of processes, no execution request reaches the runner
  twice; each one that does passes the contract and came in on a connection from the accepted address
  with the one credential, within the bound on its bytes and in time, while the isolation was
  observed, and its repository token is one a runner is configured for; with execution disabled none
  does.
\<close>

theorem submitted_requests_run_once:
  "let w = service_run S events in
     distinct (map wr_execution_request_id (ww_runs w))
     \<and> list_all (\<lambda>r. validate_worker_request True r = Inr () \<and> submitted_by_client S events r) (ww_runs w)
     \<and> (wt_execution_enabled S \<or> ww_runs w = [])"
proof -
  let ?w = "service_run S events"
  have "validate_worker_request True r = Inr ()" if submitted: "submitted_by_client S events r" for r
  proof -
    obtain event where "case event of Submitted isolated now rq \<Rightarrow> admissible_submission S isolated rq r
      | _ \<Rightarrow> False"
      using submitted unfolding submitted_by_client_def list_ex_iff by blast
    then show ?thesis by (cases event) (simp_all add: admissible_submission_def)
  qed
  moreover have "distinct (map wr_execution_request_id (ww_runs ?w))"
    "\<forall>r \<in> set (ww_runs ?w). submitted_by_client S events r"
    using service_run_inv [of S events] unfolding service_inv_def by blast+
  ultimately show ?thesis
    using disabled_never_runs [of S events] by (auto simp: Let_def list_all_iff)
qed

text \<open>The row of a completed execution: a run request of that identity and digest succeeded.\<close>

definition completed_by_run :: "worker_world \<Rightarrow> worker_row \<Rightarrow> bool" where
  "completed_by_run w row = list_ex (\<lambda>(r, v). r \<in> set (ww_runs w)
     \<and> wr_execution_request_id r = wl_execution_request_id row
     \<and> wr_request_digest r = wl_request_digest row
     \<and> wl_result_json row = Some (DecodesTo v) \<and> ws_status v = WS_SUCCEEDED
     \<and> validate_worker_result (Some r) v = Inr ()) (ww_results w)"

lemma find_execution_member:
  "rows_valid rows \<Longrightarrow> row \<in> set rows \<Longrightarrow> find_execution (wl_execution_request_id row) rows = Some row"
  using unique_row [of rows "wl_execution_request_id row" _ row]
  by (cases "find_execution (wl_execution_request_id row) rows") (auto simp: find_execution_None)

lemma completed_row_status:
  "row_valid row \<Longrightarrow> wl_state row = ''completed'' \<Longrightarrow> wl_result_json row = Some (DecodesTo v)
    \<Longrightarrow> ws_status v = WS_SUCCEEDED"
  by (auto simp: row_valid_iff succeeds_iff validate_row_result_def expected_state_def terminal_states_def
      res_simps split: if_splits)

lemma completed_row_result:
  "row_valid row \<Longrightarrow> wl_state row = ''completed'' \<Longrightarrow> wl_result_json row \<noteq> None"
  by (cases "wl_result_json row") (auto simp: row_valid_iff validate_row_result_def terminal_states_def)

text \<open>
  A success in the ledger is a success of the runner: in every history a row in state completed holds
  exactly a result the runner returned, for a request that was run under the identity and the
  digest of the row, and the result validates against that request.
\<close>

theorem completed_rows_were_run:
  "list_all (\<lambda>row. if wl_state row = ''completed'' then completed_by_run (service_run S events) row else True)
     (ww_ledger (service_run S events))"
proof -
  let ?w = "service_run S events"
  have inv: "service_inv S events ?w" by (rule service_run_inv)
  have valid: "rows_valid (ww_ledger ?w)" by (rule service_run_rows)
  have "completed_by_run ?w row" if row: "row \<in> set (ww_ledger ?w)" "wl_state row = ''completed''" for row
  proof -
    have found: "find_execution (wl_execution_request_id row) (ww_ledger ?w) = Some row"
      by (rule find_execution_member [OF valid row(1)])
    note ok = find_execution_valid [OF valid found]
    obtain c where c: "wl_result_json row = Some c" using completed_row_result [OF ok row(2)] by auto
    then have "completed_slot (ww_ledger ?w) (wl_execution_request_id row) = Some c"
      by (simp add: completed_slot_def found row(2))
    then obtain r v where v: "(r, v) \<in> set (ww_results ?w)" "r \<in> set (ww_runs ?w)"
      "wr_execution_request_id r = wl_execution_request_id row" "c = DecodesTo v"
      "validate_worker_result (Some r) v = Inr ()"
      using inv unfolding service_inv_def by blast
    have "wr_request_digest r = wl_request_digest row"
      using run_slots [OF inv v(2)] found v(3) by (simp add: digest_slot_def)
    then show ?thesis
      using v c completed_row_status [OF ok row(2)] by (auto simp: completed_by_run_def list_ex_iff)
  qed
  then show ?thesis by (simp add: list_all_iff)
qed

lemma row_moves_terminal: "row_moves r r' \<Longrightarrow> wl_state r \<in> set terminal_states \<Longrightarrow> r' = r"
  by (auto elim!: row_movesE simp: terminal_states_def)

lemma terminal_row_run:
  "rows_valid rows \<Longrightarrow> find_execution k rows = Some r \<Longrightarrow> wl_state r \<in> set terminal_states
    \<Longrightarrow> find_execution k (foldl worker_step rows calls) = Some r"
proof (induction calls arbitrary: rows)
  case (Cons call calls)
  obtain r' where "find_execution k (worker_step rows call) = Some r'" "row_moves r r'"
    using worker_step_row [OF Cons.prems(1,2)] by blast
  then show ?case
    using Cons.IH [OF worker_step_valid [OF Cons.prems(1)]] Cons.prems row_moves_terminal by simp
qed simp

lemma service_later_calls:
  "\<exists>calls. ww_ledger (service_run S (events @ later)) = foldl worker_step (ww_ledger (service_run S events)) calls"
proof (induction later rule: rev_induct)
  case Nil
  then show ?case by (auto intro: exI [of _ "[]"])
next
  case (snoc event later)
  obtain calls where calls: "ww_ledger (service_run S (events @ later))
      = foldl worker_step (ww_ledger (service_run S events)) calls"
    using snoc by blast
  obtain more_calls where "ww_ledger (service_step S (service_run S (events @ later)) event)
      = foldl worker_step (ww_ledger (service_run S (events @ later))) more_calls"
    using service_step_calls by blast
  moreover have "service_run S (events @ later @ [event]) = service_step S (service_run S (events @ later)) event"
    by (simp add: service_run_def)
  ultimately have "ww_ledger (service_run S (events @ later @ [event]))
      = foldl worker_step (ww_ledger (service_run S events)) (calls @ more_calls)"
    by (simp only: calls foldl_append)
  then show ?case by blast
qed

lemma get_execution_eq:
  assumes "rows_valid rows"
  shows "get_execution k rows = Inr (map_option entry_of (find_execution k rows))"
  using find_execution_valid [OF assms] row_entry_of
  by (auto simp: get_execution_def split: option.split)

lemma entry_of_result:
  assumes "row_valid row" "de_result (entry_of row) \<noteq> None"
  shows "wl_state row \<in> set terminal_states"
  using row_entry_of [OF assms(1)] assms(2)
  by (auto simp: row_entry_Inr_iff validate_worker_row_Inr validate_row_result_def res_simps split: if_splits)

text \<open>
  C8. What the worker once answered stays: in every history each lookup reads a valid record, and
  an execution that has a result is answered with the very same entry after whatever follows.
\<close>

theorem answers_are_durable:
  "case get_execution k (ww_ledger (service_run S events)) of
     Inl e \<Rightarrow> False
   | Inr None \<Rightarrow> True
   | Inr (Some entry) \<Rightarrow> if de_result entry = None then True
       else get_execution k (ww_ledger (service_run S (events @ later))) = Inr (Some entry)"
proof -
  have valid: "rows_valid (ww_ledger (service_run S evs))" for evs by (rule service_run_rows)
  show ?thesis
  proof (cases "find_execution k (ww_ledger (service_run S events))")
    case (Some row)
    show ?thesis
    proof (cases "de_result (entry_of row) = None")
      case False
      then have "wl_state row \<in> set terminal_states"
        using entry_of_result [OF find_execution_valid [OF valid Some]] by blast
      then have "find_execution k (ww_ledger (service_run S (events @ later))) = Some row"
        using terminal_row_run [OF valid Some] service_later_calls [of S events later] by auto
      then show ?thesis by (simp add: get_execution_eq [OF valid] Some)
    qed (simp add: get_execution_eq [OF valid] Some)
  qed (simp add: get_execution_eq [OF valid])
qed

lemma fold_settle_map:
  "fold (settle_executing now) ks rows = map (\<lambda>r. if wl_execution_request_id r \<in> set ks \<and> wl_state r = ''executing''
     then r\<lparr>wl_state := ''unknown_outcome'', wl_result_json := Some (DecodesTo (unknown_result (wl_execution_request_id r))),
       wl_updated_at := now\<rparr>
     else r) rows"
proof (induction ks arbitrary: rows)
  case (Cons k ks)
  show ?case
    by (simp add: Cons.IH) (auto simp: settle_executing_def update_execution_def)
qed simp

text \<open>
  Starting the worker settles exactly what was interrupted: on every reachable ledger reconciliation
  succeeds, turns each execution that had started into an unknown outcome with the stand-in
  result, leaves every other row as it is, and reports how many were claimed and how many settled.
\<close>

theorem restart_settles_interrupted:
  "let rows = ww_ledger (service_run S events) in
     reconcile_executions now rows =
       (Inr \<lparr>rc_claimed = length (filter (\<lambda>r. wl_state r = ''claimed'') rows),
             rc_unknown_outcome = length (filter (\<lambda>r. wl_state r = ''executing'') rows)\<rparr>,
        map (\<lambda>r. if wl_state r = ''executing''
          then r\<lparr>wl_state := ''unknown_outcome'',
            wl_result_json := Some (DecodesTo (unknown_result (wl_execution_request_id r))),
            wl_updated_at := now\<rparr>
          else r) rows)"
  by (auto simp: Let_def reconcile_executions_eq [OF service_run_rows] fold_settle_map)


end
