(* ===== verification/WorkerRunner.thy ===== *)
theory WorkerRunner
  imports WorkerLedger
begin

text \<open>
  How the execution worker carries out a request: the disposable workspace
  (\<open>atlas_execution_worker/workspace.py\<close>), the run and the collection of its patch
  (\<open>runner.py\<close>), the observed isolation (\<open>isolation.py\<close>) and the bounded capture of a command's
  output (\<open>process.py\<close>). Commands and files belong to a host that acts on a world the model does
  not look into: \<open>ho_run\<close> is \<open>run_command\<close>, whose process group and clock are outside the model.
\<close>

section \<open>Bounded capture\<close>

definition max_capture_bytes :: nat where
  "max_capture_bytes = 1048576"

record capture =
  cp_limit :: nat
  cp_prefix :: "byte list"
  cp_total :: nat

definition new_capture :: "nat \<Rightarrow> capture" where
  "new_capture limit = \<lparr>cp_limit = limit, cp_prefix = [], cp_total = 0\<rparr>"

definition capture_add :: "capture \<Rightarrow> byte list \<Rightarrow> capture" where
  "capture_add c chunk = c\<lparr>cp_total := cp_total c + length chunk,
     cp_prefix := cp_prefix c @ take (cp_limit c - length (cp_prefix c)) chunk\<rparr>"

text \<open>\<open>decode\<close> is \<open>bytes.decode("utf-8", errors="ignore")\<close>.\<close>

definition capture_output :: "(byte list \<Rightarrow> string) \<Rightarrow> capture \<Rightarrow> bounded_output" where
  "capture_output decode c =
     (let t = decode (cp_prefix c); retained = length (utf8 t) in
      \<lparr>bo_text = t, bo_truncated = (retained < cp_total c), bo_original_bytes = Some (int (cp_total c))\<rparr>)"

section \<open>Observed isolation\<close>

definition line_break :: "char \<Rightarrow> bool" where
  "line_break c \<longleftrightarrow> c \<in> set [CHR 0x0A, CHR 0x0B, CHR 0x0C, CHR 0x0D, CHR 0x1C, CHR 0x1D, CHR 0x1E, CHR 0x85]"

text \<open>\<open>str.splitlines\<close>; a carriage return with a line feed is one break.\<close>

fun split_lines_onto :: "string \<Rightarrow> string \<Rightarrow> string list" where
  "split_lines_onto w [] = (if w = [] then [] else [w])"
| "split_lines_onto w [c] = (if line_break c then [w] else [w @ [c]])"
| "split_lines_onto w (c # d # s) =
     (if c = CHR 0x0D \<and> d = CHR 0x0A then w # split_lines_onto [] s
      else if line_break c then w # split_lines_onto [] (d # s)
      else split_lines_onto (w @ [c]) (d # s))"

definition split_lines :: "string \<Rightarrow> string list" where
  "split_lines s = split_lines_onto [] s"

fun isolation_fields :: "(string \<times> string) list \<Rightarrow> string list \<Rightarrow> (string \<times> string) list res" where
  "isolation_fields seen [] = Inr seen"
| "isolation_fields seen (line # lines) =
     (let name = takeWhile (\<lambda>c. c \<noteq> CHR '':'') line;
          value = drop 1 (dropWhile (\<lambda>c. c \<noteq> CHR '':'') line) in
      if CHR '':'' \<in> set line \<and> name \<in> set [''NoNewPrivs'', ''CapEff'']
      then if name \<in> fst ` set seen
           then Inl (IsolationUnavailable ''ambiguous isolation observation'')
           else isolation_fields (seen @ [(name, strip value)]) lines
      else isolation_fields seen lines)"

definition from_observations :: "int \<Rightarrow> int \<Rightarrow> bool \<Rightarrow> string \<Rightarrow> bool option \<Rightarrow> worker_attestation res" where
  "from_observations uid gid readonly status no_new_privileges =
     and_then (isolation_fields [] (split_lines status)) (\<lambda>seen.
     let capabilities = (case map_of seen ''CapEff'' of None \<Rightarrow> [] | Some v \<Rightarrow> v);
         reported = map_of seen ''NoNewPrivs'';
         observed = (case reported of Some v \<Rightarrow> Some (v = ''1'') | None \<Rightarrow> no_new_privileges) in
     and_then (require (\<not> (reported \<noteq> None \<and> no_new_privileges \<noteq> None \<and> observed \<noteq> no_new_privileges))
       (IsolationUnavailable ''conflicting privilege observations'')) (\<lambda>_.
     and_then (require (uid = 10001 \<and> gid = 10001 \<and> readonly \<and> observed = Some True)
       (IsolationUnavailable ''required execution isolation unavailable'')) (\<lambda>_.
     and_then (require (capabilities \<noteq> [] \<and> length capabilities \<le> 32
         \<and> list_all is_hex_char capabilities \<and> hex_value capabilities = 0)
       (IsolationUnavailable ''required execution capabilities unavailable'')) (\<lambda>_.
     let result = \<lparr>wa_runtime_uid = uid, wa_readonly_rootfs = readonly, wa_no_new_privileges = True,
           wa_effective_capabilities = capabilities, wa_sandbox_profile = ''atlas-workspace-observed''\<rparr> in
     and_then (validate_attestation result) (\<lambda>_. Inr result)))))"

section \<open>The host\<close>

text \<open>\<open>CommandRan code out err\<close>, the timeout with what was captured, or the \<open>OSError\<close> of starting it.\<close>

datatype run_reply = CommandRan int bounded_output bounded_output
  | CommandTimedOut bounded_output bounded_output | CommandNotStarted

text \<open>The deadline of a command, its output bound and the variables added to the environment.\<close>

datatype command_deadline = PreparationRemaining | Seconds py_number

record run_options =
  ro_timeout :: command_deadline
  ro_output_limit :: nat
  ro_environment :: "(string \<times> string) list"

record 'w worker_host =
  ho_run :: "path \<Rightarrow> string list \<Rightarrow> run_options \<Rightarrow> 'w \<Rightarrow> run_reply \<times> 'w"
  ho_exists :: "path \<Rightarrow> 'w \<Rightarrow> bool"
  ho_is_dir :: "path \<Rightarrow> 'w \<Rightarrow> bool"
  ho_is_file :: "path \<Rightarrow> 'w \<Rightarrow> bool"
  ho_is_symlink :: "path \<Rightarrow> 'w \<Rightarrow> bool"
  ho_resolve :: "path \<Rightarrow> 'w \<Rightarrow> path"
  ho_directory_empty :: "path \<Rightarrow> 'w \<Rightarrow> bool"
  ho_read_bytes :: "path \<Rightarrow> 'w \<Rightarrow> byte list option"
  ho_read_text :: "path \<Rightarrow> 'w \<Rightarrow> string option"
  ho_write_text :: "path \<Rightarrow> string \<Rightarrow> 'w \<Rightarrow> bool \<times> 'w"
  ho_remove_tree :: "path \<Rightarrow> 'w \<Rightarrow> bool \<times> 'w"
  ho_expired :: "'w \<Rightarrow> bool"
  ho_elapsed :: "'w \<Rightarrow> py_number"
  ho_attestation :: "'w \<Rightarrow> worker_attestation res"

record workspace =
  wk_request_id :: string
  wk_path :: path
  wk_base_head :: string
  wk_request_digest :: string

record runner_config =
  rf_source_input :: path
  rf_source_root :: path
  rf_workspace_root :: path
  rf_repository_token :: string
  rf_trusted_paths :: "path list"
  rf_git_config :: path
  rf_enabled :: bool

record 'w runner =
  rn_world :: 'w
  rn_active :: "(string \<times> workspace) list"
  rn_attestation :: "worker_attestation option"

definition output_parts :: "bounded_output \<Rightarrow> string \<times> bool \<times> int option" where
  "output_parts out = (bo_text out, bo_truncated out, bo_original_bytes out)"

definition output_of_parts :: "string \<times> bool \<times> int option \<Rightarrow> bounded_output" where
  "output_of_parts p = (case p of (t, short, n) \<Rightarrow>
     \<lparr>bo_text = t, bo_truncated = short, bo_original_bytes = n\<rparr>)"

record captured =
  ca_returncode :: int
  ca_stdout :: bounded_output
  ca_stderr :: bounded_output

definition run_command :: "'w worker_host \<Rightarrow> path \<Rightarrow> string list \<Rightarrow> run_options \<Rightarrow> ('w runner, captured) action" where
  "run_command H cwd argv options s =
     (case ho_run H cwd argv options (rn_world s) of
        (CommandRan code out err, w) \<Rightarrow>
          (Inr \<lparr>ca_returncode = code, ca_stdout = out, ca_stderr = err\<rparr>, s\<lparr>rn_world := w\<rparr>)
      | (CommandTimedOut out err, w) \<Rightarrow>
          (Inl (CommandTimeout (output_parts out) (output_parts err)), s\<lparr>rn_world := w\<rparr>)
      | (CommandNotStarted, w) \<Rightarrow> (Inl (OSError ''command not started''), s\<lparr>rn_world := w\<rparr>))"

definition look :: "('w \<Rightarrow> 'a) \<Rightarrow> ('w runner, 'a) action" where
  "look f s = (Inr (f (rn_world s)), s)"

definition check :: "('w \<Rightarrow> bool) \<Rightarrow> exn \<Rightarrow> ('w runner, unit) action" where
  "check f e s = (if f (rn_world s) then (Inr (), s) else (Inl e, s))"

definition remove_tree :: "'w worker_host \<Rightarrow> path \<Rightarrow> ('w runner, unit) action" where
  "remove_tree H p s = (case ho_remove_tree H p (rn_world s) of
     (ok, w) \<Rightarrow> ((if ok then Inr () else Inl (OSError ''rmtree'')), s\<lparr>rn_world := w\<rparr>))"

section \<open>The workspace\<close>

definition path_parent :: "path \<Rightarrow> path" where
  "path_parent p = Path (absolute p) (butlast (segments p))"

definition request_path :: "'w worker_host \<Rightarrow> runner_config \<Rightarrow> string \<Rightarrow> ('w runner, path) action" where
  "request_path H C request_id =
     (let base = rf_workspace_root C; p = join_path base (path_of request_id) in
      if \<not> worker_id request_id \<or> request_id = ''quarantine''
      then raise (WorkspaceError ''invalid owned workspace identity'')
      else seq (check (\<lambda>w. \<not> ho_is_symlink H base w \<and> ho_is_dir H base w \<and> ho_resolve H base w = base)
             (WorkspaceError ''workspace root ownership changed'')) (\<lambda>_.
           seq (check (\<lambda>w. \<not> ho_is_symlink H p w \<and> path_parent (ho_resolve H p w) = base)
             (WorkspaceError ''workspace path ownership changed'')) (\<lambda>_. pure p)))"

definition preparation_options :: "runner_config \<Rightarrow> run_options" where
  "preparation_options C = \<lparr>ro_timeout = PreparationRemaining, ro_output_limit = max_capture_bytes,
     ro_environment = [(''GIT_CONFIG_GLOBAL'', path_text (rf_git_config C))]\<rparr>"

definition workspace_git :: "'w worker_host \<Rightarrow> runner_config \<Rightarrow> path \<Rightarrow> string list \<Rightarrow> ('w runner, string) action" where
  "workspace_git H C p arguments =
     attempt (run_command H (rf_workspace_root C) ([''git'', ''-C'', path_text p] @ arguments)
         (preparation_options C))
       (\<lambda>e. raise (case e of CommandTimeout a b \<Rightarrow> WorkspaceTimeout ''workspace Git deadline exceeded''
          | _ \<Rightarrow> WorkspaceError ''workspace Git unavailable''))
       (\<lambda>r. if ca_returncode r \<noteq> 0 \<or> bo_truncated (ca_stdout r)
            then raise (WorkspaceError ''workspace Git failed'')
            else pure (strip (bo_text (ca_stdout r))))"

definition remaining :: "'w worker_host \<Rightarrow> ('w runner, unit) action" where
  "remaining H = check (\<lambda>w. \<not> ho_expired H w) (WorkspaceTimeout ''workspace preparation deadline exceeded'')"

definition clone_workspace :: "'w worker_host \<Rightarrow> runner_config \<Rightarrow> worker_request \<Rightarrow> path \<Rightarrow> ('w runner, string) action" where
  "clone_workspace H C request p =
     seq (remaining H) (\<lambda>_.
     seq (run_command H (rf_workspace_root C) [''git'', ''clone'', ''--no-local'', ''--no-hardlinks'',
         path_text (rf_source_root C), path_text p] (preparation_options C)) (\<lambda>r.
     if ca_returncode r \<noteq> 0 \<or> bo_truncated (ca_stdout r) \<or> bo_truncated (ca_stderr r)
     then raise (WorkspaceError ''workspace clone failed'')
     else seq (remaining H) (\<lambda>_.
     seq (workspace_git H C p [''rev-parse'', ''HEAD'']) (\<lambda>cloned_head.
     if cloned_head \<noteq> wr_expected_repository_head request
     then raise (WorkspaceError ''cloned workspace head does not match expected head'')
     else pure cloned_head))))"

definition timed_out :: "exn \<Rightarrow> bool" where
  "timed_out e = (case e of CommandTimeout a b \<Rightarrow> True | WorkspaceTimeout m \<Rightarrow> True | _ \<Rightarrow> False)"

definition drop_clone :: "'w worker_host \<Rightarrow> path \<Rightarrow> exn \<Rightarrow> ('w runner, 'a) action" where
  "drop_clone H p e =
     seq (look (\<lambda>w. ho_is_dir H p w \<and> \<not> ho_is_symlink H p w)) (\<lambda>there.
     seq (if there then remove_tree H p else pure ()) (\<lambda>_.
     raise (if timed_out e then WorkspaceTimeout ''workspace preparation deadline exceeded''
            else WorkspaceError ''workspace preparation failed'')))"

definition active_workspace :: "string \<Rightarrow> workspace option \<Rightarrow> ('w runner, unit) action" where
  "active_workspace request_id value s =
     (Inr (), s\<lparr>rn_active := (case value of
        None \<Rightarrow> AList.delete request_id (rn_active s)
      | Some v \<Rightarrow> AList.update request_id v (rn_active s))\<rparr>)"

definition reuse_workspace ::
  "'w worker_host \<Rightarrow> worker_request \<Rightarrow> path \<Rightarrow> workspace \<Rightarrow> ('w runner, workspace) action" where
  "reuse_workspace H request p existing =
     (if wk_base_head existing \<noteq> wr_expected_repository_head request
         \<or> wk_request_digest existing \<noteq> wr_request_digest request
      then raise (WorkspaceError ''request workspace has conflicting immutable request'')
      else seq (check (\<lambda>w. wk_path existing = p \<and> ho_is_dir H p w)
        (WorkspaceError ''active workspace material is unavailable'')) (\<lambda>_. pure existing))"

text \<open>\<open>prepare\<close> where no workspace is active for the request.\<close>

definition new_workspace ::
  "'w worker_host \<Rightarrow> runner_config \<Rightarrow> worker_request \<Rightarrow> path \<Rightarrow> ('w runner, workspace) action" where
  "new_workspace H C request p =
     seq (check (\<lambda>w. \<not> ho_is_symlink H (rf_source_input C) w \<and> ho_is_dir H (rf_source_root C) w)
       (WorkspaceError ''trusted repository source is invalid'')) (\<lambda>_.
     if rf_source_root C \<notin> set (rf_trusted_paths C)
     then raise (WorkspaceError ''repository source is not configured'')
     else seq (remaining H) (\<lambda>_.
     seq (workspace_git H C (rf_source_root C) [''rev-parse'', ''HEAD'']) (\<lambda>source_head.
     if source_head \<noteq> wr_expected_repository_head request
     then raise (WorkspaceError ''stale repository'')
     else seq (check (\<lambda>w. \<not> ho_exists H p w \<and> \<not> ho_is_symlink H p w)
       (WorkspaceError ''request workspace already exists'')) (\<lambda>_.
     attempt (clone_workspace H C request p) (drop_clone H p) (\<lambda>cloned_head.
     let workspace = \<lparr>wk_request_id = wr_execution_request_id request, wk_path = p,
           wk_base_head = cloned_head, wk_request_digest = wr_request_digest request\<rparr> in
     seq (active_workspace (wr_execution_request_id request) (Some workspace)) (\<lambda>_.
     pure workspace))))))"

definition prepare :: "'w worker_host \<Rightarrow> runner_config \<Rightarrow> worker_request \<Rightarrow> ('w runner, workspace) action" where
  "prepare H C request =
     seq (lift (validate_worker_request True request)) (\<lambda>_.
     seq (request_path H C (wr_execution_request_id request)) (\<lambda>p.
     if wr_repository_token request \<noteq> rf_repository_token C
     then raise (WorkspaceError ''repository token is not accepted'')
     else (\<lambda>s. case map_of (rn_active s) (wr_execution_request_id request) of
       Some existing \<Rightarrow> reuse_workspace H request p existing s
     | None \<Rightarrow> new_workspace H C request p s)))"

definition clean_path :: "'w worker_host \<Rightarrow> string \<Rightarrow> path \<Rightarrow> ('w runner, unit) action" where
  "clean_path H request_id p =
     seq (check (\<lambda>w. \<not> ho_is_symlink H p w \<and> (ho_exists H p w \<longrightarrow> ho_is_dir H p w))
       (WorkspaceError ''refusing to clean non-directory workspace'')) (\<lambda>_.
     seq (look (ho_exists H p)) (\<lambda>there.
     seq (if there then remove_tree H p else pure ()) (\<lambda>_.
     active_workspace request_id None)))"

definition cleanup :: "'w worker_host \<Rightarrow> runner_config \<Rightarrow> string \<Rightarrow> ('w runner, unit) action" where
  "cleanup H C request_id =
     seq (request_path H C request_id) (\<lambda>p s.
     case map_of (rn_active s) request_id of
       Some workspace \<Rightarrow>
         (if wk_path workspace \<noteq> p
          then raise (WorkspaceError ''active workspace ownership mismatch'') s
          else clean_path H request_id p s)
     | None \<Rightarrow> clean_path H request_id p s)"

section \<open>The repository control files\<close>

definition git_argv :: "path \<Rightarrow> string list \<Rightarrow> string list" where
  "git_argv base arguments = [''git'', ''-C'', path_text base, ''-c'', ''core.hooksPath=/dev/null'',
     ''-c'', ''core.fsmonitor=false''] @ arguments"

definition git_options :: run_options where
  "git_options = \<lparr>ro_timeout = Seconds (PyInt 30), ro_output_limit = max_capture_bytes,
     ro_environment = [(''GIT_NO_REPLACE_OBJECTS'', ''1''), (''GIT_CONFIG_NOSYSTEM'', ''1'')]\<rparr>"

text \<open>\<open>bytes.decode\<close>, exact on the code points below 256; other text is outside the model.\<close>

fun utf8_text :: "byte list \<Rightarrow> string option" where
  "utf8_text [] = Some []"
| "utf8_text (b # bs) =
     (if b < 128 then map_option ((#) (char_of (unat b))) (utf8_text bs)
      else case bs of [] \<Rightarrow> None
        | d # ds \<Rightarrow>
          (if (b = 194 \<or> b = 195) \<and> 128 \<le> d \<and> d < 192
           then map_option ((#) (char_of (unat (64 * (b - 192) + (d - 128))))) (utf8_text ds)
           else None))"

definition byte_space :: "byte \<Rightarrow> bool" where
  "byte_space b \<longleftrightarrow> b \<in> set [9, 10, 11, 12, 13, 32]"

definition strip_bytes :: "byte list \<Rightarrow> byte list" where
  "strip_bytes bs = rev (dropWhile byte_space (rev (dropWhile byte_space bs)))"

definition control_names :: "string list" where
  "control_names = [''HEAD'', ''config'', ''packed-refs'', ''commondir'', ''gitdir'', ''shallow'',
     ''info/attributes'', ''info/grafts'', ''objects/info/alternates'']"

definition control_changed :: "string \<Rightarrow> ('w runner, 'a) action" where
  "control_changed message = raise (RepositoryControlChanged message)"

text \<open>\<open>stream.read(65537)\<close> of a file.\<close>

definition read_prefix :: "'w worker_host \<Rightarrow> path \<Rightarrow> ('w runner, byte list) action" where
  "read_prefix H p s = (case ho_read_bytes H p (rn_world s) of
     None \<Rightarrow> (Inl (RepositoryControlChanged ''unreadable repository metadata''), s)
   | Some bs \<Rightarrow> (Inr (take 65537 bs), s))"

definition control_record :: "'w worker_host \<Rightarrow> path \<Rightarrow> string \<Rightarrow> ('w runner, byte list) action" where
  "control_record H git name =
     (let p = join_path git (path_of name) in
      seq (check (\<lambda>w. \<not> ho_is_symlink H p w \<and> relative_to (ho_resolve H git w) (ho_resolve H p w))
        (RepositoryControlChanged ''repository metadata escapes clone'')) (\<lambda>_.
      seq (look (ho_exists H p)) (\<lambda>there.
      if \<not> there then pure (utf8 (name @ '':missing'') @ [0])
      else seq (check (ho_is_file H p) (RepositoryControlChanged ''unsupported repository metadata'')) (\<lambda>_.
      seq (read_prefix H p) (\<lambda>bytes.
      if 65536 < length bytes then control_changed ''repository metadata exceeds bound''
      else pure (utf8 (name @ '':'') @ bytes @ [0]))))))"

definition head_reference :: "byte list \<Rightarrow> string list res" where
  "head_reference head =
     (if take 5 head = utf8 ''ref: ''
      then case utf8_text (strip_bytes (drop 5 head)) of
          None \<Rightarrow> Inl (RepositoryControlChanged ''unreadable repository metadata'')
        | Some reference \<Rightarrow>
            (if \<not> starts_with ''refs/'' reference \<or> traverses_parent (path_of reference)
             then Inl (RepositoryControlChanged ''unsupported HEAD ref'')
             else Inr [reference])
      else Inr [])"

definition control_digest :: "'w worker_host \<Rightarrow> path \<Rightarrow> ('w runner, string) action" where
  "control_digest H base =
     (let git = join_path base (path_of ''.git''); replace = join_path git (path_of ''refs/replace'');
          head = join_path git (path_of ''HEAD'') in
      seq (check (\<lambda>w. ho_is_dir H git w \<and> \<not> ho_is_symlink H git w)
        (RepositoryControlChanged ''unsupported repository metadata'')) (\<lambda>_.
      seq (check (\<lambda>w. \<not> ho_is_symlink H replace w \<and> (ho_exists H replace w \<longrightarrow>
            ho_is_dir H replace w \<and> ho_directory_empty H replace w))
        (RepositoryControlChanged ''replacement refs are unsupported'')) (\<lambda>_.
      seq (check (\<lambda>w. \<not> ho_is_symlink H head w) (RepositoryControlChanged ''unsupported HEAD'')) (\<lambda>_.
      seq (read_prefix H head) (\<lambda>bytes.
      seq (lift (head_reference bytes)) (\<lambda>reference.
      seq (map_action (control_record H git) (control_names @ reference)) (\<lambda>records.
      pure (sha256_hexdigest (concat records)))))))))"

section \<open>The git commands of the runner\<close>

definition runner_git :: "'w worker_host \<Rightarrow> path \<Rightarrow> string list \<Rightarrow> ('w runner, string) action" where
  "runner_git H base arguments =
     seq (run_command H base (git_argv base arguments) git_options) (\<lambda>r.
     if ca_returncode r \<noteq> 0 \<or> bo_truncated (ca_stdout r)
     then raise (WorkspaceError ''workspace metadata unavailable'')
     else pure (strip (bo_text (ca_stdout r))))"

definition workspace_head :: "'w worker_host \<Rightarrow> path \<Rightarrow> ('w runner, string) action" where
  "workspace_head H base = runner_git H base [''rev-parse'', ''HEAD'']"

fun split_nul :: "byte list \<Rightarrow> byte list list" where
  "split_nul [] = [[]]"
| "split_nul (b # bs) =
     (if b = 0 then [] # split_nul bs
      else (case split_nul bs of [] \<Rightarrow> [[b]] | r # rs \<Rightarrow> (b # r) # rs))"

definition changed_name :: "byte list \<Rightarrow> string res" where
  "changed_name raw =
     (case utf8_text raw of
        None \<Rightarrow> Inl (WorkspaceError ''changed path is not UTF-8'')
      | Some name \<Rightarrow>
          (let p = path_of name in
           if name = [] \<or> absolute p \<or> traverses_parent p \<or> CHR 0x5C \<in> set name
           then Inl (WorkspaceError ''changed path escapes supported scope'')
           else Inr (path_text p)))"

text \<open>The records of \<open>git status --porcelain=v1 -z\<close>, without the empty one that ends them.\<close>

fun status_names :: "byte list list \<Rightarrow> string list res" where
  "status_names [] = Inr []"
| "status_names (record # rest) =
     (if length record < 4 \<or> record ! 2 \<noteq> 32
      then Inl (WorkspaceError ''invalid repository status'')
      else if 82 \<in> set (take 2 record) \<or> 67 \<in> set (take 2 record)
      then (case rest of
          [] \<Rightarrow> Inl (WorkspaceError ''incomplete rename status'')
        | origin # rest' \<Rightarrow>
            and_then (traverse changed_name [drop 3 record, origin]) (\<lambda>names.
            and_then (status_names rest') (\<lambda>more_names. Inr (names @ more_names))))
      else and_then (changed_name (drop 3 record)) (\<lambda>name.
        and_then (status_names rest) (\<lambda>more_names. Inr (name # more_names))))"

definition parse_status :: "string \<Rightarrow> string list res" where
  "parse_status out =
     (let records = split_nul (utf8 out) in
      if last records \<noteq> [] then Inl (WorkspaceError ''unterminated repository status'')
      else and_then (status_names (butlast records)) (\<lambda>names.
        Inr (sorted_list_of_set (set names))))"

definition changed_files :: "'w worker_host \<Rightarrow> path \<Rightarrow> ('w runner, string list) action" where
  "changed_files H base =
     seq (run_command H base (git_argv base [''status'', ''--porcelain=v1'', ''-z'', ''--untracked-files=all''])
       git_options) (\<lambda>r.
     if ca_returncode r \<noteq> 0 \<or> bo_truncated (ca_stdout r)
     then raise (WorkspaceError ''unsupported repository status'')
     else lift (parse_status (bo_text (ca_stdout r))))"

definition collect_patch :: "'w worker_host \<Rightarrow> path \<Rightarrow> ('w runner, string) action" where
  "collect_patch H base =
     seq (run_command H base (git_argv base [''diff'', ''--binary'', ''--no-ext-diff'', ''--no-textconv'',
         ''--no-color'', ''HEAD''])
       (git_options\<lparr>ro_timeout := Seconds (PyFloat False 30 ''0''),
          ro_output_limit := min (nat max_patch_bytes) max_capture_bytes\<rparr>)) (\<lambda>r.
     if ca_returncode r \<noteq> 0 then raise (WorkspaceError ''patch generation failed'')
     else if bo_truncated (ca_stdout r)
     then raise (PatchTooLarge ''patch exceeds bounded transport text'')
     else pure (bo_text (ca_stdout r)))"

section \<open>Results\<close>

text \<open>\<open>raw[:limit].decode(errors="ignore")\<close>.\<close>

fun utf8_prefix :: "nat \<Rightarrow> string \<Rightarrow> string" where
  "utf8_prefix limit [] = []"
| "utf8_prefix limit (c # s) =
     (if length (utf8_char c) \<le> limit then c # utf8_prefix (limit - length (utf8_char c)) s else [])"

definition bounded :: "string \<Rightarrow> bounded_output" where
  "bounded t = (let size_of = length (utf8 t) in
     if size_of \<le> max_capture_bytes
     then \<lparr>bo_text = t, bo_truncated = False, bo_original_bytes = Some (int size_of)\<rparr>
     else \<lparr>bo_text = utf8_prefix max_capture_bytes t, bo_truncated = True,
       bo_original_bytes = Some (int size_of)\<rparr>)"

text \<open>\<open>_result\<close> with its defaults; the callers update what they pass.\<close>

definition run_result :: "'w worker_host \<Rightarrow> worker_request \<Rightarrow> worker_failure option \<Rightarrow> string option
    \<Rightarrow> (worker_result \<Rightarrow> worker_result) \<Rightarrow> ('w runner, worker_result) action" where
  "run_result H request failure base change s =
     (Inr (change
       \<lparr>ws_schema_version = 1, ws_execution_request_id = wr_execution_request_id request,
        ws_status = WS_BLOCKED, ws_return_code = None, ws_stdout = empty_output,
        ws_stderr = empty_output, ws_changed_files = [], ws_patch_digest = None,
        ws_patch_size_bytes = None, ws_patch_truncated = False,
        ws_duration_seconds = ho_elapsed H (rn_world s), ws_failure_code = failure,
        ws_workspace_head = None,
        ws_attestation = (case rn_attestation s of Some a \<Rightarrow> a
          | None \<Rightarrow> stand_in_attestation ''execution-disabled''),
        ws_base_repository_head = base, ws_patch = None\<rparr>), s)"

definition with_patch :: "string \<Rightarrow> worker_result \<Rightarrow> worker_result" where
  "with_patch t w = w\<lparr>ws_patch := Some (bounded t), ws_patch_truncated := bo_truncated (bounded t)\<rparr>"

definition with_evidence :: "string \<Rightarrow> worker_result \<Rightarrow> worker_result" where
  "with_evidence t w = w\<lparr>ws_patch_digest := Some (patch_digest_of t),
     ws_patch_size_bytes := Some (int (length (utf8 t)))\<rparr>"

definition with_outputs :: "bounded_output \<Rightarrow> bounded_output \<Rightarrow> worker_result \<Rightarrow> worker_result" where
  "with_outputs out err w = w\<lparr>ws_stdout := out, ws_stderr := err\<rparr>"

definition with_files :: "string list \<Rightarrow> worker_result \<Rightarrow> worker_result" where
  "with_files files w = w\<lparr>ws_changed_files := sort files\<rparr>"

section \<open>Running a request\<close>

definition rc1_smoke_marker :: string where
  "rc1_smoke_marker = ''# Atlas RC1 execution smoke marker''"

definition ends_in_newline :: "string \<Rightarrow> bool" where
  "ends_in_newline s \<longleftrightarrow> s \<noteq> [] \<and> last s = CHR 0x0A"

definition run_rc1_smoke :: "'w worker_host \<Rightarrow> path \<Rightarrow> ('w runner, unit) action" where
  "run_rc1_smoke H base =
     (let target = join_path base (path_of rc1_smoke_target) in
      seq (check (\<lambda>w. ho_is_file H target w \<and> \<not> ho_is_symlink H target w)
        (WorkspaceError ''RC1 validation smoke target is missing'')) (\<lambda>_.
      seq (check (\<lambda>w. relative_to (ho_resolve H base w) (ho_resolve H target w))
        (WorkspaceError ''RC1 validation smoke target escapes workspace'')) (\<lambda>_.
      seq (look (ho_read_text H target)) (\<lambda>found.
      case found of
        None \<Rightarrow> raise (OSError ''read_text'')
      | Some before \<Rightarrow>
          if contains rc1_smoke_marker before
          then raise (WorkspaceError ''RC1 validation smoke marker already exists'')
          else (\<lambda>s. case ho_write_text H target
                 (before @ (if ends_in_newline before then [] else [CHR 0x0A])
                    @ rc1_smoke_marker @ [CHR 0x0A]) (rn_world s) of
               (ok, w) \<Rightarrow> ((if ok then Inr () else Inl (OSError ''write_text'')), s\<lparr>rn_world := w\<rparr>))))))"

definition collect_direct_change ::
  "'w worker_host \<Rightarrow> worker_request \<Rightarrow> workspace \<Rightarrow> ('w runner, worker_result) action" where
  "collect_direct_change H request workspace =
     (let base = wk_path workspace; base_head = Some (wk_base_head workspace) in
      seq (changed_files H base) (\<lambda>changed.
      if changed \<noteq> [rc1_smoke_target]
      then seq (workspace_head H base) (\<lambda>head.
        run_result H request (Some OUT_OF_SCOPE_CHANGES) base_head
          (\<lambda>w. w\<lparr>ws_workspace_head := Some head\<rparr>))
      else seq (collect_patch H base) (\<lambda>patch.
        seq (workspace_head H base) (\<lambda>head.
        run_result H request None base_head (\<lambda>w. with_evidence patch (with_patch patch (with_files changed
          (w\<lparr>ws_status := WS_SUCCEEDED, ws_return_code := Some 0, ws_workspace_head := Some head\<rparr>))))))))"

definition collect_result ::
  "'w worker_host \<Rightarrow> worker_request \<Rightarrow> workspace \<Rightarrow> captured \<Rightarrow> ('w runner, worker_result) action" where
  "collect_result H request workspace process =
     (let base = wk_path workspace; base_head = Some (wk_base_head workspace);
          code = ca_returncode process in
      seq (run_command H base (git_argv base [''add'', ''--all'', ''--'']) git_options) (\<lambda>staged.
      if ca_returncode staged \<noteq> 0 then raise (WorkspaceError ''workspace staging failed'')
      else seq (changed_files H base) (\<lambda>changed.
      if \<not> set changed \<subseteq> set (wr_allowed_affected_files request) \<or> 64 < length changed
      then seq (workspace_head H base) (\<lambda>head.
        run_result H request (Some OUT_OF_SCOPE_CHANGES) base_head (\<lambda>w.
          with_outputs (ca_stdout process) (ca_stderr process)
            (with_files (if length changed \<le> 64 then changed else [])
              (w\<lparr>ws_workspace_head := Some head\<rparr>))))
      else seq (collect_patch H base) (\<lambda>patch.
        let empty_success = (code = 0 \<and> patch = []);
            failure = (if empty_success then Some NO_COMMITTABLE_CHANGES
              else if code \<noteq> 0 then Some CODEX_FAILED else None);
            status = (if empty_success \<or> code \<noteq> 0 then WS_BLOCKED else WS_SUCCEEDED) in
        seq (workspace_head H base) (\<lambda>head.
        run_result H request failure base_head (\<lambda>w.
          (if patch \<noteq> [] then with_evidence patch else (\<lambda>v. v)) (with_patch patch (with_files changed
            (with_outputs (ca_stdout process) (ca_stderr process)
              (w\<lparr>ws_status := status, ws_return_code := Some code,
                ws_workspace_head := Some head\<rparr>))))))))))"

definition run_smoke_request ::
  "'w worker_host \<Rightarrow> worker_request \<Rightarrow> workspace \<Rightarrow> ('w runner, worker_result) action" where
  "run_smoke_request H request workspace =
     attempt (run_rc1_smoke H (wk_path workspace))
       (\<lambda>e. case e of
          WorkspaceError m \<Rightarrow> seq (workspace_head H (wk_path workspace)) (\<lambda>head.
            run_result H request (Some INVALID_REQUEST) (Some (wk_base_head workspace))
              (\<lambda>w. w\<lparr>ws_workspace_head := Some head\<rparr>))
        | _ \<Rightarrow> raise e)
       (\<lambda>_. collect_direct_change H request workspace)"

definition run_model_request ::
  "'w worker_host \<Rightarrow> worker_request \<Rightarrow> workspace \<Rightarrow> path \<Rightarrow> ('w runner, worker_result) action" where
  "run_model_request H request workspace cwd =
     (let base = wk_path workspace in
      seq (control_digest H base) (\<lambda>controls.
      seq (run_command H cwd (wr_argv request)
        \<lparr>ro_timeout = Seconds (wr_timeout_seconds request), ro_output_limit = max_capture_bytes,
         ro_environment = []\<rparr>) (\<lambda>process.
      seq (control_digest H base) (\<lambda>controls'.
      if controls' \<noteq> controls
      then control_changed ''repository revision or metadata changed''
      else seq (workspace_head H base) (\<lambda>head.
      if head \<noteq> wk_base_head workspace
      then control_changed ''repository revision or metadata changed''
      else collect_result H request workspace process)))))"

text \<open>The exceptions \<open>execute\<close> turns into a result; the others leave it.\<close>

definition run_failure ::
  "'w worker_host \<Rightarrow> worker_request \<Rightarrow> workspace \<Rightarrow> exn \<Rightarrow> ('w runner, worker_result) action" where
  "run_failure H request workspace e =
     (let answer = (\<lambda>failure. run_result H request (Some failure) (Some (wk_base_head workspace))) in
      case e of
        RepositoryControlChanged m \<Rightarrow> answer STALE_REPOSITORY id
      | PatchTooLarge m \<Rightarrow> answer PATCH_TOO_LARGE id
      | WorkspaceError m \<Rightarrow> answer INVALID_REQUEST id
      | WorkspaceTimeout m \<Rightarrow> answer INVALID_REQUEST id
      | CommandTimeout out err \<Rightarrow>
          answer WORKER_TIMEOUT (with_outputs (output_of_parts out) (output_of_parts err))
      | _ \<Rightarrow> raise e)"

text \<open>\<open>try: ... finally: ...\<close>: what the last block raises replaces the outcome.\<close>

definition finally_do :: "('s, 'a) action \<Rightarrow> ('s, unit) action \<Rightarrow> ('s, 'a) action" where
  "finally_do m release s =
     (case m s of (r, t) \<Rightarrow> (case release t of (Inl e, u) \<Rightarrow> (Inl e, u) | (Inr x, u) \<Rightarrow> (r, u)))"

definition run_in_workspace ::
  "'w worker_host \<Rightarrow> worker_request \<Rightarrow> workspace \<Rightarrow> ('w runner, worker_result) action" where
  "run_in_workspace H request workspace =
     (let cwd = join_path (wk_path workspace) (path_of (wr_working_directory request)) in
      attempt
        (seq (look (\<lambda>w. relative_to (ho_resolve H (wk_path workspace) w) (ho_resolve H cwd w))) (\<lambda>inside.
         if \<not> inside
         then run_result H request (Some INVALID_REQUEST) (Some (wk_base_head workspace)) id
         else if wr_execution_intent request = rc1_validation_smoke
         then run_smoke_request H request workspace
         else run_model_request H request workspace cwd))
        (run_failure H request workspace) pure)"

definition observe_runtime :: "'w worker_host \<Rightarrow> 'w \<Rightarrow> worker_attestation res" where
  "observe_runtime H w =
     (case and_then (ho_attestation H w) (\<lambda>a. and_then (validate_attestation a) (\<lambda>_. Inr a)) of
        Inl (OSError m) \<Rightarrow> Inl (IsolationUnavailable ''execution isolation observation unavailable'')
      | Inl (ValueError m) \<Rightarrow> Inl (IsolationUnavailable ''execution isolation observation unavailable'')
      | Inl (TypeError m) \<Rightarrow> Inl (IsolationUnavailable ''execution isolation observation unavailable'')
      | r \<Rightarrow> r)"

definition validate_runtime :: "'w worker_host \<Rightarrow> ('w runner, unit) action" where
  "validate_runtime H s =
     (case observe_runtime H (rn_world s) of
        Inl e \<Rightarrow> (Inl e, s)
      | Inr a \<Rightarrow> (Inr (), s\<lparr>rn_attestation := Some a\<rparr>))"

definition preparation_failure :: "'w worker_host \<Rightarrow> worker_request \<Rightarrow> exn \<Rightarrow> ('w runner, worker_result) action" where
  "preparation_failure H request e =
     (let answer = (\<lambda>failure. run_result H request (Some failure) None id);
          by_message = (\<lambda>m. answer (if contains ''stale'' m then STALE_REPOSITORY else INVALID_REQUEST)) in
      case e of
        WorkspaceTimeout m \<Rightarrow> answer WORKER_TIMEOUT
      | WorkspaceError m \<Rightarrow> by_message m
      | _ \<Rightarrow> raise e)"

definition run_request :: "'w worker_host \<Rightarrow> runner_config \<Rightarrow> worker_request \<Rightarrow> ('w runner, worker_result) action" where
  "run_request H C request =
     seq (lift (validate_worker_request True request)) (\<lambda>_.
     seq (if rf_enabled C then validate_runtime H else pure ()) (\<lambda>_.
     attempt (prepare H C request) (preparation_failure H request) (\<lambda>workspace.
     if \<not> rf_enabled C
     then seq (cleanup H C (wr_execution_request_id request)) (\<lambda>_.
       run_result H request (Some WORKER_UNAVAILABLE) (Some (wk_base_head workspace)) id)
     else finally_do (run_in_workspace H request workspace)
       (cleanup H C (wr_execution_request_id request)))))"

section \<open>The capture is a prefix\<close>

text \<open>What is kept is the longest prefix of the stream the bound allows, and the count is exact.\<close>

lemma capture_prefix:
  "foldl capture_add (new_capture limit) chunks =
     \<lparr>cp_limit = limit, cp_prefix = take limit (concat chunks), cp_total = length (concat chunks)\<rparr>"
proof (induction chunks rule: rev_induct)
  case Nil
  then show ?case by (simp add: new_capture_def)
next
  case (snoc chunk chunks)
  then show ?case by (simp add: capture_add_def min_def del: concat_append)
      (simp add: take_append)
qed

section \<open>How the pieces act on the state\<close>

lemma keeps_check [keeps_intros]: "keeps P (check f e)"
  by (simp add: triple_def check_def)

lemma keeps_look [keeps_intros]: "keeps P (look f)"
  by (simp add: triple_def look_def)

lemma keeps_read_prefix [keeps_intros]: "keeps P (read_prefix H p)"
  by (simp add: triple_def read_prefix_def split: option.split)

lemma keeps_run_result [keeps_intros]: "keeps P (run_result H request failure base change)"
  by (simp add: triple_def run_result_def)

lemma keeps_control_changed [keeps_intros]: "keeps P (control_changed m)"
  by (simp add: control_changed_def keeps_raise)

lemma keeps_control_record [keeps_intros]: "keeps P (control_record H git name)"
  unfolding control_record_def Let_def by (intro keeps_intros)

lemma keeps_control_digest [keeps_intros]: "keeps P (control_digest H base)"
  unfolding control_digest_def Let_def by (intro keeps_intros)

text \<open>What a command changes is the world.\<close>

definition runs_keep :: "'w worker_host \<Rightarrow> ('w runner \<Rightarrow> bool) \<Rightarrow> bool" where
  "runs_keep H P \<longleftrightarrow> (\<forall>cwd arguments options s. P s \<longrightarrow>
     P (s\<lparr>rn_world := snd (ho_run H cwd (''git'' # arguments) options (rn_world s))\<rparr>))"

definition files_keep :: "'w worker_host \<Rightarrow> ('w runner \<Rightarrow> bool) \<Rightarrow> bool" where
  "files_keep H P \<longleftrightarrow> (\<forall>p t s. P s \<longrightarrow>
     P (s\<lparr>rn_world := snd (ho_remove_tree H p (rn_world s))\<rparr>)
     \<and> P (s\<lparr>rn_world := snd (ho_write_text H p t (rn_world s))\<rparr>))"

lemma run_command_git:
  "runs_keep H P \<Longrightarrow> keeps P (run_command H cwd (''git'' # arguments) options)"
  unfolding runs_keep_def
  by (auto simp: triple_def run_command_def split: prod.splits run_reply.splits) (metis snd_conv)+

lemma remove_tree_keeps: "files_keep H P \<Longrightarrow> keeps P (remove_tree H p)"
  unfolding files_keep_def
  by (auto simp: triple_def remove_tree_def split: prod.splits) (metis snd_conv)+

text \<open>A predicate the git commands and the files leave alone, and one that does not depend on the
  workspace of a request.\<close>

definition undisturbed :: "'w worker_host \<Rightarrow> ('w runner \<Rightarrow> bool) \<Rightarrow> bool" where
  "undisturbed H P \<longleftrightarrow> runs_keep H P \<and> files_keep H P"

definition unlisted :: "string \<Rightarrow> ('w runner \<Rightarrow> bool) \<Rightarrow> bool" where
  "unlisted rid P \<longleftrightarrow> (\<forall>s v. P s \<longrightarrow> P (s\<lparr>rn_active := AList.update rid v (rn_active s)\<rparr>)
     \<and> P (s\<lparr>rn_active := AList.delete rid (rn_active s)\<rparr>))"

lemma undisturbed_parts:
  assumes "undisturbed H P"
  shows "runs_keep H P" and "files_keep H P"
  using assms by (simp_all add: undisturbed_def)

lemma undisturbed_git [keeps_intros]:
  "undisturbed H P \<Longrightarrow> keeps P (run_command H cwd (''git'' # arguments) options)"
  by (rule run_command_git) (rule undisturbed_parts)

lemma undisturbed_git_argv [keeps_intros]:
  "undisturbed H P \<Longrightarrow> keeps P (run_command H cwd (git_argv base arguments) options)"
  by (simp add: git_argv_def undisturbed_git)

lemma undisturbed_remove [keeps_intros]: "undisturbed H P \<Longrightarrow> keeps P (remove_tree H p)"
  by (rule remove_tree_keeps) (rule undisturbed_parts)

lemma unlisted_active [keeps_intros]: "unlisted rid P \<Longrightarrow> keeps P (active_workspace rid v)"
  by (auto simp: triple_def active_workspace_def unlisted_def split: option.split)

lemma undisturbed_request_path [keeps_intros]: "keeps P (request_path H C rid)"
  unfolding request_path_def Let_def by (intro keeps_intros)

lemma undisturbed_workspace_git [keeps_intros]:
  "undisturbed H P \<Longrightarrow> keeps P (workspace_git H C p arguments)"
  unfolding workspace_git_def by (simp, intro keeps_intros)

lemma undisturbed_remaining [keeps_intros]: "keeps P (remaining H)"
  unfolding remaining_def by (intro keeps_intros)

lemma undisturbed_drop_clone [keeps_intros]: "undisturbed H P \<Longrightarrow> keeps P (drop_clone H p e)"
  unfolding drop_clone_def by (intro keeps_intros)

lemma undisturbed_clean_path [keeps_intros]: "undisturbed H P \<Longrightarrow> unlisted rid P \<Longrightarrow> keeps P (clean_path H rid p)"
  unfolding clean_path_def by (intro keeps_intros)

lemma undisturbed_cleanup [keeps_intros]:
  assumes "undisturbed H P" "unlisted rid P"
  shows "keeps P (cleanup H C rid)"
proof -
  have "keeps P (\<lambda>s. case map_of (rn_active s) rid of
       Some workspace \<Rightarrow> (if wk_path workspace \<noteq> p
          then raise (WorkspaceError ''active workspace ownership mismatch'') s
          else clean_path H rid p s) | None \<Rightarrow> clean_path H rid p s)" for p
    using undisturbed_clean_path [OF assms, of p]
    by (auto simp: triple_def split: option.split)
  then show ?thesis unfolding cleanup_def by (intro keeps_intros)
qed

lemma undisturbed_runner_git [keeps_intros]: "undisturbed H P \<Longrightarrow> keeps P (runner_git H base arguments)"
  unfolding runner_git_def git_argv_def by (simp, intro keeps_intros)

lemma undisturbed_workspace_head [keeps_intros]: "undisturbed H P \<Longrightarrow> keeps P (workspace_head H base)"
  unfolding workspace_head_def by (intro keeps_intros)

lemma undisturbed_changed_files [keeps_intros]: "undisturbed H P \<Longrightarrow> keeps P (changed_files H base)"
  unfolding changed_files_def git_argv_def by (simp, intro keeps_intros)

lemma undisturbed_collect_patch [keeps_intros]: "undisturbed H P \<Longrightarrow> keeps P (collect_patch H base)"
  unfolding collect_patch_def git_argv_def by (simp, intro keeps_intros)

text \<open>The workspace a request runs in is the request's own, at the head it expects.\<close>

definition own_path :: "runner_config \<Rightarrow> worker_request \<Rightarrow> path" where
  "own_path C request = join_path (rf_workspace_root C) (path_of (wr_execution_request_id request))"

definition own_workspace :: "runner_config \<Rightarrow> worker_request \<Rightarrow> workspace \<Rightarrow> bool" where
  "own_workspace C request workspace \<longleftrightarrow>
     wk_path workspace = own_path C request \<and> wk_base_head workspace = wr_expected_repository_head request"

lemma request_path_own:
  "triple P (request_path H C (wr_execution_request_id request))
     (\<lambda>p s. P s \<and> p = own_path C request) (\<lambda>_. P)"
  unfolding request_path_def Let_def own_path_def
  by (rule triple_if triple_raise triple_step [OF keeps_check] triple_pure | simp)+

lemma clone_workspace_head:
  assumes "undisturbed H P"
  shows "triple P (clone_workspace H C request p)
     (\<lambda>h s. P s \<and> h = wr_expected_repository_head request) (\<lambda>_. P)"
  unfolding clone_workspace_def
  by (rule triple_step [OF undisturbed_remaining] triple_step [OF undisturbed_git [OF assms]]
        triple_step [OF undisturbed_workspace_git [OF assms]] triple_if triple_raise triple_pure
      | simp)+

lemma drop_clone_raises:
  assumes "undisturbed H P" shows "triple P (drop_clone H p e) Q (\<lambda>_. P)"
proof -
  have "keeps P (if there then remove_tree H p else pure ())" for there
    using assms by (intro keeps_intros)
  then show ?thesis unfolding drop_clone_def
    by (intro triple_step [OF keeps_look] triple_raise triple_step [where R = "\<lambda>_. P" and Y = "\<lambda>_. P"])
qed

lemma new_workspace_own:
  assumes u: "undisturbed H P" 
    and l: "unlisted (wr_execution_request_id request) P"
  shows "triple P (new_workspace H C request (own_path C request))
     (\<lambda>workspace s. P s \<and> own_workspace C request workspace) (\<lambda>_. P)"
  unfolding new_workspace_def
  apply (rule triple_step [OF keeps_check], assumption)
  apply (rule triple_if, rule triple_raise, assumption)
  apply (rule triple_step [OF undisturbed_remaining], assumption)
  apply (rule triple_step [OF undisturbed_workspace_git [OF u]], assumption)
  apply (rule triple_if, rule triple_raise, assumption)
  apply (rule triple_step [OF keeps_check], assumption)
  apply (rule triple_attempt [OF clone_workspace_head [OF u] drop_clone_raises [OF u]])
  using l
  by (auto simp: unlisted_def triple_def seq_def active_workspace_def own_workspace_def Let_def)

text \<open>A preparation that fails leaves the table of workspaces as it was.\<close>

lemma new_workspace_unlisted:
  assumes u: "undisturbed H P"
  shows "triple P (new_workspace H C request p) (\<lambda>_ _. True) (\<lambda>_. P)"
  unfolding new_workspace_def
  apply (rule triple_step [OF keeps_check], assumption)
  apply (rule triple_if, rule triple_raise, assumption)
  apply (rule triple_step [OF undisturbed_remaining], assumption)
  apply (rule triple_step [OF undisturbed_workspace_git [OF u]], assumption)
  apply (rule triple_if, rule triple_raise, assumption)
  apply (rule triple_step [OF keeps_check], assumption)
  apply (rule triple_attempt [OF clone_workspace_head [OF u] drop_clone_raises [OF u]])
  by (auto simp: triple_def seq_def active_workspace_def Let_def)

lemma prepare_unlisted:
  assumes u: "undisturbed H P"
  shows "triple P (prepare H C request) (\<lambda>_ _. True) (\<lambda>_. P)"
proof -
  have body: "triple P (\<lambda>s. case map_of (rn_active s) (wr_execution_request_id request) of
       Some existing \<Rightarrow> reuse_workspace H request p existing s
     | None \<Rightarrow> new_workspace H C request p s) (\<lambda>_ _. True) (\<lambda>_. P)" for p
    using new_workspace_unlisted [OF u, of C request p]
    by (auto simp: triple_def reuse_workspace_def seq_def check_def split: option.split)
  show ?thesis unfolding prepare_def
    apply (rule triple_step [OF keeps_lift], assumption)
    apply (rule triple_step [OF request_path_own], assumption)
    using body by (auto simp: triple_def)
qed

lemma reuse_workspace_own:
  "triple P (reuse_workspace H request (own_path C request) existing)
     (\<lambda>workspace s. P s \<and> own_workspace C request workspace) (\<lambda>_. P)"
  by (auto simp: triple_def reuse_workspace_def seq_def check_def own_workspace_def)

lemma prepare_own:
  assumes u: "undisturbed H P" 
    and l: "unlisted (wr_execution_request_id request) P"
  shows "triple P (prepare H C request)
     (\<lambda>workspace s. P s \<and> own_workspace C request workspace) (\<lambda>_. P)"
proof -
  have body: "triple P (\<lambda>s. case map_of (rn_active s) (wr_execution_request_id request) of
       Some existing \<Rightarrow> reuse_workspace H request (own_path C request) existing s
     | None \<Rightarrow> new_workspace H C request (own_path C request) s)
     (\<lambda>workspace s. P s \<and> own_workspace C request workspace) (\<lambda>_. P)"
    using new_workspace_own [OF u l, of C] reuse_workspace_own [of P H request C]
    by (simp add: triple_def split: option.split)
  show ?thesis unfolding prepare_def
    apply (rule triple_step [OF keeps_lift], assumption)
    apply (rule triple_step [OF request_path_own], assumption)
    using body by (auto simp: triple_def)
qed

section \<open>The commands a request runs\<close>

text \<open>The same host with a log of the commands and the directories they run in.\<close>

definition traced_host :: "'w worker_host \<Rightarrow> ('w \<times> (path \<times> string list) list) worker_host" where
  "traced_host H =
     \<lparr>ho_run = (\<lambda>cwd argv options s. case ho_run H cwd argv options (fst s) of
        (r, w) \<Rightarrow> (r, (w, snd s @ [(cwd, argv)]))),
      ho_exists = (\<lambda>p s. ho_exists H p (fst s)), ho_is_dir = (\<lambda>p s. ho_is_dir H p (fst s)),
      ho_is_file = (\<lambda>p s. ho_is_file H p (fst s)), ho_is_symlink = (\<lambda>p s. ho_is_symlink H p (fst s)),
      ho_resolve = (\<lambda>p s. ho_resolve H p (fst s)),
      ho_directory_empty = (\<lambda>p s. ho_directory_empty H p (fst s)),
      ho_read_bytes = (\<lambda>p s. ho_read_bytes H p (fst s)),
      ho_read_text = (\<lambda>p s. ho_read_text H p (fst s)),
      ho_write_text = (\<lambda>p t s. case ho_write_text H p t (fst s) of (ok, w) \<Rightarrow> (ok, (w, snd s))),
      ho_remove_tree = (\<lambda>p s. case ho_remove_tree H p (fst s) of (ok, w) \<Rightarrow> (ok, (w, snd s))),
      ho_expired = (\<lambda>s. ho_expired H (fst s)), ho_elapsed = (\<lambda>s. ho_elapsed H (fst s)),
      ho_attestation = (\<lambda>s. ho_attestation H (fst s))\<rparr>"

definition model_runs :: "(path \<times> string list) list \<Rightarrow> (path \<times> string list) list" where
  "model_runs entries = filter (\<lambda>e. take 1 (snd e) \<noteq> [''git'']) entries"

definition approved_runs ::
  "runner_config \<Rightarrow> worker_request \<Rightarrow> (path \<times> string list) list \<Rightarrow> bool" where
  "approved_runs C request entries \<longleftrightarrow>
     (case model_runs entries of
        [] \<Rightarrow> True
      | [(cwd, argv)] \<Rightarrow> rf_enabled C \<and> succeeds (validate_worker_request True request)
          \<and> wr_execution_intent request = update_compose_stack
          \<and> argv = wr_argv request \<and> butlast argv = codex_argv_prefix
          \<and> cwd = join_path (own_path C request) (path_of (wr_working_directory request))
      | _ \<Rightarrow> False)"

abbreviation ran :: "(path \<times> string list) list \<Rightarrow> ('w \<times> (path \<times> string list) list) runner \<Rightarrow> bool" where
  "ran entries s \<equiv> model_runs (snd (rn_world s)) = entries"

lemma undisturbed_ran: "undisturbed (traced_host H) (ran entries)"
  by (auto simp: undisturbed_def runs_keep_def files_keep_def traced_host_def model_runs_def
      split: prod.split)

lemma unlisted_ran: "unlisted rid (ran entries)"
  by (simp add: unlisted_def)

lemma run_smoke_request_keeps:
  assumes u: "undisturbed H P" shows "keeps P (run_smoke_request H request workspace)"
proof -
  have writing: "keeps P (run_rc1_smoke H base)" for base
  proof -
    have "keeps P (\<lambda>s. case ho_write_text H p t (rn_world s) of
               (ok, w) \<Rightarrow> ((if ok then Inr () else Inl (OSError ''write_text'')), s\<lparr>rn_world := w\<rparr>))" for p t
      using undisturbed_parts(2) [OF u] unfolding files_keep_def triple_def
      by (auto split: prod.split) (metis snd_conv)+
    then show ?thesis unfolding run_rc1_smoke_def Let_def by (intro keeps_intros)
  qed
  have collect: "keeps P (collect_direct_change H request workspace)"
    unfolding collect_direct_change_def Let_def by (intro keeps_intros u)
  have failing: "keeps P (case e of
          WorkspaceError m \<Rightarrow> seq (workspace_head H (wk_path workspace)) (\<lambda>head.
            run_result H request (Some INVALID_REQUEST) (Some (wk_base_head workspace))
              (\<lambda>w. w\<lparr>ws_workspace_head := Some head\<rparr>))
        | _ \<Rightarrow> raise e)" for e
    by (cases e; simp; intro keeps_intros u)
  show ?thesis unfolding run_smoke_request_def by (intro keeps_attempt writing collect failing)
qed

lemma collect_result_keeps:
  assumes "undisturbed H P" shows "keeps P (collect_result H request workspace process)"
  unfolding collect_result_def Let_def by (intro keeps_intros assms)

lemma run_failure_keeps: "keeps P (run_failure H request workspace e)"
  unfolding run_failure_def Let_def by (cases e; simp; intro keeps_intros)

lemma validated_operation:
  assumes "validate_worker_request True request = Inr ()"
  shows "wr_execution_intent request \<in> set [update_compose_stack, rc1_validation_smoke]"
    and "wr_execution_intent request \<noteq> rc1_validation_smoke \<Longrightarrow>
      butlast (wr_argv request) = codex_argv_prefix \<and> length (wr_argv request) = length codex_argv_prefix + 1"
    and "wr_execution_intent request = rc1_validation_smoke \<Longrightarrow>
      wr_allowed_affected_files request = [rc1_smoke_target]"
  using assms by (simp_all add: validate_worker_request_def res_simps validate_operation_def split: if_splits)

lemma run_command_ran:
  assumes "take 1 argv \<noteq> [''git'']"
  shows "triple (ran []) (run_command (traced_host H) cwd argv options)
    (\<lambda>_. ran [(cwd, argv)]) (\<lambda>_. ran [(cwd, argv)])"
  using assms by (auto simp: triple_def run_command_def traced_host_def model_runs_def
      split: prod.splits run_reply.splits)

abbreviation ran_model ::
  "worker_request \<Rightarrow> path \<Rightarrow> ('w \<times> (path \<times> string list) list) runner \<Rightarrow> bool" where
  "ran_model request cwd s \<equiv> ran [] s \<or> ran [(cwd, wr_argv request)] s"

lemma run_model_request_ran:
  assumes argv: "take 1 (wr_argv request) \<noteq> [''git'']"
  shows "triple (ran []) (run_model_request (traced_host H) request workspace cwd)
    (\<lambda>_. ran_model request cwd) (\<lambda>_. ran_model request cwd)"
proof -
  let ?A = "ran_model request cwd" and ?ran = "ran [(cwd, wr_argv request)]"
  have digest: "triple ?ran (control_digest (traced_host H) base) (\<lambda>_. ?ran) (\<lambda>_. ?ran)" for base
    by (rule keeps_control_digest)
  have head: "keeps ?ran (workspace_head (traced_host H) base)" for base
    by (intro keeps_intros undisturbed_ran)
  have collect: "triple ?ran (collect_result (traced_host H) request workspace process) (\<lambda>_. ?A) (\<lambda>_. ?A)" for process
    by (rule triple_conseq [OF collect_result_keeps [OF undisturbed_ran]]) blast+
  show ?thesis
    unfolding run_model_request_def Let_def
    apply (rule triple_step [OF keeps_control_digest], simp)
    apply (rule triple_step [OF run_command_ran [OF argv]], simp)
    apply (rule triple_step [OF digest], simp)
    apply (rule triple_if, simp add: control_changed_def triple_def)
    apply (rule triple_step [OF head], simp)
    apply (rule triple_if, simp add: control_changed_def triple_def)
    by (rule collect)
qed

lemma run_in_workspace_ran:
  assumes valid: "validate_worker_request True request = Inr ()"
    and own: "own_workspace C request workspace"
  shows "triple (ran []) (run_in_workspace (traced_host H) request workspace)
    (\<lambda>_ s. ran [] s \<or> (wr_execution_intent request \<noteq> rc1_validation_smoke
       \<and> ran [(join_path (own_path C request) (path_of (wr_working_directory request)), wr_argv request)] s))
    (\<lambda>_ s. ran [] s \<or> (wr_execution_intent request \<noteq> rc1_validation_smoke
       \<and> ran [(join_path (own_path C request) (path_of (wr_working_directory request)), wr_argv request)] s))"
proof -
  let ?cwd = "join_path (own_path C request) (path_of (wr_working_directory request))"
  let ?A = "\<lambda>s. ran [] s \<or> (wr_execution_intent request \<noteq> rc1_validation_smoke \<and> ran [(?cwd, wr_argv request)] s)"
  have at: "wk_path workspace = own_path C request" using own by (simp add: own_workspace_def)
  have argv: "take 1 (wr_argv request) \<noteq> [''git'']" if "wr_execution_intent request \<noteq> rc1_validation_smoke"
    using validated_operation(2) [OF valid that]
    by (cases "wr_argv request") (auto simp: codex_argv_prefix_def split: if_splits)
  have refused: "triple (ran []) (run_result (traced_host H) request failure base change) (\<lambda>_. ?A) (\<lambda>_. ?A)"
    for failure base change by (simp add: triple_def run_result_def)
  have smoke: "triple (ran []) (run_smoke_request (traced_host H) request workspace) (\<lambda>_. ?A) (\<lambda>_. ?A)"
    by (rule triple_conseq [OF run_smoke_request_keeps [OF undisturbed_ran]]) blast+
  have model: "triple (ran []) (run_model_request (traced_host H) request workspace ?cwd) (\<lambda>_. ?A) (\<lambda>_. ?A)"
    if "wr_execution_intent request \<noteq> rc1_validation_smoke"
    by (rule triple_conseq [OF run_model_request_ran [OF argv [OF that]]]) (use that in auto)
  have failing: "keeps ?A (run_failure (traced_host H) request workspace e)" for e
    by (rule run_failure_keeps)
  show ?thesis
    unfolding run_in_workspace_def Let_def at
    apply (rule triple_attempt [where R = "\<lambda>_. ?A" and Y = "\<lambda>_. ?A"])
      apply (rule triple_step [OF keeps_look], simp)
      apply (intro triple_if refused smoke model, assumption)
     apply (rule failing)
    by (rule keeps_pure)
qed

lemma finally_triple:
  assumes m: "triple P m Q X" and q: "\<And>x. triple (Q x) release (\<lambda>_. Q' x) (\<lambda>_. X')"
    and x: "\<And>e. triple (X e) release (\<lambda>_. X') (\<lambda>_. X')"
  shows "triple P (finally_do m release) Q' (\<lambda>_. X')"
  unfolding triple_def
proof (intro allI impI)
  fix s assume s: "P s"
  obtain r t where r: "m s = (r, t)" by (cases "m s")
  obtain r' u where r': "release t = (r', u)" by (cases "release t")
  show "case finally_do m release s of (Inl e, t) \<Rightarrow> X' t | (Inr x, t) \<Rightarrow> Q' x t"
  proof (cases r)
    case (Inl e)
    with m s r have "X e t" by (auto dest: triple_Inl)
    with triple_result [OF x this r'] Inl show ?thesis
      by (simp add: finally_do_def r r' split: sum.split)
  next
    case (Inr y)
    with m s r have "Q y t" by (auto dest: triple_Inr)
    with q [of y] r' Inr show ?thesis
      by (cases r') (auto simp: finally_do_def r dest: triple_Inl triple_Inr)
  qed
qed

lemma validate_runtime_keeps:
  assumes "\<And>s a. P s \<Longrightarrow> P (s\<lparr>rn_attestation := a\<rparr>)"
  shows "keeps P (validate_runtime H)"
  using assms by (auto simp: triple_def validate_runtime_def split: sum.split)

lemma preparation_failure_keeps: "keeps P (preparation_failure H request e)"
  by (simp add: triple_def preparation_failure_def run_result_def split: exn.split)

lemma undisturbed_runs: "undisturbed (traced_host H) (\<lambda>s. Q (model_runs (snd (rn_world s))))"
  by (auto simp: undisturbed_def runs_keep_def files_keep_def traced_host_def model_runs_def
      split: prod.split)

text \<open>C11. Whatever the host does, the only commands a request makes the worker run besides git are
  none or one: the request's own argument vector, the Codex invocation of the contract, run once in
  the request's own workspace, and only when execution is enabled and the request is a valid one of
  the intent that calls the model.\<close>

theorem only_approved_commands:
  "case run_request (traced_host H) C request
       \<lparr>rn_world = (w, []), rn_active = active, rn_attestation = attestation\<rparr> of
     (r, t) \<Rightarrow> approved_runs C request (snd (rn_world t))"
proof -
  let ?T = "traced_host H"
  let ?run = "(join_path (own_path C request) (path_of (wr_working_directory request)), wr_argv request)"
  let ?ok = "\<lambda>s. approved_runs C request (snd (rn_world s))"
  have none [simp]: "?ok t" if "ran [] t" for t :: "('a \<times> (path \<times> string list) list) runner"
    using that by (simp add: approved_runs_def)
  have weaken: "triple (ran []) m (\<lambda>_. ?ok) (\<lambda>_. ?ok)" if "keeps (ran []) m" for m :: "('a \<times> (path \<times> string list) list) runner \<Rightarrow> 'b res \<times> _"
    by (rule triple_conseq [OF that]) simp_all
  have "triple (ran []) (run_request ?T C request) (\<lambda>_. ?ok) (\<lambda>_. ?ok)"
  proof (cases "validate_worker_request True request")
    case (Inl e)
    then show ?thesis by (simp add: run_request_def triple_def)
  next
    case (Inr u)
    then have valid: "validate_worker_request True request = Inr ()" by simp
    let ?A = "\<lambda>s. ran [] s \<or> (wr_execution_intent request \<noteq> rc1_validation_smoke \<and> ran [?run] s)"
    have runtime: "keeps (ran []) (if rf_enabled C then validate_runtime ?T else pure ())"
      by (intro keeps_if keeps_pure validate_runtime_keeps) simp
    have clean: "keeps ?A (cleanup ?T C rid)" for rid
      by (rule undisturbed_cleanup [OF undisturbed_runs [where Q = "\<lambda>l. l = [] \<or>
            (wr_execution_intent request \<noteq> rc1_validation_smoke \<and> l = [?run])"]])
        (simp add: unlisted_def)
    have ok: "?ok t" if "?A t" "rf_enabled C" for t :: "('a \<times> (path \<times> string list) list) runner"
      using that valid validated_operation(1,2) [OF valid] by (auto simp: approved_runs_def)
    have disabled: "triple (ran []) (seq (cleanup ?T C (wr_execution_request_id request)) (\<lambda>_.
       run_result ?T request (Some WORKER_UNAVAILABLE) base id)) (\<lambda>_. ?ok) (\<lambda>_. ?ok)" for base
      by (rule weaken) (intro keeps_intros undisturbed_ran unlisted_ran)
    have enabled: "triple (ran []) (finally_do (run_in_workspace ?T request workspace)
       (cleanup ?T C (wr_execution_request_id request))) (\<lambda>_. ?ok) (\<lambda>_. ?ok)"
      if "own_workspace C request workspace" "rf_enabled C" for workspace
      by (rule finally_triple [OF run_in_workspace_ran [OF valid that(1)]])
        (rule triple_conseq [OF clean]; use ok that(2) in blast)+
    show ?thesis
      unfolding run_request_def valid seq_lift_Inr
      apply (rule triple_step [OF runtime], simp)
      apply (rule triple_attempt [OF prepare_own [OF undisturbed_ran unlisted_ran]])
       apply (rule weaken, rule preparation_failure_keeps)
      using disabled enabled by (simp add: triple_def)
  qed
  from triple_result [OF this, of "\<lparr>rn_world = (w, []), rn_active = active, rn_attestation = attestation\<rparr>"] show ?thesis
    by (simp add: model_runs_def split: prod.split)
qed

section \<open>What success means, and what is left behind\<close>

text \<open>The evidence of a diff: its own size and digest, and the diff or, when it is longer than a
  capture, its prefix marked as cut.\<close>

definition carries_diff :: "worker_result \<Rightarrow> string \<Rightarrow> bool" where
  "carries_diff w diff \<longleftrightarrow> ws_patch_digest w = Some (patch_digest_of diff)
     \<and> ws_patch_size_bytes w = Some (int (length (utf8 diff)))
     \<and> ws_patch_truncated w = (max_capture_bytes < length (utf8 diff))
     \<and> (case ws_patch w of None \<Rightarrow> False
        | Some p \<Rightarrow> bo_truncated p = ws_patch_truncated w
            \<and> bo_text p = (if ws_patch_truncated w then utf8_prefix max_capture_bytes diff else diff))"

definition success_in_scope ::
  "runner_config \<Rightarrow> worker_request \<Rightarrow> worker_attestation res \<Rightarrow> worker_result \<Rightarrow> bool" where
  "success_in_scope C request observed w \<longleftrightarrow>
     rf_enabled C \<and> observed = Inr (ws_attestation w)
     \<and> ws_execution_request_id w = wr_execution_request_id request
     \<and> ws_base_repository_head w = Some (wr_expected_repository_head request)
     \<and> ws_return_code w = Some 0 \<and> ws_failure_code w = None
     \<and> set (ws_changed_files w) \<subseteq> set (wr_allowed_affected_files request)
     \<and> length (ws_changed_files w) \<le> 64
     \<and> (\<exists>diff. carries_diff w diff)"

definition scoped ::
  "runner_config \<Rightarrow> worker_request \<Rightarrow> worker_attestation res \<Rightarrow> worker_result \<Rightarrow> bool" where
  "scoped C request observed w \<longleftrightarrow> ws_status w \<noteq> WS_SUCCEEDED \<or> success_in_scope C request observed w"

abbreviation attested :: "worker_attestation option \<Rightarrow> 'w runner \<Rightarrow> bool" where
  "attested a s \<equiv> rn_attestation s = a"

lemma undisturbed_attested: "undisturbed H (attested a)"
  by (simp add: undisturbed_def runs_keep_def files_keep_def)

lemma unlisted_attested: "unlisted rid (attested a)"
  by (simp add: unlisted_def)

lemmas result_updates = with_patch_def with_evidence_def with_outputs_def with_files_def bounded_def

lemma blocked_scoped:
  assumes "\<And>w. ws_status (change w) = ws_status w"
  shows "triple P (run_result H request failure base change) (\<lambda>w _. scoped C request observed w) X"
  using assms by (simp add: triple_def run_result_def scoped_def)

lemma evidence_fields:
  "ws_status (with_evidence t w) = ws_status w" "ws_status (with_patch t w) = ws_status w"
  "ws_attestation (with_evidence t w) = ws_attestation w" "ws_attestation (with_patch t w) = ws_attestation w"
  "ws_execution_request_id (with_evidence t w) = ws_execution_request_id w"
  "ws_execution_request_id (with_patch t w) = ws_execution_request_id w"
  "ws_base_repository_head (with_evidence t w) = ws_base_repository_head w"
  "ws_base_repository_head (with_patch t w) = ws_base_repository_head w"
  "ws_return_code (with_evidence t w) = ws_return_code w" "ws_return_code (with_patch t w) = ws_return_code w"
  "ws_failure_code (with_evidence t w) = ws_failure_code w" "ws_failure_code (with_patch t w) = ws_failure_code w"
  "ws_changed_files (with_evidence t w) = ws_changed_files w"
  "ws_changed_files (with_patch t w) = ws_changed_files w"
  by (simp_all add: with_evidence_def with_patch_def)

lemma carries_diff_evidence: "carries_diff (with_evidence t (with_patch t w)) t"
  by (simp add: carries_diff_def result_updates Let_def)

lemma collect_direct_change_scoped:
  assumes valid: "validate_worker_request True request = Inr ()"
    and intent: "wr_execution_intent request = rc1_validation_smoke"
    and own: "own_workspace C request workspace" and enabled: "rf_enabled C"
  shows "triple (attested (Some a)) (collect_direct_change H request workspace)
    (\<lambda>w _. scoped C request (Inr a) w) (\<lambda>_ _. True)"
proof -
  have allowed: "wr_allowed_affected_files request = [rc1_smoke_target]"
    using validated_operation(3) [OF valid intent] .
  show ?thesis
    unfolding collect_direct_change_def Let_def
    apply (rule triple_step [OF undisturbed_changed_files [OF undisturbed_attested]], simp)
    apply (rule triple_if)
     apply (rule triple_step [OF undisturbed_workspace_head [OF undisturbed_attested]], simp)
     apply (rule blocked_scoped, simp)
    apply (rule triple_step [OF undisturbed_collect_patch [OF undisturbed_attested]], simp)
    apply (rule triple_step [OF undisturbed_workspace_head [OF undisturbed_attested]], simp)
    using allowed own enabled
    by (auto simp: triple_def run_result_def scoped_def success_in_scope_def own_workspace_def
        evidence_fields with_files_def with_outputs_def Let_def intro: carries_diff_evidence)
qed

lemma collect_result_scoped:
  assumes own: "own_workspace C request workspace" and enabled: "rf_enabled C"
  shows "triple (attested (Some a)) (collect_result H request workspace process)
    (\<lambda>w _. scoped C request (Inr a) w) (\<lambda>_ _. True)"
  unfolding collect_result_def Let_def
  apply (rule triple_step [OF undisturbed_git_argv [OF undisturbed_attested]], simp)
  apply (rule triple_if, rule triple_raise, simp)
  apply (rule triple_step [OF undisturbed_changed_files [OF undisturbed_attested]], simp)
  apply (rule triple_if)
   apply (rule triple_step [OF undisturbed_workspace_head [OF undisturbed_attested]], simp)
   apply (rule blocked_scoped, simp add: result_updates)
  apply (rule triple_step [OF undisturbed_collect_patch [OF undisturbed_attested]], simp)
  apply (rule triple_step [OF undisturbed_workspace_head [OF undisturbed_attested]], simp)
  using own enabled
  by (auto simp: triple_def run_result_def scoped_def success_in_scope_def own_workspace_def
      evidence_fields with_files_def with_outputs_def Let_def intro: carries_diff_evidence split: if_splits)

lemma run_in_workspace_scoped:
  assumes valid: "validate_worker_request True request = Inr ()"
    and own: "own_workspace C request workspace" and enabled: "rf_enabled C"
  shows "triple (attested (Some a)) (run_in_workspace H request workspace)
    (\<lambda>w _. scoped C request (Inr a) w) (\<lambda>_ _. True)"
proof -
  let ?S = "\<lambda>w _. scoped C request (Inr a) w" and ?A = "attested (Some a)"
  have head: "triple ?A (seq (workspace_head H base) (\<lambda>head.
      run_result H request (Some INVALID_REQUEST) b (\<lambda>w. w\<lparr>ws_workspace_head := Some head\<rparr>))) ?S (\<lambda>_ _. True)"
    for base b
    by (rule triple_step [OF undisturbed_workspace_head [OF undisturbed_attested]], simp)
      (rule blocked_scoped, simp)
  have smoke: "triple ?A (run_smoke_request H request workspace) ?S (\<lambda>_ _. True)"
    if "wr_execution_intent request = rc1_validation_smoke"
  proof -
    have writing: "triple ?A (run_rc1_smoke H base) (\<lambda>_. ?A) (\<lambda>_. ?A)" for base
      unfolding run_rc1_smoke_def Let_def
      by (intro keeps_intros) (auto simp: triple_def split: prod.split)
    have failing: "triple ?A (case e of
          WorkspaceError m \<Rightarrow> seq (workspace_head H (wk_path workspace)) (\<lambda>head.
            run_result H request (Some INVALID_REQUEST) (Some (wk_base_head workspace))
              (\<lambda>w. w\<lparr>ws_workspace_head := Some head\<rparr>))
        | _ \<Rightarrow> raise e) ?S (\<lambda>_ _. True)" for e
      using head by (cases e) (simp_all add: triple_raise)
    show ?thesis unfolding run_smoke_request_def
      by (rule triple_attempt [OF writing failing collect_direct_change_scoped [OF valid that own enabled]])
  qed
  have model: "triple ?A (run_model_request H request workspace cwd) ?S (\<lambda>_ _. True)" for cwd
  proof -
    have run: "keeps ?A (run_command H cwd argv options)" for argv options
      by (auto simp: triple_def run_command_def split: prod.splits run_reply.splits)
    show ?thesis unfolding run_model_request_def Let_def
      apply (rule triple_step [OF keeps_control_digest], simp)
      apply (rule triple_step [OF run], simp)
      apply (rule triple_step [OF keeps_control_digest], simp)
      apply (rule triple_if, simp add: control_changed_def triple_def)
      apply (rule triple_step [OF undisturbed_workspace_head [OF undisturbed_attested]], simp)
      apply (rule triple_if, simp add: control_changed_def triple_def)
      by (rule collect_result_scoped [OF own enabled])
  qed
  have failing: "triple (\<lambda>_. True) (run_failure H request workspace e) ?S (\<lambda>_ _. True)" for e
    by (simp add: triple_def run_failure_def run_result_def scoped_def with_outputs_def split: exn.split)
  show ?thesis unfolding run_in_workspace_def Let_def
    apply (rule triple_attempt [where Y = "\<lambda>_ _. True" and R = ?S])
      apply (rule triple_step [OF keeps_look], simp)
      apply (intro triple_if)
        apply (rule blocked_scoped, simp)
       apply (rule smoke, assumption)
      apply (rule model)
     apply (rule failing)
    by (rule triple_pure)
qed


lemma delete_update: "AList.delete k (AList.update k v al) = AList.delete k al"
  by (induction al) (auto simp: AList.delete_eq)

abbreviation others :: "string \<Rightarrow> (string \<times> workspace) list \<Rightarrow> 'w runner \<Rightarrow> bool" where
  "others rid entries s \<equiv> AList.delete rid (rn_active s) = entries"

lemma undisturbed_others: "undisturbed H (others rid entries)"
  by (simp add: undisturbed_def runs_keep_def files_keep_def)

lemma unlisted_others: "unlisted rid (others rid entries)"
  by (auto simp: unlisted_def delete_update delete_idem)

lemma clean_path_deletes:
  "triple (others rid entries) (clean_path H rid p) (\<lambda>_ s. rn_active s = entries) (\<lambda>_ _. True)"
proof -
  have removing: "keeps (others rid entries) (if there then remove_tree H p else pure ())" for there
    by (intro keeps_intros undisturbed_others)
  show ?thesis unfolding clean_path_def
    apply (rule triple_step [OF keeps_check], simp)
    apply (rule triple_step [OF keeps_look], simp)
    apply (rule triple_step [OF removing], simp)
    by (simp add: triple_def active_workspace_def)
qed

lemma cleanup_deletes:
  "triple (others rid entries) (cleanup H C rid) (\<lambda>_ s. rn_active s = entries) (\<lambda>_ _. True)"
proof -
  have path: "keeps (others rid entries) (request_path H C rid)"
    by (rule undisturbed_request_path)
  show ?thesis unfolding cleanup_def
    apply (rule triple_step [OF path], simp)
    using clean_path_deletes [of rid entries H]
    by (auto simp: triple_def split: option.split)
qed

text \<open>When the worker answers a request, with whatever result, its table of workspaces is the
  one before the call without the request's own entry, or unchanged where no workspace could be
  prepared: a request never disturbs another's workspace and never keeps its own.\<close>

theorem workspaces_are_released:
  "case run_request H C request s of
     (Inr w, t) \<Rightarrow> rn_active t = AList.delete (wr_execution_request_id request) (rn_active s)
       \<or> rn_active t = rn_active s \<and> ws_status w = WS_BLOCKED \<and> ws_base_repository_head w = None
   | (Inl e, t) \<Rightarrow> True"
proof -
  let ?rid = "wr_execution_request_id request"
  let ?d = "AList.delete ?rid (rn_active s)"
  let ?same = "\<lambda>t. rn_active t = rn_active s"
  let ?Q = "\<lambda>w t. rn_active t = ?d
       \<or> ?same t \<and> ws_status w = WS_BLOCKED \<and> ws_base_repository_head w = None"
  have same: "undisturbed H ?same"
    by (simp add: undisturbed_def runs_keep_def files_keep_def)
  have prep: "triple ?same (prepare H C request) (\<lambda>_. others ?rid ?d) (\<lambda>_. ?same)"
    by (rule triple_conseq [OF triple_conj [OF prepare_own [OF undisturbed_others unlisted_others]
            prepare_unlisted [OF same]]]) auto
  have failing: "triple ?same (preparation_failure H request e) ?Q (\<lambda>_ _. True)" for e
    by (simp add: triple_def preparation_failure_def run_result_def split: exn.split)
  have disabled: "triple (others ?rid ?d) (seq (cleanup H C ?rid) (\<lambda>_.
       run_result H request (Some WORKER_UNAVAILABLE) base id)) ?Q (\<lambda>_ _. True)" for base
    by (rule triple_seq [OF cleanup_deletes]) (simp add: triple_def run_result_def)
  have smoke: "keeps (others ?rid ?d) (run_smoke_request H request workspace)" for workspace
    by (rule run_smoke_request_keeps [OF undisturbed_others])
  have command: "keeps (others ?rid ?d) (run_command H cwd argv options)" for cwd argv options
    by (auto simp: triple_def run_command_def split: prod.splits run_reply.splits)
  have model: "keeps (others ?rid ?d) (run_model_request H request workspace cwd)" for workspace cwd
    unfolding run_model_request_def Let_def
    by (intro keeps_intros command collect_result_keeps undisturbed_others)
  have inside: "keeps (others ?rid ?d) (run_in_workspace H request workspace)" for workspace
    unfolding run_in_workspace_def Let_def
    by (intro keeps_intros smoke model run_failure_keeps)
  have enabled: "triple (others ?rid ?d) (finally_do (run_in_workspace H request workspace) (cleanup H C ?rid))
      ?Q (\<lambda>_ _. True)" for workspace
    by (rule finally_triple [OF inside])
      (rule triple_conseq [OF cleanup_deletes]; blast)+
  have runtime: "keeps ?same (if rf_enabled C then validate_runtime H else pure ())"
    by (intro keeps_if keeps_pure validate_runtime_keeps) simp
  have "triple ?same (run_request H C request) ?Q (\<lambda>_ _. True)"
    unfolding run_request_def
    apply (rule triple_step [OF keeps_lift], simp)
    apply (rule triple_step [OF runtime], simp)
    apply (rule triple_attempt [OF prep failing])
    by (intro triple_if disabled enabled)
  then show ?thesis by (simp add: triple_def split: prod.splits sum.splits)
qed

end
