(* ===== verification/WorkerTransport.thy ===== *)
theory WorkerTransport
  imports WorkerContracts
begin

text \<open>
  The Agent's client of the execution worker (\<open>execution/worker_client.py\<close>): building a request,
  and reading one bounded HTTP response off a socket. Bytes are characters below 256. What the
  socket gives is a sequence of events: a chunk, the deadline or an error of the socket. Decoding
  the JSON body is an argument.
\<close>

section \<open>The head of a response\<close>

definition max_response_header_bytes :: nat where
  "max_response_header_bytes = 16384"

definition max_response_body_bytes :: nat where
  "max_response_body_bytes = 24 * 1024 * 1024"

definition crlf :: string where
  "crlf = [CHR 0x0D, CHR 0x0A]"

text \<open>\<open>raw.split(b"\r\n")\<close>.\<close>

fun split_crlf :: "string \<Rightarrow> string list" where
  "split_crlf [] = [[]]"
| "split_crlf [c] = [[c]]"
| "split_crlf (c # d # s) =
     (if c = CHR 0x0D \<and> d = CHR 0x0A then [] # split_crlf s
      else (case split_crlf (d # s) of [] \<Rightarrow> [[c]] | w # ws \<Rightarrow> (c # w) # ws))"

definition printable :: "char \<Rightarrow> bool" where
  "printable c = in_range CHR 0x20 CHR 0x7E c"

text \<open>\<open>HTTP/1\.[01] ([2-5][0-9]{2})(?: [\x20-\x7e]*)?\<close>, matched against the whole line.\<close>

definition status_of_line :: "string \<Rightarrow> nat option" where
  "status_of_line line =
     (let code = take 3 (drop 9 line); rest = drop 12 line in
      if take 9 line \<in> set [''HTTP/1.0 '', ''HTTP/1.1 ''] \<and> length code = 3
         \<and> in_range CHR ''2'' CHR ''5'' (hd code) \<and> list_all is_digit (tl code)
         \<and> (rest = [] \<or> (hd rest = CHR '' '' \<and> list_all printable (tl rest)))
      then Some (text_nat code) else None)"

definition header_name_char :: "char \<Rightarrow> bool" where
  "header_name_char c \<longleftrightarrow> is_token_start c \<or> c \<in> set ''!#$%&*+.^_`|~-'' \<or> c = CHR 0x27"

definition header_value_char :: "char \<Rightarrow> bool" where
  "header_value_char c \<longleftrightarrow> (let n = of_char c :: nat in (32 \<le> n \<or> n = 9) \<and> n < 127)"

definition lower_ascii :: "string \<Rightarrow> string" where
  "lower_ascii s = map (\<lambda>c. let n = of_char c :: nat in if 65 \<le> n \<and> n \<le> 90 then char_of (n + 32) else c) s"

definition strip_blanks :: "string \<Rightarrow> string" where
  "strip_blanks s = rev (dropWhile (\<lambda>c. c \<in> set [CHR 0x20, CHR 0x09])
     (rev (dropWhile (\<lambda>c. c \<in> set [CHR 0x20, CHR 0x09]) s)))"

definition malformed :: exn where
  "malformed = WorkerTransportError ''worker returned malformed HTTP''"

fun header_fields :: "(string \<times> string) list \<Rightarrow> string list \<Rightarrow> (string \<times> string) list res" where
  "header_fields headers [] = Inr headers"
| "header_fields headers (line # lines) =
     (let name = takeWhile (\<lambda>c. c \<noteq> CHR '':'') line;
          value = drop 1 (dropWhile (\<lambda>c. c \<noteq> CHR '':'') line) in
      if CHR '':'' \<notin> set line \<or> name = [] \<or> \<not> list_all header_name_char name then Inl malformed
      else if lower_ascii name \<in> fst ` set headers \<or> \<not> list_all header_value_char value
      then Inl (WorkerTransportError ''worker returned ambiguous HTTP headers'')
      else header_fields (headers @ [(lower_ascii name, strip_blanks value)]) lines)"

definition response_headers :: "string \<Rightarrow> (nat \<times> nat) res" where
  "response_headers raw =
     (let lines = split_crlf raw in
      case status_of_line (hd lines) of
        None \<Rightarrow> Inl malformed
      | Some status \<Rightarrow>
        and_then (header_fields [] (tl lines)) (\<lambda>headers.
        let declared = (case map_of headers ''content-length'' of None \<Rightarrow> [] | Some v \<Rightarrow> v) in
        and_then (require (map_of headers ''transfer-encoding'' = None
            \<and> declared \<noteq> [] \<and> length declared \<le> 10 \<and> list_all is_digit declared)
          (WorkerTransportError ''worker returned unsupported HTTP framing'')) (\<lambda>_.
        and_then (require (text_nat declared \<le> max_response_body_bytes)
          (WorkerTransportError ''worker response body exceeds bound'')) (\<lambda>_.
        Inr (status, text_nat declared)))))"

section \<open>Receiving\<close>

definition head_end :: string where
  "head_end = crlf @ crlf"

text \<open>\<open>bytearray.find\<close> of the empty line.\<close>

fun find_head_end :: "string \<Rightarrow> nat option" where
  "find_head_end [] = None"
| "find_head_end (c # s) = (if starts_with head_end (c # s) then Some 0 else map_option Suc (find_head_end s))"

datatype socket_event = Chunk string | DeadlineExceeded | SocketFailed

text \<open>\<open>Reading\<close> holds the bytes so far and, once the head is complete, where it ends, the status and
  the length of the body it announces.\<close>

datatype reading = Reading string "(nat \<times> nat \<times> nat) option" | Received nat string | ReadFailed exn

definition frame_head :: "string \<Rightarrow> (nat \<times> nat \<times> nat) option res" where
  "frame_head response =
     (case find_head_end response of
        None \<Rightarrow> and_then (require (length response \<le> max_response_header_bytes)
          (WorkerTransportError ''worker response headers exceed bound'')) (\<lambda>_. Inr None)
      | Some i \<Rightarrow> and_then (require (i + 4 \<le> max_response_header_bytes)
          (WorkerTransportError ''worker response headers exceed bound'')) (\<lambda>_.
          and_then (response_headers (take i response)) (\<lambda>(status, expected).
          Inr (Some (i, status, expected)))))"

fun receive_step :: "reading \<Rightarrow> socket_event \<Rightarrow> reading" where
  "receive_step (Reading response frame) (Chunk chunk) =
     (if chunk = [] then ReadFailed (WorkerTransportError ''worker returned incomplete HTTP response'')
      else let response' = response @ chunk in
        case (case frame of None \<Rightarrow> frame_head response' | Some f \<Rightarrow> Inr (Some f)) of
          Inl e \<Rightarrow> ReadFailed e
        | Inr None \<Rightarrow> Reading response' None
        | Inr (Some (i, status, expected)) \<Rightarrow>
            let received = length response' - i - 4 in
            if expected < received
            then ReadFailed (WorkerTransportError ''worker response length mismatch'')
            else if received = expected then Received status (drop (i + 4) response')
            else Reading response' (Some (i, status, expected)))"
| "receive_step (Reading response frame) DeadlineExceeded =
     ReadFailed (WorkerTransportError ''worker request deadline exceeded'')"
| "receive_step (Reading response frame) SocketFailed =
     ReadFailed (WorkerTransportError ''worker socket unavailable'')"
| "receive_step reading event = reading"

definition receive :: "socket_event list \<Rightarrow> reading" where
  "receive events = foldl receive_step (Reading [] None) events"

section \<open>The client\<close>

record worker_client =
  wc_timeout :: py_number
  wc_authentication_token :: "string option"

definition new_worker_client :: "py_number \<Rightarrow> string option \<Rightarrow> worker_client res" where
  "new_worker_client timeout token =
     and_then (require (finite_number timeout \<and> \<not> at_most 0 timeout)
       (ValueError ''worker timeout must be finite and positive'')) (\<lambda>_.
     and_then (require (case token of None \<Rightarrow> True | Some t \<Rightarrow>
         t \<noteq> [] \<and> list_all (\<lambda>c. 33 \<le> (of_char c :: nat) \<and> (of_char c :: nat) \<le> 126) t)
       (ValueError ''worker authentication token must be one ASCII credential'')) (\<lambda>_.
     Inr \<lparr>wc_timeout = timeout, wc_authentication_token = token\<rparr>))"

definition request_head :: "worker_client \<Rightarrow> string \<Rightarrow> string \<Rightarrow> nat \<Rightarrow> string" where
  "request_head client verb url body_length =
     verb @ '' '' @ url @ '' HTTP/1.1'' @ crlf
     @ ''Host: atlas-execution-worker'' @ crlf
     @ ''Connection: close'' @ crlf
     @ (case wc_authentication_token client of None \<Rightarrow> []
        | Some token \<Rightarrow> ''Authorization: Bearer '' @ token @ crlf)
     @ ''Content-Length: '' @ nat_text body_length @ crlf
     @ ''Content-Type: application/json'' @ crlf @ crlf"

text \<open>\<open>decode\<close> reads the body as an object: the reply and the code of its \<open>error\<close> member, when that is
  an object with a text code. \<open>late\<close> is whether the deadline has passed by then.\<close>

definition error_code_shape :: "string \<Rightarrow> bool" where
  "error_code_shape s \<longleftrightarrow> s \<noteq> [] \<and> in_range CHR ''a'' CHR ''z'' (hd s) \<and> length s \<le> 64
     \<and> list_all (\<lambda>c. in_range CHR ''a'' CHR ''z'' c \<or> is_digit c \<or> c = CHR ''_'') (tl s)"

definition worker_response :: "(string \<Rightarrow> ('p \<times> string option) res) \<Rightarrow> bool \<Rightarrow> socket_event list \<Rightarrow> 'p res" where
  "worker_response decode late events =
     (case receive events of
        Reading response frame \<Rightarrow> Inl (WorkerTransportError ''worker socket unavailable'')
      | ReadFailed e \<Rightarrow> Inl e
      | Received status body \<Rightarrow>
        (case decode body of
           Inl e \<Rightarrow> Inl (WorkerTransportError ''worker returned malformed JSON'')
         | Inr (reply, code) \<Rightarrow>
           and_then (require (\<not> late) (WorkerTransportError ''worker request deadline exceeded'')) (\<lambda>_.
           if 300 \<le> status
           then Inl (WorkerTransportError (case code of
               None \<Rightarrow> ''worker_error''
             | Some c \<Rightarrow> if error_code_shape c then c else ''worker_error''))
           else Inr reply)))"

definition result_url :: "string \<Rightarrow> string res" where
  "result_url request_id =
     and_then (require (worker_id request_id) (WorkerTransportError ''invalid worker request identity''))
       (\<lambda>_. Inr (''/v1/executions/'' @ request_id))"
section \<open>The end of the head\<close>

lemma length_head_end [simp]: "length head_end = 4"
  by (simp add: head_end_def crlf_def)

lemma starts_with_head_end:
  "4 \<le> length s \<Longrightarrow> starts_with head_end (s @ t) = starts_with head_end s"
  by (simp add: starts_with_def)

lemma starts_with_length: "starts_with head_end s \<Longrightarrow> 4 \<le> length s"
proof -
  assume "starts_with head_end s"
  then have "length (take 4 s) = 4" by (simp only: starts_with_def length_head_end)
  then show ?thesis by simp
qed

lemma find_head_end_length: "find_head_end s = Some i \<Longrightarrow> i + 4 \<le> length s"
proof (induction s arbitrary: i)
  case (Cons c s)
  then show ?case using starts_with_length [of "c # s"] by (fastforce split: if_splits)
qed simp

lemma find_head_end_append: "find_head_end s = Some i \<Longrightarrow> find_head_end (s @ t) = Some i"
proof (induction s arbitrary: i)
  case (Cons c s)
  have "4 \<le> length (c # s)" using find_head_end_length [OF Cons.prems] by simp
  then show ?case using Cons starts_with_head_end [of "c # s" t] by (auto split: if_splits)
qed simp

lemma find_head_end_prefix:
  "find_head_end (s @ t) = Some i \<Longrightarrow> i + 4 \<le> length s \<Longrightarrow> find_head_end s = Some i"
proof (induction s arbitrary: i)
  case (Cons c s)
  show ?case
  proof (cases "starts_with head_end ((c # s) @ t)")
    case True
    then have "starts_with head_end (c # s)"
      using Cons.prems by (simp add: starts_with_def split: if_splits)
    then show ?thesis using True Cons.prems by simp
  next
    case False
    moreover have "4 \<le> length (c # s)" using Cons.prems(2) by simp
    ultimately have "\<not> starts_with head_end (c # s)" using starts_with_head_end by blast
    then show ?thesis using False Cons by (auto split: if_splits)
  qed
qed simp

section \<open>A response is read whole, however it is cut\<close>

text \<open>A byte sequence that is one response: its head within the bound, and exactly the body the head
  announces.\<close>

definition framed :: "string \<Rightarrow> nat \<Rightarrow> string \<Rightarrow> bool" where
  "framed s status body = (case find_head_end s of
     None \<Rightarrow> False
   | Some i \<Rightarrow> i + 4 \<le> max_response_header_bytes
       \<and> response_headers (take i s) = Inr (status, length body) \<and> drop (i + 4) s = body)"

definition reading_inv :: "socket_event list \<Rightarrow> reading \<Rightarrow> bool" where
  "reading_inv events r = (case r of
     Reading s frame \<Rightarrow> (\<exists>cs. events = map Chunk cs \<and> [] \<notin> set cs \<and> s = concat cs)
       \<and> (case frame of
            None \<Rightarrow> find_head_end s = None \<and> length s \<le> max_response_header_bytes
          | Some (i, status, expected) \<Rightarrow> find_head_end s = Some i \<and> i + 4 \<le> max_response_header_bytes
              \<and> response_headers (take i s) = Inr (status, expected) \<and> length s < i + 4 + expected)
   | Received status body \<Rightarrow> (\<exists>n cs. take n events = map Chunk cs \<and> [] \<notin> set cs
       \<and> framed (concat cs) status body)
   | ReadFailed e \<Rightarrow> \<exists>m. e = WorkerTransportError m)"

lemma response_headers_error: "response_headers raw = Inl e \<Longrightarrow> \<exists>m. e = WorkerTransportError m"
proof -
  have fields: "header_fields headers lines = Inl e \<Longrightarrow> \<exists>m. e = WorkerTransportError m" for headers lines
    by (induction headers lines rule: header_fields.induct)
      (auto simp: Let_def malformed_def split: if_splits)
  show "response_headers raw = Inl e \<Longrightarrow> \<exists>m. e = WorkerTransportError m"
    using fields
    by (auto simp: response_headers_def Let_def malformed_def and_then_Inl_iff require_def
        split: option.splits if_splits)
qed

lemma frame_head_error: "frame_head s = Inl e \<Longrightarrow> \<exists>m. e = WorkerTransportError m"
  using response_headers_error
  by (auto simp: frame_head_def and_then_Inl_iff require_def split: option.splits if_splits)

lemma frame_head_Inr:
  "frame_head s = Inr frame \<longleftrightarrow> (case frame of
     None \<Rightarrow> find_head_end s = None \<and> length s \<le> max_response_header_bytes
   | Some (i, status, expected) \<Rightarrow> find_head_end s = Some i \<and> i + 4 \<le> max_response_header_bytes
       \<and> response_headers (take i s) = Inr (status, expected))"
  by (cases frame) (auto simp: frame_head_def res_simps split: option.splits)

text \<open>The frame of the bytes so far, with a chunk more.\<close>

lemma frame_extended:
  assumes "case frame of None \<Rightarrow> find_head_end s = None \<and> length s \<le> max_response_header_bytes
          | Some (i, status, expected) \<Rightarrow> find_head_end s = Some i \<and> i + 4 \<le> max_response_header_bytes
              \<and> response_headers (take i s) = Inr (status, expected) \<and> length s < i + 4 + expected"
    and "(case frame of None \<Rightarrow> frame_head (s @ c) | Some f \<Rightarrow> Inr (Some f)) = Inr (Some (i, status, expected))"
  shows "find_head_end (s @ c) = Some i \<and> i + 4 \<le> max_response_header_bytes
    \<and> response_headers (take i (s @ c)) = Inr (status, expected)"
proof (cases frame)
  case None
  then show ?thesis using assms(2) by (simp add: frame_head_Inr)
next
  case (Some f)
  then have "find_head_end s = Some i" "i + 4 \<le> max_response_header_bytes"
    "response_headers (take i s) = Inr (status, expected)"
    using assms by auto
  then show ?thesis using find_head_end_append find_head_end_length [of s i] by simp
qed

lemma receive_step_chunk:
  assumes "c \<noteq> []" "(case frame of None \<Rightarrow> frame_head (s @ c) | Some f \<Rightarrow> Inr (Some f)) = r"
  shows "receive_step (Reading s frame) (Chunk c) = (case r of
      Inl e \<Rightarrow> ReadFailed e
    | Inr None \<Rightarrow> Reading (s @ c) None
    | Inr (Some (i, status, expected)) \<Rightarrow>
        if expected < length (s @ c) - i - 4
        then ReadFailed (WorkerTransportError ''worker response length mismatch'')
        else if length (s @ c) - i - 4 = expected then Received status (drop (i + 4) (s @ c))
        else Reading (s @ c) (Some (i, status, expected)))"
  using assms by (cases r) (auto simp: Let_def split: option.split)

lemma reading_inv_None:
  "[] \<notin> set cs \<Longrightarrow> find_head_end (concat cs) = None \<Longrightarrow> length (concat cs) \<le> max_response_header_bytes
    \<Longrightarrow> reading_inv (map Chunk cs) (Reading (concat cs) None)"
  by (auto simp: reading_inv_def)

lemma reading_inv_Some:
  "[] \<notin> set cs \<Longrightarrow> find_head_end (concat cs) = Some i \<Longrightarrow> i + 4 \<le> max_response_header_bytes
    \<Longrightarrow> response_headers (take i (concat cs)) = Inr (status, expected)
    \<Longrightarrow> length (concat cs) < i + 4 + expected
    \<Longrightarrow> reading_inv (map Chunk cs) (Reading (concat cs) (Some (i, status, expected)))"
  by (auto simp: reading_inv_def)

lemma reading_inv_Received:
  "[] \<notin> set cs \<Longrightarrow> framed (concat cs) status body \<Longrightarrow> reading_inv (map Chunk cs) (Received status body)"
  by (auto simp: reading_inv_def intro!: exI [of _ "length cs"] exI [of _ cs])

lemma reading_inv_chunk:
  assumes "reading_inv (map Chunk cs) (Reading (concat cs) frame)" "[] \<notin> set cs" "c \<noteq> []"
  shows "reading_inv (map Chunk (cs @ [c])) (receive_step (Reading (concat cs) frame) (Chunk c))"
proof -
  let ?s = "concat cs" and ?t = "concat (cs @ [c])"
  have t: "?t = ?s @ c" and chunks: "[] \<notin> set (cs @ [c])" using assms by simp_all
  have inv: "case frame of None \<Rightarrow> find_head_end ?s = None \<and> length ?s \<le> max_response_header_bytes
      | Some (i, status, expected) \<Rightarrow> find_head_end ?s = Some i \<and> i + 4 \<le> max_response_header_bytes
          \<and> response_headers (take i ?s) = Inr (status, expected) \<and> length ?s < i + 4 + expected"
    using assms(1) by (simp add: reading_inv_def)
  define r where "r = (case frame of None \<Rightarrow> frame_head (?s @ c) | Some f \<Rightarrow> Inr (Some f))"
  note step = receive_step_chunk [where s = "?s" and frame = frame, OF assms(3) r_def [symmetric]]
  show ?thesis
  proof (cases r)
    case (Inl e)
    then have "frame_head (?s @ c) = Inl e" by (auto simp: r_def split: option.splits)
    then show ?thesis unfolding step Inl reading_inv_def using frame_head_error by simp
  next
    case (Inr frame')
    show ?thesis
    proof (cases frame')
      case None
      then have "frame_head ?t = Inr None" using Inr t by (auto simp: r_def split: option.splits)
      then show ?thesis
        unfolding step Inr None t [symmetric] using reading_inv_None [OF chunks]
        by (simp add: frame_head_Inr del: map_append concat_append)
    next
      case (Some f)
      obtain i status expected where f: "f = (i, status, expected)" by (cases f)
      have ext: "find_head_end ?t = Some i" "i + 4 \<le> max_response_header_bytes"
        "response_headers (take i ?t) = Inr (status, expected)"
        using frame_extended [OF inv, of c i status expected] Inr Some f t by (simp_all add: r_def)
      have long: "i + 4 \<le> length ?t" using find_head_end_length [OF ext(1)] .
      consider "expected < length ?t - i - 4" | "length ?t - i - 4 = expected"
        | "length ?t - i - 4 < expected" by linarith
      then show ?thesis
      proof cases
        case 1
        then show ?thesis
          unfolding step Inr Some f t [symmetric] by (simp add: reading_inv_def del: concat_append)
      next
        case 2
        then have "framed ?t status (drop (i + 4) ?t)" using ext long by (simp add: framed_def del: concat_append)
        moreover have "receive_step (Reading ?s frame) (Chunk c) = Received status (drop (i + 4) ?t)"
          unfolding step Inr Some f t [symmetric] using 2 by simp
        ultimately show ?thesis using reading_inv_Received [OF chunks] by presburger
      next
        case 3
        then have "receive_step (Reading ?s frame) (Chunk c) = Reading ?t (Some (i, status, expected))"
          unfolding step Inr Some f t [symmetric] by simp
        moreover have "length ?t < i + 4 + expected" using 3 long by linarith
        ultimately show ?thesis using reading_inv_Some [OF chunks ext] by presburger
      qed
    qed
  qed
qed

lemma reading_inv_step:
  assumes "reading_inv events r"
  shows "reading_inv (events @ [event]) (receive_step r event)"
proof (cases r)
  case (Reading s frame)
  obtain cs where cs: "events = map Chunk cs" "[] \<notin> set cs" "s = concat cs"
    using assms by (auto simp: Reading reading_inv_def)
  show ?thesis
  proof (cases event)
    case (Chunk c)
    show ?thesis
    proof (cases "c = []")
      case False
      then show ?thesis using reading_inv_chunk [OF _ cs(2) False] assms by (simp add: Reading Chunk cs)
    qed (simp add: Reading Chunk reading_inv_def)
  qed (simp_all add: Reading reading_inv_def)
next
  case (Received status body)
  then obtain n cs where cs: "take n events = map Chunk cs" "[] \<notin> set cs" "framed (concat cs) status body"
    using assms by (auto simp: reading_inv_def)
  then have "take (min n (length events)) (events @ [event]) = map Chunk cs"
    by (cases "n \<le> length events") simp_all
  then have "reading_inv (events @ [event]) (Received status body)"
    unfolding reading_inv_def reading.case using cs(2,3) by blast
  then show ?thesis by (simp add: Received)
qed (use assms in \<open>simp add: reading_inv_def\<close>)

lemma receive_inv: "reading_inv events (receive events)"
proof (induction events rule: rev_induct)
  case Nil
  then show ?case by (simp add: receive_def reading_inv_def)
next
  case (snoc event events)
  then show ?case using reading_inv_step by (simp add: receive_def)
qed

text \<open>The state after the bytes \<open>p\<close> of a response whose head ends at \<open>i\<close>.\<close>

definition partial_reading :: "string \<Rightarrow> nat \<Rightarrow> nat \<Rightarrow> nat \<Rightarrow> reading" where
  "partial_reading p i status expected =
     Reading p (if i + 4 \<le> length p then Some (i, status, expected) else None)"

lemma partial_reading_step:
  assumes "framed s status body" "find_head_end s = Some i" "s = p @ c @ q" "c \<noteq> []"
  shows "receive_step (partial_reading p i status (length body)) (Chunk c)
    = (if q = [] then Received status body else partial_reading (p @ c) i status (length body))"
proof -
  have s: "i + 4 \<le> max_response_header_bytes" "response_headers (take i s) = Inr (status, length body)"
    "drop (i + 4) s = body" "i + 4 \<le> length s"
    using assms(1,2) find_head_end_length by (simp_all add: framed_def)
  have size: "length s = i + 4 + length body"
    using s(3,4) by (metis append_take_drop_id length_append length_take min.absorb2)
  let ?frame = "if i + 4 \<le> length p then Some (i, status, length body) else None"
  have frame: "(case ?frame of None \<Rightarrow> frame_head (p @ c) | Some f \<Rightarrow> Inr (Some f))
      = Inr (if i + 4 \<le> length (p @ c) then Some (i, status, length body) else None)"
  proof (cases "i + 4 \<le> length (p @ c)")
    case True
    then have found: "find_head_end (p @ c) = Some i"
      using find_head_end_prefix [of "p @ c" q i] assms(2,3) by simp
    have "take i (p @ c) = take i s" using True by (simp add: assms(3))
    then show ?thesis using True found s by (simp add: frame_head_Inr)
  next
    case False
    then have none: "find_head_end (p @ c) = None"
      using find_head_end_append [of "p @ c" _ q] find_head_end_length [of "p @ c"] assms(2,3)
      by (cases "find_head_end (p @ c)") auto
    have "length (p @ c) \<le> max_response_header_bytes" using False s(1) by linarith
    then show ?thesis using False none by (simp add: frame_head_Inr)
  qed
  note step = receive_step_chunk [where s = p and frame = ?frame, OF assms(4) frame]
  show ?thesis
  proof (cases "i + 4 \<le> length (p @ c)")
    case True
    have whole: "length (p @ c) = i + 4 + length body \<longleftrightarrow> q = []"
      using size by (cases q) (auto simp: assms(3))
    moreover have "length (p @ c) \<le> i + 4 + length body" using size by (simp add: assms(3))
    ultimately show ?thesis
      unfolding partial_reading_def step
      using True s(3) by (auto simp: assms(3) simp del: length_append)
  next
    case False
    then have "q \<noteq> []" using s(4) by (auto simp: assms(3))
    then show ?thesis unfolding partial_reading_def step using False by simp
  qed
qed

lemma receive_framed:
  assumes "framed (concat cs) status body" "[] \<notin> set cs"
  shows "receive (map Chunk cs) = Received status body"
proof -
  obtain i where i: "find_head_end (concat cs) = Some i"
    using assms(1) by (auto simp: framed_def split: option.splits)
  have "foldl receive_step (partial_reading p i status (length body)) (map Chunk ds) = Received status body"
    if "concat cs = p @ concat ds" "[] \<notin> set ds" "ds \<noteq> []" for p ds
    using that
  proof (induction ds arbitrary: p)
    case (Cons d ds)
    have step: "receive_step (partial_reading p i status (length body)) (Chunk d)
        = (if concat ds = [] then Received status body else partial_reading (p @ d) i status (length body))"
      by (rule partial_reading_step [OF assms(1) i]) (use Cons.prems in auto)
    show ?case
    proof (cases "ds = []")
      case True
      then show ?thesis using step by simp
    next
      case False
      then have "concat ds \<noteq> []" using Cons.prems(2) by (cases ds) auto
      then have "receive_step (partial_reading p i status (length body)) (Chunk d)
          = partial_reading (p @ d) i status (length body)"
        using step by (simp only: if_False)
      then show ?thesis using Cons.IH [of "p @ d"] Cons.prems False by simp
    qed
  qed simp
  moreover have "cs \<noteq> []" using i by auto
  moreover have "partial_reading [] i status (length body) = Reading [] None"
    by (simp add: partial_reading_def)
  ultimately show ?thesis using assms(2) by (metis append_Nil receive_def)
qed

lemma receive_Received: "foldl receive_step (Received status body) events = Received status body"
  by (induction events) simp_all

lemma receive_prefix: "receive (take n events) = Received status body \<Longrightarrow> receive events = Received status body"
  by (metis append_take_drop_id foldl_append receive_Received receive_def)

text \<open>
  C9. A response is read exactly when it is well framed, however it is cut into chunks: receiving
  returns a status and a body precisely when some first events are non-empty chunks whose bytes
  are one response, its head within the bound and announcing exactly that body.
\<close>

theorem response_received_iff:
  "receive events = Received status body \<longleftrightarrow>
     (\<exists>n cs. take n events = map Chunk cs \<and> [] \<notin> set cs \<and> framed (concat cs) status body)"
proof
  assume "receive events = Received status body"
  then show "\<exists>n cs. take n events = map Chunk cs \<and> [] \<notin> set cs \<and> framed (concat cs) status body"
    using receive_inv [of events] by (simp add: reading_inv_def)
next
  assume "\<exists>n cs. take n events = map Chunk cs \<and> [] \<notin> set cs \<and> framed (concat cs) status body"
  then obtain n cs where "take n events = map Chunk cs" "[] \<notin> set cs" "framed (concat cs) status body"
    by blast
  then have "receive (take n events) = Received status body" by (simp add: receive_framed)
  then show "receive events = Received status body" by (rule receive_prefix)
qed

lemma status_code_bounds:
  assumes "length code = 3" "in_range CHR ''2'' CHR ''5'' (hd code)" "list_all is_digit (tl code)"
  shows "200 \<le> text_nat code \<and> text_nat code < 600"
proof -
  obtain a b c where code: "code = [a, b, c]"
    using assms(1) by (auto simp: numeral_3_eq_3 length_Suc_conv)
  have digit: "\<exists>x < 10. of_char d = (48 + x :: nat)" if "is_digit d" for d
    using that by (intro exI [of _ "of_char d - 48"]) (auto simp: in_range_def is_digit_def)
  have "in_range CHR ''2'' CHR ''5'' a" "is_digit b" "is_digit c" using assms code by simp_all
  then obtain x y z where "2 \<le> x" "x < 6" "of_char a = (48 + x :: nat)" "y < 10" "of_char b = (48 + y :: nat)"
    "z < 10" "of_char c = (48 + z :: nat)"
    using digit [of b] digit [of c] le_Suc_ex [of 48 "of_char a"] by (auto simp: in_range_def)
  then show ?thesis by (simp add: code text_nat_def)
qed

lemma response_headers_bounds:
  assumes "response_headers raw = Inr (status, expected)"
  shows "200 \<le> status \<and> status < 600 \<and> expected \<le> max_response_body_bytes"
proof -
  obtain line where line: "status_of_line line = Some status" "expected \<le> max_response_body_bytes"
    using assms by (auto simp: response_headers_def Let_def res_simps split: option.splits)
  define code where "code = take 3 (drop 9 line)"
  have "length code = 3 \<and> in_range CHR ''2'' CHR ''5'' (hd code) \<and> list_all is_digit (tl code)
      \<and> status = text_nat code"
    using line(1) unfolding status_of_line_def Let_def code_def [symmetric]
    by (simp split: if_split_asm)
  then show ?thesis using status_code_bounds [of code] line(2) by simp
qed

lemma length_concat_chunks: "[] \<notin> set cs \<Longrightarrow> length cs \<le> length (concat cs)"
proof (induction cs)
  case (Cons c cs)
  then have "1 \<le> length c" by (cases c) auto
  then show ?case using Cons by simp
qed simp

text \<open>
  C10. Reading a response ends: each event that does not end it brings at least one byte, and the bytes
  kept never exceed the bounds on head and body together, so after at most that many events the
  response is complete or refused; a body handed on is within its bound, under a final status.
\<close>

theorem response_reading_ends:
  "case receive events of
     Reading s frame \<Rightarrow> length events \<le> length s
       \<and> length s \<le> max_response_header_bytes + max_response_body_bytes
   | Received status body \<Rightarrow> 200 \<le> status \<and> status < 600 \<and> length body \<le> max_response_body_bytes
   | ReadFailed e \<Rightarrow> \<exists>m. e = WorkerTransportError m"
proof (cases "receive events")
  case (Reading s frame)
  have inv: "reading_inv events (Reading s frame)" using receive_inv [of events] Reading by simp
  then obtain cs where cs: "events = map Chunk cs" "[] \<notin> set cs" "s = concat cs"
    by (auto simp: reading_inv_def)
  have "length s \<le> max_response_header_bytes + max_response_body_bytes"
  proof (cases frame)
    case None
    then show ?thesis using inv by (simp add: reading_inv_def)
  next
    case (Some f)
    then obtain i status expected where "i + 4 \<le> max_response_header_bytes"
      "response_headers (take i s) = Inr (status, expected)" "length s < i + 4 + expected"
      using inv by (cases f) (auto simp: reading_inv_def)
    then show ?thesis using response_headers_bounds [of "take i s" status expected] by linarith
  qed
  moreover have "length events \<le> length s" using length_concat_chunks [OF cs(2)] by (simp add: cs(1,3))
  ultimately show ?thesis by (simp add: Reading)
next
  case (Received status body)
  then obtain cs where "framed (concat cs) status body"
    using receive_inv [of events] by (auto simp: reading_inv_def)
  then obtain raw where "response_headers raw = Inr (status, length body)"
    by (auto simp: framed_def split: option.splits)
  then show ?thesis using response_headers_bounds [of raw status "length body"] by (simp add: Received)
next
  case (ReadFailed e)
  then show ?thesis using receive_inv [of events] by (simp add: reading_inv_def)
qed


end
