(* ===== verification/Candidates.thy ===== *)
theory Candidates
  imports DispatchContract OperationalTarget
begin

text \<open>
  Execution candidates of Atlas Core (\<open>execution_candidates/models.py\<close>, \<open>classification.py\<close>,
  \<open>eligibility.py\<close>, \<open>fingerprint.py\<close>): what a recommendation would do, the closed vocabulary of
  recommendation classes, the check that planning may consider a candidate, and the fingerprint
  that pins its current form. Constructing an instance runs the validators of the model.
\<close>

section \<open>Vocabulary\<close>

datatype candidate_status = CandidateEligible | CandidateNotEligible

fun candidate_status_text :: "candidate_status \<Rightarrow> string" where
  "candidate_status_text CandidateEligible = ''eligible''"
| "candidate_status_text CandidateNotEligible = ''not_eligible''"

datatype candidate_effect_kind = RepositoryChange | OperationalAction

datatype execution_category =
    CatInstall | CatConfigure | CatUpdate | CatRestart | CatBackup | CatRestore | CatRemove | CatUnsupported

fun category_text :: "execution_category \<Rightarrow> string" where
  "category_text CatInstall = ''install''"
| "category_text CatConfigure = ''configure''"
| "category_text CatUpdate = ''update''"
| "category_text CatRestart = ''restart''"
| "category_text CatBackup = ''backup''"
| "category_text CatRestore = ''restore''"
| "category_text CatRemove = ''remove''"
| "category_text CatUnsupported = ''unsupported''"

datatype execution_intent =
    InstallContainer | InstallProvider | ConfigureService | EnableIntegration | DisableIntegration
  | UpdateComposeStack | Rc1ValidationSmoke | UpdateContainerImage | RestartService
  | RestartContainer | RestartProvider | CreateBackup | RestoreBackup | RemoveResource
  | RemoveIntegration | UnsupportedRecommendation

fun intent_text :: "execution_intent \<Rightarrow> string" where
  "intent_text InstallContainer = ''install-container''"
| "intent_text InstallProvider = ''install-provider''"
| "intent_text ConfigureService = ''configure-service''"
| "intent_text EnableIntegration = ''enable-integration''"
| "intent_text DisableIntegration = ''disable-integration''"
| "intent_text UpdateComposeStack = ''update-compose-stack''"
| "intent_text Rc1ValidationSmoke = ''rc1-validation-smoke''"
| "intent_text UpdateContainerImage = ''update-container-image''"
| "intent_text RestartService = ''restart-service''"
| "intent_text RestartContainer = ''restart-container''"
| "intent_text RestartProvider = ''restart-provider''"
| "intent_text CreateBackup = ''create-backup''"
| "intent_text RestoreBackup = ''restore-backup''"
| "intent_text RemoveResource = ''remove-resource''"
| "intent_text RemoveIntegration = ''remove-integration''"
| "intent_text UnsupportedRecommendation = ''unsupported-recommendation''"

datatype approval_level = LevelStandard | LevelElevated | LevelDestructive

fun approval_level_text :: "approval_level \<Rightarrow> string" where
  "approval_level_text LevelStandard = ''standard''"
| "approval_level_text LevelElevated = ''elevated''"
| "approval_level_text LevelDestructive = ''destructive''"

datatype execution_constraint =
    RequiresBackup | RequiresProvider | RequiresConnectivity | RequiresCompatibility
  | RequiresResolvedRelationships | RequiresCurrentEvidence | ManualStepRequired
  | DestructiveChange | ServiceDisruption

fun constraint_text :: "execution_constraint \<Rightarrow> string" where
  "constraint_text RequiresBackup = ''requires-backup''"
| "constraint_text RequiresProvider = ''requires-provider''"
| "constraint_text RequiresConnectivity = ''requires-connectivity''"
| "constraint_text RequiresCompatibility = ''requires-compatibility''"
| "constraint_text RequiresResolvedRelationships = ''requires-resolved-relationships''"
| "constraint_text RequiresCurrentEvidence = ''requires-current-evidence''"
| "constraint_text ManualStepRequired = ''manual-step-required''"
| "constraint_text DestructiveChange = ''destructive-change''"
| "constraint_text ServiceDisruption = ''service-disruption''"

fun category_for_intent :: "execution_intent \<Rightarrow> execution_category" where
  "category_for_intent InstallContainer = CatInstall"
| "category_for_intent InstallProvider = CatInstall"
| "category_for_intent ConfigureService = CatConfigure"
| "category_for_intent EnableIntegration = CatConfigure"
| "category_for_intent DisableIntegration = CatConfigure"
| "category_for_intent UpdateComposeStack = CatUpdate"
| "category_for_intent Rc1ValidationSmoke = CatUpdate"
| "category_for_intent UpdateContainerImage = CatUpdate"
| "category_for_intent RestartService = CatRestart"
| "category_for_intent RestartContainer = CatRestart"
| "category_for_intent RestartProvider = CatRestart"
| "category_for_intent CreateBackup = CatBackup"
| "category_for_intent RestoreBackup = CatRestore"
| "category_for_intent RemoveResource = CatRemove"
| "category_for_intent RemoveIntegration = CatRemove"
| "category_for_intent UnsupportedRecommendation = CatUnsupported"

definition destructive_intents :: "execution_intent list" where
  "destructive_intents = [DisableIntegration, RestoreBackup, RemoveResource, RemoveIntegration]"

definition disruptive_intents :: "execution_intent list" where
  "disruptive_intents = [UpdateComposeStack, UpdateContainerImage, RestartService, RestartContainer,
     RestartProvider, RestoreBackup, RemoveResource, RemoveIntegration]"

section \<open>Text checks\<close>

definition unsafe_text_markers :: "string list" where
  "unsafe_text_markers = [''&&'', ''||'', [CHR 0x60], ''$('', '';'', ''rm -rf'', ''bash '', '' sh '',
     ''sudo '', ''curl '', ''wget '', ''password='', ''token='', ''secret='', ''api_key'',
     ''private_key'']"

definition contains_unsafe_payload :: "string \<Rightarrow> bool" where
  "contains_unsafe_payload value \<longleftrightarrow> list_ex (\<lambda>m. contains m (lower value)) unsafe_text_markers"

definition slug_char :: "char \<Rightarrow> bool" where
  "slug_char c \<longleftrightarrow> in_range CHR ''a'' CHR ''z'' c \<or> in_range CHR ''0'' CHR ''9'' c"

text \<open>The pattern \<open>[a-z0-9]+(?:-[a-z0-9]+)*\<close> of an identifier.\<close>

definition candidate_id_shape :: "string \<Rightarrow> bool" where
  "candidate_id_shape s \<longleftrightarrow> list_all (\<lambda>w. w \<noteq> [] \<and> list_all slug_char w) (split_on CHR ''-'' s)"

text \<open>\<open>re.sub(r"[^a-z0-9]+", "-", text)\<close>; the runs of dashes the second substitution collapses no
  longer occur.\<close>

fun dash_runs :: "string \<Rightarrow> string" where
  "dash_runs [] = []"
| "dash_runs (c # s) =
     (if slug_char c then c # dash_runs s
      else (case dash_runs s of
          [] \<Rightarrow> ''-''
        | d # t \<Rightarrow> if d = CHR ''-'' then d # t else CHR ''-'' # d # t))"

definition strip_dashes :: "string \<Rightarrow> string" where
  "strip_dashes s = (let dash = (\<lambda>c. c = CHR ''-'') in rev (dropWhile dash (rev (dropWhile dash s))))"

definition normalize_candidate_id_part :: "string option \<Rightarrow> string res" where
  "normalize_candidate_id_part value = (case value of
     None \<Rightarrow> Inr ''none''
   | Some v \<Rightarrow>
       (let normalized = strip_dashes (dash_runs (lower (strip v))) in
        if normalized = [] then Inl (ValueError ''candidate identity parts must not be empty.'')
        else Inr normalized))"

definition build_execution_candidate_id ::
  "string \<Rightarrow> string \<Rightarrow> string option \<Rightarrow> string \<Rightarrow> execution_category \<Rightarrow> execution_intent \<Rightarrow> string res" where
  "build_execution_candidate_id subsystem recommendation catalog target category intent =
     and_then (traverse normalize_candidate_id_part [Some subsystem, Some recommendation, catalog,
       Some target, Some (category_text category), Some (intent_text intent)]) (\<lambda>parts.
     Inr (join ''-'' (''candidate'' # parts)))"

text \<open>\<open>tuple(sorted({...}))\<close>\<close>

definition sorted_unique :: "'a::linorder list \<Rightarrow> 'a list" where
  "sorted_unique xs = sort (remdups xs)"

definition normalize_unique_strings :: "string list \<Rightarrow> string list res" where
  "normalize_unique_strings values =
     and_then (traverse (\<lambda>v. let item = lower (strip v) in
         and_then (require (item \<noteq> []) (ValueError ''values must not be empty.'')) (\<lambda>_.
         and_then (require (\<not> contains_unsafe_payload item)
           (ValueError ''values must not contain command or secret-like payloads.'')) (\<lambda>_.
         Inr item))) values) (\<lambda>items.
     Inr (sorted_unique items))"

definition normalize_unique_constraints :: "execution_constraint list \<Rightarrow> execution_constraint list" where
  "normalize_unique_constraints values = sort_key constraint_text (remdups values)"

definition safe_text :: "string \<Rightarrow> string res" where
  "safe_text value =
     (let normalized = strip value in
      and_then (require (normalized \<noteq> []) (ValueError ''value must not be empty.'')) (\<lambda>_.
      and_then (require (\<not> contains_unsafe_payload normalized)
        (ValueError ''value must not contain command or secret-like payloads.'')) (\<lambda>_.
      Inr normalized)))"

section \<open>The candidate\<close>

record compose_mutation =
  cms_file :: string
  cms_service :: string
  cms_property :: string
  cms_operation :: string
  cms_desired_value :: string
  cms_expected_value :: "string option"
  cms_preservation_constraints :: "string list"

record target_reference =
  otr_provider_id :: string
  otr_resource_id :: string
  otr_resource_type :: string
  otr_resource_fingerprint :: string
  otr_resource_version :: "string option"
  otr_expected_state :: string

datatype resolution_reason =
    ReasonNotFound | ReasonAmbiguous | ReasonTypeMismatch | ReasonMarkedMissing
  | ReasonIdentityUnavailable | ReasonSelectorInvalid

record execution_candidate =
  xc_id :: string
  xc_source_recommendation_id :: string
  xc_source_subsystem :: string
  xc_recommendation_class :: string
  xc_catalog_item_id :: "string option"
  xc_target_id :: string
  xc_target_type :: string
  xc_execution_category :: execution_category
  xc_execution_intent :: execution_intent
  xc_effect_kind :: candidate_effect_kind
  xc_status :: candidate_status
  xc_required_approval_level :: approval_level
  xc_rationale :: string
  xc_constraints :: "execution_constraint list"
  xc_evidence_ids :: "string list"
  xc_compatibility_assessment_id :: "string option"
  xc_compatibility_status :: "string option"
  xc_relationship_ids :: "string list"
  xc_created_at :: int
  xc_expires_at :: "int option"
  xc_mutation :: "compose_mutation option"
  xc_operational_target :: "target_reference option"
  xc_resolution_reason :: "resolution_reason option"

text \<open>A Pydantic model reports any failing validator as one \<open>ValidationError\<close>.\<close>

definition validated :: "'a res \<Rightarrow> 'a res" where
  "validated r = (case r of Inl e \<Rightarrow> Inl (ValidationError ''invalid instance'') | Inr x \<Rightarrow> Inr x)"

definition construct_target_reference :: "target_reference \<Rightarrow> target_reference res" where
  "construct_target_reference draft = validated (
     and_then (require (candidate_id_shape (otr_provider_id draft)
         \<and> candidate_id_shape (otr_resource_id draft) \<and> candidate_id_shape (otr_resource_type draft)
         \<and> otr_resource_fingerprint draft \<noteq> [] \<and> otr_expected_state draft \<noteq> [])
       (ValueError ''pattern'')) (\<lambda>_.
     and_then (safe_text (otr_resource_fingerprint draft)) (\<lambda>fingerprint.
     and_then (case otr_resource_version draft of None \<Rightarrow> Inr None
       | Some v \<Rightarrow> and_then (safe_text v) (\<lambda>w. Inr (Some w))) (\<lambda>version.
     and_then (safe_text (otr_expected_state draft)) (\<lambda>state.
     Inr (draft\<lparr>otr_resource_fingerprint := fingerprint, otr_resource_version := version,
       otr_expected_state := state\<rparr>))))))"

definition compatibility_statuses :: "string list" where
  "compatibility_statuses = [''compatible'', ''compatible_with_warnings'',
     ''insufficient_information'', ''incompatible'']"

definition optional_shape :: "string option \<Rightarrow> bool" where
  "optional_shape v = (case v of None \<Rightarrow> True | Some s \<Rightarrow> candidate_id_shape s)"

text \<open>The field validators, then \<open>validate_candidate\<close> on the normalised fields.\<close>

definition normalize_candidate_fields :: "execution_candidate \<Rightarrow> execution_candidate res" where
  "normalize_candidate_fields c =
     and_then (require (list_all candidate_id_shape [xc_id c, xc_source_recommendation_id c,
           xc_source_subsystem c, xc_recommendation_class c, xc_target_type c]
         \<and> optional_shape (xc_catalog_item_id c) \<and> optional_shape (xc_compatibility_assessment_id c))
       (ValueError ''pattern'')) (\<lambda>_.
     and_then (safe_text (xc_target_id c)) (\<lambda>target.
     and_then (safe_text (xc_rationale c)) (\<lambda>rationale.
     and_then (normalize_unique_strings (xc_evidence_ids c)) (\<lambda>evidence.
     and_then (normalize_unique_strings (xc_relationship_ids c)) (\<lambda>relationships.
     and_then (case xc_compatibility_status c of
         None \<Rightarrow> Inr None
       | Some v \<Rightarrow>
           let status = lower (strip v) in
           if status \<in> set compatibility_statuses then Inr (Some status)
           else Inl (ValueError ''compatibility_status is unsupported.'')) (\<lambda>compatibility.
     Inr (c\<lparr>xc_target_id := target, xc_rationale := rationale,
       xc_constraints := normalize_unique_constraints (xc_constraints c),
       xc_evidence_ids := evidence, xc_relationship_ids := relationships,
       xc_compatibility_status := compatibility\<rparr>)))))))"

definition candidate_identity :: "execution_candidate \<Rightarrow> string res" where
  "candidate_identity c = build_execution_candidate_id (xc_source_subsystem c)
     (xc_source_recommendation_id c) (xc_catalog_item_id c) (xc_target_id c)
     (xc_execution_category c) (xc_execution_intent c)"

definition validate_candidate :: "execution_candidate \<Rightarrow> unit res" where
  "validate_candidate c =
     and_then (require (xc_execution_category c = category_for_intent (xc_execution_intent c))
       (ValueError ''execution_intent must map to execution_category.'')) (\<lambda>_.
     and_then (candidate_identity c) (\<lambda>expected_id.
     and_then (require (xc_id c = expected_id)
       (ValueError ''id must match deterministic execution candidate identity.'')) (\<lambda>_.
     and_then (require (case xc_expires_at c of None \<Rightarrow> True | Some t \<Rightarrow> xc_created_at c < t)
       (ValueError ''expires_at must be after created_at.'')) (\<lambda>_.
     and_then (if xc_execution_intent c = RestartService
       then require (xc_effect_kind c = OperationalAction)
         (ValueError ''restart-service candidates require operational_action effect kind.'')
       else require (xc_effect_kind c \<noteq> OperationalAction)
         (ValueError ''operational_action effect kind is not supported for this intent.'')) (\<lambda>_.
     require (xc_operational_target c = None \<or> xc_resolution_reason c = None)
       (ValueError ''resolved operational targets cannot carry a resolution failure.''))))))"

definition construct_candidate :: "execution_candidate \<Rightarrow> execution_candidate res" where
  "construct_candidate draft = validated (
     and_then (normalize_candidate_fields draft) (\<lambda>c.
     and_then (validate_candidate c) (\<lambda>_. Inr c)))"

section \<open>Classification\<close>

datatype recommendation_class =
    ClassRestartService | ClassRestartContainer | ClassRestartProvider | ClassConfigureService
  | ClassEnableIntegration | ClassDisableIntegration | ClassInstallContainer | ClassInstallProvider
  | ClassUpdateComposeStack | ClassRc1ValidationSmoke | ClassUpdateContainerImage
  | ClassCreateBackup | ClassRestoreBackup | ClassRemoveResource | ClassRemoveIntegration
  | ClassInvestigateCompatibility | ClassReviewIncompatibility | ClassReviewCompatibilityWarning
  | ClassReviewLogs | ClassInspectDiagnostics | ClassReadDocumentation | ClassCompareOptions
  | ClassMonitorTrend | ClassValidateUnknownFacts

fun class_text :: "recommendation_class \<Rightarrow> string" where
  "class_text ClassRestartService = ''restart_service''"
| "class_text ClassRestartContainer = ''restart_container''"
| "class_text ClassRestartProvider = ''restart_provider''"
| "class_text ClassConfigureService = ''configure_service''"
| "class_text ClassEnableIntegration = ''enable_integration''"
| "class_text ClassDisableIntegration = ''disable_integration''"
| "class_text ClassInstallContainer = ''install_container''"
| "class_text ClassInstallProvider = ''install_provider''"
| "class_text ClassUpdateComposeStack = ''update_compose_stack''"
| "class_text ClassRc1ValidationSmoke = ''rc1_validation_smoke''"
| "class_text ClassUpdateContainerImage = ''update_container_image''"
| "class_text ClassCreateBackup = ''create_backup''"
| "class_text ClassRestoreBackup = ''restore_backup''"
| "class_text ClassRemoveResource = ''remove_resource''"
| "class_text ClassRemoveIntegration = ''remove_integration''"
| "class_text ClassInvestigateCompatibility = ''investigate_compatibility''"
| "class_text ClassReviewIncompatibility = ''review_incompatibility''"
| "class_text ClassReviewCompatibilityWarning = ''review_compatibility_warning''"
| "class_text ClassReviewLogs = ''review_logs''"
| "class_text ClassInspectDiagnostics = ''inspect_diagnostics''"
| "class_text ClassReadDocumentation = ''read_documentation''"
| "class_text ClassCompareOptions = ''compare_options''"
| "class_text ClassMonitorTrend = ''monitor_trend''"
| "class_text ClassValidateUnknownFacts = ''validate_unknown_facts''"

definition advisory_classes :: "recommendation_class list" where
  "advisory_classes = [ClassCompareOptions, ClassInspectDiagnostics, ClassInvestigateCompatibility,
     ClassMonitorTrend, ClassReadDocumentation, ClassReviewCompatibilityWarning,
     ClassReviewIncompatibility, ClassReviewLogs, ClassValidateUnknownFacts]"

definition recommendation_classes :: "recommendation_class list" where
  "recommendation_classes = [ClassRestartService, ClassRestartContainer, ClassRestartProvider,
     ClassConfigureService, ClassEnableIntegration, ClassDisableIntegration, ClassInstallContainer,
     ClassInstallProvider, ClassUpdateComposeStack, ClassRc1ValidationSmoke,
     ClassUpdateContainerImage, ClassCreateBackup, ClassRestoreBackup, ClassRemoveResource,
     ClassRemoveIntegration] @ advisory_classes"

fun executable_class ::
  "recommendation_class \<Rightarrow> (execution_intent \<times> approval_level \<times> execution_constraint list) option" where
  "executable_class ClassConfigureService = Some (ConfigureService, LevelStandard, [RequiresProvider])"
| "executable_class ClassCreateBackup = Some (CreateBackup, LevelStandard, [])"
| "executable_class ClassDisableIntegration = Some (DisableIntegration, LevelDestructive, [DestructiveChange])"
| "executable_class ClassEnableIntegration = Some (EnableIntegration, LevelElevated, [RequiresProvider])"
| "executable_class ClassInstallContainer = Some (InstallContainer, LevelElevated,
     [RequiresCompatibility, RequiresProvider, RequiresResolvedRelationships])"
| "executable_class ClassInstallProvider = Some (InstallProvider, LevelElevated, [RequiresCompatibility])"
| "executable_class ClassRemoveIntegration = Some (RemoveIntegration, LevelDestructive,
     [DestructiveChange, RequiresBackup])"
| "executable_class ClassRemoveResource = Some (RemoveResource, LevelDestructive,
     [DestructiveChange, RequiresBackup])"
| "executable_class ClassRestartContainer = Some (RestartContainer, LevelStandard, [ServiceDisruption])"
| "executable_class ClassRestartProvider = Some (RestartProvider, LevelElevated, [ServiceDisruption])"
| "executable_class ClassRestartService = Some (RestartService, LevelStandard, [ServiceDisruption])"
| "executable_class ClassRestoreBackup = Some (RestoreBackup, LevelDestructive,
     [DestructiveChange, RequiresBackup, ServiceDisruption])"
| "executable_class ClassUpdateComposeStack = Some (UpdateComposeStack, LevelElevated,
     [RequiresBackup, ServiceDisruption])"
| "executable_class ClassRc1ValidationSmoke = Some (Rc1ValidationSmoke, LevelStandard, [RequiresCurrentEvidence])"
| "executable_class ClassUpdateContainerImage = Some (UpdateContainerImage, LevelElevated,
     [RequiresBackup, ServiceDisruption])"
| "executable_class _ = None"

record classification =
  cl_recommendation_class :: recommendation_class
  cl_execution_category :: execution_category
  cl_execution_intent :: execution_intent
  cl_required_approval_level :: approval_level
  cl_constraints :: "execution_constraint list"

definition normalize_recommendation_class :: "string \<Rightarrow> string" where
  "normalize_recommendation_class s = map (\<lambda>c. if c = CHR ''-'' then CHR ''_'' else c) (lower (strip s))"

definition parse_recommendation_class :: "string \<Rightarrow> recommendation_class res" where
  "parse_recommendation_class s =
     (case find (\<lambda>c. class_text c = normalize_recommendation_class s) recommendation_classes of
        None \<Rightarrow> Inl (ValueError ''not a valid RecommendationClass'')
      | Some c \<Rightarrow> Inr c)"

definition classify_class :: "recommendation_class \<Rightarrow> classification option" where
  "classify_class parsed =
     (if parsed \<in> set advisory_classes then None
      else (case executable_class parsed of
          None \<Rightarrow> None
        | Some (intent, level, constraints) \<Rightarrow>
            Some \<lparr>cl_recommendation_class = parsed, cl_execution_category = category_for_intent intent,
              cl_execution_intent = intent, cl_required_approval_level = level,
              cl_constraints = constraints\<rparr>))"

definition classify_recommendation_class :: "string \<Rightarrow> classification option" where
  "classify_recommendation_class s =
     (case parse_recommendation_class s of Inl e \<Rightarrow> None | Inr parsed \<Rightarrow> classify_class parsed)"

section \<open>Eligibility for planning\<close>

datatype eligibility_reason =
    ErCandidateNotEligible | ErNonExecutableRecommendation | ErMissingTarget | ErAmbiguousTarget
  | ErMissingEvidence | ErUnreferencedEvidence | ErMissingCatalogIdentity
  | ErInsufficientCompatibility | ErIncompatibleCompatibility | ErUnresolvedRequiredRelationship
  | ErUnsupportedSourceSubsystem | ErExpiredCandidate | ErUnsupportedIntentCategory
  | ErUnsafePayload | ErBypassesAgentOrApproval | ErDestructiveApprovalRequired
  | ErServiceDisruptionConstraintRequired | ErOperationalTargetRequired

fun eligibility_reason_text :: "eligibility_reason \<Rightarrow> string" where
  "eligibility_reason_text ErCandidateNotEligible = ''candidate-not-eligible''"
| "eligibility_reason_text ErNonExecutableRecommendation = ''non-executable-recommendation''"
| "eligibility_reason_text ErMissingTarget = ''missing-target''"
| "eligibility_reason_text ErAmbiguousTarget = ''ambiguous-target''"
| "eligibility_reason_text ErMissingEvidence = ''missing-evidence''"
| "eligibility_reason_text ErUnreferencedEvidence = ''unreferenced-evidence''"
| "eligibility_reason_text ErMissingCatalogIdentity = ''missing-catalog-identity''"
| "eligibility_reason_text ErInsufficientCompatibility = ''insufficient-compatibility''"
| "eligibility_reason_text ErIncompatibleCompatibility = ''incompatible-compatibility''"
| "eligibility_reason_text ErUnresolvedRequiredRelationship = ''unresolved-required-relationship''"
| "eligibility_reason_text ErUnsupportedSourceSubsystem = ''unsupported-source-subsystem''"
| "eligibility_reason_text ErExpiredCandidate = ''expired-candidate''"
| "eligibility_reason_text ErUnsupportedIntentCategory = ''unsupported-intent-category''"
| "eligibility_reason_text ErUnsafePayload = ''unsafe-payload''"
| "eligibility_reason_text ErBypassesAgentOrApproval = ''bypasses-agent-or-approval''"
| "eligibility_reason_text ErDestructiveApprovalRequired = ''destructive-approval-required''"
| "eligibility_reason_text ErServiceDisruptionConstraintRequired = ''service-disruption-constraint-required''"
| "eligibility_reason_text ErOperationalTargetRequired = ''operational-target-required''"

record eligibility_finding =
  ef_reason :: eligibility_reason
  ef_message :: string
  ef_evidence_ids :: "string list"
  ef_relationship_ids :: "string list"

record eligibility_result =
  er_candidate_id :: string
  er_status :: candidate_status
  er_findings :: "eligibility_finding list"

definition supported_source_subsystems :: "string list" where
  "supported_source_subsystems = [''orion'', ''discovery'', ''intelligence'', ''operator-intent'']"

definition ambiguous_target_ids :: "string list" where
  "ambiguous_target_ids = [''*'', ''all'', ''unknown'', ''ambiguous'']"

definition bypass_markers :: "string list" where
  "bypass_markers = [''bypass approval'', ''skip approval'', ''execute directly'', ''without approval'',
     ''skip atlas agent'', ''bypass agent'']"

text \<open>\<open>_sorted_tuple\<close>\<close>

definition clean_unique :: "string list \<Rightarrow> string list" where
  "clean_unique values = sorted_unique (map (\<lambda>v. lower (strip v)) (filter (\<lambda>v. strip v \<noteq> []) values))"

definition eligibility_finding_of ::
  "eligibility_reason \<Rightarrow> string \<Rightarrow> string list \<Rightarrow> string list \<Rightarrow> eligibility_finding" where
  "eligibility_finding_of reason message evidence relationships =
     \<lparr>ef_reason = reason, ef_message = message, ef_evidence_ids = clean_unique evidence,
      ef_relationship_ids = clean_unique relationships\<rparr>"

definition blocker :: "bool \<Rightarrow> eligibility_reason \<Rightarrow> string \<Rightarrow> eligibility_finding list" where
  "blocker b reason message = (if b then [eligibility_finding_of reason message [] []] else [])"

definition target_findings :: "execution_candidate \<Rightarrow> eligibility_finding list" where
  "target_findings c =
     (let target = lower (strip (xc_target_id c)) in
      if target = [] then blocker True ErMissingTarget ''A target is required.''
      else blocker (target \<in> set ambiguous_target_ids) ErAmbiguousTarget
        ''The target must identify one deterministic planning target.'')"

definition evidence_findings :: "execution_candidate \<Rightarrow> string list option \<Rightarrow> eligibility_finding list" where
  "evidence_findings c available_ids =
     (if xc_evidence_ids c = []
      then blocker True ErMissingEvidence ''At least one evidence reference is required before planning.''
      else (case available_ids of
          None \<Rightarrow> []
        | Some ids \<Rightarrow>
            (let missing = filter (\<lambda>e. e \<notin> set (clean_unique ids)) (xc_evidence_ids c) in
             if missing = [] then []
             else [eligibility_finding_of ErUnreferencedEvidence
               ''Every candidate evidence reference must be present in the source assessment.'' missing []])))"

definition discovery_backed :: "execution_candidate \<Rightarrow> bool" where
  "discovery_backed c \<longleftrightarrow> xc_source_subsystem c = ''discovery''
     \<or> xc_compatibility_assessment_id c \<noteq> None \<or> RequiresCompatibility \<in> set (xc_constraints c)"

definition compatibility_findings :: "execution_candidate \<Rightarrow> eligibility_finding list" where
  "compatibility_findings c =
     (if xc_compatibility_status c = Some ''insufficient_information''
      then blocker True ErInsufficientCompatibility
        ''Insufficient compatibility information cannot be treated as planning eligibility.''
      else blocker (xc_compatibility_status c = Some ''incompatible'') ErIncompatibleCompatibility
        ''An incompatible compatibility assessment blocks planning eligibility.'')"

definition relationship_findings :: "string list \<Rightarrow> eligibility_finding list" where
  "relationship_findings unresolved =
     (if clean_unique unresolved = [] then []
      else [eligibility_finding_of ErUnresolvedRequiredRelationship
        ''Required relationships must be resolved before planning.'' [] (clean_unique unresolved)])"

definition text_bypasses :: "string \<Rightarrow> bool" where
  "text_bypasses s \<longleftrightarrow> list_ex (\<lambda>m. contains m (lower s)) bypass_markers"

definition disruption_undeclared :: "execution_candidate \<Rightarrow> bool" where
  "disruption_undeclared c \<longleftrightarrow> xc_execution_intent c \<in> set disruptive_intents
     \<and> ServiceDisruption \<notin> set (xc_constraints c)
     \<and> category_text (xc_execution_category c) \<in> set [''restart'', ''update'', ''restore'', ''remove'']"

definition eligibility_findings :: "execution_candidate \<Rightarrow> string list option \<Rightarrow> string list \<Rightarrow> int
    \<Rightarrow> string list \<Rightarrow> eligibility_finding list" where
  "eligibility_findings c available_ids unresolved now supported = concat
     [blocker (xc_status c = CandidateNotEligible) ErCandidateNotEligible
        ''The candidate status is not eligible for planning.'',
      blocker (classify_recommendation_class (xc_recommendation_class c) = None)
        ErNonExecutableRecommendation ''The source recommendation class is not executable.'',
      blocker (xc_source_subsystem c \<notin> set (clean_unique supported)) ErUnsupportedSourceSubsystem
        ''The source subsystem is not supported for planning eligibility.'',
      target_findings c,
      blocker (xc_execution_category c \<noteq> category_for_intent (xc_execution_intent c))
        ErUnsupportedIntentCategory
        ''The execution intent is not supported by the execution category.'',
      blocker (intent_text (xc_execution_intent c) = ''restart-service'' \<and> xc_operational_target c = None)
        ErOperationalTargetRequired
        ''Operational planning requires an authoritative provider resource identity.'',
      evidence_findings c available_ids,
      blocker (discovery_backed c \<and> xc_catalog_item_id c = None) ErMissingCatalogIdentity
        ''Discovery-backed planning candidates require a catalog item identity.'',
      compatibility_findings c,
      relationship_findings unresolved,
      blocker (case xc_expires_at c of None \<Rightarrow> False | Some t \<Rightarrow> t \<le> now) ErExpiredCandidate
        ''The candidate has expired and requires fresh evidence.'',
      blocker (list_ex contains_unsafe_payload [xc_target_id c, xc_rationale c]) ErUnsafePayload
        ''Candidates must not contain commands or secret-like payloads.'',
      blocker (text_bypasses (xc_rationale c)) ErBypassesAgentOrApproval
        ''Candidates must not bypass Atlas Agent planning or approval boundaries.'',
      blocker (xc_execution_intent c \<in> set destructive_intents
          \<and> xc_required_approval_level c \<noteq> LevelDestructive) ErDestructiveApprovalRequired
        ''Destructive intents require destructive approval.'',
      blocker (disruption_undeclared c) ErServiceDisruptionConstraintRequired
        ''Disruptive intents must declare the service-disruption constraint.'']"

definition validate_candidate_for_planning :: "execution_candidate \<Rightarrow> string list option \<Rightarrow> string list
    \<Rightarrow> int \<Rightarrow> string list \<Rightarrow> eligibility_result" where
  "validate_candidate_for_planning c available_ids unresolved now supported =
     (let findings = eligibility_findings c available_ids unresolved now supported in
      \<lparr>er_candidate_id = xc_id c,
       er_status = (if findings = [] then CandidateEligible else CandidateNotEligible),
       er_findings = sort_key (\<lambda>f. eligibility_reason_text (ef_reason f)) findings\<rparr>)"

section \<open>The fingerprint\<close>

definition candidate_fingerprint_version :: string where
  "candidate_fingerprint_version = ''candidate-fingerprint-v1''"

definition operational_fingerprint_version :: string where
  "operational_fingerprint_version = ''operational-candidate-fingerprint-v1''"

text \<open>\<open>re.sub(r"\s+", " ", value.strip())\<close>\<close>

definition normalize_text :: "string \<Rightarrow> string" where
  "normalize_text s = join '' '' (words s)"

text \<open>\<open>isoformat().replace("+00:00", "Z")\<close> of an instant in UTC.\<close>

definition utc_text :: "int \<Rightarrow> string" where
  "utc_text i = (let s = isoformat (Datetime i 0) in take (length s - 6) s @ ''Z'')"

definition text_array :: "string list \<Rightarrow> json" where
  "text_array xs = JArr (map JStr xs)"

definition candidate_payload :: "execution_candidate \<Rightarrow> (string \<times> json) list" where
  "candidate_payload c =
     [(''candidate_id'', JStr (xc_id c)),
      (''source_recommendation_id'', JStr (xc_source_recommendation_id c)),
      (''source_subsystem'', JStr (xc_source_subsystem c)),
      (''recommendation_class'', JStr (xc_recommendation_class c)),
      (''catalog_item_id'', json_text (xc_catalog_item_id c)),
      (''target_id'', JStr (xc_target_id c)),
      (''target_type'', JStr (xc_target_type c)),
      (''execution_category'', JStr (category_text (xc_execution_category c))),
      (''execution_intent'', JStr (intent_text (xc_execution_intent c))),
      (''candidate_status'', JStr (candidate_status_text (xc_status c))),
      (''required_approval_level'', JStr (approval_level_text (xc_required_approval_level c))),
      (''constraints'', text_array (sort (map constraint_text (xc_constraints c)))),
      (''evidence_ids'', text_array (sort (xc_evidence_ids c))),
      (''compatibility_assessment_id'', json_text (xc_compatibility_assessment_id c)),
      (''compatibility_status'', json_text (xc_compatibility_status c)),
      (''relationship_ids'', text_array (sort (xc_relationship_ids c))),
      (''expires_at'', json_text (map_option utc_text (xc_expires_at c))),
      (''rationale'', JStr (normalize_text (xc_rationale c)))]"

definition target_reference_json :: "target_reference \<Rightarrow> json" where
  "target_reference_json t = JObj
     [(''provider_id'', JStr (otr_provider_id t)), (''resource_id'', JStr (otr_resource_id t)),
      (''resource_type'', JStr (otr_resource_type t)),
      (''resource_fingerprint'', JStr (otr_resource_fingerprint t)),
      (''resource_version'', json_text (otr_resource_version t)),
      (''expected_state'', JStr (otr_expected_state t))]"

definition candidate_document :: "execution_candidate \<Rightarrow> json" where
  "candidate_document c = JObj (candidate_payload c @ (case xc_operational_target c of
     None \<Rightarrow> [] | Some t \<Rightarrow> [(''operational_target'', target_reference_json t)]))"

definition build_candidate_fingerprint :: "execution_candidate \<Rightarrow> string" where
  "build_candidate_fingerprint c =
     (case xc_operational_target c of None \<Rightarrow> candidate_fingerprint_version
        | Some t \<Rightarrow> operational_fingerprint_version)
     @ '':'' @ sha256_hexdigest (canonical_ascii (candidate_document c))"

section \<open>What eligibility requires\<close>

definition planning_ready :: "execution_candidate \<Rightarrow> string list option \<Rightarrow> string list \<Rightarrow> int \<Rightarrow> string list \<Rightarrow> bool" where
  "planning_ready c available_ids unresolved now supported \<longleftrightarrow>
     xc_status c = CandidateEligible
     \<and> classify_recommendation_class (xc_recommendation_class c) \<noteq> None
     \<and> xc_source_subsystem c \<in> set (clean_unique supported)
     \<and> \<not> blank (xc_target_id c) \<and> lower (strip (xc_target_id c)) \<notin> set ambiguous_target_ids
     \<and> xc_execution_category c = category_for_intent (xc_execution_intent c)
     \<and> (xc_execution_intent c \<noteq> RestartService \<or> xc_operational_target c \<noteq> None)
     \<and> xc_evidence_ids c \<noteq> []
     \<and> (case available_ids of None \<Rightarrow> True | Some ids \<Rightarrow> set (xc_evidence_ids c) \<subseteq> set (clean_unique ids))
     \<and> (\<not> discovery_backed c \<or> xc_catalog_item_id c \<noteq> None)
     \<and> xc_compatibility_status c \<notin> {Some ''insufficient_information'', Some ''incompatible''}
     \<and> list_all blank unresolved
     \<and> (case xc_expires_at c of None \<Rightarrow> True | Some t \<Rightarrow> now < t)
     \<and> \<not> contains_unsafe_payload (xc_target_id c) \<and> \<not> contains_unsafe_payload (xc_rationale c)
     \<and> \<not> text_bypasses (xc_rationale c)
     \<and> (xc_execution_intent c \<notin> set destructive_intents \<or> xc_required_approval_level c = LevelDestructive)
     \<and> \<not> disruption_undeclared c"

lemma blocker_Nil [simp]: "blocker b r m = [] \<longleftrightarrow> \<not> b"
  by (simp add: blocker_def)

lemma restart_service_text [simp]: "intent_text i = ''restart-service'' \<longleftrightarrow> i = RestartService"
  by (cases i) simp_all

lemma set_sorted_unique [simp]: "set (sorted_unique xs) = set xs"
  by (simp add: sorted_unique_def)

lemma sorted_unique_Nil [simp]: "sorted_unique xs = [] \<longleftrightarrow> xs = []"
  by (metis set_sorted_unique set_empty)

lemma clean_unique_Nil: "clean_unique values = [] \<longleftrightarrow> list_all blank values"
  by (auto simp: clean_unique_def blank_def filter_empty_conv list_all_iff)

lemma lower_Nil [simp]: "lower s = [] \<longleftrightarrow> s = []"
  by (simp add: lower_def)

lemma target_findings_Nil:
  "target_findings c = [] \<longleftrightarrow>
     \<not> blank (xc_target_id c) \<and> lower (strip (xc_target_id c)) \<notin> set ambiguous_target_ids"
  by (simp add: target_findings_def Let_def blank_def)

lemma evidence_findings_Nil:
  "evidence_findings c available_ids = [] \<longleftrightarrow> xc_evidence_ids c \<noteq> []
     \<and> (case available_ids of None \<Rightarrow> True | Some ids \<Rightarrow> set (xc_evidence_ids c) \<subseteq> set (clean_unique ids))"
  by (auto simp: evidence_findings_def Let_def filter_empty_conv split: option.split)

lemma eligible_iff:
  "er_status (validate_candidate_for_planning c available_ids unresolved now supported) = CandidateEligible
     \<longleftrightarrow> planning_ready c available_ids unresolved now supported"
proof -
  have "eligibility_findings c available_ids unresolved now supported = []
      \<longleftrightarrow> planning_ready c available_ids unresolved now supported"
    unfolding eligibility_findings_def planning_ready_def concat_eq_Nil_conv list.set ball_simps
    by (cases "xc_expires_at c"; cases "xc_status c")
      (auto simp: target_findings_Nil evidence_findings_Nil compatibility_findings_def
        relationship_findings_def clean_unique_Nil not_le split: option.split)
  then show ?thesis by (simp add: validate_candidate_for_planning_def Let_def)
qed

section \<open>What a constructed candidate satisfies\<close>

definition clean_list :: "string list \<Rightarrow> bool" where
  "clean_list xs \<longleftrightarrow> sorted xs \<and> distinct xs \<and> list_all (\<lambda>x. x \<noteq> [] \<and> \<not> contains_unsafe_payload x) xs"

definition clean_text :: "string \<Rightarrow> bool" where
  "clean_text s \<longleftrightarrow> s \<noteq> [] \<and> strip s = s \<and> \<not> contains_unsafe_payload s"

definition valid_candidate :: "execution_candidate \<Rightarrow> bool" where
  "valid_candidate c \<longleftrightarrow> validate_candidate c = Inr ()
     \<and> list_all candidate_id_shape [xc_id c, xc_source_recommendation_id c, xc_source_subsystem c,
         xc_recommendation_class c, xc_target_type c]
     \<and> optional_shape (xc_catalog_item_id c) \<and> optional_shape (xc_compatibility_assessment_id c)
     \<and> clean_text (xc_target_id c) \<and> clean_text (xc_rationale c)
     \<and> clean_list (xc_evidence_ids c) \<and> clean_list (xc_relationship_ids c)
     \<and> (case xc_compatibility_status c of None \<Rightarrow> True | Some s \<Rightarrow> s \<in> set compatibility_statuses)"

lemma validated_Inr [simp]: "validated r = Inr x \<longleftrightarrow> r = Inr x"
  by (simp add: validated_def split: sum.split)

lemma validated_succeeds [simp]: "succeeds (validated r) = succeeds r"
  by (simp add: validated_def split: sum.split)

lemma safe_text_Inr: "safe_text v = Inr s \<longleftrightarrow> s = strip v \<and> clean_text (strip v)"
  by (auto simp: safe_text_def clean_text_def res_simps Let_def)

lemma normalize_unique_strings_clean:
  assumes "normalize_unique_strings values = Inr xs"
  shows "clean_list xs"
proof -
  from assms obtain items where items: "traverse (\<lambda>v. let item = lower (strip v) in
         and_then (require (item \<noteq> []) (ValueError ''values must not be empty.'')) (\<lambda>_.
         and_then (require (\<not> contains_unsafe_payload item)
           (ValueError ''values must not contain command or secret-like payloads.'')) (\<lambda>_.
         Inr item))) values = Inr items" and xs: "xs = sorted_unique items"
    unfolding normalize_unique_strings_def and_then_Inr_iff by blast
  have "\<forall>y \<in> set items. y \<noteq> [] \<and> \<not> contains_unsafe_payload y"
    unfolding traverse_Inr_set [OF items] by (auto simp: res_simps Let_def)
  then show ?thesis
    by (auto simp: clean_list_def xs sorted_unique_def list_all_iff)
qed

lemma normalize_unique_strings_Nil [simp]: "normalize_unique_strings [] = Inr []"
  by (simp add: normalize_unique_strings_def sorted_unique_def)

lemma construct_candidate_Inr:
  assumes "construct_candidate draft = Inr c"
  shows "valid_candidate c"
    and "xc_id c = xc_id draft" "xc_source_recommendation_id c = xc_source_recommendation_id draft"
    and "xc_source_subsystem c = xc_source_subsystem draft"
    and "xc_recommendation_class c = xc_recommendation_class draft"
    and "xc_execution_category c = xc_execution_category draft"
    and "xc_execution_intent c = xc_execution_intent draft" "xc_status c = xc_status draft"
    and "xc_required_approval_level c = xc_required_approval_level draft"
    and "set (xc_constraints c) = set (xc_constraints draft)"
    and "xc_created_at c = xc_created_at draft" "xc_expires_at c = xc_expires_at draft"
    and "xc_operational_target c = xc_operational_target draft"
    and "xc_resolution_reason c = xc_resolution_reason draft"
    and "xc_target_id c = strip (xc_target_id draft)" "xc_rationale c = strip (xc_rationale draft)"
    and "normalize_unique_strings (xc_evidence_ids draft) = Inr (xc_evidence_ids c)"
    and "xc_mutation c = xc_mutation draft" "xc_catalog_item_id c = xc_catalog_item_id draft"
    and "xc_target_type c = xc_target_type draft" "xc_effect_kind c = xc_effect_kind draft"
proof -
  from assms obtain relationships compatibility where n: "normalize_candidate_fields draft = Inr c"
    and v: "validate_candidate c = Inr ()"
    by (auto simp: construct_candidate_def res_simps)
  show "valid_candidate c"
    using n v unfolding valid_candidate_def normalize_candidate_fields_def
    by (auto simp: res_simps safe_text_Inr Let_def intro: normalize_unique_strings_clean
        split: option.splits if_splits)
  show "xc_id c = xc_id draft" "xc_source_recommendation_id c = xc_source_recommendation_id draft"
    "xc_source_subsystem c = xc_source_subsystem draft"
    "xc_recommendation_class c = xc_recommendation_class draft"
    "xc_execution_category c = xc_execution_category draft"
    "xc_execution_intent c = xc_execution_intent draft" "xc_status c = xc_status draft"
    "xc_required_approval_level c = xc_required_approval_level draft"
    "set (xc_constraints c) = set (xc_constraints draft)"
    "xc_created_at c = xc_created_at draft" "xc_expires_at c = xc_expires_at draft"
    "xc_operational_target c = xc_operational_target draft"
    "xc_resolution_reason c = xc_resolution_reason draft"
    "xc_target_id c = strip (xc_target_id draft)" "xc_rationale c = strip (xc_rationale draft)"
    "normalize_unique_strings (xc_evidence_ids draft) = Inr (xc_evidence_ids c)"
    "xc_mutation c = xc_mutation draft" "xc_catalog_item_id c = xc_catalog_item_id draft"
    "xc_target_type c = xc_target_type draft" "xc_effect_kind c = xc_effect_kind draft"
    using n unfolding normalize_candidate_fields_def
    by (auto simp: res_simps safe_text_Inr normalize_unique_constraints_def)
qed

lemma valid_candidate_status [simp]:
  "valid_candidate (c\<lparr>xc_status := s\<rparr>) = valid_candidate c"
  by (cases "xc_expires_at c") (simp_all add: valid_candidate_def validate_candidate_def candidate_identity_def)

section \<open>What classification fixes\<close>

definition follows_class :: "execution_candidate \<Rightarrow> bool" where
  "follows_class c \<longleftrightarrow> (case classify_recommendation_class (xc_recommendation_class c) of
     None \<Rightarrow> False
   | Some k \<Rightarrow> xc_execution_category c = cl_execution_category k
       \<and> xc_execution_intent c = cl_execution_intent k
       \<and> xc_required_approval_level c = cl_required_approval_level k
       \<and> set (xc_constraints c) = set (cl_constraints k))"

lemma classify_class_Some:
  assumes "classify_class cls = Some k"
  shows "cl_execution_category k = category_for_intent (cl_execution_intent k)"
    and "cl_execution_intent k \<in> set destructive_intents \<Longrightarrow> cl_required_approval_level k = LevelDestructive"
    and "cl_execution_intent k \<in> set disruptive_intents \<and> ServiceDisruption \<notin> set (cl_constraints k)
      \<longleftrightarrow> cl_execution_intent k \<in> {RemoveResource, RemoveIntegration}"
  using assms
  by (cases cls; auto simp: classify_class_def advisory_classes_def destructive_intents_def
      disruptive_intents_def)+

text \<open>The table gives removals no service-disruption constraint, which eligibility asks of them: no
  candidate that follows its class is ready for planning with the intent of a removal.\<close>

lemma removals_are_never_ready:
  assumes "follows_class c" "planning_ready c available_ids unresolved now supported"
  shows "xc_execution_intent c \<notin> {RemoveResource, RemoveIntegration}"
proof -
  from assms(1) obtain k where k: "classify_recommendation_class (xc_recommendation_class c) = Some k"
    and i: "xc_execution_intent c = cl_execution_intent k" "xc_execution_category c = cl_execution_category k"
      "set (xc_constraints c) = set (cl_constraints k)"
    by (auto simp: follows_class_def split: option.splits)
  from k obtain cls where cls: "classify_class cls = Some k"
    by (auto simp: classify_recommendation_class_def split: sum.splits)
  show ?thesis
  proof
    assume removal: "xc_execution_intent c \<in> {RemoveResource, RemoveIntegration}"
    then have "xc_execution_intent c \<in> set disruptive_intents \<and> ServiceDisruption \<notin> set (xc_constraints c)"
      using classify_class_Some(3) [OF cls] i by simp
    moreover have "category_text (xc_execution_category c) = ''remove''"
      using classify_class_Some(1) [OF cls] i removal by auto
    ultimately have "disruption_undeclared c" by (simp add: disruption_undeclared_def)
    with assms(2) show False by (simp add: planning_ready_def)
  qed
qed

end
