(* ===== verification/CandidateProjection.thy ===== *)
theory CandidateProjection
  imports Candidates
begin

text \<open>
  The projection of intelligence findings to execution candidates
  (\<open>execution_candidates/projection.py\<close> of Atlas Core). Of a finding the model keeps what the
  projection reads: identifier, source, message and details.
\<close>

section \<open>Findings\<close>

text \<open>A value of \<open>details\<close>: a string, what iterating another iterable yields (an item that is not a
  string is \<open>None\<close>), or something that cannot be iterated.\<close>

datatype detail = DetailNull | DetailText string | DetailItems "string option list" | DetailOther

record ace_finding =
  fi_id :: string
  fi_source :: string
  fi_message :: string
  fi_details :: "(string \<times> detail) list"

definition string_detail :: "(string \<times> detail) list \<Rightarrow> string \<Rightarrow> string option" where
  "string_detail details key = (case map_of details key of
     Some (DetailText v) \<Rightarrow> if strip v = [] then None else Some (strip v)
   | _ \<Rightarrow> None)"

definition tuple_detail :: "(string \<times> detail) list \<Rightarrow> string \<Rightarrow> string list" where
  "tuple_detail details key =
     clean_unique (case map_of details key of
        Some (DetailText v) \<Rightarrow> [v]
      | Some (DetailItems items) \<Rightarrow> List.map_filter id items
      | _ \<Rightarrow> [])"

definition first_nonempty :: "'a list \<Rightarrow> 'a list \<Rightarrow> 'a list" where
  "first_nonempty xs ys = (if xs \<noteq> [] then xs else ys)"

definition unsafe_finding :: "ace_finding \<Rightarrow> bool" where
  "unsafe_finding f \<longleftrightarrow> list_ex contains_unsafe_payload
     ([fi_id f, fi_message f, fi_source f]
       @ List.map_filter (\<lambda>(k, d). case d of DetailText v \<Rightarrow> Some v | _ \<Rightarrow> None) (fi_details f))"

section \<open>Results\<close>

datatype projection_status = Projected | NotExecutable | InsufficientData | UnsupportedFinding | Rejected

datatype projection_reason =
    PrProjected | PrAdvisoryRecommendationClass | PrCandidateNotEligible | PrInvalidRecommendationClass
  | PrMissingEvidence | PrMissingRecommendationClass | PrMissingSourceIdentity | PrMissingTarget
  | PrUntrustedSourceSubsystem | PrUnsafePayload | PrValidationFailed

record projection_result =
  pj_status :: projection_status
  pj_source_finding_id :: string
  pj_candidate :: "execution_candidate option"
  pj_reason_code :: projection_reason
  pj_message :: string

definition projection ::
  "projection_status \<Rightarrow> string \<Rightarrow> projection_reason \<Rightarrow> string \<Rightarrow> execution_candidate option \<Rightarrow> projection_result" where
  "projection status source_id reason message candidate =
     \<lparr>pj_status = status, pj_source_finding_id = source_id, pj_candidate = candidate,
      pj_reason_code = reason, pj_message = message\<rparr>"

definition trusted_source_subsystems :: "string list" where
  "trusted_source_subsystems = [''discovery'', ''intelligence'', ''orion'']"

section \<open>Building candidates\<close>

definition compose_mutation_of :: "(string \<times> detail) list \<Rightarrow> compose_mutation option" where
  "compose_mutation_of details =
     (case (string_detail details ''compose_file'', string_detail details ''compose_service'',
            string_detail details ''compose_property'', string_detail details ''compose_operation'',
            string_detail details ''compose_desired_value'') of
        (Some file, Some service, Some property, Some operation, Some desired) \<Rightarrow>
          Some \<lparr>cms_file = file, cms_service = service, cms_property = property,
            cms_operation = operation, cms_desired_value = desired,
            cms_expected_value = string_detail details ''compose_expected_value'',
            cms_preservation_constraints = tuple_detail details ''compose_preservation_constraints''\<rparr>
      | _ \<Rightarrow> None)"

definition dashed :: "string \<Rightarrow> string" where
  "dashed s = map (\<lambda>c. if c = CHR ''_'' then CHR ''-'' else c) s"

record projection_input =
  pi_finding :: ace_finding
  pi_source_id :: string
  pi_source_subsystem :: string
  pi_class :: recommendation_class
  pi_target_id :: string
  pi_target_type :: string
  pi_evidence_ids :: "string list"

text \<open>The fields both kinds of candidate share.\<close>

definition base_candidate :: "projection_input \<Rightarrow> int \<Rightarrow> string \<Rightarrow> execution_candidate" where
  "base_candidate p now candidate_id =
     (let details = fi_details (pi_finding p) in
      \<lparr>xc_id = candidate_id, xc_source_recommendation_id = pi_source_id p,
       xc_source_subsystem = pi_source_subsystem p,
       xc_recommendation_class = dashed (class_text (pi_class p)),
       xc_catalog_item_id = string_detail details ''catalog_item_id'',
       xc_target_id = pi_target_id p, xc_target_type = pi_target_type p,
       xc_execution_category = CatUnsupported, xc_execution_intent = UnsupportedRecommendation,
       xc_effect_kind = RepositoryChange, xc_status = CandidateNotEligible,
       xc_required_approval_level = LevelStandard, xc_rationale = fi_message (pi_finding p),
       xc_constraints = [], xc_evidence_ids = pi_evidence_ids p,
       xc_compatibility_assessment_id = string_detail details ''compatibility_assessment_id'',
       xc_compatibility_status = string_detail details ''compatibility_status'',
       xc_relationship_ids = first_nonempty (tuple_detail details ''relationship_ids'')
         (tuple_detail details ''compatibility_finding_ids''),
       xc_created_at = now, xc_expires_at = None, xc_mutation = None,
       xc_operational_target = None, xc_resolution_reason = None\<rparr>)"

definition projected_id :: "projection_input \<Rightarrow> execution_category \<Rightarrow> execution_intent \<Rightarrow> string res" where
  "projected_id p category intent = build_execution_candidate_id (pi_source_subsystem p)
     (pi_source_id p) (string_detail (fi_details (pi_finding p)) ''catalog_item_id'')
     (pi_target_id p) category intent"

definition classified_candidate ::
  "projection_input \<Rightarrow> classification \<Rightarrow> int \<Rightarrow> execution_candidate res" where
  "classified_candidate p k now =
     and_then (projected_id p (cl_execution_category k) (cl_execution_intent k)) (\<lambda>candidate_id.
     construct_candidate ((base_candidate p now candidate_id)
       \<lparr>xc_execution_category := cl_execution_category k, xc_execution_intent := cl_execution_intent k,
        xc_effect_kind := (if cl_execution_intent k = RestartService then OperationalAction
          else RepositoryChange),
        xc_status := CandidateEligible, xc_required_approval_level := cl_required_approval_level k,
        xc_constraints := cl_constraints k,
        xc_mutation := compose_mutation_of (fi_details (pi_finding p))\<rparr>))"

definition build_candidate_result :: "projection_input \<Rightarrow> string list option \<Rightarrow> int \<Rightarrow> projection_result" where
  "build_candidate_result p available_ids now =
     (case classify_class (pi_class p) of
        None \<Rightarrow> projection NotExecutable (pi_source_id p) PrAdvisoryRecommendationClass
          ''Finding recommendation class is advisory and not executable.'' None
      | Some k \<Rightarrow>
        (case classified_candidate p k now of
           Inl e \<Rightarrow> projection Rejected (pi_source_id p) PrValidationFailed
             ''Finding could not be safely converted into an execution candidate.'' None
         | Inr c \<Rightarrow>
           (let status = er_status (validate_candidate_for_planning c available_ids [] now
                  supported_source_subsystems);
                candidate = c\<lparr>xc_status := status\<rparr> in
            if status = CandidateEligible
            then projection Projected (pi_source_id p) PrProjected
              ''Finding projected to an eligible execution candidate.'' (Some candidate)
            else projection InsufficientData (pi_source_id p) PrCandidateNotEligible
              ''Finding projected to a candidate that is not eligible for planning.''
              (Some candidate))))"

definition not_eligible_candidate_result ::
  "projection_input \<Rightarrow> string list option \<Rightarrow> int \<Rightarrow> projection_reason \<Rightarrow> string \<Rightarrow> projection_result" where
  "not_eligible_candidate_result p available_ids now reason message =
     (let result = build_candidate_result p available_ids now in
      if pj_candidate result = None then result
      else projection InsufficientData (pi_source_id p) reason message (pj_candidate result))"

text \<open>The only construction that is not guarded: a validator that fails raises.\<close>

definition unsupported_candidate :: "projection_input \<Rightarrow> int \<Rightarrow> execution_candidate res" where
  "unsupported_candidate p now =
     and_then (projected_id p CatUnsupported UnsupportedRecommendation) (\<lambda>candidate_id.
     construct_candidate ((base_candidate p now candidate_id)
       \<lparr>xc_target_type := dashed (pi_target_type p)\<rparr>))"

section \<open>The projection\<close>

definition execution_candidate_from_finding ::
  "string list option \<Rightarrow> int \<Rightarrow> ace_finding \<Rightarrow> projection_result res" where
  "execution_candidate_from_finding available_ids now f =
     (let source_id = strip (fi_id f); details = fi_details f;
          source = (case string_detail details ''source_subsystem'' of Some v \<Rightarrow> v | None \<Rightarrow> fi_source f) in
      if source_id = []
      then Inr (projection Rejected ''missing'' PrMissingSourceIdentity
        ''Finding identity is required for execution candidate projection.'' None)
      else if source \<notin> set trusted_source_subsystems
      then Inr (projection Rejected source_id PrUntrustedSourceSubsystem
        ''Finding source subsystem is not trusted for execution candidate projection.'' None)
      else (case string_detail details ''recommendation_class'' of
        None \<Rightarrow> Inr (projection UnsupportedFinding source_id PrMissingRecommendationClass
          ''Finding does not declare a structured recommendation class.'' None)
      | Some raw \<Rightarrow> (case parse_recommendation_class raw of
          Inl e \<Rightarrow> Inr (projection UnsupportedFinding source_id PrInvalidRecommendationClass
            ''Finding declares an unsupported recommendation class.'' None)
        | Inr cls \<Rightarrow> (case (string_detail details ''target_id'', string_detail details ''target_type'') of
            (Some target_id, Some target_type) \<Rightarrow>
              (let evidence = first_nonempty (tuple_detail details ''evidence_ids'')
                     (tuple_detail details ''compatibility_evidence_ids'');
                   p = \<lparr>pi_finding = f, pi_source_id = source_id, pi_source_subsystem = source,
                     pi_class = cls, pi_target_id = target_id, pi_target_type = target_type,
                     pi_evidence_ids = evidence\<rparr> in
               if cls \<in> set advisory_classes
               then and_then (unsupported_candidate p now) (\<lambda>c.
                 Inr (projection NotExecutable source_id PrAdvisoryRecommendationClass
                   ''Finding recommendation class is advisory and not executable.'' (Some c)))
               else if classify_class cls = None
               then Inr (projection NotExecutable source_id PrAdvisoryRecommendationClass
                 ''Finding recommendation class is advisory and not executable.'' None)
               else if evidence = []
               then Inr (not_eligible_candidate_result p available_ids now PrMissingEvidence
                 ''Executable findings require at least one evidence reference.'')
               else if unsafe_finding f
               then Inr (projection Rejected source_id PrUnsafePayload
                 ''Finding contains command-like or secret-like payloads.'' None)
               else Inr (build_candidate_result p available_ids now))
          | _ \<Rightarrow> Inr (projection InsufficientData source_id PrMissingTarget
              ''Executable findings require target_id and target_type details.'' None)))))"

fun keep_new :: "string list \<Rightarrow> projection_result list \<Rightarrow> projection_result list" where
  "keep_new seen [] = []"
| "keep_new seen (r # rs) = (case pj_candidate r of
     None \<Rightarrow> r # keep_new seen rs
   | Some c \<Rightarrow> if xc_id c \<in> set seen then keep_new seen rs else r # keep_new (xc_id c # seen) rs)"

definition project_execution_candidates ::
  "ace_finding list \<Rightarrow> string list option \<Rightarrow> int \<Rightarrow> projection_result list res" where
  "project_execution_candidates findings available_ids now =
     and_then (traverse (execution_candidate_from_finding available_ids now) findings) (\<lambda>results.
     Inr (keep_new [] results))"

section \<open>What the projection yields\<close>

definition result_sound :: "string list option \<Rightarrow> int \<Rightarrow> projection_result \<Rightarrow> bool" where
  "result_sound available_ids now r \<longleftrightarrow> (case pj_candidate r of
     None \<Rightarrow> pj_status r \<noteq> Projected
   | Some c \<Rightarrow> valid_candidate c \<and> xc_source_subsystem c \<in> set trusted_source_subsystems
       \<and> xc_source_recommendation_id c = pj_source_finding_id r
       \<and> xc_created_at c = now \<and> xc_expires_at c = None
       \<and> xc_operational_target c = None \<and> xc_resolution_reason c = None
       \<and> (case pj_status r of
            Projected \<Rightarrow> planning_ready c available_ids [] now supported_source_subsystems
              \<and> follows_class c
              \<and> xc_execution_intent c \<notin> {RestartService, RemoveResource, RemoveIntegration}
          | InsufficientData \<Rightarrow> xc_status c = CandidateNotEligible \<and> follows_class c
          | NotExecutable \<Rightarrow> xc_status c = CandidateNotEligible
              \<and> xc_execution_intent c = UnsupportedRecommendation
          | _ \<Rightarrow> False))"

lemma parse_dashed_class: "parse_recommendation_class (dashed (class_text cls)) = Inr cls"
proof -
  have "list_all (\<lambda>c. parse_recommendation_class (dashed (class_text c)) = Inr c) recommendation_classes"
    by code_simp
  moreover have "cls \<in> set recommendation_classes"
    by (cases cls) (simp_all add: recommendation_classes_def advisory_classes_def)
  ultimately show ?thesis by (simp add: list_all_iff)
qed

lemma classify_dashed_class:
  "classify_recommendation_class (dashed (class_text cls)) = classify_class cls"
  by (simp add: classify_recommendation_class_def parse_dashed_class)

lemma base_candidate_simps [simp]:
  "xc_source_recommendation_id (base_candidate p now i) = pi_source_id p"
  "xc_source_subsystem (base_candidate p now i) = pi_source_subsystem p"
  "xc_recommendation_class (base_candidate p now i) = dashed (class_text (pi_class p))"
  "xc_created_at (base_candidate p now i) = now" "xc_expires_at (base_candidate p now i) = None"
  "xc_operational_target (base_candidate p now i) = None"
  "xc_resolution_reason (base_candidate p now i) = None"
  "xc_evidence_ids (base_candidate p now i) = pi_evidence_ids p"
  "xc_status (base_candidate p now i) = CandidateNotEligible"
  "xc_execution_intent (base_candidate p now i) = UnsupportedRecommendation"
  "xc_rationale (base_candidate p now i) = fi_message (pi_finding p)"
  by (simp_all add: base_candidate_def Let_def)

lemma projection_simps [simp]:
  "pj_status (projection st i r m c) = st" "pj_candidate (projection st i r m c) = c"
  "pj_source_finding_id (projection st i r m c) = i" "pj_reason_code (projection st i r m c) = r"
  by (simp_all add: projection_def)

lemma classified_candidate_Inr:
  assumes "classified_candidate p k now = Inr c" and k: "classify_class (pi_class p) = Some k"
  shows "valid_candidate c" "xc_source_subsystem c = pi_source_subsystem p"
    "xc_source_recommendation_id c = pi_source_id p" "xc_created_at c = now" "xc_expires_at c = None"
    "xc_operational_target c = None" "xc_resolution_reason c = None" "xc_status c = CandidateEligible"
    "follows_class c" "pi_evidence_ids p = [] \<longrightarrow> xc_evidence_ids c = []"
proof -
  from assms(1) obtain i where
    c: "construct_candidate ((base_candidate p now i)
       \<lparr>xc_execution_category := cl_execution_category k, xc_execution_intent := cl_execution_intent k,
        xc_effect_kind := (if cl_execution_intent k = RestartService then OperationalAction
          else RepositoryChange),
        xc_status := CandidateEligible, xc_required_approval_level := cl_required_approval_level k,
        xc_constraints := cl_constraints k,
        xc_mutation := compose_mutation_of (fi_details (pi_finding p))\<rparr>) = Inr c"
    by (auto simp: classified_candidate_def res_simps)
  note f = construct_candidate_Inr [OF c]
  show "valid_candidate c" "xc_source_subsystem c = pi_source_subsystem p"
    "xc_source_recommendation_id c = pi_source_id p" "xc_created_at c = now" "xc_expires_at c = None"
    "xc_operational_target c = None" "xc_resolution_reason c = None" "xc_status c = CandidateEligible"
    using f by simp_all
  show "follows_class c"
    using f k by (simp add: follows_class_def classify_dashed_class)
  show "pi_evidence_ids p = [] \<longrightarrow> xc_evidence_ids c = []"
    using f(17) by auto
qed

lemma follows_class_status [simp]: "follows_class (c\<lparr>xc_status := s\<rparr>) = follows_class c"
  by (cases "classify_recommendation_class (xc_recommendation_class c)") (simp_all add: follows_class_def)

lemma build_candidate_result_sound:
  assumes trusted: "pi_source_subsystem p \<in> set trusted_source_subsystems"
  shows "result_sound available_ids now (build_candidate_result p available_ids now)"
    and "pi_evidence_ids p = [] \<Longrightarrow> pj_status (build_candidate_result p available_ids now) \<noteq> Projected"
    and "pj_source_finding_id (build_candidate_result p available_ids now) = pi_source_id p"
proof -
  let ?r = "build_candidate_result p available_ids now"
  have sound: "result_sound available_ids now ?r \<and> (pi_evidence_ids p = [] \<longrightarrow> pj_status ?r \<noteq> Projected)"
  proof (cases "classify_class (pi_class p)")
    case None
    then show ?thesis by (simp add: build_candidate_result_def result_sound_def)
  next
    case (Some k)
    show ?thesis
    proof (cases "classified_candidate p k now")
      case (Inl e)
      with Some show ?thesis by (simp add: build_candidate_result_def result_sound_def)
    next
      case (Inr c)
      note f = classified_candidate_Inr [OF Inr Some]
      let ?v = "validate_candidate_for_planning c available_ids [] now supported_source_subsystems"
      show ?thesis
      proof (cases "er_status ?v")
        case CandidateEligible
        then have ready: "planning_ready c available_ids [] now supported_source_subsystems"
          by (simp add: eligible_iff)
        have c: "c\<lparr>xc_status := CandidateEligible\<rparr> = c" using f(8) by (cases c) simp
        have restart: "xc_execution_intent c \<noteq> RestartService"
          using ready f(6) by (auto simp: planning_ready_def)
        have result: "?r = projection Projected (pi_source_id p) PrProjected
            ''Finding projected to an eligible execution candidate.'' (Some c)"
          using Some Inr CandidateEligible c by (simp add: build_candidate_result_def Let_def)
        have "xc_evidence_ids c \<noteq> []" using ready by (simp add: planning_ready_def)
        with f(10) have "pi_evidence_ids p \<noteq> []" by blast
        then show ?thesis
          unfolding result result_sound_def
          using ready f trusted restart removals_are_never_ready [OF f(9) ready] by simp
      next
        case CandidateNotEligible
        then show ?thesis using Some Inr f trusted
          by (simp add: build_candidate_result_def result_sound_def Let_def)
      qed
    qed
  qed
  then show "result_sound available_ids now ?r"
    and "pi_evidence_ids p = [] \<Longrightarrow> pj_status ?r \<noteq> Projected" by simp_all
  show "pj_source_finding_id ?r = pi_source_id p"
    by (simp add: build_candidate_result_def Let_def split: option.split sum.split)
qed

lemma not_eligible_candidate_result_sound:
  assumes "pi_source_subsystem p \<in> set trusted_source_subsystems" "pi_evidence_ids p = []"
  shows "result_sound available_ids now (not_eligible_candidate_result p available_ids now reason message)"
proof -
  let ?r = "build_candidate_result p available_ids now"
  note r = build_candidate_result_sound [OF assms(1)]
  have np: "pj_status ?r \<noteq> Projected" by (rule r(2)) (rule assms)
  show ?thesis
  proof (cases "pj_candidate ?r")
    case None
    with r(1) show ?thesis by (simp add: not_eligible_candidate_result_def)
  next
    case (Some c)
    have "pj_status ?r = InsufficientData"
      using np Some by (auto simp: build_candidate_result_def Let_def split: option.splits sum.splits if_splits)
    with r(1,3) [of available_ids now] Some show ?thesis
      by (simp add: not_eligible_candidate_result_def result_sound_def Let_def)
  qed
qed

lemma unsupported_candidate_sound:
  assumes "unsupported_candidate p now = Inr c" "pi_source_subsystem p \<in> set trusted_source_subsystems"
    and "pi_source_id p = i"
  shows "result_sound available_ids now (projection NotExecutable i reason message (Some c))"
proof -
  from assms(1) obtain i where "construct_candidate ((base_candidate p now i)
       \<lparr>xc_target_type := dashed (pi_target_type p)\<rparr>) = Inr c"
    by (auto simp: unsupported_candidate_def res_simps)
  note f = construct_candidate_Inr [OF this]
  show ?thesis using f assms(2,3) by (simp add: result_sound_def)
qed

lemma from_finding_sound:
  assumes "execution_candidate_from_finding available_ids now f = Inr r"
  shows "result_sound available_ids now r"
proof -
  have none: "result_sound available_ids now (projection st i re m None)" if "st \<noteq> Projected" for st i re m
    using that by (simp add: result_sound_def)
  show ?thesis using assms unfolding execution_candidate_from_finding_def Let_def
    by (auto split: if_splits option.splits sum.splits simp: and_then_Inr_iff
        intro!: none not_eligible_candidate_result_sound build_candidate_result_sound(1))
      (erule unsupported_candidate_sound; simp)+
qed

definition candidate_ids :: "projection_result list \<Rightarrow> string list" where
  "candidate_ids rs = map xc_id (List.map_filter pj_candidate rs)"

lemma candidate_ids_simps [simp]:
  "candidate_ids [] = []"
  "candidate_ids (r # rs) = (case pj_candidate r of None \<Rightarrow> candidate_ids rs | Some c \<Rightarrow> xc_id c # candidate_ids rs)"
  by (simp_all add: candidate_ids_def List.map_filter_simps split: option.split)

lemma keep_new_set: "set (keep_new seen rs) \<subseteq> set rs"
  by (induction seen rs rule: keep_new.induct) (auto split: option.splits if_splits)

lemma keep_new_distinct: "distinct (candidate_ids (keep_new seen rs)) \<and> set (candidate_ids (keep_new seen rs)) \<inter> set seen = {}"
  by (induction seen rs rule: keep_new.induct) (auto split: option.splits)

lemma projection_sound_results:
  assumes "project_execution_candidates findings available_ids now = Inr rs"
  shows "\<forall>r \<in> set rs. result_sound available_ids now r" and "distinct (candidate_ids rs)"
proof -
  from assms obtain xs where xs: "traverse (execution_candidate_from_finding available_ids now) findings = Inr xs"
    and rs: "rs = keep_new [] xs"
    by (auto simp: project_execution_candidates_def res_simps)
  have "\<forall>r \<in> set xs. result_sound available_ids now r"
    unfolding traverse_Inr_set [OF xs] by (auto intro: from_finding_sound)
  moreover have "set rs \<subseteq> set xs" unfolding rs by (rule keep_new_set)
  ultimately show "\<forall>r \<in> set rs. result_sound available_ids now r" by blast
  show "distinct (candidate_ids rs)" using keep_new_distinct [of "[]" xs] by (simp add: rs)
qed

text \<open>C16. Whatever the findings, a projection that returns yields only sound results and no candidate
  identifier twice: every candidate is a valid instance from a trusted source, carries the intent,
  approval level and constraints its class fixes, and is reported as projected exactly when it is
  ready for planning; a restart is never ready before its target is resolved and a removal, whose
  class declares no service disruption, is never ready at all.\<close>

theorem projection_is_sound:
  "case project_execution_candidates findings available_ids now of
     Inl e \<Rightarrow> True
   | Inr rs \<Rightarrow> list_all (result_sound available_ids now) rs \<and> distinct (candidate_ids rs)"
  using projection_sound_results [of findings available_ids now]
  by (auto simp: list_all_iff split: sum.split)

section \<open>One finding can hide all the others\<close>

text \<open>A trusted advisory finding with a target, a target type and a non-empty identifier whose message
  the candidate model refuses.\<close>

definition unprojectable :: "ace_finding \<Rightarrow> bool" where
  "unprojectable f \<longleftrightarrow> strip (fi_id f) \<noteq> []
     \<and> (case string_detail (fi_details f) ''source_subsystem'' of
          Some v \<Rightarrow> v | None \<Rightarrow> fi_source f) \<in> set trusted_source_subsystems
     \<and> (case string_detail (fi_details f) ''recommendation_class'' of
          None \<Rightarrow> False
        | Some raw \<Rightarrow> list_ex (\<lambda>cls. parse_recommendation_class raw = Inr cls) advisory_classes)
     \<and> string_detail (fi_details f) ''target_id'' \<noteq> None
     \<and> string_detail (fi_details f) ''target_type'' \<noteq> None
     \<and> \<not> clean_text (strip (fi_message f))"

lemma unsupported_candidate_raises:
  assumes "\<not> clean_text (strip (fi_message (pi_finding p)))"
  shows "\<not> succeeds (unsupported_candidate p now)"
proof
  assume "succeeds (unsupported_candidate p now)"
  then obtain c where "unsupported_candidate p now = Inr c" by (auto simp: succeeds_iff)
  then obtain i where c: "construct_candidate ((base_candidate p now i)
       \<lparr>xc_target_type := dashed (pi_target_type p)\<rparr>) = Inr c"
    by (auto simp: unsupported_candidate_def res_simps)
  have "clean_text (xc_rationale c)" using construct_candidate_Inr(1) [OF c] by (simp add: valid_candidate_def)
  with construct_candidate_Inr(16) [OF c] assms show False by simp
qed

lemma unprojectable_raises:
  assumes "unprojectable f"
  shows "\<not> succeeds (execution_candidate_from_finding available_ids now f)"
proof -
  from assms obtain raw cls t u where cls: "string_detail (fi_details f) ''recommendation_class'' = Some raw"
    "parse_recommendation_class raw = Inr cls" "cls \<in> set advisory_classes"
    and t: "string_detail (fi_details f) ''target_id'' = Some t"
      "string_detail (fi_details f) ''target_type'' = Some u"
    by (auto simp: unprojectable_def list_ex_iff split: option.splits)
  have raises: "\<not> succeeds (and_then (unsupported_candidate p now) g)"
    if "pi_finding p = f" for p and g :: "execution_candidate \<Rightarrow> projection_result res"
    using unsupported_candidate_raises [of p now] assms that
    by (cases "unsupported_candidate p now") (auto simp: unprojectable_def)
  show ?thesis
    using assms cls t unfolding execution_candidate_from_finding_def Let_def
    by (auto simp: unprojectable_def raises split: option.splits)
qed

lemma traverse_raises: "x \<in> set xs \<Longrightarrow> \<not> succeeds (f x) \<Longrightarrow> \<not> succeeds (traverse f xs)"
proof (induction xs)
  case (Cons y ys)
  then show ?case by (cases "f y"; cases "traverse f ys") auto
qed simp

text \<open>C39. One advisory finding from a trusted source, with a non-empty identifier, a target identifier
  and a target type, whose message the candidate model refuses (a semicolon is enough) makes the
  whole projection raise, whatever the other findings are: the unsupported candidate of an
  advisory finding is built outside the guard that turns a validation failure into a rejected
  result.\<close>

theorem advisory_finding_hides_all:
  assumes "list_ex unprojectable findings"
  shows "\<not> succeeds (project_execution_candidates findings available_ids now)"
proof -
  from assms obtain f where "f \<in> set findings" "unprojectable f" by (auto simp: list_ex_iff)
  then have "\<not> succeeds (traverse (execution_candidate_from_finding available_ids now) findings)"
    using traverse_raises [of f findings] unprojectable_raises [of f] by blast
  then show ?thesis
    by (cases "traverse (execution_candidate_from_finding available_ids now) findings")
      (simp_all add: project_execution_candidates_def)
qed

definition sample_advisory :: ace_finding where
  "sample_advisory = \<lparr>fi_id = ''logs'', fi_source = ''orion'', fi_message = ''restarted; see logs'',
     fi_details = [(''recommendation_class'', DetailText ''review_logs''),
       (''target_id'', DetailText ''atlas''), (''target_type'', DetailText ''container'')]\<rparr>"

lemma advisory_finding_hides_all_witness:
  "\<not> succeeds (project_execution_candidates [sample_advisory] None 0)"
proof (rule advisory_finding_hides_all)
  show "list_ex unprojectable [sample_advisory]" by code_simp
qed

text \<open>The parts of an identifier are joined with the dash they may contain, so different findings can
  have one identifier, and only the first of them is kept.\<close>

lemma identities_collide:
  "build_execution_candidate_id ''orion'' ''disk-full'' (Some ''plex'') ''media'' CatBackup CreateBackup
     = build_execution_candidate_id ''orion'' ''disk'' (Some ''full-plex'') ''media'' CatBackup CreateBackup"
  by code_simp

end
