(* ===== verification/OperatorIntents.thy ===== *)
theory OperatorIntents
  imports Candidates Contracts
begin

text \<open>
  Operator intents of Atlas Core (\<open>execution_candidates/operator_intents.py\<close>): an operator asks to
  restart one resource, the request becomes an immutable record, and the record is projected to a
  candidate that is eligible only while the very target it was made for is there. Resolving a
  target is a reply given to the model; the calls are cut at the await of a resolution. A record is
  stored as JSON and read back as the same record.
\<close>

section \<open>Targets\<close>

text \<open>A metadata value as far as it is compared: absent, a string, another hashable value, or one that
  cannot be a member of a set.\<close>

datatype metadata_value = MetaNone | MetaText string | MetaOther | MetaUnhashable

record resource_metadata =
  md_display_name :: string
  md_node :: "string option"
  md_template :: bool
  md_lock :: metadata_value
  md_migrating :: bool
  md_qmp :: metadata_value

type_synonym target_reply = "target_error + resolved_target \<times> resource_metadata"

definition validate_restart_target :: "resolved_target \<times> resource_metadata \<Rightarrow> unit res" where
  "validate_restart_target t = (let resource = rt_resource (fst t); metadata = snd t in
     and_then (require (pr_provider_id resource = ''proxmox'' \<and> pr_resource_type resource = ''qemu'')
       (ValueError ''operator intent target does not match the supported provider resource tuple'')) (\<lambda>_.
     and_then (require (pr_identity resource \<noteq> None)
       (ValueError ''operator intent target lacks authoritative identity'')) (\<lambda>_.
     and_then (require (pr_current_state resource = ''running'')
       (ValueError ''operator intent target is not running'')) (\<lambda>_.
     and_then (require (\<not> md_template metadata)
       (ValueError ''operator intent target is a template'')) (\<lambda>_.
     and_then (require (md_lock metadata \<noteq> MetaUnhashable) (TypeError ''unhashable type'')) (\<lambda>_.
     and_then (require (md_lock metadata \<in> set [MetaNone, MetaText []])
       (ValueError ''operator intent target is locked or migrating'')) (\<lambda>_.
     and_then (require (\<not> md_migrating metadata)
       (ValueError ''operator intent target is migrating'')) (\<lambda>_.
     require (md_qmp metadata \<in> set [MetaNone, MetaText ''running''])
       (ValueError ''operator intent target QMP state is unavailable'')))))))))"

section \<open>Requests and records\<close>

definition minimum_intent_lifetime :: int where
  "minimum_intent_lifetime = 60000000"

definition maximum_intent_lifetime :: int where
  "maximum_intent_lifetime = 24 * 3600000000"

record intent_request =
  oiq_execution_intent :: string
  oiq_provider_id :: string
  oiq_resource_id :: string
  oiq_resource_type :: string
  oiq_expected_target_fingerprint :: "string option"
  oiq_expires_at :: int

definition numeric_id :: "string \<Rightarrow> bool" where
  "numeric_id s \<longleftrightarrow> s \<noteq> [] \<and> list_all (in_range CHR ''0'' CHR ''9'') s"

definition fingerprint_shape :: "string \<Rightarrow> bool" where
  "fingerprint_shape s \<longleftrightarrow> starts_with ''operational-target-fingerprint-v1:'' s
     \<and> is_sha256_hex (drop 34 s)"

text \<open>The expiry is an instant: a datetime without a zone is refused before.\<close>

definition construct_intent_request :: "int \<Rightarrow> intent_request \<Rightarrow> intent_request res" where
  "construct_intent_request now r = validated (
     and_then (require (oiq_execution_intent r = ''restart-service'' \<and> oiq_provider_id r = ''proxmox''
         \<and> oiq_resource_type r = ''qemu'' \<and> numeric_id (oiq_resource_id r)
         \<and> (case oiq_expected_target_fingerprint r of None \<Rightarrow> True | Some f \<Rightarrow> fingerprint_shape f))
       (ValueError ''pattern'')) (\<lambda>_.
     and_then (require (now < oiq_expires_at r)
       (ValueError ''operator intent expiry must be in the future'')) (\<lambda>_.
     and_then (require (oiq_expires_at r \<le> now + maximum_intent_lifetime)
       (ValueError ''operator intent expiry exceeds the maximum lifetime'')) (\<lambda>_.
     Inr r))))"

record intent_record =
  oir_record_id :: string
  oir_request_digest :: string
  oir_operator_id :: string
  oir_execution_intent :: string
  oir_provider_id :: string
  oir_resource_id :: string
  oir_resource_type :: string
  oir_target_fingerprint :: string
  oir_target_version :: "string option"
  oir_expected_state :: string
  oir_created_at :: int
  oir_expires_at :: int

definition intent_payload :: "intent_record \<Rightarrow> (string \<times> json) list" where
  "intent_payload r =
     [(''operator_id'', JStr (oir_operator_id r)),
      (''execution_intent'', JStr (oir_execution_intent r)),
      (''provider_id'', JStr (oir_provider_id r)),
      (''resource_id'', JStr (oir_resource_id r)),
      (''resource_type'', JStr (oir_resource_type r)),
      (''target_fingerprint'', JStr (oir_target_fingerprint r)),
      (''target_version'', json_text (oir_target_version r)),
      (''expected_state'', JStr (oir_expected_state r)),
      (''expires_at'', JStr (isoformat (Datetime (oir_expires_at r) 0)))]"

definition intent_digest :: "intent_record \<Rightarrow> string" where
  "intent_digest r = ''operator-intent-request-v1:''
     @ sha256_hexdigest (canonical_ascii (JObj (intent_payload r)))"

definition intent_identity :: "intent_record \<Rightarrow> string" where
  "intent_identity r = ''operator-intent-record-'' @ sha256_hexdigest (utf8 (intent_digest r))"

text \<open>The two patterns hold of the identity computed from the payload.\<close>

definition construct_intent_record :: "intent_record \<Rightarrow> intent_record res" where
  "construct_intent_record r = validated (
     and_then (require (oir_operator_id r \<noteq> [] \<and> length (oir_operator_id r) \<le> 200
         \<and> oir_execution_intent r = ''restart-service'' \<and> oir_provider_id r = ''proxmox''
         \<and> oir_resource_type r = ''qemu'' \<and> numeric_id (oir_resource_id r))
       (ValueError ''pattern'')) (\<lambda>_.
     and_then (require (oir_created_at r < oir_expires_at r)
       (ValueError ''operator intent expiry must follow creation'')) (\<lambda>_.
     and_then (require (oir_record_id r = intent_identity r \<and> oir_request_digest r = intent_digest r)
       (ValueError ''operator intent identity does not match its immutable payload'')) (\<lambda>_.
     Inr r))))"

definition record_from_request ::
  "intent_request \<Rightarrow> string \<Rightarrow> resolved_target \<times> resource_metadata \<Rightarrow> int \<Rightarrow> intent_record res" where
  "record_from_request request operator_id target now =
     and_then (require (\<not> (oiq_expires_at request < now + minimum_intent_lifetime
         \<or> now + maximum_intent_lifetime < oiq_expires_at request))
       (ValueError ''operator intent expiry is outside the permitted bounded lifetime'')) (\<lambda>_.
     and_then (validate_restart_target target) (\<lambda>_.
     and_then (require (oiq_expected_target_fingerprint request
         \<in> set [None, Some (rt_fingerprint (fst target))])
       (ValueError ''operator intent expected target fingerprint is stale'')) (\<lambda>_.
     let payload = \<lparr>oir_record_id = [], oir_request_digest = [], oir_operator_id = operator_id,
           oir_execution_intent = oiq_execution_intent request,
           oir_provider_id = oiq_provider_id request, oir_resource_id = oiq_resource_id request,
           oir_resource_type = oiq_resource_type request,
           oir_target_fingerprint = rt_fingerprint (fst target),
           oir_target_version = map_option ri_token_version (pr_identity (rt_resource (fst target))),
           oir_expected_state = pr_current_state (rt_resource (fst target)),
           oir_created_at = now, oir_expires_at = oiq_expires_at request\<rparr> in
     construct_intent_record (payload\<lparr>oir_record_id := intent_identity payload,
       oir_request_digest := intent_digest payload\<rparr>))))"

section \<open>The store\<close>

record intent_audit =
  oia_occurred_at :: int
  oia_record_id :: "string option"
  oia_candidate_id :: "string option"
  oia_operator_id :: "string option"
  oia_event :: string
  oia_reason :: string

record intent_store =
  ois_records :: "intent_record list"
  ois_audit :: "intent_audit list"

definition find_intent :: "string \<Rightarrow> intent_record list \<Rightarrow> intent_record option" where
  "find_intent record_id rows = find (\<lambda>r. oir_record_id r = record_id) rows"

definition put_intent :: "intent_record \<Rightarrow> (intent_store, intent_record \<times> bool) action" where
  "put_intent r s = (case find_intent (oir_record_id r) (ois_records s) of
     None \<Rightarrow> (Inr (r, True), s\<lparr>ois_records := ois_records s @ [r]\<rparr>)
   | Some row \<Rightarrow>
       if oir_request_digest row \<noteq> oir_request_digest r
       then (Inl (RuntimeError ''operator intent identity conflicts with an existing immutable record''), s)
       else (Inr (row, False), s))"

definition list_intents :: "intent_store \<Rightarrow> intent_record list" where
  "list_intents s = sort_key oir_record_id (ois_records s)"

definition append_audit :: "intent_audit \<Rightarrow> intent_store \<Rightarrow> intent_store" where
  "append_audit a s = s\<lparr>ois_audit := ois_audit s @ [a]\<rparr>"

section \<open>Projection\<close>

definition intent_rationale :: string where
  "intent_rationale = ''An authenticated operator requested bounded maintenance for this exact resource.''"

definition candidate_from_record :: "intent_record \<Rightarrow> candidate_status \<Rightarrow> execution_candidate res" where
  "candidate_from_record r status =
     and_then (build_execution_candidate_id ''operator-intent'' (oir_record_id r) None
       (oir_resource_id r) CatRestart RestartService) (\<lambda>candidate_id.
     and_then (construct_target_reference \<lparr>otr_provider_id = oir_provider_id r,
         otr_resource_id = oir_resource_id r, otr_resource_type = oir_resource_type r,
         otr_resource_fingerprint = oir_target_fingerprint r,
         otr_resource_version = oir_target_version r, otr_expected_state = oir_expected_state r\<rparr>) (\<lambda>target.
     construct_candidate
       \<lparr>xc_id = candidate_id, xc_source_recommendation_id = oir_record_id r,
        xc_source_subsystem = ''operator-intent'', xc_recommendation_class = ''restart-service'',
        xc_catalog_item_id = None, xc_target_id = oir_resource_id r,
        xc_target_type = oir_resource_type r, xc_execution_category = CatRestart,
        xc_execution_intent = RestartService, xc_effect_kind = OperationalAction,
        xc_status = status, xc_required_approval_level = LevelStandard,
        xc_rationale = intent_rationale, xc_constraints = [ServiceDisruption],
        xc_evidence_ids = [''operator-intent-evidence-'' @ drop 27 (oir_request_digest r)],
        xc_compatibility_assessment_id = None, xc_compatibility_status = None,
        xc_relationship_ids = [], xc_created_at = oir_created_at r,
        xc_expires_at = Some (oir_expires_at r), xc_mutation = None,
        xc_operational_target = Some target, xc_resolution_reason = None\<rparr>))"

datatype intent_projection_reason = IntentEligible | IntentExpired | IntentTargetStale | IntentTargetUnavailable

fun projection_reason_text :: "intent_projection_reason \<Rightarrow> string" where
  "projection_reason_text IntentEligible = ''eligible''"
| "projection_reason_text IntentExpired = ''expired''"
| "projection_reason_text IntentTargetStale = ''target_stale''"
| "projection_reason_text IntentTargetUnavailable = ''target_unavailable''"

text \<open>The resolution errors the projection turns into an unavailable target; the others escape.\<close>

definition unavailable_error :: "target_error \<Rightarrow> bool" where
  "unavailable_error e \<longleftrightarrow> resolution_error e \<or> resource_operation_error e
     \<or> e \<in> set [ProviderNotFoundError, ProviderResourcesNotSupportedError, FingerprintProviderMismatch]"

definition project_operator_intent ::
  "intent_record \<Rightarrow> target_reply \<Rightarrow> int \<Rightarrow> (execution_candidate \<times> intent_projection_reason) res" where
  "project_operator_intent r reply now =
     and_then (candidate_from_record r CandidateNotEligible) (\<lambda>candidate.
     if oir_expires_at r \<le> now then Inr (candidate, IntentExpired)
     else (case reply of
       Inl e \<Rightarrow> if unavailable_error e then Inr (candidate, IntentTargetUnavailable)
         else Inl (RuntimeError ''target resolution'')
     | Inr target \<Rightarrow>
       (case validate_restart_target target of
          Inl (ValueError m) \<Rightarrow> Inr (candidate, IntentTargetUnavailable)
        | Inl e \<Rightarrow> Inl e
        | Inr _ \<Rightarrow>
          if rt_fingerprint (fst target) \<noteq> oir_target_fingerprint r
          then Inr (candidate, IntentTargetStale)
          else
            let open_candidate = candidate\<lparr>xc_status := CandidateEligible\<rparr>;
                status = er_status (validate_candidate_for_planning open_candidate
                  (Some (xc_evidence_ids open_candidate)) [] now supported_source_subsystems) in
            Inr (open_candidate\<lparr>xc_status := status\<rparr>,
              if status = CandidateEligible then IntentEligible else IntentTargetUnavailable))))"

section \<open>Creation\<close>

text \<open>\<open>create_operator_intent\<close> up to the second resolution, and after it.\<close>

definition submit_intent ::
  "intent_request \<Rightarrow> string \<Rightarrow> target_reply \<Rightarrow> int \<Rightarrow> (intent_store, intent_record \<times> bool) action" where
  "submit_intent request operator_id reply now =
     (case reply of
        Inl e \<Rightarrow> raise (RuntimeError ''target resolution'')
      | Inr target \<Rightarrow>
        seq (lift (record_from_request request operator_id target now)) put_intent)"

record intent_creation =
  oic_created :: bool
  oic_candidate :: execution_candidate

definition finish_intent ::
  "intent_record \<times> bool \<Rightarrow> string \<Rightarrow> target_reply \<Rightarrow> int \<Rightarrow> (intent_store, intent_creation) action" where
  "finish_intent stored operator_id reply now =
     seq (lift (project_operator_intent (fst stored) reply now)) (\<lambda>projection s.
     (Inr \<lparr>oic_created = snd stored, oic_candidate = fst projection\<rparr>,
      append_audit \<lparr>oia_occurred_at = now, oia_record_id = Some (oir_record_id (fst stored)),
        oia_candidate_id = Some (xc_id (fst projection)), oia_operator_id = Some operator_id,
        oia_event = (if snd stored then ''intent_accepted'' else ''intent_reused''),
        oia_reason = (if snd stored then ''created'' else ''idempotent_duplicate'')\<rparr> s))"

section \<open>When an intent is eligible\<close>

lemma slug_char_lower: "slug_char c \<Longrightarrow> lower_char c = c"
  by (auto simp: slug_char_def in_range_def lower_char_def Let_def)

lemma slug_char_space: "slug_char c \<Longrightarrow> \<not> is_space c"
  by (auto simp: slug_char_def in_range_def is_space_def)

definition slug_text :: "string \<Rightarrow> bool" where
  "slug_text s \<longleftrightarrow> list_all (\<lambda>c. slug_char c \<or> c = CHR ''-'') s"

lemma slug_text_lower:
  assumes "slug_text s" shows "lower s = s"
proof -
  have "lower_char c = c" if "c \<in> set s" for c
    using assms that slug_char_lower by (auto simp: slug_text_def list_all_iff lower_char_def)
  then show ?thesis by (simp add: lower_def map_idI)
qed

lemma slug_text_strip:
  assumes "slug_text s" shows "strip s = s"
proof -
  have none: "\<not> is_space c" if "c \<in> set s" for c
    using assms that slug_char_space by (auto simp: slug_text_def list_all_iff is_space_def)
  have "dropWhile is_space xs = xs" if "set xs \<subseteq> set s" for xs
    using that none by (cases xs) auto
  then show ?thesis by (simp add: strip_def lstrip_def rstrip_def)
qed

lemma numeric_slug: "numeric_id s \<Longrightarrow> slug_text s"
  by (auto simp: numeric_id_def slug_text_def slug_char_def list_all_iff)

lemma lower_hex_slug: "is_lower_hex c \<Longrightarrow> slug_char c"
  by (auto simp: is_lower_hex_def slug_char_def in_range_def)

lemma numeric_not_ambiguous: "numeric_id s \<Longrightarrow> s \<notin> set ambiguous_target_ids"
  by (auto simp: numeric_id_def ambiguous_target_ids_def in_range_def)

lemma construct_intent_record_Inr:
  "construct_intent_record r = Inr r' \<longleftrightarrow> r' = r \<and> oir_operator_id r \<noteq> [] \<and> length (oir_operator_id r) \<le> 200
     \<and> oir_execution_intent r = ''restart-service'' \<and> oir_provider_id r = ''proxmox''
     \<and> oir_resource_type r = ''qemu'' \<and> numeric_id (oir_resource_id r)
     \<and> oir_created_at r < oir_expires_at r
     \<and> oir_record_id r = intent_identity r \<and> oir_request_digest r = intent_digest r"
  by (auto simp: construct_intent_record_def res_simps)

definition intent_evidence :: "intent_record \<Rightarrow> string" where
  "intent_evidence r = ''operator-intent-evidence-'' @ drop 27 (oir_request_digest r)"

lemma intent_evidence_slug:
  assumes "oir_request_digest r = intent_digest r" shows "slug_text (intent_evidence r)"
proof -
  have "list_all is_lower_hex (drop 27 (intent_digest r))"
    using sha256_hexdigest_hex by (simp add: intent_digest_def is_sha256_hex_def)
  then show ?thesis using lower_hex_slug
    by (auto simp: intent_evidence_def assms slug_text_def list_all_iff slug_char_def in_range_def)
qed

lemma candidate_from_record_Inr:
  assumes c: "candidate_from_record r status = Inr c" and r: "construct_intent_record r = Inr r'"
  shows "valid_candidate c" "xc_status c = status" "xc_expires_at c = Some (oir_expires_at r)"
    and "xc_evidence_ids c = [intent_evidence r]" "xc_target_id c = oir_resource_id r"
    and "xc_source_subsystem c = ''operator-intent''"
    and "xc_recommendation_class c = ''restart-service''" "xc_execution_intent c = RestartService"
    and "xc_execution_category c = CatRestart" "xc_required_approval_level c = LevelStandard"
    and "set (xc_constraints c) = {ServiceDisruption}" "xc_rationale c = strip intent_rationale"
    and "\<exists>t. xc_operational_target c = Some t \<and> otr_resource_id t = oir_resource_id r
      \<and> otr_resource_fingerprint t = strip (oir_target_fingerprint r)"
    and "xc_compatibility_assessment_id c = None" "xc_compatibility_status c = None"
    and "xc_source_recommendation_id c = oir_record_id r"
proof -
  let ?draft = "\<lambda>candidate_id target. \<lparr>xc_id = candidate_id, xc_source_recommendation_id = oir_record_id r,
        xc_source_subsystem = ''operator-intent'', xc_recommendation_class = ''restart-service'',
        xc_catalog_item_id = None, xc_target_id = oir_resource_id r,
        xc_target_type = oir_resource_type r, xc_execution_category = CatRestart,
        xc_execution_intent = RestartService, xc_effect_kind = OperationalAction,
        xc_status = status, xc_required_approval_level = LevelStandard,
        xc_rationale = intent_rationale, xc_constraints = [ServiceDisruption],
        xc_evidence_ids = [''operator-intent-evidence-'' @ drop 27 (oir_request_digest r)],
        xc_compatibility_assessment_id = None, xc_compatibility_status = None,
        xc_relationship_ids = [], xc_created_at = oir_created_at r,
        xc_expires_at = Some (oir_expires_at r), xc_mutation = None,
        xc_operational_target = Some target, xc_resolution_reason = None\<rparr>"
  from c obtain i t where t: "construct_target_reference \<lparr>otr_provider_id = oir_provider_id r,
         otr_resource_id = oir_resource_id r, otr_resource_type = oir_resource_type r,
         otr_resource_fingerprint = oir_target_fingerprint r,
         otr_resource_version = oir_target_version r, otr_expected_state = oir_expected_state r\<rparr> = Inr t"
    and built: "construct_candidate (?draft i t) = Inr c"
    by (auto simp: candidate_from_record_def res_simps)
  note f = construct_candidate_Inr [OF built]
  have rid: "numeric_id (oir_resource_id r)" and digest: "oir_request_digest r = intent_digest r"
    using r by (simp_all add: construct_intent_record_Inr)
  have "normalize_unique_strings [intent_evidence r] = Inr (xc_evidence_ids c)"
    using f(17) by (simp add: intent_evidence_def)
  then show "xc_evidence_ids c = [intent_evidence r]"
    using slug_text_lower [OF intent_evidence_slug [OF digest]] slug_text_strip [OF intent_evidence_slug [OF digest]]
    by (auto simp: normalize_unique_strings_def res_simps Let_def sorted_unique_def)
  show "xc_target_id c = oir_resource_id r"
    using f(15) slug_text_strip [OF numeric_slug [OF rid]] by simp
  show "\<exists>t. xc_operational_target c = Some t \<and> otr_resource_id t = oir_resource_id r
      \<and> otr_resource_fingerprint t = strip (oir_target_fingerprint r)"
    using t f(13) by (auto simp: construct_target_reference_def res_simps safe_text_Inr)
  show "valid_candidate c" "xc_status c = status" "xc_expires_at c = Some (oir_expires_at r)"
    "xc_source_subsystem c = ''operator-intent''" "xc_recommendation_class c = ''restart-service''"
    "xc_execution_intent c = RestartService" "xc_execution_category c = CatRestart"
    "xc_required_approval_level c = LevelStandard" "set (xc_constraints c) = {ServiceDisruption}"
    "xc_rationale c = strip intent_rationale"
    using f by simp_all
  show "xc_compatibility_assessment_id c = None" "xc_compatibility_status c = None"
    "xc_source_recommendation_id c = oir_record_id r"
    using built by (auto simp: construct_candidate_def normalize_candidate_fields_def res_simps)
qed

lemma intent_constants:
  "classify_recommendation_class ''restart-service'' \<noteq> None"
  "''operator-intent'' \<in> set (clean_unique supported_source_subsystems)"
  "\<not> text_bypasses (strip intent_rationale)"
  by code_simp+

lemma intent_candidate_ready:
  assumes c: "candidate_from_record r CandidateEligible = Inr c" and r: "construct_intent_record r = Inr r'"
    and now: "now < oir_expires_at r"
  shows "planning_ready c (Some (xc_evidence_ids c)) [] now supported_source_subsystems"
proof -
  note f = candidate_from_record_Inr [OF c r]
  have rid: "numeric_id (oir_resource_id r)" and digest: "oir_request_digest r = intent_digest r"
    using r by (simp_all add: construct_intent_record_Inr)
  have ev: "intent_evidence r \<in> set (clean_unique [intent_evidence r])"
    using slug_text_lower [OF intent_evidence_slug [OF digest]] slug_text_strip [OF intent_evidence_slug [OF digest]]
    by (simp add: clean_unique_def intent_evidence_def)
  have target: "lower (strip (oir_resource_id r)) = oir_resource_id r"
    by (simp add: slug_text_lower slug_text_strip numeric_slug rid)
  have clean: "clean_text (xc_target_id c)" "clean_text (xc_rationale c)"
    using f(1) by (simp_all add: valid_candidate_def)
  have op: "xc_operational_target c \<noteq> None" using f(13) by auto
  have "\<not> discovery_backed c" "\<not> disruption_undeclared c" "xc_execution_intent c \<notin> set destructive_intents"
    using f by (simp_all add: discovery_backed_def disruption_undeclared_def destructive_intents_def)
  then show ?thesis
    unfolding planning_ready_def
    using f ev target clean op now intent_constants numeric_not_ambiguous [OF rid]
    by (auto simp: clean_text_def blank_def)
qed

definition live_target :: "intent_record \<Rightarrow> target_reply \<Rightarrow> bool" where
  "live_target r reply \<longleftrightarrow> (case reply of
     Inl e \<Rightarrow> False
   | Inr (target, metadata) \<Rightarrow>
       pr_provider_id (rt_resource target) = ''proxmox'' \<and> pr_resource_type (rt_resource target) = ''qemu''
       \<and> pr_identity (rt_resource target) \<noteq> None \<and> pr_current_state (rt_resource target) = ''running''
       \<and> \<not> md_template metadata \<and> (md_lock metadata = MetaNone \<or> md_lock metadata = MetaText [])
       \<and> \<not> md_migrating metadata
       \<and> (md_qmp metadata = MetaNone \<or> md_qmp metadata = MetaText ''running'')
       \<and> rt_fingerprint target = oir_target_fingerprint r)"

lemma live_target_simps:
  "\<not> live_target r (Inl e)"
  "live_target r (Inr t) \<longleftrightarrow> validate_restart_target t = Inr () \<and> rt_fingerprint (fst t) = oir_target_fingerprint r"
  by (simp add: live_target_def, cases t,
      auto simp: live_target_def validate_restart_target_def Let_def res_simps)

lemma candidate_from_record_status:
  "candidate_from_record r s = Inr c \<Longrightarrow> candidate_from_record r s' = Inr (c\<lparr>xc_status := s'\<rparr>)"
  unfolding candidate_from_record_def construct_candidate_def
  by (auto simp: res_simps normalize_candidate_fields_def validate_candidate_def candidate_identity_def
      split: if_splits)

lemma projected_intent:
  assumes r': "construct_intent_record r = Inr r" and p: "project_operator_intent r reply now = Inr (c, reason)"
  shows "xc_source_subsystem c = ''operator-intent'' \<and> valid_candidate c \<and> xc_target_id c = oir_resource_id r
       \<and> xc_source_recommendation_id c = oir_record_id r
       \<and> xc_expires_at c = Some (oir_expires_at r)
       \<and> map_option otr_resource_id (xc_operational_target c) = Some (oir_resource_id r)
       \<and> (xc_status c = CandidateEligible \<longleftrightarrow> now < oir_expires_at r \<and> live_target r reply)
       \<and> (reason = IntentEligible \<longleftrightarrow> xc_status c = CandidateEligible)
       \<and> (reason = IntentExpired \<longleftrightarrow> oir_expires_at r \<le> now)"
proof -
  from p obtain d where d: "candidate_from_record r CandidateNotEligible = Inr d"
    by (auto simp: project_operator_intent_def res_simps)
  let ?open = "d\<lparr>xc_status := CandidateEligible\<rparr>"
  note f = candidate_from_record_Inr [OF d r']
  have o: "candidate_from_record r CandidateEligible = Inr ?open"
    by (rule candidate_from_record_status [OF d])
  have op: "map_option otr_resource_id (xc_operational_target d) = Some (oir_resource_id r)"
    using f(13) by auto
  have ready: "er_status (validate_candidate_for_planning ?open (Some (xc_evidence_ids ?open)) [] now
      supported_source_subsystems) = CandidateEligible" if "now < oir_expires_at r"
    using intent_candidate_ready [OF o r' that] by (simp add: eligible_iff)
  show ?thesis
  proof (cases "oir_expires_at r \<le> now \<or> \<not> live_target r reply")
    case True
    have cd: "c = d \<and> reason \<noteq> IntentEligible \<and> (reason = IntentExpired \<longleftrightarrow> oir_expires_at r \<le> now)"
    proof (cases "oir_expires_at r \<le> now")
      case True
      with p d show ?thesis by (auto simp: project_operator_intent_def)
    next
      case late: False
      with True have dead: "\<not> live_target r reply" by simp
      show ?thesis
      proof (cases reply)
        case (Inl e)
        with p d late show ?thesis by (auto simp: project_operator_intent_def split: if_splits)
      next
        case (Inr t)
        show ?thesis
        proof (cases "validate_restart_target t")
          case (Inl e)
          with p d late \<open>reply = Inr t\<close> show ?thesis
            by (cases e) (auto simp: project_operator_intent_def)
        next
          case ok: (Inr u)
          with p d late \<open>reply = Inr t\<close> dead show ?thesis
            by (auto simp: project_operator_intent_def live_target_simps)
        qed
      qed
    qed
    have "c = d" using cd by blast
    then show ?thesis using f(1,2,3,5,6,16) op cd True by (simp add: not_less)
  next
    case False
    then obtain t where t: "reply = Inr t" "validate_restart_target t = Inr ()"
      "rt_fingerprint (fst t) = oir_target_fingerprint r" and now: "now < oir_expires_at r"
      by (cases reply) (auto simp: live_target_simps)
    have co: "c = ?open" and el: "reason = IntentEligible"
      using p d ready [OF now] t now by (simp_all add: project_operator_intent_def Let_def)
    show ?thesis unfolding co el using f(1,3,5,6,16) op False now by simp
  qed
qed

text \<open>C14. The candidate of a stored intent is valid, names the intent's own resource, and is eligible
  for planning exactly while the intent has not expired and the target resolves, running, unlocked
  and of the supported kind, to the very fingerprint the intent was made for; any other answer, and
  expiry, leave it ineligible, with the reason saying so.\<close>

theorem intent_eligible_iff:
  "case and_then (construct_intent_record draft) (\<lambda>r.
       and_then (project_operator_intent r reply now) (\<lambda>p. Inr (r, p))) of
     Inl e \<Rightarrow> True
   | Inr (r, c, reason) \<Rightarrow> valid_candidate c \<and> xc_target_id c = oir_resource_id r
       \<and> xc_expires_at c = Some (oir_expires_at r)
       \<and> map_option otr_resource_id (xc_operational_target c) = Some (oir_resource_id r)
       \<and> (xc_status c = CandidateEligible \<longleftrightarrow> now < oir_expires_at r \<and> live_target r reply)
       \<and> (reason = IntentEligible \<longleftrightarrow> xc_status c = CandidateEligible)
       \<and> (reason = IntentExpired \<longleftrightarrow> oir_expires_at r \<le> now)"
proof -
  have main: "valid_candidate c \<and> xc_target_id c = oir_resource_id r
       \<and> xc_expires_at c = Some (oir_expires_at r)
       \<and> map_option otr_resource_id (xc_operational_target c) = Some (oir_resource_id r)
       \<and> (xc_status c = CandidateEligible \<longleftrightarrow> now < oir_expires_at r \<and> live_target r reply)
       \<and> (reason = IntentEligible \<longleftrightarrow> xc_status c = CandidateEligible)
       \<and> (reason = IntentExpired \<longleftrightarrow> oir_expires_at r \<le> now)"
    if r: "construct_intent_record draft = Inr r" and p: "project_operator_intent r reply now = Inr (c, reason)"
    for r c reason
  proof -
    from r have "construct_intent_record r = Inr r" by (auto simp: construct_intent_record_Inr)
    from projected_intent [OF this p] show ?thesis by blast
  qed
  then show ?thesis by (auto split: sum.split simp: and_then_Inr_iff)
qed

section \<open>Histories of the store\<close>

datatype intent_event =
    SubmitIntent intent_request string target_reply int
  | FinishIntent intent_record bool string target_reply int
  | AuditIntent intent_audit

fun intent_step :: "intent_store \<Rightarrow> intent_event \<Rightarrow> intent_store" where
  "intent_step s (SubmitIntent request operator_id reply now) = snd (submit_intent request operator_id reply now s)"
| "intent_step s (FinishIntent r created operator_id reply now) = snd (finish_intent (r, created) operator_id reply now s)"
| "intent_step s (AuditIntent a) = append_audit a s"

definition empty_intents :: intent_store where
  "empty_intents = \<lparr>ois_records = [], ois_audit = []\<rparr>"

definition intents_valid :: "intent_store \<Rightarrow> bool" where
  "intents_valid s \<longleftrightarrow> distinct (map oir_record_id (ois_records s))
     \<and> list_all (\<lambda>r. construct_intent_record r = Inr r) (ois_records s)"

definition intent_slot :: "intent_store \<Rightarrow> string \<Rightarrow> intent_record option" where
  "intent_slot s record_id = find_intent record_id (ois_records s)"

text \<open>The event creates the record of the identifier.\<close>

definition creates_intent :: "intent_store \<Rightarrow> intent_event \<Rightarrow> string \<Rightarrow> bool" where
  "creates_intent s event record_id \<longleftrightarrow> (case event of
     SubmitIntent request operator_id reply now \<Rightarrow>
       (case fst (submit_intent request operator_id reply now s) of
          Inl e \<Rightarrow> False
        | Inr (r, created) \<Rightarrow> created \<and> oir_record_id r = record_id)
   | _ \<Rightarrow> False)"

lemma find_intent_Some: "find_intent i rows = Some r \<Longrightarrow> r \<in> set rows \<and> oir_record_id r = i"
  unfolding find_intent_def by (auto simp: find_Some_iff)

lemma find_intent_None: "find_intent i rows = None \<longleftrightarrow> i \<notin> oir_record_id ` set rows"
  by (auto simp: find_intent_def find_None_iff)

lemma find_intent_append:
  "find_intent i (rows @ [r]) = (case find_intent i rows of Some x \<Rightarrow> Some x
     | None \<Rightarrow> if oir_record_id r = i then Some r else None)"
  by (induction rows) (auto simp: find_intent_def)

lemma submit_intent_cases:
  assumes "submit_intent request operator_id reply now s = (result, t)"
  obtains (refused) e where "result = Inl e" "t = s"
  | (created) r where "result = Inr (r, True)" "construct_intent_record r = Inr r"
      "find_intent (oir_record_id r) (ois_records s) = None" "t = s\<lparr>ois_records := ois_records s @ [r]\<rparr>"
  | (reused) r where "result = Inr (r, False)" "find_intent (oir_record_id r) (ois_records s) = Some r" "t = s"
proof (cases reply)
  case (Inl e)
  with assms show thesis by (auto simp: submit_intent_def intro: refused)
next
  case (Inr target)
  show thesis
  proof (cases "record_from_request request operator_id target now")
    case (Inl e)
    with \<open>reply = Inr target\<close> assms show thesis by (auto simp: submit_intent_def intro: refused)
  next
    case r: (Inr r)
    have valid: "construct_intent_record r = Inr r"
      using r by (auto simp: record_from_request_def res_simps Let_def construct_intent_record_Inr)
    from assms \<open>reply = Inr target\<close> r have put: "put_intent r s = (result, t)"
      by (simp add: submit_intent_def)
    show thesis
    proof (cases "find_intent (oir_record_id r) (ois_records s)")
      case None
      with put valid show thesis by (auto simp: put_intent_def intro: created)
    next
      case (Some row)
      with put find_intent_Some [OF Some] show thesis
        by (auto simp: put_intent_def intro: refused reused split: if_splits)
    qed
  qed
qed

lemma finish_intent_records:
  "ois_records (snd (finish_intent stored operator_id reply now s)) = ois_records s"
  by (auto simp: finish_intent_def seq_def append_audit_def split: sum.split prod.split)

lemma intent_step_keeps:
  assumes "intents_valid s"
  shows "intents_valid (intent_step s event)"
    and "intent_slot s i = Some r \<Longrightarrow> intent_slot (intent_step s event) i = Some r"
proof -
  have "intents_valid (intent_step s event) \<and> (intent_slot s i = Some r \<longrightarrow> intent_slot (intent_step s event) i = Some r)"
  proof (cases event)
    case (SubmitIntent request operator_id reply now)
    obtain result t where st: "submit_intent request operator_id reply now s = (result, t)"
      by (cases "submit_intent request operator_id reply now s")
    from st show ?thesis
    proof (cases rule: submit_intent_cases)
      case (created r)
      then show ?thesis using assms SubmitIntent st
        by (auto simp: intents_valid_def intent_slot_def find_intent_append find_intent_None)
    qed (use assms SubmitIntent st in auto)
  next
    case (FinishIntent r' created operator_id reply now)
    then show ?thesis using assms
      by (simp add: intents_valid_def intent_slot_def finish_intent_records)
  next
    case (AuditIntent a)
    then show ?thesis using assms by (simp add: intents_valid_def intent_slot_def append_audit_def)
  qed
  then show "intents_valid (intent_step s event)"
    and "intent_slot s i = Some r \<Longrightarrow> intent_slot (intent_step s event) i = Some r" by simp_all
qed

lemma creates_intent_slot:
  assumes "creates_intent s event i"
  shows "intent_slot s i = None" and "intent_slot (intent_step s event) i \<noteq> None"
proof -
  from assms obtain request operator_id reply now where event: "event = SubmitIntent request operator_id reply now"
    by (auto simp: creates_intent_def split: intent_event.splits)
  obtain result t where st: "submit_intent request operator_id reply now s = (result, t)"
    by (cases "submit_intent request operator_id reply now s")
  from st have "intent_slot s i = None \<and> intent_slot (intent_step s event) i \<noteq> None"
  proof (cases rule: submit_intent_cases)
    case (created r)
    with assms event st have "oir_record_id r = i" by (simp add: creates_intent_def)
    with created event st show ?thesis by (simp add: intent_slot_def find_intent_append)
  qed (use assms event st in \<open>auto simp: creates_intent_def\<close>)
  then show "intent_slot s i = None" and "intent_slot (intent_step s event) i \<noteq> None" by simp_all
qed

interpretation intents: one_shot intent_step intents_valid intent_slot creates_intent
  by unfold_locales (auto intro: intent_step_keeps creates_intent_slot(1) dest: creates_intent_slot(2))

lemma audit_step: "\<exists>more_entries. ois_audit (intent_step s event) = ois_audit s @ more_entries"
proof (cases event)
  case (SubmitIntent request operator_id reply now)
  obtain result t where st: "submit_intent request operator_id reply now s = (result, t)"
    by (cases "submit_intent request operator_id reply now s")
  from st show ?thesis by (cases rule: submit_intent_cases) (use SubmitIntent st in auto)
next
  case (FinishIntent r created operator_id reply now)
  then show ?thesis by (auto simp: finish_intent_def seq_def append_audit_def split: sum.split prod.split)
qed (simp add: append_audit_def)

lemma audit_run: "take (length (ois_audit s)) (ois_audit (foldl intent_step s events)) = ois_audit s"
proof (induction events rule: rev_induct)
  case (snoc event events)
  obtain m where "ois_audit (intent_step (foldl intent_step s events) event) = ois_audit (foldl intent_step s events) @ m"
    using audit_step by blast
  moreover have "length (ois_audit s) \<le> length (ois_audit (foldl intent_step s events))"
    using arg_cong [OF snoc, of length] by simp
  ultimately show ?case using snoc by simp
qed simp

text \<open>C15. Over any history of submissions, completions and audits, every stored intent is a valid
  instance under the identity of its own payload, no identity is stored twice, a stored intent is
  never altered or removed, each identity is created at most once (later submissions reuse it), and
  the audit only grows.\<close>

theorem intents_are_immutable:
  "let s = foldl intent_step empty_intents history; t = foldl intent_step s later in
     list_all (\<lambda>r. construct_intent_record r = Inr r) (ois_records t)
     \<and> distinct (map oir_record_id (ois_records t))
     \<and> list_all (\<lambda>r. find_intent (oir_record_id r) (ois_records t) = Some r) (ois_records s)
     \<and> grant_count intent_step creates_intent empty_intents (history @ later) record_id \<le> 1
     \<and> take (length (ois_audit s)) (ois_audit t) = ois_audit s"
proof -
  let ?s = "foldl intent_step empty_intents history" and ?t = "foldl intent_step (foldl intent_step empty_intents history) later"
  have start: "intents_valid empty_intents" by (simp add: intents_valid_def empty_intents_def)
  have s: "intents_valid ?s" by (rule intents.inv_run [OF start])
  have t: "intents_valid ?t" by (rule intents.inv_run [OF s])
  have "find_intent (oir_record_id r) (ois_records ?t) = Some r" if r: "r \<in> set (ois_records ?s)" for r
  proof -
    have "find_intent (oir_record_id r) (ois_records ?s) = Some r"
    proof (cases "find_intent (oir_record_id r) (ois_records ?s)")
      case None
      with r show ?thesis by (auto simp: find_intent_None)
    next
      case (Some x)
      then have "x = r" using find_intent_Some [OF Some] r s
        by (auto simp: intents_valid_def distinct_map inj_on_def)
      with Some show ?thesis by simp
    qed
    then show ?thesis using intents.slot_run [OF s] by (simp add: intent_slot_def)
  qed
  then show ?thesis
    using t intents.granted_at_most_once [OF start] audit_run [of ?s later]
    by (simp add: Let_def intents_valid_def list_all_iff)
qed

end
