(* ===== verification/CandidateIntake.thy ===== *)
theory CandidateIntake
  imports CandidateProjection OperatorIntents
begin

text \<open>
  The current candidates of Atlas Core and the gate in front of planning
  (\<open>services/execution_candidates.py\<close>, \<open>services/execution_candidate_intake.py\<close> with
  \<open>execution_candidates/intake.py\<close>). Findings, the resolution of a target (by the position of the
  call) and the evidence of the development fixture are given to the model.
\<close>

section \<open>Resolved targets of findings\<close>

definition resolution_reason_of :: "target_error \<Rightarrow> resolution_reason option" where
  "resolution_reason_of = map_of
     [(OperationalTargetResourceNotFoundError, ReasonNotFound),
      (OperationalTargetAmbiguousError, ReasonAmbiguous),
      (OperationalTargetTypeMismatchError, ReasonTypeMismatch),
      (OperationalTargetMarkedMissingError, ReasonMarkedMissing),
      (OperationalTargetIdentityUnavailableError, ReasonIdentityUnavailable),
      (OperationalTargetSelectorError, ReasonSelectorInvalid)]"

definition unresolved :: "resolution_reason \<Rightarrow> execution_candidate \<Rightarrow> execution_candidate" where
  "unresolved reason c = c\<lparr>xc_status := CandidateNotEligible, xc_resolution_reason := Some reason\<rparr>"

definition enrich_operational_candidate ::
  "string list \<Rightarrow> int \<Rightarrow> (string \<Rightarrow> string \<Rightarrow> string \<Rightarrow> target_reply) \<Rightarrow> ace_finding \<Rightarrow> execution_candidate
     \<Rightarrow> execution_candidate res" where
  "enrich_operational_candidate available_ids now resolve f c =
     (if xc_execution_intent c \<noteq> RestartService then Inr c
      else (case string_detail (fi_details f) ''provider_id'' of
        None \<Rightarrow> Inr (unresolved ReasonSelectorInvalid c)
      | Some provider_id \<Rightarrow>
        (case resolve provider_id (xc_target_id c) (xc_target_type c) of
          Inl e \<Rightarrow> (case resolution_reason_of e of
              Some reason \<Rightarrow> Inr (unresolved reason c)
            | None \<Rightarrow> Inl (RuntimeError ''Unable to determine current operational target state.''))
        | Inr (target, metadata) \<Rightarrow>
          and_then (construct_target_reference
            \<lparr>otr_provider_id = pm_id (rt_provider target),
             otr_resource_id = pr_resource_id (rt_resource target),
             otr_resource_type = pr_resource_type (rt_resource target),
             otr_resource_fingerprint = rt_fingerprint target, otr_resource_version = None,
             otr_expected_state = pr_current_state (rt_resource target)\<rparr>) (\<lambda>reference.
          let enriched = c\<lparr>xc_status := CandidateEligible, xc_operational_target := Some reference,
                xc_resolution_reason := None\<rparr> in
          Inr (enriched\<lparr>xc_status := er_status (validate_candidate_for_planning enriched
            (Some available_ids) [] now supported_source_subsystems)\<rparr>)))))"

section \<open>The current candidates\<close>

type_synonym resolver = "nat \<Rightarrow> string \<Rightarrow> string \<Rightarrow> string \<Rightarrow> target_reply"

definition finding_by_id :: "ace_finding list \<Rightarrow> string \<Rightarrow> ace_finding option" where
  "finding_by_id findings i = map_of (rev (map (\<lambda>f. (fi_id f, f)) findings)) i"

definition result_candidate :: "string list \<Rightarrow> int \<Rightarrow> resolver \<Rightarrow> ace_finding list
    \<Rightarrow> nat \<times> projection_result \<Rightarrow> execution_candidate list res" where
  "result_candidate available_ids now resolve findings = (\<lambda>(n, r). case pj_candidate r of
     None \<Rightarrow> Inr []
   | Some c \<Rightarrow> (case finding_by_id findings (pj_source_finding_id r) of
       None \<Rightarrow> Inr [c]
     | Some f \<Rightarrow> and_then (enrich_operational_candidate available_ids now (resolve n) f c) (\<lambda>d. Inr [d])))"

definition finding_candidates :: "string list \<Rightarrow> int \<Rightarrow> resolver \<Rightarrow> ace_finding list res
    \<Rightarrow> execution_candidate list res" where
  "finding_candidates available_ids now resolve collected =
     (case collected of
        Inl e \<Rightarrow> Inl (RuntimeError ''Unable to collect current intelligence findings.'')
      | Inr findings \<Rightarrow>
        and_then (project_execution_candidates findings (Some available_ids) now) (\<lambda>results.
        and_then (traverse (result_candidate available_ids now resolve findings) (enumerate 0 results)) (\<lambda>cs.
        Inr (concat cs))))"

text \<open>Each stored intent is projected and audited in turn.\<close>

definition intent_candidate :: "int \<Rightarrow> resolver \<Rightarrow> nat \<times> intent_record \<Rightarrow> (intent_store, execution_candidate) action" where
  "intent_candidate now resolve = (\<lambda>(n, r).
     seq (lift (project_operator_intent r
       (resolve n (oir_provider_id r) (oir_resource_id r) (oir_resource_type r)) now)) (\<lambda>(c, reason) s.
     (Inr c, append_audit \<lparr>oia_occurred_at = now, oia_record_id = Some (oir_record_id r),
        oia_candidate_id = Some (xc_id c), oia_operator_id = Some (oir_operator_id r),
        oia_event = ''candidate_projected'', oia_reason = projection_reason_text reason\<rparr> s)))"

definition collect_current_execution_candidates ::
  "string list \<Rightarrow> string list \<Rightarrow> int \<Rightarrow> resolver \<Rightarrow> resolver \<Rightarrow> ace_finding list res
     \<Rightarrow> (intent_store, execution_candidate list) action" where
  "collect_current_execution_candidates available_ids fixture_ids now resolve resolve_intent collected =
     seq (lift (finding_candidates (sorted_unique (available_ids @ fixture_ids)) now resolve collected)) (\<lambda>cs s.
     seq (map_action (intent_candidate now resolve_intent) (enumerate 0 (list_intents s))) (\<lambda>ds.
     pure (sort_key xc_id (cs @ ds))) s)"

definition filter_candidates :: "candidate_status list \<Rightarrow> execution_category list \<Rightarrow> execution_intent list
    \<Rightarrow> string list \<Rightarrow> string list \<Rightarrow> execution_candidate list \<Rightarrow> execution_candidate list" where
  "filter_candidates statuses categories intents sources targets cs =
     sort_key xc_id (filter (\<lambda>c.
       (statuses = [] \<or> xc_status c \<in> set statuses)
       \<and> (categories = [] \<or> xc_execution_category c \<in> set categories)
       \<and> (intents = [] \<or> xc_execution_intent c \<in> set intents)
       \<and> (clean_unique sources = [] \<or> lower (xc_source_subsystem c) \<in> set (clean_unique sources))
       \<and> (clean_unique targets = [] \<or> lower (xc_target_id c) \<in> set (clean_unique targets))) cs)"

definition paginate_candidates :: "nat \<Rightarrow> nat \<Rightarrow> 'a list \<Rightarrow> 'a list \<times> nat \<times> bool" where
  "paginate_candidates limit offset cs =
     (let page = take limit (drop offset cs) in
      (page, length cs, offset + length page < length cs))"

text \<open>A candidate that is not present is \<open>Inr None\<close>.\<close>

definition get_current_execution_candidate ::
  "string \<Rightarrow> execution_candidate list \<Rightarrow> execution_candidate option" where
  "get_current_execution_candidate candidate_id cs = find (\<lambda>c. xc_id c = candidate_id) cs"

section \<open>The intake\<close>

datatype intake_status =
    IsAccepted | IsNotFound | IsStale | IsNotEligible | IsEvidenceUnavailable | IsTargetUnavailable
  | IsExpired | IsPolicyDenied | IsRejected

datatype intake_reason =
    IrAcceptedForPlanning | IrCandidateNotFound | IrFingerprintMismatch | IrCandidateNotEligible
  | IrMissingEvidence | IrEvidenceUnavailable | IrTargetUnavailable | IrCandidateExpired
  | IrPolicyDenied | IrValidationFailed | IrUnsupportedSourceSubsystem | IrUnsafePayload
  | IrBypassesAgentOrApproval | IrNonExecutableRecommendation | IrUnsupportedIntentCategory
  | IrInsufficientCompatibility | IrIncompatibleCompatibility | IrUnresolvedRequiredRelationship
  | IrDestructiveApprovalRequired | IrServiceDisruptionConstraintRequired
  | IrOperationalTargetNotFound | IrOperationalTargetAmbiguous | IrOperationalTargetTypeMismatch
  | IrOperationalTargetMarkedMissing | IrOperationalTargetIdentityUnavailable
  | IrOperationalTargetSelectorInvalid | IrOperationalTargetFingerprintMismatch

fun intake_reason_text :: "intake_reason \<Rightarrow> string" where
  "intake_reason_text IrAcceptedForPlanning = ''accepted_for_planning''"
| "intake_reason_text IrCandidateNotFound = ''candidate_not_found''"
| "intake_reason_text IrFingerprintMismatch = ''fingerprint_mismatch''"
| "intake_reason_text IrCandidateNotEligible = ''candidate_not_eligible''"
| "intake_reason_text IrMissingEvidence = ''missing_evidence''"
| "intake_reason_text IrEvidenceUnavailable = ''evidence_unavailable''"
| "intake_reason_text IrTargetUnavailable = ''target_unavailable''"
| "intake_reason_text IrCandidateExpired = ''candidate_expired''"
| "intake_reason_text IrPolicyDenied = ''policy_denied''"
| "intake_reason_text IrValidationFailed = ''validation_failed''"
| "intake_reason_text IrUnsupportedSourceSubsystem = ''unsupported_source_subsystem''"
| "intake_reason_text IrUnsafePayload = ''unsafe_payload''"
| "intake_reason_text IrBypassesAgentOrApproval = ''bypasses_agent_or_approval''"
| "intake_reason_text IrNonExecutableRecommendation = ''non_executable_recommendation''"
| "intake_reason_text IrUnsupportedIntentCategory = ''unsupported_intent_category''"
| "intake_reason_text IrInsufficientCompatibility = ''insufficient_compatibility''"
| "intake_reason_text IrIncompatibleCompatibility = ''incompatible_compatibility''"
| "intake_reason_text IrUnresolvedRequiredRelationship = ''unresolved_required_relationship''"
| "intake_reason_text IrDestructiveApprovalRequired = ''destructive_approval_required''"
| "intake_reason_text IrServiceDisruptionConstraintRequired = ''service_disruption_constraint_required''"
| "intake_reason_text IrOperationalTargetNotFound = ''operational_target_not_found''"
| "intake_reason_text IrOperationalTargetAmbiguous = ''operational_target_ambiguous''"
| "intake_reason_text IrOperationalTargetTypeMismatch = ''operational_target_type_mismatch''"
| "intake_reason_text IrOperationalTargetMarkedMissing = ''operational_target_marked_missing''"
| "intake_reason_text IrOperationalTargetIdentityUnavailable = ''operational_target_identity_unavailable''"
| "intake_reason_text IrOperationalTargetSelectorInvalid = ''operational_target_selector_invalid''"
| "intake_reason_text IrOperationalTargetFingerprintMismatch = ''operational_target_fingerprint_mismatch''"

record intake_request =
  iq_expected_candidate_fingerprint :: "string option"
  iq_expected_operational_target_fingerprint :: "string option"

text \<open>The candidate travels as its planning response, which copies the fields.\<close>

record intake_result =
  ir_status :: intake_status
  ir_candidate_id :: string
  ir_planning_allowed :: bool
  ir_reason_codes :: "intake_reason list"
  ir_current_candidate_fingerprint :: "string option"
  ir_current_candidate :: "execution_candidate option"

definition intake_result_of :: "intake_status \<Rightarrow> string \<Rightarrow> intake_reason list \<Rightarrow> execution_candidate option
    \<Rightarrow> string option \<Rightarrow> intake_result" where
  "intake_result_of status candidate_id codes candidate fingerprint =
     \<lparr>ir_status = status, ir_candidate_id = candidate_id,
      ir_planning_allowed = (status = IsAccepted),
      ir_reason_codes = sort_key intake_reason_text (remdups codes),
      ir_current_candidate_fingerprint = fingerprint, ir_current_candidate = candidate\<rparr>"

fun map_reason :: "eligibility_reason \<Rightarrow> intake_reason" where
  "map_reason ErCandidateNotEligible = IrCandidateNotEligible"
| "map_reason ErNonExecutableRecommendation = IrNonExecutableRecommendation"
| "map_reason ErMissingTarget = IrTargetUnavailable"
| "map_reason ErAmbiguousTarget = IrTargetUnavailable"
| "map_reason ErMissingEvidence = IrMissingEvidence"
| "map_reason ErUnreferencedEvidence = IrEvidenceUnavailable"
| "map_reason ErMissingCatalogIdentity = IrValidationFailed"
| "map_reason ErInsufficientCompatibility = IrInsufficientCompatibility"
| "map_reason ErIncompatibleCompatibility = IrIncompatibleCompatibility"
| "map_reason ErUnresolvedRequiredRelationship = IrUnresolvedRequiredRelationship"
| "map_reason ErUnsupportedSourceSubsystem = IrUnsupportedSourceSubsystem"
| "map_reason ErExpiredCandidate = IrCandidateExpired"
| "map_reason ErUnsupportedIntentCategory = IrUnsupportedIntentCategory"
| "map_reason ErUnsafePayload = IrUnsafePayload"
| "map_reason ErBypassesAgentOrApproval = IrBypassesAgentOrApproval"
| "map_reason ErDestructiveApprovalRequired = IrDestructiveApprovalRequired"
| "map_reason ErServiceDisruptionConstraintRequired = IrServiceDisruptionConstraintRequired"
| "map_reason ErOperationalTargetRequired = IrTargetUnavailable"

fun operational_reason :: "resolution_reason \<Rightarrow> intake_reason" where
  "operational_reason ReasonNotFound = IrOperationalTargetNotFound"
| "operational_reason ReasonAmbiguous = IrOperationalTargetAmbiguous"
| "operational_reason ReasonTypeMismatch = IrOperationalTargetTypeMismatch"
| "operational_reason ReasonMarkedMissing = IrOperationalTargetMarkedMissing"
| "operational_reason ReasonIdentityUnavailable = IrOperationalTargetIdentityUnavailable"
| "operational_reason ReasonSelectorInvalid = IrOperationalTargetSelectorInvalid"

definition status_for_reasons :: "eligibility_reason list \<Rightarrow> intake_status" where
  "status_for_reasons reasons =
     (let among = (\<lambda>rs. list_ex (\<lambda>r. r \<in> set reasons) rs) in
      if among [ErExpiredCandidate] then IsExpired
      else if among [ErMissingTarget, ErAmbiguousTarget] then IsTargetUnavailable
      else if among [ErUnreferencedEvidence] then IsEvidenceUnavailable
      else if among [ErUnsupportedSourceSubsystem, ErUnsafePayload, ErBypassesAgentOrApproval,
        ErUnsupportedIntentCategory, ErNonExecutableRecommendation] then IsRejected
      else if among [ErDestructiveApprovalRequired] then IsPolicyDenied
      else IsNotEligible)"

text \<open>The evidence of the fixture is empty where it is disabled or blocked.\<close>

definition default_evidence :: "string list \<Rightarrow> execution_candidate \<Rightarrow> string list" where
  "default_evidence fixture_ids c =
     (if xc_source_subsystem c = ''operator-intent'' then xc_evidence_ids c else fixture_ids)"

definition validate_candidate_planning_intake :: "string \<Rightarrow> intake_request \<Rightarrow> int
    \<Rightarrow> execution_candidate option res \<Rightarrow> (execution_candidate \<Rightarrow> string list) \<Rightarrow> intake_result res" where
  "validate_candidate_planning_intake candidate_id request now resolved evidence =
     (case resolved of
        Inl e \<Rightarrow> Inl (RuntimeError ''Unable to collect current execution candidates for planning intake.'')
      | Inr None \<Rightarrow> Inr (intake_result_of IsNotFound candidate_id [IrCandidateNotFound] None None)
      | Inr (Some c) \<Rightarrow> Inr (case xc_resolution_reason c of
          Some reason \<Rightarrow> intake_result_of IsTargetUnavailable candidate_id [operational_reason reason] (Some c) None
        | None \<Rightarrow>
          (let fingerprint = build_candidate_fingerprint c;
               answer = (\<lambda>status codes. intake_result_of status candidate_id codes (Some c) (Some fingerprint));
               ids = clean_unique (evidence c);
               eligibility = validate_candidate_for_planning c (Some ids) [] now supported_source_subsystems;
               reasons = map ef_reason (er_findings eligibility) in
           if iq_expected_operational_target_fingerprint request \<noteq> None
             \<and> map_option otr_resource_fingerprint (xc_operational_target c)
                \<noteq> iq_expected_operational_target_fingerprint request
           then answer IsStale [IrOperationalTargetFingerprintMismatch]
           else if iq_expected_candidate_fingerprint request \<notin> set [None, Some fingerprint]
           then answer IsStale [IrFingerprintMismatch]
           else if (case xc_expires_at c of None \<Rightarrow> False | Some t \<Rightarrow> t \<le> now)
           then answer IsExpired [IrCandidateExpired]
           else if list_ex (\<lambda>e. e \<notin> set ids) (xc_evidence_ids c)
           then answer IsEvidenceUnavailable [IrEvidenceUnavailable]
           else if er_status eligibility = CandidateEligible
           then answer IsAccepted [IrAcceptedForPlanning]
           else answer (status_for_reasons reasons) (map map_reason reasons))))"

section \<open>Where the current candidates come from\<close>

lemma enrich_source:
  "enrich_operational_candidate available_ids now resolve f c = Inr d \<Longrightarrow>
     xc_source_subsystem d = xc_source_subsystem c"
  by (auto simp: enrich_operational_candidate_def res_simps unresolved_def Let_def
      split: if_splits option.splits sum.splits)

lemma enumerate_member: "(n, x) \<in> set (enumerate 0 xs) \<Longrightarrow> x \<in> set xs"
  by (simp add: enumerate_eq_zip) (erule set_zip_rightD)

lemma finding_candidate_source:
  assumes "finding_candidates available_ids now resolve collected = Inr cs" "c \<in> set cs"
  shows "xc_source_subsystem c \<in> set trusted_source_subsystems"
proof -
  from assms(1) obtain findings rs css where "collected = Inr findings"
    and rs: "project_execution_candidates findings (Some available_ids) now = Inr rs"
    and css: "traverse (result_candidate available_ids now resolve findings) (enumerate 0 rs) = Inr css"
    and cs: "cs = concat css"
    by (auto simp: finding_candidates_def res_simps split: sum.splits)
  from assms(2) cs obtain ds where ds: "ds \<in> set css" "c \<in> set ds" by auto
  then obtain n r where r: "(n, r) \<in> set (enumerate 0 rs)"
    "result_candidate available_ids now resolve findings (n, r) = Inr ds"
    unfolding traverse_Inr_set [OF css] by auto
  have "r \<in> set rs" by (rule enumerate_member [OF r(1)])
  then have "result_sound (Some available_ids) now r"
    using projection_sound_results [OF rs] by blast
  with r(2) ds(2) show ?thesis
    by (auto simp: result_candidate_def result_sound_def res_simps split: option.splits dest: enrich_source)
qed

lemma intent_candidates_projected:
  assumes "map_action (intent_candidate now resolve) xs s = (Inr ds, t)" "d \<in> set ds"
  shows "\<exists>n r reason. (n, r) \<in> set xs
    \<and> project_operator_intent r (resolve n (oir_provider_id r) (oir_resource_id r) (oir_resource_type r)) now
        = Inr (d, reason)"
  using assms
proof (induction xs arbitrary: s ds)
  case (Cons x xs)
  obtain n r where x: "x = (n, r)" by (cases x)
  from Cons.prems(1) obtain e u es where e: "intent_candidate now resolve x s = (Inr e, u)"
    and es: "map_action (intent_candidate now resolve) xs u = (Inr es, t)" and ds: "ds = e # es"
    by (auto simp: seq_Inr_iff)
  from e x obtain reason where p: "project_operator_intent r
      (resolve n (oir_provider_id r) (oir_resource_id r) (oir_resource_type r)) now = Inr (e, reason)"
    by (cases "project_operator_intent r (resolve n (oir_provider_id r) (oir_resource_id r) (oir_resource_type r)) now")
      (auto simp: intent_candidate_def split: prod.splits)
  show ?case
  proof (cases "d = e")
    case True
    with p x show ?thesis by auto
  next
    case False
    with Cons.prems(2) ds have "d \<in> set es" by simp
    from Cons.IH [OF es this] show ?thesis by auto
  qed
qed simp

definition live_intent :: "intent_record list \<Rightarrow> resolver \<Rightarrow> int \<Rightarrow> execution_candidate \<Rightarrow> bool" where
  "live_intent records resolve now c \<longleftrightarrow> list_ex (\<lambda>(n, r).
     xc_source_recommendation_id c = oir_record_id r \<and> now < oir_expires_at r
     \<and> live_target r (resolve n (oir_provider_id r) (oir_resource_id r) (oir_resource_type r)))
     (enumerate 0 records)"

definition accepted_soundly :: "string \<Rightarrow> intake_request \<Rightarrow> int \<Rightarrow> string list \<Rightarrow> resolver
    \<Rightarrow> intent_record list \<Rightarrow> execution_candidate \<Rightarrow> bool" where
  "accepted_soundly candidate_id request now fixture_ids resolve records c \<longleftrightarrow>
     xc_id c = candidate_id
     \<and> planning_ready c (Some (clean_unique (default_evidence fixture_ids c))) [] now supported_source_subsystems
     \<and> xc_resolution_reason c = None
     \<and> iq_expected_candidate_fingerprint request \<in> {None, Some (build_candidate_fingerprint c)}
     \<and> (iq_expected_operational_target_fingerprint request = None
        \<or> iq_expected_operational_target_fingerprint request
            = map_option otr_resource_fingerprint (xc_operational_target c))
     \<and> (if xc_source_subsystem c = ''operator-intent'' then live_intent records resolve now c
        else xc_evidence_ids c \<noteq> [] \<and> set (xc_evidence_ids c) \<subseteq> set (clean_unique fixture_ids))"

lemma intake_allows:
  assumes "validate_candidate_planning_intake candidate_id request now (Inr found) evidence = Inr r"
    and "ir_planning_allowed r"
  obtains c where "found = Some c" "ir_current_candidate r = Some c" "xc_resolution_reason c = None"
    "planning_ready c (Some (clean_unique (evidence c))) [] now supported_source_subsystems"
    "iq_expected_candidate_fingerprint request \<in> {None, Some (build_candidate_fingerprint c)}"
    "iq_expected_operational_target_fingerprint request = None
      \<or> iq_expected_operational_target_fingerprint request
          = map_option otr_resource_fingerprint (xc_operational_target c)"
    "set (xc_evidence_ids c) \<subseteq> set (clean_unique (evidence c))"
proof (cases found)
  case None
  with assms show thesis by (auto simp: validate_candidate_planning_intake_def intake_result_of_def)
next
  case (Some c)
  have not_accepted: "status_for_reasons reasons \<noteq> IsAccepted" for reasons
    by (simp add: status_for_reasons_def Let_def)
  from assms Some show thesis
    by (intro that [of c])
      (auto simp: validate_candidate_planning_intake_def intake_result_of_def Let_def eligible_iff
        not_accepted list_ex_iff split: option.splits if_splits)
qed

text \<open>C13. End to end, over any history of operator intents and any findings, resolutions and fixture:
  what the intake lets planning consider is a current candidate with the identifier asked for, ready
  for planning, with the fingerprints the caller expects, and it is either an operator's unexpired
  intent whose very target resolved in this call, or rests only on the evidence of the development
  fixture. With the fixture disabled nothing but a live operator intent is ever planned.\<close>

theorem planned_only_when_live:
  "let s = foldl intent_step empty_intents history in
   case collect_current_execution_candidates available_ids fixture_ids now resolve resolve_intent collected s of
     (Inl e, t) \<Rightarrow> True
   | (Inr cs, t) \<Rightarrow>
       (case validate_candidate_planning_intake candidate_id request now
           (Inr (get_current_execution_candidate candidate_id cs)) (default_evidence fixture_ids) of
          Inl e \<Rightarrow> True
        | Inr r \<Rightarrow> if ir_planning_allowed r
            then list_ex (\<lambda>c. ir_current_candidate r = Some c
              \<and> accepted_soundly candidate_id request now fixture_ids resolve_intent (list_intents s) c) cs
            else True)"
proof -
  define s where "s = foldl intent_step empty_intents history"
  have valid: "intents_valid s"
    unfolding s_def by (rule intents.inv_run) (simp add: intents_valid_def empty_intents_def)
  have main: "list_ex (\<lambda>c. ir_current_candidate r = Some c
      \<and> accepted_soundly candidate_id request now fixture_ids resolve_intent (list_intents s) c) cs"
    if collect: "collect_current_execution_candidates available_ids fixture_ids now resolve resolve_intent collected s = (Inr cs, t)"
      and intake: "validate_candidate_planning_intake candidate_id request now
           (Inr (get_current_execution_candidate candidate_id cs)) (default_evidence fixture_ids) = Inr r"
      and allowed: "ir_planning_allowed r" for cs t r
  proof -
    obtain c where found: "get_current_execution_candidate candidate_id cs = Some c"
      and c: "ir_current_candidate r = Some c" "xc_resolution_reason c = None"
        "planning_ready c (Some (clean_unique (default_evidence fixture_ids c))) [] now supported_source_subsystems"
        "iq_expected_candidate_fingerprint request \<in> {None, Some (build_candidate_fingerprint c)}"
        "iq_expected_operational_target_fingerprint request = None
          \<or> iq_expected_operational_target_fingerprint request
              = map_option otr_resource_fingerprint (xc_operational_target c)"
        "set (xc_evidence_ids c) \<subseteq> set (clean_unique (default_evidence fixture_ids c))"
      by (rule intake_allows [OF intake allowed])
    from found have mem: "c \<in> set cs" and id: "xc_id c = candidate_id"
      by (auto simp: get_current_execution_candidate_def find_Some_iff)
    from collect obtain fs ds where
      fs: "finding_candidates (sorted_unique (available_ids @ fixture_ids)) now resolve collected = Inr fs"
      and ds: "map_action (intent_candidate now resolve_intent) (enumerate 0 (list_intents s)) s = (Inr ds, t)"
      and cs: "cs = sort_key xc_id (fs @ ds)"
      by (cases "finding_candidates (sorted_unique (available_ids @ fixture_ids)) now resolve collected")
        (auto simp: collect_current_execution_candidates_def seq_Inr_iff)
    have eligible: "xc_status c = CandidateEligible" and nonempty: "xc_evidence_ids c \<noteq> []"
      using c(3) by (simp_all add: planning_ready_def)
    have "if xc_source_subsystem c = ''operator-intent'' then live_intent (list_intents s) resolve_intent now c
        else xc_evidence_ids c \<noteq> [] \<and> set (xc_evidence_ids c) \<subseteq> set (clean_unique fixture_ids)"
    proof (cases "c \<in> set fs")
      case True
      have "xc_source_subsystem c \<noteq> ''operator-intent''"
        using finding_candidate_source [OF fs True] by (auto simp: trusted_source_subsystems_def)
      with c(6) nonempty show ?thesis by (simp add: default_evidence_def)
    next
      case False
      with mem cs have "c \<in> set ds" by simp
      from intent_candidates_projected [OF ds this] obtain n rec reason where
        rec: "(n, rec) \<in> set (enumerate 0 (list_intents s))"
        and p: "project_operator_intent rec (resolve_intent n (oir_provider_id rec) (oir_resource_id rec)
          (oir_resource_type rec)) now = Inr (c, reason)" by blast
      have "rec \<in> set (list_intents s)" by (rule enumerate_member [OF rec])
      then have r': "construct_intent_record rec = Inr rec"
        using valid by (simp add: list_intents_def intents_valid_def list_all_iff)
      note live = projected_intent [OF r' p]
      have "live_intent (list_intents s) resolve_intent now c"
        unfolding live_intent_def list_ex_iff using rec live eligible by blast
      with live show ?thesis by simp
    qed
    with id c mem show ?thesis by (auto simp: accepted_soundly_def list_ex_iff)
  qed
  show ?thesis unfolding Let_def s_def [symmetric]
    by (auto split: prod.split sum.split intro: main)
qed

end
