(* ===== verification/CandidateSessions.thy ===== *)
theory CandidateSessions
  imports WorkflowState
begin

text \<open>
  The candidate-planning sessions of the Agent: the records and enumerations of
  \<open>candidate_planning/models.py\<close> that a session holds, its post-init check and identifiers, the
  in-memory store (\<open>candidate_planning/state.py\<close>) and the descriptive operational plan
  (\<open>candidate_planning/operational.py\<close>). Operational plans and action requests are in
  \<open>ActionRequest\<close>, the artifacts of a workflow in \<open>WorkflowState\<close>.
\<close>

section \<open>Enumerations\<close>

datatype planning_status =
    PlanIntakeRejected | PlanUnsupportedIntent | PlanReadyForPlanning | PlanPlanning | PlanReady
  | PlanFailed | PlanNotSupported | PlanStaleBeforePlanning | PlanWorkflowCreated
  | PlanStaleBeforeWorkflow | PlanConversionFailed | PlanImplementationReady
  | PlanImplementationNotSupported | PlanTranslationFailed | PlanStaleBeforeImplementation

fun planning_status_text :: "planning_status \<Rightarrow> string" where
  "planning_status_text PlanIntakeRejected = ''intake_rejected''"
| "planning_status_text PlanUnsupportedIntent = ''unsupported_intent''"
| "planning_status_text PlanReadyForPlanning = ''ready_for_planning''"
| "planning_status_text PlanPlanning = ''planning''"
| "planning_status_text PlanReady = ''plan_ready''"
| "planning_status_text PlanFailed = ''planning_failed''"
| "planning_status_text PlanNotSupported = ''planning_not_supported''"
| "planning_status_text PlanStaleBeforePlanning = ''stale_before_planning''"
| "planning_status_text PlanWorkflowCreated = ''workflow_created''"
| "planning_status_text PlanStaleBeforeWorkflow = ''stale_before_workflow''"
| "planning_status_text PlanConversionFailed = ''workflow_conversion_failed''"
| "planning_status_text PlanImplementationReady = ''implementation_ready''"
| "planning_status_text PlanImplementationNotSupported = ''implementation_not_supported''"
| "planning_status_text PlanTranslationFailed = ''implementation_translation_failed''"
| "planning_status_text PlanStaleBeforeImplementation = ''stale_before_implementation''"

definition planning_statuses :: "planning_status list" where
  "planning_statuses =
     [PlanIntakeRejected, PlanUnsupportedIntent, PlanReadyForPlanning, PlanPlanning, PlanReady,
      PlanFailed, PlanNotSupported, PlanStaleBeforePlanning, PlanWorkflowCreated,
      PlanStaleBeforeWorkflow, PlanConversionFailed, PlanImplementationReady,
      PlanImplementationNotSupported, PlanTranslationFailed, PlanStaleBeforeImplementation]"

datatype core_intake_status =
    IntakeAccepted | IntakeNotFound | IntakeStale | IntakeNotEligible | IntakeEvidenceUnavailable
  | IntakeTargetUnavailable | IntakeExpired | IntakePolicyDenied | IntakeRejected

fun core_intake_status_text :: "core_intake_status \<Rightarrow> string" where
  "core_intake_status_text IntakeAccepted = ''accepted_for_planning''"
| "core_intake_status_text IntakeNotFound = ''not_found''"
| "core_intake_status_text IntakeStale = ''stale''"
| "core_intake_status_text IntakeNotEligible = ''not_eligible''"
| "core_intake_status_text IntakeEvidenceUnavailable = ''evidence_unavailable''"
| "core_intake_status_text IntakeTargetUnavailable = ''target_unavailable''"
| "core_intake_status_text IntakeExpired = ''expired''"
| "core_intake_status_text IntakePolicyDenied = ''policy_denied''"
| "core_intake_status_text IntakeRejected = ''rejected''"

definition core_intake_statuses :: "core_intake_status list" where
  "core_intake_statuses =
     [IntakeAccepted, IntakeNotFound, IntakeStale, IntakeNotEligible, IntakeEvidenceUnavailable,
      IntakeTargetUnavailable, IntakeExpired, IntakePolicyDenied, IntakeRejected]"

datatype planning_failure_code =
    FailCoreUnavailable | FailIntakeRejected | FailMissingSnapshot | FailMissingFingerprint
  | FailUnsupportedIntent | FailConflictingSession | FailPersistence | FailSessionNotFound
  | FailInvalidStatus | FailCandidateStale | FailCandidateExpired | FailCandidateNotEligible
  | FailEvidenceUnavailable | FailTargetUnavailable | FailRepositoryMapping
  | FailRepositoryInspection | FailPlanningValidation | FailUnsafePlan | FailPlanNotReady
  | FailFingerprintMismatch | FailPlanFingerprintMismatch | FailPlanIntegrity
  | FailTranslationUnsupported | FailApprovalCreation | FailImplementationNotSupported
  | FailRepositoryStale | FailUnsafeTranslation | FailWorkflowNotFound | FailWorkflowNotCandidate
  | FailWorkflowState | FailMissingMutation

fun planning_failure_text :: "planning_failure_code \<Rightarrow> string" where
  "planning_failure_text FailCoreUnavailable = ''atlas_core_unavailable''"
| "planning_failure_text FailIntakeRejected = ''intake_rejected''"
| "planning_failure_text FailMissingSnapshot = ''missing_candidate_snapshot''"
| "planning_failure_text FailMissingFingerprint = ''missing_candidate_fingerprint''"
| "planning_failure_text FailUnsupportedIntent = ''unsupported_intent''"
| "planning_failure_text FailConflictingSession = ''conflicting_active_session''"
| "planning_failure_text FailPersistence = ''persistence_failed''"
| "planning_failure_text FailSessionNotFound = ''session_not_found''"
| "planning_failure_text FailInvalidStatus = ''invalid_session_status''"
| "planning_failure_text FailCandidateStale = ''candidate_stale''"
| "planning_failure_text FailCandidateExpired = ''candidate_expired''"
| "planning_failure_text FailCandidateNotEligible = ''candidate_not_eligible''"
| "planning_failure_text FailEvidenceUnavailable = ''evidence_unavailable''"
| "planning_failure_text FailTargetUnavailable = ''target_unavailable''"
| "planning_failure_text FailRepositoryMapping = ''repository_mapping_unavailable''"
| "planning_failure_text FailRepositoryInspection = ''repository_inspection_failed''"
| "planning_failure_text FailPlanningValidation = ''planning_validation_failed''"
| "planning_failure_text FailUnsafePlan = ''unsafe_plan_content''"
| "planning_failure_text FailPlanNotReady = ''plan_not_ready''"
| "planning_failure_text FailFingerprintMismatch = ''candidate_fingerprint_mismatch''"
| "planning_failure_text FailPlanFingerprintMismatch = ''plan_fingerprint_mismatch''"
| "planning_failure_text FailPlanIntegrity = ''plan_integrity_failed''"
| "planning_failure_text FailTranslationUnsupported = ''workflow_translation_unsupported''"
| "planning_failure_text FailApprovalCreation = ''approval_creation_failed''"
| "planning_failure_text FailImplementationNotSupported = ''implementation_not_supported''"
| "planning_failure_text FailRepositoryStale = ''repository_stale''"
| "planning_failure_text FailUnsafeTranslation = ''unsafe_translation''"
| "planning_failure_text FailWorkflowNotFound = ''workflow_not_found''"
| "planning_failure_text FailWorkflowNotCandidate = ''workflow_not_candidate''"
| "planning_failure_text FailWorkflowState = ''workflow_state_invalid''"
| "planning_failure_text FailMissingMutation = ''missing_mutation_specification''"

definition planning_failure_codes :: "planning_failure_code list" where
  "planning_failure_codes =
     [FailCoreUnavailable, FailIntakeRejected, FailMissingSnapshot, FailMissingFingerprint,
      FailUnsupportedIntent, FailConflictingSession, FailPersistence, FailSessionNotFound,
      FailInvalidStatus, FailCandidateStale, FailCandidateExpired, FailCandidateNotEligible,
      FailEvidenceUnavailable, FailTargetUnavailable, FailRepositoryMapping,
      FailRepositoryInspection, FailPlanningValidation, FailUnsafePlan, FailPlanNotReady,
      FailFingerprintMismatch, FailPlanFingerprintMismatch, FailPlanIntegrity,
      FailTranslationUnsupported, FailApprovalCreation, FailImplementationNotSupported,
      FailRepositoryStale, FailUnsafeTranslation, FailWorkflowNotFound, FailWorkflowNotCandidate,
      FailWorkflowState, FailMissingMutation]"

section \<open>Records\<close>

record agent_mutation =
  amu_file :: path
  amu_service :: string
  amu_property :: string
  amu_operation :: string
  amu_desired_value :: string
  amu_expected_value :: "string option"
  amu_preservation_constraints :: "string list"

record agent_target =
  atr_provider_id :: string
  atr_resource_id :: string
  atr_resource_type :: string
  atr_resource_fingerprint :: string
  atr_resource_version :: "string option"
  atr_expected_state :: string

record candidate_snapshot =
  csn_candidate_id :: string
  csn_candidate_fingerprint :: string
  csn_source_recommendation_id :: string
  csn_source_subsystem :: string
  csn_recommendation_class :: string
  csn_catalog_item_id :: "string option"
  csn_target_id :: string
  csn_target_type :: string
  csn_execution_category :: string
  csn_execution_intent :: string
  csn_required_approval_level :: string
  csn_rationale :: string
  csn_constraints :: "string list"
  csn_evidence_ids :: "string list"
  csn_compatibility_assessment_id :: "string option"
  csn_compatibility_status :: "string option"
  csn_relationship_ids :: "string list"
  csn_expires_at :: "datetime option"
  csn_intake_status :: core_intake_status
  csn_intake_reason_codes :: "string list"
  csn_intake_timestamp :: datetime
  csn_effect_kind :: workflow_effect_kind
  csn_mutation :: "agent_mutation option"
  csn_operational_target :: "agent_target option"

record planning_failure =
  pfl_code :: planning_failure_code
  pfl_message :: string

record candidate_plan =
  cpl_identifier :: string
  cpl_session_id :: string
  cpl_candidate_id :: string
  cpl_candidate_fingerprint :: string
  cpl_title :: string
  cpl_objective :: string
  cpl_assumptions :: "string list"
  cpl_constraints :: "string list"
  cpl_proposed_steps :: "string list"
  cpl_likely_affected_components :: "string list"
  cpl_likely_affected_files :: "path list"
  cpl_verification_strategy :: "string list"
  cpl_rollback_considerations :: "string list"
  cpl_unresolved_questions :: "string list"
  cpl_evidence_ids :: "string list"
  cpl_created_at :: datetime
  cpl_repository_root :: path
  cpl_repository_branch :: "string option"
  cpl_repository_head :: "string option"
  cpl_revalidated_candidate_fingerprint :: string
  cpl_mutation :: "agent_mutation option"

record planning_decision =
  pdc_status :: planning_status
  pdc_plan :: "candidate_plan option"
  pdc_operational_plan :: "operational_plan option"
  pdc_failure :: "planning_failure option"

record planning_session =
  cps_identifier :: string
  cps_candidate_id :: string
  cps_candidate_fingerprint :: string
  cps_status :: planning_status
  cps_snapshot :: candidate_snapshot
  cps_created_at :: datetime
  cps_unsupported_reason :: "string option"
  cps_planning_status :: planning_status
  cps_plan :: "candidate_plan option"
  cps_operational_plan :: "operational_plan option"
  cps_planning_failure :: "planning_failure option"
  cps_planning_started_at :: "datetime option"
  cps_planning_completed_at :: "datetime option"
  cps_last_revalidation_fingerprint :: "string option"
  cps_last_revalidation_status :: "core_intake_status option"
  cps_workflow_session_id :: "string option"
  cps_implementation_approval_request_id :: "string option"
  cps_candidate_plan_fingerprint :: "string option"
  cps_workflow_conversion_status :: "planning_status option"
  cps_workflow_conversion_completed_at :: "datetime option"
  cps_implementation_request_id :: "string option"
  cps_exact_implementation_approval_request_id :: "string option"
  cps_implementation_translation_status :: "planning_status option"
  cps_implementation_translation_completed_at :: "datetime option"
  cps_predecessor_session_id :: "string option"
  cps_successor_session_id :: "string option"

definition planning_session_post_init :: "planning_session \<Rightarrow> planning_session res" where
  "planning_session_post_init s =
     (if cps_plan s \<noteq> None \<and> cps_operational_plan s \<noteq> None
      then Inl (ValueError (''candidate planning sessions cannot carry both repository and ''
        @ ''operational plans''))
      else Inr s)"

section \<open>Identifiers and supported intents\<close>

definition planning_session_id :: "string \<Rightarrow> string \<Rightarrow> string" where
  "planning_session_id candidate_id fingerprint =
     ''candidate-plan-'' @ sha256_hexdigest (utf8 (candidate_id @ [CHR 0x00] @ fingerprint))"

definition successor_session_id :: "string \<Rightarrow> string \<Rightarrow> string \<Rightarrow> string option \<Rightarrow> string" where
  "successor_session_id candidate_id fingerprint predecessor repository_head =
     ''candidate-plan-'' @ sha256_hexdigest (utf8 (candidate_id @ [CHR 0x00] @ fingerprint @ [CHR 0x00]
       @ predecessor @ [CHR 0x00] @ (case repository_head of None \<Rightarrow> [] | Some h \<Rightarrow> h)))"

text \<open>\<open>ATLAS_ENABLE_RC1_VALIDATION_SMOKE\<close> is an argument.\<close>

definition is_supported_execution_intent :: "bool \<Rightarrow> string \<Rightarrow> bool" where
  "is_supported_execution_intent rc1_enabled intent \<longleftrightarrow>
     intent = ''update-compose-stack'' \<or> intent = ''rc1-validation-smoke'' \<and> rc1_enabled"

definition is_operational_planning_intent :: "string \<Rightarrow> bool" where
  "is_operational_planning_intent intent \<longleftrightarrow> intent = ''restart-service''"

definition is_operational_execution_enabled :: "string \<Rightarrow> bool" where
  "is_operational_execution_enabled intent \<longleftrightarrow> intent = ''restart-service''"

section \<open>The store\<close>

type_synonym planning_store = "(string \<times> planning_session) list"

definition create_planning_session :: "planning_session \<Rightarrow> planning_store \<Rightarrow> planning_store res" where
  "create_planning_session session s =
     (if blank (cps_identifier session)
      then Inl (ValueError ''Candidate planning session identifier must not be blank'')
      else if map_of s (cps_identifier session) \<noteq> None
      then Inl (ValueError (''Candidate planning session identifier already exists: ''
        @ cps_identifier session))
      else Inr (AList.update (cps_identifier session) session s))"

definition get_planning_session :: "planning_store \<Rightarrow> string \<Rightarrow> planning_session option" where
  "get_planning_session s identifier = map_of s identifier"

definition replace_planning_session :: "planning_session \<Rightarrow> planning_store \<Rightarrow> planning_store res" where
  "replace_planning_session session s =
     (if blank (cps_identifier session)
      then Inl (ValueError ''Candidate planning session identifier must not be blank'')
      else if map_of s (cps_identifier session) = None
      then Inl (ValueError (''Candidate planning session identifier does not exist: ''
        @ cps_identifier session))
      else Inr (AList.update (cps_identifier session) session s))"

definition find_active_for_candidate :: "planning_store \<Rightarrow> string \<Rightarrow> planning_session list" where
  "find_active_for_candidate s candidate_id =
     sort_key cps_identifier (filter (\<lambda>p. cps_candidate_id p = candidate_id) (map snd s))"

section \<open>The operational plan\<close>

definition create_operational_plan :: "planning_session \<Rightarrow> datetime \<Rightarrow> string \<Rightarrow> planning_decision res" where
  "create_operational_plan session created_at revalidated =
     (let snapshot = cps_snapshot session in
      case csn_operational_target snapshot of
        None \<Rightarrow> Inl (ValueError ''operational planning requires a supported authoritative target'')
      | Some target \<Rightarrow>
        if csn_effect_kind snapshot \<noteq> EFFECT_OPERATIONAL_ACTION
          \<or> csn_execution_intent snapshot \<noteq> ''restart-service''
        then Inl (ValueError ''operational planning requires a supported authoritative target'')
        else
          let digest = sha256_hexdigest (utf8 (cps_identifier session @ [CHR 0x00]
                @ cps_candidate_fingerprint session @ [CHR 0x00] @ atr_resource_fingerprint target)) in
          and_then (operational_plan_post_init
            \<lparr>opl_identifier = ''operational-plan-'' @ digest, opl_session_id = cps_identifier session,
             opl_candidate_id = cps_candidate_id session,
             opl_candidate_fingerprint = cps_candidate_fingerprint session,
             opl_effect_kind = EFFECT_OPERATIONAL_ACTION,
             opl_execution_intent = csn_execution_intent snapshot,
             opl_provider_id = atr_provider_id target, opl_resource_id = atr_resource_id target,
             opl_resource_type = atr_resource_type target,
             opl_target_fingerprint = atr_resource_fingerprint target,
             opl_target_version = atr_resource_version target,
             opl_expected_pre_state = atr_expected_state target,
             opl_intended_action = ''restart-service'',
             opl_disruption_scope = ''The exact service may be temporarily unavailable during a ''
               @ ''future restart.'',
             opl_verification = \<lparr>ovs_pre_state = atr_expected_state target,
               ovs_expected_post_state = ''service-running-and-healthy'',
               ovs_identity_fingerprint = atr_resource_fingerprint target,
               ovs_health_requirement = ''The same exact service identity must report healthy after ''
                 @ ''the action.'',
               ovs_unknown_outcome_policy = ''Stop and require operator review when the outcome ''
                 @ ''cannot be verified.''\<rparr>,
             opl_failure_considerations =
               [''The service may fail to return to a healthy state.'',
                ''An interrupted request may leave the action outcome unknown.''],
             opl_evidence_ids = csn_evidence_ids snapshot, opl_created_at = created_at,
             opl_revalidated_candidate_fingerprint = revalidated\<rparr>) (\<lambda>plan.
          Inr \<lparr>pdc_status = PlanReady, pdc_plan = None, pdc_operational_plan = Some plan,
            pdc_failure = None\<rparr>))"

end
