(* ===== verification/SnapshotCodec.thy ===== *)
theory SnapshotCodec
  imports CandidateSessions OperationalExecution WorkerLedger
begin

text \<open>
  The encoders and decoders of the Agent's snapshot (\<open>persistence/snapshot.py\<close>): what
  \<open>json.load\<close> returns of a file is a \<open>payload\<close>, and each record has the pair of
  functions of the source. A string that \<open>datetime.isoformat\<close> wrote is kept as the datetime
  (\<open>PTime\<close>), the Pydantic dump of a context as the context (\<open>PContext\<close>), a float outside
  the worker contract as a rational (\<open>PReal\<close>). A field the decoders take over without looking at
  its type must have the type of its annotation: other values are \<open>untyped\<close> and outside the model.
  What a decoder gives back is the state with its paths parsed again and the values of its
  environment variables replaced by their digests (\<open>restored\<close>).
\<close>

section \<open>Payloads\<close>

datatype payload = PNull | PBool bool | PNum py_number | PReal rat | PText string | PTime datetime
  | PContext agent_context | PList "payload list" | PDict "(string \<times> payload) list"

type_synonym object = "(string \<times> payload) list"

definition untyped :: exn where
  "untyped = RuntimeError ''value of another type''"

definition persistence_error :: "string \<Rightarrow> 'a res" where
  "persistence_error m = Inl (StatePersistenceError m)"

definition get :: "object \<Rightarrow> string \<Rightarrow> payload" where
  "get d k = (case map_of d k of None \<Rightarrow> PNull | Some v \<Rightarrow> v)"

definition get_or :: "object \<Rightarrow> string \<Rightarrow> payload \<Rightarrow> payload" where
  "get_or d k v = (case map_of d k of None \<Rightarrow> v | Some w \<Rightarrow> w)"

definition require_dict :: "object \<Rightarrow> string \<Rightarrow> object res" where
  "require_dict d k = (case get d k of PDict e \<Rightarrow> Inr e
     | _ \<Rightarrow> persistence_error (''Expected object field: '' @ k))"

definition require_str :: "object \<Rightarrow> string \<Rightarrow> string res" where
  "require_str d k = (case get d k of PText s \<Rightarrow> Inr s | PTime t \<Rightarrow> Inr (isoformat t)
     | _ \<Rightarrow> persistence_error (''Expected string field: '' @ k))"

definition reject_unknown_fields :: "object \<Rightarrow> string list \<Rightarrow> unit res" where
  "reject_unknown_fields d allowed =
     (let unknown = filter (\<lambda>k. k \<notin> set allowed) (map fst d) in
      if unknown = [] then Inr ()
      else persistence_error (''Unexpected persisted fields: '' @ join '', '' (sort (remdups unknown))))"

fun text_item :: "payload \<Rightarrow> string res" where
  "text_item (PText s) = Inr s"
| "text_item (PTime t) = Inr (isoformat t)"
| "text_item _ = persistence_error ''Expected list of strings''"

definition tuple_str :: "payload \<Rightarrow> string list res" where
  "tuple_str v = (case v of PList xs \<Rightarrow> traverse text_item xs
     | _ \<Rightarrow> persistence_error ''Expected list of strings'')"

definition decode_path :: "payload \<Rightarrow> path res" where
  "decode_path v = (case v of PText s \<Rightarrow> Inr (path_of s) | PTime t \<Rightarrow> Inr (path_of (isoformat t))
     | _ \<Rightarrow> persistence_error ''Expected path string'')"

definition decode_optional_path :: "payload \<Rightarrow> path option res" where
  "decode_optional_path v = (case v of PNull \<Rightarrow> Inr None | _ \<Rightarrow> and_then (decode_path v) (\<lambda>p. Inr (Some p)))"

definition tuple_path :: "payload \<Rightarrow> path list res" where
  "tuple_path v = (case v of PList xs \<Rightarrow> traverse decode_path xs
     | _ \<Rightarrow> persistence_error ''Expected list of paths'')"

definition decode_optional_datetime :: "payload \<Rightarrow> datetime option res" where
  "decode_optional_datetime v = (case v of PNull \<Rightarrow> Inr None | PTime t \<Rightarrow> Inr (Some t)
     | _ \<Rightarrow> persistence_error ''Invalid datetime value'')"

definition decode_datetime :: "payload \<Rightarrow> datetime res" where
  "decode_datetime v = and_then (decode_optional_datetime v) (\<lambda>decoded. case decoded of
     None \<Rightarrow> persistence_error ''Missing datetime value'' | Some t \<Rightarrow> Inr t)"

text \<open>Fields taken over as they are.\<close>

definition any_text :: "payload \<Rightarrow> string option res" where
  "any_text v = (case v of PNull \<Rightarrow> Inr None | PText s \<Rightarrow> Inr (Some s)
     | PTime t \<Rightarrow> Inr (Some (isoformat t)) | _ \<Rightarrow> Inl untyped)"

definition any_int :: "payload \<Rightarrow> int option res" where
  "any_int v = (case v of PNull \<Rightarrow> Inr None | PNum (PyInt i) \<Rightarrow> Inr (Some i) | _ \<Rightarrow> Inl untyped)"

definition any_real :: "payload \<Rightarrow> rat option res" where
  "any_real v = (case v of PNull \<Rightarrow> Inr None | PReal r \<Rightarrow> Inr (Some r)
     | PNum (PyInt i) \<Rightarrow> Inr (Some (of_int i)) | _ \<Rightarrow> Inl untyped)"

text \<open>\<open>float(...)\<close>, \<open>bool(...)\<close>, and the items a comprehension runs over.\<close>

definition float_of :: "payload \<Rightarrow> rat res" where
  "float_of v = (case v of PReal r \<Rightarrow> Inr r | PNum (PyInt i) \<Rightarrow> Inr (of_int i)
     | PNull \<Rightarrow> Inl (TypeError ''float() argument must be a string or a real number'')
     | _ \<Rightarrow> Inl untyped)"

definition truthy :: "payload \<Rightarrow> bool" where
  "truthy v = (case v of PNull \<Rightarrow> False | PBool b \<Rightarrow> b | PNum n \<Rightarrow> n \<noteq> PyInt 0 | PReal r \<Rightarrow> r \<noteq> 0
     | PText s \<Rightarrow> s \<noteq> [] | PList xs \<Rightarrow> xs \<noteq> [] | PDict d \<Rightarrow> d \<noteq> [] | _ \<Rightarrow> True)"

definition items_of :: "payload \<Rightarrow> payload list res" where
  "items_of v = (case v of PList xs \<Rightarrow> Inr xs | PNull \<Rightarrow> Inl (TypeError ''object is not iterable'')
     | _ \<Rightarrow> Inl untyped)"

definition object_of :: "payload \<Rightarrow> object res" where
  "object_of v = (case v of PDict d \<Rightarrow> Inr d | _ \<Rightarrow> Inl (AttributeError ''get''))"

definition decode_items :: "(object \<Rightarrow> 'a res) \<Rightarrow> payload \<Rightarrow> 'a list res" where
  "decode_items f v = and_then (items_of v) (traverse (\<lambda>item. and_then (object_of item) f))"

definition optional_object :: "string \<Rightarrow> (object \<Rightarrow> 'a res) \<Rightarrow> payload \<Rightarrow> 'a option res" where
  "optional_object message f v = (case v of PNull \<Rightarrow> Inr None
     | PDict d \<Rightarrow> and_then (f d) (\<lambda>x. Inr (Some x)) | _ \<Rightarrow> persistence_error message)"

definition parse_enum :: "string \<Rightarrow> ('a \<Rightarrow> string) \<Rightarrow> 'a list \<Rightarrow> string \<Rightarrow> 'a res" where
  "parse_enum class_name text_of vs s = (case find (\<lambda>v. text_of v = s) vs of
     None \<Rightarrow> Inl (ValueError ([CHR 0x27] @ s @ [CHR 0x27] @ '' is not a valid '' @ class_name))
   | Some v \<Rightarrow> Inr v)"

text \<open>What the encoders share.\<close>

definition optional :: "('a \<Rightarrow> payload) \<Rightarrow> 'a option \<Rightarrow> payload" where
  "optional f x = (case x of None \<Rightarrow> PNull | Some y \<Rightarrow> f y)"

definition encode_path :: "path \<Rightarrow> payload" where
  "encode_path p = PText (path_text p)"

definition texts :: "string list \<Rightarrow> payload" where
  "texts xs = PList (map PText xs)"

definition paths :: "path list \<Rightarrow> payload" where
  "paths ps = PList (map encode_path ps)"

definition reread :: "path \<Rightarrow> path" where
  "reread p = path_of (path_text p)"

named_theorems codec \<open>what a decoder reads of what an encoder wrote\<close>

lemma traverse_map_Inr: "traverse f (map g xs) = Inr (map h xs)" if "\<And>x. x \<in> set xs \<Longrightarrow> f (g x) = Inr (h x)"
  using that by (induction xs) auto

lemma get_Cons [codec]: "get ((k, v) # d) k' = (if k = k' then v else get d k')"
  by (simp add: get_def)

lemma get_or_Cons [codec]: "get_or ((k, v) # d) k' w = (if k = k' then v else get_or d k' w)"
  by (simp add: get_or_def)

lemma readers [codec]:
  "tuple_str (texts xs) = Inr xs"
  "tuple_path (paths ps) = Inr (map reread ps)"
  "decode_path (encode_path p) = Inr (reread p)"
  "decode_optional_path (optional encode_path q) = Inr (map_option reread q)"
  "decode_datetime (PTime t) = Inr t"
  "decode_optional_datetime (optional PTime u) = Inr u"
  "any_text (optional PText s) = Inr s"
  "any_int (optional (\<lambda>i. PNum (PyInt i)) n) = Inr n"
  "any_real (optional PReal r) = Inr r"
  "float_of (PReal f) = Inr f" "truthy (PBool b) = b" "items_of (PList vs) = Inr vs"
  by (simp_all add: tuple_str_def texts_def tuple_path_def paths_def decode_path_def encode_path_def reread_def
      decode_optional_path_def optional_def decode_datetime_def decode_optional_datetime_def any_text_def
      any_int_def any_real_def float_of_def truthy_def items_of_def traverse_map_Inr [where h = "\<lambda>x. x", simplified]
      traverse_map_Inr [where h = reread, unfolded reread_def] split: option.split)

lemma require_str_PText [codec]: "get d k = PText s \<Longrightarrow> require_str d k = Inr s"
  by (simp add: require_str_def)

lemma require_dict_PDict [codec]: "get d k = PDict e \<Longrightarrow> require_dict d k = Inr e"
  by (simp add: require_dict_def)

lemma optional_object_optional:
  assumes "\<And>y. x = Some y \<Longrightarrow> f (g y) = Inr (h y)"
  shows "optional_object m f (optional (\<lambda>y. PDict (g y)) x) = Inr (map_option h x)"
  using assms by (cases x) (simp_all add: optional_object_def optional_def)

lemma decode_items_map:
  assumes "\<And>y. y \<in> set ys \<Longrightarrow> f (g y) = Inr (h y)"
  shows "decode_items f (PList (map (\<lambda>y. PDict (g y)) ys)) = Inr (map h ys)"
  using assms by (simp add: decode_items_def items_of_def object_of_def traverse_map_Inr)

lemma parse_enum_text:
  assumes "distinct (map text_of vs)" "v \<in> set vs"
  shows "parse_enum n text_of vs (text_of v) = Inr v"
proof -
  have "find (\<lambda>w. text_of w = text_of v) vs = Some v"
    using assms by (induction vs) (auto simp: image_iff)
  then show ?thesis by (simp add: parse_enum_def)
qed

section \<open>Enumerations\<close>

fun sprint_phase_text :: "sprint_phase \<Rightarrow> string" where
  "sprint_phase_text PHASE_PLANNED = ''planned''"
| "sprint_phase_text PHASE_AWAITING_APPROVAL = ''awaiting_approval''"
| "sprint_phase_text PHASE_IN_PROGRESS = ''in_progress''"
| "sprint_phase_text PHASE_AWAITING_VERIFICATION_APPROVAL = ''awaiting_verification_approval''"
| "sprint_phase_text PHASE_VERIFYING = ''verifying''"
| "sprint_phase_text PHASE_AWAITING_COMMIT_APPROVAL = ''awaiting_commit_approval''"
| "sprint_phase_text PHASE_COMMITTING = ''committing''"
| "sprint_phase_text PHASE_REVIEWING = ''reviewing''"
| "sprint_phase_text PHASE_COMPLETED = ''completed''"
| "sprint_phase_text PHASE_BLOCKED = ''blocked''"

definition decode_sprint_phase :: "string \<Rightarrow> sprint_phase res" where
  "decode_sprint_phase = parse_enum ''SprintPhase'' sprint_phase_text
     [PHASE_PLANNED, PHASE_AWAITING_APPROVAL, PHASE_IN_PROGRESS, PHASE_AWAITING_VERIFICATION_APPROVAL,
      PHASE_VERIFYING, PHASE_AWAITING_COMMIT_APPROVAL, PHASE_COMMITTING, PHASE_REVIEWING,
      PHASE_COMPLETED, PHASE_BLOCKED]"

fun session_state_text :: "session_state \<Rightarrow> string" where
  "session_state_text SESSION_PLANNED = ''planned''"
| "session_state_text SESSION_AWAITING_APPROVAL = ''awaiting_approval''"
| "session_state_text SESSION_AWAITING_IMPLEMENTATION_APPROVAL = ''awaiting_implementation_approval''"
| "session_state_text SESSION_EXECUTING = ''executing''"
| "session_state_text SESSION_PATCH_APPLIED_PENDING_VERIFICATION = ''patch_applied_pending_verification''"
| "session_state_text SESSION_AWAITING_VERIFICATION_APPROVAL = ''awaiting_verification_approval''"
| "session_state_text SESSION_VERIFYING = ''verifying''"
| "session_state_text SESSION_AWAITING_COMMIT_APPROVAL = ''awaiting_commit_approval''"
| "session_state_text SESSION_COMMITTING = ''committing''"
| "session_state_text SESSION_BLOCKED = ''blocked''"
| "session_state_text SESSION_COMPLETED = ''completed''"

definition decode_session_state :: "string \<Rightarrow> session_state res" where
  "decode_session_state = parse_enum ''WorkflowSessionState'' session_state_text
     [SESSION_PLANNED, SESSION_AWAITING_APPROVAL, SESSION_AWAITING_IMPLEMENTATION_APPROVAL,
      SESSION_EXECUTING, SESSION_PATCH_APPLIED_PENDING_VERIFICATION,
      SESSION_AWAITING_VERIFICATION_APPROVAL, SESSION_VERIFYING, SESSION_AWAITING_COMMIT_APPROVAL,
      SESSION_COMMITTING, SESSION_BLOCKED, SESSION_COMPLETED]"

fun workflow_source_text :: "workflow_source \<Rightarrow> string" where
  "workflow_source_text SOURCE_ROADMAP = ''roadmap''"
| "workflow_source_text SOURCE_CANDIDATE = ''candidate''"
| "workflow_source_text SOURCE_MANUAL = ''manual''"

definition decode_workflow_source :: "string \<Rightarrow> workflow_source res" where
  "decode_workflow_source = parse_enum ''WorkflowSource'' workflow_source_text
     [SOURCE_ROADMAP, SOURCE_CANDIDATE, SOURCE_MANUAL]"

definition decode_effect_kind :: "string \<Rightarrow> workflow_effect_kind res" where
  "decode_effect_kind = parse_enum ''WorkflowEffectKind'' effect_kind_text
     [EFFECT_REPOSITORY_CHANGE, EFFECT_OPERATIONAL_ACTION]"

text \<open>Snapshots of the first schema have no effect kind.\<close>

definition decode_versioned_effect :: "int \<Rightarrow> object \<Rightarrow> workflow_effect_kind res"
  where
  "decode_versioned_effect schema_version d =
     (if schema_version = 1 then Inr EFFECT_REPOSITORY_CHANGE
      else and_then (require_str d ''effect_kind'') decode_effect_kind)"

definition decode_execution_stage :: "string \<Rightarrow> operational_execution_stage res" where
  "decode_execution_stage = parse_enum ''OperationalExecutionStage'' stage_text
     [STAGE_EXECUTION_BLOCKED, STAGE_SUBMISSION_OUTCOME_UNKNOWN, STAGE_DISPATCH_PENDING,
      STAGE_VERIFICATION_PENDING, STAGE_VERIFIED, STAGE_FAILED, STAGE_VERIFICATION_FAILED,
      STAGE_TARGET_REPLACED, STAGE_OUTCOME_UNKNOWN]"

fun execution_status_text :: "execution_status \<Rightarrow> string" where
  "execution_status_text Succeeded = ''succeeded''"
| "execution_status_text Failed = ''failed''"
| "execution_status_text Timed_Out = ''timed_out''"
| "execution_status_text Launch_Failed = ''launch_failed''"
| "execution_status_text Unknown = ''unknown''"

definition decode_execution_status :: "string \<Rightarrow> execution_status res" where
  "decode_execution_status = parse_enum ''ExecutionStatus'' execution_status_text
     [Succeeded, Failed, Timed_Out, Launch_Failed, Unknown]"

definition decode_verification_status :: "string \<Rightarrow> verification_status res" where
  "decode_verification_status = parse_enum ''VerificationStatus'' verification_status_value
     [PASSED, FAILED, TIMED_OUT, LAUNCH_FAILED]"

fun review_status_text :: "review_status \<Rightarrow> string" where
  "review_status_text Approved = ''approved''"
| "review_status_text Changes_Required = ''changes_required''"

definition decode_review_status :: "string \<Rightarrow> review_status res" where
  "decode_review_status = parse_enum ''ReviewStatus'' review_status_text [Approved, Changes_Required]"

fun review_category_text :: "review_category \<Rightarrow> string" where
  "review_category_text Architecture = ''architecture''"
| "review_category_text Scope = ''scope''"
| "review_category_text Test_Coverage = ''test_coverage''"
| "review_category_text Verification_Category = ''verification''"

definition decode_review_category :: "string \<Rightarrow> review_category res" where
  "decode_review_category = parse_enum ''ReviewCategory'' review_category_text
     [Architecture, Scope, Test_Coverage, Verification_Category]"

fun review_severity_text :: "review_severity \<Rightarrow> string" where
  "review_severity_text Warning = ''warning''"
| "review_severity_text Error = ''error''"

definition decode_review_severity :: "string \<Rightarrow> review_severity res" where
  "decode_review_severity = parse_enum ''ReviewSeverity'' review_severity_text [Warning, Error]"

definition decode_worker_status :: "string \<Rightarrow> worker_status res" where
  "decode_worker_status = parse_enum ''WorkerExecutionStatus'' worker_status_text
     [WS_SUCCEEDED, WS_FAILED, WS_BLOCKED, WS_UNKNOWN]"

definition decode_worker_failure :: "string \<Rightarrow> worker_failure res" where
  "decode_worker_failure = parse_enum ''WorkerFailureCode'' failure_code_text
     [STALE_REPOSITORY, INVALID_REQUEST, INVALID_ARGV, SANDBOX_UNAVAILABLE, AUTH_UNAVAILABLE,
      WORKER_TIMEOUT, CODEX_FAILED, OUT_OF_SCOPE_CHANGES, NO_COMMITTABLE_CHANGES, PATCH_TOO_LARGE,
      DUPLICATE_REQUEST, WORKER_UNAVAILABLE, WORKER_CRASH]"

text \<open>\<open>CandidateVerificationFailureCode\<close>; an artifact holds the value of its
  code.\<close>

definition verification_failure_codes :: "string list" where
  "verification_failure_codes =
     [''verification_approval_missing'', ''verification_not_approved'', ''verification_evidence_mismatch'',
      ''changed_files_out_of_scope'', ''changed_files_digest_mismatch'', ''repository_stale'',
      ''candidate_stale'', ''plan_stale'', ''implementation_request_mismatch'', ''core_unavailable'',
      ''verification_failed'', ''review_failed'', ''secret_like_change_detected'',
      ''commit_approval_creation_failed'', ''persistence_failed'']"

definition decode_failure_code :: "payload \<Rightarrow> string option res" where
  "decode_failure_code v = and_then (any_text v) (\<lambda>code. case code of
     None \<Rightarrow> Inr None
   | Some s \<Rightarrow> if s = [] then Inr None
       else and_then (parse_enum ''CandidateVerificationFailureCode'' (\<lambda>c. c)
         verification_failure_codes s)
         (\<lambda>c. Inr (Some c)))"

lemma enum_codes [codec]:
  "decode_sprint_phase (sprint_phase_text a1) = Inr a1"
  "decode_session_state (session_state_text a2) = Inr a2"
  "decode_workflow_source (workflow_source_text a3) = Inr a3"
  "decode_effect_kind (effect_kind_text a4) = Inr a4"
  "decode_execution_stage (stage_text a5) = Inr a5"
  "decode_execution_status (execution_status_text a6) = Inr a6"
  "decode_verification_status (verification_status_value a7) = Inr a7"
  "decode_review_status (review_status_text a8) = Inr a8"
  "decode_review_category (review_category_text a9) = Inr a9"
  "decode_review_severity (review_severity_text b1) = Inr b1"
  "decode_worker_status (worker_status_text b2) = Inr b2"
  "decode_worker_failure (failure_code_text b3) = Inr b3"
  subgoal unfolding decode_sprint_phase_def by (rule parse_enum_text) (code_simp, cases a1, simp_all)
  subgoal unfolding decode_session_state_def by (rule parse_enum_text) (code_simp, cases a2, simp_all)
  subgoal unfolding decode_workflow_source_def by (rule parse_enum_text) (code_simp, cases a3, simp_all)
  subgoal unfolding decode_effect_kind_def by (rule parse_enum_text) (code_simp, cases a4, simp_all)
  subgoal unfolding decode_execution_stage_def by (rule parse_enum_text) (code_simp, cases a5, simp_all)
  subgoal unfolding decode_execution_status_def by (rule parse_enum_text) (code_simp, cases a6, simp_all)
  subgoal unfolding decode_verification_status_def by (rule parse_enum_text) (code_simp, cases a7, simp_all)
  subgoal unfolding decode_review_status_def by (rule parse_enum_text) (code_simp, cases a8, simp_all)
  subgoal unfolding decode_review_category_def by (rule parse_enum_text) (code_simp, cases a9, simp_all)
  subgoal unfolding decode_review_severity_def by (rule parse_enum_text) (code_simp, cases b1, simp_all)
  subgoal unfolding decode_worker_status_def by (rule parse_enum_text) (code_simp, cases b2, simp_all)
  subgoal unfolding decode_worker_failure_def by (rule parse_enum_text) (code_simp, cases b3, simp_all)
  done

section \<open>Sprint, checkpoint and plan\<close>

definition encode_sprint_status :: "sprint_status \<Rightarrow> object" where
  "encode_sprint_status r =
     [(''checkpoint_id'', PText (sp_checkpoint_id r)),
      (''goal'', PText (sp_goal r)),
      (''phase'', PText (sprint_phase_text (sp_phase r))),
      (''title'', PText (sp_title r))]"

definition decode_sprint_status :: "object \<Rightarrow> sprint_status res" where
  "decode_sprint_status d =
     and_then (require_str d ''checkpoint_id'') (\<lambda>checkpoint_id.
     and_then (require_str d ''title'') (\<lambda>title.
     and_then (require_str d ''goal'') (\<lambda>goal.
     and_then (and_then (require_str d ''phase'') decode_sprint_phase) (\<lambda>phase.
     Inr \<lparr>sp_checkpoint_id = checkpoint_id, sp_title = title, sp_goal = goal,
       sp_phase = phase\<rparr>))))"

definition encode_roadmap_checkpoint :: "roadmap_checkpoint \<Rightarrow> object" where
  "encode_roadmap_checkpoint r =
     [(''affected_files'', paths (cp_affected_files r)),
      (''goal'', PText (cp_goal r)),
      (''identifier'', PText (cp_identifier r)),
      (''required_tests'', texts (cp_required_tests r)),
      (''risks'', texts (cp_risks r)),
      (''scope_items'', texts (cp_scope_items r)),
      (''title'', PText (cp_title r))]"

definition decode_roadmap_checkpoint :: "object \<Rightarrow> roadmap_checkpoint res" where
  "decode_roadmap_checkpoint d =
     and_then (require_str d ''identifier'') (\<lambda>identifier.
     and_then (require_str d ''title'') (\<lambda>title.
     and_then (require_str d ''goal'') (\<lambda>goal.
     and_then (tuple_str (get_or d ''scope_items'' (PList []))) (\<lambda>scope_items.
     and_then (tuple_path (get_or d ''affected_files'' (PList []))) (\<lambda>affected_files.
     and_then (tuple_str (get_or d ''required_tests'' (PList []))) (\<lambda>required_tests.
     and_then (tuple_str (get_or d ''risks'' (PList []))) (\<lambda>risks.
     Inr \<lparr>cp_identifier = identifier, cp_title = title, cp_goal = goal,
       cp_scope_items = scope_items, cp_affected_files = affected_files,
         cp_required_tests = required_tests, cp_risks = risks\<rparr>)))))))"

definition restored_roadmap_checkpoint :: "roadmap_checkpoint \<Rightarrow> roadmap_checkpoint" where
  "restored_roadmap_checkpoint r = r\<lparr>cp_affected_files := map reread (cp_affected_files r)\<rparr>"

definition encode_plan_risk :: "plan_risk \<Rightarrow> object" where
  "encode_plan_risk r =
     [(''code'', PText (risk_code r)),
      (''source'', PText (risk_source r)),
      (''summary'', PText (risk_summary r))]"

definition decode_plan_risk :: "object \<Rightarrow> plan_risk res" where
  "decode_plan_risk d =
     and_then (require_str d ''code'') (\<lambda>code.
     and_then (require_str d ''summary'') (\<lambda>summary.
     and_then (require_str d ''source'') (\<lambda>source.
     Inr \<lparr>risk_code = code, risk_summary = summary, risk_source = source\<rparr>)))"

definition encode_plan :: "implementation_plan \<Rightarrow> object" where
  "encode_plan r =
     [(''affected_files'', paths (plan_affected_files r)),
      (''branch'', optional PText (plan_branch r)),
      (''checkpoint_id'', PText (plan_checkpoint_id r)),
      (''goal'', PText (plan_goal r)),
      (''head_commit'', optional PText (plan_head_commit r)),
      (''repository_root'', encode_path (plan_repository_root r)),
      (''required_tests'', texts (plan_required_tests r)),
      (''risks'', PList (map (\<lambda>x. PDict (encode_plan_risk x)) (plan_risks r))),
      (''scope_items'', texts (plan_scope_items r)),
      (''title'', PText (plan_title r))]"

definition decode_plan :: "object \<Rightarrow> implementation_plan res" where
  "decode_plan d =
     and_then (require_str d ''checkpoint_id'') (\<lambda>checkpoint_id.
     and_then (require_str d ''title'') (\<lambda>title.
     and_then (require_str d ''goal'') (\<lambda>goal.
     and_then (decode_path (get d ''repository_root'')) (\<lambda>repository_root.
     and_then (any_text (get d ''branch'')) (\<lambda>branch.
     and_then (any_text (get d ''head_commit'')) (\<lambda>head_commit.
     and_then (tuple_str (get_or d ''scope_items'' (PList []))) (\<lambda>scope_items.
     and_then (tuple_path (get_or d ''affected_files'' (PList []))) (\<lambda>affected_files.
     and_then (tuple_str (get_or d ''required_tests'' (PList []))) (\<lambda>required_tests.
     and_then (decode_items decode_plan_risk (get_or d ''risks'' (PList []))) (\<lambda>risks.
     Inr \<lparr>plan_checkpoint_id = checkpoint_id, plan_title = title, plan_goal = goal,
       plan_repository_root = repository_root, plan_branch = branch, plan_head_commit = head_commit,
         plan_scope_items = scope_items, plan_affected_files = affected_files,
           plan_required_tests = required_tests, plan_risks = risks\<rparr>))))))))))"

definition restored_plan :: "implementation_plan \<Rightarrow> implementation_plan" where
  "restored_plan r = r\<lparr>plan_affected_files := map reread (plan_affected_files r),
     plan_repository_root := reread (plan_repository_root r)\<rparr>"

section \<open>Requests\<close>

text \<open>Environment values leave the process only as digests.\<close>

definition environment_digest :: "environment_variable \<Rightarrow> string" where
  "environment_digest v = (case ev_value_digest v of
     None \<Rightarrow> sha256_hexdigest (utf8 (ev_value v))
   | Some d \<Rightarrow> if d = [] then sha256_hexdigest (utf8 (ev_value v)) else d)"

definition encode_environment :: "environment_variable \<Rightarrow> object" where
  "encode_environment v =
     [(''name'', PText (ev_name v)), (''redacted'', PBool True),
      (''value_sha256'', PText (environment_digest v))]"

definition validate_digest :: "string \<Rightarrow> unit res" where
  "validate_digest s = (if is_sha256_hex s then Inr ()
     else persistence_error ''Malformed SHA-256 digest metadata'')"

definition decode_environment :: "object \<Rightarrow> environment_variable res" where
  "decode_environment d =
     and_then (if get d ''redacted'' = PBool True
       then and_then (require_str d ''value_sha256'') (\<lambda>digest.
            and_then (validate_digest digest) (\<lambda>_. Inr digest))
       else (case get d ''value'' of
           PText raw \<Rightarrow> Inr (sha256_hexdigest (utf8 raw))
         | PTime t \<Rightarrow> Inr (sha256_hexdigest (utf8 (isoformat t)))
         | _ \<Rightarrow> persistence_error ''Persisted environment value must be redacted''))
           (\<lambda>digest.
     and_then (require_str d ''name'') (\<lambda>name.
     Inr \<lparr>ev_name = name, ev_value = [], ev_value_digest = Some digest, ev_redacted = True\<rparr>))"

definition restored_environment :: "environment_variable \<Rightarrow> environment_variable" where
  "restored_environment v = v\<lparr>ev_value := [], ev_value_digest := Some (environment_digest v),
     ev_redacted := True\<rparr>"

definition encode_verification_check :: "verification_check \<Rightarrow> object" where
  "encode_verification_check r =
     [(''argv'', texts (vc_argv r)),
      (''environment'', PList (map (\<lambda>x. PDict (encode_environment x)) (vc_environment r))),
      (''identifier'', PText (vc_identifier r)),
      (''timeout_seconds'', optional PReal (vc_timeout_seconds r)),
      (''working_directory'', encode_path (vc_working_directory r))]"

definition decode_verification_check :: "object \<Rightarrow> verification_check res" where
  "decode_verification_check d =
     and_then (require_str d ''identifier'') (\<lambda>identifier.
     and_then (tuple_str (get_or d ''argv'' (PList []))) (\<lambda>argv.
     and_then (decode_path (get d ''working_directory'')) (\<lambda>working_directory.
     and_then (any_real (get d ''timeout_seconds'')) (\<lambda>timeout_seconds.
     and_then (decode_items decode_environment (get_or d ''environment'' (PList []))) (\<lambda>environment.
     Inr \<lparr>vc_identifier = identifier, vc_argv = argv, vc_working_directory = working_directory,
       vc_timeout_seconds = timeout_seconds, vc_environment = environment\<rparr>)))))"

definition restored_verification_check :: "verification_check \<Rightarrow> verification_check" where
  "restored_verification_check r = r\<lparr>vc_environment := map restored_environment (vc_environment r),
     vc_working_directory := reread (vc_working_directory r)\<rparr>"

definition encode_architecture_assessment :: "architecture_assessment \<Rightarrow> object" where
  "encode_architecture_assessment r =
     [(''evidence'', PText (aa_evidence r)),
      (''identifier'', PText (aa_identifier r)),
      (''passed'', PBool (aa_passed r)),
      (''recommendation'', optional PText (aa_recommendation r)),
      (''summary'', PText (aa_summary r))]"

definition decode_architecture_assessment :: "object \<Rightarrow> architecture_assessment res" where
  "decode_architecture_assessment d =
     and_then (require_str d ''identifier'') (\<lambda>identifier.
     and_then (require_str d ''summary'') (\<lambda>summary.
     and_then (Inr (truthy (get d ''passed''))) (\<lambda>passed.
     and_then (require_str d ''evidence'') (\<lambda>evidence.
     and_then (any_text (get d ''recommendation'')) (\<lambda>recommendation.
     Inr \<lparr>aa_identifier = identifier, aa_summary = summary, aa_passed = passed,
       aa_evidence = evidence, aa_recommendation = recommendation\<rparr>)))))"

definition encode_test_evidence :: "test_evidence \<Rightarrow> object" where
  "encode_test_evidence r =
     [(''check_identifier'', PText (te_check_identifier r)),
      (''requirement'', PText (te_requirement r))]"

definition decode_test_evidence :: "object \<Rightarrow> test_evidence res" where
  "decode_test_evidence d =
     and_then (require_str d ''requirement'') (\<lambda>requirement.
     and_then (require_str d ''check_identifier'') (\<lambda>check_identifier.
     Inr \<lparr>te_requirement = requirement, te_check_identifier = check_identifier\<rparr>))"

definition encode_workflow_request :: "workflow_request \<Rightarrow> object" where
  "encode_workflow_request r =
     [(''architecture_assessments'',
       PList (map (\<lambda>x. PDict (encode_architecture_assessment x)) (wq_architecture_assessments r))),
      (''checkpoint'', PDict (encode_roadmap_checkpoint (wq_checkpoint r))),
      (''execution_argv'', texts (wq_execution_argv r)),
      (''execution_identifier'', PText (wq_execution_identifier r)),
      (''execution_workdir'', encode_path (wq_execution_workdir r)),
      (''repository_root'', encode_path (wq_repository_root r)),
      (''review_identifier'', PText (wq_review_identifier r)),
      (''test_evidence'', PList (map (\<lambda>x. PDict (encode_test_evidence x)) (wq_test_evidence r))),
      (''verification_checks'', PList (map (\<lambda>x. PDict (encode_verification_check x))
        (wq_verification_checks r)))]"

definition decode_workflow_request :: "object \<Rightarrow> workflow_request res" where
  "decode_workflow_request d =
     and_then (and_then (require_dict d ''checkpoint'') decode_roadmap_checkpoint) (\<lambda>checkpoint.
     and_then (decode_path (get d ''repository_root'')) (\<lambda>repository_root.
     and_then (require_str d ''execution_identifier'') (\<lambda>execution_identifier.
     and_then (tuple_str (get_or d ''execution_argv'' (PList []))) (\<lambda>execution_argv.
     and_then (decode_path (get d ''execution_workdir'')) (\<lambda>execution_workdir.
     and_then (decode_items decode_verification_check (get_or d ''verification_checks'' (PList [])))
       (\<lambda>verification_checks.
     and_then (require_str d ''review_identifier'') (\<lambda>review_identifier.
     and_then (decode_items decode_architecture_assessment (get_or d ''architecture_assessments'' (PList
       []))) (\<lambda>architecture_assessments.
     and_then (decode_items decode_test_evidence (get_or d ''test_evidence'' (PList [])))
       (\<lambda>test_evidence.
     Inr \<lparr>wq_checkpoint = checkpoint, wq_repository_root = repository_root,
       wq_execution_identifier = execution_identifier, wq_execution_argv = execution_argv,
         wq_execution_workdir = execution_workdir, wq_verification_checks = verification_checks,
           wq_review_identifier = review_identifier,
             wq_architecture_assessments = architecture_assessments,
               wq_test_evidence = test_evidence\<rparr>)))))))))"

definition restored_workflow_request :: "workflow_request \<Rightarrow> workflow_request" where
  "restored_workflow_request r = r\<lparr>wq_checkpoint := restored_roadmap_checkpoint (wq_checkpoint r),
     wq_execution_workdir := reread (wq_execution_workdir r),
     wq_repository_root := reread (wq_repository_root r),
     wq_verification_checks := map restored_verification_check (wq_verification_checks r)\<rparr>"

section \<open>Results and reports\<close>

definition encode_model_response :: "model_response \<Rightarrow> object" where
  "encode_model_response r =
     [(''model'', PText (mr_model r)),
      (''provider_id'', PText (mr_provider_id r)),
      (''text'', PText (mr_text r))]"

definition decode_model_response :: "object \<Rightarrow> model_response res" where
  "decode_model_response d =
     and_then (require_str d ''text'') (\<lambda>text.
     and_then (require_str d ''model'') (\<lambda>model.
     and_then (require_str d ''provider_id'') (\<lambda>provider_id.
     Inr \<lparr>mr_text = text, mr_model = model, mr_provider_id = provider_id\<rparr>)))"

text \<open>\<open>to_dict\<close> and \<open>from_dict\<close> of the worker contract: both
  validate.\<close>

definition request_fields :: "string list" where
  "request_fields =
     [''schema_version'', ''execution_request_id'', ''workflow_id'', ''candidate_id'',
       ''candidate_fingerprint'',
      ''plan_id'', ''plan_fingerprint'', ''execution_intent'', ''repository_token'',
      ''expected_repository_head'', ''repository_branch'', ''argv'', ''working_directory'',
      ''allowed_affected_files'', ''timeout_seconds'', ''request_digest'']"

definition request_object :: "worker_request \<Rightarrow> object" where
  "request_object r =
     [(''schema_version'', PNum (PyInt (wr_schema_version r))),
      (''execution_request_id'', PText (wr_execution_request_id r)),
      (''workflow_id'', PText (wr_workflow_id r)), (''candidate_id'', PText (wr_candidate_id r)),
      (''candidate_fingerprint'', PText (wr_candidate_fingerprint r)),
      (''plan_id'', PText (wr_plan_id r)), (''plan_fingerprint'', PText (wr_plan_fingerprint r)),
      (''execution_intent'', PText (wr_execution_intent r)),
      (''repository_token'', PText (wr_repository_token r)),
      (''expected_repository_head'', PText (wr_expected_repository_head r)),
      (''repository_branch'', optional PText (wr_repository_branch r)),
      (''argv'', texts (wr_argv r)), (''working_directory'', PText (wr_working_directory r)),
      (''allowed_affected_files'', texts (wr_allowed_affected_files r)),
      (''timeout_seconds'', PNum (wr_timeout_seconds r)), (''request_digest'',
        PText (wr_request_digest r))]"

definition request_to_dict :: "worker_request \<Rightarrow> payload res" where
  "request_to_dict r = and_then (validate_worker_request True r) (\<lambda>_. Inr (PDict (request_object
    r)))"

text \<open>A value of another type is refused by the validation, or is outside the model.\<close>

definition typed_text :: "payload \<Rightarrow> string res" where
  "typed_text v = and_then (any_text v) (\<lambda>s. case s of None \<Rightarrow> Inl (ValueError
    ''invalid text'') | Some t \<Rightarrow> Inr t)"

definition typed_texts :: "payload \<Rightarrow> string list res" where
  "typed_texts v = and_then (items_of v) (traverse typed_text)"

definition typed_number :: "payload \<Rightarrow> py_number res" where
  "typed_number v = (case v of PNum n \<Rightarrow> Inr n | PReal r \<Rightarrow> Inl untyped | _
    \<Rightarrow> Inl (ValueError ''invalid number''))"

definition typed_int :: "payload \<Rightarrow> int res" where
  "typed_int v = (case v of PNum (PyInt i) \<Rightarrow> Inr i | _ \<Rightarrow> Inl (ValueError
    ''invalid integer''))"

definition typed_bool :: "payload \<Rightarrow> bool res" where
  "typed_bool v = (case v of PBool b \<Rightarrow> Inr b | _ \<Rightarrow> Inl (ValueError
    ''invalid boolean''))"

definition optional_int :: "payload \<Rightarrow> int option res" where
  "optional_int v = (case v of PNull \<Rightarrow> Inr None | _ \<Rightarrow> and_then (typed_int v)
    (\<lambda>i. Inr (Some i)))"

definition same_fields :: "object \<Rightarrow> string list \<Rightarrow> bool" where
  "same_fields d names \<longleftrightarrow> list_all (\<lambda>k. k \<in> set names) (map fst d) \<and>
    list_all (\<lambda>k. k \<in> set (map fst d)) names"

definition request_from_dict :: "payload \<Rightarrow> worker_request res" where
  "request_from_dict v = (case v of
     PDict d \<Rightarrow>
       if \<not> same_fields d request_fields then Inl (ValueError
         ''unknown or missing worker request fields'')
       else
       and_then (typed_texts (get d ''argv'')) (\<lambda>argv.
       and_then (typed_texts (get d ''allowed_affected_files'')) (\<lambda>allowed_affected_files.
       and_then (typed_int (get d ''schema_version'')) (\<lambda>schema_version.
       and_then (typed_text (get d ''execution_request_id'')) (\<lambda>execution_request_id.
       and_then (typed_text (get d ''workflow_id'')) (\<lambda>workflow_id.
       and_then (typed_text (get d ''candidate_id'')) (\<lambda>candidate_id.
       and_then (typed_text (get d ''candidate_fingerprint'')) (\<lambda>candidate_fingerprint.
       and_then (typed_text (get d ''plan_id'')) (\<lambda>plan_id.
       and_then (typed_text (get d ''plan_fingerprint'')) (\<lambda>plan_fingerprint.
       and_then (typed_text (get d ''execution_intent'')) (\<lambda>execution_intent.
       and_then (typed_text (get d ''repository_token'')) (\<lambda>repository_token.
       and_then (typed_text (get d ''expected_repository_head'')) (\<lambda>expected_repository_head.
       and_then (any_text (get d ''repository_branch'')) (\<lambda>repository_branch.
       and_then (typed_text (get d ''working_directory'')) (\<lambda>working_directory.
       and_then (typed_number (get d ''timeout_seconds'')) (\<lambda>timeout_seconds.
       and_then (typed_text (get d ''request_digest'')) (\<lambda>request_digest.
       let r = \<lparr>wr_schema_version = schema_version, wr_execution_request_id = execution_request_id,
         wr_workflow_id = workflow_id, wr_candidate_id = candidate_id,
         wr_candidate_fingerprint = candidate_fingerprint, wr_plan_id = plan_id,
         wr_plan_fingerprint = plan_fingerprint, wr_execution_intent = execution_intent,
         wr_repository_token = repository_token,
         wr_expected_repository_head = expected_repository_head,
         wr_repository_branch = repository_branch, wr_argv = argv,
         wr_working_directory = working_directory,
         wr_allowed_affected_files = allowed_affected_files, wr_timeout_seconds = timeout_seconds,
         wr_request_digest = request_digest\<rparr> in
       and_then (validate_worker_request True r) (\<lambda>_. Inr r)))))))))))))))))
   | _ \<Rightarrow> Inl (ValueError ''unknown or missing worker request fields''))"

definition output_to_dict :: "bounded_output \<Rightarrow> payload res" where
  "output_to_dict r = and_then (validate_output r) (\<lambda>_. Inr (PDict
     [(''text'', PText (bo_text r)), (''truncated'', PBool (bo_truncated r)),
      (''original_bytes'', optional (\<lambda>i. PNum (PyInt i)) (bo_original_bytes r))]))"

definition output_from_dict :: "payload \<Rightarrow> bounded_output res" where
  "output_from_dict v = (case v of
     PDict d \<Rightarrow>
       if \<not> same_fields d [''text'', ''truncated'',
         ''original_bytes''] then Inl (ValueError ''invalid bounded output'')
       else
       and_then (typed_text (get d ''text'')) (\<lambda>text.
       and_then (typed_bool (get d ''truncated'')) (\<lambda>truncated.
       and_then (optional_int (get d ''original_bytes'')) (\<lambda>original_bytes.
       let r = \<lparr>bo_text = text, bo_truncated = truncated,
         bo_original_bytes = original_bytes\<rparr> in
       and_then (validate_output r) (\<lambda>_. Inr r))))
   | _ \<Rightarrow> Inl (ValueError ''invalid bounded output''))"

definition attestation_fields :: "string list" where
  "attestation_fields = [''runtime_uid'', ''readonly_rootfs'', ''no_new_privileges'',
    ''effective_capabilities'',
     ''sandbox_profile'']"

definition attestation_to_dict :: "worker_attestation \<Rightarrow> payload res" where
  "attestation_to_dict r = and_then (validate_attestation r) (\<lambda>_. Inr (PDict
     [(''runtime_uid'', PNum (PyInt (wa_runtime_uid r))), (''readonly_rootfs'',
       PBool (wa_readonly_rootfs r)),
      (''no_new_privileges'', PBool (wa_no_new_privileges r)),
      (''effective_capabilities'', PText (wa_effective_capabilities r)),
      (''sandbox_profile'', PText (wa_sandbox_profile r))]))"

definition attestation_from_dict :: "payload \<Rightarrow> worker_attestation res" where
  "attestation_from_dict v = (case v of
     PDict d \<Rightarrow>
       if \<not> same_fields d attestation_fields then Inl (ValueError ''invalid worker attestation'')
       else
       and_then (typed_int (get d ''runtime_uid'')) (\<lambda>runtime_uid.
       and_then (typed_bool (get d ''readonly_rootfs'')) (\<lambda>readonly_rootfs.
       and_then (typed_bool (get d ''no_new_privileges'')) (\<lambda>no_new_privileges.
       and_then (typed_text (get d ''effective_capabilities'')) (\<lambda>effective_capabilities.
       and_then (typed_text (get d ''sandbox_profile'')) (\<lambda>sandbox_profile.
       let r = \<lparr>wa_runtime_uid = runtime_uid, wa_readonly_rootfs = readonly_rootfs,
         wa_no_new_privileges = no_new_privileges, wa_effective_capabilities = effective_capabilities,
         wa_sandbox_profile = sandbox_profile\<rparr> in
       and_then (validate_attestation r) (\<lambda>_. Inr r))))))
   | _ \<Rightarrow> Inl (ValueError ''invalid worker attestation''))"

definition result_fields :: "string list" where
  "result_fields = [''schema_version'', ''execution_request_id'', ''status'', ''return_code'', ''stdout'',
     ''stderr'', ''changed_files'', ''patch_digest'', ''patch_size_bytes'', ''patch_truncated'',
     ''duration_seconds'', ''failure_code'', ''workspace_head'', ''worker_attestation'']"

definition optional_res :: "('a \<Rightarrow> payload res) \<Rightarrow> 'a option \<Rightarrow> payload
  res" where
  "optional_res f x = (case x of None \<Rightarrow> Inr PNull | Some y \<Rightarrow> f y)"

definition result_to_dict :: "worker_result \<Rightarrow> payload res" where
  "result_to_dict r =
     and_then (validate_worker_result None r) (\<lambda>_.
     and_then (output_to_dict (ws_stdout r)) (\<lambda>stdout.
     and_then (output_to_dict (ws_stderr r)) (\<lambda>stderr.
     and_then (attestation_to_dict (ws_attestation r)) (\<lambda>attestation.
     and_then (optional_res output_to_dict (ws_patch r)) (\<lambda>patch.
     Inr (PDict
       [(''schema_version'', PNum (PyInt (ws_schema_version r))),
        (''execution_request_id'', PText (ws_execution_request_id r)),
        (''status'', PText (worker_status_text (ws_status r))),
        (''return_code'', optional (\<lambda>i. PNum (PyInt i)) (ws_return_code r)),
        (''stdout'', stdout), (''stderr'', stderr), (''changed_files'', texts (ws_changed_files r)),
        (''patch_digest'', optional PText (ws_patch_digest r)),
        (''patch_size_bytes'', optional (\<lambda>i. PNum (PyInt i)) (ws_patch_size_bytes r)),
        (''patch_truncated'', PBool (ws_patch_truncated r)),
        (''duration_seconds'', PNum (ws_duration_seconds r)),
        (''failure_code'', optional (\<lambda>c. PText (failure_code_text c)) (ws_failure_code r)),
        (''workspace_head'', optional PText (ws_workspace_head r)), (''worker_attestation'', attestation),
        (''base_repository_head'', optional PText (ws_base_repository_head r)), (''patch'', patch)]))))))"

definition decode_result_failure :: "payload \<Rightarrow> worker_failure option res" where
  "decode_result_failure v = (if \<not> truthy v then Inr None
     else and_then (typed_text v) (\<lambda>s. and_then (decode_worker_failure s) (\<lambda>c. Inr (Some
       c))))"

definition decode_result_patch :: "payload \<Rightarrow> bounded_output option res" where
  "decode_result_patch v = (if \<not> truthy v then Inr None
     else and_then (output_from_dict v) (\<lambda>p. Inr (Some p)))"

definition result_from_dict :: "payload \<Rightarrow> worker_result res" where
  "result_from_dict v = (case v of
     PDict d \<Rightarrow>
       if \<not> (list_all (\<lambda>k. k \<in> set (result_fields @ [''base_repository_head'',
         ''patch''])) (map fst d)
         \<and> list_all (\<lambda>k. k \<in> set (map fst d)) result_fields)
       then Inl (ValueError ''unknown or missing worker result fields'')
       else
       and_then (and_then (typed_text (get d ''status'')) decode_worker_status) (\<lambda>status.
       and_then (decode_result_failure (get d ''failure_code'')) (\<lambda>failure_code.
       and_then (output_from_dict (get d ''stdout'')) (\<lambda>stdout.
       and_then (output_from_dict (get d ''stderr'')) (\<lambda>stderr.
       and_then (typed_texts (get d ''changed_files'')) (\<lambda>changed_files.
       and_then (attestation_from_dict (get d ''worker_attestation'')) (\<lambda>attestation.
       and_then (any_text (get d ''base_repository_head'')) (\<lambda>base_repository_head.
       and_then (decode_result_patch (get d ''patch'')) (\<lambda>patch.
       and_then (typed_int (get d ''schema_version'')) (\<lambda>schema_version.
       and_then (typed_text (get d ''execution_request_id'')) (\<lambda>execution_request_id.
       and_then (optional_int (get d ''return_code'')) (\<lambda>return_code.
       and_then (any_text (get d ''patch_digest'')) (\<lambda>patch_digest.
       and_then (optional_int (get d ''patch_size_bytes'')) (\<lambda>patch_size_bytes.
       and_then (typed_bool (get d ''patch_truncated'')) (\<lambda>patch_truncated.
       and_then (typed_number (get d ''duration_seconds'')) (\<lambda>duration_seconds.
       and_then (any_text (get d ''workspace_head'')) (\<lambda>workspace_head.
       let r = \<lparr>ws_schema_version = schema_version, ws_execution_request_id = execution_request_id,
         ws_status = status, ws_return_code = return_code, ws_stdout = stdout, ws_stderr = stderr,
         ws_changed_files = changed_files, ws_patch_digest = patch_digest,
         ws_patch_size_bytes = patch_size_bytes, ws_patch_truncated = patch_truncated,
         ws_duration_seconds = duration_seconds, ws_failure_code = failure_code,
         ws_workspace_head = workspace_head, ws_attestation = attestation,
         ws_base_repository_head = base_repository_head, ws_patch = patch\<rparr> in
       and_then (validate_worker_result None r) (\<lambda>_. Inr r)))))))))))))))))
   | _ \<Rightarrow> Inl (ValueError ''unknown or missing worker result fields''))"

definition encode_execution_result :: "execution_result \<Rightarrow> object res" where
  "encode_execution_result r =
     and_then (optional_res result_to_dict (xr_worker_result r)) (\<lambda>worker_result. Inr
     [(''argv'', texts (xr_argv r)), (''checkpoint_id'', PText (xr_checkpoint_id r)),
      (''duration_seconds'', PReal (xr_duration_seconds r)), (''error'', optional PText (xr_error r)),
      (''request_id'', PText (xr_request_id r)),
      (''return_code'', optional (\<lambda>i. PNum (PyInt i)) (xr_return_code r)),
      (''status'', PText (execution_status_text (xr_status r))), (''stderr'', PText (xr_stderr r)),
      (''stdout'', PText (xr_stdout r)), (''working_directory'', encode_path (xr_working_directory r)),
      (''worker_result'', worker_result)])"

definition optional_payload :: "(payload \<Rightarrow> 'a res) \<Rightarrow> payload \<Rightarrow> 'a
  option res" where
  "optional_payload f v = (if v = PNull then Inr None else and_then (f v) (\<lambda>x. Inr (Some x)))"

definition decode_execution_result :: "object \<Rightarrow> execution_result res" where
  "decode_execution_result d =
     and_then (require_str d ''request_id'') (\<lambda>request_id.
     and_then (require_str d ''checkpoint_id'') (\<lambda>checkpoint_id.
     and_then (tuple_str (get_or d ''argv'' (PList []))) (\<lambda>argv.
     and_then (decode_path (get d ''working_directory'')) (\<lambda>working_directory.
     and_then (and_then (require_str d ''status'') decode_execution_status) (\<lambda>status.
     and_then (any_int (get d ''return_code'')) (\<lambda>return_code.
     and_then (require_str d ''stdout'') (\<lambda>stdout.
     and_then (require_str d ''stderr'') (\<lambda>stderr.
     and_then (float_of (get d ''duration_seconds'')) (\<lambda>duration_seconds.
     and_then (any_text (get d ''error'')) (\<lambda>error.
     and_then (optional_payload result_from_dict (get d ''worker_result'')) (\<lambda>worker_result.
     Inr \<lparr>xr_request_id = request_id, xr_checkpoint_id = checkpoint_id, xr_argv = argv,
       xr_working_directory = working_directory, xr_status = status, xr_return_code = return_code,
       xr_stdout = stdout, xr_stderr = stderr, xr_duration_seconds = duration_seconds,
       xr_error = error, xr_worker_result = worker_result\<rparr>)))))))))))"

definition restored_execution_result :: "execution_result \<Rightarrow> execution_result" where
  "restored_execution_result r = r\<lparr>xr_working_directory := reread (xr_working_directory r)\<rparr>"

definition decode_context :: "payload \<Rightarrow> agent_context option res" where
  "decode_context v = (case v of PNull \<Rightarrow> Inr None | PContext c \<Rightarrow> Inr (Some c)
     | _ \<Rightarrow> Inl (ValidationError ''AgentContext''))"

definition encode_verification_check_result :: "verification_check_result \<Rightarrow> object" where
  "encode_verification_check_result r =
     [(''argv'', texts (vr_argv r)),
      (''duration_seconds'', PReal (vr_duration_seconds r)),
      (''error'', optional PText (vr_error r)),
      (''identifier'', PText (vr_identifier r)),
      (''return_code'', optional (\<lambda>i. PNum (PyInt i)) (vr_return_code r)),
      (''status'', PText (verification_status_value (vr_status r))),
      (''stderr'', PText (vr_stderr r)),
      (''stdout'', PText (vr_stdout r)),
      (''working_directory'', encode_path (vr_working_directory r))]"

definition decode_verification_check_result :: "object \<Rightarrow> verification_check_result res" where
  "decode_verification_check_result d =
     and_then (require_str d ''identifier'') (\<lambda>identifier.
     and_then (tuple_str (get_or d ''argv'' (PList []))) (\<lambda>argv.
     and_then (decode_path (get d ''working_directory'')) (\<lambda>working_directory.
     and_then (and_then (require_str d ''status'') decode_verification_status) (\<lambda>status.
     and_then (any_int (get d ''return_code'')) (\<lambda>return_code.
     and_then (require_str d ''stdout'') (\<lambda>stdout.
     and_then (require_str d ''stderr'') (\<lambda>stderr.
     and_then (float_of (get d ''duration_seconds'')) (\<lambda>duration_seconds.
     and_then (any_text (get d ''error'')) (\<lambda>error.
     Inr \<lparr>vr_identifier = identifier, vr_argv = argv, vr_working_directory = working_directory,
       vr_status = status, vr_return_code = return_code, vr_stdout = stdout, vr_stderr = stderr,
         vr_duration_seconds = duration_seconds, vr_error = error\<rparr>)))))))))"

definition restored_verification_check_result :: "verification_check_result \<Rightarrow>
  verification_check_result" where
  "restored_verification_check_result r = r\<lparr>vr_working_directory := reread (vr_working_directory
    r)\<rparr>"

definition encode_verification_report :: "verification_report \<Rightarrow> object" where
  "encode_verification_report r =
     [(''context'', optional PContext (rep_context r)),
      (''duration_seconds'', PReal (rep_duration_seconds r)),
      (''repository_root'', encode_path (rep_repository_root r)),
      (''results'', PList (map (\<lambda>x. PDict (encode_verification_check_result x)) (rep_results r))),
      (''status'', PText (verification_status_value (rep_status r)))]"

definition decode_verification_report :: "object \<Rightarrow> verification_report res" where
  "decode_verification_report d =
     and_then (decode_path (get d ''repository_root'')) (\<lambda>repository_root.
     and_then (decode_items decode_verification_check_result (get_or d ''results'' (PList [])))
       (\<lambda>results.
     and_then (and_then (require_str d ''status'') decode_verification_status) (\<lambda>status.
     and_then (float_of (get d ''duration_seconds'')) (\<lambda>duration_seconds.
     and_then (decode_context (get d ''context'')) (\<lambda>context.
     Inr \<lparr>rep_repository_root = repository_root, rep_results = results, rep_status = status,
       rep_duration_seconds = duration_seconds, rep_context = context\<rparr>)))))"

definition restored_verification_report :: "verification_report \<Rightarrow> verification_report" where
  "restored_verification_report r = r\<lparr>rep_repository_root := reread (rep_repository_root r),
     rep_results := map restored_verification_check_result (rep_results r)\<rparr>"

definition encode_review_finding :: "review_finding \<Rightarrow> object" where
  "encode_review_finding r =
     [(''category'', PText (review_category_text (rf_category r))),
      (''code'', PText (rf_code r)),
      (''evidence'', PText (rf_evidence r)),
      (''recommendation'', PText (rf_recommendation r)),
      (''severity'', PText (review_severity_text (rf_severity r))),
      (''summary'', PText (rf_summary r))]"

definition decode_review_finding :: "object \<Rightarrow> review_finding res" where
  "decode_review_finding d =
     and_then (require_str d ''code'') (\<lambda>code.
     and_then (and_then (require_str d ''category'') decode_review_category) (\<lambda>category.
     and_then (and_then (require_str d ''severity'') decode_review_severity) (\<lambda>severity.
     and_then (require_str d ''summary'') (\<lambda>summary.
     and_then (require_str d ''evidence'') (\<lambda>evidence.
     and_then (require_str d ''recommendation'') (\<lambda>recommendation.
     Inr \<lparr>rf_code = code, rf_category = category, rf_severity = severity, rf_summary = summary,
       rf_evidence = evidence, rf_recommendation = recommendation\<rparr>))))))"

definition encode_review_report :: "review_report \<Rightarrow> object" where
  "encode_review_report r =
     [(''checkpoint_id'', PText (rr_checkpoint_id r)),
      (''findings'', PList (map (\<lambda>x. PDict (encode_review_finding x)) (rr_findings r))),
      (''recommendations'', texts (rr_recommendations r)),
      (''request_id'', PText (rr_request_id r)),
      (''status'', PText (review_status_text (rr_status r)))]"

definition decode_review_report :: "object \<Rightarrow> review_report res" where
  "decode_review_report d =
     and_then (require_str d ''request_id'') (\<lambda>request_id.
     and_then (require_str d ''checkpoint_id'') (\<lambda>checkpoint_id.
     and_then (and_then (require_str d ''status'') decode_review_status) (\<lambda>status.
     and_then (decode_items decode_review_finding (get_or d ''findings'' (PList []))) (\<lambda>findings.
     and_then (tuple_str (get_or d ''recommendations'' (PList []))) (\<lambda>recommendations.
     Inr \<lparr>rr_request_id = request_id, rr_checkpoint_id = checkpoint_id, rr_status = status,
       rr_findings = findings, rr_recommendations = recommendations\<rparr>)))))"

definition encode_commit_request :: "commit_request \<Rightarrow> object" where
  "encode_commit_request r =
     [(''expected_branch'', optional PText (cr_expected_branch r)),
      (''expected_head'', optional PText (cr_expected_head r)),
      (''message'', PText (cr_message r)),
      (''paths'', paths (cr_paths r)),
      (''repository_root'', encode_path (cr_repository_root r))]"

definition decode_commit_request :: "object \<Rightarrow> commit_request res" where
  "decode_commit_request d =
     and_then (decode_path (get d ''repository_root'')) (\<lambda>repository_root.
     and_then (any_text (get d ''expected_branch'')) (\<lambda>expected_branch.
     and_then (any_text (get d ''expected_head'')) (\<lambda>expected_head.
     and_then (tuple_path (get_or d ''paths'' (PList []))) (\<lambda>paths.
     and_then (require_str d ''message'') (\<lambda>message.
     Inr \<lparr>cr_repository_root = repository_root, cr_expected_branch = expected_branch,
       cr_expected_head = expected_head, cr_paths = paths, cr_message = message\<rparr>)))))"

definition restored_commit_request :: "commit_request \<Rightarrow> commit_request" where
  "restored_commit_request r = r\<lparr>cr_paths := map reread (cr_paths r),
     cr_repository_root := reread (cr_repository_root r)\<rparr>"

definition encode_commit_result :: "commit_result \<Rightarrow> object" where
  "encode_commit_result r =
     [(''branch'', optional PText (cres_branch r)),
      (''commit_sha'', PText (cres_commit_sha r)),
      (''committed_files'', paths (cres_committed_files r)),
      (''message'', PText (cres_message r)),
      (''parent_head'', optional PText (cres_parent_head r)),
      (''repository_root'', encode_path (cres_repository_root r))]"

definition decode_commit_result :: "object \<Rightarrow> commit_result res" where
  "decode_commit_result d =
     and_then (decode_path (get d ''repository_root'')) (\<lambda>repository_root.
     and_then (any_text (get d ''branch'')) (\<lambda>branch.
     and_then (any_text (get d ''parent_head'')) (\<lambda>parent_head.
     and_then (require_str d ''commit_sha'') (\<lambda>commit_sha.
     and_then (require_str d ''message'') (\<lambda>message.
     and_then (tuple_path (get_or d ''committed_files'' (PList []))) (\<lambda>committed_files.
     Inr \<lparr>cres_repository_root = repository_root, cres_branch = branch,
       cres_parent_head = parent_head, cres_commit_sha = commit_sha, cres_message = message,
         cres_committed_files = committed_files\<rparr>))))))"

definition restored_commit_result :: "commit_result \<Rightarrow> commit_result" where
  "restored_commit_result r = r\<lparr>cres_committed_files := map reread (cres_committed_files r),
     cres_repository_root := reread (cres_repository_root r)\<rparr>"

section \<open>Artifacts of candidate workflows\<close>

definition encode_verification_specification :: "verification_specification \<Rightarrow> object" where
  "encode_verification_specification r =
     [(''pre_state'', PText (ovs_pre_state r)),
      (''expected_post_state'', PText (ovs_expected_post_state r)),
      (''identity_fingerprint'', PText (ovs_identity_fingerprint r)),
      (''health_requirement'', PText (ovs_health_requirement r)),
      (''unknown_outcome_policy'', PText (ovs_unknown_outcome_policy r))]"

definition decode_verification_specification :: "object \<Rightarrow> verification_specification res" where
  "decode_verification_specification d =
     and_then (require_str d ''pre_state'') (\<lambda>pre_state.
     and_then (require_str d ''expected_post_state'') (\<lambda>expected_post_state.
     and_then (require_str d ''identity_fingerprint'') (\<lambda>identity_fingerprint.
     and_then (require_str d ''health_requirement'') (\<lambda>health_requirement.
     and_then (require_str d ''unknown_outcome_policy'') (\<lambda>unknown_outcome_policy.
     Inr \<lparr>ovs_pre_state = pre_state, ovs_expected_post_state = expected_post_state,
       ovs_identity_fingerprint = identity_fingerprint, ovs_health_requirement = health_requirement,
         ovs_unknown_outcome_policy = unknown_outcome_policy\<rparr>)))))"

definition encode_candidate_metadata :: "candidate_workflow_metadata \<Rightarrow> object" where
  "encode_candidate_metadata r =
     [(''candidate_fingerprint'', PText (cwm_candidate_fingerprint r)),
      (''candidate_id'', PText (cwm_candidate_id r)),
      (''candidate_plan_fingerprint'', PText (cwm_candidate_plan_fingerprint r)),
      (''candidate_plan_id'', PText (cwm_candidate_plan_id r)),
      (''candidate_planning_session_id'', PText (cwm_candidate_planning_session_id r)),
      (''catalog_item_id'', optional PText (cwm_catalog_item_id r)),
      (''compatibility_assessment_id'', optional PText (cwm_compatibility_assessment_id r)),
      (''compatibility_status'', optional PText (cwm_compatibility_status r)),
      (''conversion_timestamp'', PTime (cwm_conversion_timestamp r)),
      (''core_revalidation_fingerprint'', PText (cwm_core_revalidation_fingerprint r)),
      (''core_revalidation_status'', PText (cwm_core_revalidation_status r)),
      (''evidence_ids'', texts (cwm_evidence_ids r)),
      (''execution_category'', PText (cwm_execution_category r)),
      (''execution_intent'', PText (cwm_execution_intent r)),
      (''effect_kind'', PText (effect_kind_text (cwm_effect_kind r))),
      (''relationship_ids'', texts (cwm_relationship_ids r)),
      (''source_recommendation_id'', PText (cwm_source_recommendation_id r)),
      (''source_subsystem'', PText (cwm_source_subsystem r)),
      (''target_id'', PText (cwm_target_id r)),
      (''target_type'', PText (cwm_target_type r))]"

definition decode_candidate_metadata :: "int \<Rightarrow> object \<Rightarrow> candidate_workflow_metadata
  res" where
  "decode_candidate_metadata schema_version d =
     and_then (require_str d ''candidate_planning_session_id'') (\<lambda>candidate_planning_session_id.
     and_then (require_str d ''candidate_id'') (\<lambda>candidate_id.
     and_then (require_str d ''candidate_fingerprint'') (\<lambda>candidate_fingerprint.
     and_then (require_str d ''candidate_plan_id'') (\<lambda>candidate_plan_id.
     and_then (require_str d ''candidate_plan_fingerprint'') (\<lambda>candidate_plan_fingerprint.
     and_then (require_str d ''source_recommendation_id'') (\<lambda>source_recommendation_id.
     and_then (require_str d ''source_subsystem'') (\<lambda>source_subsystem.
     and_then (any_text (get d ''catalog_item_id'')) (\<lambda>catalog_item_id.
     and_then (require_str d ''target_id'') (\<lambda>target_id.
     and_then (require_str d ''target_type'') (\<lambda>target_type.
     and_then (require_str d ''execution_category'') (\<lambda>execution_category.
     and_then (require_str d ''execution_intent'') (\<lambda>execution_intent.
     and_then (tuple_str (get_or d ''evidence_ids'' (PList []))) (\<lambda>evidence_ids.
     and_then (any_text (get d ''compatibility_assessment_id'')) (\<lambda>compatibility_assessment_id.
     and_then (any_text (get d ''compatibility_status'')) (\<lambda>compatibility_status.
     and_then (tuple_str (get_or d ''relationship_ids'' (PList []))) (\<lambda>relationship_ids.
     and_then (decode_datetime (get d ''conversion_timestamp'')) (\<lambda>conversion_timestamp.
     and_then (require_str d ''core_revalidation_status'') (\<lambda>core_revalidation_status.
     and_then (require_str d ''core_revalidation_fingerprint'') (\<lambda>core_revalidation_fingerprint.
     and_then (decode_versioned_effect schema_version d) (\<lambda>effect_kind.
     Inr \<lparr>cwm_candidate_planning_session_id = candidate_planning_session_id,
       cwm_candidate_id = candidate_id, cwm_candidate_fingerprint = candidate_fingerprint,
         cwm_candidate_plan_id = candidate_plan_id,
           cwm_candidate_plan_fingerprint = candidate_plan_fingerprint,
             cwm_source_recommendation_id = source_recommendation_id,
               cwm_source_subsystem = source_subsystem, cwm_catalog_item_id = catalog_item_id,
                 cwm_target_id = target_id, cwm_target_type = target_type,
                   cwm_execution_category = execution_category, cwm_execution_intent = execution_intent,
                     cwm_evidence_ids = evidence_ids,
                       cwm_compatibility_assessment_id = compatibility_assessment_id,
                         cwm_compatibility_status = compatibility_status,
                           cwm_relationship_ids = relationship_ids,
                             cwm_conversion_timestamp = conversion_timestamp,
                               cwm_core_revalidation_status = core_revalidation_status,
                                 cwm_core_revalidation_fingerprint = core_revalidation_fingerprint,
                                   cwm_effect_kind = effect_kind\<rparr>))))))))))))))))))))"

definition encode_implementation_request :: "candidate_implementation_request \<Rightarrow> object" where
  "encode_implementation_request r =
     [(''affected_files'', paths (cir_affected_files r)),
      (''argv'', texts (cir_argv r)),
      (''candidate_fingerprint'', PText (cir_candidate_fingerprint r)),
      (''candidate_id'', PText (cir_candidate_id r)),
      (''candidate_plan_fingerprint'', PText (cir_candidate_plan_fingerprint r)),
      (''candidate_plan_id'', PText (cir_candidate_plan_id r)),
      (''candidate_planning_session_id'', PText (cir_candidate_planning_session_id r)),
      (''compatibility_assessment_id'', optional PText (cir_compatibility_assessment_id r)),
      (''compatibility_status'', optional PText (cir_compatibility_status r)),
      (''evidence_ids'', texts (cir_evidence_ids r)),
      (''execution_intent'', PText (cir_execution_intent r)),
      (''generated_at'', PTime (cir_generated_at r)),
      (''identifier'', PText (cir_identifier r)),
      (''repository_branch'', optional PText (cir_repository_branch r)),
      (''repository_head'', PText (cir_repository_head r)),
      (''repository_root'', encode_path (cir_repository_root r)),
      (''translator_version'', PText (cir_translator_version r)),
      (''workflow_session_id'', PText (cir_workflow_session_id r)),
      (''working_directory'', encode_path (cir_working_directory r))]"

definition decode_implementation_request :: "object \<Rightarrow> candidate_implementation_request res"
  where
  "decode_implementation_request d =
     and_then (require_str d ''identifier'') (\<lambda>identifier.
     and_then (require_str d ''workflow_session_id'') (\<lambda>workflow_session_id.
     and_then (require_str d ''candidate_planning_session_id'') (\<lambda>candidate_planning_session_id.
     and_then (require_str d ''candidate_id'') (\<lambda>candidate_id.
     and_then (require_str d ''candidate_fingerprint'') (\<lambda>candidate_fingerprint.
     and_then (require_str d ''candidate_plan_id'') (\<lambda>candidate_plan_id.
     and_then (require_str d ''candidate_plan_fingerprint'') (\<lambda>candidate_plan_fingerprint.
     and_then (require_str d ''execution_intent'') (\<lambda>execution_intent.
     and_then (decode_path (get d ''repository_root'')) (\<lambda>repository_root.
     and_then (any_text (get d ''repository_branch'')) (\<lambda>repository_branch.
     and_then (require_str d ''repository_head'') (\<lambda>repository_head.
     and_then (tuple_str (get_or d ''argv'' (PList []))) (\<lambda>argv.
     and_then (decode_path (get d ''working_directory'')) (\<lambda>working_directory.
     and_then (tuple_path (get_or d ''affected_files'' (PList []))) (\<lambda>affected_files.
     and_then (tuple_str (get_or d ''evidence_ids'' (PList []))) (\<lambda>evidence_ids.
     and_then (any_text (get d ''compatibility_assessment_id'')) (\<lambda>compatibility_assessment_id.
     and_then (any_text (get d ''compatibility_status'')) (\<lambda>compatibility_status.
     and_then (require_str d ''translator_version'') (\<lambda>translator_version.
     and_then (decode_datetime (get d ''generated_at'')) (\<lambda>generated_at.
     Inr \<lparr>cir_identifier = identifier, cir_workflow_session_id = workflow_session_id,
       cir_candidate_planning_session_id = candidate_planning_session_id, cir_candidate_id = candidate_id,
         cir_candidate_fingerprint = candidate_fingerprint, cir_candidate_plan_id = candidate_plan_id,
           cir_candidate_plan_fingerprint = candidate_plan_fingerprint,
             cir_execution_intent = execution_intent, cir_repository_root = repository_root,
               cir_repository_branch = repository_branch, cir_repository_head = repository_head,
                 cir_argv = argv, cir_working_directory = working_directory,
                   cir_affected_files = affected_files, cir_evidence_ids = evidence_ids,
                     cir_compatibility_assessment_id = compatibility_assessment_id,
                       cir_compatibility_status = compatibility_status,
                         cir_translator_version = translator_version,
                           cir_generated_at = generated_at\<rparr>)))))))))))))))))))"

definition restored_implementation_request :: "candidate_implementation_request \<Rightarrow>
  candidate_implementation_request" where
  "restored_implementation_request r = r\<lparr>cir_affected_files := map reread (cir_affected_files r),
     cir_repository_root := reread (cir_repository_root r),
     cir_working_directory := reread (cir_working_directory r)\<rparr>"

text \<open>The fields of an action request; others are refused.\<close>

definition action_request_fields :: "string list" where
  "action_request_fields =
     [''request_id'', ''request_digest'', ''idempotency_key'', ''workflow_session_id'',
      ''candidate_planning_session_id'', ''candidate_id'', ''candidate_fingerprint'', ''candidate_plan_id'',
      ''candidate_plan_fingerprint'', ''effect_kind'', ''execution_intent'', ''provider_id'',
        ''resource_id'',
      ''resource_type'', ''provider_action_id'', ''target_fingerprint'', ''target_version'',
      ''disruption_scope'', ''evidence_ids'', ''expected_pre_state'', ''verification'', ''expires_at'',
      ''translator_version'', ''generated_at'']"

definition required_object :: "string \<Rightarrow> (object \<Rightarrow> 'a res) \<Rightarrow> payload
  \<Rightarrow> 'a res" where
  "required_object message f v = (case v of PDict d \<Rightarrow> f d | _ \<Rightarrow> persistence_error
    message)"

text \<open>The status lines of the work tree, each a pair of texts.\<close>

definition encode_pairs :: "(string \<times> string) list option \<Rightarrow> payload" where
  "encode_pairs rows = optional (\<lambda>xs. PList (map (\<lambda>(a, b). texts [a, b]) xs)) rows"

definition decode_pair :: "payload \<Rightarrow> (string \<times> string) res" where
  "decode_pair v = (case v of
     PList (PText a # PText b # rest) \<Rightarrow> Inr (a, b)
   | PList [] \<Rightarrow> Inl (IndexError ''list index out of range'')
   | PList [a] \<Rightarrow> Inl (IndexError ''list index out of range'')
   | _ \<Rightarrow> Inl untyped)"

definition decode_pairs :: "payload \<Rightarrow> (string \<times> string) list option res" where
  "decode_pairs v = (if v = PNull then Inr None
     else and_then (items_of v) (\<lambda>xs. and_then (traverse decode_pair xs) (\<lambda>rows. Inr (Some
       rows))))"

definition audit_events_of :: "payload \<Rightarrow> string list res" where
  "audit_events_of v = (case tuple_str v of
     Inl e \<Rightarrow> persistence_error ''Invalid operational execution audit events'' | Inr xs
       \<Rightarrow> Inr xs)"

definition encode_action_request :: "action_request \<Rightarrow> object" where
  "encode_action_request r =
     [(''request_id'', PText (oar_request_id r)),
      (''request_digest'', PText (oar_request_digest r)),
      (''idempotency_key'', PText (oar_idempotency_key r)),
      (''workflow_session_id'', PText (oar_workflow_session_id r)),
      (''candidate_planning_session_id'', PText (oar_candidate_planning_session_id r)),
      (''candidate_id'', PText (oar_candidate_id r)),
      (''candidate_fingerprint'', PText (oar_candidate_fingerprint r)),
      (''candidate_plan_id'', PText (oar_candidate_plan_id r)),
      (''candidate_plan_fingerprint'', PText (oar_candidate_plan_fingerprint r)),
      (''effect_kind'', PText (effect_kind_text (oar_effect_kind r))),
      (''execution_intent'', PText (oar_execution_intent r)),
      (''provider_id'', PText (oar_provider_id r)),
      (''resource_id'', PText (oar_resource_id r)),
      (''resource_type'', PText (oar_resource_type r)),
      (''provider_action_id'', PText (oar_provider_action_id r)),
      (''target_fingerprint'', PText (oar_target_fingerprint r)),
      (''target_version'', optional PText (oar_target_version r)),
      (''disruption_scope'', PText (oar_disruption_scope r)),
      (''evidence_ids'', texts (oar_evidence_ids r)),
      (''expected_pre_state'', PText (oar_expected_pre_state r)),
      (''verification'', PDict (encode_verification_specification (oar_verification r))),
      (''expires_at'', PTime (oar_expires_at r)),
      (''translator_version'', PText (oar_translator_version r)),
      (''generated_at'', PTime (oar_generated_at r))]"

definition decode_action_request :: "object \<Rightarrow> action_request res" where
  "decode_action_request d =
     and_then (reject_unknown_fields d action_request_fields) (\<lambda>_.
     and_then (require_str d ''request_id'') (\<lambda>request_id.
     and_then (require_str d ''request_digest'') (\<lambda>request_digest.
     and_then (require_str d ''idempotency_key'') (\<lambda>idempotency_key.
     and_then (require_str d ''workflow_session_id'') (\<lambda>workflow_session_id.
     and_then (require_str d ''candidate_planning_session_id'') (\<lambda>candidate_planning_session_id.
     and_then (require_str d ''candidate_id'') (\<lambda>candidate_id.
     and_then (require_str d ''candidate_fingerprint'') (\<lambda>candidate_fingerprint.
     and_then (require_str d ''candidate_plan_id'') (\<lambda>candidate_plan_id.
     and_then (require_str d ''candidate_plan_fingerprint'') (\<lambda>candidate_plan_fingerprint.
     and_then (and_then (require_str d ''effect_kind'') decode_effect_kind) (\<lambda>effect_kind.
     and_then (require_str d ''execution_intent'') (\<lambda>execution_intent.
     and_then (require_str d ''provider_id'') (\<lambda>provider_id.
     and_then (require_str d ''resource_id'') (\<lambda>resource_id.
     and_then (require_str d ''resource_type'') (\<lambda>resource_type.
     and_then (require_str d ''provider_action_id'') (\<lambda>provider_action_id.
     and_then (require_str d ''target_fingerprint'') (\<lambda>target_fingerprint.
     and_then (any_text (get d ''target_version'')) (\<lambda>target_version.
     and_then (require_str d ''disruption_scope'') (\<lambda>disruption_scope.
     and_then (tuple_str (get_or d ''evidence_ids'' (PList []))) (\<lambda>evidence_ids.
     and_then (require_str d ''expected_pre_state'') (\<lambda>expected_pre_state.
     and_then (required_object ''Invalid operational verification specification''
       decode_verification_specification (get d ''verification'')) (\<lambda>verification.
     and_then (decode_datetime (get d ''expires_at'')) (\<lambda>expires_at.
     and_then (require_str d ''translator_version'') (\<lambda>translator_version.
     and_then (decode_datetime (get d ''generated_at'')) (\<lambda>generated_at.
     action_request_post_init \<lparr>oar_request_id = request_id, oar_request_digest = request_digest,
       oar_idempotency_key = idempotency_key, oar_workflow_session_id = workflow_session_id,
         oar_candidate_planning_session_id = candidate_planning_session_id,
           oar_candidate_id = candidate_id, oar_candidate_fingerprint = candidate_fingerprint,
             oar_candidate_plan_id = candidate_plan_id,
               oar_candidate_plan_fingerprint = candidate_plan_fingerprint, oar_effect_kind = effect_kind,
                 oar_execution_intent = execution_intent, oar_provider_id = provider_id,
                   oar_resource_id = resource_id, oar_resource_type = resource_type,
                     oar_provider_action_id = provider_action_id,
                       oar_target_fingerprint = target_fingerprint, oar_target_version = target_version,
                         oar_disruption_scope = disruption_scope, oar_evidence_ids = evidence_ids,
                           oar_expected_pre_state = expected_pre_state, oar_verification = verification,
                             oar_expires_at = expires_at, oar_translator_version = translator_version,
                               oar_generated_at = generated_at\<rparr>)))))))))))))))))))))))))"

definition encode_candidate_verification_plan :: "candidate_verification_plan \<Rightarrow> object" where
  "encode_candidate_verification_plan r =
     [(''identifier'', PText (cvp_identifier r)),
      (''workflow_session_id'', PText (cvp_workflow_session_id r)),
      (''candidate_planning_session_id'', PText (cvp_candidate_planning_session_id r)),
      (''candidate_id'', PText (cvp_candidate_id r)),
      (''candidate_fingerprint'', PText (cvp_candidate_fingerprint r)),
      (''candidate_plan_id'', PText (cvp_candidate_plan_id r)),
      (''candidate_plan_fingerprint'', PText (cvp_candidate_plan_fingerprint r)),
      (''implementation_request_id'', PText (cvp_implementation_request_id r)),
      (''execution_result_id'', PText (cvp_execution_result_id r)),
      (''repository_root'', encode_path (cvp_repository_root r)),
      (''repository_branch'', optional PText (cvp_repository_branch r)),
      (''base_head'', PText (cvp_base_head r)),
      (''post_execution_head'', PText (cvp_post_execution_head r)),
      (''baseline_status'', encode_pairs (cvp_baseline_status r)),
      (''post_execution_status'', encode_pairs (cvp_post_execution_status r)),
      (''changed_files'', paths (cvp_changed_files r)),
      (''changed_files_digest'', PText (cvp_changed_files_digest r)),
      (''approved_affected_files'', paths (cvp_approved_affected_files r)),
      (''verification_checks'', PList (map (\<lambda>x. PDict (encode_verification_check x))
        (cvp_verification_checks r))),
      (''verifier_version'', PText (cvp_verifier_version r)),
      (''generated_at'', PTime (cvp_generated_at r))]"

definition decode_candidate_verification_plan :: "object \<Rightarrow> candidate_verification_plan res"
  where
  "decode_candidate_verification_plan d =
     and_then (require_str d ''identifier'') (\<lambda>identifier.
     and_then (require_str d ''workflow_session_id'') (\<lambda>workflow_session_id.
     and_then (require_str d ''candidate_planning_session_id'') (\<lambda>candidate_planning_session_id.
     and_then (require_str d ''candidate_id'') (\<lambda>candidate_id.
     and_then (require_str d ''candidate_fingerprint'') (\<lambda>candidate_fingerprint.
     and_then (require_str d ''candidate_plan_id'') (\<lambda>candidate_plan_id.
     and_then (require_str d ''candidate_plan_fingerprint'') (\<lambda>candidate_plan_fingerprint.
     and_then (require_str d ''implementation_request_id'') (\<lambda>implementation_request_id.
     and_then (require_str d ''execution_result_id'') (\<lambda>execution_result_id.
     and_then (decode_path (get d ''repository_root'')) (\<lambda>repository_root.
     and_then (any_text (get d ''repository_branch'')) (\<lambda>repository_branch.
     and_then (require_str d ''base_head'') (\<lambda>base_head.
     and_then (require_str d ''post_execution_head'') (\<lambda>post_execution_head.
     and_then (decode_pairs (get d ''baseline_status'')) (\<lambda>baseline_status.
     and_then (decode_pairs (get d ''post_execution_status'')) (\<lambda>post_execution_status.
     and_then (tuple_path (get_or d ''changed_files'' (PList []))) (\<lambda>changed_files.
     and_then (require_str d ''changed_files_digest'') (\<lambda>changed_files_digest.
     and_then (tuple_path (get_or d ''approved_affected_files'' (PList [])))
       (\<lambda>approved_affected_files.
     and_then (decode_items decode_verification_check (get_or d ''verification_checks'' (PList [])))
       (\<lambda>verification_checks.
     and_then (require_str d ''verifier_version'') (\<lambda>verifier_version.
     and_then (decode_datetime (get d ''generated_at'')) (\<lambda>generated_at.
     Inr \<lparr>cvp_identifier = identifier, cvp_workflow_session_id = workflow_session_id,
       cvp_candidate_planning_session_id = candidate_planning_session_id, cvp_candidate_id = candidate_id,
         cvp_candidate_fingerprint = candidate_fingerprint, cvp_candidate_plan_id = candidate_plan_id,
           cvp_candidate_plan_fingerprint = candidate_plan_fingerprint,
             cvp_implementation_request_id = implementation_request_id,
               cvp_execution_result_id = execution_result_id, cvp_repository_root = repository_root,
                 cvp_repository_branch = repository_branch, cvp_base_head = base_head,
                   cvp_post_execution_head = post_execution_head, cvp_baseline_status = baseline_status,
                     cvp_post_execution_status = post_execution_status, cvp_changed_files = changed_files,
                       cvp_changed_files_digest = changed_files_digest,
                         cvp_approved_affected_files = approved_affected_files,
                           cvp_verification_checks = verification_checks,
                             cvp_verifier_version = verifier_version,
                               cvp_generated_at = generated_at\<rparr>)))))))))))))))))))))"

definition restored_candidate_verification_plan :: "candidate_verification_plan \<Rightarrow>
  candidate_verification_plan" where
  "restored_candidate_verification_plan r = r\<lparr>cvp_repository_root := reread (cvp_repository_root r),
     cvp_changed_files := map reread (cvp_changed_files r),
     cvp_approved_affected_files := map reread (cvp_approved_affected_files r),
     cvp_verification_checks := map restored_verification_check (cvp_verification_checks r)\<rparr>"

definition encode_check_evidence :: "candidate_check_evidence \<Rightarrow> object" where
  "encode_check_evidence r =
     [(''identifier'', PText (cce_identifier r)),
      (''status'', PText (verification_status_value (cce_status r))),
      (''return_code'', optional (\<lambda>i. PNum (PyInt i)) (cce_return_code r)),
      (''stdout_digest'', PText (cce_stdout_digest r)),
      (''stderr_digest'', PText (cce_stderr_digest r)),
      (''output_truncated'', PBool (cce_output_truncated r)),
      (''duration_seconds'', PReal (cce_duration_seconds r)),
      (''error'', optional PText (cce_error r))]"

definition decode_check_evidence :: "object \<Rightarrow> candidate_check_evidence res" where
  "decode_check_evidence d =
     and_then (require_str d ''identifier'') (\<lambda>identifier.
     and_then (and_then (require_str d ''status'') decode_verification_status) (\<lambda>status.
     and_then (any_int (get d ''return_code'')) (\<lambda>return_code.
     and_then (require_str d ''stdout_digest'') (\<lambda>stdout_digest.
     and_then (require_str d ''stderr_digest'') (\<lambda>stderr_digest.
     and_then (Inr (truthy (get d ''output_truncated''))) (\<lambda>output_truncated.
     and_then (float_of (get_or d ''duration_seconds'' (PReal 0))) (\<lambda>duration_seconds.
     and_then (any_text (get d ''error'')) (\<lambda>error.
     Inr \<lparr>cce_identifier = identifier, cce_status = status, cce_return_code = return_code,
       cce_stdout_digest = stdout_digest, cce_stderr_digest = stderr_digest,
         cce_output_truncated = output_truncated, cce_duration_seconds = duration_seconds,
           cce_error = error\<rparr>))))))))"

definition encode_verification_evidence :: "candidate_verification_evidence \<Rightarrow> object" where
  "encode_verification_evidence r =
     [(''identifier'', PText (cve_identifier r)),
      (''verification_plan_id'', PText (cve_verification_plan_id r)),
      (''workflow_id'', PText (cve_workflow_id r)),
      (''candidate_id'', PText (cve_candidate_id r)),
      (''candidate_fingerprint'', PText (cve_candidate_fingerprint r)),
      (''plan_fingerprint'', PText (cve_plan_fingerprint r)),
      (''implementation_request_id'', PText (cve_implementation_request_id r)),
      (''changed_files_digest'', PText (cve_changed_files_digest r)),
      (''repository_branch'', optional PText (cve_repository_branch r)),
      (''repository_head'', optional PText (cve_repository_head r)),
      (''check_results'', PList (map (\<lambda>x. PDict (encode_check_evidence x)) (cve_check_results r))),
      (''status'', PText (verification_status_value (cve_status r))),
      (''started_at'', PTime (cve_started_at r)),
      (''completed_at'', PTime (cve_completed_at r)),
      (''verifier_version'', PText (cve_verifier_version r))]"

definition decode_verification_evidence :: "object \<Rightarrow> candidate_verification_evidence res" where
  "decode_verification_evidence d =
     and_then (require_str d ''identifier'') (\<lambda>identifier.
     and_then (require_str d ''verification_plan_id'') (\<lambda>verification_plan_id.
     and_then (require_str d ''workflow_id'') (\<lambda>workflow_id.
     and_then (require_str d ''candidate_id'') (\<lambda>candidate_id.
     and_then (require_str d ''candidate_fingerprint'') (\<lambda>candidate_fingerprint.
     and_then (require_str d ''plan_fingerprint'') (\<lambda>plan_fingerprint.
     and_then (require_str d ''implementation_request_id'') (\<lambda>implementation_request_id.
     and_then (require_str d ''changed_files_digest'') (\<lambda>changed_files_digest.
     and_then (any_text (get d ''repository_branch'')) (\<lambda>repository_branch.
     and_then (any_text (get d ''repository_head'')) (\<lambda>repository_head.
     and_then (decode_items decode_check_evidence (get_or d ''check_results'' (PList [])))
       (\<lambda>check_results.
     and_then (and_then (require_str d ''status'') decode_verification_status) (\<lambda>status.
     and_then (decode_datetime (get d ''started_at'')) (\<lambda>started_at.
     and_then (decode_datetime (get d ''completed_at'')) (\<lambda>completed_at.
     and_then (require_str d ''verifier_version'') (\<lambda>verifier_version.
     Inr \<lparr>cve_identifier = identifier, cve_verification_plan_id = verification_plan_id,
       cve_workflow_id = workflow_id, cve_candidate_id = candidate_id,
         cve_candidate_fingerprint = candidate_fingerprint, cve_plan_fingerprint = plan_fingerprint,
           cve_implementation_request_id = implementation_request_id,
             cve_changed_files_digest = changed_files_digest, cve_repository_branch = repository_branch,
               cve_repository_head = repository_head, cve_check_results = check_results,
                 cve_status = status, cve_started_at = started_at, cve_completed_at = completed_at,
                   cve_verifier_version = verifier_version\<rparr>)))))))))))))))"

definition encode_candidate_review_result :: "candidate_review_result \<Rightarrow> object" where
  "encode_candidate_review_result r =
     [(''identifier'', PText (crr_identifier r)),
      (''verification_plan_id'', PText (crr_verification_plan_id r)),
      (''verification_evidence_id'', PText (crr_verification_evidence_id r)),
      (''workflow_id'', PText (crr_workflow_id r)),
      (''status'', PText (review_status_text (crr_status r))),
      (''failure_code'', optional PText (crr_failure_code r)),
      (''reviewed_content_fingerprint'', optional PText (crr_reviewed_content_fingerprint r)),
      (''generated_at'', PTime (crr_generated_at r))]"

definition decode_candidate_review_result :: "object \<Rightarrow> candidate_review_result res" where
  "decode_candidate_review_result d =
     and_then (require_str d ''identifier'') (\<lambda>identifier.
     and_then (require_str d ''verification_plan_id'') (\<lambda>verification_plan_id.
     and_then (require_str d ''verification_evidence_id'') (\<lambda>verification_evidence_id.
     and_then (require_str d ''workflow_id'') (\<lambda>workflow_id.
     and_then (and_then (require_str d ''status'') decode_review_status) (\<lambda>status.
     and_then (decode_failure_code (get d ''failure_code'')) (\<lambda>failure_code.
     and_then (any_text (get d ''reviewed_content_fingerprint'')) (\<lambda>reviewed_content_fingerprint.
     and_then (decode_datetime (get d ''generated_at'')) (\<lambda>generated_at.
     Inr \<lparr>crr_identifier = identifier, crr_verification_plan_id = verification_plan_id,
       crr_verification_evidence_id = verification_evidence_id, crr_workflow_id = workflow_id,
         crr_status = status, crr_failure_code = failure_code,
           crr_reviewed_content_fingerprint = reviewed_content_fingerprint,
             crr_generated_at = generated_at\<rparr>))))))))"

definition encode_execution_reference :: "operational_execution_reference \<Rightarrow> object" where
  "encode_execution_reference r =
     [(''audit_events'', texts (oxr_audit_events r)),
      (''controlled_reason'', optional PText (oxr_controlled_reason r)),
      (''dispatch_status'', optional PText (oxr_dispatch_status r)),
      (''last_observed_at'', PTime (oxr_last_observed_at r)),
      (''ledger_state'', optional PText (oxr_ledger_state r)),
      (''provider_operation_id'', optional PText (oxr_provider_operation_id r)),
      (''request_digest'', PText (oxr_request_digest r)),
      (''request_id'', PText (oxr_request_id r)),
      (''stage'', PText (stage_text (oxr_stage r))),
      (''submitted_at'', optional PTime (oxr_submitted_at r)),
      (''terminal'', PBool (oxr_terminal r)),
      (''verification_status'', optional PText (oxr_verification_status r))]"

definition decode_execution_reference :: "object \<Rightarrow> operational_execution_reference res" where
  "decode_execution_reference d =
     and_then (audit_events_of (get_or d ''audit_events'' (PList []))) (\<lambda>audit_events.
     and_then (require_str d ''request_id'') (\<lambda>request_id.
     and_then (require_str d ''request_digest'') (\<lambda>request_digest.
     and_then (and_then (require_str d ''stage'') decode_execution_stage) (\<lambda>stage.
     and_then (any_text (get d ''dispatch_status'')) (\<lambda>dispatch_status.
     and_then (any_text (get d ''ledger_state'')) (\<lambda>ledger_state.
     and_then (any_text (get d ''provider_operation_id'')) (\<lambda>provider_operation_id.
     and_then (any_text (get d ''verification_status'')) (\<lambda>verification_status.
     and_then (decode_optional_datetime (get d ''submitted_at'')) (\<lambda>submitted_at.
     and_then (decode_datetime (get d ''last_observed_at'')) (\<lambda>last_observed_at.
     and_then (Inr (truthy (get d ''terminal''))) (\<lambda>terminal.
     and_then (any_text (get d ''controlled_reason'')) (\<lambda>controlled_reason.
     Inr \<lparr>oxr_request_id = request_id, oxr_request_digest = request_digest, oxr_stage = stage,
       oxr_dispatch_status = dispatch_status, oxr_ledger_state = ledger_state,
         oxr_provider_operation_id = provider_operation_id, oxr_verification_status = verification_status,
           oxr_submitted_at = submitted_at, oxr_last_observed_at = last_observed_at,
             oxr_terminal = terminal, oxr_controlled_reason = controlled_reason,
               oxr_audit_events = audit_events\<rparr>))))))))))))"

section \<open>What is read back\<close>

lemma sprint_status_codec [codec]: "decode_sprint_status (encode_sprint_status r) = Inr (r)"
  by (simp add: decode_sprint_status_def encode_sprint_status_def codec)

lemma sprint_status_optional [codec]:
  "optional_object m decode_sprint_status (optional (\<lambda>r. PDict (encode_sprint_status r)) x) = Inr (x)"
  by (cases x) (simp_all add: optional_object_def optional_def sprint_status_codec)

lemma roadmap_checkpoint_codec [codec]: "decode_roadmap_checkpoint (encode_roadmap_checkpoint r) = Inr (restored_roadmap_checkpoint r)"
  by (simp add: decode_roadmap_checkpoint_def encode_roadmap_checkpoint_def restored_roadmap_checkpoint_def codec)

lemma plan_risk_codec [codec]: "decode_plan_risk (encode_plan_risk r) = Inr (r)"
  by (simp add: decode_plan_risk_def encode_plan_risk_def codec)

lemma plan_risk_items [codec]:
  "decode_items decode_plan_risk (PList (map (\<lambda>r. PDict (encode_plan_risk r)) rs)) = Inr (rs)"
  by (simp add: decode_items_map [where h = "\<lambda>r. r"] plan_risk_codec)

lemma plan_codec [codec]: "decode_plan (encode_plan r) = Inr (restored_plan r)"
  by (simp add: decode_plan_def encode_plan_def restored_plan_def codec)

lemma plan_optional [codec]:
  "optional_object m decode_plan (optional (\<lambda>r. PDict (encode_plan r)) x) = Inr (map_option restored_plan x)"
  by (cases x) (simp_all add: optional_object_def optional_def plan_codec)

lemma environment_codec:
  "is_sha256_hex (environment_digest v) \<Longrightarrow> decode_environment (encode_environment v) = Inr (restored_environment v)"
  by (simp add: decode_environment_def encode_environment_def restored_environment_def validate_digest_def codec)

definition check_persistable :: "verification_check \<Rightarrow> bool" where
  "check_persistable c \<longleftrightarrow> list_all (\<lambda>v. is_sha256_hex (environment_digest v)) (vc_environment c)"

lemma verification_check_codec:
  assumes "check_persistable c"
  shows "decode_verification_check (encode_verification_check c) = Inr (restored_verification_check c)"
proof -
  have "decode_items decode_environment (PList (map (\<lambda>v. PDict (encode_environment v)) (vc_environment c)))
      = Inr (map restored_environment (vc_environment c))"
    by (rule decode_items_map) (use assms in \<open>simp add: check_persistable_def list_all_iff environment_codec\<close>)
  then show ?thesis
    by (simp add: decode_verification_check_def encode_verification_check_def restored_verification_check_def codec)
qed

lemma verification_check_items:
  "list_all check_persistable cs \<Longrightarrow>
     decode_items decode_verification_check (PList (map (\<lambda>c. PDict (encode_verification_check c)) cs))
       = Inr (map restored_verification_check cs)"
  by (rule decode_items_map) (simp add: list_all_iff verification_check_codec)

lemma architecture_assessment_codec [codec]: "decode_architecture_assessment (encode_architecture_assessment r) = Inr (r)"
  by (simp add: decode_architecture_assessment_def encode_architecture_assessment_def codec)

lemma architecture_assessment_items [codec]:
  "decode_items decode_architecture_assessment (PList (map (\<lambda>r. PDict (encode_architecture_assessment r)) rs)) = Inr (rs)"
  by (simp add: decode_items_map [where h = "\<lambda>r. r"] architecture_assessment_codec)

lemma test_evidence_codec [codec]: "decode_test_evidence (encode_test_evidence r) = Inr (r)"
  by (simp add: decode_test_evidence_def encode_test_evidence_def codec)

lemma test_evidence_items [codec]:
  "decode_items decode_test_evidence (PList (map (\<lambda>r. PDict (encode_test_evidence r)) rs)) = Inr (rs)"
  by (simp add: decode_items_map [where h = "\<lambda>r. r"] test_evidence_codec)

lemma workflow_request_codec:
  "list_all check_persistable (wq_verification_checks r) \<Longrightarrow>
     decode_workflow_request (encode_workflow_request r) = Inr (restored_workflow_request r)"
  by (simp add: decode_workflow_request_def encode_workflow_request_def restored_workflow_request_def codec
      verification_check_items)

lemma model_response_codec [codec]: "decode_model_response (encode_model_response r) = Inr (r)"
  by (simp add: decode_model_response_def encode_model_response_def codec)

lemma model_response_optional [codec]:
  "optional_object m decode_model_response (optional (\<lambda>r. PDict (encode_model_response r)) x) = Inr (x)"
  by (cases x) (simp_all add: optional_object_def optional_def model_response_codec)

lemma typed_readers [codec]:
  "typed_text (PText s) = Inr s" "typed_int (PNum (PyInt i)) = Inr i" "typed_bool (PBool b) = Inr b"
  "typed_number (PNum n) = Inr n" "optional_int (optional (\<lambda>i. PNum (PyInt i)) k) = Inr k"
  by (simp_all add: typed_text_def any_text_def typed_int_def typed_bool_def typed_number_def
      optional_int_def optional_def split: option.split)

lemma typed_texts_texts [codec]: "typed_texts (texts xs) = Inr xs"
  by (simp add: typed_texts_def texts_def items_of_def traverse_map_Inr [where h = "\<lambda>s. s", simplified] codec)

lemma request_codec:
  assumes "request_to_dict r = Inr p"
  shows "request_from_dict p = Inr r"
proof -
  have valid: "validate_worker_request True r = Inr ()" and p: "p = PDict (request_object r)"
    using assms by (simp_all add: request_to_dict_def res_simps)
  have "same_fields (request_object r) request_fields"
    by (simp add: same_fields_def request_object_def request_fields_def)
  then show ?thesis
    unfolding p request_from_dict_def using valid by (cases r) (simp add: request_object_def codec Let_def)
qed

lemma output_codec: "output_to_dict r = Inr p \<Longrightarrow> output_from_dict p = Inr r \<and> truthy p \<and> p \<noteq> PNull"
  by (cases r) (auto simp: output_to_dict_def output_from_dict_def res_simps same_fields_def codec truthy_def Let_def)

lemma attestation_codec: "attestation_to_dict r = Inr p \<Longrightarrow> attestation_from_dict p = Inr r"
  by (cases r) (auto simp: attestation_to_dict_def attestation_from_dict_def attestation_fields_def res_simps
      same_fields_def codec Let_def)

lemma failure_code_nonempty: "failure_code_text c \<noteq> []"
  by (cases c) simp_all

lemma result_codec:
  assumes "result_to_dict r = Inr p"
  shows "result_from_dict p = Inr r \<and> p \<noteq> PNull"
proof -
  obtain stdout stderr attestation patch where valid: "validate_worker_result None r = Inr ()"
    and parts: "output_to_dict (ws_stdout r) = Inr stdout" "output_to_dict (ws_stderr r) = Inr stderr"
      "attestation_to_dict (ws_attestation r) = Inr attestation"
      "optional_res output_to_dict (ws_patch r) = Inr patch"
    and p: "p = PDict
       [(''schema_version'', PNum (PyInt (ws_schema_version r))),
        (''execution_request_id'', PText (ws_execution_request_id r)),
        (''status'', PText (worker_status_text (ws_status r))),
        (''return_code'', optional (\<lambda>i. PNum (PyInt i)) (ws_return_code r)),
        (''stdout'', stdout), (''stderr'', stderr), (''changed_files'', texts (ws_changed_files r)),
        (''patch_digest'', optional PText (ws_patch_digest r)),
        (''patch_size_bytes'', optional (\<lambda>i. PNum (PyInt i)) (ws_patch_size_bytes r)),
        (''patch_truncated'', PBool (ws_patch_truncated r)),
        (''duration_seconds'', PNum (ws_duration_seconds r)),
        (''failure_code'', optional (\<lambda>c. PText (failure_code_text c)) (ws_failure_code r)),
        (''workspace_head'', optional PText (ws_workspace_head r)), (''worker_attestation'', attestation),
        (''base_repository_head'', optional PText (ws_base_repository_head r)), (''patch'', patch)]"
    using assms by (auto simp: result_to_dict_def res_simps)
  have patch: "decode_result_patch patch = Inr (ws_patch r)"
    using parts(4) output_codec
    by (cases "ws_patch r") (auto simp: optional_res_def decode_result_patch_def truthy_def [of PNull])
  have failure: "decode_result_failure (optional (\<lambda>c. PText (failure_code_text c)) (ws_failure_code r))
      = Inr (ws_failure_code r)"
    by (cases "ws_failure_code r")
      (simp_all add: decode_result_failure_def optional_def truthy_def failure_code_nonempty codec)
  show ?thesis
    unfolding p result_from_dict_def
    using valid patch failure output_codec [OF parts(1)] output_codec [OF parts(2)] attestation_codec [OF parts(3)]
    by (cases r) (simp add: result_fields_def codec Let_def)
qed

lemma execution_result_codec:
  assumes "encode_execution_result r = Inr d"
  shows "decode_execution_result d = Inr (restored_execution_result r)"
proof -
  obtain w where w: "optional_res result_to_dict (xr_worker_result r) = Inr w"
    and d: "d = [(''argv'', texts (xr_argv r)), (''checkpoint_id'', PText (xr_checkpoint_id r)),
      (''duration_seconds'', PReal (xr_duration_seconds r)), (''error'', optional PText (xr_error r)),
      (''request_id'', PText (xr_request_id r)),
      (''return_code'', optional (\<lambda>i. PNum (PyInt i)) (xr_return_code r)),
      (''status'', PText (execution_status_text (xr_status r))), (''stderr'', PText (xr_stderr r)),
      (''stdout'', PText (xr_stdout r)), (''working_directory'', encode_path (xr_working_directory r)),
      (''worker_result'', w)]"
    using assms by (auto simp: encode_execution_result_def res_simps)
  have "optional_payload result_from_dict w = Inr (xr_worker_result r)"
    using w result_codec by (cases "xr_worker_result r") (auto simp: optional_res_def optional_payload_def)
  then show ?thesis
    unfolding d by (simp add: decode_execution_result_def restored_execution_result_def codec)
qed

lemma decode_context_optional [codec]: "decode_context (optional PContext c) = Inr c"
  by (cases c) (simp_all add: decode_context_def optional_def)

lemma verification_check_result_codec [codec]: "decode_verification_check_result (encode_verification_check_result r) = Inr (restored_verification_check_result r)"
  by (simp add: decode_verification_check_result_def encode_verification_check_result_def restored_verification_check_result_def codec)

lemma verification_check_result_items [codec]:
  "decode_items decode_verification_check_result (PList (map (\<lambda>r. PDict (encode_verification_check_result r)) rs)) = Inr (map restored_verification_check_result rs)"
  by (simp add: decode_items_map [where h = "restored_verification_check_result"] verification_check_result_codec)

lemma verification_report_codec [codec]: "decode_verification_report (encode_verification_report r) = Inr (restored_verification_report r)"
  by (simp add: decode_verification_report_def encode_verification_report_def restored_verification_report_def codec)

lemma verification_report_optional [codec]:
  "optional_object m decode_verification_report (optional (\<lambda>r. PDict (encode_verification_report r)) x) = Inr (map_option restored_verification_report x)"
  by (cases x) (simp_all add: optional_object_def optional_def verification_report_codec)

lemma review_finding_codec [codec]: "decode_review_finding (encode_review_finding r) = Inr (r)"
  by (simp add: decode_review_finding_def encode_review_finding_def codec)

lemma review_finding_items [codec]:
  "decode_items decode_review_finding (PList (map (\<lambda>r. PDict (encode_review_finding r)) rs)) = Inr (rs)"
  by (simp add: decode_items_map [where h = "\<lambda>r. r"] review_finding_codec)

lemma review_report_codec [codec]: "decode_review_report (encode_review_report r) = Inr (r)"
  by (simp add: decode_review_report_def encode_review_report_def codec)

lemma review_report_optional [codec]:
  "optional_object m decode_review_report (optional (\<lambda>r. PDict (encode_review_report r)) x) = Inr (x)"
  by (cases x) (simp_all add: optional_object_def optional_def review_report_codec)

lemma commit_request_codec [codec]: "decode_commit_request (encode_commit_request r) = Inr (restored_commit_request r)"
  by (simp add: decode_commit_request_def encode_commit_request_def restored_commit_request_def codec)

lemma commit_request_optional [codec]:
  "optional_object m decode_commit_request (optional (\<lambda>r. PDict (encode_commit_request r)) x) = Inr (map_option restored_commit_request x)"
  by (cases x) (simp_all add: optional_object_def optional_def commit_request_codec)

lemma commit_result_codec [codec]: "decode_commit_result (encode_commit_result r) = Inr (restored_commit_result r)"
  by (simp add: decode_commit_result_def encode_commit_result_def restored_commit_result_def codec)

lemma commit_result_optional [codec]:
  "optional_object m decode_commit_result (optional (\<lambda>r. PDict (encode_commit_result r)) x) = Inr (map_option restored_commit_result x)"
  by (cases x) (simp_all add: optional_object_def optional_def commit_result_codec)

lemma verification_specification_codec [codec]: "decode_verification_specification (encode_verification_specification r) = Inr (r)"
  by (simp add: decode_verification_specification_def encode_verification_specification_def codec)

lemma verification_specification_required [codec]:
  "required_object m decode_verification_specification (PDict (encode_verification_specification v)) = Inr v"
  by (simp add: required_object_def verification_specification_codec)

lemma candidate_metadata_codec:
  "schema_version \<noteq> 1 \<Longrightarrow> decode_candidate_metadata schema_version (encode_candidate_metadata r) = Inr r"
  by (simp add: decode_candidate_metadata_def encode_candidate_metadata_def decode_versioned_effect_def codec)

lemma implementation_request_codec [codec]: "decode_implementation_request (encode_implementation_request r) = Inr (restored_implementation_request r)"
  by (simp add: decode_implementation_request_def encode_implementation_request_def restored_implementation_request_def codec)

lemma implementation_request_optional [codec]:
  "optional_object m decode_implementation_request (optional (\<lambda>r. PDict (encode_implementation_request r)) x) = Inr (map_option restored_implementation_request x)"
  by (cases x) (simp_all add: optional_object_def optional_def implementation_request_codec)

lemma action_request_known_fields: "reject_unknown_fields (encode_action_request r) action_request_fields = Inr ()"
  by (simp add: reject_unknown_fields_def encode_action_request_def action_request_fields_def)

lemma action_request_codec: "decode_action_request (encode_action_request r) = action_request_post_init r"
  unfolding decode_action_request_def action_request_known_fields
  by (cases r) (simp add: encode_action_request_def codec)

lemma decode_pairs_pairs [codec]: "decode_pairs (encode_pairs rows) = Inr rows"
proof (cases rows)
  case (Some xs)
  have "traverse decode_pair (map (\<lambda>(a, b). texts [a, b]) xs) = Inr (map (\<lambda>x. x) xs)"
    by (rule traverse_map_Inr) (auto simp: decode_pair_def texts_def)
  with Some show ?thesis by (simp add: decode_pairs_def encode_pairs_def optional_def items_of_def)
qed (simp add: decode_pairs_def encode_pairs_def optional_def)

lemma audit_events_texts [codec]: "audit_events_of (texts xs) = Inr xs"
  by (simp add: audit_events_of_def codec)

lemma candidate_verification_plan_codec:
  "list_all check_persistable (cvp_verification_checks r) \<Longrightarrow>
     decode_candidate_verification_plan (encode_candidate_verification_plan r)
       = Inr (restored_candidate_verification_plan r)"
  by (simp add: decode_candidate_verification_plan_def encode_candidate_verification_plan_def
      restored_candidate_verification_plan_def codec verification_check_items)

lemma check_evidence_codec [codec]: "decode_check_evidence (encode_check_evidence r) = Inr (r)"
  by (simp add: decode_check_evidence_def encode_check_evidence_def codec)

lemma check_evidence_items [codec]:
  "decode_items decode_check_evidence (PList (map (\<lambda>r. PDict (encode_check_evidence r)) rs)) = Inr (rs)"
  by (simp add: decode_items_map [where h = "\<lambda>r. r"] check_evidence_codec)

lemma verification_evidence_codec [codec]: "decode_verification_evidence (encode_verification_evidence r) = Inr (r)"
  by (simp add: decode_verification_evidence_def encode_verification_evidence_def codec)

lemma verification_evidence_optional [codec]:
  "optional_object m decode_verification_evidence (optional (\<lambda>r. PDict (encode_verification_evidence r)) x) = Inr (x)"
  by (cases x) (simp_all add: optional_object_def optional_def verification_evidence_codec)

definition review_persistable :: "candidate_review_result \<Rightarrow> bool" where
  "review_persistable r \<longleftrightarrow> (case crr_failure_code r of None \<Rightarrow> True | Some c \<Rightarrow> c \<in> set verification_failure_codes)"

lemma failure_code_codec:
  assumes "review_persistable r"
  shows "decode_failure_code (optional PText (crr_failure_code r)) = Inr (crr_failure_code r)"
proof (cases "crr_failure_code r")
  case (Some c)
  then have c: "c \<in> set verification_failure_codes" using assms by (simp add: review_persistable_def)
  have "parse_enum ''CandidateVerificationFailureCode'' (\<lambda>c. c) verification_failure_codes c = Inr c"
    by (rule parse_enum_text [OF _ c]) code_simp
  moreover have "c \<noteq> []" using c by (auto simp: verification_failure_codes_def)
  ultimately show ?thesis using Some by (simp add: decode_failure_code_def codec optional_def any_text_def)
qed (simp add: decode_failure_code_def optional_def any_text_def)

lemma candidate_review_result_codec:
  "review_persistable r \<Longrightarrow> decode_candidate_review_result (encode_candidate_review_result r) = Inr r"
  by (simp add: decode_candidate_review_result_def encode_candidate_review_result_def codec failure_code_codec)

lemma execution_reference_codec [codec]: "decode_execution_reference (encode_execution_reference r) = Inr (r)"
  by (simp add: decode_execution_reference_def encode_execution_reference_def codec)

lemma execution_reference_optional [codec]:
  "optional_object m decode_execution_reference (optional (\<lambda>r. PDict (encode_execution_reference r)) x) = Inr (x)"
  by (cases x) (simp_all add: optional_object_def optional_def execution_reference_codec)

end
