(* ===== verification/StateCodec.thy ===== *)
theory StateCodec
  imports SnapshotCodec
begin

text \<open>
  The snapshot as a whole (\<open>persistence/snapshot.py\<close>): candidate planning sessions, workflow
  sessions, approvals, and the payload that holds them, with what is read back of each.
\<close>

definition optional_enum :: "(string \<Rightarrow> 'a res) \<Rightarrow> payload \<Rightarrow> 'a option
  res" where
  "optional_enum f v = (if v = PNull then Inr None
     else and_then (typed_text v) (\<lambda>s. and_then (f s) (\<lambda>x. Inr (Some x))))"

section \<open>Candidate planning sessions\<close>

definition decode_planning_status :: "string \<Rightarrow> planning_status res" where
  "decode_planning_status = parse_enum ''CandidatePlanningSessionStatus'' planning_status_text
    planning_statuses"

definition decode_core_intake_status :: "string \<Rightarrow> core_intake_status res" where
  "decode_core_intake_status =
     parse_enum ''CoreCandidatePlanningIntakeStatus'' core_intake_status_text core_intake_statuses"

definition decode_planning_failure_code :: "string \<Rightarrow> planning_failure_code res" where
  "decode_planning_failure_code =
     parse_enum ''CandidatePlanningFailureCode'' planning_failure_text planning_failure_codes"

definition encode_target :: "agent_target \<Rightarrow> object" where
  "encode_target r =
     [(''provider_id'', PText (atr_provider_id r)),
      (''resource_id'', PText (atr_resource_id r)),
      (''resource_type'', PText (atr_resource_type r)),
      (''resource_fingerprint'', PText (atr_resource_fingerprint r)),
      (''resource_version'', optional PText (atr_resource_version r)),
      (''expected_state'', PText (atr_expected_state r))]"

definition decode_target :: "object \<Rightarrow> agent_target res" where
  "decode_target d =
     and_then (require_str d ''provider_id'') (\<lambda>provider_id.
     and_then (require_str d ''resource_id'') (\<lambda>resource_id.
     and_then (require_str d ''resource_type'') (\<lambda>resource_type.
     and_then (require_str d ''resource_fingerprint'') (\<lambda>resource_fingerprint.
     and_then (any_text (get d ''resource_version'')) (\<lambda>resource_version.
     and_then (require_str d ''expected_state'') (\<lambda>expected_state.
     Inr \<lparr>atr_provider_id = provider_id, atr_resource_id = resource_id,
       atr_resource_type = resource_type, atr_resource_fingerprint = resource_fingerprint,
         atr_resource_version = resource_version, atr_expected_state = expected_state\<rparr>))))))"

definition encode_mutation :: "agent_mutation \<Rightarrow> object" where
  "encode_mutation r =
     [(''file'', encode_path (amu_file r)),
      (''service'', PText (amu_service r)),
      (''property'', PText (amu_property r)),
      (''operation'', PText (amu_operation r)),
      (''expected_value'', optional PText (amu_expected_value r)),
      (''desired_value'', PText (amu_desired_value r)),
      (''preservation_constraints'', texts (amu_preservation_constraints r))]"

definition decode_mutation :: "object \<Rightarrow> agent_mutation res" where
  "decode_mutation d =
     and_then (decode_path (get d ''file'')) (\<lambda>file.
     and_then (require_str d ''service'') (\<lambda>service.
     and_then (require_str d ''property'') (\<lambda>property.
     and_then (require_str d ''operation'') (\<lambda>operation.
     and_then (any_text (get d ''expected_value'')) (\<lambda>expected_value.
     and_then (require_str d ''desired_value'') (\<lambda>desired_value.
     and_then (tuple_str (get_or d ''preservation_constraints'' (PList [])))
       (\<lambda>preservation_constraints.
     Inr \<lparr>amu_file = file, amu_service = service, amu_property = property,
       amu_operation = operation, amu_desired_value = desired_value, amu_expected_value = expected_value,
         amu_preservation_constraints = preservation_constraints\<rparr>)))))))"

definition restored_mutation :: "agent_mutation \<Rightarrow> agent_mutation" where
  "restored_mutation r = r\<lparr>amu_file := reread (amu_file r)\<rparr>"

definition encode_planning_failure :: "planning_failure \<Rightarrow> object" where
  "encode_planning_failure r =
     [(''code'', PText (planning_failure_text (pfl_code r))),
      (''message'', PText (pfl_message r))]"

definition decode_planning_failure :: "object \<Rightarrow> planning_failure res" where
  "decode_planning_failure d =
     and_then (and_then (require_str d ''code'') decode_planning_failure_code) (\<lambda>code.
     and_then (require_str d ''message'') (\<lambda>message.
     Inr \<lparr>pfl_code = code, pfl_message = message\<rparr>))"

definition encode_candidate_snapshot :: "candidate_snapshot \<Rightarrow> object" where
  "encode_candidate_snapshot r =
     [(''candidate_fingerprint'', PText (csn_candidate_fingerprint r)),
      (''candidate_id'', PText (csn_candidate_id r)),
      (''catalog_item_id'', optional PText (csn_catalog_item_id r)),
      (''compatibility_assessment_id'', optional PText (csn_compatibility_assessment_id r)),
      (''compatibility_status'', optional PText (csn_compatibility_status r)),
      (''constraints'', texts (csn_constraints r)),
      (''evidence_ids'', texts (csn_evidence_ids r)),
      (''execution_category'', PText (csn_execution_category r)),
      (''execution_intent'', PText (csn_execution_intent r)),
      (''effect_kind'', PText (effect_kind_text (csn_effect_kind r))),
      (''expires_at'', optional PTime (csn_expires_at r)),
      (''intake_reason_codes'', texts (csn_intake_reason_codes r)),
      (''intake_status'', PText (core_intake_status_text (csn_intake_status r))),
      (''intake_timestamp'', PTime (csn_intake_timestamp r)),
      (''rationale'', PText (csn_rationale r)),
      (''recommendation_class'', PText (csn_recommendation_class r)),
      (''relationship_ids'', texts (csn_relationship_ids r)),
      (''required_approval_level'', PText (csn_required_approval_level r)),
      (''source_recommendation_id'', PText (csn_source_recommendation_id r)),
      (''source_subsystem'', PText (csn_source_subsystem r)),
      (''target_id'', PText (csn_target_id r)),
      (''target_type'', PText (csn_target_type r)),
      (''mutation'', optional (\<lambda>x. PDict (encode_mutation x)) (csn_mutation r)),
      (''operational_target'', optional (\<lambda>x. PDict (encode_target x)) (csn_operational_target r))]"

definition decode_candidate_snapshot :: "object \<Rightarrow> candidate_snapshot res" where
  "decode_candidate_snapshot d =
     and_then (require_str d ''candidate_id'') (\<lambda>candidate_id.
     and_then (require_str d ''candidate_fingerprint'') (\<lambda>candidate_fingerprint.
     and_then (require_str d ''source_recommendation_id'') (\<lambda>source_recommendation_id.
     and_then (require_str d ''source_subsystem'') (\<lambda>source_subsystem.
     and_then (require_str d ''recommendation_class'') (\<lambda>recommendation_class.
     and_then (any_text (get d ''catalog_item_id'')) (\<lambda>catalog_item_id.
     and_then (require_str d ''target_id'') (\<lambda>target_id.
     and_then (require_str d ''target_type'') (\<lambda>target_type.
     and_then (require_str d ''execution_category'') (\<lambda>execution_category.
     and_then (require_str d ''execution_intent'') (\<lambda>execution_intent.
     and_then (and_then (typed_text (get_or d ''effect_kind'' (PText ''repository_change'')))
       decode_effect_kind) (\<lambda>effect_kind.
     and_then (require_str d ''required_approval_level'') (\<lambda>required_approval_level.
     and_then (require_str d ''rationale'') (\<lambda>rationale.
     and_then (tuple_str (get_or d ''constraints'' (PList []))) (\<lambda>constraints.
     and_then (tuple_str (get_or d ''evidence_ids'' (PList []))) (\<lambda>evidence_ids.
     and_then (any_text (get d ''compatibility_assessment_id'')) (\<lambda>compatibility_assessment_id.
     and_then (any_text (get d ''compatibility_status'')) (\<lambda>compatibility_status.
     and_then (tuple_str (get_or d ''relationship_ids'' (PList []))) (\<lambda>relationship_ids.
     and_then (decode_optional_datetime (get d ''expires_at'')) (\<lambda>expires_at.
     and_then (and_then (require_str d ''intake_status'') decode_core_intake_status)
       (\<lambda>intake_status.
     and_then (tuple_str (get_or d ''intake_reason_codes'' (PList []))) (\<lambda>intake_reason_codes.
     and_then (decode_datetime (get d ''intake_timestamp'')) (\<lambda>intake_timestamp.
     and_then (optional_object ''Invalid compose mutation specification'' decode_mutation (get d
       ''mutation'')) (\<lambda>mutation.
     and_then (optional_object ''Invalid operational target reference'' decode_target (get d
       ''operational_target'')) (\<lambda>operational_target.
     Inr \<lparr>csn_candidate_id = candidate_id, csn_candidate_fingerprint = candidate_fingerprint,
       csn_source_recommendation_id = source_recommendation_id, csn_source_subsystem = source_subsystem,
         csn_recommendation_class = recommendation_class, csn_catalog_item_id = catalog_item_id,
           csn_target_id = target_id, csn_target_type = target_type,
             csn_execution_category = execution_category, csn_execution_intent = execution_intent,
               csn_required_approval_level = required_approval_level, csn_rationale = rationale,
                 csn_constraints = constraints, csn_evidence_ids = evidence_ids,
                   csn_compatibility_assessment_id = compatibility_assessment_id,
                     csn_compatibility_status = compatibility_status,
                       csn_relationship_ids = relationship_ids, csn_expires_at = expires_at,
                         csn_intake_status = intake_status, csn_intake_reason_codes = intake_reason_codes,
                           csn_intake_timestamp = intake_timestamp, csn_effect_kind = effect_kind,
                             csn_mutation = mutation, csn_operational_target =
                               operational_target\<rparr>))))))))))))))))))))))))"

definition restored_candidate_snapshot :: "candidate_snapshot \<Rightarrow> candidate_snapshot" where
  "restored_candidate_snapshot r = r\<lparr>csn_mutation := map_option restored_mutation (csn_mutation
    r)\<rparr>"

definition encode_candidate_plan :: "candidate_plan \<Rightarrow> object" where
  "encode_candidate_plan r =
     [(''assumptions'', texts (cpl_assumptions r)),
      (''candidate_fingerprint'', PText (cpl_candidate_fingerprint r)),
      (''candidate_id'', PText (cpl_candidate_id r)),
      (''constraints'', texts (cpl_constraints r)),
      (''created_at'', PTime (cpl_created_at r)),
      (''evidence_ids'', texts (cpl_evidence_ids r)),
      (''identifier'', PText (cpl_identifier r)),
      (''likely_affected_components'', texts (cpl_likely_affected_components r)),
      (''likely_affected_files'', paths (cpl_likely_affected_files r)),
      (''objective'', PText (cpl_objective r)),
      (''proposed_steps'', texts (cpl_proposed_steps r)),
      (''repository_branch'', optional PText (cpl_repository_branch r)),
      (''repository_head'', optional PText (cpl_repository_head r)),
      (''repository_root'', encode_path (cpl_repository_root r)),
      (''revalidated_candidate_fingerprint'', PText (cpl_revalidated_candidate_fingerprint r)),
      (''rollback_considerations'', texts (cpl_rollback_considerations r)),
      (''session_id'', PText (cpl_session_id r)),
      (''title'', PText (cpl_title r)),
      (''unresolved_questions'', texts (cpl_unresolved_questions r)),
      (''verification_strategy'', texts (cpl_verification_strategy r)),
      (''mutation'', optional (\<lambda>x. PDict (encode_mutation x)) (cpl_mutation r))]"

definition decode_candidate_plan :: "object \<Rightarrow> candidate_plan res" where
  "decode_candidate_plan d =
     and_then (require_str d ''identifier'') (\<lambda>identifier.
     and_then (require_str d ''session_id'') (\<lambda>session_id.
     and_then (require_str d ''candidate_id'') (\<lambda>candidate_id.
     and_then (require_str d ''candidate_fingerprint'') (\<lambda>candidate_fingerprint.
     and_then (require_str d ''title'') (\<lambda>title.
     and_then (require_str d ''objective'') (\<lambda>objective.
     and_then (tuple_str (get_or d ''assumptions'' (PList []))) (\<lambda>assumptions.
     and_then (tuple_str (get_or d ''constraints'' (PList []))) (\<lambda>constraints.
     and_then (tuple_str (get_or d ''proposed_steps'' (PList []))) (\<lambda>proposed_steps.
     and_then (tuple_str (get_or d ''likely_affected_components'' (PList [])))
       (\<lambda>likely_affected_components.
     and_then (tuple_path (get_or d ''likely_affected_files'' (PList []))) (\<lambda>likely_affected_files.
     and_then (tuple_str (get_or d ''verification_strategy'' (PList []))) (\<lambda>verification_strategy.
     and_then (tuple_str (get_or d ''rollback_considerations'' (PList [])))
       (\<lambda>rollback_considerations.
     and_then (tuple_str (get_or d ''unresolved_questions'' (PList []))) (\<lambda>unresolved_questions.
     and_then (tuple_str (get_or d ''evidence_ids'' (PList []))) (\<lambda>evidence_ids.
     and_then (decode_datetime (get d ''created_at'')) (\<lambda>created_at.
     and_then (decode_path (get d ''repository_root'')) (\<lambda>repository_root.
     and_then (any_text (get d ''repository_branch'')) (\<lambda>repository_branch.
     and_then (any_text (get d ''repository_head'')) (\<lambda>repository_head.
     and_then (require_str d ''revalidated_candidate_fingerprint'')
       (\<lambda>revalidated_candidate_fingerprint.
     and_then (optional_object ''Invalid compose mutation specification'' decode_mutation (get d
       ''mutation'')) (\<lambda>mutation.
     Inr \<lparr>cpl_identifier = identifier, cpl_session_id = session_id, cpl_candidate_id = candidate_id,
       cpl_candidate_fingerprint = candidate_fingerprint, cpl_title = title, cpl_objective = objective,
         cpl_assumptions = assumptions, cpl_constraints = constraints, cpl_proposed_steps = proposed_steps,
           cpl_likely_affected_components = likely_affected_components,
             cpl_likely_affected_files = likely_affected_files,
               cpl_verification_strategy = verification_strategy,
                 cpl_rollback_considerations = rollback_considerations,
                   cpl_unresolved_questions = unresolved_questions, cpl_evidence_ids = evidence_ids,
                     cpl_created_at = created_at, cpl_repository_root = repository_root,
                       cpl_repository_branch = repository_branch, cpl_repository_head = repository_head,
                         cpl_revalidated_candidate_fingerprint = revalidated_candidate_fingerprint,
                           cpl_mutation = mutation\<rparr>)))))))))))))))))))))"

definition restored_candidate_plan :: "candidate_plan \<Rightarrow> candidate_plan" where
  "restored_candidate_plan r = r\<lparr>cpl_likely_affected_files := map reread (cpl_likely_affected_files
    r),
     cpl_repository_root := reread (cpl_repository_root r),
     cpl_mutation := map_option restored_mutation (cpl_mutation r)\<rparr>"

definition encode_operational_plan :: "operational_plan \<Rightarrow> object" where
  "encode_operational_plan r =
     [(''identifier'', PText (opl_identifier r)),
      (''session_id'', PText (opl_session_id r)),
      (''candidate_id'', PText (opl_candidate_id r)),
      (''candidate_fingerprint'', PText (opl_candidate_fingerprint r)),
      (''effect_kind'', PText (effect_kind_text (opl_effect_kind r))),
      (''execution_intent'', PText (opl_execution_intent r)),
      (''provider_id'', PText (opl_provider_id r)),
      (''resource_id'', PText (opl_resource_id r)),
      (''resource_type'', PText (opl_resource_type r)),
      (''target_fingerprint'', PText (opl_target_fingerprint r)),
      (''target_version'', optional PText (opl_target_version r)),
      (''expected_pre_state'', PText (opl_expected_pre_state r)),
      (''intended_action'', PText (opl_intended_action r)),
      (''disruption_scope'', PText (opl_disruption_scope r)),
      (''verification'', PDict (encode_verification_specification (opl_verification r))),
      (''failure_considerations'', texts (opl_failure_considerations r)),
      (''evidence_ids'', texts (opl_evidence_ids r)),
      (''created_at'', PTime (opl_created_at r)),
      (''revalidated_candidate_fingerprint'', PText (opl_revalidated_candidate_fingerprint r))]"

definition decode_operational_plan :: "object \<Rightarrow> operational_plan res" where
  "decode_operational_plan d =
     and_then (require_str d ''identifier'') (\<lambda>identifier.
     and_then (require_str d ''session_id'') (\<lambda>session_id.
     and_then (require_str d ''candidate_id'') (\<lambda>candidate_id.
     and_then (require_str d ''candidate_fingerprint'') (\<lambda>candidate_fingerprint.
     and_then (and_then (require_str d ''effect_kind'') decode_effect_kind) (\<lambda>effect_kind.
     and_then (require_str d ''execution_intent'') (\<lambda>execution_intent.
     and_then (require_str d ''provider_id'') (\<lambda>provider_id.
     and_then (require_str d ''resource_id'') (\<lambda>resource_id.
     and_then (require_str d ''resource_type'') (\<lambda>resource_type.
     and_then (require_str d ''target_fingerprint'') (\<lambda>target_fingerprint.
     and_then (any_text (get d ''target_version'')) (\<lambda>target_version.
     and_then (require_str d ''expected_pre_state'') (\<lambda>expected_pre_state.
     and_then (require_str d ''intended_action'') (\<lambda>intended_action.
     and_then (require_str d ''disruption_scope'') (\<lambda>disruption_scope.
     and_then (required_object ''Invalid operational verification specification''
       decode_verification_specification (get d ''verification'')) (\<lambda>verification.
     and_then (tuple_str (get_or d ''failure_considerations'' (PList []))) (\<lambda>failure_considerations.
     and_then (tuple_str (get_or d ''evidence_ids'' (PList []))) (\<lambda>evidence_ids.
     and_then (decode_datetime (get d ''created_at'')) (\<lambda>created_at.
     and_then (require_str d ''revalidated_candidate_fingerprint'')
       (\<lambda>revalidated_candidate_fingerprint.
     operational_plan_post_init \<lparr>opl_identifier = identifier, opl_session_id = session_id,
       opl_candidate_id = candidate_id, opl_candidate_fingerprint = candidate_fingerprint,
         opl_effect_kind = effect_kind, opl_execution_intent = execution_intent,
           opl_provider_id = provider_id, opl_resource_id = resource_id, opl_resource_type = resource_type,
             opl_target_fingerprint = target_fingerprint, opl_target_version = target_version,
               opl_expected_pre_state = expected_pre_state, opl_intended_action = intended_action,
                 opl_disruption_scope = disruption_scope, opl_verification = verification,
                   opl_failure_considerations = failure_considerations, opl_evidence_ids = evidence_ids,
                     opl_created_at = created_at, opl_revalidated_candidate_fingerprint =
                       revalidated_candidate_fingerprint\<rparr>)))))))))))))))))))"

definition encode_planning_session :: "planning_session \<Rightarrow> object" where
  "encode_planning_session r =
     [(''candidate_fingerprint'', PText (cps_candidate_fingerprint r)),
      (''candidate_id'', PText (cps_candidate_id r)),
      (''candidate_plan_fingerprint'', optional PText (cps_candidate_plan_fingerprint r)),
      (''created_at'', PTime (cps_created_at r)),
      (''identifier'', PText (cps_identifier r)),
      (''exact_implementation_approval_request_id'',
        optional PText (cps_exact_implementation_approval_request_id r)),
      (''implementation_request_id'', optional PText (cps_implementation_request_id r)),
      (''implementation_translation_completed_at'',
        optional PTime (cps_implementation_translation_completed_at r)),
      (''implementation_translation_status'',
        optional (\<lambda>x. PText (planning_status_text x)) (cps_implementation_translation_status r)),
      (''implementation_approval_request_id'', optional PText (cps_implementation_approval_request_id r)),
      (''last_revalidation_fingerprint'', optional PText (cps_last_revalidation_fingerprint r)),
      (''last_revalidation_status'', optional (\<lambda>x. PText (core_intake_status_text x))
        (cps_last_revalidation_status r)),
      (''plan'', optional (\<lambda>x. PDict (encode_candidate_plan x)) (cps_plan r)),
      (''operational_plan'', optional (\<lambda>x. PDict (encode_operational_plan x)) (cps_operational_plan
        r)),
      (''planning_completed_at'', optional PTime (cps_planning_completed_at r)),
      (''planning_failure'', optional (\<lambda>x. PDict (encode_planning_failure x)) (cps_planning_failure
        r)),
      (''planning_started_at'', optional PTime (cps_planning_started_at r)),
      (''planning_status'', PText (planning_status_text (cps_planning_status r))),
      (''predecessor_session_id'', optional PText (cps_predecessor_session_id r)),
      (''successor_session_id'', optional PText (cps_successor_session_id r)),
      (''snapshot'', PDict (encode_candidate_snapshot (cps_snapshot r))),
      (''status'', PText (planning_status_text (cps_status r))),
      (''unsupported_reason'', optional PText (cps_unsupported_reason r)),
      (''workflow_conversion_completed_at'', optional PTime (cps_workflow_conversion_completed_at r)),
      (''workflow_conversion_status'',
        optional (\<lambda>x. PText (planning_status_text x)) (cps_workflow_conversion_status r)),
      (''workflow_session_id'', optional PText (cps_workflow_session_id r))]"

definition decode_planning_session :: "int \<Rightarrow> object \<Rightarrow> planning_session res" where
  "decode_planning_session schema_version d =
     and_then (require_str d ''identifier'') (\<lambda>identifier.
     and_then (require_str d ''candidate_id'') (\<lambda>candidate_id.
     and_then (require_str d ''candidate_fingerprint'') (\<lambda>candidate_fingerprint.
     and_then (and_then (require_str d ''status'') decode_planning_status) (\<lambda>status.
     and_then (and_then (require_dict d ''snapshot'') decode_candidate_snapshot) (\<lambda>snapshot.
     and_then (decode_datetime (get d ''created_at'')) (\<lambda>created_at.
     and_then (any_text (get d ''unsupported_reason'')) (\<lambda>unsupported_reason.
     and_then (and_then (typed_text (get_or d ''planning_status'' (PText ''ready_for_planning'')))
       decode_planning_status) (\<lambda>planning_status.
     and_then (optional_object ''Invalid candidate plan'' decode_candidate_plan (get d ''plan''))
       (\<lambda>plan.
     and_then (if 2 \<le> schema_version then optional_object ''Invalid operational candidate plan''
       decode_operational_plan (get d ''operational_plan'') else Inr None) (\<lambda>operational_plan.
     and_then (optional_object ''Invalid candidate planning failure'' decode_planning_failure (get d
       ''planning_failure'')) (\<lambda>planning_failure.
     and_then (decode_optional_datetime (get d ''planning_started_at'')) (\<lambda>planning_started_at.
     and_then (decode_optional_datetime (get d ''planning_completed_at'')) (\<lambda>planning_completed_at.
     and_then (any_text (get d ''last_revalidation_fingerprint'')) (\<lambda>last_revalidation_fingerprint.
     and_then (optional_enum decode_core_intake_status (get d ''last_revalidation_status''))
       (\<lambda>last_revalidation_status.
     and_then (any_text (get d ''workflow_session_id'')) (\<lambda>workflow_session_id.
     and_then (any_text (get d ''implementation_approval_request_id''))
       (\<lambda>implementation_approval_request_id.
     and_then (any_text (get d ''candidate_plan_fingerprint'')) (\<lambda>candidate_plan_fingerprint.
     and_then (optional_enum decode_planning_status (get d ''workflow_conversion_status''))
       (\<lambda>workflow_conversion_status.
     and_then (decode_optional_datetime (get d ''workflow_conversion_completed_at''))
       (\<lambda>workflow_conversion_completed_at.
     and_then (any_text (get d ''implementation_request_id'')) (\<lambda>implementation_request_id.
     and_then (any_text (get d ''exact_implementation_approval_request_id''))
       (\<lambda>exact_implementation_approval_request_id.
     and_then (optional_enum decode_planning_status (get d ''implementation_translation_status''))
       (\<lambda>implementation_translation_status.
     and_then (decode_optional_datetime (get d ''implementation_translation_completed_at''))
       (\<lambda>implementation_translation_completed_at.
     and_then (any_text (get d ''predecessor_session_id'')) (\<lambda>predecessor_session_id.
     and_then (any_text (get d ''successor_session_id'')) (\<lambda>successor_session_id.
     planning_session_post_init \<lparr>cps_identifier = identifier, cps_candidate_id = candidate_id,
       cps_candidate_fingerprint = candidate_fingerprint, cps_status = status, cps_snapshot = snapshot,
         cps_created_at = created_at, cps_unsupported_reason = unsupported_reason,
           cps_planning_status = planning_status, cps_plan = plan, cps_operational_plan = operational_plan,
             cps_planning_failure = planning_failure, cps_planning_started_at = planning_started_at,
               cps_planning_completed_at = planning_completed_at,
                 cps_last_revalidation_fingerprint = last_revalidation_fingerprint,
                   cps_last_revalidation_status = last_revalidation_status,
                     cps_workflow_session_id = workflow_session_id,
                       cps_implementation_approval_request_id = implementation_approval_request_id,
                         cps_candidate_plan_fingerprint = candidate_plan_fingerprint,
                           cps_workflow_conversion_status = workflow_conversion_status,
                             cps_workflow_conversion_completed_at = workflow_conversion_completed_at,
                               cps_implementation_request_id = implementation_request_id,
                                 cps_exact_implementation_approval_request_id =
                                   exact_implementation_approval_request_id,
                                     cps_implementation_translation_status =
                                       implementation_translation_status,
                                         cps_implementation_translation_completed_at =
                                           implementation_translation_completed_at,
                                             cps_predecessor_session_id = predecessor_session_id,
                                               cps_successor_session_id =
                                                 successor_session_id\<rparr>))))))))))))))))))))))))))"

definition restored_planning_session :: "planning_session \<Rightarrow> planning_session" where
  "restored_planning_session r = r\<lparr>cps_plan := map_option restored_candidate_plan (cps_plan r),
     cps_snapshot := restored_candidate_snapshot (cps_snapshot r)\<rparr>"

section \<open>Workflow sessions\<close>

definition encode_workflow_session :: "workflow_session \<Rightarrow> object res" where
  "encode_workflow_session s =
     and_then (optional_res (\<lambda>x. and_then (encode_execution_result x) (\<lambda>d. Inr (PDict d)))
       (wf_execution_result s)) (\<lambda>execution_result.
     and_then (optional_res request_to_dict (wf_worker_execution_request s))
       (\<lambda>worker_execution_request.
     Inr
       [(''blocked_reason'', optional PText (wf_blocked_reason s)),
        (''candidate_implementation_approval_id'',
          optional PText (wf_candidate_implementation_approval_id s)),
        (''operational_action_approval_id'', optional PText (wf_operational_action_approval_id s)),
        (''operational_execution_reference'',
          optional (\<lambda>x. PDict (encode_execution_reference x)) (wf_operational_execution_reference
            s)),
        (''candidate_implementation_request'',
          optional (\<lambda>x. PDict (encode_implementation_request x))
            (wf_candidate_implementation_request s)),
        (''candidate_metadata'', optional (\<lambda>x. PDict (encode_candidate_metadata x))
          (wf_candidate_metadata s)),
        (''effect_kind'', PText (effect_kind_text (wf_effect_kind s))),
        (''operational_action_request'',
          optional (\<lambda>x. PDict (encode_action_request x)) (wf_operational_action_request s)),
        (''candidate_review_result'', optional (\<lambda>x. PDict (encode_candidate_review_result x))
          (wf_candidate_review_result s)),
        (''candidate_verification_evidence'',
          optional (\<lambda>x. PDict (encode_verification_evidence x)) (wf_candidate_verification_evidence
            s)),
        (''candidate_verification_plan'',
          optional (\<lambda>x. PDict (encode_candidate_verification_plan x))
            (wf_candidate_verification_plan s)),
        (''changed_files'', paths (wf_changed_files s)),
        (''commit_request'', optional (\<lambda>x. PDict (encode_commit_request x)) (wf_commit_request s)),
        (''commit_result'', optional (\<lambda>x. PDict (encode_commit_result x)) (wf_commit_result s)),
        (''context'', optional PContext (wf_context s)),
        (''execution_result'', execution_result),
        (''worker_execution_request'', worker_execution_request),
        (''worker_patch_applied'', PBool (wf_worker_patch_applied s)),
        (''worker_baseline_status'', encode_pairs (wf_worker_baseline_status s)),
        (''expected_branch'', optional PText (wf_expected_branch s)),
        (''expected_head'', optional PText (wf_expected_head s)),
        (''identifier'', PText (wf_identifier s)),
        (''plan'', optional (\<lambda>x. PDict (encode_plan x)) (wf_plan s)),
        (''planning_analysis'', optional (\<lambda>x. PDict (encode_model_response x))
          (wf_planning_analysis s)),
        (''request'', optional (\<lambda>x. PDict (encode_workflow_request x)) (wf_request s)),
        (''review_analysis'', optional (\<lambda>x. PDict (encode_model_response x)) (wf_review_analysis
          s)),
        (''review_report'', optional (\<lambda>x. PDict (encode_review_report x)) (wf_review_report s)),
        (''reviewed_content_fingerprint'', optional PText (wf_reviewed_content_fingerprint s)),
        (''reviewed_files'', paths (wf_reviewed_files s)),
        (''source'', PText (workflow_source_text (wf_source s))),
        (''state'', PText (session_state_text (wf_state s))),
        (''verification_report'', optional (\<lambda>x. PDict (encode_verification_report x))
          (wf_verification_report s))]))"

definition decode_workflow_session :: "int \<Rightarrow> object \<Rightarrow> workflow_session res" where
  "decode_workflow_session schema_version d =
     and_then (require_str d ''identifier'') (\<lambda>identifier.
     and_then (optional_object ''Invalid workflow request'' decode_workflow_request (get d ''request''))
       (\<lambda>request.
     and_then (optional_object ''Invalid implementation plan'' decode_plan (get d ''plan'')) (\<lambda>plan.
     and_then (and_then (require_str d ''state'') decode_session_state) (\<lambda>state.
     and_then (decode_versioned_effect schema_version d) (\<lambda>effect_kind.
     and_then (and_then (typed_text (get_or d ''source'' (PText ''roadmap''))) decode_workflow_source)
       (\<lambda>source.
     and_then (optional_object ''Invalid candidate workflow metadata'' (decode_candidate_metadata
       schema_version) (get d ''candidate_metadata'')) (\<lambda>candidate_metadata.
     and_then (optional_object ''Invalid candidate implementation request'' decode_implementation_request
       (get d ''candidate_implementation_request'')) (\<lambda>candidate_implementation_request.
     and_then (if 3 \<le> schema_version then optional_object ''Invalid operational action request''
       decode_action_request (get d ''operational_action_request'') else Inr None)
         (\<lambda>operational_action_request.
     and_then (any_text (get d ''candidate_implementation_approval_id''))
       (\<lambda>candidate_implementation_approval_id.
     and_then (if 3 \<le> schema_version then any_text (get d ''operational_action_approval_id'') else Inr
       None) (\<lambda>operational_action_approval_id.
     and_then (optional_object ''Invalid operational execution reference'' decode_execution_reference (get
       d ''operational_execution_reference'')) (\<lambda>operational_execution_reference.
     and_then (optional_object ''Invalid model response'' decode_model_response (get d
       ''planning_analysis'')) (\<lambda>planning_analysis.
     and_then (optional_object ''Invalid model response'' decode_model_response (get d
       ''review_analysis'')) (\<lambda>review_analysis.
     and_then (decode_context (get d ''context'')) (\<lambda>context.
     and_then (optional_object ''Invalid execution result'' decode_execution_result (get d
       ''execution_result'')) (\<lambda>execution_result.
     and_then (optional_payload request_from_dict (get d ''worker_execution_request''))
       (\<lambda>worker_execution_request.
     and_then (Inr (truthy (get d ''worker_patch_applied''))) (\<lambda>worker_patch_applied.
     and_then (decode_pairs (get d ''worker_baseline_status'')) (\<lambda>worker_baseline_status.
     and_then (tuple_path (get_or d ''changed_files'' (PList []))) (\<lambda>changed_files.
     and_then (optional_object ''Invalid verification report'' decode_verification_report (get d
       ''verification_report'')) (\<lambda>verification_report.
     and_then (optional_object ''Invalid candidate verification plan'' decode_candidate_verification_plan
       (get d ''candidate_verification_plan'')) (\<lambda>candidate_verification_plan.
     and_then (optional_object ''Invalid candidate verification evidence'' decode_verification_evidence
       (get d ''candidate_verification_evidence'')) (\<lambda>candidate_verification_evidence.
     and_then (optional_object ''Invalid review report'' decode_review_report (get d ''review_report''))
       (\<lambda>review_report.
     and_then (optional_object ''Invalid candidate review result'' decode_candidate_review_result (get d
       ''candidate_review_result'')) (\<lambda>candidate_review_result.
     and_then (optional_object ''Invalid commit request'' decode_commit_request (get d ''commit_request''))
       (\<lambda>commit_request.
     and_then (optional_object ''Invalid commit result'' decode_commit_result (get d ''commit_result''))
       (\<lambda>commit_result.
     and_then (tuple_path (get_or d ''reviewed_files'' (PList []))) (\<lambda>reviewed_files.
     and_then (any_text (get d ''expected_branch'')) (\<lambda>expected_branch.
     and_then (any_text (get d ''expected_head'')) (\<lambda>expected_head.
     and_then (any_text (get d ''reviewed_content_fingerprint'')) (\<lambda>reviewed_content_fingerprint.
     and_then (any_text (get d ''blocked_reason'')) (\<lambda>blocked_reason.
     session_post_init \<lparr>wf_identifier = identifier, wf_request = request, wf_plan = plan,
       wf_state = state, wf_effect_kind = effect_kind, wf_source = source,
         wf_candidate_metadata = candidate_metadata,
           wf_candidate_implementation_request = candidate_implementation_request,
             wf_operational_action_request = operational_action_request,
               wf_candidate_implementation_approval_id = candidate_implementation_approval_id,
                 wf_operational_action_approval_id = operational_action_approval_id,
                   wf_operational_execution_reference = operational_execution_reference,
                     wf_planning_analysis = planning_analysis, wf_review_analysis = review_analysis,
                       wf_context = context, wf_execution_result = execution_result,
                         wf_worker_execution_request = worker_execution_request,
                           wf_worker_patch_applied = worker_patch_applied,
                             wf_worker_baseline_status = worker_baseline_status,
                               wf_changed_files = changed_files,
                                 wf_verification_report = verification_report,
                                   wf_candidate_verification_plan = candidate_verification_plan,
                                     wf_candidate_verification_evidence = candidate_verification_evidence,
                                       wf_review_report = review_report,
                                         wf_candidate_review_result = candidate_review_result,
                                           wf_commit_request = commit_request,
                                             wf_commit_result = commit_result,
                                               wf_reviewed_files = reviewed_files,
                                                 wf_expected_branch = expected_branch,
                                                   wf_expected_head = expected_head,
                                                     wf_reviewed_content_fingerprint =
                                                       reviewed_content_fingerprint, wf_blocked_reason =
                                                         blocked_reason\<rparr>))))))))))))))))))))))))))))))))"

definition restored_session :: "workflow_session \<Rightarrow> workflow_session" where
  "restored_session s = s\<lparr>
     wf_request := map_option restored_workflow_request (wf_request s),
     wf_plan := map_option restored_plan (wf_plan s),
     wf_candidate_implementation_request :=
       map_option restored_implementation_request (wf_candidate_implementation_request s),
     wf_execution_result := map_option restored_execution_result (wf_execution_result s),
     wf_changed_files := map reread (wf_changed_files s),
     wf_verification_report := map_option restored_verification_report (wf_verification_report s),
     wf_candidate_verification_plan :=
       map_option restored_candidate_verification_plan (wf_candidate_verification_plan s),
     wf_commit_request := map_option restored_commit_request (wf_commit_request s),
     wf_commit_result := map_option restored_commit_result (wf_commit_result s),
     wf_reviewed_files := map reread (wf_reviewed_files s)\<rparr>"

section \<open>Approvals\<close>

definition encode_approval_environment :: "verification_approval_environment \<Rightarrow> object" where
  "encode_approval_environment v = [(''name'', PText (vae_name v)), (''value_digest'',
    PText (vae_value_digest v))]"

definition decode_approval_environment :: "object \<Rightarrow> verification_approval_environment res" where
  "decode_approval_environment d =
     and_then (require_str d ''value_digest'') (\<lambda>digest.
     and_then (validate_digest digest) (\<lambda>_.
     and_then (require_str d ''name'') (\<lambda>name.
     Inr \<lparr>vae_name = name, vae_value_digest = digest\<rparr>)))"

definition encode_approval_check :: "verification_approval_check \<Rightarrow> object" where
  "encode_approval_check r =
     [(''command'', texts (vac_command r)),
      (''environment'', PList (map (\<lambda>x. PDict (encode_approval_environment x)) (vac_environment
        r))),
      (''identifier'', PText (vac_identifier r)),
      (''timeout_seconds'', optional PReal (vac_timeout_seconds r)),
      (''working_directory'', encode_path (vac_working_directory r))]"

definition decode_approval_check :: "object \<Rightarrow> verification_approval_check res" where
  "decode_approval_check d =
     and_then (require_str d ''identifier'') (\<lambda>identifier.
     and_then (tuple_str (get_or d ''command'' (PList []))) (\<lambda>command.
     and_then (decode_path (get d ''working_directory'')) (\<lambda>working_directory.
     and_then (any_real (get d ''timeout_seconds'')) (\<lambda>timeout_seconds.
     and_then (decode_items decode_approval_environment (get_or d ''environment'' (PList [])))
       (\<lambda>environment.
     Inr \<lparr>vac_identifier = identifier, vac_command = command,
       vac_working_directory = working_directory, vac_timeout_seconds = timeout_seconds,
         vac_environment = environment\<rparr>)))))"

definition restored_approval_check :: "verification_approval_check \<Rightarrow>
  verification_approval_check" where
  "restored_approval_check r = r\<lparr>vac_working_directory := reread (vac_working_directory r)\<rparr>"

definition encode_commit_metadata :: "commit_approval_metadata \<Rightarrow> object" where
  "encode_commit_metadata m =
     [(''commit_message'', PText (cam_commit_message m)),
      (''expected_branch'', optional PText (cam_expected_branch m)),
      (''expected_head'', optional PText (cam_expected_head m)),
      (''reviewed_content_fingerprint'', PText (cam_reviewed_content_fingerprint m)),
      (''reviewed_files'', paths (cam_reviewed_files m))]"

definition decode_commit_metadata :: "object \<Rightarrow> commit_approval_metadata res" where
  "decode_commit_metadata d =
     and_then (require_str d ''reviewed_content_fingerprint'') (\<lambda>fingerprint.
     and_then (validate_digest fingerprint) (\<lambda>_.
     and_then (any_text (get d ''expected_branch'')) (\<lambda>expected_branch.
     and_then (any_text (get d ''expected_head'')) (\<lambda>expected_head.
     and_then (tuple_path (get_or d ''reviewed_files'' (PList []))) (\<lambda>reviewed_files.
     and_then (require_str d ''commit_message'') (\<lambda>commit_message.
     Inr \<lparr>cam_expected_branch = expected_branch, cam_expected_head = expected_head,
       cam_reviewed_files = reviewed_files, cam_reviewed_content_fingerprint = fingerprint,
       cam_commit_message = commit_message\<rparr>))))))"

definition restored_commit_metadata :: "commit_approval_metadata \<Rightarrow> commit_approval_metadata"
  where
  "restored_commit_metadata m = m\<lparr>cam_reviewed_files := map reread (cam_reviewed_files m)\<rparr>"

definition operational_metadata_fields :: "string list" where
  "operational_metadata_fields =
     [''action_request_id'', ''action_request_digest'', ''candidate_id'', ''candidate_fingerprint'',
      ''operational_plan_fingerprint'', ''provider_id'', ''resource_id'', ''resource_type'',
      ''target_fingerprint'', ''target_version'', ''operation_intent'', ''disruption_scope'',
      ''verification_digest'', ''generated_at'', ''expires_at'']"

definition encode_operational_metadata :: "operational_approval_metadata \<Rightarrow> object" where
  "encode_operational_metadata r =
     [(''action_request_id'', PText (oam_action_request_id r)),
      (''action_request_digest'', PText (oam_action_request_digest r)),
      (''candidate_id'', PText (oam_candidate_id r)),
      (''candidate_fingerprint'', PText (oam_candidate_fingerprint r)),
      (''operational_plan_fingerprint'', PText (oam_operational_plan_fingerprint r)),
      (''provider_id'', PText (oam_provider_id r)),
      (''resource_id'', PText (oam_resource_id r)),
      (''resource_type'', PText (oam_resource_type r)),
      (''target_fingerprint'', PText (oam_target_fingerprint r)),
      (''target_version'', optional PText (oam_target_version r)),
      (''operation_intent'', PText (oam_operation_intent r)),
      (''disruption_scope'', PText (oam_disruption_scope r)),
      (''verification_digest'', PText (oam_verification_digest r)),
      (''generated_at'', PTime (Datetime (oam_generated_at r) 0)),
      (''expires_at'', PTime (Datetime (oam_expires_at r) 0))]"

definition decode_operational_metadata :: "object \<Rightarrow> operational_approval_metadata res" where
  "decode_operational_metadata d =
     and_then (reject_unknown_fields d operational_metadata_fields) (\<lambda>_.
     and_then (require_str d ''action_request_id'') (\<lambda>action_request_id.
     and_then (require_str d ''action_request_digest'') (\<lambda>action_request_digest.
     and_then (require_str d ''candidate_id'') (\<lambda>candidate_id.
     and_then (require_str d ''candidate_fingerprint'') (\<lambda>candidate_fingerprint.
     and_then (require_str d ''operational_plan_fingerprint'') (\<lambda>operational_plan_fingerprint.
     and_then (require_str d ''provider_id'') (\<lambda>provider_id.
     and_then (require_str d ''resource_id'') (\<lambda>resource_id.
     and_then (require_str d ''resource_type'') (\<lambda>resource_type.
     and_then (require_str d ''target_fingerprint'') (\<lambda>target_fingerprint.
     and_then (any_text (get d ''target_version'')) (\<lambda>target_version.
     and_then (require_str d ''operation_intent'') (\<lambda>operation_intent.
     and_then (require_str d ''disruption_scope'') (\<lambda>disruption_scope.
     and_then (require_str d ''verification_digest'') (\<lambda>verification_digest.
     and_then (and_then (decode_datetime (get d ''generated_at'')) (\<lambda>t. Inr (instant t)))
       (\<lambda>generated_at.
     and_then (and_then (decode_datetime (get d ''expires_at'')) (\<lambda>t. Inr (instant t)))
       (\<lambda>expires_at.
     operational_metadata_post_init \<lparr>oam_action_request_id = action_request_id,
       oam_action_request_digest = action_request_digest, oam_candidate_id = candidate_id,
         oam_candidate_fingerprint = candidate_fingerprint,
           oam_operational_plan_fingerprint = operational_plan_fingerprint, oam_provider_id = provider_id,
             oam_resource_id = resource_id, oam_resource_type = resource_type,
               oam_target_fingerprint = target_fingerprint, oam_target_version = target_version,
                 oam_operation_intent = operation_intent, oam_disruption_scope = disruption_scope,
                   oam_verification_digest = verification_digest, oam_generated_at = generated_at,
                     oam_expires_at = expires_at\<rparr>))))))))))))))))"

fun approval_purpose_text :: "approval_purpose \<Rightarrow> string" where
  "approval_purpose_text IMPLEMENTATION = ''implementation''"
| "approval_purpose_text CANDIDATE_WORKFLOW_SHELL = ''candidate_workflow_shell''"
| "approval_purpose_text VERIFICATION = ''verification''"
| "approval_purpose_text COMMIT = ''commit''"
| "approval_purpose_text OPERATIONAL_ACTION = ''operational_action''"

definition decode_approval_purpose :: "string \<Rightarrow> approval_purpose res" where
  "decode_approval_purpose = parse_enum ''ApprovalPurpose'' approval_purpose_text
     [IMPLEMENTATION, CANDIDATE_WORKFLOW_SHELL, VERIFICATION, COMMIT, OPERATIONAL_ACTION]"

fun approval_status_text :: "approval_status \<Rightarrow> string" where
  "approval_status_text PENDING = ''pending''"
| "approval_status_text APPROVED = ''approved''"
| "approval_status_text REJECTED = ''rejected''"

definition decode_approval_status :: "string \<Rightarrow> approval_status res" where
  "decode_approval_status = parse_enum ''ApprovalStatus'' approval_status_text [PENDING, APPROVED,
    REJECTED]"

definition encode_approval_request :: "approval_request \<Rightarrow> object" where
  "encode_approval_request r =
     [(''checkpoint_id'', PText (ap_checkpoint_id r)),
      (''commit_metadata'', optional (\<lambda>x. PDict (encode_commit_metadata x)) (ap_commit_metadata r)),
      (''operational_metadata'',
        optional (\<lambda>x. PDict (encode_operational_metadata x)) (ap_operational_metadata r)),
      (''identifier'', PText (ap_identifier r)),
      (''purpose'', PText (approval_purpose_text (ap_purpose r))),
      (''rationale'', PText (ap_rationale r)),
      (''requested_command'', texts (ap_requested_command r)),
      (''requested_tool'', PText (ap_requested_tool r)),
      (''requested_working_directory'', optional encode_path (ap_requested_working_directory r)),
      (''title'', PText (ap_title r)),
      (''verification_checks'',
        PList (map (\<lambda>x. PDict (encode_approval_check x)) (ap_verification_checks r))),
      (''workflow_id'', optional PText (ap_workflow_id r))]"

text \<open>Older snapshots kept the approval of a candidate workflow's shell as an implementation approval
  without a command; the identifiers are those of the sessions that wait for one.\<close>

definition legacy_shell :: "string list option \<Rightarrow> object \<Rightarrow> string option
  \<Rightarrow> bool" where
  "legacy_shell legacy_ids d workflow_id \<longleftrightarrow> (case workflow_id of
     None \<Rightarrow> False
   | Some w \<Rightarrow> (case legacy_ids of
       None \<Rightarrow> starts_with ''candidate-workflow-'' w
         \<and> get_or d ''workflow_state'' (PText ''awaiting_approval'') = PText ''awaiting_approval''
     | Some ids \<Rightarrow> w \<in> set ids))"

definition decode_approval_request :: "string list option \<Rightarrow> object \<Rightarrow>
  approval_request res" where
  "decode_approval_request legacy_ids d =
     and_then (and_then (require_str d ''purpose'') decode_approval_purpose) (\<lambda>stored_purpose.
     and_then (tuple_str (get_or d ''requested_command'' (PList []))) (\<lambda>requested_command.
     and_then (any_text (get d ''workflow_id'')) (\<lambda>workflow_id.
     let purpose = (if stored_purpose = IMPLEMENTATION \<and> requested_command = []
       \<and> legacy_shell legacy_ids d workflow_id then CANDIDATE_WORKFLOW_SHELL else stored_purpose) in
     and_then (require_str d ''identifier'') (\<lambda>identifier.
     and_then (require_str d ''checkpoint_id'') (\<lambda>checkpoint_id.
     and_then (require_str d ''title'') (\<lambda>title.
     and_then (require_str d ''requested_tool'') (\<lambda>requested_tool.
     and_then (require_str d ''rationale'') (\<lambda>rationale.
     and_then (decode_optional_path (get d ''requested_working_directory'')) (\<lambda>working_directory.
     and_then (decode_items decode_approval_check (get_or d ''verification_checks'' (PList [])))
       (\<lambda>checks.
     and_then (optional_object ''Invalid commit metadata'' decode_commit_metadata (get d
       ''commit_metadata''))
       (\<lambda>commit_metadata.
     and_then (optional_object ''Invalid operational approval metadata'' decode_operational_metadata
       (get d ''operational_metadata'')) (\<lambda>operational_metadata.
     Inr \<lparr>ap_identifier = identifier, ap_checkpoint_id = checkpoint_id, ap_title = title,
       ap_requested_tool = requested_tool, ap_requested_command = requested_command,
       ap_rationale = rationale, ap_workflow_id = workflow_id,
       ap_requested_working_directory = working_directory, ap_purpose = purpose,
       ap_verification_checks = checks, ap_commit_metadata = commit_metadata,
       ap_operational_metadata = operational_metadata\<rparr>))))))))))))"

definition restored_approval_request :: "string list option \<Rightarrow> approval_request \<Rightarrow>
  approval_request" where
  "restored_approval_request legacy_ids r = r\<lparr>
     ap_requested_working_directory := map_option reread (ap_requested_working_directory r),
     ap_purpose := (if ap_purpose r = IMPLEMENTATION \<and> ap_requested_command r = []
       \<and> legacy_shell legacy_ids (encode_approval_request r) (ap_workflow_id r)
       then CANDIDATE_WORKFLOW_SHELL else ap_purpose r),
     ap_verification_checks := map restored_approval_check (ap_verification_checks r),
     ap_commit_metadata := map_option restored_commit_metadata (ap_commit_metadata r)\<rparr>"

definition encode_approval_decision :: "approval_decision \<Rightarrow> object" where
  "encode_approval_decision x =
     [(''reason'', optional PText (ad_reason x)), (''request'',
       PDict (encode_approval_request (ad_request x))),
      (''reviewer'', optional PText (ad_reviewer x)),
      (''status'', PText (approval_status_text (ad_status x)))]"

definition decode_approval_decision :: "string list option \<Rightarrow> object \<Rightarrow>
  approval_decision res" where
  "decode_approval_decision legacy_ids d =
     and_then (and_then (require_dict d ''request'') (decode_approval_request legacy_ids))
       (\<lambda>request.
     and_then (and_then (require_str d ''status'') decode_approval_status) (\<lambda>status.
     and_then (any_text (get d ''reviewer'')) (\<lambda>reviewer.
     and_then (any_text (get d ''reason'')) (\<lambda>reason.
     Inr \<lparr>ad_request = request, ad_status = status, ad_reviewer = reviewer,
       ad_reason = reason\<rparr>))))"

definition encode_approval_result :: "approval_result \<Rightarrow> object" where
  "encode_approval_result r = [(''decision'', PDict (encode_approval_decision (decision r)))]"

definition decode_approval_result :: "string list option \<Rightarrow> object \<Rightarrow> approval_result
  res" where
  "decode_approval_result legacy_ids d =
     and_then (and_then (require_dict d ''decision'') (decode_approval_decision legacy_ids)) (\<lambda>x.
     Inr (ApprovalResult x))"

definition restored_approval :: "string list option \<Rightarrow> approval_result \<Rightarrow>
  approval_result" where
  "restored_approval legacy_ids r = ApprovalResult ((decision r)\<lparr>ad_request :=
     restored_approval_request legacy_ids (ad_request (decision r))\<rparr>)"

section \<open>The payload\<close>

record agent_state =
  ast_workflow :: workflow_store
  ast_approvals :: approval_repository
  ast_planning :: planning_store

definition snapshot_schema_version :: int where
  "snapshot_schema_version = 3"

definition snapshot_application :: string where
  "snapshot_application = ''atlas-agent''"

text \<open>\<open>sorted(snapshot.items())\<close> of a dictionary, whose keys are distinct.\<close>

definition entries :: "('a \<Rightarrow> payload) \<Rightarrow> (string \<times> 'a) list \<Rightarrow>
  payload" where
  "entries f d = PDict (map (\<lambda>(k, x). (k, f x)) (sort_key fst d))"

definition encode_sessions :: "(string \<times> workflow_session) list \<Rightarrow> payload res" where
  "encode_sessions d =
     and_then (traverse (\<lambda>(k, s). and_then (encode_workflow_session s) (\<lambda>e. Inr (k,
       PDict e))) (sort_key fst d))
       (\<lambda>rows. Inr (PDict rows))"

definition encode_payload :: "agent_state \<Rightarrow> object res" where
  "encode_payload st =
     and_then (encode_sessions (wst_sessions (ast_workflow st))) (\<lambda>sessions. Inr
     [(''application'', PText snapshot_application),
      (''approvals'', entries (\<lambda>r. PDict (encode_approval_result r)) (ast_approvals st)),
      (''candidate_planning'', PDict
        [(''sessions'', entries (\<lambda>s. PDict (encode_planning_session s)) (ast_planning st))]),
      (''schema_version'', PNum (PyInt snapshot_schema_version)),
      (''workflow_state'', PDict
        [(''review'', optional (\<lambda>x. PDict (encode_review_report x)) (wst_review (ast_workflow st))),
         (''sessions'', sessions),
         (''sprint'', optional (\<lambda>x. PDict (encode_sprint_status x)) (wst_sprint (ast_workflow st))),
         (''verification'', optional (\<lambda>x. PDict (encode_verification_report x))
           (wst_verification (ast_workflow st)))])])"

definition decode_entries :: "string \<Rightarrow> (object \<Rightarrow> 'a res) \<Rightarrow> object
  \<Rightarrow> (string \<times> 'a) list res" where
  "decode_entries message f d =
     traverse (\<lambda>(k, v). and_then (required_object message f v) (\<lambda>x. Inr (k, x))) d"

text \<open>\<open>true\<close> and \<open>1.0\<close> are members of the set of supported versions as
  well.\<close>

definition schema_of :: "payload \<Rightarrow> int option" where
  "schema_of v = (case v of
     PNum (PyInt i) \<Rightarrow> Some i
   | PBool b \<Rightarrow> Some (if b then 1 else 0)
   | PNum (PyFloat neg i f) \<Rightarrow> if list_all (\<lambda>c. c = CHR ''0'') f
       then Some (if neg then - int i else int i) else None
   | _ \<Rightarrow> None)"

definition legacy_workflow_ids :: "(string \<times> workflow_session) list \<Rightarrow> string list" where
  "legacy_workflow_ids sessions = map fst (filter (\<lambda>(k, s).
     wf_source s = SOURCE_CANDIDATE \<and> wf_state s = SESSION_AWAITING_APPROVAL) sessions)"

definition planning_object :: "payload \<Rightarrow> object res" where
  "planning_object v = (case v of PNull \<Rightarrow> Inr []
     | PDict d \<Rightarrow> Inr d | _ \<Rightarrow> persistence_error
       ''Invalid candidate planning state'')"

definition decode_payload :: "object \<Rightarrow> agent_state res" where
  "decode_payload d =
     (case schema_of (get d ''schema_version'') of
        None \<Rightarrow> persistence_error ''Persisted Agent state schema is unsupported''
      | Some schema_version \<Rightarrow>
     if schema_version \<notin> set [1, 2, 3]
     then persistence_error ''Persisted Agent state schema is unsupported''
     else if get d ''application'' \<noteq> PText snapshot_application
     then persistence_error ''Persisted Agent state application is invalid''
     else
     and_then (require_dict d ''workflow_state'') (\<lambda>workflow_state.
     and_then (require_dict d ''approvals'') (\<lambda>approvals_payload.
     and_then (require_dict workflow_state ''sessions'') (\<lambda>sessions_payload.
     and_then (decode_entries ''Invalid workflow session'' (decode_workflow_session schema_version)
       sessions_payload) (\<lambda>sessions.
     and_then (decode_entries ''Invalid approval result''
       (decode_approval_result (Some (legacy_workflow_ids sessions))) approvals_payload)
         (\<lambda>approvals.
     and_then (planning_object (get d ''candidate_planning'')) (\<lambda>planning_payload.
     and_then (case get_or planning_payload ''sessions'' (PDict []) of PDict e \<Rightarrow> Inr e
       | _ \<Rightarrow> persistence_error ''Invalid candidate planning sessions'')
         (\<lambda>planning_sessions.
     and_then (decode_entries ''Invalid candidate planning session''
       (decode_planning_session schema_version) planning_sessions) (\<lambda>planning.
     and_then (optional_object ''Invalid sprint status'' decode_sprint_status (get workflow_state
       ''sprint''))
       (\<lambda>sprint.
     and_then (optional_object ''Invalid verification report'' decode_verification_report
       (get workflow_state ''verification'')) (\<lambda>verification.
     and_then (optional_object ''Invalid review report'' decode_review_report (get workflow_state
       ''review''))
       (\<lambda>review.
     Inr \<lparr>ast_workflow = \<lparr>wst_sprint = sprint, wst_verification = verification,
       wst_review = review,
         wst_sessions = sessions\<rparr>,
       ast_approvals = approvals, ast_planning = planning\<rparr>))))))))))))"

definition restored_state :: "agent_state \<Rightarrow> agent_state" where
  "restored_state st =
     (let sessions = map (\<lambda>(k, s). (k,
       restored_session s)) (sort_key fst (wst_sessions (ast_workflow st)));
          legacy_ids = Some (legacy_workflow_ids sessions) in
      \<lparr>ast_workflow = \<lparr>wst_sprint = wst_sprint (ast_workflow st),
         wst_verification = map_option restored_verification_report (wst_verification (ast_workflow st)),
         wst_review = wst_review (ast_workflow st), wst_sessions = sessions\<rparr>,
       ast_approvals = map (\<lambda>(k, r). (k,
         restored_approval legacy_ids r)) (sort_key fst (ast_approvals st)),
       ast_planning = map (\<lambda>(k, s). (k,
         restored_planning_session s)) (sort_key fst (ast_planning st))\<rparr>)"

section \<open>What is read back\<close>

lemma planning_codes [codec]:
  "decode_planning_status (planning_status_text a1) = Inr a1"
  "decode_core_intake_status (core_intake_status_text a2) = Inr a2"
  "decode_planning_failure_code (planning_failure_text a3) = Inr a3"
  "decode_approval_purpose (approval_purpose_text a4) = Inr a4"
  "decode_approval_status (approval_status_text a5) = Inr a5"
  subgoal unfolding decode_planning_status_def
    by (rule parse_enum_text) (code_simp, cases a1, simp_all add: planning_statuses_def)
  subgoal unfolding decode_core_intake_status_def
    by (rule parse_enum_text) (code_simp, cases a2, simp_all add: core_intake_statuses_def)
  subgoal unfolding decode_planning_failure_code_def
    by (rule parse_enum_text) (code_simp, cases a3, simp_all add: planning_failure_codes_def)
  subgoal unfolding decode_approval_purpose_def by (rule parse_enum_text) (code_simp, cases a4, simp_all)
  subgoal unfolding decode_approval_status_def by (rule parse_enum_text) (code_simp, cases a5, simp_all)
  done

lemma optional_enum_optional [codec]:
  "(\<And>x. f (g x) = Inr x) \<Longrightarrow> optional_enum f (optional (\<lambda>x. PText (g x)) v) = Inr v"
  by (cases v) (simp_all add: optional_enum_def optional_def codec)

lemma target_codec [codec]: "decode_target (encode_target r) = Inr (r)"
  by (simp add: decode_target_def encode_target_def codec)

lemma target_optional [codec]:
  "optional_object m decode_target (optional (\<lambda>x. PDict (encode_target x)) v) = Inr (v)"
  by (cases v) (simp_all add: optional_object_def optional_def target_codec)

lemma mutation_codec [codec]: "decode_mutation (encode_mutation r) = Inr (restored_mutation r)"
  by (simp add: decode_mutation_def encode_mutation_def restored_mutation_def codec)

lemma mutation_optional [codec]:
  "optional_object m decode_mutation (optional (\<lambda>x. PDict (encode_mutation x)) v) = Inr (map_option restored_mutation v)"
  by (cases v) (simp_all add: optional_object_def optional_def mutation_codec)

lemma planning_failure_codec [codec]: "decode_planning_failure (encode_planning_failure r) = Inr (r)"
  by (simp add: decode_planning_failure_def encode_planning_failure_def codec)

lemma planning_failure_optional [codec]:
  "optional_object m decode_planning_failure (optional (\<lambda>x. PDict (encode_planning_failure x)) v) = Inr (v)"
  by (cases v) (simp_all add: optional_object_def optional_def planning_failure_codec)

lemma candidate_snapshot_codec [codec]:
  "decode_candidate_snapshot (encode_candidate_snapshot r) = Inr (restored_candidate_snapshot r)"
  by (simp add: decode_candidate_snapshot_def encode_candidate_snapshot_def restored_candidate_snapshot_def
      codec)

lemma candidate_plan_codec [codec]: "decode_candidate_plan (encode_candidate_plan r) = Inr (restored_candidate_plan r)"
  by (simp add: decode_candidate_plan_def encode_candidate_plan_def restored_candidate_plan_def codec)

lemma candidate_plan_optional [codec]:
  "optional_object m decode_candidate_plan (optional (\<lambda>x. PDict (encode_candidate_plan x)) v) = Inr (map_option restored_candidate_plan v)"
  by (cases v) (simp_all add: optional_object_def optional_def candidate_plan_codec)

lemma operational_plan_codec:
  "decode_operational_plan (encode_operational_plan r) = operational_plan_post_init r"
  by (cases r) (simp add: decode_operational_plan_def encode_operational_plan_def codec)

definition planning_session_valid :: "planning_session \<Rightarrow> bool" where
  "planning_session_valid s \<longleftrightarrow> planning_session_post_init s = Inr s
     \<and> (case cps_operational_plan s of None \<Rightarrow> True | Some p \<Rightarrow> operational_plan_post_init p = Inr p)"

lemma operational_plan_optional:
  "(case v of None \<Rightarrow> True | Some p \<Rightarrow> operational_plan_post_init p = Inr p) \<Longrightarrow>
     optional_object m decode_operational_plan (optional (\<lambda>x. PDict (encode_operational_plan x)) v) = Inr v"
  by (cases v) (simp_all add: optional_object_def optional_def operational_plan_codec)

lemma planning_session_codec:
  assumes "planning_session_valid s"
  shows "decode_planning_session 3 (encode_planning_session s) = Inr (restored_planning_session s)"
proof -
  have init: "planning_session_post_init (restored_planning_session s) = Inr (restored_planning_session s)"
    using assms by (auto simp: planning_session_valid_def planning_session_post_init_def
        restored_planning_session_def split: if_splits)
  have "case cps_operational_plan s of None \<Rightarrow> True | Some p \<Rightarrow> operational_plan_post_init p = Inr p"
    using assms by (simp add: planning_session_valid_def)
  with init show ?thesis
    by (cases s) (simp add: decode_planning_session_def encode_planning_session_def codec
        operational_plan_optional restored_planning_session_def)
qed

lemma approval_environment_codec:
  "is_sha256_hex (vae_value_digest v) \<Longrightarrow>
     decode_approval_environment (encode_approval_environment v) = Inr v"
  by (simp add: decode_approval_environment_def encode_approval_environment_def validate_digest_def codec)

definition approval_check_valid :: "verification_approval_check \<Rightarrow> bool" where
  "approval_check_valid c \<longleftrightarrow> list_all (\<lambda>v. is_sha256_hex (vae_value_digest v)) (vac_environment c)"

lemma approval_check_codec:
  assumes "approval_check_valid c"
  shows "decode_approval_check (encode_approval_check c) = Inr (restored_approval_check c)"
proof -
  have "decode_items decode_approval_environment
      (PList (map (\<lambda>v. PDict (encode_approval_environment v)) (vac_environment c)))
      = Inr (map (\<lambda>v. v) (vac_environment c))"
    by (rule decode_items_map)
      (use assms in \<open>simp add: approval_check_valid_def list_all_iff approval_environment_codec\<close>)
  then show ?thesis
    by (simp add: decode_approval_check_def encode_approval_check_def restored_approval_check_def codec)
qed

definition approval_request_valid :: "approval_request \<Rightarrow> bool" where
  "approval_request_valid r \<longleftrightarrow> list_all approval_check_valid (ap_verification_checks r)
     \<and> (case ap_commit_metadata r of None \<Rightarrow> True
        | Some m \<Rightarrow> is_sha256_hex (cam_reviewed_content_fingerprint m))
     \<and> (case ap_operational_metadata r of None \<Rightarrow> True | Some m \<Rightarrow> operational_metadata_post_init m = Inr m)"

lemma commit_metadata_codec:
  "is_sha256_hex (cam_reviewed_content_fingerprint m) \<Longrightarrow>
     decode_commit_metadata (encode_commit_metadata m) = Inr (restored_commit_metadata m)"
  by (simp add: decode_commit_metadata_def encode_commit_metadata_def restored_commit_metadata_def
      validate_digest_def codec)

lemma operational_metadata_known_fields:
  "reject_unknown_fields (encode_operational_metadata r) operational_metadata_fields = Inr ()"
  by (simp add: reject_unknown_fields_def encode_operational_metadata_def operational_metadata_fields_def)

lemma operational_metadata_codec:
  "decode_operational_metadata (encode_operational_metadata r) = operational_metadata_post_init r"
  unfolding decode_operational_metadata_def operational_metadata_known_fields
  by (cases r) (simp add: encode_operational_metadata_def instant_def codec)

lemma approval_request_codec:
  assumes "approval_request_valid r"
  shows "decode_approval_request ids (encode_approval_request r) = Inr (restored_approval_request ids r)"
proof -
  have checks: "decode_items decode_approval_check
      (PList (map (\<lambda>x. PDict (encode_approval_check x)) (ap_verification_checks r)))
      = Inr (map restored_approval_check (ap_verification_checks r))"
    by (rule decode_items_map)
      (use assms in \<open>simp add: approval_request_valid_def list_all_iff approval_check_codec\<close>)
  have commit: "optional_object m decode_commit_metadata
      (optional (\<lambda>x. PDict (encode_commit_metadata x)) (ap_commit_metadata r))
      = Inr (map_option restored_commit_metadata (ap_commit_metadata r))" for m
    by (rule optional_object_optional)
      (use assms in \<open>simp add: approval_request_valid_def commit_metadata_codec\<close>)
  have "optional_object m decode_operational_metadata
      (optional (\<lambda>x. PDict (encode_operational_metadata x)) (ap_operational_metadata r))
      = Inr (map_option (\<lambda>x. x) (ap_operational_metadata r))" for m
    by (rule optional_object_optional)
      (use assms in \<open>simp add: approval_request_valid_def operational_metadata_codec\<close>)
  note metadata = this [unfolded option.map_ident]
  show ?thesis
    unfolding decode_approval_request_def restored_approval_request_def
    by (simp add: encode_approval_request_def codec checks commit metadata Let_def)
qed

lemma approval_codec:
  assumes "approval_request_valid (ad_request (decision r))"
  shows "decode_approval_result ids (encode_approval_result r) = Inr (restored_approval ids r)"
  by (cases "decision r") (use assms in \<open>simp add: decode_approval_result_def encode_approval_result_def
      restored_approval_def decode_approval_decision_def encode_approval_decision_def codec
      approval_request_codec\<close>)

definition session_valid :: "workflow_session \<Rightarrow> bool" where
  "session_valid s \<longleftrightarrow> session_post_init s = Inr s
     \<and> (case wf_request s of None \<Rightarrow> True | Some r \<Rightarrow> list_all check_persistable (wq_verification_checks r))
     \<and> (case wf_operational_action_request s of None \<Rightarrow> True | Some r \<Rightarrow> action_request_post_init r = Inr r)
     \<and> (case wf_candidate_verification_plan s of None \<Rightarrow> True
        | Some p \<Rightarrow> list_all check_persistable (cvp_verification_checks p))
     \<and> (case wf_candidate_review_result s of None \<Rightarrow> True | Some r \<Rightarrow> review_persistable r)"

lemma workflow_request_optional:
  "(case v of None \<Rightarrow> True | Some r \<Rightarrow> list_all check_persistable (wq_verification_checks r)) \<Longrightarrow>
     optional_object m decode_workflow_request (optional (\<lambda>x. PDict (encode_workflow_request x)) v)
       = Inr (map_option restored_workflow_request v)"
  by (rule optional_object_optional) (simp add: workflow_request_codec)

lemma candidate_metadata_optional [codec]:
  "optional_object m (decode_candidate_metadata 3) (optional (\<lambda>x. PDict (encode_candidate_metadata x)) v)
     = Inr v"
  by (cases v) (simp_all add: optional_object_def optional_def candidate_metadata_codec)

lemma action_request_optional:
  "(case v of None \<Rightarrow> True | Some r \<Rightarrow> action_request_post_init r = Inr r) \<Longrightarrow>
     optional_object m decode_action_request (optional (\<lambda>x. PDict (encode_action_request x)) v) = Inr v"
  by (cases v) (simp_all add: optional_object_def optional_def action_request_codec)

lemma candidate_verification_plan_optional:
  "(case v of None \<Rightarrow> True | Some p \<Rightarrow> list_all check_persistable (cvp_verification_checks p)) \<Longrightarrow>
     optional_object m decode_candidate_verification_plan
       (optional (\<lambda>x. PDict (encode_candidate_verification_plan x)) v)
       = Inr (map_option restored_candidate_verification_plan v)"
  by (rule optional_object_optional) (simp add: candidate_verification_plan_codec)

lemma candidate_review_result_optional:
  "(case v of None \<Rightarrow> True | Some r \<Rightarrow> review_persistable r) \<Longrightarrow>
     optional_object m decode_candidate_review_result
       (optional (\<lambda>x. PDict (encode_candidate_review_result x)) v) = Inr v"
  by (cases v) (simp_all add: optional_object_def optional_def candidate_review_result_codec)

lemma execution_result_optional:
  assumes "optional_res (\<lambda>x. and_then (encode_execution_result x) (\<lambda>d. Inr (PDict d))) v = Inr p"
  shows "optional_object m decode_execution_result p = Inr (map_option restored_execution_result v)"
  using assms by (cases v)
    (auto simp: optional_res_def optional_object_def res_simps execution_result_codec)

lemma worker_request_optional:
  assumes "optional_res request_to_dict v = Inr p"
  shows "optional_payload request_from_dict p = Inr v"
proof (cases v)
  case (Some r)
  then have p: "request_to_dict r = Inr p" using assms by (simp add: optional_res_def)
  then have "p \<noteq> PNull" by (auto simp: request_to_dict_def res_simps)
  with request_codec [OF p] Some show ?thesis by (simp add: optional_payload_def)
qed (use assms in \<open>simp add: optional_res_def optional_payload_def\<close>)

lemma session_post_init_cong:
  assumes same: "wf_worker_execution_request t = wf_worker_execution_request s"
    "wf_candidate_metadata t = wf_candidate_metadata s" "wf_effect_kind t = wf_effect_kind s"
    "wf_operational_action_request t = wf_operational_action_request s"
    "wf_operational_action_approval_id t = wf_operational_action_approval_id s"
    "wf_operational_execution_reference t = wf_operational_execution_reference s"
    "(wf_candidate_implementation_request t = None) = (wf_candidate_implementation_request s = None)"
    and worker: "worker_matches t = worker_matches s"
    and request: "action_request_matches t = action_request_matches s"
  shows "session_post_init s = Inr s \<Longrightarrow> session_post_init t = Inr t"
  unfolding session_post_init_def same worker request by (simp add: res_simps)

lemma session_post_init_restored:
  "session_post_init s = Inr s \<Longrightarrow> session_post_init (restored_session s) = Inr (restored_session s)"
proof (rule session_post_init_cong [where s = s])
  show "worker_matches (restored_session s) = worker_matches s"
    by (rule ext, cases "wf_candidate_implementation_request s")
      (simp_all add: worker_matches_def restored_session_def restored_implementation_request_def)
  show "action_request_matches (restored_session s) = action_request_matches s"
    by (rule ext, rule ext) (simp add: action_request_matches_def restored_session_def)
qed (simp_all add: restored_session_def)

lemma session_codec:
  assumes "encode_workflow_session s = Inr d" and "session_valid s"
  shows "decode_workflow_session 3 d = Inr (restored_session s)"
proof -
  obtain result worker where
    result: "optional_res (\<lambda>x. and_then (encode_execution_result x) (\<lambda>d. Inr (PDict d)))
      (wf_execution_result s) = Inr result"
    and worker: "optional_res request_to_dict (wf_worker_execution_request s) = Inr worker"
    using assms(1) by (auto simp: encode_workflow_session_def res_simps)
  note parts = execution_result_optional [OF result] worker_request_optional [OF worker]
  have valid: "case wf_request s of None \<Rightarrow> True | Some r \<Rightarrow> list_all check_persistable (wq_verification_checks r)"
    "case wf_operational_action_request s of None \<Rightarrow> True | Some r \<Rightarrow> action_request_post_init r = Inr r"
    "case wf_candidate_verification_plan s of None \<Rightarrow> True
     | Some p \<Rightarrow> list_all check_persistable (cvp_verification_checks p)"
    "case wf_candidate_review_result s of None \<Rightarrow> True | Some r \<Rightarrow> review_persistable r"
    and init: "session_post_init (restored_session s) = Inr (restored_session s)"
    using assms(2) session_post_init_restored by (simp_all add: session_valid_def)
  note optionals = workflow_request_optional [OF valid(1)] action_request_optional [OF valid(2)]
    candidate_verification_plan_optional [OF valid(3)] candidate_review_result_optional [OF valid(4)]
  have "decode_workflow_session 3 d = session_post_init (restored_session s)"
    apply (insert assms(1))
    apply (unfold encode_workflow_session_def result worker and_then.simps sum.inject)
    apply (erule subst)
    apply (simp add: decode_workflow_session_def codec parts optionals decode_versioned_effect_def)
    apply (rule arg_cong [where f = session_post_init])
    apply (cases s, simp add: restored_session_def)
    done
  with init show ?thesis by simp
qed

lemma decode_entries_map:
  assumes "\<And>k x. (k, x) \<in> set xs \<Longrightarrow> f (g x) = Inr (h x)"
  shows "decode_entries m f (map (\<lambda>(k, x). (k, PDict (g x))) xs) = Inr (map (\<lambda>(k, x). (k, h x)) xs)"
  unfolding decode_entries_def
  by (rule traverse_map_Inr) (use assms in \<open>auto simp: required_object_def\<close>)

lemma decode_sessions_rows:
  assumes "traverse (\<lambda>(k, s). and_then (encode_workflow_session s) (\<lambda>e. Inr (k, PDict e))) xs = Inr rows"
    and "list_all (\<lambda>(k, s). session_valid s) xs"
  shows "decode_entries m (decode_workflow_session 3) rows = Inr (map (\<lambda>(k, s). (k, restored_session s)) xs)"
  using assms
proof (induction xs arbitrary: rows)
  case (Cons x xs)
  obtain k s where x: "x = (k, s)" by (cases x)
  with Cons.prems(1) obtain d rest where d: "encode_workflow_session s = Inr d"
    and rest: "traverse (\<lambda>(k, s). and_then (encode_workflow_session s) (\<lambda>e. Inr (k, PDict e))) xs = Inr rest"
    and rows: "rows = (k, PDict d) # rest"
    by (auto simp: res_simps)
  from Cons.prems(2) have "session_valid s" "list_all (\<lambda>(k, s). session_valid s) xs" by (simp_all add: x)
  with session_codec [OF d] Cons.IH [OF rest] show ?case
    by (simp add: rows x decode_entries_def required_object_def)
qed (simp add: decode_entries_def)

definition state_valid :: "agent_state \<Rightarrow> bool" where
  "state_valid st \<longleftrightarrow> list_all (\<lambda>(k, s). session_valid s) (wst_sessions (ast_workflow st))
     \<and> list_all (\<lambda>(k, r). approval_request_valid (ad_request (decision r))) (ast_approvals st)
     \<and> list_all (\<lambda>(k, s). planning_session_valid s) (ast_planning st)"

lemma list_all_sort_key [simp]: "list_all P (sort_key f xs) = list_all P xs"
  by (simp add: list_all_iff)

lemma payload_codec:
  assumes encoded: "encode_payload st = Inr d" and valid: "state_valid st"
  shows "decode_payload d = Inr (restored_state st)"
proof -
  let ?sessions = "map (\<lambda>(k, s). (k, restored_session s)) (sort_key fst (wst_sessions (ast_workflow st)))"
  obtain rows where rows: "traverse (\<lambda>(k, s). and_then (encode_workflow_session s)
      (\<lambda>e. Inr (k, PDict e))) (sort_key fst (wst_sessions (ast_workflow st))) = Inr rows"
    and sessions: "encode_sessions (wst_sessions (ast_workflow st)) = Inr (PDict rows)"
    using encoded by (auto simp: encode_payload_def encode_sessions_def res_simps)
  have workflow: "decode_entries m (decode_workflow_session 3) rows = Inr ?sessions" for m
    using decode_sessions_rows [OF rows] valid by (simp add: state_valid_def)
  have approvals: "decode_entries m (decode_approval_result ids)
      (map (\<lambda>(k, r). (k, PDict (encode_approval_result r))) (sort_key fst (ast_approvals st)))
      = Inr (map (\<lambda>(k, r). (k, restored_approval ids r)) (sort_key fst (ast_approvals st)))" for m ids
    by (rule decode_entries_map)
      (use valid in \<open>auto simp: state_valid_def list_all_iff intro: approval_codec\<close>)
  have planning: "decode_entries m (decode_planning_session 3)
      (map (\<lambda>(k, s). (k, PDict (encode_planning_session s))) (sort_key fst (ast_planning st)))
      = Inr (map (\<lambda>(k, s). (k, restored_planning_session s)) (sort_key fst (ast_planning st)))" for m
    by (rule decode_entries_map)
      (use valid in \<open>auto simp: state_valid_def list_all_iff intro: planning_session_codec\<close>)
  have head: "get d ''schema_version'' = PNum (PyInt 3)" "get d ''application'' = PText snapshot_application"
    and parts: "get d ''workflow_state'' = PDict
        [(''review'', optional (\<lambda>x. PDict (encode_review_report x)) (wst_review (ast_workflow st))),
         (''sessions'', PDict rows),
         (''sprint'', optional (\<lambda>x. PDict (encode_sprint_status x)) (wst_sprint (ast_workflow st))),
         (''verification'', optional (\<lambda>x. PDict (encode_verification_report x))
           (wst_verification (ast_workflow st)))]"
      "get d ''approvals'' = PDict (map (\<lambda>(k, r). (k, PDict (encode_approval_result r)))
         (sort_key fst (ast_approvals st)))"
      "get d ''candidate_planning'' = PDict [(''sessions'', PDict
         (map (\<lambda>(k, s). (k, PDict (encode_planning_session s))) (sort_key fst (ast_planning st))))]"
    using encoded by (auto simp: encode_payload_def sessions entries_def codec snapshot_schema_version_def)
  show ?thesis
    by (simp add: decode_payload_def schema_of_def head parts codec workflow approvals planning
        planning_object_def restored_state_def Let_def)
qed

end
