(* ===== verification/Restored.thy ===== *)
theory Restored
  imports StateCodec
begin

text \<open>
  What the snapshot keeps of a state: reading a state back twice is reading it back once, the state
  read back is as valid as the one written, and its dictionaries have the same keys. The proofs of the
  coordinator need no more of the codecs than this.
\<close>

named_theorems restored \<open>a part read back twice\<close>

section \<open>Paths\<close>

lemma split_on_no_sep: "c \<notin> set p \<Longrightarrow> split_on c p = [p]"
  by (induction p) auto

lemma split_on_first: "c \<notin> set p \<Longrightarrow> split_on c (p @ c # s) = p # split_on c s"
  by (induction p) auto

lemma split_on_joined:
  assumes "list_all (\<lambda>p. c \<notin> set p) ps" "ps \<noteq> []"
  shows "split_on c (join [c] ps) = ps"
  using assms by (induction "[c]" ps rule: join.induct) (simp_all add: split_on_no_sep split_on_first)

lemma split_on_pieces: "p \<in> set (split_on c s) \<Longrightarrow> c \<notin> set p"
  by (induction c s arbitrary: p rule: split_on.induct) (auto split: if_splits list.splits)

definition path_segment :: "string \<Rightarrow> bool" where
  "path_segment p \<longleftrightarrow> p \<noteq> [] \<and> p \<noteq> ''.'' \<and> CHR ''/'' \<notin> set p"

lemma path_of_segments: "list_all path_segment (segments (path_of s))"
  by (auto simp: list_all_iff path_of_def path_segment_def dest: split_on_pieces)

lemma filter_segments: "list_all path_segment ps \<Longrightarrow> filter (\<lambda>w. w \<noteq> [] \<and> w \<noteq> ''.'') ps = ps"
  by (auto simp: filter_id_conv list_all_iff path_segment_def)

lemma path_of_text:
  assumes "list_all path_segment (segments p)"
  shows "path_of (path_text p) = p"
proof (cases "segments p")
  case Nil
  then show ?thesis by (cases p) (simp add: path_of_def path_text_def starts_with_def)
next
  case (Cons w ws)
  have pieces: "split_on CHR ''/'' (join ''/'' (segments p)) = segments p"
    by (rule split_on_joined) (use assms Cons in \<open>auto simp: list_all_iff path_segment_def\<close>)
  obtain c w' where w: "w = c # w'" "c \<noteq> CHR ''/''"
    using assms Cons by (cases w) (auto simp: path_segment_def)
  have "\<not> starts_with ''/'' (join ''/'' (segments p))"
    using Cons w by (cases ws) (simp_all add: starts_with_def)
  with pieces filter_segments [OF assms] show ?thesis
    by (cases p) (simp add: path_of_def path_text_def starts_with_def Cons)
qed

lemma reread_reread [restored]: "reread (reread p) = reread p"
  by (simp add: reread_def path_of_text path_of_segments)

section \<open>Records\<close>

lemma environment_digest_nonempty: "environment_digest v \<noteq> []"
proof -
  have "sha256_hexdigest m \<noteq> []" for m
    using sha256_hexdigest_hex [of m] by (auto simp: is_sha256_hex_def)
  then show ?thesis by (simp add: environment_digest_def split: option.split)
qed

lemma environment_digest_restored [restored]:
  "environment_digest (restored_environment v) = environment_digest v"
proof -
  have "ev_value_digest (restored_environment v) = Some (environment_digest v)"
    by (simp add: restored_environment_def)
  then show ?thesis
    by (simp add: environment_digest_def [of "restored_environment v"] environment_digest_nonempty)
qed

lemma restored_environment_twice [restored]:
  "restored_environment (restored_environment v) = restored_environment v"
  unfolding restored_environment_def [of "restored_environment v"] environment_digest_restored
  by (simp add: restored_environment_def)

lemma restored_twice [restored]:
  "restored_roadmap_checkpoint (restored_roadmap_checkpoint a1) = restored_roadmap_checkpoint a1"
  "restored_plan (restored_plan a2) = restored_plan a2"
  "restored_verification_check (restored_verification_check a3) = restored_verification_check a3"
  "restored_execution_result (restored_execution_result a4) = restored_execution_result a4"
  "restored_verification_check_result (restored_verification_check_result a5)
     = restored_verification_check_result a5"
  "restored_commit_request (restored_commit_request a6) = restored_commit_request a6"
  "restored_commit_result (restored_commit_result a7) = restored_commit_result a7"
  "restored_implementation_request (restored_implementation_request a8) = restored_implementation_request a8"
  "restored_mutation (restored_mutation b1) = restored_mutation b1"
  "restored_approval_check (restored_approval_check b2) = restored_approval_check b2"
  "restored_commit_metadata (restored_commit_metadata b3) = restored_commit_metadata b3"
  by (simp_all add: restored_roadmap_checkpoint_def restored_plan_def restored_verification_check_def
      restored_execution_result_def restored_verification_check_result_def restored_commit_request_def
      restored_commit_result_def restored_implementation_request_def restored_mutation_def
      restored_approval_check_def restored_commit_metadata_def restored)

lemma restored_twice_2 [restored]:
  "restored_workflow_request (restored_workflow_request a1) = restored_workflow_request a1"
  "restored_verification_report (restored_verification_report a2) = restored_verification_report a2"
  "restored_candidate_verification_plan (restored_candidate_verification_plan a3)
     = restored_candidate_verification_plan a3"
  "restored_candidate_snapshot (restored_candidate_snapshot a4) = restored_candidate_snapshot a4"
  "restored_candidate_plan (restored_candidate_plan a5) = restored_candidate_plan a5"
  by (simp_all add: restored_workflow_request_def restored_verification_report_def
      restored_candidate_verification_plan_def restored_candidate_snapshot_def restored_candidate_plan_def
      option.map_comp comp_def restored)

lemma restored_session_twice [restored]: "restored_session (restored_session s) = restored_session s"
  by (simp add: restored_session_def option.map_comp comp_def restored)

lemma restored_planning_session_twice [restored]:
  "restored_planning_session (restored_planning_session s) = restored_planning_session s"
  by (simp add: restored_planning_session_def option.map_comp comp_def restored)

lemma restored_approval_twice [restored]:
  "restored_approval (Some ids) (restored_approval (Some ids) r) = restored_approval (Some ids) r"
  by (simp add: restored_approval_def restored_approval_request_def legacy_shell_def option.map_comp
      comp_def restored split: option.split)

section \<open>States\<close>

lemma restored_state_parts [simp]:
  "wst_sprint (ast_workflow (restored_state st)) = wst_sprint (ast_workflow st)"
  "wst_review (ast_workflow (restored_state st)) = wst_review (ast_workflow st)"
  "wst_verification (ast_workflow (restored_state st))
     = map_option restored_verification_report (wst_verification (ast_workflow st))"
  "wst_sessions (ast_workflow (restored_state st))
     = map (\<lambda>(k, s). (k, restored_session s)) (sort_key fst (wst_sessions (ast_workflow st)))"
  "ast_planning (restored_state st)
     = map (\<lambda>(k, s). (k, restored_planning_session s)) (sort_key fst (ast_planning st))"
  by (simp_all add: restored_state_def Let_def)

definition shell_ids :: "agent_state \<Rightarrow> string list" where
  "shell_ids st = legacy_workflow_ids (wst_sessions (ast_workflow (restored_state st)))"

lemma restored_state_approvals:
  "ast_approvals (restored_state st)
     = map (\<lambda>(k, r). (k, restored_approval (Some (shell_ids st)) r)) (sort_key fst (ast_approvals st))"
  by (simp add: shell_ids_def) (simp add: restored_state_def Let_def)

lemma sort_key_sorted_entries [simp]:
  "sort_key fst (map (\<lambda>(k, x). (k, f x)) (sort_key fst xs)) = map (\<lambda>(k, x). (k, f x)) (sort_key fst xs)"
proof -
  have "map fst (map (\<lambda>(k, x). (k, f x)) (sort_key fst xs)) = map fst (sort_key fst xs)"
    by (simp add: comp_def case_prod_beta)
  then have "sorted (map fst (map (\<lambda>(k, x). (k, f x)) (sort_key fst xs)))" by (metis sorted_sort_key)
  then show ?thesis by (rule sort_key_id_if_sorted)
qed

lemma restored_state_twice: "restored_state (restored_state st) = restored_state st"
proof -
  have sessions: "wst_sessions (ast_workflow (restored_state (restored_state st)))
      = wst_sessions (ast_workflow (restored_state st))"
    by (auto simp: restored)
  then have ids: "shell_ids (restored_state st) = shell_ids st"
    unfolding shell_ids_def by (rule arg_cong)
  have approvals: "ast_approvals (restored_state (restored_state st)) = ast_approvals (restored_state st)"
    unfolding restored_state_approvals [of "restored_state st"] ids restored_state_approvals [of st]
    by (auto simp: restored)
  have planning: "ast_planning (restored_state (restored_state st)) = ast_planning (restored_state st)"
    by (auto simp: restored)
  have workflow: "ast_workflow (restored_state (restored_state st)) = ast_workflow (restored_state st)"
    using sessions by (simp add: option.map_comp comp_def restored)
  from workflow approvals planning show ?thesis by (simp add: agent_state.equality)
qed

section \<open>Validity\<close>

lemma check_persistable_restored [simp]:
  "check_persistable (restored_verification_check c) = check_persistable c"
  by (simp add: check_persistable_def restored_verification_check_def list.pred_map comp_def restored)

lemma checks_persistable_restored [simp]:
  "list_all check_persistable (map restored_verification_check cs) = list_all check_persistable cs"
  by (simp add: list.pred_map comp_def)

lemma session_valid_restored: "session_valid s \<Longrightarrow> session_valid (restored_session s)"
  using session_post_init_restored [of s]
  by (auto simp: session_valid_def restored_session_def restored_workflow_request_def
      restored_candidate_verification_plan_def split: option.splits)

lemma approval_check_valid_restored [simp]:
  "approval_check_valid (restored_approval_check c) = approval_check_valid c"
  by (simp add: approval_check_valid_def restored_approval_check_def)

lemma approval_request_valid_restored:
  "approval_request_valid (restored_approval_request ids r) = approval_request_valid r"
  by (cases "ap_commit_metadata r")
    (simp_all add: approval_request_valid_def restored_approval_request_def restored_commit_metadata_def
      list.pred_map comp_def)

lemma planning_session_valid_restored:
  "planning_session_valid s \<Longrightarrow> planning_session_valid (restored_planning_session s)"
  by (auto simp: planning_session_valid_def planning_session_post_init_def restored_planning_session_def
      split: if_splits)

lemma state_valid_restored:
  assumes "state_valid st"
  shows "state_valid (restored_state st)"
proof -
  have "list_all (\<lambda>(k, s). session_valid s) (wst_sessions (ast_workflow (restored_state st)))"
    using assms by (auto simp: state_valid_def list_all_iff session_valid_restored)
  moreover have "list_all (\<lambda>(k, r). approval_request_valid (ad_request (decision r)))
      (ast_approvals (restored_state st))"
    using assms unfolding restored_state_approvals
    by (auto simp: state_valid_def list_all_iff restored_approval_def approval_request_valid_restored)
  moreover have "list_all (\<lambda>(k, s). planning_session_valid s) (ast_planning (restored_state st))"
    using assms by (auto simp: state_valid_def list_all_iff planning_session_valid_restored)
  ultimately show ?thesis by (simp add: state_valid_def)
qed

section \<open>Keys\<close>

definition distinct_keys :: "agent_state \<Rightarrow> bool" where
  "distinct_keys st \<longleftrightarrow> distinct (map fst (wst_sessions (ast_workflow st)))
     \<and> distinct (map fst (ast_approvals st)) \<and> distinct (map fst (ast_planning st))"

lemma map_fst_entries [simp]: "map (fst \<circ> (\<lambda>(k, x). (k, f k x))) xs = map fst xs"
  by (simp add: comp_def case_prod_beta)

lemma distinct_sort_entries: "distinct (map fst (sort_key fst xs)) = distinct (map fst xs)"
proof -
  have "mset (map fst (sort_key fst xs)) = mset (map fst xs)" by simp
  then show ?thesis by (rule mset_eq_imp_distinct_iff)
qed

lemma traverse_keys:
  assumes "\<And>x y. f x = Inr y \<Longrightarrow> fst y = fst x" "traverse f xs = Inr ys"
  shows "map fst ys = map fst xs"
  using assms(2) by (induction xs arbitrary: ys) (auto simp: res_simps dest!: assms(1))

lemma decode_entries_keys: "decode_entries m f d = Inr xs \<Longrightarrow> map fst xs = map fst d"
  unfolding decode_entries_def by (rule traverse_keys) (auto simp: res_simps)

lemma encode_sessions_keys:
  assumes "encode_sessions xs = Inr p"
  obtains rows where "p = PDict rows" "map fst rows = map fst (sort_key fst xs)"
proof -
  obtain rows where rows: "traverse (\<lambda>(k, s). and_then (encode_workflow_session s)
      (\<lambda>e. Inr (k, PDict e))) (sort_key fst xs) = Inr rows" "p = PDict rows"
    using assms by (auto simp: encode_sessions_def res_simps)
  have "map fst rows = map fst (sort_key fst xs)"
    by (rule traverse_keys [OF _ rows(1)]) (auto simp: res_simps)
  with rows(2) show thesis by (rule that)
qed

lemma persistence_error_Inr [simp]: "(persistence_error m = Inr x) = False"
  by (simp add: persistence_error_def)

text \<open>What the coordinator writes is read back under the same keys.\<close>

lemma decode_payload_keys:
  assumes encoded: "encode_payload st = Inr d" and decoded: "decode_payload d = Inr st'"
    and keys: "distinct_keys st"
  shows "distinct_keys st'"
proof -
  obtain p where p: "encode_sessions (wst_sessions (ast_workflow st)) = Inr p"
    using encoded by (auto simp: encode_payload_def res_simps)
  obtain rows where rows: "p = PDict rows" "map fst rows = map fst (sort_key fst (wst_sessions (ast_workflow st)))"
    using encode_sessions_keys [OF p] .
  let ?approvals = "map (\<lambda>(k, r). (k, PDict (encode_approval_result r))) (sort_key fst (ast_approvals st))"
  let ?planning = "map (\<lambda>(k, s). (k, PDict (encode_planning_session s))) (sort_key fst (ast_planning st))"
  have parts: "get d ''workflow_state'' = PDict
        [(''review'', optional (\<lambda>x. PDict (encode_review_report x)) (wst_review (ast_workflow st))),
         (''sessions'', PDict rows),
         (''sprint'', optional (\<lambda>x. PDict (encode_sprint_status x)) (wst_sprint (ast_workflow st))),
         (''verification'', optional (\<lambda>x. PDict (encode_verification_report x))
           (wst_verification (ast_workflow st)))]"
    "get d ''approvals'' = PDict ?approvals"
    "get d ''candidate_planning'' = PDict [(''sessions'', PDict ?planning)]"
    using encoded by (auto simp: encode_payload_def p rows(1) entries_def codec)
  obtain v sessions approvals planning where
    "decode_entries ''Invalid workflow session'' (decode_workflow_session v) rows = Inr sessions"
    "decode_entries ''Invalid approval result''
       (decode_approval_result (Some (legacy_workflow_ids sessions))) ?approvals = Inr approvals"
    "decode_entries ''Invalid candidate planning session'' (decode_planning_session v) ?planning = Inr planning"
    and st': "wst_sessions (ast_workflow st') = sessions" "ast_approvals st' = approvals"
      "ast_planning st' = planning"
    using decoded unfolding decode_payload_def
    by (auto simp: res_simps parts codec planning_object_def require_dict_def
        split: option.splits if_splits)
  then show ?thesis
    using keys rows(2) by (simp add: distinct_keys_def distinct_sort_entries decode_entries_keys)
qed

lemma distinct_keys_restored: "distinct_keys st \<Longrightarrow> distinct_keys (restored_state st)"
  by (simp add: distinct_keys_def restored_state_approvals distinct_sort_entries)

end
