(* ===== verification/Persistence.thy ===== *)
theory Persistence
  imports StateCodec
begin

text \<open>
  The persistence coordinator of the Agent (\<open>persistence/snapshot.py\<close>) and its patch journal
  (\<open>persistence/patch_journal.py\<close>): the candidate stores a transaction works on, the validation of
  an aggregate, what a restart does with claimed sessions, and the write that replaces the snapshot
  file. The file system is the two files and, for each call, what goes wrong in it
  (\<open>disk_event\<close>); a write may fail before \<open>os.replace\<close> or after it, in the
  \<open>fsync\<close> of the directory. The coordinator holds its lock through each call, so a call is one
  step. JSON text and payloads are identified.
\<close>

section \<open>The stores of a transaction\<close>

definition candidate_create_session :: "workflow_session \<Rightarrow> workflow_store \<Rightarrow> workflow_store res" where
  "candidate_create_session session w =
     (if blank (wf_identifier session)
      then Inl (ValueError ''Workflow session identifier must not be blank'')
      else if map_of (wst_sessions w) (wf_identifier session) \<noteq> None
      then Inl (ValueError (''Workflow session identifier already exists: '' @ wf_identifier session))
      else Inr (w\<lparr>wst_sessions := AList.update (wf_identifier session) session (wst_sessions w)\<rparr>))"

definition candidate_delete_session :: "string \<Rightarrow> workflow_store \<Rightarrow> bool \<times> workflow_store" where
  "candidate_delete_session identifier w =
     (map_of (wst_sessions w) identifier \<noteq> None,
      w\<lparr>wst_sessions := AList.delete identifier (wst_sessions w)\<rparr>)"

definition candidate_transition_session :: "string \<Rightarrow> session_state \<Rightarrow> session_state
    \<Rightarrow> (workflow_session \<Rightarrow> workflow_session) \<Rightarrow> workflow_store \<Rightarrow> (bool \<times> workflow_store) res" where
  "candidate_transition_session identifier expected new artifacts w =
     (case map_of (wst_sessions w) identifier of
        None \<Rightarrow> Inr (False, w)
      | Some session \<Rightarrow>
          if wf_state session \<noteq> expected then Inr (False, w)
          else and_then (session_post_init (artifacts (session\<lparr>wf_state := new\<rparr>))) (\<lambda>updated.
            Inr (True, w\<lparr>wst_sessions := AList.update identifier updated (wst_sessions w)\<rparr>)))"

definition candidate_publish_sprint :: "sprint_status \<Rightarrow> workflow_store \<Rightarrow> workflow_store" where
  "candidate_publish_sprint status w = w\<lparr>wst_sprint := Some status\<rparr>"

definition candidate_publish_verification :: "verification_report \<Rightarrow> workflow_store \<Rightarrow> workflow_store" where
  "candidate_publish_verification report w = w\<lparr>wst_verification := Some report\<rparr>"

definition candidate_publish_review :: "review_report \<Rightarrow> workflow_store \<Rightarrow> workflow_store" where
  "candidate_publish_review report w = w\<lparr>wst_review := Some report\<rparr>"

definition candidate_save_request :: "approval_request \<Rightarrow> approval_repository \<Rightarrow> approval_repository res" where
  "candidate_save_request r s =
     (if map_of s (ap_identifier r) \<noteq> None
      then Inl (ValueError (''Approval request already exists: '' @ ap_identifier r))
      else Inr (AList.update (ap_identifier r) (ApprovalResult
        \<lparr>ad_request = r, ad_status = PENDING, ad_reviewer = None, ad_reason = None\<rparr>) s))"

definition candidate_update_decision ::
  "string \<Rightarrow> approval_decision \<Rightarrow> approval_repository \<Rightarrow> bool \<times> approval_repository" where
  "candidate_update_decision identifier d s = (case map_of s identifier of
     None \<Rightarrow> (False, s)
   | Some current \<Rightarrow>
     if ad_status (decision current) \<noteq> PENDING then (False, s)
     else if ad_request d \<noteq> ad_request (decision current) then (False, s)
     else (True, AList.update identifier (ApprovalResult d) s))"

definition candidate_supersede_request :: "string \<Rightarrow> approval_request \<Rightarrow> approval_request
    \<Rightarrow> approval_repository \<Rightarrow> bool \<times> approval_repository" where
  "candidate_supersede_request identifier expected replacement s =
     (if ap_identifier replacement \<noteq> identifier then (False, s)
      else (case map_of s identifier of
        None \<Rightarrow> (False, s)
      | Some current \<Rightarrow>
        if ad_status (decision current) \<noteq> PENDING then (False, s)
        else if ad_request (decision current) \<noteq> expected then (False, s)
        else (True, AList.update identifier (ApprovalResult \<lparr>ad_request = replacement,
          ad_status = PENDING, ad_reviewer = None, ad_reason = None\<rparr>) s)))"

definition candidate_create_planning :: "planning_session \<Rightarrow> planning_store \<Rightarrow> planning_store res" where
  "candidate_create_planning session s =
     (if blank (cps_identifier session)
      then Inl (ValueError ''Candidate planning session identifier must not be blank'')
      else if map_of s (cps_identifier session) \<noteq> None
      then Inl (ValueError (''Candidate planning session identifier already exists: ''
        @ cps_identifier session))
      else Inr (AList.update (cps_identifier session) session s))"

definition candidate_replace_planning :: "planning_session \<Rightarrow> planning_store \<Rightarrow> planning_store res" where
  "candidate_replace_planning session s =
     (if blank (cps_identifier session)
      then Inl (ValueError ''Candidate planning session identifier must not be blank'')
      else if map_of s (cps_identifier session) = None
      then Inl (ValueError (''Candidate planning session identifier does not exist: ''
        @ cps_identifier session))
      else Inr (AList.update (cps_identifier session) session s))"

text \<open>The calls a mutation makes of the three candidate stores, and what it sees of each; the engine
  also assigns to \<open>workflow.sessions\<close> itself.\<close>

datatype store_call =
    CreateSession workflow_session
  | AssignSession string workflow_session
  | DeleteSession string
  | TransitionSession string session_state session_state "workflow_session \<Rightarrow> workflow_session"
  | PublishSprint sprint_status
  | PublishVerification verification_report
  | PublishReview review_report
  | SaveRequest approval_request
  | UpdateDecision string approval_decision
  | SupersedeRequest string approval_request approval_request
  | CreatePlanning planning_session
  | ReplacePlanning planning_session

fun call_store :: "store_call \<Rightarrow> agent_state \<Rightarrow> (bool \<times> agent_state) res" where
  "call_store (CreateSession s) st = and_then (candidate_create_session s (ast_workflow st))
     (\<lambda>w. Inr (True, st\<lparr>ast_workflow := w\<rparr>))"
| "call_store (AssignSession i s) st = Inr (True, st\<lparr>ast_workflow := (ast_workflow st)
     \<lparr>wst_sessions := AList.update i s (wst_sessions (ast_workflow st))\<rparr>\<rparr>)"
| "call_store (DeleteSession i) st = (case candidate_delete_session i (ast_workflow st) of
     (b, w) \<Rightarrow> Inr (b, st\<lparr>ast_workflow := w\<rparr>))"
| "call_store (TransitionSession i a b f) st =
     and_then (candidate_transition_session i a b f (ast_workflow st))
       (\<lambda>(c, w). Inr (c, st\<lparr>ast_workflow := w\<rparr>))"
| "call_store (PublishSprint x) st =
     Inr (True, st\<lparr>ast_workflow := candidate_publish_sprint x (ast_workflow st)\<rparr>)"
| "call_store (PublishVerification x) st =
     Inr (True, st\<lparr>ast_workflow := candidate_publish_verification x (ast_workflow st)\<rparr>)"
| "call_store (PublishReview x) st =
     Inr (True, st\<lparr>ast_workflow := candidate_publish_review x (ast_workflow st)\<rparr>)"
| "call_store (SaveRequest r) st = and_then (candidate_save_request r (ast_approvals st))
     (\<lambda>a. Inr (True, st\<lparr>ast_approvals := a\<rparr>))"
| "call_store (UpdateDecision i d) st = (case candidate_update_decision i d (ast_approvals st) of
     (b, a) \<Rightarrow> Inr (b, st\<lparr>ast_approvals := a\<rparr>))"
| "call_store (SupersedeRequest i e r) st =
     (case candidate_supersede_request i e r (ast_approvals st) of (b, a) \<Rightarrow> Inr (b, st\<lparr>ast_approvals := a\<rparr>))"
| "call_store (CreatePlanning s) st = and_then (candidate_create_planning s (ast_planning st))
     (\<lambda>p. Inr (True, st\<lparr>ast_planning := p\<rparr>))"
| "call_store (ReplacePlanning s) st = and_then (candidate_replace_planning s (ast_planning st))
     (\<lambda>p. Inr (True, st\<lparr>ast_planning := p\<rparr>))"

section \<open>The validation of an aggregate\<close>

fun waiting_purpose :: "session_state \<Rightarrow> approval_purpose option" where
  "waiting_purpose SESSION_AWAITING_APPROVAL = Some IMPLEMENTATION"
| "waiting_purpose SESSION_AWAITING_IMPLEMENTATION_APPROVAL = Some IMPLEMENTATION"
| "waiting_purpose SESSION_AWAITING_VERIFICATION_APPROVAL = Some VERIFICATION"
| "waiting_purpose SESSION_AWAITING_COMMIT_APPROVAL = Some COMMIT"
| "waiting_purpose _ = None"

fun approval_id_for :: "string \<Rightarrow> approval_purpose \<Rightarrow> string" where
  "approval_id_for w CANDIDATE_WORKFLOW_SHELL = ''approval-'' @ w"
| "approval_id_for w IMPLEMENTATION = ''approval-'' @ w"
| "approval_id_for w VERIFICATION = ''approval-verification-'' @ w"
| "approval_id_for w OPERATIONAL_ACTION = ''approval-operational-'' @ w"
| "approval_id_for w COMMIT = ''approval-commit-'' @ w"

definition validate_commit_approval :: "approval_request \<Rightarrow> workflow_session \<Rightarrow> unit res" where
  "validate_commit_approval request s = (case ap_commit_metadata request of
     None \<Rightarrow> persistence_error ''Commit approval metadata is missing''
   | Some m \<Rightarrow>
       if wf_reviewed_content_fingerprint s \<noteq> Some (cam_reviewed_content_fingerprint m)
       then persistence_error ''Commit approval fingerprint mismatch''
       else if wf_expected_branch s \<noteq> cam_expected_branch m
       then persistence_error ''Commit approval branch mismatch''
       else if wf_expected_head s \<noteq> cam_expected_head m
       then persistence_error ''Commit approval head mismatch''
       else if sort (wf_reviewed_files s) \<noteq> cam_reviewed_files m
       then persistence_error ''Commit approval reviewed files mismatch''
       else (case wf_commit_request s of
           None \<Rightarrow> persistence_error ''Commit approval session request is missing''
         | Some q \<Rightarrow>
             if cr_message q \<noteq> cam_commit_message m
             then persistence_error ''Commit approval message mismatch''
             else Inr ()))"

definition validate_operational_approval :: "approval_request \<Rightarrow> workflow_session \<Rightarrow> unit res" where
  "validate_operational_approval request s =
     (case (wf_operational_action_request s, ap_operational_metadata request) of
        (Some a, Some m) \<Rightarrow>
          if (oam_action_request_id m, oam_action_request_digest m, oam_candidate_id m,
              oam_candidate_fingerprint m, oam_operational_plan_fingerprint m, oam_provider_id m,
              oam_resource_id m, oam_resource_type m, oam_target_fingerprint m, oam_target_version m,
              oam_operation_intent m, oam_disruption_scope m, oam_verification_digest m,
              oam_generated_at m, oam_expires_at m)
            \<noteq> (oar_request_id a, oar_request_digest a, oar_candidate_id a,
              oar_candidate_fingerprint a, oar_candidate_plan_fingerprint a, oar_provider_id a,
              oar_resource_id a, oar_resource_type a, oar_target_fingerprint a, oar_target_version a,
              oar_execution_intent a, oar_disruption_scope a,
              agent_verification_digest (oar_verification a), instant (oar_generated_at a),
              instant (oar_expires_at a))
          then persistence_error ''Operational approval does not bind exact request''
          else Inr ()
      | _ \<Rightarrow> persistence_error ''Operational approval request artifact is missing'')"

definition validate_approval_request :: "approval_request \<Rightarrow> unit res" where
  "validate_approval_request r =
     and_then (if ap_purpose r = COMMIT
         then (case ap_commit_metadata r of
             None \<Rightarrow> persistence_error ''Commit approval metadata is required''
           | Some m \<Rightarrow> validate_digest (cam_reviewed_content_fingerprint m))
         else if ap_commit_metadata r \<noteq> None
         then persistence_error ''Only commit approvals may contain commit metadata''
         else Inr ()) (\<lambda>_.
     and_then (if ap_purpose r = OPERATIONAL_ACTION
         then (if ap_operational_metadata r = None
           then persistence_error ''Operational approval metadata is required'' else Inr ())
         else if ap_operational_metadata r \<noteq> None
         then persistence_error ''Only operational approvals may contain operational metadata''
         else Inr ()) (\<lambda>_.
     and_then (traverse (\<lambda>v. validate_digest (vae_value_digest v))
         (concat (map vac_environment (ap_verification_checks r)))) (\<lambda>_. Inr ())))"

text \<open>The purpose of the approval a session waits for, where it waits for one.\<close>

definition expected_purpose :: "approval_repository \<Rightarrow> workflow_session \<Rightarrow> approval_purpose option" where
  "expected_purpose approvals s =
     (let purpose = waiting_purpose (wf_state s);
          shell = (if wf_state s = SESSION_AWAITING_APPROVAL \<and> wf_source s = SOURCE_CANDIDATE
            then (case map_of approvals (''approval-'' @ wf_identifier s) of
                None \<Rightarrow> purpose
              | Some r \<Rightarrow> if ap_purpose (ad_request (decision r)) = CANDIDATE_WORKFLOW_SHELL
                  then Some CANDIDATE_WORKFLOW_SHELL else purpose)
            else purpose) in
      if wf_state s = SESSION_AWAITING_IMPLEMENTATION_APPROVAL
         \<and> wf_effect_kind s = EFFECT_OPERATIONAL_ACTION
      then Some OPERATIONAL_ACTION else shell)"

definition expected_approval_id :: "workflow_session \<Rightarrow> approval_purpose \<Rightarrow> string" where
  "expected_approval_id s purpose =
     (case (purpose, wf_operational_action_approval_id s) of
        (OPERATIONAL_ACTION, Some i) \<Rightarrow> i
      | _ \<Rightarrow> (case (purpose = IMPLEMENTATION \<and> wf_source s = SOURCE_CANDIDATE,
            wf_candidate_implementation_approval_id s) of
          (True, Some i) \<Rightarrow> i
        | _ \<Rightarrow> approval_id_for (wf_identifier s) purpose))"

definition waiting_approval :: "approval_repository \<Rightarrow> workflow_session \<Rightarrow> approval_purpose
    \<Rightarrow> approval_result option" where
  "waiting_approval approvals s purpose =
     (case map_of approvals (expected_approval_id s purpose) of
        Some r \<Rightarrow> Some r
      | None \<Rightarrow> if purpose = IMPLEMENTATION \<and> wf_source s = SOURCE_CANDIDATE
          then map_of approvals (''approval-'' @ wf_identifier s) else None)"

definition validate_session :: "approval_repository \<Rightarrow> string \<times> workflow_session \<Rightarrow> unit res" where
  "validate_session approvals = (\<lambda>(identifier, s).
     if identifier \<noteq> wf_identifier s
     then persistence_error ''Workflow session key does not match identifier''
     else (case expected_purpose approvals s of
         None \<Rightarrow> Inr ()
       | Some purpose \<Rightarrow> (case waiting_approval approvals s purpose of
           None \<Rightarrow> persistence_error ''Waiting workflow is missing approval request''
         | Some result \<Rightarrow>
             let request = ad_request (decision result) in
             if ap_workflow_id request \<noteq> Some (wf_identifier s) \<or> ap_purpose request \<noteq> purpose
             then persistence_error ''Waiting workflow approval does not match''
             else and_then (if purpose = COMMIT then validate_commit_approval request s else Inr ()) (\<lambda>_.
               if purpose = OPERATIONAL_ACTION then validate_operational_approval request s
               else Inr ()))))"

definition validate_approval :: "workflow_store \<Rightarrow> string \<times> approval_result \<Rightarrow> unit res" where
  "validate_approval w = (\<lambda>(identifier, result).
     let request = ad_request (decision result) in
     if identifier \<noteq> ap_identifier request
     then persistence_error ''Approval key does not match request identifier''
     else and_then (validate_approval_request request) (\<lambda>_.
       case ap_workflow_id request of
         None \<Rightarrow> Inr ()
       | Some i \<Rightarrow> if map_of (wst_sessions w) i = None
           then persistence_error ''Workflow approval references missing workflow'' else Inr ()))"

definition validate_aggregate :: "agent_state \<Rightarrow> unit res" where
  "validate_aggregate st =
     and_then (traverse (validate_session (ast_approvals st)) (wst_sessions (ast_workflow st))) (\<lambda>_.
     and_then (traverse (validate_approval (ast_workflow st)) (ast_approvals st)) (\<lambda>_. Inr ()))"

section \<open>The files\<close>

datatype stored = Missing | Unreadable | NotJson | Value payload

datatype directory_state = DirReady | DirNotCreated | DirNotADirectory | DirNoAccess

datatype write_state = WriteDone | WriteFails | SyncFails

record disk =
  dk_snapshot :: stored
  dk_journal :: stored

record disk_event =
  de_directory :: directory_state
  de_write :: write_state

definition prepare_state_dir :: "string \<Rightarrow> directory_state \<Rightarrow> unit res" where
  "prepare_state_dir state_dir v = (case v of
     DirReady \<Rightarrow> Inr ()
   | DirNotCreated \<Rightarrow> persistence_error (''Failed to create state directory: '' @ state_dir)
   | DirNotADirectory \<Rightarrow> persistence_error (''State path is not a directory: '' @ state_dir)
   | DirNoAccess \<Rightarrow>
       persistence_error (''State directory is not readable and writable: '' @ state_dir))"

definition read_snapshot :: "disk \<Rightarrow> object res" where
  "read_snapshot k = (case dk_snapshot k of
     Missing \<Rightarrow> persistence_error ''Persisted Agent state cannot be read''
   | Unreadable \<Rightarrow> persistence_error ''Persisted Agent state cannot be read''
   | NotJson \<Rightarrow> persistence_error ''Persisted Agent state is corrupt JSON''
   | Value (PDict d) \<Rightarrow> Inr d
   | Value _ \<Rightarrow> persistence_error ''Persisted Agent state must be a JSON object'')"

definition write_payload :: "string \<Rightarrow> disk_event \<Rightarrow> object \<Rightarrow> disk \<Rightarrow> unit res \<times> disk" where
  "write_payload state_dir v d k = (case prepare_state_dir state_dir (de_directory v) of
     Inl e \<Rightarrow> (Inl e, k)
   | Inr _ \<Rightarrow> (case de_write v of
       WriteDone \<Rightarrow> (Inr (), k\<lparr>dk_snapshot := Value (PDict d)\<rparr>)
     | WriteFails \<Rightarrow> (persistence_error ''Persisted Agent state cannot be written'', k)
     | SyncFails \<Rightarrow> (persistence_error ''Persisted Agent state cannot be written'',
         k\<lparr>dk_snapshot := Value (PDict d)\<rparr>)))"

subsection \<open>The patch journal\<close>

text \<open>\<open>mkdir\<close> stands outside the \<open>try\<close> of \<open>write\<close>. A journal
  that was replaced but whose mode could not be set is \<open>SyncFails\<close>.\<close>

definition journal_write :: "disk_event \<Rightarrow> object \<Rightarrow> disk \<Rightarrow> unit res \<times> disk" where
  "journal_write v d k =
     (if de_directory v = DirNotCreated \<or> de_directory v = DirNotADirectory
      then (Inl (exn.OSError ''mkdir''), k)
      else if de_directory v = DirNoAccess
      then (Inl (PatchJournalError ''worker patch journal cannot be written''), k)
      else (case de_write v of
          WriteDone \<Rightarrow> (Inr (), k\<lparr>dk_journal := Value (PDict d)\<rparr>)
        | WriteFails \<Rightarrow> (Inl (PatchJournalError ''worker patch journal cannot be written''), k)
        | SyncFails \<Rightarrow> (Inl (PatchJournalError ''worker patch journal cannot be written''),
            k\<lparr>dk_journal := Value (PDict d)\<rparr>)))"

definition string_value :: "payload \<Rightarrow> string option" where
  "string_value v = (case v of PText s \<Rightarrow> Some s | PTime t \<Rightarrow> Some (isoformat t) | _ \<Rightarrow> None)"

definition journal_read :: "disk \<Rightarrow> object option res" where
  "journal_read k = (case dk_journal k of
     Missing \<Rightarrow> Inr None
   | Unreadable \<Rightarrow> Inl (PatchJournalError ''worker patch journal cannot be read'')
   | NotJson \<Rightarrow> Inl (PatchJournalError ''worker patch journal cannot be read'')
   | Value (PDict d) \<Rightarrow>
       if get d ''patch_digest'' \<noteq> PNull
         \<and> (case string_value (get d ''patch_digest'') of None \<Rightarrow> True
            | Some s \<Rightarrow> \<not> patch_digest_shape s)
       then Inl (PatchJournalError ''worker patch journal digest is invalid'')
       else if get d ''patch'' \<noteq> PNull \<and> string_value (get d ''patch'') = None
       then Inl (PatchJournalError ''worker patch journal patch is invalid'')
       else Inr (Some d)
   | Value _ \<Rightarrow> Inl (PatchJournalError ''worker patch journal is invalid''))"

definition journal_clear :: "bool \<Rightarrow> disk \<Rightarrow> unit res \<times> disk" where
  "journal_clear unlinked k =
     (if unlinked then (Inr (), k\<lparr>dk_journal := Missing\<rparr>)
      else (Inl (PatchJournalError ''worker patch journal cannot be finalized''), k))"

section \<open>The coordinator\<close>

text \<open>\<open>_candidate_planning_state\<close> may be absent (\<open>co_planning_store\<close>).\<close>

record coordinator =
  co_state_dir :: string
  co_live :: agent_state
  co_planning_store :: bool
  co_disk :: disk

definition export_state :: "coordinator \<Rightarrow> agent_state" where
  "export_state c = \<lparr>ast_workflow = export_snapshot (ast_workflow (co_live c)),
     ast_approvals = export_approvals (ast_approvals (co_live c)),
     ast_planning = (if co_planning_store c then ast_planning (co_live c) else [])\<rparr>"

definition replace_state :: "agent_state \<Rightarrow> coordinator \<Rightarrow> coordinator" where
  "replace_state st c = c\<lparr>co_live := \<lparr>
     ast_workflow = replace_snapshot (ast_workflow (co_live c)) (ast_workflow st),
     ast_approvals = replace_approvals (ast_approvals (co_live c)) (ast_approvals st),
     ast_planning = (if co_planning_store c then ast_planning st else ast_planning (co_live c))\<rparr>\<rparr>"

definition commit_candidates :: "disk_event \<Rightarrow> agent_state \<Rightarrow> coordinator \<Rightarrow> unit res \<times> coordinator" where
  "commit_candidates v st c =
     (case and_then (validate_aggregate st) (\<lambda>_. encode_payload st) of
        Inl e \<Rightarrow> (Inl e, c)
      | Inr d \<Rightarrow> (case write_payload (co_state_dir c) v d (co_disk c) of
          (Inl e, k) \<Rightarrow> (Inl e, c\<lparr>co_disk := k\<rparr>)
        | (Inr _, k) \<Rightarrow> (Inr (), replace_state st (c\<lparr>co_disk := k\<rparr>))))"

definition persist_current_state :: "disk_event \<Rightarrow> coordinator \<Rightarrow> unit res \<times> coordinator" where
  "persist_current_state v c = commit_candidates v (export_state c) c"

text \<open>A mutation works on copies of the three stores and may raise; its copies are dropped then.\<close>

definition mutate_aggregate :: "disk_event \<Rightarrow> (agent_state \<Rightarrow> ('t \<times> agent_state) res) \<Rightarrow> coordinator
    \<Rightarrow> 't res \<times> coordinator" where
  "mutate_aggregate v mutation c = (case mutation (export_state c) of
     Inl e \<Rightarrow> (Inl e, c)
   | Inr (result, st) \<Rightarrow> (case commit_candidates v st c of
       (Inl e, c') \<Rightarrow> (Inl e, c')
     | (Inr _, c') \<Rightarrow> (Inr result, c')))"

definition mutate_workflow :: "disk_event \<Rightarrow> (workflow_store \<Rightarrow> ('t \<times> workflow_store) res) \<Rightarrow> coordinator
    \<Rightarrow> 't res \<times> coordinator" where
  "mutate_workflow v mutation = mutate_aggregate v (\<lambda>st. and_then (mutation (ast_workflow st))
     (\<lambda>(result, w). Inr (result, st\<lparr>ast_workflow := w\<rparr>)))"

definition mutate_approval :: "disk_event \<Rightarrow> (approval_repository \<Rightarrow> ('t \<times> approval_repository) res)
    \<Rightarrow> coordinator \<Rightarrow> 't res \<times> coordinator" where
  "mutate_approval v mutation = mutate_aggregate v (\<lambda>st. and_then (mutation (ast_approvals st))
     (\<lambda>(result, a). Inr (result, st\<lparr>ast_approvals := a\<rparr>)))"

definition mutate_candidate_planning :: "disk_event \<Rightarrow> (planning_store \<Rightarrow> ('t \<times> planning_store) res)
    \<Rightarrow> coordinator \<Rightarrow> 't res \<times> coordinator" where
  "mutate_candidate_planning v mutation = mutate_aggregate v (\<lambda>st. and_then (mutation (ast_planning st))
     (\<lambda>(result, p). Inr (result, st\<lparr>ast_planning := p\<rparr>)))"

definition write_patch_journal :: "disk_event \<Rightarrow> object \<Rightarrow> coordinator \<Rightarrow> unit res \<times> coordinator" where
  "write_patch_journal v d c = (case journal_write v d (co_disk c) of (r, k) \<Rightarrow> (r, c\<lparr>co_disk := k\<rparr>))"

definition read_patch_journal :: "coordinator \<Rightarrow> object option res" where
  "read_patch_journal c = journal_read (co_disk c)"

definition clear_patch_journal :: "bool \<Rightarrow> coordinator \<Rightarrow> unit res \<times> coordinator" where
  "clear_patch_journal unlinked c =
     (case journal_clear unlinked (co_disk c) of (r, k) \<Rightarrow> (r, c\<lparr>co_disk := k\<rparr>))"

section \<open>Restart\<close>

fun interruption_reason :: "session_state \<Rightarrow> string option" where
  "interruption_reason SESSION_EXECUTING = Some ''implementation interrupted by process restart''"
| "interruption_reason SESSION_VERIFYING =
     Some ''verification or review interrupted by process restart''"
| "interruption_reason SESSION_COMMITTING = Some ''commit interrupted by process restart''"
| "interruption_reason _ = None"

text \<open>The session a restart leaves alone: the one that was executing when its patch was written to
  the journal.\<close>

definition journal_holds :: "object option \<Rightarrow> string \<Rightarrow> workflow_session \<Rightarrow> bool" where
  "journal_holds journal identifier s \<longleftrightarrow> wf_state s = SESSION_EXECUTING
     \<and> (case journal of None \<Rightarrow> False
        | Some d \<Rightarrow> string_value (get d ''workflow_id'') = Some identifier)"

definition recover_session :: "object option \<Rightarrow> string \<times> workflow_session
    \<Rightarrow> (bool \<times> string \<times> workflow_session) res" where
  "recover_session journal = (\<lambda>(identifier, s). (case interruption_reason (wf_state s) of
     None \<Rightarrow> Inr (False, identifier, s)
   | Some reason \<Rightarrow>
       if journal_holds journal identifier s then Inr (False, identifier, s)
       else and_then (session_post_init (s\<lparr>wf_state := SESSION_BLOCKED, wf_blocked_reason := Some reason\<rparr>))
         (\<lambda>blocked. Inr (True, identifier, blocked))))"

definition recover_claimed_sessions :: "disk \<Rightarrow> workflow_store \<Rightarrow> (bool \<times> workflow_store) res" where
  "recover_claimed_sessions k w =
     and_then (journal_read k) (\<lambda>journal.
     and_then (traverse (recover_session journal) (wst_sessions w)) (\<lambda>rows.
     Inr (list_ex fst rows, w\<lparr>wst_sessions := map snd rows\<rparr>)))"

definition initialize :: "disk_event \<Rightarrow> coordinator \<Rightarrow> unit res \<times> coordinator" where
  "initialize v c =
     (case prepare_state_dir (co_state_dir c) (de_directory v) of
        Inl e \<Rightarrow> (Inl e, c)
      | Inr _ \<Rightarrow>
          if dk_snapshot (co_disk c) = Missing then (Inr (), c)
          else (case and_then (read_snapshot (co_disk c)) (\<lambda>d.
                and_then (decode_payload d) (\<lambda>st.
                and_then (recover_claimed_sessions (co_disk c) (ast_workflow st)) (\<lambda>(transformed, w).
                let recovered = st\<lparr>ast_workflow := w\<rparr> in
                and_then (validate_aggregate recovered) (\<lambda>_.
                and_then (if transformed then and_then (encode_payload recovered) (\<lambda>d. Inr (Some d))
                  else Inr None) (\<lambda>rewritten. Inr (recovered, rewritten)))))) of
              Inl e \<Rightarrow> (Inl e, c)
            | Inr (recovered, rewritten) \<Rightarrow>
                (case (case rewritten of None \<Rightarrow> (Inr (), co_disk c)
                     | Some d \<Rightarrow> write_payload (co_state_dir c) v d (co_disk c)) of
                   (Inl e, k) \<Rightarrow> (Inl e, c\<lparr>co_disk := k\<rparr>)
                 | (Inr _, k) \<Rightarrow> (Inr (), replace_state recovered (c\<lparr>co_disk := k\<rparr>)))))"

end
