(* ===== verification/PersistenceSafety.thy ===== *)
theory PersistenceSafety
  imports Restored Persistence
begin

text \<open>
  What the coordinator promises over every history of transactions, journal writes and restarts: a
  state that is live is the state a restart would read back, what a restart does to each session, and
  that each session waiting for an approval has the one that is bound to it. A mutation is a
  \<open>script\<close> of calls of the candidate stores, each of which may depend on what the ones before
  returned; a restart starts from empty stores.
\<close>

section \<open>Mutations\<close>

datatype 't script =
    Done 't
  | Abort exn
  | Look "agent_state \<Rightarrow> 't script"
  | Call store_call "bool \<Rightarrow> 't script"

primrec run_script :: "'t script \<Rightarrow> agent_state \<Rightarrow> ('t \<times> agent_state) res" where
  "run_script (Done x) = (\<lambda>st. Inr (x, st))"
| "run_script (Abort e) = (\<lambda>st. Inl e)"
| "run_script (Look f) = (\<lambda>st. run_script (f st) st)"
| "run_script (Call c k) = (\<lambda>st. and_then (call_store c st) (\<lambda>(b, st'). run_script (k b) st'))"

text \<open>A condition on every call a script can make.\<close>

primrec all_calls :: "(store_call \<Rightarrow> bool) \<Rightarrow> 't script \<Rightarrow> bool" where
  "all_calls P (Done x) = True"
| "all_calls P (Abort e) = True"
| "all_calls P (Look f) = (\<forall>st. all_calls P (f st))"
| "all_calls P (Call c k) = (P c \<and> (\<forall>b. all_calls P (k b)))"

lemma all_calls_True [simp]: "all_calls (\<lambda>c. True) s"
  by (induction s) simp_all

lemma run_script_keeps:
  assumes "\<And>c st b st'. P c \<Longrightarrow> Q st \<Longrightarrow> call_store c st = Inr (b, st') \<Longrightarrow> Q st'"
    and "all_calls P s" and "Q st" and "run_script s st = Inr (x, st')"
  shows "Q st'"
  using assms(2-)
proof (induction s arbitrary: st)
  case (Call c k)
  from Call.prems(3) obtain b st1 where "call_store c st = Inr (b, st1)" "run_script (k b) st1 = Inr (x, st')"
    by (auto simp: res_simps)
  with Call.prems Call.IH [of "k b" st1] assms(1) show ?case by auto
qed auto

subsection \<open>The candidate stores are the live stores\<close>

lemma candidate_stores:
  "candidate_create_session s w = create_session w s"
  "candidate_delete_session i w = delete_session w i"
  "candidate_transition_session i a b f w = transition_session w i a b f"
  "candidate_publish_sprint x w = publish_sprint x w"
  "candidate_publish_verification y w = publish_verification y w"
  "candidate_publish_review z w = publish_review z w"
  "candidate_save_request r p = save_request p r"
  "candidate_update_decision i d p = update_decision p i d"
  "candidate_supersede_request i r q p = supersede_pending_request p i r q"
  "candidate_create_planning t u = create_planning_session t u"
  "candidate_replace_planning t u = replace_planning_session t u"
  by (simp_all add: candidate_create_session_def create_session_def candidate_delete_session_def
      delete_session_def candidate_transition_session_def transition_session_def
      candidate_publish_sprint_def publish_sprint_def candidate_publish_verification_def
      publish_verification_def candidate_publish_review_def publish_review_def candidate_save_request_def
      save_request_def pending_result_def candidate_update_decision_def update_decision_def
      candidate_supersede_request_def supersede_pending_request_def candidate_create_planning_def
      create_planning_session_def candidate_replace_planning_def replace_planning_session_def require_def
      split: option.split)

lemma call_store_distinct_keys:
  assumes "distinct_keys st" "call_store c st = Inr (b, st')"
  shows "distinct_keys st'"
  using assms by (cases c)
    (auto simp: candidate_stores distinct_keys_def create_session_def delete_session_def
      transition_session_def publish_sprint_def publish_verification_def publish_review_def save_request_def
      update_decision_def supersede_pending_request_def create_planning_session_def
      replace_planning_session_def res_simps distinct_update distinct_delete
      split: if_splits option.splits)

subsection \<open>Calls on instances\<close>

definition session_parts_valid :: "workflow_session \<Rightarrow> bool" where
  "session_parts_valid s \<longleftrightarrow>
     (case wf_request s of None \<Rightarrow> True | Some r \<Rightarrow> list_all check_persistable (wq_verification_checks r))
     \<and> (case wf_operational_action_request s of None \<Rightarrow> True | Some r \<Rightarrow> action_request_post_init r = Inr r)
     \<and> (case wf_candidate_verification_plan s of None \<Rightarrow> True
        | Some p \<Rightarrow> list_all check_persistable (cvp_verification_checks p))
     \<and> (case wf_candidate_review_result s of None \<Rightarrow> True | Some r \<Rightarrow> review_persistable r)"

lemma session_valid_iff: "session_valid s \<longleftrightarrow> session_post_init s = Inr s \<and> session_parts_valid s"
  by (simp add: session_valid_def session_parts_valid_def)

text \<open>The arguments of a call are instances of their classes.\<close>

fun call_valid :: "store_call \<Rightarrow> bool" where
  "call_valid (CreateSession s) = session_valid s"
| "call_valid (AssignSession i s) = session_valid s"
| "call_valid (TransitionSession i a b f) =
     (\<forall>s. session_parts_valid s \<longrightarrow> session_parts_valid (f (s\<lparr>wf_state := b\<rparr>)))"
| "call_valid (SaveRequest r) = approval_request_valid r"
| "call_valid (SupersedeRequest i e r) = approval_request_valid r"
| "call_valid (CreatePlanning s) = planning_session_valid s"
| "call_valid (ReplacePlanning s) = planning_session_valid s"
| "call_valid _ = True"

lemma list_all_update:
  "list_all (\<lambda>(k, x). P x) xs \<Longrightarrow> P v \<Longrightarrow> list_all (\<lambda>(k, x). P x) (AList.update k v xs)"
  by (induction xs) auto

lemma list_all_delete: "list_all Q xs \<Longrightarrow> list_all Q (AList.delete k xs)"
  by (auto simp: list_all_iff AList.delete_eq)

lemma list_all_entry: "list_all (\<lambda>(k, x). P x) xs \<Longrightarrow> map_of xs k = Some v \<Longrightarrow> P v"
  by (auto simp: list_all_iff dest!: map_of_SomeD)

lemma call_store_valid:
  assumes "call_valid c" "state_valid st" "call_store c st = Inr (b, st')"
  shows "state_valid st'"
proof (cases c)
  case (TransitionSession i a d f)
  have valid: "list_all (\<lambda>(k, s). session_valid s) (wst_sessions (ast_workflow st))"
    using assms(2) by (simp add: state_valid_def)
  then have "session_valid s" if "map_of (wst_sessions (ast_workflow st)) i = Some s" for s
    using list_all_entry [OF _ that, of session_valid] by simp
  then show ?thesis
    using assms by (auto simp: TransitionSession candidate_stores transition_session_def res_simps
        state_valid_def session_valid_iff session_coherent_def list_all_update
        dest!: session_post_init_Inr split: option.splits if_splits)
next
  case (UpdateDecision i d)
  have valid: "list_all (\<lambda>(k, r). approval_request_valid (ad_request (decision r))) (ast_approvals st)"
    using assms(2) by (simp add: state_valid_def)
  then have "approval_request_valid (ad_request (decision r))" if "map_of (ast_approvals st) i = Some r" for r
    using list_all_entry [OF _ that, of "\<lambda>r. approval_request_valid (ad_request (decision r))"] by simp
  then show ?thesis
    using assms by (auto simp: UpdateDecision candidate_stores update_decision_def state_valid_def
        list_all_update [where P = "\<lambda>r. approval_request_valid (ad_request (decision r))"]
        split: option.splits if_splits)
qed (use assms in \<open>auto simp: candidate_stores create_session_def delete_session_def publish_sprint_def
      publish_verification_def publish_review_def save_request_def pending_result_def
      supersede_pending_request_def create_planning_session_def replace_planning_session_def res_simps
      state_valid_def list_all_update list_all_delete
      list_all_update [where P = "\<lambda>r. approval_request_valid (ad_request (decision r))"]
      split: option.splits if_splits\<close>)

lemma run_script_valid:
  "all_calls call_valid s \<Longrightarrow> state_valid st \<Longrightarrow> run_script s st = Inr (x, st') \<Longrightarrow> state_valid st'"
  by (rule run_script_keeps [where P = call_valid and Q = state_valid]) (auto intro: call_store_valid)

lemma run_script_distinct_keys:
  "distinct_keys st \<Longrightarrow> run_script s st = Inr (x, st') \<Longrightarrow> distinct_keys st'"
  by (rule run_script_keeps [where P = "\<lambda>c. True" and Q = distinct_keys])
    (auto intro: call_store_distinct_keys)

section \<open>Histories\<close>

definition empty_state :: agent_state where
  "empty_state = \<lparr>ast_workflow = empty_store, ast_approvals = [], ast_planning = []\<rparr>"

definition first_start :: "string \<Rightarrow> coordinator \<times> bool" where
  "first_start state_dir = (\<lparr>co_state_dir = state_dir, co_live = empty_state, co_planning_store = True,
     co_disk = \<lparr>dk_snapshot = Missing, dk_journal = Missing\<rparr>\<rparr>, True)"

datatype lifecycle_event =
    Transact disk_event "unit script"
  | Persist disk_event
  | WriteJournal disk_event object
  | ClearJournal bool
  | Restart disk_event

text \<open>A process that could not restart answers nothing until it is started again.\<close>

fun lifecycle_step :: "coordinator \<times> bool \<Rightarrow> lifecycle_event \<Rightarrow> coordinator \<times> bool" where
  "lifecycle_step (c, up) (Restart v) =
     (case initialize v (c\<lparr>co_live := empty_state\<rparr>) of (r, c') \<Rightarrow> (c', succeeds r))"
| "lifecycle_step (c, False) e = (c, False)"
| "lifecycle_step (c, True) (Transact v s) = (snd (mutate_aggregate v (run_script s) c), True)"
| "lifecycle_step (c, True) (Persist v) = (snd (persist_current_state v c), True)"
| "lifecycle_step (c, True) (WriteJournal v d) = (snd (write_patch_journal v d c), True)"
| "lifecycle_step (c, True) (ClearJournal u) = (snd (clear_patch_journal u c), True)"

text \<open>What a restart would read back.\<close>

definition stored_state :: "disk \<Rightarrow> agent_state res" where
  "stored_state k = (if dk_snapshot k = Missing then Inr empty_state
     else and_then (read_snapshot k) decode_payload)"

text \<open>A transaction on instances, and no failure of a write after the file was replaced.\<close>

fun clean_event :: "lifecycle_event \<Rightarrow> bool" where
  "clean_event (Transact v s) = (de_write v \<noteq> SyncFails \<and> all_calls call_valid s)"
| "clean_event (Persist v) = (de_write v \<noteq> SyncFails)"
| "clean_event (Restart v) = (de_write v \<noteq> SyncFails)"
| "clean_event _ = True"

lemma foldl_invariant:
  "(\<And>s e. P s \<Longrightarrow> Q e \<Longrightarrow> P (step s e)) \<Longrightarrow> P s \<Longrightarrow> list_all Q es \<Longrightarrow> P (foldl step s es)"
  by (induction es arbitrary: s) simp_all

lemma fold_update_append:
  "distinct (map fst ys @ map fst xs) \<Longrightarrow> fold (\<lambda>(k, v) d. AList.update k v d) xs ys = ys @ xs"
proof (induction xs arbitrary: ys)
  case (Cons x xs)
  obtain k v where x: "x = (k, v)" by (cases x)
  have "AList.update k v ys = ys @ [(k, v)]" if "k \<notin> fst ` set ys" for ys :: "('a \<times> 'b) list"
    using that by (induction ys) auto
  with Cons.prems x have "AList.update k v ys = ys @ [(k, v)]" by auto
  with Cons.IH [of "ys @ [(k, v)]"] Cons.prems show ?case by (simp add: x)
qed simp

lemma replace_approvals_distinct: "distinct (map fst snapshot) \<Longrightarrow> replace_approvals s snapshot = snapshot"
  using fold_update_append [of "[]" snapshot] by (simp add: replace_approvals_def)

text \<open>With the planning store in place the coordinator installs a state as it is.\<close>

lemma replace_state_live:
  assumes "co_planning_store c" "distinct_keys st"
  shows "replace_state st c = c\<lparr>co_live := st\<rparr>"
  using assms by (cases st) (simp add: replace_state_def replace_snapshot_def replace_approvals_distinct
      distinct_keys_def)

lemma export_state_live: "co_planning_store c \<Longrightarrow> export_state c = co_live c"
  by (simp add: export_state_def export_snapshot_def export_approvals_def)

lemma restored_empty_state [simp]: "restored_state empty_state = empty_state"
  by (simp add: restored_state_def empty_state_def empty_store_def Let_def)

lemma empty_state_valid [simp]: "state_valid empty_state" "distinct_keys empty_state"
  "validate_aggregate empty_state = Inr ()"
  by (simp_all add: state_valid_def distinct_keys_def validate_aggregate_def empty_state_def empty_store_def)

subsection \<open>Committing a state\<close>

lemma commit_candidates_cases [consumes 2, case_names refused unsynced committed]:
  assumes "co_planning_store c" "distinct_keys st"
  obtains (refused) e where "commit_candidates v st c = (Inl e, c)"
    | (unsynced) e d where "commit_candidates v st c = (Inl e, c\<lparr>co_disk := (co_disk c)
          \<lparr>dk_snapshot := Value (PDict d)\<rparr>\<rparr>)" "de_write v = SyncFails"
        "validate_aggregate st = Inr ()" "encode_payload st = Inr d"
    | (committed) d where "commit_candidates v st c = (Inr (), c\<lparr>co_live := st,
          co_disk := (co_disk c)\<lparr>dk_snapshot := Value (PDict d)\<rparr>\<rparr>)"
        "validate_aggregate st = Inr ()" "encode_payload st = Inr d"
proof (cases "and_then (validate_aggregate st) (\<lambda>_. encode_payload st)")
  case (Inl e)
  then show thesis by (intro refused [of e]) (simp add: commit_candidates_def)
next
  case (Inr d)
  then have d: "validate_aggregate st = Inr ()" "encode_payload st = Inr d" by (auto simp: res_simps)
  show thesis
  proof (cases "prepare_state_dir (co_state_dir c) (de_directory v)")
    case (Inl e)
    then show thesis
      by (intro refused [of e]) (simp add: commit_candidates_def d write_payload_def)
  next
    case ready: (Inr u)
    show thesis
    proof (cases "de_write v")
      case WriteDone
      then show thesis
        by (intro committed [of d])
          (simp_all add: commit_candidates_def d write_payload_def ready assms replace_state_live)
    next
      case WriteFails
      then show thesis
        by (intro refused) (simp add: commit_candidates_def d write_payload_def ready persistence_error_def)
    next
      case SyncFails
      then show thesis
        by (intro unsynced [of _ d])
          (simp_all add: commit_candidates_def d write_payload_def ready persistence_error_def)
    qed
  qed
qed

lemma snd_mutate_aggregate:
  "snd (mutate_aggregate v mutation c) = (case mutation (export_state c) of
     Inl e \<Rightarrow> c | Inr (x, st) \<Rightarrow> snd (commit_candidates v st c))"
  by (auto simp: mutate_aggregate_def split: sum.split prod.split)

subsection \<open>Restarting\<close>

text \<open>What a restart makes of a session, phase by phase.\<close>

definition blocked_for :: "string \<Rightarrow> workflow_session \<Rightarrow> workflow_session" where
  "blocked_for reason s = s\<lparr>wf_state := SESSION_BLOCKED, wf_blocked_reason := Some reason\<rparr>"

definition after_restart :: "object option \<Rightarrow> string \<Rightarrow> workflow_session \<Rightarrow> workflow_session" where
  "after_restart journal identifier s = (case wf_state s of
     SESSION_EXECUTING \<Rightarrow>
       if (case journal of None \<Rightarrow> False
         | Some d \<Rightarrow> string_value (get d ''workflow_id'') = Some identifier) then s
       else blocked_for ''implementation interrupted by process restart'' s
   | SESSION_VERIFYING \<Rightarrow> blocked_for ''verification or review interrupted by process restart'' s
   | SESSION_COMMITTING \<Rightarrow> blocked_for ''commit interrupted by process restart'' s
   | _ \<Rightarrow> s)"

lemma after_restart_eq:
  "after_restart journal identifier s =
     (if interruption_reason (wf_state s) = None \<or> journal_holds journal identifier s then s
      else s\<lparr>wf_state := SESSION_BLOCKED, wf_blocked_reason := interruption_reason (wf_state s)\<rparr>)"
  by (cases "wf_state s") (auto simp: after_restart_def blocked_for_def journal_holds_def split: option.split)

definition recovered_state :: "object option \<Rightarrow> agent_state \<Rightarrow> agent_state" where
  "recovered_state journal st = st\<lparr>ast_workflow := (ast_workflow st)
     \<lparr>wst_sessions := map (\<lambda>(k, s). (k, after_restart journal k s)) (wst_sessions (ast_workflow st))\<rparr>\<rparr>"

lemma recover_session_Inr:
  "recover_session journal x = Inr (b, y) \<Longrightarrow>
     y = (fst x, after_restart journal (fst x) (snd x)) \<and> (\<not> b \<longrightarrow> y = x)"
  by (cases x) (auto simp: recover_session_def after_restart_eq res_simps
      dest!: session_post_init_Inr split: option.splits if_splits)

lemma recover_rows:
  "traverse (recover_session journal) xs = Inr rows \<Longrightarrow>
     map snd rows = map (\<lambda>(k, s). (k, after_restart journal k s)) xs
     \<and> (\<not> list_ex fst rows \<longrightarrow> map snd rows = xs)"
proof (induction xs arbitrary: rows)
  case (Cons x xs)
  then obtain b y rest where r: "recover_session journal x = Inr (b, y)"
    "traverse (recover_session journal) xs = Inr rest" "rows = (b, y) # rest"
    by (auto simp: res_simps)
  from recover_session_Inr [OF r(1)] Cons.IH [OF r(2)] show ?case
    by (cases x) (auto simp: r(3))
qed simp

lemma recover_claimed_Inr:
  assumes "recover_claimed_sessions k (ast_workflow st) = Inr (transformed, w)"
  obtains journal where "journal_read k = Inr journal"
    "st\<lparr>ast_workflow := w\<rparr> = recovered_state journal st"
    "\<not> transformed \<Longrightarrow> recovered_state journal st = st"
proof -
  obtain journal rows where r: "journal_read k = Inr journal"
    "traverse (recover_session journal) (wst_sessions (ast_workflow st)) = Inr rows"
    "transformed = list_ex fst rows" "w = (ast_workflow st)\<lparr>wst_sessions := map snd rows\<rparr>"
    using assms by (auto simp: recover_claimed_sessions_def res_simps)
  show thesis
    by (rule that [OF r(1)])
      (use recover_rows [OF r(2)] r(3) in \<open>auto simp: r(4) recovered_state_def\<close>)
qed

lemma recovered_state_keys [simp]: "distinct_keys (recovered_state journal st) = distinct_keys st"
  by (simp add: distinct_keys_def recovered_state_def)

lemma session_parts_valid_blocked [simp]:
  "session_parts_valid (s\<lparr>wf_state := x, wf_blocked_reason := y\<rparr>) = session_parts_valid s"
  by (simp add: session_parts_valid_def)

lemma session_post_init_blocked:
  "session_post_init s = Inr s \<Longrightarrow>
     session_post_init (s\<lparr>wf_state := x, wf_blocked_reason := y\<rparr>) = Inr (s\<lparr>wf_state := x, wf_blocked_reason := y\<rparr>)"
proof (rule session_post_init_cong [where s = s])
  show "worker_matches (s\<lparr>wf_state := x, wf_blocked_reason := y\<rparr>) = worker_matches s"
    by (rule ext, cases "wf_candidate_implementation_request s") (simp_all add: worker_matches_def)
  show "action_request_matches (s\<lparr>wf_state := x, wf_blocked_reason := y\<rparr>) = action_request_matches s"
    by (simp add: fun_eq_iff action_request_matches_def)
qed simp_all

lemma after_restart_valid: "session_valid s \<Longrightarrow> session_valid (after_restart journal k s)"
  by (simp add: session_valid_iff after_restart_eq session_post_init_blocked)

lemma recovered_state_valid: "state_valid st \<Longrightarrow> state_valid (recovered_state journal st)"
  by (auto simp: state_valid_def recovered_state_def list_all_iff after_restart_valid)

lemma initialize_cases:
  obtains (refused) e where "initialize v c = (Inl e, c)"
    | (no_snapshot) "dk_snapshot (co_disk c) = Missing" "initialize v c = (Inr (), c)"
    | (unsynced) e d0 st journal d where "initialize v c = (Inl e, c\<lparr>co_disk := (co_disk c)
          \<lparr>dk_snapshot := Value (PDict d)\<rparr>\<rparr>)" "de_write v = SyncFails"
        "read_snapshot (co_disk c) = Inr d0" "decode_payload d0 = Inr st"
        "encode_payload (recovered_state journal st) = Inr d"
    | (restarted) d0 st journal k where
        "initialize v c = (Inr (), replace_state (recovered_state journal st) (c\<lparr>co_disk := k\<rparr>))"
        "dk_snapshot (co_disk c) \<noteq> Missing"
        "read_snapshot (co_disk c) = Inr d0" "decode_payload d0 = Inr st"
        "journal_read (co_disk c) = Inr journal" "validate_aggregate (recovered_state journal st) = Inr ()"
        "k = co_disk c \<and> recovered_state journal st = st
          \<or> (\<exists>d. encode_payload (recovered_state journal st) = Inr d
              \<and> k = (co_disk c)\<lparr>dk_snapshot := Value (PDict d)\<rparr>)"
proof (cases "prepare_state_dir (co_state_dir c) (de_directory v)")
  case (Inl e)
  then show thesis by (intro refused [of e]) (simp add: initialize_def)
next
  case ready: (Inr u)
  show thesis
  proof (cases "dk_snapshot (co_disk c) = Missing")
    case True
    then show thesis by (intro no_snapshot) (simp_all add: initialize_def ready)
  next
    case there: False
    let ?m = "and_then (read_snapshot (co_disk c)) (\<lambda>d. and_then (decode_payload d) (\<lambda>st.
      and_then (recover_claimed_sessions (co_disk c) (ast_workflow st)) (\<lambda>(transformed, w).
      let recovered = st\<lparr>ast_workflow := w\<rparr> in and_then (validate_aggregate recovered) (\<lambda>_.
      and_then (if transformed then and_then (encode_payload recovered) (\<lambda>d. Inr (Some d)) else Inr None)
        (\<lambda>rewritten. Inr (recovered, rewritten))))))"
    show thesis
    proof (cases ?m)
      case (Inl e)
      then show thesis by (intro refused [of e]) (simp add: initialize_def ready there)
    next
      case m: (Inr x)
      obtain d0 st transformed w rewritten where parts: "read_snapshot (co_disk c) = Inr d0"
        "decode_payload d0 = Inr st" "recover_claimed_sessions (co_disk c) (ast_workflow st) = Inr (transformed, w)"
        and valid: "validate_aggregate (st\<lparr>ast_workflow := w\<rparr>) = Inr ()"
        and rewritten: "(if transformed then and_then (encode_payload (st\<lparr>ast_workflow := w\<rparr>))
          (\<lambda>d. Inr (Some d)) else Inr None) = Inr rewritten"
        and x: "x = (st\<lparr>ast_workflow := w\<rparr>, rewritten)"
        using m by (auto simp: res_simps Let_def)
      obtain journal where journal: "journal_read (co_disk c) = Inr journal"
        and w: "st\<lparr>ast_workflow := w\<rparr> = recovered_state journal st"
        and same: "\<not> transformed \<Longrightarrow> recovered_state journal st = st"
        using recover_claimed_Inr [OF parts(3)] by blast
      note run = m [unfolded x w]
      show thesis
      proof (cases rewritten)
        case None
        then have "\<not> transformed" using rewritten by (auto simp: res_simps split: if_splits)
        with None show thesis
          by (intro restarted [OF _ there parts(1,2) journal, of "co_disk c"])
            (use run valid w same in \<open>simp_all add: initialize_def ready there\<close>)
      next
        case (Some d)
        then have d: "encode_payload (recovered_state journal st) = Inr d"
          using rewritten w by (auto simp: res_simps split: if_splits)
        show thesis
        proof (cases "de_write v")
          case WriteDone
          then show thesis
            by (intro restarted [OF _ there parts(1,2) journal, of "(co_disk c)\<lparr>dk_snapshot := Value (PDict d)\<rparr>"])
              (use run valid w d Some in \<open>simp_all add: initialize_def ready there write_payload_def\<close>)
        next
          case WriteFails
          then show thesis
            by (intro refused)
              (use run Some in \<open>simp add: initialize_def ready there write_payload_def persistence_error_def\<close>)
        next
          case SyncFails
          then show thesis
            by (intro unsynced [OF _ _ parts(1,2) d])
              (use run Some in \<open>simp_all add: initialize_def ready there write_payload_def persistence_error_def\<close>)
        qed
      qed
    qed
  qed
qed

section \<open>The live state is the stored state\<close>

definition durable :: "coordinator \<times> bool \<Rightarrow> bool" where
  "durable m \<longleftrightarrow> (case m of (c, up) \<Rightarrow>
     co_planning_store c \<and> state_valid (co_live c) \<and> distinct_keys (co_live c)
     \<and> (\<exists>st. state_valid st \<and> distinct_keys st \<and> stored_state (co_disk c) = Inr (restored_state st)
         \<and> (up \<longrightarrow> restored_state (co_live c) = restored_state st)))"

lemma stored_state_written:
  assumes "encode_payload st = Inr d" "state_valid st"
  shows "stored_state (k\<lparr>dk_snapshot := Value (PDict d)\<rparr>) = Inr (restored_state st)"
  using payload_codec [OF assms] by (simp add: stored_state_def read_snapshot_def)

lemma durable_commit:
  assumes c: "durable (c, True)" and st: "state_valid st" "distinct_keys st" and v: "de_write v \<noteq> SyncFails"
  shows "durable (snd (commit_candidates v st c), True)"
proof -
  have planning: "co_planning_store c" using c by (simp add: durable_def)
  from planning st(2) show ?thesis
  proof (cases rule: commit_candidates_cases [where v = v])
    case (refused e)
    then show ?thesis using c by simp
  next
    case (unsynced e d)
    then show ?thesis using v by simp
  next
    case (committed d)
    then show ?thesis
      using c st stored_state_written [OF committed(3) st(1)] by (auto simp: durable_def)
  qed
qed

lemma durable_restart:
  assumes c: "durable (c, up)" and v: "de_write v \<noteq> SyncFails"
  shows "durable (lifecycle_step (c, up) (Restart v))"
proof -
  let ?c = "c\<lparr>co_live := empty_state\<rparr>"
  obtain st where st: "state_valid st" "distinct_keys st" "stored_state (co_disk c) = Inr (restored_state st)"
    and planning: "co_planning_store c"
    using c by (auto simp: durable_def)
  show ?thesis
  proof (cases rule: initialize_cases [of v ?c])
    case (refused e)
    then show ?thesis using st planning by (auto simp: durable_def)
  next
    case no_snapshot
    then have "stored_state (co_disk c) = Inr (restored_state empty_state)" by (simp add: stored_state_def)
    then show ?thesis
      using no_snapshot planning by (auto simp: durable_def intro: exI [of _ empty_state])
  next
    case (unsynced e d0 st' journal d)
    then show ?thesis using v by simp
  next
    case (restarted d0 st' journal k)
    from restarted(2-4) st(3) have st': "st' = restored_state st" by (auto simp: stored_state_def)
    let ?r = "recovered_state journal st'"
    have valid: "state_valid ?r" "distinct_keys ?r"
      using st st' by (simp_all add: recovered_state_valid state_valid_restored distinct_keys_restored)
    have stored: "stored_state k = Inr (restored_state ?r)"
    proof (cases "k = co_disk ?c \<and> ?r = st'")
      case True
      then show ?thesis using st(3) st' by (simp add: restored_state_twice)
    next
      case False
      then obtain d where "encode_payload ?r = Inr d" "k = (co_disk ?c)\<lparr>dk_snapshot := Value (PDict d)\<rparr>"
        using restarted(7) by blast
      with stored_state_written [OF _ valid(1)] show ?thesis by blast
    qed
    show ?thesis
      using restarted(1) planning valid stored by (auto simp: durable_def replace_state_live)
  qed
qed

lemma durable_step:
  assumes "durable m" "clean_event e"
  shows "durable (lifecycle_step m e)"
proof -
  obtain c up where m: "m = (c, up)" by (cases m)
  show ?thesis
  proof (cases e)
    case (Restart v)
    with durable_restart assms show ?thesis by (simp add: m)
  next
    case (Transact v s)
    show ?thesis
    proof (cases "up \<and> succeeds (run_script s (export_state c))")
      case True
      then obtain x st where run: "run_script s (export_state c) = Inr (x, st)" by (auto simp: succeeds_iff)
      have live: "export_state c = co_live c" "state_valid (co_live c)" "distinct_keys (co_live c)"
        using assms(1) by (simp_all add: m durable_def export_state_live)
      have "state_valid st"
        using run_script_valid [OF _ live(2) run [unfolded live(1)]] assms(2) Transact by simp
      moreover have "distinct_keys st" by (rule run_script_distinct_keys [OF live(3) run [unfolded live(1)]])
      ultimately have "durable (snd (commit_candidates v st c), True)"
        using durable_commit assms Transact True by (simp add: m)
      then show ?thesis
        using True by (simp add: m Transact snd_mutate_aggregate run)
    next
      case False
      then show ?thesis
        using assms(1) by (cases up) (auto simp: m Transact snd_mutate_aggregate succeeds_iff split: sum.split)
    qed
  next
    case (Persist v)
    have "export_state c = co_live c" "state_valid (co_live c)" "distinct_keys (co_live c)"
      using assms(1) by (simp_all add: m durable_def export_state_live)
    then show ?thesis
      using durable_commit assms by (cases up) (simp_all add: m Persist persist_current_state_def)
  next
    case (WriteJournal v d)
    then show ?thesis
      using assms(1) by (cases up) (auto simp: m write_patch_journal_def journal_write_def durable_def
          stored_state_def read_snapshot_def split: write_state.split)
  next
    case (ClearJournal u)
    then show ?thesis
      using assms(1) by (cases up) (auto simp: m clear_patch_journal_def journal_clear_def durable_def
          stored_state_def read_snapshot_def)
  qed
qed

lemma durable_first_start [simp]: "durable (first_start dir)"
  by (auto simp: durable_def first_start_def stored_state_def intro: exI [of _ empty_state])

text \<open>
  C5. The stored state is the live state in its stored form. Over every history of transactions, journal
  writes and restarts, with writes that fail before the file is replaced and transactions that are
  refused or raise halfway, the snapshot file reads back as \<open>restored_state\<close> of the live state: the
  dictionaries sorted by key, paths parsed again, environment values as digests, and an implementation
  approval without a command of a candidate workflow that still awaits approval read as one of the
  workflow shell; all else is as it is live. While the process is down the file still reads back. The
  hypothesis excludes a failure between \<open>os.replace\<close> and the end of the directory's \<open>fsync\<close>, and asks
  that the sessions, approvals and planning sessions given to the stores are instances of their classes.
\<close>
theorem live_state_is_stored:
  assumes "list_all clean_event events"
  shows "case foldl lifecycle_step (first_start dir) events of
    (c, up) \<Rightarrow> if up then stored_state (co_disk c) = Inr (restored_state (co_live c))
      else succeeds (stored_state (co_disk c))"
proof -
  have "durable (foldl lifecycle_step (first_start dir) events)"
    by (rule foldl_invariant [where P = durable, OF durable_step durable_first_start assms])
  then show ?thesis by (auto simp: durable_def split: prod.split)
qed

definition sample_sprint :: sprint_status where
  "sample_sprint = \<lparr>sp_checkpoint_id = ''c1'', sp_title = ''t'', sp_goal = ''g'', sp_phase = PHASE_PLANNED\<rparr>"

definition sample_workflow :: workflow_session where
  "sample_workflow = \<lparr>wf_identifier = ''w'', wf_request = None, wf_plan = None,
     wf_state = SESSION_EXECUTING, wf_effect_kind = EFFECT_REPOSITORY_CHANGE, wf_source = SOURCE_ROADMAP,
     wf_candidate_metadata = None, wf_candidate_implementation_request = None,
     wf_operational_action_request = None, wf_candidate_implementation_approval_id = None,
     wf_operational_action_approval_id = None, wf_operational_execution_reference = None,
     wf_planning_analysis = None, wf_review_analysis = None, wf_context = None, wf_execution_result = None,
     wf_worker_execution_request = None, wf_worker_patch_applied = False, wf_worker_baseline_status = None,
     wf_changed_files = [path_of ''a/b''], wf_verification_report = None,
     wf_candidate_verification_plan = None, wf_candidate_verification_evidence = None,
     wf_review_report = None, wf_candidate_review_result = None, wf_commit_request = None,
     wf_commit_result = None, wf_reviewed_files = [], wf_expected_branch = None, wf_expected_head = None,
     wf_reviewed_content_fingerprint = None, wf_blocked_reason = None\<rparr>"

lemma sample_workflow_valid: "session_valid sample_workflow"
  by (simp add: session_valid_def session_post_init_def sample_workflow_def)

text \<open>A session is created, a write of the sprint fails, and the process restarts.\<close>

definition sample_events :: "lifecycle_event list" where
  "sample_events =
     [Transact \<lparr>de_directory = DirReady, de_write = WriteDone\<rparr>
        (Call (CreateSession sample_workflow) (\<lambda>b. Done ())),
      Transact \<lparr>de_directory = DirReady, de_write = WriteFails\<rparr>
        (Call (PublishSprint sample_sprint) (\<lambda>b. Done ())),
      Restart \<lparr>de_directory = DirReady, de_write = WriteDone\<rparr>]"

lemma live_state_is_stored_witness:
  "case foldl lifecycle_step (first_start ''/state'') sample_events of
    (c, up) \<Rightarrow> if up then stored_state (co_disk c) = Inr (restored_state (co_live c))
      else succeeds (stored_state (co_disk c))"
  by (rule live_state_is_stored) (simp add: sample_events_def sample_workflow_valid)

section \<open>Restarts\<close>

text \<open>
  C17. A restart that succeeds with a snapshot present leaves exactly what the snapshot decodes to, with
  every session that was executing, verifying or committing blocked for the reason of its state, except
  the executing one whose own patch is in the journal; everything else is as stored, and the recovered
  state is valid as an aggregate. Without a snapshot nothing changes, and a restart that fails leaves the
  live state alone.
\<close>
theorem restart_blocks_interrupted:
  "case initialize v c of
     (Inl e, c') \<Rightarrow> co_live c' = co_live c
   | (Inr _, c') \<Rightarrow>
       if dk_snapshot (co_disk c) = Missing then c' = c
       else (\<exists>st journal. stored_state (co_disk c) = Inr st \<and> journal_read (co_disk c) = Inr journal
         \<and> validate_aggregate (recovered_state journal st) = Inr ()
         \<and> co_live c' = co_live (replace_state (recovered_state journal st) c))"
proof (cases rule: initialize_cases [of v c])
  case (restarted d0 st journal k)
  have "stored_state (co_disk c) = Inr st" using restarted(2-4) by (simp add: stored_state_def)
  moreover have "co_live (replace_state s (c\<lparr>co_disk := k\<rparr>)) = co_live (replace_state s c)" for s
    by (simp add: replace_state_def)
  ultimately show ?thesis using restarted by auto
qed simp_all

text \<open>
  After a restart no session is verifying or committing, and one that is executing is the one the
  patch journal names.
\<close>
theorem restart_leaves_nothing_claimed:
  "case initialize v c of
     (Inl e, c') \<Rightarrow> co_live c' = co_live c
   | (Inr _, c') \<Rightarrow> dk_snapshot (co_disk c) = Missing
       \<or> list_all (\<lambda>(k, s). wf_state s \<notin> {SESSION_VERIFYING, SESSION_COMMITTING}
           \<and> (if wf_state s = SESSION_EXECUTING
              then (case read_patch_journal c of
                  Inr (Some d) \<Rightarrow> string_value (get d ''workflow_id'') = Some k | _ \<Rightarrow> False)
              else True)) (wst_sessions (ast_workflow (co_live c')))"
proof (cases rule: initialize_cases [of v c])
  case (restarted d0 st journal k)
  have claimed: "wf_state (after_restart journal i s) \<notin> {SESSION_VERIFYING, SESSION_COMMITTING}
      \<and> (wf_state (after_restart journal i s) = SESSION_EXECUTING \<longrightarrow> journal_holds journal i s)" for i s
    by (cases "wf_state s") (auto simp: after_restart_eq journal_holds_def)
  have "wst_sessions (ast_workflow (co_live (replace_state (recovered_state journal st) (c\<lparr>co_disk := k\<rparr>))))
      = map (\<lambda>(i, s). (i, after_restart journal i s)) (wst_sessions (ast_workflow st))"
    by (simp add: replace_state_def replace_snapshot_def recovered_state_def)
  with restarted(1,5) claimed show ?thesis
    by (auto simp: list_all_iff read_patch_journal_def journal_holds_def split: option.splits)
qed simp_all

section \<open>Transactions\<close>

text \<open>
  C18. A transaction that raises leaves the live state as it was, and the file as well unless the write
  failed after replacing it; a transaction that returns has installed and written exactly the state its
  mutation made, which is valid as an aggregate.
\<close>
theorem transactions_are_atomic:
  "case mutate_aggregate v (run_script s) c of
     (Inl e, c') \<Rightarrow> co_live c' = co_live c \<and> (c' = c \<or> de_write v = SyncFails)
   | (Inr x, c') \<Rightarrow> (\<exists>st d. run_script s (export_state c) = Inr (x, st) \<and> validate_aggregate st = Inr ()
       \<and> encode_payload st = Inr d \<and> co_live c' = co_live (replace_state st c)
       \<and> co_disk c' = (co_disk c)\<lparr>dk_snapshot := Value (PDict d)\<rparr>)"
  by (auto simp: mutate_aggregate_def commit_candidates_def write_payload_def res_simps and_then_Inl_iff
      replace_state_def persistence_error_def
      split: sum.splits prod.splits write_state.splits)

text \<open>A restart finds nothing to recover in a state nothing of which was claimed.\<close>

definition at_rest :: "agent_state \<Rightarrow> bool" where
  "at_rest st \<longleftrightarrow> list_all (\<lambda>(k, s). wf_state s \<notin> {SESSION_EXECUTING, SESSION_VERIFYING, SESSION_COMMITTING})
     (wst_sessions (ast_workflow st))"

lemma at_rest_restored: "at_rest st \<Longrightarrow> at_rest (restored_state st)"
  by (auto simp: at_rest_def restored_state_def Let_def list_all_iff restored_session_def)

lemma unclaimed_reason: "x \<notin> {SESSION_EXECUTING, SESSION_VERIFYING, SESSION_COMMITTING} \<Longrightarrow> interruption_reason x = None"
  by (cases x) simp_all

lemma recover_at_rest:
  assumes "at_rest st" "journal_read k = Inr journal"
  shows "recover_claimed_sessions k (ast_workflow st) = Inr (False, ast_workflow st)"
proof -
  have "traverse (recover_session journal) xs = Inr (map (\<lambda>(i, s). (False, i, s)) xs)"
    if "list_all (\<lambda>(i, s). wf_state s \<notin> {SESSION_EXECUTING, SESSION_VERIFYING, SESSION_COMMITTING}) xs" for xs
    using that by (induction xs) (auto simp: recover_session_def unclaimed_reason)
  note this [OF assms(1) [unfolded at_rest_def]]
  then show ?thesis
    by (auto simp: recover_claimed_sessions_def assms(2) list_ex_iff comp_def case_prod_unfold)
qed

lemma restart_at_rest:
  assumes "co_planning_store c" "dk_snapshot (co_disk c) = Value (PDict d)" "decode_payload d = Inr st"
    and "at_rest st" "journal_read (co_disk c) = Inr journal" "validate_aggregate st = Inr ()"
    and "distinct_keys st"
  shows "initialize \<lparr>de_directory = DirReady, de_write = v\<rparr> c = (Inr (), c\<lparr>co_live := st\<rparr>)"
  using assms(1,2,3,6,7) recover_at_rest [OF assms(4,5)]
  by (simp add: initialize_def prepare_state_dir_def read_snapshot_def replace_state_live)

text \<open>
  C40. A write that fails in the \<open>fsync\<close> of the directory, after \<open>os.replace\<close>, raises and keeps the old
  live state, but the file already holds the new one: the restart that follows returns with the very
  state the caller was told had failed, in its stored form. Supposed is that the new state is valid as an
  aggregate, also in its stored form, that nothing in it was claimed (what was would come back blocked),
  and that the journal can be read.
\<close>
theorem failed_transaction_survives_restart:
  assumes "co_planning_store c" "run_script s (co_live c) = Inr (x, st)"
    and "validate_aggregate st = Inr ()" "encode_payload st = Inr d" "state_valid st" "distinct_keys st"
    and "validate_aggregate (restored_state st) = Inr ()" "at_rest st" "journal_read (co_disk c) = Inr journal"
  shows "case mutate_aggregate \<lparr>de_directory = DirReady, de_write = SyncFails\<rparr> (run_script s) c of
    (r, c') \<Rightarrow> r = persistence_error ''Persisted Agent state cannot be written'' \<and> co_live c' = co_live c
      \<and> (case initialize \<lparr>de_directory = DirReady, de_write = v\<rparr> (c'\<lparr>co_live := empty_state\<rparr>) of
          (r', c'') \<Rightarrow> r' = Inr () \<and> co_live c'' = restored_state st)"
proof -
  let ?c = "c\<lparr>co_disk := (co_disk c)\<lparr>dk_snapshot := Value (PDict d)\<rparr>\<rparr>"
  have "mutate_aggregate \<lparr>de_directory = DirReady, de_write = SyncFails\<rparr> (run_script s) c
      = (persistence_error ''Persisted Agent state cannot be written'', ?c)"
    using assms(1-4) by (simp add: mutate_aggregate_def export_state_live commit_candidates_def
        write_payload_def prepare_state_dir_def persistence_error_def)
  moreover have "journal_read (co_disk ?c) = Inr journal" using assms(9) by (simp add: journal_read_def)
  then have "initialize \<lparr>de_directory = DirReady, de_write = v\<rparr> (?c\<lparr>co_live := empty_state\<rparr>)
      = (Inr (), ?c\<lparr>co_live := restored_state st\<rparr>)"
    using restart_at_rest [of "?c\<lparr>co_live := empty_state\<rparr>" d "restored_state st" journal v]
      assms(1,7) payload_codec [OF assms(4,5)] at_rest_restored [OF assms(8)] distinct_keys_restored assms(6)
    by simp
  ultimately show ?thesis by simp
qed

definition sprint_state :: agent_state where
  "sprint_state = empty_state\<lparr>ast_workflow := empty_store\<lparr>wst_sprint := Some sample_sprint\<rparr>\<rparr>"

definition sprint_payload :: object where
  "sprint_payload = (case encode_payload sprint_state of Inr d \<Rightarrow> d | Inl e \<Rightarrow> [])"

lemma sprint_state_facts:
  "validate_aggregate sprint_state = Inr ()" "encode_payload sprint_state = Inr sprint_payload"
  "state_valid sprint_state" "distinct_keys sprint_state"
  "validate_aggregate (restored_state sprint_state) = Inr ()" "at_rest sprint_state"
  by (simp_all add: sprint_payload_def sprint_state_def validate_aggregate_def encode_payload_def
      encode_sessions_def state_valid_def empty_state_def empty_store_def distinct_keys_def
      restored_state_def Let_def at_rest_def)

lemma failed_transaction_survives_restart_witness:
  "case mutate_aggregate \<lparr>de_directory = DirReady, de_write = SyncFails\<rparr>
      (run_script (Call (PublishSprint sample_sprint) (\<lambda>b. Done ()))) (fst (first_start ''/state'')) of
    (r, c') \<Rightarrow> r = persistence_error ''Persisted Agent state cannot be written''
      \<and> co_live c' = co_live (fst (first_start ''/state''))
      \<and> (case initialize \<lparr>de_directory = DirReady, de_write = WriteDone\<rparr> (c'\<lparr>co_live := empty_state\<rparr>) of
          (r', c'') \<Rightarrow> r' = Inr () \<and> co_live c'' = restored_state sprint_state)"
  by (rule failed_transaction_survives_restart [OF _ _ sprint_state_facts, where journal = None])
    (simp_all add: first_start_def candidate_publish_sprint_def sprint_state_def empty_state_def journal_read_def)

section \<open>Waiting sessions\<close>

text \<open>The approval a session waits for, as an operator may rely on it.\<close>

definition commit_approval_binds :: "workflow_session \<Rightarrow> approval_request \<Rightarrow> bool" where
  "commit_approval_binds s r \<longleftrightarrow> (case (ap_commit_metadata r, wf_commit_request s) of
     (Some m, Some q) \<Rightarrow> wf_reviewed_content_fingerprint s = Some (cam_reviewed_content_fingerprint m)
       \<and> wf_expected_branch s = cam_expected_branch m \<and> wf_expected_head s = cam_expected_head m
       \<and> sort (wf_reviewed_files s) = cam_reviewed_files m \<and> cr_message q = cam_commit_message m
   | _ \<Rightarrow> False)"

definition operational_approval_binds :: "workflow_session \<Rightarrow> approval_request \<Rightarrow> bool" where
  "operational_approval_binds s r \<longleftrightarrow> (case (wf_operational_action_request s, ap_operational_metadata r) of
     (Some a, Some m) \<Rightarrow> oam_action_request_id m = oar_request_id a
       \<and> oam_action_request_digest m = oar_request_digest a \<and> oam_candidate_id m = oar_candidate_id a
       \<and> oam_candidate_fingerprint m = oar_candidate_fingerprint a
       \<and> oam_operational_plan_fingerprint m = oar_candidate_plan_fingerprint a
       \<and> oam_provider_id m = oar_provider_id a \<and> oam_resource_id m = oar_resource_id a
       \<and> oam_resource_type m = oar_resource_type a \<and> oam_target_fingerprint m = oar_target_fingerprint a
       \<and> oam_target_version m = oar_target_version a \<and> oam_operation_intent m = oar_execution_intent a
       \<and> oam_disruption_scope m = oar_disruption_scope a
       \<and> oam_verification_digest m = agent_verification_digest (oar_verification a)
       \<and> oam_generated_at m = instant (oar_generated_at a) \<and> oam_expires_at m = instant (oar_expires_at a)
   | _ \<Rightarrow> False)"

text \<open>An approval request under a key, for the session and its purpose, and bound to it.\<close>

definition approval_held ::
  "approval_repository \<Rightarrow> string \<Rightarrow> approval_purpose \<Rightarrow> workflow_session \<Rightarrow> bool" where
  "approval_held approvals key purpose s \<longleftrightarrow> (case get_request approvals key of
     None \<Rightarrow> False
   | Some r \<Rightarrow> ap_identifier (ad_request (decision r)) = key
       \<and> ap_workflow_id (ad_request (decision r)) = Some (wf_identifier s)
       \<and> ap_purpose (ad_request (decision r)) = purpose
       \<and> (case purpose of COMMIT \<Rightarrow> commit_approval_binds s (ad_request (decision r))
          | OPERATIONAL_ACTION \<Rightarrow> operational_approval_binds s (ad_request (decision r))
          | _ \<Rightarrow> True))"

text \<open>The implementation approval of a session: for a candidate workflow the one it names, where there
  is one under that name, and otherwise the one of its identifier.\<close>

definition implementation_approval_held :: "approval_repository \<Rightarrow> workflow_session \<Rightarrow> bool" where
  "implementation_approval_held approvals s \<longleftrightarrow>
     approval_held approvals
       (case wf_candidate_implementation_approval_id s of
          None \<Rightarrow> ''approval-'' @ wf_identifier s
        | Some i \<Rightarrow> if wf_source s = SOURCE_CANDIDATE \<and> get_request approvals i \<noteq> None then i
            else ''approval-'' @ wf_identifier s)
       IMPLEMENTATION s"

definition waits_bound :: "approval_repository \<Rightarrow> workflow_session \<Rightarrow> bool" where
  "waits_bound approvals s \<longleftrightarrow> (case wf_state s of
     SESSION_AWAITING_APPROVAL \<Rightarrow> implementation_approval_held approvals s
       \<or> wf_source s = SOURCE_CANDIDATE
         \<and> approval_held approvals (''approval-'' @ wf_identifier s) CANDIDATE_WORKFLOW_SHELL s
   | SESSION_AWAITING_IMPLEMENTATION_APPROVAL \<Rightarrow>
       (case wf_effect_kind s of
          EFFECT_OPERATIONAL_ACTION \<Rightarrow> approval_held approvals
            (case wf_operational_action_approval_id s of
               None \<Rightarrow> ''approval-operational-'' @ wf_identifier s | Some i \<Rightarrow> i) OPERATIONAL_ACTION s
        | EFFECT_REPOSITORY_CHANGE \<Rightarrow> implementation_approval_held approvals s)
   | SESSION_AWAITING_VERIFICATION_APPROVAL \<Rightarrow>
       approval_held approvals (''approval-verification-'' @ wf_identifier s) VERIFICATION s
   | SESSION_AWAITING_COMMIT_APPROVAL \<Rightarrow>
       approval_held approvals (''approval-commit-'' @ wf_identifier s) COMMIT s
   | _ \<Rightarrow> True)"

definition approval_placed :: "agent_state \<Rightarrow> string \<times> approval_result \<Rightarrow> bool" where
  "approval_placed st = (\<lambda>(k, r). k = ap_identifier (ad_request (decision r))
     \<and> (ap_purpose (ad_request (decision r)) = COMMIT) = (ap_commit_metadata (ad_request (decision r)) \<noteq> None)
     \<and> (ap_purpose (ad_request (decision r)) = OPERATIONAL_ACTION)
         = (ap_operational_metadata (ad_request (decision r)) \<noteq> None)
     \<and> (case ap_workflow_id (ad_request (decision r)) of None \<Rightarrow> True
        | Some i \<Rightarrow> get_session (ast_workflow st) i \<noteq> None))"

lemma commit_approval_binds_iff: "validate_commit_approval r s = Inr () \<longleftrightarrow> commit_approval_binds s r"
  by (auto simp: validate_commit_approval_def commit_approval_binds_def persistence_error_def
      split: option.split)

lemma operational_approval_binds: "validate_operational_approval r s = Inr () \<Longrightarrow> operational_approval_binds s r"
  by (auto simp: validate_operational_approval_def operational_approval_binds_def persistence_error_def
      split: option.splits if_splits)

lemma waiting_approval_key:
  "waiting_approval approvals s purpose = Some r \<Longrightarrow>
     map_of approvals (expected_approval_id s purpose) = Some r
     \<or> map_of approvals (expected_approval_id s purpose) = None \<and> purpose = IMPLEMENTATION
       \<and> wf_source s = SOURCE_CANDIDATE \<and> map_of approvals (''approval-'' @ wf_identifier s) = Some r"
  by (auto simp: waiting_approval_def split: option.splits if_splits)

lemma validated_session:
  assumes "validate_session approvals (k, s) = Inr ()"
    and keys: "\<And>i r. map_of approvals i = Some r \<Longrightarrow> ap_identifier (ad_request (decision r)) = i"
  shows "k = wf_identifier s \<and> waits_bound approvals s"
proof -
  have k: "k = wf_identifier s"
    using assms by (auto simp: validate_session_def persistence_error_def split: if_splits)
  have "waits_bound approvals s"
  proof (cases "expected_purpose approvals s")
    case None
    then show ?thesis
      by (cases "wf_state s")
        (auto simp: waits_bound_def expected_purpose_def Let_def split: if_splits option.splits)
  next
    case (Some purpose)
    then obtain r where r: "waiting_approval approvals s purpose = Some r"
      "ap_workflow_id (ad_request (decision r)) = Some (wf_identifier s)"
      "ap_purpose (ad_request (decision r)) = purpose"
      "purpose = COMMIT \<longrightarrow> validate_commit_approval (ad_request (decision r)) s = Inr ()"
      "purpose = OPERATIONAL_ACTION \<longrightarrow> validate_operational_approval (ad_request (decision r)) s = Inr ()"
      using assms(1) by (auto simp: validate_session_def persistence_error_def Let_def res_simps
          split: option.splits if_splits)
    have held: "approval_held approvals i purpose s" if "map_of approvals i = Some r" for i
      using that r keys [OF that] commit_approval_binds_iff operational_approval_binds
      by (cases purpose) (auto simp: approval_held_def get_request_def)
    note key = waiting_approval_key [OF r(1)]
    have implementation: "implementation_approval_held approvals s" if "purpose = IMPLEMENTATION"
      using key held that
      by (auto simp: implementation_approval_held_def expected_approval_id_def get_request_def
          split: option.splits bool.splits if_splits)
    show ?thesis
    proof (cases "wf_state s")
      case SESSION_AWAITING_APPROVAL
      then have "purpose = IMPLEMENTATION
          \<or> purpose = CANDIDATE_WORKFLOW_SHELL \<and> wf_source s = SOURCE_CANDIDATE"
        using Some by (auto simp: expected_purpose_def Let_def split: if_splits option.splits)
      with implementation key held SESSION_AWAITING_APPROVAL show ?thesis
        by (auto simp: waits_bound_def expected_approval_id_def)
    next
      case SESSION_AWAITING_COMMIT_APPROVAL
      then have "purpose = COMMIT" using Some by (simp add: expected_purpose_def Let_def)
      with key held SESSION_AWAITING_COMMIT_APPROVAL show ?thesis
        by (auto simp: waits_bound_def expected_approval_id_def)
    next
      case SESSION_AWAITING_VERIFICATION_APPROVAL
      then have "purpose = VERIFICATION" using Some by (simp add: expected_purpose_def Let_def)
      with key held SESSION_AWAITING_VERIFICATION_APPROVAL show ?thesis
        by (auto simp: waits_bound_def expected_approval_id_def)
    next
      case SESSION_AWAITING_IMPLEMENTATION_APPROVAL
      then have "purpose = (if wf_effect_kind s = EFFECT_OPERATIONAL_ACTION then OPERATIONAL_ACTION
          else IMPLEMENTATION)"
        using Some by (auto simp: expected_purpose_def Let_def split: if_splits)
      with implementation key held SESSION_AWAITING_IMPLEMENTATION_APPROVAL show ?thesis
        by (cases "wf_effect_kind s")
          (auto simp: waits_bound_def expected_approval_id_def split: option.splits)
    qed (simp_all add: waits_bound_def)
  qed
  with k show ?thesis ..
qed

lemma validated_approval:
  "validate_approval (ast_workflow st) x = Inr () \<Longrightarrow> approval_placed st x"
  by (cases x) (auto simp: validate_approval_def approval_placed_def validate_approval_request_def
      persistence_error_def get_session_def Let_def res_simps split: if_splits option.splits)

lemma traverse_unit: "traverse f xs = Inr us \<Longrightarrow> x \<in> set xs \<Longrightarrow> f x = Inr ()"
  by (induction xs arbitrary: us) (auto simp: res_simps)

lemma validated_aggregate:
  assumes "validate_aggregate st = Inr ()"
  shows "list_all (\<lambda>(k, s). k = wf_identifier s \<and> waits_bound (ast_approvals st) s)
      (wst_sessions (ast_workflow st)) \<and> list_all (approval_placed st) (ast_approvals st)"
proof -
  obtain us vs where sessions: "traverse (validate_session (ast_approvals st)) (wst_sessions (ast_workflow st)) = Inr us"
    and approvals: "traverse (validate_approval (ast_workflow st)) (ast_approvals st) = Inr vs"
    using assms by (auto simp: validate_aggregate_def res_simps)
  have placed: "list_all (approval_placed st) (ast_approvals st)"
    using validated_approval [OF traverse_unit [OF approvals]] by (auto simp: list_all_iff)
  then have "ap_identifier (ad_request (decision r)) = i" if "map_of (ast_approvals st) i = Some r" for i r
    using map_of_SomeD [OF that] by (fastforce simp: list_all_iff approval_placed_def)
  from validated_session [OF traverse_unit [OF sessions] this] placed show ?thesis
    by (auto simp: list_all_iff)
qed

text \<open>What every history keeps, failures of the directory's \<open>fsync\<close> included.\<close>

definition audited :: "coordinator \<times> bool \<Rightarrow> bool" where
  "audited m \<longleftrightarrow> (case m of (c, up) \<Rightarrow> co_planning_store c \<and> distinct_keys (co_live c)
     \<and> validate_aggregate (co_live c) = Inr ()
     \<and> (\<forall>d. read_snapshot (co_disk c) = Inr d \<longrightarrow> (\<exists>st. distinct_keys st \<and> encode_payload st = Inr d)))"

lemma read_snapshot_written [simp]: "read_snapshot (k\<lparr>dk_snapshot := Value (PDict d)\<rparr>) = Inr d"
  by (simp add: read_snapshot_def)

lemma audited_commit:
  assumes c: "audited (c, True)" and st: "distinct_keys st"
  shows "audited (snd (commit_candidates v st c), True)"
proof -
  have planning: "co_planning_store c" using c by (simp add: audited_def)
  from planning st show ?thesis
    by (cases rule: commit_candidates_cases [where v = v]) (use c st in \<open>auto simp: audited_def\<close>)
qed

lemma audited_restart:
  assumes c: "audited (c, up)"
  shows "audited (lifecycle_step (c, up) (Restart v))"
proof -
  let ?c = "c\<lparr>co_live := empty_state\<rparr>"
  have planning: "co_planning_store ?c" and empty: "audited (?c, b)" for b
    using c by (simp_all add: audited_def)
  have keys: "distinct_keys (recovered_state journal st)"
    if "read_snapshot (co_disk ?c) = Inr d0" "decode_payload d0 = Inr st" for d0 st journal
    using c that decode_payload_keys by (fastforce simp: audited_def)
  show ?thesis
  proof (cases rule: initialize_cases [of v ?c])
    case (unsynced e d0 st journal d)
    have "distinct_keys (recovered_state journal st)" using keys unsynced by blast
    with empty unsynced show ?thesis by (auto simp del: recovered_state_keys simp: audited_def)
  next
    case (restarted d0 st journal k)
    have recovered: "distinct_keys (recovered_state journal st)" using keys restarted by blast
    then have "\<forall>d. read_snapshot k = Inr d \<longrightarrow> (\<exists>st. distinct_keys st \<and> encode_payload st = Inr d)"
      using restarted(7) c by (auto simp del: recovered_state_keys simp: audited_def)
    with restarted(1,6) planning recovered show ?thesis
      by (simp del: recovered_state_keys add: audited_def replace_state_live)
  qed (use empty in simp_all)
qed

lemma audited_step: "audited m \<Longrightarrow> audited (lifecycle_step m e)"
proof -
  assume m: "audited m"
  obtain c up where cu: "m = (c, up)" by (cases m)
  have live: "export_state c = co_live c" "distinct_keys (co_live c)"
    using m by (simp_all add: cu audited_def export_state_live)
  show ?thesis
  proof (cases e)
    case (Restart v)
    with audited_restart m show ?thesis by (simp add: cu)
  next
    case (Transact v s)
    show ?thesis
    proof (cases "run_script s (co_live c)")
      case (Inr p)
      then have "distinct_keys (snd p)"
        using run_script_distinct_keys [OF live(2), of s "()" "snd p"] by (cases p) simp
      with audited_commit [where c = c and v = v and st = "snd p"] m Inr live(1) show ?thesis
        by (cases up; cases p) (simp_all add: cu Transact snd_mutate_aggregate)
    qed (use m live in \<open>cases up; simp add: cu Transact snd_mutate_aggregate\<close>)
  next
    case (Persist v)
    with audited_commit [where c = c and v = v] m live show ?thesis
      by (cases up) (simp_all add: cu persist_current_state_def)
  next
    case (WriteJournal v d)
    then show ?thesis
      using m by (cases up) (auto simp: cu write_patch_journal_def journal_write_def audited_def
          read_snapshot_def split: write_state.split)
  next
    case (ClearJournal u)
    then show ?thesis
      using m by (cases up) (auto simp: cu clear_patch_journal_def journal_clear_def audited_def
          read_snapshot_def)
  qed
qed

text \<open>
  C6. Whatever transactions, failures and restarts came before, every live session stands under its own
  identifier, and one that waits for an approval has the request it waits for, under its own key, for
  this workflow and of the right purpose. Awaiting approval: its implementation approval, or for a
  candidate workflow that of the workflow shell. Awaiting the implementation approval: its implementation
  approval (the one a candidate workflow names, or the one of its identifier where there is none), or for
  an operational action the one it names, bound to every term of the exact request. Awaiting the
  verification approval: the verification approval of its identifier. Awaiting the commit approval: the
  commit approval of its identifier, bound to the reviewed content, the files, branch, head and message
  of its commit request. And every approval stands under its identifier and names a session that exists.
\<close>
theorem waiting_sessions_have_their_approval:
  "case foldl lifecycle_step (first_start dir) events of (c, up) \<Rightarrow>
     list_all (\<lambda>(k, s). k = wf_identifier s \<and> waits_bound (ast_approvals (co_live c)) s)
       (wst_sessions (ast_workflow (co_live c)))
     \<and> list_all (approval_placed (co_live c)) (ast_approvals (co_live c))"
proof -
  have "audited (first_start dir)" by (simp add: audited_def first_start_def read_snapshot_def persistence_error_def)
  then have "audited (foldl lifecycle_step (first_start dir) events)"
    by (intro foldl_invariant [where P = audited and Q = "\<lambda>e. True"])
      (auto simp: list_all_iff intro: audited_step)
  then show ?thesis using validated_aggregate by (auto simp: audited_def split: prod.split)
qed

section \<open>The live sessions are instances of their class\<close>

text \<open>A worker request of the session itself: its workflow, implementation request, candidate and plan.\<close>

definition own_worker_request :: "workflow_session \<Rightarrow> worker_request \<Rightarrow> bool" where
  "own_worker_request s w \<longleftrightarrow>
     wf_source s = SOURCE_CANDIDATE \<and> wf_effect_kind s = EFFECT_REPOSITORY_CHANGE
     \<and> wr_schema_version w = worker_schema_version \<and> wr_argv w \<noteq> []
     \<and> at_least 1 (wr_timeout_seconds w) \<and> at_most 3600 (wr_timeout_seconds w)
     \<and> wr_request_digest w = worker_request_digest w
     \<and> wr_workflow_id w = wf_identifier s
     \<and> (\<exists>i. wf_candidate_implementation_request s = Some i
         \<and> wr_execution_request_id w = cir_identifier i
         \<and> wr_candidate_id w = cir_candidate_id i
         \<and> wr_candidate_fingerprint w = cir_candidate_fingerprint i
         \<and> wr_plan_id w = cir_candidate_plan_id i
         \<and> wr_plan_fingerprint w = cir_candidate_plan_fingerprint i)"

text \<open>An operational request of the session itself, under the candidate of its metadata.\<close>

definition own_action_request :: "workflow_session \<Rightarrow> action_request \<Rightarrow> bool" where
  "own_action_request s r \<longleftrightarrow> wf_effect_kind s = EFFECT_OPERATIONAL_ACTION
     \<and> oar_workflow_session_id r = wf_identifier s
     \<and> (\<exists>m. wf_candidate_metadata s = Some m \<and> cwm_effect_kind m = EFFECT_OPERATIONAL_ACTION
         \<and> oar_candidate_id r = cwm_candidate_id m
         \<and> oar_candidate_fingerprint r = cwm_candidate_fingerprint m
         \<and> oar_candidate_plan_fingerprint r = cwm_candidate_plan_fingerprint m)"

definition session_consistent :: "workflow_session \<Rightarrow> bool" where
  "session_consistent s \<longleftrightarrow>
     (case wf_worker_execution_request s of None \<Rightarrow> True | Some w \<Rightarrow> own_worker_request s w)
     \<and> (case wf_candidate_metadata s of None \<Rightarrow> True | Some m \<Rightarrow> cwm_effect_kind m = wf_effect_kind s)
     \<and> (case wf_effect_kind s of
          EFFECT_REPOSITORY_CHANGE \<Rightarrow> wf_operational_action_request s = None
            \<and> wf_operational_action_approval_id s = None
        | EFFECT_OPERATIONAL_ACTION \<Rightarrow> wf_candidate_implementation_request s = None)
     \<and> (case wf_operational_action_request s of
          None \<Rightarrow> wf_operational_execution_reference s = None
        | Some r \<Rightarrow> own_action_request s r
            \<and> (case wf_operational_execution_reference s of None \<Rightarrow> True
               | Some x \<Rightarrow> oxr_request_id x = oar_request_id r \<and> oxr_request_digest x = oar_request_digest r))"

lemma worker_request_terms:
  "validate_worker_request True w = Inr () \<Longrightarrow>
     wr_schema_version w = worker_schema_version \<and> wr_argv w \<noteq> [] \<and> at_least 1 (wr_timeout_seconds w)
     \<and> at_most 3600 (wr_timeout_seconds w) \<and> wr_request_digest w = worker_request_digest w"
  by (auto simp: validate_worker_request_def res_simps)

lemma session_instance_consistent:
  assumes "session_post_init s = Inr t"
  shows "session_consistent s"
proof (cases "wf_effect_kind s")
  case EFFECT_REPOSITORY_CHANGE
  then show ?thesis
    using assms by (auto simp: session_post_init_def res_simps worker_matches_def session_consistent_def
        own_worker_request_def dest!: worker_request_terms split: option.splits)
next
  case EFFECT_OPERATIONAL_ACTION
  then show ?thesis
    using assms by (auto simp: session_post_init_def res_simps worker_matches_def session_consistent_def
        action_request_matches_def own_action_request_def split: option.splits)
qed

text \<open>The sessions a transaction puts into the store were constructed.\<close>

fun constructed_call :: "store_call \<Rightarrow> bool" where
  "constructed_call (CreateSession s) = (session_post_init s = Inr s)"
| "constructed_call (AssignSession i s) = (session_post_init s = Inr s)"
| "constructed_call _ = True"

fun constructed_event :: "lifecycle_event \<Rightarrow> bool" where
  "constructed_event (Transact v s) = all_calls constructed_call s"
| "constructed_event _ = True"

definition instances :: "agent_state \<Rightarrow> bool" where
  "instances st \<longleftrightarrow> list_all (\<lambda>(k, s). session_post_init s = Inr s) (wst_sessions (ast_workflow st))"

lemma instances_consistent:
  "instances st \<Longrightarrow> list_all (\<lambda>(k, s). session_consistent s) (wst_sessions (ast_workflow st))"
  unfolding instances_def by (erule list.pred_mono_strong) (auto intro: session_instance_consistent)

lemma session_post_init_again: "session_post_init s = Inr t \<Longrightarrow> session_post_init t = Inr t"
  using session_post_init_Inr by metis

lemma call_store_instances:
  assumes "constructed_call c" "instances st" "call_store c st = Inr (b, st')"
  shows "instances st'"
proof (cases c)
  case (TransitionSession i a d f)
  then show ?thesis
    using assms by (auto simp: candidate_transition_session_def res_simps instances_def list_all_update
        dest: session_post_init_again split: option.splits if_splits)
qed (use assms in \<open>auto simp: candidate_stores create_session_def delete_session_def publish_sprint_def
      publish_verification_def publish_review_def res_simps instances_def list_all_update list_all_delete
      split: option.splits if_splits prod.splits\<close>)

lemma run_script_instances:
  "all_calls constructed_call s \<Longrightarrow> instances st \<Longrightarrow> run_script s st = Inr (x, st') \<Longrightarrow> instances st'"
  by (rule run_script_keeps [where P = constructed_call and Q = instances]) (auto intro: call_store_instances)

lemma decode_workflow_session_instance:
  "decode_workflow_session v d = Inr s \<Longrightarrow> session_post_init s = Inr s"
  by (auto simp: decode_workflow_session_def res_simps dest: session_post_init_again)

lemma decode_entries_instances:
  "decode_entries m (decode_workflow_session v) d = Inr sessions \<Longrightarrow>
     list_all (\<lambda>(k, s). session_post_init s = Inr s) sessions"
proof (induction d arbitrary: sessions)
  case (Cons x d)
  then show ?case
    by (cases x) (auto simp: decode_entries_def required_object_def res_simps
        intro: decode_workflow_session_instance split: payload.splits)
qed (simp add: decode_entries_def)

lemma decode_payload_instances: "decode_payload d = Inr st \<Longrightarrow> instances st"
  by (auto simp: decode_payload_def res_simps instances_def dest: decode_entries_instances
      split: option.splits if_splits)

lemma recovered_state_instances: "instances st \<Longrightarrow> instances (recovered_state journal st)"
  by (auto simp: instances_def recovered_state_def list_all_iff after_restart_eq session_post_init_blocked)

lemma instances_empty [simp]: "instances empty_state"
  by (simp add: instances_def empty_state_def empty_store_def)

lemma instances_step:
  assumes "audited m \<and> instances (co_live (fst m))" "constructed_event e"
  shows "audited (lifecycle_step m e) \<and> instances (co_live (fst (lifecycle_step m e)))"
proof -
  obtain c up where m: "m = (c, up)" by (cases m)
  have live: "co_planning_store c" "export_state c = co_live c" "distinct_keys (co_live c)" "instances (co_live c)"
    using assms(1) by (simp_all add: m audited_def export_state_live)
  have commit: "instances (co_live (snd (commit_candidates v st c)))"
    if "distinct_keys st" "instances st" for v st
    using live(1) that(1) by (cases rule: commit_candidates_cases [where v = v]) (use that(2) live(4) in simp_all)
  have "instances (co_live (fst (lifecycle_step m e)))"
  proof (cases e)
    case (Restart v)
    have planning: "co_planning_store (c\<lparr>co_live := empty_state\<rparr>)" using live(1) by simp
    show ?thesis
    proof (cases rule: initialize_cases [of v "c\<lparr>co_live := empty_state\<rparr>"])
      case (restarted d0 st journal k)
      then have "instances (recovered_state journal st)"
        by (intro recovered_state_instances decode_payload_instances)
      moreover have "distinct_keys (recovered_state journal st)"
        using assms(1) restarted(3,4) decode_payload_keys by (fastforce simp: m audited_def)
      ultimately show ?thesis using restarted(1) live(1)
        by (simp del: recovered_state_keys add: m Restart replace_state_live)
    qed (simp_all add: m Restart)
  next
    case (Transact v s)
    show ?thesis
    proof (cases "run_script s (co_live c)")
      case (Inr p)
      then have "distinct_keys (snd p)" "instances (snd p)"
        using run_script_distinct_keys [OF live(3), of s "()" "snd p"]
          run_script_instances [OF _ live(4), of s "()" "snd p"] assms(2) Transact by (cases p; simp)+
      with commit Inr live show ?thesis
        by (cases up; cases p) (simp_all add: m Transact snd_mutate_aggregate)
    qed (use live in \<open>cases up; simp add: m Transact snd_mutate_aggregate\<close>)
  next
    case (Persist v)
    with commit [OF live(3,4)] live show ?thesis
      by (cases up) (simp_all add: m persist_current_state_def)
  next
    case (WriteJournal v d)
    with live show ?thesis by (cases up) (simp_all add: m write_patch_journal_def split: prod.split)
  next
    case (ClearJournal u)
    with live show ?thesis by (cases up) (simp_all add: m clear_patch_journal_def split: prod.split)
  qed
  with audited_step assms(1) show ?thesis by simp
qed

text \<open>
  C21. Whatever a transaction does to a session it transitions, and whatever failures and restarts came
  before, every live session is consistent: a worker request is the session's own, by workflow,
  implementation request, candidate and plan, with its digest and within its time bounds, and stands only
  in a candidate workflow that changes the repository; the metadata has the effect of the session; a
  session that changes the repository carries no operational request or approval, and one that acts on
  operations no implementation request; an operational request is the session's own under the candidate
  of its metadata, and only such a request has an execution reference, which names it by identifier and
  digest. The hypothesis asks only that the sessions put into the store whole were constructed.
\<close>
theorem live_sessions_are_consistent:
  assumes "list_all constructed_event events"
  shows "case foldl lifecycle_step (first_start dir) events of (c, up) \<Rightarrow>
    list_all (\<lambda>(k, s). session_consistent s) (wst_sessions (ast_workflow (co_live c)))"
proof -
  let ?P = "\<lambda>m. audited m \<and> instances (co_live (fst m))"
  have start: "?P (first_start dir)"
    by (simp add: audited_def first_start_def read_snapshot_def persistence_error_def)
  have "?P (foldl lifecycle_step (first_start dir) events)"
    by (rule foldl_invariant [where P = ?P and Q = constructed_event, OF _ start assms]) (rule instances_step)
  then show ?thesis using instances_consistent by (cases "foldl lifecycle_step (first_start dir) events") simp
qed

text \<open>The events above, then a transition that would give the roadmap session a worker request,
  and a restart.\<close>

definition foreign_events :: "lifecycle_event list" where
  "foreign_events = sample_events @
     [Transact \<lparr>de_directory = DirReady, de_write = SyncFails\<rparr>
        (Call (TransitionSession ''w'' SESSION_BLOCKED SESSION_PLANNED
          (\<lambda>s. s\<lparr>wf_worker_execution_request := Some sample_worker_request\<rparr>)) (\<lambda>b. Done ())),
      Restart \<lparr>de_directory = DirReady, de_write = WriteDone\<rparr>]"

lemma live_sessions_are_consistent_witness:
  "case foldl lifecycle_step (first_start ''/state'') foreign_events of (c, up) \<Rightarrow>
    list_all (\<lambda>(k, s). session_consistent s) (wst_sessions (ast_workflow (co_live c)))"
  by (rule live_sessions_are_consistent)
    (use sample_workflow_valid in \<open>simp add: foreign_events_def sample_events_def session_valid_iff\<close>)

section \<open>The snapshot file\<close>

text \<open>
  C7. What the coordinator writes of a state whose records are instances of their classes it reads back
  in its stored form, \<open>restored_state\<close>: each dictionary under the same keys, now in order, each record as
  it was, but for its paths, which are parsed again, the values of its environment variables, of which
  only the digest is kept, and the purpose of an implementation approval without a command whose
  candidate workflow still awaits approval, which becomes that of the workflow shell; and reading back a
  state that was read back changes nothing more.
\<close>
theorem snapshot_round_trip:
  assumes "encode_payload st = Inr d" "state_valid st"
  shows "decode_payload d = Inr (restored_state st) \<and> restored_state (restored_state st) = restored_state st"
  using payload_codec [OF assms] restored_state_twice by blast

definition sample_state :: agent_state where
  "sample_state = \<lparr>ast_workflow = \<lparr>wst_sprint = Some sample_sprint, wst_verification = None,
       wst_review = None, wst_sessions = [(''w'', sample_workflow)]\<rparr>,
     ast_approvals = [(''a1'', sample_approved_result)], ast_planning = []\<rparr>"

definition sample_payload :: object where
  "sample_payload = (case encode_payload sample_state of Inr d \<Rightarrow> d | Inl e \<Rightarrow> [])"

lemma sample_state_valid: "state_valid sample_state"
  by (simp add: state_valid_def sample_state_def sample_workflow_valid approval_request_valid_def
      sample_approved_result_def sample_operational_request_def sample_operational_metadata_def
      operational_metadata_post_init_def)

lemma sample_state_encoded: "encode_payload sample_state = Inr sample_payload"
  by (simp add: sample_payload_def encode_payload_def encode_sessions_def encode_workflow_session_def
      sample_state_def sample_workflow_def optional_res_def)

lemma snapshot_round_trip_witness:
  "decode_payload sample_payload = Inr (restored_state sample_state)
     \<and> restored_state (restored_state sample_state) = restored_state sample_state"
  by (rule snapshot_round_trip [OF sample_state_encoded sample_state_valid])

end
