(* ===== verification/WorkerPatches.thy ===== *)
theory WorkerPatches
  imports WorkerContracts Repository
begin

text \<open>
  The Agent's own application of a patch a worker made (\<open>execution/patches.py\<close>). What git
  answers and what the checkout holds are parameters that act on a world: \<open>ck_git\<close> is a git
  command whose output is read as text, with its standard input, \<open>ck_git_bytes\<close> one whose output
  stays bytes. \<open>CalledProcessError\<close> is a \<open>RuntimeError\<close> here, a failed decoding a
  \<open>ValueError\<close>. Which commands are issued, in which order and on what condition is modelled.
\<close>

section \<open>The checkout\<close>

datatype git_bytes = BytesCompleted int "byte list" | BytesOSError string

record 'w checkout =
  ck_git :: "string list \<Rightarrow> string \<Rightarrow> 'w \<Rightarrow> git_reply \<times> 'w"
  ck_git_bytes :: "string list \<Rightarrow> 'w \<Rightarrow> git_bytes \<times> 'w"
  ck_is_file :: "string \<Rightarrow> 'w \<Rightarrow> bool"
  ck_read_bytes :: "string \<Rightarrow> 'w \<Rightarrow> byte list option"

record patch_outcome =
  pto_changed_files :: "string list"
  pto_patch_digest :: string
  pto_baseline_status :: "(string \<times> string) list"

definition patch_error :: "string \<Rightarrow> exn" where
  "patch_error m = PatchApplicationError m"

text \<open>\<open>_git\<close>, before its output is stripped, and the call of \<open>git status\<close>.\<close>

definition patch_git :: "'w checkout \<Rightarrow> string list \<Rightarrow> ('w, string) action" where
  "patch_git E arguments w =
     (case ck_git E arguments [] w of
        (GitOSError e, w') \<Rightarrow> (Inl (exn.OSError e), w')
      | (GitUndecodable, w') \<Rightarrow> (Inl (ValueError ''undecodable output''), w')
      | (GitCompleted code out err, w') \<Rightarrow>
          if code \<noteq> 0 then (Inl (RuntimeError ''CalledProcessError''), w') else (Inr out, w'))"

text \<open>\<open>_run_git\<close>.\<close>

definition patch_run_git :: "'w checkout \<Rightarrow> string list \<Rightarrow> string \<Rightarrow> bool \<Rightarrow> ('w, bool) action" where
  "patch_run_git E arguments patch check w =
     (case ck_git E arguments patch w of
        (GitOSError e, w') \<Rightarrow> (Inl (exn.OSError e), w')
      | (GitUndecodable, w') \<Rightarrow> (Inl (ValueError ''undecodable output''), w')
      | (GitCompleted code out err, w') \<Rightarrow>
          if check \<and> code \<noteq> 0 then (Inl (patch_error ''patch_invalid''), w')
          else (Inr (code = 0), w'))"

definition staged_diff :: "'w checkout \<Rightarrow> string \<Rightarrow> ('w, byte list) action" where
  "staged_diff E p w =
     (case ck_git_bytes E [''diff'', ''--cached'', ''--binary'', ''--'', p] w of
        (BytesOSError e, w') \<Rightarrow> (Inl (exn.OSError e), w')
      | (BytesCompleted code out, w') \<Rightarrow>
          if code \<noteq> 0 then (Inl (RuntimeError ''CalledProcessError''), w') else (Inr out, w'))"

section \<open>The status of a checkout\<close>

definition file_digest :: "'w checkout \<Rightarrow> string \<Rightarrow> ('w, string) action" where
  "file_digest E p w =
     (if \<not> ck_is_file E p w then (Inr ''missing'', w)
      else (case ck_read_bytes E p w of
          None \<Rightarrow> (Inl (exn.OSError ''unreadable file''), w)
        | Some data \<Rightarrow> (Inr (sha256_hexdigest data), w)))"

definition status_entry :: "'w checkout \<Rightarrow> string \<Rightarrow> ('w, string \<times> string) action" where
  "status_entry E entry =
     (let p = drop 3 entry in
      seq (file_digest E p) (\<lambda>digest.
      seq (staged_diff E p) (\<lambda>staged.
      pure (p, take 3 entry @ '':'' @ sha256_hexdigest (utf8 digest @ staged)))))"

definition patch_status :: "'w checkout \<Rightarrow> ('w, (string \<times> string) list) action" where
  "patch_status E =
     seq (patch_git E [''status'', ''--porcelain=v1'', ''-z'']) (\<lambda>out.
     seq (map_action (status_entry E) (filter (\<lambda>r. r \<noteq> []) (split_on CHR 0x00 out))) (\<lambda>rows.
     pure (fold (\<lambda>(k, v) d. AList.update k v d) rows [])))"

definition capture_baseline :: "'w checkout \<Rightarrow> ('w, (string \<times> string) list) action" where
  "capture_baseline E = seq (patch_status E) (\<lambda>status. pure (sort_key fst status))"

section \<open>The applier\<close>

fun validate_patch_paths :: "string list \<Rightarrow> string list \<Rightarrow> unit res" where
  "validate_patch_paths approved [] = Inr ()"
| "validate_patch_paths approved (p # ps) =
     (if absolute (path_of p) \<or> traverses_parent (path_of p) \<or> p \<notin> set approved
      then Inl (patch_error ''patch_out_of_scope'')
      else validate_patch_paths approved ps)"

text \<open>What is checked before git is asked anything: the patch and the digest of its text.\<close>

definition accepted_patch :: "worker_request \<Rightarrow> worker_result \<Rightarrow> (string \<times> string) res" where
  "accepted_patch request result =
     (if ws_execution_request_id result \<noteq> wr_execution_request_id request
      then Inl (patch_error ''patch_request_id_mismatch'')
      else and_then (validate_worker_result (Some request) result) (\<lambda>_.
        case ws_patch result of
          None \<Rightarrow> Inl (patch_error ''patch_truncated'')
        | Some patch \<Rightarrow>
            if ws_patch_truncated result then Inl (patch_error ''patch_truncated'')
            else if ws_patch_digest result \<noteq> Some (patch_digest_of (bo_text patch))
            then Inl (patch_error ''patch_digest_mismatch'')
            else if ws_base_repository_head result = None then Inl (patch_error ''patch_stale'')
            else Inr (bo_text patch, patch_digest_of (bo_text patch))))"

definition status_delta :: "(string \<times> string) list \<Rightarrow> (string \<times> string) list \<Rightarrow> string list" where
  "status_delta baseline after =
     filter (\<lambda>p. map_of baseline p \<noteq> map_of after p) (dedupe (map fst baseline @ map fst after))"

definition baseline_preserved :: "(string \<times> string) list \<Rightarrow> (string \<times> string) list \<Rightarrow> bool" where
  "baseline_preserved baseline after \<longleftrightarrow> list_all (\<lambda>(p, v). map_of after p = Some v) baseline"

definition apply_arguments :: "string list" where
  "apply_arguments = [''apply'', ''--whitespace=error'', ''-'']"

definition reverse_arguments :: "string list" where
  "reverse_arguments = [''apply'', ''-R'', ''-'']"

text \<open>What follows the patch: the comparison with the scope and \<open>git diff --check\<close>.\<close>

definition check_applied :: "'w checkout \<Rightarrow> worker_request \<Rightarrow> worker_result \<Rightarrow> string \<Rightarrow> string
    \<Rightarrow> (string \<times> string) list \<Rightarrow> ('w, patch_outcome) action" where
  "check_applied E request result patch digest baseline =
     seq (patch_status E) (\<lambda>after.
     let delta = status_delta baseline after;
         actual = sort delta in
     if \<not> baseline_preserved baseline after \<or> set actual \<noteq> set (ws_changed_files result)
       \<or> \<not> set delta \<subseteq> set (wr_allowed_affected_files request)
     then seq (patch_run_git E reverse_arguments patch False) (\<lambda>_.
       raise (patch_error ''post_apply_scope_mismatch''))
     else seq (patch_run_git E [''diff'', ''--check''] [] False) (\<lambda>clean.
       if \<not> clean
       then seq (patch_run_git E reverse_arguments patch False) (\<lambda>_.
         raise (patch_error ''patch_apply_failed''))
       else pure \<lparr>pto_changed_files = actual, pto_patch_digest = digest,
         pto_baseline_status = sort_key fst baseline\<rparr>))"

definition apply_patch :: "'w checkout \<Rightarrow> worker_request \<Rightarrow> worker_result \<Rightarrow> ('w, patch_outcome) action" where
  "apply_patch E request result =
     seq (lift (accepted_patch request result)) (\<lambda>(patch, digest).
     seq (patch_git E [''rev-parse'', ''HEAD'']) (\<lambda>out.
     if Some (strip out) \<noteq> ws_base_repository_head result
     then raise (patch_error ''patch_stale'')
     else if contains ''GIT binary patch'' patch then raise (patch_error ''patch_invalid'')
     else seq (lift (validate_patch_paths (wr_allowed_affected_files request)
         (ws_changed_files result))) (\<lambda>_.
       seq (patch_status E) (\<lambda>baseline.
       seq (patch_run_git E [''apply'', ''--reverse'', ''--check'', ''--whitespace=error'', ''-'']
         patch False) (\<lambda>already.
       if already
       then pure \<lparr>pto_changed_files = sort (ws_changed_files result), pto_patch_digest = digest,
         pto_baseline_status = sort_key fst baseline\<rparr>
       else seq (patch_run_git E [''apply'', ''--check'', ''--whitespace=error'', ''-''] patch True) (\<lambda>_.
         seq (patch_run_git E apply_arguments patch True) (\<lambda>_.
         check_applied E request result patch digest baseline)))))))"

section \<open>Which commands change the checkout\<close>

text \<open>The same checkout with a log of what was run, with the input it was given.\<close>

definition logged :: "'w checkout \<Rightarrow> ('w \<times> (string list \<times> string) list) checkout" where
  "logged E =
     \<lparr>ck_git = (\<lambda>arguments input s. case ck_git E arguments input (fst s) of
        (r, w) \<Rightarrow> (r, (w, snd s @ [(arguments, input)]))),
      ck_git_bytes = (\<lambda>arguments s. case ck_git_bytes E arguments (fst s) of
        (r, w) \<Rightarrow> (r, (w, snd s @ [(arguments, [])]))),
      ck_is_file = (\<lambda>p s. ck_is_file E p (fst s)),
      ck_read_bytes = (\<lambda>p s. ck_read_bytes E p (fst s))\<rparr>"

text \<open>Of the commands above only \<open>git apply\<close> without \<open>--check\<close> changes anything.\<close>

definition changes_checkout :: "string list \<times> string \<Rightarrow> bool" where
  "changes_checkout c \<longleftrightarrow> (case fst c of [] \<Rightarrow> False
     | verb # rest \<Rightarrow> verb \<notin> set [''status'', ''rev-parse'', ''diff''] \<and> ''--check'' \<notin> set rest)"

definition made :: "'w \<times> (string list \<times> string) list \<Rightarrow> (string list \<times> string) list" where
  "made s = filter changes_checkout (snd s)"

lemma patch_git_reads [keeps_intros]:
  "\<not> changes_checkout (arguments, []) \<Longrightarrow> keeps (\<lambda>s. made s = cs) (patch_git (logged E) arguments)"
  by (auto simp: triple_def patch_git_def logged_def made_def split: prod.splits git_reply.splits)

lemma patch_run_git_made:
  "triple (\<lambda>s. made s = cs) (patch_run_git (logged E) arguments input check)
     (\<lambda>_ s. made s = cs @ filter changes_checkout [(arguments, input)])
     (\<lambda>_ s. made s = cs @ filter changes_checkout [(arguments, input)])"
  by (auto simp: triple_def patch_run_git_def logged_def made_def split: prod.splits git_reply.splits)

lemma patch_run_git_reads [keeps_intros]:
  "\<not> changes_checkout (arguments, input) \<Longrightarrow>
     keeps (\<lambda>s. made s = cs) (patch_run_git (logged E) arguments input check)"
  using patch_run_git_made [of cs E arguments input check] by simp

lemma patch_run_git_changes:
  "changes_checkout (arguments, input) \<Longrightarrow>
     triple (\<lambda>s. made s = cs) (patch_run_git (logged E) arguments input check)
       (\<lambda>_ s. made s = cs @ [(arguments, input)]) (\<lambda>_ s. made s = cs @ [(arguments, input)])"
  using patch_run_git_made [of cs E arguments input check] by simp

lemma staged_diff_reads [keeps_intros]: "keeps (\<lambda>s. made s = cs) (staged_diff (logged E) p)"
  by (auto simp: triple_def staged_diff_def logged_def made_def changes_checkout_def
      split: prod.splits git_bytes.splits)

lemma file_digest_reads [keeps_intros]: "keeps (\<lambda>s. made s = cs) (file_digest (logged E) p)"
  by (auto simp: triple_def file_digest_def split: option.splits)

lemma patch_status_reads [keeps_intros]: "keeps (\<lambda>s. made s = cs) (patch_status (logged E))"
  unfolding patch_status_def status_entry_def Let_def
  by (auto intro!: keeps_intros simp: changes_checkout_def)

section \<open>What an application does\<close>

definition patch_admissible :: "worker_request \<Rightarrow> worker_result \<Rightarrow> string \<Rightarrow> bool" where
  "patch_admissible request result patch \<longleftrightarrow>
     ws_execution_request_id result = wr_execution_request_id request
     \<and> validate_worker_result (Some request) result = Inr ()
     \<and> map_option bo_text (ws_patch result) = Some patch \<and> \<not> ws_patch_truncated result
     \<and> ws_patch_digest result = Some (patch_digest_of patch) \<and> ws_base_repository_head result \<noteq> None
     \<and> \<not> contains ''GIT binary patch'' patch
     \<and> list_all (\<lambda>p. \<not> absolute (path_of p) \<and> \<not> traverses_parent (path_of p)
         \<and> p \<in> set (wr_allowed_affected_files request)) (ws_changed_files result)"

text \<open>The commands that changed the checkout, by the outcome of the call.\<close>

definition patch_effect :: "worker_request \<Rightarrow> worker_result \<Rightarrow> patch_outcome res
    \<Rightarrow> (string list \<times> string) list \<Rightarrow> bool" where
  "patch_effect request result r cs \<longleftrightarrow> (case map_option bo_text (ws_patch result) of
     None \<Rightarrow> (case r of Inr x \<Rightarrow> False | Inl e \<Rightarrow> cs = [])
   | Some patch \<Rightarrow> (case r of
       Inr x \<Rightarrow> patch_admissible request result patch
         \<and> set (pto_changed_files x) = set (ws_changed_files result)
         \<and> set (pto_changed_files x) \<subseteq> set (wr_allowed_affected_files request)
         \<and> pto_patch_digest x = patch_digest_of patch
         \<and> cs \<in> set [[], [(apply_arguments, patch)]]
     | Inl e \<Rightarrow> cs = [] \<or> patch_admissible request result patch
         \<and> cs \<in> set [[(apply_arguments, patch)], [(apply_arguments, patch), (reverse_arguments, patch)]]))"

lemma accepted_patch_Inr:
  "accepted_patch request result = Inr (patch, digest) \<Longrightarrow>
     ws_execution_request_id result = wr_execution_request_id request
     \<and> validate_worker_result (Some request) result = Inr ()
     \<and> map_option bo_text (ws_patch result) = Some patch \<and> \<not> ws_patch_truncated result
     \<and> ws_patch_digest result = Some (patch_digest_of patch) \<and> ws_base_repository_head result \<noteq> None
     \<and> digest = patch_digest_of patch"
  by (auto simp: accepted_patch_def res_simps split: if_splits option.splits)

lemma validate_patch_paths_Inr:
  "validate_patch_paths approved ps = Inr () \<longleftrightarrow>
     list_all (\<lambda>p. \<not> absolute (path_of p) \<and> \<not> traverses_parent (path_of p) \<and> p \<in> set approved) ps"
  by (induction ps) auto

lemma changes_simps [simp]:
  "changes_checkout (apply_arguments, p)" "changes_checkout (reverse_arguments, p)"
  by (simp_all add: changes_checkout_def apply_arguments_def reverse_arguments_def)

lemma patch_effect_known:
  "map_option bo_text (ws_patch result) = Some patch \<Longrightarrow> patch_effect request result r cs = (case r of
       Inr x \<Rightarrow> patch_admissible request result patch
         \<and> set (pto_changed_files x) = set (ws_changed_files result)
         \<and> set (pto_changed_files x) \<subseteq> set (wr_allowed_affected_files request)
         \<and> pto_patch_digest x = patch_digest_of patch
         \<and> cs \<in> set [[], [(apply_arguments, patch)]]
     | Inl e \<Rightarrow> cs = [] \<or> patch_admissible request result patch
         \<and> cs \<in> set [[(apply_arguments, patch)], [(apply_arguments, patch), (reverse_arguments, patch)]])"
  by (cases "ws_patch result") (simp_all add: patch_effect_def)

lemma check_applied_effect:
  assumes ok: "patch_admissible request result patch"
  shows "triple (\<lambda>s. made s = [(apply_arguments, patch)])
    (check_applied (logged E) request result patch (patch_digest_of patch) baseline)
    (\<lambda>x s. patch_effect request result (Inr x) (made s)) (\<lambda>e s. patch_effect request result (Inl e) (made s))"
proof -
  let ?one = "[(apply_arguments, patch)]" and ?two = "[(apply_arguments, patch), (reverse_arguments, patch)]"
  have patch: "map_option bo_text (ws_patch result) = Some patch" using ok by (simp add: patch_admissible_def)
  have failed: "patch_effect request result (Inl e) ?one" "patch_effect request result (Inl e) ?two" for e
    using ok by (simp_all add: patch_effect_known [OF patch])
  have reverse: "triple (\<lambda>s. made s = ?one)
      (seq (patch_run_git (logged E) reverse_arguments patch False) (\<lambda>_. raise (patch_error m)))
      (\<lambda>x s. patch_effect request result (Inr x) (made s))
      (\<lambda>e s. patch_effect request result (Inl e) (made s))" for m
    by (rule triple_step [OF patch_run_git_changes]) (use failed in \<open>auto intro!: triple_raise\<close>)
  show ?thesis
    unfolding check_applied_def Let_def
  proof (rule triple_step [OF patch_status_reads], goal_cases)
    case (1 e s)
    then show ?case using failed by simp
  next
    case (2 after)
    show ?case
    proof (rule triple_if, rule reverse)
      assume scope: "\<not> (\<not> baseline_preserved baseline after
        \<or> set (sort (status_delta baseline after)) \<noteq> set (ws_changed_files result)
        \<or> \<not> set (status_delta baseline after) \<subseteq> set (wr_allowed_affected_files request))"
      show "triple (\<lambda>s. made s = ?one)
        (seq (patch_run_git (logged E) [''diff'', ''--check''] [] False) (\<lambda>clean. if \<not> clean
          then seq (patch_run_git (logged E) reverse_arguments patch False) (\<lambda>_.
            raise (patch_error ''patch_apply_failed''))
          else pure \<lparr>pto_changed_files = sort (status_delta baseline after),
            pto_patch_digest = patch_digest_of patch, pto_baseline_status = sort_key fst baseline\<rparr>))
        (\<lambda>x s. patch_effect request result (Inr x) (made s))
        (\<lambda>e s. patch_effect request result (Inl e) (made s))"
      proof (rule triple_step [OF patch_run_git_reads], goal_cases)
        case 1
        then show ?case by (simp add: changes_checkout_def)
      next
        case (2 e s)
        then show ?case using failed by simp
      next
        case (3 clean)
        show ?case
          by (rule triple_if, rule reverse, rule triple_pure)
            (use ok scope in \<open>simp add: patch_effect_known [OF patch]\<close>)
      qed
    qed
  qed
qed

lemma apply_patch_effect:
  "triple (\<lambda>s. made s = []) (apply_patch (logged E) request result)
    (\<lambda>x s. patch_effect request result (Inr x) (made s)) (\<lambda>e s. patch_effect request result (Inl e) (made s))"
proof -
  have unchanged: "patch_effect request result (Inl e) []" for e
    by (simp add: patch_effect_def split: option.split)
  note step = triple_step [where X = "\<lambda>e s. patch_effect request result (Inl e) (made s)"]
  show ?thesis
  proof (cases "accepted_patch request result")
    case (Inl e)
    then show ?thesis
      unfolding apply_patch_def Inl seq_lift_Inl by (intro triple_raise) (simp add: unchanged)
  next
    case (Inr pd)
    obtain patch where pd: "pd = (patch, patch_digest_of patch)" and patch: "map_option bo_text (ws_patch result) = Some patch"
      using accepted_patch_Inr [of request result "fst pd" "snd pd"] Inr by (cases pd) auto
    show ?thesis
      unfolding apply_patch_def Inr pd seq_lift_Inr prod.case
    proof (rule step [OF patch_git_reads], goal_cases)
      case 1
      then show ?case by (simp add: changes_checkout_def)
    next
      case (2 e s)
      then show ?case using unchanged by simp
    next
      case (3 out)
      show ?case
      proof (intro triple_if triple_raise; (simp add: unchanged)?)
        assume plain: "\<not> contains ''GIT binary patch'' patch"
        show "triple (\<lambda>s. made s = []) (seq (lift (validate_patch_paths (wr_allowed_affected_files request)
            (ws_changed_files result))) (\<lambda>_. seq (patch_status (logged E)) (\<lambda>baseline.
            seq (patch_run_git (logged E) [''apply'', ''--reverse'', ''--check'', ''--whitespace=error'', ''-'']
              patch False) (\<lambda>already. if already
            then pure \<lparr>pto_changed_files = sort (ws_changed_files result),
              pto_patch_digest = patch_digest_of patch, pto_baseline_status = sort_key fst baseline\<rparr>
            else seq (patch_run_git (logged E) [''apply'', ''--check'', ''--whitespace=error'', ''-''] patch True) (\<lambda>_.
              seq (patch_run_git (logged E) apply_arguments patch True) (\<lambda>_.
              check_applied (logged E) request result patch (patch_digest_of patch) baseline))))))
          (\<lambda>x s. patch_effect request result (Inr x) (made s))
          (\<lambda>e s. patch_effect request result (Inl e) (made s))"
        proof (cases "validate_patch_paths (wr_allowed_affected_files request) (ws_changed_files result)")
          case (Inl e)
          then show ?thesis
            unfolding Inl seq_lift_Inl by (intro triple_raise) (simp add: unchanged)
        next
          case paths: (Inr u)
          have ok: "patch_admissible request result patch"
            using accepted_patch_Inr [OF Inr [unfolded pd]] paths plain
            by (simp add: patch_admissible_def validate_patch_paths_Inr)
          then have scoped: "set (ws_changed_files result) \<subseteq> set (wr_allowed_affected_files request)"
            by (auto simp: patch_admissible_def list_all_iff)
          have failed: "patch_effect request result (Inl e) [(apply_arguments, patch)]" for e
            using ok by (simp add: patch_effect_known [OF patch])
          show ?thesis
            unfolding paths seq_lift_Inr
            apply (rule step [OF patch_status_reads])
             apply (simp add: unchanged)
            apply (rule step [OF patch_run_git_reads])
              apply (simp add: changes_checkout_def)
             apply (simp add: unchanged)
            apply (rule triple_if, rule triple_pure)
             apply (use ok scoped in \<open>simp add: patch_effect_known [OF patch]\<close>)
            apply (rule step [OF patch_run_git_reads])
              apply (simp add: changes_checkout_def)
             apply (simp add: unchanged)
            apply (rule step [OF patch_run_git_changes])
              apply simp
             apply (simp add: failed)
            apply (simp add: check_applied_effect [OF ok])
            done
        qed
      qed
    qed
  qed
qed

text \<open>
  C25. Whatever git answers, a patch changes the checkout only when its result is valid for the very
  request, carries the digest of its whole text and names only relative, approved files: then
  \<open>git apply\<close> is run at most once, with exactly that text, and at most once undone with the same text.
  An application that returns reports exactly the files of the result, all approved, and undid
  nothing; where the patch was there already it changed nothing.
\<close>
theorem patch_application_confined:
  "case apply_patch (logged E) request result (w, []) of (r, s) \<Rightarrow> patch_effect request result r (made s)"
  using triple_result [OF apply_patch_effect, of "(w, [])"] by (auto simp: made_def split: prod.split)

end
