(* ===== verification/Spec2Isabelle.thy ===== *)
theory Spec2Isabelle
  imports Contracts Commands Review Approval DispatchLifecycle WorkerContracts ActionRequest
    OperationalExecution WorkflowSafety OperatorAccess WorkerService WorkerRunner WorkerTransport
    CandidateIntake PersistenceSafety WorkerPatches
begin

text \<open>
  A verification development for Atlas OS: the operational core of its services, Atlas Core
  (\<open>src/services/atlas-core/app\<close>), the Atlas Agent (\<open>src/services/atlas-agent/app\<close>) and the
  execution worker (\<open>src/services/atlas-execution-worker/atlas_execution_worker\<close>). This
  theory holds the documentation; each other theory is one component.

  \<^bold>\<open>The program.\<close> The Agent plans a change of a repository, pauses for a human approval, runs the
  approved command, pauses again before it verifies and reviews the result, pauses a third time
  before it commits. A workflow is a session in a store; each approval is a request in a
  repository; \<open>WorkflowEngine\<close> moves sessions along their lifecycle. A second kind of workflow is
  an operational action (restart one service): the Agent translates a candidate plan to a typed
  action request, has it approved, and submits it to Core, which claims it in a durable ledger,
  resolves and re-checks the target, crosses a dispatch barrier at most once, invokes the
  registered handler and later observes the outcome. The Agent then follows Core's lifecycle.
  What the Agent may plan comes from Core: findings of its analysis and intents of operators become
  candidates, and an intake decides, for each request to plan one, whether it is still current.
  All stores of the Agent live in one snapshot file, written by a coordinator that runs each change
  as a transaction on copies of the stores and reads the file back after a restart.
  Core lets an operator in by credential, session cookie and CSRF token. The Agent may hand an
  execution to the worker, over HTTP: the worker claims the request in a ledger of its own, runs it
  at most once in a disposable clone of the repository and answers with the collected patch.

  \<^bold>\<open>The theories.\<close> Names of definitions are those of the code; names that clash with a library
  constant have a suffix or a prefix.
  \<^item> \<open>Prelude\<close>: exceptions and results, actions on a state with Hoare triples, Python's string
    methods. \<open>Paths\<close>: \<open>PurePosixPath\<close>. \<open>Contracts\<close>: the locales \<open>keyed_store\<close>,
    \<open>write_once\<close> and \<open>one_shot\<close>, interpreted by the approval repository, the session store, the
    registries and the dispatch ledger. \<open>Digest\<close>: canonical JSON, UTF-8 and SHA-256.
  \<^item> Agent: \<open>Planning\<close> (\<open>planning/engine.py\<close>, \<open>context/models.py\<close>), \<open>Commands\<close>
    (\<open>execution/policy.py\<close>, \<open>models.py\<close>, \<open>runner.py\<close>), \<open>Execution\<close> (\<open>execution/backends.py\<close>,
    \<open>engine.py\<close>), \<open>WorkerContracts\<close> (\<open>execution/worker_contracts.py\<close>), \<open>Verification\<close>
    (\<open>verification/\<close>), \<open>Review\<close> (\<open>review/\<close>), \<open>Approval\<close> (\<open>approval/\<close>), \<open>Repository\<close>
    (\<open>repository/inspector.py\<close>, \<open>committer.py\<close>), \<open>WorkflowState\<close> (\<open>workflow/models.py\<close>,
    \<open>state.py\<close>), \<open>WorkflowEngine\<close> (\<open>workflow/engine.py\<close>, \<open>orchestrator.py\<close>) with its theorems in
    \<open>WorkflowSafety\<close>, \<open>ActionRequest\<close> (\<open>candidate_planning/models.py\<close>, \<open>operational.py\<close>,
    \<open>operational_translation.py\<close> and the messages of \<open>core_client/client.py\<close>),
    \<open>OperationalExecution\<close> (\<open>workflow/operational_execution.py\<close>), \<open>CandidateSessions\<close> (the
    planning sessions of \<open>candidate_planning/models.py\<close>, \<open>state.py\<close> and \<open>operational.py\<close>).
  \<^item> The Agent's snapshot (\<open>persistence/snapshot.py\<close>, \<open>patch_journal.py\<close>): \<open>SnapshotCodec\<close> and
    \<open>StateCodec\<close> are the encoders and decoders, in pairs \<open>encode_\<close> and \<open>decode_\<close> (and
    \<open>to_dict\<close> and \<open>from_dict\<close> of \<open>execution/worker_contracts.py\<close>), with \<open>restored_\<close> for what is
    read back; \<open>Restored\<close> holds what the later proofs need of them; \<open>Persistence\<close> is the
    coordinator and the journal, \<open>PersistenceSafety\<close> their theorems.
  \<^item> Core, all under \<open>operational_dispatch/\<close> unless named: \<open>DispatchContract\<close> (\<open>models.py\<close>),
    \<open>DispatchLedger\<close> (\<open>ledger.py\<close>) with \<open>LedgerSafety\<close> (and \<open>read_model.py\<close>), \<open>DispatchService\<close>
    (\<open>service.py\<close>, \<open>registry.py\<close>), \<open>DispatchLifecycle\<close> (\<open>lifecycle.py\<close>, \<open>verification.py\<close>,
    \<open>auth.py\<close>), \<open>OperationalTarget\<close> (\<open>services/provider_resource_identity.py\<close>,
    \<open>operational_target_fingerprint.py\<close>, part of \<open>models/resources.py\<close>); \<open>OperatorSessions\<close>
    (\<open>operator_auth/models.py\<close>, \<open>credentials.py\<close>, \<open>sessions.py\<close>, \<open>rate_limit.py\<close>) and
    \<open>OperatorAccess\<close> (\<open>operator_auth/dependencies.py\<close>, \<open>audit.py\<close>, \<open>routes/operator_auth.py\<close>).
  \<^item> Core's execution candidates (\<open>execution_candidates/\<close>): \<open>Candidates\<close> (\<open>models.py\<close>,
    \<open>classification.py\<close>, \<open>eligibility.py\<close>, \<open>fingerprint.py\<close>), \<open>CandidateProjection\<close>
    (\<open>projection.py\<close>), \<open>OperatorIntents\<close> (\<open>operator_intents.py\<close>) and \<open>CandidateIntake\<close>
    (\<open>intake.py\<close> and, under \<open>services/\<close>, \<open>execution_candidates.py\<close> and
    \<open>execution_candidate_intake.py\<close>).
  \<^item> The worker: \<open>WorkerLedger\<close> (\<open>durable_ledger.py\<close>, \<open>ledger.py\<close> and the Agent's
    \<open>execution/worker_ledger_contract.py\<close>), \<open>WorkerService\<close> (\<open>api.py\<close>, \<open>main.py\<close>),
    \<open>WorkerRunner\<close> (\<open>runner.py\<close>, \<open>workspace.py\<close>, \<open>isolation.py\<close>, \<open>process.py\<close>);
    \<open>WorkerTransport\<close> is the Agent's client (\<open>execution/worker_client.py\<close>), \<open>WorkerPatches\<close> how
    the Agent applies the patch of a result (\<open>execution/patches.py\<close>).

  \<^bold>\<open>What the theorems show.\<close>
  \<^item> The engine: over every history of calls, also from stale session snapshots, a workflow is
    executed and committed at most once, only as approved and as reviewed; phases account for
    effects and follow an abstract lifecycle.
  \<^item> The ledger and the service: over every interleaving of calls, replies and restarts a
    handler is invoked at most once and only when authorised; results are durable; the log only
    grows and stays a path of the allowed graph; restart reconciliation leaves nothing in flight.
  \<^item> The worker: over every history of submissions, runs, crashes and restarts a request runs at
    most once and only if an accepted client sent it; results are durable and a success in the
    ledger came from a run. Whatever the host does, a run issues besides git only the approved
    command, a success stays in the allowed files, and the workspace is given back. The client
    reads exactly the well-framed replies, however they are cut, and stops reading. A patch is
    applied at most once, only from a valid result and only within the approved files.
  \<^item> Operators: a mutation is let through exactly under its guards, over every history only for an
    enabled operator with the permission and a session within its lifetime; revocation is final.
  \<^item> Candidates: what the intake lets planning consider is current, under the expected
    fingerprints, and rests on an unexpired intent whose target resolves at that moment or on the
    fixture alone; stored intents never change; a projection never shows a candidate twice.
  \<^item> The snapshot: it reads back what was written; over every history the file holds the live
    state unless the directory's \<open>fsync\<close> failed, and then the failed change comes back with the
    next restart; a restart blocks exactly what was interrupted; every waiting session has the
    approval that is bound to it, and every live session carries only requests of its own.
  \<^item> Across services: what the Agent submits is approved and passes Core's contract, and every
    lifecycle Core can report has a projection in the Agent.
  \<^item> Digests: the bytes hashed determine what they stand for, so equal digests mean equal actions,
    targets, worker requests or reviews unless SHA-256 collides on those very bytes.
  \<^item> Gates: exact characterisations of the tool policy, the planner, the verification suite, the
    review, the approval evaluation, the target resolution, the commit and the worker's replies.

  \<^bold>\<open>How the code is modelled.\<close> Exceptions are values of \<open>exn\<close> in a sum type; code that changes
  state and may raise is an action \<open>'s \<Rightarrow> 'a res \<times> 's\<close>, which keeps what was done before
  a raise, and \<open>attempt\<close> is \<open>try ... except Exception\<close>. A Pydantic model or dataclass is a record;
  validators are functions applied where the code constructs or re-validates an instance.
  Dictionaries are association lists in insertion order. A method that holds a lock or a
  transaction is one step. Coroutines are cut at their awaits: other calls may run in between.
  Characters are code points below 256. Instants are integers (microseconds); a datetime carries its
  offset where the code prints it. Floats are rationals, or decimals where they are digested. The
  clock and \<open>uuid4\<close> are arguments, read by position where a call reads them often. What SQLite
  returns for a JSON column is \<open>Stored\<close> or \<open>Undecodable\<close>. Git, the file system and processes act
  on a world \<open>'w\<close> through the records \<open>work_tree\<close> and \<open>machine\<close>; providers, handlers,
  verifiers, model advisors and the worker's transport are replies given to the model. A call of
  the workflow engine is one step over that world; races between calls are races for a claim,
  which the histories of \<open>WorkflowSafety\<close> cover by resuming from any session read earlier. Loops are
  structural recursions or list functions, so every definition is total and there is no fuel.

  For the snapshot, JSON text and the payload \<open>json.load\<close> makes of it are identified, the files are
  what is stored in them, and each call is given what goes wrong in it; a mutation of the coordinator
  is a tree of calls of the candidate stores.

  \<^bold>\<open>Not modelled.\<close> Of the engine: candidate workflows (an argument of \<open>resume\<close>) and its calls of
  the persistence coordinator, which is modelled on its own. The candidate planning service, planner
  and validators; HTTP routes, clients and settings; model providers; of the
  execution candidates the selector, the capabilities, the API models and the projection of
  installation plans; Core's knowledge, discovery and provider adapters, provider intents, and the
  chain of installation, queue and delivery receipts; the web client, which is in another language;
  logging. Of the worker: the process group, the clock and \<open>/proc\<close>. A field the snapshot's decoders
  take over without a check is modelled only with the type of its annotation.
\<close>

end
